(* ===== verification/Prelude.thy ===== *)
theory Prelude
  imports Main
begin

text \<open>
  Shared vocabulary of the development: results of fallible Go calls as sums, guards for early
  returns, the collections of rewrite rules the component theories add to, and the few generic
  facts on lists that several components use.
\<close>

section \<open>Rule collections\<close>

named_theorems go_simps
  \<comment> \<open>rewriting of the modelled Go library functions\<close>

named_theorems tx_simps
  \<comment> \<open>evaluation of statements and transactions\<close>

named_theorems inv_intros
  \<comment> \<open>operations that keep an invariant\<close>

section \<open>Fallible calls\<close>

text \<open>
  A Go call that returns \<open>(value, error)\<close> is a value of \<open>'e + 'a\<close>: \<open>Inl e\<close> when the
  error is not nil, \<open>Inr a\<close> otherwise. \<open>res_bind\<close> is the idiom
  \<^verbatim>\<open>if err != nil { return err }\<close>.
\<close>

type_synonym ('e, 'a) res = "'e + 'a"

definition res_bind :: "('e, 'a) res \<Rightarrow> ('a \<Rightarrow> ('e, 'b) res) \<Rightarrow> ('e, 'b) res" where
  "res_bind r f = (case r of Inl e \<Rightarrow> Inl e | Inr a \<Rightarrow> f a)"

definition reject_if :: "bool \<Rightarrow> 'e \<Rightarrow> ('e, unit) res" where
  "reject_if b e = (if b then Inl e else Inr ())"

definition is_ok :: "('e, 'a) res \<Rightarrow> bool" where
  "is_ok r = (case r of Inl _ \<Rightarrow> False | Inr _ \<Rightarrow> True)"

lemma res_bind_simps [simp]:
  "res_bind (Inl e) f = Inl e"
  "res_bind (Inr a) f = f a"
  by (simp_all add: res_bind_def)

lemma res_bind_Inr_iff: "res_bind r f = Inr b \<longleftrightarrow> (\<exists>a. r = Inr a \<and> f a = Inr b)"
  by (cases r) auto

lemma reject_if_simps [simp]:
  "reject_if True e = Inl e"
  "reject_if False e = Inr ()"
  by (simp_all add: reject_if_def)

lemma reject_if_Inr_iff [simp]: "reject_if b e = Inr u \<longleftrightarrow> \<not> b"
  by (simp add: reject_if_def)

lemma is_ok_simps [simp]:
  "is_ok (Inl e) = False"
  "is_ok (Inr a) = True"
  by (simp_all add: is_ok_def)

lemma is_ok_iff: "is_ok r \<longleftrightarrow> (\<exists>a. r = Inr a)"
  by (cases r) auto

section \<open>Lists\<close>

lemma list_ex_bool_iff: "list_ex P xs \<longleftrightarrow> (\<exists>x \<in> set xs. P x)"
  by (induction xs) auto

lemma take_length_eq_iff: "take (length p) s = p \<longleftrightarrow> (\<exists>t. s = p @ t)"
  by (metis append_eq_conv_conj append_take_drop_id)

lemma filter_False_idem: "\<forall>x \<in> set xs. P x \<Longrightarrow> filter P xs = xs"
  by (induction xs) auto

lemma dropWhile_eq_self: "(\<And>x t. xs = x # t \<Longrightarrow> \<not> P x) \<Longrightarrow> dropWhile P xs = xs"
  by (cases xs) auto

lemma find_append:
  "find P (xs @ ys) = (case find P xs of None \<Rightarrow> find P ys | Some x \<Rightarrow> Some x)"
  by (induction xs) auto

lemma map_sum_Inr_iff [simp]: "map_sum f id r = Inr a \<longleftrightarrow> r = Inr a"
  by (cases r) auto

end
