(* ===== verification/Go_Strings.thy ===== *)
theory Go_Strings
  imports Prelude
begin

text \<open>
  The part of Go's standard library on strings that the program relies on. A Go string is a list
  of bytes (\<open>string\<close>, whose characters are the 256 byte values), \<^verbatim>\<open>len(s)\<close> is \<open>length s\<close>.
  Case mapping and white space are those of ASCII: \<open>to_lower\<close>, \<open>equal_fold\<close> and \<open>trim_space\<close>
  leave bytes above 127 alone, where Go's \<^verbatim>\<open>strings.ToLower\<close>, \<^verbatim>\<open>strings.EqualFold\<close> and
  \<^verbatim>\<open>strings.TrimSpace\<close> follow Unicode. They agree with Go's on \<open>ascii\<close> strings, and a property
  whose meaning rests on them says so in a hypothesis.
\<close>

section \<open>Case and white space\<close>

definition lower_char :: "char \<Rightarrow> char" where
  "lower_char c =
     (let n = (of_char c :: nat) in if 65 \<le> n \<and> n \<le> 90 then char_of (n + 32) else c)"

definition to_lower :: "string \<Rightarrow> string" where
  "to_lower s = map lower_char s"

definition equal_fold :: "string \<Rightarrow> string \<Rightarrow> bool" where
  "equal_fold a b = (to_lower a = to_lower b)"

definition is_space :: "char \<Rightarrow> bool" where
  "is_space c = ((of_char c :: nat) \<in> {9, 10, 11, 12, 13, 32})"

definition trim_left :: "(char \<Rightarrow> bool) \<Rightarrow> string \<Rightarrow> string" where
  "trim_left p s = dropWhile p s"

definition trim_right :: "(char \<Rightarrow> bool) \<Rightarrow> string \<Rightarrow> string" where
  "trim_right p s = rev (dropWhile p (rev s))"

definition trim_space :: "string \<Rightarrow> string" where
  "trim_space s = trim_right is_space (trim_left is_space s)"

definition ascii :: "string \<Rightarrow> bool" where
  "ascii s = list_all (\<lambda>c. (of_char c :: nat) < 128) s"

section \<open>Prefixes, suffixes, searching\<close>

definition has_prefix :: "string \<Rightarrow> string \<Rightarrow> bool" where
  "has_prefix s p = (take (length p) s = p)"

definition has_suffix :: "string \<Rightarrow> string \<Rightarrow> bool" where
  "has_suffix s p = (length p \<le> length s \<and> drop (length s - length p) s = p)"

definition trim_prefix :: "string \<Rightarrow> string \<Rightarrow> string" where
  "trim_prefix s p = (if has_prefix s p then drop (length p) s else s)"

definition trim_suffix :: "string \<Rightarrow> string \<Rightarrow> string" where
  "trim_suffix s p = (if has_suffix s p then take (length s - length p) s else s)"

fun index_of :: "string \<Rightarrow> string \<Rightarrow> nat option" where
  "index_of [] p = (if p = [] then Some 0 else None)"
| "index_of (c # s) p =
     (if has_prefix (c # s) p then Some 0 else map_option Suc (index_of s p))"

definition contains_sub :: "string \<Rightarrow> string \<Rightarrow> bool" where
  "contains_sub s p = (index_of s p \<noteq> None)"

definition contains_any :: "string \<Rightarrow> string \<Rightarrow> bool" where
  "contains_any s cs = list_ex (\<lambda>c. c \<in> set cs) s"

text \<open>\<^verbatim>\<open>strings.Split\<close> at one separator byte and \<^verbatim>\<open>strings.Join\<close>.\<close>

fun split_on :: "char \<Rightarrow> string \<Rightarrow> string list" where
  "split_on c [] = [[]]"
| "split_on c (x # s) =
     (if x = c then [] # split_on c s
      else (case split_on c s of [] \<Rightarrow> [[x]] | w # ws \<Rightarrow> (x # w) # ws))"

fun join_with :: "string \<Rightarrow> string list \<Rightarrow> string" where
  "join_with sep [] = []"
| "join_with sep [w] = w"
| "join_with sep (w # v # ws) = w @ sep @ join_with sep (v # ws)"

text \<open>\<^verbatim>\<open>strings.FieldsFunc\<close>: the maximal runs of characters that do not satisfy the predicate.\<close>

fun fields_acc :: "(char \<Rightarrow> bool) \<Rightarrow> string \<Rightarrow> string \<Rightarrow> string list" where
  "fields_acc p cur [] = (if cur = [] then [] else [rev cur])"
| "fields_acc p cur (x # s) =
     (if p x then (if cur = [] then fields_acc p [] s else rev cur # fields_acc p [] s)
      else fields_acc p (x # cur) s)"

definition fields_func :: "(char \<Rightarrow> bool) \<Rightarrow> string \<Rightarrow> string list" where
  "fields_func p s = fields_acc p [] s"

section \<open>Decimal integers\<close>

definition is_digit :: "char \<Rightarrow> bool" where
  "is_digit c = (let n = (of_char c :: nat) in 48 \<le> n \<and> n \<le> 57)"

definition digit_val :: "char \<Rightarrow> nat" where
  "digit_val c = of_char c - 48"

definition digits_val :: "string \<Rightarrow> nat" where
  "digits_val s = foldl (\<lambda>acc c. acc * 10 + digit_val c) 0 s"

definition int64_min :: int where "int64_min = - (2 ^ 63)"

definition int64_max :: int where "int64_max = 2 ^ 63 - 1"

text \<open>
  \<^verbatim>\<open>strconv.ParseInt(s, 10, 64)\<close> (and \<^verbatim>\<open>strconv.Atoi\<close> on a 64-bit platform): an optional sign, at
  least one decimal digit, and a value in the range of \<^verbatim>\<open>int64\<close>. \<open>None\<close> is any error.
\<close>

definition parse_int :: "string \<Rightarrow> int option" where
  "parse_int s =
     (let (neg, ds) = (case s of [] \<Rightarrow> (False, [])
                       | c # t \<Rightarrow> if c = CHR ''-'' then (True, t)
                                  else if c = CHR ''+'' then (False, t) else (False, s));
          v = (if neg then - int (digits_val ds) else int (digits_val ds))
      in if ds \<noteq> [] \<and> list_all is_digit ds \<and> int64_min \<le> v \<and> v \<le> int64_max
         then Some v else None)"

fun format_nat :: "nat \<Rightarrow> string" where
  "format_nat n =
     (if n < 10 then [char_of (48 + n)] else format_nat (n div 10) @ [char_of (48 + n mod 10)])"

declare format_nat.simps [simp del]

definition format_int :: "int \<Rightarrow> string" where
  "format_int v = (if v < 0 then CHR ''-'' # format_nat (nat (- v)) else format_nat (nat v))"

section \<open>Facts\<close>

subsection \<open>Case and white space\<close>

lemma lower_char_idem [simp]: "lower_char (lower_char c) = lower_char c"
proof -
  have "of_char c < (256 :: nat)" by simp
  then show ?thesis
    by (auto simp: lower_char_def Let_def of_char_of)
qed

lemma lower_char_not_letter:
  assumes "(of_char d :: nat) < 97 \<or> 122 < (of_char d :: nat)"
    and "(of_char d :: nat) < 65 \<or> 90 < (of_char d :: nat)"
  shows "lower_char c = d \<longleftrightarrow> c = d"
proof
  assume l: "lower_char c = d"
  show "c = d"
  proof (rule ccontr)
    assume "c \<noteq> d"
    with l have n: "65 \<le> (of_char c :: nat)" "(of_char c :: nat) \<le> 90"
      by (auto simp: lower_char_def Let_def split: if_splits)
    with l have "d = char_of ((of_char c :: nat) + 32)" by (simp add: lower_char_def Let_def)
    with n have "of_char d = (of_char c :: nat) + 32" by (simp add: of_char_of)
    with n assms show False by auto
  qed
next
  assume "c = d"
  with assms show "lower_char c = d" by (auto simp: lower_char_def Let_def)
qed

lemma to_lower_idem [simp]: "to_lower (to_lower s) = to_lower s"
  by (simp add: to_lower_def)

lemma to_lower_Nil [simp]: "to_lower [] = []"
  by (simp add: to_lower_def)

lemma to_lower_Nil_iff [simp]: "to_lower s = [] \<longleftrightarrow> s = []"
  by (simp add: to_lower_def)

lemma to_lower_append: "to_lower (a @ b) = to_lower a @ to_lower b"
  by (simp add: to_lower_def)

lemma length_to_lower [simp]: "length (to_lower s) = length s"
  by (simp add: to_lower_def)

lemma equal_fold_refl [simp]: "equal_fold s s"
  by (simp add: equal_fold_def)

lemma equal_fold_sym: "equal_fold a b \<longleftrightarrow> equal_fold b a"
  by (auto simp: equal_fold_def)

lemma equal_fold_trans: "equal_fold a b \<Longrightarrow> equal_fold b c \<Longrightarrow> equal_fold a c"
  by (simp add: equal_fold_def)

lemma is_space_lower [simp]: "is_space (lower_char c) = is_space c"
proof -
  have "of_char c < (256 :: nat)" by simp
  then show ?thesis by (auto simp: lower_char_def is_space_def Let_def of_char_of)
qed

lemma trim_space_Nil [simp]: "trim_space [] = []"
  by (simp add: trim_space_def trim_left_def trim_right_def)

text \<open>A trimmed string neither starts nor ends with a space, and trimming it again changes nothing.\<close>

lemma trim_right_no_trail: "trim_right p s = t @ [c] \<Longrightarrow> \<not> p c"
proof -
  assume a: "trim_right p s = t @ [c]"
  then have "dropWhile p (rev s) = c # rev t"
    by (metis rev.simps(2) rev_rev_ident rev_swap trim_right_def)
  then show "\<not> p c" by (metis dropWhile_eq_Cons_conv)
qed

lemma trim_right_fix: "(\<And>t c. s = t @ [c] \<Longrightarrow> \<not> p c) \<Longrightarrow> trim_right p s = s"
proof -
  assume a: "\<And>t c. s = t @ [c] \<Longrightarrow> \<not> p c"
  have "dropWhile p (rev s) = rev s"
    by (rule dropWhile_eq_self) (metis a rev.simps(2) rev_swap)
  then show ?thesis by (simp add: trim_right_def)
qed

lemma trim_right_prefix: "\<exists>t. s = trim_right p s @ t \<and> list_all p t"
proof -
  have "rev s = takeWhile p (rev s) @ dropWhile p (rev s)" by simp
  then have "s = rev (dropWhile p (rev s)) @ rev (takeWhile p (rev s))"
    by (metis rev_append rev_rev_ident)
  moreover have "list_all p (rev (takeWhile p (rev s)))"
    by (simp add: list_all_iff) (metis set_takeWhileD set_rev)
  ultimately show ?thesis unfolding trim_right_def by blast
qed

lemma trim_space_first: "trim_space s = c # t \<Longrightarrow> \<not> is_space c"
proof -
  assume a: "trim_space s = c # t"
  obtain u where "trim_left is_space s = trim_space s @ u"
    unfolding trim_space_def using trim_right_prefix by blast
  with a have "dropWhile is_space s = c # t @ u" by (simp add: trim_left_def)
  then show ?thesis by (metis dropWhile_eq_Cons_conv)
qed

lemma trim_space_idem [simp]: "trim_space (trim_space s) = trim_space s"
proof -
  have "trim_left is_space (trim_space s) = trim_space s"
    unfolding trim_left_def by (rule dropWhile_eq_self) (rule trim_space_first)
  moreover have "trim_right is_space (trim_space s) = trim_space s"
    by (rule trim_right_fix) (simp add: trim_space_def trim_right_no_trail)
  ultimately show ?thesis by (metis trim_space_def)
qed

lemma set_trim_space: "set (trim_space s) \<subseteq> set s"
proof
  fix c assume "c \<in> set (trim_space s)"
  then have "c \<in> set (dropWhile is_space (rev (dropWhile is_space s)))"
    by (simp add: trim_space_def trim_left_def trim_right_def)
  then have "c \<in> set (dropWhile is_space s)" by (metis set_dropWhileD set_rev)
  then show "c \<in> set s" by (rule set_dropWhileD)
qed

lemma length_trim_space: "length (trim_space s) \<le> length s"
  by (simp add: trim_space_def trim_left_def trim_right_def)
     (metis length_dropWhile_le length_rev order_trans)

subsection \<open>Prefixes\<close>

lemma has_prefix_iff: "has_prefix s p \<longleftrightarrow> (\<exists>t. s = p @ t)"
  by (simp add: has_prefix_def take_length_eq_iff)

lemma has_prefix_append [simp]: "has_prefix (p @ t) p"
  by (simp add: has_prefix_def)

lemma has_prefix_refl [simp]: "has_prefix s s"
  by (simp add: has_prefix_def)

lemma has_prefix_trans: "has_prefix s p \<Longrightarrow> has_prefix p q \<Longrightarrow> has_prefix s q"
  by (auto simp: has_prefix_iff)

lemma has_suffix_iff: "has_suffix s p \<longleftrightarrow> (\<exists>t. s = t @ p)"
proof
  assume "has_suffix s p"
  then show "\<exists>t. s = t @ p" unfolding has_suffix_def by (metis append_take_drop_id)
qed (auto simp: has_suffix_def)

lemma trim_suffix_no_change: "\<not> has_suffix s p \<Longrightarrow> trim_suffix s p = s"
  by (simp add: trim_suffix_def)

lemma index_of_Some: "index_of s p = Some i \<Longrightarrow> \<exists>a b. s = a @ p @ b \<and> length a = i"
proof (induction s arbitrary: i)
  case Nil
  then show ?case by (auto split: if_splits)
next
  case (Cons c s)
  show ?case
  proof (cases "has_prefix (c # s) p")
    case True
    with Cons.prems show ?thesis by (auto simp: has_prefix_iff)
  next
    case False
    with Cons.prems obtain j where j: "index_of s p = Some j" "i = Suc j" by auto
    with Cons.IH obtain a b where "s = a @ p @ b" "length a = j" by blast
    with j show ?thesis by (metis append_Cons length_Cons)
  qed
qed

subsection \<open>Splitting and joining\<close>

lemma split_on_not_Nil [simp]: "split_on c s \<noteq> []"
  by (induction s) (auto split: list.splits)

lemma split_on_pieces: "w \<in> set (split_on c s) \<Longrightarrow> c \<notin> set w"
proof (induction s arbitrary: w)
  case Nil
  then show ?case by simp
next
  case (Cons x s)
  then show ?case by (cases "split_on c s") (auto split: if_splits)
qed

lemma join_split_on: "join_with [c] (split_on c s) = s"
proof (induction s)
  case Nil
  then show ?case by simp
next
  case (Cons x s)
  obtain w ws where "split_on c s = w # ws" by (cases "split_on c s") auto
  with Cons.IH show ?case by (cases ws) auto
qed

lemma fields_acc_clean:
  "w \<in> set (fields_acc p cur s) \<Longrightarrow> list_all (\<lambda>c. \<not> p c) cur \<Longrightarrow>
   w \<noteq> [] \<and> list_all (\<lambda>c. \<not> p c) w"
  by (induction p cur s rule: fields_acc.induct) (auto split: if_splits)

lemma fields_func_clean:
  "w \<in> set (fields_func p s) \<Longrightarrow> w \<noteq> [] \<and> list_all (\<lambda>c. \<not> p c) w"
  unfolding fields_func_def by (rule fields_acc_clean) auto

subsection \<open>Decimal integers\<close>

lemma digit_char:
  assumes "n < 10"
  shows "is_digit (char_of (48 + n))" and "digit_val (char_of (48 + n)) = n"
  using assms by (simp_all add: is_digit_def digit_val_def of_char_of Let_def)

lemma format_nat_digits: "list_all is_digit (format_nat n)"
proof (induction n rule: format_nat.induct)
  case (1 n)
  then show ?case
    by (subst format_nat.simps) (auto simp: digit_char)
qed

lemma format_nat_not_Nil [simp]: "format_nat n \<noteq> []"
  by (subst format_nat.simps) simp

lemma digits_val_snoc: "digits_val (s @ [c]) = digits_val s * 10 + digit_val c"
  by (simp add: digits_val_def)

lemma digits_val_format_nat [simp]: "digits_val (format_nat n) = n"
proof (induction n rule: format_nat.induct)
  case (1 n)
  show ?case
  proof (cases "n < 10")
    case True
    then show ?thesis by (subst format_nat.simps) (simp add: digits_val_def digit_char)
  next
    case False
    with "1.IH" show ?thesis
      by (subst format_nat.simps) (simp add: digits_val_snoc digit_char)
  qed
qed

lemma format_nat_first:
  obtains c t where "format_nat n = c # t" and "c \<noteq> CHR ''-''" and "c \<noteq> CHR ''+''"
proof -
  obtain c t where ct: "format_nat n = c # t" by (cases "format_nat n") auto
  with format_nat_digits [of n] have "is_digit c" by simp
  then have "c \<noteq> CHR ''-''" "c \<noteq> CHR ''+''" by (auto simp: is_digit_def)
  with ct that show thesis by blast
qed

text \<open>Printing a 64-bit integer and reading it back gives the integer.\<close>

lemma parse_format_int:
  assumes "int64_min \<le> v" and "v \<le> int64_max"
  shows "parse_int (format_int v) = Some v"
proof (cases "v < 0")
  case True
  with assms show ?thesis
    by (simp add: parse_int_def format_int_def format_nat_digits Let_def)
next
  case False
  obtain c t where "format_nat (nat v) = c # t" "c \<noteq> CHR ''-''" "c \<noteq> CHR ''+''"
    by (rule format_nat_first)
  then show ?thesis
    using False assms format_nat_digits [of "nat v"] digits_val_format_nat [of "nat v"]
    by (simp add: parse_int_def format_int_def Let_def)
qed

lemma parse_int_range: "parse_int s = Some v \<Longrightarrow> int64_min \<le> v \<and> v \<le> int64_max"
  by (auto simp: parse_int_def Let_def split: if_splits prod.splits)

lemma is_digit_not_space: "is_digit c \<Longrightarrow> \<not> is_space c"
  by (auto simp: is_digit_def is_space_def Let_def)

lemma format_nat_no_space: "c \<in> set (format_nat n) \<Longrightarrow> \<not> is_space c"
  using format_nat_digits [of n] is_digit_not_space by (auto simp: list_all_iff)

lemma trim_space_id: "(\<And>c. c \<in> set s \<Longrightarrow> \<not> is_space c) \<Longrightarrow> trim_space s = s"
proof -
  assume a: "\<And>c. c \<in> set s \<Longrightarrow> \<not> is_space c"
  have "trim_left is_space s = s"
    unfolding trim_left_def by (rule dropWhile_eq_self) (use a in auto)
  moreover have "trim_right is_space s = s"
    by (rule trim_right_fix) (use a in auto)
  ultimately show ?thesis by (simp add: trim_space_def)
qed

lemma trim_space_format_int [simp]: "trim_space (format_int v) = format_int v"
  by (rule trim_space_id)
     (auto simp: format_int_def is_space_def dest: format_nat_no_space split: if_splits)

lemma format_int_inj:
  assumes "int64_min \<le> v" "v \<le> int64_max" "int64_min \<le> w" "w \<le> int64_max"
    and "format_int v = format_int w"
  shows "v = w"
  using assms parse_format_int by (metis option.inject)

lemma lower_char_digit: "is_digit c \<Longrightarrow> lower_char c = c"
  by (auto simp: is_digit_def lower_char_def Let_def)

lemma to_lower_format_int [simp]: "to_lower (format_int v) = format_int v"
proof -
  have "map lower_char (format_nat n) = format_nat n" for n
    using format_nat_digits [of n] lower_char_digit
    by (auto simp: list_all_iff intro: map_idI)
  moreover have "lower_char (CHR ''-'') = CHR ''-''" by (simp add: lower_char_def)
  ultimately show ?thesis by (simp add: to_lower_def format_int_def)
qed

end
