(* ===== verification/Json.thy ===== *)
theory Json
  imports Complex_Main Go_Strings
begin

text \<open>
  Decoded JSON documents, the values of Go's \<^verbatim>\<open>any\<close> after \<^verbatim>\<open>encoding/json\<close>: a number is the
  \<^verbatim>\<open>float64\<close> it decodes to, which is a rational number; an object is its list of members in some
  order, the keys distinct. A Go map has no order of its own, so results that depend on the order
  of the members are read as "for the order the iteration happens to take".
\<close>

datatype json =
    JNull
  | JBool bool
  | JNum rat
  | JStr string
  | JArr "json list"
  | JObj "(string \<times> json) list"

type_synonym json_object = "(string \<times> json) list"

definition lookup :: "json_object \<Rightarrow> string \<Rightarrow> json" where
  \<comment> \<open>\<^verbatim>\<open>values[key]\<close>: nil for a missing key\<close>
  "lookup values key = (case map_of values key of None \<Rightarrow> JNull | Some v \<Rightarrow> v)"

definition has_key :: "json_object \<Rightarrow> string \<Rightarrow> bool" where
  "has_key values key = (map_of values key \<noteq> None)"

fun as_string :: "json \<Rightarrow> string option" where
  "as_string (JStr s) = Some s"
| "as_string _ = None"

fun as_bool :: "json \<Rightarrow> bool option" where
  "as_bool (JBool b) = Some b"
| "as_bool _ = None"

fun as_number :: "json \<Rightarrow> rat option" where
  "as_number (JNum n) = Some n"
| "as_number _ = None"

fun as_array :: "json \<Rightarrow> json list option" where
  "as_array (JArr xs) = Some xs"
| "as_array _ = None"

fun as_object :: "json \<Rightarrow> json_object option" where
  "as_object (JObj m) = Some m"
| "as_object _ = None"

text \<open>The one-result type assertion \<^verbatim>\<open>v, _ := x.(string)\<close> yields the zero value on failure.\<close>

definition string_or_empty :: "json \<Rightarrow> string" where
  "string_or_empty v = (case as_string v of None \<Rightarrow> [] | Some s \<Rightarrow> s)"

definition true_bool :: "json \<Rightarrow> bool" where
  "true_bool v = (as_bool v = Some True)"

definition is_integral :: "rat \<Rightarrow> bool" where
  \<comment> \<open>\<^verbatim>\<open>n == math.Trunc(n)\<close>\<close>
  "is_integral n = (of_int \<lfloor>n\<rfloor> = n)"

text \<open>
  \<^verbatim>\<open>json.Unmarshal\<close> of one member into a struct field: an absent or null member leaves the zero
  value, a value of another type is an error (\<open>None\<close>). (Go also accepts a member whose name differs
  in case; the documents here are written with the exact names.)
\<close>

definition int_field :: "json_object \<Rightarrow> string \<Rightarrow> int option" where
  "int_field m key =
     (case lookup m key of
        JNull \<Rightarrow> Some 0
      | JNum n \<Rightarrow> if is_integral n \<and> int64_min \<le> \<lfloor>n\<rfloor> \<and> \<lfloor>n\<rfloor> \<le> int64_max then Some \<lfloor>n\<rfloor> else None
      | _ \<Rightarrow> None)"

definition bool_field :: "json_object \<Rightarrow> string \<Rightarrow> bool option" where
  "bool_field m key = (case lookup m key of JNull \<Rightarrow> Some False | JBool b \<Rightarrow> Some b | _ \<Rightarrow> None)"

definition string_field :: "json_object \<Rightarrow> string \<Rightarrow> string option" where
  "string_field m key = (case lookup m key of JNull \<Rightarrow> Some [] | JStr s \<Rightarrow> Some s | _ \<Rightarrow> None)"

fun strings_of :: "json list \<Rightarrow> string list option" where
  "strings_of [] = Some []"
| "strings_of (v # vs) =
     (case (case v of JNull \<Rightarrow> Some [] | JStr s \<Rightarrow> Some s | _ \<Rightarrow> None) of
        None \<Rightarrow> None
      | Some s \<Rightarrow> map_option ((#) s) (strings_of vs))"

definition strings_field :: "json_object \<Rightarrow> string \<Rightarrow> string list option" where
  "strings_field m key =
     (case lookup m key of JNull \<Rightarrow> Some [] | JArr vs \<Rightarrow> strings_of vs | _ \<Rightarrow> None)"

lemma strings_of_map [simp]: "strings_of (map JStr ss) = Some ss"
  by (induction ss) simp_all

text \<open>The members of the document, null decoding like an empty object.\<close>

fun object_members :: "json \<Rightarrow> json_object option" where
  "object_members (JObj m) = Some m"
| "object_members JNull = Some []"
| "object_members _ = None"

lemma lookup_Nil [simp]: "lookup [] key = JNull"
  by (simp add: lookup_def)

lemma lookup_Cons: "lookup ((k, v) # m) key = (if k = key then v else lookup m key)"
  by (simp add: lookup_def)

lemma as_string_Some [simp]: "as_string v = Some s \<longleftrightarrow> v = JStr s"
  by (cases v) auto

lemma as_bool_Some [simp]: "as_bool v = Some b \<longleftrightarrow> v = JBool b"
  by (cases v) auto

lemma as_number_Some [simp]: "as_number v = Some n \<longleftrightarrow> v = JNum n"
  by (cases v) auto

lemma as_array_Some [simp]: "as_array v = Some xs \<longleftrightarrow> v = JArr xs"
  by (cases v) auto

lemma as_object_Some [simp]: "as_object v = Some m \<longleftrightarrow> v = JObj m"
  by (cases v) auto

end
