(* ===== verification/Models.thy ===== *)
theory Models
  imports Json
begin

text \<open>
  The records of \<^verbatim>\<open>internal/store/models.go\<close> that the modelled operations read or write, field by
  field. A Go pointer is an \<open>option\<close>, an \<^verbatim>\<open>int64\<close> id is an \<open>int\<close>, a \<^verbatim>\<open>time.Time\<close> is its number
  of nanoseconds since the epoch. \<^verbatim>\<open>GlobalPermissions\<close> is an \<open>option\<close> because the code tells a
  nil slice from an empty one.
\<close>

type_synonym time = int

definition second :: time where "second = 1000000000"

definition minute :: time where "minute = 60 * second"

definition hour :: time where "hour = 60 * minute"

definition day :: time where "day = 24 * hour"

record scope_clause =
  sc_type :: string
  sc_value :: string

record role_binding =
  rb_role_id :: int
  rb_role_key :: string
  rb_role_name :: string
  rb_scope_mode :: string
  rb_scopes :: "scope_clause list"
  rb_permissions :: "string list"

record permission_grant =
  pg_permissions :: "string list"
  pg_hub_ids :: "int list"
  pg_departments :: "string list"

record scope_group =
  sg_hub_ids :: "int list"
  sg_departments :: "string list"

record access_filter =
  af_global :: bool
  af_groups :: "scope_group list"

record user =
  u_id :: int
  u_username :: string
  u_display_name :: string
  u_email :: string
  u_department :: string
  u_auth_source :: string
  u_external_subject :: "string option"
  u_active :: bool
  u_last_login_at :: "time option"
  u_created_at :: time
  u_updated_at :: time
  u_roles :: "string list"
  u_permissions :: "string list"
  u_global_permissions :: "string list option"
  u_scoped_permissions :: "string list"
  u_role_bindings :: "role_binding list"
  u_permission_grants :: "permission_grant list"

record role =
  r_id :: int
  r_key :: string
  r_name :: string
  r_description :: string
  r_permissions :: "string list"
  r_system :: bool
  r_created_at :: time
  r_updated_at :: time

record api_key =
  k_id :: int
  k_user_id :: int
  k_name :: string
  k_prefix :: string
  k_scopes :: "string list"
  k_status :: string
  k_last_used_at :: "time option"
  k_expires_at :: "time option"
  k_created_at :: time
  k_revoked_at :: "time option"

record page_info =
  pi_page :: int
  pi_page_size :: int
  pi_total :: int

text \<open>The zero values Go gives to unset fields.\<close>

definition zero_time :: time where "zero_time = -62135596800 * second"

definition empty_user :: user where
  "empty_user =
     \<lparr>u_id = 0, u_username = [], u_display_name = [], u_email = [], u_department = [],
      u_auth_source = [], u_external_subject = None, u_active = False, u_last_login_at = None,
      u_created_at = zero_time, u_updated_at = zero_time, u_roles = [], u_permissions = [],
      u_global_permissions = None, u_scoped_permissions = [], u_role_bindings = [],
      u_permission_grants = []\<rparr>"

end
