(* ===== verification/Permissions.thy ===== *)
theory Permissions
  imports Go_Strings
begin

text \<open>
  Permission strings and the two questions the program asks of a list of them
  (\<^verbatim>\<open>internal/store/users.go\<close>): does it allow a required permission (\<open>ensure_permission\<close>), and does
  it cover every scope of another list (\<open>scopes_within_permissions\<close>, the grant ceiling). A
  permission is a plain name, the wildcard \<^verbatim>\<open>*\<close>, or a family \<^verbatim>\<open>name:*\<close>.
\<close>

section \<open>The code\<close>

fun ensure_permission :: "string list \<Rightarrow> string \<Rightarrow> bool" where
  "ensure_permission [] required = False"
| "ensure_permission (permission # permissions) required =
     (if permission = ''*'' \<or> permission = required then True
      else if 2 < length permission \<and> drop (length permission - 2) permission = '':*''
              \<and> length permission - 1 \<le> length required
              \<and> take (length permission - 1) required = take (length permission - 1) permission
           then True
      else ensure_permission permissions required)"

datatype scope_error = NoScopes | TooManyScopes | ScopeTooLong

definition validate_scopes :: "string list \<Rightarrow> (scope_error, unit) res" where
  "validate_scopes scopes =
     (if length scopes = 0 then Inl NoScopes
      else if 64 < length scopes then Inl TooManyScopes
      else if list_ex (\<lambda>scope. 100 < length scope) scopes then Inl ScopeTooLong
      else Inr ())"

definition scopes_within_permissions :: "string list \<Rightarrow> string list \<Rightarrow> bool" where
  "scopes_within_permissions scopes permissions =
     (if length scopes = 0 then False else list_all (ensure_permission permissions) scopes)"

definition permissions_within_ceiling :: "string list \<Rightarrow> string list \<Rightarrow> bool" where
  "permissions_within_ceiling candidate ceiling =
     (if length candidate = 0 then True else scopes_within_permissions candidate ceiling)"

fun role_has_wildcard :: "string list \<Rightarrow> bool" where
  "role_has_wildcard [] = False"
| "role_has_wildcard (permission # permissions) =
     (if permission = ''*'' then True else role_has_wildcard permissions)"

definition wildcard_only :: "string list \<Rightarrow> bool" where
  "wildcard_only permissions = (length permissions = 1 \<and> hd permissions = ''*'')"

text \<open>
  \<^verbatim>\<open>contains\<close> of \<^verbatim>\<open>internal/store/store.go\<close> compares without regard to case, and the code that
  collects the permissions of several roles uses it to skip what it has seen.
\<close>

fun contains_fold :: "string list \<Rightarrow> string \<Rightarrow> bool" where
  "contains_fold [] value = False"
| "contains_fold (v # values) value = (if equal_fold v value then True else contains_fold values value)"

definition add_permission :: "string \<Rightarrow> string list \<Rightarrow> string list" where
  "add_permission permission permissions =
     (if contains_fold permissions permission then permissions else permissions @ [permission])"

definition collect_permissions :: "string list \<Rightarrow> string list \<Rightarrow> string list" where
  "collect_permissions permissions current = fold add_permission current permissions"

section \<open>What one permission covers\<close>

definition covers_one :: "string \<Rightarrow> string \<Rightarrow> bool" where
  "covers_one permission required \<longleftrightarrow>
     permission = ''*'' \<or> permission = required \<or>
     (\<exists>family. family \<noteq> [] \<and> permission = family @ '':*'' \<and> has_prefix required (family @ '':''))"

lemma family_step:
  assumes "2 < length p" and "drop (length p - 2) p = '':*''"
  shows "p = take (length p - 2) p @ '':*''"
  using assms append_take_drop_id [of "length p - 2" p] by simp

lemma covers_one_code:
  "covers_one p r \<longleftrightarrow>
     p = ''*'' \<or> p = r \<or>
     (2 < length p \<and> drop (length p - 2) p = '':*'' \<and> length p - 1 \<le> length r
      \<and> take (length p - 1) r = take (length p - 1) p)"
proof -
  have "(\<exists>f. f \<noteq> [] \<and> p = f @ '':*'' \<and> has_prefix r (f @ '':'')) \<longleftrightarrow>
        (2 < length p \<and> drop (length p - 2) p = '':*'' \<and> length p - 1 \<le> length r
         \<and> take (length p - 1) r = take (length p - 1) p)" (is "?A \<longleftrightarrow> ?B")
  proof
    assume ?A
    then obtain f where f: "f \<noteq> []" "p = f @ '':*''" "has_prefix r (f @ '':'')" by blast
    then obtain t where "r = (f @ '':'') @ t" by (auto simp: has_prefix_iff)
    with f show ?B by simp
  next
    assume b: ?B
    define f where "f = take (length p - 2) p"
    from b have p: "p = f @ '':*''" unfolding f_def using family_step by blast
    with b have "f \<noteq> []" by auto
    moreover from p have "take (length p - 1) p = f @ '':''" by simp
    with b p have "has_prefix r (f @ '':'')" by (simp add: has_prefix_def)
    ultimately show ?A using p by blast
  qed
  then show ?thesis by (auto simp: covers_one_def)
qed

lemma ensure_permission_iff:
  "ensure_permission ps r \<longleftrightarrow> (\<exists>p \<in> set ps. covers_one p r)"
  by (induction ps) (auto simp: covers_one_code)

lemma covers_one_refl [simp]: "covers_one p p"
  by (simp add: covers_one_def)

lemma covers_one_star [simp]: "covers_one ''*'' r"
  by (simp add: covers_one_def)

text \<open>Nothing but the wildcard covers the wildcard.\<close>

lemma covers_one_to_star: "covers_one p ''*'' \<longleftrightarrow> p = ''*''"
  by (auto simp: covers_one_def has_prefix_iff Cons_eq_append_conv)

lemma covers_one_trans:
  assumes "covers_one p s" and "covers_one s r"
  shows "covers_one p r"
proof (cases "p = ''*'' \<or> p = s \<or> s = r")
  case True
  with assms show ?thesis by (auto simp: covers_one_def)
next
  case False
  with assms(1) obtain f where f: "f \<noteq> []" "p = f @ '':*''" "has_prefix s (f @ '':'')"
    by (auto simp: covers_one_def)
  from False assms(1) have "s \<noteq> ''*''" by (auto simp: covers_one_to_star)
  with False assms(2) obtain g where g: "s = g @ '':*''" "has_prefix r (g @ '':'')"
    by (auto simp: covers_one_def)
  from f(3) obtain t where "s = f @ '':'' @ t" by (auto simp: has_prefix_iff)
  with g(1) have e: "g @ '':*'' = (f @ '':'') @ t" by simp
  have "has_prefix (g @ '':'') (f @ '':'')"
  proof (cases "t = []")
    case True
    with e have "g @ '':*'' = f @ '':''" by simp
    then have "last (g @ '':*'') = last (f @ '':'')" by metis
    then show ?thesis by simp
  next
    case False
    then obtain u c where "t = u @ [c]" by (metis rev_exhaust)
    with e have "g @ '':'' = (f @ '':'') @ u" by simp
    then show ?thesis by (metis has_prefix_append)
  qed
  with g(2) have "has_prefix r (f @ '':'')" by (rule has_prefix_trans)
  with f show ?thesis by (auto simp: covers_one_def)
qed

lemma role_has_wildcard_iff [simp]: "role_has_wildcard ps \<longleftrightarrow> ''*'' \<in> set ps"
  by (induction ps) auto

lemma wildcard_only_iff [simp]: "wildcard_only ps \<longleftrightarrow> ps = [''*'']"
  by (cases ps) (auto simp: wildcard_only_def)

section \<open>Delegation\<close>

text \<open>
  The contract behind every grant ceiling: \<open>allows\<close> looks at the set of held permissions only,
  allows what is held, and allows through a list whose members are all allowed no more than is
  allowed already. Clients (API keys, role mutations, access filters) need nothing else.
\<close>

locale delegation =
  fixes allows :: "'p list \<Rightarrow> 'p \<Rightarrow> bool"
  assumes allows_held: "p \<in> set ps \<Longrightarrow> allows ps p"
    and allows_mono: "set ps \<subseteq> set qs \<Longrightarrow> allows ps r \<Longrightarrow> allows qs r"
    and allows_through: "(\<And>p. p \<in> set ps \<Longrightarrow> allows qs p) \<Longrightarrow> allows ps r \<Longrightarrow> allows qs r"
begin

lemma ceiling_trans:
  "list_all (allows qs) ps \<Longrightarrow> list_all (allows ps) rs \<Longrightarrow> list_all (allows qs) rs"
  by (auto simp: list_all_iff intro: allows_through)

lemma ceiling_refl: "list_all (allows ps) ps"
  by (auto simp: list_all_iff intro: allows_held)

lemma no_escalation: "list_all (allows qs) ps \<Longrightarrow> allows ps r \<Longrightarrow> allows qs r"
  by (auto simp: list_all_iff intro: allows_through)

lemma ceiling_append:
  "list_all (allows qs) (ps @ rs) \<longleftrightarrow> list_all (allows qs) ps \<and> list_all (allows qs) rs"
  by simp

lemma allows_append: "allows ps r \<Longrightarrow> allows (ps @ qs) r"
  by (rule allows_mono) auto

end

interpretation grants: delegation ensure_permission
proof
  fix p and ps :: "string list"
  assume "p \<in> set ps"
  then show "ensure_permission ps p"
    unfolding ensure_permission_iff by (auto intro: bexI [of _ p])
next
  fix ps qs :: "string list" and r
  assume "set ps \<subseteq> set qs" and "ensure_permission ps r"
  then show "ensure_permission qs r" by (auto simp: ensure_permission_iff)
next
  fix ps qs :: "string list" and r
  assume "\<And>p. p \<in> set ps \<Longrightarrow> ensure_permission qs p" and "ensure_permission ps r"
  then show "ensure_permission qs r"
    by (auto simp: ensure_permission_iff intro: covers_one_trans)
qed

lemma scopes_within_iff:
  "scopes_within_permissions ss ps \<longleftrightarrow> ss \<noteq> [] \<and> list_all (ensure_permission ps) ss"
  by (simp add: scopes_within_permissions_def)

lemma within_ceiling_iff:
  "permissions_within_ceiling c ps \<longleftrightarrow> list_all (ensure_permission ps) c"
  by (auto simp: permissions_within_ceiling_def scopes_within_iff)

section \<open>Collecting permissions\<close>

lemma contains_fold_iff: "contains_fold vs v \<longleftrightarrow> (\<exists>w \<in> set vs. equal_fold w v)"
  by (induction vs) auto

lemma set_add_permission: "set (add_permission p ps) \<subseteq> insert p (set ps)"
  by (auto simp: add_permission_def)

lemma set_collect_permissions: "set (collect_permissions ps cs) \<subseteq> set ps \<union> set cs"
  unfolding collect_permissions_def
proof (induction cs arbitrary: ps)
  case Nil
  then show ?case by simp
next
  case (Cons c cs)
  then show ?case using set_add_permission by fastforce
qed

lemma collect_keeps: "set ps \<subseteq> set (collect_permissions ps cs)"
  unfolding collect_permissions_def
  by (induction cs arbitrary: ps) (fastforce simp: add_permission_def)+

text \<open>Every collected permission is represented, if only by one that differs in case.\<close>

lemma collect_represents:
  "p \<in> set ps \<union> set cs \<Longrightarrow> \<exists>q \<in> set (collect_permissions ps cs). equal_fold q p"
  unfolding collect_permissions_def
proof (induction cs arbitrary: ps)
  case Nil
  then show ?case by (auto intro: bexI [of _ p])
next
  case (Cons c cs)
  have step: "\<exists>q \<in> set (add_permission c ps). equal_fold q p"
    if "p \<in> set ps \<or> p = c"
    using that by (auto simp: add_permission_def contains_fold_iff intro: bexI [of _ p])
  show ?case
  proof (cases "p \<in> set cs")
    case True
    with Cons.IH show ?thesis by simp
  next
    case False
    with Cons.prems step obtain q where q: "q \<in> set (add_permission c ps)" "equal_fold q p" by auto
    have "set (add_permission c ps) \<subseteq> set (fold add_permission cs (add_permission c ps))"
      using collect_keeps [of "add_permission c ps" cs] by (simp add: collect_permissions_def)
    with q show ?thesis by auto
  qed
qed

text \<open>The wildcard has no other spelling, so it is never lost.\<close>

lemma equal_fold_star [simp]: "equal_fold q ''*'' \<longleftrightarrow> q = ''*''"
proof -
  have l: "lower_char (CHR ''*'') = CHR ''*''" by (simp add: lower_char_def)
  have star: "lower_char c = CHR ''*'' \<longleftrightarrow> c = CHR ''*''" for c
    by (rule lower_char_not_letter) simp_all
  have "equal_fold q ''*'' \<longleftrightarrow> (\<exists>c. q = [c] \<and> lower_char c = CHR ''*'')"
    by (auto simp: equal_fold_def to_lower_def l)
  then show ?thesis by (simp only: star) simp
qed

lemma collect_star [simp]:
  "''*'' \<in> set (collect_permissions ps cs) \<longleftrightarrow> ''*'' \<in> set ps \<or> ''*'' \<in> set cs"
proof
  assume "''*'' \<in> set ps \<or> ''*'' \<in> set cs"
  then have "''*'' \<in> set ps \<union> set cs" by simp
  then obtain q where "q \<in> set (collect_permissions ps cs)" "equal_fold q ''*''"
    using collect_represents by blast
  then show "''*'' \<in> set (collect_permissions ps cs)" by simp
qed (use set_collect_permissions in blast)

text \<open>Where no two permissions differ in case only, collecting loses nothing.\<close>

definition case_distinct :: "string list \<Rightarrow> bool" where
  "case_distinct ps \<longleftrightarrow> (\<forall>p \<in> set ps. \<forall>q \<in> set ps. equal_fold p q \<longrightarrow> p = q)"

lemma collect_exact:
  assumes "case_distinct (ps @ cs)"
  shows "set (collect_permissions ps cs) = set ps \<union> set cs"
proof
  show "set ps \<union> set cs \<subseteq> set (collect_permissions ps cs)"
  proof
    fix p assume p: "p \<in> set ps \<union> set cs"
    then obtain q where q: "q \<in> set (collect_permissions ps cs)" "equal_fold q p"
      using collect_represents by blast
    with set_collect_permissions have "q \<in> set ps \<union> set cs" by blast
    with p q(2) assms have "q = p" by (auto simp: case_distinct_def)
    with q(1) show "p \<in> set (collect_permissions ps cs)" by simp
  qed
qed (rule set_collect_permissions)

end
