(* ===== verification/Db_Tx.thy ===== *)
theory Db_Tx
  imports Prelude
begin

text \<open>
  Calls to the database. A statement either fails (the connection is lost, the server refuses it)
  or runs; which statements fail is an input of the model, the list \<open>faults\<close>, one entry consumed
  per statement (an exhausted list means no further failure). A transaction body that returns an
  error leaves the data as they were at \<^verbatim>\<open>Begin\<close>, the effect of the deferred \<^verbatim>\<open>tx.Rollback\<close>; a
  commit that fails does too.
\<close>

type_synonym faults = "bool list"

type_synonym ('d, 'e, 'a) tx = "faults \<Rightarrow> 'd \<Rightarrow> ('e, 'a) res \<times> faults \<times> 'd"

fun next_fault :: "faults \<Rightarrow> bool \<times> faults" where
  "next_fault [] = (False, [])"
| "next_fault (f # fs) = (f, fs)"

definition tx_return :: "'a \<Rightarrow> ('d, 'e, 'a) tx" where
  "tx_return a fs d = (Inr a, fs, d)"

definition tx_throw :: "'e \<Rightarrow> ('d, 'e, 'a) tx" where
  "tx_throw e fs d = (Inl e, fs, d)"

definition tx_lift :: "('e, 'a) res \<Rightarrow> ('d, 'e, 'a) tx" where
  "tx_lift r fs d = (r, fs, d)"

definition tx_bind :: "('d, 'e, 'a) tx \<Rightarrow> ('a \<Rightarrow> ('d, 'e, 'b) tx) \<Rightarrow> ('d, 'e, 'b) tx" where
  "tx_bind m k fs d =
     (case m fs d of
        (Inl e, fs', d') \<Rightarrow> (Inl e, fs', d')
      | (Inr a, fs', d') \<Rightarrow> k a fs' d')"

text \<open>
  One statement: \<open>e\<close> is the error of a failing statement, \<open>f\<close> its effect on the data, which may
  itself be an error (no row, a violated constraint).
\<close>

definition statement :: "'e \<Rightarrow> ('d \<Rightarrow> ('e, 'a \<times> 'd) res) \<Rightarrow> ('d, 'e, 'a) tx" where
  "statement e f fs d =
     (let (bad, fs') = next_fault fs
      in if bad then (Inl e, fs', d)
         else (case f d of Inl x \<Rightarrow> (Inl x, fs', d) | Inr (a, d') \<Rightarrow> (Inr a, fs', d')))"

definition query :: "'e \<Rightarrow> ('d \<Rightarrow> 'a) \<Rightarrow> ('d, 'e, 'a) tx" where
  "query e f = statement e (\<lambda>d. Inr (f d, d))"

text \<open>A query for one row, with the error the code returns for \<^verbatim>\<open>pgx.ErrNoRows\<close>.\<close>

definition query_row :: "'e \<Rightarrow> 'e \<Rightarrow> ('d \<Rightarrow> 'a option) \<Rightarrow> ('d, 'e, 'a) tx" where
  "query_row e none f =
     statement e (\<lambda>d. case f d of None \<Rightarrow> Inl none | Some a \<Rightarrow> Inr (a, d))"

definition exec :: "'e \<Rightarrow> ('d \<Rightarrow> 'd) \<Rightarrow> ('d, 'e, unit) tx" where
  "exec e f = statement e (\<lambda>d. Inr ((), f d))"

text \<open>What the previous statement returns of the data (\<^verbatim>\<open>RETURNING\<close>): not a statement of its own.\<close>

definition tx_lift_state :: "('d \<Rightarrow> 'a option) \<Rightarrow> 'e \<Rightarrow> ('d, 'e, 'a) tx" where
  "tx_lift_state f e fs d = (case f d of None \<Rightarrow> (Inl e, fs, d) | Some a \<Rightarrow> (Inr a, fs, d))"

definition throw_if :: "bool \<Rightarrow> 'e \<Rightarrow> ('d, 'e, unit) tx" where
  "throw_if b e = tx_lift (reject_if b e)"

fun foreach :: "('x \<Rightarrow> ('d, 'e, unit) tx) \<Rightarrow> 'x list \<Rightarrow> ('d, 'e, unit) tx" where
  "foreach body [] = tx_return ()"
| "foreach body (x # xs) = tx_bind (body x) (\<lambda>_. foreach body xs)"

definition transaction :: "'e \<Rightarrow> ('d, 'e, 'a) tx \<Rightarrow> ('d, 'e, 'a) tx" where
  "transaction e body fs d =
     (let (bad, fs1) = next_fault fs
      in if bad then (Inl e, fs1, d)
         else (case body fs1 d of
                 (Inl x, fs2, _) \<Rightarrow> (Inl x, fs2, d)
               | (Inr a, fs2, d') \<Rightarrow>
                   (let (bad', fs3) = next_fault fs2
                    in if bad' then (Inl e, fs3, d) else (Inr a, fs3, d'))))"

text \<open>A transaction whose body may return without an error before the commit (\<open>None\<close>): it is rolled back.\<close>

definition transaction_maybe :: "'e \<Rightarrow> ('d, 'e, 'a option) tx \<Rightarrow> ('d, 'e, 'a option) tx" where
  "transaction_maybe e body fs d =
     (let (bad, fs1) = next_fault fs
      in if bad then (Inl e, fs1, d)
         else (case body fs1 d of
                 (Inl x, fs2, _) \<Rightarrow> (Inl x, fs2, d)
               | (Inr None, fs2, _) \<Rightarrow> (Inr None, fs2, d)
               | (Inr (Some a), fs2, d') \<Rightarrow>
                   (let (bad', fs3) = next_fault fs2
                    in if bad' then (Inl e, fs3, d) else (Inr (Some a), fs3, d'))))"

text \<open>A statement whose error the code ignores (\<^verbatim>\<open>_, _ = s.Pool.Exec(...)\<close>).\<close>

definition ignore_error :: "('d, 'e, 'a) tx \<Rightarrow> ('d, 'e, unit) tx" where
  "ignore_error m fs d = (case m fs d of (_, fs', d') \<Rightarrow> (Inr (), fs', d'))"

text \<open>A call whose error the code looks at before it goes on.\<close>

definition tx_try :: "('d, 'e, 'a) tx \<Rightarrow> ('d, 'f, ('e, 'a) res) tx" where
  "tx_try m fs d = (case m fs d of (r, fs', d') \<Rightarrow> (Inr r, fs', d'))"

section \<open>What a successful or failed call tells\<close>

lemma run_cases:
  assumes "case m of (Inr a, fs, d) \<Rightarrow> Q a fs d | _ \<Rightarrow> False"
  obtains a fs d where "m = (Inr a, fs, d)" and "Q a fs d"
  using assms by (cases m) (auto split: sum.splits)

lemma tx_try_Inr: "tx_try m fs d = (Inr r, fs', d') \<longleftrightarrow> m fs d = (r, fs', d')"
  by (auto simp: tx_try_def split: prod.splits)

lemma tx_return_Inr [simp]: "tx_return a fs d = (Inr b, fs', d') \<longleftrightarrow> b = a \<and> fs' = fs \<and> d' = d"
  by (auto simp: tx_return_def)

lemma tx_throw_Inr [simp]: "tx_throw e fs d = (Inr b, fs', d') \<longleftrightarrow> False"
  by (simp add: tx_throw_def)

lemma tx_lift_Inr [simp]: "tx_lift r fs d = (Inr b, fs', d') \<longleftrightarrow> r = Inr b \<and> fs' = fs \<and> d' = d"
  by (auto simp: tx_lift_def)

lemma tx_lift_state_Inr [simp]:
  "tx_lift_state f e fs d = (Inr b, fs', d') \<longleftrightarrow> f d = Some b \<and> fs' = fs \<and> d' = d"
  by (auto simp: tx_lift_state_def split: option.splits)

lemma throw_if_Inr [simp]:
  "throw_if b e fs d = (Inr u, fs', d') \<longleftrightarrow> \<not> b \<and> fs' = fs \<and> d' = d"
  by (auto simp: throw_if_def)

lemma tx_bind_Inr:
  "tx_bind m k fs d = (Inr b, fs', d') \<longleftrightarrow>
     (\<exists>a fs1 d1. m fs d = (Inr a, fs1, d1) \<and> k a fs1 d1 = (Inr b, fs', d'))"
  by (auto simp: tx_bind_def split: prod.splits sum.splits)

lemma tx_bindE:
  assumes "tx_bind m k fs d = (Inr b, fs', d')"
  obtains a fs1 d1 where "m fs d = (Inr a, fs1, d1)" and "k a fs1 d1 = (Inr b, fs', d')"
  using assms by (auto simp: tx_bind_Inr)

lemma statement_Inr:
  "statement e f fs d = (Inr a, fs', d') \<longleftrightarrow>
     next_fault fs = (False, fs') \<and> f d = Inr (a, d')"
  by (auto simp: statement_def Let_def split: prod.splits sum.splits if_splits)

lemma query_Inr:
  "query e f fs d = (Inr a, fs', d') \<longleftrightarrow> next_fault fs = (False, fs') \<and> a = f d \<and> d' = d"
  by (auto simp: query_def statement_Inr)

lemma query_row_Inr:
  "query_row e n f fs d = (Inr a, fs', d') \<longleftrightarrow>
     next_fault fs = (False, fs') \<and> f d = Some a \<and> d' = d"
  by (auto simp: query_row_def statement_Inr split: option.splits)

lemma exec_Inr:
  "exec e f fs d = (Inr u, fs', d') \<longleftrightarrow> next_fault fs = (False, fs') \<and> d' = f d"
  by (auto simp: exec_def statement_Inr)

lemma transaction_Inr:
  "transaction e body fs d = (Inr a, fs', d') \<longleftrightarrow>
     (\<exists>fs1 fs2. next_fault fs = (False, fs1) \<and> body fs1 d = (Inr a, fs2, d') \<and>
        next_fault fs2 = (False, fs'))"
  by (auto simp: transaction_def Let_def split: prod.splits sum.splits if_splits)

lemma transaction_maybe_Some:
  "transaction_maybe e body fs d = (Inr (Some a), fs', d') \<longleftrightarrow>
     (\<exists>fs1 fs2. next_fault fs = (False, fs1) \<and> body fs1 d = (Inr (Some a), fs2, d') \<and>
        next_fault fs2 = (False, fs'))"
  by (auto simp: transaction_maybe_def Let_def split: prod.splits sum.splits if_splits option.splits)

lemma transaction_maybe_atomic:
  "transaction_maybe e body fs d = (r, fs', d') \<Longrightarrow> (\<And>a. r \<noteq> Inr (Some a)) \<Longrightarrow> d' = d"
  by (auto simp: transaction_maybe_def Let_def split: prod.splits sum.splits if_splits option.splits)

lemmas tx_Inr = tx_bind_Inr statement_Inr query_Inr query_row_Inr exec_Inr transaction_Inr

text \<open>Atomicity: a transaction that returns an error has changed nothing, whichever statement failed.\<close>

lemma transaction_atomic: "transaction e body fs d = (Inl x, fs', d') \<Longrightarrow> d' = d"
  by (auto simp: transaction_def Let_def split: prod.splits sum.splits if_splits)

text \<open>An invariant that every successful body keeps is kept by the transaction, whatever its outcome.\<close>

lemma transaction_keeps:
  assumes "\<And>fs a fs' d'. body fs d = (Inr a, fs', d') \<Longrightarrow> I d'"
    and "I d"
    and "transaction e body fs d = (r, fs', d')"
  shows "I d'"
proof (cases r)
  case (Inl x)
  with assms(3) have "d' = d" by (auto dest: transaction_atomic)
  with assms(2) show ?thesis by simp
next
  case (Inr a)
  with assms(3) obtain fs1 fs2 where "body fs1 d = (Inr a, fs2, d')"
    by (auto simp: transaction_Inr)
  with assms(1) show ?thesis by blast
qed

lemma foreach_invariant:
  assumes "\<And>x fs d fs' d'. x \<in> set xs \<Longrightarrow> body x fs d = (Inr (), fs', d') \<Longrightarrow> I d \<Longrightarrow> I d'"
    and "foreach body xs fs d = (Inr (), fs', d')" and "I d"
  shows "I d'"
  using assms
proof (induction xs arbitrary: fs d)
  case Nil
  then show ?case by simp
next
  case (Cons x xs)
  from Cons.prems(2) obtain fs1 d1
    where b: "body x fs d = (Inr (), fs1, d1)" and r: "foreach body xs fs1 d1 = (Inr (), fs', d')"
    by (auto simp: tx_bind_Inr)
  have "I d1" by (rule Cons.prems(1) [OF _ b Cons.prems(3)]) simp
  then show ?case by (rule Cons.IH [OF _ r, rotated]) (rule Cons.prems(1), auto)
qed

lemma foreach_exec_fold:
  "foreach (\<lambda>x. exec e (f x)) xs fs d = (Inr (), fs', d') \<Longrightarrow> d' = fold f xs d"
proof (induction xs arbitrary: fs d)
  case Nil
  then show ?case by simp
next
  case (Cons x xs)
  then show ?case by (auto simp: tx_Inr)
qed

section \<open>Invariants of the data\<close>

text \<open>\<open>keeps I m\<close>: from data satisfying \<open>I\<close>, every outcome of \<open>m\<close>, errors and failing statements
  included, leaves data satisfying \<open>I\<close>.\<close>

definition keeps :: "('d \<Rightarrow> bool) \<Rightarrow> ('d, 'e, 'a) tx \<Rightarrow> bool" where
  "keeps I m \<longleftrightarrow> (\<forall>fs d r fs' d'. I d \<longrightarrow> m fs d = (r, fs', d') \<longrightarrow> I d')"

lemma keepsD: "keeps I m \<Longrightarrow> I d \<Longrightarrow> m fs d = (r, fs', d') \<Longrightarrow> I d'"
  by (auto simp: keeps_def)

lemma keeps_pure [inv_intros]:
  "keeps I (tx_return a)" "keeps I (tx_throw e)" "keeps I (tx_lift x)" "keeps I (throw_if b e)"
  "keeps I (tx_lift_state f e)"
  by (auto simp: keeps_def tx_return_def tx_throw_def tx_lift_def throw_if_def tx_lift_state_def
      split: option.splits)

lemma keeps_bind [inv_intros]:
  assumes "keeps I m" and "\<And>a. keeps I (k a)"
  shows "keeps I (tx_bind m k)"
  unfolding keeps_def
proof (intro allI impI)
  fix fs d r fs' d'
  assume d: "I d" and run: "tx_bind m k fs d = (r, fs', d')"
  obtain x fs1 d1 where m: "m fs d = (x, fs1, d1)" by (cases "m fs d") auto
  with assms(1) d have d1: "I d1" by (blast dest: keepsD)
  show "I d'"
  proof (cases x)
    case (Inl e)
    with m run d1 show ?thesis by (simp add: tx_bind_def)
  next
    case (Inr a)
    with m run have "k a fs1 d1 = (r, fs', d')" by (simp add: tx_bind_def)
    with assms(2) d1 show ?thesis by (blast dest: keepsD)
  qed
qed

lemma keeps_statement:
  "(\<And>d a d'. I d \<Longrightarrow> f d = Inr (a, d') \<Longrightarrow> I d') \<Longrightarrow> keeps I (statement e f)"
  unfolding keeps_def statement_def Let_def
  by (intro allI impI) (auto split: prod.splits sum.splits if_splits)

lemma keeps_exec: "(\<And>d. I d \<Longrightarrow> I (f d)) \<Longrightarrow> keeps I (exec e f)"
  unfolding exec_def by (rule keeps_statement) auto

lemma keeps_read [inv_intros]:
  "keeps I (query e f)" "keeps I (query_row e n g)"
  unfolding query_def query_row_def by (rule keeps_statement, auto split: option.splits)+

lemma keeps_foreach [inv_intros]: "(\<And>x. keeps I (body x)) \<Longrightarrow> keeps I (foreach body xs)"
  by (induction xs) (auto intro!: inv_intros)

lemma keeps_ignore [inv_intros]: "keeps I m \<Longrightarrow> keeps I (ignore_error m)"
  unfolding keeps_def ignore_error_def by (intro allI impI) (auto split: prod.splits)

lemma keeps_transaction [inv_intros]: "keeps I body \<Longrightarrow> keeps I (transaction e body)"
  unfolding keeps_def [of I "transaction e body"]
  by (intro allI impI, erule transaction_keeps [rotated 2]) (auto dest: keepsD)

lemma keeps_transaction_maybe [inv_intros]: "keeps I body \<Longrightarrow> keeps I (transaction_maybe e body)"
  unfolding keeps_def transaction_maybe_def Let_def
  by (intro allI impI) (auto split: prod.splits sum.splits if_splits option.splits)

lemma keeps_if [inv_intros]: "(b \<Longrightarrow> keeps I m) \<Longrightarrow> (\<not> b \<Longrightarrow> keeps I n) \<Longrightarrow> keeps I (if b then m else n)"
  by simp

lemma keeps_option [inv_intros]:
  "keeps I m \<Longrightarrow> (\<And>x. keeps I (f x)) \<Longrightarrow> keeps I (case v of None \<Rightarrow> m | Some x \<Rightarrow> f x)"
  by (cases v) simp_all

lemma keeps_prod [inv_intros]: "(\<And>x y. keeps I (f x y)) \<Longrightarrow> keeps I (case p of (x, y) \<Rightarrow> f x y)"
  by (cases p) simp

lemma keeps_let [inv_intros]: "keeps I (f v) \<Longrightarrow> keeps I (let x = v in f x)"
  by simp

lemma keeps_sum [inv_intros]:
  "(\<And>x. keeps I (f x)) \<Longrightarrow> (\<And>y. keeps I (g y)) \<Longrightarrow> keeps I (case v of Inl x \<Rightarrow> f x | Inr y \<Rightarrow> g y)"
  by (cases v) simp_all

lemma keeps_try [inv_intros]: "keeps I m \<Longrightarrow> keeps I (tx_try m)"
  unfolding keeps_def tx_try_def by (intro allI impI) (auto split: prod.splits)

text \<open>The continuation may use what the first call returned.\<close>

lemma keeps_bind_result:
  assumes "keeps I m" and "\<And>a fs d fs' d'. m fs d = (Inr a, fs', d') \<Longrightarrow> keeps I (k a)"
  shows "keeps I (tx_bind m k)"
  unfolding keeps_def
proof (intro allI impI)
  fix fs d r fs' d'
  assume d: "I d" and run: "tx_bind m k fs d = (r, fs', d')"
  obtain x fs1 d1 where m: "m fs d = (x, fs1, d1)" by (cases "m fs d") auto
  with assms(1) d have d1: "I d1" by (blast dest: keepsD)
  show "I d'"
  proof (cases x)
    case (Inl e)
    with m run d1 show ?thesis by (simp add: tx_bind_def)
  next
    case (Inr a)
    with m run have "k a fs1 d1 = (r, fs', d')" by (simp add: tx_bind_def)
    with assms(2) [OF m [unfolded Inr]] d1 show ?thesis by (blast dest: keepsD)
  qed
qed

text \<open>Rewriting a bind whose first call is pure.\<close>

lemma throw_if_bind [simp]:
  "tx_bind (throw_if b e) k fs d = (if b then (Inl e, fs, d) else k () fs d)"
  by (simp add: tx_bind_def throw_if_def tx_lift_def reject_if_def)

lemma tx_lift_bind [simp]:
  "tx_bind (tx_lift r) k fs d = (case r of Inl e \<Rightarrow> (Inl e, fs, d) | Inr a \<Rightarrow> k a fs d)"
  by (simp add: tx_bind_def tx_lift_def split: sum.split)

lemma tx_return_bind [simp]: "tx_bind (tx_return a) k = k a"
  by (simp add: tx_bind_def tx_return_def fun_eq_iff)

text \<open>Without failing statements the calls compute by rewriting.\<close>

lemma tx_no_fault [tx_simps]:
  "tx_return a fs d = (Inr a, fs, d)"
  "tx_throw x fs d = (Inl x, fs, d)"
  "tx_lift r fs d = (r, fs, d)"
  "query e f [] d = (Inr (f d), [], d)"
  "exec e g [] d = (Inr (), [], g d)"
  by (simp_all add: tx_return_def tx_throw_def tx_lift_def query_def exec_def statement_def)

end
