(* ===== verification/Store_State.thy ===== *)
theory Store_State
  imports Models Permissions Db_Tx "HOL-Library.List_Lexorder" "HOL-Library.Char_ord"
    "HOL-Library.Product_Lexorder"
begin

text \<open>
  The tables of the program, with the columns the modelled operations use (\<^verbatim>\<open>migrations/001_initial.sql\<close>,
  \<^verbatim>\<open>012_scoped_role_bindings.sql\<close>) and the errors of the store. A table is the list of its rows, a
  \<^verbatim>\<open>bigserial\<close> id comes from a counter, \<open>db_now\<close> is the transaction's \<^verbatim>\<open>now()\<close>.

  A permission column is \<^verbatim>\<open>jsonb\<close>. \<open>PermArray ps\<close> is an array of strings; \<open>PermOther partial star\<close>
  is any other document, with what \<^verbatim>\<open>json.Unmarshal\<close> leaves in the slice when the code ignores its
  error, and whether the operator \<^verbatim>\<open>?\<close> finds the key \<^verbatim>\<open>*\<close> in it.
\<close>

datatype raw_perms = PermArray "string list" | PermOther "string list" bool

fun has_star :: "raw_perms \<Rightarrow> bool" where
  "has_star (PermArray ps) = (''*'' \<in> set ps)"
| "has_star (PermOther partial star) = star"

fun decoded_or_partial :: "raw_perms \<Rightarrow> string list" where
  "decoded_or_partial (PermArray ps) = ps"
| "decoded_or_partial (PermOther partial star) = partial"

text \<open>The refusals of \<^verbatim>\<open>internal/auth\<close>.\<close>

datatype auth_failure =
    InvalidCredentials
  | AuthenticationRequired
  | InvalidApiKey
  | InvalidSession
  | MalformedSession
  | SessionRevoked
  | AccountUnusable
  | SessionAccountMismatch
  | TokenNotSigned
  | OidcNotConfigured
  | OidcEndpointRefused
  | OidcRedirectInvalid
  | OidcProviderFailed
  | OidcStateInvalid
  | OidcStateExpired
  | OidcDisabled
  | OidcExchangeFailed
  | OidcIdTokenMissing
  | OidcIdTokenInvalid
  | OidcNonceMismatch
  | OidcIdentityMissing

datatype store_error =
    DbError
  | ErrNotFound
  | ErrIdentityConflict
  | ErrInvalidPassword
  | ErrLocalAuthOnly
  | ErrLastSuperAdmin
  | ErrImmutableRole
  | ErrScopeRequired
  | ErrHubCredentialChanged
  | ErrRoleGrantCeiling
  | BadPermissionDocument
  | RoleFieldsRequired
  | RoleFieldsTooLong
  | BadScopes scope_error
  | TooManyBindings
  | InvalidRoleId
  | DuplicateRoleBinding
  | BadScopeMode
  | GlobalWithClauses
  | TooManyClauses
  | BadHubScope
  | BadDepartmentScope
  | BadScopeType
  | DuplicateClause
  | RestrictedWithoutClause
  | PasswordTooShort
  | PasswordUnchanged
  | BootstrapNameNotLocal
  | HashFailure
  | CipherFailure
  | HubNameRequired
  | HubNetworkRequired
  | HubUrlRequired
  | HubTokenRequired
  | HubFieldTooLong
  | HubIntervalOutOfRange
  | HubEndpointInvalid
  | HubTokenReentry
  | UnsupportedSecret
  | EmptySecret
  | BadSettingDocument
  | ErrSettingsSecretReentry
  | ErrOIDCSecretRequired
  | EntropyFailure
  | AuthError auth_failure

fun unmarshal_permissions :: "raw_perms \<Rightarrow> (store_error, string list) res" where
  "unmarshal_permissions (PermArray ps) = Inr ps"
| "unmarshal_permissions (PermOther partial star) = Inl BadPermissionDocument"

record user_row =
  us_id :: int
  us_username :: string
  us_display_name :: string
  us_email :: string
  us_department :: string
  us_password_hash :: "string option"
  us_auth_source :: string
  us_external_subject :: "string option"
  us_active :: bool
  us_last_login_at :: "time option"
  us_created_at :: time
  us_updated_at :: time

record role_row =
  ro_id :: int
  ro_key :: string
  ro_name :: string
  ro_description :: string
  ro_permissions :: raw_perms
  ro_system :: bool
  ro_created_at :: time
  ro_updated_at :: time

record user_role_row =
  bi_user_id :: int
  bi_role_id :: int
  bi_scope_mode :: string

record clause_row =
  cl_user_id :: int
  cl_role_id :: int
  cl_type :: string
  cl_value :: string

record session_row =
  se_jti :: string
  se_user_id :: int
  se_expires_at :: time
  se_revoked_at :: "time option"
  se_ip :: string
  se_agent :: string

record key_row =
  ke_id :: int
  ke_user_id :: int
  ke_name :: string
  ke_prefix :: string
  ke_secret_hash :: string
  ke_scopes :: raw_perms
  ke_status :: string
  ke_rotated_from :: "int option"
  ke_last_used_at :: "time option"
  ke_expires_at :: "time option"
  ke_created_at :: time
  ke_revoked_at :: "time option"
  ke_expiry_notified_at :: "time option"

record setting_row =
  st_key :: string
  st_value :: json
  st_updated_by :: "int option"
  st_updated_at :: time

record secret_row =
  sx_key :: string
  sx_encrypted :: string
  sx_version :: int
  sx_updated_by :: int
  sx_updated_at :: time

record audit_row =
  au_actor_id :: "int option"
  au_actor_username :: string
  au_action :: string
  au_resource_type :: string
  au_resource_id :: string
  au_before :: "json option"
  au_after :: "json option"
  au_ip :: string
  au_agent :: string
  au_result :: string
  au_reason :: string
  au_request_id :: string

record hub_row =
  hb_id :: int
  hb_name :: string
  hb_base_url :: string
  hb_network :: string
  hb_enabled :: bool
  hb_verify_tls :: bool
  hb_interval :: int
  hb_token :: "string option"
  hb_status :: string
  hb_version :: string
  hb_last_seen_at :: "time option"
  hb_last_error :: string
  hb_snapshot :: json
  hb_created_at :: time
  hb_updated_at :: time

record managed_row =
  mu_id :: int
  mu_hub_id :: int
  mu_username :: string
  mu_department :: string
  mu_admin :: bool
  mu_active :: bool
  mu_last_activity_at :: "time option"
  mu_raw :: json
  mu_synced_at :: time

record server_row =
  sv_id :: int
  sv_hub_id :: int
  sv_managed_user_id :: "int option"
  sv_username :: string
  sv_server_name :: string
  sv_status :: string
  sv_started_at :: "time option"
  sv_last_activity_at :: "time option"
  sv_url :: string
  sv_node_name :: string
  sv_pod_name :: string
  sv_image :: string
  sv_cpu_cores :: "rat option"
  sv_memory_bytes :: "int option"
  sv_gpu_count :: "int option"
  sv_raw :: json_object
  sv_synced_at :: time

record server_session_row =
  ss_server_id :: "int option"
  ss_hub_id :: int
  ss_username :: string
  ss_server_name :: string
  ss_started_at :: time
  ss_last_activity_at :: "time option"
  ss_ended_at :: "time option"

record resource_row =
  re_id :: int
  re_kind :: string
  re_name :: string
  re_status :: string
  re_owner_user_id :: "int option"
  re_data :: json
  re_created_by :: "int option"
  re_updated_by :: "int option"
  re_created_at :: time
  re_updated_at :: time

record mail_row =
  ml_id :: int
  ml_event :: string
  ml_recipient :: string
  ml_subject :: string
  ml_reference :: string
  ml_actor_user_id :: "int option"
  ml_status :: string
  ml_attempts :: int
  ml_error :: string
  ml_created_at :: time
  ml_updated_at :: time

record health_row =
  ih_type :: string
  ih_status :: string
  ih_version :: string
  ih_latency_ms :: int
  ih_last_attempt_at :: time
  ih_last_success_at :: "time option"
  ih_last_error :: string
  ih_failures :: int

record store_db =
  db_users :: "user_row list"
  db_roles :: "role_row list"
  db_user_roles :: "user_role_row list"
  db_clauses :: "clause_row list"
  db_hubs :: "hub_row list"
  db_managed :: "managed_row list"
  db_servers :: "server_row list"
  db_server_sessions :: "server_session_row list"
  db_resources :: "resource_row list"
  db_sessions :: "session_row list"
  db_keys :: "key_row list"
  db_settings :: "setting_row list"
  db_secrets :: "secret_row list"
  db_audit :: "audit_row list"
  db_mail :: "mail_row list"
  db_health :: "health_row list"
  db_next_user :: int
  db_next_role :: int
  db_next_key :: int
  db_next_hub :: int
  db_next_managed :: int
  db_next_server :: int
  db_next_resource :: int
  db_next_mail :: int
  db_now :: time
  db_hub_calls :: "(int \<times> string \<times> string) list"
  \<comment> \<open>no table: the history of the requests sent to hubs for server actions (hub, verb, path)\<close>

type_synonym 'a store_tx = "(store_db, store_error, 'a) tx"

text \<open>The empty tables, right after the migrations.\<close>

definition fresh_store :: "time \<Rightarrow> store_db" where
  "fresh_store now =
     \<lparr>db_users = [], db_roles = [], db_user_roles = [], db_clauses = [], db_hubs = [],
      db_managed = [], db_servers = [], db_server_sessions = [], db_resources = [], db_sessions = [],
      db_keys = [], db_settings = [], db_secrets = [], db_audit = [], db_mail = [], db_health = [],
      db_next_user = 1, db_next_role = 1, db_next_key = 1, db_next_hub = 1, db_next_managed = 1,
      db_next_server = 1, db_next_resource = 1, db_next_mail = 1, db_now = now,
      db_hub_calls = []\<rparr>"

definition find_user :: "int \<Rightarrow> store_db \<Rightarrow> user_row option" where
  "find_user uid d = find (\<lambda>u. us_id u = uid) (db_users d)"

definition find_role :: "int \<Rightarrow> store_db \<Rightarrow> role_row option" where
  "find_role rid d = find (\<lambda>r. ro_id r = rid) (db_roles d)"

lemma find_user_Some: "find_user uid d = Some u \<Longrightarrow> u \<in> set (db_users d) \<and> us_id u = uid"
  by (auto simp: find_user_def find_Some_iff)

lemma find_role_Some: "find_role rid d = Some r \<Longrightarrow> r \<in> set (db_roles d) \<and> ro_id r = rid"
  by (auto simp: find_role_def find_Some_iff)

section \<open>Reading a setting\<close>

definition get_setting :: "string \<Rightarrow> json store_tx" where
  "get_setting key =
     query_row DbError ErrNotFound (\<lambda>d. map_option st_value (find (\<lambda>s. st_key s = key) (db_settings d)))"

section \<open>Queries on the role tables\<close>

text \<open>\<^verbatim>\<open>SELECT r.permissions FROM roles r JOIN user_roles ur ON ur.role_id=r.id WHERE ...\<close>\<close>

definition joined_roles :: "(user_role_row \<Rightarrow> bool) \<Rightarrow> store_db \<Rightarrow> role_row list" where
  "joined_roles cond d =
     concat (map (\<lambda>r. map (\<lambda>_. r) (filter (\<lambda>b. bi_role_id b = ro_id r \<and> cond b) (db_user_roles d)))
       (db_roles d))"

text \<open>\<^verbatim>\<open>EXISTS(SELECT 1 FROM user_roles ur JOIN users u ... JOIN roles r ... WHERE ur.scope_mode='global'
  AND u.active AND r.permissions ? '*' AND ...)\<close>\<close>

definition active_wildcard_binding :: "(user_role_row \<Rightarrow> bool) \<Rightarrow> store_db \<Rightarrow> bool" where
  "active_wildcard_binding cond d =
     list_ex (\<lambda>b. bi_scope_mode b = ''global'' \<and> cond b
        \<and> list_ex (\<lambda>u. us_id u = bi_user_id b \<and> us_active u) (db_users d)
        \<and> list_ex (\<lambda>r. ro_id r = bi_role_id b \<and> has_star (ro_permissions r)) (db_roles d))
       (db_user_roles d)"

lemma set_joined_roles:
  "set (joined_roles cond d) =
     {r \<in> set (db_roles d). \<exists>b \<in> set (db_user_roles d). bi_role_id b = ro_id r \<and> cond b}"
  by (auto simp: joined_roles_def)

lemma active_wildcard_binding_iff:
  "active_wildcard_binding cond d \<longleftrightarrow>
     (\<exists>b \<in> set (db_user_roles d). bi_scope_mode b = ''global'' \<and> cond b \<and>
       (\<exists>u \<in> set (db_users d). us_id u = bi_user_id b \<and> us_active u) \<and>
       (\<exists>r \<in> set (db_roles d). ro_id r = bi_role_id b \<and> has_star (ro_permissions r)))"
  by (simp add: active_wildcard_binding_def list_ex_bool_iff)

end
