(* ===== verification/Scoped_Access.thy ===== *)
theory Scoped_Access
  imports Permissions Models
begin

text \<open>
  What an authenticated principal may do (\<^verbatim>\<open>internal/auth/auth.go\<close>) and the SQL predicate that
  restricts list queries to what it may see (\<^verbatim>\<open>internal/store/access.go\<close>).
\<close>

section \<open>The principal\<close>

record principal =
  p_user :: user
  p_jti :: string
  p_api_key_id :: int
  p_api_key_scopes :: "string list"
  p_user_permissions :: "string list"

definition global_permissions :: "principal \<Rightarrow> string list" where
  "global_permissions p =
     (case u_global_permissions (p_user p) of Some ps \<Rightarrow> ps | None \<Rightarrow> p_user_permissions p)"

definition global_permission_set :: "principal \<Rightarrow> string list" where
  "global_permission_set p = global_permissions p"

definition api_key_allows :: "principal \<Rightarrow> string \<Rightarrow> bool" where
  "api_key_allows p permission =
     (if p_api_key_id p = 0 then True
      else if length (p_api_key_scopes p) = 0 then False
      else ensure_permission (p_api_key_scopes p) permission)"

definition allows :: "principal \<Rightarrow> string \<Rightarrow> bool" where
  "allows p permission =
     (if \<not> ensure_permission (global_permissions p) permission then False
      else api_key_allows p permission)"

fun grant_groups :: "permission_grant list \<Rightarrow> string \<Rightarrow> scope_group list" where
  "grant_groups [] permission = []"
| "grant_groups (grant # grants) permission =
     (if \<not> ensure_permission (pg_permissions grant) permission then grant_groups grants permission
      else if pg_hub_ids grant = [] \<and> pg_departments grant = [] then grant_groups grants permission
      else \<lparr>sg_hub_ids = pg_hub_ids grant, sg_departments = pg_departments grant\<rparr>
             # grant_groups grants permission)"

definition access_filter_of :: "principal \<Rightarrow> string \<Rightarrow> access_filter" where
  "access_filter_of p permission =
     (if \<not> api_key_allows p permission then \<lparr>af_global = False, af_groups = []\<rparr>
      else if ensure_permission (global_permissions p) permission
           then \<lparr>af_global = True, af_groups = []\<rparr>
      else \<lparr>af_global = False,
            af_groups = grant_groups (u_permission_grants (p_user p)) permission\<rparr>)"

definition group_allows :: "scope_group \<Rightarrow> int \<Rightarrow> string \<Rightarrow> bool" where
  "group_allows grp hub_id department =
     (if sg_hub_ids grp \<noteq> []
         \<and> \<not> list_ex (\<lambda>allowed. 0 < hub_id \<and> allowed = hub_id) (sg_hub_ids grp) then False
      else if sg_departments grp \<noteq> []
         \<and> \<not> list_ex (\<lambda>allowed. department \<noteq> []
               \<and> equal_fold (trim_space allowed) (trim_space department)) (sg_departments grp)
           then False
      else True)"

definition allows_target :: "principal \<Rightarrow> string \<Rightarrow> int \<Rightarrow> string \<Rightarrow> bool" where
  "allows_target p permission hub_id department =
     (let flt = access_filter_of p permission
      in if af_global flt then True
         else list_ex (\<lambda>grp. group_allows grp hub_id department) (af_groups flt))"

section \<open>The SQL predicate of a list query\<close>

datatype sql_arg = HubIds "int list" | DepartmentNames "string list"

definition parse_hub_scope :: "string \<Rightarrow> int option" where
  "parse_hub_scope value =
     (case parse_int (trim_space value) of
        None \<Rightarrow> None
      | Some hub_id \<Rightarrow> if 0 < hub_id then Some hub_id else None)"

definition lowered_departments :: "string list \<Rightarrow> string list" where
  "lowered_departments departments =
     filter (\<lambda>d. d \<noteq> []) (map (\<lambda>d. to_lower (trim_space d)) departments)"

definition hub_condition :: "string \<Rightarrow> nat \<Rightarrow> string" where
  "hub_condition column n = column @ ''=ANY($'' @ format_nat n @ ''::bigint[])''"

definition department_condition :: "string \<Rightarrow> nat \<Rightarrow> string" where
  "department_condition column n =
     ''lower(btrim(COALESCE('' @ column @ '','' @ [CHR 0x27, CHR 0x27] @ '')))=ANY($''
       @ format_nat n @ ''::text[])''"

fun access_parts ::
  "scope_group list \<Rightarrow> string \<Rightarrow> string \<Rightarrow> nat \<Rightarrow> string list \<times> sql_arg list" where
  "access_parts [] hub_column department_column n = ([], [])"
| "access_parts (grp # groups) hub_column department_column n =
     (if (sg_hub_ids grp \<noteq> [] \<and> hub_column = [])
         \<or> (sg_departments grp \<noteq> [] \<and> department_column = [])
      then access_parts groups hub_column department_column n
      else
        let departments = lowered_departments (sg_departments grp)
        in if sg_departments grp \<noteq> [] \<and> departments = []
           then access_parts groups hub_column department_column n
           else
             let (hub_conds, hub_args, n1) =
                   (if sg_hub_ids grp \<noteq> []
                    then ([hub_condition hub_column n], [HubIds (sg_hub_ids grp)], n + 1)
                    else ([], [], n));
                 (dep_conds, dep_args, n2) =
                   (if sg_departments grp \<noteq> []
                    then ([department_condition department_column n1],
                          [DepartmentNames departments], n1 + 1)
                    else ([], [], n1));
                 conditions = hub_conds @ dep_conds;
                 (parts, args) = access_parts groups hub_column department_column n2
             in ((if conditions \<noteq> []
                  then [''('' @ join_with '' AND '' conditions @ '')''] else []) @ parts,
                 hub_args @ dep_args @ args))"

definition access_predicate ::
  "access_filter \<Rightarrow> string \<Rightarrow> string \<Rightarrow> nat \<Rightarrow> string \<times> sql_arg list" where
  "access_predicate flt hub_column department_column first_arg =
     (if af_global flt then (''TRUE'', [])
      else let (parts, args) = access_parts (af_groups flt) hub_column department_column first_arg
           in if parts = [] then (''FALSE'', [])
              else (''('' @ join_with '' OR '' parts @ '')'', args))"

section \<open>What the principal's checks decide\<close>

lemma grant_groups_set:
  "set (grant_groups grants r) =
     {\<lparr>sg_hub_ids = pg_hub_ids g, sg_departments = pg_departments g\<rparr> | g.
        g \<in> set grants \<and> ensure_permission (pg_permissions g) r
        \<and> (pg_hub_ids g \<noteq> [] \<or> pg_departments g \<noteq> [])}"
  by (induction grants) auto

lemma grant_groups_restricted:
  "grp \<in> set (grant_groups grants r) \<Longrightarrow> sg_hub_ids grp \<noteq> [] \<or> sg_departments grp \<noteq> []"
  by (auto simp: grant_groups_set)

lemma group_allows_iff:
  "group_allows grp h d \<longleftrightarrow>
     (sg_hub_ids grp = [] \<or> 0 < h \<and> h \<in> set (sg_hub_ids grp)) \<and>
     (sg_departments grp = [] \<or> d \<noteq> []
        \<and> (\<exists>a \<in> set (sg_departments grp). equal_fold (trim_space a) (trim_space d)))"
  by (auto simp: group_allows_def list_ex_iff)

lemma grant_groups_allow:
  "(\<exists>grp \<in> set (grant_groups grants r). group_allows grp h d) \<longleftrightarrow>
     (\<exists>g \<in> set grants. ensure_permission (pg_permissions g) r \<and>
        (pg_hub_ids g \<noteq> [] \<or> pg_departments g \<noteq> []) \<and>
        (pg_hub_ids g = [] \<or> 0 < h \<and> h \<in> set (pg_hub_ids g)) \<and>
        (pg_departments g = [] \<or> d \<noteq> [] \<and>
           (\<exists>a \<in> set (pg_departments g). equal_fold (trim_space a) (trim_space d))))"
proof (induction grants)
  case Nil
  then show ?case by simp
next
  case (Cons g grants)
  have "(\<exists>grp \<in> set (grant_groups (g # grants) r). group_allows grp h d) \<longleftrightarrow>
      ensure_permission (pg_permissions g) r \<and> (pg_hub_ids g \<noteq> [] \<or> pg_departments g \<noteq> []) \<and>
        group_allows \<lparr>sg_hub_ids = pg_hub_ids g, sg_departments = pg_departments g\<rparr> h d \<or>
      (\<exists>grp \<in> set (grant_groups grants r). group_allows grp h d)"
    by auto
  then show ?case
    unfolding Cons.IH [symmetric] list.set bex_simps by (auto simp: group_allows_iff)
qed

definition without_key :: "principal \<Rightarrow> principal" where
  "without_key p = p\<lparr>p_api_key_id := 0, p_api_key_scopes := []\<rparr>"

lemma without_key_simps [simp]:
  "global_permissions (without_key p) = global_permissions p"
  "p_user (without_key p) = p_user p"
  "api_key_allows (without_key p) r"
  by (simp_all add: without_key_def global_permissions_def api_key_allows_def split: option.split)

lemma allows_iff:
  "allows p r \<longleftrightarrow> ensure_permission (global_permissions p) r \<and> api_key_allows p r"
  by (simp add: allows_def)

lemma allows_target_iff:
  "allows_target p r h d \<longleftrightarrow>
     api_key_allows p r \<and>
     (ensure_permission (global_permissions p) r \<or>
      (\<exists>grp \<in> set (grant_groups (u_permission_grants (p_user p)) r). group_allows grp h d))"
  by (simp add: allows_target_def access_filter_of_def Let_def list_ex_iff)

lemma api_key_narrows_target: "allows_target p r h d \<Longrightarrow> allows_target (without_key p) r h d"
  by (auto simp: allows_target_iff)

section \<open>The meaning of the SQL predicate\<close>

text \<open>
  What PostgreSQL makes of a predicate of this shape on a row with a hub id and a (possibly NULL)
  department, read off the text itself: a predicate is TRUE, FALSE, or a parenthesised disjunction
  of parenthesised conjunctions of conditions, and a condition compares a column of the row with
  the array bound to its placeholder. \<open>None\<close> is a text that cannot be read, a placeholder without
  an argument or an argument of the wrong type. \<open>btrim\<close> removes spaces only; \<^verbatim>\<open>lower\<close> is taken on
  ASCII, under a database locale that folds ASCII letters to ASCII letters.
\<close>

definition btrim :: "string \<Rightarrow> string" where
  "btrim s = trim_right (\<lambda>c. c = CHR 0x20) (trim_left (\<lambda>c. c = CHR 0x20) s)"

fun arg_holds :: "int \<Rightarrow> string option \<Rightarrow> sql_arg \<Rightarrow> bool" where
  "arg_holds hub department (HubIds ids) = (hub \<in> set ids)"
| "arg_holds hub department (DepartmentNames names) =
     (to_lower (btrim (case department of None \<Rightarrow> [] | Some d \<Rightarrow> d)) \<in> set names)"

fun comparison :: "string \<Rightarrow> string \<Rightarrow> nat \<Rightarrow> sql_arg \<Rightarrow> string" where
  "comparison hub_column department_column k (HubIds ids) =
     hub_column @ ''=ANY($'' @ format_nat k @ ''::bigint[])''"
| "comparison hub_column department_column k (DepartmentNames names) =
     ''lower(btrim(COALESCE('' @ department_column @ '','' @ [CHR 0x27, CHR 0x27] @ '')))=ANY($''
       @ format_nat k @ ''::text[])''"

fun condition_value ::
  "string \<Rightarrow> string \<Rightarrow> nat \<Rightarrow> sql_arg list \<Rightarrow> int \<Rightarrow> string option \<Rightarrow> string \<Rightarrow> bool option" where
  "condition_value hub_column department_column k [] hub department condition = None"
| "condition_value hub_column department_column k (arg # args) hub department condition =
     (if condition = comparison hub_column department_column k arg
      then Some (arg_holds hub department arg)
      else condition_value hub_column department_column (k + 1) args hub department condition)"

fun unparen :: "string \<Rightarrow> string option" where
  "unparen [] = None"
| "unparen (c # s) =
     (if c = CHR ''('' \<and> s \<noteq> [] \<and> last s = CHR '')'' then Some (butlast s) else None)"

fun group_words :: "string \<Rightarrow> string list \<Rightarrow> string list list" where
  "group_words w [] = [[]]"
| "group_words w (x # xs) =
     (if x = w then [] # group_words w xs
      else (case group_words w xs of [] \<Rightarrow> [[x]] | g # gs \<Rightarrow> (x # g) # gs))"

definition split_word :: "string \<Rightarrow> string \<Rightarrow> string list" where
  "split_word w s = map (join_with '' '') (group_words w (split_on (CHR 0x20) s))"

definition all_values :: "bool option list \<Rightarrow> bool option" where
  "all_values vs = (if None \<in> set vs then None else Some (list_all (\<lambda>v. v = Some True) vs))"

definition any_value :: "bool option list \<Rightarrow> bool option" where
  "any_value vs = (if None \<in> set vs then None else Some (list_ex (\<lambda>v. v = Some True) vs))"

definition part_value ::
  "string \<Rightarrow> string \<Rightarrow> nat \<Rightarrow> sql_arg list \<Rightarrow> int \<Rightarrow> string option \<Rightarrow> string \<Rightarrow> bool option" where
  "part_value hub_column department_column first_arg args hub department part =
     (case unparen part of
        None \<Rightarrow> None
      | Some conjunction \<Rightarrow> all_values
          (map (condition_value hub_column department_column first_arg args hub department)
            (split_word ''AND'' conjunction)))"

definition sql_value ::
  "string \<times> sql_arg list \<Rightarrow> string \<Rightarrow> string \<Rightarrow> nat \<Rightarrow> int \<Rightarrow> string option \<Rightarrow> bool option" where
  "sql_value predicate hub_column department_column first_arg hub department =
     (let (text, args) = predicate
      in if text = ''TRUE'' then Some True
         else if text = ''FALSE'' then Some False
         else (case unparen text of
             None \<Rightarrow> None
           | Some disjunction \<Rightarrow> any_value
               (map (part_value hub_column department_column first_arg args hub department)
                 (split_word ''OR'' disjunction))))"

definition row_selected ::
  "string \<times> sql_arg list \<Rightarrow> string \<Rightarrow> string \<Rightarrow> nat \<Rightarrow> int \<Rightarrow> string option \<Rightarrow> bool" where
  "row_selected predicate hub_column department_column first_arg hub department \<longleftrightarrow>
     sql_value predicate hub_column department_column first_arg hub department = Some True"

text \<open>The predicate as the list of its conjunctions, one per scope group that the columns can express.\<close>

definition group_conditions :: "scope_group \<Rightarrow> string \<Rightarrow> string \<Rightarrow> sql_arg list" where
  "group_conditions grp hub_column department_column =
     (let departments = lowered_departments (sg_departments grp)
      in if (sg_hub_ids grp \<noteq> [] \<and> hub_column = [])
            \<or> (sg_departments grp \<noteq> [] \<and> (department_column = [] \<or> departments = []))
         then []
         else (if sg_hub_ids grp \<noteq> [] then [HubIds (sg_hub_ids grp)] else [])
              @ (if sg_departments grp \<noteq> [] then [DepartmentNames departments] else []))"

definition access_conditions :: "scope_group list \<Rightarrow> string \<Rightarrow> string \<Rightarrow> sql_arg list list" where
  "access_conditions groups hub_column department_column =
     filter (\<lambda>cs. cs \<noteq> []) (map (\<lambda>g. group_conditions g hub_column department_column) groups)"

fun render_conditions :: "string \<Rightarrow> string \<Rightarrow> nat \<Rightarrow> sql_arg list \<Rightarrow> string list" where
  "render_conditions hub_column department_column n [] = []"
| "render_conditions hub_column department_column n (HubIds ids # cs) =
     hub_condition hub_column n # render_conditions hub_column department_column (n + 1) cs"
| "render_conditions hub_column department_column n (DepartmentNames ds # cs) =
     department_condition department_column n
       # render_conditions hub_column department_column (n + 1) cs"

fun render_parts :: "string \<Rightarrow> string \<Rightarrow> nat \<Rightarrow> sql_arg list list \<Rightarrow> string list" where
  "render_parts hub_column department_column n [] = []"
| "render_parts hub_column department_column n (cs # css) =
     (''('' @ join_with '' AND '' (render_conditions hub_column department_column n cs) @ '')'')
       # render_parts hub_column department_column (n + length cs) css"

lemma access_parts_render:
  "access_parts groups hc dc n =
     (render_parts hc dc n (access_conditions groups hc dc),
      concat (access_conditions groups hc dc))"
proof (induction groups arbitrary: n)
  case Nil
  then show ?case by (simp add: access_conditions_def)
next
  case (Cons g groups)
  then show ?case
    by (simp add: access_conditions_def group_conditions_def Let_def)
qed

lemma render_parts_Nil_iff [simp]: "render_parts hc dc n css = [] \<longleftrightarrow> css = []"
  by (cases css) auto

lemma lowered_departments_set:
  "set (lowered_departments ds) = {to_lower (trim_space d) | d. d \<in> set ds \<and> trim_space d \<noteq> []}"
  by (auto simp: lowered_departments_def)

lemma group_conditions_agree:
  assumes "hc \<noteq> []" and "dc \<noteq> []" and "0 < h"
    and "btrim d = trim_space d"
    and "sg_hub_ids grp \<noteq> [] \<or> sg_departments grp \<noteq> []"
    and "\<And>a. a \<in> set (sg_departments grp) \<Longrightarrow> trim_space a \<noteq> []"
  shows "group_conditions grp hc dc \<noteq> []
           \<and> list_all (arg_holds h (Some d)) (group_conditions grp hc dc)
         \<longleftrightarrow> group_allows grp h d"
proof -
  have low: "lowered_departments (sg_departments grp) = [] \<longleftrightarrow> sg_departments grp = []"
    using assms(6) lowered_departments_set [of "sg_departments grp"]
    by (cases "sg_departments grp") (auto simp: lowered_departments_def)
  have dep: "to_lower (trim_space d) \<in> set (lowered_departments (sg_departments grp)) \<longleftrightarrow>
      d \<noteq> [] \<and> (\<exists>a \<in> set (sg_departments grp). equal_fold (trim_space a) (trim_space d))"
  proof -
    have "to_lower (trim_space d) \<in> set (lowered_departments (sg_departments grp)) \<longleftrightarrow>
        (\<exists>a \<in> set (sg_departments grp). to_lower (trim_space a) = to_lower (trim_space d))"
      unfolding lowered_departments_set using assms(6) by (auto; metis)
    moreover have "d \<noteq> []" if "a \<in> set (sg_departments grp)"
        and "to_lower (trim_space a) = to_lower (trim_space d)" for a
      using assms(6) that by auto
    ultimately show ?thesis by (auto simp: equal_fold_def)
  qed
  from assms(5) low dep assms(1-4) show ?thesis
    by (auto simp: group_conditions_def group_allows_iff Let_def)
qed

subsection \<open>Reading the text back\<close>

lemma format_nat_inject [simp]: "format_nat m = format_nat n \<longleftrightarrow> m = n"
  by (metis digits_val_format_nat)

lemma comparison_distinct [simp]:
  "comparison hc dc m (HubIds is) \<noteq> comparison hc dc n (DepartmentNames ds)"
proof
  assume "comparison hc dc m (HubIds is) = comparison hc dc n (DepartmentNames ds)"
  then have "rev (comparison hc dc m (HubIds is)) = rev (comparison hc dc n (DepartmentNames ds))"
    by (rule arg_cong)
  then show False by simp
qed

lemma comparison_index: "comparison hc dc m a = comparison hc dc n b \<Longrightarrow> m = n"
  using comparison_distinct [of hc dc m _ n] comparison_distinct [of hc dc n _ m]
  by (cases a; cases b) (simp, metis, metis, simp)

lemma condition_value_nth:
  "i < length args \<Longrightarrow>
     condition_value hc dc n args h d (comparison hc dc (n + i) (args ! i))
       = Some (arg_holds h d (args ! i))"
proof (induction args arbitrary: n i)
  case Nil
  then show ?case by simp
next
  case (Cons a args)
  show ?case
  proof (cases i)
    case 0
    then show ?thesis by simp
  next
    case (Suc j)
    have "comparison hc dc (Suc (n + j)) (args ! j) \<noteq> comparison hc dc n a"
      using comparison_index [of hc dc "Suc (n + j)" "args ! j" n a] by auto
    with Suc Cons.IH [of j "Suc n"] Cons.prems show ?thesis by simp
  qed
qed

lemma split_on_append_sep: "split_on c (a @ c # b) = split_on c a @ split_on c b"
proof (induction a)
  case Nil
  then show ?case by simp
next
  case (Cons x a)
  then show ?case by (cases "split_on c a") (auto split: list.splits)
qed

lemma split_on_single [simp]: "c \<notin> set s \<Longrightarrow> split_on c s = [s]"
  by (induction s) auto

lemma group_words_append: "w \<notin> set xs \<Longrightarrow> group_words w (xs @ w # ys) = xs # group_words w ys"
  by (induction xs) auto

lemma group_words_single: "w \<notin> set xs \<Longrightarrow> group_words w xs = [xs]"
  by (induction xs) auto

lemma split_word_join:
  assumes "ts \<noteq> []" and "CHR 0x20 \<notin> set w"
    and "\<And>t. t \<in> set ts \<Longrightarrow> w \<notin> set (split_on (CHR 0x20) t)"
  shows "split_word w (join_with (CHR 0x20 # w @ [CHR 0x20]) ts) = ts"
  using assms(1, 3)
proof (induction ts rule: induct_list012)
  case (3 t v ws)
  from assms(2) have "split_on (CHR 0x20) (join_with (CHR 0x20 # w @ [CHR 0x20]) (t # v # ws))
      = split_on (CHR 0x20) t @ w
          # split_on (CHR 0x20) (join_with (CHR 0x20 # w @ [CHR 0x20]) (v # ws))"
    by (simp add: split_on_append_sep)
  with 3 show ?case by (simp add: split_word_def group_words_append join_split_on)
qed (simp_all add: split_word_def group_words_single join_split_on)

lemma unparen_wrapped [simp]: "unparen (CHR ''('' # s @ '')'') = Some s"
  by simp

lemma words_of_conjunction:
  assumes "cs \<noteq> []" and "\<And>c. c \<in> set cs \<Longrightarrow> CHR 0x20 \<notin> set c \<and> 2 < length c"
    and "CHR 0x20 \<notin> set pre" and "CHR 0x20 \<notin> set post"
  shows "u \<in> set (split_on (CHR 0x20) (pre @ join_with '' AND '' cs @ post)) \<Longrightarrow>
    u = ''AND'' \<or> 2 < length u"
  using assms
proof (induction cs arbitrary: pre rule: induct_list012)
  case (3 c v ws)
  have "split_on (CHR 0x20) (pre @ join_with '' AND '' (c # v # ws) @ post)
      = (pre @ c) # ''AND'' # split_on (CHR 0x20) ([] @ join_with '' AND '' (v # ws) @ post)"
    using 3 split_on_append_sep [of "CHR 0x20" "pre @ c"]
      split_on_append_sep [of "CHR 0x20" "''AND''"] by simp
  with 3(3) have "u = pre @ c \<or> u = ''AND''
      \<or> u \<in> set (split_on (CHR 0x20) ([] @ join_with '' AND '' (v # ws) @ post))" by simp
  then consider "u = pre @ c" | "u = ''AND''"
    | "u \<in> set (split_on (CHR 0x20) ([] @ join_with '' AND '' (v # ws) @ post))" by blast
  then show ?case
  proof cases
    case 1
    with 3(5) [of c] show ?thesis by simp
  next
    case third: 3
    show ?thesis by (rule "3.IH"(2) [OF third]) (use 3 in auto)
  qed simp
qed auto

lemma render_conditions_eq:
  "render_conditions hc dc n cs = map (\<lambda>i. comparison hc dc (n + i) (cs ! i)) [0..<length cs]"
proof (induction hc dc n cs rule: render_conditions.induct)
  case (2 hc dc n ids cs)
  then show ?case
    by (simp add: hub_condition_def upt_conv_Cons map_Suc_upt [symmetric] del: upt_Suc)
next
  case (3 hc dc n ds cs)
  then show ?case
    by (simp add: department_condition_def upt_conv_Cons map_Suc_upt [symmetric] del: upt_Suc)
qed simp

lemma comparison_word:
  assumes "CHR 0x20 \<notin> set hc" and "CHR 0x20 \<notin> set dc"
  shows "CHR 0x20 \<notin> set (comparison hc dc k a) \<and> 2 < length (comparison hc dc k a)"
proof -
  have "\<not> is_space (CHR 0x20) \<or> CHR 0x20 \<notin> set (format_nat k)"
    using format_nat_no_space by blast
  then show ?thesis using assms by (cases a) (auto simp: is_space_def)
qed

lemma conjunction_value:
  assumes "CHR 0x20 \<notin> set hc" and "CHR 0x20 \<notin> set dc" and "cs \<noteq> []"
  shows "map (condition_value hc dc n (pre @ cs @ post) h d)
      (split_word ''AND'' (join_with '' AND '' (render_conditions hc dc (n + length pre) cs)))
    = map (\<lambda>a. Some (arg_holds h d a)) cs"
proof -
  let ?ts = "render_conditions hc dc (n + length pre) cs"
  have sp: "split_word ''AND'' (join_with '' AND '' ?ts) = ?ts"
  proof -
    have "split_word ''AND'' (join_with (CHR 0x20 # ''AND'' @ [CHR 0x20]) ?ts) = ?ts"
    proof (rule split_word_join)
      show "?ts \<noteq> []" using assms(3) by (simp add: render_conditions_eq)
      show "''AND'' \<notin> set (split_on (CHR 0x20) t)" if t: "t \<in> set ?ts" for t
      proof -
        from t obtain k a where "t = comparison hc dc k a" by (auto simp: render_conditions_eq)
        moreover have "comparison hc dc k a \<noteq> ''AND''" for k a
        proof
          assume "comparison hc dc k a = ''AND''"
          then have "length (comparison hc dc k a) = 3" by simp
          then show False by (cases a) simp_all
        qed
        moreover have "split_on (CHR 0x20) (comparison hc dc k a) = [comparison hc dc k a]" for k a
          using comparison_word [OF assms(1, 2)] by simp
        ultimately show ?thesis by (metis list.set(1) list.set(2) singletonD)
      qed
    qed simp
    then show ?thesis by simp
  qed
  have "condition_value hc dc n (pre @ cs @ post) h d (comparison hc dc (n + length pre + i) (cs ! i))
      = Some (arg_holds h d (cs ! i))" if "i < length cs" for i
    using that condition_value_nth [of "length pre + i" "pre @ cs @ post" hc dc n h d]
    by (simp add: nth_append add.assoc)
  then show ?thesis unfolding sp
    by (intro nth_equalityI) (simp_all add: render_conditions_eq)
qed

lemma disjunction_value:
  assumes "CHR 0x20 \<notin> set hc" and "CHR 0x20 \<notin> set dc" and "\<And>cs. cs \<in> set css \<Longrightarrow> cs \<noteq> []"
  shows "map (part_value hc dc n (pre @ concat css) h d) (render_parts hc dc (n + length pre) css)
    = map (\<lambda>cs. Some (list_all (arg_holds h d) cs)) css"
  using assms(3)
proof (induction css arbitrary: pre)
  case Nil
  then show ?case by simp
next
  case (Cons cs css)
  have "all_values (map (\<lambda>a. Some (arg_holds h d a)) cs) = Some (list_all (arg_holds h d) cs)"
    by (auto simp: all_values_def list_all_iff)
  moreover have "cs \<noteq> []" using Cons.prems by simp
  ultimately have "part_value hc dc n (pre @ cs @ concat css) h d
      (''('' @ join_with '' AND '' (render_conditions hc dc (n + length pre) cs) @ '')'')
      = Some (list_all (arg_holds h d) cs)"
    using conjunction_value [OF assms(1, 2), of cs n pre "concat css" h d]
    by (simp add: part_value_def)
  with Cons.IH [of "pre @ cs"] Cons.prems show ?case by (simp add: add.assoc)
qed

lemma parts_without_or:
  assumes "CHR 0x20 \<notin> set hc" and "CHR 0x20 \<notin> set dc" and "\<And>cs. cs \<in> set css \<Longrightarrow> cs \<noteq> []"
    and "t \<in> set (render_parts hc dc n css)"
  shows "''OR'' \<notin> set (split_on (CHR 0x20) t)"
  using assms(3, 4)
proof (induction css arbitrary: n)
  case Nil
  then show ?case by simp
next
  case (Cons cs css)
  have "''OR'' \<notin> set (split_on (CHR 0x20)
      (''('' @ join_with '' AND '' (render_conditions hc dc n cs) @ '')''))"
  proof
    assume "''OR'' \<in> set (split_on (CHR 0x20)
      (''('' @ join_with '' AND '' (render_conditions hc dc n cs) @ '')''))"
    then have "''OR'' = ''AND'' \<or> 2 < length ''OR''"
      by (rule words_of_conjunction [rotated 4])
        (use Cons.prems comparison_word [OF assms(1, 2)] in \<open>auto simp: render_conditions_eq\<close>)
    then show False by simp
  qed
  with Cons show ?case by auto
qed

lemma access_predicate_value:
  assumes "CHR 0x20 \<notin> set hc" and "CHR 0x20 \<notin> set dc"
  shows "sql_value (access_predicate flt hc dc n) hc dc n h d =
    Some (af_global flt \<or> (\<exists>cs \<in> set (access_conditions (af_groups flt) hc dc).
      list_all (arg_holds h d) cs))"
proof -
  let ?css = "access_conditions (af_groups flt) hc dc"
  have ne: "cs \<noteq> []" if "cs \<in> set ?css" for cs using that by (auto simp: access_conditions_def)
  have or: "split_word ''OR'' (join_with '' OR '' (render_parts hc dc n ?css)) = render_parts hc dc n ?css"
    if "?css \<noteq> []"
    using split_word_join [of "render_parts hc dc n ?css" "''OR''"] that
      parts_without_or [OF assms, of ?css _ n] ne by simp
  have any: "any_value (map (\<lambda>cs. Some (list_all (arg_holds h d) cs)) css)
      = Some (\<exists>cs \<in> set css. list_all (arg_holds h d) cs)" for css
    by (auto simp: any_value_def list_ex_iff)
  show ?thesis
  proof (cases "af_global flt \<or> ?css = []")
    case True
    then show ?thesis
      by (auto simp: sql_value_def access_predicate_def access_parts_render)
  next
    case False
    then have eq: "access_predicate flt hc dc n
        = (''('' @ join_with '' OR '' (render_parts hc dc n ?css) @ '')'', concat ?css)"
      by (simp add: access_predicate_def access_parts_render)
    have dv: "map (part_value hc dc n (concat ?css) h d) (render_parts hc dc n ?css)
        = map (\<lambda>cs. Some (list_all (arg_holds h d) cs)) ?css"
      using disjunction_value [OF assms, where css = ?css and pre = "[]"] ne by simp
    from False show ?thesis
      unfolding eq by (simp add: sql_value_def or dv any)
  qed
qed

section \<open>Properties\<close>

text \<open>C2: An API key only narrows its owner, and exactly by its scopes: what a request authenticated
  with a key may do, globally or on one target, is what the same owner may do without the key and
  the key's own scopes allow as well.\<close>

theorem api_key_never_widens:
  assumes "p_api_key_id p \<noteq> 0"
  shows "(allows p r \<longleftrightarrow> allows (without_key p) r \<and> ensure_permission (p_api_key_scopes p) r)
    \<and> (allows_target p r h d \<longleftrightarrow>
        allows_target (without_key p) r h d \<and> ensure_permission (p_api_key_scopes p) r)"
  using assms
  by (auto simp: allows_iff allows_target_iff [of p] allows_target_iff [of "without_key p"]
      api_key_allows_def [of p])

theorem api_key_never_widens_witness:
  "let p = \<lparr>p_user = empty_user\<lparr>u_global_permissions := Some [''hubs:*'']\<rparr>, p_jti = [],
            p_api_key_id = 7, p_api_key_scopes = [''hubs:read'', ''users:read''],
            p_user_permissions = []\<rparr>
   in allows p ''hubs:read'' \<and> allows_target p ''hubs:read'' 3 []
      \<and> allows (without_key p) ''hubs:write'' \<and> \<not> allows p ''hubs:write''
      \<and> \<not> allows_target p ''hubs:write'' 3 [] \<and> \<not> allows p ''users:read''"
proof -
  define p where "p = \<lparr>p_user = empty_user\<lparr>u_global_permissions := Some [''hubs:*'']\<rparr>, p_jti = [],
            p_api_key_id = 7, p_api_key_scopes = [''hubs:read'', ''users:read''],
            p_user_permissions = []\<rparr>"
  have k: "p_api_key_id p \<noteq> 0" by (simp add: p_def)
  have o: "allows (without_key p) ''hubs:read''" "allows_target (without_key p) ''hubs:read'' 3 []"
    "allows (without_key p) ''hubs:write''" "\<not> allows (without_key p) ''users:read''"
    by (simp_all add: p_def allows_iff allows_target_iff without_key_def api_key_allows_def
        global_permissions_def)
  have s: "ensure_permission (p_api_key_scopes p) ''hubs:read''"
    "\<not> ensure_permission (p_api_key_scopes p) ''hubs:write''"
    by (simp_all add: p_def)
  show ?thesis
    unfolding p_def [symmetric] Let_def
    using o s by (simp add: api_key_never_widens [OF k])
qed

text \<open>Restricted grants are what the model promises: without a global grant a target is allowed
  exactly when some grant that covers the permission lists its hub (if the grant lists hubs) and
  its department (if it lists departments), the two dimensions conjoined and each one a
  disjunction; a grant with no clause allows nothing.\<close>

theorem scoped_target_spec:
  assumes "\<not> ensure_permission (global_permissions p) r"
  shows "allows_target p r h d \<longleftrightarrow>
    api_key_allows p r \<and>
    (\<exists>g \<in> set (u_permission_grants (p_user p)).
       ensure_permission (pg_permissions g) r \<and>
       (pg_hub_ids g \<noteq> [] \<or> pg_departments g \<noteq> []) \<and>
       (pg_hub_ids g = [] \<or> 0 < h \<and> h \<in> set (pg_hub_ids g)) \<and>
       (pg_departments g = [] \<or> d \<noteq> [] \<and>
          (\<exists>a \<in> set (pg_departments g). equal_fold (trim_space a) (trim_space d))))"
  using assms unfolding allows_target_iff grant_groups_allow by blast

theorem scoped_target_spec_witness:
  "\<exists>p. \<not> ensure_permission (global_permissions p) ''hubs:read''
     \<and> allows_target p ''hubs:read'' 4 ''Lab '' \<and> \<not> allows_target p ''hubs:read'' 5 ''lab''"
proof -
  define g where "g = \<lparr>pg_permissions = [''hubs:read''], pg_hub_ids = [4], pg_departments = [''lab'']\<rparr>"
  define p where "p = \<lparr>p_user = empty_user\<lparr>u_global_permissions := Some [],
            u_permission_grants := [g]\<rparr>, p_jti = [], p_api_key_id = 0, p_api_key_scopes = [],
            p_user_permissions = []\<rparr>"
  have no: "\<not> ensure_permission (global_permissions p) ''hubs:read''"
    by (simp add: p_def global_permissions_def)
  have f: "equal_fold (trim_space ''lab'') (trim_space ''Lab '')" by code_simp
  have "allows_target p ''hubs:read'' 4 ''Lab ''" "\<not> allows_target p ''hubs:read'' 5 ''lab''"
    unfolding scoped_target_spec [OF no] using f
    by (simp_all add: p_def g_def api_key_allows_def)
  with no show ?thesis by blast
qed

text \<open>The SQL text of a list query numbers its placeholders consecutively from the first
  argument, one per bound argument and in the order of the arguments; a filter that no column of
  the endpoint can express is the predicate FALSE, never TRUE.\<close>

theorem access_predicate_render:
  assumes "\<not> af_global flt"
  shows "access_predicate flt hc dc n =
    (let css = access_conditions (af_groups flt) hc dc
     in (if css = [] then ''FALSE''
         else ''('' @ join_with '' OR '' (render_parts hc dc n css) @ '')'', concat css))"
  using assms
  by (auto simp: access_predicate_def access_parts_render Let_def)

theorem access_predicate_render_witness:
  "access_predicate \<lparr>af_global = False,
      af_groups = [\<lparr>sg_hub_ids = [4, 5], sg_departments = [''Lab'']\<rparr>]\<rparr> ''h.id'' [] 3
     = (''FALSE'', [])
   \<and> access_predicate \<lparr>af_global = False,
      af_groups = [\<lparr>sg_hub_ids = [4, 5], sg_departments = []\<rparr>]\<rparr> ''h.id'' [] 3
     = (''((h.id=ANY($3::bigint[])))'', [HubIds [4, 5]])"
proof -
  have "format_nat 3 = ''3''" by code_simp
  then show ?thesis
    by (simp add: access_predicate_render access_conditions_def group_conditions_def Let_def
        hub_condition_def)
qed

text \<open>C5: List queries and single-target checks agree. Take the SQL predicate the store builds for a
  principal and evaluate its text with its bound arguments on a row: it selects the row exactly
  when the same principal passes the target check for that hub and department. The hypotheses are
  that the endpoint names both columns (with texts free of spaces, as the code's are), that the
  row is one of a real hub, that departments are ASCII, that no grant carries a blank department
  and that the row's department has no white space other than spaces at its ends.\<close>

theorem list_and_target_agree:
  assumes "hc \<noteq> []" and "dc \<noteq> []" and "CHR 0x20 \<notin> set hc" and "CHR 0x20 \<notin> set dc"
    and "0 < h" and "ascii d" and "btrim d = trim_space d"
    and "\<And>g a. g \<in> set (u_permission_grants (p_user p)) \<Longrightarrow> a \<in> set (pg_departments g) \<Longrightarrow>
      ascii a \<and> trim_space a \<noteq> []"
  shows "sql_value (access_predicate (access_filter_of p r) hc dc n) hc dc n h (Some d)
    = Some (allows_target p r h d)"
proof -
  let ?gs = "grant_groups (u_permission_grants (p_user p)) r"
  have g: "group_conditions g hc dc \<noteq> [] \<and> list_all (arg_holds h (Some d)) (group_conditions g hc dc)
      \<longleftrightarrow> group_allows g h d" if "g \<in> set ?gs" for g
  proof (rule group_conditions_agree [OF assms(1, 2, 5, 7)])
    show "sg_hub_ids g \<noteq> [] \<or> sg_departments g \<noteq> []" using that by (rule grant_groups_restricted)
    show "trim_space a \<noteq> []" if "a \<in> set (sg_departments g)" for a
      using that \<open>g \<in> set ?gs\<close> assms(8) by (auto simp: grant_groups_set)
  qed
  have "(\<exists>cs \<in> set (access_conditions ?gs hc dc). list_all (arg_holds h (Some d)) cs)
      \<longleftrightarrow> (\<exists>g \<in> set ?gs. group_allows g h d)"
    using g by (auto simp: access_conditions_def)
  then show ?thesis
    by (auto simp: access_predicate_value [OF assms(3, 4)] access_filter_of_def allows_target_iff
        access_conditions_def)
qed

theorem list_and_target_agree_witness:
  "\<exists>p. row_selected (access_predicate (access_filter_of p ''hubs:read'') ''h.id'' ''u.department'' 4)
       ''h.id'' ''u.department'' 4 4 (Some '' LAB'')
     \<and> allows_target p ''hubs:read'' 4 '' LAB''"
proof -
  define g where "g = \<lparr>pg_permissions = [''hubs:read''], pg_hub_ids = [4], pg_departments = [''lab'']\<rparr>"
  define p where "p = \<lparr>p_user = empty_user\<lparr>u_global_permissions := Some [],
            u_permission_grants := [g]\<rparr>, p_jti = [], p_api_key_id = 0, p_api_key_scopes = [],
            p_user_permissions = []\<rparr>"
  have b: "btrim '' LAB'' = trim_space '' LAB''" and d: "ascii '' LAB''" by code_simp+
  have f: "equal_fold (trim_space ''lab'') (trim_space '' LAB'')" by code_simp
  have n: "trim_space ''lab'' \<noteq> []" and a: "ascii ''lab''" by code_simp+
  have blank: "ascii a \<and> trim_space a \<noteq> []"
    if "h \<in> set (u_permission_grants (p_user p))" and "a \<in> set (pg_departments h)" for h a
    using that n a by (simp add: p_def g_def)
  have t: "allows_target p ''hubs:read'' 4 '' LAB''"
    using f by (simp add: allows_target_iff p_def g_def global_permissions_def api_key_allows_def
        group_allows_iff)
  have "sql_value (access_predicate (access_filter_of p ''hubs:read'') ''h.id'' ''u.department'' 4)
      ''h.id'' ''u.department'' 4 4 (Some '' LAB'') = Some (allows_target p ''hubs:read'' 4 '' LAB'')"
    by (rule list_and_target_agree) (use b d blank in simp_all)
  with t show ?thesis unfolding row_selected_def by auto
qed

end
