(* ===== verification/Store_Queries.thy ===== *)
theory Store_Queries
  imports Go_Strings "HOL-Library.Word"
begin

text \<open>
  How list endpoints turn request parameters into SQL: paging (\<^verbatim>\<open>pageBounds\<close>, \<^verbatim>\<open>boundedLimit\<close> of
  \<^verbatim>\<open>internal/store/store.go\<close>), ordering (\<^verbatim>\<open>internal/store/sort.go\<close>), the search pattern
  (\<^verbatim>\<open>internal/store/search.go\<close>) and the byte limit of stored messages (\<^verbatim>\<open>truncate\<close> of
  \<^verbatim>\<open>internal/store/hubs.go\<close>). Go's \<^verbatim>\<open>int\<close> has 64 bits here; a product is taken modulo \<open>2 ^ 64\<close>.
\<close>

section \<open>64-bit arithmetic\<close>

definition wrap64 :: "int \<Rightarrow> int" where
  "wrap64 x = sint (word_of_int x :: 64 word)"

lemma wrap64_id: "int64_min \<le> x \<Longrightarrow> x \<le> int64_max \<Longrightarrow> wrap64 x = x"
  unfolding wrap64_def int64_min_def int64_max_def
  by (simp add: sint_sbintrunc' signed_take_bit_int_eq_self)

section \<open>Paging\<close>

definition max_int :: int where
  "max_int = uint (drop_bit 1 (- 1 :: 64 word))"

definition bounded_limit :: "int \<Rightarrow> int \<Rightarrow> int \<Rightarrow> int" where
  "bounded_limit limit fallback maximum =
     (let limit1 = (if limit < 1 then fallback else limit)
      in if maximum < limit1 then maximum else limit1)"

definition page_bounds :: "int \<Rightarrow> int \<Rightarrow> int \<times> int \<times> int" where
  "page_bounds page page_size =
     (let page1 = (if page < 1 then 1 else page);
          size1 = (if page_size < 1 then 20 else page_size);
          size2 = (if 200 < size1 then 200 else size1);
          max_page = max_int div size2;
          page2 = (if max_page < page1 then max_page else page1)
      in (page2, size2, wrap64 (wrap64 (page2 - 1) * size2)))"

section \<open>Ordering\<close>

record sort_request =
  so_key :: string
  so_direction :: string

type_synonym sort_columns = "(string \<times> string) list"

definition descending :: "sort_request \<Rightarrow> bool" where
  "descending s = equal_fold (trim_space (so_direction s)) ''desc''"

definition order_by :: "sort_columns \<Rightarrow> sort_request \<Rightarrow> string \<Rightarrow> string \<Rightarrow> string" where
  "order_by columns s fallback tiebreaker =
     (case map_of columns (trim_space (so_key s)) of
        None \<Rightarrow> fallback
      | Some expr \<Rightarrow>
          if expr = [] then fallback
          else
            let clause = expr @ (if descending s then '' DESC NULLS LAST'' else '' ASC NULLS LAST'')
            in if tiebreaker \<noteq> [] then clause @ '','' @ tiebreaker else clause)"

definition two_quotes :: string where "two_quotes = [CHR 0x27, CHR 0x27]"

definition managed_user_sort_columns :: sort_columns where
  "managed_user_sort_columns =
    [(''username'', ''u.username''),
     (''display_name'', ''u.display_name''),
     (''department'', ''COALESCE(NULLIF(u.department,'' @ two_quotes @ ''),account.department,'' @ two_quotes @ '')''),
     (''hub_name'', ''h.name''),
     (''server_status'', ''server_summary.server_status''),
     (''running_servers'', ''server_summary.running_server_count''),
     (''runtime_seconds'', ''server_summary.runtime_seconds''),
     (''cpu_cores'', ''server_summary.cpu_cores''),
     (''memory_bytes'', ''server_summary.memory_bytes''),
     (''last_activity_at'', ''server_summary.last_activity_at'')]"

definition server_sort_columns :: sort_columns where
  "server_sort_columns =
    [(''username'', ''s.username''), (''hub_name'', ''h.name''), (''status'', ''s.status''),
     (''server_name'', ''s.server_name''), (''image'', ''s.image''), (''node_name'', ''s.node_name''),
     (''pod_name'', ''s.pod_name''), (''cpu_cores'', ''s.cpu_cores''),
     (''memory_bytes'', ''s.memory_bytes''), (''gpu_count'', ''s.gpu_count''),
     (''started_at'', ''s.started_at''), (''last_activity_at'', ''s.last_activity_at''),
     (''synced_at'', ''s.synced_at'')]"

definition resource_sort_columns :: sort_columns where
  "resource_sort_columns =
    [(''name'', ''name''), (''status'', ''status''), (''created_at'', ''created_at''),
     (''updated_at'', ''updated_at'')]"

definition audit_sort_columns :: sort_columns where
  "audit_sort_columns =
    [(''created_at'', ''created_at''), (''actor_username'', ''actor_username''),
     (''action'', ''action''), (''resource_type'', ''resource_type''),
     (''resource_id'', ''resource_id''), (''ip_address'', ''ip_address''), (''result'', ''result'')]"

section \<open>Searching\<close>

definition escape_like_char :: "char \<Rightarrow> string" where
  "escape_like_char c =
     (if c = CHR 0x5C then [CHR 0x5C, CHR 0x5C]
      else if c = CHR ''%'' then [CHR 0x5C, CHR ''%'']
      else if c = CHR ''_'' then [CHR 0x5C, CHR ''_'']
      else [c])"

definition search_pattern :: "string \<Rightarrow> string" where
  "search_pattern query = ''%'' @ concat (map escape_like_char (trim_space query)) @ ''%''"

text \<open>\<^verbatim>\<open>value ILIKE pattern ESCAPE '\'\<close>: a percent sign matches any string, an underscore one character, a
  character after the escape character itself.\<close>

fun ilike :: "string \<Rightarrow> string \<Rightarrow> bool" where
  "ilike [] s = (s = [])"
| "ilike (p # ps) s =
     (if p = CHR ''%'' then list_ex (\<lambda>k. ilike ps (drop k s)) [0 ..< length s + 1]
      else if p = CHR ''_'' then (case s of [] \<Rightarrow> False | c # t \<Rightarrow> ilike ps t)
      else if p = CHR 0x5C then
        (case ps of [] \<Rightarrow> False
         | q # qs \<Rightarrow> (case s of [] \<Rightarrow> False | c # t \<Rightarrow> lower_char c = lower_char q \<and> ilike qs t))
      else (case s of [] \<Rightarrow> False | c # t \<Rightarrow> lower_char c = lower_char p \<and> ilike ps t))"

section \<open>Cutting a message to a number of bytes\<close>

definition byte :: "char \<Rightarrow> nat" where "byte c = of_char c"

definition continuation :: "char \<Rightarrow> bool" where
  "continuation c = (128 \<le> byte c \<and> byte c < 192)"

definition rune_start :: "char \<Rightarrow> bool" where
  "rune_start c = (\<not> continuation c)"

text \<open>The length of the well-formed encoding of one rune at the head of a string (\<^verbatim>\<open>unicode/utf8\<close>: no
  overlong forms, no surrogates, at most U+10FFFF), or 0.\<close>

definition rune_length :: "string \<Rightarrow> nat" where
  "rune_length s =
     (case s of
        [] \<Rightarrow> 0
      | a # t \<Rightarrow>
          if byte a < 128 then 1
          else if 194 \<le> byte a \<and> byte a < 224 then
            (case t of b # _ \<Rightarrow> if continuation b then 2 else 0 | [] \<Rightarrow> 0)
          else if 224 \<le> byte a \<and> byte a < 240 then
            (case t of
               b # c # _ \<Rightarrow>
                 if continuation b \<and> continuation c \<and> (byte a = 224 \<longrightarrow> 160 \<le> byte b)
                    \<and> (byte a = 237 \<longrightarrow> byte b < 160) then 3 else 0
             | _ \<Rightarrow> 0)
          else if 240 \<le> byte a \<and> byte a < 245 then
            (case t of
               b # c # d # _ \<Rightarrow>
                 if continuation b \<and> continuation c \<and> continuation d
                    \<and> (byte a = 240 \<longrightarrow> 144 \<le> byte b) \<and> (byte a = 244 \<longrightarrow> byte b < 144) then 4 else 0
             | _ \<Rightarrow> 0)
          else 0)"

function valid_utf8 :: "string \<Rightarrow> bool" where
  "valid_utf8 s =
     (if s = [] then True
      else if rune_length s = 0 then False
      else valid_utf8 (drop (rune_length s) s))"
  by auto
termination by (relation "measure length") auto

definition replacement :: string where
  "replacement = [CHR 0xEF, CHR 0xBF, CHR 0xBD]"

text \<open>\<^verbatim>\<open>strings.ToValidUTF8\<close>: a run of ill-formed bytes becomes one replacement character.\<close>

function to_valid_utf8 :: "string \<Rightarrow> bool \<Rightarrow> string" where
  "to_valid_utf8 s in_invalid =
     (if s = [] then []
      else if rune_length s = 0
           then (if in_invalid then [] else replacement) @ to_valid_utf8 (drop 1 s) True
      else take (rune_length s) s @ to_valid_utf8 (drop (rune_length s) s) False)"
  by auto
termination by (relation "measure (\<lambda>(s, b). length s)") auto

declare valid_utf8.simps [simp del] to_valid_utf8.simps [simp del]

fun cut_at :: "string \<Rightarrow> nat \<Rightarrow> nat" where
  "cut_at value 0 = 0"
| "cut_at value (Suc n) = (if rune_start (value ! Suc n) then Suc n else cut_at value n)"

definition truncate_text :: "string \<Rightarrow> nat \<Rightarrow> string" where
  "truncate_text value maximum =
     (let valid = (if \<not> valid_utf8 value then to_valid_utf8 value False else value)
      in if length valid \<le> maximum then valid else take (cut_at valid maximum) valid)"

section \<open>Paging never overflows\<close>

lemma max_int_value: "max_int = int64_max"
  by code_simp

text \<open>Whatever page and page size a client sends, the clamped values are in range and the offset is the
  mathematical product: it does not wrap around, so it is never negative.\<close>

theorem page_bounds_no_overflow:
  "case page_bounds page page_size of (p, n, offset) \<Rightarrow>
     1 \<le> p \<and> 1 \<le> n \<and> n \<le> 200 \<and> offset = (p - 1) * n \<and> 0 \<le> offset \<and> offset \<le> int64_max"
proof -
  define sz where "sz = (let s = (if page_size < 1 then 20 else page_size) in if 200 < s then 200 else s)"
  have sz: "1 \<le> sz" "sz \<le> 200" by (auto simp: sz_def Let_def)
  define p where "p = min (max 1 page) (int64_max div sz)"
  have p: "1 \<le> p" "p \<le> int64_max div sz"
  proof -
    have "1 \<le> int64_max div 200" by (simp add: int64_max_def)
    also have "\<dots> \<le> int64_max div sz" using sz by (intro zdiv_mono2) (auto simp: int64_max_def)
    finally show "1 \<le> p" by (simp add: p_def)
  qed (simp add: p_def)
  have "p * sz \<le> int64_max div sz * sz" using p(2) sz by (intro mult_right_mono) auto
  also have "\<dots> \<le> int64_max" using sz by (simp flip: minus_mod_eq_div_mult)
  finally have hi: "(p - 1) * sz \<le> int64_max" using sz by (simp add: left_diff_distrib)
  have lo: "0 \<le> (p - 1) * sz" using p(1) sz by simp
  have "p - 1 \<le> (p - 1) * sz" using p(1) sz by (simp add: mult_le_cancel_left1)
  with hi have "p - 1 \<le> int64_max" by simp
  then have w: "wrap64 (p - 1) = p - 1" using p(1) by (intro wrap64_id) (auto simp: int64_min_def)
  have "wrap64 ((p - 1) * sz) = (p - 1) * sz"
    using lo hi by (intro wrap64_id) (auto simp: int64_min_def)
  moreover have "page_bounds page page_size = (p, sz, wrap64 (wrap64 (p - 1) * sz))"
    unfolding page_bounds_def max_int_value p_def sz_def by (simp add: Let_def min_def max_def)
  ultimately show ?thesis using p(1) sz lo hi w by simp
qed

lemma order_by_known_columns:
  obtains "order_by columns s fallback tiebreaker = fallback"
    | expr suffix where "expr \<in> snd ` set columns" and "suffix \<in> {'' DESC NULLS LAST'', '' ASC NULLS LAST''}"
      and "order_by columns s fallback tiebreaker =
        expr @ suffix @ (if tiebreaker = [] then [] else '','' @ tiebreaker)"
proof (cases "map_of columns (trim_space (so_key s))")
  case None
  then show thesis by (intro that(1)) (simp add: order_by_def)
next
  case (Some expr)
  then have e: "expr \<in> snd ` set columns" by (force dest: map_of_SomeD)
  show thesis
  proof (cases "expr = []")
    case True
    with Some show thesis by (intro that(1)) (simp add: order_by_def)
  next
    case False
    with Some e show thesis
      by (intro that(2) [of expr "if descending s then '' DESC NULLS LAST'' else '' ASC NULLS LAST''"])
         (auto simp: order_by_def)
  qed
qed

section \<open>A search finds the text as it was typed\<close>

lemma ilike_escaped:
  "ilike (concat (map escape_like_char q) @ ps) s \<longleftrightarrow>
     (\<exists>a b. s = a @ b \<and> to_lower a = to_lower q \<and> ilike ps b)"
proof (induction q arbitrary: s)
  case Nil
  then show ?case by simp
next
  case (Cons c q)
  have step: "ilike (escape_like_char c @ qs) s \<longleftrightarrow> (\<exists>d t. s = d # t \<and> lower_char d = lower_char c \<and> ilike qs t)"
    for qs by (cases s) (auto simp: escape_like_char_def)
  have "ilike (concat (map escape_like_char (c # q)) @ ps) s \<longleftrightarrow>
      (\<exists>d t. s = d # t \<and> lower_char d = lower_char c
        \<and> (\<exists>a b. t = a @ b \<and> to_lower a = to_lower q \<and> ilike ps b))"
    using step [of "concat (map escape_like_char q) @ ps"] Cons.IH by simp
  also have "\<dots> \<longleftrightarrow> (\<exists>a b. s = a @ b \<and> to_lower a = to_lower (c # q) \<and> ilike ps b)"
    by (auto simp: to_lower_def map_eq_Cons_conv) (metis append_Cons list.simps(9))+
  finally show ?case .
qed

lemma index_of_finds: "index_of (a @ p @ b) p \<noteq> None"
proof (induction a)
  case Nil
  show ?case using has_prefix_append [of p b] by (cases "p @ b") auto
next
  case (Cons c a)
  then show ?case by simp
qed

lemma contains_sub_iff: "contains_sub s p \<longleftrightarrow> (\<exists>a b. s = a @ p @ b)"
  using index_of_Some index_of_finds unfolding contains_sub_def by blast

lemma ilike_percent [simp]: "ilike ''%'' s"
  by (auto simp: list_ex_iff intro: bexI [of _ "length s"])

text \<open>A search is literal: whatever characters the query contains, the wildcards of \<^verbatim>\<open>LIKE\<close> and its escape
  character among them, a row matches exactly when it contains the trimmed query, letters of either
  case.\<close>

theorem search_is_literal:
  "ilike (search_pattern query) s \<longleftrightarrow> contains_sub (to_lower s) (to_lower (trim_space query))"
proof -
  have "ilike (search_pattern query) s \<longleftrightarrow>
      (\<exists>k \<le> length s. \<exists>a b. drop k s = a @ b \<and> to_lower a = to_lower (trim_space query))"
  proof -
    have "ilike (search_pattern query) s \<longleftrightarrow>
        list_ex (\<lambda>k. ilike (concat (map escape_like_char (trim_space query)) @ ''%'') (drop k s))
          [0 ..< length s + 1]"
      by (simp add: search_pattern_def)
    then show ?thesis
      by (simp add: list_ex_bool_iff ilike_escaped less_Suc_eq_le Bex_def del: ilike.simps) (auto simp: le_less)
  qed
  also have "\<dots> \<longleftrightarrow> (\<exists>z a b. s = z @ a @ b \<and> to_lower a = to_lower (trim_space query))"
  proof
    assume "\<exists>k \<le> length s. \<exists>a b. drop k s = a @ b \<and> to_lower a = to_lower (trim_space query)"
    then show "\<exists>z a b. s = z @ a @ b \<and> to_lower a = to_lower (trim_space query)"
      by (metis append_take_drop_id)
  next
    assume "\<exists>z a b. s = z @ a @ b \<and> to_lower a = to_lower (trim_space query)"
    then obtain z a b where "s = z @ a @ b" "to_lower a = to_lower (trim_space query)" by blast
    then show "\<exists>k \<le> length s. \<exists>a b. drop k s = a @ b \<and> to_lower a = to_lower (trim_space query)"
      by (intro exI [of _ "length z"]) auto
  qed
  also have "\<dots> \<longleftrightarrow> contains_sub (to_lower s) (to_lower (trim_space query))"
    unfolding contains_sub_iff
  proof
    assume "\<exists>a b. to_lower s = a @ to_lower (trim_space query) @ b"
    then obtain a b where ab: "map lower_char s = a @ to_lower (trim_space query) @ b"
      by (auto simp: to_lower_def)
    define w where "w = drop (length a) s"
    define c where "c = take (length (trim_space query)) w"
    have "map lower_char w = to_lower (trim_space query) @ b"
      using ab by (simp add: w_def flip: drop_map)
    then have "to_lower c = to_lower (trim_space query)"
      by (simp add: c_def to_lower_def flip: take_map)
    moreover have "s = take (length a) s @ c @ drop (length (trim_space query)) w"
      unfolding c_def w_def by (simp only: append_take_drop_id)
    ultimately show "\<exists>z a b. s = z @ a @ b \<and> to_lower a = to_lower (trim_space query)" by blast
  qed (force simp: to_lower_append)
  finally show ?thesis .
qed

section \<open>A cut message is whole runes\<close>

lemma rune_length_le: "rune_length s \<le> length s"
  by (cases s) (auto simp: rune_length_def split: list.splits)

lemma rune_shape:
  assumes "0 < rune_length s"
  shows "\<exists>p t. s = p @ t \<and> length p = rune_length s \<and> (\<forall>u. rune_length (p @ u) = length p)
    \<and> list_all continuation (tl p)"
proof -
  obtain a t where s: "s = a # t" using assms by (cases s) (auto simp: rune_length_def)
  consider "rune_length s = 1" "byte a < 128"
    | b u where "rune_length s = 2" "t = b # u" "194 \<le> byte a" "byte a < 224" "continuation b"
    | b c u where "rune_length s = 3" "t = b # c # u" "224 \<le> byte a" "byte a < 240" "continuation b"
        "continuation c" "byte a = 224 \<longrightarrow> 160 \<le> byte b" "byte a = 237 \<longrightarrow> byte b < 160"
    | b c d u where "rune_length s = 4" "t = b # c # d # u" "240 \<le> byte a" "byte a < 245"
        "continuation b" "continuation c" "continuation d" "byte a = 240 \<longrightarrow> 144 \<le> byte b"
        "byte a = 244 \<longrightarrow> byte b < 144"
    using assms unfolding s rune_length_def by (auto split: list.splits if_splits)
  then show ?thesis
  proof cases
    case 1
    then show ?thesis by (intro exI [of _ "[a]"] exI [of _ t]) (simp add: s rune_length_def)
  next
    case 2
    then show ?thesis
      by (intro exI [of _ "[a, b]"] exI [of _ u]) (simp add: s rune_length_def)
  next
    case 3
    then show ?thesis
      by (intro exI [of _ "[a, b, c]"] exI [of _ u]) (simp add: s rune_length_def)
  next
    case 4
    then show ?thesis
      by (intro exI [of _ "[a, b, c, d]"] exI [of _ u]) (simp add: s rune_length_def)
  qed
qed

lemma valid_utf8_Nil [simp]: "valid_utf8 []"
  by (subst valid_utf8.simps) simp

lemma valid_utf8_rune:
  "0 < length p \<Longrightarrow> \<forall>u. rune_length (p @ u) = length p \<Longrightarrow> valid_utf8 (p @ u) \<longleftrightarrow> valid_utf8 u"
  by (subst valid_utf8.simps) simp

lemma valid_utf8_take:
  "valid_utf8 s \<Longrightarrow> k \<le> length s \<Longrightarrow> k = length s \<or> rune_start (s ! k) \<Longrightarrow> valid_utf8 (take k s)"
proof (induction s arbitrary: k rule: valid_utf8.induct)
  case (1 s)
  show ?case
  proof (cases "s = [] \<or> k = 0")
    case True
    then show ?thesis by auto
  next
    case False
    with 1(2) have r: "0 < rune_length s" by (subst (asm) valid_utf8.simps) (auto split: if_splits)
    then obtain p t where s: "s = p @ t" and p: "length p = rune_length s"
      "\<forall>u. rune_length (p @ u) = length p" "list_all continuation (tl p)"
      using rune_shape by blast
    have k: "length p \<le> k"
    proof (rule ccontr)
      assume "\<not> length p \<le> k"
      with False s have "k \<noteq> length s" "s ! k = tl p ! (k - 1)" "k - 1 < length (tl p)"
        by (auto simp: nth_append nth_tl)
      with 1(4) p(3) show False by (auto simp: rune_start_def list_all_length)
    qed
    have v: "valid_utf8 t" using 1(2) s valid_utf8_rune p r by metis
    have "valid_utf8 (take (k - length p) t)"
    proof -
      have d: "drop (rune_length s) s = t" using s p(1) by simp
      have e: "k - length p = length t \<or> rune_start (t ! (k - length p))"
        using 1(4) s k by (auto simp: nth_append)
      have "k - length p \<le> length t" using 1(3) s by simp
      from 1(1) [of "k - length p"] r False v d e this show ?thesis by simp
    qed
    moreover have "take k s = p @ take (k - length p) t" using s k by simp
    ultimately show ?thesis using valid_utf8_rune p r by metis
  qed
qed

lemma rune_length_replacement: "rune_length (replacement @ u) = length replacement"
  by (simp add: replacement_def rune_length_def byte_def continuation_def)

lemma to_valid_utf8_valid: "valid_utf8 (to_valid_utf8 s b)"
proof (induction s b rule: to_valid_utf8.induct)
  case (1 s b)
  show ?case
  proof (cases "s = []")
    case True
    then show ?thesis by (subst to_valid_utf8.simps) simp
  next
    case False
    show ?thesis
    proof (cases "rune_length s = 0")
      case True
      have "valid_utf8 (to_valid_utf8 (drop 1 s) True)" using 1(1) False True by blast
      then show ?thesis
        using False True valid_utf8_rune [of replacement] rune_length_replacement
        by (subst to_valid_utf8.simps) (simp add: replacement_def)
    next
      case nz: False
      then obtain p t where s: "s = p @ t" and p: "length p = rune_length s"
        "\<forall>u. rune_length (p @ u) = length p" using rune_shape by (metis neq0_conv)
      have "valid_utf8 (to_valid_utf8 (drop (rune_length s) s) False)" using 1(2) False nz by blast
      moreover have "take (rune_length s) s = p" using s p(1) by simp
      ultimately show ?thesis
        using False nz valid_utf8_rune [of p] p by (subst to_valid_utf8.simps) simp
    qed
  qed
qed

lemma cut_at_le: "cut_at s n \<le> n"
  by (induction n) auto

lemma cut_at_start: "cut_at s n = 0 \<or> rune_start (s ! cut_at s n)"
  by (induction n) auto

text \<open>A stored message is well-formed UTF-8 of at most the given number of bytes, whatever bytes the remote
  side sent: the cut never splits a rune.\<close>

theorem truncate_text_valid:
  "length (truncate_text value maximum) \<le> maximum \<and> valid_utf8 (truncate_text value maximum)"
proof -
  define v where "v = (if \<not> valid_utf8 value then to_valid_utf8 value False else value)"
  have v: "valid_utf8 v" by (simp add: v_def to_valid_utf8_valid)
  have "valid_utf8 (take (cut_at v maximum) v)" if "maximum < length v"
  proof (cases "cut_at v maximum = 0")
    case False
    with cut_at_start [of v maximum] cut_at_le [of v maximum] that v show ?thesis
      by (intro valid_utf8_take) auto
  qed simp
  with v cut_at_le [of v maximum] show ?thesis
    by (auto simp: truncate_text_def Let_def simp flip: v_def)
qed

end
