(* ===== verification/Http_Request.thy ===== *)
theory Http_Request
  imports Store_State Scoped_Access Store_Queries
begin

text \<open>
  What handlers share (\<^verbatim>\<open>internal/api/helpers.go\<close>) and the checks every request passes
  (\<^verbatim>\<open>internal/api/middleware.go\<close>). A request is the part of \<^verbatim>\<open>*http.Request\<close> the code reads; a handler
  is a database call whose error is the HTTP status and error code of the refusal.
  \<^verbatim>\<open>net/url.Parse\<close> is the parameter \<open>parse_url\<close>, which returns scheme and host.
\<close>

section \<open>Requests and replies\<close>

record request =
  rq_method :: string
  rq_path :: string
  rq_host :: string
  rq_tls :: bool
  rq_remote_addr :: string
  rq_header :: "string \<Rightarrow> string"
  rq_query :: "string \<Rightarrow> string"
  rq_path_value :: "string \<Rightarrow> string"
  rq_cookie :: "string option"
  rq_principal :: principal

type_synonym http_error = "nat \<times> string"

type_synonym 'a handler = "(store_db, http_error, 'a) tx"

definition api_error :: "nat \<Rightarrow> string \<Rightarrow> 'a handler" where
  "api_error status code = tx_throw (status, code)"

definition store_failure :: "store_error \<Rightarrow> http_error" where
  \<comment> \<open>\<^verbatim>\<open>handleStoreError\<close>\<close>
  "store_failure e = (if e = ErrNotFound then (404, ''not_found'') else (500, ''internal_error''))"

text \<open>A store call inside a handler, its error mapped to the reply.\<close>

definition tx_map_error :: "('e \<Rightarrow> 'f) \<Rightarrow> ('d, 'e, 'a) tx \<Rightarrow> ('d, 'f, 'a) tx" where
  "tx_map_error g m fs d =
     (case m fs d of (Inl e, fs', d') \<Rightarrow> (Inl (g e), fs', d') | (Inr a, fs', d') \<Rightarrow> (Inr a, fs', d'))"

definition store_call :: "'a store_tx \<Rightarrow> 'a handler" where
  "store_call = tx_map_error store_failure"

section \<open>Parameters\<close>

definition int_path :: "request \<Rightarrow> string \<Rightarrow> int option" where
  "int_path r name =
     (case parse_int (rq_path_value r name) of
        None \<Rightarrow> None
      | Some i \<Rightarrow> if i \<le> 0 then None else Some i)"

definition query_int :: "request \<Rightarrow> string \<Rightarrow> int \<Rightarrow> int option" where
  "query_int r name fallback =
     (let raw = rq_query r name
      in if raw = [] then Some fallback
         else case parse_int raw of
           None \<Rightarrow> None
         | Some value \<Rightarrow> if value < 0 then None else Some value)"

definition query_int_or_reject :: "request \<Rightarrow> string \<Rightarrow> int \<Rightarrow> int handler" where
  "query_int_or_reject r name fallback =
     (case query_int r name fallback of
        None \<Rightarrow> api_error 400 ''invalid_query''
      | Some value \<Rightarrow> tx_return value)"

definition page_query :: "request \<Rightarrow> int \<Rightarrow> (int \<times> int) handler" where
  "page_query r default_size =
     tx_bind (query_int_or_reject r ''page'' 1) (\<lambda>page.
     tx_bind (query_int_or_reject r ''page_size'' default_size) (\<lambda>page_size.
     tx_return (page, page_size)))"

definition list_sort :: "request \<Rightarrow> sort_request" where
  "list_sort r = \<lparr>so_key = rq_query r ''sort'', so_direction = rq_query r ''order''\<rparr>"

text \<open>\<^verbatim>\<open>net.SplitHostPort\<close>, the host part: None for a missing port, too many colons or stray brackets.\<close>

definition last_index :: "char \<Rightarrow> string \<Rightarrow> nat option" where
  "last_index c s =
     (if c \<in> set s then Some (length s - 1 - length (takeWhile (\<lambda>x. x \<noteq> c) (rev s))) else None)"

definition split_host_port :: "string \<Rightarrow> string option" where
  "split_host_port hostport =
     (case last_index (CHR '':'') hostport of
        None \<Rightarrow> None
      | Some i \<Rightarrow>
          if take 1 hostport = ''['' then
            (case index_of hostport '']'' of
               None \<Rightarrow> None
             | Some end_bracket \<Rightarrow>
                 if end_bracket + 1 \<noteq> i then None
                 else if CHR ''['' \<in> set (drop 1 hostport)
                      \<or> CHR '']'' \<in> set (drop (end_bracket + 1) hostport) then None
                 else Some (take (end_bracket - 1) (drop 1 hostport)))
          else
            let host = take i hostport
            in if CHR '':'' \<in> set host then None
               else if CHR ''['' \<in> set hostport \<or> CHR '']'' \<in> set hostport then None
               else Some host)"

definition client_ip :: "request \<Rightarrow> string" where
  "client_ip r = (case split_host_port (rq_remote_addr r) of Some host \<Rightarrow> host | None \<Rightarrow> rq_remote_addr r)"

section \<open>Audit\<close>

definition request_audit ::
  "request \<Rightarrow> string \<Rightarrow> string \<Rightarrow> string \<Rightarrow> string \<Rightarrow> string \<Rightarrow> json option \<Rightarrow> json option \<Rightarrow> audit_row" where
  "request_audit r action resource_type resource_id result reason before after =
     (let p = rq_principal r
      in \<lparr>au_actor_id = (if u_id (p_user p) \<noteq> 0 then Some (u_id (p_user p)) else None),
          au_actor_username = u_username (p_user p), au_action = action,
          au_resource_type = resource_type, au_resource_id = resource_id, au_before = before,
          au_after = after, au_ip = client_ip r, au_agent = rq_header r ''User-Agent'',
          au_result = result, au_reason = reason, au_request_id = rq_header r ''X-Request-ID''\<rparr>)"

definition record_audit :: "audit_row \<Rightarrow> unit store_tx" where
  "record_audit event =
     exec DbError (\<lambda>d. d\<lparr>db_audit := db_audit d @
       [if au_result event = [] then event\<lparr>au_result := ''success''\<rparr> else event]\<rparr>)"

definition audit :: "audit_row \<Rightarrow> unit handler" where
  \<comment> \<open>\<^verbatim>\<open>_ = s.Store.RecordAudit(...)\<close>\<close>
  "audit event = store_call (ignore_error (record_audit event))"

section \<open>Middleware\<close>

record parsed_url =
  pu_scheme :: string
  pu_host :: string

definition is_mutation :: "string \<Rightarrow> bool" where
  "is_mutation verb = (verb = ''POST'' \<or> verb = ''PUT'' \<or> verb = ''PATCH'' \<or> verb = ''DELETE'')"

definition is_secure_request :: "request \<Rightarrow> bool" where
  "is_secure_request r =
     (rq_tls r \<or> equal_fold (trim_space (hd (split_on (CHR '','') (rq_header r ''X-Forwarded-Proto'')))) ''https'')"

definition same_origin :: "(string \<Rightarrow> parsed_url option) \<Rightarrow> request \<Rightarrow> bool" where
  "same_origin parse_url r =
     (if to_lower (trim_space (rq_header r ''Sec-Fetch-Site'')) = ''cross-site'' then False
      else
        let origin = rq_header r ''Origin''
        in if origin = [] then True
           else case parse_url origin of
             None \<Rightarrow> False
           | Some u \<Rightarrow>
               if \<not> equal_fold (pu_host u) (rq_host r) then False
               else
                 let want_scheme = (if is_secure_request r then ''https'' else ''http'')
                 in equal_fold (pu_scheme u) want_scheme)"

definition quoted :: "string \<Rightarrow> string" where
  "quoted s = [CHR 0x27] @ s @ [CHR 0x27]"

definition content_security_policy :: string where
  "content_security_policy =
     ''default-src '' @ quoted ''self'' @ ''; img-src '' @ quoted ''self'' @ '' data:; style-src ''
     @ quoted ''self'' @ '' '' @ quoted ''unsafe-inline'' @ ''; script-src '' @ quoted ''self''
     @ ''; connect-src '' @ quoted ''self'' @ ''; object-src '' @ quoted ''none''
     @ ''; frame-ancestors '' @ quoted ''none'' @ ''; base-uri '' @ quoted ''self''
     @ ''; form-action '' @ quoted ''self''"

definition api_security_policy :: string where
  "api_security_policy = ''default-src '' @ quoted ''none'' @ ''; frame-ancestors '' @ quoted ''none''"

definition is_page_path :: "string \<Rightarrow> bool" where
  "is_page_path path =
     (\<not> list_ex (\<lambda>prefix. has_prefix path prefix)
        [''/api/'', ''/mcp'', ''/healthz'', ''/readyz'', ''/momento/''])"

definition hsts_max_age :: string where "hsts_max_age = ''max-age=31536000''"

definition security_headers :: "request \<Rightarrow> (string \<times> string) list" where
  "security_headers r =
     [(''X-Content-Type-Options'', ''nosniff''), (''X-Frame-Options'', ''DENY''),
      (''Referrer-Policy'', ''same-origin''),
      (''Permissions-Policy'', ''camera=(), microphone=(), geolocation=()''),
      (''Content-Security-Policy'',
         if is_page_path (rq_path r) then content_security_policy else api_security_policy)]
     @ (if is_secure_request r then [(''Strict-Transport-Security'', hsts_max_age)] else [])"

text \<open>The request id, the headers and the origin check, then the next handler. \<open>token\<close> is the result of
  \<^verbatim>\<open>secure.RandomToken(12)\<close>, empty when it fails.\<close>

definition middleware ::
  "(string \<Rightarrow> parsed_url option) \<Rightarrow> string \<Rightarrow> (request \<Rightarrow> 'a handler) \<Rightarrow> request \<Rightarrow>
   (string \<times> string) list \<times> 'a handler" where
  "middleware parse_url token handler r =
     (let given = trim_space (rq_header r ''X-Request-ID'');
          request_id = (if given = [] then token else given);
          r1 = (if given = [] then r\<lparr>rq_header := (rq_header r)(''X-Request-ID'' := token)\<rparr> else r)
      in ((''X-Request-ID'', request_id) # security_headers r1,
          if is_mutation (rq_method r1) \<and> \<not> same_origin parse_url r1
          then api_error 403 ''origin_denied'' else handler r1))"

definition scoped_access :: "request \<Rightarrow> string \<Rightarrow> access_filter handler" where
  "scoped_access r permission =
     (let access = access_filter_of (rq_principal r) permission
      in if \<not> af_global access \<and> af_groups access = [] then api_error 403 ''forbidden''
         else tx_return access)"

definition scoped_target_allowed :: "request \<Rightarrow> string \<Rightarrow> int \<Rightarrow> string \<Rightarrow> unit handler" where
  "scoped_target_allowed r permission hub_id department =
     (if allows_target (rq_principal r) permission hub_id department then tx_return ()
      else api_error 403 ''forbidden'')"

text \<open>\<^verbatim>\<open>require\<close>: authentication (the parameter, of \<^verbatim>\<open>internal/auth\<close>), the permission check, the handler with
  the principal in its context.\<close>

definition require ::
  "(request \<Rightarrow> principal store_tx) \<Rightarrow> string \<Rightarrow> (request \<Rightarrow> 'a handler) \<Rightarrow> request \<Rightarrow> 'a handler" where
  "require authenticate permission handler r =
     tx_bind (tx_map_error (\<lambda>_. (401, ''unauthorized'')) (authenticate r)) (\<lambda>p.
     if permission \<noteq> [] \<and> \<not> allows p permission then api_error 403 ''forbidden''
     else handler (r\<lparr>rq_principal := p\<rparr>))"

section \<open>Facts\<close>

lemma tx_map_error_Inr [simp]:
  "tx_map_error g m fs d = (Inr a, fs', d') \<longleftrightarrow> m fs d = (Inr a, fs', d')"
  by (auto simp: tx_map_error_def split: prod.splits sum.splits)

lemma store_call_Inr [simp]: "store_call m fs d = (Inr a, fs', d') \<longleftrightarrow> m fs d = (Inr a, fs', d')"
  by (simp add: store_call_def)

lemma api_error_Inr [simp]: "api_error s c fs d = (Inr a, fs', d') \<longleftrightarrow> False"
  by (simp add: api_error_def)

lemma keeps_map_error [inv_intros]: "keeps I m \<Longrightarrow> keeps I (tx_map_error g m)"
  unfolding keeps_def tx_map_error_def by (intro allI impI) (auto split: prod.splits sum.splits)

lemma keeps_store_call [inv_intros]: "keeps I m \<Longrightarrow> keeps I (store_call m)"
  unfolding store_call_def by (rule keeps_map_error)

lemma keeps_api_error [inv_intros]: "keeps I (api_error s c)"
  unfolding api_error_def by (rule keeps_pure)

lemma split_on_first: "hd (split_on c s) = takeWhile (\<lambda>x. x \<noteq> c) s"
proof (induction s)
  case (Cons x s)
  then show ?case by (cases "split_on c s") auto
qed simp

text \<open>A handler behind \<^verbatim>\<open>require\<close> only ever runs for a principal that authenticated and is globally
  allowed the permission, and sees exactly that principal.\<close>

theorem require_guards_handler:
  assumes "require authenticate permission handler r fs d = (Inr a, fs', d')" and "permission \<noteq> []"
  shows "\<exists>p fs1 d1. authenticate r fs d = (Inr p, fs1, d1) \<and> allows p permission
     \<and> handler (r\<lparr>rq_principal := p\<rparr>) fs1 d1 = (Inr a, fs', d')"
  using assms by (auto simp: require_def tx_bind_Inr split: if_splits)

lemma cross_site_mutation_refused:
  assumes "is_mutation (rq_method r)"
    and "to_lower (trim_space (rq_header r ''Sec-Fetch-Site'')) = ''cross-site''"
  shows "snd (middleware parse_url token handler r) fs d = (Inl (403, ''origin_denied''), fs, d)"
  using assms by (auto simp: middleware_def Let_def same_origin_def api_error_def tx_throw_def)

definition demo_principal :: "string list \<Rightarrow> principal" where
  "demo_principal ps = \<lparr>p_user = empty_user\<lparr>u_id := 2, u_active := True, u_global_permissions := Some ps\<rparr>,
     p_jti = ''j'', p_api_key_id = 0, p_api_key_scopes = [], p_user_permissions = ps\<rparr>"

definition demo_request :: "string \<Rightarrow> (string \<Rightarrow> string) \<Rightarrow> principal \<Rightarrow> request" where
  "demo_request verb header p = \<lparr>rq_method = verb, rq_path = ''/api/v1/roles'', rq_host = ''ops.corp'',
     rq_tls = True, rq_remote_addr = ''10.0.0.1:5000'', rq_header = header, rq_query = (\<lambda>_. []),
     rq_path_value = (\<lambda>_. ''3''), rq_cookie = None, rq_principal = p\<rparr>"

theorem require_guards_handler_witness:
  "\<exists>p fs1 d1. tx_return (demo_principal [''roles:read'']) [] (0::nat) = (Inr p, fs1, d1)
     \<and> allows p ''roles:read''"
proof -
  let ?auth = "\<lambda>r. tx_return (demo_principal [''roles:read'']) :: principal store_tx"
  have "require ?auth ''roles:read'' (\<lambda>r. tx_return (u_id (p_user (rq_principal r))))
      (demo_request ''GET'' (\<lambda>_. []) (demo_principal [])) [] d = (Inr 2, [], d)" for d
    by (simp add: require_def tx_map_error_def tx_return_def tx_bind_def allows_def demo_principal_def
        global_permissions_def api_key_allows_def demo_request_def empty_user_def)
  from require_guards_handler [OF this] show ?thesis by (simp add: tx_return_def)
qed

text \<open>An accepted mutation that names an origin names this host, over the scheme the request came by.\<close>

theorem accepted_origin_is_own:
  assumes "snd (middleware parse_url token handler r) fs d = (Inr a, fs', d')"
    and "is_mutation (rq_method r)" and "rq_header r ''Origin'' \<noteq> []"
  shows "\<exists>u. parse_url (rq_header r ''Origin'') = Some u \<and> equal_fold (pu_host u) (rq_host r)
    \<and> equal_fold (pu_scheme u) (if is_secure_request r then ''https'' else ''http'')"
proof -
  have h: "is_secure_request (r\<lparr>rq_header := (rq_header r)(''X-Request-ID'' := token)\<rparr>) = is_secure_request r"
    by (simp add: is_secure_request_def)
  show ?thesis
    using assms by (auto simp: middleware_def Let_def same_origin_def h split: if_splits option.splits)
qed

theorem accepted_origin_is_own_witness:
  "equal_fold ''OPS.corp'' (rq_host (demo_request ''POST'' (\<lambda>_. []) (demo_principal [])))"
proof -
  let ?r = "demo_request ''POST'' (\<lambda>h. if h = ''Origin'' then ''https://OPS.corp'' else []) (demo_principal [])"
  let ?parse = "\<lambda>s. if s = ''https://OPS.corp'' then Some \<lparr>pu_scheme = ''https'', pu_host = ''OPS.corp''\<rparr> else None"
  have "same_origin ?parse (?r\<lparr>rq_header := (rq_header ?r)(''X-Request-ID'' := ''t'')\<rparr>)" by code_simp
  then have "snd (middleware ?parse ''t'' (\<lambda>r. tx_return ()) ?r) [] d = (Inr (), [], d)" for d
    by (simp add: middleware_def Let_def demo_request_def tx_return_def)
  from accepted_origin_is_own [OF this] show ?thesis
    by (simp add: demo_request_def is_mutation_def)
qed

end
