(* ===== verification/Outbound_Http.thy ===== *)
theory Outbound_Http
  imports Http_Request "HOL-Library.Word"
begin

text \<open>
  Calls to configured services (\<^verbatim>\<open>internal/integration/http.go\<close>): which addresses may be called, what
  happens on a redirect, retries and size limits. \<^verbatim>\<open>url.Parse\<close>, \<^verbatim>\<open>net.ParseIP\<close> and DNS are parameters.
  An IP address is its bytes, 4 or 16 of them, as \<^verbatim>\<open>net.IP\<close>.
\<close>

unbundle bit_operations_syntax

section \<open>Destinations\<close>

type_synonym ip = "8 word list"

definition mapped_prefix :: ip where
  "mapped_prefix = [0, 0, 0, 0, 0, 0, 0, 0, 0, 0, 255, 255]"

definition to4 :: "ip \<Rightarrow> ip option" where
  "to4 a =
     (if length a = 4 then Some a
      else if length a = 16 \<and> take 12 a = mapped_prefix then Some (drop 12 a)
      else None)"

definition ip_equal :: "ip \<Rightarrow> ip \<Rightarrow> bool" where
  "ip_equal a b =
     (if length a = length b then a = b
      else if length a = 4 \<and> length b = 16 then take 12 b = mapped_prefix \<and> a = drop 12 b
      else if length a = 16 \<and> length b = 4 then take 12 a = mapped_prefix \<and> drop 12 a = b
      else False)"

definition ipv6_unspecified :: ip where
  "ipv6_unspecified = [0, 0, 0, 0, 0, 0, 0, 0, 0, 0, 0, 0, 0, 0, 0, 0]"

definition ipv6_loopback :: ip where
  "ipv6_loopback = [0, 0, 0, 0, 0, 0, 0, 0, 0, 0, 0, 0, 0, 0, 0, 1]"

definition is_unspecified :: "ip \<Rightarrow> bool" where
  "is_unspecified a = (ip_equal a (mapped_prefix @ [0, 0, 0, 0]) \<or> ip_equal a ipv6_unspecified)"

definition is_loopback :: "ip \<Rightarrow> bool" where
  "is_loopback a = (case to4 a of Some v \<Rightarrow> v ! 0 = 127 | None \<Rightarrow> ip_equal a ipv6_loopback)"

definition is_multicast :: "ip \<Rightarrow> bool" where
  "is_multicast a =
     (case to4 a of Some v \<Rightarrow> v ! 0 AND 0xF0 = 0xE0 | None \<Rightarrow> length a = 16 \<and> a ! 0 = 0xFF)"

definition is_link_local_multicast :: "ip \<Rightarrow> bool" where
  "is_link_local_multicast a =
     (case to4 a of
        Some v \<Rightarrow> v ! 0 = 224 \<and> v ! 1 = 0 \<and> v ! 2 = 0
      | None \<Rightarrow> length a = 16 \<and> a ! 0 = 0xFF \<and> a ! 1 AND 0x0F = 0x02)"

definition is_link_local_unicast :: "ip \<Rightarrow> bool" where
  "is_link_local_unicast a =
     (case to4 a of
        Some v \<Rightarrow> v ! 0 = 169 \<and> v ! 1 = 254
      | None \<Rightarrow> length a = 16 \<and> a ! 0 = 0xFE \<and> a ! 1 AND 0xC0 = 0x80)"

datatype endpoint_error =
    BadUrl | BadScheme | NoHost | LoopbackName | MetadataHost | LocalAddress | MetadataAddress
  | UserInfo | HasFragment | BadAddress | DnsFailure | NoAddress | TooManyRedirects | Downgrade

definition validate_destination_ip :: "ip \<Rightarrow> (endpoint_error, unit) res" where
  "validate_destination_ip a =
     (if is_loopback a \<or> is_unspecified a \<or> is_multicast a \<or> is_link_local_unicast a
         \<or> is_link_local_multicast a then Inl LocalAddress
      else if ip_equal a (mapped_prefix @ [100, 100, 100, 200])
              \<or> ip_equal a (mapped_prefix @ [192, 0, 0, 192]) then Inl MetadataAddress
      else Inr ())"

record url =
  url_scheme :: string
  url_host :: string
  url_hostname :: string
  url_has_user :: bool
  url_fragment :: string

definition blocked_metadata_hosts :: "string list" where
  "blocked_metadata_hosts =
     [''metadata'', ''metadata.google.internal'', ''metadata.azure.internal'', ''instance-data'',
      ''instance-data.ec2.internal'']"

definition validate_parsed :: "(string \<Rightarrow> ip option) \<Rightarrow> url \<Rightarrow> (endpoint_error, url) res" where
  "validate_parsed parse_ip u =
     (if url_scheme u \<noteq> ''http'' \<and> url_scheme u \<noteq> ''https'' then Inl BadScheme
      else if url_hostname u = [] then Inl NoHost
      else
        let hostname = to_lower (trim_suffix (url_hostname u) ''.'')
        in if hostname = ''localhost'' then Inl LoopbackName
           else if hostname \<in> set blocked_metadata_hosts then Inl MetadataHost
           else res_bind (case parse_ip hostname of None \<Rightarrow> Inr () | Some a \<Rightarrow> validate_destination_ip a)
             (\<lambda>_. if url_has_user u then Inl UserInfo
                  else if url_fragment u \<noteq> [] then Inl HasFragment
                  else Inr u))"

definition validate_endpoint ::
  "(string \<Rightarrow> url option) \<Rightarrow> (string \<Rightarrow> ip option) \<Rightarrow> string \<Rightarrow> (endpoint_error, url) res" where
  "validate_endpoint parse_url parse_ip raw =
     (case parse_url (trim_space raw) of
        None \<Rightarrow> Inl BadUrl
      | Some u \<Rightarrow> validate_parsed parse_ip u)"

fun validate_all :: "ip list \<Rightarrow> (endpoint_error, unit) res" where
  "validate_all [] = Inr ()"
| "validate_all (a # as) = res_bind (validate_destination_ip a) (\<lambda>_. validate_all as)"

text \<open>The dialer: the address to connect to. \<open>lookup_ips\<close> is the resolver's answer.\<close>

definition safe_dial :: "(string \<Rightarrow> ip list option) \<Rightarrow> string \<Rightarrow> (endpoint_error, ip) res" where
  "safe_dial lookup_ips address =
     (case split_host_port address of
        None \<Rightarrow> Inl BadAddress
      | Some host \<Rightarrow>
          (case lookup_ips host of
             None \<Rightarrow> Inl DnsFailure
           | Some ips \<Rightarrow>
               if ips = [] then Inl NoAddress
               else res_bind (validate_all ips) (\<lambda>_. Inr (hd ips))))"

definition client_timeout :: "int \<Rightarrow> int" where
  "client_timeout timeout = (if timeout \<le> 0 \<or> 30 * second < timeout then 10 * second else timeout)"

definition dial_timeout :: "int \<Rightarrow> int" where
  "dial_timeout timeout = (if 0 < timeout then min timeout (5 * second) else 5 * second)"

section \<open>Redirects\<close>

text \<open>\<^verbatim>\<open>CheckRedirect\<close>: \<open>via\<close> are the targets so far, oldest first; the result says whether the credential
  headers stay on this request.\<close>

definition check_redirect ::
  "(string \<Rightarrow> ip option) \<Rightarrow> url list \<Rightarrow> url \<Rightarrow> bool \<Rightarrow> (endpoint_error, bool) res" where
  "check_redirect parse_ip via target has_credentials =
     (if 3 \<le> length via then Inl TooManyRedirects
      else res_bind (validate_parsed parse_ip target) (\<lambda>_.
        if via = [] then Inr has_credentials
        else
          let previous = last via
          in if equal_fold (url_scheme previous) ''https'' \<and> \<not> equal_fold (url_scheme target) ''https''
             then Inl Downgrade
             else if \<not> equal_fold (url_scheme target) (url_scheme previous)
                     \<or> \<not> equal_fold (url_host target) (url_host previous)
                  then Inr False
             else Inr has_credentials))"

text \<open>
  How \<^verbatim>\<open>net/http\<close> follows redirects: each request starts from the headers of the first one; the
  credential headers are left out (from then on) once a target is neither the host of the first
  request nor below it, ports aside; then \<^verbatim>\<open>CheckRedirect\<close> decides about this request.
\<close>

definition same_or_subdomain :: "string \<Rightarrow> string \<Rightarrow> bool" where
  "same_or_subdomain sub parent = (sub = parent \<or> has_suffix sub (''.'' @ parent))"

fun follow ::
  "(string \<Rightarrow> ip option) \<Rightarrow> url \<Rightarrow> url list \<Rightarrow> bool \<Rightarrow> url list \<Rightarrow> (endpoint_error, (url \<times> bool) list) res" where
  "follow parse_ip first via stripped [] = Inr []"
| "follow parse_ip first via stripped (target # targets) =
     (let stripped1 = (stripped \<or> url_host first \<noteq> url_host target
             \<and> \<not> same_or_subdomain (url_hostname target) (url_hostname first))
      in res_bind (check_redirect parse_ip via target (\<not> stripped1)) (\<lambda>credentials.
         res_bind (follow parse_ip first (via @ [target]) stripped1 targets) (\<lambda>rest.
         Inr ((target, credentials) # rest))))"

definition redirected :: "(string \<Rightarrow> ip option) \<Rightarrow> url \<Rightarrow> url list \<Rightarrow> (endpoint_error, (url \<times> bool) list) res" where
  "redirected parse_ip first targets = follow parse_ip first [first] False targets"

section \<open>Requests\<close>

definition max_response_bytes :: nat where "max_response_bytes = 8 * 2 ^ 20"

datatype transport_result = ConnectionError | Response nat nat bool
  \<comment> \<open>a response: status, bytes of the body, whether it decodes\<close>

datatype call_error = CallFailed | TooLarge | HttpStatus nat | BadJson

definition judge_response :: "transport_result \<Rightarrow> (call_error, nat) res" where
  "judge_response r =
     (case r of
        ConnectionError \<Rightarrow> Inl CallFailed
      | Response status bytes decodes \<Rightarrow>
          if max_response_bytes < bytes then Inl TooLarge
          else if status < 200 \<or> 300 \<le> status then Inl (HttpStatus status)
          else if 0 < bytes \<and> \<not> decodes then Inl BadJson
          else Inr status)"

definition call_attempts :: "string \<Rightarrow> bool \<Rightarrow> nat" where
  "call_attempts verb retry = (if retry \<and> (verb = ''GET'' \<or> verb = ''HEAD'') then 2 else 1)"

fun attempt_calls :: "(nat \<Rightarrow> transport_result) \<Rightarrow> nat \<Rightarrow> nat \<Rightarrow> (call_error, nat) res \<times> nat" where
  \<comment> \<open>attempt \<open>k\<close>, \<open>n\<close> left; with the number of requests sent\<close>
  "attempt_calls transport k 0 = (Inl CallFailed, k)"
| "attempt_calls transport k (Suc n) =
     (case transport k of
        ConnectionError \<Rightarrow> if n = 0 then (Inl CallFailed, k + 1) else attempt_calls transport (k + 1) n
      | r \<Rightarrow> (judge_response r, k + 1))"

definition do_json :: "(nat \<Rightarrow> transport_result) \<Rightarrow> string \<Rightarrow> bool \<Rightarrow> (call_error, nat) res \<times> nat" where
  "do_json transport verb retry = attempt_calls transport 0 (call_attempts verb retry)"

section \<open>Properties\<close>

lemma to4_mapped [simp]: "length v = 4 \<Longrightarrow> to4 (mapped_prefix @ v) = Some v"
  by (simp add: to4_def mapped_prefix_def)

lemma to4_plain [simp]: "length v = 4 \<Longrightarrow> to4 v = Some v"
  by (simp add: to4_def)

lemma length_mapped_prefix [simp]: "length mapped_prefix = 12"
  by (simp add: mapped_prefix_def)

lemma ip_equal_mapped [simp]:
  "length v = 4 \<Longrightarrow> length w = 4 \<Longrightarrow> ip_equal (mapped_prefix @ v) (mapped_prefix @ w) = (v = w)"
  "length v = 4 \<Longrightarrow> length w = 4 \<Longrightarrow> ip_equal v (mapped_prefix @ w) = (v = w)"
  by (simp_all add: ip_equal_def)

lemma ip_equal_ipv6 [simp]:
  "length v = 4 \<Longrightarrow> \<not> ip_equal v ipv6_unspecified"
  "length v = 4 \<Longrightarrow> \<not> ip_equal (mapped_prefix @ v) ipv6_unspecified"
  by (simp_all add: ip_equal_def ipv6_unspecified_def mapped_prefix_def)

text \<open>The judgement of an IPv4 address, in either spelling.\<close>

definition refused_ipv4 :: "ip \<Rightarrow> (endpoint_error, unit) res" where
  "refused_ipv4 v =
     (if v ! 0 = 127 \<or> v = [0, 0, 0, 0] \<or> v ! 0 AND 0xF0 = 0xE0 \<or> (v ! 0 = 169 \<and> v ! 1 = 254)
         \<or> (v ! 0 = 224 \<and> v ! 1 = 0 \<and> v ! 2 = 0) then Inl LocalAddress
      else if v = [100, 100, 100, 200] \<or> v = [192, 0, 0, 192] then Inl MetadataAddress
      else Inr ())"

lemma validate_ipv4:
  assumes "length v = 4"
  shows "validate_destination_ip v = refused_ipv4 v"
    and "validate_destination_ip (mapped_prefix @ v) = refused_ipv4 v"
  using assms
  by (simp_all only: validate_destination_ip_def is_loopback_def is_unspecified_def is_multicast_def
      is_link_local_unicast_def is_link_local_multicast_def refused_ipv4_def to4_plain to4_mapped
      option.case ip_equal_mapped ip_equal_ipv6 list.size simp_thms disj_ac)

text \<open>An IPv4 address cannot be smuggled in through its IPv6-mapped spelling: both are judged alike.\<close>

theorem mapped_address_judged_alike:
  "validate_destination_ip (mapped_prefix @ [a, b, c, d]) = validate_destination_ip [a, b, c, d]"
  by (simp add: validate_ipv4)

text \<open>What an accepted IPv4 address is not.\<close>

definition internal_ipv4 :: "8 word \<Rightarrow> 8 word \<Rightarrow> 8 word \<Rightarrow> 8 word \<Rightarrow> bool" where
  "internal_ipv4 a b c d \<longleftrightarrow>
     a = 127 \<or> (a, b, c, d) = (0, 0, 0, 0) \<or> (a, b) = (169, 254) \<or> 224 \<le> a \<and> a < 240
     \<or> (a, b, c, d) = (100, 100, 100, 200) \<or> (a, b, c, d) = (192, 0, 0, 192)"

lemma multicast_range: "(a :: 8 word) AND 0xF0 = 0xE0 \<longleftrightarrow> 224 \<le> a \<and> a < 240"
proof -
  have "\<forall>n \<in> set [0 ..< 256]. (word_of_nat n :: 8 word) AND 0xF0 = 0xE0 \<longleftrightarrow>
      224 \<le> (word_of_nat n :: 8 word) \<and> (word_of_nat n :: 8 word) < 240"
    by code_simp
  moreover have "unat a \<in> set [0 ..< 256]" using unsigned_less [of a] by simp
  ultimately have "(word_of_nat (unat a) :: 8 word) AND 0xF0 = 0xE0 \<longleftrightarrow>
      224 \<le> (word_of_nat (unat a) :: 8 word) \<and> (word_of_nat (unat a) :: 8 word) < 240"
    by blast
  then show ?thesis by (simp only: of_nat_unat ucast_id)
qed

lemma accepted_ipv4_iff:
  "validate_destination_ip [a, b, c, d] = Inr () \<longleftrightarrow> \<not> internal_ipv4 a b c d"
  by (auto simp: validate_ipv4 refused_ipv4_def multicast_range internal_ipv4_def)

lemma validate_all_iff: "validate_all as = Inr () \<longleftrightarrow> (\<forall>a \<in> set as. validate_destination_ip a = Inr ())"
  by (induction as) (auto simp: res_bind_Inr_iff)

text \<open>
  The addresses a call must not reach, written out independently of the code's predicates: of IPv4
  (in either spelling) the ones above; of IPv6 the unspecified address, the loopback address,
  fe80::/10 (link-local) and ff00::/8 (multicast).
\<close>

definition internal_address :: "ip \<Rightarrow> bool" where
  "internal_address x \<longleftrightarrow>
     (length x = 4 \<and> internal_ipv4 (x ! 0) (x ! 1) (x ! 2) (x ! 3))
     \<or> (length x = 16
        \<and> (if take 12 x = replicate 10 0 @ [255, 255]
           then internal_ipv4 (x ! 12) (x ! 13) (x ! 14) (x ! 15)
           else x = replicate 16 0 \<or> x = replicate 15 0 @ [1] \<or> x ! 0 = 255
                \<or> x ! 0 = 254 \<and> 128 \<le> x ! 1 \<and> x ! 1 < 192))"

lemma link_local_range: "(a :: 8 word) AND 0xC0 = 0x80 \<longleftrightarrow> 128 \<le> a \<and> a < 192"
proof -
  have "\<forall>n \<in> set [0 ..< 256]. (word_of_nat n :: 8 word) AND 0xC0 = 0x80 \<longleftrightarrow>
      128 \<le> (word_of_nat n :: 8 word) \<and> (word_of_nat n :: 8 word) < 192"
    by code_simp
  moreover have "unat a \<in> set [0 ..< 256]" using unsigned_less [of a] by simp
  ultimately have "(word_of_nat (unat a) :: 8 word) AND 0xC0 = 0x80 \<longleftrightarrow>
      128 \<le> (word_of_nat (unat a) :: 8 word) \<and> (word_of_nat (unat a) :: 8 word) < 192"
    by blast
  then show ?thesis by (simp only: of_nat_unat ucast_id)
qed

lemma four_bytes: "length v = 4 \<Longrightarrow> v = [v ! 0, v ! 1, v ! 2, v ! 3]"
  by (simp add: list_eq_iff_nth_eq nth_Cons' less_Suc_eq numeral_eq_Suc)

lemma accepted_ipv4:
  "length v = 4 \<Longrightarrow> validate_destination_ip v = Inr () \<longleftrightarrow> \<not> internal_ipv4 (v ! 0) (v ! 1) (v ! 2) (v ! 3)"
  using four_bytes accepted_ipv4_iff by metis

lemma accepted_ipv6:
  assumes "length x = 16" and "take 12 x \<noteq> mapped_prefix"
  shows "validate_destination_ip x = Inr () \<longleftrightarrow>
    \<not> (x = replicate 16 0 \<or> x = replicate 15 0 @ [1] \<or> x ! 0 = 255
       \<or> x ! 0 = 254 \<and> 128 \<le> x ! 1 \<and> x ! 1 < 192)"
proof -
  from assms have n: "to4 x = None" by (simp add: to4_def)
  have m: "x \<noteq> mapped_prefix @ v" for v using assms(2) by auto
  have u: "ipv6_unspecified = replicate 16 0" "ipv6_loopback = replicate 15 0 @ [1]"
    by (simp_all add: ipv6_unspecified_def ipv6_loopback_def numeral_eq_Suc)
  have e: "ip_equal x (mapped_prefix @ v) \<longleftrightarrow> False" if "length v = 4" for v
    using assms(1) m that by (simp add: ip_equal_def)
  have f: "ip_equal x ipv6_unspecified \<longleftrightarrow> x = replicate 16 0"
    "ip_equal x ipv6_loopback \<longleftrightarrow> x = replicate 15 0 @ [1]"
    unfolding u using assms(1) by (simp_all add: ip_equal_def)
  show ?thesis
    using assms(1)
    by (auto simp: validate_destination_ip_def is_loopback_def is_unspecified_def is_multicast_def
        is_link_local_unicast_def is_link_local_multicast_def n e f link_local_range)
qed

lemma accepted_iff:
  assumes "length x = 4 \<or> length x = 16"
  shows "validate_destination_ip x = Inr () \<longleftrightarrow> \<not> internal_address x"
proof -
  have pre: "mapped_prefix = replicate 10 0 @ [255, 255]"
    by (simp add: mapped_prefix_def numeral_eq_Suc)
  consider "length x = 4" | "length x = 16" "take 12 x = mapped_prefix"
    | "length x = 16" "take 12 x \<noteq> mapped_prefix"
    using assms by blast
  then show ?thesis
  proof cases
    case 1
    then show ?thesis by (simp add: accepted_ipv4 internal_address_def)
  next
    case 2
    then have x: "x = mapped_prefix @ drop 12 x" by (metis append_take_drop_id)
    from 2 have l: "length (drop 12 x) = 4" by simp
    have "validate_destination_ip x = validate_destination_ip (drop 12 x)"
      using validate_ipv4 [OF l] x by metis
    with 2 accepted_ipv4 [OF l] show ?thesis
      by (simp add: internal_address_def pre)
  next
    case 3
    then show ?thesis by (simp add: accepted_ipv6 internal_address_def pre)
  qed
qed

text \<open>C7: A connection is only opened when every address the name resolves to is acceptable, so no answer of a
  resolver steers a call to the unspecified, loopback, link-local, multicast or metadata addresses
  of IPv4, of IPv6 or of IPv4 spelled in IPv6, not even an answer that mixes them with others; and
  the address dialled is one that was checked. Nothing else is refused: a dial fails otherwise only
  when the address cannot be split or the name not be resolved.\<close>

theorem dialled_address_is_safe:
  assumes "\<And>host ips x. lookup_ips host = Some ips \<Longrightarrow> x \<in> set ips \<Longrightarrow> length x = 4 \<or> length x = 16"
  shows "safe_dial lookup_ips address = Inr chosen \<longleftrightarrow>
    (\<exists>host ips. split_host_port address = Some host \<and> lookup_ips host = Some ips \<and> ips \<noteq> []
      \<and> chosen = hd ips \<and> (\<forall>x \<in> set ips. \<not> internal_address x))"
proof -
  have "validate_all ips = Inr () \<longleftrightarrow> (\<forall>x \<in> set ips. \<not> internal_address x)"
    if "lookup_ips host = Some ips" for host ips
    unfolding validate_all_iff using accepted_iff assms [OF that] by blast
  then show ?thesis
    by (auto simp: safe_dial_def res_bind_Inr_iff split: option.splits if_splits)
qed

theorem dialled_address_is_safe_witness:
  "safe_dial (\<lambda>h. Some [[10, 0, 0, 7]]) ''hub.corp:443'' = Inr [10, 0, 0, 7]
   \<and> safe_dial (\<lambda>h. Some [[10, 0, 0, 7], replicate 15 0 @ [1]]) ''hub.corp:443'' \<noteq> Inr [10, 0, 0, 7]"
proof -
  have s: "split_host_port ''hub.corp:443'' = Some ''hub.corp''" by code_simp
  have i: "\<not> internal_address [10, 0, 0, 7]" "internal_address (replicate 15 0 @ [1])"
    by code_simp+
  have "safe_dial (\<lambda>h. Some [[10, 0, 0, 7]]) ''hub.corp:443'' = Inr [10, 0, 0, 7]"
    by (subst dialled_address_is_safe) (auto simp: s i)
  moreover have "safe_dial (\<lambda>h. Some [[10, 0, 0, 7], replicate 15 0 @ [1]]) ''hub.corp:443'' \<noteq> Inr [10, 0, 0, 7]"
    by (subst dialled_address_is_safe) (auto simp: i)
  ultimately show ?thesis by blast
qed

lemma attempt_calls_count:
  "0 < n \<Longrightarrow> k < snd (attempt_calls transport k n) \<and> snd (attempt_calls transport k n) \<le> k + n"
proof (induction n arbitrary: k)
  case (Suc n)
  show ?case
  proof (cases "transport k = ConnectionError \<and> n \<noteq> 0")
    case True
    with Suc.IH [of "k + 1"] show ?thesis by auto
  next
    case False
    then show ?thesis by (auto split: transport_result.split)
  qed
qed simp

text \<open>A request that changes something is sent exactly once, whatever the network does; only reads are
  repeated, and only once.\<close>

theorem mutations_sent_once:
  "snd (do_json transport verb retry) \<le> (if verb = ''GET'' \<or> verb = ''HEAD'' then 2 else 1)
   \<and> 1 \<le> snd (do_json transport verb retry)"
  using attempt_calls_count [of "call_attempts verb retry" 0 transport]
  by (auto simp: do_json_def call_attempts_def split: if_splits)

text \<open>The credential headers do reach another service: \<^verbatim>\<open>CheckRedirect\<close> removes them from the request that
  changes the authority, but the next redirect inside the new authority starts again from the first
  request's headers and is compared with its predecessor only. Here a second redirect hands the
  token of \<^verbatim>\<open>hub.corp\<close> to \<^verbatim>\<open>evil.hub.corp\<close>.\<close>

theorem redirect_restores_credentials:
  "redirected (\<lambda>_. None)
     \<lparr>url_scheme = ''https'', url_host = ''hub.corp'', url_hostname = ''hub.corp'', url_has_user = False, url_fragment = []\<rparr>
     [\<lparr>url_scheme = ''https'', url_host = ''evil.hub.corp'', url_hostname = ''evil.hub.corp'', url_has_user = False, url_fragment = []\<rparr>,
      \<lparr>url_scheme = ''https'', url_host = ''evil.hub.corp'', url_hostname = ''evil.hub.corp'', url_has_user = False, url_fragment = []\<rparr>]
   = Inr [(\<lparr>url_scheme = ''https'', url_host = ''evil.hub.corp'', url_hostname = ''evil.hub.corp'', url_has_user = False, url_fragment = []\<rparr>, False),
          (\<lparr>url_scheme = ''https'', url_host = ''evil.hub.corp'', url_hostname = ''evil.hub.corp'', url_has_user = False, url_fragment = []\<rparr>, True)]"
  by code_simp

end
