(* ===== verification/Return_Path.thy ===== *)
theory Return_Path
  imports Go_Strings
begin

text \<open>
  Where a browser lands after a single sign-on: \<^verbatim>\<open>SanitizeReturnTo\<close> and the login paths of
  \<^verbatim>\<open>internal/auth/oidc.go\<close>, over the part of Go's \<^verbatim>\<open>net/url\<close> they use. The sanitiser only ever parses a
  string that starts with one slash, so \<open>parse_rooted\<close> is \<^verbatim>\<open>url.Parse\<close> on such strings (no scheme, no
  authority) and \<open>rooted_string\<close> is \<^verbatim>\<open>URL.String\<close>.
\<close>

section \<open>Percent encoding (\<^verbatim>\<open>net/url\<close>)\<close>

definition is_hex :: "char \<Rightarrow> bool" where
  "is_hex c = (let n = (of_char c :: nat) in 48 \<le> n \<and> n \<le> 57 \<or> 65 \<le> n \<and> n \<le> 70 \<or> 97 \<le> n \<and> n \<le> 102)"

definition unhex :: "char \<Rightarrow> nat" where
  "unhex c = (let n = (of_char c :: nat) in if n \<le> 57 then n - 48 else if n \<le> 70 then n - 55 else n - 87)"

definition upper_hex :: "nat \<Rightarrow> char" where
  "upper_hex n = (if n < 10 then char_of (48 + n) else char_of (55 + n))"

text \<open>\<open>query_mode\<close> is the query mode, in which a plus sign is a space. \<open>None\<close> is an escape error.\<close>

fun url_unescape :: "bool \<Rightarrow> string \<Rightarrow> string option" where
  "url_unescape query_mode [] = Some []"
| "url_unescape query_mode (c # s) =
     (if c = CHR ''%'' then
        (case s of
           a # b # t \<Rightarrow>
             if is_hex a \<and> is_hex b
             then map_option ((#) (char_of (16 * unhex a + unhex b))) (url_unescape query_mode t) else None
         | _ \<Rightarrow> None)
      else map_option ((#) (if query_mode \<and> c = CHR ''+'' then CHR '' '' else c)) (url_unescape query_mode s))"

definition percent :: "char \<Rightarrow> string" where
  "percent c = (let n = (of_char c :: nat) in [CHR ''%'', upper_hex (n div 16), upper_hex (n mod 16)])"

definition url_escape :: "(char \<Rightarrow> bool) \<Rightarrow> string \<Rightarrow> string" where
  "url_escape keep s = concat (map (\<lambda>c. if keep c then [c] else percent c) s)"

definition unreserved :: "char \<Rightarrow> bool" where
  "unreserved c =
     (let n = (of_char c :: nat)
      in 97 \<le> n \<and> n \<le> 122 \<or> 65 \<le> n \<and> n \<le> 90 \<or> 48 \<le> n \<and> n \<le> 57 \<or> c \<in> set ''-_.~'')"

definition path_keep :: "char \<Rightarrow> bool" where
  "path_keep c = (unreserved c \<or> c \<in> set ''$&+,/:;=@'')"

definition fragment_keep :: "char \<Rightarrow> bool" where
  "fragment_keep c = (unreserved c \<or> c \<in> set ''$&+,/:;=?@!()*'')"

definition valid_encoded :: "(char \<Rightarrow> bool) \<Rightarrow> string \<Rightarrow> bool" where
  "valid_encoded keep s =
     list_all (\<lambda>c. c \<in> set ''!$&()*+,;=:@[]%'' \<or> c = CHR 0x27 \<or> keep c) s"

text \<open>\<^verbatim>\<open>setPath\<close> and \<^verbatim>\<open>setFragment\<close>: the decoded text, and the given one when it is not the default encoding.\<close>

definition set_part :: "(char \<Rightarrow> bool) \<Rightarrow> string \<Rightarrow> (string \<times> string) option" where
  "set_part keep s =
     (case url_unescape False s of
        None \<Rightarrow> None
      | Some p \<Rightarrow> Some (p, if url_escape keep p = s then [] else s))"

definition escaped_part :: "(char \<Rightarrow> bool) \<Rightarrow> string \<times> string \<Rightarrow> string" where
  "escaped_part keep = (\<lambda>(p, raw).
     if raw \<noteq> [] \<and> valid_encoded keep raw \<and> url_unescape False raw = Some p then raw
     else url_escape keep p)"

record rooted_url =
  ru_path :: "string \<times> string"
  ru_force_query :: bool
  ru_raw_query :: string
  ru_fragment :: "string \<times> string"

definition cut :: "char \<Rightarrow> string \<Rightarrow> string \<times> string" where
  "cut c s = (takeWhile (\<lambda>x. x \<noteq> c) s, tl (dropWhile (\<lambda>x. x \<noteq> c) s))"

definition parse_rooted :: "string \<Rightarrow> rooted_url option" where
  "parse_rooted s =
     (let (u, frag) = cut (CHR ''#'') s;
          force = (has_suffix u ''?'' \<and> CHR ''?'' \<notin> set (butlast u));
          (path, query) = (if force then (butlast u, []) else cut (CHR ''?'') u)
      in case set_part path_keep path of
           None \<Rightarrow> None
         | Some p \<Rightarrow>
             if frag = [] then
               Some \<lparr>ru_path = p, ru_force_query = force, ru_raw_query = query, ru_fragment = ([], [])\<rparr>
             else
               (case set_part fragment_keep frag of
                  None \<Rightarrow> None
                | Some f \<Rightarrow> Some \<lparr>ru_path = p, ru_force_query = force, ru_raw_query = query,
                                  ru_fragment = f\<rparr>))"

definition rooted_string :: "rooted_url \<Rightarrow> string" where
  "rooted_string u =
     escaped_part path_keep (ru_path u)
     @ (if ru_force_query u \<or> ru_raw_query u \<noteq> [] then ''?'' @ ru_raw_query u else [])
     @ (if fst (ru_fragment u) \<noteq> [] then ''#'' @ escaped_part fragment_keep (ru_fragment u) else [])"

section \<open>The sanitiser\<close>

definition default_return_to :: string where "default_return_to = ''/''"

definition max_return_to_length :: nat where "max_return_to_length = 512"

definition is_control :: "char \<Rightarrow> bool" where
  "is_control c = ((of_char c :: nat) < 32 \<or> (of_char c :: nat) = 127)"

definition sanitize_return_to :: "string \<Rightarrow> string" where
  "sanitize_return_to raw =
     (if raw = [] \<or> max_return_to_length < length raw then default_return_to
      else case url_unescape True raw of
        None \<Rightarrow> default_return_to
      | Some unescaped \<Rightarrow>
          let decoded = trim_space unescaped
          in if \<not> has_prefix decoded ''/'' then default_return_to
             else if has_prefix decoded ''//'' \<or> has_prefix decoded [CHR ''/'', CHR 0x5C]
             then default_return_to
             else if list_ex is_control decoded then default_return_to
             else case parse_rooted decoded of
                    None \<Rightarrow> default_return_to
                  | Some parsed \<Rightarrow> rooted_string parsed)"

section \<open>The login page\<close>

definition login_path :: string where "login_path = ''/login''"

definition sso_marker_none :: string where "sso_marker_none = ''none''"

definition sso_marker_error :: string where "sso_marker_error = ''error''"

definition sso_marker_limited :: string where "sso_marker_limited = ''limited''"

definition query_escape :: "string \<Rightarrow> string" where
  "query_escape s = concat (map (\<lambda>c. if unreserved c then [c] else if c = CHR '' '' then ''+'' else percent c) s)"

text \<open>\<^verbatim>\<open>values.Encode()\<close> sorts by key: \<^verbatim>\<open>return_to\<close> before \<^verbatim>\<open>sso\<close>.\<close>

definition login_path_with_marker :: "string \<Rightarrow> string \<Rightarrow> string" where
  "login_path_with_marker marker raw_return_to =
     (let return_to = sanitize_return_to raw_return_to
      in login_path @ ''?''
         @ (if return_to \<noteq> default_return_to then ''return_to='' @ query_escape return_to @ ''&'' else [])
         @ ''sso='' @ query_escape marker)"

definition login_path_after_refusal :: "bool \<Rightarrow> string \<Rightarrow> string" where
  "login_path_after_refusal silent return_to =
     (if silent then login_path_with_marker sso_marker_none return_to
      else login_path_with_marker sso_marker_error return_to)"

definition login_path_rate_limited :: "string \<Rightarrow> string" where
  "login_path_rate_limited return_to = login_path_with_marker sso_marker_limited return_to"

section \<open>What the sanitiser keeps\<close>

definition return_path :: "string \<Rightarrow> string" where
  \<comment> \<open>the path of the decoded value, as it was written\<close>
  "return_path raw =
     (case url_unescape True raw of
        None \<Rightarrow> []
      | Some unescaped \<Rightarrow> fst (cut (CHR ''?'') (fst (cut (CHR ''#'') (trim_space unescaped)))))"

lemma percent_head: "percent c = CHR ''%'' # [upper_hex (of_char c div 16), upper_hex (of_char c mod 16)]"
  by (simp add: percent_def Let_def)

lemma escape_slash: "url_escape path_keep (CHR ''/'' # s) = CHR ''/'' # url_escape path_keep s"
  by (simp add: url_escape_def path_keep_def)

lemma unescape_slash: "url_unescape False (CHR ''/'' # s) = map_option ((#) (CHR ''/'')) (url_unescape False s)"
  by simp

text \<open>Re-escaping never produces a backslash.\<close>

lemma escape_no_backslash: "has_prefix (url_escape path_keep s) [CHR 0x5C] \<Longrightarrow> False"
  by (cases s)
     (auto simp: url_escape_def has_prefix_def path_keep_def unreserved_def percent_head Let_def split: if_splits)

lemma path_of_rooted:
  assumes "has_prefix d ''/''" and "parse_rooted d = Some u"
  shows "\<exists>t. fst (cut (CHR ''?'') (fst (cut (CHR ''#'') d))) = CHR ''/'' # t
    \<and> set_part path_keep (CHR ''/'' # t) = Some (ru_path u)"
proof -
  from assms(1) obtain t where d: "d = CHR ''/'' # t" by (auto simp: has_prefix_iff)
  let ?u = "fst (cut (CHR ''#'') d)"
  have u: "?u = CHR ''/'' # takeWhile (\<lambda>x. x \<noteq> CHR ''#'') t" by (simp add: cut_def d)
  have force: "takeWhile (\<lambda>x. x \<noteq> CHR ''?'') ?u = butlast ?u"
    if "has_suffix ?u ''?''" "CHR ''?'' \<notin> set (butlast ?u)"
  proof -
    from that(1) obtain v where "?u = v @ ''?''" by (auto simp: has_suffix_iff)
    moreover from that(2) have "takeWhile (\<lambda>x. x \<noteq> CHR ''?'') (v @ ''?'') = v" if "?u = v @ ''?''" for v
      using that by (subst takeWhile_append2) auto
    ultimately show ?thesis by simp
  qed
  from assms(2) have "set_part path_keep (takeWhile (\<lambda>x. x \<noteq> CHR ''?'') ?u) = Some (ru_path u)"
    using force by (auto simp: parse_rooted_def Let_def cut_def split: prod.splits if_splits option.splits)
  then show ?thesis by (simp add: cut_def d)
qed

text \<open>The path as it is printed: the given one when it is a valid encoding, a re-escaped one otherwise.\<close>

lemma printed_path:
  assumes "set_part path_keep (CHR ''/'' # t) = Some p"
  shows "\<exists>t'. escaped_part path_keep p = CHR ''/'' # t' \<and> \<not> has_prefix t' [CHR 0x5C] \<or> escaped_part path_keep p = CHR ''/'' # t"
    and "valid_encoded path_keep (CHR ''/'' # t) \<Longrightarrow> escaped_part path_keep p = CHR ''/'' # t"
proof -
  from assms obtain q where q: "url_unescape False (CHR ''/'' # t) = Some (CHR ''/'' # q)"
    and p: "p = (CHR ''/'' # q, if url_escape path_keep (CHR ''/'' # q) = CHR ''/'' # t then [] else CHR ''/'' # t)"
    by (auto simp: set_part_def simp del: url_escape_def split: option.splits)
  show "\<exists>t'. escaped_part path_keep p = CHR ''/'' # t' \<and> \<not> has_prefix t' [CHR 0x5C] \<or> escaped_part path_keep p = CHR ''/'' # t"
    using escape_no_backslash [of q] by (auto simp: escaped_part_def p escape_slash)
  show "escaped_part path_keep p = CHR ''/'' # t" if "valid_encoded path_keep (CHR ''/'' # t)"
    using that q by (auto simp: escaped_part_def p simp del: url_unescape.simps)
qed

lemma rooted_string_second:
  assumes "escaped_part path_keep (ru_path u) = CHR ''/'' # t" and "c \<noteq> CHR ''?''" and "c \<noteq> CHR ''#''"
  shows "has_prefix (rooted_string u) [CHR ''/'', c] \<longleftrightarrow> has_prefix t [c]"
  using assms by (cases t) (auto simp: rooted_string_def has_prefix_def)

lemma cut_prefix: "fst (cut c s) = x # t \<Longrightarrow> \<exists>v. s = x # t @ v"
  by (metis append_Cons cut_def fst_conv takeWhile_dropWhile_id)

text \<open>C15: Every return path starts with one slash and never with a slash and a backslash. It starts with two
  slashes, which a browser reads as another host, only when the path of the decoded value was not a valid
  percent encoding, so that it was escaped anew.\<close>

theorem return_path_local:
  "has_prefix (sanitize_return_to raw) ''/'' \<and> \<not> has_prefix (sanitize_return_to raw) [CHR ''/'', CHR 0x5C]
   \<and> (valid_encoded path_keep (return_path raw) \<longrightarrow> \<not> has_prefix (sanitize_return_to raw) ''//'')"
proof (cases "sanitize_return_to raw = default_return_to")
  case True
  then show ?thesis by (simp add: default_return_to_def has_prefix_def)
next
  case False
  then obtain s d u where s: "url_unescape True raw = Some s" and d: "d = trim_space s"
    and pre: "has_prefix d ''/''" "\<not> has_prefix d ''//''" "\<not> has_prefix d [CHR ''/'', CHR 0x5C]"
    and u: "parse_rooted d = Some u" and r: "sanitize_return_to raw = rooted_string u"
    by (auto simp: sanitize_return_to_def Let_def split: if_splits option.splits)
  from path_of_rooted [OF pre(1) u] obtain t
    where t: "fst (cut (CHR ''?'') (fst (cut (CHR ''#'') d))) = CHR ''/'' # t"
      and p: "set_part path_keep (CHR ''/'' # t) = Some (ru_path u)" by blast
  have path: "return_path raw = CHR ''/'' # t" by (simp add: return_path_def s d [symmetric] t)
  obtain v where "d = CHR ''/'' # t @ v" using t cut_prefix by (metis append_Cons append_assoc)
  with pre have first: "\<not> has_prefix t ''/''" "\<not> has_prefix t [CHR 0x5C]"
    by (auto simp: has_prefix_def take_Cons split: list.splits)
  from printed_path(1) [OF p] first(2) obtain t' where
    t': "escaped_part path_keep (ru_path u) = CHR ''/'' # t'" "\<not> has_prefix t' [CHR 0x5C]" by blast
  have one: "has_prefix (rooted_string u) ''/''" using t'(1) by (simp add: rooted_string_def has_prefix_def)
  have two: "\<not> has_prefix (rooted_string u) [CHR ''/'', CHR 0x5C]"
    using rooted_string_second [OF t'(1), of "CHR 0x5C"] t'(2) by simp
  have three: "\<not> has_prefix (rooted_string u) ''//''" if "valid_encoded path_keep (return_path raw)"
    using rooted_string_second [OF printed_path(2) [OF p], of "CHR ''/''"] that first(1) by (simp add: path)
  show ?thesis using one two three by (simp add: r)
qed

theorem return_path_local_witness:
  "\<not> has_prefix (sanitize_return_to ''/hubs%3Fq=a'') ''//''"
proof -
  have "valid_encoded path_keep (return_path ''/hubs%3Fq=a'')" by code_simp
  with return_path_local [of "''/hubs%3Fq=a''"] show ?thesis by simp
qed

section \<open>Plain paths\<close>

text \<open>A deep link of unreserved characters and separators passes unchanged, however often it is sanitised: at
  the login start, in the callback and again in its handler.\<close>

definition plain_char :: "char \<Rightarrow> bool" where
  "plain_char c = (path_keep c \<and> c \<noteq> CHR ''+'')"

definition plain_path :: "string \<Rightarrow> bool" where
  "plain_path s = (has_prefix s ''/'' \<and> \<not> has_prefix s ''//'' \<and> list_all plain_char s)"

lemma plain_char_simps:
  assumes "plain_char c"
  shows "c \<noteq> CHR ''%''" "c \<noteq> CHR ''+''" "c \<noteq> CHR ''?''" "c \<noteq> CHR ''#''" "c \<noteq> CHR 0x5C" "path_keep c"
    "\<not> is_space c" "\<not> is_control c"
  using assms by (auto simp: plain_char_def path_keep_def unreserved_def is_space_def is_control_def Let_def)

lemma unescape_plain: "list_all plain_char s \<Longrightarrow> url_unescape q s = Some s"
  by (induction s) (auto simp: plain_char_simps)

lemma escape_plain: "list_all plain_char s \<Longrightarrow> url_escape path_keep s = s"
  by (induction s) (auto simp: url_escape_def plain_char_simps)

lemma cut_absent: "c \<notin> set s \<Longrightarrow> cut c s = (s, [])"
  by (induction s) (auto simp: cut_def)

lemma trim_space_clean: "list_all (\<lambda>c. \<not> is_space c) s \<Longrightarrow> trim_space s = s"
  by (simp add: trim_space_def trim_left_def list_all_iff)
     (metis (mono_tags, lifting) dropWhile_eq_self in_set_conv_decomp list.set_intros(1) trim_right_fix)

theorem plain_return_path_kept:
  assumes "plain_path s" and "length s \<le> max_return_to_length"
  shows "sanitize_return_to s = s"
proof -
  have all: "list_all plain_char s" and pre: "has_prefix s ''/''" "\<not> has_prefix s ''//''"
    using assms by (auto simp: plain_path_def)
  have plain: "plain_char c" if "c \<in> set s" for c using all that by (simp add: list_all_iff)
  have no: "CHR ''#'' \<notin> set s" "CHR ''?'' \<notin> set s" "CHR 0x5C \<notin> set s"
    using plain plain_char_simps(3-5) by blast+
  have clean: "\<not> list_ex is_control s" using plain plain_char_simps(8) by (auto simp: list_ex_bool_iff)
  have trim: "trim_space s = s"
    using all by (intro trim_space_clean) (auto simp: list_all_iff plain_char_simps)
  have "set_part path_keep s = Some (s, [])"
    by (simp add: set_part_def unescape_plain [OF all] escape_plain [OF all])
  moreover have "\<not> has_suffix s ''?''" using no(2) by (auto simp: has_suffix_iff)
  ultimately have "parse_rooted s = Some \<lparr>ru_path = (s, []), ru_force_query = False, ru_raw_query = [],
      ru_fragment = ([], [])\<rparr>"
    by (simp add: parse_rooted_def Let_def cut_absent no)
  moreover have "\<not> has_prefix s [CHR ''/'', CHR 0x5C]" using no(3) by (auto simp: has_prefix_iff)
  moreover have "s \<noteq> []" using pre(1) by (auto simp: has_prefix_def)
  ultimately show ?thesis
    using assms(2) pre clean
    by (simp add: sanitize_return_to_def unescape_plain [OF all] trim Let_def rooted_string_def
        escaped_part_def escape_plain [OF all] has_prefix_def)
qed

theorem plain_return_path_kept_witness:
  "sanitize_return_to ''/hubs/12/servers'' = ''/hubs/12/servers''"
  by (rule plain_return_path_kept) (code_simp, simp add: max_return_to_length_def)

text \<open>The exception of \<open>return_path_local\<close> is reached. Each application decodes the value once more, and a
  path with a byte that is not ASCII is escaped anew from its decoded form, in which an encoded slash has
  become a slash. The value below passes the login start and the callback as a local path; the handler's
  application turns it into a reference to another host.\<close>

theorem crafted_return_path_leaves_site:
  "map sanitize_return_to
     [''/%2525252Fevil.com/%2525C3%2525A9'', ''/%25252Fevil.com/%25C3%25A9'', ''/%252Fevil.com/%C3%A9'']
   = [''/%25252Fevil.com/%25C3%25A9'', ''/%252Fevil.com/%C3%A9'', ''//evil.com/%C3%A9'']"
  by code_simp

text \<open>Sanitising is not idempotent on legitimate deep links either: an encoded ampersand becomes a separator.\<close>

lemma deep_link_corrupted:
  "sanitize_return_to ''/hubs?q=a%26b'' = ''/hubs?q=a&b''"
  by code_simp

end
