(* ===== verification/Role_Bindings.thy ===== *)
theory Role_Bindings
  imports Store_State Scoped_Access
begin

text \<open>
  Validation and normalisation of the role bindings a request submits (\<^verbatim>\<open>normalizeRoleBindings\<close> of
  \<^verbatim>\<open>internal/store/users.go\<close>), and what a user's bindings grant once they are read back
  (\<^verbatim>\<open>populateUserAccess\<close>).
\<close>

section \<open>Normalisation\<close>

definition clause_key :: "scope_clause \<Rightarrow> string" where
  "clause_key clause = sc_type clause @ [CHR 0x00] @ to_lower (sc_value clause)"

definition normalize_clause :: "scope_clause \<Rightarrow> (store_error, scope_clause) res" where
  "normalize_clause input =
     (let clause = \<lparr>sc_type = trim_space (sc_type input), sc_value = trim_space (sc_value input)\<rparr>
      in if sc_type clause = ''hub'' then
           (case parse_hub_scope (sc_value clause) of
              None \<Rightarrow> Inl BadHubScope
            | Some hub_id \<Rightarrow> Inr (clause\<lparr>sc_value := format_int hub_id\<rparr>))
         else if sc_type clause = ''department'' then
           (if sc_value clause = [] \<or> 256 < length (sc_value clause) then Inl BadDepartmentScope
            else Inr clause)
         else Inl BadScopeType)"

fun normalize_clauses ::
  "scope_clause list \<Rightarrow> string list \<Rightarrow> (store_error, scope_clause list) res" where
  "normalize_clauses [] seen = Inr []"
| "normalize_clauses (input # inputs) seen =
     res_bind (normalize_clause input) (\<lambda>clause.
       if clause_key clause \<in> set seen then Inl DuplicateClause
       else res_bind (normalize_clauses inputs (clause_key clause # seen)) (\<lambda>clauses.
         Inr (clause # clauses)))"

definition normalize_binding :: "role_binding \<Rightarrow> (store_error, role_binding) res" where
  "normalize_binding input =
     (let mode = trim_space (rb_scope_mode input)
      in if mode \<noteq> ''global'' \<and> mode \<noteq> ''restricted'' then Inl BadScopeMode
         else if mode = ''global'' \<and> rb_scopes input \<noteq> [] then Inl GlobalWithClauses
         else if 128 < length (rb_scopes input) then Inl TooManyClauses
         else res_bind (normalize_clauses (rb_scopes input) []) (\<lambda>clauses.
           if mode = ''restricted'' \<and> clauses = [] then Inl RestrictedWithoutClause
           else Inr \<lparr>rb_role_id = rb_role_id input, rb_role_key = [], rb_role_name = [],
                     rb_scope_mode = mode, rb_scopes = clauses, rb_permissions = []\<rparr>))"

fun normalize_bindings_from ::
  "role_binding list \<Rightarrow> int list \<Rightarrow> (store_error, role_binding list) res" where
  "normalize_bindings_from [] seen = Inr []"
| "normalize_bindings_from (input # inputs) seen =
     (if rb_role_id input \<le> 0 then Inl InvalidRoleId
      else if rb_role_id input \<in> set seen then Inl DuplicateRoleBinding
      else res_bind (normalize_binding input) (\<lambda>binding.
        res_bind (normalize_bindings_from inputs (rb_role_id input # seen)) (\<lambda>bindings.
          Inr (binding # bindings))))"

definition normalize_role_bindings ::
  "role_binding list \<Rightarrow> (store_error, role_binding list \<times> int list) res" where
  "normalize_role_bindings bindings =
     res_bind (normalize_bindings_from bindings []) (\<lambda>normalized.
       Inr (normalized, map rb_role_id normalized))"

section \<open>Reading a user's access back\<close>

text \<open>One row of the query of \<^verbatim>\<open>populateUserAccess\<close>; the clause columns are NULL for a binding
  without clauses (LEFT JOIN).\<close>

record access_row =
  ar_role_id :: int
  ar_role_key :: string
  ar_role_name :: string
  ar_raw :: raw_perms
  ar_scope_mode :: string
  ar_clause :: "(string \<times> string) option"

definition clause_rows :: "int \<Rightarrow> int \<Rightarrow> store_db \<Rightarrow> (string \<times> string) option list" where
  "clause_rows uid rid d =
     (let cs = filter (\<lambda>c. cl_user_id c = uid \<and> cl_role_id c = rid) (db_clauses d)
      in if cs = [] then [None] else map (\<lambda>c. Some (cl_type c, cl_value c)) cs)"

definition access_rows :: "int \<Rightarrow> store_db \<Rightarrow> access_row list" where
  "access_rows uid d =
     sort_key (\<lambda>row. (ar_role_key row,
                      (case ar_clause row of None \<Rightarrow> ([], []) | Some c \<Rightarrow> c)))
      (concat (map (\<lambda>r.
         concat (map (\<lambda>b.
           map (\<lambda>c. \<lparr>ar_role_id = ro_id r, ar_role_key = ro_key r, ar_role_name = ro_name r,
                     ar_raw = ro_permissions r, ar_scope_mode = bi_scope_mode b, ar_clause = c\<rparr>)
             (clause_rows uid (ro_id r) d))
           (filter (\<lambda>b. bi_role_id b = ro_id r \<and> bi_user_id b = uid) (db_user_roles d))))
        (db_roles d)))"

definition start_binding :: "access_row \<Rightarrow> user \<Rightarrow> user" where
  "start_binding row u =
     (let permissions = decoded_or_partial (ar_raw row)
      in u\<lparr>u_role_bindings := u_role_bindings u @
              [\<lparr>rb_role_id = ar_role_id row, rb_role_key = ar_role_key row,
                rb_role_name = ar_role_name row, rb_scope_mode = ar_scope_mode row,
                rb_scopes = [], rb_permissions = permissions\<rparr>],
           u_roles := u_roles u @ [ar_role_key row],
           u_permissions := collect_permissions (u_permissions u) permissions,
           u_global_permissions :=
             (if ar_scope_mode row = ''global''
              then map_option (\<lambda>ps. collect_permissions ps permissions) (u_global_permissions u)
              else u_global_permissions u),
           u_scoped_permissions :=
             (if ar_scope_mode row = ''restricted''
              then collect_permissions (u_scoped_permissions u) permissions
              else u_scoped_permissions u)\<rparr>)"

definition add_scope :: "int \<Rightarrow> string \<Rightarrow> string \<Rightarrow> user \<Rightarrow> user" where
  "add_scope rid scope_type value u =
     u\<lparr>u_role_bindings := map (\<lambda>b.
         if rb_role_id b = rid
         then b\<lparr>rb_scopes := rb_scopes b @ [\<lparr>sc_type = scope_type, sc_value = value\<rparr>]\<rparr> else b)
         (u_role_bindings u)\<rparr>"

definition populate_row :: "access_row \<Rightarrow> user \<Rightarrow> user" where
  "populate_row row u =
     (let u1 = (if list_ex (\<lambda>b. rb_role_id b = ar_role_id row) (u_role_bindings u) then u
                else start_binding row u)
      in case ar_clause row of
           None \<Rightarrow> u1
         | Some (scope_type, scope_value) \<Rightarrow>
             (let value = trim_space scope_value
              in if value \<noteq> [] then add_scope (ar_role_id row) scope_type value u1 else u1))"

definition add_clause :: "scope_clause \<Rightarrow> permission_grant \<Rightarrow> permission_grant" where
  "add_clause clause grant =
     (if sc_type clause = ''hub'' then
        (case parse_hub_scope (sc_value clause) of
           None \<Rightarrow> grant
         | Some hub_id \<Rightarrow>
             if hub_id \<in> set (pg_hub_ids grant) then grant
             else grant\<lparr>pg_hub_ids := pg_hub_ids grant @ [hub_id]\<rparr>)
      else if sc_type clause = ''department'' then
        (let value = trim_space (sc_value clause)
         in if value \<noteq> [] \<and> \<not> contains_fold (pg_departments grant) value
            then grant\<lparr>pg_departments := pg_departments grant @ [value]\<rparr> else grant)
      else grant)"

fun permission_grants_of :: "role_binding list \<Rightarrow> permission_grant list" where
  "permission_grants_of [] = []"
| "permission_grants_of (binding # bindings) =
     (if rb_scope_mode binding \<noteq> ''restricted'' then permission_grants_of bindings
      else let grant = fold add_clause (rb_scopes binding)
             \<lparr>pg_permissions = rb_permissions binding, pg_hub_ids = [], pg_departments = []\<rparr>
           in if pg_hub_ids grant \<noteq> [] \<or> pg_departments grant \<noteq> []
              then grant # permission_grants_of bindings else permission_grants_of bindings)"

definition populate_rows :: "access_row list \<Rightarrow> user \<Rightarrow> user" where
  "populate_rows rows u =
     (let u1 = fold populate_row rows
            (u\<lparr>u_roles := [], u_permissions := [], u_global_permissions := Some [],
               u_scoped_permissions := [], u_role_bindings := [], u_permission_grants := []\<rparr>)
      in u1\<lparr>u_permission_grants := permission_grants_of (u_role_bindings u1)\<rparr>)"

definition populate_user_access :: "user \<Rightarrow> user store_tx" where
  "populate_user_access u =
     tx_bind (query DbError (access_rows (u_id u))) (\<lambda>rows. tx_return (populate_rows rows u))"

section \<open>Normal form\<close>

lemma parse_hub_scope_Some:
  "parse_hub_scope v = Some i \<Longrightarrow> 0 < i \<and> i \<le> int64_max"
  by (auto simp: parse_hub_scope_def split: option.splits if_splits dest: parse_int_range)

lemma parse_hub_scope_format [simp]:
  "0 < i \<Longrightarrow> i \<le> int64_max \<Longrightarrow> parse_hub_scope (format_int i) = Some i"
  by (simp add: parse_hub_scope_def parse_format_int int64_min_def)

lemma trim_space_hub [simp]: "trim_space ''hub'' = ''hub''"
  by code_simp

lemma trim_space_department [simp]: "trim_space ''department'' = ''department''"
  by code_simp

lemma normalize_clause_cases:
  assumes "normalize_clause c = Inr c'"
  obtains (hub) i where "0 < i" "i \<le> int64_max" "parse_hub_scope (trim_space (sc_value c)) = Some i"
      "c' = \<lparr>sc_type = ''hub'', sc_value = format_int i\<rparr>"
    | (department) v where "v \<noteq> []" "trim_space v = v" "length v \<le> 256" "v = trim_space (sc_value c)"
      "c' = \<lparr>sc_type = ''department'', sc_value = v\<rparr>"
  using assms
  by (auto simp: normalize_clause_def Let_def split: if_splits option.splits
        dest: parse_hub_scope_Some)

lemma normalize_clause_fixed: "normalize_clause c = Inr c' \<Longrightarrow> normalize_clause c' = Inr c'"
  by (erule normalize_clause_cases) (simp_all add: normalize_clause_def)

lemma normalize_clauses_fixed:
  "normalize_clauses cs seen = Inr cs' \<Longrightarrow> normalize_clauses cs' seen = Inr cs'"
  by (induction cs arbitrary: seen cs')
     (auto simp: res_bind_Inr_iff normalize_clause_fixed split: if_splits)

lemma normalize_clauses_length: "normalize_clauses cs seen = Inr cs' \<Longrightarrow> length cs' = length cs"
  by (induction cs arbitrary: seen cs') (auto simp: res_bind_Inr_iff split: if_splits)

text \<open>What normalisation establishes for one binding: a known mode, clauses exactly when the mode is
  restricted, every clause in canonical form, no clause twice.\<close>

definition normal_clause :: "scope_clause \<Rightarrow> bool" where
  "normal_clause c \<longleftrightarrow> normalize_clause c = Inr c"

definition normal_binding :: "role_binding \<Rightarrow> bool" where
  "normal_binding b \<longleftrightarrow> 0 < rb_role_id b
     \<and> (rb_scope_mode b = ''global'' \<and> rb_scopes b = []
        \<or> rb_scope_mode b = ''restricted'' \<and> rb_scopes b \<noteq> [])
     \<and> list_all normal_clause (rb_scopes b) \<and> distinct (map clause_key (rb_scopes b))"

lemma normalize_clauses_normal:
  "normalize_clauses cs seen = Inr cs' \<Longrightarrow>
     list_all normal_clause cs' \<and> distinct (map clause_key cs')
     \<and> set (map clause_key cs') \<inter> set seen = {}"
proof (induction cs arbitrary: seen cs')
  case Nil
  then show ?case by simp
next
  case (Cons c cs)
  from Cons.prems obtain c1 cs1 where c: "normalize_clause c = Inr c1" "clause_key c1 \<notin> set seen"
    and r: "normalize_clauses cs (clause_key c1 # seen) = Inr cs1" and e: "cs' = c1 # cs1"
    by (auto simp: res_bind_Inr_iff split: if_splits)
  from Cons.IH [OF r] c e show ?case
    by (auto simp: normal_clause_def normalize_clause_fixed)
qed

lemma normalize_clauses_info:
  "normalize_clauses cs seen = Inr cs' \<Longrightarrow>
     list_all normal_clause cs' \<and> distinct (map clause_key cs') \<and> length cs' = length cs"
  by (simp add: normalize_clauses_normal normalize_clauses_length)

lemma trim_space_modes [simp]:
  "trim_space ''global'' = ''global''" "trim_space ''restricted'' = ''restricted''"
  by code_simp+

lemma normalize_binding_fixed:
  assumes "normalize_binding b = Inr b'"
  shows "normalize_binding b' = Inr b'"
proof -
  from assms obtain cs mode where c: "normalize_clauses (rb_scopes b) [] = Inr cs"
    and m: "mode = ''global'' \<or> mode = ''restricted''" "mode = ''global'' \<longrightarrow> rb_scopes b = []"
      "length (rb_scopes b) \<le> 128" "mode = ''restricted'' \<longrightarrow> cs \<noteq> []"
    and b': "b' = \<lparr>rb_role_id = rb_role_id b, rb_role_key = [], rb_role_name = [],
                  rb_scope_mode = mode, rb_scopes = cs, rb_permissions = []\<rparr>"
    by (auto simp: normalize_binding_def Let_def res_bind_Inr_iff not_less split: if_splits)
  from normalize_clauses_fixed [OF c] normalize_clauses_length [OF c] m b' show ?thesis
    by (auto simp: normalize_binding_def)
qed

lemma normalize_binding_normal:
  assumes "normalize_binding b = Inr b'" and "0 < rb_role_id b"
  shows "normal_binding b' \<and> rb_role_id b' = rb_role_id b"
  using assms
  by (auto simp: normalize_binding_def normal_binding_def Let_def res_bind_Inr_iff split: if_splits
        dest!: normalize_clauses_info)

lemma normalize_bindings_from_ids:
  "normalize_bindings_from bs seen = Inr bs' \<Longrightarrow> map rb_role_id bs' = map rb_role_id bs"
  by (induction bs arbitrary: seen bs')
     (auto simp: res_bind_Inr_iff split: if_splits dest: normalize_binding_normal)

lemma normalize_bindings_from_normal:
  "normalize_bindings_from bs seen = Inr bs' \<Longrightarrow>
     list_all normal_binding bs' \<and> distinct (map rb_role_id bs')
     \<and> set (map rb_role_id bs') \<inter> set seen = {}"
proof (induction bs arbitrary: seen bs')
  case Nil
  then show ?case by simp
next
  case (Cons b bs)
  from Cons.prems obtain b1 bs1 where b: "0 < rb_role_id b" "rb_role_id b \<notin> set seen"
      "normalize_binding b = Inr b1"
    and r: "normalize_bindings_from bs (rb_role_id b # seen) = Inr bs1" and e: "bs' = b1 # bs1"
    by (auto simp: res_bind_Inr_iff split: if_splits)
  from normalize_binding_normal [OF b(3,1)] Cons.IH [OF r] b e show ?case by auto
qed

lemma normalize_bindings_from_fixed:
  "normalize_bindings_from bs seen = Inr bs' \<Longrightarrow> normalize_bindings_from bs' seen = Inr bs'"
proof (induction bs arbitrary: seen bs')
  case Nil
  then show ?case by simp
next
  case (Cons b bs)
  from Cons.prems obtain b1 bs1 where b: "0 < rb_role_id b" "rb_role_id b \<notin> set seen"
      "normalize_binding b = Inr b1"
    and r: "normalize_bindings_from bs (rb_role_id b # seen) = Inr bs1" and e: "bs' = b1 # bs1"
    by (auto simp: res_bind_Inr_iff split: if_splits)
  from normalize_binding_normal [OF b(3,1)] normalize_binding_fixed [OF b(3)] Cons.IH [OF r] b e
  show ?case by simp
qed

section \<open>The wildcard survives hydration\<close>

definition rows_consistent :: "access_row list \<Rightarrow> bool" where
  "rows_consistent rows \<longleftrightarrow> (\<forall>x \<in> set rows. \<forall>y \<in> set rows.
     ar_role_id x = ar_role_id y \<longrightarrow> ar_raw x = ar_raw y \<and> ar_scope_mode x = ar_scope_mode y)"

definition binding_ids :: "user \<Rightarrow> int set" where
  "binding_ids u = rb_role_id ` set (u_role_bindings u)"

lemma add_scope_simps [simp]:
  "u_global_permissions (add_scope rid t v u) = u_global_permissions u"
  "binding_ids (add_scope rid t v u) = binding_ids u"
  by (simp_all add: add_scope_def binding_ids_def image_image if_distrib [of rb_role_id]
        del: if_image_distrib cong: if_cong)

lemma populate_row_keeps [simp]:
  "u_id (populate_row row u) = u_id u" "u_active (populate_row row u) = u_active u"
  "u_department (populate_row row u) = u_department u"
  by (simp_all add: populate_row_def start_binding_def add_scope_def Let_def split: option.split prod.split)

lemma populate_rows_keeps [simp]:
  "u_id (populate_rows rows u) = u_id u" "u_active (populate_rows rows u) = u_active u"
  "u_department (populate_rows rows u) = u_department u"
proof -
  have "u_id (fold populate_row rows v) = u_id v \<and> u_active (fold populate_row rows v) = u_active v
      \<and> u_department (fold populate_row rows v) = u_department v" for v
    by (induction rows arbitrary: v) simp_all
  then show "u_id (populate_rows rows u) = u_id u" "u_active (populate_rows rows u) = u_active u"
    "u_department (populate_rows rows u) = u_department u"
    by (simp_all add: populate_rows_def Let_def)
qed

lemma binding_ids_code: "list_ex (\<lambda>b. rb_role_id b = i) (u_role_bindings u) \<longleftrightarrow> i \<in> binding_ids u"
  by (auto simp: list_ex_iff binding_ids_def)

lemma populate_row_ids: "binding_ids (populate_row row u) = insert (ar_role_id row) (binding_ids u)"
  unfolding populate_row_def Let_def binding_ids_code
  by (auto simp: start_binding_def Let_def split: option.split prod.split)
     (auto simp: binding_ids_def)

lemma populate_row_global:
  "u_global_permissions (populate_row row u) =
     (if ar_role_id row \<in> binding_ids u \<or> ar_scope_mode row \<noteq> ''global'' then u_global_permissions u
      else map_option (\<lambda>ps. collect_permissions ps (decoded_or_partial (ar_raw row)))
             (u_global_permissions u))"
  unfolding populate_row_def Let_def binding_ids_code
  by (auto simp: start_binding_def Let_def split: option.split prod.split)

lemma populate_rows_star:
  assumes "u_global_permissions u = Some g" and "rows_consistent rows"
    and "''*'' \<in> set g \<or>
      (\<exists>x \<in> set rows. ar_scope_mode x = ''global'' \<and> ''*'' \<in> set (decoded_or_partial (ar_raw x))
         \<and> ar_role_id x \<notin> binding_ids u)"
  shows "\<exists>g'. u_global_permissions (fold populate_row rows u) = Some g' \<and> ''*'' \<in> set g'"
  using assms
proof (induction rows arbitrary: u g)
  case Nil
  then show ?case by simp
next
  case (Cons r rows)
  let ?u = "populate_row r u"
  obtain g1 where g1: "u_global_permissions ?u = Some g1" "set g \<subseteq> set g1"
  proof (cases "ar_role_id r \<in> binding_ids u \<or> ar_scope_mode r \<noteq> ''global''")
    case True
    with Cons.prems(1) that show thesis by (simp add: populate_row_global)
  next
    case False
    with Cons.prems(1) that collect_keeps show thesis by (simp add: populate_row_global)
  qed
  have c: "rows_consistent rows"
    using Cons.prems(2) unfolding rows_consistent_def by (meson list.set_intros(2))
  have "''*'' \<in> set g1 \<or>
      (\<exists>x \<in> set rows. ar_scope_mode x = ''global'' \<and> ''*'' \<in> set (decoded_or_partial (ar_raw x))
         \<and> ar_role_id x \<notin> binding_ids ?u)"
  proof (cases "''*'' \<in> set g")
    case True
    with g1 show ?thesis by auto
  next
    case False
    with Cons.prems(3) obtain x where x: "x \<in> set (r # rows)" "ar_scope_mode x = ''global''"
      "''*'' \<in> set (decoded_or_partial (ar_raw x))" "ar_role_id x \<notin> binding_ids u" by blast
    show ?thesis
    proof (cases "ar_role_id x = ar_role_id r")
      case True
      with x(1) Cons.prems(2) have "ar_raw x = ar_raw r" "ar_scope_mode x = ar_scope_mode r"
        unfolding rows_consistent_def by (meson list.set_intros(1))+
      with x True have r: "ar_role_id r \<notin> binding_ids u" "ar_scope_mode r = ''global''"
        "''*'' \<in> set (decoded_or_partial (ar_raw r))" by simp_all
      with g1(1) Cons.prems(1) have "g1 = collect_permissions g (decoded_or_partial (ar_raw r))"
        by (simp add: populate_row_global)
      with r(3) show ?thesis by simp
    next
      case False
      with x show ?thesis by (auto simp: populate_row_ids)
    qed
  qed
  from Cons.IH [OF g1(1) c this] show ?case by simp
qed

end
