(* ===== verification/Rbac_Store.thy ===== *)
theory Rbac_Store
  imports Role_Bindings Transitions
begin

text \<open>
  The role mutations of \<^verbatim>\<open>internal/store/users.go\<close>, statement by statement: \<^verbatim>\<open>saveRole\<close>, \<^verbatim>\<open>deleteRole\<close>
  and \<^verbatim>\<open>setUserRoleBindings\<close> with the helpers they share. Each runs in one transaction under the
  advisory lock of the role tables, so their executions do not interleave. The properties are in
  \<^verbatim>\<open>Rbac_Safety\<close>.
\<close>

section \<open>Helpers\<close>

fun collect_raw :: "raw_perms list \<Rightarrow> string list \<Rightarrow> (store_error, string list) res" where
  "collect_raw [] permissions = Inr permissions"
| "collect_raw (raw # raws) permissions =
     res_bind (unmarshal_permissions raw) (\<lambda>current.
       collect_raw raws (collect_permissions permissions current))"

definition assigned_permissions :: "int \<Rightarrow> bool \<Rightarrow> string list store_tx" where
  "assigned_permissions uid global_only =
     tx_bind (query DbError (\<lambda>d. map ro_permissions
         (joined_roles (\<lambda>b. bi_user_id b = uid \<and> (global_only \<longrightarrow> bi_scope_mode b = ''global'')) d)))
       (\<lambda>raws. tx_lift (collect_raw raws []))"

definition role_permissions :: "int list \<Rightarrow> string list store_tx" where
  "role_permissions role_ids =
     tx_bind (query DbError (\<lambda>d. map ro_permissions
         (filter (\<lambda>r. ro_id r \<in> set role_ids) (db_roles d))))
       (\<lambda>raws. tx_lift (collect_raw raws []))"

definition role_mutation_actor_ceiling :: "int \<Rightarrow> string list store_tx" where
  "role_mutation_actor_ceiling actor =
     (if actor \<le> 0 then tx_return []
      else
        tx_bind (query_row DbError ErrNotFound (\<lambda>d. map_option us_active (find_user actor d))) (\<lambda>active.
        tx_bind (throw_if (\<not> active) ErrRoleGrantCeiling) (\<lambda>_.
        tx_bind (assigned_permissions actor True) (\<lambda>permissions.
        tx_bind (throw_if (\<not> ensure_permission permissions ''roles:write'') ErrRoleGrantCeiling) (\<lambda>_.
        tx_return permissions)))))"

definition wildcard_role_removal_would_lock_out :: "int \<Rightarrow> bool store_tx" where
  "wildcard_role_removal_would_lock_out rid =
     query DbError (\<lambda>d.
       let assigned_to_active_user =
             list_ex (\<lambda>b. bi_role_id b = rid \<and> bi_scope_mode b = ''global''
               \<and> list_ex (\<lambda>u. us_id u = bi_user_id b \<and> us_active u) (db_users d)) (db_user_roles d);
           another_wildcard_role_assigned =
             active_wildcard_binding (\<lambda>b. bi_role_id b \<noteq> rid) d
       in assigned_to_active_user \<and> \<not> another_wildcard_role_assigned)"

definition advisory_lock :: "unit store_tx" where
  \<comment> \<open>\<^verbatim>\<open>SELECT pg_advisory_xact_lock($1)\<close>: may fail, changes nothing\<close>
  "advisory_lock = exec DbError (\<lambda>d. d)"

section \<open>Saving a role\<close>

definition insert_role :: "role \<Rightarrow> role store_tx" where
  "insert_role role =
     statement DbError (\<lambda>d.
       if list_ex (\<lambda>r. ro_key r = r_key role) (db_roles d) then Inl DbError
       else
         let row = \<lparr>ro_id = db_next_role d, ro_key = r_key role, ro_name = r_name role,
                    ro_description = r_description role,
                    ro_permissions = PermArray (r_permissions role), ro_system = False,
                    ro_created_at = db_now d, ro_updated_at = db_now d\<rparr>
         in Inr (role\<lparr>r_id := db_next_role d, r_created_at := db_now d, r_updated_at := db_now d\<rparr>,
                 d\<lparr>db_roles := db_roles d @ [row], db_next_role := db_next_role d + 1\<rparr>))"

definition write_role :: "role \<Rightarrow> store_db \<Rightarrow> store_db" where
  "write_role role d =
     d\<lparr>db_roles := map (\<lambda>r. if ro_id r = r_id role
         then r\<lparr>ro_key := r_key role, ro_name := r_name role, ro_description := r_description role,
                ro_permissions := PermArray (r_permissions role), ro_updated_at := db_now d\<rparr>
         else r) (db_roles d)\<rparr>"

definition update_role :: "role \<Rightarrow> role store_tx" where
  "update_role role =
     statement DbError (\<lambda>d.
       case find_role (r_id role) d of
         None \<Rightarrow> Inl ErrNotFound
       | Some current \<Rightarrow>
           if list_ex (\<lambda>r. ro_key r = r_key role \<and> ro_id r \<noteq> r_id role) (db_roles d) then Inl DbError
           else Inr (role\<lparr>r_system := ro_system current, r_created_at := ro_created_at current,
                          r_updated_at := db_now d\<rparr>, write_role role d))"

definition guard_wildcard_removal :: "int \<Rightarrow> bool \<Rightarrow> unit store_tx" where
  \<comment> \<open>asked only when the mutation takes the wildcard away from role \<open>rid\<close>\<close>
  "guard_wildcard_removal rid removes_wildcard =
     (if removes_wildcard
      then tx_bind (wildcard_role_removal_would_lock_out rid) (\<lambda>blocked.
             throw_if blocked ErrLastSuperAdmin)
      else tx_return ())"

definition keep_system_key :: "role_row \<Rightarrow> role \<Rightarrow> role" where
  "keep_system_key current role =
     (if ro_system current then role\<lparr>r_key := ro_key current\<rparr> else role)"

definition replace_role :: "role \<Rightarrow> int \<Rightarrow> string list \<Rightarrow> role store_tx" where
  "replace_role role actor actor_permissions =
     tx_bind (query_row DbError ErrNotFound (find_role (r_id role))) (\<lambda>current.
     tx_bind (tx_lift (unmarshal_permissions (ro_permissions current))) (\<lambda>current_permissions.
     tx_bind (throw_if (0 < actor
         \<and> \<not> permissions_within_ceiling current_permissions actor_permissions)
         ErrRoleGrantCeiling) (\<lambda>_.
     tx_bind (throw_if (ro_key current = ''super_admin'' \<and> \<not> wildcard_only (r_permissions role))
         ErrImmutableRole) (\<lambda>_.
     tx_bind (guard_wildcard_removal (r_id role)
         (role_has_wildcard current_permissions \<and> \<not> role_has_wildcard (r_permissions role))) (\<lambda>_.
     update_role (keep_system_key current role))))))"

definition trimmed_role :: "role \<Rightarrow> role" where
  "trimmed_role input =
     input\<lparr>r_key := trim_space (r_key input), r_name := trim_space (r_name input),
           r_description := trim_space (r_description input)\<rparr>"

definition save_role_body :: "role \<Rightarrow> int \<Rightarrow> role store_tx" where
  "save_role_body role actor =
     tx_bind advisory_lock (\<lambda>_.
     tx_bind (role_mutation_actor_ceiling actor) (\<lambda>actor_permissions.
     tx_bind (throw_if (0 < actor
         \<and> \<not> permissions_within_ceiling (r_permissions role) actor_permissions)
         ErrRoleGrantCeiling) (\<lambda>_.
     if r_id role = 0 then insert_role role
     else replace_role role actor actor_permissions)))"

definition save_role :: "role \<Rightarrow> int \<Rightarrow> role store_tx" where
  "save_role input actor =
     (let role = trimmed_role input
      in tx_bind (throw_if (r_key role = [] \<or> r_name role = []) RoleFieldsRequired) (\<lambda>_.
         tx_bind (throw_if (100 < length (r_key role) \<or> 256 < length (r_name role)
             \<or> 4096 < length (r_description role)) RoleFieldsTooLong) (\<lambda>_.
         tx_bind (tx_lift (map_sum BadScopes id (validate_scopes (r_permissions role)))) (\<lambda>_.
         transaction DbError (save_role_body role actor)))))"

section \<open>Deleting a role\<close>

text \<open>The foreign keys of \<^verbatim>\<open>user_roles\<close> and of the clauses cascade.\<close>

definition remove_role :: "int \<Rightarrow> store_db \<Rightarrow> store_db" where
  "remove_role rid d =
     d\<lparr>db_roles := filter (\<lambda>r. ro_id r \<noteq> rid) (db_roles d),
       db_user_roles := filter (\<lambda>b. bi_role_id b \<noteq> rid) (db_user_roles d),
       db_clauses := filter (\<lambda>c. cl_role_id c \<noteq> rid) (db_clauses d)\<rparr>"

definition delete_role_row :: "int \<Rightarrow> unit store_tx" where
  \<comment> \<open>\<^verbatim>\<open>DELETE FROM roles WHERE id=$1 AND system=false\<close> and the check of the rows affected\<close>
  "delete_role_row rid =
     statement DbError (\<lambda>d.
       if list_ex (\<lambda>r. ro_id r = rid \<and> \<not> ro_system r) (db_roles d)
       then Inr ((), remove_role rid d) else Inl ErrNotFound)"

definition delete_role_body :: "int \<Rightarrow> int \<Rightarrow> unit store_tx" where
  "delete_role_body rid actor =
     tx_bind advisory_lock (\<lambda>_.
     tx_bind (role_mutation_actor_ceiling actor) (\<lambda>actor_permissions.
     tx_bind (query_row DbError ErrNotFound (find_role rid)) (\<lambda>current.
     tx_bind (throw_if (ro_system current) ErrNotFound) (\<lambda>_.
     tx_bind (tx_lift (unmarshal_permissions (ro_permissions current))) (\<lambda>permissions.
     tx_bind (throw_if (0 < actor \<and> \<not> permissions_within_ceiling permissions actor_permissions)
         ErrRoleGrantCeiling) (\<lambda>_.
     tx_bind (guard_wildcard_removal rid (role_has_wildcard permissions)) (\<lambda>_.
     delete_role_row rid)))))))"

definition delete_role :: "int \<Rightarrow> int \<Rightarrow> unit store_tx" where
  "delete_role rid actor = transaction DbError (delete_role_body rid actor)"

section \<open>Assigning roles to a user\<close>

definition check_hubs :: "role_binding list \<Rightarrow> unit store_tx" where
  "check_hubs bindings =
     foreach (\<lambda>binding. foreach (\<lambda>clause.
         if sc_type clause \<noteq> ''hub'' then tx_return ()
         else
           let hub_id = (case parse_hub_scope (sc_value clause) of None \<Rightarrow> 0 | Some i \<Rightarrow> i)
           in tx_bind (query DbError (\<lambda>d. list_ex (\<lambda>h. hb_id h = hub_id) (db_hubs d))) (\<lambda>found.
                throw_if (\<not> found) ErrNotFound))
       (rb_scopes binding)) bindings"

definition unbind_user :: "int \<Rightarrow> store_db \<Rightarrow> store_db" where
  \<comment> \<open>\<^verbatim>\<open>DELETE FROM user_roles WHERE user_id=$1\<close>, cascading to the clauses\<close>
  "unbind_user uid d =
     d\<lparr>db_user_roles := filter (\<lambda>b. bi_user_id b \<noteq> uid) (db_user_roles d),
       db_clauses := filter (\<lambda>c. cl_user_id c \<noteq> uid) (db_clauses d)\<rparr>"

definition insert_user_role :: "int \<Rightarrow> role_binding \<Rightarrow> store_db \<Rightarrow> store_db" where
  "insert_user_role uid binding d =
     d\<lparr>db_user_roles := db_user_roles d @
         [\<lparr>bi_user_id = uid, bi_role_id = rb_role_id binding, bi_scope_mode = rb_scope_mode binding\<rparr>]\<rparr>"

definition insert_clause :: "int \<Rightarrow> role_binding \<Rightarrow> scope_clause \<Rightarrow> store_db \<Rightarrow> store_db" where
  "insert_clause uid binding clause d =
     d\<lparr>db_clauses := db_clauses d @
         [\<lparr>cl_user_id = uid, cl_role_id = rb_role_id binding, cl_type = sc_type clause,
           cl_value = sc_value clause\<rparr>]\<rparr>"

definition insert_binding :: "int \<Rightarrow> role_binding \<Rightarrow> unit store_tx" where
  "insert_binding uid binding =
     tx_bind (exec DbError (insert_user_role uid binding)) (\<lambda>_.
       foreach (\<lambda>clause. exec DbError (insert_clause uid binding clause)) (rb_scopes binding))"

definition check_grant_ceiling :: "int \<Rightarrow> int list \<Rightarrow> int \<Rightarrow> string list \<Rightarrow> unit store_tx" where
  "check_grant_ceiling uid role_ids actor actor_permissions =
     (if 0 < actor then
        tx_bind (assigned_permissions uid False) (\<lambda>current_permissions.
        tx_bind (throw_if (\<not> permissions_within_ceiling current_permissions actor_permissions)
            ErrRoleGrantCeiling) (\<lambda>_.
        tx_bind (role_permissions role_ids) (\<lambda>selected_permissions.
        throw_if (\<not> permissions_within_ceiling selected_permissions actor_permissions)
            ErrRoleGrantCeiling)))
      else tx_return ())"

definition check_last_admin :: "int \<Rightarrow> bool \<Rightarrow> role_binding list \<Rightarrow> unit store_tx" where
  "check_last_admin uid user_active normalized =
     (let global_role_ids =
            map rb_role_id (filter (\<lambda>b. rb_scope_mode b = ''global'') normalized)
      in tx_bind (query DbError (\<lambda>d. list_ex (\<lambda>r. ro_id r \<in> set global_role_ids
             \<and> has_star (ro_permissions r)) (db_roles d))) (\<lambda>will_have_wildcard.
         tx_bind (query DbError (\<lambda>d. list_ex (\<lambda>b. bi_user_id b = uid \<and> bi_scope_mode b = ''global''
             \<and> list_ex (\<lambda>r. ro_id r = bi_role_id b \<and> has_star (ro_permissions r)) (db_roles d))
             (db_user_roles d))) (\<lambda>has_wildcard.
         if user_active \<and> has_wildcard \<and> \<not> will_have_wildcard
         then tx_bind (query DbError (active_wildcard_binding (\<lambda>b. bi_user_id b \<noteq> uid)))
                (\<lambda>another_active_admin. throw_if (\<not> another_active_admin) ErrLastSuperAdmin)
         else tx_return ())))"

definition check_legacy :: "int \<Rightarrow> bool \<Rightarrow> unit store_tx" where
  "check_legacy uid legacy =
     (if legacy
      then tx_bind (query DbError (\<lambda>d. list_ex (\<lambda>b. bi_user_id b = uid
               \<and> bi_scope_mode b = ''restricted'') (db_user_roles d))) (\<lambda>has_restricted.
             throw_if has_restricted ErrScopeRequired)
      else tx_return ())"

definition replace_bindings :: "int \<Rightarrow> role_binding list \<Rightarrow> unit store_tx" where
  "replace_bindings uid normalized =
     tx_bind (exec DbError (unbind_user uid)) (\<lambda>_. foreach (insert_binding uid) normalized)"

definition set_bindings_body ::
  "int \<Rightarrow> role_binding list \<Rightarrow> int list \<Rightarrow> bool \<Rightarrow> int \<Rightarrow> unit store_tx" where
  "set_bindings_body uid normalized role_ids legacy actor =
     tx_bind advisory_lock (\<lambda>_.
     tx_bind advisory_lock (\<lambda>_.
     tx_bind (role_mutation_actor_ceiling actor) (\<lambda>actor_permissions.
     tx_bind (query_row DbError ErrNotFound (\<lambda>d. map_option us_active (find_user uid d)))
       (\<lambda>user_active.
     tx_bind (check_legacy uid legacy) (\<lambda>_.
     tx_bind (query DbError (\<lambda>d. length (filter (\<lambda>r. ro_id r \<in> set role_ids) (db_roles d))))
       (\<lambda>selected_count.
     tx_bind (throw_if (selected_count \<noteq> length role_ids) ErrNotFound) (\<lambda>_.
     tx_bind (check_grant_ceiling uid role_ids actor actor_permissions) (\<lambda>_.
     tx_bind (check_hubs normalized) (\<lambda>_.
     tx_bind (check_last_admin uid user_active normalized) (\<lambda>_.
     replace_bindings uid normalized))))))))))"

definition set_user_role_bindings :: "int \<Rightarrow> role_binding list \<Rightarrow> bool \<Rightarrow> int \<Rightarrow> unit store_tx" where
  "set_user_role_bindings uid bindings legacy actor =
     tx_bind (throw_if (64 < length bindings) TooManyBindings) (\<lambda>_.
     tx_bind (tx_lift (normalize_role_bindings bindings)) (\<lambda>(normalized, role_ids).
     transaction DbError (set_bindings_body uid normalized role_ids legacy actor)))"

definition set_user_roles :: "int \<Rightarrow> int list \<Rightarrow> int \<Rightarrow> unit store_tx" where
  \<comment> \<open>\<^verbatim>\<open>SetUserRoles\<close> and \<^verbatim>\<open>SetUserRolesAuthorized\<close>: plain role ids, all global\<close>
  "set_user_roles uid role_ids actor =
     set_user_role_bindings uid
       (map (\<lambda>rid. \<lparr>rb_role_id = rid, rb_role_key = [], rb_role_name = [],
                    rb_scope_mode = ''global'', rb_scopes = [], rb_permissions = []\<rparr>) role_ids)
       True actor"

end
