(* ===== verification/Hubs.thy ===== *)
theory Hubs
  imports Rbac_Store Store_Queries
begin

text \<open>
  Hubs and their credentials (\<^verbatim>\<open>internal/store/hubs.go\<close>, first half). Encryption, the SHA-256 digest and the
  endpoint check are parameters: \<open>encrypt context plain\<close> yields the stored bytes or fails,
  \<open>decrypt context bytes\<close> inverts it, \<open>digest\<close> is the hexadecimal digest.
\<close>

section \<open>Data\<close>

record hub =
  hu_id :: int
  hu_name :: string
  hu_base_url :: string
  hu_network :: string
  hu_enabled :: bool
  hu_verify_tls :: bool
  hu_interval :: int
  hu_token_configured :: bool
  hu_status :: string
  hu_version :: string
  hu_last_seen_at :: "time option"
  hu_last_error :: string
  hu_snapshot :: json
  hu_created_at :: time
  hu_updated_at :: time
  hu_generation :: string

record hub_write =
  hw_name :: string
  hw_base_url :: string
  hw_network :: string
  hw_enabled :: "bool option"
  hw_verify_tls :: "bool option"
  hw_interval :: int
  hw_token :: string

definition scan_hub :: "hub_row \<Rightarrow> hub" where
  "scan_hub h =
     \<lparr>hu_id = hb_id h, hu_name = hb_name h, hu_base_url = hb_base_url h, hu_network = hb_network h,
      hu_enabled = hb_enabled h, hu_verify_tls = hb_verify_tls h, hu_interval = hb_interval h,
      hu_token_configured = (hb_token h \<noteq> None), hu_status = hb_status h, hu_version = hb_version h,
      hu_last_seen_at = hb_last_seen_at h, hu_last_error = hb_last_error h,
      hu_snapshot = hb_snapshot h, hu_created_at = hb_created_at h, hu_updated_at = hb_updated_at h,
      hu_generation = []\<rparr>"

definition find_hub :: "int \<Rightarrow> store_db \<Rightarrow> hub_row option" where
  "find_hub hid d = find (\<lambda>h. hb_id h = hid) (db_hubs d)"

definition change_hub :: "int \<Rightarrow> (hub_row \<Rightarrow> hub_row) \<Rightarrow> store_db \<Rightarrow> store_db" where
  "change_hub hid f d = d\<lparr>db_hubs := map (\<lambda>h. if hb_id h = hid then f h else h) (db_hubs d)\<rparr>"

section \<open>Checking a request\<close>

definition canonical_url :: "string \<Rightarrow> string" where
  "canonical_url url = trim_right (\<lambda>c. c = CHR ''/'') (trim_space url)"

definition min_hub_interval :: int where "min_hub_interval = 30"
definition max_hub_interval :: int where "max_hub_interval = 3600"
definition max_hub_name_bytes :: nat where "max_hub_name_bytes = 256"
definition max_hub_network_bytes :: nat where "max_hub_network_bytes = 256"
definition max_hub_url_bytes :: nat where "max_hub_url_bytes = 4096"
definition max_hub_token_bytes :: nat where "max_hub_token_bytes = 64 * 2 ^ 10"

definition normalize_hub_write :: "hub_write \<Rightarrow> hub_write" where
  "normalize_hub_write input =
     input\<lparr>hw_name := trim_space (hw_name input), hw_base_url := canonical_url (hw_base_url input),
       hw_network := trim_space (hw_network input), hw_token := trim_space (hw_token input)\<rparr>"

definition validate_hub_write ::
  "(string \<Rightarrow> bool) \<Rightarrow> hub_write \<Rightarrow> bool \<Rightarrow> (store_error, unit) res" where
  "validate_hub_write endpoint_ok input require_token =
     (if hw_name input = [] then Inl HubNameRequired
      else if hw_network input = [] then Inl HubNetworkRequired
      else if hw_base_url input = [] then Inl HubUrlRequired
      else if require_token \<and> hw_token input = [] then Inl HubTokenRequired
      else if max_hub_name_bytes < length (hw_name input)
              \<or> max_hub_network_bytes < length (hw_network input) then Inl HubFieldTooLong
      else if max_hub_url_bytes < length (hw_base_url input) then Inl HubFieldTooLong
      else if max_hub_token_bytes < length (hw_token input) then Inl HubFieldTooLong
      else if hw_interval input < min_hub_interval \<or> max_hub_interval < hw_interval input
           then Inl HubIntervalOutOfRange
      else if \<not> endpoint_ok (hw_base_url input) then Inl HubEndpointInvalid
      else Inr ())"

definition hub_credential_binding_changed :: "string \<Rightarrow> bool \<Rightarrow> string \<Rightarrow> bool \<Rightarrow> bool" where
  "hub_credential_binding_changed current_url current_verify next_url next_verify =
     (canonical_url current_url \<noteq> canonical_url next_url \<or> current_verify \<noteq> next_verify)"

section \<open>The fingerprint of a credential\<close>

definition byte_of :: "int \<Rightarrow> char" where "byte_of n = char_of (nat (n mod 256))"

definition be64 :: "int \<Rightarrow> string" where
  "be64 n = map (\<lambda>k. byte_of (n div 2 ^ (8 * (7 - k)))) [0, 1, 2, 3, 4, 5, 6, 7]"

definition write_field :: "string \<Rightarrow> string" where
  "write_field value = be64 (int (length value)) @ value"

definition token_bytes :: "string option \<Rightarrow> string" where
  "token_bytes encrypted = (case encrypted of None \<Rightarrow> [] | Some b \<Rightarrow> b)"

definition generation_bytes :: "int \<Rightarrow> string \<Rightarrow> bool \<Rightarrow> bool \<Rightarrow> string option \<Rightarrow> string" where
  "generation_bytes hid url verify enabled encrypted =
     be64 hid @ write_field (canonical_url url)
       @ [byte_of ((if verify then 1 else 0) + (if enabled then 2 else 0))]
       @ write_field (token_bytes encrypted)"

definition hub_credential_generation ::
  "(string \<Rightarrow> string) \<Rightarrow> int \<Rightarrow> string \<Rightarrow> bool \<Rightarrow> bool \<Rightarrow> string option \<Rightarrow> string" where
  "hub_credential_generation digest hid url verify enabled encrypted =
     digest (generation_bytes hid url verify enabled encrypted)"

definition generation_of_row :: "(string \<Rightarrow> string) \<Rightarrow> hub_row \<Rightarrow> string" where
  "generation_of_row digest h =
     hub_credential_generation digest (hb_id h) (hb_base_url h) (hb_verify_tls h) (hb_enabled h) (hb_token h)"

definition token_context :: "int \<Rightarrow> string" where
  "token_context hid = ''hub:'' @ format_int hid @ '':token''"

section \<open>Operations\<close>

definition get_hub :: "int \<Rightarrow> hub store_tx" where
  "get_hub hid =
     tx_bind (query_row DbError ErrNotFound (find_hub hid)) (\<lambda>h. tx_return (scan_hub h))"

definition get_hub_credential ::
  "(string \<Rightarrow> string) \<Rightarrow> (string \<Rightarrow> string \<Rightarrow> string option) \<Rightarrow> int \<Rightarrow> (hub \<times> string) store_tx" where
  "get_hub_credential digest decrypt hid =
     tx_bind (query_row DbError ErrNotFound (find_hub hid)) (\<lambda>h.
       let hub = (scan_hub h)\<lparr>hu_generation := generation_of_row digest h\<rparr>
       in if token_bytes (hb_token h) = [] then tx_return (hub, [])
          else case decrypt (token_context hid) (token_bytes (hb_token h)) of
                 None \<Rightarrow> tx_throw CipherFailure
               | Some plain \<Rightarrow> tx_return (hub, plain))"

definition insert_hub ::
  "hub_write \<Rightarrow> bool \<Rightarrow> bool \<Rightarrow> store_db \<Rightarrow> (store_error, int \<times> store_db) res" where
  "insert_hub input enabled verify d =
     Inr (db_next_hub d,
       d\<lparr>db_hubs := db_hubs d @
           [\<lparr>hb_id = db_next_hub d, hb_name = hw_name input, hb_base_url = hw_base_url input,
             hb_network = hw_network input, hb_enabled = enabled, hb_verify_tls = verify,
             hb_interval = hw_interval input, hb_token = None, hb_status = ''unknown'', hb_version = [],
             hb_last_seen_at = None, hb_last_error = [], hb_snapshot = JObj [],
             hb_created_at = db_now d, hb_updated_at = db_now d\<rparr>],
         db_next_hub := db_next_hub d + 1\<rparr>)"

definition set_hub_token :: "int \<Rightarrow> string \<Rightarrow> store_db \<Rightarrow> store_db" where
  "set_hub_token hid encrypted = change_hub hid (hb_token_update (\<lambda>_. Some encrypted))"

definition create_hub_body ::
  "(string \<Rightarrow> string \<Rightarrow> string option) \<Rightarrow> hub_write \<Rightarrow> bool \<Rightarrow> bool \<Rightarrow> int store_tx" where
  "create_hub_body encrypt input enabled verify =
     tx_bind advisory_lock (\<lambda>_.
     tx_bind (statement DbError (insert_hub input enabled verify)) (\<lambda>hid.
     if hw_token input = [] then tx_return hid
     else case encrypt (token_context hid) (hw_token input) of
            None \<Rightarrow> tx_throw CipherFailure
          | Some encrypted \<Rightarrow>
              tx_bind (exec DbError (set_hub_token hid encrypted)) (\<lambda>_. tx_return hid)))"

definition create_defaults :: "hub_write \<Rightarrow> hub_write" where
  "create_defaults input =
     (let input1 = normalize_hub_write input
      in if hw_interval input1 = 0 then input1\<lparr>hw_interval := 60\<rparr> else input1)"

definition given_or :: "'a option \<Rightarrow> 'a \<Rightarrow> 'a" where
  "given_or v fallback = (case v of None \<Rightarrow> fallback | Some x \<Rightarrow> x)"

definition create_hub ::
  "(string \<Rightarrow> bool) \<Rightarrow> (string \<Rightarrow> string \<Rightarrow> string option) \<Rightarrow> hub_write \<Rightarrow> hub store_tx" where
  "create_hub endpoint_ok encrypt input =
     (let input1 = create_defaults input
      in tx_bind (tx_lift (validate_hub_write endpoint_ok input1 True)) (\<lambda>_.
         tx_bind (transaction DbError (create_hub_body encrypt input1
             (given_or (hw_enabled input) True) (given_or (hw_verify_tls input) True))) get_hub))"

text \<open>An update keeps what the request leaves out.\<close>

definition update_defaults :: "hub \<Rightarrow> hub_write \<Rightarrow> hub_write" where
  "update_defaults current input =
     (let input1 = normalize_hub_write input
      in input1\<lparr>
        hw_name := if hw_name input1 = [] then hu_name current else hw_name input1,
        hw_base_url := if hw_base_url input1 = [] then hu_base_url current else hw_base_url input1,
        hw_network := if hw_network input1 = [] then hu_network current else hw_network input1,
        hw_interval := if hw_interval input1 = 0 then hu_interval current else hw_interval input1\<rparr>)"

definition write_hub ::
  "int \<Rightarrow> hub_write \<Rightarrow> bool \<Rightarrow> bool \<Rightarrow> string option \<Rightarrow> bool \<Rightarrow> store_db \<Rightarrow> store_db" where
  "write_hub hid input enabled verify encrypted replace_target d =
     change_hub hid (\<lambda>h. h\<lparr>
       hb_name := hw_name input, hb_base_url := hw_base_url input, hb_network := hw_network input,
       hb_enabled := enabled, hb_verify_tls := verify, hb_interval := hw_interval input,
       hb_token := (case encrypted of None \<Rightarrow> hb_token h | Some e \<Rightarrow> Some e),
       hb_status := if replace_target then ''unknown'' else hb_status h,
       hb_version := if replace_target then [] else hb_version h,
       hb_last_seen_at := if replace_target then None else hb_last_seen_at h,
       hb_last_error := if replace_target then [] else hb_last_error h,
       hb_snapshot := if replace_target then JObj [] else hb_snapshot h,
       hb_updated_at := db_now d\<rparr>) d"

text \<open>Deleting servers clears \<^verbatim>\<open>server_id\<close> of their sessions, deleting managed users clears
  \<^verbatim>\<open>managed_user_id\<close> (\<^verbatim>\<open>ON DELETE SET NULL\<close>).\<close>

definition delete_servers :: "(server_row \<Rightarrow> bool) \<Rightarrow> store_db \<Rightarrow> store_db" where
  "delete_servers gone d =
     d\<lparr>db_servers := filter (\<lambda>s. \<not> gone s) (db_servers d),
       db_server_sessions := map (\<lambda>x.
         if list_ex (\<lambda>s. gone s \<and> ss_server_id x = Some (sv_id s)) (db_servers d)
         then x\<lparr>ss_server_id := None\<rparr> else x) (db_server_sessions d)\<rparr>"

definition delete_managed :: "(managed_row \<Rightarrow> bool) \<Rightarrow> store_db \<Rightarrow> store_db" where
  "delete_managed gone d =
     d\<lparr>db_managed := filter (\<lambda>u. \<not> gone u) (db_managed d),
       db_servers := map (\<lambda>s.
         if list_ex (\<lambda>u. gone u \<and> sv_managed_user_id s = Some (mu_id u)) (db_managed d)
         then s\<lparr>sv_managed_user_id := None\<rparr> else s) (db_servers d)\<rparr>"

definition encrypt_token ::
  "(string \<Rightarrow> string \<Rightarrow> string option) \<Rightarrow> int \<Rightarrow> string \<Rightarrow> (store_error, string option) res" where
  "encrypt_token encrypt hid token =
     (if token = [] then Inr None
      else case encrypt (token_context hid) token of
             None \<Rightarrow> Inl CipherFailure
           | Some e \<Rightarrow> Inr (Some e))"

definition forget_inventory :: "int \<Rightarrow> bool \<Rightarrow> unit store_tx" where
  "forget_inventory hid replace_target =
     (if replace_target then
        tx_bind (exec DbError (delete_servers (\<lambda>s. sv_hub_id s = hid))) (\<lambda>_.
        exec DbError (delete_managed (\<lambda>u. mu_hub_id u = hid)))
      else tx_return ())"

definition apply_hub_update ::
  "(string \<Rightarrow> bool) \<Rightarrow> (string \<Rightarrow> string \<Rightarrow> string option) \<Rightarrow> int \<Rightarrow> hub \<Rightarrow> hub_write \<Rightarrow> bool \<Rightarrow> bool
    \<Rightarrow> hub store_tx" where
  "apply_hub_update endpoint_ok encrypt hid current input enabled verify =
     tx_bind (tx_lift (validate_hub_write endpoint_ok input False)) (\<lambda>_.
     tx_bind (throw_if (trim_space (hw_token input) = [] \<and> (\<not> hu_token_configured current
         \<or> hub_credential_binding_changed (hu_base_url current) (hu_verify_tls current)
             (hw_base_url input) verify)) HubTokenReentry) (\<lambda>_.
     tx_bind (tx_lift (encrypt_token encrypt hid (hw_token input))) (\<lambda>encrypted.
     tx_bind (exec DbError (write_hub hid input enabled verify encrypted
         (hu_base_url current \<noteq> hw_base_url input))) (\<lambda>_.
     tx_bind (tx_lift_state (find_hub hid) ErrNotFound) (\<lambda>updated.
       \<comment> \<open>\<^verbatim>\<open>RETURNING\<close>, of the same statement\<close>
     tx_bind (forget_inventory hid (hu_base_url current \<noteq> hw_base_url input)) (\<lambda>_.
     tx_return (scan_hub updated)))))))"

definition update_hub_body ::
  "(string \<Rightarrow> bool) \<Rightarrow> (string \<Rightarrow> string \<Rightarrow> string option) \<Rightarrow> int \<Rightarrow> hub_write \<Rightarrow> hub store_tx" where
  "update_hub_body endpoint_ok encrypt hid input =
     tx_bind advisory_lock (\<lambda>_.
     tx_bind (query_row DbError ErrNotFound (find_hub hid)) (\<lambda>row.
     apply_hub_update endpoint_ok encrypt hid (scan_hub row) (update_defaults (scan_hub row) input)
       (given_or (hw_enabled input) (hb_enabled row)) (given_or (hw_verify_tls input) (hb_verify_tls row))))"

definition update_hub ::
  "(string \<Rightarrow> bool) \<Rightarrow> (string \<Rightarrow> string \<Rightarrow> string option) \<Rightarrow> int \<Rightarrow> hub_write \<Rightarrow> hub store_tx" where
  "update_hub endpoint_ok encrypt hid input =
     transaction DbError (update_hub_body endpoint_ok encrypt hid input)"

text \<open>Deleting a hub cascades to its managed users, servers and sessions.\<close>

definition delete_hub_row :: "int \<Rightarrow> store_db \<Rightarrow> store_db" where
  "delete_hub_row hid d =
     d\<lparr>db_hubs := filter (\<lambda>h. hb_id h \<noteq> hid) (db_hubs d),
       db_managed := filter (\<lambda>u. mu_hub_id u \<noteq> hid) (db_managed d),
       db_servers := filter (\<lambda>s. sv_hub_id s \<noteq> hid) (db_servers d),
       db_server_sessions := filter (\<lambda>x. ss_hub_id x \<noteq> hid) (db_server_sessions d)\<rparr>"

definition delete_hub_clauses :: "int \<Rightarrow> store_db \<Rightarrow> store_db" where
  "delete_hub_clauses hid d =
     d\<lparr>db_clauses := filter (\<lambda>c. \<not> (cl_type c = ''hub'' \<and> cl_value c = format_int hid)) (db_clauses d)\<rparr>"

definition remove_hub :: "int \<Rightarrow> store_db \<Rightarrow> (store_error, unit \<times> store_db) res" where
  "remove_hub hid d =
     (case find_hub hid d of None \<Rightarrow> Inl ErrNotFound | Some _ \<Rightarrow> Inr ((), delete_hub_row hid d))"

definition delete_hub :: "int \<Rightarrow> unit store_tx" where
  "delete_hub hid =
     transaction DbError
       (tx_bind advisory_lock (\<lambda>_.
        tx_bind advisory_lock (\<lambda>_.
        tx_bind (statement DbError (remove_hub hid)) (\<lambda>_.
        exec DbError (delete_hub_clauses hid)))))"

section \<open>Results of remote calls\<close>

definition lock_and_match_hub_credential :: "(string \<Rightarrow> string) \<Rightarrow> hub \<Rightarrow> bool store_tx" where
  "lock_and_match_hub_credential digest hub =
     tx_bind (query_row DbError ErrNotFound (find_hub (hu_id hub))) (\<lambda>row.
     tx_bind (throw_if (hu_generation hub = []) ErrHubCredentialChanged) (\<lambda>_.
     tx_return (hub_credential_generation digest (hu_id hub) (hb_base_url row) (hb_verify_tls row)
        (hb_enabled row) (hb_token row) = hu_generation hub)))"

definition mark_healthy :: "int \<Rightarrow> string \<Rightarrow> json option \<Rightarrow> store_db \<Rightarrow> store_db" where
  "mark_healthy hid version snapshot d =
     change_hub hid (\<lambda>h. h\<lparr>hb_status := ''healthy'', hb_version := version,
       hb_last_seen_at := Some (db_now d), hb_last_error := [],
       hb_snapshot := given_or snapshot (JObj []), hb_updated_at := db_now d\<rparr>) d"

definition mark_degraded :: "int \<Rightarrow> string \<Rightarrow> store_db \<Rightarrow> store_db" where
  "mark_degraded hid message d =
     change_hub hid (\<lambda>h. h\<lparr>hb_status := ''degraded'', hb_last_error := truncate_text message 1000,
       hb_updated_at := db_now d\<rparr>) d"

definition update_hub_health_body ::
  "(string \<Rightarrow> string) \<Rightarrow> hub \<Rightarrow> bool \<Rightarrow> string \<Rightarrow> string \<Rightarrow> json option \<Rightarrow> unit option store_tx" where
  "update_hub_health_body digest hub success version message snapshot =
     tx_bind (lock_and_match_hub_credential digest hub) (\<lambda>current.
     if \<not> current then tx_return None
     else
       tx_bind (exec DbError (if success then mark_healthy (hu_id hub) version snapshot
                              else mark_degraded (hu_id hub) message)) (\<lambda>_.
       tx_return (Some ())))"

definition update_hub_health_if_current ::
  "(string \<Rightarrow> string) \<Rightarrow> hub \<Rightarrow> bool \<Rightarrow> string \<Rightarrow> string \<Rightarrow> json option \<Rightarrow> bool store_tx" where
  "update_hub_health_if_current digest hub success version message snapshot =
     tx_bind (transaction_maybe DbError (update_hub_health_body digest hub success version message snapshot))
       (\<lambda>written. tx_return (written \<noteq> None))"

end
