(* ===== verification/Hub_Properties.thy ===== *)
theory Hub_Properties
  imports Hubs
begin

text \<open>
  What the hub operations guarantee: a stored token stays with the address it was entered for, a
  result is only recorded for the address it came from, and a deleted hub leaves no grants.
\<close>

section \<open>The fingerprint determines the credential\<close>

lemma byte_of_eq_iff: "byte_of a = byte_of b \<longleftrightarrow> a mod 256 = b mod 256"
proof -
  have "byte_of x = byte_of y \<longleftrightarrow> nat (x mod 256) mod 256 = nat (y mod 256) mod 256" for x y
    unfolding byte_of_def by (metis char_of_mod_256 of_char_of)
  from this [of a b] show ?thesis by (auto simp: nat_eq_iff2)
qed

lemma bytes_determine:
  fixes m n :: int
  assumes "\<And>k. k < j \<Longrightarrow> m div 256 ^ k mod 256 = n div 256 ^ k mod 256"
  shows "m mod 256 ^ j = n mod 256 ^ j"
  using assms
proof (induction j)
  case (Suc j)
  have split: "x mod 256 ^ Suc j = 256 ^ j * (x div 256 ^ j mod 256) + x mod 256 ^ j" for x :: int
    using zmod_zmult2_eq [of 256 x "256 ^ j"] by (simp add: mult.commute)
  have "m mod 256 ^ j = n mod 256 ^ j" by (rule Suc.IH) (rule Suc.prems, simp)
  moreover have "m div 256 ^ j mod 256 = n div 256 ^ j mod 256" by (rule Suc.prems) simp
  ultimately show ?case by (simp only: split)
qed simp

lemma be64_nth:
  assumes "k < 8"
  shows "be64 n ! (7 - k) = byte_of (n div 256 ^ k)"
proof -
  have "k = 0 \<or> k = 1 \<or> k = 2 \<or> k = 3 \<or> k = 4 \<or> k = 5 \<or> k = 6 \<or> k = 7" using assms by linarith
  then show ?thesis by (elim disjE) (simp_all add: be64_def)
qed

lemma be64_inj:
  assumes "be64 m = be64 n" and "0 \<le> m" "m < 2 ^ 64" and "0 \<le> n" "n < 2 ^ 64"
  shows "m = n"
proof -
  have "m div 256 ^ k mod 256 = n div 256 ^ k mod 256" if "k < 8" for k :: nat
    using assms(1) be64_nth [OF that, of m] be64_nth [OF that, of n] byte_of_eq_iff by metis
  from bytes_determine [of 8, OF this] have "m mod 256 ^ 8 = n mod 256 ^ 8" .
  with assms(2-) show ?thesis by simp
qed

lemma length_be64 [simp]: "length (be64 n) = 8"
  by (simp add: be64_def)

lemma write_field_inj:
  assumes "write_field v @ s = write_field w @ t" and "length v < 2 ^ 64" and "length w < 2 ^ 64"
  shows "v = w \<and> s = t"
proof -
  from assms(1) have b: "be64 (int (length v)) = be64 (int (length w))" and r: "v @ s = w @ t"
    by (auto simp: write_field_def)
  from b have "int (length v) = int (length w)" by (rule be64_inj) (use assms(2,3) in simp_all)
  with r show ?thesis by simp
qed

lemma generation_bytes_inj:
  assumes "generation_bytes i u v e t = generation_bytes i u' v' e' t'"
    and "length (canonical_url u) < 2 ^ 64" "length (canonical_url u') < 2 ^ 64"
    and "length (token_bytes t) < 2 ^ 64" "length (token_bytes t') < 2 ^ 64"
  shows "canonical_url u = canonical_url u' \<and> v = v' \<and> e = e' \<and> token_bytes t = token_bytes t'"
proof -
  from assms(1) have "write_field (canonical_url u) @ [byte_of ((if v then 1 else 0) + (if e then 2 else 0))]
        @ write_field (token_bytes t)
      = write_field (canonical_url u') @ [byte_of ((if v' then 1 else 0) + (if e' then 2 else 0))]
        @ write_field (token_bytes t')"
    by (simp add: generation_bytes_def)
  from write_field_inj [OF this assms(2,3)] have u: "canonical_url u = canonical_url u'"
    and f: "byte_of ((if v then 1 else 0) + (if e then 2 else 0)) = byte_of ((if v' then 1 else 0) + (if e' then 2 else 0))"
    and t: "write_field (token_bytes t) @ [] = write_field (token_bytes t') @ []"
    by auto
  from f have "v = v' \<and> e = e'" by (auto simp: byte_of_eq_iff split: if_splits)
  with u write_field_inj [OF t assms(4,5)] show ?thesis by blast
qed

section \<open>Outcomes\<close>

lemma find_hub_id: "find_hub hid d = Some h \<Longrightarrow> hb_id h = hid"
  by (auto simp: find_hub_def find_Some_iff)

lemma find_hub_change:
  assumes "\<And>h. hb_id (f h) = hb_id h"
  shows "find_hub hid (change_hub i f d) = map_option (\<lambda>h. if i = hid then f h else h) (find_hub hid d)"
proof -
  have "find (\<lambda>h. hb_id h = hid) (map (\<lambda>h. if hb_id h = i then f h else h) hs)
      = map_option (\<lambda>h. if i = hid then f h else h) (find (\<lambda>h. hb_id h = hid) hs)" for hs
    using assms by (induction hs) auto
  then show ?thesis by (simp add: find_hub_def change_hub_def)
qed

lemma find_hub_other_tables [simp]:
  "find_hub hid (d\<lparr>db_servers := s\<rparr>) = find_hub hid d"
  "find_hub hid (d\<lparr>db_server_sessions := x\<rparr>) = find_hub hid d"
  "find_hub hid (d\<lparr>db_managed := m\<rparr>) = find_hub hid d"
  "find_hub hid (delete_servers p d) = find_hub hid d"
  "find_hub hid (delete_managed q d) = find_hub hid d"
  by (simp_all add: find_hub_def delete_servers_def delete_managed_def)

lemma find_hub_write:
  "find_hub hid (write_hub i input e v t r d) = map_option (\<lambda>h. if i = hid then h\<lparr>
       hb_name := hw_name input, hb_base_url := hw_base_url input, hb_network := hw_network input,
       hb_enabled := e, hb_verify_tls := v, hb_interval := hw_interval input,
       hb_token := (case t of None \<Rightarrow> hb_token h | Some x \<Rightarrow> Some x),
       hb_status := if r then ''unknown'' else hb_status h,
       hb_version := if r then [] else hb_version h,
       hb_last_seen_at := if r then None else hb_last_seen_at h,
       hb_last_error := if r then [] else hb_last_error h,
       hb_snapshot := if r then JObj [] else hb_snapshot h,
       hb_updated_at := db_now d\<rparr> else h) (find_hub hid d)"
  unfolding write_hub_def by (rule find_hub_change) simp

lemma get_hub_credential_Inr:
  assumes "get_hub_credential digest decrypt hid fs d = (Inr (hub, token), fs', d')"
  obtains row where "find_hub hid d = Some row" and "d' = d" and "hu_id hub = hid"
    and "hu_generation hub = generation_of_row digest row"
proof -
  from assms obtain row where "find_hub hid d = Some row" "d' = d"
    "hub = (scan_hub row)\<lparr>hu_generation := generation_of_row digest row\<rparr>"
    unfolding get_hub_credential_def
    by (auto simp: tx_bind_Inr query_row_Inr Let_def split: if_splits option.splits)
  moreover from this(1) have "hb_id row = hid" by (rule find_hub_id)
  ultimately show thesis using that by (simp add: scan_hub_def)
qed

lemma lock_and_match_Inr:
  assumes "lock_and_match_hub_credential digest hub fs d = (Inr True, fs', d')"
  obtains row where "find_hub (hu_id hub) d = Some row" and "d' = d"
    and "generation_of_row digest row = hu_generation hub"
proof -
  from assms obtain row where "find_hub (hu_id hub) d = Some row" "d' = d"
    "hub_credential_generation digest (hu_id hub) (hb_base_url row) (hb_verify_tls row)
        (hb_enabled row) (hb_token row) = hu_generation hub"
    unfolding lock_and_match_hub_credential_def
    by (auto simp: tx_bind_Inr query_row_Inr split: if_splits)
  moreover from this(1) have "hb_id row = hu_id hub" by (rule find_hub_id)
  ultimately show thesis using that by (simp add: generation_of_row_def)
qed

text \<open>The credential a result was obtained with is the one stored now.\<close>

definition same_credential :: "hub_row \<Rightarrow> hub_row \<Rightarrow> bool" where
  "same_credential old new \<longleftrightarrow>
     canonical_url (hb_base_url new) = canonical_url (hb_base_url old)
     \<and> hb_verify_tls new = hb_verify_tls old \<and> hb_enabled new = hb_enabled old
     \<and> token_bytes (hb_token new) = token_bytes (hb_token old)"

definition storable :: "hub_row \<Rightarrow> bool" where
  \<comment> \<open>the lengths fit the 8 bytes of their prefix\<close>
  "storable h \<longleftrightarrow> length (canonical_url (hb_base_url h)) < 2 ^ 64 \<and> length (token_bytes (hb_token h)) < 2 ^ 64"

definition generation_text :: "hub_row \<Rightarrow> string" where
  "generation_text h =
     generation_bytes (hb_id h) (hb_base_url h) (hb_verify_tls h) (hb_enabled h) (hb_token h)"

text \<open>The digest takes the same value on the two different texts: a collision.\<close>

definition generations_collide :: "(string \<Rightarrow> string) \<Rightarrow> hub_row \<Rightarrow> hub_row \<Rightarrow> bool" where
  "generations_collide digest old new \<longleftrightarrow>
     generation_text old \<noteq> generation_text new
     \<and> digest (generation_text old) = digest (generation_text new)"

lemma generation_of_row_text: "generation_of_row digest h = digest (generation_text h)"
  by (simp add: generation_of_row_def hub_credential_generation_def generation_text_def)

lemma matched_credential:
  assumes "get_hub_credential digest decrypt hid fs d = (Inr (hub, token), fs1, d1)"
    and "lock_and_match_hub_credential digest hub fs2 d2 = (Inr True, fs3, d3)"
    and "\<And>h. find_hub hid d = Some h \<Longrightarrow> storable h" and "\<And>h. find_hub hid d2 = Some h \<Longrightarrow> storable h"
  shows "\<exists>old new. find_hub hid d = Some old \<and> find_hub hid d2 = Some new
    \<and> (same_credential old new \<or> generations_collide digest old new)"
proof -
  from assms(1) obtain old where o: "find_hub hid d = Some old" "hu_id hub = hid"
    "hu_generation hub = generation_of_row digest old"
    by (rule get_hub_credential_Inr)
  from assms(2) obtain new where n: "find_hub hid d2 = Some new"
    "generation_of_row digest new = hu_generation hub"
    using o(2) by (elim lock_and_match_Inr) simp
  have "same_credential old new" if "generation_text old = generation_text new"
    using generation_bytes_inj [of hid "hb_base_url new" "hb_verify_tls new" "hb_enabled new" "hb_token new"]
      that [symmetric] assms(3) [OF o(1)] assms(4) [OF n(1)] find_hub_id [OF o(1)] find_hub_id [OF n(1)]
    by (auto simp: storable_def same_credential_def generation_text_def)
  with o n show ?thesis
    by (auto simp: generations_collide_def generation_of_row_text)
qed

text \<open>C8: The result of a remote call is only recorded for the target it came from: when it is written, the
  hub still has the address, the TLS policy, the enabled flag and the stored token that the call
  was made with, whatever happened to the hub in between. The only way out is a collision of the
  digest: two different credential texts, the hub's then and its now, with the same digest.\<close>

theorem health_result_of_current_target:
  assumes "get_hub_credential digest decrypt hid fs d = (Inr (hub, token), fs1, d1)"
    and "update_hub_health_if_current digest hub success version message snapshot fs2 d2 = (Inr True, fs3, d3)"
    and "\<And>h. find_hub hid d = Some h \<Longrightarrow> storable h" and "\<And>h. find_hub hid d2 = Some h \<Longrightarrow> storable h"
  shows "\<exists>old new. find_hub hid d = Some old \<and> find_hub hid d2 = Some new
    \<and> (same_credential old new \<or> generations_collide digest old new)"
proof -
  from assms(2) obtain fs4 fs5 where
    "update_hub_health_body digest hub success version message snapshot fs4 d2 = (Inr (Some ()), fs5, d3)"
    by (auto simp: update_hub_health_if_current_def tx_bind_Inr transaction_maybe_Some)
  then obtain fs6 d4 where "lock_and_match_hub_credential digest hub fs4 d2 = (Inr True, fs6, d4)"
    by (auto simp: update_hub_health_body_def tx_bind_Inr split: if_splits)
  from matched_credential [OF assms(1) this assms(3,4)] show ?thesis .
qed

definition demo_hub :: hub_row where
  "demo_hub = \<lparr>hb_id = 7, hb_name = ''lab'', hb_base_url = ''https://hub.corp'', hb_network = ''dmz'',
     hb_enabled = True, hb_verify_tls = True, hb_interval = 60, hb_token = Some ''sealed'', hb_status = ''unknown'',
     hb_version = [], hb_last_seen_at = None, hb_last_error = [], hb_snapshot = JObj [], hb_created_at = 0,
     hb_updated_at = 0\<rparr>"

definition demo_hubs :: store_db where
  "demo_hubs = (fresh_store 5)\<lparr>db_hubs := [demo_hub], db_next_hub := 8\<rparr>"

theorem health_result_of_current_target_witness:
  "\<exists>old new. find_hub 7 demo_hubs = Some old \<and> find_hub 7 demo_hubs = Some new
    \<and> (same_credential old new \<or> generations_collide (\<lambda>s. s) old new)"
proof (rule health_result_of_current_target)
  let ?hub = "(scan_hub demo_hub)\<lparr>hu_generation := generation_of_row (\<lambda>s. s) demo_hub\<rparr>"
  have f: "find_hub 7 demo_hubs = Some demo_hub"
    by (simp add: find_hub_def demo_hubs_def demo_hub_def)
  show "get_hub_credential (\<lambda>s. s) (\<lambda>c b. Some b) 7 [] demo_hubs = (Inr (?hub, ''sealed''), [], demo_hubs)"
    by (simp add: get_hub_credential_def tx_bind_def query_row_def statement_def f Let_def token_bytes_def
        tx_return_def) (simp add: demo_hub_def tx_return_def)
  have g: "generation_of_row (\<lambda>s. s) demo_hub \<noteq> []"
    by (simp add: generation_of_row_def hub_credential_generation_def generation_bytes_def be64_def)
  have i: "hu_id ?hub = 7" by (simp add: scan_hub_def demo_hub_def)
  have m: "hub_credential_generation (\<lambda>s. s) 7 (hb_base_url demo_hub) (hb_verify_tls demo_hub)
      (hb_enabled demo_hub) (hb_token demo_hub) = generation_of_row (\<lambda>s. s) demo_hub"
    by (simp add: generation_of_row_def demo_hub_def)
  have "lock_and_match_hub_credential (\<lambda>s. s) ?hub [] demo_hubs = (Inr True, [], demo_hubs)"
    using g m by (simp add: lock_and_match_hub_credential_def tx_bind_def query_row_def statement_def i f
        throw_if_def tx_lift_def tx_return_def)
  then show "update_hub_health_if_current (\<lambda>s. s) ?hub True ''5.2'' [] None [] demo_hubs
      = (Inr True, [], mark_healthy 7 ''5.2'' None demo_hubs)"
    by (simp add: update_hub_health_if_current_def transaction_maybe_def update_hub_health_body_def
        tx_bind_def tx_return_def exec_def statement_def i)
  show "storable h" if "find_hub 7 demo_hubs = Some h" for h
    using that unfolding f by (auto simp: storable_def demo_hub_def token_bytes_def canonical_url_def
        trim_right_def trim_space_def trim_left_def is_space_def)
  then show "storable h" if "find_hub 7 demo_hubs = Some h" for h
    using that .
qed

section \<open>Tokens stay with their address\<close>

lemma delete_none:
  "\<forall>s \<in> set (db_servers (delete_servers p d)). \<not> p s"
  "\<forall>u \<in> set (db_managed (delete_managed q d)). \<not> q u"
  by (simp_all add: delete_servers_def delete_managed_def)

lemma delete_managed_servers:
  "\<forall>s \<in> set (db_servers d). \<not> p s \<Longrightarrow> (\<And>s. p (s\<lparr>sv_managed_user_id := None\<rparr>) = p s) \<Longrightarrow>
     \<forall>s \<in> set (db_servers (delete_managed q d)). \<not> p s"
  by (auto simp: delete_managed_def)

lemma encrypt_token_Inr:
  "encrypt_token encrypt hid token = Inr e \<longleftrightarrow>
     (token = [] \<and> e = None \<or> token \<noteq> [] \<and> e \<noteq> None \<and> encrypt (token_context hid) token = e)"
  by (auto simp: encrypt_token_def split: option.splits)

lemma forget_inventory_Inr:
  "forget_inventory hid replace_target fs d = (Inr u, fs', d') \<Longrightarrow>
     d' = (if replace_target
        then delete_managed (\<lambda>u. mu_hub_id u = hid) (delete_servers (\<lambda>s. sv_hub_id s = hid) d) else d)"
  by (auto simp: forget_inventory_def tx_bind_Inr exec_Inr split: if_splits)

lemma apply_hub_update_Inr:
  assumes "apply_hub_update endpoint_ok encrypt hid current input e v fs d = (Inr hub, fs', d')"
  obtains enc fs1 fs2 u where "encrypt_token encrypt hid (hw_token input) = Inr enc"
    and "trim_space (hw_token input) = [] \<Longrightarrow>
        \<not> hub_credential_binding_changed (hu_base_url current) (hu_verify_tls current) (hw_base_url input) v"
    and "forget_inventory hid (hu_base_url current \<noteq> hw_base_url input) fs1
        (write_hub hid input e v enc (hu_base_url current \<noteq> hw_base_url input) d) = (Inr u, fs2, d')"
  using assms unfolding apply_hub_update_def
  by (elim tx_bindE) (simp only: tx_lift_Inr throw_if_Inr exec_Inr tx_lift_state_Inr tx_return_Inr,
      elim conjE, hypsubst, blast)

text \<open>A stored token never reaches another address: an update that does not enter the token again keeps
  token, address and TLS policy as they were; one that does stores exactly the token entered,
  sealed for this hub; and a changed address leaves none of the servers and users that were
  observed at the old one.\<close>

theorem hub_token_keeps_target:
  assumes "update_hub endpoint_ok encrypt hid input fs d = (Inr hub, fs', d')"
  shows "\<exists>old new. find_hub hid d = Some old \<and> find_hub hid d' = Some new
    \<and> (if trim_space (hw_token input) = []
       then hb_token new = hb_token old \<and> canonical_url (hb_base_url new) = canonical_url (hb_base_url old)
          \<and> hb_verify_tls new = hb_verify_tls old
       else hb_token new = encrypt (token_context hid) (trim_space (hw_token input)) \<and> hb_token new \<noteq> None)
    \<and> (hb_base_url new \<noteq> hb_base_url old \<longrightarrow>
        (\<forall>s \<in> set (db_servers d'). sv_hub_id s \<noteq> hid) \<and> (\<forall>u \<in> set (db_managed d'). mu_hub_id u \<noteq> hid))"
proof -
  from assms obtain fs1 fs2 where "update_hub_body endpoint_ok encrypt hid input fs1 d = (Inr hub, fs2, d')"
    by (auto simp: update_hub_def transaction_Inr)
  then obtain row fs3 where f: "find_hub hid d = Some row"
    and "apply_hub_update endpoint_ok encrypt hid (scan_hub row) (update_defaults (scan_hub row) input)
       (given_or (hw_enabled input) (hb_enabled row)) (given_or (hw_verify_tls input) (hb_verify_tls row)) fs3 d
       = (Inr hub, fs2, d')"
    by (auto simp: update_hub_body_def tx_bind_Inr query_row_Inr advisory_lock_def exec_Inr)
  moreover define input1 where "input1 = update_defaults (scan_hub row) input"
  moreover define v where "v = given_or (hw_verify_tls input) (hb_verify_tls row)"
  ultimately obtain enc fs4 fs5 u e where e: "encrypt_token encrypt hid (hw_token input1) = Inr enc"
    and b: "trim_space (hw_token input1) = [] \<Longrightarrow>
        \<not> hub_credential_binding_changed (hb_base_url row) (hb_verify_tls row) (hw_base_url input1) v"
    and i: "forget_inventory hid (hb_base_url row \<noteq> hw_base_url input1) fs4
        (write_hub hid input1 e v enc (hb_base_url row \<noteq> hw_base_url input1) d) = (Inr u, fs5, d')"
    by (elim apply_hub_update_Inr) (auto simp: scan_hub_def)
  note d' = forget_inventory_Inr [OF i]
  have t: "hw_token input1 = trim_space (hw_token input)"
    by (simp add: input1_def update_defaults_def normalize_hub_write_def Let_def)
  have eq: "find_hub hid d' = find_hub hid (write_hub hid input1 e v enc (hb_base_url row \<noteq> hw_base_url input1) d)"
    by (simp add: d')
  obtain new where n: "find_hub hid d' = Some new"
    and new: "hb_base_url new = hw_base_url input1" "hb_verify_tls new = v"
      "hb_token new = (case enc of None \<Rightarrow> hb_token row | Some x \<Rightarrow> Some x)"
    by (rule that [OF trans [OF eq]], simp add: find_hub_write f, simp_all)
  have token: "if trim_space (hw_token input) = []
       then hb_token new = hb_token row \<and> canonical_url (hb_base_url new) = canonical_url (hb_base_url row)
          \<and> hb_verify_tls new = hb_verify_tls row
       else hb_token new = encrypt (token_context hid) (trim_space (hw_token input)) \<and> hb_token new \<noteq> None"
    using e b new t by (auto simp: encrypt_token_Inr hub_credential_binding_changed_def split: option.splits)
  have gone: "\<forall>s \<in> set (db_servers (delete_managed q (delete_servers (\<lambda>s. sv_hub_id s = hid) d1))).
      sv_hub_id s \<noteq> hid" for q d1
    using delete_none(1) by (rule delete_managed_servers) simp
  then have "hb_base_url new \<noteq> hb_base_url row \<longrightarrow>
        (\<forall>s \<in> set (db_servers d'). sv_hub_id s \<noteq> hid) \<and> (\<forall>u \<in> set (db_managed d'). mu_hub_id u \<noteq> hid)"
    using new(1) d' delete_none(2) [of "\<lambda>u. mu_hub_id u = hid"] by auto
  with f n token show ?thesis by blast
qed

definition demo_hub_update :: hub_write where
  "demo_hub_update = \<lparr>hw_name = [], hw_base_url = ''https://other.corp/'', hw_network = [], hw_enabled = None,
     hw_verify_tls = None, hw_interval = 0, hw_token = '' fresh ''\<rparr>"

theorem hub_token_keeps_target_witness:
  "\<exists>new. find_hub 7 (snd (snd (update_hub (\<lambda>_. True) (\<lambda>c t. Some (c @ t)) 7 demo_hub_update [] demo_hubs)))
     = Some new \<and> hb_token new = Some ''hub:7:tokenfresh''"
proof -
  let ?call = "update_hub (\<lambda>_. True) (\<lambda>c t. Some (c @ t)) 7 demo_hub_update [] demo_hubs"
  define input1 where "input1 = update_defaults (scan_hub demo_hub) demo_hub_update"
  have i: "hw_token input1 = ''fresh''" "hw_base_url input1 = ''https://other.corp''" "hw_name input1 = ''lab''"
    "hw_network input1 = ''dmz''" "hw_interval input1 = 60"
    unfolding input1_def by code_simp+
  have f: "find_hub 7 demo_hubs = Some demo_hub" by (simp add: find_hub_def demo_hubs_def demo_hub_def)
  have t: "trim_space ''fresh'' \<noteq> []" by code_simp
  have w: "find_hub 7 (write_hub 7 input1 e v c r demo_hubs) \<noteq> None" for e v c r
    by (simp add: find_hub_write f)
  have "is_ok (fst ?call)"
    using t by (simp add: update_hub_def update_hub_body_def transaction_def tx_bind_def advisory_lock_def
        exec_def statement_def query_row_def f input1_def [symmetric] apply_hub_update_def validate_hub_write_def i
        tx_lift_def throw_if_def max_hub_name_bytes_def max_hub_network_bytes_def max_hub_url_bytes_def
        max_hub_token_bytes_def min_hub_interval_def max_hub_interval_def encrypt_token_def tx_lift_state_def
        forget_inventory_def tx_return_def split: option.split) (metis w)
  then obtain hub where "?call = (Inr hub, fst (snd ?call), snd (snd ?call))"
    by (metis is_ok_iff prod.collapse)
  from hub_token_keeps_target [OF this]
  obtain new where n: "find_hub 7 (snd (snd ?call)) = Some new"
    and "if trim_space (hw_token demo_hub_update) = [] then hb_token new = hb_token demo_hub \<and> True
       else hb_token new = Some (token_context 7 @ trim_space (hw_token demo_hub_update))"
    by (auto split: if_splits simp: demo_hubs_def find_hub_def demo_hub_def)
  moreover have "trim_space (hw_token demo_hub_update) = ''fresh''" by code_simp
  moreover have "token_context 7 = ''hub:7:token''" by code_simp
  ultimately show ?thesis by simp
qed

end
