(* ===== verification/Accounts.thy ===== *)
theory Accounts
  imports Role_Bindings
begin

text \<open>
  Accounts and sessions of \<^verbatim>\<open>internal/store/users.go\<close> and the bootstrap \<^verbatim>\<open>Seed\<close> of
  \<^verbatim>\<open>internal/store/store.go\<close>. Password hashing is the third-party \<^verbatim>\<open>bcrypt\<close>: its two functions are
  the parameters \<open>hash\<close> (already applied, as a result) and \<open>matches\<close>. A unique index that a write
  would violate is a failing statement (\<open>DbError\<close>). The clock \<open>db_now\<close> is fixed during one call.
\<close>

section \<open>Reading a user\<close>

definition user_of_row :: "user_row \<Rightarrow> user" where
  "user_of_row u =
     empty_user\<lparr>u_id := us_id u, u_username := us_username u, u_display_name := us_display_name u,
       u_email := us_email u, u_department := us_department u, u_auth_source := us_auth_source u,
       u_external_subject := us_external_subject u, u_active := us_active u,
       u_last_login_at := us_last_login_at u, u_created_at := us_created_at u,
       u_updated_at := us_updated_at u\<rparr>"

definition find_username :: "string \<Rightarrow> store_db \<Rightarrow> user_row option" where
  "find_username username d = find (\<lambda>u. to_lower (us_username u) = to_lower username) (db_users d)"

definition find_user_by_username :: "string \<Rightarrow> (user \<times> string option) store_tx" where
  "find_user_by_username username =
     tx_bind (query_row DbError ErrNotFound (find_username username)) (\<lambda>row.
     tx_bind (populate_user_access (user_of_row row)) (\<lambda>u.
     tx_return (u, us_password_hash row)))"

definition get_user :: "int \<Rightarrow> user store_tx" where
  "get_user uid =
     tx_bind (query_row DbError ErrNotFound (find_user uid)) (\<lambda>row.
     populate_user_access (user_of_row row))"

lemma keeps_populate [inv_intros]: "keeps I (populate_user_access u)"
  unfolding populate_user_access_def by (intro inv_intros)

lemma keeps_get_user [inv_intros]: "keeps I (get_user uid)"
  unfolding get_user_def by (intro inv_intros)

section \<open>Writing users\<close>

definition change_users :: "(user_row \<Rightarrow> bool) \<Rightarrow> (user_row \<Rightarrow> user_row) \<Rightarrow> store_db \<Rightarrow> store_db" where
  "change_users cond f d = d\<lparr>db_users := map (\<lambda>u. if cond u then f u else u) (db_users d)\<rparr>"

definition username_taken :: "int \<Rightarrow> string \<Rightarrow> store_db \<Rightarrow> bool" where
  \<comment> \<open>the unique index on \<^verbatim>\<open>lower(username)\<close>, for a row other than \<open>uid\<close>\<close>
  "username_taken uid username d =
     list_ex (\<lambda>u. us_id u \<noteq> uid \<and> to_lower (us_username u) = to_lower username) (db_users d)"

definition add_user :: "user_row \<Rightarrow> store_db \<Rightarrow> (store_error, int \<times> store_db) res" where
  \<comment> \<open>\<^verbatim>\<open>INSERT INTO users(...) RETURNING id\<close> under the two unique indexes\<close>
  "add_user row d =
     (if list_ex (\<lambda>u. to_lower (us_username u) = to_lower (us_username row)
          \<or> us_external_subject row \<noteq> None \<and> us_external_subject u = us_external_subject row)
          (db_users d)
      then Inl DbError
      else Inr (db_next_user d,
             d\<lparr>db_users := db_users d @ [row\<lparr>us_id := db_next_user d\<rparr>],
               db_next_user := db_next_user d + 1\<rparr>))"

definition bind_default :: "int \<Rightarrow> int \<Rightarrow> unit store_tx" where
  \<comment> \<open>\<^verbatim>\<open>INSERT INTO user_roles(user_id,role_id) ... ON CONFLICT DO NOTHING\<close>: the mode defaults to
    global, the foreign keys hold\<close>
  "bind_default uid rid =
     statement DbError (\<lambda>d.
       if list_ex (\<lambda>b. bi_user_id b = uid \<and> bi_role_id b = rid) (db_user_roles d) then Inr ((), d)
       else if find_user uid d = None \<or> find_role rid d = None then Inl DbError
       else Inr ((), d\<lparr>db_user_roles := db_user_roles d @
               [\<lparr>bi_user_id = uid, bi_role_id = rid, bi_scope_mode = ''global''\<rparr>]\<rparr>))"

definition oidc_link_decision :: "int \<Rightarrow> int \<Rightarrow> bool \<Rightarrow> (store_error, bool) res" where
  "oidc_link_decision subject_user_id username_owner_id auto_create =
     (if subject_user_id \<noteq> 0 then Inr False
      else if username_owner_id \<noteq> 0 then Inl ErrIdentityConflict
      else if \<not> auto_create then Inl ErrNotFound
      else Inr True)"

definition find_subject :: "string \<Rightarrow> store_db \<Rightarrow> int" where
  \<comment> \<open>the id, or the zero the variable keeps when there is no row\<close>
  "find_subject subject d =
     (case find (\<lambda>u. us_external_subject u = Some subject \<and> us_auth_source u = ''oidc'') (db_users d)
      of None \<Rightarrow> 0 | Some u \<Rightarrow> us_id u)"

definition oidc_row :: "string \<Rightarrow> string \<Rightarrow> string \<Rightarrow> string \<Rightarrow> string \<Rightarrow> time \<Rightarrow> user_row" where
  "oidc_row subject username display_name email department now =
     \<lparr>us_id = 0, us_username = username, us_display_name = display_name, us_email = email,
      us_department = department, us_password_hash = None, us_auth_source = ''oidc'',
      us_external_subject = Some subject, us_active = True, us_last_login_at = None,
      us_created_at = now, us_updated_at = now\<rparr>"

definition assign_default_role :: "int \<Rightarrow> unit store_tx" where
  "assign_default_role uid =
     ignore_error (tx_bind (query_row DbError ErrNotFound
         (\<lambda>d. map_option ro_id (find (\<lambda>r. ro_key r = ''user'') (db_roles d)))) (\<lambda>default_role_id.
       ignore_error (bind_default uid default_role_id)))"

definition update_oidc_row :: "int \<Rightarrow> string \<Rightarrow> string \<Rightarrow> string \<Rightarrow> string \<Rightarrow> unit store_tx" where
  "update_oidc_row uid username display_name email department =
     statement DbError (\<lambda>d.
       if list_ex (\<lambda>u. us_id u = uid) (db_users d) \<and> username_taken uid username d then Inl DbError
       else Inr ((), change_users (\<lambda>u. us_id u = uid)
         (\<lambda>u. u\<lparr>us_username := username, us_display_name := display_name, us_email := email,
                us_department := department, us_updated_at := db_now d\<rparr>) d))"

definition upsert_oidc_user ::
  "string \<Rightarrow> string \<Rightarrow> string \<Rightarrow> string \<Rightarrow> string \<Rightarrow> bool \<Rightarrow> user store_tx" where
  "upsert_oidc_user subject username raw_display_name raw_email department auto_create =
     (let display_name = trim_space raw_display_name; email = trim_space raw_email
      in tx_bind (query DbError (find_subject subject)) (\<lambda>subject_user_id.
         if subject_user_id = 0 then
           tx_bind (query DbError (\<lambda>d. case find_username username d of None \<Rightarrow> 0 | Some u \<Rightarrow> us_id u))
             (\<lambda>username_owner_id.
           tx_bind (tx_lift (oidc_link_decision subject_user_id username_owner_id auto_create))
             (\<lambda>create.
           if create then
             tx_bind (statement DbError (\<lambda>d.
                 add_user (oidc_row subject username display_name email department (db_now d)) d))
               (\<lambda>new_id.
             tx_bind (assign_default_role new_id) (\<lambda>_. get_user new_id))
           else get_user subject_user_id))
         else
           tx_bind (update_oidc_row subject_user_id username display_name email department) (\<lambda>_.
           get_user subject_user_id)))"

definition touch_login :: "int \<Rightarrow> unit store_tx" where
  "touch_login uid =
     exec DbError (\<lambda>d. change_users (\<lambda>u. us_id u = uid)
       (\<lambda>u. u\<lparr>us_last_login_at := Some (db_now d), us_updated_at := db_now d\<rparr>) d)"

definition update_profile :: "int \<Rightarrow> string \<Rightarrow> string \<Rightarrow> user store_tx" where
  "update_profile uid display_name email =
     tx_bind (statement DbError (\<lambda>d.
         if find_user uid d = None then Inl ErrNotFound
         else Inr ((), change_users (\<lambda>u. us_id u = uid)
           (\<lambda>u. u\<lparr>us_display_name := trim_space display_name, us_email := trim_space email,
                  us_updated_at := db_now d\<rparr>) d))) (\<lambda>_.
     get_user uid)"

definition change_local_password ::
  "(string \<Rightarrow> string option) \<Rightarrow> (string \<Rightarrow> string \<Rightarrow> bool) \<Rightarrow> int \<Rightarrow> string \<Rightarrow> string \<Rightarrow> unit store_tx" where
  "change_local_password bcrypt_hash matches uid current_password new_password =
     tx_bind (throw_if (length new_password < 12) PasswordTooShort) (\<lambda>_.
     tx_bind (query_row DbError ErrNotFound (\<lambda>d.
         map_option (\<lambda>u. (us_password_hash u, us_auth_source u))
           (find (\<lambda>u. us_id u = uid \<and> us_active u) (db_users d)))) (\<lambda>(hash, auth_source).
     if auth_source \<noteq> ''local'' then tx_throw ErrLocalAuthOnly
     else case hash of
       None \<Rightarrow> tx_throw ErrLocalAuthOnly
     | Some stored \<Rightarrow>
         if \<not> matches stored current_password then tx_throw ErrInvalidPassword
         else if matches stored new_password then tx_throw PasswordUnchanged
         else case bcrypt_hash new_password of
           None \<Rightarrow> tx_throw HashFailure
         | Some new_hash \<Rightarrow>
             exec DbError (\<lambda>d. change_users (\<lambda>u. us_id u = uid)
               (\<lambda>u. u\<lparr>us_password_hash := Some new_hash, us_updated_at := db_now d\<rparr>) d)))"

section \<open>Sessions\<close>

definition revoke_sessions :: "(session_row \<Rightarrow> bool) \<Rightarrow> store_db \<Rightarrow> store_db" where
  "revoke_sessions cond d =
     d\<lparr>db_sessions := map (\<lambda>s. if cond s
         then s\<lparr>se_revoked_at := (case se_revoked_at s of None \<Rightarrow> Some (db_now d) | Some t \<Rightarrow> Some t)\<rparr>
         else s) (db_sessions d)\<rparr>"

definition revoke_other_sessions :: "int \<Rightarrow> string \<Rightarrow> unit store_tx" where
  "revoke_other_sessions uid keep_jti =
     exec DbError (revoke_sessions (\<lambda>s.
       se_user_id s = uid \<and> se_jti s \<noteq> keep_jti \<and> se_revoked_at s = None))"

definition create_session :: "string \<Rightarrow> int \<Rightarrow> time \<Rightarrow> string \<Rightarrow> string \<Rightarrow> unit store_tx" where
  "create_session jti uid expires ip user_agent =
     statement DbError (\<lambda>d.
       if list_ex (\<lambda>s. se_jti s = jti) (db_sessions d) \<or> find_user uid d = None then Inl DbError
       else Inr ((), d\<lparr>db_sessions := db_sessions d @
         [\<lparr>se_jti = jti, se_user_id = uid, se_expires_at = expires, se_revoked_at = None,
           se_ip = ip, se_agent = user_agent\<rparr>]\<rparr>))"

definition session_live :: "string \<Rightarrow> int \<Rightarrow> store_db \<Rightarrow> bool" where
  "session_live jti uid d =
     list_ex (\<lambda>s. se_jti s = jti \<and> se_user_id s = uid \<and> se_revoked_at s = None
       \<and> db_now d < se_expires_at s) (db_sessions d)"

definition session_active :: "string \<Rightarrow> int \<Rightarrow> bool store_tx" where
  "session_active jti uid = query DbError (session_live jti uid)"

definition revoke_session :: "string \<Rightarrow> unit store_tx" where
  "revoke_session jti = exec DbError (revoke_sessions (\<lambda>s. se_jti s = jti))"

section \<open>Bootstrap\<close>

definition default_user_role_permissions :: "string list" where
  "default_user_role_permissions = [''profile:read'', ''profile:keys'']"

definition default_settings :: "(string \<times> json) list" where
  "default_settings =
    [(''system'', JObj [(''raw_retention_days'', JNum 30), (''usage_retention_days'', JNum 365)]),
     (''workflow'', JObj [(''approval_enabled'', JBool False), (''manager_review_enabled'', JBool False),
        (''require_reason'', JBool False), (''request_types'', JArr [])]),
     (''auth.oidc'', JObj [(''enabled'', JBool False), (''issuer_url'', JStr []), (''client_id'', JStr []),
        (''redirect_url'', JStr []), (''scopes'', JArr [JStr ''openid'', JStr ''profile'', JStr ''email'']),
        (''username_claim'', JStr ''preferred_username''), (''auto_create_users'', JBool True),
        (''verify_tls'', JBool True), (''auto_login'', JBool False)]),
     (''ai'', JObj [(''enabled'', JBool False), (''provider'', JStr ''openai-compatible''),
        (''base_url'', JStr []), (''model'', JStr []), (''max_tokens'', JNum 4096),
        (''streaming'', JBool True), (''verify_tls'', JBool True)]),
     (''prometheus'', JObj [(''enabled'', JBool False), (''base_url'', JStr []), (''verify_tls'', JBool True)]),
     (''kubernetes'', JObj [(''enabled'', JBool False), (''base_url'', JStr []), (''verify_tls'', JBool True)]),
     (''notifications'', JObj [(''webhook_enabled'', JBool False), (''base_url'', JStr []),
        (''events'', JArr [])]),
     (''features'', JObj [(''gpu_monitoring'', JBool False), (''llm_usage_monitoring'', JBool False)]),
     (''llm_usage'', JObj [(''source'', JStr ''prometheus''),
        (''pod_username_regex'', JStr ''^jupyter-(?P<username>[a-zA-Z0-9._-]+)''),
        (''path_matcher'', JStr ''/v1/chat/completions''), (''label_mappings'', JObj []),
        (''promql'', JObj [(''calls'', JStr (''sum(increase(http_requests_total{path='' @ [CHR 0x22]
           @ ''/v1/chat/completions'' @ [CHR 0x22] @ ''}[1m])) by (pod,path,status,model,hub)''))]),
        (''input_cost_per_million'', JNum 0), (''output_cost_per_million'', JNum 0),
        (''stale_seconds'', JNum 300), (''retention_days'', JNum 30)]),
     (''security'', JObj [(''key_rotation_days'', JNum 90), (''key_max_lifetime_days'', JNum 365),
        (''key_permissions'', JArr [])]),
     (''mail'', JObj [(''enabled'', JBool False), (''smtp_host'', JStr []), (''smtp_port'', JNum 25),
        (''security'', JStr ''auto''), (''skip_tls_verify'', JBool False), (''username'', JStr []),
        (''from_address'', JStr []), (''from_name'', JStr ''jupiq''), (''base_url'', JStr []),
        (''timeout_seconds'', JNum 10), (''notify_approval_request'', JBool True),
        (''notify_approval_decision'', JBool True), (''notify_hub_health'', JBool True),
        (''notify_key_expiry'', JBool True)])]"

definition seed_user :: "string \<Rightarrow> string \<Rightarrow> int store_tx" where
  "seed_user username hash =
     statement DbError (\<lambda>d.
       case find_username username d of
         Some u \<Rightarrow>
           if us_auth_source u \<noteq> ''local'' then Inl BootstrapNameNotLocal
           else Inr (us_id u, change_users (\<lambda>v. us_id v = us_id u) (\<lambda>v. v\<lparr>us_username := username\<rparr>) d)
       | None \<Rightarrow>
           add_user \<lparr>us_id = 0, us_username = username, us_display_name = username, us_email = [],
             us_department = [], us_password_hash = Some hash, us_auth_source = ''local'',
             us_external_subject = None, us_active = True, us_last_login_at = None,
             us_created_at = db_now d, us_updated_at = db_now d\<rparr> d)"

definition system_role :: "string \<Rightarrow> string \<Rightarrow> string \<Rightarrow> string list \<Rightarrow> store_db \<Rightarrow> store_db" where
  "system_role key name description permissions d =
     d\<lparr>db_roles := db_roles d @
         [\<lparr>ro_id = db_next_role d, ro_key = key, ro_name = name, ro_description = description,
           ro_permissions = PermArray permissions, ro_system = True, ro_created_at = db_now d,
           ro_updated_at = db_now d\<rparr>],
       db_next_role := db_next_role d + 1\<rparr>"

text \<open>The Korean display names of the system roles, in UTF-8.\<close>

definition super_admin_name :: string where
  "super_admin_name =
     map char_of [236::nat, 181, 156, 234, 179, 160, 32, 234, 180, 128, 235, 166, 172, 236,
       158, 144]"

definition super_admin_description :: string where
  "super_admin_description =
     map char_of [235::nat, 170, 168, 235, 147, 160, 32, 234, 180, 128, 235, 166, 172, 32, 234,
       182, 140, 237, 149, 156]"

definition user_role_name :: string where
  "user_role_name =
     map char_of [236::nat, 130, 172, 236, 154, 169, 236, 158, 144]"

definition user_role_description :: string where
  "user_role_description =
     map char_of [234::nat, 176, 156, 236, 157, 184, 237, 153, 148, 32, 235, 176, 143, 32, 235,
       179, 184, 236, 157, 184, 32, 236, 130, 172, 236, 154, 169, 235, 159, 137, 32, 236, 161,
       176, 237, 154, 140]"

definition seed_super_role :: "store_db \<Rightarrow> store_db" where
  "seed_super_role d =
     (if list_ex (\<lambda>r. ro_key r = ''super_admin'') (db_roles d)
      then d\<lparr>db_roles := map (\<lambda>r. if ro_key r = ''super_admin''
               then r\<lparr>ro_permissions := PermArray [''*''], ro_system := True, ro_updated_at := db_now d\<rparr>
               else r) (db_roles d)\<rparr>
      else system_role ''super_admin'' super_admin_name super_admin_description [''*''] d)"

definition seed_user_role :: "store_db \<Rightarrow> store_db" where
  "seed_user_role d =
     (if list_ex (\<lambda>r. ro_key r = ''user'') (db_roles d) then d
      else system_role ''user'' user_role_name user_role_description
             default_user_role_permissions d)"

definition seed_setting :: "string \<times> json \<Rightarrow> store_db \<Rightarrow> store_db" where
  "seed_setting kv d =
     (if list_ex (\<lambda>s. st_key s = fst kv) (db_settings d) then d
      else d\<lparr>db_settings := db_settings d @
        [\<lparr>st_key = fst kv, st_value = snd kv, st_updated_by = None, st_updated_at = db_now d\<rparr>]\<rparr>)"

definition seed_body :: "string \<Rightarrow> string \<Rightarrow> unit store_tx" where
  "seed_body username hash =
     tx_bind (seed_user username hash) (\<lambda>uid.
     tx_bind (exec DbError seed_super_role) (\<lambda>_.
     tx_bind (query_row DbError DbError
         (\<lambda>d. map_option ro_id (find (\<lambda>r. ro_key r = ''super_admin'') (db_roles d)))) (\<lambda>rid.
     tx_bind (bind_default uid rid) (\<lambda>_.
     tx_bind (exec DbError seed_user_role) (\<lambda>_.
     foreach (\<lambda>kv. exec DbError (seed_setting kv)) default_settings)))))"

definition seed :: "(string \<Rightarrow> string option) \<Rightarrow> string \<Rightarrow> string \<Rightarrow> unit store_tx" where
  "seed bcrypt_hash username password =
     (case bcrypt_hash password of
        None \<Rightarrow> tx_throw HashFailure
      | Some hash \<Rightarrow> transaction DbError (seed_body username hash))"

end
