(* ===== verification/Hub_Sync.thy ===== *)
theory Hub_Sync
  imports Hub_Properties Accounts "HOL-Library.AList"
begin

text \<open>
  The inventory of a hub: what a snapshot of its users and servers does to the tables
  (\<^verbatim>\<open>syncHubUsers\<close> and its helpers in \<^verbatim>\<open>internal/store/hubs.go\<close>), and the lists read from it.
  \<open>parse_time\<close> is \<^verbatim>\<open>time.Parse(time.RFC3339Nano, s)\<close>.
\<close>

section \<open>A snapshot\<close>

record jupyter_user =
  ju_name :: string
  ju_admin :: bool
  ju_pending :: "string option"
  ju_last_activity :: "time option"
  ju_server :: string
  ju_servers :: "(string \<times> json) list"
  ju_roles :: "string list"
  ju_groups :: "string list"

record parsed_server =
  ps_status :: string
  ps_started :: "time option"
  ps_last_activity :: "time option"
  ps_url :: string
  ps_node :: string
  ps_pod :: string
  ps_image :: string
  ps_cpu :: "rat option"
  ps_memory :: "int option"
  ps_gpu :: "int option"

definition parse_time_value :: "(string \<Rightarrow> time option) \<Rightarrow> json \<Rightarrow> time option" where
  "parse_time_value parse_time v =
     (case as_string v of
        None \<Rightarrow> None
      | Some s \<Rightarrow> if s = [] then None else parse_time s)"

definition members_or_none :: "json \<Rightarrow> json_object" where
  "members_or_none raw = (case as_object raw of None \<Rightarrow> [] | Some m \<Rightarrow> m)"

definition server_status :: "json_object \<Rightarrow> string" where
  "server_status value =
     (let status = (case as_string (lookup value ''pending'') of
                      Some pending \<Rightarrow> if pending \<noteq> [] then ''pending_'' @ pending else ''running''
                    | None \<Rightarrow> ''running'')
      in if as_bool (lookup value ''ready'') = Some False \<and> status = ''running'' then ''starting'' else status)"

definition parse_jupyter_server :: "(string \<Rightarrow> time option) \<Rightarrow> json \<Rightarrow> parsed_server" where
  "parse_jupyter_server parse_time raw =
     (let value = members_or_none raw
      in \<lparr>ps_status = server_status value,
          ps_started = parse_time_value parse_time (lookup value ''started''),
          ps_last_activity = parse_time_value parse_time (lookup value ''last_activity''),
          ps_url = string_or_empty (lookup value ''url''),
          ps_node = string_or_empty (lookup value ''node_name''),
          ps_pod = string_or_empty (lookup value ''pod_name''),
          ps_image = string_or_empty (lookup value ''image''),
          ps_cpu = None, ps_memory = None, ps_gpu = None\<rparr>)"

definition safe_jupyter_user_snapshot :: "jupyter_user \<Rightarrow> json" where
  "safe_jupyter_user_snapshot u =
     JObj ((if ju_roles u \<noteq> [] then [(''roles'', JArr (map JStr (ju_roles u)))] else [])
         @ (if ju_groups u \<noteq> [] then [(''groups'', JArr (map JStr (ju_groups u)))] else [])
         @ (case ju_pending u of None \<Rightarrow> [] | Some p \<Rightarrow> [(''pending'', JStr p)]))"

definition numeric_json_value :: "json \<Rightarrow> rat option" where
  "numeric_json_value v = as_number v"

definition finite_non_negative :: "rat \<Rightarrow> bool" where
  "finite_non_negative v = (0 \<le> v)"

definition safe_jupyter_server_snapshot :: "json \<Rightarrow> json_object" where
  "safe_jupyter_server_snapshot raw =
     (let source = members_or_none raw
      in concat (map (\<lambda>key. case as_string (lookup source key) of None \<Rightarrow> [] | Some s \<Rightarrow> [(key, JStr s)])
           [''project'', ''profile'', ''resource_profile'', ''pending''])
       @ (case as_bool (lookup source ''ready'') of None \<Rightarrow> [] | Some b \<Rightarrow> [(''ready'', JBool b)])
       @ (case numeric_json_value (lookup source ''progress'') of
            None \<Rightarrow> []
          | Some v \<Rightarrow> if finite_non_negative v \<and> v \<le> 100 then [(''progress'', JNum v)] else []))"

definition server_key :: "string \<Rightarrow> string \<Rightarrow> string" where
  "server_key username server_name = username @ CHR 0x00 # server_name"

record hub_snapshot_plan =
  pl_seen_users :: "string list"
  pl_active_servers :: "string list"
  pl_deactivate_all :: bool

definition user_active_keys :: "(string \<Rightarrow> time option) \<Rightarrow> jupyter_user \<Rightarrow> string list" where
  "user_active_keys parse_time u =
     map (\<lambda>(name, raw). server_key (ju_name u) name)
       (filter (\<lambda>(name, raw). ps_status (parse_jupyter_server parse_time raw) \<noteq> ''stopped'') (ju_servers u))
     @ (if ju_servers u = [] \<and> ju_server u \<noteq> [] then [server_key (ju_name u) []] else [])"

definition plan_hub_snapshot :: "(string \<Rightarrow> time option) \<Rightarrow> jupyter_user list \<Rightarrow> hub_snapshot_plan" where
  "plan_hub_snapshot parse_time users =
     \<lparr>pl_seen_users = map ju_name users,
      pl_active_servers = concat (map (user_active_keys parse_time) users),
      pl_deactivate_all = (users = [])\<rparr>"

section \<open>Statements\<close>

type_synonym running_state = "int \<times> time option"

definition running_server_states :: "int \<Rightarrow> store_db \<Rightarrow> (string \<times> running_state) list" where
  "running_server_states hid d =
     fold (\<lambda>s. AList.update (server_key (sv_username s) (sv_server_name s)) (sv_id s, sv_started_at s))
       (filter (\<lambda>s. sv_hub_id s = hid \<and> sv_status s \<noteq> ''stopped'') (db_servers d)) []"

definition stop_server :: "int \<Rightarrow> time \<Rightarrow> store_db \<Rightarrow> store_db" where
  "stop_server sid moment d =
     d\<lparr>db_servers := map (\<lambda>s. if sv_id s = sid then s\<lparr>sv_status := ''stopped'', sv_synced_at := moment\<rparr> else s)
         (db_servers d)\<rparr>"

text \<open>Ending the open session of a server. The table refuses an end before the start
  (\<^verbatim>\<open>CHECK (ended_at IS NULL OR ended_at >= started_at)\<close>), and the statement fails.\<close>

definition end_sessions :: "int \<Rightarrow> time \<Rightarrow> store_db \<Rightarrow> (store_error, unit \<times> store_db) res" where
  "end_sessions sid moment d =
     (if list_ex (\<lambda>x. ss_server_id x = Some sid \<and> ss_ended_at x = None \<and> moment < ss_started_at x)
           (db_server_sessions d)
      then Inl DbError
      else Inr ((), d\<lparr>db_server_sessions := map (\<lambda>x.
             if ss_server_id x = Some sid \<and> ss_ended_at x = None
             then x\<lparr>ss_ended_at := Some moment, ss_last_activity_at := Some (given_or (ss_last_activity_at x) moment)\<rparr>
             else x) (db_server_sessions d)\<rparr>))"

definition open_session ::
  "int \<Rightarrow> int \<Rightarrow> string \<Rightarrow> string \<Rightarrow> time \<Rightarrow> time option \<Rightarrow> store_db \<Rightarrow> store_db" where
  "open_session sid hid username server_name start last_activity d =
     (if list_ex (\<lambda>x. ss_server_id x = Some sid \<and> ss_ended_at x = None) (db_server_sessions d)
      then d\<lparr>db_server_sessions := map (\<lambda>x.
             if ss_server_id x = Some sid \<and> ss_ended_at x = None
             then x\<lparr>ss_last_activity_at := (case last_activity of None \<Rightarrow> ss_last_activity_at x | Some t \<Rightarrow> Some t)\<rparr>
             else x) (db_server_sessions d)\<rparr>
      else d\<lparr>db_server_sessions := db_server_sessions d @
             [\<lparr>ss_server_id = Some sid, ss_hub_id = hid, ss_username = username, ss_server_name = server_name,
               ss_started_at = start, ss_last_activity_at = last_activity, ss_ended_at = None\<rparr>]\<rparr>)"

definition upsert_managed_user ::
  "int \<Rightarrow> jupyter_user \<Rightarrow> store_db \<Rightarrow> (store_error, int \<times> store_db) res" where
  "upsert_managed_user hid u d =
     (case find (\<lambda>m. mu_hub_id m = hid \<and> mu_username m = ju_name u) (db_managed d) of
        Some m \<Rightarrow>
          Inr (mu_id m, d\<lparr>db_managed := map (\<lambda>x. if mu_id x = mu_id m
            then x\<lparr>mu_admin := ju_admin u, mu_last_activity_at := ju_last_activity u,
                   mu_raw := safe_jupyter_user_snapshot u, mu_active := True, mu_synced_at := db_now d\<rparr>
            else x) (db_managed d)\<rparr>)
      | None \<Rightarrow>
          Inr (db_next_managed d,
            d\<lparr>db_managed := db_managed d @
                [\<lparr>mu_id = db_next_managed d, mu_hub_id = hid, mu_username = ju_name u, mu_department = [],
                  mu_admin = ju_admin u, mu_active = True, mu_last_activity_at = ju_last_activity u,
                  mu_raw = safe_jupyter_user_snapshot u, mu_synced_at = db_now d\<rparr>],
              db_next_managed := db_next_managed d + 1\<rparr>))"

definition first_set :: "'a option \<Rightarrow> 'a option \<Rightarrow> 'a option" where
  \<comment> \<open>\<^verbatim>\<open>COALESCE(a, b)\<close>\<close>
  "first_set a b = (case a of None \<Rightarrow> b | Some x \<Rightarrow> Some x)"

definition first_text :: "string \<Rightarrow> string \<Rightarrow> string" where
  \<comment> \<open>\<^verbatim>\<open>COALESCE(NULLIF(a,''), b)\<close>\<close>
  "first_text a b = (if a = [] then b else a)"

definition jsonb_concat :: "json_object \<Rightarrow> json_object \<Rightarrow> json_object" where
  "jsonb_concat old new = fold (\<lambda>(k, v). AList.update k v) new old"

definition upsert_server_with ::
  "int \<Rightarrow> string \<Rightarrow> string \<Rightarrow> (server_row \<Rightarrow> server_row) \<Rightarrow> server_row \<Rightarrow> store_db
    \<Rightarrow> (store_error, int \<times> store_db) res" where
  \<comment> \<open>\<^verbatim>\<open>ON CONFLICT(hub_id,username,server_name) DO UPDATE\<close>\<close>
  "upsert_server_with hid username server_name change row d =
     (case find (\<lambda>s. sv_hub_id s = hid \<and> sv_username s = username \<and> sv_server_name s = server_name) (db_servers d) of
        Some s \<Rightarrow> Inr (sv_id s,
          d\<lparr>db_servers := map (\<lambda>x. if sv_id x = sv_id s then change x else x) (db_servers d)\<rparr>)
      | None \<Rightarrow> Inr (db_next_server d,
          d\<lparr>db_servers := db_servers d @ [row\<lparr>sv_id := db_next_server d\<rparr>], db_next_server := db_next_server d + 1\<rparr>))"

definition observed_server_row ::
  "int \<Rightarrow> int \<Rightarrow> string \<Rightarrow> string \<Rightarrow> parsed_server \<Rightarrow> json_object \<Rightarrow> time \<Rightarrow> server_row" where
  "observed_server_row hid mid username server_name p snapshot now =
     \<lparr>sv_id = 0, sv_hub_id = hid, sv_managed_user_id = Some mid, sv_username = username,
      sv_server_name = server_name, sv_status = ps_status p, sv_started_at = ps_started p,
      sv_last_activity_at = ps_last_activity p, sv_url = ps_url p, sv_node_name = ps_node p,
      sv_pod_name = ps_pod p, sv_image = ps_image p, sv_cpu_cores = ps_cpu p, sv_memory_bytes = ps_memory p,
      sv_gpu_count = ps_gpu p, sv_raw = snapshot, sv_synced_at = now\<rparr>"

definition refresh_server ::
  "int \<Rightarrow> parsed_server \<Rightarrow> json_object \<Rightarrow> time \<Rightarrow> server_row \<Rightarrow> server_row" where
  "refresh_server mid p snapshot now s =
     s\<lparr>sv_managed_user_id := Some mid, sv_status := ps_status p,
       sv_started_at := first_set (ps_started p) (sv_started_at s),
       sv_last_activity_at := first_set (ps_last_activity p) (sv_last_activity_at s),
       sv_url := ps_url p, sv_node_name := first_text (ps_node p) (sv_node_name s),
       sv_pod_name := first_text (ps_pod p) (sv_pod_name s),
       sv_image := first_text (ps_image p) (sv_image s),
       sv_cpu_cores := first_set (ps_cpu p) (sv_cpu_cores s),
       sv_memory_bytes := first_set (ps_memory p) (sv_memory_bytes s),
       sv_gpu_count := first_set (ps_gpu p) (sv_gpu_count s),
       sv_raw := jsonb_concat (sv_raw s) snapshot, sv_synced_at := now\<rparr>"

definition upsert_server ::
  "int \<Rightarrow> int \<Rightarrow> string \<Rightarrow> string \<Rightarrow> parsed_server \<Rightarrow> json_object \<Rightarrow> store_db \<Rightarrow> (store_error, int \<times> store_db) res" where
  "upsert_server hid mid username server_name p snapshot d =
     upsert_server_with hid username server_name (refresh_server mid p snapshot (db_now d))
       (observed_server_row hid mid username server_name p snapshot (db_now d)) d"

definition default_server_raw :: "jupyter_user \<Rightarrow> (time \<Rightarrow> string) \<Rightarrow> json_object" where
  "default_server_raw u format_time =
     [(''last_activity'', (case ju_last_activity u of None \<Rightarrow> JNull | Some t \<Rightarrow> JStr (format_time t))),
      (''ready'', JBool True), (''url'', JStr (ju_server u))]"

definition upsert_default_server ::
  "(time \<Rightarrow> string) \<Rightarrow> int \<Rightarrow> int \<Rightarrow> jupyter_user \<Rightarrow> store_db \<Rightarrow> (store_error, int \<times> store_db) res" where
  "upsert_default_server format_time hid mid u d =
     upsert_server_with hid (ju_name u) []
       (\<lambda>s. s\<lparr>sv_managed_user_id := Some mid, sv_status := ''running'',
          sv_last_activity_at := first_set (ju_last_activity u) (sv_last_activity_at s),
          sv_url := ju_server u, sv_raw := default_server_raw u format_time, sv_synced_at := db_now d\<rparr>)
       \<lparr>sv_id = 0, sv_hub_id = hid, sv_managed_user_id = Some mid, sv_username = ju_name u,
        sv_server_name = [], sv_status = ''running'', sv_started_at = None,
        sv_last_activity_at = ju_last_activity u, sv_url = ju_server u, sv_node_name = [],
        sv_pod_name = [], sv_image = [], sv_cpu_cores = None, sv_memory_bytes = None,
        sv_gpu_count = None, sv_raw = default_server_raw u format_time, sv_synced_at = db_now d\<rparr> d"

section \<open>Sessions of one server\<close>

definition restarted :: "running_state option \<Rightarrow> time option \<Rightarrow> bool" where
  "restarted previous started_at =
     (case previous of
        None \<Rightarrow> False
      | Some (pid, pstarted) \<Rightarrow>
          pid \<noteq> 0 \<and> (case started_at of
            None \<Rightarrow> False
          | Some t \<Rightarrow> (case pstarted of None \<Rightarrow> True | Some p \<Rightarrow> p + second < t)))"

definition session_start :: "running_state option \<Rightarrow> time option \<Rightarrow> time \<Rightarrow> time" where
  "session_start previous started_at observed_at =
     (let previous_started = (case previous of None \<Rightarrow> None | Some (pid, p) \<Rightarrow> p)
      in case started_at of
           Some t \<Rightarrow> if \<not> observed_at + minute < t then t else given_or previous_started observed_at
         | None \<Rightarrow> given_or previous_started observed_at)"

definition restart_end :: "time option \<Rightarrow> time \<Rightarrow> time" where
  "restart_end started_at observed_at =
     (case started_at of None \<Rightarrow> observed_at | Some t \<Rightarrow> if t < observed_at then t else observed_at)"

definition reconcile_server_session ::
  "int \<Rightarrow> int \<Rightarrow> string \<Rightarrow> string \<Rightarrow> time option \<Rightarrow> time option \<Rightarrow> running_state option \<Rightarrow> time \<Rightarrow> unit store_tx" where
  "reconcile_server_session hid sid username server_name started_at last_activity previous observed_at =
     tx_bind (if restarted previous started_at
              then statement DbError (end_sessions sid (restart_end started_at observed_at))
              else tx_return ()) (\<lambda>_.
     exec DbError (open_session sid hid username server_name
       (session_start previous started_at observed_at) last_activity))"

section \<open>Applying a snapshot\<close>

definition stop_missing_server :: "string list \<Rightarrow> time \<Rightarrow> string \<times> running_state \<Rightarrow> unit store_tx" where
  "stop_missing_server active observed_at entry =
     (if fst entry \<in> set active then tx_return ()
      else
        tx_bind (exec DbError (stop_server (fst (snd entry)) observed_at)) (\<lambda>_.
        statement DbError (end_sessions (fst (snd entry)) observed_at)))"

definition sync_server ::
  "(string \<Rightarrow> time option) \<Rightarrow> int \<Rightarrow> int \<Rightarrow> string \<Rightarrow> (string \<times> running_state) list \<Rightarrow> time \<Rightarrow> string \<times> json
    \<Rightarrow> unit store_tx" where
  "sync_server parse_time hid mid username existing observed_at entry =
     (let server = parse_jupyter_server parse_time (snd entry)
      in if ps_status server = ''stopped'' then tx_return ()
         else
           tx_bind (statement DbError (upsert_server hid mid username (fst entry) server
               (safe_jupyter_server_snapshot (snd entry)))) (\<lambda>sid.
           reconcile_server_session hid sid username (fst entry) (ps_started server) (ps_last_activity server)
             (map_of existing (server_key username (fst entry))) observed_at))"

definition sync_default_server ::
  "(time \<Rightarrow> string) \<Rightarrow> int \<Rightarrow> int \<Rightarrow> jupyter_user \<Rightarrow> (string \<times> running_state) list \<Rightarrow> time \<Rightarrow> unit store_tx" where
  "sync_default_server format_time hid mid u existing observed_at =
     (if ju_servers u = [] \<and> ju_server u \<noteq> [] then
        tx_bind (statement DbError (upsert_default_server format_time hid mid u)) (\<lambda>sid.
        reconcile_server_session hid sid (ju_name u) [] None (ju_last_activity u)
          (map_of existing (server_key (ju_name u) [])) observed_at)
      else tx_return ())"

definition sync_user ::
  "(string \<Rightarrow> time option) \<Rightarrow> (time \<Rightarrow> string) \<Rightarrow> int \<Rightarrow> (string \<times> running_state) list \<Rightarrow> time \<Rightarrow> jupyter_user
    \<Rightarrow> unit store_tx" where
  "sync_user parse_time format_time hid existing observed_at u =
     tx_bind (statement DbError (upsert_managed_user hid u)) (\<lambda>mid.
     tx_bind (foreach (sync_server parse_time hid mid (ju_name u) existing observed_at) (ju_servers u)) (\<lambda>_.
     sync_default_server format_time hid mid u existing observed_at))"

definition deactivate_users :: "int \<Rightarrow> hub_snapshot_plan \<Rightarrow> store_db \<Rightarrow> store_db" where
  "deactivate_users hid plan d =
     d\<lparr>db_managed := map (\<lambda>m.
         if mu_hub_id m = hid \<and> (pl_deactivate_all plan \<or> mu_username m \<notin> set (pl_seen_users plan))
         then m\<lparr>mu_active := False, mu_synced_at := db_now d\<rparr> else m) (db_managed d)\<rparr>"

definition require_current_hub :: "(string \<Rightarrow> string) \<Rightarrow> hub \<Rightarrow> bool \<Rightarrow> unit store_tx" where
  "require_current_hub digest hub require_current =
     (if require_current then
        tx_bind (lock_and_match_hub_credential digest hub) (\<lambda>current.
        throw_if (\<not> current) ErrHubCredentialChanged)
      else tx_return ())"

definition sync_hub_users ::
  "(string \<Rightarrow> time option) \<Rightarrow> (time \<Rightarrow> string) \<Rightarrow> (string \<Rightarrow> string) \<Rightarrow> time \<Rightarrow> hub \<Rightarrow> jupyter_user list \<Rightarrow> bool
    \<Rightarrow> unit store_tx" where
  "sync_hub_users parse_time format_time digest observed_at hub users require_current =
     (let plan = plan_hub_snapshot parse_time users
      in transaction DbError
        (tx_bind advisory_lock (\<lambda>_.
         tx_bind (require_current_hub digest hub require_current) (\<lambda>_.
         tx_bind (query DbError (running_server_states (hu_id hub))) (\<lambda>existing.
         tx_bind (foreach (stop_missing_server (pl_active_servers plan) observed_at) existing) (\<lambda>_.
         tx_bind (foreach (sync_user parse_time format_time (hu_id hub) existing observed_at) users) (\<lambda>_.
         exec DbError (deactivate_users (hu_id hub) plan))))))))"

definition sync_hub_users_if_current ::
  "(string \<Rightarrow> time option) \<Rightarrow> (time \<Rightarrow> string) \<Rightarrow> (string \<Rightarrow> string) \<Rightarrow> time \<Rightarrow> hub \<Rightarrow> jupyter_user list
    \<Rightarrow> bool store_tx" where
  "sync_hub_users_if_current parse_time format_time digest observed_at hub users fs d =
     (case sync_hub_users parse_time format_time digest observed_at hub users True fs d of
        (Inl ErrHubCredentialChanged, fs', d') \<Rightarrow> (Inr False, fs', d')
      | (Inl e, fs', d') \<Rightarrow> (Inl e, fs', d')
      | (Inr u, fs', d') \<Rightarrow> (Inr True, fs', d'))"

end
