(* ===== verification/Jupyter_Client.thy ===== *)
theory Jupyter_Client
  imports Outbound_Http Return_Path Hub_Sync
begin

text \<open>
  The JupyterHub client (\<^verbatim>\<open>internal/integration/jupyterhub.go\<close>): the addresses it calls, what starting, stopping
  and restarting a server sends, and the loop that waits for a server to stop. A call is the request it sends; what
  the hub answers to the requests one after the other is the parameter \<open>hub\<close>, and the users a request decodes
  come with the answer. The context's deadline is \<open>expired\<close>: whether the wait after the k-th poll ends with it.
\<close>

section \<open>Addresses\<close>

definition segment_keep :: "char \<Rightarrow> bool" where
  "segment_keep c = (unreserved c \<or> c \<in> set ''$&+:=@'')"

definition path_escape :: "string \<Rightarrow> string" where
  \<comment> \<open>\<^verbatim>\<open>url.PathEscape\<close>\<close>
  "path_escape = url_escape segment_keep"

datatype client_error =
    BadBase endpoint_error | BadEscape | Call call_error | UnsupportedAction | StopUnknown call_error | StopTimeout
  | CredentialError store_error

definition slash :: "char \<Rightarrow> bool" where "slash c = (c = CHR ''/'')"

text \<open>\<open>escaped_path\<close> is \<^verbatim>\<open>URL.EscapedPath\<close> of the base address; the result is the address with its decoded and its
  escaped path.\<close>

record endpoint =
  ep_base :: url
  ep_path :: string
  ep_raw_path :: string

definition join_url ::
  "(string \<Rightarrow> url option) \<Rightarrow> (string \<Rightarrow> ip option) \<Rightarrow> (url \<Rightarrow> string) \<Rightarrow> string \<Rightarrow> string \<Rightarrow> (client_error, endpoint) res" where
  "join_url parse_url parse_ip escaped_path base path =
     (case validate_endpoint parse_url parse_ip base of
        Inl e \<Rightarrow> Inl (BadBase e)
      | Inr u \<Rightarrow>
          let escaped = trim_right slash (escaped_path u) @ ''/'' @ trim_left slash path
          in case url_unescape False escaped of
               None \<Rightarrow> Inl BadEscape
             | Some decoded \<Rightarrow> Inr \<lparr>ep_base = u, ep_path = decoded, ep_raw_path = escaped\<rparr>)"

record jupyter_client =
  jc_base_url :: string
  jc_token :: string
  jc_verify_tls :: bool
  jc_timeout :: time

definition new_jupyter_hub ::
  "(string \<Rightarrow> url option) \<Rightarrow> (string \<Rightarrow> ip option) \<Rightarrow> string \<Rightarrow> string \<Rightarrow> bool \<Rightarrow> (client_error, jupyter_client) res" where
  "new_jupyter_hub parse_url parse_ip base_url token verify_tls =
     (case validate_endpoint parse_url parse_ip base_url of
        Inl e \<Rightarrow> Inl (BadBase e)
      | Inr _ \<Rightarrow> Inr \<lparr>jc_base_url = trim_right slash base_url, jc_token = token, jc_verify_tls = verify_tls,
                      jc_timeout = client_timeout (12 * second)\<rparr>)"

definition hub_path :: "string \<Rightarrow> string" where
  "hub_path path = ''hub/api/'' @ trim_left slash path"

definition server_path :: "string \<Rightarrow> string \<Rightarrow> string" where
  "server_path username server_name =
     (if server_name \<noteq> [] then ''users/'' @ path_escape username @ ''/servers/'' @ path_escape server_name
      else ''users/'' @ path_escape username @ ''/server'')"

definition user_path :: "string \<Rightarrow> string" where
  "user_path username = ''users/'' @ path_escape username"

section \<open>Calls\<close>

text \<open>The k-th answer of the hub: what the transport did, and the user the body decodes to.\<close>

type_synonym hub_answers = "nat \<Rightarrow> transport_result \<times> jupyter_user"

definition zero_user :: jupyter_user where
  "zero_user = \<lparr>ju_name = [], ju_admin = False, ju_pending = None, ju_last_activity = None, ju_server = [],
     ju_servers = [], ju_roles = [], ju_groups = []\<rparr>"

definition status_of :: "transport_result \<Rightarrow> nat" where
  \<comment> \<open>the status \<^verbatim>\<open>doJSON\<close> returns, 0 without an answer\<close>
  "status_of r = (case r of ConnectionError \<Rightarrow> 0 | Response status bytes decodes \<Rightarrow> status)"

definition decoded_user :: "transport_result \<times> jupyter_user \<Rightarrow> jupyter_user" where
  \<comment> \<open>an empty body leaves the user as declared\<close>
  "decoded_user = (\<lambda>(r, u). case r of Response status bytes decodes \<Rightarrow> if bytes = 0 then zero_user else u | ConnectionError \<Rightarrow> zero_user)"

definition ignoring_body :: "transport_result \<Rightarrow> transport_result" where
  \<comment> \<open>the call has no target to decode into\<close>
  "ignoring_body r = (case r of Response status bytes decodes \<Rightarrow> Response status bytes True | ConnectionError \<Rightarrow> ConnectionError)"

definition call_once :: "hub_answers \<Rightarrow> nat \<Rightarrow> string \<Rightarrow> (call_error, nat) res" where
  "call_once hub k verb = fst (do_json (\<lambda>_. ignoring_body (fst (hub k))) verb False)"

definition server_running :: "string \<Rightarrow> jupyter_user \<Rightarrow> bool" where
  "server_running server_name u =
     (if server_name = [] then ju_server u \<noteq> [] \<or> has_key (ju_servers u) [] else has_key (ju_servers u) server_name)"

text \<open>The wait. \<open>k\<close> counts the requests sent so far; the result is the error, if any, and the requests sent in all.
  \<open>None\<close> is a wait that never returns.\<close>

partial_function (option) wait_server_stopped ::
  "hub_answers \<Rightarrow> (nat \<Rightarrow> bool) \<Rightarrow> string \<Rightarrow> nat \<Rightarrow> ((client_error, unit) res \<times> nat) option" where
  "wait_server_stopped hub expired server_name k =
     (if status_of (fst (hub k)) = 404 then Some (Inr (), Suc k)
      else case judge_response (fst (hub k)) of
        Inl e \<Rightarrow> Some (Inl (StopUnknown e), Suc k)
      | Inr _ \<Rightarrow>
          if \<not> server_running server_name (decoded_user (hub k)) then Some (Inr (), Suc k)
          else if expired k then Some (Inl StopTimeout, Suc k)
          else wait_server_stopped hub expired server_name (Suc k))"

text \<open>A request that was sent: the verb and the path.\<close>

type_synonym sent = "(string \<times> string) list"

definition send_call :: "hub_answers \<Rightarrow> nat \<Rightarrow> string \<Rightarrow> (client_error, unit) res" where
  "send_call hub k verb = (case call_once hub k verb of Inl e \<Rightarrow> Inl (Call e) | Inr _ \<Rightarrow> Inr ())"

text \<open>\<open>join\<close> is \<^verbatim>\<open>endpoint\<close> of the client.\<close>

definition restart_server ::
  "(string \<Rightarrow> (client_error, endpoint) res) \<Rightarrow> hub_answers \<Rightarrow> (nat \<Rightarrow> bool) \<Rightarrow> string \<Rightarrow> string
    \<Rightarrow> ((client_error, unit) res \<times> sent) option" where
  "restart_server join hub expired username server_name =
     (let path = server_path username server_name
      in case call_once hub 0 ''DELETE'' of
           Inl e \<Rightarrow> Some (Inl (Call e), [(''DELETE'', path)])
         | Inr _ \<Rightarrow>
             (case join (hub_path (user_path username)) of
                Inl e \<Rightarrow> Some (Inl e, [(''DELETE'', path)])
              | Inr _ \<Rightarrow>
                  (case wait_server_stopped hub expired server_name 1 of
                     None \<Rightarrow> None
                   | Some (r, n) \<Rightarrow>
                       let polls = (''DELETE'', path) # replicate (n - 1) (''GET'', user_path username)
                       in (case r of
                             Inl e \<Rightarrow> Some (Inl e, polls)
                           | Inr _ \<Rightarrow> Some (send_call hub n ''POST'', polls @ [(''POST'', path)])))))"

definition server_action_call ::
  "(string \<Rightarrow> (client_error, endpoint) res) \<Rightarrow> hub_answers \<Rightarrow> (nat \<Rightarrow> bool) \<Rightarrow> string \<Rightarrow> string \<Rightarrow> string
    \<Rightarrow> ((client_error, unit) res \<times> sent) option" where
  "server_action_call join hub expired username server_name action =
     (let path = server_path username server_name
      in case join (hub_path path) of
           Inl e \<Rightarrow> Some (Inl e, [])
         | Inr _ \<Rightarrow>
             if action = ''start'' then Some (send_call hub 0 ''POST'', [(''POST'', path)])
             else if action = ''stop'' then Some (send_call hub 0 ''DELETE'', [(''DELETE'', path)])
             else if action = ''restart'' then restart_server join hub expired username server_name
             else Some (Inl UnsupportedAction, []))"

text \<open>\<^verbatim>\<open>Info\<close> and \<^verbatim>\<open>Users\<close>: reads, tried twice; \<open>decode\<close> reads one user, \<open>None\<close> is a user that does not decode.\<close>

fun decode_users :: "('a \<Rightarrow> jupyter_user option) \<Rightarrow> 'a list \<Rightarrow> jupyter_user list option" where
  "decode_users decode [] = Some []"
| "decode_users decode (x # xs) =
     (case decode x of
        None \<Rightarrow> None
      | Some u \<Rightarrow> map_option ((#) u) (decode_users decode xs))"

definition read_hub ::
  "(string \<Rightarrow> (client_error, endpoint) res) \<Rightarrow> string \<Rightarrow> (nat \<Rightarrow> transport_result) \<Rightarrow> (client_error, unit) res" where
  "read_hub join path transport =
     (case join (hub_path path) of
        Inl e \<Rightarrow> Inl e
      | Inr _ \<Rightarrow> (case fst (do_json transport ''GET'' True) of Inl e \<Rightarrow> Inl (Call e) | Inr _ \<Rightarrow> Inr ()))"

definition hub_info ::
  "(string \<Rightarrow> (client_error, endpoint) res) \<Rightarrow> (nat \<Rightarrow> transport_result) \<Rightarrow> string \<Rightarrow> (client_error, string) res" where
  \<comment> \<open>\<open>version\<close> is the version the answer decodes to\<close>
  "hub_info join transport version = res_bind (read_hub join ''info'' transport) (\<lambda>_. Inr version)"

definition hub_users ::
  "(string \<Rightarrow> (client_error, endpoint) res) \<Rightarrow> (nat \<Rightarrow> transport_result) \<Rightarrow> ('a \<Rightarrow> jupyter_user option) \<Rightarrow> 'a list
    \<Rightarrow> (client_error, jupyter_user list) res" where
  "hub_users join transport decode items =
     res_bind (read_hub join ''users'' transport) (\<lambda>_.
     case decode_users decode items of None \<Rightarrow> Inl (Call BadJson) | Some us \<Rightarrow> Inr us)"

section \<open>Addresses name what they mean\<close>

lemma of_upper_hex: "n < 16 \<Longrightarrow> of_char (upper_hex n) = (if n < 10 then 48 + n else 55 + n :: nat)"
  by (simp add: upper_hex_def)

lemma hex_digit: "n < 16 \<Longrightarrow> is_hex (upper_hex n) \<and> unhex (upper_hex n) = n"
  by (simp add: is_hex_def unhex_def of_upper_hex Let_def)

lemma nibbles: "(of_char c :: nat) div 16 < 16" "(of_char c :: nat) mod 16 < 16"
  using nat_of_char_less_256 [of c] by (simp_all add: less_mult_imp_div_less)

lemma unescape_kept: "c \<noteq> CHR ''%'' \<Longrightarrow> url_unescape False (c # s) = map_option ((#) c) (url_unescape False s)"
  by simp

lemma unescape_percent: "url_unescape False (percent c @ s) = map_option ((#) c) (url_unescape False s)"
  using hex_digit [OF nibbles(1) [of c]] hex_digit [OF nibbles(2) [of c]] by (simp add: percent_head)

lemma segment_keep_percent: "segment_keep c \<Longrightarrow> c \<noteq> CHR ''%'' \<and> c \<noteq> CHR ''/''"
  by (auto simp: segment_keep_def unreserved_def)

lemma unescape_escape: "url_unescape False (path_escape s) = Some s"
proof (induction s)
  case (Cons c s)
  then show ?case
    by (cases "segment_keep c")
      (auto simp: path_escape_def url_escape_def unescape_percent segment_keep_percent simp del: url_unescape.simps(2)
        dest: segment_keep_percent intro!: unescape_kept [THEN trans])
qed (simp add: path_escape_def url_escape_def)

lemma upper_hex_no_slash: "n < 16 \<Longrightarrow> upper_hex n \<noteq> CHR ''/''"
  using of_upper_hex [of n] by (cases "n < 10") auto

lemma percent_no_slash: "CHR ''/'' \<notin> set (percent c)"
  using upper_hex_no_slash [OF nibbles(1) [of c]] upper_hex_no_slash [OF nibbles(2) [of c]] by (simp add: percent_head)

lemma escape_no_slash: "CHR ''/'' \<notin> set (path_escape s)"
  using percent_no_slash by (auto simp: path_escape_def url_escape_def dest: segment_keep_percent split: if_splits)

lemma split_absent: "c \<notin> set s \<Longrightarrow> split_on c s = [s]"
  by (induction s) auto

lemma split_append: "c \<notin> set s \<Longrightarrow> split_on c (s @ c # t) = s # split_on c t"
  by (induction s) auto

text \<open>Whatever the names are, an address for a server has the segments the hub expects, and the name segments decode to
  exactly the user and the server.\<close>

theorem server_path_names_server:
  "map (url_unescape False) (split_on (CHR ''/'') (server_path username server_name)) =
     (if server_name = [] then [Some ''users'', Some username, Some ''server'']
      else [Some ''users'', Some username, Some ''servers'', Some server_name])"
proof -
  have users: "split_on (CHR ''/'') (''users/'' @ path_escape username @ CHR ''/'' # t) =
      ''users'' # path_escape username # split_on (CHR ''/'') t" for t
    using split_append [of "CHR ''/''" "''users''" "path_escape username @ CHR ''/'' # t"]
      split_append [OF escape_no_slash, of username t] by simp
  have servers: "split_on (CHR ''/'') (''servers/'' @ path_escape server_name) = [''servers'', path_escape server_name]"
    using split_append [of "CHR ''/''" "''servers''" "path_escape server_name"] split_absent [OF escape_no_slash] by simp
  show ?thesis
    using users [of "''server''"] users [of "''servers/'' @ path_escape server_name"] servers
    by (simp add: server_path_def unescape_escape split_absent)
qed

section \<open>Waiting\<close>

text \<open>The deadline ends the wait, and no poll follows it.\<close>

lemma wait_ends_by_deadline:
  assumes "expired n" and "k \<le> n"
  shows "\<exists>r m. wait_server_stopped hub expired server_name k = Some (r, m) \<and> m \<le> Suc n"
  using assms(2)
proof (induction "n - k" arbitrary: k)
  case 0
  with assms(1) have "expired k" by simp
  with 0 show ?case by (subst wait_server_stopped.simps) (auto split: sum.split)
next
  case (Suc d)
  then have "\<exists>r m. wait_server_stopped hub expired server_name (Suc k) = Some (r, m) \<and> m \<le> Suc n" by simp
  with Suc.prems show ?case by (subst wait_server_stopped.simps) (auto split: sum.split)
qed

text \<open>C26: Every call for a server returns: with a deadline that has passed at the poll \<open>n\<close>, at most \<open>n\<close> polls follow the stop
  request of a restart, whatever the hub answers.\<close>

theorem server_action_returns:
  "\<exists>r sent. server_action_call join hub (\<lambda>k. n \<le> k) username server_name action = Some (r, sent)
     \<and> length sent \<le> Suc (Suc (max 1 n))"
proof -
  obtain r m where "wait_server_stopped hub (\<lambda>k. n \<le> k) server_name 1 = Some (r, m)" and "m \<le> Suc (max 1 n)"
    using wait_ends_by_deadline [of "\<lambda>k. n \<le> k" "max 1 n" 1 hub server_name] by auto
  then show ?thesis
    by (auto simp: server_action_call_def restart_server_def Let_def split: sum.split)
qed

definition stop_seen :: "hub_answers \<Rightarrow> string \<Rightarrow> nat \<Rightarrow> (client_error, unit) res \<times> nat \<Rightarrow> bool" where
  "stop_seen hub server_name k out \<longleftrightarrow>
     k < snd out
     \<and> (fst out = Inr () \<longrightarrow> status_of (fst (hub (snd out - 1))) = 404
          \<or> \<not> server_running server_name (decoded_user (hub (snd out - 1))))"

lemma wait_stopped_seen:
  assumes "wait_server_stopped hub expired server_name k = Some out"
  shows "stop_seen hub server_name k out"
proof (rule wait_server_stopped.raw_induct [of "\<lambda>hub expired server_name. stop_seen hub server_name", OF _ assms])
  fix wait :: "hub_answers \<Rightarrow> (nat \<Rightarrow> bool) \<Rightarrow> string \<Rightarrow> nat \<Rightarrow> ((client_error, unit) res \<times> nat) option"
    and hub expired server_name k out
  assume again: "\<And>hub expired server_name k y. wait hub expired server_name k = Some y \<Longrightarrow> stop_seen hub server_name k y"
    and now: "(if status_of (fst (hub k)) = 404 then Some (Inr (), Suc k)
      else case judge_response (fst (hub k)) of
           Inl e \<Rightarrow> Some (Inl (StopUnknown e), Suc k)
         | Inr x \<Rightarrow> if \<not> server_running server_name (decoded_user (hub k)) then Some (Inr (), Suc k)
               else if expired k then Some (Inl StopTimeout, Suc k) else wait hub expired server_name (Suc k)) = Some out"
  then show "stop_seen hub server_name k out"
    by (auto simp: stop_seen_def split: if_splits sum.splits dest!: again)
qed

text \<open>Restarting a server sends the start request only after the hub accepted the stop request and a later answer showed the
  server gone: the user is unknown, or the user's servers no longer name it.\<close>

theorem restart_starts_stopped_server:
  assumes "restart_server join hub expired username server_name = Some (r, sent)" and "(''POST'', path) \<in> set sent"
  shows "is_ok (call_once hub 0 ''DELETE'') \<and> (\<exists>k \<ge> 1. (''GET'', user_path username) \<in> set sent \<and>
     (status_of (fst (hub k)) = 404 \<or> \<not> server_running server_name (decoded_user (hub k))))"
proof -
  from assms obtain u v n where call: "call_once hub 0 ''DELETE'' = Inr u"
    and wait: "wait_server_stopped hub expired server_name 1 = Some (Inr v, n)"
    and sent: "sent = (''DELETE'', server_path username server_name) # replicate (n - 1) (''GET'', user_path username)
       @ [(''POST'', server_path username server_name)]"
    by (auto simp: restart_server_def Let_def split: sum.splits option.splits)
  from wait_stopped_seen [OF wait] have "1 < n"
    and "status_of (fst (hub (n - 1))) = 404 \<or> \<not> server_running server_name (decoded_user (hub (n - 1)))"
    by (auto simp: stop_seen_def)
  with call sent show ?thesis by (auto intro!: exI [of _ "n - 1"])
qed

section \<open>Concrete inputs\<close>

definition demo_hub :: hub_answers where
  "demo_hub k = (if k = 0 then (Response 204 0 True, zero_user)
     else if k = 1 then (Response 200 9 True, zero_user\<lparr>ju_servers := [(''lab'', JNull)]\<rparr>)
     else (Response 404 0 True, zero_user))"

definition demo_join :: "string \<Rightarrow> (client_error, endpoint) res" where
  "demo_join path = Inr \<lparr>ep_base = \<lparr>url_scheme = ''http'', url_host = ''h'', url_hostname = ''h'', url_has_user = False,
     url_fragment = []\<rparr>, ep_path = path, ep_raw_path = path\<rparr>"

lemma demo_restart:
  "restart_server demo_join demo_hub (\<lambda>_. False) ''ada'' ''lab'' =
     Some (Inl (Call (HttpStatus 404)), [(''DELETE'', ''users/ada/servers/lab''), (''GET'', ''users/ada''), (''GET'', ''users/ada''),
       (''POST'', ''users/ada/servers/lab'')])"
proof -
  have 2: "wait_server_stopped demo_hub (\<lambda>_. False) ''lab'' (Suc (Suc 0)) = Some (Inr (), 3)"
    by (subst wait_server_stopped.simps) (simp add: demo_hub_def status_of_def)
  have "wait_server_stopped demo_hub (\<lambda>_. False) ''lab'' 1 = Some (Inr (), 3)"
    using 2 by (subst wait_server_stopped.simps)
      (simp add: demo_hub_def status_of_def judge_response_def max_response_bytes_def server_running_def decoded_user_def
        has_key_def)
  moreover have "server_path ''ada'' ''lab'' = ''users/ada/servers/lab''" "user_path ''ada'' = ''users/ada''"
    by code_simp+
  moreover have "call_once demo_hub 0 ''DELETE'' = Inr 204" "send_call demo_hub 3 ''POST'' = Inl (Call (HttpStatus 404))"
    by (simp_all add: call_once_def send_call_def do_json_def call_attempts_def ignoring_body_def demo_hub_def
        judge_response_def max_response_bytes_def)
  ultimately show ?thesis
    by (simp add: restart_server_def demo_join_def numeral_3_eq_3 Let_def)
qed

theorem restart_starts_stopped_server_witness:
  "is_ok (call_once demo_hub 0 ''DELETE'')"
  using restart_starts_stopped_server [OF demo_restart, of "''users/ada/servers/lab''"] by simp

end
