(* ===== verification/Hub_Lists.thy ===== *)
theory Hub_Lists
  imports Hub_Sync Scoped_Access
begin

text \<open>
  The lists of managed users and servers, and the reads behind a server action
  (\<^verbatim>\<open>internal/store/hubs.go\<close>, last part). A query is a filter over the rows in the order of its
  \<^verbatim>\<open>ORDER BY\<close> clause; \<open>ordered clause rows\<close> is that order, a parameter.
\<close>

section \<open>Views\<close>

record managed_view =
  mv_id :: int
  mv_hub_id :: int
  mv_hub_name :: string
  mv_username :: string
  mv_department :: string
  mv_admin :: bool
  mv_active :: bool
  mv_roles :: "string list"
  mv_server_status :: string
  mv_server_count :: int
  mv_running_count :: int
  mv_runtime_seconds :: int
  mv_cpu_cores :: "rat option"
  mv_memory_bytes :: "int option"
  mv_last_activity_at :: "time option"
  mv_synced_at :: time

record server_view =
  vv_row :: server_row
  vv_hub_name :: string
  vv_department :: string

definition account_department :: "string \<Rightarrow> store_db \<Rightarrow> string option" where
  "account_department username d =
     map_option us_department (find (\<lambda>a. to_lower (us_username a) = to_lower username) (db_users d))"

definition department_of :: "string option \<Rightarrow> string option \<Rightarrow> string" where
  \<comment> \<open>\<^verbatim>\<open>COALESCE(NULLIF(u.department,''),account.department,'')\<close>\<close>
  "department_of own account =
     (case own of
        Some (c # s) \<Rightarrow> c # s
      | _ \<Rightarrow> (case account of Some s \<Rightarrow> s | None \<Rightarrow> []))"

definition department_sql :: string where
  "department_sql = ''COALESCE(NULLIF(u.department,'' @ two_quotes @ ''),account.department,'' @ two_quotes @ '')''"

definition servers_of :: "managed_row \<Rightarrow> store_db \<Rightarrow> server_row list" where
  "servers_of u d = filter (\<lambda>s. sv_hub_id s = mu_hub_id u \<and> sv_username s = mu_username u) (db_servers d)"

definition running_of :: "server_row list \<Rightarrow> server_row list" where
  "running_of ss = filter (\<lambda>s. sv_status s = ''running'') ss"

definition like_pending :: "string \<Rightarrow> bool" where
  \<comment> \<open>\<^verbatim>\<open>LIKE 'pending_%'\<close>: the underscore matches any one character\<close>
  "like_pending status = (has_prefix status ''pending'' \<and> 7 < length status)"

definition summary_status :: "server_row list \<Rightarrow> string" where
  "summary_status ss =
     (if running_of ss \<noteq> [] then ''running''
      else if list_ex (\<lambda>s. sv_status s = ''starting'') ss then ''starting''
      else if list_ex (\<lambda>s. like_pending (sv_status s)) ss then ''pending''
      else if list_ex (\<lambda>s. sv_status s \<noteq> ''stopped'') ss then ''active''
      else if ss \<noteq> [] then ''stopped'' else [])"

definition runtime_seconds :: "time \<Rightarrow> server_row list \<Rightarrow> int" where
  "runtime_seconds now ss =
     sum_list (map (\<lambda>s. case sv_started_at s of None \<Rightarrow> 0 | Some t \<Rightarrow> max 0 (now - t) div second) (running_of ss))"

definition sum_if_all :: "'a::comm_monoid_add option list \<Rightarrow> 'a option" where
  "sum_if_all xs = (if xs \<noteq> [] \<and> list_all (\<lambda>x. x \<noteq> None) xs then Some (sum_list (map the xs)) else None)"

definition latest :: "time option \<Rightarrow> time option \<Rightarrow> time option" where
  "latest a b =
     (case a of None \<Rightarrow> b | Some x \<Rightarrow> (case b of None \<Rightarrow> Some x | Some y \<Rightarrow> Some (max x y)))"

fun managed_roles_from :: "string list \<Rightarrow> string list \<Rightarrow> string list" where
  "managed_roles_from [] roles = roles"
| "managed_roles_from (candidate # rest) roles =
     (let role = trim_space candidate
      in if role = [] \<or> 128 < length role then managed_roles_from rest roles
         else if role \<in> set roles then managed_roles_from rest roles
         else
           let roles1 = roles @ [role]
           in if length roles1 = 64 then roles1 else managed_roles_from rest roles1)"

definition managed_user_roles :: "json \<Rightarrow> string list" where
  "managed_user_roles raw =
     (case object_members raw of
        None \<Rightarrow> []
      | Some m \<Rightarrow>
          (case strings_field m ''roles'' of None \<Rightarrow> [] | Some roles \<Rightarrow> managed_roles_from roles []))"

definition hub_name_of :: "int \<Rightarrow> store_db \<Rightarrow> string" where
  "hub_name_of hid d = (case find_hub hid d of None \<Rightarrow> [] | Some h \<Rightarrow> hb_name h)"

definition managed_department :: "store_db \<Rightarrow> managed_row \<Rightarrow> string" where
  "managed_department d u = department_of (Some (mu_department u)) (account_department (mu_username u) d)"

definition managed_view_of :: "store_db \<Rightarrow> managed_row \<Rightarrow> managed_view" where
  "managed_view_of d u =
     (let ss = servers_of u d
      in \<lparr>mv_id = mu_id u, mv_hub_id = mu_hub_id u, mv_hub_name = hub_name_of (mu_hub_id u) d,
          mv_username = mu_username u, mv_department = managed_department d u, mv_admin = mu_admin u,
          mv_active = mu_active u, mv_roles = managed_user_roles (mu_raw u),
          mv_server_status = summary_status ss,
          mv_server_count = int (length (filter (\<lambda>s. sv_status s \<noteq> ''stopped'') ss)),
          mv_running_count = int (length (running_of ss)),
          mv_runtime_seconds = runtime_seconds (db_now d) ss,
          mv_cpu_cores = sum_if_all (map sv_cpu_cores (running_of ss)),
          mv_memory_bytes = sum_if_all (map sv_memory_bytes (running_of ss)),
          mv_last_activity_at = latest (mu_last_activity_at u) (fold (\<lambda>s. latest (sv_last_activity_at s)) ss None),
          mv_synced_at = mu_synced_at u\<rparr>)"

section \<open>Lists\<close>

definition page_of :: "int \<Rightarrow> int \<Rightarrow> 'a list \<Rightarrow> 'a list" where
  \<comment> \<open>\<^verbatim>\<open>LIMIT limit OFFSET offset\<close>\<close>
  "page_of limit offset rows = take (nat limit) (drop (nat offset) rows)"

definition managed_matches :: "nat \<Rightarrow> int \<Rightarrow> string \<Rightarrow> access_filter \<Rightarrow> store_db \<Rightarrow> managed_row \<Rightarrow> bool" where
  "managed_matches first_arg hid search access d u =
     ((hid = 0 \<or> mu_hub_id u = hid)
      \<and> (search = [] \<or> ilike (search_pattern search) (mu_username u))
      \<and> row_selected (access_predicate access ''u.hub_id'' department_sql first_arg) ''u.hub_id''
             department_sql first_arg (mu_hub_id u) (Some (managed_department d u)))"

definition list_managed_users ::
  "(string \<Rightarrow> managed_row list \<Rightarrow> managed_row list) \<Rightarrow> int \<Rightarrow> int \<Rightarrow> int \<Rightarrow> string \<Rightarrow> access_filter \<Rightarrow> sort_request
    \<Rightarrow> (managed_view list \<times> page_info) store_tx" where
  "list_managed_users ordered page page_size hid search access s =
     (let (page1, limit, offset) = page_bounds page page_size;
          search1 = trim_space search;
          clause = order_by managed_user_sort_columns s ''u.username,u.hub_id'' ''u.username,u.hub_id''
      in tx_bind (query DbError (\<lambda>d.
           length (filter (managed_matches 4 hid search1 access d) (db_managed d)))) (\<lambda>total.
         tx_bind (query DbError (\<lambda>d. map (managed_view_of d) (page_of limit offset
           (ordered clause (filter (managed_matches 6 hid search1 access d) (db_managed d)))))) (\<lambda>items.
         tx_return (items, \<lparr>pi_page = page1, pi_page_size = limit, pi_total = int total\<rparr>))))"

definition list_hubs_with_access :: "(string \<Rightarrow> hub_row list \<Rightarrow> hub_row list) \<Rightarrow> access_filter \<Rightarrow> hub list store_tx" where
  \<comment> \<open>no department column is given, so a grant that names departments matches no hub\<close>
  "list_hubs_with_access ordered access =
     query DbError (\<lambda>d. map scan_hub (ordered ''name''
       (filter (\<lambda>h. row_selected (access_predicate access ''id'' [] 1) ''id'' [] 1 (hb_id h) None) (db_hubs d))))"

definition managed_of_server :: "server_row \<Rightarrow> store_db \<Rightarrow> managed_row option" where
  "managed_of_server s d = find (\<lambda>u. sv_managed_user_id s = Some (mu_id u)) (db_managed d)"

definition server_department :: "store_db \<Rightarrow> server_row \<Rightarrow> string" where
  "server_department d s =
     department_of (map_option mu_department (managed_of_server s d)) (account_department (sv_username s) d)"

definition server_view_of :: "store_db \<Rightarrow> server_row \<Rightarrow> server_view" where
  "server_view_of d s =
     \<lparr>vv_row = s, vv_hub_name = hub_name_of (sv_hub_id s) d, vv_department = server_department d s\<rparr>"

definition server_matches :: "nat \<Rightarrow> int \<Rightarrow> string \<Rightarrow> string \<Rightarrow> access_filter \<Rightarrow> store_db \<Rightarrow> server_row \<Rightarrow> bool" where
  "server_matches first_arg hid status search access d s =
     ((hid = 0 \<or> sv_hub_id s = hid) \<and> (status = [] \<or> sv_status s = status)
      \<and> (search = [] \<or> ilike (search_pattern search) (sv_username s))
      \<and> row_selected (access_predicate access ''s.hub_id'' department_sql first_arg) ''s.hub_id''
             department_sql first_arg (sv_hub_id s) (Some (server_department d s)))"

text \<open>GPU counts are shown only while the feature is on; an unreadable setting counts as off.\<close>

definition feature_on :: "string \<Rightarrow> ('e, json) res \<Rightarrow> bool" where
  "feature_on name r =
     (case r of
        Inl _ \<Rightarrow> False
      | Inr v \<Rightarrow> (case as_object v of None \<Rightarrow> False | Some m \<Rightarrow> true_bool (lookup m name)))"

definition hide_gpu :: "bool \<Rightarrow> server_view \<Rightarrow> server_view" where
  "hide_gpu gpu_enabled v = (if gpu_enabled then v else v\<lparr>vv_row := (vv_row v)\<lparr>sv_gpu_count := None\<rparr>\<rparr>)"

definition attempt :: "('d, 'e, 'a) tx \<Rightarrow> ('d, 'f, ('e, 'a) res) tx" where
  \<comment> \<open>a call whose error is looked at, or dropped, instead of returned\<close>
  "attempt m fs d = (case m fs d of (r, fs', d') \<Rightarrow> (Inr r, fs', d'))"

definition list_servers ::
  "(string \<Rightarrow> server_row list \<Rightarrow> server_row list) \<Rightarrow> int \<Rightarrow> int \<Rightarrow> int \<Rightarrow> string \<Rightarrow> string \<Rightarrow> access_filter
    \<Rightarrow> sort_request \<Rightarrow> (server_view list \<times> page_info) store_tx" where
  "list_servers ordered page page_size hid status search access s =
     (let (page1, limit, offset) = page_bounds page page_size;
          search1 = trim_space search;
          clause = order_by server_sort_columns s ''s.synced_at DESC'' ''s.id''
      in tx_bind (query DbError (\<lambda>d.
           length (filter (server_matches 5 hid status search1 access d) (db_servers d)))) (\<lambda>total.
         tx_bind (query DbError (\<lambda>d. map (server_view_of d) (page_of limit offset
           (ordered clause (filter (server_matches 7 hid status search1 access d) (db_servers d)))))) (\<lambda>items.
         tx_bind (attempt (get_setting ''features'')) (\<lambda>features.
         tx_return (map (hide_gpu (feature_on ''gpu_monitoring'' features)) items,
           \<lparr>pi_page = page1, pi_page_size = limit, pi_total = int total\<rparr>)))))"

section \<open>One server\<close>

definition find_server :: "int \<Rightarrow> store_db \<Rightarrow> server_row option" where
  "find_server sid d = find (\<lambda>s. sv_id s = sid) (db_servers d)"

definition get_server :: "int \<Rightarrow> server_view store_tx" where
  "get_server sid = query_row DbError ErrNotFound (\<lambda>d. map_option (server_view_of d) (find_server sid d))"

definition server_with_hub :: "int \<Rightarrow> store_db \<Rightarrow> (server_row \<times> hub_row) option" where
  "server_with_hub sid d =
     (case find_server sid d of
        None \<Rightarrow> None
      | Some s \<Rightarrow> map_option (Pair s) (find_hub (sv_hub_id s) d))"

definition get_server_action_credential ::
  "(string \<Rightarrow> string) \<Rightarrow> (string \<Rightarrow> string \<Rightarrow> string option) \<Rightarrow> int \<Rightarrow> (server_row \<times> hub \<times> string) store_tx" where
  "get_server_action_credential digest decrypt sid =
     tx_bind (query_row DbError ErrNotFound (server_with_hub sid)) (\<lambda>(s, h).
       let hub = (scan_hub h)\<lparr>hu_generation := generation_of_row digest h\<rparr>
       in if token_bytes (hb_token h) = [] then tx_return (s, hub, [])
          else case decrypt (token_context (hb_id h)) (token_bytes (hb_token h)) of
                 None \<Rightarrow> tx_throw CipherFailure
               | Some plain \<Rightarrow> tx_return (s, hub, plain))"

end
