(* ===== verification/Settings.thy ===== *)
theory Settings
  imports Hub_Lists "HOL-Library.List_Lexorder" "HOL-Library.Char_ord"
begin

text \<open>
  Settings documents and the secrets bound to them (\<^verbatim>\<open>internal/store/settings.go\<close>, first part): one
  transaction per administrator form, the rule that a stored credential stays with the target it was
  entered for, and the generations that tie a remote answer to the settings and the inventory it was
  asked with. The cipher and SHA-256 are parameters; \<open>render\<close> is the text \<^verbatim>\<open>jsonb\<close> gives a value.
\<close>

section \<open>Secrets a settings form may write\<close>

definition allowed_settings_secret_keys :: "string list" where
  "allowed_settings_secret_keys =
     [''oidc.client_secret'', ''prometheus.token'', ''kubernetes.token'', ''ai.api_key'',
      ''webhook.secret'', ''mail.password'']"

definition is_settings_secret_key :: "string \<Rightarrow> bool" where
  "is_settings_secret_key key = (key \<in> set allowed_settings_secret_keys)"

section \<open>Rows\<close>

definition setting_of :: "string \<Rightarrow> store_db \<Rightarrow> json option" where
  "setting_of key d = map_option st_value (find (\<lambda>s. st_key s = key) (db_settings d))"

definition secret_of :: "string \<Rightarrow> store_db \<Rightarrow> string option" where
  "secret_of key d = map_option sx_encrypted (find (\<lambda>s. sx_key s = key) (db_secrets d))"

definition upsert_setting :: "int \<Rightarrow> string \<times> json \<Rightarrow> store_db \<Rightarrow> store_db" where
  "upsert_setting uid kv d =
     (let (key, value) = kv
      in if setting_of key d = None
         then d\<lparr>db_settings := db_settings d
           @ [\<lparr>st_key = key, st_value = value, st_updated_by = Some uid, st_updated_at = db_now d\<rparr>]\<rparr>
         else d\<lparr>db_settings := map (\<lambda>s. if st_key s = key
           then s\<lparr>st_value := value, st_updated_by := Some uid, st_updated_at := db_now d\<rparr> else s) (db_settings d)\<rparr>)"

definition upsert_secret :: "int \<Rightarrow> string \<times> string \<Rightarrow> store_db \<Rightarrow> store_db" where
  "upsert_secret uid kv d =
     (let (key, encrypted) = kv
      in if secret_of key d = None
         then d\<lparr>db_secrets := db_secrets d
           @ [\<lparr>sx_key = key, sx_encrypted = encrypted, sx_version = 1, sx_updated_by = uid, sx_updated_at = db_now d\<rparr>]\<rparr>
         else d\<lparr>db_secrets := map (\<lambda>s. if sx_key s = key
           then s\<lparr>sx_encrypted := encrypted, sx_version := sx_version s + 1, sx_updated_by := uid,
                  sx_updated_at := db_now d\<rparr> else s) (db_secrets d)\<rparr>)"

definition list_settings :: "json_object store_tx" where
  "list_settings = query DbError (\<lambda>d. map (\<lambda>s. (st_key s, st_value s)) (db_settings d))"

definition secret_status :: "(string \<times> int \<times> time) list store_tx" where
  "secret_status = query DbError (\<lambda>d. map (\<lambda>s. (sx_key s, sx_version s, sx_updated_at s)) (db_secrets d))"

definition secret_context :: "string \<Rightarrow> string" where
  "secret_context key = ''secret:'' @ key"

definition get_secret :: "(string \<Rightarrow> string \<Rightarrow> string option) \<Rightarrow> string \<Rightarrow> string store_tx" where
  "get_secret decrypt key =
     tx_bind (query_row DbError ErrNotFound (secret_of key)) (\<lambda>encrypted.
       case decrypt (secret_context key) encrypted of None \<Rightarrow> tx_throw CipherFailure | Some plain \<Rightarrow> tx_return plain)"

section \<open>One form, one transaction\<close>

definition put_member :: "json_object \<Rightarrow> string \<Rightarrow> json \<Rightarrow> json_object" where
  \<comment> \<open>\<^verbatim>\<open>m[k] = v\<close> on a decoded object\<close>
  "put_member m key v = (key, v) # filter (\<lambda>(k, _). k \<noteq> key) m"

definition encode_setting :: "string \<times> json \<Rightarrow> (store_error, string \<times> json) res" where
  "encode_setting kv =
     (let (key, value) = kv
      in if key = ''ai''
         then (case as_object value of
                 None \<Rightarrow> Inl BadSettingDocument
               | Some m \<Rightarrow> Inr (key, JObj (put_member (put_member m ''provider'' (JStr ''openai-compatible''))
                   ''streaming'' (JBool True))))
         else Inr (key, value))"

definition encrypt_secret ::
  "(string \<Rightarrow> string \<Rightarrow> string option) \<Rightarrow> string \<times> string \<Rightarrow> (store_error, string \<times> string) res" where
  "encrypt_secret encrypt kv =
     (let (key, value) = kv
      in if \<not> is_settings_secret_key key then Inl UnsupportedSecret
         else if trim_space value = [] then Inl EmptySecret
         else case encrypt (secret_context key) value of
                None \<Rightarrow> Inl CipherFailure
              | Some encrypted \<Rightarrow> Inr (key, encrypted))"

fun map_res :: "('a \<Rightarrow> ('e, 'b) res) \<Rightarrow> 'a list \<Rightarrow> ('e, 'b list) res" where
  "map_res f [] = Inr []"
| "map_res f (x # xs) = res_bind (f x) (\<lambda>y. res_bind (map_res f xs) (\<lambda>ys. Inr (y # ys)))"

record secret_binding =
  sb_kind :: string
  sb_section :: string
  sb_secret_key :: string

definition settings_secret_bindings :: "secret_binding list" where
  "settings_secret_bindings =
     [\<lparr>sb_kind = ''oidc'', sb_section = ''auth.oidc'', sb_secret_key = ''oidc.client_secret''\<rparr>,
      \<lparr>sb_kind = ''prometheus'', sb_section = ''prometheus'', sb_secret_key = ''prometheus.token''\<rparr>,
      \<lparr>sb_kind = ''kubernetes'', sb_section = ''kubernetes'', sb_secret_key = ''kubernetes.token''\<rparr>,
      \<lparr>sb_kind = ''ai'', sb_section = ''ai'', sb_secret_key = ''ai.api_key''\<rparr>,
      \<lparr>sb_kind = ''webhook'', sb_section = ''notifications'', sb_secret_key = ''webhook.secret''\<rparr>,
      \<lparr>sb_kind = ''mail'', sb_section = ''mail'', sb_secret_key = ''mail.password''\<rparr>]"

definition stored_verify_tls :: "string \<Rightarrow> json_object \<Rightarrow> bool" where
  "stored_verify_tls kind config =
     (if kind = ''mail'' then \<not> true_bool (lookup config ''skip_tls_verify'')
      else case as_bool (lookup config ''verify_tls'') of Some b \<Rightarrow> b | None \<Rightarrow> True)"

definition target_key :: "string \<Rightarrow> string" where
  "target_key kind = (if kind = ''oidc'' then ''issuer_url'' else if kind = ''mail'' then ''smtp_host'' else ''base_url'')"

definition stored_target :: "string \<Rightarrow> json_object \<Rightarrow> string" where
  "stored_target kind config = canonical_url (string_or_empty (lookup config (target_key kind)))"

definition stored_binding_matches :: "string \<Rightarrow> json_object \<Rightarrow> json_object \<Rightarrow> bool" where
  "stored_binding_matches kind candidate saved =
     (let c = stored_target kind candidate; s = stored_target kind saved
      in if c = [] \<or> s = [] \<or> c \<noteq> s then False
         else
           let cid = trim_space (string_or_empty (lookup candidate ''client_id''));
               sid = trim_space (string_or_empty (lookup saved ''client_id''))
           in if kind = ''oidc'' \<and> (cid = [] \<or> cid \<noteq> sid) then False
              else stored_verify_tls kind candidate = stored_verify_tls kind saved)"

definition check_secret_binding ::
  "json_object \<Rightarrow> (string \<times> string) list \<Rightarrow> secret_binding \<Rightarrow> unit store_tx" where
  "check_secret_binding updates submitted b =
     (case map_of updates (sb_section b) of
        None \<Rightarrow> tx_return ()
      | Some candidate_raw \<Rightarrow>
          if map_of submitted (sb_secret_key b) \<noteq> None \<and> map_of submitted (sb_secret_key b) \<noteq> Some [] then tx_return ()
          else
            tx_bind (query DbError (\<lambda>d.
              (case setting_of (sb_section b) d of None \<Rightarrow> JNull | Some v \<Rightarrow> v,
               secret_of (sb_secret_key b) d \<noteq> None))) (\<lambda>(saved_raw, configured).
            case object_members candidate_raw of
              None \<Rightarrow> tx_throw BadSettingDocument
            | Some candidate \<Rightarrow>
                if sb_kind b = ''oidc'' \<and> true_bool (lookup candidate ''enabled'') \<and> \<not> configured
                then tx_throw ErrOIDCSecretRequired
                else if \<not> configured then tx_return ()
                else case as_object saved_raw of
                  None \<Rightarrow> tx_throw ErrSettingsSecretReentry
                | Some saved \<Rightarrow> throw_if (\<not> stored_binding_matches (sb_kind b) candidate saved) ErrSettingsSecretReentry))"

definition validate_stored_secret_bindings :: "json_object \<Rightarrow> (string \<times> string) list \<Rightarrow> unit store_tx" where
  "validate_stored_secret_bindings updates submitted =
     foreach (check_secret_binding updates submitted) settings_secret_bindings"

definition write_settings :: "json_object \<Rightarrow> (string \<times> string) list \<Rightarrow> int \<Rightarrow> unit store_tx" where
  "write_settings updates submitted uid =
     tx_bind advisory_lock (\<lambda>_.
     tx_bind (validate_stored_secret_bindings updates submitted) (\<lambda>_.
     tx_bind (foreach (\<lambda>kv. exec DbError (upsert_setting uid kv)) updates) (\<lambda>_.
     foreach (\<lambda>kv. exec DbError (upsert_secret uid kv)) submitted)))"

definition update_settings_and_secrets ::
  "(string \<Rightarrow> string \<Rightarrow> string option) \<Rightarrow> json_object \<Rightarrow> (string \<times> string) list \<Rightarrow> int \<Rightarrow> unit store_tx" where
  "update_settings_and_secrets encrypt values secrets uid =
     tx_bind (tx_lift (map_res encode_setting values)) (\<lambda>updates.
     tx_bind (tx_lift (map_res (encrypt_secret encrypt) secrets)) (\<lambda>submitted.
     transaction DbError (write_settings updates submitted uid)))"

definition set_setting :: "(string \<Rightarrow> string \<Rightarrow> string option) \<Rightarrow> string \<Rightarrow> json \<Rightarrow> int \<Rightarrow> unit store_tx" where
  "set_setting encrypt key value uid = update_settings_and_secrets encrypt [(key, value)] [] uid"

definition set_secret :: "(string \<Rightarrow> string \<Rightarrow> string option) \<Rightarrow> string \<Rightarrow> string \<Rightarrow> int \<Rightarrow> unit store_tx" where
  "set_secret encrypt key value uid = update_settings_and_secrets encrypt [] [(key, value)] uid"

section \<open>Settings and secret in one snapshot\<close>

definition settings_and_encrypted :: "string list \<Rightarrow> string \<Rightarrow> store_db \<Rightarrow> json_object \<times> string option" where
  "settings_and_encrypted keys secret_key d =
     (map (\<lambda>s. (st_key s, st_value s)) (filter (\<lambda>s. st_key s \<in> set keys) (db_settings d)), secret_of secret_key d)"

definition open_secret ::
  "(string \<Rightarrow> string \<Rightarrow> string option) \<Rightarrow> string \<Rightarrow> string option \<Rightarrow> (string \<times> bool) store_tx" where
  "open_secret decrypt secret_key encrypted =
     (if token_bytes encrypted = [] then tx_return ([], False)
      else case decrypt (secret_context secret_key) (token_bytes encrypted) of
             None \<Rightarrow> tx_throw CipherFailure
           | Some plain \<Rightarrow> tx_return (plain, True))"

definition get_settings_and_secret ::
  "(string \<Rightarrow> string \<Rightarrow> string option) \<Rightarrow> string list \<Rightarrow> string \<Rightarrow> (json_object \<times> string \<times> bool) store_tx" where
  "get_settings_and_secret decrypt keys secret_key =
     (if keys = [] then tx_return ([], [], False)
      else if \<not> is_settings_secret_key secret_key then tx_throw UnsupportedSecret
      else tx_bind (query DbError (settings_and_encrypted keys secret_key)) (\<lambda>(settings, encrypted).
           tx_bind (open_secret decrypt secret_key encrypted) (\<lambda>(plain, configured).
           tx_return (settings, plain, configured))))"

definition get_setting_and_secret ::
  "(string \<Rightarrow> string \<Rightarrow> string option) \<Rightarrow> (json \<Rightarrow> 'a option) \<Rightarrow> string \<Rightarrow> string \<Rightarrow> ('a \<times> string \<times> bool) store_tx" where
  "get_setting_and_secret decrypt decode setting_key secret_key =
     tx_bind (get_settings_and_secret decrypt [setting_key] secret_key) (\<lambda>(settings, plain, configured).
       case map_of settings setting_key of
         None \<Rightarrow> tx_throw ErrNotFound
       | Some raw \<Rightarrow> (case decode raw of None \<Rightarrow> tx_throw BadSettingDocument | Some v \<Rightarrow> tx_return (v, plain, configured)))"

definition canonical_setting_keys :: "string list \<Rightarrow> string list" where
  "canonical_setting_keys keys = sort (remdups (filter (\<lambda>k. k \<noteq> []) (map trim_space keys)))"

record integration_generation =
  ig_keys :: "string list"
  ig_secret_key :: string
  ig_config :: string
  ig_inventory :: string

definition byte_flag :: "bool \<Rightarrow> string" where
  "byte_flag b = [if b then CHR 0x01 else CHR 0x00]"

definition bool_text :: "bool \<Rightarrow> string" where
  "bool_text b = (if b then ''true'' else ''false'')"

definition config_bytes :: "(json \<Rightarrow> string) \<Rightarrow> string list \<Rightarrow> json_object \<Rightarrow> string option \<Rightarrow> string" where
  "config_bytes render keys settings encrypted =
     concat (map (\<lambda>key. write_field key
       @ (case map_of settings key of
            None \<Rightarrow> byte_flag False
          | Some raw \<Rightarrow> byte_flag True @ write_field (render raw))) keys)
     @ write_field (token_bytes encrypted)"

definition inventory_rows :: "store_db \<Rightarrow> (hub_row \<times> server_row option) list" where
  \<comment> \<open>\<^verbatim>\<open>FROM hubs h LEFT JOIN servers s ... ORDER BY h.id,s.id\<close>\<close>
  "inventory_rows d =
     concat (map (\<lambda>h. case sort_key sv_id (filter (\<lambda>s. sv_hub_id s = hb_id h) (db_servers d)) of
         [] \<Rightarrow> [(h, None)]
       | ss \<Rightarrow> map (\<lambda>s. (h, Some s)) ss) (sort_key hb_id (db_hubs d)))"

definition project_text :: "(json \<Rightarrow> string) \<Rightarrow> server_row \<Rightarrow> string" where
  \<comment> \<open>\<^verbatim>\<open>COALESCE(s.raw->>'project','')\<close>\<close>
  "project_text render s =
     (case lookup (sv_raw s) ''project'' of JNull \<Rightarrow> [] | JStr t \<Rightarrow> t | v \<Rightarrow> render v)"

definition server_fields :: "(json \<Rightarrow> string) \<Rightarrow> store_db \<Rightarrow> server_row \<Rightarrow> string list" where
  "server_fields render d s =
     [format_int (sv_id s), sv_username s, sv_server_name s, sv_status s, sv_pod_name s,
      (case managed_of_server s d of None \<Rightarrow> [] | Some u \<Rightarrow> mu_department u), project_text render s]"

definition inventory_bytes :: "(json \<Rightarrow> string) \<Rightarrow> store_db \<Rightarrow> string" where
  "inventory_bytes render d =
     concat (map (\<lambda>(h, s).
       concat (map write_field [format_int (hb_id h), hb_name h, hb_base_url h, hb_network h,
         bool_text (hb_enabled h), bool_text (hb_verify_tls h), token_bytes (hb_token h)])
       @ (case s of
            None \<Rightarrow> byte_flag False
          | Some v \<Rightarrow> byte_flag True @ concat (map write_field (server_fields render d v)))) (inventory_rows d))"

definition get_settings_and_secret_generation ::
  "(json \<Rightarrow> string) \<Rightarrow> (string \<Rightarrow> string) \<Rightarrow> (string \<Rightarrow> string \<Rightarrow> string option) \<Rightarrow> string list \<Rightarrow> string
    \<Rightarrow> (json_object \<times> string \<times> bool \<times> integration_generation) store_tx" where
  "get_settings_and_secret_generation render digest decrypt setting_keys secret_key =
     (let keys = canonical_setting_keys setting_keys
      in if keys = [] then tx_return ([], [], False, \<lparr>ig_keys = [], ig_secret_key = [], ig_config = [], ig_inventory = []\<rparr>)
         else if \<not> is_settings_secret_key secret_key then tx_throw UnsupportedSecret
         else
           tx_bind (transaction DbError
             (tx_bind (query DbError (settings_and_encrypted keys secret_key)) (\<lambda>(settings, encrypted).
              tx_bind (query DbError (\<lambda>d. digest (inventory_bytes render d))) (\<lambda>inventory.
              tx_return (settings, encrypted, inventory))))) (\<lambda>(settings, encrypted, inventory).
           tx_bind (open_secret decrypt secret_key encrypted) (\<lambda>(plain, configured).
           tx_return (settings, plain, configured,
             \<lparr>ig_keys = keys, ig_secret_key = secret_key,
              ig_config = digest (config_bytes render keys settings encrypted), ig_inventory = inventory\<rparr>))))"

definition lock_and_match_integration_generation ::
  "(json \<Rightarrow> string) \<Rightarrow> (string \<Rightarrow> string) \<Rightarrow> integration_generation \<Rightarrow> bool store_tx" where
  "lock_and_match_integration_generation render digest expected =
     (if ig_config expected = [] \<or> ig_inventory expected = [] \<or> ig_keys expected = [] \<or> ig_secret_key expected = []
      then tx_return False
      else
        tx_bind advisory_lock (\<lambda>_.
        tx_bind (query DbError (settings_and_encrypted (ig_keys expected) (ig_secret_key expected))) (\<lambda>(settings, encrypted).
        if digest (config_bytes render (ig_keys expected) settings encrypted) \<noteq> ig_config expected then tx_return False
        else
          tx_bind advisory_lock (\<lambda>_.
          tx_bind (query DbError (\<lambda>d. digest (inventory_bytes render d))) (\<lambda>inventory.
          tx_return (inventory = ig_inventory expected))))))"

end
