(* ===== verification/Analytics.thy ===== *)
theory Analytics
  imports Outbound_Http Json Store_State "HOL-Library.List_Lexorder" "HOL-Library.Char_ord"
begin

text \<open>
  The visitor-tracking snippet an administrator adds (\<^verbatim>\<open>internal/analytics/analytics.go\<close>): its
  configuration, the markup with the nonce of the request on every script element, and the origins
  the content security policy has to allow for it. \<^verbatim>\<open>net/url.Parse\<close> is the parameter \<open>parse_url\<close>.
\<close>

section \<open>Text\<close>

definition sq :: string where "sq = [CHR 0x27]"
definition dq :: string where "dq = [CHR 0x22]"
definition nl :: string where "nl = [CHR 0x0A]"

fun escape_html_char :: "char \<Rightarrow> string" where
  "escape_html_char c =
     (if c = CHR ''&'' then ''&amp;''
      else if c = CHR 0x27 then ''&#39;''
      else if c = CHR ''<'' then ''&lt;''
      else if c = CHR ''>'' then ''&gt;''
      else if c = CHR 0x22 then ''&#34;''
      else [c])"

definition escape_html :: "string \<Rightarrow> string" where
  "escape_html s = concat (map escape_html_char s)"

section \<open>Configuration\<close>

definition provider_none :: string where "provider_none = ''none''"
definition provider_momento :: string where "provider_momento = ''momento''"
definition provider_ga4 :: string where "provider_ga4 = ''ga4''"
definition provider_gtm :: string where "provider_gtm = ''gtm''"
definition provider_matomo :: string where "provider_matomo = ''matomo''"
definition provider_custom :: string where "provider_custom = ''custom''"
definition max_snippet_bytes :: int where "max_snippet_bytes = 8 * 1024"
definition momento_proxy_prefix :: string where "momento_proxy_prefix = ''/momento''"
definition analytics_key :: string where "analytics_key = ''analytics''"

definition providers :: "string list" where
  "providers = [provider_none, provider_momento, provider_ga4, provider_gtm, provider_matomo, provider_custom]"

lemmas provider_defs = provider_none_def provider_momento_def provider_ga4_def provider_gtm_def
  provider_matomo_def provider_custom_def

record analytics_config =
  ac_enabled :: bool
  ac_provider :: string
  ac_momento_url :: string
  ac_momento_site_id :: string
  ac_momento_proxy :: bool
  ac_momento_verify_tls :: bool
  ac_measurement_id :: string
  ac_matomo_url :: string
  ac_matomo_site_id :: string
  ac_custom_snippet :: string
  ac_allowed_hosts :: string
  ac_include_admin :: bool
  ac_placement :: string

definition default_analytics :: analytics_config where
  "default_analytics =
     \<lparr>ac_enabled = False, ac_provider = provider_none, ac_momento_url = [], ac_momento_site_id = [],
      ac_momento_proxy = True, ac_momento_verify_tls = True, ac_measurement_id = [], ac_matomo_url = [],
      ac_matomo_site_id = [], ac_custom_snippet = [], ac_allowed_hosts = [], ac_include_admin = False,
      ac_placement = ''head''\<rparr>"

definition string_value :: "json_object \<Rightarrow> string \<Rightarrow> string \<Rightarrow> string" where
  "string_value values key fallback =
     (case as_string (lookup values key) of
        Some s \<Rightarrow> if trim_space s \<noteq> [] then trim_space s else fallback
      | None \<Rightarrow> fallback)"

definition bool_value :: "json_object \<Rightarrow> string \<Rightarrow> bool \<Rightarrow> bool" where
  "bool_value values key fallback =
     (case as_bool (lookup values key) of Some b \<Rightarrow> b | None \<Rightarrow> fallback)"

definition read_analytics :: "json_object \<Rightarrow> analytics_config" where
  "read_analytics values =
     (let placement = to_lower (string_value values ''placement'' ''head'')
      in \<lparr>ac_enabled = bool_value values ''enabled'' False,
          ac_provider = to_lower (string_value values ''provider'' provider_none),
          ac_momento_url = string_value values ''momento_url'' [],
          ac_momento_site_id = string_value values ''momento_site_id'' [],
          ac_momento_proxy = bool_value values ''momento_proxy'' True,
          ac_momento_verify_tls = bool_value values ''momento_verify_tls'' True,
          ac_measurement_id = string_value values ''measurement_id'' [],
          ac_matomo_url = string_value values ''matomo_url'' [],
          ac_matomo_site_id = string_value values ''matomo_site_id'' [],
          ac_custom_snippet = string_value values ''custom_snippet'' [],
          ac_allowed_hosts = string_value values ''allowed_hosts'' [],
          ac_include_admin = bool_value values ''include_admin'' False,
          ac_placement = (if placement \<noteq> ''body'' then ''head'' else placement)\<rparr>)"

definition parse_analytics :: "json \<Rightarrow> analytics_config" where
  \<comment> \<open>the document of a stored row always parses; one that is no object counts as none\<close>
  "parse_analytics raw =
     (case raw of JObj m \<Rightarrow> read_analytics m | _ \<Rightarrow> default_analytics)"

definition origin_of :: "(string \<Rightarrow> url option) \<Rightarrow> string \<Rightarrow> string" where
  "origin_of parse_url raw =
     (case parse_url (trim_space raw) of
        None \<Rightarrow> []
      | Some u \<Rightarrow>
          if url_host u = [] then []
          else
            let scheme = to_lower (url_scheme u)
            in if scheme \<noteq> ''http'' \<and> scheme \<noteq> ''https'' then []
               else scheme @ ''://'' @ to_lower (url_host u))"

datatype analytics_error =
    BadPlacement | BadProvider | SnippetTooLong | MomentoFieldsMissing | MomentoUrlInvalid
  | MeasurementIdMissing | MatomoFieldsMissing | MatomoUrlInvalid | SnippetMissing

definition validate_analytics ::
  "(string \<Rightarrow> url option) \<Rightarrow> analytics_config \<Rightarrow> (analytics_error, unit) res" where
  "validate_analytics parse_url c =
     (if ac_placement c \<noteq> [] \<and> ac_placement c \<noteq> ''head'' \<and> ac_placement c \<noteq> ''body'' then Inl BadPlacement
      else if ac_provider c \<notin> set providers \<and> ac_provider c \<noteq> [] then Inl BadProvider
      else if max_snippet_bytes < int (length (ac_custom_snippet c)) then Inl SnippetTooLong
      else if \<not> ac_enabled c then Inr ()
      else if ac_provider c = provider_none \<or> ac_provider c = [] then Inr ()
      else if ac_provider c = provider_momento then
        (if trim_space (ac_momento_url c) = [] \<or> trim_space (ac_momento_site_id c) = [] then Inl MomentoFieldsMissing
         else if origin_of parse_url (ac_momento_url c) = [] then Inl MomentoUrlInvalid else Inr ())
      else if ac_provider c = provider_ga4 \<or> ac_provider c = provider_gtm then
        (if trim_space (ac_measurement_id c) = [] then Inl MeasurementIdMissing else Inr ())
      else if ac_provider c = provider_matomo then
        (if trim_space (ac_matomo_url c) = [] \<or> trim_space (ac_matomo_site_id c) = [] then Inl MatomoFieldsMissing
         else if origin_of parse_url (ac_matomo_url c) = [] then Inl MatomoUrlInvalid else Inr ())
      else if ac_provider c = provider_custom then
        (if trim_space (ac_custom_snippet c) = [] then Inl SnippetMissing else Inr ())
      else Inr ())"

section \<open>Markup\<close>

definition nonce_attribute :: "string \<Rightarrow> string" where
  "nonce_attribute nonce = '' nonce='' @ dq @ escape_html nonce @ dq"

definition tag_text :: "string \<Rightarrow> string" where
  \<comment> \<open>what follows the element name, up to the end of the tag\<close>
  "tag_text s = (case index_of s ''>'' of None \<Rightarrow> s | Some i \<Rightarrow> take i s)"

function nonce_scripts :: "string \<Rightarrow> string \<Rightarrow> string" where
  "nonce_scripts nonce remaining =
     (case index_of (to_lower remaining) ''<script'' of
        None \<Rightarrow> remaining
      | Some i \<Rightarrow>
          let after = i + 7; rest = drop after remaining
          in take after remaining
             @ (if contains_sub (to_lower (tag_text rest)) ''nonce='' then [] else nonce_attribute nonce)
             @ nonce_scripts nonce rest)"
  by pat_completeness auto

termination nonce_scripts
proof (relation "measure (\<lambda>(nonce, remaining). length remaining)")
  fix nonce remaining :: string and i x :: nat and xa :: string
  assume "index_of (to_lower remaining) ''<script'' = Some i" "x = i + 7" "xa = drop x remaining"
  moreover from this(1) have "remaining \<noteq> []" by (auto simp: to_lower_def)
  ultimately show "((nonce, xa), nonce, remaining) \<in> measure (\<lambda>(nonce, remaining). length remaining)"
    by auto
qed simp

declare nonce_scripts.simps [simp del]

definition with_nonce :: "string \<Rightarrow> string \<Rightarrow> string" where
  "with_nonce snippet nonce = (if nonce = [] \<or> snippet = [] then snippet else nonce_scripts nonce snippet)"

definition trim_slashes :: "string \<Rightarrow> string" where
  "trim_slashes s = trim_right (\<lambda>c. c = CHR ''/'') s"

definition snippet_text :: "analytics_config \<Rightarrow> string" where
  \<comment> \<open>the markup before the nonce is added\<close>
  "snippet_text c =
     (if ac_provider c = provider_momento then
        (let site = escape_html (trim_space (ac_momento_site_id c));
             base = trim_slashes (trim_space (ac_momento_url c))
         in if site = [] \<or> base = [] then []
            else if ac_momento_proxy c then
       ''<script async src='' @ dq @ momento_proxy_prefix @ ''/tracker.js'' @ dq
       @ '' data-site-id='' @ dq @ site @ dq @ '' data-endpoint='' @ dq @ momento_proxy_prefix @ dq
       @ '' data-environment='' @ dq @ ''prd'' @ dq @ '' data-contract-version='' @ dq @ ''1'' @ dq
       @ ''></script>''
            else
       ''<script async src='' @ dq @ escape_html base @ ''/tracker.js'' @ dq @ '' data-site-id=''
       @ dq @ site @ dq @ '' data-environment='' @ dq @ ''prd'' @ dq @ '' data-contract-version=''
       @ dq @ ''1'' @ dq @ ''></script>'')
      else if ac_provider c = provider_ga4 then
        (let mid = escape_html (trim_space (ac_measurement_id c))
         in if mid = [] then []
            else
       ''<script async src='' @ dq @ ''https://www.googletagmanager.com/gtag/js?id='' @ mid @ dq
       @ ''></script>'' @ nl
       @ ''<script>window.dataLayer=window.dataLayer||[];function gtag(){dataLayer.push(arguments);}gtag(''
       @ sq @ ''js'' @ sq @ '',new Date());gtag('' @ sq @ ''config'' @ sq @ '','' @ sq @ mid @ sq
       @ '');</script>'')
      else if ac_provider c = provider_gtm then
        (let mid = escape_html (trim_space (ac_measurement_id c))
         in if mid = [] then []
            else
       ''<script>(function(w,d,s,l,i){w[l]=w[l]||[];w[l].push({'' @ sq @ ''gtm.start'' @ sq
       @ '':new Date().getTime(),event:'' @ sq @ ''gtm.js'' @ sq
       @ ''});var f=d.getElementsByTagName(s)[0],j=d.createElement(s),dl=l!='' @ sq @ ''dataLayer''
       @ sq @ ''?'' @ sq @ ''&l='' @ sq @ ''+l:'' @ sq @ sq @ '';j.async=true;j.src='' @ sq
       @ ''https://www.googletagmanager.com/gtm.js?id='' @ sq
       @ ''+i+dl;f.parentNode.insertBefore(j,f);})(window,document,'' @ sq @ ''script'' @ sq @ '',''
       @ sq @ ''dataLayer'' @ sq @ '','' @ sq @ mid @ sq @ '');</script>'')
      else if ac_provider c = provider_matomo then
        (let base = trim_slashes (trim_space (ac_matomo_url c));
             site = escape_html (trim_space (ac_matomo_site_id c))
         in if base = [] \<or> site = [] then []
            else
       ''<script>var _paq=window._paq=window._paq||[];_paq.push(['' @ sq @ ''trackPageView'' @ sq
       @ '']);_paq.push(['' @ sq @ ''enableLinkTracking'' @ sq @ '']);(function(){var u='' @ dq
       @ escape_html base @ ''/'' @ dq @ '';_paq.push(['' @ sq @ ''setTrackerUrl'' @ sq @ '',u+''
       @ sq @ ''matomo.php'' @ sq @ '']);_paq.push(['' @ sq @ ''setSiteId'' @ sq @ '','' @ sq @ site
       @ sq @ '']);var d=document,g=d.createElement('' @ sq @ ''script'' @ sq
       @ ''),s=d.getElementsByTagName('' @ sq @ ''script'' @ sq @ '')[0];g.async=true;g.src=u+''
       @ sq @ ''matomo.js'' @ sq @ '';s.parentNode.insertBefore(g,s);})();</script>'')
      else if ac_provider c = provider_custom then trim_space (ac_custom_snippet c)
      else [])"

definition snippet :: "analytics_config \<Rightarrow> string \<Rightarrow> string" where
  "snippet c nonce = with_nonce (snippet_text c) nonce"

definition analytics_active :: "analytics_config \<Rightarrow> string \<Rightarrow> bool" where
  "analytics_active c path =
     (if \<not> ac_enabled c \<or> ac_provider c = provider_none \<or> ac_provider c = [] then False
      else if \<not> ac_include_admin c \<and> has_prefix path ''/admin'' then False
      else trim_space (snippet c []) \<noteq> [])"

definition proxy_active :: "analytics_config \<Rightarrow> bool" where
  "proxy_active c =
     (ac_enabled c \<and> ac_provider c = provider_momento \<and> ac_momento_proxy c \<and> trim_space (ac_momento_url c) \<noteq> [])"

section \<open>Origins\<close>

definition split_hosts :: "string \<Rightarrow> string list" where
  "split_hosts hosts =
     filter (\<lambda>h. h \<noteq> []) (map trim_space (fields_func
       (\<lambda>c. c = CHR '','' \<or> c = CHR '' '' \<or> c = CHR 0x0A \<or> c = CHR 0x0D \<or> c = CHR 0x09) hosts))"

definition url_boundary :: "char \<Rightarrow> bool" where
  "url_boundary c =
     (c \<in> {CHR 0x22, CHR 0x27, CHR 0x60, CHR ''<'', CHR ''>'', CHR '' '', CHR 0x09, CHR 0x0A, CHR 0x0D,
            CHR '')'', CHR '','', CHR '';'', CHR 0x5C, CHR ''+''})"

lemma index_of_http:
  assumes "index_of (to_lower s) ''http'' = Some i"
  shows "\<exists>c t. drop i s = c # t \<and> lower_char c = CHR ''h''"
proof -
  from index_of_Some [OF assms] obtain a b where "to_lower s = a @ ''http'' @ b" "length a = i" by blast
  then have "map lower_char (drop i s) = ''http'' @ b" by (simp add: to_lower_def flip: drop_map)
  then show ?thesis by (cases "drop i s") auto
qed

function snippet_origins_from :: "(string \<Rightarrow> url option) \<Rightarrow> string \<Rightarrow> string list \<Rightarrow> string list" where
  "snippet_origins_from parse_url remaining seen =
     (case index_of (to_lower remaining) ''http'' of
        None \<Rightarrow> []
      | Some i \<Rightarrow>
          let found = drop i remaining;
              address = takeWhile (\<lambda>c. \<not> url_boundary c) found;
              rest = drop (length address) found;
              origin = origin_of parse_url address
          in if origin = [] \<or> origin \<in> set seen then snippet_origins_from parse_url rest seen
             else origin # snippet_origins_from parse_url rest (origin # seen))"
  by pat_completeness auto

lemma http_address_not_Nil:
  assumes "index_of (to_lower s) ''http'' = Some i"
  shows "takeWhile (\<lambda>c. \<not> url_boundary c) (drop i s) \<noteq> []"
proof -
  from index_of_http [OF assms] obtain c t where d: "drop i s = c # t" "lower_char c = CHR ''h''" by blast
  have "\<not> url_boundary c"
  proof
    assume "url_boundary c"
    then have "lower_char c = c" unfolding url_boundary_def by (auto simp: lower_char_def)
    with d(2) have "c = CHR ''h''" by simp
    with \<open>url_boundary c\<close> show False by (simp add: url_boundary_def)
  qed
  with d show ?thesis by simp
qed

lemma snippet_rest_shorter:
  assumes "index_of (to_lower s) ''http'' = Some i"
  shows "length (drop (length (takeWhile (\<lambda>c. \<not> url_boundary c) (drop i s))) (drop i s)) < length s"
  using http_address_not_Nil [OF assms] index_of_http [OF assms]
  by (cases "drop i s") (auto split: if_splits, (metis length_Cons length_drop diff_le_self less_Suc_eq_le
      diff_less_Suc le_trans Suc_le_eq))

termination snippet_origins_from
  by (relation "measure (\<lambda>(p, remaining, seen). length remaining)") (use snippet_rest_shorter in auto)

declare snippet_origins_from.simps [simp del]

definition snippet_origins :: "(string \<Rightarrow> url option) \<Rightarrow> string \<Rightarrow> string list" where
  "snippet_origins parse_url text = snippet_origins_from parse_url text []"

definition policy_sources ::
  "(string \<Rightarrow> url option) \<Rightarrow> analytics_config \<Rightarrow> string list \<times> string list \<times> string list" where
  "policy_sources parse_url c =
     (let everywhere = (\<lambda>os. (os, os, os));
          own = (\<lambda>u. let origin = origin_of parse_url u in if origin = [] then [] else [origin]);
          (scripts, connects, images) =
            (if ac_provider c = provider_momento then
               everywhere (if ac_momento_proxy c then [] else own (ac_momento_url c))
             else if ac_provider c = provider_ga4 \<or> ac_provider c = provider_gtm then
               ([''https://www.googletagmanager.com''],
                [''https://www.google-analytics.com'', ''https://analytics.google.com'', ''https://*.google-analytics.com''],
                [''https://www.google-analytics.com'', ''https://www.googletagmanager.com''])
             else if ac_provider c = provider_matomo then everywhere (own (ac_matomo_url c))
             else if ac_provider c = provider_custom then everywhere (snippet_origins parse_url (ac_custom_snippet c))
             else ([], [], []));
          hosts = split_hosts (ac_allowed_hosts c)
      in (scripts @ hosts, connects @ hosts, images @ hosts))"

end
