(* ===== verification/Mail.thy ===== *)
theory Mail
  imports Http_Request Analytics Db_Tx
begin

text \<open>
  The mail relay: its configuration (\<^verbatim>\<open>internal/mail/config.go\<close>), the SMTP session and the message
  (\<^verbatim>\<open>internal/mail/mail.go\<close>). A session is the list of commands sent, each with whether the
  connection was encrypted when it was sent; which commands the relay refuses is the fault list, what
  it announces is the parameter \<open>extension\<close>. \<^verbatim>\<open>mime.QEncoding\<close> and the date format are parameters.
\<close>

section \<open>Configuration\<close>

definition mail_key :: string where "mail_key = ''mail''"
definition mail_secret_key :: string where "mail_secret_key = ''mail.password''"
definition security_auto :: string where "security_auto = ''auto''"
definition security_none :: string where "security_none = ''none''"
definition security_start_tls :: string where "security_start_tls = ''starttls''"
definition security_tls :: string where "security_tls = ''tls''"
definition default_mail_port :: int where "default_mail_port = 25"
definition default_timeout_seconds :: int where "default_timeout_seconds = 10"
definition max_timeout_seconds :: int where "max_timeout_seconds = 120"

definition event_approval_requested :: string where "event_approval_requested = ''approval.requested''"
definition event_approval_decided :: string where "event_approval_decided = ''approval.decided''"
definition event_hub_health :: string where "event_hub_health = ''hub.health''"
definition event_key_expiring :: string where "event_key_expiring = ''key.expiring''"
definition event_test :: string where "event_test = ''test''"

definition event_settings :: "(string \<times> string) list" where
  "event_settings =
     [(event_approval_requested, ''notify_approval_request''), (event_approval_decided, ''notify_approval_decision''),
      (event_hub_health, ''notify_hub_health''), (event_key_expiring, ''notify_key_expiry'')]"

record mail_config =
  mc_enabled :: bool
  mc_host :: string
  mc_port :: int
  mc_security :: string
  mc_skip_tls_verify :: bool
  mc_username :: string
  mc_password :: string
  mc_from_address :: string
  mc_from_name :: string
  mc_base_url :: string
  mc_timeout :: int
  mc_events :: "(string \<times> bool) list"

definition default_mail :: mail_config where
  "default_mail =
     \<lparr>mc_enabled = False, mc_host = [], mc_port = default_mail_port, mc_security = security_auto,
      mc_skip_tls_verify = False, mc_username = [], mc_password = [], mc_from_address = [],
      mc_from_name = ''jupiq'', mc_base_url = [], mc_timeout = default_timeout_seconds * second, mc_events = []\<rparr>"

definition truncated :: "rat \<Rightarrow> int" where
  \<comment> \<open>\<^verbatim>\<open>int(f)\<close> of a \<^verbatim>\<open>float64\<close> in range\<close>
  "truncated q = (if 0 \<le> q then \<lfloor>q\<rfloor> else \<lceil>q\<rceil>)"

definition number_value :: "json_object \<Rightarrow> string \<Rightarrow> int option" where
  "number_value values key = map_option truncated (as_number (lookup values key))"

definition positive_or :: "int option \<Rightarrow> int \<Rightarrow> int" where
  "positive_or v fallback = (case v of Some n \<Rightarrow> if 0 < n then n else fallback | None \<Rightarrow> fallback)"

definition mail_events :: "json_object \<Rightarrow> (string \<times> bool) list" where
  "mail_events values =
     concat (map (\<lambda>(event, field). case as_bool (lookup values field) of Some b \<Rightarrow> [(event, b)] | None \<Rightarrow> []) event_settings)"

definition mail_timeout :: "json_object \<Rightarrow> int" where
  "mail_timeout values =
     (case number_value values ''timeout_seconds'' of
        Some n \<Rightarrow> if 0 < n then wrap64 (n * second) else default_timeout_seconds * second
      | None \<Rightarrow> default_timeout_seconds * second)"

definition read_mail :: "json_object \<Rightarrow> string \<Rightarrow> mail_config" where
  "read_mail values password =
     (let security = to_lower (string_value values ''security'' security_auto);
          port = positive_or (number_value values ''smtp_port'') default_mail_port
      in \<lparr>mc_enabled = true_bool (lookup values ''enabled''), mc_host = string_value values ''smtp_host'' [],
          mc_port = port,
          mc_security = (if security = security_auto \<and> port = 465 then security_tls else security),
          mc_skip_tls_verify = true_bool (lookup values ''skip_tls_verify''),
          mc_username = string_value values ''username'' [], mc_password = password,
          mc_from_address = string_value values ''from_address'' [],
          mc_from_name = string_value values ''from_name'' ''jupiq'',
          mc_base_url = trim_slashes (string_value values ''base_url'' []),
          mc_timeout = mail_timeout values, mc_events = mail_events values\<rparr>)"

definition parse_mail :: "json option \<Rightarrow> string \<Rightarrow> mail_config" where
  \<comment> \<open>a missing document or one that is no object is the default\<close>
  "parse_mail raw password =
     (case raw of Some (JObj m) \<Rightarrow> read_mail m password | _ \<Rightarrow> default_mail\<lparr>mc_password := password\<rparr>)"

definition valid_address :: "string \<Rightarrow> bool" where
  "valid_address address =
     (let a = trim_space address
      in case last_index (CHR ''@'') a of
           None \<Rightarrow> False
         | Some i \<Rightarrow>
             if i < 1 \<or> i = length a - 1 \<or> 254 < length a then False
             else \<not> contains_any a ('' <>,'' @ [CHR 0x0D, CHR 0x0A, CHR 0x09, CHR 0x22]))"

definition loopback_host :: "string \<Rightarrow> bool" where
  "loopback_host host = (to_lower (trim_space host) \<in> set [''localhost'', ''127.0.0.1'', ''::1''])"

datatype mail_error =
    HostMissing | PortOutOfRange | FromInvalid | SecurityInvalid | TimeoutOutOfRange | PlaintextUsername
  | NoRecipient | ConnectFailed | RelayRefused | NoStartTls | AuthUnsupported | PlaintextCredentials
  | UnknownPrompt | LineBreakInAddress | MailDisabled | SettingsUnreadable

definition invalid_mail :: "mail_error \<Rightarrow> bool" where
  \<comment> \<open>\<^verbatim>\<open>errors.Is(err, mail.ErrInvalid)\<close>\<close>
  "invalid_mail e =
     (e \<in> set [HostMissing, PortOutOfRange, FromInvalid, SecurityInvalid, TimeoutOutOfRange, PlaintextUsername,
        NoRecipient, NoStartTls, AuthUnsupported, PlaintextCredentials])"

definition validate_mail :: "mail_config \<Rightarrow> (mail_error, unit) res" where
  "validate_mail c =
     (if trim_space (mc_host c) = [] then Inl HostMissing
      else if mc_port c < 1 \<or> 65535 < mc_port c then Inl PortOutOfRange
      else if \<not> valid_address (mc_from_address c) then Inl FromInvalid
      else if mc_security c \<notin> set [security_auto, security_none, security_start_tls, security_tls] then Inl SecurityInvalid
      else if mc_timeout c div second < 1 \<or> max_timeout_seconds < mc_timeout c div second then Inl TimeoutOutOfRange
      else if mc_security c = security_none \<and> trim_space (mc_username c) \<noteq> [] \<and> \<not> loopback_host (mc_host c)
           then Inl PlaintextUsername
      else Inr ())"

definition mail_allows :: "mail_config \<Rightarrow> string \<Rightarrow> bool" where
  "mail_allows c event = (case map_of (mc_events c) event of Some enabled \<Rightarrow> enabled | None \<Rightarrow> True)"

definition mail_address :: "mail_config \<Rightarrow> string" where
  "mail_address c =
     (let from_addr = trim_space (mc_from_address c); name = trim_space (mc_from_name c)
      in if name \<noteq> [] then name @ '' <'' @ from_addr @ ''>'' else from_addr)"

definition mail_link :: "mail_config \<Rightarrow> string \<Rightarrow> string" where
  "mail_link c path =
     (if mc_base_url c = [] then [] else mc_base_url c @ ''/'' @ trim_left (\<lambda>x. x = CHR ''/'') path)"

definition mail_endpoint :: "mail_config \<Rightarrow> string" where
  \<comment> \<open>\<^verbatim>\<open>net.JoinHostPort\<close>\<close>
  "mail_endpoint c =
     (let host = trim_space (mc_host c); port = format_int (mc_port c)
      in if CHR '':'' \<in> set host then ''['' @ host @ '']:'' @ port else host @ '':'' @ port)"

section \<open>The session\<close>

datatype smtp_command =
    Ehlo string | StartTls | AuthPlain string string | AuthLogin | AuthReply string | AuthCramMd5 string
  | MailFrom string | RcptTo string | MailData string | Quit

record smtp_session =
  sm_encrypted :: bool
  sm_sent :: "(bool \<times> smtp_command) list"

type_synonym 'a smtp = "(smtp_session, mail_error, 'a) tx"

definition smtp_send :: "smtp_command \<Rightarrow> unit smtp" where
  \<comment> \<open>a command goes out whether the relay accepts it or not\<close>
  "smtp_send command fs s =
     (let (bad, fs') = next_fault fs
      in (if bad then Inl RelayRefused else Inr (), fs',
          s\<lparr>sm_sent := sm_sent s @ [(sm_encrypted s, command)]\<rparr>))"

definition smtp_read :: "(smtp_session \<Rightarrow> 'a) \<Rightarrow> 'a smtp" where
  "smtp_read f fs s = (Inr (f s), fs, s)"

definition smtp_encrypt :: "unit smtp" where
  "smtp_encrypt fs s = (Inr (), fs, s\<lparr>sm_encrypted := True\<rparr>)"

definition hello_name :: "mail_config \<Rightarrow> string" where
  "hello_name c =
     (case last_index (CHR ''@'') (mc_from_address c) of
        None \<Rightarrow> ''localhost''
      | Some i \<Rightarrow> if i + 1 < length (mc_from_address c) then drop (i + 1) (mc_from_address c) else ''localhost'')"

definition credentials_allowed :: "bool \<Rightarrow> string \<Rightarrow> bool" where
  "credentials_allowed encrypted host = (encrypted \<or> loopback_host host)"

definition upgrade_session :: "(smtp_session \<Rightarrow> string \<Rightarrow> string option) \<Rightarrow> mail_config \<Rightarrow> unit smtp" where
  "upgrade_session extension c =
     (if mc_security c = security_start_tls \<or> mc_security c = security_auto
      then tx_bind (smtp_read (\<lambda>s. extension s ''STARTTLS'')) (\<lambda>supported.
           if supported \<noteq> None then tx_bind (smtp_send StartTls) (\<lambda>_. smtp_encrypt)
           else throw_if (mc_security c = security_start_tls) NoStartTls)
      else tx_return ())"

text \<open>The \<^verbatim>\<open>PLAIN\<close> mechanism of \<^verbatim>\<open>net/smtp\<close> makes its own check before it sends anything.\<close>

definition plain_auth :: "mail_config \<Rightarrow> bool \<Rightarrow> unit smtp" where
  "plain_auth c encrypted =
     (if encrypted \<or> mc_host c \<in> set [''localhost'', ''127.0.0.1'', ''::1'']
      then smtp_send (AuthPlain (mc_username c) (mc_password c)) else tx_throw PlaintextCredentials)"

definition login_next :: "mail_config \<Rightarrow> string \<Rightarrow> (mail_error, string) res" where
  "login_next c prompt =
     (let asked = to_lower (trim_right (\<lambda>x. x = CHR '':'' \<or> x = CHR '' '') prompt)
      in if asked = ''username'' then Inr (mc_username c)
         else if asked = ''password'' then Inr (mc_password c)
         else Inl UnknownPrompt)"

definition login_auth :: "string list \<Rightarrow> mail_config \<Rightarrow> bool \<Rightarrow> unit smtp" where
  \<comment> \<open>\<open>prompts\<close> are the relay's challenges, in order\<close>
  "login_auth prompts c encrypted =
     (if \<not> credentials_allowed encrypted (mc_host c) then tx_throw PlaintextCredentials
      else tx_bind (smtp_send AuthLogin) (\<lambda>_.
           foreach (\<lambda>prompt. tx_bind (tx_lift (login_next c prompt)) (\<lambda>reply. smtp_send (AuthReply reply))) prompts))"

definition to_upper :: "string \<Rightarrow> string" where
  "to_upper s = map (\<lambda>c. let n = (of_char c :: nat) in if 97 \<le> n \<and> n \<le> 122 then char_of (n - 32) else c) s"

definition authenticate_session ::
  "(smtp_session \<Rightarrow> string \<Rightarrow> string option) \<Rightarrow> string list \<Rightarrow> mail_config \<Rightarrow> unit smtp" where
  "authenticate_session extension prompts c =
     (if trim_space (mc_username c) = [] then tx_return ()
      else tx_bind (smtp_read (\<lambda>s. extension s ''AUTH'')) (\<lambda>mechanisms.
        case mechanisms of
          None \<Rightarrow> tx_throw AuthUnsupported
        | Some offered \<Rightarrow>
            tx_bind (smtp_read sm_encrypted) (\<lambda>encrypted.
            if \<not> credentials_allowed encrypted (mc_host c) then tx_throw PlaintextCredentials
            else if contains_sub (to_upper offered) ''PLAIN'' then plain_auth c encrypted
            else if contains_sub (to_upper offered) ''LOGIN'' then login_auth prompts c encrypted
            else smtp_send (AuthCramMd5 (mc_username c)))))"

definition start_session ::
  "(smtp_session \<Rightarrow> string \<Rightarrow> string option) \<Rightarrow> string list \<Rightarrow> mail_config \<Rightarrow> unit smtp" where
  "start_session extension prompts c =
     tx_bind (smtp_send (Ehlo (hello_name c))) (\<lambda>_.
     tx_bind (upgrade_session extension c) (\<lambda>_.
     authenticate_session extension prompts c))"

section \<open>The message\<close>

record mail_message =
  mm_to :: string
  mm_subject :: string
  mm_body :: string

definition crlf :: string where "crlf = [CHR 0x0D, CHR 0x0A]"

fun unix_lines :: "string \<Rightarrow> string" where
  \<comment> \<open>\<^verbatim>\<open>strings.ReplaceAll(body, CRLF, LF)\<close>\<close>
  "unix_lines [] = []"
| "unix_lines [c] = [c]"
| "unix_lines (a # b # s) =
     (if a = CHR 0x0D \<and> b = CHR 0x0A then b # unix_lines s else a # unix_lines (b # s))"

definition normalize_body :: "string \<Rightarrow> string" where
  "normalize_body body =
     (let b = concat (map (\<lambda>c. if c = CHR 0x0A then crlf else [c]) (unix_lines body))
      in if has_suffix b crlf then b else b @ crlf)"

definition encode_address :: "(string \<Rightarrow> string) \<Rightarrow> string \<Rightarrow> string" where
  "encode_address q_encode address =
     (case last_index (CHR ''<'') address of
        None \<Rightarrow> address
      | Some i \<Rightarrow> if i = 0 then address else q_encode (trim_space (take i address)) @ '' '' @ drop i address)"

definition header_lines :: "(string \<Rightarrow> string) \<Rightarrow> string \<Rightarrow> mail_config \<Rightarrow> mail_message \<Rightarrow> string list" where
  "header_lines q_encode date c m =
     [''From: '' @ encode_address q_encode (mail_address c),
      ''To: '' @ trim_space (mm_to m),
      ''Subject: '' @ q_encode (mm_subject m),
      ''Date: '' @ date,
      ''MIME-Version: 1.0'',
      ''Content-Type: text/plain; charset=UTF-8'',
      ''Content-Transfer-Encoding: 8bit'',
      ''Auto-Submitted: auto-generated'',
      ''X-Jupiq-Notification: 1'']"

definition compose :: "(string \<Rightarrow> string) \<Rightarrow> string \<Rightarrow> mail_config \<Rightarrow> mail_message \<Rightarrow> string" where
  "compose q_encode date c m =
     concat (map (\<lambda>line. line @ crlf) (header_lines q_encode date c m)) @ crlf @ normalize_body (mm_body m)"

definition line_break :: "string \<Rightarrow> bool" where
  "line_break s = (CHR 0x0D \<in> set s \<or> CHR 0x0A \<in> set s)"

definition envelope :: "smtp_command \<Rightarrow> string \<Rightarrow> unit smtp" where
  \<comment> \<open>\<^verbatim>\<open>net/smtp\<close> refuses an address with a line break before it sends anything\<close>
  "envelope command address = (if line_break address then tx_throw LineBreakInAddress else smtp_send command)"

definition dial_relay :: "bool \<Rightarrow> mail_config \<Rightarrow> (mail_error, smtp_session) res" where
  "dial_relay reachable c =
     (if reachable then Inr \<lparr>sm_encrypted = (mc_security c = security_tls), sm_sent = []\<rparr> else Inl ConnectFailed)"

definition send_message ::
  "(smtp_session \<Rightarrow> string \<Rightarrow> string option) \<Rightarrow> string list \<Rightarrow> (string \<Rightarrow> string) \<Rightarrow> string \<Rightarrow> mail_config
    \<Rightarrow> mail_message \<Rightarrow> unit smtp" where
  "send_message extension prompts q_encode date c m =
     tx_bind (start_session extension prompts c) (\<lambda>_.
     tx_bind (envelope (MailFrom (trim_space (mc_from_address c))) (trim_space (mc_from_address c))) (\<lambda>_.
     tx_bind (envelope (RcptTo (trim_space (mm_to m))) (trim_space (mm_to m))) (\<lambda>_.
     tx_bind (smtp_send (MailData (compose q_encode date c m))) (\<lambda>_.
     smtp_send Quit))))"

definition deliver_message ::
  "bool \<Rightarrow> (smtp_session \<Rightarrow> string \<Rightarrow> string option) \<Rightarrow> string list \<Rightarrow> (string \<Rightarrow> string) \<Rightarrow> string \<Rightarrow> mail_config
    \<Rightarrow> mail_message \<Rightarrow> faults \<Rightarrow> (mail_error, unit) res \<times> (bool \<times> smtp_command) list" where
  \<comment> \<open>the outcome and everything that was sent\<close>
  "deliver_message reachable extension prompts q_encode date c m fs =
     (case res_bind (validate_mail c) (\<lambda>_.
             res_bind (reject_if (trim_space (mm_to m) = []) NoRecipient) (\<lambda>_. dial_relay reachable c)) of
        Inl e \<Rightarrow> (Inl e, [])
      | Inr s0 \<Rightarrow>
          (case send_message extension prompts q_encode date c m fs s0 of (r, _, s1) \<Rightarrow> (r, sm_sent s1)))"

section \<open>The password stays off the wire\<close>

fun reveals :: "smtp_command \<Rightarrow> bool" where
  "reveals (AuthPlain u p) = True"
| "reveals (AuthReply r) = True"
| "reveals _ = False"

definition guarded :: "string \<Rightarrow> smtp_session \<Rightarrow> bool" where
  "guarded host s \<longleftrightarrow> (\<forall>(enc, command) \<in> set (sm_sent s). reveals command \<longrightarrow> enc \<or> loopback_host host)"

definition private_line :: "string \<Rightarrow> smtp_session \<Rightarrow> bool" where
  "private_line host s \<longleftrightarrow> guarded host s \<and> (sm_encrypted s \<or> loopback_host host)"

lemma keeps_send: "\<not> reveals command \<Longrightarrow> keeps (guarded host) (smtp_send command)"
  unfolding keeps_def smtp_send_def guarded_def by (auto simp: Let_def split: prod.splits if_splits)

lemma keeps_private_send [inv_intros]: "keeps (private_line host) (smtp_send command)"
  unfolding keeps_def smtp_send_def private_line_def guarded_def by (auto simp: Let_def split: prod.splits if_splits)

lemma keeps_session_read [inv_intros]: "keeps I (smtp_read f)"
  unfolding keeps_def smtp_read_def by auto

lemma keeps_encrypt [inv_intros]: "keeps (guarded host) smtp_encrypt"
  unfolding keeps_def smtp_encrypt_def guarded_def by auto

lemma keeps_upgrade: "keeps (guarded host) (upgrade_session extension c)"
  unfolding upgrade_session_def by (intro inv_intros keeps_send) simp

lemma private_auth:
  "keeps (private_line (mc_host c)) (plain_auth c encrypted)"
  "keeps (private_line (mc_host c)) (login_auth prompts c encrypted)"
  unfolding plain_auth_def login_auth_def by (intro inv_intros)+

lemma guarded_if_private:
  assumes "keeps (private_line host) m" and "private_line host s" and "m fs s = (r, fs', s')"
  shows "guarded host s'"
  using keepsD [OF assms] by (simp add: private_line_def)

lemma keeps_authenticate: "keeps (guarded (mc_host c)) (authenticate_session extension prompts c)"
  unfolding keeps_def
proof (intro allI impI)
  fix fs s r fs' s'
  assume g: "guarded (mc_host c) s" and run: "authenticate_session extension prompts c fs s = (r, fs', s')"
  show "guarded (mc_host c) s'"
  proof (cases "trim_space (mc_username c) = [] \<or> extension s ''AUTH'' = None \<or> \<not> credentials_allowed (sm_encrypted s) (mc_host c)")
    case True
    with run g show ?thesis
      by (auto simp: authenticate_session_def tx_bind_def smtp_read_def tx_return_def tx_throw_def split: option.splits if_splits)
  next
    case False
    then obtain offered where o: "extension s ''AUTH'' = Some offered" by auto
    from False have "private_line (mc_host c) s" using g by (simp add: private_line_def credentials_allowed_def)
    moreover from False run o have "(if contains_sub (to_upper offered) ''PLAIN'' then plain_auth c (sm_encrypted s)
        else if contains_sub (to_upper offered) ''LOGIN'' then login_auth prompts c (sm_encrypted s)
        else smtp_send (AuthCramMd5 (mc_username c))) fs s = (r, fs', s')"
      by (simp add: authenticate_session_def tx_bind_def smtp_read_def split: if_splits)
    moreover have "keeps (private_line (mc_host c)) (if contains_sub (to_upper offered) ''PLAIN'' then plain_auth c (sm_encrypted s)
        else if contains_sub (to_upper offered) ''LOGIN'' then login_auth prompts c (sm_encrypted s)
        else smtp_send (AuthCramMd5 (mc_username c)))"
      by (intro inv_intros private_auth)
    ultimately show ?thesis by (blast intro: guarded_if_private)
  qed
qed

lemma keeps_envelope: "\<not> reveals command \<Longrightarrow> keeps (guarded host) (envelope command address)"
  unfolding envelope_def by (intro inv_intros keeps_send)

lemma keeps_send_message:
  "keeps (guarded (mc_host c)) (send_message extension prompts q_encode date c m)"
  unfolding send_message_def start_session_def
  by (intro keeps_bind keeps_send keeps_upgrade keeps_authenticate keeps_envelope) simp_all

text \<open>The password of the relay never crosses the network in the clear: whatever the relay announces, asks
  for or refuses, a command that carries the user name and password is only sent on an encrypted
  connection or to a relay on this machine.\<close>

theorem mail_password_protected:
  assumes "deliver_message reachable extension prompts q_encode date c m fs = (r, sent)"
    and "(encrypted, command) \<in> set sent" and "reveals command"
  shows "encrypted \<or> loopback_host (mc_host c)"
proof -
  from assms(1,2) obtain s0 fs' s1 where "dial_relay reachable c = Inr s0"
    and run: "send_message extension prompts q_encode date c m fs s0 = (r, fs', s1)" and sent: "sent = sm_sent s1"
    by (auto simp: deliver_message_def res_bind_def reject_if_def split: sum.splits prod.splits if_splits)
  then have "guarded (mc_host c) s0" by (auto simp: dial_relay_def guarded_def split: if_splits)
  from keepsD [OF keeps_send_message this run] have "guarded (mc_host c) s1" .
  with assms(2,3) sent show ?thesis by (auto simp: guarded_def)
qed

definition demo_mail :: mail_config where
  "demo_mail = default_mail\<lparr>mc_enabled := True, mc_host := ''relay'', mc_username := ''u'', mc_password := ''p'',
     mc_from_address := ''ops@corp''\<rparr>"

definition demo_delivery :: "bool \<Rightarrow> (mail_error, unit) res \<times> (bool \<times> smtp_command) list" where
  "demo_delivery tls = deliver_message True
     (\<lambda>s e. if e = ''AUTH'' then Some ''LOGIN PLAIN'' else if tls then Some [] else None) [] (\<lambda>s. s) ''now'' demo_mail
     \<lparr>mm_to = ''a@corp'', mm_subject = ''s'', mm_body = ''b''\<rparr> []"

theorem mail_password_protected_witness:
  "(True, AuthPlain ''u'' ''p'') \<in> set (snd (demo_delivery True)) \<and> fst (demo_delivery False) = Inl PlaintextCredentials
   \<and> filter (\<lambda>(encrypted, command). reveals command \<and> \<not> encrypted) (snd (demo_delivery True)) = []"
proof -
  have "encrypted" if "(encrypted, command) \<in> set (snd (demo_delivery True))" "reveals command" for encrypted command
  proof -
    obtain r sent where d: "demo_delivery True = (r, sent)" by (cases "demo_delivery True")
    have "encrypted \<or> loopback_host (mc_host demo_mail)"
      by (rule mail_password_protected [OF d [unfolded demo_delivery_def]]) (use that d in simp_all)
    moreover have "\<not> loopback_host (mc_host demo_mail)" by code_simp
    ultimately show ?thesis by simp
  qed
  moreover have "(True, AuthPlain ''u'' ''p'') \<in> set (snd (demo_delivery True))" by code_simp
  moreover have "fst (demo_delivery False) = Inl PlaintextCredentials" by code_simp
  ultimately show ?thesis by (auto simp: filter_empty_conv)
qed

end
