(* ===== verification/Api_Keys.thy ===== *)
theory Api_Keys
  imports Accounts Http_Request Transitions
begin

text \<open>
  API keys: the store operations of \<^verbatim>\<open>internal/store/users.go\<close> and \<^verbatim>\<open>api_key_rotation.go\<close>, the
  administrator's policy of \<^verbatim>\<open>internal/api/key_policy.go\<close> and the handlers of
  \<^verbatim>\<open>internal/api/core_handlers.go\<close>. Randomness and the clock are inputs: \<open>random\<close> is the result of
  \<^verbatim>\<open>secure.RandomToken(32)\<close>, \<open>now\<close> that of \<^verbatim>\<open>time.Now()\<close>. \<open>hash\<close> stands for SHA-256.
\<close>

section \<open>The store\<close>

definition key_prefix :: "string \<Rightarrow> string" where
  "key_prefix plain = (if 12 < length plain then take 12 plain else plain)"

definition add_key :: "key_row \<Rightarrow> store_db \<Rightarrow> (store_error, key_row \<times> store_db) res" where
  \<comment> \<open>\<^verbatim>\<open>INSERT INTO api_keys\<close>: the unique index on the hash, the foreign key of the owner\<close>
  "add_key row d =
     (if list_ex (\<lambda>k. ke_secret_hash k = ke_secret_hash row) (db_keys d)
         \<or> find_user (ke_user_id row) d = None then Inl DbError
      else
        let new_row = row\<lparr>ke_id := db_next_key d\<rparr>
        in Inr (new_row, d\<lparr>db_keys := db_keys d @ [new_row], db_next_key := db_next_key d + 1\<rparr>))"

definition new_key_row ::
  "(string \<Rightarrow> string) \<Rightarrow> int \<Rightarrow> string \<Rightarrow> string \<Rightarrow> raw_perms \<Rightarrow> time option \<Rightarrow> int option \<Rightarrow> time \<Rightarrow> key_row" where
  "new_key_row hash uid name plain scopes expires_at rotated_from now =
     \<lparr>ke_id = 0, ke_user_id = uid, ke_name = name, ke_prefix = key_prefix plain,
      ke_secret_hash = hash plain, ke_scopes = scopes, ke_status = ''active'',
      ke_rotated_from = rotated_from, ke_last_used_at = None, ke_expires_at = expires_at,
      ke_created_at = now, ke_revoked_at = None, ke_expiry_notified_at = None\<rparr>"

definition key_of_row :: "key_row \<Rightarrow> api_key" where
  "key_of_row k =
     \<lparr>k_id = ke_id k, k_user_id = ke_user_id k, k_name = ke_name k, k_prefix = ke_prefix k,
      k_scopes = decoded_or_partial (ke_scopes k), k_status = ke_status k,
      k_last_used_at = ke_last_used_at k, k_expires_at = ke_expires_at k,
      k_created_at = ke_created_at k, k_revoked_at = ke_revoked_at k\<rparr>"

definition create_api_key ::
  "(string \<Rightarrow> string) \<Rightarrow> string option \<Rightarrow> int \<Rightarrow> string \<Rightarrow> string list \<Rightarrow> time option \<Rightarrow> int option \<Rightarrow>
   (api_key \<times> string) store_tx" where
  "create_api_key hash random uid name scopes expires_at rotated_from =
     (case random of
        None \<Rightarrow> tx_throw EntropyFailure
      | Some token \<Rightarrow>
          let plain = ''jqk_'' @ token
          in tx_bind (statement DbError (\<lambda>d.
               add_key (new_key_row hash uid name plain (PermArray scopes) expires_at rotated_from (db_now d)) d))
               (\<lambda>row. tx_return (key_of_row row, plain)))"

definition list_api_keys :: "int \<Rightarrow> api_key list store_tx" where
  "list_api_keys uid =
     query DbError (\<lambda>d. map key_of_row
       (sort_key (\<lambda>k. - ke_created_at k) (filter (\<lambda>k. ke_user_id k = uid) (db_keys d))))"

definition key_usable :: "time \<Rightarrow> string \<Rightarrow> key_row \<Rightarrow> bool" where
  "key_usable now digest k =
     (ke_secret_hash k = digest \<and> ke_status k = ''active''
      \<and> (case ke_expires_at k of None \<Rightarrow> True | Some t \<Rightarrow> now < t))"

definition authenticate_api_key ::
  "(string \<Rightarrow> string) \<Rightarrow> string \<Rightarrow> (user \<times> string list \<times> int) store_tx" where
  "authenticate_api_key hash plain =
     tx_bind (query_row DbError ErrNotFound (\<lambda>d. find (key_usable (db_now d) (hash plain)) (db_keys d)))
       (\<lambda>k.
     tx_bind (ignore_error (exec DbError (\<lambda>d. d\<lparr>db_keys := map (\<lambda>x.
         if ke_id x = ke_id k then x\<lparr>ke_last_used_at := Some (db_now d)\<rparr> else x) (db_keys d)\<rparr>))) (\<lambda>_.
     tx_bind (get_user (ke_user_id k)) (\<lambda>u.
     tx_return (u, decoded_or_partial (ke_scopes k), ke_id k))))"

definition retire_key :: "int \<Rightarrow> int \<Rightarrow> string \<Rightarrow> store_db \<Rightarrow> store_db" where
  "retire_key uid kid status d =
     d\<lparr>db_keys := map (\<lambda>k. if ke_id k = kid \<and> ke_user_id k = uid \<and> ke_status k = ''active''
         then k\<lparr>ke_status := status, ke_revoked_at := Some (db_now d)\<rparr> else k) (db_keys d)\<rparr>"

definition active_key :: "int \<Rightarrow> int \<Rightarrow> store_db \<Rightarrow> key_row option" where
  "active_key uid kid d =
     find (\<lambda>k. ke_id k = kid \<and> ke_user_id k = uid \<and> ke_status k = ''active'') (db_keys d)"

definition revoke_api_key :: "int \<Rightarrow> int \<Rightarrow> string \<Rightarrow> unit store_tx" where
  "revoke_api_key uid kid requested =
     (let status = (if requested \<noteq> ''rotated'' then ''revoked'' else requested)
      in statement DbError (\<lambda>d.
           if active_key uid kid d = None then Inl ErrNotFound
           else Inr ((), retire_key uid kid status d)))"

definition get_api_key :: "int \<Rightarrow> int \<Rightarrow> api_key store_tx" where
  "get_api_key uid kid =
     tx_bind (list_api_keys uid) (\<lambda>keys.
       case find (\<lambda>k. k_id k = kid) keys of None \<Rightarrow> tx_throw ErrNotFound | Some k \<Rightarrow> tx_return k)"

definition rotate_body ::
  "(string \<Rightarrow> string) \<Rightarrow> string option \<Rightarrow> int \<Rightarrow> int \<Rightarrow> time option \<Rightarrow> (api_key \<times> string) store_tx" where
  "rotate_body hash random uid old_id new_expires_at =
     tx_bind (query_row DbError ErrNotFound (active_key uid old_id)) (\<lambda>old.
     case random of
       None \<Rightarrow> tx_throw EntropyFailure
     | Some token \<Rightarrow>
         let plain = ''jqk_'' @ token
         in tx_bind (statement DbError (\<lambda>d.
              add_key (new_key_row hash uid (ke_name old) plain (ke_scopes old) new_expires_at
                (Some old_id) (db_now d)) d)) (\<lambda>row.
            tx_bind (statement DbError (\<lambda>d.
                if length (filter (\<lambda>k. ke_id k = old_id \<and> ke_user_id k = uid \<and> ke_status k = ''active'')
                     (db_keys d)) = 1
                then Inr ((), retire_key uid old_id ''rotated'' d) else Inl ErrNotFound)) (\<lambda>_.
            tx_return (key_of_row row, plain))))"

definition rotate_api_key ::
  "(string \<Rightarrow> string) \<Rightarrow> string option \<Rightarrow> int \<Rightarrow> int \<Rightarrow> time option \<Rightarrow> (api_key \<times> string) store_tx" where
  "rotate_api_key hash random uid old_id new_expires_at =
     transaction DbError (rotate_body hash random uid old_id new_expires_at)"

section \<open>The policy\<close>

record key_policy =
  kp_rotation_days :: int
  kp_max_lifetime_days :: int
  kp_permissions :: "string list"

datatype policy_error = PolicyDaysOutOfRange | PolicyRotationTooLong | PolicyPermissionsInvalid | PolicyUnreadable

definition decode_key_policy :: "json \<Rightarrow> key_policy option" where
  "decode_key_policy v =
     (case object_members v of
        None \<Rightarrow> None
      | Some m \<Rightarrow>
          (case (int_field m ''key_rotation_days'', int_field m ''key_max_lifetime_days'',
                 strings_field m ''key_permissions'') of
             (Some rotation, Some lifetime, Some permissions) \<Rightarrow>
               Some \<lparr>kp_rotation_days = rotation, kp_max_lifetime_days = lifetime,
                     kp_permissions = permissions\<rparr>
           | _ \<Rightarrow> None))"

definition validate_key_policy :: "key_policy \<Rightarrow> (policy_error, unit) res" where
  "validate_key_policy policy =
     (if kp_rotation_days policy < 1 \<or> 3650 < kp_rotation_days policy
         \<or> kp_max_lifetime_days policy < 1 \<or> 3650 < kp_max_lifetime_days policy
      then Inl PolicyDaysOutOfRange
      else if kp_max_lifetime_days policy < kp_rotation_days policy then Inl PolicyRotationTooLong
      else if kp_permissions policy \<noteq> [] \<and> \<not> is_ok (validate_scopes (kp_permissions policy))
           then Inl PolicyPermissionsInvalid
      else Inr ())"

definition default_key_policy :: key_policy where
  "default_key_policy = \<lparr>kp_rotation_days = 90, kp_max_lifetime_days = 365, kp_permissions = []\<rparr>"

definition load_key_policy :: "(store_db, policy_error, key_policy) tx" where
  "load_key_policy fs d =
     (case get_setting ''security'' fs d of
        (Inl ErrNotFound, fs', d') \<Rightarrow> (Inr default_key_policy, fs', d')
      | (Inl e, fs', d') \<Rightarrow> (Inl PolicyUnreadable, fs', d')
      | (Inr v, fs', d') \<Rightarrow>
          ((case decode_key_policy v of
              None \<Rightarrow> Inl PolicyUnreadable
            | Some policy \<Rightarrow> res_bind (validate_key_policy policy) (\<lambda>_. Inr policy)), fs', d'))"

text \<open>\<^verbatim>\<open>time.Duration(days) * 24 * time.Hour\<close>: nanoseconds in 64 bits.\<close>

definition days_duration :: "int \<Rightarrow> int" where
  "days_duration days = wrap64 (wrap64 (days * 24) * hour)"

datatype apply_error = ScopesOutsidePolicy | ExpiryInPast | ExpiryTooFar

definition apply_key_policy ::
  "key_policy \<Rightarrow> string list \<Rightarrow> time option \<Rightarrow> time \<Rightarrow> (apply_error, time) res" where
  "apply_key_policy policy scopes expires_at now =
     (if kp_permissions policy \<noteq> [] \<and> \<not> scopes_within_permissions scopes (kp_permissions policy)
      then Inl ScopesOutsidePolicy
      else
        let expires = (case expires_at of
                         None \<Rightarrow> now + days_duration (kp_rotation_days policy)
                       | Some t \<Rightarrow> t)
        in if \<not> now < expires then Inl ExpiryInPast
           else if now + days_duration (kp_max_lifetime_days policy) < expires then Inl ExpiryTooFar
           else Inr expires)"

section \<open>The handlers\<close>

definition require_interactive :: "request \<Rightarrow> unit handler" where
  "require_interactive r =
     (if p_api_key_id (rq_principal r) = 0 then tx_return ()
      else api_error 403 ''interactive_session_required'')"

definition refuse_if :: "bool \<Rightarrow> nat \<Rightarrow> string \<Rightarrow> unit handler" where
  "refuse_if b status code = throw_if b (status, code)"

definition keys_list :: "request \<Rightarrow> api_key list handler" where
  "keys_list r =
     tx_bind (require_interactive r) (\<lambda>_. store_call (list_api_keys (u_id (p_user (rq_principal r)))))"

record key_input =
  ki_name :: string
  ki_scopes :: "string list"
  ki_permissions :: "string list"
  ki_expires_at :: "time option"
  ki_expires_in_days :: int

definition requested_scopes :: "key_input \<Rightarrow> string list" where
  "requested_scopes input = (if ki_scopes input = [] then ki_permissions input else ki_scopes input)"

definition requested_expiry :: "key_input \<Rightarrow> time \<Rightarrow> time option" where
  "requested_expiry input now =
     (if ki_expires_at input = None \<and> 0 < ki_expires_in_days input
      then Some (now + days_duration (ki_expires_in_days input)) else ki_expires_at input)"

definition key_create ::
  "(string \<Rightarrow> string) \<Rightarrow> string option \<Rightarrow> time \<Rightarrow> key_input option \<Rightarrow> request \<Rightarrow> (api_key \<times> string) handler" where
  \<comment> \<open>\<open>None\<close> is a body that does not decode\<close>
  "key_create hash random now body r =
     tx_bind (require_interactive r) (\<lambda>_.
     case body of
       None \<Rightarrow> api_error 400 ''invalid_key''
     | Some input \<Rightarrow>
         if trim_space (ki_name input) = [] then api_error 400 ''invalid_key''
         else
           let scopes = requested_scopes input; p = rq_principal r
           in tx_bind (refuse_if (\<not> is_ok (validate_scopes scopes)) 400 ''invalid_scopes'') (\<lambda>_.
              tx_bind (refuse_if (\<not> scopes_within_permissions scopes (p_user_permissions p))
                403 ''scope_escalation'') (\<lambda>_.
              tx_bind (tx_map_error (\<lambda>_. (503, ''key_policy_unavailable'')) load_key_policy) (\<lambda>policy.
              tx_bind (tx_lift (map_sum (\<lambda>_. (400, ''key_policy_denied'')) id
                  (apply_key_policy policy scopes (requested_expiry input now) now))) (\<lambda>expires.
              tx_bind (store_call (create_api_key hash random (u_id (p_user p)) (ki_name input) scopes
                  (Some expires) None)) (\<lambda>(key, secret).
              tx_bind (audit (request_audit r ''api_key.create'' ''api_key'' (format_int (k_id key))
                  ''success'' [] None (Some (JObj [(''name'', JStr (k_name key)),
                    (''scopes'', JArr (map JStr (k_scopes key)))])))) (\<lambda>_.
              tx_return (key, secret))))))))"

definition key_rotate ::
  "(string \<Rightarrow> string) \<Rightarrow> string option \<Rightarrow> time \<Rightarrow> request \<Rightarrow> (api_key \<times> string) handler" where
  "key_rotate hash random now r =
     tx_bind (require_interactive r) (\<lambda>_.
     case int_path r ''id'' of
       None \<Rightarrow> api_error 400 ''invalid_id''
     | Some kid \<Rightarrow>
         let p = rq_principal r
         in tx_bind (store_call (get_api_key (u_id (p_user p)) kid)) (\<lambda>old.
            tx_bind (refuse_if (\<not> scopes_within_permissions (k_scopes old) (p_user_permissions p))
              403 ''scope_no_longer_allowed'') (\<lambda>_.
            tx_bind (tx_map_error (\<lambda>_. (503, ''key_policy_unavailable'')) load_key_policy) (\<lambda>policy.
            tx_bind (tx_lift (map_sum (\<lambda>_. (400, ''key_policy_denied'')) id
                (apply_key_policy policy (k_scopes old) None now))) (\<lambda>expires.
            tx_bind (store_call (rotate_api_key hash random (u_id (p_user p)) kid (Some expires)))
              (\<lambda>(key, secret).
            tx_bind (audit (request_audit r ''api_key.rotate'' ''api_key'' (format_int kid)
                ''success'' [] None (Some (JObj [(''new_id'', JNum (of_int (k_id key)))])))) (\<lambda>_.
            tx_return (key, secret))))))))"

definition key_revoke :: "request \<Rightarrow> unit handler" where
  "key_revoke r =
     tx_bind (require_interactive r) (\<lambda>_.
     case int_path r ''id'' of
       None \<Rightarrow> api_error 400 ''invalid_id''
     | Some kid \<Rightarrow>
         tx_bind (store_call (revoke_api_key (u_id (p_user (rq_principal r))) kid ''revoked'')) (\<lambda>_.
         audit (request_audit r ''api_key.revoke'' ''api_key'' (format_int kid) ''success'' [] None None)))"

section \<open>Outcomes\<close>

lemma add_key_Inr:
  assumes "add_key row d = Inr (new_row, d')"
  shows "new_row = row\<lparr>ke_id := db_next_key d\<rparr>"
    and "d' = d\<lparr>db_keys := db_keys d @ [row\<lparr>ke_id := db_next_key d\<rparr>], db_next_key := db_next_key d + 1\<rparr>"
    and "\<forall>k \<in> set (db_keys d). ke_secret_hash k \<noteq> ke_secret_hash row"
    and "\<exists>u. find_user (ke_user_id row) d = Some u"
  using assms by (auto simp: add_key_def Let_def list_ex_bool_iff split: if_splits)

lemma active_key_Some:
  assumes "active_key uid kid d = Some x"
  shows "x \<in> set (db_keys d)" "ke_id x = kid" "ke_user_id x = uid" "ke_status x = ''active''"
  using assms by (auto simp: active_key_def find_Some_iff)

definition active_count :: "int \<Rightarrow> store_db \<Rightarrow> nat" where
  "active_count uid d =
     length (filter (\<lambda>k. ke_user_id k = uid \<and> ke_status k = ''active'') (db_keys d))"

lemma filter_split:
  "length (filter P xs) = length (filter (\<lambda>x. P x \<and> Q x) xs) + length (filter (\<lambda>x. P x \<and> \<not> Q x) xs)"
  by (induction xs) auto

lemma retire_key_count:
  assumes "status \<noteq> ''active''"
  shows "active_count uid (retire_key uid kid status d) +
     length (filter (\<lambda>k. ke_id k = kid \<and> ke_user_id k = uid \<and> ke_status k = ''active'') (db_keys d))
     = active_count uid d"
proof -
  have "length (filter (\<lambda>k. ke_user_id k = uid \<and> ke_status k = ''active'') (map (\<lambda>k.
      if ke_id k = kid \<and> ke_user_id k = uid \<and> ke_status k = ''active''
      then k\<lparr>ke_status := status, ke_revoked_at := Some n\<rparr> else k) ks)) +
      length (filter (\<lambda>k. ke_id k = kid \<and> ke_user_id k = uid \<and> ke_status k = ''active'') ks) =
      length (filter (\<lambda>k. ke_user_id k = uid \<and> ke_status k = ''active'') ks)" for ks n
    using assms by (induction ks) auto
  then show ?thesis by (simp add: active_count_def retire_key_def)
qed

lemma rotate_body_Inr:
  assumes "rotate_body hash random uid old_id until fs d = (Inr (key, plain), fs', d')"
  obtains old token d1 where "active_key uid old_id d = Some old" and "random = Some token"
    and "plain = ''jqk_'' @ token"
    and "add_key (new_key_row hash uid (ke_name old) plain (ke_scopes old) until (Some old_id) (db_now d)) d
        = Inr ((new_key_row hash uid (ke_name old) plain (ke_scopes old) until (Some old_id) (db_now d))
            \<lparr>ke_id := db_next_key d\<rparr>, d1)"
    and "length (filter (\<lambda>k. ke_id k = old_id \<and> ke_user_id k = uid \<and> ke_status k = ''active'')
        (db_keys d1)) = 1"
    and "d' = retire_key uid old_id ''rotated'' d1"
    and "key = key_of_row ((new_key_row hash uid (ke_name old) plain (ke_scopes old) until (Some old_id)
        (db_now d))\<lparr>ke_id := db_next_key d\<rparr>)"
  using assms unfolding rotate_body_def
  by (auto simp: tx_bind_Inr query_row_Inr statement_Inr Let_def split: option.splits if_splits
        dest: add_key_Inr(1))

lemma rotate_Inr:
  "rotate_api_key hash random uid old_id until fs d = (Inr r, fs', d') \<Longrightarrow>
     \<exists>fs1 fs2. rotate_body hash random uid old_id until fs1 d = (Inr r, fs2, d')"
  by (auto simp: rotate_api_key_def transaction_Inr)

lemma rotate_Inl: "rotate_api_key hash random uid old_id until fs d = (Inl e, fs', d') \<Longrightarrow> d' = d"
  unfolding rotate_api_key_def by (rule transaction_atomic)

text \<open>A rotation never leaves two usable copies and never leaves none: whatever its outcome and whichever
  of its statements failed, the owner has as many active keys afterwards as before.\<close>

theorem rotation_keeps_active_count:
  assumes "rotate_api_key hash random uid old_id until fs d = (res, fs', d')"
  shows "active_count uid d' = active_count uid d"
proof (cases res)
  case (Inl e)
  with assms show ?thesis by (auto dest: rotate_Inl)
next
  case (Inr r)
  with assms obtain fs1 fs2 where "rotate_body hash random uid old_id until fs1 d = (Inr (fst r, snd r), fs2, d')"
    by (auto dest: rotate_Inr)
  then obtain old :: key_row and d1 where
    a: "add_key (new_key_row hash uid (ke_name old) (snd r) (ke_scopes old) until (Some old_id) (db_now d)) d
        = Inr ((new_key_row hash uid (ke_name old) (snd r) (ke_scopes old) until (Some old_id) (db_now d))
            \<lparr>ke_id := db_next_key d\<rparr>, d1)" and
    n: "length (filter (\<lambda>k. ke_id k = old_id \<and> ke_user_id k = uid \<and> ke_status k = ''active'')
        (db_keys d1)) = 1" and
    d': "d' = retire_key uid old_id ''rotated'' d1"
    by (rule rotate_body_Inr) (rule that)
  have "active_count uid d1 = active_count uid d + 1"
    by (simp add: add_key_Inr(2) [OF a] active_count_def new_key_row_def)
  with retire_key_count [of "''rotated''" uid old_id d1] n d' show ?thesis by simp
qed

text \<open>A store with one user and one key, for the witnesses; the identity stands in for the digest.\<close>

definition demo_key_row :: key_row where
  "demo_key_row = (new_key_row (\<lambda>s. s) 1 ''ci'' ''jqk_old'' (PermArray [''hubs:read'']) None None 0)
     \<lparr>ke_id := 1\<rparr>"

definition demo_keys :: store_db where
  "demo_keys = (fresh_store 100)
     \<lparr>db_users := [user_row.make 1 ''ann'' ''ann'' [] [] None ''local'' None True None 0 0],
      db_keys := [demo_key_row], db_next_user := 2, db_next_key := 2\<rparr>"

theorem rotation_keeps_active_count_witness:
  "active_count 1 (snd (snd (rotate_api_key (\<lambda>s. s) (Some ''new'') 1 1 None [] demo_keys)))
     = active_count 1 demo_keys
   \<and> is_ok (fst (rotate_api_key (\<lambda>s. s) (Some ''new'') 1 1 None [] demo_keys))"
proof
  let ?call = "rotate_api_key (\<lambda>s. s) (Some ''new'') 1 1 None [] demo_keys"
  have "?call = (fst ?call, fst (snd ?call), snd (snd ?call))" by simp
  then show "active_count 1 (snd (snd ?call)) = active_count 1 demo_keys"
    by (rule rotation_keeps_active_count)
  show "is_ok (fst ?call)" by code_simp
qed

section \<open>A retired key stays retired\<close>

definition keys_ok :: "store_db \<Rightarrow> bool" where
  "keys_ok d \<longleftrightarrow> distinct (map ke_secret_hash (db_keys d)) \<and> distinct (map ke_id (db_keys d))
     \<and> (\<forall>k \<in> set (db_keys d). ke_id k < db_next_key d)"

text \<open>The digest belongs to a key that is no longer active.\<close>

definition retired :: "string \<Rightarrow> store_db \<Rightarrow> bool" where
  "retired digest d \<longleftrightarrow> (\<exists>k \<in> set (db_keys d). ke_secret_hash k = digest \<and> ke_status k \<noteq> ''active'')"

text \<open>Changing rows in place, their id and digest kept and no inactive row made active.\<close>

lemma keys_in_place:
  assumes "\<And>k. ke_id (f k) = ke_id k \<and> ke_secret_hash (f k) = ke_secret_hash k
      \<and> (ke_status k \<noteq> ''active'' \<longrightarrow> ke_status (f k) \<noteq> ''active'')"
  shows "keys_ok d \<Longrightarrow> keys_ok (d\<lparr>db_keys := map f (db_keys d)\<rparr>)"
    and "retired digest d \<Longrightarrow> retired digest (d\<lparr>db_keys := map f (db_keys d)\<rparr>)"
  using assms by (auto simp: keys_ok_def retired_def o_def)

section \<open>Creating a key\<close>

lemma create_Inr:
  assumes "create_api_key hash random uid name scopes until rf fs d = (Inr (key, plain), fs', d')"
  obtains token where "random = Some token" and "plain = ''jqk_'' @ token"
    and "add_key (new_key_row hash uid name plain (PermArray scopes) until rf (db_now d)) d =
        Inr ((new_key_row hash uid name plain (PermArray scopes) until rf (db_now d))
          \<lparr>ke_id := db_next_key d\<rparr>, d')"
    and "key = key_of_row ((new_key_row hash uid name plain (PermArray scopes) until rf (db_now d))
          \<lparr>ke_id := db_next_key d\<rparr>)"
  using assms unfolding create_api_key_def
  by (auto simp: tx_bind_Inr statement_Inr Let_def split: option.splits dest: add_key_Inr(1))

text \<open>C6: The secret that creating a key returns authenticates: it yields the owner, exactly the scopes the
  key was created with, and its id, as long as the key has not expired.\<close>

theorem created_key_authenticates:
  assumes "create_api_key hash random uid name scopes until rf fs d = (Inr (key, plain), fs', d1)"
    and "until = None \<or> db_now d < the until"
  shows "\<exists>u d2. authenticate_api_key hash plain [] d1 = (Inr (u, scopes, k_id key), [], d2) \<and> u_id u = uid"
proof -
  let ?row = "(new_key_row hash uid name plain (PermArray scopes) until rf (db_now d))\<lparr>ke_id := db_next_key d\<rparr>"
  from assms(1) have a: "add_key (new_key_row hash uid name plain (PermArray scopes) until rf (db_now d)) d
      = Inr (?row, d1)" and k: "key = key_of_row ?row"
    by (auto elim: create_Inr)
  note d1 = add_key_Inr(2) [OF a] and fresh = add_key_Inr(3) [OF a]
  obtain v where v: "find_user uid d = Some v" using add_key_Inr(4) [OF a] by (auto simp: new_key_row_def)
  have f: "find (key_usable (db_now d1) (hash plain)) (db_keys d1) = Some ?row"
  proof -
    have "\<forall>x \<in> set (db_keys d). \<not> key_usable (db_now d1) (hash plain) x"
      using fresh by (auto simp: key_usable_def new_key_row_def)
    then have "find (key_usable (db_now d1) (hash plain)) (db_keys d) = None" by (simp add: find_None_iff)
    moreover have "key_usable (db_now d1) (hash plain) ?row"
      using assms(2) by (auto simp: key_usable_def new_key_row_def d1 split: option.split)
    ultimately show ?thesis unfolding d1 by (simp add: find_append)
  qed
  have "find_user uid (d1\<lparr>db_keys := ks\<rparr>) = Some v" for ks
    using v by (simp add: d1 find_user_def)
  with f find_user_Some [OF v] k show ?thesis
    by (simp add: authenticate_api_key_def tx_bind_def query_row_def statement_def ignore_error_def
        exec_def get_user_def populate_user_access_def query_def tx_return_def new_key_row_def
        user_of_row_def key_of_row_def)
qed

theorem created_key_authenticates_witness:
  "\<exists>u d2. authenticate_api_key (\<lambda>s. s) ''jqk_k2'' []
      (snd (snd (create_api_key (\<lambda>s. s) (Some ''k2'') 1 ''ci'' [''hubs:read''] (Some 500) None [] demo_keys)))
    = (Inr (u, [''hubs:read''], 2), [], d2) \<and> u_id u = 1"
proof -
  let ?call = "create_api_key (\<lambda>s. s) (Some ''k2'') 1 ''ci'' [''hubs:read''] (Some 500) None [] demo_keys"
  have "?call = (Inr (key_of_row ((new_key_row (\<lambda>s. s) 1 ''ci'' ''jqk_k2'' (PermArray [''hubs:read''])
      (Some 500) None 100)\<lparr>ke_id := 2\<rparr>), ''jqk_k2''), [], snd (snd ?call))"
    by (simp add: create_api_key_def tx_bind_def statement_def add_key_def new_key_row_def demo_keys_def fresh_store_def
        demo_key_row_def find_user_def tx_return_def user_row.defs Let_def)
  from created_key_authenticates [OF this] show ?thesis
    by (simp add: demo_keys_def fresh_store_def key_of_row_def)
qed

section \<open>The policy bounds every key\<close>

lemma valid_policy_durations:
  assumes "validate_key_policy policy = Inr ()"
  shows "days_duration (kp_max_lifetime_days policy) = kp_max_lifetime_days policy * day"
    and "1 \<le> kp_max_lifetime_days policy" and "kp_max_lifetime_days policy \<le> 3650"
proof -
  from assms have b: "1 \<le> kp_max_lifetime_days policy" "kp_max_lifetime_days policy \<le> 3650"
    by (auto simp: validate_key_policy_def split: if_splits)
  then show "1 \<le> kp_max_lifetime_days policy" "kp_max_lifetime_days policy \<le> 3650" by simp_all
  let ?n = "kp_max_lifetime_days policy"
  have "wrap64 (?n * 24) = ?n * 24"
    using b by (intro wrap64_id) (auto simp: int64_min_def int64_max_def)
  moreover have "wrap64 (?n * 24 * hour) = ?n * 24 * hour"
    using b by (intro wrap64_id) (auto simp: int64_min_def int64_max_def hour_def minute_def second_def)
  ultimately show "days_duration ?n = ?n * day" by (simp add: days_duration_def day_def)
qed

lemma load_key_policy_valid:
  assumes "load_key_policy fs d = (Inr policy, fs', d')"
  shows "validate_key_policy policy = Inr ()"
proof -
  have def: "validate_key_policy default_key_policy = Inr ()"
    by (simp add: validate_key_policy_def default_key_policy_def)
  obtain r fs1 d1 where g: "get_setting ''security'' fs d = (r, fs1, d1)" by (metis prod_cases3)
  show ?thesis
  proof (cases r)
    case (Inl e)
    with g assms def show ?thesis by (cases e) (auto simp: load_key_policy_def)
  next
    case (Inr v)
    with g assms show ?thesis
      by (auto simp: load_key_policy_def res_bind_Inr_iff split: option.splits)
  qed
qed

text \<open>Whatever a request asks for, a key that is created expires after now and no later than ten years
  from now, the longest lifetime a policy can set; its scopes are permissions of the requester; and the
  request came from an interactive session, not from another key.\<close>

theorem created_key_within_policy:
  assumes "key_create hash random now body r fs d = (Inr (key, secret), fs', d')"
  shows "p_api_key_id (rq_principal r) = 0 \<and> k_scopes key \<noteq> []
    \<and> list_all (ensure_permission (p_user_permissions (rq_principal r))) (k_scopes key)
    \<and> (\<exists>t. k_expires_at key = Some t \<and> now < t \<and> t \<le> now + 3650 * day)"
proof -
  from assms obtain input policy t fs1 d1 fs2 d2 fs3 d3 fs4 d4 where
    i: "p_api_key_id (rq_principal r) = 0" and
    s: "scopes_within_permissions (requested_scopes input) (p_user_permissions (rq_principal r))" and
    l: "load_key_policy fs1 d1 = (Inr policy, fs2, d2)" and
    a: "apply_key_policy policy (requested_scopes input) (requested_expiry input now) now = Inr t" and
    c: "create_api_key hash random (u_id (p_user (rq_principal r))) (ki_name input) (requested_scopes input)
          (Some t) None fs3 d3 = (Inr (key, secret), fs4, d4)"
    by (auto simp: key_create_def tx_bind_Inr require_interactive_def refuse_if_def Let_def
        simp del: tx_lift_bind split: option.splits if_splits prod.splits)
  note pol = valid_policy_durations [OF load_key_policy_valid [OF l]]
  from a pol(1) have t: "now < t" "t \<le> now + kp_max_lifetime_days policy * day"
    by (auto simp: apply_key_policy_def Let_def split: if_splits)
  have "kp_max_lifetime_days policy * day \<le> 3650 * day"
    using pol(3) by (intro mult_right_mono) (simp_all add: day_def hour_def minute_def second_def)
  with t have "t \<le> now + 3650 * day" by linarith
  moreover from c have "k_scopes key = requested_scopes input \<and> k_expires_at key = Some t"
    by (auto elim!: create_Inr simp: key_of_row_def new_key_row_def)
  ultimately show ?thesis using i s t(1) by (auto simp: scopes_within_iff)
qed

definition demo_key_call :: "(http_error, api_key \<times> string) res \<times> faults \<times> store_db" where
  "demo_key_call = key_create (\<lambda>s. s) (Some ''new'') 0
     (Some \<lparr>ki_name = ''ci'', ki_scopes = [''hubs:read''], ki_permissions = [], ki_expires_at = None,
        ki_expires_in_days = 30\<rparr>)
     (demo_request ''POST'' (\<lambda>_. [])
        (demo_principal [''hubs:read'']\<lparr>p_user := empty_user\<lparr>u_id := 1, u_active := True\<rparr>\<rparr>)) [] demo_keys"

theorem created_key_within_policy_witness:
  "\<exists>key secret. fst demo_key_call = Inr (key, secret) \<and> k_scopes key \<noteq> []
    \<and> (\<exists>t. k_expires_at key = Some t \<and> 0 < t \<and> t \<le> 3650 * day)"
proof -
  have "is_ok (fst demo_key_call)" by code_simp
  then obtain key secret where r: "fst demo_key_call = Inr (key, secret)" by (auto simp: is_ok_iff)
  then have "demo_key_call = (Inr (key, secret), fst (snd demo_key_call), snd (snd demo_key_call))"
    by (metis prod.collapse)
  from created_key_within_policy [OF this [unfolded demo_key_call_def [THEN eq_reflection]]]
  show ?thesis using r by auto
qed

text \<open>A lifetime in days is multiplied in 64 bits. Of a request for 213504 days (over 580 years) about
  25 minutes are left, which the policy accepts.\<close>

text \<open>A lifetime far above the policy's maximum is not refused: the product wraps around, and the key is
  issued for 25 minutes.\<close>

theorem huge_lifetime_wraps:
  "apply_key_policy default_key_policy [''hubs:read'']
     (requested_expiry \<lparr>ki_name = ''ci'', ki_scopes = [''hubs:read''], ki_permissions = [],
        ki_expires_at = None, ki_expires_in_days = 213504\<rparr> 0) 0 = Inr (1526290448384)
   \<and> kp_max_lifetime_days default_key_policy < 213504"
  by code_simp

end
