(* ===== verification/Settings_Api.thy ===== *)
theory Settings_Api
  imports Settings Mail Api_Keys
begin

text \<open>
  The administrator's settings form (\<^verbatim>\<open>internal/api/core_handlers.go\<close>, lines 541 to 1252, with
  \<^verbatim>\<open>internal/store/integration_health.go\<close> and the label rules of \<^verbatim>\<open>internal/integration/llm_usage.go\<close>).
  A decoded request body is a JSON value; a Go map is the list of its members in the order an
  iteration takes. \<^verbatim>\<open>regexp.Compile\<close> is the parameter \<open>capture_names\<close>, the names of the groups of a
  pattern that compiles.
\<close>

section \<open>Health of the integrations\<close>

definition record_integration_health ::
  "string \<Rightarrow> bool \<Rightarrow> int \<Rightarrow> string \<Rightarrow> string \<Rightarrow> unit store_tx" where
  "record_integration_health kind success latency version message =
     exec DbError (\<lambda>d.
       let status = (if success then ''success'' else ''failure''); err = truncate_text message 1000
       in if list_ex (\<lambda>h. ih_type h = kind) (db_health d)
          then d\<lparr>db_health := map (\<lambda>h. if ih_type h = kind
            then h\<lparr>ih_status := status, ih_version := version, ih_latency_ms := latency, ih_last_attempt_at := db_now d,
              ih_last_success_at := (if success then Some (db_now d) else ih_last_success_at h), ih_last_error := err,
              ih_failures := (if success then 0 else ih_failures h + 1)\<rparr> else h) (db_health d)\<rparr>
          else d\<lparr>db_health := db_health d @ [\<lparr>ih_type = kind, ih_status = status, ih_version = version,
            ih_latency_ms = latency, ih_last_attempt_at = db_now d,
            ih_last_success_at = (if success then Some (db_now d) else None), ih_last_error = err,
            ih_failures = (if success then 0 else 1)\<rparr>]\<rparr>)"

definition list_integration_health :: "health_row list store_tx" where
  "list_integration_health = query DbError db_health"

section \<open>Rules of the pod pattern and the labels\<close>

datatype llm_error = PatternLength | PatternSyntax | PatternNoUsername | LabelUnknown | LabelName | LabelNotAllowed | LabelsNotText

definition compile_pod_pattern :: "(string \<Rightarrow> string list option) \<Rightarrow> string \<Rightarrow> (llm_error, unit) res" where
  "compile_pod_pattern capture_names pattern =
     (if pattern = [] \<or> 256 < length pattern then Inl PatternLength
      else case capture_names pattern of
        None \<Rightarrow> Inl PatternSyntax
      | Some names \<Rightarrow> if ''username'' \<in> set names then Inr () else Inl PatternNoUsername)"

definition llm_canonical_labels :: "string list" where
  "llm_canonical_labels = [''pod'', ''path'', ''status'', ''model'', ''hub'', ''network'']"

definition llm_remote_labels :: "string list" where
  "llm_remote_labels =
     [''pod'', ''pod_name'', ''kubernetes_pod_name'', ''path'', ''route'', ''http_route'', ''status'', ''code'',
      ''status_code'', ''http_status_code'', ''model'', ''model_name'', ''served_model'', ''served_model_name'',
      ''hub'', ''hub_name'', ''network'', ''network_name'']"

definition letter_or_underscore :: "char \<Rightarrow> bool" where
  "letter_or_underscore c =
     (let n = (of_char c :: nat) in (65 \<le> n \<and> n \<le> 90) \<or> (97 \<le> n \<and> n \<le> 122) \<or> c = CHR ''_'')"

definition prometheus_label_name :: "string \<Rightarrow> bool" where
  "prometheus_label_name s =
     (s \<noteq> [] \<and> letter_or_underscore (hd s) \<and> list_all (\<lambda>c. letter_or_underscore c \<or> is_digit c) (tl s)
      \<and> length s \<le> 128)"

fun each_ok :: "('a \<Rightarrow> ('e, unit) res) \<Rightarrow> 'a list \<Rightarrow> ('e, unit) res" where
  "each_ok f [] = Inr ()"
| "each_ok f (x # xs) = res_bind (f x) (\<lambda>_. each_ok f xs)"

definition validate_llm_label :: "string \<times> string \<Rightarrow> (llm_error, unit) res" where
  "validate_llm_label kv =
     (let canonical = trim_space (fst kv); remote = trim_space (snd kv)
      in if canonical \<notin> set llm_canonical_labels then Inl LabelUnknown
         else if \<not> prometheus_label_name remote then Inl LabelName
         else if remote \<notin> set llm_remote_labels then Inl LabelNotAllowed
         else Inr ())"

definition decode_llm_labels :: "json \<Rightarrow> (llm_error, (string \<times> string) list) res" where
  "decode_llm_labels v =
     (case v of
        JNull \<Rightarrow> Inr []
      | JObj m \<Rightarrow>
          res_bind (map_res (\<lambda>(k, w). case as_string w of None \<Rightarrow> Inl LabelsNotText | Some s \<Rightarrow> Inr (k, s)) m)
            (\<lambda>mappings. res_bind (each_ok validate_llm_label mappings) (\<lambda>_. Inr mappings))
      | _ \<Rightarrow> Inl LabelsNotText)"

section \<open>Secret fields\<close>

definition is_secret_key :: "string \<Rightarrow> bool" where
  "is_secret_key raw =
     (let key = to_lower raw
      in contains_sub key ''secret'' \<or> has_suffix key ''token'' \<or> has_suffix key ''api_key'' \<or> contains_sub key ''password'')"

fun is_masked :: "string \<Rightarrow> bool" where
  \<comment> \<open>nothing but stars, blanks and bullets (U+2022, three bytes)\<close>
  "is_masked (a # b # c # s) =
     (if a = CHR ''*'' \<or> a = CHR '' '' then is_masked (b # c # s)
      else a = CHR 0xE2 \<and> b = CHR 0x80 \<and> c = CHR 0xA2 \<and> is_masked s)"
| "is_masked [] = True"
| "is_masked (a # s) = ((a = CHR ''*'' \<or> a = CHR '' '') \<and> is_masked s)"

definition canonical_secret_key :: "string \<Rightarrow> string" where
  "canonical_secret_key key = trim_prefix key ''auth.''"

definition canonical_nested_secret :: "string \<Rightarrow> string \<Rightarrow> string" where
  "canonical_nested_secret raw_parent raw_key =
     (let parent = trim_prefix raw_parent ''auth.'';
          key = (if raw_key = ''bearer_token'' then ''token'' else raw_key)
      in if parent = ''notifications'' \<and> (key = ''secret'' \<or> key = ''webhook_secret'' \<or> key = ''webhook_token'')
         then ''webhook.secret'' else parent @ ''.'' @ key)"

definition canonical_setting_key :: "string \<Rightarrow> string" where
  "canonical_setting_key key = (if key = ''oidc'' then ''auth.oidc'' else key)"

type_synonym secrets = "(string \<times> string) list"

definition add_secret :: "string \<Rightarrow> json \<Rightarrow> secrets \<Rightarrow> (http_error, secrets) res" where
  "add_secret secret_key value secrets =
     (case as_string value of
        None \<Rightarrow> Inl (400, ''unsupported_secret'')
      | Some secret \<Rightarrow>
          if \<not> is_settings_secret_key secret_key then Inl (400, ''unsupported_secret'')
          else if secret = [] \<or> is_masked secret then Inr secrets
          else if map_of secrets secret_key \<noteq> None then Inl (400, ''duplicate_secret'')
          else Inr (secrets @ [(secret_key, secret)]))"

fun collect_nested :: "string \<Rightarrow> json_object \<Rightarrow> secrets \<Rightarrow> (http_error, json_object \<times> secrets) res" where
  "collect_nested parent [] secrets = Inr ([], secrets)"
| "collect_nested parent ((key, value) # rest) secrets =
     (if is_secret_key key
      then res_bind (add_secret (canonical_nested_secret parent key) value secrets) (collect_nested parent rest)
      else res_bind (collect_nested parent rest secrets) (\<lambda>(clean, found). Inr ((key, value) # clean, found)))"

definition collect_value :: "string \<Rightarrow> json \<Rightarrow> secrets \<Rightarrow> (http_error, json \<times> secrets) res" where
  "collect_value key value secrets =
     (case as_object value of
        None \<Rightarrow> Inr (value, secrets)
      | Some m \<Rightarrow> res_bind (collect_nested key m secrets) (\<lambda>(clean, found). Inr (JObj clean, found)))"

fun collect_settings :: "json_object \<Rightarrow> json_object \<Rightarrow> secrets \<Rightarrow> (http_error, json_object \<times> secrets) res" where
  "collect_settings [] settings secrets = Inr (settings, secrets)"
| "collect_settings ((key, value) # rest) settings secrets =
     (if is_secret_key key
      then res_bind (add_secret (canonical_secret_key key) value secrets) (collect_settings rest settings)
      else
        res_bind (collect_value key value secrets) (\<lambda>(clean, found).
        let canonical = canonical_setting_key key
        in if map_of settings canonical \<noteq> None then Inl (400, ''duplicate_setting'')
           else collect_settings rest (settings @ [(canonical, clean)]) found))"

definition apply_section_defaults :: "string \<times> json \<Rightarrow> string \<times> json" where
  "apply_section_defaults kv =
     (case kv of
        (key, JObj m) \<Rightarrow>
          (let m1 = (if key \<in> set [''auth.oidc'', ''ai'', ''prometheus'', ''kubernetes''] \<and> \<not> has_key m ''verify_tls''
                     then put_member m ''verify_tls'' (JBool True) else m);
               m2 = (if key = ''ai'' then put_member (put_member m1 ''provider'' (JStr ''openai-compatible''))
                       ''streaming'' (JBool True) else m1)
           in (key, JObj m2))
      | other \<Rightarrow> other)"

definition apply_secure_defaults :: "json_object \<Rightarrow> json_object" where
  "apply_secure_defaults = map apply_section_defaults"

section \<open>Validation\<close>

datatype settings_error =
    SecretTooLong | UnknownSection | SectionNotObject | UnknownField | NotText | TextTooLong | NotBool | OutOfRange
  | NotWhole | UrlNotText | EndpointRefused endpoint_error | OidcFieldsMissing | AiFieldsMissing | AiTokensMissing
  | BaseUrlMissing | AnalyticsRefused analytics_error | MailSecurityUnknown | MailRefused mail_error | AiProvider
  | AiStreaming | RequestTypes | ScopesMissing | ScopesInvalid | EventsInvalid | WebhookUrlMissing | TextMapInvalid
  | CallsQueryMissing | PodPattern llm_error | PolicyDaysMissing | PolicyDaysOrder | PolicyPermissions
  | UsageSource | UsageFieldsMissing | UsageQueriesMissing

definition allowed_setting_fields :: "(string \<times> string list) list" where
  "allowed_setting_fields =
     [(''system'', [''raw_retention_days'', ''usage_retention_days'']),
      (''workflow'', [''approval_enabled'', ''manager_review_enabled'', ''require_reason'', ''request_types'']),
      (''auth.oidc'', [''enabled'', ''issuer_url'', ''client_id'', ''redirect_url'', ''scopes'', ''username_claim'',
         ''auto_create_users'', ''verify_tls'', ''auto_login'']),
      (''ai'', [''enabled'', ''provider'', ''base_url'', ''model'', ''max_tokens'', ''streaming'', ''verify_tls'']),
      (''prometheus'', [''enabled'', ''base_url'', ''verify_tls'', ''queries'']),
      (''kubernetes'', [''enabled'', ''base_url'', ''verify_tls'', ''namespace'', ''label_selector'', ''pod_username_regex'']),
      (''notifications'', [''webhook_enabled'', ''base_url'', ''events'']),
      (''features'', [''gpu_monitoring'', ''llm_usage_monitoring'']),
      (''llm_usage'', [''source'', ''pod_username_regex'', ''sample_pod'', ''path_matcher'', ''label_mappings'', ''promql'',
         ''input_cost_per_million'', ''output_cost_per_million'', ''stale_seconds'', ''retention_days'']),
      (''security'', [''key_rotation_days'', ''key_max_lifetime_days'', ''key_permissions'']),
      (''analytics'', [''enabled'', ''provider'', ''momento_url'', ''momento_site_id'', ''momento_proxy'',
         ''momento_verify_tls'', ''measurement_id'', ''matomo_url'', ''matomo_site_id'', ''custom_snippet'',
         ''allowed_hosts'', ''include_admin'', ''placement'']),
      (''mail'', [''enabled'', ''smtp_host'', ''smtp_port'', ''security'', ''skip_tls_verify'', ''username'',
         ''from_address'', ''from_name'', ''base_url'', ''timeout_seconds'', ''notify_approval_request'',
         ''notify_approval_decision'', ''notify_hub_health'', ''notify_key_expiry''])]"

definition allowed_setting_keys :: "string list" where
  "allowed_setting_keys =
     [''system'', ''workflow'', ''auth.oidc'', ''ai'', ''prometheus'', ''kubernetes'', ''notifications'', ''features'',
      ''llm_usage'', ''security'', analytics_key, mail_key]"

definition fields_of :: "(string \<times> string list) list \<Rightarrow> string \<Rightarrow> string list" where
  "fields_of table key = (case map_of table key of None \<Rightarrow> [] | Some fs \<Rightarrow> fs)"

definition string_fields :: "(string \<times> string list) list" where
  "string_fields =
     [(''auth.oidc'', [''issuer_url'', ''client_id'', ''redirect_url'', ''username_claim'']),
      (''ai'', [''provider'', ''base_url'', ''model'']), (''prometheus'', [''base_url'']),
      (''kubernetes'', [''base_url'', ''namespace'', ''label_selector'', ''pod_username_regex'']),
      (''notifications'', [''base_url'']),
      (''llm_usage'', [''source'', ''pod_username_regex'', ''sample_pod'', ''path_matcher'']),
      (''analytics'', [''provider'', ''momento_url'', ''momento_site_id'', ''measurement_id'', ''matomo_url'',
         ''matomo_site_id'', ''custom_snippet'', ''allowed_hosts'', ''placement'']),
      (''mail'', [''smtp_host'', ''security'', ''username'', ''from_address'', ''from_name'', ''base_url''])]"

definition bool_fields :: "(string \<times> string list) list" where
  "bool_fields =
     [(''features'', [''gpu_monitoring'', ''llm_usage_monitoring'']),
      (''workflow'', [''approval_enabled'', ''manager_review_enabled'', ''require_reason'']),
      (''auth.oidc'', [''enabled'', ''auto_create_users'', ''verify_tls'', ''auto_login'']),
      (''ai'', [''enabled'', ''streaming'', ''verify_tls'']), (''prometheus'', [''enabled'', ''verify_tls'']),
      (''kubernetes'', [''enabled'', ''verify_tls'']), (''notifications'', [''webhook_enabled'']),
      (''analytics'', [''enabled'', ''momento_proxy'', ''momento_verify_tls'', ''include_admin'']),
      (''mail'', [''enabled'', ''skip_tls_verify'', ''notify_approval_request'', ''notify_approval_decision'',
         ''notify_hub_health'', ''notify_key_expiry''])]"

definition max_ai_tokens :: rat where "max_ai_tokens = 262144"

definition number_bounds :: "(string \<times> string \<times> rat \<times> rat) list" where
  "number_bounds =
     [(''system'', ''raw_retention_days'', 1, 365), (''system'', ''usage_retention_days'', 1, 3650),
      (''ai'', ''max_tokens'', 1, max_ai_tokens),
      (''llm_usage'', ''stale_seconds'', 30, 86400), (''llm_usage'', ''retention_days'', 1, 365),
      (''llm_usage'', ''input_cost_per_million'', 0, 1000000000000),
      (''llm_usage'', ''output_cost_per_million'', 0, 1000000000000),
      (''security'', ''key_rotation_days'', 1, 3650), (''security'', ''key_max_lifetime_days'', 1, 3650),
      (''mail'', ''smtp_port'', 1, 65535), (''mail'', ''timeout_seconds'', 1, 120)]"

definition blank_string :: "json \<Rightarrow> bool" where
  "blank_string v = (case as_string v of None \<Rightarrow> True | Some s \<Rightarrow> trim_space s = [])"

definition blank_text :: "json \<Rightarrow> bool" where
  \<comment> \<open>\<^verbatim>\<open>strings.TrimSpace(fmt.Sprint(v))\<close> is empty: a value that is no string never prints blank\<close>
  "blank_text v = (case as_string v of None \<Rightarrow> False | Some s \<Rightarrow> trim_space s = [])"

definition string_setting_array :: "json \<Rightarrow> string list option" where
  "string_setting_array v =
     (case v of
        JArr xs \<Rightarrow> (case map_res (\<lambda>x. case as_string x of None \<Rightarrow> Inl () | Some s \<Rightarrow> Inr s) xs of
                      Inl e \<Rightarrow> None | Inr ss \<Rightarrow> Some ss)
      | _ \<Rightarrow> None)"

definition check_if :: "json_object \<Rightarrow> string \<Rightarrow> (json \<Rightarrow> (settings_error, unit) res) \<Rightarrow> (settings_error, unit) res" where
  \<comment> \<open>\<^verbatim>\<open>if raw, exists := object[field]; exists\<close>\<close>
  "check_if object field f = (if has_key object field then f (lookup object field) else Inr ())"

definition need :: "bool \<Rightarrow> settings_error \<Rightarrow> (settings_error, unit) res" where
  "need ok e = (if ok then Inr () else Inl e)"

definition check_text :: "json \<Rightarrow> (settings_error, unit) res" where
  "check_text v = (case as_string v of None \<Rightarrow> Inl NotText | Some s \<Rightarrow> need (int (length s) \<le> 16384) TextTooLong)"

definition check_bound :: "string \<Rightarrow> json_object \<Rightarrow> string \<times> string \<times> rat \<times> rat \<Rightarrow> (settings_error, unit) res" where
  "check_bound key object b =
     (let (section, field, low, high) = b
      in if section \<noteq> key then Inr ()
         else check_if object field (\<lambda>v. case as_number v of
           None \<Rightarrow> Inl OutOfRange
         | Some n \<Rightarrow>
             if n < low \<or> high < n then Inl OutOfRange
             else need (field = ''input_cost_per_million'' \<or> field = ''output_cost_per_million'' \<or> is_integral n) NotWhole))"

definition check_url ::
  "(string \<Rightarrow> url option) \<Rightarrow> (string \<Rightarrow> ip option) \<Rightarrow> json_object \<Rightarrow> string \<Rightarrow> (settings_error, unit) res" where
  "check_url parse_url parse_ip object field =
     check_if object field (\<lambda>v. if blank_text v then Inr ()
       else case as_string v of
         None \<Rightarrow> Inl UrlNotText
       | Some s \<Rightarrow> (case validate_endpoint parse_url parse_ip s of Inl e \<Rightarrow> Inl (EndpointRefused e) | Inr _ \<Rightarrow> Inr ()))"

definition check_enabled :: "string \<Rightarrow> json_object \<Rightarrow> (settings_error, unit) res" where
  "check_enabled key object =
     (let blank = (\<lambda>f. blank_string (lookup object f))
      in if \<not> true_bool (lookup object ''enabled'') then Inr ()
         else if key = ''auth.oidc'' then
           need (\<not> (blank ''issuer_url'' \<or> blank ''client_id'' \<or> blank ''username_claim'')) OidcFieldsMissing
         else if key = ''ai'' then
           (if blank ''base_url'' \<or> blank ''model'' then Inl AiFieldsMissing
            else need (as_number (lookup object ''max_tokens'') \<noteq> None) AiTokensMissing)
         else if key = ''prometheus'' \<or> key = ''kubernetes'' then need (\<not> blank ''base_url'') BaseUrlMissing
         else Inr ())"

definition check_mail :: "json_object \<Rightarrow> (settings_error, unit) res" where
  "check_mail object =
     res_bind (check_if object ''security'' (\<lambda>v.
         need (to_lower (trim_space (string_or_empty v))
           \<in> set [[], security_auto, security_none, security_start_tls, security_tls]) MailSecurityUnknown)) (\<lambda>_.
     if true_bool (lookup object ''enabled'')
     then (case validate_mail (read_mail object []) of Inl e \<Rightarrow> Inl (MailRefused e) | Inr _ \<Rightarrow> Inr ()) else Inr ())"

definition check_ai :: "json_object \<Rightarrow> (settings_error, unit) res" where
  "check_ai object =
     res_bind (check_if object ''provider'' (\<lambda>v. need (blank_text v \<or> v = JStr ''openai-compatible'') AiProvider)) (\<lambda>_.
     check_if object ''streaming'' (\<lambda>v. need (v = JBool True) AiStreaming))"

definition check_workflow :: "json_object \<Rightarrow> (settings_error, unit) res" where
  "check_workflow object =
     check_if object ''request_types'' (\<lambda>v. case string_setting_array v of
       None \<Rightarrow> Inl RequestTypes
     | Some items \<Rightarrow> need (list_all (\<lambda>i. i = ''server_action'') items) RequestTypes)"

definition check_oidc :: "json_object \<Rightarrow> (settings_error, unit) res" where
  "check_oidc object =
     (if true_bool (lookup object ''enabled'') \<and> \<not> has_key object ''scopes'' then Inl ScopesMissing
      else check_if object ''scopes'' (\<lambda>v. case string_setting_array v of
        None \<Rightarrow> Inl ScopesInvalid
      | Some scopes \<Rightarrow>
          need (scopes \<noteq> [] \<and> length scopes \<le> 32 \<and> list_all (\<lambda>s. trim_space s \<noteq> [] \<and> length s \<le> 128) scopes
            \<and> ''openid'' \<in> set scopes) ScopesInvalid))"

definition check_notifications :: "json_object \<Rightarrow> (settings_error, unit) res" where
  "check_notifications object =
     res_bind (check_if object ''events'' (\<lambda>v. case string_setting_array v of
       None \<Rightarrow> Inl EventsInvalid
     | Some events \<Rightarrow> need (length events \<le> 64 \<and> list_all (\<lambda>e. trim_space e \<noteq> [] \<and> length e \<le> 128) events) EventsInvalid)) (\<lambda>_.
     need (\<not> (true_bool (lookup object ''webhook_enabled'') \<and> blank_string (lookup object ''base_url''))) WebhookUrlMissing)"

definition check_text_map :: "bool \<Rightarrow> json \<Rightarrow> (settings_error, unit) res" where
  \<comment> \<open>\<^verbatim>\<open>validateStringMapSetting\<close>\<close>
  "check_text_map require_calls v =
     (case as_object v of
        None \<Rightarrow> Inl TextMapInvalid
      | Some m \<Rightarrow>
          res_bind (map_res (\<lambda>(k, w). case as_string w of None \<Rightarrow> Inl TextMapInvalid | Some s \<Rightarrow> Inr (k, s)) m) (\<lambda>items.
          if 64 < length items then Inl TextMapInvalid
          else if \<not> list_all (\<lambda>(k, s). trim_space k \<noteq> [] \<and> length k \<le> 100 \<and> trim_space s \<noteq> [] \<and> int (length s) \<le> 65536) items
          then Inl TextMapInvalid
          else need (require_calls \<longrightarrow> (case map_of items ''calls'' of None \<Rightarrow> False | Some s \<Rightarrow> trim_space s \<noteq> [])) CallsQueryMissing))"

definition check_pod_pattern :: "(string \<Rightarrow> string list option) \<Rightarrow> string \<Rightarrow> (settings_error, unit) res" where
  "check_pod_pattern capture_names s =
     (case compile_pod_pattern capture_names s of Inl e \<Rightarrow> Inl (PodPattern e) | Inr _ \<Rightarrow> Inr ())"

definition check_kubernetes :: "(string \<Rightarrow> string list option) \<Rightarrow> json_object \<Rightarrow> (settings_error, unit) res" where
  "check_kubernetes capture_names object =
     check_if object ''pod_username_regex'' (\<lambda>v. let s = string_or_empty v
       in if trim_space s = [] then Inr () else check_pod_pattern capture_names s)"

definition check_llm_maps :: "json_object \<Rightarrow> (settings_error, unit) res" where
  "check_llm_maps object =
     res_bind (check_if object ''promql'' (check_text_map True)) (\<lambda>_.
     check_if object ''label_mappings'' (check_text_map False))"

definition check_security :: "json_object \<Rightarrow> (settings_error, unit) res" where
  "check_security object =
     (case (as_number (lookup object ''key_rotation_days''), as_number (lookup object ''key_max_lifetime_days'')) of
        (Some rotation, Some maximum) \<Rightarrow>
          if maximum < rotation then Inl PolicyDaysOrder
          else if \<not> has_key object ''key_permissions'' then Inl PolicyPermissions
          else (case string_setting_array (lookup object ''key_permissions'') of
             None \<Rightarrow> Inl PolicyPermissions
           | Some permissions \<Rightarrow> need (permissions = [] \<or> is_ok (validate_scopes permissions)) PolicyPermissions)
      | _ \<Rightarrow> Inl PolicyDaysMissing)"

definition validate_llm_usage :: "(string \<Rightarrow> string list option) \<Rightarrow> json_object \<Rightarrow> (settings_error, unit) res" where
  "validate_llm_usage capture_names object =
     res_bind (check_if object ''label_mappings'' (\<lambda>v.
       case decode_llm_labels v of Inl e \<Rightarrow> Inl (PodPattern e) | Inr _ \<Rightarrow> Inr ())) (\<lambda>_.
     let pattern = string_or_empty (lookup object ''pod_username_regex'')
     in if pattern = [] then Inr () else check_pod_pattern capture_names pattern)"

definition check_llm_usage :: "(string \<Rightarrow> string list option) \<Rightarrow> json_object \<Rightarrow> (settings_error, unit) res" where
  "check_llm_usage capture_names object =
     (if lookup object ''source'' \<noteq> JStr ''prometheus'' then Inl UsageSource
      else if blank_string (lookup object ''pod_username_regex'') \<or> blank_string (lookup object ''path_matcher'')
      then Inl UsageFieldsMissing
      else if \<not> has_key object ''promql'' then Inl UsageQueriesMissing
      else validate_llm_usage capture_names object)"

definition validate_setting_section ::
  "(string \<Rightarrow> url option) \<Rightarrow> (string \<Rightarrow> ip option) \<Rightarrow> (string \<Rightarrow> string list option) \<Rightarrow> string \<Rightarrow> json_object
    \<Rightarrow> (settings_error, unit) res" where
  "validate_setting_section parse_url parse_ip capture_names key object =
     (let only = (\<lambda>section check. if key = section then check object else Inr ())
      in each_ok id
        [each_ok (\<lambda>(field, _). need (field \<in> set (fields_of allowed_setting_fields key)) UnknownField) object,
         each_ok (\<lambda>field. check_if object field check_text) (fields_of string_fields key),
         each_ok (\<lambda>field. check_if object field (\<lambda>v. need (as_bool v \<noteq> None) NotBool)) (fields_of bool_fields key),
         each_ok (check_bound key object) number_bounds,
         each_ok (check_url parse_url parse_ip object)
           [''base_url'', ''issuer_url'', ''redirect_url'', ''momento_url'', ''matomo_url''],
         check_enabled key object,
         only analytics_key (\<lambda>m. case validate_analytics parse_url (read_analytics m) of
             Inl e \<Rightarrow> Inl (AnalyticsRefused e) | Inr _ \<Rightarrow> Inr ()),
         only mail_key check_mail,
         only ''ai'' check_ai,
         only ''workflow'' check_workflow,
         only ''auth.oidc'' check_oidc,
         only ''notifications'' check_notifications,
         only ''prometheus'' (\<lambda>m. check_if m ''queries'' (check_text_map False)),
         only ''kubernetes'' (check_kubernetes capture_names),
         only ''llm_usage'' check_llm_maps,
         only ''security'' check_security,
         only ''llm_usage'' (check_llm_usage capture_names)])"

definition validate_settings_update ::
  "(string \<Rightarrow> url option) \<Rightarrow> (string \<Rightarrow> ip option) \<Rightarrow> (string \<Rightarrow> string list option) \<Rightarrow> json_object \<Rightarrow> secrets
    \<Rightarrow> (settings_error, unit) res" where
  "validate_settings_update parse_url parse_ip capture_names values secrets =
     res_bind (each_ok (\<lambda>(k, s). need (int (length s) \<le> 65536) SecretTooLong) secrets) (\<lambda>_.
     each_ok (\<lambda>(key, value).
       if key \<notin> set allowed_setting_keys then Inl UnknownSection
       else case as_object value of
         None \<Rightarrow> Inl SectionNotObject
       | Some object \<Rightarrow> validate_setting_section parse_url parse_ip capture_names key object) values)"

section \<open>The handlers\<close>

record settings_page =
  sp_settings :: json_object
  sp_secrets :: "(string \<times> int \<times> time) list"
  sp_health :: "health_row list"

definition settings_get :: "request \<Rightarrow> settings_page handler" where
  \<comment> \<open>\<^verbatim>\<open>settings\<close> also appears member by member at the top level of the reply\<close>
  "settings_get r =
     tx_bind (store_call list_settings) (\<lambda>settings.
     tx_bind (store_call secret_status) (\<lambda>secrets.
     tx_bind (store_call list_integration_health) (\<lambda>health.
     tx_return \<lparr>sp_settings = settings, sp_secrets = secrets, sp_health = health\<rparr>)))"

definition settings_failure :: "store_error \<Rightarrow> http_error" where
  "settings_failure e =
     (if e = ErrSettingsSecretReentry then (400, ''secret_reentry_required'')
      else if e = ErrOIDCSecretRequired then (400, ''oidc_secret_required'')
      else store_failure e)"

definition nested_input :: "json_object \<Rightarrow> json_object" where
  "nested_input input = (case as_object (lookup input ''settings'') of Some m \<Rightarrow> m | None \<Rightarrow> input)"

definition settings_put ::
  "(string \<Rightarrow> url option) \<Rightarrow> (string \<Rightarrow> ip option) \<Rightarrow> (string \<Rightarrow> string list option) \<Rightarrow> (string \<Rightarrow> string \<Rightarrow> string option)
    \<Rightarrow> json option \<Rightarrow> request \<Rightarrow> settings_page handler" where
  \<comment> \<open>\<open>None\<close> is a body that does not decode\<close>
  "settings_put parse_url parse_ip capture_names encrypt body r =
     (case (case body of None \<Rightarrow> None | Some v \<Rightarrow> object_members v) of
        None \<Rightarrow> api_error 400 ''invalid_json''
      | Some input \<Rightarrow>
          tx_bind (tx_lift (collect_settings (nested_input input) [] [])) (\<lambda>(collected, secrets).
          let settings = apply_secure_defaults collected
          in tx_bind (tx_lift (map_sum (\<lambda>_. (400, ''invalid_settings'')) id
               (validate_settings_update parse_url parse_ip capture_names settings secrets))) (\<lambda>_.
             tx_bind (tx_map_error settings_failure
               (update_settings_and_secrets encrypt settings secrets (u_id (p_user (rq_principal r))))) (\<lambda>_.
             tx_bind (audit (request_audit r ''settings.update'' ''settings'' [] ''success'' [] None
               (Some (JObj [(''changed'', JArr (map JStr (sort (map fst collected)))),
                 (''secrets_changed'', JArr (map JStr (sort (map fst secrets))))])))) (\<lambda>_.
             settings_get r)))))"

end
