(* ===== verification/Remote_Metrics.thy ===== *)
theory Remote_Metrics
  imports Jupyter_Client Settings_Api
begin

text \<open>
  What the collector reads from Kubernetes and Prometheus (\<^verbatim>\<open>internal/integration/kubernetes.go\<close>,
  \<^verbatim>\<open>prometheus.go\<close>, \<^verbatim>\<open>llm_usage.go\<close>). The answers of the remote, one per request, are parameters, and so are the
  matches of the regular expression that finds a user name in the name of a pod. A \<^verbatim>\<open>float64\<close> is \<open>Finite\<close> of its exact
  value or one of the values that are no numbers; sums and products of finite ones are not rounded.
\<close>

datatype float64 = Finite rat | PosInf | NegInf | NotANumber

type_synonym labels = "(string \<times> string) list"

definition label :: "labels \<Rightarrow> string \<Rightarrow> string" where
  \<comment> \<open>the lookup in a Go map: empty for a missing key\<close>
  "label ls key = (case map_of ls key of None \<Rightarrow> [] | Some v \<Rightarrow> v)"

section \<open>User names in the names of pods\<close>

definition username_from_pod :: "string list \<Rightarrow> string list option \<Rightarrow> string option" where
  \<comment> \<open>the names of the groups of the pattern and what they matched, the whole match first\<close>
  "username_from_pod names matched =
     (case matched of
        None \<Rightarrow> None
      | Some groups \<Rightarrow>
          (case find (\<lambda>(name, matched_text). name = ''username'') (zip names groups) of
             None \<Rightarrow> None
           | Some (name, matched_text) \<Rightarrow> let username = trim_space matched_text in if username = [] then None else Some username))"

record pod_pattern =
  pp_capture_names :: "string \<Rightarrow> string list option"
  pp_submatches :: "string \<Rightarrow> string \<Rightarrow> string list option"

definition pod_username :: "pod_pattern \<Rightarrow> string \<Rightarrow> string \<Rightarrow> string option" where
  "pod_username pp pattern pod =
     (case pp_capture_names pp pattern of None \<Rightarrow> None | Some names \<Rightarrow> username_from_pod names (pp_submatches pp pattern pod))"

section \<open>Kubernetes\<close>

record pod =
  po_name :: string
  po_namespace :: string
  po_node :: string
  po_phase :: string
  po_labels :: labels

fun text_members :: "json_object \<Rightarrow> labels option" where
  \<comment> \<open>\<^verbatim>\<open>json.Unmarshal\<close> into a map of strings\<close>
  "text_members [] = Some []"
| "text_members ((k, v) # m) =
     (case v of
        JStr s \<Rightarrow> map_option ((#) (k, s)) (text_members m)
      | JNull \<Rightarrow> map_option ((#) (k, [])) (text_members m)
      | _ \<Rightarrow> None)"

definition text_map :: "json \<Rightarrow> labels option" where
  "text_map v = (case object_members v of None \<Rightarrow> None | Some m \<Rightarrow> text_members m)"

definition pod_of_parts :: "json_object \<Rightarrow> json_object \<Rightarrow> json_object \<Rightarrow> pod option" where
  "pod_of_parts metadata spec status =
     (case (string_field metadata ''name'', string_field metadata ''namespace'', text_map (lookup metadata ''labels''),
            string_field spec ''nodeName'', string_field status ''phase'') of
        (Some name, Some namespace, Some ls, Some node, Some phase) \<Rightarrow>
          if name = [] then None
          else Some \<lparr>po_name = name, po_namespace = namespace, po_node = node, po_phase = phase, po_labels = ls\<rparr>
      | _ \<Rightarrow> None)"

definition decode_kubernetes_pod :: "json \<Rightarrow> pod option" where
  "decode_kubernetes_pod raw =
     (case object_members raw of
        None \<Rightarrow> None
      | Some item \<Rightarrow>
          (case (object_members (lookup item ''metadata''), object_members (lookup item ''spec''),
                 object_members (lookup item ''status'')) of
             (Some metadata, Some spec, Some status) \<Rightarrow> pod_of_parts metadata spec status
           | _ \<Rightarrow> None))"

datatype kube_error =
    KubeBase client_error | KubeCall call_error | PageTooLarge | PodsTooLarge | TooManyPods | TokenTooLong
  | TokenRepeated | TooManyPages | NotEnded

text \<open>A page: the continue token and the items with the length of their text.\<close>

record kube_page =
  kp_continue :: string
  kp_items :: "(int \<times> json) list"

type_synonym kube_answer = "(nat \<Rightarrow> transport_result) \<times> kube_page"

definition pod_page_limit :: nat where "pod_page_limit = 500"
definition max_pod_pages :: nat where "max_pod_pages = 10"
definition max_pod_count :: nat where "max_pod_count = pod_page_limit * max_pod_pages"
definition max_pod_bytes :: int where "max_pod_bytes = 32 * 2 ^ 20"
definition max_continue_bytes :: nat where "max_continue_bytes = 4096"

definition page_read :: "kube_answer \<Rightarrow> nat \<Rightarrow> kube_page" where
  \<comment> \<open>a successful answer without a body leaves the page as declared\<close>
  "page_read a used =
     (case fst a (used - 1) of
        Response status bytes decodes \<Rightarrow> if bytes = 0 then \<lparr>kp_continue = [], kp_items = []\<rparr> else snd a
      | ConnectionError \<Rightarrow> snd a)"

fun pod_items :: "(int \<times> json) list \<Rightarrow> int \<Rightarrow> pod list \<Rightarrow> (kube_error, int \<times> pod list) res" where
  "pod_items [] amount pods = Inr (amount, pods)"
| "pod_items ((len, raw) # items) amount pods =
     (if amount + len > max_pod_bytes then Inl PodsTooLarge
      else case decode_kubernetes_pod raw of
        None \<Rightarrow> pod_items items (amount + len) pods
      | Some pod \<Rightarrow>
          if length (pods @ [pod]) > max_pod_count then Inl TooManyPods
          else pod_items items (amount + len) (pods @ [pod]))"

text \<open>The pages: \<open>left\<close> of them may still be asked for, \<open>k\<close> were, and \<open>sent\<close> are the continue tokens of the requests.\<close>

fun pod_pages ::
  "(nat \<Rightarrow> kube_answer) \<Rightarrow> nat \<Rightarrow> nat \<Rightarrow> string list \<Rightarrow> int \<Rightarrow> pod list \<Rightarrow> (kube_error, pod list) res \<times> string list" where
  "pod_pages answers 0 k sent amount pods = (Inl NotEnded, sent)"
| "pod_pages answers (Suc left) k sent amount pods =
     (case do_json (fst (answers k)) ''GET'' True of
        (Inl e, used) \<Rightarrow> (Inl (KubeCall e), sent)
      | (Inr status, used) \<Rightarrow>
          let page = page_read (answers k) used
          in if length (kp_items page) > pod_page_limit then (Inl PageTooLarge, sent)
             else case pod_items (kp_items page) amount pods of
               Inl e \<Rightarrow> (Inl e, sent)
             | Inr (amount1, pods1) \<Rightarrow>
                 if kp_continue page = [] then (Inr pods1, sent)
                 else if length (kp_continue page) > max_continue_bytes then (Inl TokenTooLong, sent)
                 else if kp_continue page \<in> set (tl sent) then (Inl TokenRepeated, sent)
                 else if left = 0 then (Inl TooManyPages, sent)
                 else pod_pages answers left (Suc k) (sent @ [kp_continue page]) amount1 pods1)"

definition pods_path :: "string \<Rightarrow> string" where
  "pods_path namespace =
     (if namespace = [] then ''api/v1/pods'' else ''api/v1/namespaces/'' @ path_escape namespace @ ''/pods'')"

definition pods_query :: "string \<Rightarrow> string \<Rightarrow> labels" where
  "pods_query selector token =
     [(''limit'', ''500'')] @ (if selector = [] then [] else [(''labelSelector'', selector)])
     @ (if token = [] then [] else [(''continue'', token)])"

definition kubernetes_pods ::
  "(string \<Rightarrow> (client_error, endpoint) res) \<Rightarrow> (nat \<Rightarrow> kube_answer) \<Rightarrow> string \<Rightarrow> string
    \<Rightarrow> (kube_error, pod list) res \<times> (endpoint \<times> labels) list" where
  "kubernetes_pods join answers namespace selector =
     (case join (pods_path namespace) of
        Inl e \<Rightarrow> (Inl (KubeBase e), [])
      | Inr target \<Rightarrow>
          (case pod_pages answers max_pod_pages 0 [[]] 0 [] of
             (r, sent) \<Rightarrow> (r, map (\<lambda>token. (target, pods_query selector token)) sent)))"

section \<open>Prometheus\<close>

record metric_point =
  mp_labels :: labels
  mp_value :: float64
  mp_at :: time

record prom_response =
  pr_status :: string
  pr_error :: string
  pr_result :: "(labels \<times> json list) list"

datatype prom_error = PromBase client_error | PromCall call_error | PromFailed string

definition unix_seconds :: "time \<Rightarrow> int" where "unix_seconds t = t div second"

definition valid_prometheus_sample :: "rat \<Rightarrow> float64 \<Rightarrow> time \<Rightarrow> bool" where
  "valid_prometheus_sample timestamp v now =
     (case v of
        Finite x \<Rightarrow> 0 \<le> x \<and> 946684800 \<le> timestamp \<and> timestamp \<le> of_int (unix_seconds (now + 5 * minute))
      | _ \<Rightarrow> False)"

definition number_of :: "json \<Rightarrow> rat option" where
  "number_of v = (case v of JNum n \<Rightarrow> Some n | JNull \<Rightarrow> Some 0 | _ \<Rightarrow> None)"

definition text_of :: "json \<Rightarrow> string option" where
  "text_of v = (case v of JStr s \<Rightarrow> Some s | JNull \<Rightarrow> Some [] | _ \<Rightarrow> None)"

definition point_of :: "(string \<Rightarrow> float64 option) \<Rightarrow> time \<Rightarrow> labels \<times> json list \<Rightarrow> metric_point option" where
  "point_of parse_float now item =
     (case snd item of
        [raw_time, raw_text] \<Rightarrow>
          (case (number_of raw_time, text_of raw_text) of
             (Some timestamp, Some t) \<Rightarrow>
               (case parse_float t of
                  None \<Rightarrow> None
                | Some v \<Rightarrow>
                    if \<not> valid_prometheus_sample timestamp v now then None
                    else Some \<lparr>mp_labels = fst item, mp_value = v, mp_at = \<lfloor>timestamp * 1000\<rfloor> * 1000000\<rparr>)
           | _ \<Rightarrow> None)
      | _ \<Rightarrow> None)"

definition query_params :: "(time \<Rightarrow> string) \<Rightarrow> string \<Rightarrow> time \<Rightarrow> labels" where
  "query_params show_time q at_time =
     [(''query'', q)] @ (if at_time = zero_time then [] else [(''time'', show_time at_time)])"

type_synonym prom_answer = "(nat \<Rightarrow> transport_result) \<times> prom_response"

definition response_read :: "prom_answer \<Rightarrow> nat \<Rightarrow> prom_response" where
  "response_read a used =
     (case fst a (used - 1) of
        Response status bytes decodes \<Rightarrow> if bytes = 0 then \<lparr>pr_status = [], pr_error = [], pr_result = []\<rparr> else snd a
      | ConnectionError \<Rightarrow> snd a)"

definition prometheus_query ::
  "(string \<Rightarrow> (client_error, endpoint) res) \<Rightarrow> (string \<Rightarrow> float64 option) \<Rightarrow> time \<Rightarrow> prom_answer
    \<Rightarrow> (prom_error, metric_point list) res" where
  "prometheus_query join parse_float now a =
     (case join ''api/v1/query'' of
        Inl e \<Rightarrow> Inl (PromBase e)
      | Inr _ \<Rightarrow>
          (case do_json (fst a) ''GET'' True of
             (Inl e, used) \<Rightarrow> Inl (PromCall e)
           | (Inr status, used) \<Rightarrow>
               let response = response_read a used
               in if pr_status response \<noteq> ''success'' then Inl (PromFailed (pr_error response))
                  else Inr (List.map_filter (point_of parse_float now) (pr_result response))))"

record remote_client =
  rm_base_url :: string
  rm_token :: string
  rm_verify_tls :: bool
  rm_timeout :: time

definition new_remote ::
  "(string \<Rightarrow> url option) \<Rightarrow> (string \<Rightarrow> ip option) \<Rightarrow> string \<Rightarrow> string \<Rightarrow> bool \<Rightarrow> (client_error, remote_client) res" where
  \<comment> \<open>\<^verbatim>\<open>NewKubernetes\<close> and \<^verbatim>\<open>NewPrometheus\<close>\<close>
  "new_remote parse_url parse_ip base_url token verify_tls =
     (case validate_endpoint parse_url parse_ip base_url of
        Inl e \<Rightarrow> Inl (BadBase e)
      | Inr _ \<Rightarrow> Inr \<lparr>rm_base_url = base_url, rm_token = token, rm_verify_tls = verify_tls,
                      rm_timeout = client_timeout (12 * second)\<rparr>)"

section \<open>Bounds\<close>

lemma pod_items_grows:
  assumes "pod_items items amount pods = Inr (amount1, pods1)" and "length pods \<le> max_pod_count"
  shows "length pods1 \<le> max_pod_count"
  using assms by (induction items amount pods rule: pod_items.induct) (auto split: if_splits option.splits)

lemma pod_pages_sent:
  "length (snd (pod_pages answers left k sent amount pods)) \<le> length sent + (left - 1)"
proof (induction answers left k sent amount pods rule: pod_pages.induct)
  case (2 answers left k sent amount pods)
  then show ?case by (auto simp: Let_def split: prod.splits sum.splits if_splits)
qed simp

lemma pod_pages_length:
  "pod_pages answers left k sent amount pods = (Inr r, s) \<Longrightarrow> length pods \<le> max_pod_count \<Longrightarrow> length r \<le> max_pod_count"
  by (induction answers left k sent amount pods rule: pod_pages.induct)
    (auto simp: Let_def dest: pod_items_grows split: prod.splits sum.splits if_splits)

lemma pod_items_error: "pod_items items amount pods = Inl e \<Longrightarrow> e = PodsTooLarge \<or> e = TooManyPods"
  by (induction items amount pods rule: pod_items.induct) (auto split: if_splits option.splits)

lemma pod_pages_ends: "0 < left \<Longrightarrow> fst (pod_pages answers left k sent amount pods) \<noteq> Inl NotEnded"
  by (induction answers left k sent amount pods rule: pod_pages.induct)
    (auto simp: Let_def dest: pod_items_error split: prod.splits sum.splits if_splits)

text \<open>Every token asked for after the first request came with the page before, and is asked for once.\<close>

lemma pod_pages_tokens:
  "distinct (tl sent) \<Longrightarrow> sent \<noteq> [] \<Longrightarrow> hd sent = [] \<Longrightarrow> [] \<notin> set (tl sent)
   \<Longrightarrow> snd (pod_pages answers left k sent amount pods) = s
   \<Longrightarrow> distinct (tl s) \<and> s \<noteq> [] \<and> hd s = [] \<and> [] \<notin> set (tl s)"
  by (induction answers left k sent amount pods arbitrary: s rule: pod_pages.induct)
    (auto simp: Let_def split: prod.splits sum.splits if_splits)

lemma pods_query_inj: "inj (\<lambda>token. (target, pods_query selector token))"
  by (rule injI) (auto simp: pods_query_def split: if_splits)

text \<open>The list of pods ends: however Kubernetes answers, at most ten pages are asked for, no token twice, and a list
  that is returned is one the store accepts.\<close>

theorem pod_list_bounded:
  "length (snd (kubernetes_pods join answers namespace selector)) \<le> 10
   \<and> distinct (snd (kubernetes_pods join answers namespace selector))
   \<and> (case fst (kubernetes_pods join answers namespace selector) of Inl e \<Rightarrow> e \<noteq> NotEnded | Inr pods \<Rightarrow> length pods \<le> 5000)"
proof (cases "join (pods_path namespace)")
  case (Inl e)
  then show ?thesis by (simp add: kubernetes_pods_def)
next
  case (Inr target)
  obtain r sent where run: "pod_pages answers max_pod_pages 0 [[]] 0 [] = (r, sent)" by fastforce
  have "length sent \<le> 10" using pod_pages_sent [of answers max_pod_pages 0 "[[]]" 0 "[]"]
    unfolding run by (simp add: max_pod_pages_def)
  moreover have "distinct (tl sent) \<and> sent \<noteq> [] \<and> hd sent = [] \<and> [] \<notin> set (tl sent)"
    by (rule pod_pages_tokens [of "[[]]" answers max_pod_pages 0 0 "[]"]) (simp_all add: run)
  then have "distinct sent" by (cases sent) auto
  then have "distinct (map (\<lambda>token. (target, pods_query selector token)) sent)"
    by (simp add: distinct_map pods_query_inj [THEN inj_on_subset])
  moreover have "r \<noteq> Inl NotEnded" using pod_pages_ends [of max_pod_pages answers 0 "[[]]" 0 "[]"]
    unfolding run by (simp add: max_pod_pages_def)
  moreover have "r = Inr pods \<Longrightarrow> length pods \<le> 5000" for pods
    using pod_pages_length [of answers max_pod_pages 0 "[[]]" 0 "[]" pods sent]
    unfolding run by (simp add: max_pod_count_def pod_page_limit_def) (simp add: max_pod_pages_def)
  ultimately show ?thesis by (auto simp: kubernetes_pods_def Inr run split: sum.splits)
qed

text \<open>A point that Prometheus reports is a finite number that is not negative, no older than the year 2000 and at most
  five minutes ahead.\<close>

lemma point_of_valid:
  assumes "point_of parse_float now item = Some p"
  obtains x where "mp_value p = Finite x" and "0 \<le> x" and "946684800 * second \<le> mp_at p" and "mp_at p \<le> now + 5 * minute"
proof -
  from assms obtain timestamp :: rat and x where p: "p = \<lparr>mp_labels = fst item, mp_value = Finite x, mp_at = \<lfloor>timestamp * 1000\<rfloor> * 1000000\<rparr>"
    and x: "0 \<le> x" and low: "946684800 \<le> timestamp" and high: "timestamp \<le> of_int (unix_seconds (now + 5 * minute))"
    by (auto simp: point_of_def valid_prometheus_sample_def split: list.splits option.splits float64.splits if_splits)
  from low have "(946684800000 :: rat) \<le> timestamp * 1000" by simp
  then have "946684800000 \<le> \<lfloor>timestamp * 1000\<rfloor>" by (simp add: le_floor_iff)
  moreover have "timestamp * 1000 \<le> of_int (unix_seconds (now + 5 * minute) * 1000)" using high by simp
  then have "\<lfloor>timestamp * 1000\<rfloor> \<le> unix_seconds (now + 5 * minute) * 1000" by (simp add: floor_le_iff)
  moreover have "unix_seconds (now + 5 * minute) * second \<le> now + 5 * minute"
    by (simp add: unix_seconds_def second_def mult.commute)
  ultimately show thesis
    using that [of x] x by (simp add: p second_def)
qed

end
