(* ===== verification/Tx_Results.thy ===== *)
theory Tx_Results
  imports Db_Tx
begin

text \<open>
  Calls whose result matters: \<open>delivers I m Q\<close> says that from data satisfying \<open>I\<close> every outcome of \<open>m\<close> leaves data
  satisfying \<open>I\<close>, and a result without an error satisfies \<open>Q\<close>. Then transaction bodies that return early, calls on a part
  of the data, and repetitions.
\<close>

section \<open>Early returns and parts of the data\<close>

text \<open>A body that may return early, which its caller reads off the error: the deferred rollback undoes what it did.\<close>

definition with_early_return :: "('d, 'e + 'a, 'a) tx \<Rightarrow> ('d, 'e, 'a) tx" where
  "with_early_return m fs d =
     (case m fs d of
        (Inl (Inl e), fs', d') \<Rightarrow> (Inl e, fs', d')
      | (Inl (Inr a), fs', d') \<Rightarrow> (Inr a, fs', d')
      | (Inr a, fs', d') \<Rightarrow> (Inr a, fs', d'))"

definition or_error :: "('d, 'e, 'a) tx \<Rightarrow> ('d, 'e + 'b, 'a) tx" where
  "or_error m fs d = (case m fs d of (Inl e, fs', d') \<Rightarrow> (Inl (Inl e), fs', d') | (Inr a, fs', d') \<Rightarrow> (Inr a, fs', d'))"

definition return_early_if :: "bool \<Rightarrow> 'b \<Rightarrow> ('d, 'e + 'b, unit) tx" where
  "return_early_if b a = (if b then tx_throw (Inr a) else tx_return ())"

text \<open>A call on a part of the data, its error mapped.\<close>

definition on_part :: "('d \<Rightarrow> 'p) \<Rightarrow> ('p \<Rightarrow> 'd \<Rightarrow> 'd) \<Rightarrow> ('e \<Rightarrow> 'f) \<Rightarrow> ('p, 'e, 'a) tx \<Rightarrow> ('d, 'f, 'a) tx" where
  "on_part get put g m fs d =
     (case m fs (get d) of
        (Inl e, fs', p) \<Rightarrow> (Inl (g e), fs', put p d)
      | (Inr a, fs', p) \<Rightarrow> (Inr a, fs', put p d))"

section \<open>Results\<close>

definition delivers :: "('d \<Rightarrow> bool) \<Rightarrow> ('d, 'e, 'a) tx \<Rightarrow> ('a \<Rightarrow> bool) \<Rightarrow> bool" where
  "delivers I m Q \<longleftrightarrow>
     (\<forall>fs d r fs' d'. I d \<longrightarrow> m fs d = (r, fs', d') \<longrightarrow> I d' \<and> (\<forall>a. r = Inr a \<longrightarrow> Q a))"

lemma deliversD:
  assumes "delivers I m Q" and "I d" and "m fs d = (r, fs', d')"
  shows "I d'" and "r = Inr a \<Longrightarrow> Q a"
  using assms unfolding delivers_def by blast+

lemma delivers_keeps: "delivers I m Q \<Longrightarrow> keeps I m"
  unfolding delivers_def keeps_def by blast

lemma keeps_delivers: "keeps I m \<Longrightarrow> delivers I m (\<lambda>_. True)"
  unfolding delivers_def keeps_def by blast

lemma keeps_returns_delivers:
  "keeps I m \<Longrightarrow> (\<And>fs d a fs' d'. I d \<Longrightarrow> m fs d = (Inr a, fs', d') \<Longrightarrow> Q a) \<Longrightarrow> delivers I m Q"
  unfolding delivers_def keeps_def by blast

lemma delivers_weaken: "delivers I m Q \<Longrightarrow> (\<And>a. Q a \<Longrightarrow> R a) \<Longrightarrow> delivers I m R"
  unfolding delivers_def by blast

lemma delivers_bind:
  assumes "delivers I m Q" and "\<And>a. Q a \<Longrightarrow> delivers I (k a) R"
  shows "delivers I (tx_bind m k) R"
  unfolding delivers_def
proof (intro allI impI)
  fix fs d r fs' d'
  assume d: "I d" and run: "tx_bind m k fs d = (r, fs', d')"
  obtain x fs1 d1 where m: "m fs d = (x, fs1, d1)" by (cases "m fs d") auto
  note first = deliversD [OF assms(1) d m]
  show "I d' \<and> (\<forall>a. r = Inr a \<longrightarrow> R a)"
  proof (cases x)
    case (Inl e)
    with m run first(1) show ?thesis by (auto simp: tx_bind_def)
  next
    case (Inr a)
    with m run have "k a fs1 d1 = (r, fs', d')" by (simp add: tx_bind_def)
    with deliversD [OF assms(2) [OF first(2) [OF Inr]] first(1)] show ?thesis by blast
  qed
qed

lemma keeps_bind_delivers:
  assumes "delivers I m Q" and "\<And>a. Q a \<Longrightarrow> keeps I (k a)"
  shows "keeps I (tx_bind m k)"
  by (rule delivers_keeps [where Q = "\<lambda>_. True"]) (rule delivers_bind [OF assms(1) keeps_delivers [OF assms(2)] ])

lemma delivers_return: "Q a \<Longrightarrow> delivers I (tx_return a) Q"
  by (auto simp: delivers_def tx_return_def)

lemma delivers_throw: "delivers I (tx_throw e) Q"
  by (auto simp: delivers_def tx_throw_def)

lemma delivers_lift: "(\<And>a. r = Inr a \<Longrightarrow> Q a) \<Longrightarrow> delivers I (tx_lift r) Q"
  by (auto simp: delivers_def tx_lift_def)

lemma delivers_statement:
  "(\<And>d a d'. I d \<Longrightarrow> f d = Inr (a, d') \<Longrightarrow> I d' \<and> Q a) \<Longrightarrow> delivers I (statement e f) Q"
  unfolding delivers_def statement_def Let_def
  by (intro allI impI) (auto split: prod.splits sum.splits if_splits)

lemma delivers_query: "(\<And>d. I d \<Longrightarrow> Q (f d)) \<Longrightarrow> delivers I (query e f) Q"
  unfolding query_def by (rule delivers_statement) auto

lemma delivers_try: "delivers I m Q \<Longrightarrow> delivers I (tx_try m) (\<lambda>r. \<forall>a. r = Inr a \<longrightarrow> Q a)"
  unfolding delivers_def tx_try_def by (intro allI impI) (auto split: prod.splits)

lemma delivers_or_error: "delivers I m Q \<Longrightarrow> delivers I (or_error m) Q"
  unfolding delivers_def or_error_def by (intro allI impI) (auto split: prod.splits sum.splits)

lemma delivers_foreach: "(\<And>x. x \<in> set xs \<Longrightarrow> delivers I (body x) (\<lambda>_. True)) \<Longrightarrow> delivers I (foreach body xs) (\<lambda>_. True)"
proof (induction xs)
  case Nil
  then show ?case by (simp add: delivers_return)
next
  case (Cons x xs)
  then show ?case by (auto intro!: delivers_bind)
qed

lemma keeps_or_error [inv_intros]: "keeps I m \<Longrightarrow> keeps I (or_error m)"
  unfolding keeps_def or_error_def by (intro allI impI) (auto split: prod.splits sum.splits)

lemma keeps_early [inv_intros]: "keeps I (return_early_if b a)"
  by (simp add: return_early_if_def keeps_pure)

lemma keeps_with_early [inv_intros]: "keeps I m \<Longrightarrow> keeps I (with_early_return m)"
  unfolding keeps_def with_early_return_def by (intro allI impI) (auto split: prod.splits sum.splits)

text \<open>A call on a part changes nothing but that part, and keeps what the call keeps of it.\<close>

lemma keeps_on_part:
  assumes "keeps I m" and "\<And>d. J d \<Longrightarrow> I (get d)" and "\<And>p d. J d \<Longrightarrow> I p \<Longrightarrow> J (put p d)"
  shows "keeps J (on_part get put g m)"
  unfolding keeps_def on_part_def
proof (intro allI impI)
  fix fs d r fs' d'
  assume d: "J d"
  assume run: "(case m fs (get d) of (Inl e, fs', p) \<Rightarrow> (Inl (g e), fs', put p d) | (Inr a, fs', p) \<Rightarrow> (Inr a, fs', put p d))
    = (r, fs', d')"
  obtain x fs1 p where m: "m fs (get d) = (x, fs1, p)" by (cases "m fs (get d)") auto
  with run have "d' = put p d" by (auto split: sum.splits)
  with assms(3) [OF d keepsD [OF assms(1) assms(2) [OF d] m]] show "J d'" by simp
qed

text \<open>What early returns and errors of a transaction leave behind is what was there.\<close>

lemma early_transaction_cases:
  assumes "with_early_return (transaction (Inl e) body) fs d = (r, fs', d')"
  obtains "d' = d"
  | a fs1 fs2 where "next_fault fs = (False, fs1)" and "body fs1 d = (Inr a, fs2, d')" and "r = Inr a"
proof (cases "transaction (Inl e) body fs d")
  case (fields x fs1 d1)
  show thesis
  proof (cases x)
    case (Inl y)
    with fields have "d1 = d" by (auto dest: transaction_atomic)
    with assms fields Inl show ?thesis by (auto simp: with_early_return_def split: sum.splits intro: that(1))
  next
    case (Inr a)
    with fields assms have "r = Inr a" and "d' = d1" by (auto simp: with_early_return_def)
    with fields Inr show ?thesis by (auto simp: transaction_Inr intro: that(2))
  qed
qed

section \<open>Calls that always return a result\<close>

definition always_returns :: "('d, 'e, 'a) tx \<Rightarrow> bool" where
  "always_returns m \<longleftrightarrow> (\<forall>fs d. \<exists>a fs' d'. m fs d = (Inr a, fs', d'))"

lemma always_returnsE:
  assumes "always_returns m"
  obtains a fs' d' where "m fs d = (Inr a, fs', d')"
  using assms unfolding always_returns_def by blast

lemma always_return: "always_returns (tx_return a)"
  by (simp add: always_returns_def tx_return_def)

lemma always_try: "always_returns (tx_try m)"
  by (simp add: always_returns_def tx_try_def split: prod.split)

lemma always_bind:
  assumes "always_returns m" and "\<And>a. always_returns (k a)"
  shows "always_returns (tx_bind m k)"
  unfolding always_returns_def
proof (intro allI)
  fix fs d
  obtain a fs1 d1 where m: "m fs d = (Inr a, fs1, d1)" using assms(1) by (rule always_returnsE)
  obtain b fs2 d2 where "k a fs1 d1 = (Inr b, fs2, d2)" using assms(2) by (rule always_returnsE)
  with m show "\<exists>b fs' d'. tx_bind m k fs d = (Inr b, fs', d')" by (simp add: tx_bind_def)
qed

lemma always_if: "(b \<Longrightarrow> always_returns m) \<Longrightarrow> (\<not> b \<Longrightarrow> always_returns n) \<Longrightarrow> always_returns (if b then m else n)"
  by simp

lemma always_option: "always_returns m \<Longrightarrow> (\<And>x. always_returns (f x)) \<Longrightarrow> always_returns (case v of None \<Rightarrow> m | Some x \<Rightarrow> f x)"
  by (cases v) simp_all

lemma always_sum: "(\<And>x. always_returns (f x)) \<Longrightarrow> (\<And>y. always_returns (g y)) \<Longrightarrow> always_returns (case v of Inl x \<Rightarrow> f x | Inr y \<Rightarrow> g y)"
  by (cases v) simp_all

lemma always_prod: "(\<And>x y. always_returns (f x y)) \<Longrightarrow> always_returns (case p of (x, y) \<Rightarrow> f x y)"
  by (cases p) simp

lemma always_let: "always_returns (f v) \<Longrightarrow> always_returns (let x = v in f x)"
  by simp

lemma always_on_part:
  assumes "always_returns m"
  shows "always_returns (on_part get put g m)"
  unfolding always_returns_def
proof (intro allI)
  fix fs d
  obtain a fs1 p where "m fs (get d) = (Inr a, fs1, p)" using assms by (rule always_returnsE)
  then show "\<exists>b fs' d'. on_part get put g m fs d = (Inr b, fs', d')" by (simp add: on_part_def)
qed

lemmas always_intros = always_return always_try always_bind always_if always_option always_sum always_prod always_let
  always_on_part

end
