(* ===== verification/Metrics.thy ===== *)
theory Metrics
  imports Remote_Metrics Hub_Lists Settings Tx_Results "HOL-Library.AList" "HOL-Library.Sublist"
begin

text \<open>
  What the collector stores of the samples it reads (\<^verbatim>\<open>internal/store/metrics.go\<close>): resource metrics and the use of
  language models, both tied to the server a pod belongs to. The tables of the samples stand beside the other tables in
  \<open>metric_db\<close>. The time stamps written into a server and the digest of a sample's dimensions are parameters.
\<close>

section \<open>Tables\<close>

record sample_row =
  sa_source :: string
  sa_metric :: string
  sa_kind :: string
  sa_labels :: labels
  sa_value :: rat
  sa_at :: time

record llm_row =
  ll_metric :: string
  ll_window :: time
  ll_fingerprint :: string
  ll_username :: string
  ll_pod :: string
  ll_hub :: string
  ll_model :: string
  ll_calls :: int
  ll_success :: int
  ll_errors :: int
  ll_p50 :: "rat option"
  ll_p95 :: "rat option"
  ll_input :: "int option"
  ll_output :: "int option"
  ll_total :: "int option"
  ll_bytes :: "int option"
  ll_cost :: "rat option"
  ll_sampled_at :: time
  ll_labels :: labels

record usage_row =
  ur_bucket :: time
  ur_username :: string
  ur_hub_name :: string
  ur_hub_id :: "int option"
  ur_network :: string
  ur_department :: string
  ur_cpu_seconds :: rat
  ur_memory_seconds :: rat
  ur_gpu_seconds :: rat
  ur_cpu_peak :: rat
  ur_memory_peak :: rat
  ur_covered :: rat
  ur_samples :: int
  ur_runtime :: rat

record metric_db =
  mt_store :: store_db
  mt_samples :: "sample_row list"
  mt_llm :: "llm_row list"
  mt_usage :: "usage_row list"
  mt_rolled :: time

datatype metric_error =
    StoreFailed store_error | PodPatternError llm_error | SumTooLarge | CounterTooLarge | PodsOverLimit

type_synonym 'a metric_tx = "(metric_db, metric_error, 'a) tx"

abbreviation db_failed :: metric_error where "db_failed == StoreFailed DbError"

definition on_store :: "'a store_tx \<Rightarrow> 'a metric_tx" where
  \<comment> \<open>the other tables\<close>
  "on_store = on_part mt_store (\<lambda>d t. t\<lparr>mt_store := d\<rparr>) StoreFailed"

section \<open>Numbers and labels\<close>

definition metric_number :: "float64 \<Rightarrow> rat option" where
  \<comment> \<open>\<^verbatim>\<open>finiteNonNegative\<close>, with the number\<close>
  "metric_number v = (case v of Finite x \<Rightarrow> if 0 \<le> x \<and> x < 2 ^ 63 then Some x else None | _ \<Rightarrow> None)"

definition rounded_metric_count :: "rat \<Rightarrow> int option" where
  "rounded_metric_count x = (if 0 \<le> x \<and> x < 2 ^ 63 then Some \<lfloor>x + 1 / 2\<rfloor> else None)"

fun first_label :: "labels \<Rightarrow> string list \<Rightarrow> string" where
  "first_label ls [] = []"
| "first_label ls (k # ks) = (let v = trim_space (label ls k) in if v \<noteq> [] then v else first_label ls ks)"

definition without_labels :: "string list \<Rightarrow> labels \<Rightarrow> labels" where
  "without_labels ks ls = filter (\<lambda>(k, v). k \<notin> set ks) ls"

definition set_label :: "string \<Rightarrow> string \<Rightarrow> labels \<Rightarrow> labels" where
  "set_label k v ls = (k, v) # without_labels [k] ls"

definition clear_metric_identity_labels :: "labels \<Rightarrow> labels" where
  "clear_metric_identity_labels =
     without_labels [''username'', ''user'', ''hub'', ''hub_name'', ''network'', ''network_name'', ''department'', ''project'']"

definition kept_labels :: "string list \<Rightarrow> labels \<Rightarrow> labels" where
  "kept_labels ks ls =
     List.map_filter (\<lambda>k. let v = trim_space (label ls k) in if v \<noteq> [] then Some (k, v) else None) ks"

definition llm_safe_labels :: "labels \<Rightarrow> labels" where
  "llm_safe_labels = kept_labels [''pod'', ''pod_name'', ''path'', ''route'', ''status'', ''model'', ''hub'', ''network'']"

definition metric_safe_labels :: "labels \<Rightarrow> labels" where
  "metric_safe_labels =
     kept_labels [''pod'', ''pod_name'', ''hub'', ''hub_name'', ''network'', ''network_name'', ''username'', ''user'',
       ''department'', ''project'', ''node'', ''node_name'', ''namespace'', ''container'', ''device'', ''gpu'', ''gpu_uuid'',
       ''model'', ''status'', ''code'', ''path'', ''route'', ''method'']"

definition label_or :: "labels \<Rightarrow> string \<Rightarrow> string \<Rightarrow> string" where
  "label_or ls k alias = (if label ls k = [] then label ls alias else label ls k)"

definition is_gpu_metric_name :: "string \<Rightarrow> bool" where
  "is_gpu_metric_name name =
     (let lower = to_lower (trim_space name)
      in list_ex (contains_sub lower) [''gpu'', ''vram'', ''dcgm'', ''cuda'', ''nvidia''])"

definition is_gpu_metric :: "string \<Rightarrow> string \<Rightarrow> bool" where
  "is_gpu_metric name q = (is_gpu_metric_name name \<or> is_gpu_metric_name q)"

definition gpu_feature_blocked :: "string \<Rightarrow> bool \<Rightarrow> bool" where
  "gpu_feature_blocked metric gpu_monitoring = (\<not> gpu_monitoring \<and> is_gpu_metric_name metric)"

definition truncate_to :: "time \<Rightarrow> time \<Rightarrow> time" where
  \<comment> \<open>\<^verbatim>\<open>Truncate\<close> counts from year 1, a whole number of hours before 1970\<close>
  "truncate_to width t = t - t mod width"

section \<open>Reads inside the transaction\<close>

definition feature_row_on :: "string \<Rightarrow> store_db \<Rightarrow> bool" where
  "feature_row_on feature d =
     (case find (\<lambda>s. st_key s = ''features'') (db_settings d) of
        None \<Rightarrow> False
      | Some s \<Rightarrow> (case st_value s of JObj m \<Rightarrow> true_bool (lookup m feature) | _ \<Rightarrow> False))"

definition feature_enabled_for_save :: "string \<Rightarrow> bool metric_tx" where
  "feature_enabled_for_save feature = query db_failed (\<lambda>t. feature_row_on feature (mt_store t))"

definition server_hub_rows :: "store_db \<Rightarrow> (server_row \<times> hub_row) list" where
  "server_hub_rows d =
     List.map_filter (\<lambda>s. map_option (Pair s) (find_hub (sv_hub_id s) d)) (db_servers d)"

definition hub_matches :: "string \<Rightarrow> hub_row \<Rightarrow> bool" where
  "hub_matches hint h = (hint = [] \<or> hb_name h = hint \<or> hb_network h = hint)"

definition pod_rows :: "string \<Rightarrow> string \<Rightarrow> store_db \<Rightarrow> (server_row \<times> hub_row) list" where
  "pod_rows pod hint d = filter (\<lambda>(s, h). sv_pod_name s = pod \<and> hub_matches hint h) (server_hub_rows d)"

definition user_pod_rows :: "string \<Rightarrow> string \<Rightarrow> string \<Rightarrow> store_db \<Rightarrow> (server_row \<times> hub_row) list" where
  "user_pod_rows pod username hint d = filter (\<lambda>(s, h). sv_username s = username) (pod_rows pod hint d)"

definition has_nul :: "string \<Rightarrow> bool" where
  \<comment> \<open>a text with a NUL byte is refused by the server\<close>
  "has_nul s = (CHR 0x00 \<in> set s)"

definition read_with :: "string list \<Rightarrow> (store_db \<Rightarrow> 'a) \<Rightarrow> 'a metric_tx" where
  "read_with args f =
     statement db_failed (\<lambda>t. if list_ex has_nul args then Inl db_failed else Inr (f (mt_store t), t))"

fun the_only :: "'a list \<Rightarrow> 'a option" where
  \<comment> \<open>the first row, when \<^verbatim>\<open>count(*) OVER()\<close> is 1\<close>
  "the_only [x] = Some x"
| "the_only _ = None"

definition hub_hint :: "labels \<Rightarrow> string" where
  "hub_hint ls = first_label ls [''hub'', ''hub_name'', ''network'', ''network_name'']"

definition resolve_llm_identity :: "string \<Rightarrow> string \<Rightarrow> labels \<Rightarrow> (string \<times> string \<times> string) option metric_tx" where
  "resolve_llm_identity pod username ls =
     read_with [pod, username, hub_hint ls] (\<lambda>d.
       map_option (\<lambda>(s, h). (sv_username s, hb_name h, hb_network h)) (the_only (user_pod_rows pod username (hub_hint ls) d)))"

section \<open>Use of language models\<close>

datatype metric_slot = CounterSlot | P50Slot | P95Slot | CostSlot

definition call_metrics :: "string list" where "call_metrics = [''calls'', ''request_count'', ''requests'']"

definition llm_slot :: "string \<Rightarrow> metric_slot option" where
  "llm_slot name =
     (if name \<in> set call_metrics \<or> name \<in> set [''input_tokens'', ''output_tokens'', ''total_tokens'', ''bytes''] then Some CounterSlot
      else if name \<in> set [''latency_p50_ms'', ''p50_latency_ms''] then Some P50Slot
      else if name \<in> set [''latency_p95_ms'', ''p95_latency_ms''] then Some P95Slot
      else if name \<in> set [''estimated_cost'', ''estimated_cost_input_tokens'', ''estimated_cost_output_tokens''] then Some CostSlot
      else None)"

record llm_sample =
  lm_window :: time
  lm_fingerprint :: string
  lm_username :: string
  lm_pod :: string
  lm_hub :: string
  lm_model :: string
  lm_counter :: "rat option"
  lm_p50 :: "rat option"
  lm_p95 :: "rat option"
  lm_cost :: "rat option"
  lm_sampled_at :: time
  lm_labels :: labels

definition llm_dimension_fingerprint :: "(string \<Rightarrow> string) \<Rightarrow> string \<Rightarrow> string \<Rightarrow> labels \<Rightarrow> string" where
  "llm_dimension_fingerprint digest username pod ls =
     digest (join_with [CHR 0x00] ([username, pod]
       @ map (\<lambda>k. trim_space (label ls k)) [''hub'', ''network'', ''model'', ''status'', ''path'', ''route'']))"

definition add_optional_metric_value :: "rat option \<Rightarrow> rat option \<Rightarrow> (metric_error, rat option) res" where
  "add_optional_metric_value left right =
     (case (left, right) of
        (None, _) \<Rightarrow> Inr right
      | (_, None) \<Rightarrow> Inr left
      | (Some x, Some y) \<Rightarrow> if x + y < 2 ^ 63 \<and> 0 \<le> x + y then Inr (Some (x + y)) else Inl SumTooLarge)"

definition max_optional_metric_value :: "rat option \<Rightarrow> rat option \<Rightarrow> rat option" where
  "max_optional_metric_value left right =
     (case (left, right) of
        (None, _) \<Rightarrow> right
      | (_, None) \<Rightarrow> left
      | (Some x, Some y) \<Rightarrow> if x < y then right else left)"

definition merge_llm_metric_samples :: "llm_sample \<Rightarrow> llm_sample \<Rightarrow> (metric_error, llm_sample) res" where
  "merge_llm_metric_samples current candidate =
     res_bind (add_optional_metric_value (lm_counter current) (lm_counter candidate)) (\<lambda>counter.
     res_bind (add_optional_metric_value (lm_cost current) (lm_cost candidate)) (\<lambda>cost.
     Inr (current\<lparr>lm_counter := counter, lm_cost := cost,
       lm_p50 := max_optional_metric_value (lm_p50 current) (lm_p50 candidate),
       lm_p95 := max_optional_metric_value (lm_p95 current) (lm_p95 candidate),
       lm_sampled_at := max (lm_sampled_at current) (lm_sampled_at candidate)\<rparr>)))"

record metric_env =
  me_pattern :: pod_pattern
  me_digest :: "string \<Rightarrow> string"
  me_render :: "json \<Rightarrow> string"
  me_stamp :: "time \<Rightarrow> string"

text \<open>The sample a point becomes once its pod is known to run a server of the user: \<open>identity\<close> is that user, and the
  name and the network of the hub.\<close>

definition llm_sample_of ::
  "metric_env \<Rightarrow> string \<Rightarrow> string \<Rightarrow> metric_point \<Rightarrow> rat \<Rightarrow> string \<Rightarrow> string \<times> string \<times> string \<Rightarrow> llm_sample option" where
  "llm_sample_of env metric matcher point x pod identity =
     (let (username, hub, network) = identity;
          ls = set_label ''network'' network (set_label ''hub'' hub (clear_metric_identity_labels (mp_labels point)));
          slot = llm_slot metric;
          only = (\<lambda>s. if slot = Some s then Some x else None)
      in if matcher \<noteq> [] \<and> label_or ls ''path'' ''route'' \<noteq> matcher then None
         else if slot = None then None
         else Some \<lparr>lm_window = truncate_to minute (mp_at point),
           lm_fingerprint = llm_dimension_fingerprint (me_digest env) username pod ls, lm_username = username, lm_pod = pod,
           lm_hub = label ls ''hub'', lm_model = label ls ''model'', lm_counter = only CounterSlot, lm_p50 = only P50Slot,
           lm_p95 = only P95Slot, lm_cost = only CostSlot, lm_sampled_at = mp_at point,
           lm_labels = set_label ''pod'' pod (without_labels [''pod_name''] (llm_safe_labels ls))\<rparr>)"

definition llm_candidate :: "metric_env \<Rightarrow> string \<Rightarrow> string \<Rightarrow> string \<Rightarrow> metric_point \<Rightarrow> llm_sample option metric_tx" where
  "llm_candidate env metric pattern matcher point =
     (let pod = label_or (mp_labels point) ''pod'' ''pod_name''
      in case (metric_number (mp_value point), pod_username (me_pattern env) pattern pod) of
           (Some x, Some name) \<Rightarrow>
             tx_bind (resolve_llm_identity pod name (mp_labels point)) (\<lambda>found.
             tx_return (case found of None \<Rightarrow> None | Some identity \<Rightarrow> llm_sample_of env metric matcher point x pod identity))
         | _ \<Rightarrow> tx_return None)"

type_synonym llm_table = "((time \<times> string) \<times> llm_sample) list"

definition add_llm_sample :: "llm_table \<Rightarrow> llm_sample \<Rightarrow> (metric_error, llm_table) res" where
  "add_llm_sample agg candidate =
     (let key = (lm_window candidate, lm_fingerprint candidate)
      in case map_of agg key of
           None \<Rightarrow> Inr (agg @ [(key, candidate)])
         | Some current \<Rightarrow> map_sum id (\<lambda>merged. AList.update key merged agg) (merge_llm_metric_samples current candidate))"

fun aggregate_llm :: "metric_env \<Rightarrow> string \<Rightarrow> string \<Rightarrow> string \<Rightarrow> metric_point list \<Rightarrow> llm_table \<Rightarrow> llm_table metric_tx" where
  "aggregate_llm env metric pattern matcher [] agg = tx_return agg"
| "aggregate_llm env metric pattern matcher (p # ps) agg =
     tx_bind (llm_candidate env metric pattern matcher p) (\<lambda>found.
     case found of
       None \<Rightarrow> aggregate_llm env metric pattern matcher ps agg
     | Some s \<Rightarrow> tx_bind (tx_lift (add_llm_sample agg s)) (aggregate_llm env metric pattern matcher ps))"

text \<open>Calls, successes, errors, then the tokens and bytes; a row has only the one its metric names.\<close>

definition finalize_llm_counter :: "string \<Rightarrow> rat option \<Rightarrow> string \<Rightarrow> llm_row \<Rightarrow> (metric_error, llm_row) res" where
  "finalize_llm_counter metric raw status row =
     (case raw of
        None \<Rightarrow> Inr row
      | Some x \<Rightarrow>
          (case rounded_metric_count x of
             None \<Rightarrow> Inl CounterTooLarge
           | Some n \<Rightarrow> Inr
               (if metric \<in> set call_metrics then
                  row\<lparr>ll_calls := n,
                    ll_success := (if has_prefix status ''2'' \<or> status = ''success'' then n else 0),
                    ll_errors := (if has_prefix status ''2'' \<or> status = ''success'' \<or> status = [] then 0 else n)\<rparr>
                else if metric = ''input_tokens'' then row\<lparr>ll_input := Some n\<rparr>
                else if metric = ''output_tokens'' then row\<lparr>ll_output := Some n\<rparr>
                else if metric = ''total_tokens'' then row\<lparr>ll_total := Some n\<rparr>
                else if metric = ''bytes'' then row\<lparr>ll_bytes := Some n\<rparr>
                else row)))"

definition llm_row_of :: "string \<Rightarrow> llm_sample \<Rightarrow> (metric_error, llm_row) res" where
  "llm_row_of metric s =
     finalize_llm_counter metric (lm_counter s) (label (lm_labels s) ''status'')
       \<lparr>ll_metric = metric, ll_window = lm_window s, ll_fingerprint = lm_fingerprint s, ll_username = lm_username s,
         ll_pod = lm_pod s, ll_hub = lm_hub s, ll_model = lm_model s, ll_calls = 0, ll_success = 0, ll_errors = 0,
         ll_p50 = lm_p50 s, ll_p95 = lm_p95 s, ll_input = None, ll_output = None, ll_total = None, ll_bytes = None,
         ll_cost = lm_cost s, ll_sampled_at = lm_sampled_at s, ll_labels = lm_labels s\<rparr>"

definition numeric_18_6 :: "rat \<Rightarrow> rat option" where
  \<comment> \<open>the column has six decimals and twelve digits before them\<close>
  "numeric_18_6 x =
     (let units = \<lfloor>x * 1000000 + 1 / 2\<rfloor> in if units < 10 ^ 18 then Some (of_int units / 1000000) else None)"

definition bad_labels :: "labels \<Rightarrow> bool" where
  "bad_labels ls = list_ex (\<lambda>(k, v). has_nul k \<or> has_nul v) ls"

definition same_llm_key :: "llm_row \<Rightarrow> llm_row \<Rightarrow> bool" where
  "same_llm_key a b = (ll_metric a = ll_metric b \<and> ll_window a = ll_window b \<and> ll_fingerprint a = ll_fingerprint b)"

definition put_llm :: "llm_row \<Rightarrow> llm_row list \<Rightarrow> llm_row list" where
  \<comment> \<open>\<^verbatim>\<open>ON CONFLICT ... DO UPDATE\<close>: every column is overwritten\<close>
  "put_llm row rows =
     (if list_ex (same_llm_key row) rows then map (\<lambda>r. if same_llm_key row r then row else r) rows else rows @ [row])"

definition upsert_llm :: "llm_row \<Rightarrow> unit metric_tx" where
  "upsert_llm row =
     statement db_failed (\<lambda>t.
       if bad_labels (ll_labels row) \<or> has_nul (ll_model row) then Inl db_failed
       else case ll_cost row of
         None \<Rightarrow> Inr ((), t\<lparr>mt_llm := put_llm row (mt_llm t)\<rparr>)
       | Some x \<Rightarrow>
           (case numeric_18_6 x of
              None \<Rightarrow> Inl db_failed
            | Some y \<Rightarrow> Inr ((), t\<lparr>mt_llm := put_llm (row\<lparr>ll_cost := Some y\<rparr>) (mt_llm t)\<rparr>)))"

definition store_llm_sample :: "string \<Rightarrow> llm_sample \<Rightarrow> unit metric_tx" where
  "store_llm_sample metric s = tx_bind (tx_lift (llm_row_of metric s)) upsert_llm"

definition check_generation :: "metric_env \<Rightarrow> integration_generation option \<Rightarrow> (metric_db, metric_error + bool, unit) tx" where
  "check_generation env generation =
     (case generation of
        None \<Rightarrow> tx_return ()
      | Some g \<Rightarrow> tx_bind (or_error (on_store (lock_and_match_integration_generation (me_render env) (me_digest env) g)))
                    (\<lambda>current. return_early_if (\<not> current) False))"

definition save_llm_metric_points ::
  "metric_env \<Rightarrow> integration_generation option \<Rightarrow> string \<Rightarrow> string \<Rightarrow> string \<Rightarrow> metric_point list \<Rightarrow> bool metric_tx" where
  "save_llm_metric_points env generation metric pattern matcher points =
     (if points = [] then tx_return True
      else case compile_pod_pattern (pp_capture_names (me_pattern env)) pattern of
        Inl e \<Rightarrow> tx_throw (PodPatternError e)
      | Inr _ \<Rightarrow>
          with_early_return (transaction (Inl db_failed)
            (tx_bind (check_generation env generation) (\<lambda>_.
             tx_bind (or_error (feature_enabled_for_save ''llm_usage_monitoring'')) (\<lambda>enabled.
             tx_bind (return_early_if (\<not> enabled) True) (\<lambda>_.
             tx_bind (or_error (aggregate_llm env metric pattern matcher points [])) (\<lambda>agg.
             tx_bind (or_error (foreach (store_llm_sample metric) (map snd (sort_key fst agg)))) (\<lambda>_.
             tx_return True))))))))"

section \<open>Resource metrics\<close>

record metric_identity =
  id_server :: int
  id_username :: string
  id_hub :: string
  id_network :: string
  id_department :: string
  id_project :: string

definition identity_of_row :: "metric_env \<Rightarrow> store_db \<Rightarrow> server_row \<times> hub_row \<Rightarrow> metric_identity" where
  "identity_of_row env d row =
     \<lparr>id_server = sv_id (fst row), id_username = sv_username (fst row), id_hub = hb_name (snd row),
       id_network = hb_network (snd row),
       id_department = (case managed_of_server (fst row) d of None \<Rightarrow> [] | Some u \<Rightarrow> mu_department u),
       id_project = project_text (me_render env) (fst row)\<rparr>"

definition metric_identity :: "metric_env \<Rightarrow> string \<Rightarrow> string \<Rightarrow> metric_identity option metric_tx" where
  "metric_identity env pod hint =
     read_with [pod, hint] (\<lambda>d. map_option (identity_of_row env d) (the_only (pod_rows pod hint d)))"

definition identity_labels :: "metric_identity \<Rightarrow> labels \<Rightarrow> labels" where
  "identity_labels i ls =
     fold (\<lambda>(k, v) acc. if v \<noteq> [] then set_label k v acc else acc)
       [(''username'', id_username i), (''hub'', id_hub i), (''network'', id_network i), (''department'', id_department i),
        (''project'', id_project i)] ls"

definition set_member :: "string \<Rightarrow> json \<Rightarrow> json_object \<Rightarrow> json_object" where
  "set_member k v m = AList.update k v m"

definition stamped :: "string \<Rightarrow> string \<Rightarrow> server_row \<Rightarrow> server_row" where
  "stamped stamp key s =
     s\<lparr>sv_raw := set_member key (JStr stamp) (set_member ''resource_sampled_at'' (JStr stamp) (sv_raw s))\<rparr>"

definition server_metric :: "string \<Rightarrow> rat \<Rightarrow> string \<Rightarrow> (server_row \<Rightarrow> server_row) option" where
  \<comment> \<open>the update a metric makes to its server, if any\<close>
  "server_metric name x stamp =
     (if name = ''cpu_cores'' then Some (\<lambda>s. (stamped stamp ''cpu_sampled_at'' s)\<lparr>sv_cpu_cores := Some x\<rparr>)
      else if name = ''memory_bytes'' then Some (\<lambda>s. (stamped stamp ''memory_sampled_at'' s)\<lparr>sv_memory_bytes := Some \<lfloor>x\<rfloor>\<rparr>)
      else if name = ''gpu_count'' then
        (case rounded_metric_count x of
           None \<Rightarrow> None
         | Some n \<Rightarrow> if n \<le> 2147483647 then Some (\<lambda>s. (stamped stamp ''gpu_sampled_at'' s)\<lparr>sv_gpu_count := Some n\<rparr>) else None)
      else if name = ''gpu_utilization'' \<or> name = ''vram_bytes'' then
        Some (\<lambda>s. stamped stamp ''gpu_sampled_at'' (s\<lparr>sv_gpu_count := Some (case sv_gpu_count s of None \<Rightarrow> 1 | Some n \<Rightarrow> n),
          sv_raw := set_member name (JNum x) (sv_raw s)\<rparr>))
      else None)"

definition change_server :: "int \<Rightarrow> (server_row \<Rightarrow> server_row) \<Rightarrow> metric_db \<Rightarrow> metric_db" where
  "change_server sid f t =
     t\<lparr>mt_store := (mt_store t)\<lparr>db_servers := map (\<lambda>s. if sv_id s = sid then f s else s) (db_servers (mt_store t))\<rparr>\<rparr>"

text \<open>An ignored statement that fails aborts the transaction: the insertion that follows is refused.\<close>

definition insert_sample :: "bool \<Rightarrow> sample_row \<Rightarrow> unit metric_tx" where
  "insert_sample aborted row =
     statement db_failed (\<lambda>t.
       if aborted \<or> bad_labels (sa_labels row) then Inl db_failed else Inr ((), t\<lparr>mt_samples := mt_samples t @ [row]\<rparr>))"

definition attach_metric ::
  "metric_env \<Rightarrow> string \<Rightarrow> rat \<Rightarrow> time \<Rightarrow> string \<Rightarrow> labels \<Rightarrow> (bool \<times> labels) metric_tx" where
  \<comment> \<open>the part of the loop for a named pod: whether the transaction is aborted, and the labels\<close>
  "attach_metric env name x at_time pod ls =
     tx_bind (tx_try (metric_identity env pod (hub_hint ls))) (\<lambda>found.
     let cleared = clear_metric_identity_labels ls
     in case found of
          Inl _ \<Rightarrow> tx_return (True, cleared)
        | Inr None \<Rightarrow> tx_return (False, cleared)
        | Inr (Some i) \<Rightarrow>
            (case server_metric name x (me_stamp env at_time) of
               None \<Rightarrow> tx_return (False, identity_labels i cleared)
             | Some f \<Rightarrow>
                 tx_bind (tx_try (exec db_failed (change_server (id_server i) f))) (\<lambda>done_update.
                 tx_return (\<not> is_ok done_update, identity_labels i cleared))))"

definition save_metric_point :: "metric_env \<Rightarrow> string \<Rightarrow> string \<Rightarrow> bool \<Rightarrow> metric_point \<Rightarrow> unit metric_tx" where
  "save_metric_point env source name gpu point =
     (case metric_number (mp_value point) of
        None \<Rightarrow> tx_return ()
      | Some x \<Rightarrow>
          let pod = label_or (mp_labels point) ''pod'' ''pod_name''
          in tx_bind (if pod \<noteq> [] then attach_metric env name x (mp_at point) pod (mp_labels point)
                      else tx_return (False, clear_metric_identity_labels (mp_labels point))) (\<lambda>(aborted, ls).
             insert_sample aborted
               \<lparr>sa_source = source, sa_metric = name, sa_kind = (if gpu then ''gpu'' else ''generic''),
                 sa_labels = metric_safe_labels ls, sa_value = x, sa_at = mp_at point\<rparr>))"

definition save_metric_points ::
  "metric_env \<Rightarrow> integration_generation option \<Rightarrow> string \<Rightarrow> string \<Rightarrow> bool \<Rightarrow> metric_point list \<Rightarrow> bool metric_tx" where
  "save_metric_points env generation source name gpu points =
     (if points = [] then tx_return True
      else with_early_return (transaction (Inl db_failed)
        (tx_bind (check_generation env generation) (\<lambda>_.
         tx_bind (if gpu then or_error (feature_enabled_for_save ''gpu_monitoring'') else tx_return True) (\<lambda>enabled.
         tx_bind (return_early_if (\<not> enabled) True) (\<lambda>_.
         tx_bind (or_error (foreach (save_metric_point env source name gpu) points)) (\<lambda>_.
         tx_return True)))))))"

definition save_prometheus_metric_points_if_current ::
  "metric_env \<Rightarrow> integration_generation \<Rightarrow> string \<Rightarrow> string \<Rightarrow> metric_point list \<Rightarrow> bool metric_tx" where
  "save_prometheus_metric_points_if_current env generation name q points =
     save_metric_points env (Some generation) ''prometheus'' name (is_gpu_metric name q) points"

section \<open>Frames\<close>

lemma on_store_keeps:
  assumes "keeps (\<lambda>d. d = d0) m"
  shows "keeps (\<lambda>t. t = t0\<lparr>mt_store := d0\<rparr>) (on_store m)"
  unfolding on_store_def by (rule keeps_on_part [OF assms]) auto

lemma keeps_lock_and_match: "keeps I (lock_and_match_integration_generation render digest g)"
  unfolding lock_and_match_integration_generation_def advisory_lock_def
  by (intro inv_intros keeps_exec) (auto intro!: inv_intros split: prod.splits)

text \<open>A call that only reads the other tables keeps anything.\<close>

lemma keeps_on_store_read:
  assumes "\<And>d. keeps (\<lambda>x. x = d) m"
  shows "keeps I (on_store m)"
  unfolding keeps_def
proof (intro allI impI)
  fix fs t r fs' t'
  assume t: "I t" and run: "on_store m fs t = (r, fs', t')"
  have "keeps (\<lambda>x. x = t\<lparr>mt_store := mt_store t\<rparr>) (on_store m)" by (rule on_store_keeps [OF assms])
  from keepsD [OF this _ run] have "t' = t" by simp
  with t show "I t'" by simp
qed

lemma keeps_on_store_lock: "keeps I (on_store (lock_and_match_integration_generation render digest g))"
  by (rule keeps_on_store_read) (rule keeps_lock_and_match)

lemma keeps_on_store_setting [inv_intros]: "keeps I (on_store (get_setting key))"
  unfolding get_setting_def by (rule keeps_on_store_read) (rule keeps_read)

lemma keeps_check_generation [inv_intros]: "keeps I (check_generation env g)"
  unfolding check_generation_def by (intro inv_intros keeps_on_store_lock)

lemma delivers_read_with: "(\<And>t. I t \<Longrightarrow> Q (f (mt_store t))) \<Longrightarrow> delivers I (read_with args f) Q"
  unfolding read_with_def by (rule delivers_statement) (auto split: if_splits)

lemma keeps_read_with [inv_intros]: "keeps I (read_with args f)"
  by (rule delivers_keeps) (rule delivers_read_with [of _ "\<lambda>_. True"], simp)

lemma keeps_feature [inv_intros]: "keeps I (feature_enabled_for_save feature)"
  unfolding feature_enabled_for_save_def by (intro inv_intros)

section \<open>Whose use of a model is recorded\<close>

text \<open>The row of a sample names the user of the one server the pod belongs to, and its hub.\<close>

definition attributed :: "pod_pattern \<Rightarrow> string \<Rightarrow> store_db \<Rightarrow> string \<Rightarrow> string \<Rightarrow> string \<Rightarrow> bool" where
  "attributed pp pattern d pod username hub \<longleftrightarrow>
     pod_username pp pattern pod = Some username
     \<and> (\<exists>s h hint. user_pod_rows pod username hint d = [(s, h)] \<and> sv_username s = username \<and> sv_pod_name s = pod \<and> hb_name h = hub)"

text \<open>The sample of a point, as a function of the inventory: what \<^verbatim>\<open>llm_candidate\<close> computes when its query answers.\<close>

definition point_pod :: "metric_point \<Rightarrow> string" where
  "point_pod p = label_or (mp_labels p) ''pod'' ''pod_name''"

definition point_value :: "metric_point \<Rightarrow> rat" where
  "point_value p = (case metric_number (mp_value p) of None \<Rightarrow> 0 | Some x \<Rightarrow> x)"

definition point_sample :: "metric_env \<Rightarrow> string \<Rightarrow> string \<Rightarrow> string \<Rightarrow> store_db \<Rightarrow> metric_point \<Rightarrow> llm_sample option" where
  "point_sample env metric pattern matcher d p =
     (case (metric_number (mp_value p), pod_username (me_pattern env) pattern (point_pod p)) of
        (Some x, Some name) \<Rightarrow>
          if has_nul (point_pod p) \<or> has_nul name then None
          else (case the_only (user_pod_rows (point_pod p) name (hub_hint (mp_labels p)) d) of
              None \<Rightarrow> None
            | Some (s, h) \<Rightarrow> llm_sample_of env metric matcher p x (point_pod p) (sv_username s, hb_name h, hb_network h))
      | _ \<Rightarrow> None)"

text \<open>The texts whose digests tell the rows of one minute apart.\<close>

definition dimension_texts :: "metric_env \<Rightarrow> string \<Rightarrow> string \<Rightarrow> string \<Rightarrow> metric_point list \<Rightarrow> store_db \<Rightarrow> string set" where
  "dimension_texts env metric pattern matcher points d =
     {lm_fingerprint s | s p. p \<in> set points \<and> point_sample (env\<lparr>me_digest := (\<lambda>x. x)\<rparr>) metric pattern matcher d p = Some s}"

text \<open>A sample collects the points \<open>mine\<close> of its key, the first of which gave it its user and its pod.\<close>

definition collects ::
  "metric_env \<Rightarrow> string \<Rightarrow> string \<Rightarrow> string \<Rightarrow> store_db \<Rightarrow> llm_sample \<Rightarrow> metric_point list \<Rightarrow> bool" where
  "collects env metric pattern matcher d s mine \<longleftrightarrow>
     (\<forall>p \<in> set mine. \<exists>x. point_sample env metric pattern matcher d p = Some x
        \<and> lm_window x = lm_window s \<and> lm_fingerprint x = lm_fingerprint s)
     \<and> (\<exists>p \<in> set mine. \<exists>x. point_sample env metric pattern matcher d p = Some x
        \<and> lm_username x = lm_username s \<and> lm_pod x = lm_pod s)
     \<and> lm_counter s = (if llm_slot metric = Some CounterSlot then Some (sum_list (map point_value mine)) else None)"

definition sample_attributed ::
  "metric_env \<Rightarrow> string \<Rightarrow> string \<Rightarrow> string \<Rightarrow> store_db \<Rightarrow> metric_point list \<Rightarrow> llm_sample \<Rightarrow> bool" where
  "sample_attributed env metric pattern matcher d seen s \<longleftrightarrow>
     attributed (me_pattern env) pattern d (lm_pod s) (lm_username s) (lm_hub s)
     \<and> (\<exists>mine. subseq mine seen \<and> collects env metric pattern matcher d s mine)"

lemma the_only_Some: "the_only xs = Some x \<longleftrightarrow> xs = [x]"
  by (cases xs rule: the_only.cases) auto

lemma only_pod_row: "user_pod_rows pod username hint d = [(s, h)] \<Longrightarrow> sv_username s = username \<and> sv_pod_name s = pod"
proof -
  assume "user_pod_rows pod username hint d = [(s, h)]"
  then have "(s, h) \<in> set (user_pod_rows pod username hint d)" by simp
  then show ?thesis by (simp add: user_pod_rows_def pod_rows_def)
qed

lemma label_set_same [simp]: "label (set_label k v ls) k = v"
  by (simp add: label_def set_label_def)

lemma map_of_without: "map_of (without_labels ks ls) k = (if k \<in> set ks then None else map_of ls k)"
  by (induction ls) (auto simp: without_labels_def)

lemma label_set_other [simp]: "k \<noteq> k' \<Longrightarrow> label (set_label k' v ls) k = label ls k"
  by (simp add: label_def set_label_def map_of_without)

lemma llm_sample_of_identity:
  assumes "llm_sample_of env metric matcher point x pod (username, hub, network) = Some s"
  shows "lm_username s = username" and "lm_pod s = pod" and "lm_hub s = hub"
    and "lm_window s = truncate_to minute (mp_at point)"
    and "lm_counter s = (if llm_slot metric = Some CounterSlot then Some x else None)"
  using assms by (auto simp: llm_sample_of_def Let_def split: if_split_asm)

lemma user_pod_rows_user: "user_pod_rows pod name hint d = [(s, h)] \<Longrightarrow> sv_username s = name \<and> sv_pod_name s = pod"
  by (rule only_pod_row)

lemma point_sample_facts:
  assumes "point_sample env metric pattern matcher d p = Some s"
  shows "lm_pod s = point_pod p" and "pod_username (me_pattern env) pattern (point_pod p) = Some (lm_username s)"
    and "lm_window s = truncate_to minute (mp_at p)" and "\<not> has_nul (lm_pod s)" and "\<not> has_nul (lm_username s)"
    and "attributed (me_pattern env) pattern d (lm_pod s) (lm_username s) (lm_hub s)"
    and "lm_counter s = (if llm_slot metric = Some CounterSlot then Some (point_value p) else None)"
proof -
  from assms obtain x name v h where x: "metric_number (mp_value p) = Some x"
    and name: "pod_username (me_pattern env) pattern (point_pod p) = Some name"
    and nul: "\<not> has_nul (point_pod p)" "\<not> has_nul name"
    and row: "user_pod_rows (point_pod p) name (hub_hint (mp_labels p)) d = [(v, h)]"
    and s: "llm_sample_of env metric matcher p x (point_pod p) (sv_username v, hb_name h, hb_network h) = Some s"
    by (auto simp: point_sample_def the_only_Some split: option.splits if_split_asm)
  note id = llm_sample_of_identity [OF s] and user = user_pod_rows_user [OF row]
  show "lm_pod s = point_pod p" "lm_window s = truncate_to minute (mp_at p)" by (rule id)+
  show "pod_username (me_pattern env) pattern (point_pod p) = Some (lm_username s)" "\<not> has_nul (lm_pod s)" "\<not> has_nul (lm_username s)"
    using id user name nul by simp_all
  show "attributed (me_pattern env) pattern d (lm_pod s) (lm_username s) (lm_hub s)"
    unfolding attributed_def using id user name row by auto
  show "lm_counter s = (if llm_slot metric = Some CounterSlot then Some (point_value p) else None)"
    using id x by (simp add: point_value_def)
qed

lemma single_collected:
  assumes "point_sample env metric pattern matcher d p = Some s"
  shows "collects env metric pattern matcher d s [p]"
  using assms point_sample_facts(7) [OF assms] by (simp add: collects_def)

lemma llm_candidate_sample:
  "delivers (\<lambda>t. mt_store t = d) (llm_candidate env metric pattern matcher point)
     (\<lambda>found. \<forall>s. found = Some s \<longrightarrow> point_sample env metric pattern matcher d point = Some s)"
proof -
  have "delivers (\<lambda>t. mt_store t = d) (resolve_llm_identity (point_pod point) name (mp_labels point))
      (\<lambda>found. \<not> has_nul (point_pod point) \<and> \<not> has_nul name
         \<and> found = map_option (\<lambda>(s, h). (sv_username s, hb_name h, hb_network h))
             (the_only (user_pod_rows (point_pod point) name (hub_hint (mp_labels point)) d)))"
    for name
    unfolding resolve_llm_identity_def read_with_def
    by (rule delivers_statement) (auto split: if_split_asm)
  then show ?thesis
    unfolding llm_candidate_def Let_def point_pod_def [symmetric]
    by (auto intro!: delivers_return delivers_bind split: option.splits)
      (auto simp: point_sample_def split: option.splits)
qed

definition table_attributed ::
  "metric_env \<Rightarrow> string \<Rightarrow> string \<Rightarrow> string \<Rightarrow> store_db \<Rightarrow> metric_point list \<Rightarrow> llm_table \<Rightarrow> bool" where
  "table_attributed env metric pattern matcher d seen agg \<longleftrightarrow>
     (\<forall>(k, s) \<in> set agg. k = (lm_window s, lm_fingerprint s) \<and> sample_attributed env metric pattern matcher d seen s)"

lemma merge_identity:
  assumes "merge_llm_metric_samples current candidate = Inr s"
  shows "lm_pod s = lm_pod current \<and> lm_username s = lm_username current \<and> lm_hub s = lm_hub current
    \<and> lm_window s = lm_window current \<and> lm_fingerprint s = lm_fingerprint current
    \<and> add_optional_metric_value (lm_counter current) (lm_counter candidate) = Inr (lm_counter s)"
  using assms by (auto simp: merge_llm_metric_samples_def res_bind_Inr_iff)

lemma sample_attributed_later:
  "sample_attributed env metric pattern matcher d seen s \<Longrightarrow> sample_attributed env metric pattern matcher d (seen @ [p]) s"
  unfolding sample_attributed_def using list_emb_append_mono [of "(=)" _ seen "[]" "[p]"] by fastforce

lemma merge_attributed:
  assumes "sample_attributed env metric pattern matcher d seen current"
    and s: "point_sample env metric pattern matcher d p = Some s"
    and same: "lm_window s = lm_window current" "lm_fingerprint s = lm_fingerprint current"
    and m: "merge_llm_metric_samples current s = Inr merged"
  shows "sample_attributed env metric pattern matcher d (seen @ [p]) merged"
proof -
  from assms(1) obtain mine where mine: "subseq mine seen" "collects env metric pattern matcher d current mine"
    and at: "attributed (me_pattern env) pattern d (lm_pod current) (lm_username current) (lm_hub current)"
    by (auto simp: sample_attributed_def)
  note id = merge_identity [OF m]
  have "lm_counter merged = (if llm_slot metric = Some CounterSlot then Some (sum_list (map point_value (mine @ [p]))) else None)"
    using id mine(2) point_sample_facts(7) [OF s]
    by (auto simp: collects_def add_optional_metric_value_def split: if_split_asm)
  then have "collects env metric pattern matcher d merged (mine @ [p])"
    using mine(2) s same id by (auto simp: collects_def)
  moreover have "subseq (mine @ [p]) (seen @ [p])" using mine(1) by (intro list_emb_append_mono) auto
  ultimately show ?thesis
    unfolding sample_attributed_def using at id by (intro conjI exI [of _ "mine @ [p]"]) simp_all
qed

lemma update_entries: "set (AList.update k v al) \<subseteq> insert (k, v) (set al)"
  by (induction al) auto

lemma add_llm_sample_attributed:
  assumes "table_attributed env metric pattern matcher d seen agg"
    and s: "point_sample env metric pattern matcher d p = Some s" and "add_llm_sample agg s = Inr agg'"
  shows "table_attributed env metric pattern matcher d (seen @ [p]) agg'"
proof (cases "map_of agg (lm_window s, lm_fingerprint s)")
  case None
  have "subseq [p] (seen @ [p])" by (induction seen) auto
  then have "sample_attributed env metric pattern matcher d (seen @ [p]) s"
    using single_collected [OF s] point_sample_facts(6) [OF s] by (auto simp: sample_attributed_def)
  with None assms(1,3) sample_attributed_later show ?thesis
    by (fastforce simp: add_llm_sample_def table_attributed_def)
next
  case (Some current)
  with assms(3) obtain merged where m: "merge_llm_metric_samples current s = Inr merged"
    and agg': "agg' = AList.update (lm_window s, lm_fingerprint s) merged agg"
    by (cases "merge_llm_metric_samples current s") (auto simp: add_llm_sample_def)
  from map_of_SomeD [OF Some] assms(1) have c: "lm_window s = lm_window current" "lm_fingerprint s = lm_fingerprint current"
    "sample_attributed env metric pattern matcher d seen current"
    by (auto simp: table_attributed_def)
  from merge_attributed [OF c(3) s c(1,2) m] merge_identity [OF m] c
  have "(lm_window s, lm_fingerprint s) = (lm_window merged, lm_fingerprint merged)
      \<and> sample_attributed env metric pattern matcher d (seen @ [p]) merged" by simp
  with assms(1) sample_attributed_later update_entries [of "(lm_window s, lm_fingerprint s)" merged agg] show ?thesis
    unfolding agg' table_attributed_def by blast
qed

lemma table_attributed_later:
  "table_attributed env metric pattern matcher d seen agg \<Longrightarrow> table_attributed env metric pattern matcher d (seen @ [p]) agg"
  using sample_attributed_later by (fastforce simp: table_attributed_def)

lemma aggregate_attributed:
  "table_attributed env metric pattern matcher d seen agg \<Longrightarrow>
   delivers (\<lambda>t. mt_store t = d) (aggregate_llm env metric pattern matcher points agg)
     (table_attributed env metric pattern matcher d (seen @ points))"
proof (induction points arbitrary: agg seen)
  case Nil
  then show ?case by (simp add: delivers_return)
next
  case (Cons p points)
  have one: "delivers (\<lambda>t. mt_store t = d) (tx_lift (add_llm_sample agg s))
      (table_attributed env metric pattern matcher d (seen @ [p]))"
    if "point_sample env metric pattern matcher d p = Some s" for s
    by (rule delivers_lift) (rule add_llm_sample_attributed [OF Cons.prems that])
  have rest: "delivers (\<lambda>t. mt_store t = d) (aggregate_llm env metric pattern matcher points a)
      (table_attributed env metric pattern matcher d (seen @ p # points))"
    if "table_attributed env metric pattern matcher d (seen @ [p]) a" for a
    using Cons.IH [OF that] by simp
  have "delivers (\<lambda>t. mt_store t = d)
      (case found of None \<Rightarrow> aggregate_llm env metric pattern matcher points agg
       | Some s \<Rightarrow> tx_bind (tx_lift (add_llm_sample agg s)) (aggregate_llm env metric pattern matcher points))
      (table_attributed env metric pattern matcher d (seen @ p # points))"
    if "\<forall>s. found = Some s \<longrightarrow> point_sample env metric pattern matcher d p = Some s" for found
    using that table_attributed_later [OF Cons.prems] by (cases found) (auto intro: rest delivers_bind [OF one])
  then show ?case unfolding aggregate_llm.simps by (rule delivers_bind [OF llm_candidate_sample])
qed

text \<open>What a new row says: its user is the one of its pod, and what it counts was counted by points of that very pod and user in that
  very minute.\<close>

definition recorded_count :: "string \<Rightarrow> llm_row \<Rightarrow> int option" where
  "recorded_count metric row =
     (if metric \<in> {''calls'', ''request_count'', ''requests''} then Some (ll_calls row)
      else if metric = ''input_tokens'' then ll_input row
      else if metric = ''output_tokens'' then ll_output row
      else if metric = ''total_tokens'' then ll_total row
      else if metric = ''bytes'' then ll_bytes row
      else None)"

lemma recorded_metric:
  "recorded_count metric row \<noteq> None \<Longrightarrow>
   metric \<in> set call_metrics \<or> metric \<in> set [''input_tokens'', ''output_tokens'', ''total_tokens'', ''bytes'']"
  by (auto simp: recorded_count_def call_metrics_def split: if_split_asm)

lemma finalized_count:
  assumes "finalize_llm_counter metric (Some x) status base = Inr row" and "recorded_count metric row \<noteq> None"
  shows "recorded_count metric row = rounded_metric_count x"
proof -
  from assms(1) obtain n where n: "rounded_metric_count x = Some n"
    and row: "row = (if metric \<in> set call_metrics then
                  base\<lparr>ll_calls := n,
                    ll_success := (if has_prefix status ''2'' \<or> status = ''success'' then n else 0),
                    ll_errors := (if has_prefix status ''2'' \<or> status = ''success'' \<or> status = [] then 0 else n)\<rparr>
                else if metric = ''input_tokens'' then base\<lparr>ll_input := Some n\<rparr>
                else if metric = ''output_tokens'' then base\<lparr>ll_output := Some n\<rparr>
                else if metric = ''total_tokens'' then base\<lparr>ll_total := Some n\<rparr>
                else if metric = ''bytes'' then base\<lparr>ll_bytes := Some n\<rparr>
                else base)"
    by (auto simp: finalize_llm_counter_def split: option.splits)
  from recorded_metric [OF assms(2)] consider "metric \<in> set call_metrics" | "metric = ''input_tokens''" | "metric = ''output_tokens''"
    | "metric = ''total_tokens''" | "metric = ''bytes''" by auto
  then show "recorded_count metric row = rounded_metric_count x"
    by cases (auto simp: recorded_count_def row n call_metrics_def)
qed

definition counts_own_points ::
  "pod_pattern \<Rightarrow> string \<Rightarrow> string \<Rightarrow> metric_point list \<Rightarrow> llm_row \<Rightarrow> bool" where
  "counts_own_points pp metric pattern points row \<longleftrightarrow>
     (\<exists>mine. mine \<noteq> [] \<and> subseq mine points
        \<and> (\<forall>p \<in> set mine. point_pod p = ll_pod row \<and> pod_username pp pattern (point_pod p) = Some (ll_username row)
             \<and> truncate_to minute (mp_at p) = ll_window row)
        \<and> (recorded_count metric row \<noteq> None \<longrightarrow>
             recorded_count metric row = rounded_metric_count (sum_list (map point_value mine))))"

definition row_attributed ::
  "metric_env \<Rightarrow> string \<Rightarrow> string \<Rightarrow> metric_point list \<Rightarrow> store_db \<Rightarrow> llm_row \<Rightarrow> bool" where
  "row_attributed env metric pattern points d row \<longleftrightarrow>
     attributed (me_pattern env) pattern d (ll_pod row) (ll_username row) (ll_hub row)
     \<and> counts_own_points (me_pattern env) metric pattern points row"

lemma before_nul: "\<not> has_nul x \<Longrightarrow> \<not> has_nul y \<Longrightarrow> x @ CHR 0x00 # u = y @ CHR 0x00 # v \<Longrightarrow> x = y \<and> u = v"
proof (induction x arbitrary: y)
  case Nil
  then show ?case by (cases y) (auto simp: has_nul_def)
next
  case (Cons c x)
  then show ?case by (cases y) (auto simp: has_nul_def)
qed

text \<open>The text begins with the user and the pod, and neither holds the separator.\<close>

lemma point_sample_text:
  assumes "point_sample env metric pattern matcher d p = Some s"
  shows "\<exists>x rest. point_sample (env\<lparr>me_digest := (\<lambda>x. x)\<rparr>) metric pattern matcher d p = Some x
    \<and> lm_fingerprint s = me_digest env (lm_fingerprint x)
    \<and> lm_fingerprint x = lm_username s @ CHR 0x00 # lm_pod s @ CHR 0x00 # rest"
proof -
  from assms obtain x name v h where x: "metric_number (mp_value p) = Some x"
    and name: "pod_username (me_pattern env) pattern (point_pod p) = Some name"
    and nul: "\<not> has_nul (point_pod p)" "\<not> has_nul name"
    and row: "the_only (user_pod_rows (point_pod p) name (hub_hint (mp_labels p)) d) = Some (v, h)"
    and s: "llm_sample_of env metric matcher p x (point_pod p) (sv_username v, hb_name h, hb_network h) = Some s"
    by (auto simp: point_sample_def split: option.splits if_split_asm)
  let ?plain = "env\<lparr>me_digest := (\<lambda>x. x)\<rparr>"
  obtain y where y: "llm_sample_of ?plain metric matcher p x (point_pod p) (sv_username v, hb_name h, hb_network h) = Some y"
    and f: "lm_fingerprint s = me_digest env (lm_fingerprint y)"
    and t: "\<exists>rest. lm_fingerprint y = sv_username v @ CHR 0x00 # point_pod p @ CHR 0x00 # rest"
    using s by (auto simp: llm_sample_of_def Let_def llm_dimension_fingerprint_def split: if_split_asm)
  have "point_sample ?plain metric pattern matcher d p = Some y"
    using x name nul row y by (simp add: point_sample_def)
  with f t llm_sample_of_identity(1,2) [OF s] show ?thesis by auto
qed

lemma sample_counts_own:
  assumes inj: "inj_on (me_digest env) (dimension_texts env metric pattern matcher points d)"
    and s: "sample_attributed env metric pattern matcher d points s"
    and row: "llm_row_of metric s = Inr row"
  shows "row_attributed env metric pattern points d row"
proof -
  have r: "ll_pod row = lm_pod s" "ll_username row = lm_username s" "ll_hub row = lm_hub s" "ll_window row = lm_window s"
    using row by (auto simp: llm_row_of_def finalize_llm_counter_def split: option.splits if_split_asm)
  from s obtain mine where sub: "subseq mine points" and c: "collects env metric pattern matcher d s mine"
    and at: "attributed (me_pattern env) pattern d (lm_pod s) (lm_username s) (lm_hub s)"
    by (auto simp: sample_attributed_def)
  have mem: "p \<in> set points" if "p \<in> set mine" for p using list_emb_set [OF sub that] by auto
  from c obtain q y where q: "q \<in> set mine" and y: "point_sample env metric pattern matcher d q = Some y"
    and yid: "lm_username y = lm_username s" "lm_pod y = lm_pod s"
    and yf: "lm_fingerprint y = lm_fingerprint s"
    unfolding collects_def by (metis option.inject)
  have own: "point_pod p = lm_pod s \<and> pod_username (me_pattern env) pattern (point_pod p) = Some (lm_username s)
      \<and> truncate_to minute (mp_at p) = lm_window s" if p: "p \<in> set mine" for p
  proof -
    from c p obtain x where x: "point_sample env metric pattern matcher d p = Some x"
      and k: "lm_window x = lm_window s" "lm_fingerprint x = lm_fingerprint s"
      unfolding collects_def by metis
    from point_sample_text [OF x] obtain x' r1 where x': "point_sample (env\<lparr>me_digest := (\<lambda>x. x)\<rparr>) metric pattern matcher d p = Some x'"
      "lm_fingerprint x = me_digest env (lm_fingerprint x')" "lm_fingerprint x' = lm_username x @ CHR 0x00 # lm_pod x @ CHR 0x00 # r1"
      by blast
    from point_sample_text [OF y] obtain y' r2 where y': "point_sample (env\<lparr>me_digest := (\<lambda>x. x)\<rparr>) metric pattern matcher d q = Some y'"
      "lm_fingerprint y = me_digest env (lm_fingerprint y')" "lm_fingerprint y' = lm_username y @ CHR 0x00 # lm_pod y @ CHR 0x00 # r2"
      by blast
    have "lm_fingerprint x' \<in> dimension_texts env metric pattern matcher points d"
      "lm_fingerprint y' \<in> dimension_texts env metric pattern matcher points d"
      unfolding dimension_texts_def using mem p q x'(1) y'(1) by blast+
    with inj k(2) yf x'(2) y'(2) have "lm_fingerprint x' = lm_fingerprint y'" by (metis inj_on_eq_iff)
    with x'(3) y'(3) have eq: "lm_username x @ CHR 0x00 # lm_pod x @ CHR 0x00 # r1 = lm_username y @ CHR 0x00 # lm_pod y @ CHR 0x00 # r2"
      by simp
    note px = point_sample_facts [OF x] and py = point_sample_facts [OF y]
    from before_nul [OF px(5) py(5) eq] have "lm_username x = lm_username y"
      and "lm_pod x @ CHR 0x00 # r1 = lm_pod y @ CHR 0x00 # r2" by simp_all
    with before_nul [OF px(4) py(4)] yid px k show ?thesis by metis
  qed
  have "recorded_count metric row = rounded_metric_count (sum_list (map point_value mine))"
    if recorded: "recorded_count metric row \<noteq> None"
  proof -
    from recorded_metric [OF recorded] have "llm_slot metric = Some CounterSlot" by (simp add: llm_slot_def)
    with c have "lm_counter s = Some (sum_list (map point_value mine))" by (simp add: collects_def)
    from finalized_count [OF row [unfolded llm_row_of_def this] recorded] show ?thesis .
  qed
  moreover have "mine \<noteq> []" using q by auto
  ultimately have "counts_own_points (me_pattern env) metric pattern points row"
    unfolding counts_own_points_def r using sub own by blast
  with at show ?thesis unfolding row_attributed_def r by simp
qed

definition rows_attributed ::
  "metric_env \<Rightarrow> string \<Rightarrow> string \<Rightarrow> metric_point list \<Rightarrow> store_db \<Rightarrow> llm_row list \<Rightarrow> metric_db \<Rightarrow> bool" where
  "rows_attributed env metric pattern points d old t \<longleftrightarrow>
     mt_store t = d \<and> (\<forall>row \<in> set (mt_llm t). row \<in> set old \<or> row_attributed env metric pattern points d row)"

lemma put_llm_rows: "set (put_llm row rows) \<subseteq> insert row (set rows)"
  by (auto simp: put_llm_def)

lemma row_attributed_cost [simp]:
  "row_attributed env metric pattern points d (row\<lparr>ll_cost := c\<rparr>) = row_attributed env metric pattern points d row"
  by (simp add: row_attributed_def counts_own_points_def recorded_count_def)

lemma upsert_rows_attributed:
  assumes "row_attributed env metric pattern points d row"
  shows "keeps (rows_attributed env metric pattern points d old) (upsert_llm row)"
  unfolding upsert_llm_def
proof (rule keeps_statement)
  fix t a t'
  assume t: "rows_attributed env metric pattern points d old t"
    and run: "(if bad_labels (ll_labels row) \<or> has_nul (ll_model row) then Inl db_failed
       else case ll_cost row of
         None \<Rightarrow> Inr ((), t\<lparr>mt_llm := put_llm row (mt_llm t)\<rparr>)
       | Some x \<Rightarrow> (case numeric_18_6 x of None \<Rightarrow> Inl db_failed
           | Some y \<Rightarrow> Inr ((), t\<lparr>mt_llm := put_llm (row\<lparr>ll_cost := Some y\<rparr>) (mt_llm t)\<rparr>))) = Inr (a, t')"
  then obtain cost where "t' = t\<lparr>mt_llm := put_llm (row\<lparr>ll_cost := cost\<rparr>) (mt_llm t)\<rparr>"
    by (auto split: if_split_asm option.splits) (metis llm_row.surjective llm_row.update_convs(17))
  moreover have "row_attributed env metric pattern points d (row\<lparr>ll_cost := cost\<rparr>)" using assms by simp
  ultimately show "rows_attributed env metric pattern points d old t'"
    using t put_llm_rows [of "row\<lparr>ll_cost := cost\<rparr>" "mt_llm t"] unfolding rows_attributed_def by auto
qed

lemma store_llm_sample_attributed:
  assumes "inj_on (me_digest env) (dimension_texts env metric pattern matcher points d)"
    and "sample_attributed env metric pattern matcher d points s"
  shows "keeps (rows_attributed env metric pattern points d old) (store_llm_sample metric s)"
  unfolding store_llm_sample_def
proof (rule keeps_bind_result)
  show "keeps (rows_attributed env metric pattern points d old) (tx_lift (llm_row_of metric s))" by (intro inv_intros)
next
  fix row fs t fs' t'
  assume "tx_lift (llm_row_of metric s) fs t = (Inr row, fs', t')"
  then have "llm_row_of metric s = Inr row" by simp
  from upsert_rows_attributed [OF sample_counts_own [OF assms this]]
  show "keeps (rows_attributed env metric pattern points d old) (upsert_llm row)" .
qed

lemma delivers_stronger: "delivers I m Q \<Longrightarrow> keeps J m \<Longrightarrow> (\<And>t. J t \<Longrightarrow> I t) \<Longrightarrow> delivers J m Q"
  unfolding delivers_def keeps_def by blast

lemma keeps_llm_candidate [inv_intros]: "keeps I (llm_candidate env metric pattern matcher point)"
  unfolding llm_candidate_def resolve_llm_identity_def Let_def by (auto intro!: inv_intros split: option.split)

lemma keeps_aggregate [inv_intros]: "keeps I (aggregate_llm env metric pattern matcher points agg)"
  by (induction points arbitrary: agg) (auto intro!: inv_intros)

text \<open>C35: Use of a language model is only ever recorded against the user whose server runs in the very pod the samples name.
  The pattern reads that user off the name of the pod, and exactly one server of the inventory has that pod and that user; a
  label never decides whom a sample counts for. And the figures of a new row are the sum over some of the samples, all of them
  of that very pod, that very user and that very minute, so that no one's use is added to another's, as long as the digest
  takes different values on the different texts made of the samples at hand (no collision among them).\<close>

theorem llm_use_attributed:
  assumes "save_llm_metric_points env generation metric pattern matcher points fs t = (r, fs', t')"
    and "row \<in> set (mt_llm t')" and "row \<notin> set (mt_llm t)"
    and "inj_on (me_digest env) (dimension_texts env metric pattern matcher points (mt_store t))"
  shows "attributed (me_pattern env) pattern (mt_store t) (ll_pod row) (ll_username row) (ll_hub row)
    \<and> counts_own_points (me_pattern env) metric pattern points row"
proof -
  let ?d = "mt_store t"
  let ?J = "rows_attributed env metric pattern points ?d (mt_llm t)"
  have agg: "delivers ?J (aggregate_llm env metric pattern matcher points []) (table_attributed env metric pattern matcher ?d points)"
    by (rule delivers_stronger [OF aggregate_attributed [where seen = "[]", simplified]])
      (auto intro: inv_intros simp: table_attributed_def rows_attributed_def)
  have rows: "delivers ?J (foreach (store_llm_sample metric) (map snd (sort_key fst agg))) (\<lambda>_. True)"
    if "table_attributed env metric pattern matcher ?d points agg" for agg
    using that
    by (intro delivers_foreach keeps_delivers store_llm_sample_attributed [OF assms(4)]) (auto simp: table_attributed_def)
  have tail: "keeps ?J (tx_bind (or_error (aggregate_llm env metric pattern matcher points [])) (\<lambda>agg.
      tx_bind (or_error (foreach (store_llm_sample metric) (map snd (sort_key fst agg)))) (\<lambda>_. tx_return True)))"
    by (rule delivers_keeps [where Q = "\<lambda>_. True"], rule delivers_bind [OF delivers_or_error [OF agg]],
        rule delivers_bind [OF delivers_or_error [OF rows]]) (simp_all add: delivers_return)
  have "keeps ?J (save_llm_metric_points env generation metric pattern matcher points)"
    unfolding save_llm_metric_points_def
    by (rule keeps_if, rule keeps_pure, rule keeps_sum, rule keeps_pure)
      (rule tail keeps_with_early keeps_transaction keeps_check_generation keeps_or_error keeps_feature keeps_early keeps_bind)+
  from keepsD [OF this _ assms(1)] have "?J t'" by (simp add: rows_attributed_def)
  with assms(2,3) show ?thesis by (auto simp: rows_attributed_def row_attributed_def)
qed

end
