(* ===== verification/Usage_Rollup.thy ===== *)
theory Usage_Rollup
  imports Metrics Store_Queries
begin

text \<open>
  From samples to consumption (\<^verbatim>\<open>internal/store/resource_usage.go\<close>): the hourly rollup, the reads of the hourly rows, and
  the retention of samples and rows (\<^verbatim>\<open>PruneMetrics\<close>). A sample stands for the span until the next sample of its series,
  at most 150 seconds. \<open>greatest\<close> is \<^verbatim>\<open>max(text)\<close> under the collation of the database, \<open>date_trunc\<close> is the function of that
  name for the unit of a view, and \<open>ordered\<close> is the order of a list.
\<close>

section \<open>Spans\<close>

definition max_sample_interval :: time where "max_sample_interval = 150 * second"
definition rollup_late_window :: time where "rollup_late_window = 3 * hour"
definition rollup_backfill_limit :: time where "rollup_backfill_limit = 45 * 24 * hour"

definition cpu_metrics :: "string list" where "cpu_metrics = [''cpu_cores'', ''cpu'', ''cpu_usage'']"
definition memory_metrics :: "string list" where "memory_metrics = [''memory_bytes'', ''memory'', ''memory_usage'']"
definition gpu_metrics :: "string list" where "gpu_metrics = [''gpu_count'', ''gpu'']"

fun coalesce_labels :: "labels \<Rightarrow> string list \<Rightarrow> string" where
  \<comment> \<open>\<^verbatim>\<open>COALESCE(labels->>'a', labels->>'b', '')\<close>\<close>
  "coalesce_labels ls [] = []"
| "coalesce_labels ls (k # ks) = (case map_of ls k of Some v \<Rightarrow> v | None \<Rightarrow> coalesce_labels ls ks)"

definition series_key :: "sample_row \<Rightarrow> string \<times> string \<times> string \<times> string" where
  "series_key s =
     (label (sa_labels s) ''username'', coalesce_labels (sa_labels s) [''hub''],
      coalesce_labels (sa_labels s) [''pod'', ''pod_name''], sa_metric s)"

definition rollup_sample :: "time \<Rightarrow> time \<Rightarrow> sample_row \<Rightarrow> bool" where
  "rollup_sample start through s =
     (start \<le> sa_at s \<and> sa_at s < through \<and> label (sa_labels s) ''username'' \<noteq> []
      \<and> sa_metric s \<in> set (cpu_metrics @ memory_metrics @ gpu_metrics))"

text \<open>The spans of one series in the order of time; \<open>previous\<close> is the time of the sample before.\<close>

fun spans :: "time option \<Rightarrow> sample_row list \<Rightarrow> (sample_row \<times> time) list" where
  "spans previous [] = []"
| "spans previous [s] =
     [(s, min max_sample_interval (case previous of None \<Rightarrow> max_sample_interval | Some p \<Rightarrow> sa_at s - p))]"
| "spans previous (s # s' # rest) = (s, min max_sample_interval (sa_at s' - sa_at s)) # spans (Some (sa_at s)) (s' # rest)"

definition series :: "sample_row list \<Rightarrow> sample_row list list" where
  "series ss = map (\<lambda>k. sort_key sa_at (filter (\<lambda>s. series_key s = k) ss)) (remdups (map series_key ss))"

definition all_spans :: "sample_row list \<Rightarrow> (sample_row \<times> time) list" where
  "all_spans ss = concat (map (spans None) (series ss))"

section \<open>One row of the rollup\<close>

type_synonym usage_key = "time \<times> string \<times> string"

definition span_key :: "sample_row \<times> time \<Rightarrow> usage_key" where
  "span_key sp =
     (truncate_to hour (sa_at (fst sp)), label (sa_labels (fst sp)) ''username'', coalesce_labels (sa_labels (fst sp)) [''hub''])"

definition seconds :: "time \<Rightarrow> rat" where "seconds t = of_int t / 1000000000"

definition of_metrics :: "string list \<Rightarrow> (sample_row \<times> time) list \<Rightarrow> (sample_row \<times> time) list" where
  "of_metrics names sps = filter (\<lambda>sp. sa_metric (fst sp) \<in> set names) sps"

definition integral :: "(sample_row \<times> time) list \<Rightarrow> rat" where
  "integral sps = sum_list (map (\<lambda>sp. sa_value (fst sp) * seconds (snd sp)) sps)"

definition peak :: "(sample_row \<times> time) list \<Rightarrow> rat" where
  \<comment> \<open>samples are not negative, so the maximum over none is the 0 of \<^verbatim>\<open>COALESCE\<close>\<close>
  "peak sps = fold (\<lambda>sp m. max m (sa_value (fst sp))) sps 0"

definition session_hub_name :: "store_db \<Rightarrow> server_session_row \<Rightarrow> string" where
  "session_hub_name d ss = hub_name_of (ss_hub_id ss) d"

definition session_end :: "time \<Rightarrow> server_session_row \<Rightarrow> time" where
  "session_end through ss = (case ss_ended_at ss of None \<Rightarrow> through | Some e \<Rightarrow> e)"

definition in_bucket :: "time \<Rightarrow> time \<Rightarrow> time \<Rightarrow> server_session_row \<Rightarrow> bool" where
  \<comment> \<open>the join condition\<close>
  "in_bucket start through b ss =
     (ss_started_at ss < min (b + hour) through \<and> max b start < session_end through ss)"

definition session_seconds :: "time \<Rightarrow> time \<Rightarrow> time \<Rightarrow> server_session_row \<Rightarrow> rat" where
  "session_seconds start through b ss =
     seconds (max 0 (min (session_end through ss) (min (b + hour) through) - max (ss_started_at ss) (max b start)))"

definition buckets :: "time \<Rightarrow> time \<Rightarrow> time list" where
  \<comment> \<open>\<^verbatim>\<open>generate_series\<close>, both ends included\<close>
  "buckets start through =
     map (\<lambda>i. truncate_to hour start + int i * hour)
       [0 ..< nat ((truncate_to hour through - truncate_to hour start) div hour + 1)]"

definition session_rows :: "store_db \<Rightarrow> time \<Rightarrow> time \<Rightarrow> (usage_key \<times> rat) list" where
  "session_rows d start through =
     concat (map (\<lambda>b. map (\<lambda>ss. ((b, ss_username ss, session_hub_name d ss), session_seconds start through b ss))
       (filter (in_bucket start through b) (db_server_sessions d))) (buckets start through))"

definition first_hub_id :: "store_db \<Rightarrow> string \<Rightarrow> int option" where
  "first_hub_id d name =
     (case sort (map hb_id (filter (\<lambda>h. hb_name h = name) (db_hubs d))) of [] \<Rightarrow> None | i # _ \<Rightarrow> Some i)"

definition usage_row_of ::
  "(string list \<Rightarrow> string) \<Rightarrow> store_db \<Rightarrow> (sample_row \<times> time) list \<Rightarrow> (usage_key \<times> rat) list \<Rightarrow> usage_key \<Rightarrow> usage_row" where
  "usage_row_of greatest d sps sessions key =
     (let mine = filter (\<lambda>sp. span_key sp = key) sps;
          texts = (\<lambda>k. if mine = [] then [] else greatest (map (\<lambda>sp. coalesce_labels (sa_labels (fst sp)) [k]) mine))
      in \<lparr>ur_bucket = fst key, ur_username = fst (snd key), ur_hub_name = snd (snd key),
           ur_hub_id = first_hub_id d (snd (snd key)), ur_network = texts ''network'', ur_department = texts ''department'',
           ur_cpu_seconds = integral (of_metrics cpu_metrics mine), ur_memory_seconds = integral (of_metrics memory_metrics mine),
           ur_gpu_seconds = integral (of_metrics gpu_metrics mine), ur_cpu_peak = peak (of_metrics cpu_metrics mine),
           ur_memory_peak = peak (of_metrics memory_metrics mine),
           ur_covered = sum_list (map (seconds o snd) (of_metrics cpu_metrics mine)),
           ur_samples = int (length mine), ur_runtime = sum_list (map snd (filter (\<lambda>e. fst e = key) sessions))\<rparr>)"

definition rollup_rows :: "(string list \<Rightarrow> string) \<Rightarrow> time \<Rightarrow> time \<Rightarrow> metric_db \<Rightarrow> usage_row list" where
  "rollup_rows greatest start through t =
     (let sps = all_spans (filter (rollup_sample start through) (mt_samples t));
          sessions = session_rows (mt_store t) start through;
          keys = remdups (map span_key sps @ map fst sessions)
      in map (usage_row_of greatest (mt_store t) sps sessions) (filter (\<lambda>(b, username, hub). username \<noteq> []) keys))"

section \<open>The upsert\<close>

definition usage_key_of :: "usage_row \<Rightarrow> usage_key" where
  "usage_key_of r = (ur_bucket r, ur_username r, ur_hub_name r)"

definition merge_usage :: "usage_row \<Rightarrow> usage_row \<Rightarrow> usage_row" where
  \<comment> \<open>\<^verbatim>\<open>ON CONFLICT ... DO UPDATE\<close>: the new row, less an empty network or department\<close>
  "merge_usage row old =
     row\<lparr>ur_network := (if ur_network row \<noteq> [] then ur_network row else ur_network old),
       ur_department := (if ur_department row \<noteq> [] then ur_department row else ur_department old)\<rparr>"

definition put_usage :: "usage_row \<Rightarrow> usage_row list \<Rightarrow> usage_row list" where
  "put_usage row rows =
     (if list_ex (\<lambda>r. usage_key_of r = usage_key_of row) rows
      then map (\<lambda>r. if usage_key_of r = usage_key_of row then merge_usage row r else r) rows
      else rows @ [row])"

definition run_rollup :: "(string list \<Rightarrow> string) \<Rightarrow> time \<Rightarrow> time \<Rightarrow> metric_db \<Rightarrow> metric_db" where
  "run_rollup greatest start through t =
     t\<lparr>mt_usage := fold put_usage (rollup_rows greatest start through t) (mt_usage t)\<rparr>"

definition rollup_start :: "time \<Rightarrow> time \<Rightarrow> time" where
  "rollup_start from through =
     truncate_to hour (max (from - rollup_late_window) (through - rollup_backfill_limit))"

definition roll_up_resource_usage :: "(string list \<Rightarrow> string) \<Rightarrow> time \<Rightarrow> time metric_tx" where
  "roll_up_resource_usage greatest now =
     (let through = truncate_to hour now
      in tx_bind (query db_failed mt_rolled) (\<lambda>rolled.
         let start = rollup_start rolled through
         in if \<not> start < through then tx_return rolled
            else transaction db_failed
              (tx_bind (exec db_failed (run_rollup greatest start through)) (\<lambda>_.
               tx_bind (exec db_failed (\<lambda>t. t\<lparr>mt_rolled := through\<rparr>)) (\<lambda>_.
               tx_return through)))))"

definition rolled_up_through :: "time metric_tx" where
  "rolled_up_through = query db_failed mt_rolled"

section \<open>Reads\<close>

definition consumption_columns :: "(string \<times> (usage_row \<Rightarrow> string)) list" where
  "consumption_columns =
     [(''user'', ur_username), (''hub'', ur_hub_name), (''network'', ur_network), (''department'', ur_department)]"

definition consumption_group_by :: "string \<Rightarrow> string" where
  "consumption_group_by g = (if map_of consumption_columns g = None then ''user'' else g)"

record usage_totals =
  ut_group :: string
  ut_group_by :: string
  ut_cpu_seconds :: rat
  ut_memory_seconds :: rat
  ut_gpu_seconds :: "rat option"
  ut_cpu_peak :: rat
  ut_memory_peak :: rat
  ut_runtime :: rat
  ut_samples :: int
  ut_ratio :: rat

definition observed_ratio :: "rat \<Rightarrow> rat \<Rightarrow> rat" where
  "observed_ratio covered runtime =
     (if runtime \<le> 0 then (if 0 < covered then 1 else 0)
      else let ratio = covered / runtime in if 1 < ratio then 1 else ratio)"

definition maximum_of :: "(usage_row \<Rightarrow> rat) \<Rightarrow> usage_row list \<Rightarrow> rat" where
  "maximum_of f rows = (case map f rows of [] \<Rightarrow> 0 | x # xs \<Rightarrow> fold max xs x)"

definition usage_totals_of :: "string \<Rightarrow> bool \<Rightarrow> string \<Rightarrow> usage_row list \<Rightarrow> usage_totals" where
  "usage_totals_of group_by gpu name rows =
     \<lparr>ut_group = name, ut_group_by = group_by, ut_cpu_seconds = sum_list (map ur_cpu_seconds rows),
       ut_memory_seconds = sum_list (map ur_memory_seconds rows),
       ut_gpu_seconds = (if gpu then Some (sum_list (map ur_gpu_seconds rows)) else None),
       ut_cpu_peak = maximum_of ur_cpu_peak rows, ut_memory_peak = maximum_of ur_memory_peak rows,
       ut_runtime = sum_list (map ur_runtime rows), ut_samples = sum_list (map ur_samples rows),
       ut_ratio = observed_ratio (sum_list (map ur_covered rows)) (sum_list (map ur_runtime rows))\<rparr>"

definition group_text :: "(usage_row \<Rightarrow> string) \<Rightarrow> usage_row \<Rightarrow> string" where
  "group_text column r = (if column r = [] then ''unknown'' else column r)"

definition in_range :: "time \<Rightarrow> time \<Rightarrow> usage_row \<Rightarrow> bool" where
  "in_range from until r = (from \<le> ur_bucket r \<and> ur_bucket r < until)"

definition column_of :: "string \<Rightarrow> usage_row \<Rightarrow> string" where
  "column_of g = (case map_of consumption_columns g of None \<Rightarrow> ur_username | Some column \<Rightarrow> column)"

definition resource_consumption ::
  "(usage_totals list \<Rightarrow> usage_totals list) \<Rightarrow> time \<Rightarrow> time \<Rightarrow> string \<Rightarrow> int \<Rightarrow> usage_totals list metric_tx" where
  "resource_consumption ordered from until group_by limit =
     tx_bind (tx_try (on_store (get_setting ''features''))) (\<lambda>features.
     let gpu = feature_on ''gpu_monitoring'' features; column = group_text (column_of group_by)
     in query db_failed (\<lambda>t.
          let rows = filter (in_range from until) (mt_usage t)
          in take (nat (bounded_limit limit 100 500)) (ordered
               (map (\<lambda>g. usage_totals_of (consumption_group_by group_by) gpu g (filter (\<lambda>r. column r = g) rows))
                 (remdups (map column rows))))))"

definition usage_unit :: "string \<Rightarrow> string" where
  "usage_unit granularity = (if granularity \<in> set [''hour'', ''day'', ''week'', ''month''] then granularity else ''day'')"

definition user_resource_consumption ::
  "(string \<Rightarrow> time \<Rightarrow> time) \<Rightarrow> string \<Rightarrow> time \<Rightarrow> time \<Rightarrow> string \<Rightarrow> (time \<times> usage_totals) list metric_tx" where
  "user_resource_consumption date_trunc username from until granularity =
     (let period = date_trunc (usage_unit granularity)
      in query db_failed (\<lambda>t.
           let rows = filter (\<lambda>r. ur_username r = username \<and> in_range from until r) (mt_usage t)
           in map (\<lambda>p. (p, usage_totals_of [] True username (filter (\<lambda>r. period (ur_bucket r) = p) rows)))
                (sort (remdups (map (period o ur_bucket) rows)))))"

section \<open>Retention\<close>

definition day :: time where "day = 24 * hour"

definition retention :: "int \<Rightarrow> int \<Rightarrow> time" where
  \<comment> \<open>a retention that is not set falls back\<close>
  "retention fallback days = (if days < 1 then fallback else days) * day"

definition prune_metrics :: "int \<Rightarrow> int \<Rightarrow> unit metric_tx" where
  "prune_metrics raw_days llm_days =
     tx_bind (exec db_failed (\<lambda>t. t\<lparr>mt_samples :=
       filter (\<lambda>s. \<not> sa_at s < db_now (mt_store t) - retention 30 raw_days) (mt_samples t)\<rparr>)) (\<lambda>_.
     exec db_failed (\<lambda>t. t\<lparr>mt_llm :=
       filter (\<lambda>r. \<not> ll_sampled_at r < db_now (mt_store t) - retention 30 llm_days) (mt_llm t)\<rparr>))"

definition prune_resource_usage :: "int \<Rightarrow> unit metric_tx" where
  "prune_resource_usage days =
     exec db_failed (\<lambda>t. t\<lparr>mt_usage :=
       filter (\<lambda>r. \<not> ur_bucket r < db_now (mt_store t) - retention 365 days) (mt_usage t)\<rparr>)"

section \<open>How much a bucket can hold\<close>

definition in_hour :: "time \<Rightarrow> sample_row \<times> time \<Rightarrow> bool" where
  "in_hour b sp \<longleftrightarrow> truncate_to hour (sa_at (fst sp)) = b"

definition hour_total :: "time \<Rightarrow> (sample_row \<times> time) list \<Rightarrow> time" where
  "hour_total b sps = sum_list (map snd (filter (in_hour b) sps))"

lemma hour_pos [simp]: "0 < hour"
  by (simp add: hour_def minute_def second_def)

lemma interval_pos [simp]: "0 < max_sample_interval"
  by (simp add: max_sample_interval_def second_def)

lemma in_hour_iff: "in_hour b (s, w) \<longleftrightarrow> b mod hour = 0 \<and> b \<le> sa_at s \<and> sa_at s < b + hour"
proof
  assume "in_hour b (s, w)"
  then have b: "b = sa_at s - sa_at s mod hour" by (simp add: in_hour_def truncate_to_def)
  then have "b mod hour = 0" by (simp add: minus_mod_eq_mult_div)
  moreover have "0 \<le> sa_at s mod hour" and "sa_at s mod hour < hour" by simp_all
  ultimately show "b mod hour = 0 \<and> b \<le> sa_at s \<and> sa_at s < b + hour" unfolding b by linarith
next
  assume b: "b mod hour = 0 \<and> b \<le> sa_at s \<and> sa_at s < b + hour"
  then obtain q where q: "b = hour * q" by (auto simp: mod_eq_0_iff_dvd elim: dvdE)
  from b have "sa_at s mod hour = (sa_at s - b) mod hour" unfolding q by (simp add: mod_diff_eq [symmetric])
  also from b have "... = sa_at s - b" by (intro mod_pos_pos_trivial) auto
  finally show "in_hour b (s, w)" by (simp add: in_hour_def truncate_to_def)
qed

lemma spans_nonneg:
  assumes "sorted (map sa_at ss)" and "case previous of None \<Rightarrow> True | Some p \<Rightarrow> \<forall>s \<in> set ss. p \<le> sa_at s"
  shows "\<forall>sp \<in> set (spans previous ss). 0 \<le> snd sp"
  using assms
  by (induction previous ss rule: spans.induct)
    (auto split: option.splits simp: max_sample_interval_def second_def)

lemma hour_total_Cons: "hour_total b (sp # sps) = (if in_hour b sp then snd sp else 0) + hour_total b sps"
  by (simp add: hour_total_def)

lemma hour_total_Nil [simp]: "hour_total b [] = 0"
  by (simp add: hour_total_def)

lemma hour_interval_pos [simp]: "0 \<le> hour + max_sample_interval"
  using hour_pos interval_pos by linarith

lemma hour_total_bound:
  assumes "sorted (map sa_at ss)" and "b mod hour = 0"
  shows "hour_total b (spans previous ss) \<le> (case ss of [] \<Rightarrow> 0 | s # _ \<Rightarrow>
    if b + hour \<le> sa_at s then 0 else b + hour - max b (sa_at s) + max_sample_interval)"
  using assms
proof (induction previous ss rule: spans.induct)
  case (1 previous)
  then show ?case by (simp add: hour_total_def)
next
  case (2 previous s)
  then show ?case by (auto simp: hour_total_Cons hour_total_def in_hour_iff)
next
  case (3 previous s s' rest)
  then have IH: "hour_total b (spans (Some (sa_at s)) (s' # rest)) \<le>
      (if b + hour \<le> sa_at s' then 0 else b + hour - max b (sa_at s') + max_sample_interval)" and le: "sa_at s \<le> sa_at s'"
    by simp_all
  show ?case
  proof (cases "b + hour \<le> sa_at s")
    case True
    with IH le show ?thesis by (simp add: hour_total_Cons in_hour_iff)
  next
    case False
    with IH le interval_pos show ?thesis
      by (auto simp: hour_total_Cons in_hour_iff \<open>b mod hour = 0\<close> min_def max_def split: if_split_asm)
        (use hour_interval_pos in linarith)
  qed
qed

text \<open>A row's observed time is the sum over the processor series of its user and hub of what each has in the hour.\<close>

definition cpu_series :: "string \<Rightarrow> string \<Rightarrow> sample_row list \<Rightarrow> (string \<times> string \<times> string \<times> string) list" where
  "cpu_series username hub ss =
     filter (\<lambda>(u, h, p, m). u = username \<and> h = hub \<and> m \<in> set cpu_metrics) (remdups (map series_key ss))"

lemma spans_samples: "image fst (set (spans previous ss)) = set ss"
  by (induction previous ss rule: spans.induct) auto

definition cpu_in_key :: "usage_key \<Rightarrow> sample_row \<times> time \<Rightarrow> bool" where
  "cpu_in_key key sp \<longleftrightarrow> span_key sp = key \<and> sa_metric (fst sp) \<in> set cpu_metrics"

lemma cpu_in_series:
  assumes "\<forall>s \<in> set ss. series_key s = k"
  shows "filter (cpu_in_key (b, username, hub)) (spans None ss) =
    (if (\<lambda>(u, h, p, m). u = username \<and> h = hub \<and> m \<in> set cpu_metrics) k then filter (in_hour b) (spans None ss) else [])"
proof -
  have "cpu_in_key (b, username, hub) sp \<longleftrightarrow>
      (\<lambda>(u, h, p, m). u = username \<and> h = hub \<and> m \<in> set cpu_metrics) k \<and> in_hour b sp" if "sp \<in> set (spans None ss)" for sp
  proof -
    from that spans_samples [of None ss] have "fst sp \<in> set ss" by (metis image_eqI)
    with assms have "series_key (fst sp) = k" by blast
    then show ?thesis
      by (auto simp: cpu_in_key_def span_key_def series_key_def in_hour_def simp del: coalesce_labels.simps)
  qed
  then have "filter (cpu_in_key (b, username, hub)) (spans None ss) =
      filter (\<lambda>sp. (\<lambda>(u, h, p, m). u = username \<and> h = hub \<and> m \<in> set cpu_metrics) k \<and> in_hour b sp) (spans None ss)"
    by (intro filter_cong) auto
  then show ?thesis by simp
qed

lemma sum_list_concat_filter: "sum_list (map f (filter P (concat xss))) = sum_list (map (\<lambda>xs. sum_list (map f (filter P xs))) xss)"
  by (induction xss) simp_all

lemma hour_total_series:
  assumes "b mod hour = 0"
  shows "0 \<le> hour_total b (spans None (sort_key sa_at ss)) \<and>
    hour_total b (spans None (sort_key sa_at ss)) \<le> hour + max_sample_interval"
proof -
  have "\<forall>sp \<in> set (spans None (sort_key sa_at ss)). 0 \<le> snd sp" by (rule spans_nonneg) simp_all
  then have "0 \<le> hour_total b (spans None (sort_key sa_at ss))"
    unfolding hour_total_def by (intro sum_list_nonneg) auto
  moreover have "hour_total b (spans None (sort_key sa_at ss)) \<le> hour + max_sample_interval"
  proof (rule order_trans)
    show "hour_total b (spans None (sort_key sa_at ss)) \<le> (case sort_key sa_at ss of [] \<Rightarrow> 0 | s # _ \<Rightarrow>
        if b + hour \<le> sa_at s then 0 else b + hour - max b (sa_at s) + max_sample_interval)"
      by (rule hour_total_bound [OF _ assms]) simp
    show "(case sort_key sa_at ss of [] \<Rightarrow> 0 | s # _ \<Rightarrow>
        if b + hour \<le> sa_at s then 0 else b + hour - max b (sa_at s) + max_sample_interval) \<le> hour + max_sample_interval"
      using hour_interval_pos by (auto split: list.split simp: max_def)
  qed
  ultimately show ?thesis ..
qed

lemma seconds_add: "seconds (a + b) = seconds a + seconds b"
  by (simp add: seconds_def add_divide_distrib)

lemma seconds_sum_list: "sum_list (map (seconds o f) xs) = seconds (sum_list (map f xs))"
  by (induction xs) (simp_all add: seconds_add, simp add: seconds_def)

lemma covered_bound:
  assumes "b mod hour = 0"
  shows "0 \<le> sum_list (map snd (filter (cpu_in_key (b, username, hub)) (all_spans ss)))
    \<and> sum_list (map snd (filter (cpu_in_key (b, username, hub)) (all_spans ss)))
       \<le> int (length (cpu_series username hub ss)) * (hour + max_sample_interval)"
proof -
  let ?run = "\<lambda>k. spans None (sort_key sa_at (filter (\<lambda>s. series_key s = k) ss))"
  let ?P = "\<lambda>(u, h, p, m). u = username \<and> h = hub \<and> m \<in> set cpu_metrics"
  have one: "sum_list (map snd (filter (cpu_in_key (b, username, hub)) (?run k))) = (if ?P k then hour_total b (?run k) else 0)" for k
    using cpu_in_series [of "sort_key sa_at (filter (\<lambda>s. series_key s = k) ss)" k b username hub] by (simp add: hour_total_def)
  have keys: "0 \<le> sum_list (map (\<lambda>k. if ?P k then hour_total b (?run k) else 0) ks)
      \<and> sum_list (map (\<lambda>k. if ?P k then hour_total b (?run k) else 0) ks) \<le> int (length (filter ?P ks)) * (hour + max_sample_interval)"
    for ks
  proof (induction ks)
    case (Cons k ks)
    with hour_total_series [OF assms, of "filter (\<lambda>s. series_key s = k) ss"] show ?case by (auto simp: algebra_simps)
  qed simp
  have "map (\<lambda>xs. sum_list (map snd (filter (cpu_in_key (b, username, hub)) xs))) (map (spans None) (series ss))
      = map (\<lambda>k. if ?P k then hour_total b (?run k) else 0) (remdups (map series_key ss))"
    unfolding series_def map_map comp_def by (rule map_cong [OF refl]) (rule one)
  then show ?thesis
    using keys [of "remdups (map series_key ss)"] unfolding all_spans_def sum_list_concat_filter cpu_series_def by simp
qed

lemma usage_key_of_row: "usage_key_of (usage_row_of greatest d sps sessions key) = key"
  by (simp add: usage_key_of_def usage_row_of_def Let_def)

lemma usage_row_covered:
  "ur_covered (usage_row_of greatest d sps sessions key) = sum_list (map (seconds o snd) (filter (cpu_in_key key) sps))"
proof -
  have "of_metrics cpu_metrics (filter (\<lambda>sp. span_key sp = key) sps) = filter (cpu_in_key key) sps"
    unfolding of_metrics_def filter_filter cpu_in_key_def ..
  then show ?thesis by (simp add: usage_row_of_def Let_def)
qed

lemma rollup_row_covered:
  assumes "row \<in> set (rollup_rows greatest start through t)"
  shows "ur_covered row = seconds (sum_list (map snd (filter (cpu_in_key (usage_key_of row))
    (all_spans (filter (rollup_sample start through) (mt_samples t))))))"
proof -
  from assms obtain sessions key where
    "row = usage_row_of greatest (mt_store t) (all_spans (filter (rollup_sample start through) (mt_samples t))) sessions key"
    unfolding rollup_rows_def Let_def set_map by blast
  then show ?thesis by (simp only: usage_key_of_row usage_row_covered seconds_sum_list)
qed

lemma bucket_on_hour:
  assumes "filter (cpu_in_key (b, username, hub)) sps \<noteq> []"
  shows "b mod hour = 0"
proof -
  from assms obtain sp where "cpu_in_key (b, username, hub) sp" by (auto simp: filter_empty_conv)
  then have "b = sa_at (fst sp) - sa_at (fst sp) mod hour" by (simp add: cpu_in_key_def span_key_def truncate_to_def)
  then show ?thesis by (simp add: minus_mod_eq_mult_div)
qed

text \<open>C37: Consumption is never over-counted: the time a row counts as observed is at most an hour and one sampling interval
  for each processor series of its user and hub, however the samples lie and whatever gaps they have.\<close>

theorem observed_time_bounded:
  assumes "row \<in> set (rollup_rows greatest start through t)"
  shows "0 \<le> ur_covered row \<and> ur_covered row \<le>
    of_nat (length (cpu_series (ur_username row) (ur_hub_name row) (filter (rollup_sample start through) (mt_samples t)))) * 3750"
proof -
  let ?ss = "filter (rollup_sample start through) (mt_samples t)"
  let ?mine = "filter (cpu_in_key (usage_key_of row)) (all_spans ?ss)"
  have zero: "seconds 0 = 0" by (simp add: seconds_def)
  show ?thesis
  proof (cases "?mine = []")
    case True
    then show ?thesis using rollup_row_covered [OF assms] zero by simp
  next
    case False
    then have "ur_bucket row mod hour = 0" unfolding usage_key_of_def by (rule bucket_on_hour)
    from covered_bound [OF this, of "ur_username row" "ur_hub_name row" ?ss]
    have bound: "0 \<le> sum_list (map snd ?mine)" "sum_list (map snd ?mine)
        \<le> int (length (cpu_series (ur_username row) (ur_hub_name row) ?ss)) * (hour + max_sample_interval)"
      unfolding usage_key_of_def by blast+
    have mono: "x \<le> y \<Longrightarrow> seconds x \<le> seconds y" for x y by (simp add: seconds_def divide_right_mono)
    have "seconds (int n * (hour + max_sample_interval)) = of_nat n * 3750" for n
      by (simp add: seconds_def hour_def minute_def second_def max_sample_interval_def)
    with mono [OF bound(1)] mono [OF bound(2)] zero show ?thesis
      unfolding rollup_row_covered [OF assms] by simp
  qed
qed

text \<open>Rolling up the same window again changes nothing, so an interrupted or repeated rollup is harmless.\<close>

definition settled :: "usage_row \<Rightarrow> usage_row list \<Rightarrow> bool" where
  "settled row rows \<longleftrightarrow> (\<exists>r \<in> set rows. usage_key_of r = usage_key_of row)
     \<and> (\<forall>r \<in> set rows. usage_key_of r = usage_key_of row \<longrightarrow> merge_usage row r = r)"

lemma merge_key [simp]: "usage_key_of (merge_usage row r) = usage_key_of row"
  by (simp add: merge_usage_def usage_key_of_def)

lemma merge_again [simp]: "merge_usage row (merge_usage row r) = merge_usage row r" "merge_usage row row = row"
  by (simp_all add: merge_usage_def)

lemma put_settles: "settled row (put_usage row rows)"
proof (cases "\<exists>r \<in> set rows. usage_key_of r = usage_key_of row")
  case True
  then obtain r where "r \<in> set rows" "usage_key_of r = usage_key_of row" by blast
  then have "merge_usage row r \<in> set (put_usage row rows)" by (force simp: put_usage_def list_ex_bool_iff)
  moreover have "\<forall>r \<in> set (put_usage row rows). usage_key_of r = usage_key_of row \<longrightarrow> merge_usage row r = r"
    using True by (auto simp: put_usage_def list_ex_bool_iff)
  ultimately show ?thesis unfolding settled_def using merge_key by blast
next
  case False
  then show ?thesis by (auto simp: settled_def put_usage_def list_ex_bool_iff)
qed

lemma put_keeps_settled:
  assumes "settled row rows" and "usage_key_of row' \<noteq> usage_key_of row"
  shows "settled row (put_usage row' rows)"
  using assms by (auto simp: settled_def put_usage_def list_ex_bool_iff)

lemma put_settled: "settled row rows \<Longrightarrow> put_usage row rows = rows"
  by (auto simp: settled_def put_usage_def list_ex_bool_iff intro!: map_idI)

lemma fold_settles:
  "distinct (map usage_key_of new) \<Longrightarrow> row \<in> set new \<Longrightarrow> settled row (fold put_usage new rows)"
proof (induction new arbitrary: rows)
  case (Cons r new)
  have keep: "settled r (fold put_usage xs rs)" if "settled r rs" "usage_key_of r \<notin> image usage_key_of (set xs)" for xs rs
    using that
  proof (induction xs arbitrary: rs)
    case (Cons a xs)
    then have "settled r (put_usage a rs)" by (auto intro: put_keeps_settled)
    with Cons show ?case by simp
  qed simp
  from Cons show ?case by (auto intro: keep put_settles)
qed simp

lemma fold_settled: "\<forall>row \<in> set new. settled row rows \<Longrightarrow> fold put_usage new rows = rows"
  by (induction new) (auto simp: put_settled)

theorem rollup_repeatable:
  "run_rollup greatest start through (run_rollup greatest start through t) = run_rollup greatest start through t"
proof -
  have same: "rollup_rows greatest start through (run_rollup greatest start through t) = rollup_rows greatest start through t"
    by (simp add: rollup_rows_def run_rollup_def)
  have "distinct (map usage_key_of (rollup_rows greatest start through t))"
    by (simp add: rollup_rows_def Let_def comp_def usage_key_of_row)
  then have "\<forall>row \<in> set (rollup_rows greatest start through t).
      settled row (fold put_usage (rollup_rows greatest start through t) (mt_usage t))"
    by (blast intro: fold_settles)
  from fold_settled [OF this] show ?thesis unfolding run_rollup_def [of _ _ _ "run_rollup _ _ _ _"] same
    by (simp add: run_rollup_def)
qed

section \<open>Two hours of one pod\<close>

definition ana_sample :: "time \<Rightarrow> sample_row" where
  "ana_sample at_time =
     \<lparr>sa_source = ''prometheus'', sa_metric = ''cpu_cores'', sa_kind = ''generic'',
       sa_labels = [(''pod'', ''jupyter-ana''), (''username'', ''ana''), (''hub'', ''lab'')], sa_value = 1, sa_at = at_time\<rparr>"

text \<open>Ana's pod was sampled every 30 seconds and stopped right after ten o'clock.\<close>

definition ana_tables :: metric_db where
  "ana_tables =
     \<lparr>mt_store = (fresh_store 0)\<lparr>db_server_sessions := [\<lparr>ss_server_id = None, ss_hub_id = 7, ss_username = ''ana'',
           ss_server_name = [], ss_started_at = 10 * hour + 30 * minute, ss_last_activity_at = None,
           ss_ended_at = Some (11 * hour + 2 * minute)\<rparr>]\<rparr>,
       mt_samples = [ana_sample (10 * hour - 20 * second), ana_sample (10 * hour + 10 * second)],
       mt_llm = [], mt_usage = [], mt_rolled = 10 * hour\<rparr>"

definition roll_at :: "time \<Rightarrow> metric_db \<Rightarrow> metric_db" where
  "roll_at now t = snd (snd (roll_up_resource_usage hd now [] t))"

definition cpu_in_bucket :: "time \<Rightarrow> metric_db \<Rightarrow> rat" where
  "cpu_in_bucket b t = sum_list (map ur_cpu_seconds (filter (\<lambda>r. ur_bucket r = b) (mt_usage t)))"

theorem observed_time_bounded_witness:
  "ur_covered (hd (rollup_rows hd (7 * hour) (11 * hour) ana_tables)) \<le> 3750"
proof -
  let ?row = "hd (rollup_rows hd (7 * hour) (11 * hour) ana_tables)"
  have "rollup_rows hd (7 * hour) (11 * hour) ana_tables \<noteq> []" by code_simp
  then have row: "?row \<in> set (rollup_rows hd (7 * hour) (11 * hour) ana_tables)" by simp
  have "length (cpu_series (ur_username ?row) (ur_hub_name ?row)
      (filter (rollup_sample (7 * hour) (11 * hour)) (mt_samples ana_tables))) = 1"
    by code_simp
  with observed_time_bounded [OF row] show ?thesis by simp
qed

text \<open>The last rollup that reaches an hour starts with it, so a series with one sample left in the window has lost the
  sample before it, and its span becomes the cap: the phantom span that inheriting the cadence was to prevent. The
  consumption of the hour goes from 30 core-seconds to 150.\<close>

theorem phantom_span_at_window_start:
  "cpu_in_bucket (10 * hour) (roll_at (11 * hour + 5 * minute) ana_tables) = 30
   \<and> cpu_in_bucket (10 * hour) (roll_at (14 * hour + 5 * minute) (roll_at (13 * hour + 5 * minute)
        (roll_at (12 * hour + 5 * minute) (roll_at (11 * hour + 5 * minute) ana_tables)))) = 150"
proof (rule conjI)
  show "cpu_in_bucket (10 * hour) (roll_at (11 * hour + 5 * minute) ana_tables) = 30" by code_simp
  show "cpu_in_bucket (10 * hour) (roll_at (14 * hour + 5 * minute) (roll_at (13 * hour + 5 * minute)
      (roll_at (12 * hour + 5 * minute) (roll_at (11 * hour + 5 * minute) ana_tables)))) = 150" by code_simp
qed

text \<open>A session that ended in the hour that is still running gives that hour a row already, which says that nothing was
  used.\<close>

theorem running_hour_gets_empty_row:
  "map ur_runtime (filter (\<lambda>r. ur_bucket r = 11 * hour) (mt_usage (roll_at (11 * hour + 5 * minute) ana_tables))) = [0]"
  by code_simp

end
