(* ===== verification/Metric_Reads.thy ===== *)
theory Metric_Reads
  imports Metrics Store_Queries
begin

text \<open>
  How the stored samples are read (\<^verbatim>\<open>internal/store/metrics.go\<close>, last part, with the freshness rules of
  \<^verbatim>\<open>internal/store/settings.go\<close>): the list of samples and the current use of graphics processors. \<open>ordered\<close> is the order of a
  list, \<open>parse_time\<close> reads a time stamp.
\<close>

section \<open>Freshness\<close>

definition metric_sample_time :: "(string \<Rightarrow> time option) \<Rightarrow> json \<Rightarrow> time option" where
  "metric_sample_time parse_time v = (case v of JStr s \<Rightarrow> if s = [] then None else parse_time s | _ \<Rightarrow> None)"

definition session_snapshot_stale :: "time \<Rightarrow> time \<Rightarrow> int \<Rightarrow> bool" where
  "session_snapshot_stale now synced interval =
     (let configured = wrap64 (wrap64 (2 * interval) * second);
          window = (if configured > 5 * minute then configured else 5 * minute)
      in synced = zero_time \<or> now - synced > window)"

definition value_or_zero :: "time option \<Rightarrow> time" where
  "value_or_zero t = (case t of None \<Rightarrow> zero_time | Some x \<Rightarrow> x)"

definition optional_number :: "json \<Rightarrow> rat option" where
  \<comment> \<open>of a decoded document\<close>
  "optional_number v = (case v of JNum n \<Rightarrow> Some n | _ \<Rightarrow> None)"

definition gpu_metric_snapshot ::
  "(string \<Rightarrow> time option) \<Rightarrow> json_object \<Rightarrow> time \<Rightarrow> int \<Rightarrow> rat option \<times> rat option \<times> time option \<times> bool" where
  "gpu_metric_snapshot parse_time detail now interval =
     (let sampled = metric_sample_time parse_time (lookup detail ''gpu_sampled_at'');
          stale = (sampled = None \<or> now + minute < value_or_zero sampled
            \<or> session_snapshot_stale now (value_or_zero sampled) interval)
      in if stale then (None, None, sampled, True)
         else (optional_number (lookup detail ''gpu_utilization''), optional_number (lookup detail ''vram_bytes''), sampled, False))"

section \<open>Lists\<close>

definition gpu_monitoring_on :: "bool metric_tx" where
  \<comment> \<open>the error of the read is dropped\<close>
  "gpu_monitoring_on =
     tx_bind (tx_try (on_store (get_setting ''features''))) (\<lambda>r. tx_return (feature_on ''gpu_monitoring'' r))"

definition sample_listed :: "bool \<Rightarrow> time \<Rightarrow> time \<Rightarrow> string \<Rightarrow> sample_row \<Rightarrow> bool" where
  "sample_listed gpu from until metric s =
     (from \<le> sa_at s \<and> sa_at s \<le> until \<and> (metric = [] \<or> sa_metric s = metric) \<and> (gpu \<or> sa_kind s \<noteq> ''gpu''))"

definition metrics ::
  "(sample_row list \<Rightarrow> sample_row list) \<Rightarrow> time \<Rightarrow> time \<Rightarrow> string \<Rightarrow> int \<Rightarrow> (sample_row list \<times> bool) metric_tx" where
  "metrics ordered from until metric limit =
     tx_bind gpu_monitoring_on (\<lambda>gpu.
     if gpu_feature_blocked metric gpu then tx_return ([], True)
     else tx_bind (query db_failed (\<lambda>t. take (nat (bounded_limit limit 1000 5000))
            (ordered (filter (sample_listed gpu from until metric) (mt_samples t))))) (\<lambda>items.
          tx_return (items, False)))"

record gpu_view =
  gv_server :: server_row
  gv_hub_name :: string
  gv_network :: string
  gv_count :: int
  gv_utilization :: "rat option"
  gv_vram :: "rat option"
  gv_sampled_at :: "time option"
  gv_stale :: bool

definition uses_gpu :: "server_row \<Rightarrow> bool" where
  "uses_gpu s =
     (sv_status s = ''running'' \<and> ((case sv_gpu_count s of None \<Rightarrow> 0 | Some n \<Rightarrow> n) > 0
      \<or> has_key (sv_raw s) ''gpu_utilization'' \<or> has_key (sv_raw s) ''vram_bytes''))"

definition gpu_view_of :: "(string \<Rightarrow> time option) \<Rightarrow> time \<Rightarrow> server_row \<times> hub_row \<Rightarrow> gpu_view" where
  "gpu_view_of parse_time now row =
     (let (utilization, vram, sampled, stale) = gpu_metric_snapshot parse_time (sv_raw (fst row)) now (hb_interval (snd row))
      in \<lparr>gv_server = fst row, gv_hub_name = hb_name (snd row), gv_network = hb_network (snd row),
           gv_count = (case sv_gpu_count (fst row) of None \<Rightarrow> 0 | Some n \<Rightarrow> n), gv_utilization = utilization, gv_vram = vram,
           gv_sampled_at = sampled, gv_stale = stale\<rparr>)"

definition gpu_usage ::
  "((server_row \<times> hub_row) list \<Rightarrow> (server_row \<times> hub_row) list) \<Rightarrow> (string \<Rightarrow> time option) \<Rightarrow> time \<Rightarrow> gpu_view list store_tx" where
  "gpu_usage ordered parse_time now =
     query DbError (\<lambda>d. map (gpu_view_of parse_time now) (ordered (filter (\<lambda>r. uses_gpu (fst r)) (server_hub_rows d))))"

section \<open>Graphics metrics stay hidden while the feature is off\<close>

lemma gpu_off_read:
  assumes "\<not> feature_row_on ''gpu_monitoring'' (mt_store t)" and "gpu_monitoring_on fs t = (Inr gpu, fs', t')"
  shows "t' = t \<and> \<not> gpu"
proof -
  from assms(2) obtain r where r: "on_store (get_setting ''features'') fs t = (r, fs', t')"
    and gpu: "gpu = feature_on ''gpu_monitoring'' r"
    by (auto simp: gpu_monitoring_on_def tx_bind_Inr tx_try_Inr)
  from r have "t' = t \<and> (\<forall>v. r = Inr v \<longrightarrow> (\<exists>s. find (\<lambda>s. st_key s = ''features'') (db_settings (mt_store t)) = Some s \<and> v = st_value s))"
    by (auto simp: on_store_def on_part_def get_setting_def query_row_def statement_def Let_def
        split: prod.splits sum.splits if_split_asm option.splits)
  with assms(1) show ?thesis
    by (auto simp: gpu feature_on_def feature_row_on_def split: sum.splits option.splits json.splits)
qed

lemma gpu_save_refused:
  assumes "\<not> feature_row_on ''gpu_monitoring'' (mt_store t)" and "save_metric_points env generation source name True points fs t = (r, fs', t')"
  shows "t' = t"
proof (cases "points = []")
  case True
  with assms(2) show ?thesis by (simp add: save_metric_points_def tx_return_def)
next
  case False
  let ?I = "\<lambda>x. x = t"
  have "delivers ?I (or_error (feature_enabled_for_save ''gpu_monitoring'')) (\<lambda>on. \<not> on)"
    unfolding feature_enabled_for_save_def
    by (rule delivers_or_error, rule delivers_query) (use assms(1) in simp)
  then have "keeps ?I (tx_bind (or_error (feature_enabled_for_save ''gpu_monitoring'')) (\<lambda>on.
      tx_bind (return_early_if (\<not> on) True) (\<lambda>_.
      tx_bind (or_error (foreach (save_metric_point env source name True) points)) (\<lambda>_. tx_return True))))"
    by (intro delivers_keeps [where Q = "\<lambda>_. True"] delivers_bind [where Q = "\<lambda>on. \<not> on"])
      (auto simp: return_early_if_def tx_bind_def delivers_def tx_throw_def)
  note tail = this
  have "keeps ?I (save_metric_points env generation source name True points)"
    unfolding save_metric_points_def if_True
    by (rule keeps_if, rule keeps_pure)
      (rule tail keeps_with_early keeps_transaction keeps_check_generation keeps_bind)+
  from keepsD [OF this refl assms(2)] show ?thesis .
qed

text \<open>While the monitoring of graphics processors is off, nothing about them goes in or out: a sample whose name or query
  speaks of them is not stored, and a list of samples shows none that was stored before as one of theirs.\<close>

theorem gpu_samples_hidden:
  assumes "\<not> feature_row_on ''gpu_monitoring'' (mt_store t)" and "is_gpu_metric name q"
    and "save_prometheus_metric_points_if_current env generation name q points fs t = (r, fs1, t1)"
    and "metrics ordered from until metric limit fs1 t1 = (Inr (items, blocked), fs2, t2)"
    and "\<And>ss. set (ordered ss) \<subseteq> set ss"
  shows "t1 = t \<and> list_all (\<lambda>s. sa_kind s \<noteq> ''gpu'' \<and> s \<in> set (mt_samples t)) items \<and> int (length items) \<le> 5000"
proof -
  from assms(2,3) have "save_metric_points env (Some generation) ''prometheus'' name True points fs t = (r, fs1, t1)"
    by (simp add: save_prometheus_metric_points_if_current_def)
  from gpu_save_refused [OF assms(1) this] have t1: "t1 = t" .
  have "bounded_limit limit 1000 5000 \<le> 5000" by (simp add: bounded_limit_def Let_def)
  then have "length (take (nat (bounded_limit limit 1000 5000)) (xs :: sample_row list)) \<le> 5000" for xs
    by (simp add: nat_le_iff min.coboundedI2)
  moreover have "list_all (\<lambda>s. sa_kind s \<noteq> ''gpu'' \<and> s \<in> set (mt_samples t))
      (take n (ordered (filter (sample_listed False from until metric) (mt_samples t))))" for n
    using assms(5) by (force simp: list_all_iff sample_listed_def dest: in_set_takeD)
  ultimately show ?thesis
    using assms(4) unfolding t1
    by (auto simp: metrics_def tx_bind_Inr query_Inr split: if_split_asm dest!: gpu_off_read [OF assms(1)])
qed

definition gpu_point :: metric_point where
  "gpu_point = \<lparr>mp_labels = [(''pod'', ''jupyter-ana'')], mp_value = Finite 3, mp_at = 60 * second\<rparr>"

definition old_sample :: "string \<Rightarrow> sample_row" where
  "old_sample kind = \<lparr>sa_source = ''prometheus'', sa_metric = ''accelerators'', sa_kind = kind, sa_labels = [], sa_value = 1, sa_at = 9\<rparr>"

definition quiet_tables :: metric_db where
  "quiet_tables = \<lparr>mt_store = fresh_store 5, mt_samples = [old_sample ''gpu'', old_sample ''generic''], mt_llm = [],
     mt_usage = [], mt_rolled = 0\<rparr>"

definition plain_env :: metric_env where
  "plain_env = \<lparr>me_pattern = \<lparr>pp_capture_names = (\<lambda>_. None), pp_submatches = (\<lambda>pattern pod. None)\<rparr>, me_digest = (\<lambda>s. s),
     me_render = (\<lambda>_. []), me_stamp = (\<lambda>_. [])\<rparr>"

definition no_generation :: integration_generation where
  "no_generation = \<lparr>ig_keys = [], ig_secret_key = [], ig_config = [], ig_inventory = []\<rparr>"

theorem gpu_samples_hidden_witness:
  "\<exists>items. metrics (\<lambda>ss. ss) 0 10 [] 50 [] quiet_tables = (Inr (items, False), [], quiet_tables)
     \<and> map sa_kind items = [''generic''] \<and> list_all (\<lambda>s. sa_kind s \<noteq> ''gpu'') items"
proof -
  let ?save = "save_prometheus_metric_points_if_current plain_env no_generation ''load'' ''avg(DCGM_FI_DEV_GPU_UTIL)'' [gpu_point] [] quiet_tables"
  have saved: "?save = (Inr False, [], quiet_tables)" by code_simp
  have "case metrics (\<lambda>ss. ss) 0 10 [] 50 [] quiet_tables of
      (Inr (items, blocked), fs, t) \<Rightarrow> \<not> blocked \<and> fs = [] \<and> t = quiet_tables \<and> map sa_kind items = [''generic''] | _ \<Rightarrow> False"
    by code_simp
  then obtain items where list: "metrics (\<lambda>ss. ss) 0 10 [] 50 [] quiet_tables = (Inr (items, False), [], quiet_tables)"
    and kinds: "map sa_kind items = [''generic'']"
    by (auto split: prod.splits sum.splits)
  have off: "\<not> feature_row_on ''gpu_monitoring'' (mt_store quiet_tables)" by code_simp
  have gpu: "is_gpu_metric ''load'' ''avg(DCGM_FI_DEV_GPU_UTIL)''" by code_simp
  from gpu_samples_hidden [OF off gpu saved list] list kinds show ?thesis by (auto simp: list_all_iff)
qed

end
