(* ===== verification/Event_Stream.thy ===== *)
theory Event_Stream
  imports Tx_Results Json
begin

text \<open>Server-sent events: a handler sends one event at once and one per tick of a five second timer, until a send asks it
  to stop or the client goes away (the ticks end).\<close>

datatype 'a sse_event = SseData 'a | SseError

type_synonym ('d, 'e, 'a) sender = "nat \<Rightarrow> ('d, 'e, 'a sse_event list \<times> bool) tx"

primrec sse_loop :: "('d, 'e, 'a) sender \<Rightarrow> nat \<Rightarrow> nat \<Rightarrow> ('d, 'e, 'a sse_event list) tx" where
  \<comment> \<open>\<open>k\<close> is the number of the next send, the first argument after it the sends the client stays for\<close>
  "sse_loop send k 0 = tx_return []"
| "sse_loop send k (Suc n) =
     tx_bind (send k) (\<lambda>(events, go_on).
     if \<not> go_on then tx_return events
     else tx_bind (sse_loop send (Suc k) n) (\<lambda>rest. tx_return (events @ rest)))"

fun is_data :: "'a sse_event \<Rightarrow> bool" where
  "is_data (SseData _) = True"
| "is_data SseError = False"

text \<open>A sender sends at most one event, and stops after an error.\<close>

locale event_sender =
  fixes send :: "('d, 'e, 'a) sender" and good :: "'a \<Rightarrow> bool"
  assumes sends: "send k fs d = (Inr (events, go_on), fs', d') \<Longrightarrow>
      (if go_on then \<exists>x. events = [SseData x] \<and> good x else events = [] \<or> events = [SseError])"
begin

lemma stream_shape:
  assumes "sse_loop send k n fs d = (Inr events, fs', d')"
  shows "\<exists>xs. list_all good xs \<and> length xs \<le> n \<and> (events = map SseData xs \<or> events = map SseData xs @ [SseError])"
  using assms
proof (induction n arbitrary: k fs d events)
  case 0
  then show ?case by (intro exI [of _ "[]"]) simp
next
  case (Suc n)
  from Suc.prems obtain es go_on fs1 d1 where first: "send k fs d = (Inr (es, go_on), fs1, d1)"
    and rest: "(if \<not> go_on then tx_return es
      else tx_bind (sse_loop send (Suc k) n) (\<lambda>rest. tx_return (es @ rest))) fs1 d1 = (Inr events, fs', d')"
    by (auto simp: tx_bind_Inr)
  show ?case
  proof (cases go_on)
    case True
    with sends [OF first] obtain x where x: "es = [SseData x]" "good x" by auto
    from rest True obtain tail where tail: "sse_loop send (Suc k) n fs1 d1 = (Inr tail, fs', d')" and "events = es @ tail"
      by (auto simp: tx_bind_Inr)
    with Suc.IH [OF tail] x show ?thesis
      by (elim exE) (rule_tac x = "x # xs" in exI, auto)
  next
    case False
    with sends [OF first] rest have "events = [] \<or> events = [SseError]" by auto
    then show ?thesis by (intro exI [of _ "[]"]) auto
  qed
qed

end

end
