(* ===== verification/Llm_Views.thy ===== *)
theory Llm_Views
  imports Usage_Rollup Metric_Reads Http_Request Event_Stream "HOL-Library.Multiset"
begin

text \<open>The reports on the use of language models (\<^verbatim>\<open>LLMUsage\<close> in \<^verbatim>\<open>internal/store/settings.go\<close>) and their two handlers
  in \<^verbatim>\<open>internal/api/core_handlers.go\<close>. Items are the maps the code builds, an unset pointer being null. \<open>ordered\<close> is the
  order by calls of a query, \<open>parse_time\<close> is RFC 3339.\<close>

section \<open>Summaries\<close>

definition any_number :: "json \<Rightarrow> rat" where
  "any_number v = (case optional_number v of None \<Rightarrow> 0 | Some n \<Rightarrow> n)"

definition added :: "int list \<Rightarrow> int" where
  \<comment> \<open>a counter of 64 bits\<close>
  "added ns = fold (\<lambda>n acc. wrap64 (acc + n)) ns 0"

definition counted :: "json_object list \<Rightarrow> string \<Rightarrow> int" where
  "counted items key = added (map (\<lambda>item. truncated (any_number (lookup item key))) items)"

definition given_numbers :: "json_object list \<Rightarrow> string \<Rightarrow> rat list" where
  "given_numbers items key = List.map_filter (\<lambda>item. optional_number (lookup item key)) items"

definition optional_count :: "json_object list \<Rightarrow> string \<Rightarrow> json" where
  "optional_count items key =
     (case given_numbers items key of [] \<Rightarrow> JNull | ns \<Rightarrow> JNum (of_int (added (map truncated ns))))"

definition optional_total :: "json_object list \<Rightarrow> string \<Rightarrow> json" where
  "optional_total items key = (case given_numbers items key of [] \<Rightarrow> JNull | ns \<Rightarrow> JNum (sum_list ns))"

definition optional_maximum :: "json_object list \<Rightarrow> string \<Rightarrow> json" where
  "optional_maximum items key = (case given_numbers items key of [] \<Rightarrow> JNull | n # ns \<Rightarrow> JNum (fold max ns n))"

definition observed_success_rate :: "int \<Rightarrow> int \<Rightarrow> json" where
  "observed_success_rate success failures =
     (let observed = wrap64 (success + failures)
      in if observed \<le> 0 then JNull else JNum (of_int success / of_int observed))"

definition summarize_llm_items :: "json_object list \<Rightarrow> json_object" where
  "summarize_llm_items items =
     (let success = counted items ''success''; failures = counted items ''errors''
      in [(''calls'', JNum (of_int (counted items ''calls''))), (''success'', JNum (of_int success)),
          (''errors'', JNum (of_int failures)), (''success_rate'', observed_success_rate success failures),
          (''status_observed_calls'', JNum (of_int (wrap64 (success + failures)))),
          (''input_tokens'', optional_count items ''input_tokens''), (''output_tokens'', optional_count items ''output_tokens''),
          (''total_tokens'', optional_count items ''total_tokens''), (''bytes'', optional_count items ''bytes''),
          (''estimated_cost'', optional_total items ''estimated_cost''),
          (''latency_p50_ms'', optional_maximum items ''latency_p50_ms''),
          (''latency_p95_ms'', optional_maximum items ''latency_p95_ms'')])"

section \<open>Breakdown by user and pod\<close>

definition item_text :: "string \<Rightarrow> json_object \<Rightarrow> string" where
  "item_text key item = string_or_empty (lookup item key)"

definition grouped_by :: "string \<Rightarrow> json_object list \<Rightarrow> (string \<times> json_object list) list" where
  \<comment> \<open>the groups by name, the items of each in the order they come\<close>
  "grouped_by key items =
     map (\<lambda>name. (name, filter (\<lambda>item. item_text key item = name) items)) (sort (remdups (map (item_text key) items)))"

record pod_breakdown =
  pb_pod :: string
  pb_summary :: json_object
  pb_models :: "json_object list"

record user_breakdown =
  ub_username :: string
  ub_summary :: json_object
  ub_pods :: "pod_breakdown list"

definition pod_breakdown_of :: "string \<times> json_object list \<Rightarrow> pod_breakdown" where
  "pod_breakdown_of g =
     (let models = sort_key (item_text ''model'') (snd g)
      in \<lparr>pb_pod = fst g, pb_summary = summarize_llm_items models, pb_models = models\<rparr>)"

definition user_breakdown_of :: "string \<times> json_object list \<Rightarrow> user_breakdown" where
  "user_breakdown_of g =
     (let pods = grouped_by ''pod_name'' (snd g)
      in \<lparr>ub_username = fst g, ub_summary = summarize_llm_items (concat (map snd pods)), ub_pods = map pod_breakdown_of pods\<rparr>)"

definition build_llm_breakdown :: "json_object list \<Rightarrow> user_breakdown list" where
  "build_llm_breakdown items = map user_breakdown_of (grouped_by ''username'' items)"

section \<open>Queries\<close>

definition scanned_int :: "int \<Rightarrow> int option" where
  \<comment> \<open>a sum of bigints is scanned into 64 bits\<close>
  "scanned_int n = (if int64_min \<le> n \<and> n \<le> int64_max then Some n else None)"

definition sum_of :: "(llm_row \<Rightarrow> int) \<Rightarrow> llm_row list \<Rightarrow> int option" where
  "sum_of f rows = scanned_int (sum_list (map f rows))"

definition json_of_int :: "int \<Rightarrow> json" where "json_of_int n = JNum (of_int n)"

definition json_of_rat_option :: "rat option \<Rightarrow> json" where
  "json_of_rat_option v = (case v of None \<Rightarrow> JNull | Some x \<Rightarrow> JNum x)"

definition sum_given :: "(llm_row \<Rightarrow> int option) \<Rightarrow> llm_row list \<Rightarrow> json option" where
  \<comment> \<open>null when no row has a value\<close>
  "sum_given f rows =
     (case List.map_filter f rows of [] \<Rightarrow> Some JNull | ns \<Rightarrow> map_option json_of_int (scanned_int (sum_list ns)))"

definition cost_given :: "llm_row list \<Rightarrow> json" where
  "cost_given rows = (case List.map_filter ll_cost rows of [] \<Rightarrow> JNull | xs \<Rightarrow> JNum (sum_list xs))"

definition largest_given :: "(llm_row \<Rightarrow> rat option) \<Rightarrow> llm_row list \<Rightarrow> json" where
  "largest_given f rows = (case List.map_filter f rows of [] \<Rightarrow> JNull | x # xs \<Rightarrow> JNum (fold max xs x))"

definition freshest :: "time list \<Rightarrow> time option" where
  "freshest ts = (case ts of [] \<Rightarrow> None | t # ts \<Rightarrow> Some (fold max ts t))"

definition last_sample :: "llm_row list \<Rightarrow> time" where
  \<comment> \<open>of the rows of a group, which are never none\<close>
  "last_sample rows = (case freshest (map ll_sampled_at rows) of None \<Rightarrow> zero_time | Some t \<Rightarrow> t)"

definition in_window :: "time \<Rightarrow> time \<Rightarrow> llm_row list \<Rightarrow> llm_row list" where
  "in_window from until = filter (\<lambda>r. from \<le> ll_sampled_at r \<and> ll_sampled_at r \<le> until)"

text \<open>One row of a query: its key, the fields it shares with the other query, when it was sampled; \<open>None\<close> when a value
  does not fit its Go type.\<close>

definition counts_of :: "llm_row list \<Rightarrow> (int \<times> int \<times> int) option" where
  "counts_of rows =
     (case (sum_of ll_calls rows, sum_of ll_success rows, sum_of ll_errors rows) of
        (Some calls, Some success, Some failures) \<Rightarrow> Some (calls, success, failures)
      | _ \<Rightarrow> None)"

definition tokens_of :: "llm_row list \<Rightarrow> json_object option" where
  "tokens_of rows =
     (case (sum_given ll_input rows, sum_given ll_output rows, sum_given ll_total rows, sum_given ll_bytes rows) of
        (Some i, Some out, Some t, Some b) \<Rightarrow>
          Some [(''input_tokens'', i), (''output_tokens'', out), (''total_tokens'', t), (''bytes'', b),
                (''estimated_cost'', cost_given rows)]
      | _ \<Rightarrow> None)"

definition detail_key :: "llm_row \<Rightarrow> string \<times> string \<times> string \<times> string" where
  "detail_key r = (ll_username r, ll_pod r, ll_hub r, ll_model r)"

definition detail_item :: "(string \<times> string \<times> string \<times> string) \<times> llm_row list \<Rightarrow> (json_object \<times> time) option" where
  "detail_item g =
     (case g of ((username, pod, hub, model), rows) \<Rightarrow>
       (case (counts_of rows, tokens_of rows) of
          (Some (calls, success, failures), Some tokens) \<Rightarrow>
            Some ([(''username'', JStr username), (''pod_name'', JStr pod), (''hub_name'', JStr hub), (''model'', JStr model),
                   (''calls'', json_of_int calls), (''success'', json_of_int success), (''errors'', json_of_int failures),
                   (''success_rate'', observed_success_rate success failures),
                   (''status_observed_calls'', json_of_int (wrap64 (success + failures))),
                   (''latency_p50_ms'', largest_given ll_p50 rows), (''latency_p95_ms'', largest_given ll_p95 rows)] @ tokens,
                  last_sample rows)
        | _ \<Rightarrow> None))"

definition group_item :: "string \<times> llm_row list \<Rightarrow> (json_object \<times> time) option" where
  "group_item g =
     (case (counts_of (snd g), tokens_of (snd g)) of
        (Some (calls, success, failures), Some tokens) \<Rightarrow>
          Some ([(''group'', JStr (fst g)), (''calls'', json_of_int calls), (''success'', json_of_int success),
                 (''errors'', json_of_int failures)] @ tokens, last_sample (snd g))
      | _ \<Rightarrow> None)"

definition row_groups :: "(llm_row \<Rightarrow> 'k) \<Rightarrow> llm_row list \<Rightarrow> ('k \<times> llm_row list) list" where
  "row_groups key rows = map (\<lambda>k. (k, filter (\<lambda>r. key r = k) rows)) (remdups (map key rows))"

definition trend_item :: "time \<times> llm_row list \<Rightarrow> (time \<times> int \<times> json \<times> json) option" where
  \<comment> \<open>a bucket whose sums do not fit is left out\<close>
  "trend_item g =
     (case (sum_of ll_calls (snd g), sum_given ll_total (snd g)) of
        (Some calls, Some tokens) \<Rightarrow> Some (fst g, calls, tokens, cost_given (snd g))
      | _ \<Rightarrow> None)"

definition trend_of :: "llm_row list \<Rightarrow> (time \<times> int \<times> json \<times> json) list" where
  "trend_of rows =
     List.map_filter trend_item (map (\<lambda>b. (b, filter (\<lambda>r. truncate_to hour (ll_sampled_at r) = b) rows))
       (sort (remdups (map (truncate_to hour o ll_sampled_at) rows))))"

section \<open>The report\<close>

record llm_report =
  lr_enabled :: bool
  lr_from :: time
  lr_to :: time
  lr_group_by :: string
  lr_data :: "(json_object \<times> time) list"
  lr_summary :: json_object
  lr_breakdown :: "user_breakdown list"
  lr_trend :: "(time \<times> int \<times> json \<times> json) list"
  lr_freshness :: "time option"
  lr_stale :: bool

type_synonym llm_order = "(json_object \<times> time) list \<Rightarrow> (json_object \<times> time) list"

definition llm_disabled :: "time \<Rightarrow> time \<Rightarrow> string \<Rightarrow> llm_report" where
  "llm_disabled from until group_by =
     \<lparr>lr_enabled = False, lr_from = from, lr_to = until, lr_group_by = group_by, lr_data = [],
       lr_summary = summarize_llm_items [], lr_breakdown = [], lr_trend = [], lr_freshness = None, lr_stale = False\<rparr>"

definition llm_feature :: "bool metric_tx" where
  \<comment> \<open>the error of the read is dropped\<close>
  "llm_feature = tx_bind (tx_try (on_store (get_setting ''features''))) (\<lambda>r. tx_return (feature_on ''llm_usage_monitoring'' r))"

definition llm_usage_stale :: "time \<Rightarrow> time option \<Rightarrow> bool metric_tx" where
  \<comment> \<open>an unreadable setting counts as none\<close>
  "llm_usage_stale now freshness =
     (case freshness of
        None \<Rightarrow> tx_return True
      | Some t \<Rightarrow>
          tx_bind (tx_try (on_store (get_setting ''llm_usage''))) (\<lambda>r.
          let given = (case r of Inl _ \<Rightarrow> 0 | Inr v \<Rightarrow>
                (case Option.bind (as_object v) (\<lambda>m. int_field m ''stale_seconds'') of None \<Rightarrow> 0 | Some n \<Rightarrow> n));
              limit = (if given < 30 \<or> 86400 < given then 300 else given)
          in tx_return (limit * second < now - t)))"

definition read_items :: "llm_order \<Rightarrow> (llm_row list \<Rightarrow> (json_object \<times> time) option list) \<Rightarrow> time \<Rightarrow> time
    \<Rightarrow> (json_object \<times> time) list metric_tx" where
  "read_items ordered items from until =
     statement db_failed (\<lambda>t.
       case those (items (in_window from until (mt_llm t))) of None \<Rightarrow> Inl db_failed | Some is \<Rightarrow> Inr (ordered is, t))"

definition llm_detail :: "llm_order \<Rightarrow> time \<Rightarrow> time \<Rightarrow> time \<Rightarrow> llm_report metric_tx" where
  "llm_detail ordered now from until =
     tx_bind llm_feature (\<lambda>enabled.
     if \<not> enabled then tx_return (llm_disabled from until ''detail'')
     else
       tx_bind (read_items ordered (map detail_item o row_groups detail_key) from until) (\<lambda>items.
       tx_bind (tx_try (query db_failed (\<lambda>t. trend_of (in_window from until (mt_llm t))))) (\<lambda>trend.
       tx_bind (llm_usage_stale now (freshest (map snd items))) (\<lambda>stale.
       tx_return
         \<lparr>lr_enabled = True, lr_from = from, lr_to = until, lr_group_by = ''detail'', lr_data = items,
           lr_summary = summarize_llm_items (map fst items), lr_breakdown = build_llm_breakdown (map fst items),
           lr_trend = (case trend of Inl _ \<Rightarrow> [] | Inr bs \<Rightarrow> bs), lr_freshness = freshest (map snd items),
           lr_stale = stale\<rparr>))))"

definition llm_columns :: "(string \<times> (llm_row \<Rightarrow> string)) list" where
  "llm_columns = [(''user'', ll_username), (''pod'', ll_pod), (''model'', ll_model)]"

definition llm_usage :: "llm_order \<Rightarrow> time \<Rightarrow> time \<Rightarrow> time \<Rightarrow> string \<Rightarrow> llm_report metric_tx" where
  "llm_usage ordered now from until asked =
     (if asked = ''detail'' then llm_detail ordered now from until
      else
        let group_by = (if map_of llm_columns asked = None then ''user'' else asked);
            column = (case map_of llm_columns group_by of None \<Rightarrow> ll_username | Some c \<Rightarrow> c)
        in tx_bind llm_feature (\<lambda>enabled.
           if \<not> enabled then tx_return (llm_disabled from until group_by)
           else
             tx_bind (read_items ordered (map group_item o row_groups column) from until) (\<lambda>items.
             tx_bind (llm_detail ordered now from until) (\<lambda>detail.
             tx_return (detail\<lparr>lr_enabled := True, lr_group_by := group_by, lr_data := items\<rparr>)))))"

section \<open>Ranges of time\<close>

definition span_of :: "request \<Rightarrow> (string \<Rightarrow> time option) \<Rightarrow> string \<Rightarrow> time \<Rightarrow> (http_error, time) res" where
  "span_of r parse_time name fallback =
     (let raw = trim_space (rq_query r name)
      in if raw = [] then Inr fallback
         else case parse_time raw of None \<Rightarrow> Inl (400, ''invalid_range'') | Some t \<Rightarrow> Inr t)"

definition bounded_time_range ::
  "(string \<Rightarrow> time option) \<Rightarrow> request \<Rightarrow> time \<Rightarrow> time \<Rightarrow> time \<Rightarrow> (http_error, time \<times> time) res" where
  "bounded_time_range parse_time r default_from default_to maximum =
     res_bind (span_of r parse_time ''to'' default_to) (\<lambda>until.
     res_bind (span_of r parse_time ''from'' default_from) (\<lambda>from.
     if \<not> from < until \<or> maximum < until - from then Inl (400, ''invalid_range'') else Inr (from, until)))"

definition llm_usage_parameters ::
  "(string \<Rightarrow> time option) \<Rightarrow> request \<Rightarrow> time \<Rightarrow> (http_error, time \<times> time \<times> string) res" where
  "llm_usage_parameters parse_time r now =
     res_bind (span_of r parse_time ''to'' now) (\<lambda>until.
     let width = (if rq_query r ''range'' = ''week'' then 7 * day else if rq_query r ''range'' = ''month'' then 30 * day else day)
     in res_bind (span_of r parse_time ''from'' (until - width)) (\<lambda>from.
        if \<not> from < until \<or> 366 * day < until - from then Inl (400, ''invalid_range'')
        else Inr (from, until, rq_query r ''group_by'')))"

section \<open>Handlers\<close>

type_synonym 'a metric_handler = "(metric_db, http_error, 'a) tx"

definition metric_failure :: "metric_error \<Rightarrow> http_error" where
  "metric_failure e = (case e of StoreFailed x \<Rightarrow> store_failure x | _ \<Rightarrow> (500, ''internal_error''))"

definition metric_call :: "'a metric_tx \<Rightarrow> 'a metric_handler" where
  "metric_call = tx_map_error metric_failure"

definition llm_usage_handler :: "llm_order \<Rightarrow> (string \<Rightarrow> time option) \<Rightarrow> time \<Rightarrow> request \<Rightarrow> llm_report metric_handler" where
  "llm_usage_handler ordered parse_time now r =
     tx_bind (tx_lift (llm_usage_parameters parse_time r now)) (\<lambda>(from, until, group_by).
     metric_call (llm_usage ordered now from until group_by))"

definition send_llm_usage ::
  "llm_order \<Rightarrow> (string \<Rightarrow> time option) \<Rightarrow> (nat \<Rightarrow> time) \<Rightarrow> request \<Rightarrow> (metric_db, http_error, llm_report) sender" where
  \<comment> \<open>\<open>clock\<close> is the time of each send\<close>
  "send_llm_usage ordered parse_time clock r k =
     (case llm_usage_parameters parse_time r (clock k) of
        Inl _ \<Rightarrow> tx_return ([], False)
      | Inr (from, until, group_by) \<Rightarrow>
          tx_bind (tx_try (llm_usage ordered (clock k) from until group_by)) (\<lambda>got.
          tx_return (case got of Inl _ \<Rightarrow> ([SseError], False) | Inr report \<Rightarrow> ([SseData report], True))))"

definition llm_usage_live ::
  "llm_order \<Rightarrow> (string \<Rightarrow> time option) \<Rightarrow> time \<Rightarrow> (nat \<Rightarrow> time) \<Rightarrow> bool \<Rightarrow> nat \<Rightarrow> request \<Rightarrow> llm_report sse_event list metric_handler" where
  \<comment> \<open>\<open>flushes\<close> tells whether the connection supports streaming\<close>
  "llm_usage_live ordered parse_time now clock flushes sends r =
     tx_bind (tx_lift (llm_usage_parameters parse_time r now)) (\<lambda>_.
     if \<not> flushes then tx_throw (501, ''streaming_unavailable'')
     else sse_loop (send_llm_usage ordered parse_time clock r) 0 sends)"

section \<open>The breakdown accounts for every item\<close>

lemma wrap64_word: "word_of_int (wrap64 x) = (word_of_int x :: 64 word)"
  by (simp add: wrap64_def)

lemma wrap64_add: "wrap64 (wrap64 a + b) = wrap64 (a + b)" "wrap64 (b + wrap64 a) = wrap64 (b + a)"
  by (simp_all add: wrap64_def flip: wi_hom_add)

lemma added_from: "fold (\<lambda>n acc. wrap64 (acc + n)) ns (wrap64 a) = wrap64 (a + sum_list ns)"
proof (induction ns arbitrary: a)
  case (Cons n ns)
  show ?case using Cons.IH [of "a + n"] by (simp add: wrap64_add ac_simps)
qed simp

lemma added_sum: "added ns = wrap64 (sum_list ns)"
  using added_from [of ns 0] by (simp add: added_def wrap64_def)

lemma added_perm: "mset ns = mset ns' \<Longrightarrow> added ns = added ns'"
  by (metis added_sum sum_mset_sum_list)

lemma counted_perm: "mset xs = mset ys \<Longrightarrow> counted xs key = counted ys key"
  unfolding counted_def by (rule added_perm) (metis mset_map)

lemma counted_concat: "counted (concat xss) key = added (map (\<lambda>xs. counted xs key) xss)"
proof (induction xss)
  case Nil
  then show ?case by (simp add: counted_def)
next
  case (Cons xs xss)
  have "added (map f xs @ map f ys) = wrap64 (added (map f xs) + added (map f ys))" for f :: "json_object \<Rightarrow> int" and ys
    by (simp add: added_sum wrap64_add)
  then have "counted (xs @ concat xss) key = wrap64 (counted xs key + counted (concat xss) key)"
    by (simp add: counted_def)
  also have "... = added (map (\<lambda>xs. counted xs key) (xs # xss))"
    unfolding Cons.IH by (simp add: added_sum wrap64_add)
  finally show ?case by simp
qed

lemma mset_by_key:
  assumes "distinct ks" and "image f (set xs) \<subseteq> set ks"
  shows "mset (concat (map (\<lambda>k. filter (\<lambda>x. f x = k) xs) ks)) = mset xs"
  using assms
proof (induction ks arbitrary: xs)
  case (Cons k ks)
  let ?rest = "filter (\<lambda>x. f x \<noteq> k) xs"
  have eq: "map (\<lambda>k'. filter (\<lambda>x. f x = k') xs) ks = map (\<lambda>k'. filter (\<lambda>x. f x = k') ?rest) ks"
    using Cons.prems(1) by (auto intro!: filter_cong)
  have "mset (concat (map (\<lambda>k'. filter (\<lambda>x. f x = k') xs) ks)) = mset ?rest"
    unfolding eq by (rule Cons.IH) (use Cons.prems in auto)
  moreover have "mset (filter (\<lambda>x. f x = k) xs) + mset ?rest = mset xs"
    using multiset_partition [of "mset xs" "\<lambda>x. f x = k"] by simp
  ultimately show ?case by simp
qed simp

lemma grouped_mset: "mset (concat (map snd (grouped_by key items))) = mset items"
  using mset_by_key [of "sort (remdups (map (item_text key) items))" "item_text key" items]
  by (simp add: grouped_by_def comp_def)

lemma calls_of_summary: "lookup (summarize_llm_items items) ''calls'' = json_of_int (counted items ''calls'')"
  by (simp add: summarize_llm_items_def Let_def lookup_def json_of_int_def)

lemma mset_concat_cong: "list_all2 (\<lambda>x y. mset x = mset y) xss yss \<Longrightarrow> mset (concat xss) = mset (concat yss)"
  by (induction rule: list_all2_induct) simp_all

lemma pods_of_user:
  "mset (concat (map pb_models (ub_pods (user_breakdown_of g)))) = mset (snd g)"
proof -
  let ?pods = "grouped_by ''pod_name'' (snd g)"
  have "list_all2 (\<lambda>x y. mset x = mset y) (map pb_models (map pod_breakdown_of ?pods)) (map snd ?pods)"
    by (simp add: list_all2_conv_all_nth pod_breakdown_of_def Let_def)
  from mset_concat_cong [OF this] show ?thesis by (simp add: user_breakdown_of_def Let_def grouped_mset)
qed

lemma calls_of_user:
  "lookup (ub_summary (user_breakdown_of g)) ''calls''
     = json_of_int (added (map (\<lambda>p. counted (pb_models p) ''calls'') (ub_pods (user_breakdown_of g))))"
proof -
  let ?pods = "grouped_by ''pod_name'' (snd g)"
  have "counted (pb_models (pod_breakdown_of p)) key = counted (snd p) key" for p key
    by (rule counted_perm) (simp add: pod_breakdown_of_def Let_def)
  then show ?thesis by (simp add: user_breakdown_of_def Let_def calls_of_summary counted_concat comp_def)
qed

text \<open>C34: The breakdown of a report loses and repeats nothing: the models listed under the pods of the users are the items, each
  once, and the calls of the report are the sum of the calls of its users.\<close>

theorem breakdown_accounts_for_items:
  "mset (concat (map (\<lambda>u. concat (map pb_models (ub_pods u))) (build_llm_breakdown items))) = mset items
     \<and> (\<exists>ns. map (\<lambda>u. lookup (ub_summary u) ''calls'') (build_llm_breakdown items) = map json_of_int ns
          \<and> lookup (summarize_llm_items items) ''calls'' = json_of_int (added ns))"
proof
  let ?users = "grouped_by ''username'' items"
  have "list_all2 (\<lambda>x y. mset x = mset y)
      (map (\<lambda>u. concat (map pb_models (ub_pods u))) (map user_breakdown_of ?users)) (map snd ?users)"
    using pods_of_user by (auto simp: list_all2_conv_all_nth)
  from mset_concat_cong [OF this]
  show "mset (concat (map (\<lambda>u. concat (map pb_models (ub_pods u))) (build_llm_breakdown items))) = mset items"
    by (simp add: build_llm_breakdown_def grouped_mset comp_def)
  have user: "lookup (ub_summary (user_breakdown_of g)) ''calls'' = json_of_int (counted (snd g) ''calls'')" for g
    using counted_perm [OF grouped_mset [of "''pod_name''" "snd g"] ]
    by (simp add: user_breakdown_of_def Let_def calls_of_summary)
  have "counted items ''calls'' = counted (concat (map snd ?users)) ''calls''"
    by (rule counted_perm) (rule grouped_mset [symmetric])
  then have "counted items ''calls'' = added (map (\<lambda>xs. counted xs ''calls'') (map snd ?users))"
    by (simp only: counted_concat)
  then show "\<exists>ns. map (\<lambda>u. lookup (ub_summary u) ''calls'') (build_llm_breakdown items) = map json_of_int ns
      \<and> lookup (summarize_llm_items items) ''calls'' = json_of_int (added ns)"
    by (intro exI [of _ "map (\<lambda>g. counted (snd g) ''calls'') ?users"])
      (simp add: build_llm_breakdown_def user calls_of_summary comp_def)
qed

section \<open>Accepted ranges, and streams\<close>

lemma accepted_range:
  "bounded_time_range parse_time r a b maximum = Inr (from, until) \<Longrightarrow> from < until \<and> until - from \<le> maximum"
  by (auto simp: bounded_time_range_def res_bind_Inr_iff split: if_splits)

lemma accepted_llm_range:
  "llm_usage_parameters parse_time r now = Inr (from, until, g) \<Longrightarrow> from < until \<and> until - from \<le> 366 * day"
  by (auto simp: llm_usage_parameters_def res_bind_Inr_iff Let_def split: if_splits)

interpretation llm_stream: event_sender "send_llm_usage ordered parse_time clock r" "\<lambda>_. True" for ordered parse_time clock r
proof
  fix k fs d events go_on fs' d'
  assume run: "send_llm_usage ordered parse_time clock r k fs d = (Inr (events, go_on), fs', d')"
  show "if go_on then \<exists>x. events = [SseData x] \<and> True else events = [] \<or> events = [SseError]"
  proof (cases "llm_usage_parameters parse_time r (clock k)")
    case (Inr range)
    obtain since until g where "range = (since, until, g)" by (cases range) auto
    with Inr run show ?thesis
      by (cases "llm_usage ordered (clock k) since until g fs d")
        (auto simp: send_llm_usage_def tx_bind_def tx_try_def tx_return_def split: sum.splits)
  qed (use run in \<open>simp add: send_llm_usage_def\<close>)
qed

end
