(* ===== verification/Pod_Updates.thy ===== *)
theory Pod_Updates
  imports Metrics
begin

text \<open>
  The reconciliation of the pods of Kubernetes with the servers of the inventory (\<^verbatim>\<open>UpdatePods\<close> in
  \<^verbatim>\<open>internal/store/metrics.go\<close>): which pods are trusted, which server each belongs to, and what is written.
\<close>

section \<open>Trusted pods\<close>

record pod_candidate =
  pc_pod :: pod
  pc_username :: string
  pc_hub_hint :: string
  pc_priority :: nat

definition max_pod_items :: nat where "max_pod_items = 5000"

definition pod_phase_priority :: "string \<Rightarrow> nat" where
  "pod_phase_priority phase =
     (let p = to_lower (trim_space phase)
      in if p = ''running'' then 3 else if p = ''pending'' then 2
         else if p = ''succeeded'' \<or> p = ''failed'' then 0 else 1)"

fun consistent_username :: "labels \<Rightarrow> string list \<Rightarrow> string \<Rightarrow> string option" where
  "consistent_username ls [] username = Some username"
| "consistent_username ls (k # ks) username =
     (let v = trim_space (label ls k)
      in if v = [] then consistent_username ls ks username
         else if username \<noteq> [] \<and> username \<noteq> v then None
         else consistent_username ls ks v)"

definition trusted_pod_username :: "labels \<Rightarrow> string option" where
  "trusted_pod_username ls = consistent_username ls [''hub.jupyter.org/username'', ''jupyterhub-user''] []"

definition validate_pod :: "pod_pattern \<Rightarrow> string \<Rightarrow> pod \<Rightarrow> pod_candidate option" where
  "validate_pod pp pattern p0 =
     (let p = p0\<lparr>po_name := trim_space (po_name p0)\<rparr>
      in if po_name p = [] then None
         else case (pod_username pp pattern (po_name p), trusted_pod_username (po_labels p)) of
           (Some username, Some labelled) \<Rightarrow>
             if labelled \<noteq> [] \<and> labelled \<noteq> username then None
             else if pod_phase_priority (po_phase p) = 0 then None
             else Some \<lparr>pc_pod = p, pc_username = username,
               pc_hub_hint = first_label (po_labels p) [''hub'', ''hub_name'', ''jupyterhub''],
               pc_priority = pod_phase_priority (po_phase p)\<rparr>
         | _ \<Rightarrow> None)"

section \<open>The server of a pod\<close>

definition running_rows :: "string \<Rightarrow> string \<Rightarrow> store_db \<Rightarrow> (server_row \<times> hub_row) list" where
  \<comment> \<open>\<^verbatim>\<open>s.status='running' AND s.username=$1 AND (h.name=$2 OR h.network=$2)\<close>\<close>
  "running_rows username hint d =
     filter (\<lambda>(s, h). sv_status s = ''running'' \<and> sv_username s = username \<and> (hb_name h = hint \<or> hb_network h = hint))
       (server_hub_rows d)"

definition running_servers :: "string \<Rightarrow> store_db \<Rightarrow> server_row list" where
  "running_servers username d = filter (\<lambda>s. sv_status s = ''running'' \<and> sv_username s = username) (db_servers d)"

definition resolve_running :: "string \<Rightarrow> string \<Rightarrow> int option metric_tx" where
  \<comment> \<open>with a hint, no row at all is \<^verbatim>\<open>pgx.ErrNoRows\<close>, which the code returns; without one, the query always has a row\<close>
  "resolve_running username hint =
     (if hint \<noteq> [] then
        statement db_failed (\<lambda>t.
          if has_nul username \<or> has_nul hint then Inl db_failed
          else let rows = running_rows username hint (mt_store t)
               in if rows = [] then Inl (StoreFailed ErrNotFound)
                  else Inr (map_option (\<lambda>(s, h). sv_id s) (the_only rows), t))
      else read_with [username] (\<lambda>d. map_option sv_id (the_only (running_servers username d))))"

definition resolve_pod_server :: "string \<Rightarrow> string \<Rightarrow> string \<Rightarrow> int option metric_tx" where
  "resolve_pod_server pod username hint =
     tx_bind (read_with [pod, username, hint] (\<lambda>d. the_only (user_pod_rows pod username hint d))) (\<lambda>found.
     case found of
       Some (s, h) \<Rightarrow> tx_return (Some (sv_id s))
     | None \<Rightarrow> resolve_running username hint)"

fun resolve_candidates ::
  "pod_candidate list \<Rightarrow> (int \<times> pod_candidate list) list \<Rightarrow> (int \<times> pod_candidate list) list metric_tx" where
  "resolve_candidates [] acc = tx_return acc"
| "resolve_candidates (c # cs) acc =
     tx_bind (resolve_pod_server (po_name (pc_pod c)) (pc_username c) (pc_hub_hint c)) (\<lambda>found.
     case found of
       None \<Rightarrow> resolve_candidates cs acc
     | Some sid \<Rightarrow>
         resolve_candidates cs (AList.update sid ((case map_of acc sid of None \<Rightarrow> [] | Some prev \<Rightarrow> prev) @ [c]) acc))"

definition best_priority :: "pod_candidate list \<Rightarrow> nat" where
  "best_priority cs = fold (\<lambda>c best. if pc_priority c > best then pc_priority c else best) cs 0"

definition select_pod_candidate :: "pod_candidate list \<Rightarrow> pod_candidate option" where
  "select_pod_candidate cs = the_only (filter (\<lambda>c. pc_priority c = best_priority cs) cs)"

section \<open>The write\<close>

definition safe_pod_snapshot :: "pod \<Rightarrow> json" where
  "safe_pod_snapshot p =
     JObj [(''name'', JStr (po_name p)), (''namespace'', JStr (po_namespace p)), (''node'', JStr (po_node p)),
       (''phase'', JStr (po_phase p))]"

definition pod_written :: "pod \<Rightarrow> server_row \<Rightarrow> server_row" where
  "pod_written p s =
     s\<lparr>sv_pod_name := po_name p, sv_node_name := po_node p,
       sv_raw := set_member ''kubernetes'' (safe_pod_snapshot p) (sv_raw s)\<rparr>"

definition write_pod :: "int \<Rightarrow> pod \<Rightarrow> unit metric_tx" where
  "write_pod sid p =
     statement db_failed (\<lambda>t.
       if list_ex has_nul [po_name p, po_node p, po_namespace p, po_phase p] then Inl db_failed
       else Inr ((), change_server sid (pod_written p) t))"

definition write_candidate :: "int \<times> pod_candidate list \<Rightarrow> unit metric_tx" where
  "write_candidate entry =
     (case select_pod_candidate (snd entry) of None \<Rightarrow> tx_return () | Some c \<Rightarrow> write_pod (fst entry) (pc_pod c))"

definition update_pods ::
  "metric_env \<Rightarrow> integration_generation option \<Rightarrow> pod list \<Rightarrow> string \<Rightarrow> bool metric_tx" where
  "update_pods env generation pods pattern =
     (if length pods > max_pod_items then tx_throw PodsOverLimit
      else case compile_pod_pattern (pp_capture_names (me_pattern env)) pattern of
        Inl e \<Rightarrow> tx_throw (PodPatternError e)
      | Inr _ \<Rightarrow>
          let validated = List.map_filter (validate_pod (me_pattern env) pattern) pods
          in if validated = [] then tx_return True
             else with_early_return (transaction (Inl db_failed)
               (tx_bind (check_generation env generation) (\<lambda>_.
                tx_bind (or_error (resolve_candidates validated [])) (\<lambda>found.
                tx_bind (or_error (foreach write_candidate (sort_key fst found))) (\<lambda>_.
                tx_return True))))))"

section \<open>What a reconciliation writes\<close>

lemma select_pod_candidate_in: "select_pod_candidate cs = Some c \<Longrightarrow> c \<in> set cs"
proof -
  assume "select_pod_candidate cs = Some c"
  then have "c \<in> set (filter (\<lambda>c. pc_priority c = best_priority cs) cs)"
    by (simp add: select_pod_candidate_def the_only_Some)
  then show ?thesis by simp
qed

lemma validate_pod_username:
  assumes "validate_pod pp pattern p = Some c"
  shows "pod_username pp pattern (po_name (pc_pod c)) = Some (pc_username c)"
  using assms by (auto simp: validate_pod_def Let_def split: option.splits if_split_asm)

definition server_ids_ok :: "store_db \<Rightarrow> bool" where
  "server_ids_ok d \<longleftrightarrow> distinct (map sv_id (db_servers d))"

text \<open>A candidate of a server: a trusted pod whose name yields the user of the server.\<close>

definition owns_pod :: "string \<Rightarrow> int \<Rightarrow> store_db \<Rightarrow> bool" where
  "owns_pod username sid d \<longleftrightarrow> (\<exists>s \<in> set (db_servers d). sv_id s = sid \<and> sv_username s = username)"

lemma server_hub_rows_servers: "(s, h) \<in> set (server_hub_rows d) \<Longrightarrow> s \<in> set (db_servers d)"
  by (auto simp: server_hub_rows_def List.map_filter_def split: option.splits)

lemma the_only_in: "the_only xs = Some x \<Longrightarrow> x \<in> set xs"
  by (simp add: the_only_Some)

lemma running_rows_own: "(s, h) \<in> set (running_rows username hint d) \<Longrightarrow> owns_pod username (sv_id s) d"
  by (auto simp: running_rows_def owns_pod_def dest: server_hub_rows_servers)

lemma user_pod_rows_own: "(s, h) \<in> set (user_pod_rows pod username hint d) \<Longrightarrow> owns_pod username (sv_id s) d"
  by (auto simp: user_pod_rows_def pod_rows_def owns_pod_def dest: server_hub_rows_servers)

definition same_owners :: "store_db \<Rightarrow> metric_db \<Rightarrow> bool" where
  "same_owners d t \<longleftrightarrow> (\<forall>u sid. owns_pod u sid (mt_store t) \<longrightarrow> owns_pod u sid d)"

lemma resolve_running_user:
  assumes "\<And>t. I t \<Longrightarrow> same_owners d t"
  shows "delivers I (resolve_running username hint) (\<lambda>found. \<forall>sid. found = Some sid \<longrightarrow> owns_pod username sid d)"
proof (cases "hint = []")
  case True
  have "owns_pod username (sv_id s) (mt_store t)" if "the_only (running_servers username (mt_store t)) = Some s" for s t
    using the_only_in [OF that] by (auto simp: running_servers_def owns_pod_def)
  with assms have "I t \<Longrightarrow> the_only (running_servers username (mt_store t)) = Some s \<Longrightarrow> owns_pod username (sv_id s) d" for t s
    unfolding same_owners_def by blast
  with True show ?thesis
    unfolding resolve_running_def by (auto intro!: delivers_read_with)
next
  case False
  with assms show ?thesis
    unfolding resolve_running_def Let_def same_owners_def
    by (auto intro!: delivers_statement dest!: the_only_in running_rows_own split: if_split_asm)
qed

lemma resolve_pod_server_user:
  assumes "\<And>t. I t \<Longrightarrow> same_owners d t"
  shows "delivers I (resolve_pod_server pod username hint) (\<lambda>found. \<forall>sid. found = Some sid \<longrightarrow> owns_pod username sid d)"
  unfolding resolve_pod_server_def
proof (rule delivers_bind)
  show "delivers I (read_with [pod, username, hint] (\<lambda>d. the_only (user_pod_rows pod username hint d)))
      (\<lambda>found. \<forall>s h. found = Some (s, h) \<longrightarrow> owns_pod username (sv_id s) d)"
    by (rule delivers_read_with) (use assms in \<open>auto dest!: the_only_in user_pod_rows_own simp: same_owners_def\<close>)
next
  fix found :: "(server_row \<times> hub_row) option"
  assume "\<forall>s h. found = Some (s, h) \<longrightarrow> owns_pod username (sv_id s) d"
  then show "delivers I
      (case found of Some (s, h) \<Rightarrow> tx_return (Some (sv_id s)) | None \<Rightarrow> resolve_running username hint)
      (\<lambda>found. \<forall>sid. found = Some sid \<longrightarrow> owns_pod username sid d)"
    by (cases found) (auto intro: delivers_return resolve_running_user assms)
qed

definition candidates_ok :: "pod_candidate list \<Rightarrow> store_db \<Rightarrow> (int \<times> pod_candidate list) list \<Rightarrow> bool" where
  "candidates_ok cs d acc \<longleftrightarrow>
     (\<forall>(sid, found) \<in> set acc. \<forall>c \<in> set found. c \<in> set cs \<and> owns_pod (pc_username c) sid d)"

lemma update_in: "x \<in> set (AList.update k v al) \<Longrightarrow> x \<in> set al \<or> x = (k, v)"
  by (induction al) (auto split: if_split_asm)

lemma candidates_ok_add:
  assumes "candidates_ok cs d acc" and "c \<in> set cs" and "owns_pod (pc_username c) sid d"
  shows "candidates_ok cs d (AList.update sid ((case map_of acc sid of None \<Rightarrow> [] | Some prev \<Rightarrow> prev) @ [c]) acc)"
proof -
  have "c' \<in> set prev \<Longrightarrow> map_of acc sid = Some prev \<Longrightarrow> c' \<in> set cs \<and> owns_pod (pc_username c') sid d" for c' prev
    using assms(1) by (auto simp: candidates_ok_def dest!: map_of_SomeD)
  with assms show ?thesis
    unfolding candidates_ok_def by (auto dest!: update_in split: option.splits)
qed

lemma resolve_candidates_ok:
  assumes "\<And>t. I t \<Longrightarrow> same_owners d t"
  shows "set rest \<subseteq> set cs \<Longrightarrow> candidates_ok cs d acc \<Longrightarrow> delivers I (resolve_candidates rest acc) (candidates_ok cs d)"
proof (induction rest arbitrary: acc)
  case Nil
  then show ?case by (simp add: delivers_return)
next
  case (Cons c rest)
  have "delivers I
      (case found of None \<Rightarrow> resolve_candidates rest acc
       | Some sid \<Rightarrow> resolve_candidates rest
           (AList.update sid ((case map_of acc sid of None \<Rightarrow> [] | Some prev \<Rightarrow> prev) @ [c]) acc)) (candidates_ok cs d)"
    if "\<forall>sid. found = Some sid \<longrightarrow> owns_pod (pc_username c) sid d" for found
    using that Cons.prems by (cases found) (auto intro!: Cons.IH candidates_ok_add)
  note rest = this
  show ?case unfolding resolve_candidates.simps
    by (rule delivers_bind [OF resolve_pod_server_user [OF assms]], assumption, rule rest)
qed

text \<open>What an inventory may take from a pod, without reference to the code's own check. The pod belongs to \<open>username\<close>: the
  pattern reads that user off the name of the pod, no label of the pod claims it for someone else, and it has not come to its
  end.\<close>

definition pod_belongs_to :: "pod_pattern \<Rightarrow> string \<Rightarrow> string \<Rightarrow> pod \<Rightarrow> bool" where
  "pod_belongs_to pp pattern username p \<longleftrightarrow>
     trim_space (po_name p) \<noteq> [] \<and> pod_username pp pattern (trim_space (po_name p)) = Some username
     \<and> trim_space (label (po_labels p) ''hub.jupyter.org/username'') \<in> {[], username}
     \<and> trim_space (label (po_labels p) ''jupyterhub-user'') \<in> {[], username}
     \<and> to_lower (trim_space (po_phase p)) \<notin> {''succeeded'', ''failed''}"

text \<open>The server was given that pod: its name, its node, and four facts about it in the document, which is as it was otherwise.\<close>

definition pod_taken :: "pod \<Rightarrow> server_row \<Rightarrow> server_row \<Rightarrow> bool" where
  "pod_taken p s s' \<longleftrightarrow>
     (\<exists>raw. s' = s\<lparr>sv_pod_name := trim_space (po_name p), sv_node_name := po_node p, sv_raw := raw\<rparr>
        \<and> lookup raw ''kubernetes'' = JObj [(''name'', JStr (trim_space (po_name p))), (''namespace'', JStr (po_namespace p)),
             (''node'', JStr (po_node p)), (''phase'', JStr (po_phase p))]
        \<and> (\<forall>k. k \<noteq> ''kubernetes'' \<longrightarrow> lookup raw k = lookup (sv_raw s) k))"

definition server_reconciled :: "pod_pattern \<Rightarrow> string \<Rightarrow> pod list \<Rightarrow> server_row \<Rightarrow> server_row \<Rightarrow> bool" where
  "server_reconciled pp pattern pods s s' \<longleftrightarrow>
     s' = s \<or> (\<exists>p \<in> set pods. pod_belongs_to pp pattern (sv_username s) p \<and> pod_taken p s s')"

definition only_pods_changed :: "pod_pattern \<Rightarrow> string \<Rightarrow> pod list \<Rightarrow> metric_db \<Rightarrow> metric_db \<Rightarrow> bool" where
  "only_pods_changed pp pattern pods t t' \<longleftrightarrow>
     (\<exists>ss. t' = t\<lparr>mt_store := (mt_store t)\<lparr>db_servers := ss\<rparr>\<rparr> \<and>
       list_all2 (server_reconciled pp pattern pods) (db_servers (mt_store t)) ss)"

lemma trusted_labels:
  assumes "trusted_pod_username ls = Some labelled" and "labelled \<noteq> [] \<Longrightarrow> labelled = username"
  shows "trim_space (label ls ''hub.jupyter.org/username'') \<in> {[], username}
    \<and> trim_space (label ls ''jupyterhub-user'') \<in> {[], username}"
  using assms by (auto simp: trusted_pod_username_def Let_def split: if_split_asm)

text \<open>The check of the code implies it.\<close>

lemma validated_pod:
  assumes "validate_pod pp pattern p = Some c"
  shows "pod_belongs_to pp pattern (pc_username c) p \<and> pc_pod c = p\<lparr>po_name := trim_space (po_name p)\<rparr>"
proof -
  let ?name = "trim_space (po_name p)"
  from assms obtain username labelled where name: "?name \<noteq> []" "pod_username pp pattern ?name = Some username"
    and ls: "trusted_pod_username (po_labels p) = Some labelled" "labelled \<noteq> [] \<Longrightarrow> labelled = username"
    and phase: "pod_phase_priority (po_phase p) \<noteq> 0"
    and c: "pc_username c = username" "pc_pod c = p\<lparr>po_name := ?name\<rparr>"
    by (auto simp: validate_pod_def Let_def split: option.splits if_split_asm)
  from phase have "to_lower (trim_space (po_phase p)) \<notin> {''succeeded'', ''failed''}"
    by (auto simp: pod_phase_priority_def)
  with name c trusted_labels [OF ls] show ?thesis by (simp add: pod_belongs_to_def)
qed

lemma candidate_pod:
  assumes "c \<in> set (List.map_filter (validate_pod pp pattern) pods)"
  obtains p where "p \<in> set pods" "pod_belongs_to pp pattern (pc_username c) p" "pc_pod c = p\<lparr>po_name := trim_space (po_name p)\<rparr>"
proof -
  from assms obtain p where "p \<in> set pods" "validate_pod pp pattern p = Some c" by (auto simp: List.map_filter_def)
  with validated_pod [of pp pattern p c] that show thesis by blast
qed

lemma only_pods_changed_refl: "only_pods_changed pp pattern pods t t"
proof -
  have "list_all2 (server_reconciled pp pattern pods) ss ss" for ss
    by (rule list_all2_refl) (simp add: server_reconciled_def)
  then show ?thesis unfolding only_pods_changed_def by (intro exI [of _ "db_servers (mt_store t)"]) simp
qed

lemma lookup_set_member: "lookup (set_member k v m) k' = (if k' = k then v else lookup m k')"
  by (simp add: set_member_def lookup_def update_conv)

lemma taken_written:
  assumes "s' = s \<or> pod_taken q s s'" and "x = p\<lparr>po_name := trim_space (po_name p)\<rparr>"
  shows "pod_taken p s (pod_written x s')"
proof -
  from assms(1) obtain pn nn raw where s': "s' = s\<lparr>sv_pod_name := pn, sv_node_name := nn, sv_raw := raw\<rparr>"
    and raw: "\<forall>k. k \<noteq> ''kubernetes'' \<longrightarrow> lookup raw k = lookup (sv_raw s) k"
  proof
    assume "s' = s"
    then show thesis by (intro that [where raw = "sv_raw s" and pn = "sv_pod_name s" and nn = "sv_node_name s"]) simp_all
  qed (auto simp: pod_taken_def intro: that)
  then show ?thesis
    unfolding pod_taken_def assms(2) pod_written_def
    by (intro exI [of _ "set_member ''kubernetes'' (safe_pod_snapshot (p\<lparr>po_name := trim_space (po_name p)\<rparr>)) raw"])
      (simp add: lookup_set_member safe_pod_snapshot_def)
qed

lemma reconciled_written:
  assumes "server_reconciled pp pattern pods s s'" and "c \<in> set (List.map_filter (validate_pod pp pattern) pods)"
    and "pc_username c = sv_username s"
  shows "server_reconciled pp pattern pods s (pod_written (pc_pod c) s')"
proof -
  from assms(2) obtain p where p: "p \<in> set pods" "pod_belongs_to pp pattern (pc_username c) p"
    "pc_pod c = p\<lparr>po_name := trim_space (po_name p)\<rparr>" by (rule candidate_pod)
  have "\<exists>q. s' = s \<or> pod_taken q s s'" using assms(1) by (auto simp: server_reconciled_def)
  then obtain q where "s' = s \<or> pod_taken q s s'" by blast
  from taken_written [OF this p(3)] p(1,2) assms(3) show ?thesis unfolding server_reconciled_def by metis
qed

lemma reconciled_id: "server_reconciled pp pattern pods s s' \<Longrightarrow> sv_id s' = sv_id s \<and> sv_username s' = sv_username s"
  by (auto simp: server_reconciled_def pod_taken_def)

lemma write_pod_reconciles:
  assumes "c \<in> set (List.map_filter (validate_pod pp pattern) pods)" and "owns_pod (pc_username c) sid (mt_store t0)" and "server_ids_ok (mt_store t0)"
  shows "keeps (only_pods_changed pp pattern pods t0) (write_pod sid (pc_pod c))"
  unfolding write_pod_def
proof (rule keeps_statement)
  fix t a t'
  assume "only_pods_changed pp pattern pods t0 t"
    and run: "(if list_ex has_nul [po_name (pc_pod c), po_node (pc_pod c), po_namespace (pc_pod c), po_phase (pc_pod c)]
      then Inl db_failed else Inr ((), change_server sid (pod_written (pc_pod c)) t)) = Inr (a, t')"
  then obtain ss where t: "t = t0\<lparr>mt_store := (mt_store t0)\<lparr>db_servers := ss\<rparr>\<rparr>"
    and ss: "list_all2 (server_reconciled pp pattern pods) (db_servers (mt_store t0)) ss"
    unfolding only_pods_changed_def by blast
  let ?f = "\<lambda>s. if sv_id s = sid then pod_written (pc_pod c) s else s"
  from run have t': "t' = t0\<lparr>mt_store := (mt_store t0)\<lparr>db_servers := map ?f ss\<rparr>\<rparr>"
    by (simp add: change_server_def t split: if_split_asm)
  from assms(2) obtain s0 where s0: "s0 \<in> set (db_servers (mt_store t0))" "sv_id s0 = sid" "sv_username s0 = pc_username c"
    by (auto simp: owns_pod_def)
  have user: "sv_username s = pc_username c" if "s \<in> set (db_servers (mt_store t0))" "sv_id s = sid" for s
    using that s0 assms(3) unfolding server_ids_ok_def by (metis distinct_map inj_onD)
  have "list_all2 (server_reconciled pp pattern pods) (db_servers (mt_store t0)) (map ?f ss)"
    unfolding list_all2_map2
  proof (rule list.rel_mono_strong [OF ss])
    fix s s'
    assume "s \<in> set (db_servers (mt_store t0))" and r: "server_reconciled pp pattern pods s s'"
    with user [of s] show "server_reconciled pp pattern pods s (?f s')"
      by (auto simp: reconciled_id [OF r] intro: reconciled_written [OF r assms(1)])
  qed
  with t' show "only_pods_changed pp pattern pods t0 t'" unfolding only_pods_changed_def by blast
qed

lemma only_pods_same_owners: "only_pods_changed pp pattern pods t0 t \<Longrightarrow> same_owners (mt_store t0) t"
proof -
  assume "only_pods_changed pp pattern pods t0 t"
  then obtain ss where t: "mt_store t = (mt_store t0)\<lparr>db_servers := ss\<rparr>"
    and ss: "list_all2 (server_reconciled pp pattern pods) (db_servers (mt_store t0)) ss"
    unfolding only_pods_changed_def by auto
  have "\<exists>s0 \<in> set (db_servers (mt_store t0)). sv_id s0 = sv_id s \<and> sv_username s0 = sv_username s" if s: "s \<in> set ss" for s
  proof -
    from ss s obtain s0 where "s0 \<in> set (db_servers (mt_store t0))" and "server_reconciled pp pattern pods s0 s"
      by (metis list_all2_conv_all_nth in_set_conv_nth)
    then show ?thesis by (intro bexI [of _ s0]) (auto dest: reconciled_id)
  qed
  then show ?thesis by (fastforce simp: same_owners_def owns_pod_def t)
qed

lemma write_candidates_reconcile:
  assumes "server_ids_ok (mt_store t)"
    and "candidates_ok (List.map_filter (validate_pod pp pattern) pods) (mt_store t) found"
  shows "keeps (only_pods_changed pp pattern pods t) (foreach write_candidate (sort_key fst found))"
proof (rule delivers_keeps, rule delivers_foreach)
  fix entry
  assume "entry \<in> set (sort_key fst found)"
  then have e: "(fst entry, snd entry) \<in> set found" by simp
  have ok: "c \<in> set (List.map_filter (validate_pod pp pattern) pods) \<and> owns_pod (pc_username c) (fst entry) (mt_store t)" if "select_pod_candidate (snd entry) = Some c" for c
    using assms(2) e select_pod_candidate_in [OF that] unfolding candidates_ok_def by blast
  then have "keeps (only_pods_changed pp pattern pods t) (write_candidate entry)"
    unfolding write_candidate_def
    by (cases "select_pod_candidate (snd entry)") (auto intro: keeps_pure write_pod_reconciles assms(1))
  then show "delivers (only_pods_changed pp pattern pods t) (write_candidate entry) (\<lambda>_. True)" by (rule keeps_delivers)
qed

text \<open>C36: A reconciliation changes nothing but the pod, the node and the facts about the pod in the document of servers, and
  a server only ever gets a pod of the list that belongs to the very user of the server: the pattern reads that user off the
  name of the pod, whatever its labels say; a pod whose labels name someone else is not taken, nor one that has come to its
  end.\<close>

theorem pods_follow_inventory:
  assumes "server_ids_ok (mt_store t)" and "update_pods env generation pods pattern fs t = (r, fs', t')"
  shows "only_pods_changed (me_pattern env) pattern pods t t'"
proof -
  let ?cs = "List.map_filter (validate_pod (me_pattern env) pattern) pods"
  let ?K = "only_pods_changed (me_pattern env) pattern pods t"
  have "delivers ?K (resolve_candidates ?cs []) (candidates_ok ?cs (mt_store t))"
    by (rule resolve_candidates_ok) (auto intro: only_pods_same_owners simp: candidates_ok_def)
  then have "delivers ?K (tx_bind (or_error (resolve_candidates ?cs [])) (\<lambda>found.
      tx_bind (or_error (foreach write_candidate (sort_key fst found))) (\<lambda>_. tx_return True))) (\<lambda>_. True)"
    by (rule delivers_bind [OF delivers_or_error])
      (intro keeps_delivers keeps_bind keeps_or_error keeps_pure write_candidates_reconcile assms(1))
  note tail = delivers_keeps [OF this]
  have "keeps ?K (update_pods env generation pods pattern)"
    unfolding update_pods_def Let_def
    by (rule keeps_if, rule keeps_pure, rule keeps_sum, rule keeps_pure, rule keeps_if, rule keeps_pure)
      (rule tail keeps_with_early keeps_transaction keeps_check_generation keeps_bind)+
  from keepsD [OF this only_pods_changed_refl assms(2)] show ?thesis .
qed

section \<open>One pod that blocks all\<close>

lemma resolve_running_fails:
  assumes "\<And>t. I t \<Longrightarrow> running_rows username hint (mt_store t) = []" and "hint \<noteq> []"
  shows "delivers I (resolve_running username hint) (\<lambda>_. False)"
  using assms unfolding resolve_running_def Let_def by (auto intro!: delivers_statement split: if_split_asm)

lemma resolve_pod_fails:
  assumes "the_only (user_pod_rows pod username hint d) = None" and "running_rows username hint d = []" and "hint \<noteq> []"
  shows "delivers (\<lambda>t. mt_store t = d) (resolve_pod_server pod username hint) (\<lambda>_. False)"
  unfolding resolve_pod_server_def
proof (rule delivers_bind)
  show "delivers (\<lambda>t. mt_store t = d) (read_with [pod, username, hint] (\<lambda>d. the_only (user_pod_rows pod username hint d)))
      (\<lambda>found. found = None)"
    by (rule delivers_read_with) (simp add: assms(1))
  have "delivers (\<lambda>t. mt_store t = d) (resolve_running username hint) (\<lambda>_. False)"
    by (rule resolve_running_fails) (use assms in auto)
  then show "found = None \<Longrightarrow> delivers (\<lambda>t. mt_store t = d)
      (case found of None \<Rightarrow> resolve_running username hint | Some (s, h) \<Rightarrow> tx_return (Some (sv_id s))) (\<lambda>_. False)" for found
    by simp
qed

lemma keeps_resolve_pod [inv_intros]: "keeps I (resolve_pod_server pod username hint)"
  unfolding resolve_pod_server_def resolve_running_def Let_def
  by (intro inv_intros keeps_statement) (auto split: if_split_asm intro: inv_intros keeps_statement)

lemma resolve_candidates_fails:
  assumes "delivers I (resolve_pod_server (po_name (pc_pod c)) (pc_username c) (pc_hub_hint c)) (\<lambda>_. False)"
  shows "c \<in> set cs \<Longrightarrow> delivers I (resolve_candidates cs acc) (\<lambda>_. False)"
proof (induction cs arbitrary: acc)
  case (Cons c' cs)
  show ?case
  proof (cases "c' = c")
    case True
    then show ?thesis unfolding resolve_candidates.simps by (auto intro: delivers_bind [OF assms])
  next
    case False
    with Cons.prems have "c \<in> set cs" by simp
    note IH = Cons.IH [OF this]
    have rest: "delivers I (case found of None \<Rightarrow> resolve_candidates cs acc | Some sid \<Rightarrow> resolve_candidates cs (g sid)) (\<lambda>_. False)"
      for found g
      by (cases found) (auto intro: IH)
    show ?thesis unfolding resolve_candidates.simps
      by (rule delivers_bind [OF keeps_delivers [OF keeps_resolve_pod]], rule rest)
  qed
qed simp

lemma check_generation_early: "check_generation env g fs t = (Inl (Inr b), fs', t') \<Longrightarrow> \<not> b"
  by (auto simp: check_generation_def return_early_if_def tx_return_def tx_throw_def tx_bind_def or_error_def
      split: option.splits if_split_asm prod.splits sum.splits)

lemma or_error_early: "or_error m fs t \<noteq> (Inl (Inr b), fs', t')"
  by (auto simp: or_error_def split: prod.splits sum.splits)

text \<open>One pod stops the whole reconciliation: a trusted pod with a hub label whose user has no running server on that hub
  (it is still starting, or the hub was renamed) makes the lookup return \<^verbatim>\<open>pgx.ErrNoRows\<close>, which the code passes on,
  and no pod at all is stored, in this cycle and in every later one that still lists it.\<close>

theorem labelled_pod_blocks_reconciliation:
  assumes "p \<in> set pods" and "validate_pod (me_pattern env) pattern p = Some c" and "pc_hub_hint c \<noteq> []"
    and "the_only (user_pod_rows (po_name (pc_pod c)) (pc_username c) (pc_hub_hint c) (mt_store t)) = None"
    and "running_rows (pc_username c) (pc_hub_hint c) (mt_store t) = []"
    and "update_pods env generation pods pattern fs t = (r, fs', t')"
  shows "r \<noteq> Inr True \<and> t' = t"
proof -
  let ?cs = "List.map_filter (validate_pod (me_pattern env) pattern) pods"
  from assms(1,2) have c: "c \<in> set ?cs" by (force simp: List.map_filter_def)
  then have cs: "?cs \<noteq> []" by auto
  let ?body = "tx_bind (check_generation env generation) (\<lambda>_.
      tx_bind (or_error (resolve_candidates ?cs [])) (\<lambda>found.
      tx_bind (or_error (foreach write_candidate (sort_key fst found))) (\<lambda>_. tx_return True)))"
  note never = resolve_candidates_fails [OF resolve_pod_fails [OF assms(4,5,3)] c]
  have "delivers (\<lambda>x. mt_store x = mt_store t) ?body (\<lambda>_. False)"
    by (rule delivers_bind [OF keeps_delivers [OF keeps_check_generation]],
        rule delivers_bind [OF delivers_or_error [OF never] ]) simp
  note body = deliversD(2) [OF this]
  have no_true: "\<not> b" if "?body fs1 t = (Inl (Inr b), fs2, t2)" for fs1 b fs2 t2
    using that by (auto simp: tx_bind_def or_error_early tx_return_def split: prod.splits sum.splits dest: check_generation_early)
  from assms(6) obtain e where run: "(r, fs', t') = (Inl e, fs, t) \<or> with_early_return (transaction (Inl db_failed) ?body) fs t = (r, fs', t')"
    using cs by (auto simp: update_pods_def tx_throw_def Let_def split: if_split_asm sum.splits)
  then show ?thesis
  proof
    assume early: "with_early_return (transaction (Inl db_failed) ?body) fs t = (r, fs', t')"
    from early show ?thesis
    proof (cases rule: early_transaction_cases)
      case (2 a fs1 fs2)
      with body show ?thesis by blast
    next
      case 1
      have "r \<noteq> Inr True"
        using early no_true body
        by (auto simp: with_early_return_def transaction_def Let_def split: prod.splits sum.splits if_split_asm) blast+
      with 1 show ?thesis by simp
    qed
  qed simp
qed

section \<open>A concrete cluster\<close>

definition lab_hub :: hub_row where
  "lab_hub = \<lparr>hb_id = 7, hb_name = ''lab'', hb_base_url = ''https://hub.corp'', hb_network = ''dmz'', hb_enabled = True,
     hb_verify_tls = True, hb_interval = 60, hb_token = None, hb_status = ''healthy'', hb_version = [], hb_last_seen_at = None,
     hb_last_error = [], hb_snapshot = JObj [], hb_created_at = 0, hb_updated_at = 0\<rparr>"

definition lab_server :: "int \<Rightarrow> string \<Rightarrow> string \<Rightarrow> string \<Rightarrow> server_row" where
  "lab_server sid username status pod =
     \<lparr>sv_id = sid, sv_hub_id = 7, sv_managed_user_id = None, sv_username = username, sv_server_name = [], sv_status = status,
       sv_started_at = None, sv_last_activity_at = None, sv_url = [], sv_node_name = [], sv_pod_name = pod, sv_image = [],
       sv_cpu_cores = None, sv_memory_bytes = None, sv_gpu_count = None, sv_raw = [], sv_synced_at = 0\<rparr>"

text \<open>Ana's server runs, Bo's is still starting.\<close>

definition lab_tables :: metric_db where
  "lab_tables =
     \<lparr>mt_store = (fresh_store 5)\<lparr>db_hubs := [lab_hub],
         db_servers := [lab_server 1 ''ana'' ''running'' ''jupyter-ana'', lab_server 2 ''bo'' ''pending'' []],
         db_settings := [\<lparr>st_key = ''features'', st_value = JObj [(''llm_usage_monitoring'', JBool True)],
           st_updated_by = None, st_updated_at = 0\<rparr>]\<rparr>,
       mt_samples = [], mt_llm = [], mt_usage = [], mt_rolled = 0\<rparr>"

definition lab_env :: metric_env where
  "lab_env =
     \<lparr>me_pattern = \<lparr>pp_capture_names = (\<lambda>_. Some [[], ''username'']),
         pp_submatches = (\<lambda>pattern pod. if has_prefix pod ''jupyter-'' then Some [pod, drop 8 pod] else None)\<rparr>,
       me_digest = (\<lambda>s. s), me_render = (\<lambda>_. []), me_stamp = (\<lambda>_. [])\<rparr>"

definition lab_pod :: "string \<Rightarrow> labels \<Rightarrow> pod" where
  "lab_pod username ls =
     \<lparr>po_name = ''jupyter-'' @ username, po_namespace = ''hub'', po_node = ''n1'', po_phase = ''Running'', po_labels = ls\<rparr>"

definition nodes :: "metric_db \<Rightarrow> (string \<times> string) list" where
  "nodes t = map (\<lambda>s. (sv_pod_name s, sv_node_name s)) (db_servers (mt_store t))"

text \<open>A pod of Ana's, and one of the same name that is labelled as Bo's.\<close>

theorem pods_follow_inventory_witness:
  "nodes lab_tables = [(''jupyter-ana'', []), ([], [])]
   \<and> nodes (snd (snd (update_pods lab_env None [lab_pod ''ana'' []] ''p'' [] lab_tables))) = [(''jupyter-ana'', ''n1''), ([], [])]
   \<and> only_pods_changed (me_pattern lab_env) ''p'' [lab_pod ''ana'' []] lab_tables
        (snd (snd (update_pods lab_env None [lab_pod ''ana'' []] ''p'' [] lab_tables)))
   \<and> nodes (snd (snd (update_pods lab_env None [lab_pod ''ana'' [(''jupyterhub-user'', ''bo'')] ] ''p'' [] lab_tables)))
       = [(''jupyter-ana'', []), ([], [])]
   \<and> \<not> pod_belongs_to (me_pattern lab_env) ''p'' ''ana'' (lab_pod ''ana'' [(''jupyterhub-user'', ''bo'')])"
proof -
  obtain r fs' t' where run: "update_pods lab_env None [lab_pod ''ana'' []] ''p'' [] lab_tables = (r, fs', t')"
    by (cases "update_pods lab_env None [lab_pod ''ana'' []] ''p'' [] lab_tables") auto
  have "nodes lab_tables = [(''jupyter-ana'', []), ([], [])]" by code_simp
  moreover have "nodes (snd (snd (update_pods lab_env None [lab_pod ''ana'' []] ''p'' [] lab_tables)))
      = [(''jupyter-ana'', ''n1''), ([], [])]" by code_simp
  moreover have "nodes (snd (snd (update_pods lab_env None [lab_pod ''ana'' [(''jupyterhub-user'', ''bo'')] ] ''p'' [] lab_tables)))
      = [(''jupyter-ana'', []), ([], [])]" by code_simp
  moreover have "\<not> pod_belongs_to (me_pattern lab_env) ''p'' ''ana'' (lab_pod ''ana'' [(''jupyterhub-user'', ''bo'')])" by code_simp
  moreover have "server_ids_ok (mt_store lab_tables)" by code_simp
  from pods_follow_inventory [OF this run]
  have "only_pods_changed (me_pattern lab_env) ''p'' [lab_pod ''ana'' []] lab_tables t'" .
  ultimately show ?thesis by (simp add: run)
qed

text \<open>With Bo's starting pod in the list, labelled with the hub, Ana's pod is not stored either.\<close>

theorem labelled_pod_blocks_reconciliation_witness:
  "nodes (snd (snd (update_pods lab_env None [lab_pod ''ana'' [], lab_pod ''bo'' [(''hub'', ''lab'')] ] ''p'' [] lab_tables)))
   = [(''jupyter-ana'', []), ([], [])]"
proof -
  let ?bo = "lab_pod ''bo'' [(''hub'', ''lab'')]"
  let ?c = "\<lparr>pc_pod = ?bo, pc_username = ''bo'', pc_hub_hint = ''lab'', pc_priority = 3\<rparr>"
  obtain r fs' t' where run: "update_pods lab_env None [lab_pod ''ana'' [], ?bo] ''p'' [] lab_tables = (r, fs', t')"
    by (cases "update_pods lab_env None [lab_pod ''ana'' [], ?bo] ''p'' [] lab_tables") auto
  have "validate_pod (me_pattern lab_env) ''p'' ?bo = Some ?c" by code_simp
  moreover have "the_only (user_pod_rows (po_name (pc_pod ?c)) (pc_username ?c) (pc_hub_hint ?c) (mt_store lab_tables)) = None"
    by code_simp
  moreover have "running_rows (pc_username ?c) (pc_hub_hint ?c) (mt_store lab_tables) = []" by code_simp
  ultimately have "r \<noteq> Inr True \<and> t' = lab_tables"
    by (intro labelled_pod_blocks_reconciliation [where p = ?bo and c = ?c, OF _ _ _ _ _ run]) simp_all
  moreover have "nodes lab_tables = [(''jupyter-ana'', []), ([], [])]" by code_simp
  ultimately show ?thesis by (simp add: run)
qed

definition lab_point :: metric_point where
  "lab_point = \<lparr>mp_labels = [(''pod'', ''jupyter-ana''), (''username'', ''bo''), (''model'', ''m'')], mp_value = Finite 3,
     mp_at = 61 * second\<rparr>"

text \<open>Two points of the same pod and minute, labelled as someone else's, are added up in one row, of Ana's.\<close>

theorem llm_use_attributed_witness:
  "\<exists>row. mt_llm (snd (snd (save_llm_metric_points lab_env None ''calls'' ''p'' [] [lab_point, lab_point] [] lab_tables))) = [row]
     \<and> ll_username row = ''ana'' \<and> ll_calls row = 6
     \<and> attributed (me_pattern lab_env) ''p'' (mt_store lab_tables) (ll_pod row) (ll_username row) (ll_hub row)
     \<and> counts_own_points (me_pattern lab_env) ''calls'' ''p'' [lab_point, lab_point] row"
proof -
  have "case save_llm_metric_points lab_env None ''calls'' ''p'' [] [lab_point, lab_point] [] lab_tables of
      (Inr a, fs, t) \<Rightarrow> (case mt_llm t of [row] \<Rightarrow> ll_username row = ''ana'' \<and> ll_calls row = 6 | _ \<Rightarrow> False) | _ \<Rightarrow> False"
    by code_simp
  then obtain a fs t where
    run: "save_llm_metric_points lab_env None ''calls'' ''p'' [] [lab_point, lab_point] [] lab_tables = (Inr a, fs, t)"
    and rows: "case mt_llm t of [row] \<Rightarrow> ll_username row = ''ana'' \<and> ll_calls row = 6 | _ \<Rightarrow> False" by (rule run_cases)
  from rows obtain row where row: "mt_llm t = [row]" "ll_username row = ''ana''" "ll_calls row = 6" by (auto split: list.splits)
  have "attributed (me_pattern lab_env) ''p'' (mt_store lab_tables) (ll_pod row) (ll_username row) (ll_hub row)
      \<and> counts_own_points (me_pattern lab_env) ''calls'' ''p'' [lab_point, lab_point] row"
    by (rule llm_use_attributed [OF run]) (simp_all add: row lab_tables_def lab_env_def)
  with row show ?thesis by (simp add: run)
qed

end
