(* ===== verification/Live_View.thy ===== *)
theory Live_View
  imports Llm_Views Pod_Updates
begin

text \<open>The live view of all hubs (\<^verbatim>\<open>Dashboard\<close>, \<^verbatim>\<open>LiveSnapshot\<close> and their helpers in
  \<^verbatim>\<open>internal/store/settings.go\<close>), as the JSON document it becomes. The parameters: the orders of the queries, the
  texts of time stamps, the clock.\<close>

record live_env =
  le_llm_ordered :: llm_order
  le_hub_ordered :: "string \<Rightarrow> hub_row list \<Rightarrow> hub_row list"
  le_row_ordered :: "(server_row \<times> hub_row) list \<Rightarrow> (server_row \<times> hub_row) list"
  le_parse_time :: "string \<Rightarrow> time option"
  le_show_time :: "time \<Rightarrow> string"
  le_now :: time

section \<open>Counts\<close>

definition unhealthy :: "hub_row \<Rightarrow> bool" where
  "unhealthy h = (hb_status h \<notin> set [''healthy'', ''ok''])"

definition live_rows :: "store_db \<Rightarrow> (server_row \<times> hub_row) list" where
  "live_rows d = filter (\<lambda>(s, h). sv_status s = ''running'' \<and> hb_enabled h) (server_hub_rows d)"

definition distinct_users :: "(server_row \<times> hub_row) list \<Rightarrow> nat" where
  "distinct_users rows = length (remdups (map (\<lambda>(s, h). (sv_hub_id s, sv_username s)) rows))"

definition active_managed :: "store_db \<Rightarrow> managed_row list" where
  "active_managed d =
     filter (\<lambda>u. mu_active u \<and> (case find_hub (mu_hub_id u) d of None \<Rightarrow> False | Some h \<Rightarrow> hb_enabled h)) (db_managed d)"

definition open_resources :: "string \<Rightarrow> (string \<Rightarrow> bool) \<Rightarrow> store_db \<Rightarrow> nat" where
  "open_resources kind is_open d = length (filter (\<lambda>r. re_kind r = kind \<and> is_open (re_status r)) (db_resources d))"

definition dashboard_counts :: "bool \<Rightarrow> (string \<times> (store_db \<Rightarrow> nat)) list" where
  "dashboard_counts gpu =
     [(''hubs'', \<lambda>d. length (filter hb_enabled (db_hubs d))),
      (''degraded_hubs'', \<lambda>d. length (filter (\<lambda>h. hb_enabled h \<and> unhealthy h) (db_hubs d))),
      (''users'', \<lambda>d. length (active_managed d)),
      (''active_users'', \<lambda>d. distinct_users (live_rows d)),
      (''servers'', \<lambda>d. length (live_rows d)),
      (''incidents_open'', open_resources ''incident'' (\<lambda>s. s \<notin> set [''resolved'', ''closed''])),
      (''approvals_open'', open_resources ''approval'' (\<lambda>s. s \<in> set [''pending_review'', ''pending'', ''executing'']))]
     @ (if gpu then [(''gpu_users'', \<lambda>d. distinct_users (filter (\<lambda>(s, h).
          (case sv_gpu_count s of None \<Rightarrow> 0 | Some n \<Rightarrow> n) > 0) (live_rows d)))] else [])"

fun read_counts :: "(string \<times> (store_db \<Rightarrow> nat)) list \<Rightarrow> json_object metric_tx" where
  "read_counts [] = tx_return []"
| "read_counts ((key, number) # counts) =
     tx_bind (query db_failed (\<lambda>t. number (mt_store t))) (\<lambda>n.
     tx_bind (read_counts counts) (\<lambda>rest. tx_return ((key, JNum (of_nat n)) # rest)))"

definition newest_data :: "bool \<Rightarrow> metric_db \<Rightarrow> time option" where
  "newest_data gpu t =
     freshest (List.map_filter hb_last_seen_at (filter hb_enabled (db_hubs (mt_store t)))
       @ map (sv_synced_at o fst) (filter (\<lambda>(s, h). hb_enabled h) (server_hub_rows (mt_store t)))
       @ map sa_at (filter (\<lambda>s. gpu \<or> sa_kind s \<noteq> ''gpu'') (mt_samples t)))"

definition hub_row_stale :: "time \<Rightarrow> hub_row \<Rightarrow> bool" where
  "hub_row_stale now h =
     (unhealthy h \<or> (case hb_last_seen_at h of None \<Rightarrow> True
        | Some t \<Rightarrow> t < now - max 300 (hb_interval h * 2) * second))"

definition json_time :: "(time \<Rightarrow> string) \<Rightarrow> time option \<Rightarrow> json" where
  "json_time show_time t = (case t of None \<Rightarrow> JNull | Some x \<Rightarrow> JStr (show_time x))"

definition dashboard :: "live_env \<Rightarrow> json_object metric_tx" where
  "dashboard env =
     tx_bind gpu_monitoring_on (\<lambda>gpu.
     tx_bind (read_counts (dashboard_counts gpu)) (\<lambda>counts.
     tx_bind (tx_try (query db_failed (newest_data gpu))) (\<lambda>newest.
     tx_bind (query db_failed (\<lambda>t. let hubs = filter hb_enabled (db_hubs (mt_store t))
         in (length hubs, length (filter (hub_row_stale (db_now (mt_store t))) hubs)))) (\<lambda>(enabled, stale).
     tx_return ((''sampled_at'', JStr (le_show_time env (le_now env))) # counts
       @ [(''data_freshness'', json_time (le_show_time env) (case newest of Inl _ \<Rightarrow> None | Inr x \<Rightarrow> x)),
          (''stale'', JBool (0 < stale \<or> enabled = 0))])))))"

section \<open>Samples\<close>

definition plain_number :: "json \<Rightarrow> rat" where
  "plain_number v = (case v of JNum n \<Rightarrow> n | _ \<Rightarrow> 0)"

definition metric_sample_fresh :: "(string \<Rightarrow> time option) \<Rightarrow> time \<Rightarrow> json_object \<Rightarrow> string \<Rightarrow> time \<Rightarrow> bool \<Rightarrow> bool" where
  "metric_sample_fresh parse_time now detail key synced required =
     (let own = metric_sample_time parse_time (lookup detail key)
      in if own = None \<and> required then False
         else
           let given = (if own = None then metric_sample_time parse_time (lookup detail ''resource_sampled_at'') else own);
               sampled = (if given = None \<and> \<not> required \<and> synced \<noteq> zero_time then Some synced else given)
           in (case sampled of None \<Rightarrow> False | Some t \<Rightarrow> \<not> now + minute < t \<and> now - t \<le> 5 * minute))"

definition latest_metric_sample :: "json_object \<Rightarrow> json" where
  "latest_metric_sample detail =
     (case find (has_key detail) [''resource_sampled_at'', ''cpu_sampled_at'', ''memory_sampled_at'', ''gpu_sampled_at''] of
        None \<Rightarrow> JNull | Some key \<Rightarrow> lookup detail key)"

definition gpu_metrics_expected :: "bool \<Rightarrow> int option \<Rightarrow> json_object \<Rightarrow> bool" where
  "gpu_metrics_expected enabled gpu_count detail =
     (enabled \<and> ((case gpu_count of None \<Rightarrow> False | Some n \<Rightarrow> 0 < n) \<or> lookup detail ''gpu_utilization'' \<noteq> JNull
        \<or> lookup detail ''vram_bytes'' \<noteq> JNull \<or> lookup detail ''gpu_sampled_at'' \<noteq> JNull))"

definition gpu_waste_assessment :: "rat \<Rightarrow> rat \<Rightarrow> rat \<Rightarrow> bool \<Rightarrow> bool \<times> rat" where
  "gpu_waste_assessment gpu_count utilization running_for fresh =
     (if \<not> fresh \<or> gpu_count \<le> 0 \<or> running_for < 30 * 60 \<or> 5 \<le> utilization then (False, 0)
      else (True, max 0 (min 100 (100 - utilization))))"

section \<open>Sessions\<close>

record live_session =
  ls_hub_id :: int
  ls_username :: string
  ls_keys :: "string list"
  ls_stale :: bool
  ls_resource_stale :: bool
  ls_cpu :: "rat option"
  ls_memory :: "rat option"
  ls_gpu :: "(rat \<times> rat) option"
  ls_runtime :: rat
  ls_idle :: bool
  ls_waste :: bool
  ls_view :: json_object

definition department_text :: "store_db \<Rightarrow> server_row \<Rightarrow> string" where
  "department_text d s = (case managed_of_server s d of None \<Rightarrow> [] | Some u \<Rightarrow> mu_department u)"

definition json_of_optional :: "rat option \<Rightarrow> json" where
  "json_of_optional v = (case v of None \<Rightarrow> JNull | Some x \<Rightarrow> JNum x)"

definition gpu_members :: "bool \<Rightarrow> bool \<Rightarrow> rat \<times> rat \<times> rat \<Rightarrow> bool \<times> rat \<Rightarrow> json_object" where
  \<comment> \<open>what a session shows of graphics processors\<close>
  "gpu_members gpu fresh used waste =
     (if \<not> gpu then []
      else (case used of (gpus, utilization, vram) \<Rightarrow>
              [(''gpu_count'', if fresh then JNum gpus else JNull),
               (''gpu_utilization'', if fresh then JNum utilization else JNull),
               (''vram_bytes'', if fresh then JNum vram else JNull)])
           @ [(''waste_candidate'', JBool (fst waste)), (''waste_score'', JNum (snd waste))])"

definition live_session_of :: "live_env \<Rightarrow> bool \<Rightarrow> bool \<Rightarrow> store_db \<Rightarrow> server_row \<times> hub_row \<Rightarrow> live_session" where
  "live_session_of env gpu source d row =
     (case row of (s, h) \<Rightarrow>
       let detail = sv_raw s; now = le_now env; shown = json_time (le_show_time env);
           fresh = (\<lambda>key. metric_sample_fresh (le_parse_time env) now detail key (sv_synced_at s) source);
           project = string_or_empty (lookup detail ''project'');
           department = department_text d s;
           stale = session_snapshot_stale now (sv_synced_at s) (hb_interval h);
           cpu = (if fresh ''cpu_sampled_at'' then sv_cpu_cores s else None);
           memory = (if fresh ''memory_sampled_at'' then map_option of_int (sv_memory_bytes s) else None);
           gpu_fresh = (sv_gpu_count s \<noteq> None \<and> fresh ''gpu_sampled_at'');
           used = gpu \<and> gpu_fresh;
           vram = (if used then plain_number (lookup detail ''vram_bytes'') else 0);
           utilization = (if used then plain_number (lookup detail ''gpu_utilization'') else 0);
           gpus = (if used then of_int (case sv_gpu_count s of None \<Rightarrow> 0 | Some n \<Rightarrow> n) else 0);
           runtime = (case sv_started_at s of None \<Rightarrow> 0 | Some t \<Rightarrow> seconds (now - t));
           idle = ((case sv_last_activity_at s of None \<Rightarrow> False | Some t \<Rightarrow> 2 * hour < now - t) \<and> cpu \<noteq> None
             \<and> (case cpu of None \<Rightarrow> 0 | Some x \<Rightarrow> x) < 3 / 100 \<and> (\<not> gpu \<or> gpu_fresh \<and> utilization < 5));
           resource_stale = (source \<and> (cpu = None \<or> memory = None
             \<or> (gpu_metrics_expected gpu (sv_gpu_count s) detail \<and> \<not> gpu_fresh)));
           waste = gpu_waste_assessment gpus utilization runtime gpu_fresh
       in \<lparr>ls_hub_id = hb_id h, ls_username = sv_username s,
            ls_keys = [''all'', ''hub:'' @ hb_name h, ''network:'' @ hb_network h, ''department:'' @ department, ''project:'' @ project],
            ls_stale = stale, ls_resource_stale = resource_stale, ls_cpu = cpu, ls_memory = memory,
            ls_gpu = (if used then Some (gpus, vram) else None), ls_runtime = runtime, ls_idle = idle,
            ls_waste = (gpu \<and> fst waste),
            ls_view =
              [(''server_id'', JNum (of_int (sv_id s))), (''hub_id'', JNum (of_int (hb_id h))), (''hub'', JStr (hb_name h)),
               (''network'', JStr (hb_network h)), (''department'', JStr department), (''project'', JStr project),
               (''username'', JStr (sv_username s)), (''server_name'', JStr (sv_server_name s)), (''status'', JStr (sv_status s)),
               (''started_at'', shown (sv_started_at s)), (''last_activity_at'', shown (sv_last_activity_at s)),
               (''runtime_seconds'', JNum runtime), (''cpu_cores'', json_of_optional cpu), (''memory_bytes'', json_of_optional memory),
               (''idle_candidate'', JBool idle), (''sampled_at'', shown (Some (sv_synced_at s))), (''stale'', JBool stale),
               (''data_freshness'', shown (Some (sv_synced_at s))), (''resource_stale'', JBool resource_stale),
               (''resource_sampled_at'', latest_metric_sample detail)]
              @ gpu_members gpu gpu_fresh (gpus, utilization, vram) waste\<rparr>)"

section \<open>Totals\<close>

definition measured :: "string \<Rightarrow> string \<Rightarrow> rat list \<Rightarrow> json_object" where
  \<comment> \<open>a sum and its number of samples, absent without any\<close>
  "measured sum_key count_key xs =
     (if xs = [] then [] else [(sum_key, JNum (sum_list xs)), (count_key, JNum (of_nat (length xs)))])"

definition aggregate_of :: "live_session list \<Rightarrow> json_object" where
  "aggregate_of ls =
     [(''servers'', JNum (of_nat (length ls)))]
     @ measured ''cpu_cores'' ''cpu_samples'' (List.map_filter ls_cpu ls)
     @ measured ''memory_bytes'' ''memory_samples'' (List.map_filter ls_memory ls)
     @ (let used = List.map_filter ls_gpu ls
        in if used = [] then []
           else [(''gpu_count'', JNum (sum_list (map fst used))), (''vram_bytes'', JNum (sum_list (map snd used))),
                 (''gpu_samples'', JNum (of_nat (length used)))])"

definition aggregates_of :: "live_session list \<Rightarrow> json_object" where
  "aggregates_of ls =
     map (\<lambda>key. (key, JObj (aggregate_of (filter (\<lambda>l. key \<in> set (ls_keys l)) ls)))) (remdups (concat (map ls_keys ls)))"

definition total_of :: "string \<Rightarrow> rat list \<Rightarrow> json_object" where
  "total_of key xs = (if xs = [] then [] else [(key, JNum (sum_list xs))])"

definition session_users :: "live_session list \<Rightarrow> nat" where
  "session_users ls = length (remdups (map (\<lambda>l. (ls_hub_id l, ls_username l)) ls))"

definition live_summary :: "live_session list \<Rightarrow> json_object" where
  "live_summary ls =
     [(''active_users'', JNum (of_nat (session_users ls))), (''running_servers'', JNum (of_nat (length ls))),
      (''idle_sessions'', JNum (of_nat (length (filter ls_idle ls)))),
      (''long_running_sessions'', JNum (of_nat (length (filter (\<lambda>l. 24 * 3600 \<le> ls_runtime l) ls))))]
     @ total_of ''cpu_usage'' (List.map_filter ls_cpu ls) @ total_of ''memory_usage'' (List.map_filter ls_memory ls)
     @ total_of ''gpu_usage'' (map fst (List.map_filter ls_gpu ls)) @ total_of ''vram_usage'' (map snd (List.map_filter ls_gpu ls))"

definition top_user :: "live_session list \<Rightarrow> string \<Rightarrow> rat \<times> string \<times> json_object" where
  "top_user ls name =
     (let mine = filter (\<lambda>l. ls_username l = name) ls; runtime = sum_list (map ls_runtime mine);
          given = (\<lambda>f. sum_list (map (\<lambda>l. case f l of None \<Rightarrow> 0 | Some x \<Rightarrow> x) mine))
      in (- runtime, name,
          [(''username'', JStr name), (''servers'', JNum (of_nat (length mine))), (''runtime_seconds'', JNum runtime),
           (''cpu_cores'', JNum (given ls_cpu)), (''memory_bytes'', JNum (given ls_memory)),
           (''usage_hours'', JNum (runtime / 3600))]))"

definition top_live_users :: "live_session list \<Rightarrow> json_object list" where
  \<comment> \<open>by the longest runtime, then by name\<close>
  "top_live_users ls =
     map (snd o snd) (sort_key fst (sort_key (fst o snd) (map (top_user ls) (remdups (map ls_username ls)))))"

section \<open>Hub cards\<close>

definition hub_user_totals :: "(int \<Rightarrow> nat) metric_tx" where
  "hub_user_totals =
     query db_failed (\<lambda>t. \<lambda>hid. length (filter (\<lambda>u. mu_hub_id u = hid) (active_managed (mt_store t))))"

definition hub_card :: "live_env \<Rightarrow> live_session list \<Rightarrow> (int \<Rightarrow> nat) \<Rightarrow> hub \<Rightarrow> json_object" where
  \<comment> \<open>\<open>ls\<close> are the sessions of the hub\<close>
  "hub_card env ls totals hub =
     (let mine = (if hu_enabled hub then filter (\<lambda>l. ls_hub_id l = hu_id hub) ls else []);
          users = remdups (filter (\<lambda>name. name \<noteq> []) (map ls_username mine));
          shown = json_time (le_show_time env);
          stale = (hu_enabled hub \<and> (hu_status hub \<noteq> ''healthy'' \<and> hu_status hub \<noteq> ''ok'' \<or> hu_last_seen_at hub = None
            \<or> session_snapshot_stale (le_now env) (value_or_zero (hu_last_seen_at hub)) (hu_interval hub)))
      in [(''id'', JNum (of_int (hu_id hub))), (''name'', JStr (hu_name hub)), (''network'', JStr (hu_network hub)),
          (''status'', JStr (if hu_enabled hub then hu_status hub else ''disabled'')), (''version'', JStr (hu_version hub)),
          (''enabled'', JBool (hu_enabled hub)), (''active_users'', JNum (of_nat (length users))),
          (''running_servers'', JNum (of_nat (length mine))),
          (''total_users'', JNum (of_nat (if hu_enabled hub then totals (hu_id hub) else 0))),
          (''last_seen_at'', shown (hu_last_seen_at hub)), (''last_success_at'', shown (hu_last_seen_at hub)),
          (''last_error'', JStr (hu_last_error hub)), (''stale'', JBool stale)])"

definition build_live_hub_cards :: "live_env \<Rightarrow> hub list \<Rightarrow> live_session list \<Rightarrow> (int \<Rightarrow> nat) \<Rightarrow> json list" where
  "build_live_hub_cards env hubs ls totals = map (\<lambda>hub. JObj (hub_card env ls totals hub)) hubs"

section \<open>The snapshot\<close>

definition json_of_trend :: "(time \<Rightarrow> string) \<Rightarrow> time \<times> int \<times> json \<times> json \<Rightarrow> json" where
  "json_of_trend show_time b =
     (case b of (at_time, calls, tokens, cost) \<Rightarrow>
        JObj [(''bucket'', JStr (show_time at_time)), (''calls'', json_of_int calls), (''total_tokens'', tokens), (''estimated_cost'', cost)])"

definition json_of_pods :: "pod_breakdown \<Rightarrow> json" where
  "json_of_pods b = JObj [(''pod_name'', JStr (pb_pod b)), (''summary'', JObj (pb_summary b)), (''models'', JArr (map JObj (pb_models b)))]"

definition json_of_users :: "user_breakdown \<Rightarrow> json" where
  "json_of_users b = JObj [(''username'', JStr (ub_username b)), (''summary'', JObj (ub_summary b)), (''pods'', JArr (map json_of_pods (ub_pods b)))]"

definition json_of_report :: "(time \<Rightarrow> string) \<Rightarrow> llm_report \<Rightarrow> json" where
  "json_of_report show_time r =
     (let data = JArr (map (\<lambda>(item, at_time). JObj (item @ [(''sampled_at'', JStr (show_time at_time))])) (lr_data r))
      in JObj [(''feature_enabled'', JBool (lr_enabled r)), (''from'', JStr (show_time (lr_from r))), (''to'', JStr (show_time (lr_to r))),
           (''group_by'', JStr (lr_group_by r)), (''data'', data), (''top_callers'', data), (''summary'', JObj (lr_summary r)),
           (''breakdown'', JArr (map json_of_users (lr_breakdown r))), (''usage_trend'', JArr (map (json_of_trend show_time) (lr_trend r))),
           (''data_freshness'', json_time show_time (lr_freshness r)), (''stale'', JBool (lr_stale r))])"

definition live_llm :: "live_env \<Rightarrow> bool \<Rightarrow> json metric_tx" where
  \<comment> \<open>the error of the report is dropped, and leaves null\<close>
  "live_llm env llm =
     (if \<not> llm then tx_return (JObj [(''feature_enabled'', JBool False), (''data'', JArr [])])
      else
        tx_bind (tx_try (llm_usage (le_llm_ordered env) (le_now env) (le_now env - hour) (le_now env) ''user'')) (\<lambda>r.
        tx_return (case r of Inl _ \<Rightarrow> JNull | Inr report \<Rightarrow> json_of_report (le_show_time env) report)))"

definition put_all :: "json_object \<Rightarrow> json_object \<Rightarrow> json_object" where
  "put_all members base = fold (\<lambda>(k, v) m. put_member m k v) members base"

definition live_members ::
  "live_env \<Rightarrow> bool \<Rightarrow> bool \<Rightarrow> live_session list \<Rightarrow> (int \<Rightarrow> nat) \<Rightarrow> hub list \<Rightarrow> json \<Rightarrow> json_object" where
  "live_members env gpu llm ls totals hubs llm_json =
     (let current = filter (\<lambda>l. \<not> ls_stale l) ls; sessions = JArr (map (JObj o ls_view) ls)
      in [(''feature_enabled'', JObj [(''gpu_monitoring'', JBool gpu), (''llm_usage_monitoring'', JBool llm)]),
          (''summary'', JObj (live_summary current)), (''active_users'', JNum (of_nat (session_users current))),
          (''servers'', JNum (of_nat (length current))), (''sessions'', sessions), (''live_users'', sessions),
          (''aggregates'', JObj (aggregates_of current)), (''usage_trend'', JArr []),
          (''top_users'', JArr (map JObj (top_live_users current)))]
         @ (if gpu then [(''gpu_waste'', JArr (map (JObj o ls_view) (filter ls_waste current)))] else [])
         @ [(''filters'', JObj [(''group_by'', JArr (map JStr [''hub'', ''network'', ''department'', ''project'']))]),
            (''hubs'', JArr (build_live_hub_cards env hubs current totals)), (''llm_usage'', llm_json),
            (''sampled_at'', JStr (le_show_time env (le_now env)))]
         @ (if list_ex ls_resource_stale ls then [(''stale'', JBool True)] else []))"

definition without_members :: "string list \<Rightarrow> json_object \<Rightarrow> json_object" where
  "without_members keys m = filter (\<lambda>(k, v). k \<notin> set keys) m"

definition live_snapshot :: "live_env \<Rightarrow> json_object metric_tx" where
  "live_snapshot env =
     tx_bind (dashboard env) (\<lambda>counts.
     tx_bind (tx_try (on_store (get_setting ''features''))) (\<lambda>features.
     tx_bind (tx_try (on_store (get_setting ''prometheus''))) (\<lambda>prometheus.
     let gpu = feature_on ''gpu_monitoring'' features; llm = feature_on ''llm_usage_monitoring'' features;
         source = feature_on ''enabled'' prometheus;
         base = (if gpu then counts else without_members [''gpu_users''] counts)
     in tx_bind (query db_failed (\<lambda>t. map (live_session_of env gpu source (mt_store t))
            (le_row_ordered env (live_rows (mt_store t))))) (\<lambda>ls.
        tx_bind (on_store (list_hubs_with_access (le_hub_ordered env) \<lparr>af_global = True, af_groups = []\<rparr>)) (\<lambda>hubs.
        tx_bind hub_user_totals (\<lambda>totals.
        tx_bind (live_llm env llm) (\<lambda>llm_json.
        tx_return (put_all (live_members env gpu llm ls totals hubs llm_json)
          (if gpu then base else without_members [''gpu_waste''] base)))))))))"

section \<open>Whom the snapshot calls a waster\<close>

lemma lookup_put: "lookup (put_member m k v) k' = (if k' = k then v else lookup m k')"
proof -
  have "map_of (filter (\<lambda>(x, _). x \<noteq> k) m) k' = (if k' = k then None else map_of m k')"
    by (induction m) auto
  then show ?thesis by (simp add: put_member_def lookup_def)
qed

lemma lookup_put_all:
  "lookup (put_all ms base) k = (case map_of (rev ms) k of None \<Rightarrow> lookup base k | Some v \<Rightarrow> v)"
  unfolding put_all_def
proof (induction ms arbitrary: base)
  case (Cons x ms)
  then show ?case by (cases x) (auto simp: lookup_put map_add_def split: option.splits)
qed simp

lemma lookup_without: "lookup (without_members keys m) k = (if k \<in> set keys then JNull else lookup m k)"
proof -
  have "map_of (filter (\<lambda>(x, _). x \<notin> set keys) m) k = (if k \<in> set keys then None else map_of m k)"
    by (induction m) auto
  then show ?thesis by (simp add: without_members_def lookup_def)
qed

lemma keeps_read_counts: "keeps I (read_counts counts)"
  by (induction counts rule: read_counts.induct) (auto intro!: inv_intros)

lemma keeps_dashboard: "keeps I (dashboard env)"
  unfolding dashboard_def gpu_monitoring_on_def by (intro inv_intros keeps_read_counts)

text \<open>
  A boolean of a stored setting; a row that is missing, is no object or has no such member counts as off.
\<close>

definition flag_set :: "string \<Rightarrow> string \<Rightarrow> store_db \<Rightarrow> bool" where
  "flag_set key name d \<longleftrightarrow>
     (\<exists>m. setting_of key d = Some (JObj m) \<and> lookup m name = JBool True)"

text \<open>
  When the use of a processor was sampled: the time of the processor's own sample; without one, and only
  while no Prometheus is configured (\<open>source\<close>), the time of the common sample, and without that as well
  the time the hub was read, although nothing was measured then.
\<close>

definition sample_moment :: "live_env \<Rightarrow> bool \<Rightarrow> server_row \<Rightarrow> time option" where
  "sample_moment env source s =
     (let own = metric_sample_time (le_parse_time env) (lookup (sv_raw s) ''gpu_sampled_at'');
          common = metric_sample_time (le_parse_time env) (lookup (sv_raw s) ''resource_sampled_at'')
      in if own \<noteq> None then own
         else if source then None
         else if common \<noteq> None then common
         else if sv_synced_at s = zero_time then None else Some (sv_synced_at s))"

text \<open>Whom the list is to name: a missing figure of use counts as no use.\<close>

definition waste_listed :: "live_env \<Rightarrow> bool \<Rightarrow> server_row \<times> hub_row \<Rightarrow> bool" where
  "waste_listed env source row \<longleftrightarrow>
     (\<exists>gpus sampled started. sv_gpu_count (fst row) = Some gpus \<and> 0 < gpus
        \<and> (\<forall>n. lookup (sv_raw (fst row)) ''gpu_utilization'' = JNum n \<longrightarrow> n < 5)
        \<and> sample_moment env source (fst row) = Some sampled
        \<and> le_now env - 5 * minute \<le> sampled \<and> sampled \<le> le_now env + minute
        \<and> sv_started_at (fst row) = Some started \<and> started + 30 * minute \<le> le_now env
        \<and> \<not> session_snapshot_stale (le_now env) (sv_synced_at (fst row)) (hb_interval (snd row)))"

lemma fresh_sample_iff:
  "metric_sample_fresh (le_parse_time env) (le_now env) (sv_raw s) ''gpu_sampled_at'' (sv_synced_at s) source \<longleftrightarrow>
     (\<exists>t. sample_moment env source s = Some t \<and> le_now env - 5 * minute \<le> t \<and> t \<le> le_now env + minute)"
  by (auto simp: metric_sample_fresh_def sample_moment_def Let_def not_less split: option.splits)

lemma plain_below: "plain_number v < 5 \<longleftrightarrow> (\<forall>n. v = JNum n \<longrightarrow> n < 5)"
  by (cases v) (auto simp: plain_number_def)

lemma half_hour: "1800 \<le> seconds (t - started) \<longleftrightarrow> started + 30 * minute \<le> t"
  by (simp add: seconds_def minute_def second_def pos_le_divide_eq algebra_simps flip: of_int_le_iff [where 'a = rat])

lemma waste_session_iff:
  "ls_waste (live_session_of env gpu source d row) \<and> \<not> ls_stale (live_session_of env gpu source d row)
     \<longleftrightarrow> gpu \<and> waste_listed env source row"
proof (cases row)
  case (Pair s h)
  let ?fresh = "metric_sample_fresh (le_parse_time env) (le_now env) (sv_raw s) ''gpu_sampled_at'' (sv_synced_at s) source"
  have "ls_waste (live_session_of env gpu source d (s, h)) \<longleftrightarrow>
      gpu \<and> ?fresh \<and> (\<exists>gpus. sv_gpu_count s = Some gpus \<and> 0 < gpus)
      \<and> plain_number (lookup (sv_raw s) ''gpu_utilization'') < 5
      \<and> (\<exists>started. sv_started_at s = Some started \<and> 1800 \<le> seconds (le_now env - started))"
    by (auto simp: live_session_of_def gpu_waste_assessment_def Let_def not_le not_less split: option.splits if_splits)
  moreover have "ls_stale (live_session_of env gpu source d (s, h)) \<longleftrightarrow>
      session_snapshot_stale (le_now env) (sv_synced_at s) (hb_interval h)"
    by (simp add: live_session_of_def Let_def)
  ultimately show ?thesis
    by (auto simp: Pair waste_listed_def fresh_sample_iff plain_below half_hour)
qed

lemma true_iff: "true_bool v \<longleftrightarrow> v = JBool True"
  by (cases v) (auto simp: true_bool_def)

lemma setting_read:
  assumes "(tx_try (on_store (get_setting key)) :: (metric_error, json) res metric_tx) fs t = (Inr r, fs', t')"
  shows "t' = t" and "feature_on name r \<Longrightarrow> flag_set key name (mt_store t)"
    and "fs = [] \<Longrightarrow> fs' = [] \<and> feature_on name r = flag_set key name (mt_store t)"
  using assms
  by (auto simp: tx_try_Inr on_store_def on_part_def get_setting_def query_row_def statement_def Let_def feature_on_def
      flag_set_def setting_of_def true_iff
      split: prod.splits sum.splits if_split_asm option.splits)

text \<open>Without failing statements, none is left to fail.\<close>

definition unfailing :: "('d, 'e, 'a) tx \<Rightarrow> bool" where
  "unfailing m \<longleftrightarrow> (\<forall>d r fs' d'. m [] d = (r, fs', d') \<longrightarrow> fs' = [])"

lemma unfailing_steps:
  "unfailing (tx_return a)" "unfailing (query e f)" "unfailing m \<Longrightarrow> unfailing (tx_try m)"
  "unfailing (on_store (get_setting key))"
  by (auto simp: unfailing_def tx_return_def query_def tx_try_def on_store_def on_part_def get_setting_def query_row_def
      statement_def Let_def split: prod.splits sum.splits if_split_asm option.splits)

lemma unfailing_bind:
  assumes "unfailing m" and "\<And>a. unfailing (k a)" shows "unfailing (tx_bind m k)"
  unfolding unfailing_def
proof (intro allI impI)
  fix d r fs' d'
  assume run: "tx_bind m k [] d = (r, fs', d')"
  obtain x fs1 d1 where m: "m [] d = (x, fs1, d1)" by (metis prod_cases3)
  with assms(1) have "fs1 = []" by (auto simp: unfailing_def)
  with m run assms(2) show "fs' = []" by (cases x) (auto simp: tx_bind_def unfailing_def, blast)
qed

lemma unfailing_counts: "unfailing (read_counts counts)"
  by (induction counts rule: read_counts.induct) (auto intro!: unfailing_bind unfailing_steps)

lemma unfailing_dashboard: "unfailing (dashboard env)"
  unfolding dashboard_def gpu_monitoring_on_def
  by (intro unfailing_bind unfailing_counts unfailing_steps) (auto intro: unfailing_bind unfailing_steps split: prod.split)

definition server_id_of :: "json \<Rightarrow> json" where
  "server_id_of v = (case v of JObj m \<Rightarrow> lookup m ''server_id'' | _ \<Rightarrow> JNull)"

text \<open>C33: The list of graphics processor waste names exactly the sessions of running servers of enabled hubs, seen in
  time, that have had a processor for half an hour and whose sample, at most five minutes old, reports less than five
  per cent of use. It goes as far as the code does and no further: a session for which no use is reported is listed as
  one that uses nothing, and without Prometheus the time the hub was read stands in for that of a missing sample. The
  list exists exactly while the monitoring of graphics processors is on.\<close>

theorem gpu_waste_exact:
  assumes "live_snapshot env fs t = (Inr snapshot, fs', t')" and "\<And>rows. set (le_row_ordered env rows) = set rows"
  shows "\<exists>gpu source.
      (gpu \<longrightarrow> flag_set ''features'' ''gpu_monitoring'' (mt_store t))
      \<and> (source \<longrightarrow> flag_set ''prometheus'' ''enabled'' (mt_store t))
      \<and> (fs = [] \<longrightarrow> gpu = flag_set ''features'' ''gpu_monitoring'' (mt_store t)
          \<and> source = flag_set ''prometheus'' ''enabled'' (mt_store t))
      \<and> (if gpu
         then \<exists>ws. lookup snapshot ''gpu_waste'' = JArr ws \<and> server_id_of ` set ws
            = (\<lambda>row. JNum (of_int (sv_id (fst row)))) ` {row \<in> set (live_rows (mt_store t)). waste_listed env source row}
         else lookup snapshot ''gpu_waste'' = JNull)"
proof -
  let ?I = "\<lambda>x. x = t"
  obtain counts fs1 t1 features fs2 t2 prometheus fs3 t3 base ls totals hubs llm_json where
    runs: "dashboard env fs t = (Inr counts, fs1, t1)" "(tx_try (on_store (get_setting ''features'')) :: (metric_error, json) res metric_tx) fs1 t1 = (Inr features, fs2, t2)"
      "(tx_try (on_store (get_setting ''prometheus'')) :: (metric_error, json) res metric_tx) fs2 t2 = (Inr prometheus, fs3, t3)"
    and ls: "ls = map (live_session_of env (feature_on ''gpu_monitoring'' features) (feature_on ''enabled'' prometheus) (mt_store t3))
        (le_row_ordered env (live_rows (mt_store t3)))"
    and snapshot: "snapshot = put_all (live_members env (feature_on ''gpu_monitoring'' features)
        (feature_on ''llm_usage_monitoring'' features) ls totals hubs llm_json)
        (if feature_on ''gpu_monitoring'' features then base else without_members [''gpu_waste''] base)"
    using assms(1) unfolding live_snapshot_def Let_def
  proof (elim tx_bindE, goal_cases)
    case (1 counts fs1 t1 features fs2 t2 prometheus fs3 t3 ls fs4 t4 hubs fs5 t5 totals fs6 t6 llm_json fs7 t7)
    from 1(1) [OF 1(2-4)] 1(5,9) show ?case by (simp add: query_Inr)
  qed
  have "t1 = t" by (rule keepsD [where I = ?I, OF keeps_dashboard refl runs(1)])
  with setting_read(1) [OF runs(2)] setting_read(1) [OF runs(3)] have same: "t1 = t" "t2 = t" "t3 = t" by simp_all
  let ?gpu = "feature_on ''gpu_monitoring'' features" and ?source = "feature_on ''enabled'' prometheus"
  note read = setting_read(2,3) [OF runs(2)] setting_read(2,3) [OF runs(3)]
  have fs1: "fs = [] \<Longrightarrow> fs1 = []" using unfailing_dashboard [of env] runs(1) by (auto simp: unfailing_def)
  have waste: "lookup snapshot ''gpu_waste'' =
      (if ?gpu then JArr (map (JObj o ls_view) (filter ls_waste (filter (\<lambda>l. \<not> ls_stale l) ls))) else JNull)"
    by (simp add: snapshot lookup_put_all live_members_def Let_def lookup_without)
  let ?session = "live_session_of env ?gpu ?source (mt_store t)"
  have id: "server_id_of (JObj (ls_view (?session row))) = JNum (of_int (sv_id (fst row)))" for row
    by (cases row) (simp add: server_id_of_def live_session_of_def Let_def lookup_Cons)
  have "{l \<in> set ls. \<not> ls_stale l \<and> ls_waste l}
      = ?session ` {row \<in> set (live_rows (mt_store t)). waste_listed env ?source row}" if ?gpu
    using that waste_session_iff [of env ?gpu ?source "mt_store t"] assms(2) by (auto simp: ls same)
  then have "server_id_of ` (JObj o ls_view) ` {l \<in> set ls. \<not> ls_stale l \<and> ls_waste l}
      = (\<lambda>row. JNum (of_int (sv_id (fst row)))) ` {row \<in> set (live_rows (mt_store t)). waste_listed env ?source row}" if ?gpu
    using that id by (simp add: image_image)
  moreover have "set (map (JObj o ls_view) (filter ls_waste (filter (\<lambda>l. \<not> ls_stale l) ls)))
      = (JObj o ls_view) ` {l \<in> set ls. \<not> ls_stale l \<and> ls_waste l}" by auto
  ultimately have list: "?gpu \<Longrightarrow> \<exists>ws. lookup snapshot ''gpu_waste'' = JArr ws \<and> server_id_of ` set ws
      = (\<lambda>row. JNum (of_int (sv_id (fst row)))) ` {row \<in> set (live_rows (mt_store t)). waste_listed env ?source row}"
    using waste by (metis (no_types, lifting))
  show ?thesis
    by (rule exI [of _ ?gpu], rule exI [of _ ?source]) (use read fs1 same list waste in auto)
qed

section \<open>Reads keep the tables\<close>

lemma keeps_llm_detail: "keeps I (llm_detail ordered now from until)"
  unfolding llm_detail_def llm_feature_def llm_usage_stale_def read_items_def
  by (intro inv_intros keeps_statement) (auto split: option.splits intro!: inv_intros)

lemma keeps_llm_usage: "keeps I (llm_usage ordered now from until g)"
  unfolding llm_usage_def llm_feature_def read_items_def Let_def
  by (intro inv_intros keeps_llm_detail keeps_statement) (auto split: option.splits)

lemma keeps_live_snapshot: "keeps I (live_snapshot env)"
  unfolding live_snapshot_def live_llm_def hub_user_totals_def list_hubs_with_access_def Let_def
  by (intro inv_intros keeps_dashboard keeps_llm_usage keeps_on_store_read)

definition gpu_env :: live_env where
  "gpu_env = \<lparr>le_llm_ordered = (\<lambda>rows. rows), le_hub_ordered = (\<lambda>_ hubs. hubs), le_row_ordered = (\<lambda>rows. rows),
     le_parse_time = (\<lambda>_. Some (7190 * second)), le_show_time = (\<lambda>_. ''t''), le_now = 7200 * second\<rparr>"

definition gpu_tables :: metric_db where
  \<comment> \<open>ana's server has run for two hours, with a processor used at one per cent ten seconds ago\<close>
  "gpu_tables = lab_tables\<lparr>mt_store := (mt_store lab_tables)\<lparr>
     db_settings := [\<lparr>st_key = ''features'', st_value = JObj [(''gpu_monitoring'', JBool True)], st_updated_by = None, st_updated_at = 0\<rparr>],
     db_servers := [(lab_server 1 ''ana'' ''running'' ''jupyter-ana'')\<lparr>sv_gpu_count := Some 1, sv_started_at := Some 0,
       sv_synced_at := 7190 * second,
       sv_raw := [(''gpu_utilization'', JNum 1), (''gpu_sampled_at'', JStr ''t'')]\<rparr>]\<rparr>\<rparr>"

text \<open>A second server reports no figure at all, and a third one half of its processor.\<close>

definition unmeasured_tables :: metric_db where
  "unmeasured_tables = gpu_tables\<lparr>mt_store := (mt_store gpu_tables)\<lparr>db_servers := db_servers (mt_store gpu_tables)
     @ [(lab_server 2 ''bo'' ''running'' ''jupyter-bo'')\<lparr>sv_gpu_count := Some 1, sv_started_at := Some 0, sv_synced_at := 7190 * second\<rparr>,
        (lab_server 3 ''cy'' ''running'' ''jupyter-cy'')\<lparr>sv_gpu_count := Some 1, sv_started_at := Some 0,
          sv_synced_at := 7190 * second, sv_raw := [(''gpu_utilization'', JNum 50), (''gpu_sampled_at'', JStr ''t'')]\<rparr>]\<rparr>\<rparr>"

theorem gpu_waste_exact_witness:
  "\<exists>snapshot ws. live_snapshot gpu_env [] unmeasured_tables = (Inr snapshot, [], unmeasured_tables)
     \<and> lookup snapshot ''gpu_waste'' = JArr ws \<and> server_id_of ` set ws = {JNum 1, JNum 2}"
proof -
  have "case live_snapshot gpu_env [] unmeasured_tables of
      (Inr snapshot, fs, t) \<Rightarrow> fs = [] \<and> t = unmeasured_tables | _ \<Rightarrow> False" by code_simp
  then obtain snapshot where run: "live_snapshot gpu_env [] unmeasured_tables = (Inr snapshot, [], unmeasured_tables)"
    by (auto split: prod.splits sum.splits)
  have on: "flag_set ''features'' ''gpu_monitoring'' (mt_store unmeasured_tables)"
    "\<not> flag_set ''prometheus'' ''enabled'' (mt_store unmeasured_tables)"
    by (simp_all add: flag_set_def setting_of_def unmeasured_tables_def gpu_tables_def lab_tables_def lookup_Cons)
  have rows: "live_rows (mt_store unmeasured_tables) = map (\<lambda>s. (s, lab_hub)) (db_servers (mt_store unmeasured_tables))"
    by code_simp
  have listed: "map (\<lambda>s. waste_listed gpu_env False (s, lab_hub)) (db_servers (mt_store unmeasured_tables)) = [True, True, False]"
    by (simp add: unmeasured_tables_def gpu_tables_def lab_server_def waste_listed_def sample_moment_def gpu_env_def
        metric_sample_time_def lookup_Cons Let_def session_snapshot_stale_def lab_hub_def minute_def second_def zero_time_def)
  have ids: "map sv_id (db_servers (mt_store unmeasured_tables)) = [1, 2, 3]" by code_simp
  have "(\<lambda>row. JNum (of_int (sv_id (fst row)))) ` {row \<in> set (live_rows (mt_store unmeasured_tables)). waste_listed gpu_env False row}
      = {JNum 1, JNum 2}"
  proof -
    from ids obtain a b c where abc: "db_servers (mt_store unmeasured_tables) = [a, b, c]" "sv_id a = 1" "sv_id b = 2"
      by (auto simp: map_eq_Cons_conv)
    with listed have "filter (waste_listed gpu_env False) (live_rows (mt_store unmeasured_tables)) = [(a, lab_hub), (b, lab_hub)]"
      by (simp add: rows)
    from arg_cong [OF this, of set] abc show ?thesis by simp
  qed
  with gpu_waste_exact [OF run] on run show ?thesis by (auto simp: gpu_env_def)
qed

end
