(* ===== verification/Resources.thy ===== *)
theory Resources
  imports Mail Settings Hub_Lists
begin

text \<open>
  The generic resources (policies, profiles, images, projects, approvals, incidents, notifications, costs): the
  statements on the table (\<^verbatim>\<open>internal/store/settings.go\<close>, \<^verbatim>\<open>internal/store/approvals.go\<close>), the workflow setting
  (\<^verbatim>\<open>internal/store/workflow.go\<close>) and the handlers of \<^verbatim>\<open>internal/api/resource_handlers.go\<close> that every kind shares. The
  text of a time in a reply is the parameter \<open>show_time\<close>; \<open>ordered\<close> applies an ORDER BY clause.
\<close>

section \<open>The table\<close>

record resource_write =
  rw_name :: string
  rw_status :: string
  rw_owner_user_id :: "int option"
  rw_data :: "json option"

definition resource_defaults :: "resource_write \<Rightarrow> resource_write" where
  \<comment> \<open>an empty status is active, missing data the empty object\<close>
  "resource_defaults input =
     input\<lparr>rw_status := (if rw_status input = [] then ''active'' else rw_status input),
           rw_data := Some (case rw_data input of None \<Rightarrow> JObj [] | Some v \<Rightarrow> v)\<rparr>"

definition written_data :: "resource_write \<Rightarrow> json" where
  "written_data input = (case rw_data (resource_defaults input) of Some v \<Rightarrow> v | None \<Rightarrow> JObj [])"

definition known_user :: "store_db \<Rightarrow> int option \<Rightarrow> bool" where
  \<comment> \<open>a foreign key on \<^verbatim>\<open>users\<close>\<close>
  "known_user d reference = (case reference of None \<Rightarrow> True | Some uid \<Rightarrow> find_user uid d \<noteq> None)"

definition matching_resource :: "string \<Rightarrow> int \<Rightarrow> resource_row \<Rightarrow> bool" where
  "matching_resource kind rid r = (re_kind r = kind \<and> re_id r = rid)"

definition find_resource :: "string \<Rightarrow> int \<Rightarrow> store_db \<Rightarrow> resource_row option" where
  "find_resource kind rid d = find (matching_resource kind rid) (db_resources d)"

definition created_resource :: "string \<Rightarrow> resource_write \<Rightarrow> int \<Rightarrow> store_db \<Rightarrow> resource_row" where
  "created_resource kind input actor d =
     \<lparr>re_id = db_next_resource d, re_kind = kind, re_name = rw_name input,
      re_status = rw_status (resource_defaults input), re_owner_user_id = rw_owner_user_id input,
      re_data = written_data input, re_created_by = Some actor, re_updated_by = Some actor,
      re_created_at = db_now d, re_updated_at = db_now d\<rparr>"

definition create_resource :: "string \<Rightarrow> resource_write \<Rightarrow> int \<Rightarrow> resource_row store_tx" where
  "create_resource kind input actor =
     statement DbError (\<lambda>d.
       if \<not> known_user d (rw_owner_user_id input) \<or> \<not> known_user d (Some actor) then Inl DbError
       else let r = created_resource kind input actor d
            in Inr (r, d\<lparr>db_resources := db_resources d @ [r], db_next_resource := db_next_resource d + 1\<rparr>))"

definition get_resource :: "string \<Rightarrow> int \<Rightarrow> resource_row store_tx" where
  "get_resource kind rid = query_row DbError ErrNotFound (find_resource kind rid)"

definition resource_matches :: "string \<Rightarrow> string \<Rightarrow> string \<Rightarrow> int option \<Rightarrow> resource_row \<Rightarrow> bool" where
  "resource_matches kind status search owner r =
     (re_kind r = kind \<and> (status = [] \<or> re_status r = status)
      \<and> (search = [] \<or> ilike (search_pattern search) (re_name r))
      \<and> (owner = None \<or> re_owner_user_id r = owner))"

definition list_resources ::
  "(string \<Rightarrow> resource_row list \<Rightarrow> resource_row list) \<Rightarrow> string \<Rightarrow> int \<Rightarrow> int \<Rightarrow> string \<Rightarrow> string \<Rightarrow> int option
    \<Rightarrow> sort_request \<Rightarrow> (resource_row list \<times> page_info) store_tx" where
  "list_resources ordered kind page page_size status search owner s =
     (let (page1, limit, offset) = page_bounds page page_size;
          search1 = trim_space search;
          clause = order_by resource_sort_columns s ''updated_at DESC'' ''id''
      in tx_bind (query DbError (\<lambda>d.
           length (filter (resource_matches kind status search1 owner) (db_resources d)))) (\<lambda>total.
         tx_bind (query DbError (\<lambda>d. page_of limit offset
           (ordered clause (filter (resource_matches kind status search1 owner) (db_resources d))))) (\<lambda>items.
         tx_return (items, \<lparr>pi_page = page1, pi_page_size = limit, pi_total = int total\<rparr>))))"

definition rewritten_resource :: "resource_write \<Rightarrow> int \<Rightarrow> store_db \<Rightarrow> resource_row \<Rightarrow> resource_row" where
  "rewritten_resource input actor d r =
     r\<lparr>re_name := rw_name input, re_status := rw_status (resource_defaults input),
       re_owner_user_id := rw_owner_user_id input, re_data := written_data input,
       re_updated_by := Some actor, re_updated_at := db_now d\<rparr>"

definition rewrite_resources :: "(resource_row \<Rightarrow> bool) \<Rightarrow> resource_write \<Rightarrow> int \<Rightarrow> store_db \<Rightarrow> store_db" where
  "rewrite_resources cond input actor d =
     d\<lparr>db_resources := map (\<lambda>r. if cond r then rewritten_resource input actor d r else r) (db_resources d)\<rparr>"

text \<open>An UPDATE that returns the row it wrote; the foreign keys are checked when a row is written.\<close>

definition update_where ::
  "(resource_row \<Rightarrow> bool) \<Rightarrow> resource_write \<Rightarrow> int \<Rightarrow> store_db \<Rightarrow> (store_error, resource_row option \<times> store_db) res" where
  "update_where cond input actor d =
     (case find cond (db_resources d) of
        None \<Rightarrow> Inr (None, d)
      | Some r \<Rightarrow>
          if \<not> known_user d (rw_owner_user_id input) \<or> \<not> known_user d (Some actor) then Inl DbError
          else Inr (Some (rewritten_resource input actor d r), rewrite_resources cond input actor d))"

definition transition_resource ::
  "string \<Rightarrow> int \<Rightarrow> string \<Rightarrow> resource_write \<Rightarrow> int \<Rightarrow> (resource_row option) store_tx" where
  \<comment> \<open>\<open>None\<close> is the result false: another request won the transition\<close>
  "transition_resource kind rid expected input actor =
     statement DbError (update_where (\<lambda>r. matching_resource kind rid r \<and> re_status r = expected) input actor)"

definition update_resource :: "string \<Rightarrow> int \<Rightarrow> resource_write \<Rightarrow> int \<Rightarrow> resource_row store_tx" where
  "update_resource kind rid input actor =
     tx_bind (statement DbError (update_where (matching_resource kind rid) input actor)) (\<lambda>written.
     case written of
       None \<Rightarrow> tx_throw ErrNotFound
     | Some _ \<Rightarrow> get_resource kind rid)"

definition delete_resource :: "string \<Rightarrow> int \<Rightarrow> unit store_tx" where
  "delete_resource kind rid =
     statement DbError (\<lambda>d.
       if find_resource kind rid d = None then Inl ErrNotFound
       else Inr ((), d\<lparr>db_resources := filter (\<lambda>r. \<not> matching_resource kind rid r) (db_resources d)\<rparr>))"

section \<open>The workflow setting\<close>

record workflow_config =
  wf_approval_enabled :: bool
  wf_manager_review_enabled :: bool
  wf_require_reason :: bool
  wf_request_types :: "string list"

definition workflow_of_json :: "json \<Rightarrow> workflow_config option" where
  \<comment> \<open>\<^verbatim>\<open>json.Unmarshal\<close> into the struct\<close>
  "workflow_of_json v =
     (case object_members v of
        None \<Rightarrow> None
      | Some m \<Rightarrow>
          (case (bool_field m ''approval_enabled'', bool_field m ''manager_review_enabled'',
                 bool_field m ''require_reason'', strings_field m ''request_types'') of
             (Some enabled, Some review, Some reason, Some types) \<Rightarrow>
               Some \<lparr>wf_approval_enabled = enabled, wf_manager_review_enabled = review,
                     wf_require_reason = reason, wf_request_types = types\<rparr>
           | _ \<Rightarrow> None))"

definition json_of_workflow :: "workflow_config \<Rightarrow> json" where
  "json_of_workflow c =
     JObj [(''approval_enabled'', JBool (wf_approval_enabled c)),
           (''manager_review_enabled'', JBool (wf_manager_review_enabled c)),
           (''require_reason'', JBool (wf_require_reason c)),
           (''request_types'', JArr (map JStr (wf_request_types c)))]"

definition get_workflow_config :: "workflow_config store_tx" where
  "get_workflow_config =
     tx_bind (get_setting ''workflow'') (\<lambda>v.
     case workflow_of_json v of None \<Rightarrow> tx_throw BadSettingDocument | Some c \<Rightarrow> tx_return c)"

definition requires_approval :: "workflow_config \<Rightarrow> string \<Rightarrow> bool" where
  "requires_approval c request_type =
     (if \<not> wf_approval_enabled c then False
      else if wf_request_types c = [] then True
      else list_ex (\<lambda>t. equal_fold (trim_space t) request_type) (wf_request_types c))"

definition approval_enabled :: "bool store_tx" where
  "approval_enabled =
     tx_bind (tx_try get_workflow_config) (\<lambda>got.
     tx_return (case got of Inl _ \<Rightarrow> False | Inr c \<Rightarrow> wf_approval_enabled c))"

section \<open>Documents\<close>

definition resource_kinds :: "(string \<times> string) list" where
  "resource_kinds =
     [(''policies'', ''policy''), (''profiles'', ''profile''), (''images'', ''image''), (''projects'', ''project''),
      (''approvals'', ''approval''), (''incidents'', ''incident''), (''notifications'', ''notification''),
      (''costs'', ''cost'')]"

definition resource_permission :: "string \<Rightarrow> string \<Rightarrow> string" where
  "resource_permission kind action =
     (if kind = ''profile'' then ''profiles:'' @ action else kind @ '':'' @ action)"

definition reserved_members :: "string list" where
  "reserved_members =
     [''id'', ''kind'', ''name'', ''status'', ''owner_user_id'', ''data'', ''created_by'', ''updated_by'', ''created_at'',
      ''updated_at'']"

definition put_members :: "json_object \<Rightarrow> json_object \<Rightarrow> json_object" where
  "put_members = foldl (\<lambda>m (k, v). put_member m k v)"

definition owner_of :: "json \<Rightarrow> int option" where
  \<comment> \<open>\<^verbatim>\<open>int64(v)\<close> of a number\<close>
  "owner_of v = map_option truncated (as_number v)"

definition decode_resource_write :: "json option \<Rightarrow> resource_write option" where
  \<comment> \<open>\<open>None\<close> on both sides is the refusal: the body does not decode, or has no name\<close>
  "decode_resource_write body =
     (case (case body of None \<Rightarrow> None | Some v \<Rightarrow> object_members v) of
        None \<Rightarrow> None
      | Some members \<Rightarrow>
          let name = string_or_empty (lookup members ''name'');
              nested = (case as_object (lookup members ''data'') of None \<Rightarrow> [] | Some m \<Rightarrow> m);
              payload = put_members (put_members [] nested) (filter (\<lambda>(k, _). k \<notin> set reserved_members) members)
          in if trim_space name = [] then None
             else Some \<lparr>rw_name = name, rw_status = string_or_empty (lookup members ''status''),
                        rw_owner_user_id = owner_of (lookup members ''owner_user_id''), rw_data = Some (JObj payload)\<rparr>)"

definition json_id :: "int option \<Rightarrow> json" where
  "json_id reference = (case reference of None \<Rightarrow> JNull | Some n \<Rightarrow> JNum (of_int n))"

definition flatten_resource :: "(time \<Rightarrow> string) \<Rightarrow> resource_row \<Rightarrow> json_object" where
  \<comment> \<open>the stored document is always an object\<close>
  "flatten_resource show_time r =
     put_members (case as_object (re_data r) of None \<Rightarrow> [] | Some m \<Rightarrow> m)
       [(''id'', JNum (of_int (re_id r))), (''kind'', JStr (re_kind r)), (''name'', JStr (re_name r)),
        (''status'', JStr (re_status r)), (''owner_user_id'', json_id (re_owner_user_id r)), (''data'', re_data r),
        (''created_by'', json_id (re_created_by r)), (''updated_by'', json_id (re_updated_by r)),
        (''created_at'', JStr (show_time (re_created_at r))), (''updated_at'', JStr (show_time (re_updated_at r)))]"

section \<open>Handlers of every kind\<close>

definition path_id :: "request \<Rightarrow> int handler" where
  "path_id r = (case int_path r ''id'' of None \<Rightarrow> api_error 400 ''invalid_id'' | Some rid \<Rightarrow> tx_return rid)"

definition resource_list ::
  "(string \<Rightarrow> resource_row list \<Rightarrow> resource_row list) \<Rightarrow> (time \<Rightarrow> string) \<Rightarrow> request \<Rightarrow> string
    \<Rightarrow> (json_object list \<times> page_info) handler" where
  "resource_list ordered show_time r kind =
     (let owner = (if rq_query r ''owner_user_id'' = [] then None else parse_int (rq_query r ''owner_user_id''))
      in tx_bind (page_query r 20) (\<lambda>(page, page_size).
         tx_bind (store_call (list_resources ordered kind page page_size (rq_query r ''status'') (rq_query r ''search'')
           owner (list_sort r))) (\<lambda>(items, info).
         tx_return (map (flatten_resource show_time) items, info))))"

definition resource_get :: "(time \<Rightarrow> string) \<Rightarrow> request \<Rightarrow> string \<Rightarrow> json_object handler" where
  "resource_get show_time r kind =
     tx_bind (path_id r) (\<lambda>rid.
     tx_bind (store_call (get_resource kind rid)) (\<lambda>item.
     tx_return (flatten_resource show_time item)))"

definition actor_id :: "request \<Rightarrow> int" where
  "actor_id r = u_id (p_user (rq_principal r))"

definition resource_create :: "(time \<Rightarrow> string) \<Rightarrow> json option \<Rightarrow> request \<Rightarrow> string \<Rightarrow> json_object handler" where
  "resource_create show_time body r kind =
     (if kind = ''approval'' then api_error 405 ''workflow_managed''
      else case decode_resource_write body of
        None \<Rightarrow> api_error 400 ''invalid_resource''
      | Some input \<Rightarrow>
          tx_bind (store_call (create_resource kind input (actor_id r))) (\<lambda>item.
          tx_bind (audit (request_audit r (kind @ ''.create'') kind (format_int (re_id item)) ''success'' [] None
            (Some (JObj (flatten_resource show_time item))))) (\<lambda>_.
          tx_return (flatten_resource show_time item))))"

definition resource_update :: "(time \<Rightarrow> string) \<Rightarrow> json option \<Rightarrow> request \<Rightarrow> string \<Rightarrow> json_object handler" where
  "resource_update show_time body r kind =
     (if kind = ''approval'' then api_error 405 ''workflow_managed''
      else
        tx_bind (path_id r) (\<lambda>rid.
        tx_bind (store_call (get_resource kind rid)) (\<lambda>before.
        case decode_resource_write body of
          None \<Rightarrow> api_error 400 ''invalid_resource''
        | Some input \<Rightarrow>
            tx_bind (store_call (update_resource kind rid input (actor_id r))) (\<lambda>item.
            tx_bind (audit (request_audit r (kind @ ''.update'') kind (format_int rid) ''success'' []
              (Some (JObj (flatten_resource show_time before))) (Some (JObj (flatten_resource show_time item))))) (\<lambda>_.
            tx_return (flatten_resource show_time item))))))"

definition resource_delete :: "(time \<Rightarrow> string) \<Rightarrow> request \<Rightarrow> string \<Rightarrow> unit handler" where
  "resource_delete show_time r kind =
     (if kind = ''approval'' then api_error 405 ''workflow_managed''
      else
        tx_bind (path_id r) (\<lambda>rid.
        tx_bind (store_call (get_resource kind rid)) (\<lambda>before.
        tx_bind (store_call (delete_resource kind rid)) (\<lambda>_.
        audit (request_audit r (kind @ ''.delete'') kind (format_int rid) ''success'' []
          (Some (JObj (flatten_resource show_time before))) None)))))"

definition resource_routes :: "(string \<times> string) list" where
  \<comment> \<open>the patterns of \<^verbatim>\<open>registerResources\<close> and the permission each requires\<close>
  "resource_routes =
     concat (map (\<lambda>(path, kind).
       [(''GET /api/v1/'' @ path, resource_permission kind ''read''),
        (''POST /api/v1/'' @ path, resource_permission kind ''write''),
        (''GET /api/v1/'' @ path @ ''/{id}'', resource_permission kind ''read''),
        (''PUT /api/v1/'' @ path @ ''/{id}'', resource_permission kind ''write''),
        (''DELETE /api/v1/'' @ path @ ''/{id}'', resource_permission kind ''write'')]) resource_kinds)
     @ [(''POST /api/v1/approvals/{id}/approve'', ''approval:approve''),
        (''POST /api/v1/approvals/{id}/review'', ''approval:review''),
        (''POST /api/v1/approvals/{id}/reject'', ''approval:approve'')]"

section \<open>Facts\<close>

lemma lookup_put_member: "lookup (put_member m k v) k' = (if k = k' then v else lookup m k')"
proof -
  have "map_of (filter (\<lambda>(k, _). k \<noteq> key) m) k' = (if k' = key then None else map_of m k')" for key
    by (induction m) auto
  then show ?thesis by (simp add: lookup_def put_member_def)
qed

lemma workflow_round_trip [simp]: "workflow_of_json (json_of_workflow c) = Some c"
  by (simp add: workflow_of_json_def json_of_workflow_def bool_field_def strings_field_def lookup_Cons)

lemma resource_defaults_simps [simp]:
  "rw_name (resource_defaults w) = rw_name w"
  "rw_owner_user_id (resource_defaults w) = rw_owner_user_id w"
  by (simp_all add: resource_defaults_def)

lemma keeps_path_id [inv_intros]: "keeps I (path_id r)"
  unfolding path_id_def by (intro inv_intros)

end
