(* ===== verification/Mail_Service.thy ===== *)
theory Mail_Service
  imports Mail Settings Hubs
begin

text \<open>
  Notification mails: their texts (\<^verbatim>\<open>internal/mail/message.go\<close>), the service that turns an event into
  recorded deliveries and sends them in the background (\<^verbatim>\<open>internal/mail/service.go\<close>), the tables behind it
  (\<^verbatim>\<open>internal/store/mail.go\<close>) and the handlers (\<^verbatim>\<open>internal/api/mail_handlers.go\<close>). A delivery that waits for a
  free connection is a job; sending it is a later call with what the relay answers to each attempt. The
  time format of a mail is the parameter \<open>show_time\<close>, the text of an error \<open>error_text\<close>.
\<close>

section \<open>Texts\<close>

record notification =
  nt_event :: string
  nt_subject :: string
  nt_lines :: "string list"
  nt_path :: string
  nt_reference :: string

function runes :: "string \<Rightarrow> string list" where
  \<comment> \<open>\<^verbatim>\<open>[]rune(value)\<close>, each rune as its bytes; an invalid byte becomes the replacement character\<close>
  "runes s =
     (if s = [] then []
      else if rune_length s = 0 then replacement # runes (drop 1 s)
      else take (rune_length s) s # runes (drop (rune_length s) s))"
  by pat_completeness auto
termination
  by (relation "measure length") (auto simp: rune_length_le)

declare runes.simps [simp del]

definition truncate_runes :: "string \<Rightarrow> nat \<Rightarrow> string" where
  "truncate_runes v limit =
     (if length (runes v) \<le> limit then v else concat (take limit (runes v)) @ [CHR 0xE2, CHR 0x80, CHR 0xA6])"

definition quote_text :: "string \<Rightarrow> string" where
  "quote_text body =
     join_with [CHR 0x0A] (map (\<lambda>line. ''> '' @ line) (split_on (CHR 0x0A) (truncate_runes (trim_space body) 500)))"

definition render_mail :: "mail_config \<Rightarrow> notification \<Rightarrow> string" where
  "render_mail c n =
     (let link = mail_link c (nt_path n)
      in join_with [CHR 0x0A] (nt_lines n
           @ (if nt_path n \<noteq> [] \<and> link \<noteq> [] then [[], [CHR 0xEB, CHR 0xB0, CHR 0x94, CHR 0xEB, CHR 0xA1, CHR 0x9C, CHR 0x20, CHR 0xEC, CHR 0x97,
       CHR 0xB4, CHR 0xEA, CHR 0xB8, CHR 0xB0, CHR 0x3A, CHR 0x20] @ link] else [])
           @ [[], [CHR 0xE2, CHR 0x80, CHR 0x94], [CHR 0xEC, CHR 0x9D, CHR 0xB4, CHR 0x20, CHR 0xEB, CHR 0xA9, CHR 0x94, CHR 0xEC, CHR 0x9D,
       CHR 0xBC, CHR 0xEC, CHR 0x9D, CHR 0x80, CHR 0x20, CHR 0x6A, CHR 0x75, CHR 0x70, CHR 0x69,
       CHR 0x71, CHR 0x20, CHR 0xEB, CHR 0xA9, CHR 0x94, CHR 0xEC, CHR 0x9D, CHR 0xBC, CHR 0x20,
       CHR 0xEC, CHR 0x95, CHR 0x8C, CHR 0xEB, CHR 0xA6, CHR 0xBC, CHR 0x20, CHR 0xEC, CHR 0x84,
       CHR 0xA4, CHR 0xEC, CHR 0xA0, CHR 0x95, CHR 0xEC, CHR 0x97, CHR 0x90, CHR 0x20, CHR 0xEB,
       CHR 0x94, CHR 0xB0, CHR 0xEB, CHR 0x9D, CHR 0xBC, CHR 0x20, CHR 0xEC, CHR 0x9E, CHR 0x90,
       CHR 0xEB, CHR 0x8F, CHR 0x99, CHR 0xEC, CHR 0x9C, CHR 0xBC, CHR 0xEB, CHR 0xA1, CHR 0x9C,
       CHR 0x20, CHR 0xEB, CHR 0xB0, CHR 0x9C, CHR 0xEC, CHR 0x86, CHR 0xA1, CHR 0xEB, CHR 0x90,
       CHR 0x98, CHR 0xEC, CHR 0x97, CHR 0x88, CHR 0xEC, CHR 0x8A, CHR 0xB5, CHR 0xEB, CHR 0x8B,
       CHR 0x88, CHR 0xEB, CHR 0x8B, CHR 0xA4, CHR 0x2E, CHR 0x20, CHR 0xEA, CHR 0xB4, CHR 0x80,
       CHR 0xEB, CHR 0xA6, CHR 0xAC, CHR 0xEC, CHR 0x9E, CHR 0x90, CHR 0x20, CHR 0xEC, CHR 0x84,
       CHR 0xA4, CHR 0xEC, CHR 0xA0, CHR 0x95, CHR 0x20, CHR 0xE2, CHR 0x86, CHR 0x92, CHR 0x20,
       CHR 0xEB, CHR 0xA9, CHR 0x94, CHR 0xEC, CHR 0x9D, CHR 0xBC, CHR 0x20, CHR 0xEC, CHR 0x95,
       CHR 0x8C, CHR 0xEB, CHR 0xA6, CHR 0xBC, CHR 0xEC, CHR 0x97, CHR 0x90, CHR 0xEC, CHR 0x84,
       CHR 0x9C, CHR 0x20, CHR 0xEC, CHR 0x9D, CHR 0xB4, CHR 0xEB, CHR 0xB2, CHR 0xA4, CHR 0xED,
       CHR 0x8A, CHR 0xB8, CHR 0xEB, CHR 0xB3, CHR 0x84, CHR 0xEB, CHR 0xA1, CHR 0x9C, CHR 0x20,
       CHR 0xEB, CHR 0x81, CHR 0x8C, CHR 0x20, CHR 0xEC, CHR 0x88, CHR 0x98, CHR 0x20, CHR 0xEC,
       CHR 0x9E, CHR 0x88, CHR 0xEC, CHR 0x8A, CHR 0xB5, CHR 0xEB, CHR 0x8B, CHR 0x88, CHR 0xEB,
       CHR 0x8B, CHR 0xA4, CHR 0x2E]]))"

definition reason_lines :: "string \<Rightarrow> string list" where
  "reason_lines reason = (if trim_space reason \<noteq> [] then [[], quote_text reason] else [])"

definition approval_requested :: "int \<Rightarrow> string \<Rightarrow> string \<Rightarrow> string \<Rightarrow> string \<Rightarrow> notification" where
  "approval_requested approval_id name requester stage reason =
     (let turn = (if stage = ''review'' then [CHR 0xEA, CHR 0xB2, CHR 0x80, CHR 0xED, CHR 0x86, CHR 0xA0] else [CHR 0xEC, CHR 0x8A, CHR 0xB9, CHR 0xEC, CHR 0x9D, CHR 0xB8])
      in \<lparr>nt_event = event_approval_requested, nt_subject = ''[jupiq] '' @ turn @ [CHR 0x20, CHR 0xEC, CHR 0x9A, CHR 0x94, CHR 0xEC, CHR 0xB2, CHR 0xAD, CHR 0x3A, CHR 0x20] @ name,
          nt_lines = (requester @ [CHR 0x20, CHR 0xEB, CHR 0x8B, CHR 0x98, CHR 0xEC, CHR 0x9D, CHR 0xB4, CHR 0x20, CHR 0xEC,
       CHR 0x9A, CHR 0x94, CHR 0xEC, CHR 0xB2, CHR 0xAD, CHR 0xED, CHR 0x95, CHR 0x9C, CHR 0x20,
       CHR 0x27] @ name @ [CHR 0x27, CHR 0xEC, CHR 0x9D, CHR 0xB4, CHR 0x28, CHR 0xEA, CHR 0xB0, CHR 0x80, CHR 0x29,
       CHR 0x20] @ turn @ [CHR 0xEC, CHR 0x9D, CHR 0x84, CHR 0x20, CHR 0xEA, CHR 0xB8, CHR 0xB0, CHR 0xEB, CHR 0x8B,
       CHR 0xA4, CHR 0xEB, CHR 0xA6, CHR 0xAC, CHR 0xEA, CHR 0xB3, CHR 0xA0, CHR 0x20, CHR 0xEC,
       CHR 0x9E, CHR 0x88, CHR 0xEC, CHR 0x8A, CHR 0xB5, CHR 0xEB, CHR 0x8B, CHR 0x88, CHR 0xEB,
       CHR 0x8B, CHR 0xA4, CHR 0x2E])
            # reason_lines reason,
          nt_path = ''/approvals'', nt_reference = ''approval:'' @ format_int approval_id\<rparr>)"

definition approval_decided :: "int \<Rightarrow> string \<Rightarrow> string \<Rightarrow> string \<Rightarrow> string \<Rightarrow> notification" where
  "approval_decided approval_id name actor decision reason =
     (let (outcome, subject) =
            (if decision = ''approved'' then ([CHR 0xEC, CHR 0x8A, CHR 0xB9, CHR 0xEC, CHR 0x9D, CHR 0xB8, CHR 0xEB, CHR 0x90, CHR 0x98,
       CHR 0xEC, CHR 0x96, CHR 0xB4, CHR 0x20, CHR 0xEC, CHR 0x8B, CHR 0xA4, CHR 0xED, CHR 0x96,
       CHR 0x89, CHR 0xEB, CHR 0x90, CHR 0x98, CHR 0xEC, CHR 0x97, CHR 0x88, CHR 0xEC, CHR 0x8A,
       CHR 0xB5, CHR 0xEB, CHR 0x8B, CHR 0x88, CHR 0xEB, CHR 0x8B, CHR 0xA4], [CHR 0xEC, CHR 0x8A, CHR 0xB9, CHR 0xEC, CHR 0x9D, CHR 0xB8, CHR 0xEB, CHR 0x90, CHR 0xA8])
             else if decision = ''failed''
             then ([CHR 0xEC, CHR 0x8A, CHR 0xB9, CHR 0xEC, CHR 0x9D, CHR 0xB8, CHR 0xEB, CHR 0x90, CHR 0x98,
       CHR 0xEC, CHR 0x97, CHR 0x88, CHR 0xEC, CHR 0xA7, CHR 0x80, CHR 0xEB, CHR 0xA7, CHR 0x8C,
       CHR 0x20, CHR 0xEC, CHR 0x8B, CHR 0xA4, CHR 0xED, CHR 0x96, CHR 0x89, CHR 0xEC, CHR 0x97,
       CHR 0x90, CHR 0x20, CHR 0xEC, CHR 0x8B, CHR 0xA4, CHR 0xED, CHR 0x8C, CHR 0xA8, CHR 0xED,
       CHR 0x96, CHR 0x88, CHR 0xEC, CHR 0x8A, CHR 0xB5, CHR 0xEB, CHR 0x8B, CHR 0x88, CHR 0xEB,
       CHR 0x8B, CHR 0xA4, CHR 0x2E, CHR 0x20, CHR 0xEA, CHR 0xB4, CHR 0x80, CHR 0xEB, CHR 0xA6,
       CHR 0xAC, CHR 0xEC, CHR 0x9E, CHR 0x90, CHR 0xEC, CHR 0x97, CHR 0x90, CHR 0xEA, CHR 0xB2,
       CHR 0x8C, CHR 0x20, CHR 0xEB, CHR 0xAC, CHR 0xB8, CHR 0xEC, CHR 0x9D, CHR 0x98, CHR 0xED,
       CHR 0x95, CHR 0x98, CHR 0xEC, CHR 0x84, CHR 0xB8, CHR 0xEC, CHR 0x9A, CHR 0x94], [CHR 0xEC, CHR 0x8B, CHR 0xA4, CHR 0xED, CHR 0x96, CHR 0x89, CHR 0x20, CHR 0xEC, CHR 0x8B,
       CHR 0xA4, CHR 0xED, CHR 0x8C, CHR 0xA8])
             else ([CHR 0xEB, CHR 0xB0, CHR 0x98, CHR 0xEB, CHR 0xA0, CHR 0xA4, CHR 0xEB, CHR 0x90, CHR 0x98,
       CHR 0xEC, CHR 0x97, CHR 0x88, CHR 0xEC, CHR 0x8A, CHR 0xB5, CHR 0xEB, CHR 0x8B, CHR 0x88,
       CHR 0xEB, CHR 0x8B, CHR 0xA4], [CHR 0xEB, CHR 0xB0, CHR 0x98, CHR 0xEB, CHR 0xA0, CHR 0xA4, CHR 0xEB, CHR 0x90, CHR 0xA8]))
      in \<lparr>nt_event = event_approval_decided, nt_subject = ''[jupiq] '' @ subject @ '': '' @ name,
          nt_lines = ([CHR 0x27] @ name @ [CHR 0x27, CHR 0x20, CHR 0xEC, CHR 0x9A, CHR 0x94, CHR 0xEC, CHR 0xB2, CHR 0xAD, CHR 0xEC,
       CHR 0x9D, CHR 0xB4, CHR 0x20] @ actor @ [CHR 0x20, CHR 0xEB, CHR 0x8B, CHR 0x98, CHR 0xEC, CHR 0x97, CHR 0x90, CHR 0x20, CHR 0xEC,
       CHR 0x9D, CHR 0x98, CHR 0xED, CHR 0x95, CHR 0xB4, CHR 0x20] @ outcome @ ''.'') # reason_lines reason,
          nt_path = ''/approvals'', nt_reference = ''approval:'' @ format_int approval_id\<rparr>)"

definition hub_health_mail :: "int \<Rightarrow> string \<Rightarrow> bool \<Rightarrow> string \<Rightarrow> notification" where
  "hub_health_mail hub_id name healthy cause =
     (if healthy then
        \<lparr>nt_event = event_hub_health, nt_subject = [CHR 0x5B, CHR 0x6A, CHR 0x75, CHR 0x70, CHR 0x69, CHR 0x71, CHR 0x5D, CHR 0x20, CHR 0x48,
       CHR 0x75, CHR 0x62, CHR 0x20, CHR 0xEB, CHR 0xB3, CHR 0xB5, CHR 0xEA, CHR 0xB5, CHR 0xAC,
       CHR 0x3A, CHR 0x20] @ name,
         nt_lines = [[CHR 0x27] @ name @ [CHR 0x27, CHR 0x20, CHR 0x48, CHR 0x75, CHR 0x62, CHR 0x20, CHR 0xEC, CHR 0x88, CHR 0x98,
       CHR 0xEC, CHR 0xA7, CHR 0x91, CHR 0xEC, CHR 0x9D, CHR 0xB4, CHR 0x20, CHR 0xEB, CHR 0x8B,
       CHR 0xA4, CHR 0xEC, CHR 0x8B, CHR 0x9C, CHR 0x20, CHR 0xEC, CHR 0xA0, CHR 0x95, CHR 0xEC,
       CHR 0x83, CHR 0x81, CHR 0xEC, CHR 0x9E, CHR 0x85, CHR 0xEB, CHR 0x8B, CHR 0x88, CHR 0xEB,
       CHR 0x8B, CHR 0xA4, CHR 0x2E]], nt_path = ''/hubs'',
         nt_reference = ''hub:'' @ format_int hub_id\<rparr>
      else
        \<lparr>nt_event = event_hub_health, nt_subject = [CHR 0x5B, CHR 0x6A, CHR 0x75, CHR 0x70, CHR 0x69, CHR 0x71, CHR 0x5D, CHR 0x20, CHR 0x48,
       CHR 0x75, CHR 0x62, CHR 0x20, CHR 0xEC, CHR 0x88, CHR 0x98, CHR 0xEC, CHR 0xA7, CHR 0x91,
       CHR 0x20, CHR 0xEC, CHR 0x8B, CHR 0xA4, CHR 0xED, CHR 0x8C, CHR 0xA8, CHR 0x3A, CHR 0x20] @ name,
         nt_lines = ([CHR 0x27] @ name @ [CHR 0x27, CHR 0x20, CHR 0x48, CHR 0x75, CHR 0x62, CHR 0xEC, CHR 0x97, CHR 0x90, CHR 0xEC,
       CHR 0x84, CHR 0x9C, CHR 0x20, CHR 0xEC, CHR 0x88, CHR 0x98, CHR 0xEC, CHR 0xA7, CHR 0x91,
       CHR 0xEC, CHR 0x9D, CHR 0xB4, CHR 0x20, CHR 0xEC, CHR 0x8B, CHR 0xA4, CHR 0xED, CHR 0x8C,
       CHR 0xA8, CHR 0xED, CHR 0x95, CHR 0xB4, CHR 0x20, CHR 0xEC, CHR 0x83, CHR 0x81, CHR 0xED,
       CHR 0x83, CHR 0x9C, CHR 0xEA, CHR 0xB0, CHR 0x80, CHR 0x20, CHR 0x64, CHR 0x65, CHR 0x67,
       CHR 0x72, CHR 0x61, CHR 0x64, CHR 0x65, CHR 0x64, CHR 0xEB, CHR 0xA1, CHR 0x9C, CHR 0x20,
       CHR 0xEB, CHR 0xB0, CHR 0x94, CHR 0xEB, CHR 0x80, CHR 0x8C, CHR 0xEC, CHR 0x97, CHR 0x88,
       CHR 0xEC, CHR 0x8A, CHR 0xB5, CHR 0xEB, CHR 0x8B, CHR 0x88, CHR 0xEB, CHR 0x8B, CHR 0xA4,
       CHR 0x2E, CHR 0x20, CHR 0xEB, CHR 0xB3, CHR 0xB5, CHR 0xEA, CHR 0xB5, CHR 0xAC, CHR 0xEB,
       CHR 0x90, CHR 0xA0, CHR 0x20, CHR 0xEB, CHR 0x95, CHR 0x8C, CHR 0xEA, CHR 0xB9, CHR 0x8C,
       CHR 0xEC, CHR 0xA7, CHR 0x80, CHR 0x20, CHR 0xEC, CHR 0x9D, CHR 0xB4, CHR 0x20, CHR 0x48,
       CHR 0x75, CHR 0x62, CHR 0xEC, CHR 0x9D, CHR 0x98, CHR 0x20, CHR 0xEC, CHR 0x82, CHR 0xAC,
       CHR 0xEC, CHR 0x9A, CHR 0xA9, CHR 0xEC, CHR 0x9E, CHR 0x90, CHR 0xC2, CHR 0xB7, CHR 0xEC,
       CHR 0x84, CHR 0x9C, CHR 0xEB, CHR 0xB2, CHR 0x84, CHR 0x20, CHR 0xED, CHR 0x98, CHR 0x84,
       CHR 0xED, CHR 0x99, CHR 0xA9, CHR 0xEC, CHR 0x9D, CHR 0x80, CHR 0x20, CHR 0xEA, CHR 0xB0,
       CHR 0xB1, CHR 0xEC, CHR 0x8B, CHR 0xA0, CHR 0xEB, CHR 0x90, CHR 0x98, CHR 0xEC, CHR 0xA7,
       CHR 0x80, CHR 0x20, CHR 0xEC, CHR 0x95, CHR 0x8A, CHR 0xEC, CHR 0x8A, CHR 0xB5, CHR 0xEB,
       CHR 0x8B, CHR 0x88, CHR 0xEB, CHR 0x8B, CHR 0xA4, CHR 0x2E])
           # (if trim_space cause \<noteq> [] then [[], [CHR 0xEC, CHR 0x9B, CHR 0x90, CHR 0xEC, CHR 0x9D, CHR 0xB8, CHR 0x3A, CHR 0x20] @ truncate_runes (trim_space cause) 300] else []),
         nt_path = ''/hubs'', nt_reference = ''hub:'' @ format_int hub_id\<rparr>)"

definition hub_health_change :: "int \<Rightarrow> string \<Rightarrow> string \<Rightarrow> bool \<Rightarrow> string \<Rightarrow> notification option" where
  "hub_health_change hub_id name previous_status success cause =
     (let was_degraded = (previous_status = ''degraded'')
      in if success \<and> was_degraded then Some (hub_health_mail hub_id name True [])
         else if \<not> success \<and> \<not> was_degraded then Some (hub_health_mail hub_id name False cause)
         else None)"

record expiring_key =
  xk_id :: int
  xk_name :: string
  xk_prefix :: string
  xk_expires_at :: time

definition keys_expiring :: "(time \<Rightarrow> string) \<Rightarrow> expiring_key list \<Rightarrow> time \<Rightarrow> notification" where
  "keys_expiring show_time keys now =
     \<lparr>nt_event = event_key_expiring,
      nt_subject = (case keys of [k] \<Rightarrow> [CHR 0x5B, CHR 0x6A, CHR 0x75, CHR 0x70, CHR 0x69, CHR 0x71, CHR 0x5D, CHR 0x20, CHR 0x41,
       CHR 0x50, CHR 0x49, CHR 0x20, CHR 0xED, CHR 0x82, CHR 0xA4, CHR 0x20, CHR 0xEB, CHR 0xA7,
       CHR 0x8C, CHR 0xEB, CHR 0xA3, CHR 0x8C, CHR 0x20, CHR 0xEC, CHR 0x9E, CHR 0x84, CHR 0xEB,
       CHR 0xB0, CHR 0x95, CHR 0x3A, CHR 0x20] @ xk_name k | _ \<Rightarrow> [CHR 0x5B, CHR 0x6A, CHR 0x75, CHR 0x70, CHR 0x69, CHR 0x71, CHR 0x5D, CHR 0x20, CHR 0x41,
       CHR 0x50, CHR 0x49, CHR 0x20, CHR 0xED, CHR 0x82, CHR 0xA4, CHR 0x20, CHR 0xEB, CHR 0xA7,
       CHR 0x8C, CHR 0xEB, CHR 0xA3, CHR 0x8C, CHR 0x20, CHR 0xEC, CHR 0x9E, CHR 0x84, CHR 0xEB,
       CHR 0xB0, CHR 0x95]),
      nt_lines = [CHR 0xEB, CHR 0x8B, CHR 0xA4, CHR 0xEC, CHR 0x9D, CHR 0x8C, CHR 0x20, CHR 0xEA, CHR 0xB0,
       CHR 0x9C, CHR 0xEC, CHR 0x9D, CHR 0xB8, CHR 0x20, CHR 0x41, CHR 0x50, CHR 0x49, CHR 0x20,
       CHR 0xED, CHR 0x82, CHR 0xA4, CHR 0xEA, CHR 0xB0, CHR 0x80, CHR 0x20, CHR 0xEA, CHR 0xB3,
       CHR 0xA7, CHR 0x20, CHR 0xEB, CHR 0xA7, CHR 0x8C, CHR 0xEB, CHR 0xA3, CHR 0x8C, CHR 0xEB,
       CHR 0x90, CHR 0xA9, CHR 0xEB, CHR 0x8B, CHR 0x88, CHR 0xEB, CHR 0x8B, CHR 0xA4, CHR 0x2E,
       CHR 0x20, CHR 0xEB, CHR 0xA7, CHR 0x8C, CHR 0xEB, CHR 0xA3, CHR 0x8C, CHR 0x20, CHR 0xEB,
       CHR 0x92, CHR 0xA4, CHR 0xEC, CHR 0x97, CHR 0x90, CHR 0xEB, CHR 0x8A, CHR 0x94, CHR 0x20,
       CHR 0xEA, CHR 0xB7, CHR 0xB8, CHR 0x20, CHR 0xED, CHR 0x82, CHR 0xA4, CHR 0xEB, CHR 0xA5,
       CHR 0xBC, CHR 0x20, CHR 0xEC, CHR 0x93, CHR 0xB0, CHR 0xEB, CHR 0x8A, CHR 0x94, CHR 0x20,
       CHR 0xEC, CHR 0x9E, CHR 0x90, CHR 0xEB, CHR 0x8F, CHR 0x99, CHR 0xED, CHR 0x99, CHR 0x94,
       CHR 0xEA, CHR 0xB0, CHR 0x80, CHR 0x20, CHR 0xEC, CHR 0x9D, CHR 0xB8, CHR 0xEC, CHR 0xA6,
       CHR 0x9D, CHR 0xEC, CHR 0x97, CHR 0x90, CHR 0x20, CHR 0xEC, CHR 0x8B, CHR 0xA4, CHR 0xED,
       CHR 0x8C, CHR 0xA8, CHR 0xED, CHR 0x95, CHR 0xA9, CHR 0xEB, CHR 0x8B, CHR 0x88, CHR 0xEB,
       CHR 0x8B, CHR 0xA4, CHR 0x2E, CHR 0x20, CHR 0xEB, CHR 0x82, CHR 0xB4, CHR 0x20, CHR 0xEC,
       CHR 0xA0, CHR 0x95, CHR 0xEB, CHR 0xB3, CHR 0xB4, CHR 0x20, CHR 0xE2, CHR 0x86, CHR 0x92,
       CHR 0x20, CHR 0x41, CHR 0x50, CHR 0x49, CHR 0x20, CHR 0xED, CHR 0x82, CHR 0xA4, CHR 0xEC,
       CHR 0x97, CHR 0x90, CHR 0xEC, CHR 0x84, CHR 0x9C, CHR 0x20, CHR 0xED, CHR 0x9A, CHR 0x8C,
       CHR 0xEC, CHR 0xA0, CHR 0x84, CHR 0xED, CHR 0x95, CHR 0x98, CHR 0xEA, CHR 0xB1, CHR 0xB0,
       CHR 0xEB, CHR 0x82, CHR 0x98, CHR 0x20, CHR 0xEC, CHR 0x83, CHR 0x88, CHR 0xEB, CHR 0xA1,
       CHR 0x9C, CHR 0x20, CHR 0xEB, CHR 0xB0, CHR 0x9C, CHR 0xEA, CHR 0xB8, CHR 0x89, CHR 0xED,
       CHR 0x95, CHR 0x98, CHR 0xEC, CHR 0x84, CHR 0xB8, CHR 0xEC, CHR 0x9A, CHR 0x94, CHR 0x2E]
        # [] # map (\<lambda>k. ''- '' @ xk_name k @ '' ('' @ xk_prefix k @ [CHR 0xE2, CHR 0x80, CHR 0xA6, CHR 0x29, CHR 0x20, CHR 0xE2, CHR 0x80, CHR 0x94, CHR 0x20] @ show_time (xk_expires_at k)
          @ [CHR 0x20, CHR 0xEB, CHR 0xA7, CHR 0x8C, CHR 0xEB, CHR 0xA3, CHR 0x8C, CHR 0x2C, CHR 0x20] @ format_int ((xk_expires_at k - now) div day) @ [CHR 0xEC, CHR 0x9D, CHR 0xBC, CHR 0x20, CHR 0xEB, CHR 0x82, CHR 0xA8, CHR 0xEC, CHR 0x9D,
       CHR 0x8C]) keys,
      nt_path = ''/personal'', nt_reference = join_with '','' (map (\<lambda>k. ''api_key:'' @ format_int (xk_id k)) keys)\<rparr>"

definition mail_test_message :: notification where
  "mail_test_message =
     \<lparr>nt_event = event_test, nt_subject = [CHR 0x5B, CHR 0x6A, CHR 0x75, CHR 0x70, CHR 0x69, CHR 0x71, CHR 0x5D, CHR 0x20, CHR 0x53,
       CHR 0x4D, CHR 0x54, CHR 0x50, CHR 0x20, CHR 0xEC, CHR 0x8B, CHR 0x9C, CHR 0xED, CHR 0x97,
       CHR 0x98, CHR 0x20, CHR 0xEB, CHR 0xB0, CHR 0x9C, CHR 0xEC, CHR 0x86, CHR 0xA1],
      nt_lines = [[CHR 0x6A, CHR 0x75, CHR 0x70, CHR 0x69, CHR 0x71, CHR 0x20, CHR 0xEA, CHR 0xB4, CHR 0x80,
       CHR 0xEB, CHR 0xA6, CHR 0xAC, CHR 0xEC, CHR 0x9E, CHR 0x90, CHR 0x20, CHR 0xEC, CHR 0x84,
       CHR 0xA4, CHR 0xEC, CHR 0xA0, CHR 0x95, CHR 0xEC, CHR 0x97, CHR 0x90, CHR 0xEC, CHR 0x84,
       CHR 0x9C, CHR 0x20, CHR 0xEB, CHR 0xB3, CHR 0xB4, CHR 0xEB, CHR 0x82, CHR 0xB8, CHR 0x20,
       CHR 0xEC, CHR 0x8B, CHR 0x9C, CHR 0xED, CHR 0x97, CHR 0x98, CHR 0x20, CHR 0xEB, CHR 0xA9,
       CHR 0x94, CHR 0xEC, CHR 0x9D, CHR 0xBC, CHR 0xEC, CHR 0x9E, CHR 0x85, CHR 0xEB, CHR 0x8B,
       CHR 0x88, CHR 0xEB, CHR 0x8B, CHR 0xA4, CHR 0x2E], [CHR 0xEC, CHR 0x9D, CHR 0xB4, CHR 0x20, CHR 0xEB, CHR 0xA9, CHR 0x94, CHR 0xEC, CHR 0x9D,
       CHR 0xBC, CHR 0xEC, CHR 0x9D, CHR 0x84, CHR 0x20, CHR 0xEB, CHR 0xB0, CHR 0x9B, CHR 0xEC,
       CHR 0x95, CHR 0x98, CHR 0xEB, CHR 0x8B, CHR 0xA4, CHR 0xEB, CHR 0xA9, CHR 0xB4, CHR 0x20,
       CHR 0x53, CHR 0x4D, CHR 0x54, CHR 0x50, CHR 0x20, CHR 0xEB, CHR 0xA6, CHR 0xB4, CHR 0xEB,
       CHR 0xA0, CHR 0x88, CHR 0xEC, CHR 0x9D, CHR 0xB4, CHR 0x20, CHR 0xEC, CHR 0x84, CHR 0xA4,
       CHR 0xEC, CHR 0xA0, CHR 0x95, CHR 0xEC, CHR 0x9D, CHR 0xB4, CHR 0x20, CHR 0xEC, CHR 0xA0,
       CHR 0x95, CHR 0xEC, CHR 0x83, CHR 0x81, CHR 0xEC, CHR 0x9E, CHR 0x85, CHR 0xEB, CHR 0x8B,
       CHR 0x88, CHR 0xEB, CHR 0x8B, CHR 0xA4, CHR 0x2E]],
      nt_path = [], nt_reference = []\<rparr>"

section \<open>Tables\<close>

definition status_queued :: string where "status_queued = ''queued''"
definition status_sent :: string where "status_sent = ''sent''"
definition status_failed :: string where "status_failed = ''failed''"

definition mail_delivery_retention :: time where "mail_delivery_retention = 180 * 24 * hour"

definition mail_settings ::
  "(string \<Rightarrow> string \<Rightarrow> string option) \<Rightarrow> (json option \<times> string) store_tx" where
  "mail_settings decrypt =
     tx_bind (get_settings_and_secret decrypt [mail_key] mail_secret_key) (\<lambda>(settings, password, configured).
     tx_return (map_of settings mail_key, password))"

definition user_emails :: "int list \<Rightarrow> (int \<times> string) list store_tx" where
  "user_emails ids =
     query DbError (\<lambda>d. map (\<lambda>u. (us_id u, trim_space (us_email u)))
       (filter (\<lambda>u. us_id u \<in> set ids \<and> us_active u \<and> us_email u \<noteq> []) (db_users d)))"

definition global_permission_holders :: "string \<Rightarrow> int list store_tx" where
  \<comment> \<open>\<^verbatim>\<open>UsersWithGlobalPermission\<close>\<close>
  "global_permission_holders permission =
     query DbError (\<lambda>d. remdups (map fst (filter (\<lambda>(uid, ps). ensure_permission ps permission)
       (sort_key fst (concat (map (\<lambda>u. concat (map (\<lambda>b. map (\<lambda>r. (us_id u, decoded_or_partial (ro_permissions r)))
            (filter (\<lambda>r. ro_id r = bi_role_id b) (db_roles d)))
          (filter (\<lambda>b. bi_user_id b = us_id u \<and> bi_scope_mode b = ''global'') (db_user_roles d))))
        (filter us_active (db_users d))))))))"

record delivery =
  de_id :: int
  de_event :: string
  de_recipient :: string
  de_subject :: string
  de_reference :: string
  de_actor :: "int option"

definition record_mail_delivery :: "delivery \<Rightarrow> int store_tx" where
  "record_mail_delivery v =
     statement DbError (\<lambda>d.
       if (case de_actor v of None \<Rightarrow> False | Some uid \<Rightarrow> find_user uid d = None) then Inl DbError
       else Inr (db_next_mail d, d\<lparr>db_mail := db_mail d @
         [\<lparr>ml_id = db_next_mail d, ml_event = de_event v, ml_recipient = de_recipient v,
           ml_subject = truncate_text (de_subject v) 300, ml_reference = truncate_text (de_reference v) 300,
           ml_actor_user_id = de_actor v, ml_status = status_queued, ml_attempts = 0, ml_error = [],
           ml_created_at = db_now d, ml_updated_at = db_now d\<rparr>],
         db_next_mail := db_next_mail d + 1\<rparr>))"

definition finish_row :: "int \<Rightarrow> string \<Rightarrow> int \<Rightarrow> string \<Rightarrow> store_db \<Rightarrow> store_db" where
  "finish_row mid status attempts message d =
     d\<lparr>db_mail := map (\<lambda>m. if ml_id m = mid
         then m\<lparr>ml_status := status, ml_attempts := max (ml_attempts m) attempts,
                ml_error := truncate_text message 1000, ml_updated_at := db_now d\<rparr> else m) (db_mail d)\<rparr>"

definition finish_mail_delivery :: "int \<Rightarrow> string \<Rightarrow> int \<Rightarrow> string \<Rightarrow> unit store_tx" where
  "finish_mail_delivery mid status attempts message =
     (if status \<noteq> status_sent \<and> status \<noteq> status_failed then tx_throw DbError
      else exec DbError (finish_row mid status attempts message))"

definition list_mail_deliveries :: "string \<Rightarrow> int \<Rightarrow> (mail_row list \<times> (string \<times> nat) list \<times> nat) store_tx" where
  "list_mail_deliveries status limit =
     (let wanted = trim_space status
      in tx_bind (query DbError (\<lambda>d. take (nat (bounded_limit limit 50 200))
           (sort_key (\<lambda>m. (- ml_created_at m, - ml_id m))
             (filter (\<lambda>m. wanted = [] \<or> ml_status m = wanted) (db_mail d))))) (\<lambda>items.
         tx_bind (query DbError (\<lambda>d. map (\<lambda>s. (s, length (filter (\<lambda>m. ml_status m = s) (db_mail d))))
             (remdups (map ml_status (db_mail d))))) (\<lambda>summary.
         tx_return (items, summary, sum_list (map snd summary)))))"

definition prune_mail_deliveries :: "unit store_tx" where
  "prune_mail_deliveries =
     exec DbError (\<lambda>d. d\<lparr>db_mail := filter (\<lambda>m. \<not> ml_created_at m < db_now d - mail_delivery_retention) (db_mail d)\<rparr>)"

text \<open>Keys whose owners are told of the expiry, once: the statement marks what it returns. \<open>is_blank\<close> is the
  complement of the regular expression, \<^verbatim>\<open>TrimSpace\<close> leaving nothing.\<close>

definition expiring_row :: "time \<Rightarrow> store_db \<Rightarrow> key_row \<Rightarrow> bool" where
  "expiring_row limit d k =
     (ke_status k = ''active'' \<and> ke_expiry_notified_at k = None
      \<and> (case ke_expires_at k of None \<Rightarrow> False | Some t \<Rightarrow> db_now d < t \<and> t \<le> db_now d + limit)
      \<and> list_ex (\<lambda>u. us_id u = ke_user_id k \<and> us_active u \<and> trim_space (us_email u) \<noteq> []) (db_users d))"

definition expiring_of_row :: "key_row \<Rightarrow> expiring_key" where
  "expiring_of_row k =
     \<lparr>xk_id = ke_id k, xk_name = ke_name k, xk_prefix = ke_prefix k,
      xk_expires_at = (case ke_expires_at k of Some t \<Rightarrow> t | None \<Rightarrow> zero_time)\<rparr>"

definition group_by_owner :: "key_row list \<Rightarrow> (int \<times> expiring_key list) list" where
  "group_by_owner ks =
     map (\<lambda>uid. (uid, map expiring_of_row (filter (\<lambda>k. ke_user_id k = uid) ks))) (remdups (map ke_user_id ks))"

definition mark_expiring :: "time \<Rightarrow> store_db \<Rightarrow> store_db" where
  "mark_expiring limit d =
     d\<lparr>db_keys := map (\<lambda>k. if expiring_row limit d k then k\<lparr>ke_expiry_notified_at := Some (db_now d)\<rparr> else k)
         (db_keys d)\<rparr>"

definition expiring_api_keys :: "time \<Rightarrow> (int \<times> expiring_key list) list store_tx" where
  "expiring_api_keys limit =
     statement DbError (\<lambda>d. Inr (group_by_owner (filter (expiring_row limit d) (db_keys d)), mark_expiring limit d))"

section \<open>The service\<close>

definition delivery_attempts :: nat where "delivery_attempts = 2"
definition retry_delay :: time where "retry_delay = 2 * second"
definition max_concurrent_deliveries :: nat where "max_concurrent_deliveries = 4"

definition delivery_budget :: "mail_config \<Rightarrow> time" where
  "delivery_budget c = int delivery_attempts * 2 * mc_timeout c + int (delivery_attempts - 1) * retry_delay"

definition service_config :: "(string \<Rightarrow> string \<Rightarrow> string option) \<Rightarrow> mail_config store_tx" where
  "service_config decrypt =
     tx_bind (mail_settings decrypt) (\<lambda>(raw, password). tx_return (parse_mail raw password))"

fun unique_addresses :: "string list \<Rightarrow> string list \<Rightarrow> string list" where
  "unique_addresses seen [] = []"
| "unique_addresses seen (a # as) =
     (if \<not> valid_address a \<or> to_lower a \<in> set seen then unique_addresses seen as
      else a # unique_addresses (to_lower a # seen) as)"

definition wanted_recipients :: "int list \<Rightarrow> int \<Rightarrow> int list" where
  "wanted_recipients ids actor = sort (remdups (filter (\<lambda>i. 0 < i \<and> i \<noteq> actor) ids))"

definition resolve_recipients :: "int list \<Rightarrow> int \<Rightarrow> string list store_tx" where
  "resolve_recipients ids actor =
     (let wanted = wanted_recipients ids actor
      in if wanted = [] then tx_return []
         else tx_bind (tx_try (user_emails wanted)) (\<lambda>got.
           case got of
             Inl _ \<Rightarrow> tx_return []
           | Inr emails \<Rightarrow> tx_return (unique_addresses []
               (map (\<lambda>i. case map_of emails i of None \<Rightarrow> [] | Some e \<Rightarrow> trim_space e) wanted))))"

text \<open>A delivery that runs in the background.\<close>

record mail_job =
  mj_delivery :: delivery
  mj_config :: mail_config
  mj_message :: mail_message

definition record_delivery :: "delivery \<Rightarrow> delivery store_tx" where
  \<comment> \<open>an id of zero when the record could not be written\<close>
  "record_delivery v =
     tx_bind (tx_try (record_mail_delivery v)) (\<lambda>got.
       tx_return (v\<lparr>de_id := (case got of Inl _ \<Rightarrow> 0 | Inr mid \<Rightarrow> mid)\<rparr>))"

fun record_all :: "delivery list \<Rightarrow> delivery list store_tx" where
  "record_all [] = tx_return []"
| "record_all (v # vs) =
     tx_bind (record_delivery v) (\<lambda>w. tx_bind (record_all vs) (\<lambda>ws. tx_return (w # ws)))"

definition queued_delivery :: "notification \<Rightarrow> int \<Rightarrow> string \<Rightarrow> delivery" where
  "queued_delivery n actor address =
     \<lparr>de_id = 0, de_event = nt_event n, de_recipient = address, de_subject = nt_subject n,
      de_reference = nt_reference n, de_actor = (if 0 < actor then Some actor else None)\<rparr>"

definition notify ::
  "(string \<Rightarrow> string \<Rightarrow> string option) \<Rightarrow> notification \<Rightarrow> int \<Rightarrow> int list \<Rightarrow> mail_job list store_tx" where
  "notify decrypt n actor ids =
     tx_bind (tx_try (service_config decrypt)) (\<lambda>got.
       case got of
         Inl _ \<Rightarrow> tx_return []
       | Inr c \<Rightarrow>
           if \<not> mc_enabled c \<or> \<not> mail_allows c (nt_event n) then tx_return []
           else if \<not> is_ok (validate_mail c) then tx_return []
           else
             tx_bind (resolve_recipients ids actor) (\<lambda>addresses.
             tx_bind (record_all (map (queued_delivery n actor) addresses)) (\<lambda>vs.
             tx_return (map (\<lambda>v. \<lparr>mj_delivery = v, mj_config = c,
               mj_message = \<lparr>mm_to = de_recipient v, mm_subject = nt_subject n, mm_body = render_mail c n\<rparr>\<rparr>) vs))))"

text \<open>\<open>answers\<close> is what the relay answers to one attempt after the other; the loop stops at the first success.\<close>

fun attempt_delivery :: "nat \<Rightarrow> (nat \<Rightarrow> (mail_error, unit) res) \<Rightarrow> nat \<Rightarrow> nat \<times> (mail_error, unit) res" where
  "attempt_delivery 0 answers n = (n - 1, Inr ())"
| "attempt_delivery (Suc left) answers n =
     (case answers n of
        Inr () \<Rightarrow> (n, Inr ())
      | Inl e \<Rightarrow> if left = 0 then (n, Inl e) else attempt_delivery left answers (Suc n))"

definition complete_delivery ::
  "(mail_error \<Rightarrow> string) \<Rightarrow> delivery \<Rightarrow> nat \<Rightarrow> (mail_error, unit) res \<Rightarrow> unit store_tx" where
  "complete_delivery error_text v attempts cause =
     (if de_id v = 0 then tx_return ()
      else ignore_error (case cause of
             Inr () \<Rightarrow> finish_mail_delivery (de_id v) status_sent (int attempts) []
           | Inl e \<Rightarrow> finish_mail_delivery (de_id v) status_failed (int attempts) (error_text e)))"

definition deliver_job ::
  "(mail_error \<Rightarrow> string) \<Rightarrow> (nat \<Rightarrow> (mail_error, unit) res) \<Rightarrow> mail_job \<Rightarrow> unit store_tx" where
  "deliver_job error_text answers j =
     (let (attempts, cause) = attempt_delivery delivery_attempts answers 1
      in complete_delivery error_text (mj_delivery j) attempts cause)"

definition send_now ::
  "(string \<Rightarrow> string \<Rightarrow> string option) \<Rightarrow> (mail_error \<Rightarrow> string) \<Rightarrow>
   (mail_config \<Rightarrow> mail_message \<Rightarrow> (mail_error, unit) res) \<Rightarrow>
   notification \<Rightarrow> int \<Rightarrow> string \<Rightarrow> (store_db, mail_error, unit) tx" where
  "send_now decrypt error_text send n actor recipient =
     tx_bind (tx_map_error (\<lambda>_. SettingsUnreadable) (service_config decrypt)) (\<lambda>c.
     if \<not> mc_enabled c then tx_throw MailDisabled
     else
       tx_bind (tx_lift (validate_mail c)) (\<lambda>_.
       tx_bind (tx_map_error (\<lambda>_. SettingsUnreadable) (record_delivery (queued_delivery n actor recipient))) (\<lambda>v.
       let out = send c \<lparr>mm_to = recipient, mm_subject = nt_subject n, mm_body = render_mail c n\<rparr>
       in tx_bind (tx_map_error (\<lambda>_. SettingsUnreadable) (complete_delivery error_text v 1 out)) (\<lambda>_.
          tx_lift out))))"

section \<open>Handlers\<close>

definition mail_deliveries :: "request \<Rightarrow> (mail_row list \<times> (string \<times> nat) list \<times> nat) handler" where
  "mail_deliveries r =
     tx_bind (query_int_or_reject r ''limit'' 50) (\<lambda>limit.
     let status = trim_space (rq_query r ''status'')
     in if status \<notin> set [[], status_queued, status_sent, status_failed] then api_error 400 ''invalid_query''
        else store_call (list_mail_deliveries status limit))"

definition mail_test_failure :: "mail_error \<Rightarrow> http_error" where
  "mail_test_failure e =
     (if e = MailDisabled then (409, ''mail_disabled'')
      else if invalid_mail e then (400, ''mail_invalid'') else (502, ''mail_send_failed''))"

definition mail_test ::
  "(string \<Rightarrow> string \<Rightarrow> string option) \<Rightarrow> (mail_error \<Rightarrow> string) \<Rightarrow>
   (mail_config \<Rightarrow> mail_message \<Rightarrow> (mail_error, unit) res) \<Rightarrow> string option \<Rightarrow> request \<Rightarrow> string handler" where
  \<comment> \<open>\<open>body\<close> is the recipient, \<open>None\<close> a body that does not decode\<close>
  "mail_test decrypt error_text send body r =
     (case body of
        None \<Rightarrow> api_error 400 ''invalid_json''
      | Some given \<Rightarrow>
          let p = rq_principal r;
              recipient = (if trim_space given = [] then trim_space (u_email (p_user p)) else trim_space given)
          in if \<not> valid_address recipient then api_error 400 ''invalid_recipient''
             else tx_bind (tx_try (send_now decrypt error_text send mail_test_message (u_id (p_user p)) recipient)) (\<lambda>out.
               tx_bind (audit (request_audit r ''mail.test'' ''mail'' []
                   (if is_ok out then ''success'' else ''failure'')
                   (case out of Inl e \<Rightarrow> error_text e | Inr _ \<Rightarrow> []) None
                   (Some (JObj [(''recipient'', JStr recipient)])))) (\<lambda>_.
               case out of
                 Inr _ \<Rightarrow> tx_return recipient
               | Inl e \<Rightarrow> api_error (fst (mail_test_failure e)) (snd (mail_test_failure e)))))"

definition notify_mail ::
  "(string \<Rightarrow> string \<Rightarrow> string option) \<Rightarrow> notification \<Rightarrow> int \<Rightarrow> int list \<Rightarrow> mail_job list store_tx" where
  "notify_mail decrypt n actor recipients =
     (if recipients = [] then tx_return [] else notify decrypt n actor recipients)"

definition notify_permission_holders ::
  "(string \<Rightarrow> string \<Rightarrow> string option) \<Rightarrow> notification \<Rightarrow> int \<Rightarrow> string \<Rightarrow> mail_job list store_tx" where
  "notify_permission_holders decrypt n actor permission =
     tx_bind (tx_try (global_permission_holders permission)) (\<lambda>got.
       case got of Inl _ \<Rightarrow> tx_return [] | Inr recipients \<Rightarrow> notify_mail decrypt n actor recipients)"

definition notify_hub_health ::
  "(string \<Rightarrow> string \<Rightarrow> string option) \<Rightarrow> hub \<Rightarrow> bool \<Rightarrow> bool \<Rightarrow> string \<Rightarrow> int \<Rightarrow> mail_job list store_tx" where
  "notify_hub_health decrypt previous stored success cause actor =
     (if \<not> stored then tx_return []
      else case hub_health_change (hu_id previous) (hu_name previous) (hu_status previous) success cause of
             None \<Rightarrow> tx_return []
           | Some n \<Rightarrow> notify_permission_holders decrypt n actor ''hubs:write'')"

definition approval_requester_name :: "json_object \<Rightarrow> string" where
  "approval_requester_name details =
     (let name = string_or_empty (lookup details ''requested_by'')
      in if trim_space name = [] then [CHR 0xEC, CHR 0x95, CHR 0x8C, CHR 0x20, CHR 0xEC, CHR 0x88, CHR 0x98, CHR 0x20, CHR 0xEC,
       CHR 0x97, CHR 0x86, CHR 0xEB, CHR 0x8A, CHR 0x94, CHR 0x20, CHR 0xEC, CHR 0x82, CHR 0xAC,
       CHR 0xEC, CHR 0x9A, CHR 0xA9, CHR 0xEC, CHR 0x9E, CHR 0x90] else name)"

definition approval_owner :: "resource_row \<Rightarrow> int list" where
  "approval_owner a = (case re_owner_user_id a of None \<Rightarrow> [] | Some uid \<Rightarrow> [uid])"

end
