(* ===== verification/Approvals.thy ===== *)
theory Approvals
  imports Resources Mail_Service Jupyter_Client
begin

text \<open>
  Server actions and their approval (\<^verbatim>\<open>internal/api/resource_handlers.go\<close>). A request to start, stop or restart a
  server is carried out at once, or becomes an approval that a reviewer and an approver decide about; the claim of
  an approval is the conditional UPDATE of \<^verbatim>\<open>TransitionResource\<close>. \<open>stamp k\<close> is the text of the clock at its k-th
  reading in a handler. A handler that replies with an error after mails have been handed to the service returns
  the reply \<open>RemoteFailed\<close>, which is the HTTP error 502.
\<close>

record approval_env =
  ae_show_time :: "time \<Rightarrow> string"
  ae_stamp :: "nat \<Rightarrow> string"
  ae_parse_float :: "string \<Rightarrow> rat"
  ae_digest :: "string \<Rightarrow> string"
  ae_decrypt :: "string \<Rightarrow> string \<Rightarrow> string option"
  ae_error_text :: "client_error \<Rightarrow> string"
  ae_parse_url :: "string \<Rightarrow> url option"
  ae_parse_ip :: "string \<Rightarrow> ip option"
  ae_escaped_path :: "url \<Rightarrow> string"
  ae_hub :: hub_answers
  ae_deadline :: nat

section \<open>A server action\<close>

text \<open>The context's deadline passes, after the poll \<open>ae_deadline\<close> at the latest, so the call returns and the last
  case is not taken (lemma \<open>server_action_returns\<close>).\<close>

text \<open>The requests that went out are appended to the history, before the outcome is looked at.\<close>

definition sent_to_hub :: "int \<Rightarrow> sent \<Rightarrow> (store_db, 'e, unit) tx" where
  "sent_to_hub hid sent fs d = (Inr (), fs, d\<lparr>db_hub_calls := db_hub_calls d @ map (Pair hid) sent\<rparr>)"

definition execute_server_action :: "approval_env \<Rightarrow> int \<Rightarrow> string \<Rightarrow> (store_db, client_error, unit) tx" where
  "execute_server_action env sid action =
     tx_bind (tx_map_error CredentialError (get_server_action_credential (ae_digest env) (ae_decrypt env) sid))
       (\<lambda>(server, hub, token).
     tx_bind (tx_lift (new_jupyter_hub (ae_parse_url env) (ae_parse_ip env) (hu_base_url hub) token (hu_verify_tls hub)))
       (\<lambda>client.
     case server_action_call
         (join_url (ae_parse_url env) (ae_parse_ip env) (ae_escaped_path env) (jc_base_url client))
         (ae_hub env) (\<lambda>k. ae_deadline env \<le> k) (sv_username server) (sv_server_name server) action of
       Some (out, sent) \<Rightarrow> tx_bind (sent_to_hub (hu_id hub) sent) (\<lambda>_. tx_lift out)
     | None \<Rightarrow> tx_throw StopTimeout))"

section \<open>Documents\<close>

definition decode_approval_action :: "json option option \<Rightarrow> string option" where
  \<comment> \<open>the outer \<open>None\<close> is an empty body, the inner one a body that does not decode\<close>
  "decode_approval_action body =
     (case body of
        None \<Rightarrow> Some []
      | Some None \<Rightarrow> None
      | Some (Some v) \<Rightarrow>
          (case object_members v of
             None \<Rightarrow> None
           | Some m \<Rightarrow> map_option trim_space (string_field m ''reason'')))"

definition approval_workflow :: "json_object \<Rightarrow> workflow_config store_tx" where
  "approval_workflow details =
     (if has_key details ''workflow'' then
        (case workflow_of_json (lookup details ''workflow'') of
           Some c \<Rightarrow> tx_return c
         | None \<Rightarrow> get_workflow_config)
      else get_workflow_config)"

definition reason_missing :: "bool \<Rightarrow> string \<Rightarrow> bool" where
  "reason_missing required reason = (required \<and> trim_space reason = [])"

definition number_from_any :: "(string \<Rightarrow> rat) \<Rightarrow> json \<Rightarrow> rat" where
  "number_from_any parse_float v =
     (case v of JNum n \<Rightarrow> n | JStr s \<Rightarrow> parse_float s | _ \<Rightarrow> 0)"

definition id_from_any :: "(string \<Rightarrow> rat) \<Rightarrow> json \<Rightarrow> int" where
  "id_from_any parse_float v = truncated (number_from_any parse_float v)"

definition same_actor :: "(string \<Rightarrow> rat) \<Rightarrow> json_object \<Rightarrow> string \<Rightarrow> string \<Rightarrow> int \<Rightarrow> string \<Rightarrow> bool" where
  \<comment> \<open>the person the members name is the actor: by id, by name when no id is recorded\<close>
  "same_actor parse_float m id_key name_key actor_uid actor =
     (let uid = id_from_any parse_float (lookup m id_key); name = string_or_empty (lookup m name_key)
      in if uid = 0 then name \<noteq> [] \<and> equal_fold (trim_space name) (trim_space actor)
         else 0 < uid \<and> 0 < actor_uid \<and> uid = actor_uid)"

definition approval_actor_conflict ::
  "(string \<Rightarrow> rat) \<Rightarrow> json_object \<Rightarrow> int \<Rightarrow> string \<Rightarrow> string \<Rightarrow> string option" where
  "approval_actor_conflict parse_float details actor_uid actor stage =
     (if same_actor parse_float details ''requested_by_user_id'' ''requested_by'' actor_uid actor then
        Some (if stage = ''review'' then ''self_review_forbidden''
              else if stage = ''reject'' then ''self_rejection_forbidden'' else ''self_approval_forbidden'')
      else if stage = ''approve'' then
        (case as_object (lookup details ''review'') of
           None \<Rightarrow> None
         | Some review \<Rightarrow>
             if same_actor parse_float review ''reviewed_by_user_id'' ''reviewed_by'' actor_uid actor
             then Some ''reviewer_approver_conflict'' else None)
      else None)"

definition details_of :: "resource_row \<Rightarrow> json_object" where
  "details_of a = (case as_object (re_data a) of None \<Rightarrow> [] | Some m \<Rightarrow> m)"

definition approval_write :: "resource_row \<Rightarrow> string \<Rightarrow> json_object \<Rightarrow> resource_write" where
  "approval_write a status details =
     \<lparr>rw_name = re_name a, rw_status = status, rw_owner_user_id = re_owner_user_id a, rw_data = Some (JObj details)\<rparr>"

definition actor_name :: "request \<Rightarrow> string" where
  "actor_name r = u_username (p_user (rq_principal r))"

definition approval_audit ::
  "approval_env \<Rightarrow> request \<Rightarrow> string \<Rightarrow> int \<Rightarrow> string \<Rightarrow> string \<Rightarrow> resource_row \<Rightarrow> resource_row \<Rightarrow> unit handler" where
  "approval_audit env r action rid result reason before after =
     audit (request_audit r action ''approval'' (format_int rid) result reason
       (Some (JObj (flatten_resource (ae_show_time env) before))) (Some (JObj (flatten_resource (ae_show_time env) after))))"

section \<open>Review\<close>

definition review_entry :: "approval_env \<Rightarrow> request \<Rightarrow> string \<Rightarrow> json" where
  "review_entry env r reason =
     JObj [(''status'', JStr ''reviewed''), (''reviewed_at'', JStr (ae_stamp env 0)),
           (''reviewed_by_user_id'', JNum (of_int (actor_id r))), (''reviewed_by'', JStr (actor_name r)),
           (''reason'', JStr reason)]"

definition record_review :: "approval_env \<Rightarrow> request \<Rightarrow> int \<Rightarrow> resource_row \<Rightarrow> string \<Rightarrow> (json_object \<times> mail_job list) handler" where
  "record_review env r rid a reason =
     (let details = put_member (details_of a) ''review'' (review_entry env r reason)
      in tx_bind (store_call (transition_resource ''approval'' rid ''pending_review''
            (approval_write a ''pending'' details) (actor_id r))) (\<lambda>moved.
         case moved of
           None \<Rightarrow> api_error 409 ''review_closed''
         | Some saved \<Rightarrow>
             tx_bind (approval_audit env r ''approval.review'' rid ''success'' reason a saved) (\<lambda>_.
             tx_bind (store_call (notify_permission_holders (ae_decrypt env)
               (approval_requested rid (re_name a) (approval_requester_name details) ''approve'' reason)
               (actor_id r) ''approval:approve'')) (\<lambda>jobs.
             tx_return (put_member (flatten_resource (ae_show_time env) saved) ''next_action'' (JStr ''approve_or_reject''),
               jobs)))))"

definition approval_review :: "approval_env \<Rightarrow> json option option \<Rightarrow> request \<Rightarrow> (json_object \<times> mail_job list) handler" where
  "approval_review env body r =
     tx_bind (path_id r) (\<lambda>rid.
     tx_bind (store_call (get_resource ''approval'' rid)) (\<lambda>a.
     if re_status a \<noteq> ''pending_review'' then api_error 409 ''review_closed''
     else
       tx_bind (store_call (approval_workflow (details_of a))) (\<lambda>cfg.
       if \<not> wf_manager_review_enabled cfg then api_error 409 ''review_disabled''
       else case decode_approval_action body of
         None \<Rightarrow> api_error 400 ''invalid_json''
       | Some reason \<Rightarrow>
           if reason_missing (wf_require_reason cfg) reason then api_error 400 ''reason_required''
           else case approval_actor_conflict (ae_parse_float env) (details_of a) (actor_id r) (actor_name r) ''review'' of
             Some code \<Rightarrow> api_error 409 code
           | None \<Rightarrow> record_review env r rid a reason)))"

section \<open>Approval\<close>

definition execution_entry :: "request \<Rightarrow> string \<Rightarrow> string \<Rightarrow> string \<Rightarrow> (string \<times> json) list \<Rightarrow> json" where
  "execution_entry r status time_key stamp extra =
     JObj ([(''status'', JStr status), (time_key, JStr stamp), (''idempotency_key'', JStr (rq_header r ''X-Request-ID'')),
            (''approved_by_user_id'', JNum (of_int (actor_id r))), (''approved_by'', JStr (actor_name r))] @ extra)"

definition executing_details :: "approval_env \<Rightarrow> request \<Rightarrow> string \<Rightarrow> json_object \<Rightarrow> json_object" where
  "executing_details env r reason details =
     put_member (put_member details ''approval_reason'' (JStr reason)) ''execution''
       (execution_entry r ''executing'' ''started_at'' (ae_stamp env 0) [])"

definition finished_details :: "approval_env \<Rightarrow> request \<Rightarrow> string \<Rightarrow> string \<Rightarrow> (string \<times> json) list \<Rightarrow> json_object \<Rightarrow> json_object" where
  "finished_details env r reason status extra details =
     put_member (executing_details env r reason details) ''execution''
       (execution_entry r status ''finished_at'' (ae_stamp env 1) extra)"

datatype approval_reply = Replied json_object | RemoteFailed string

definition zero_resource :: resource_row where
  \<comment> \<open>the zero value that \<^verbatim>\<open>TransitionResource\<close> returns with false\<close>
  "zero_resource = \<lparr>re_id = 0, re_kind = [], re_name = [], re_status = [], re_owner_user_id = None, re_data = JNull,
     re_created_by = None, re_updated_by = None, re_created_at = zero_time, re_updated_at = zero_time\<rparr>"

definition approval_execution :: "approval_env \<Rightarrow> json_object \<Rightarrow> (store_db, client_error, unit) tx" where
  "approval_execution env details =
     (if lookup details ''resource_type'' = JStr ''server''
      then execute_server_action env (id_from_any (ae_parse_float env) (lookup details ''server_id''))
             (string_or_empty (lookup details ''action''))
      else tx_return ())"

definition record_failure ::
  "approval_env \<Rightarrow> request \<Rightarrow> int \<Rightarrow> resource_row \<Rightarrow> resource_row \<Rightarrow> string \<Rightarrow> string \<Rightarrow> (approval_reply \<times> mail_job list) handler" where
  "record_failure env r rid a executing reason message =
     tx_bind (store_call (transition_resource ''approval'' rid ''executing''
       (approval_write a ''failed'' (finished_details env r reason ''failed'' [(''error'', JStr message)] (details_of a)))
       (actor_id r))) (\<lambda>moved.
     let failed = (case moved of None \<Rightarrow> zero_resource | Some x \<Rightarrow> x)
     in tx_bind (approval_audit env r ''approval.approve'' rid ''failure'' message executing failed) (\<lambda>_.
        tx_bind (store_call (notify_mail (ae_decrypt env)
          (approval_decided rid (re_name a) (actor_name r) ''failed'' reason) (actor_id r) (approval_owner a))) (\<lambda>jobs.
        tx_return (RemoteFailed message, jobs))))"

definition record_approval ::
  "approval_env \<Rightarrow> request \<Rightarrow> int \<Rightarrow> resource_row \<Rightarrow> string \<Rightarrow> (approval_reply \<times> mail_job list) handler" where
  "record_approval env r rid a reason =
     tx_bind (store_call (transition_resource ''approval'' rid ''executing''
       (approval_write a ''approved'' (finished_details env r reason ''approved'' [] (details_of a)))
       (actor_id r))) (\<lambda>moved.
     case moved of
       None \<Rightarrow> api_error 409 ''approval_state_changed''
     | Some saved \<Rightarrow>
         tx_bind (approval_audit env r ''approval.approve'' rid ''success'' reason a saved) (\<lambda>_.
         tx_bind (store_call (notify_mail (ae_decrypt env)
           (approval_decided rid (re_name a) (actor_name r) ''approved'' reason) (actor_id r) (approval_owner a))) (\<lambda>jobs.
         tx_return (Replied (flatten_resource (ae_show_time env) saved), jobs))))"

definition claim_approval :: "approval_env \<Rightarrow> request \<Rightarrow> int \<Rightarrow> resource_row \<Rightarrow> string \<Rightarrow> (resource_row option) handler" where
  "claim_approval env r rid a reason =
     store_call (transition_resource ''approval'' rid ''pending''
       (approval_write a ''executing'' (executing_details env r reason (details_of a))) (actor_id r))"

definition carry_out_approval ::
  "approval_env \<Rightarrow> request \<Rightarrow> int \<Rightarrow> resource_row \<Rightarrow> string \<Rightarrow> (approval_reply \<times> mail_job list) handler" where
  "carry_out_approval env r rid a reason =
     tx_bind (claim_approval env r rid a reason) (\<lambda>claimed.
     case claimed of
       None \<Rightarrow> api_error 409 ''approval_closed''
     | Some executing \<Rightarrow>
         tx_bind (tx_try (approval_execution env (details_of a))) (\<lambda>ran.
         case ran of
           Inl e \<Rightarrow> record_failure env r rid a executing reason (ae_error_text env e)
         | Inr _ \<Rightarrow> record_approval env r rid a reason))"

definition approval_approve :: "approval_env \<Rightarrow> json option option \<Rightarrow> request \<Rightarrow> (approval_reply \<times> mail_job list) handler" where
  "approval_approve env body r =
     tx_bind (path_id r) (\<lambda>rid.
     tx_bind (store_call (get_resource ''approval'' rid)) (\<lambda>a.
     if re_status a = ''pending_review'' then api_error 409 ''review_required''
     else if re_status a \<noteq> ''pending'' then api_error 409 ''approval_closed''
     else
       tx_bind (store_call (approval_workflow (details_of a))) (\<lambda>cfg.
       case decode_approval_action body of
         None \<Rightarrow> api_error 400 ''invalid_json''
       | Some reason \<Rightarrow>
           if reason_missing (wf_require_reason cfg) reason then api_error 400 ''reason_required''
           else case approval_actor_conflict (ae_parse_float env) (details_of a) (actor_id r) (actor_name r) ''approve'' of
             Some code \<Rightarrow> api_error 409 code
           | None \<Rightarrow> carry_out_approval env r rid a reason)))"

section \<open>Rejection\<close>

definition rejection_entry :: "approval_env \<Rightarrow> request \<Rightarrow> resource_row \<Rightarrow> string \<Rightarrow> json" where
  "rejection_entry env r a reason =
     JObj [(''reason'', JStr reason), (''rejected_at'', JStr (ae_stamp env 0)),
           (''rejected_by_user_id'', JNum (of_int (actor_id r))), (''rejected_by'', JStr (actor_name r)),
           (''from_status'', JStr (re_status a))]"

definition record_rejection :: "approval_env \<Rightarrow> request \<Rightarrow> int \<Rightarrow> resource_row \<Rightarrow> string \<Rightarrow> (json_object \<times> mail_job list) handler" where
  "record_rejection env r rid a reason =
     tx_bind (store_call (transition_resource ''approval'' rid (re_status a)
       (approval_write a ''rejected'' (put_member (details_of a) ''rejection'' (rejection_entry env r a reason)))
       (actor_id r))) (\<lambda>moved.
     case moved of
       None \<Rightarrow> api_error 409 ''approval_closed''
     | Some saved \<Rightarrow>
         tx_bind (approval_audit env r ''approval.reject'' rid ''success'' reason a saved) (\<lambda>_.
         tx_bind (store_call (notify_mail (ae_decrypt env)
           (approval_decided rid (re_name a) (actor_name r) ''rejected'' reason) (actor_id r) (approval_owner a))) (\<lambda>jobs.
         tx_return (flatten_resource (ae_show_time env) saved, jobs))))"

definition approval_reject :: "approval_env \<Rightarrow> json option option \<Rightarrow> request \<Rightarrow> (json_object \<times> mail_job list) handler" where
  "approval_reject env body r =
     tx_bind (path_id r) (\<lambda>rid.
     tx_bind (store_call (get_resource ''approval'' rid)) (\<lambda>a.
     if re_status a \<noteq> ''pending'' \<and> re_status a \<noteq> ''pending_review'' then api_error 409 ''approval_closed''
     else case decode_approval_action body of
       None \<Rightarrow> api_error 400 ''invalid_json''
     | Some reason \<Rightarrow>
         tx_bind (store_call (approval_workflow (details_of a))) (\<lambda>cfg.
         if reason_missing (wf_require_reason cfg) reason then api_error 400 ''reason_required''
         else case approval_actor_conflict (ae_parse_float env) (details_of a) (actor_id r) (actor_name r) ''reject'' of
           Some code \<Rightarrow> api_error 409 code
         | None \<Rightarrow> record_rejection env r rid a reason)))"

section \<open>The request for an action\<close>

definition server_actions :: "string list" where
  "server_actions = [''start'', ''stop'', ''restart'']"

definition initial_status :: "workflow_config \<Rightarrow> string" where
  "initial_status c = (if wf_manager_review_enabled c then ''pending_review'' else ''pending'')"

definition request_details :: "approval_env \<Rightarrow> request \<Rightarrow> int \<Rightarrow> string \<Rightarrow> workflow_config \<Rightarrow> json_object" where
  "request_details env r sid action c =
     [(''resource_type'', JStr ''server''), (''request_type'', JStr ''server_action''),
      (''server_id'', JNum (of_int sid)), (''action'', JStr action),
      (''requested_by_user_id'', JNum (of_int (actor_id r))), (''requested_by'', JStr (actor_name r)),
      (''requested_at'', JStr (ae_stamp env 0)), (''workflow'', json_of_workflow c)]"

definition request_write :: "approval_env \<Rightarrow> request \<Rightarrow> int \<Rightarrow> string \<Rightarrow> workflow_config \<Rightarrow> resource_write" where
  "request_write env r sid action c =
     \<lparr>rw_name = [CHR 0xEC, CHR 0x84, CHR 0x9C, CHR 0xEB, CHR 0xB2, CHR 0x84, CHR 0x20] @ format_int sid @ '' '' @ action @ [CHR 0x20, CHR 0xEC, CHR 0x9A, CHR 0x94, CHR 0xEC, CHR 0xB2, CHR 0xAD], rw_status = initial_status c,
      rw_owner_user_id = Some (actor_id r), rw_data = Some (JObj (request_details env r sid action c))\<rparr>"

definition request_approval ::
  "approval_env \<Rightarrow> request \<Rightarrow> int \<Rightarrow> string \<Rightarrow> workflow_config \<Rightarrow> (json_object \<times> mail_job list) handler" where
  "request_approval env r sid action c =
     tx_bind (store_call (create_resource ''approval'' (request_write env r sid action c) (actor_id r))) (\<lambda>approval.
     tx_bind (audit (request_audit r (''server.'' @ action @ ''.request'') ''server'' (format_int sid) ''success'' [] None
       (Some (JObj [(''approval_id'', JNum (of_int (re_id approval)))])))) (\<lambda>_.
     let (stage, permission) = (if wf_manager_review_enabled c then (''review'', ''approval:review'')
            else (''approve'', ''approval:approve''))
     in tx_bind (store_call (notify_permission_holders (ae_decrypt env)
          (approval_requested (re_id approval) (re_name approval) (actor_name r) stage []) (actor_id r) permission)) (\<lambda>jobs.
        tx_return ([(''approval_required'', JBool True),
            (''manager_review_required'', JBool (wf_manager_review_enabled c)), (''status'', JStr (initial_status c)),
            (''next_action'', JStr (if wf_manager_review_enabled c then ''review'' else ''approve_or_reject'')),
            (''approval'', JObj (flatten_resource (ae_show_time env) approval))], jobs))))"

definition act_at_once :: "approval_env \<Rightarrow> request \<Rightarrow> int \<Rightarrow> string \<Rightarrow> (json_object \<times> mail_job list) handler" where
  "act_at_once env r sid action =
     tx_bind (tx_try (execute_server_action env sid action)) (\<lambda>ran.
     tx_bind (audit (request_audit r (''server.'' @ action) ''server'' (format_int sid)
       (if is_ok ran then ''success'' else ''failure'')
       (case ran of Inl e \<Rightarrow> ae_error_text env e | Inr _ \<Rightarrow> []) None None)) (\<lambda>_.
     case ran of
       Inl _ \<Rightarrow> api_error 502 ''server_action_failed''
     | Inr _ \<Rightarrow> tx_return ([(''approval_required'', JBool False), (''action'', JStr action), (''accepted'', JBool True)], [])))"

definition server_action :: "approval_env \<Rightarrow> request \<Rightarrow> (json_object \<times> mail_job list) handler" where
  "server_action env r =
     tx_bind (path_id r) (\<lambda>sid.
     tx_bind (store_call (get_server sid)) (\<lambda>server.
     tx_bind (scoped_target_allowed r ''servers:operate'' (sv_hub_id (vv_row server)) (vv_department server)) (\<lambda>_.
     let action = rq_path_value r ''action''
     in if action \<notin> set server_actions then api_error 400 ''invalid_action''
        else tx_bind (store_call get_workflow_config) (\<lambda>workflow.
          if requires_approval workflow ''server_action'' then request_approval env r sid action workflow
          else act_at_once env r sid action))))"

end
