(* ===== verification/Dashboard.thy ===== *)
theory Dashboard
  imports Live_View Approvals
begin

text \<open>The dashboard handlers (\<^verbatim>\<open>internal/api/core_handlers.go\<close>): the snapshot is read at most every four seconds, then
  redacted by the features that are on now, filtered and summed up for each request. A snapshot is the JSON document that
  is kept and decoded again. \<open>show\<close> is \<^verbatim>\<open>fmt\<close>'s text of a value, \<open>parse_float\<close> reads a number.\<close>

section \<open>Features\<close>

definition feature_status :: "json_object \<Rightarrow> (string \<times> bool) list" where
  "feature_status settings =
     (let flag = (\<lambda>section key. case lookup settings section of JObj m \<Rightarrow> true_bool (lookup m key) | _ \<Rightarrow> False)
      in [(''gpu_monitoring'', flag ''features'' ''gpu_monitoring''),
          (''llm_usage_monitoring'', flag ''features'' ''llm_usage_monitoring''),
          (''approval_workflow'', flag ''workflow'' ''approval_enabled'')])"

definition features_get :: "request \<Rightarrow> (string \<times> bool) list handler" where
  "features_get r = tx_bind (store_call list_settings) (\<lambda>settings. tx_return (feature_status settings))"

definition current_monitoring_features :: "(bool \<times> bool) metric_tx" where
  \<comment> \<open>graphics processors and language models; both off when the setting cannot be read\<close>
  "current_monitoring_features =
     tx_bind (tx_try (on_store (get_setting ''features''))) (\<lambda>r.
     tx_return (feature_on ''gpu_monitoring'' r, feature_on ''llm_usage_monitoring'' r))"

section \<open>Redaction\<close>

definition gpu_keys :: "string list" where
  "gpu_keys =
     [''gpu'', ''gpus'', ''gpu_count'', ''gpu_usage'', ''gpu_utilization'', ''gpu_percent'', ''gpu_samples'',
      ''vram'', ''vram_bytes'', ''vram_usage'', ''vram_utilization'', ''vram_percent'',
      ''gpu_sampled_at'', ''waste_candidate'', ''waste_score'', ''idle_ratio'']"

definition redact_gpu_record :: "json \<Rightarrow> json" where
  "redact_gpu_record v = (case v of JObj m \<Rightarrow> JObj (without_members gpu_keys m) | _ \<Rightarrow> v)"

definition update_member :: "string \<Rightarrow> (json \<Rightarrow> json) \<Rightarrow> json_object \<Rightarrow> json_object" where
  "update_member key f m = map (\<lambda>(k, v). (k, if k = key then f v else v)) m"

definition redact_records :: "json \<Rightarrow> json" where
  \<comment> \<open>in place, whatever in the array is an object\<close>
  "redact_records v = (case v of JArr xs \<Rightarrow> JArr (map redact_gpu_record xs) | _ \<Rightarrow> v)"

definition redact_aggregates :: "json \<Rightarrow> json" where
  "redact_aggregates v = (case v of JObj m \<Rightarrow> JObj (map (\<lambda>(k, x). (k, redact_gpu_record x)) m) | _ \<Rightarrow> v)"

definition redact_gpu :: "json_object \<Rightarrow> json_object" where
  "redact_gpu snapshot =
     update_member ''aggregates'' redact_aggregates
       (update_member ''sessions'' redact_records
         (update_member ''live_users'' redact_records
           (update_member ''summary'' redact_gpu_record
             (without_members [''gpu_users'', ''gpu_usage'', ''gpu_waste'', ''waste_users''] snapshot))))"

definition empty_llm_usage :: json where
  "empty_llm_usage =
     JObj [(''feature_enabled'', JBool False), (''data'', JArr []), (''top_callers'', JArr []), (''breakdown'', JArr []),
       (''usage_trend'', JArr []),
       (''summary'', JObj [(''calls'', JNum 0), (''success'', JNum 0), (''errors'', JNum 0), (''input_tokens'', JNum 0),
          (''output_tokens'', JNum 0), (''total_tokens'', JNum 0), (''estimated_cost'', JNum 0), (''success_rate'', JNull),
          (''latency_p95_ms'', JNull)])]"

definition redact_disabled_monitoring :: "bool \<times> bool \<Rightarrow> json_object \<Rightarrow> json_object" where
  "redact_disabled_monitoring features snapshot =
     (case features of (gpu, llm) \<Rightarrow>
       let marked = put_member snapshot ''feature_enabled''
             (JObj [(''gpu_monitoring'', JBool gpu), (''llm_usage_monitoring'', JBool llm)]);
           redacted = (if gpu then marked else redact_gpu marked)
       in if llm then redacted else put_member redacted ''llm_usage'' empty_llm_usage)"

section \<open>Filters\<close>

fun numeric_value :: "json \<Rightarrow> rat option" where
  "numeric_value (JNum n) = Some n"
| "numeric_value _ = None"

definition dashboard_sessions :: "json \<Rightarrow> json_object list option" where
  "dashboard_sessions v = (case v of JArr xs \<Rightarrow> Some (List.map_filter as_object xs) | _ \<Rightarrow> None)"

definition filter_keys :: "string list" where
  "filter_keys = [''hub'', ''network'', ''department'', ''project'']"

definition session_text :: "string \<Rightarrow> json_object \<Rightarrow> string" where
  "session_text key session = string_or_empty (lookup session key)"

definition selected_by :: "request \<Rightarrow> json_object \<Rightarrow> bool" where
  "selected_by r session =
     list_all (\<lambda>key. rq_query r key = [] \<or> session_text key session = rq_query r key) filter_keys"

definition filter_options :: "string \<Rightarrow> json_object list \<Rightarrow> json" where
  "filter_options key sessions =
     JArr (map JStr (sort (remdups (filter (\<lambda>s. s \<noteq> []) (map (session_text key) sessions)))))"

definition filter_response :: "request \<Rightarrow> json_object list \<Rightarrow> json" where
  "filter_response r sessions =
     JObj ([(''selected'', JObj (map (\<lambda>key. (key, JStr (rq_query r key))) filter_keys)),
            (''group_by'', JArr (map JStr filter_keys))] @ map (\<lambda>key. (key, filter_options key sessions)) filter_keys)"

definition numbers_of :: "string \<Rightarrow> json_object list \<Rightarrow> rat list" where
  "numbers_of key = List.map_filter (\<lambda>s. numeric_value (lookup s key))"

definition gpu_on :: "json_object \<Rightarrow> bool" where
  "gpu_on snapshot = (case lookup snapshot ''feature_enabled'' of JObj m \<Rightarrow> true_bool (lookup m ''gpu_monitoring'') | _ \<Rightarrow> False)"

definition user_label :: "(json \<Rightarrow> string) \<Rightarrow> json_object \<Rightarrow> string" where
  "user_label show session = show (lookup session ''hub_id'') @ [CHR 0x00] @ session_text ''username'' session"

definition filtered_summary :: "(json \<Rightarrow> string) \<Rightarrow> (string \<Rightarrow> rat) \<Rightarrow> bool \<Rightarrow> json_object list \<Rightarrow> json_object" where
  "filtered_summary show parse_float gpu current =
     [(''running_servers'', JNum (of_nat (length current))),
      (''idle_sessions'', JNum (of_nat (length (filter (\<lambda>s. true_bool (lookup s ''idle_candidate'')) current)))),
      (''long_running_sessions'', JNum (of_nat (length
         (filter (\<lambda>s. 86400 \<le> number_from_any parse_float (lookup s ''runtime_seconds'')) current)))),
      (''active_users'', JNum (of_nat (length (remdups (map (user_label show) current)))))]
     @ total_of ''cpu_usage'' (numbers_of ''cpu_cores'' current)
     @ total_of ''memory_usage'' (numbers_of ''memory_bytes'' current)
     @ (if gpu then total_of ''gpu_usage'' (numbers_of ''gpu_count'' current)
          @ total_of ''vram_usage'' (numbers_of ''vram_bytes'' current) else [])"

definition apply_dashboard_filters :: "(json \<Rightarrow> string) \<Rightarrow> (string \<Rightarrow> rat) \<Rightarrow> request \<Rightarrow> json_object \<Rightarrow> json_object" where
  "apply_dashboard_filters show parse_float r snapshot =
     (case dashboard_sessions (lookup snapshot ''live_users'') of
        None \<Rightarrow> snapshot
      | Some sessions \<Rightarrow>
          let kept = filter (selected_by r) sessions; shown = JArr (map JObj kept); gpu = gpu_on snapshot;
              current = filter (\<lambda>s. \<not> true_bool (lookup s ''stale'')) kept;
              wasted = filter (\<lambda>s. true_bool (lookup s ''waste_candidate'')) current;
              answer = put_all [(''filters'', filter_response r sessions), (''live_users'', shown), (''sessions'', shown),
                (''summary'', JObj (filtered_summary show parse_float gpu current))] snapshot
          in if gpu then put_member answer ''gpu_waste'' (JArr (map JObj wasted))
             else without_members [''gpu_waste''] answer)"

section \<open>The cached snapshot\<close>

text \<open>The server keeps the last snapshot with the time it was stored; nothing is kept at first. The clock is read before
  the age is judged and after the snapshot is encoded.\<close>

type_synonym live_cache = "(json_object \<times> time) option"

definition live_cache_age :: time where "live_cache_age = 4 * second"

definition invalidate_live_snapshot :: "live_cache \<Rightarrow> live_cache" where
  "invalidate_live_snapshot c = None"

definition kept_snapshot :: "time \<Rightarrow> live_cache \<Rightarrow> json_object option" where
  "kept_snapshot now c =
     (case c of None \<Rightarrow> None | Some (snapshot, stored) \<Rightarrow> if live_cache_age \<le> now - stored then None else Some snapshot)"

definition refresh :: "json_object metric_tx \<Rightarrow> time \<Rightarrow> time \<Rightarrow> live_cache \<Rightarrow> (json_object \<times> live_cache) metric_tx" where
  \<comment> \<open>under the mutex; a failed read leaves the cache as it was\<close>
  "refresh read now stored c =
     (case kept_snapshot now c of
        Some snapshot \<Rightarrow> tx_return (snapshot, c)
      | None \<Rightarrow> tx_bind read (\<lambda>snapshot. tx_return (snapshot, Some (snapshot, stored))))"

definition cached_live_snapshot :: "json_object metric_tx \<Rightarrow> time \<Rightarrow> time \<Rightarrow> live_cache \<Rightarrow> (json_object \<times> live_cache) metric_tx" where
  "cached_live_snapshot read now stored c =
     tx_bind (refresh read now stored c) (\<lambda>(snapshot, c').
     tx_bind current_monitoring_features (\<lambda>features.
     tx_return (redact_disabled_monitoring features snapshot, c')))"

record dashboard_env =
  de_live :: live_env
  de_stored :: time
  de_show :: "json \<Rightarrow> string"
  de_parse_float :: "string \<Rightarrow> rat"

definition dashboard_view :: "dashboard_env \<Rightarrow> request \<Rightarrow> live_cache \<Rightarrow> (json_object \<times> live_cache) metric_tx" where
  "dashboard_view env r c =
     tx_bind (cached_live_snapshot (live_snapshot (de_live env)) (le_now (de_live env)) (de_stored env) c) (\<lambda>(snapshot, c').
     tx_return (apply_dashboard_filters (de_show env) (de_parse_float env) r snapshot, c'))"

definition dashboard_handler :: "dashboard_env \<Rightarrow> request \<Rightarrow> live_cache \<Rightarrow> (json_object \<times> live_cache) metric_handler" where
  "dashboard_handler env r c = metric_call (dashboard_view env r c)"

text \<open>The stream sends the view at once and every five seconds. The cache goes from send to send as part of the data.\<close>

definition send_live :: "(nat \<Rightarrow> dashboard_env) \<Rightarrow> request \<Rightarrow> (metric_db \<times> live_cache, http_error, json_object) sender" where
  "send_live env r k fs dc =
     (case dashboard_view (env k) r (snd dc) fs (fst dc) of
        (Inl _, fs', d) \<Rightarrow> (Inr ([SseError], False), fs', (d, snd dc))
      | (Inr (snapshot, c), fs', d) \<Rightarrow> (Inr ([SseData snapshot], True), fs', (d, c)))"

definition live ::
  "(nat \<Rightarrow> dashboard_env) \<Rightarrow> bool \<Rightarrow> nat \<Rightarrow> request \<Rightarrow> (metric_db \<times> live_cache, http_error, json_object sse_event list) tx" where
  "live env flushes sends r =
     (if \<not> flushes then tx_throw (501, ''streaming_unavailable'') else sse_loop (send_live env r) 0 sends)"

section \<open>What a feature that is off hides\<close>

text \<open>
  The members under which a figure about graphics processors, their memory or their waste is shown, written
  out here independently of the list the redaction works with.
\<close>

definition graphics_member :: "string \<Rightarrow> bool" where
  "graphics_member k \<longleftrightarrow>
     k \<in> {''gpu'', ''gpus'', ''gpu_count'', ''gpu_usage'', ''gpu_utilization'', ''gpu_percent'', ''gpu_samples'', ''gpu_sampled_at'',
           ''vram'', ''vram_bytes'', ''vram_usage'', ''vram_utilization'', ''vram_percent'',
           ''waste_candidate'', ''waste_score'', ''idle_ratio''}"

definition gpu_free :: "json \<Rightarrow> bool" where
  "gpu_free v = (case v of JObj m \<Rightarrow> list_all (\<lambda>(k, _). \<not> graphics_member k) m | _ \<Rightarrow> True)"

definition gpu_free_member :: "string \<times> json \<Rightarrow> bool" where
  \<comment> \<open>no list of users or waste, and no graphics member in the summary, a session or an aggregate\<close>
  "gpu_free_member kv =
     (case kv of (k, v) \<Rightarrow>
       if k \<in> set [''gpu_users'', ''gpu_usage'', ''gpu_waste'', ''waste_users''] then False
       else if k = ''summary'' then gpu_free v
       else if k = ''live_users'' \<or> k = ''sessions'' then (case v of JArr xs \<Rightarrow> list_all gpu_free xs | _ \<Rightarrow> True)
       else if k = ''aggregates'' then (case v of JObj m \<Rightarrow> list_all (gpu_free o snd) m | _ \<Rightarrow> True)
       else True)"

lemma gpu_free_redacted: "gpu_free (redact_gpu_record v)"
  by (auto simp: gpu_free_def graphics_member_def gpu_keys_def redact_gpu_record_def without_members_def list_all_iff
      split: json.splits)

lemma redact_gpu_free: "list_all gpu_free_member (redact_gpu m)"
  by (auto simp: redact_gpu_def update_member_def without_members_def list_all_iff gpu_free_member_def redact_records_def
      redact_aggregates_def gpu_free_redacted split: json.splits)

lemma free_put: "list_all gpu_free_member m \<Longrightarrow> gpu_free_member (k, v) \<Longrightarrow> list_all gpu_free_member (put_member m k v)"
  by (auto simp: put_member_def list_all_iff)

lemma free_put_all:
  "list_all gpu_free_member ms \<Longrightarrow> list_all gpu_free_member m \<Longrightarrow> list_all gpu_free_member (put_all ms m)"
  unfolding put_all_def by (induction ms arbitrary: m) (auto intro: free_put)

lemma free_without: "list_all gpu_free_member m \<Longrightarrow> list_all gpu_free_member (without_members ks m)"
  by (auto simp: without_members_def list_all_iff)

lemma lookup_member: "lookup m k \<noteq> JNull \<Longrightarrow> (k, lookup m k) \<in> set m"
  by (auto simp: lookup_def dest: map_of_SomeD split: option.splits)

lemma free_sessions:
  assumes "list_all gpu_free_member m" and "dashboard_sessions (lookup m ''live_users'') = Some ss"
  shows "list_all (gpu_free o JObj) ss"
proof -
  from assms(2) obtain xs where xs: "lookup m ''live_users'' = JArr xs" and ss: "ss = List.map_filter as_object xs"
    by (auto simp: dashboard_sessions_def split: json.splits)
  with lookup_member [of m "''live_users''"] have "(''live_users'', JArr xs) \<in> set m" by simp
  with assms(1) have "list_all gpu_free xs" by (force simp: list_all_iff gpu_free_member_def)
  then show ?thesis by (auto simp: ss list_all_iff List.map_filter_def)
qed

lemma summary_free: "gpu_free (JObj (filtered_summary show parse_float False ss))"
  by (simp add: gpu_free_def filtered_summary_def total_of_def graphics_member_def)

lemma filters_keep_free:
  assumes "list_all gpu_free_member m" and "\<not> gpu_on m"
  shows "list_all gpu_free_member (apply_dashboard_filters show parse_float r m)"
proof (cases "dashboard_sessions (lookup m ''live_users'')")
  case (Some ss)
  from free_sessions [OF assms(1) Some] have kept: "list_all gpu_free (map JObj (filter P ss))" for P
    by (auto simp: list_all_iff)
  then have shown: "gpu_free_member (''live_users'', JArr (map JObj (filter P ss)))"
    "gpu_free_member (''sessions'', JArr (map JObj (filter P ss)))" for P
    by (simp_all add: gpu_free_member_def)
  from Some assms(2) show ?thesis
    by (simp add: apply_dashboard_filters_def Let_def)
      (intro free_without free_put_all assms(1), simp_all add: kept gpu_free_member_def summary_free)
qed (use assms(1) in \<open>simp add: apply_dashboard_filters_def\<close>)

lemma lookup_update_other: "k \<noteq> key \<Longrightarrow> lookup (update_member key f m) k = lookup m k"
proof -
  assume "k \<noteq> key"
  then have "map_of (update_member key f m) k = map_of m k"
    unfolding update_member_def by (induction m) auto
  then show ?thesis by (simp add: lookup_def)
qed

lemma redaction_off:
  "\<not> gpu_on (redact_disabled_monitoring (False, llm) m) \<and> list_all gpu_free_member (redact_disabled_monitoring (False, llm) m)"
proof -
  have "lookup (redact_gpu (put_member m ''feature_enabled'' v)) ''feature_enabled'' = v" for v
    by (simp add: redact_gpu_def lookup_update_other lookup_without lookup_put)
  then have off: "\<not> gpu_on (redact_disabled_monitoring (False, llm) m)"
    by (simp add: gpu_on_def redact_disabled_monitoring_def Let_def lookup_put lookup_Cons true_bool_def)
  have "list_all gpu_free_member (redact_disabled_monitoring (False, llm) m)"
    by (simp add: redact_disabled_monitoring_def Let_def redact_gpu_free) (intro impI free_put redact_gpu_free, simp add: gpu_free_member_def)
  with off show ?thesis by simp
qed

section \<open>Redacted answers\<close>

lemma features_off:
  assumes "\<not> feature_row_on ''gpu_monitoring'' (mt_store t)" and "current_monitoring_features fs t = (Inr features, fs', t')"
  shows "\<not> fst features"
proof -
  from assms(2) have "gpu_monitoring_on fs t = (Inr (fst features), fs', t')"
    by (auto simp: current_monitoring_features_def gpu_monitoring_on_def tx_bind_Inr)
  with gpu_off_read [OF assms(1)] show ?thesis by blast
qed

text \<open>C31: While the monitoring of graphics processors is off, a dashboard shows nothing of them, whatever snapshot is still cached:
  no list of their users or of waste, and none of the sixteen members that carry figures about them, their memory or their waste
  in the summary, in a session or in an aggregate.\<close>

theorem dashboard_hides_gpu:
  assumes "\<not> feature_row_on ''gpu_monitoring'' (mt_store t)" and "dashboard_view env r c fs t = (Inr (view, c'), fs', t')"
  shows "list_all gpu_free_member view"
proof -
  let ?read = "live_snapshot (de_live env)"
  from assms(2) obtain cached fs1 t1 features fs2 t2 where
    cached: "refresh ?read (le_now (de_live env)) (de_stored env) c fs t = (Inr cached, fs1, t1)"
    and features: "current_monitoring_features fs1 t1 = (Inr features, fs2, t2)"
    and view: "view = apply_dashboard_filters (de_show env) (de_parse_float env) r
        (redact_disabled_monitoring features (fst cached))"
    unfolding dashboard_view_def cached_live_snapshot_def by (elim tx_bindE) (auto split: prod.splits elim!: tx_bindE)
  have "keeps (\<lambda>x. x = t) (refresh ?read (le_now (de_live env)) (de_stored env) c)"
    unfolding refresh_def by (intro inv_intros keeps_live_snapshot)
  from keepsD [OF this refl cached] have "t1 = t" .
  with features_off [OF _ features] assms(1) obtain llm where off: "features = (False, llm)" by (cases features) auto
  show ?thesis unfolding view off by (intro filters_keep_free) (simp_all add: redaction_off)
qed

text \<open>A cached snapshot is less than four seconds old when it is served.\<close>

lemma served_snapshot_recent:
  assumes "kept_snapshot now (Some (snapshot, stored)) = Some shown"
  shows "shown = snapshot \<and> now - stored < 4 * second"
  using assms by (simp add: kept_snapshot_def live_cache_age_def split: if_splits)

interpretation live_stream: event_sender "send_live env r" "\<lambda>_. True" for env r
proof
  fix k fs d events go_on fs' d'
  assume "send_live env r k fs d = (Inr (events, go_on), fs', d')"
  then show "if go_on then \<exists>x. events = [SseData x] \<and> True else events = [] \<or> events = [SseError]"
    by (auto simp: send_live_def split: prod.splits sum.splits)
qed

definition gpu_dashboard :: dashboard_env where
  "gpu_dashboard = \<lparr>de_live = gpu_env, de_stored = 7201 * second, de_show = (\<lambda>_. []), de_parse_float = (\<lambda>_. 0)\<rparr>"

definition all_sessions :: request where
  "all_sessions = demo_request ''GET'' (\<lambda>_. []) (demo_principal [''dashboard:read''])"

definition stale_cache :: live_cache where
  \<comment> \<open>stored a second ago, when the feature was still on\<close>
  "stale_cache = Some ([(''gpu_waste'', JArr []), (''gpu_users'', JNum 1),
     (''live_users'', JArr [JObj [(''username'', JStr ''ana''), (''gpu_count'', JNum 1), (''gpu_utilization'', JNum 1),
        (''vram_bytes'', JNum 1), (''waste_candidate'', JBool True), (''waste_score'', JNum 99)]])], 7199 * second)"

definition quiet_gpu :: metric_db where
  "quiet_gpu = gpu_tables\<lparr>mt_store := (mt_store gpu_tables)\<lparr>db_settings := []\<rparr>\<rparr>"

theorem dashboard_hides_gpu_witness:
  "\<exists>view. dashboard_view gpu_dashboard all_sessions stale_cache [] quiet_gpu = (Inr (view, stale_cache), [], quiet_gpu)
     \<and> lookup view ''live_users'' = JArr [JObj [(''username'', JStr ''ana'')]] \<and> list_all gpu_free_member view"
proof -
  have "case dashboard_view gpu_dashboard all_sessions stale_cache [] quiet_gpu of
      (Inr (view, c), fs, t) \<Rightarrow> c = stale_cache \<and> fs = [] \<and> t = quiet_gpu
        \<and> lookup view ''live_users'' = JArr [JObj [(''username'', JStr ''ana'')]] | _ \<Rightarrow> False" by code_simp
  then obtain view where run: "dashboard_view gpu_dashboard all_sessions stale_cache [] quiet_gpu = (Inr (view, stale_cache), [], quiet_gpu)"
    and users: "lookup view ''live_users'' = JArr [JObj [(''username'', JStr ''ana'')]]"
    by (auto split: prod.splits sum.splits)
  have "\<not> feature_row_on ''gpu_monitoring'' (mt_store quiet_gpu)" by code_simp
  from dashboard_hides_gpu [OF this run] run users show ?thesis by blast
qed

end
