(* ===== verification/Usage_Report.thy ===== *)
theory Usage_Report
  imports Llm_Views Pod_Updates
begin

text \<open>The usage report (\<^verbatim>\<open>Usage\<close> in \<^verbatim>\<open>internal/store/settings.go\<close>) and the handlers of usage and metrics in
  \<^verbatim>\<open>internal/api/core_handlers.go\<close>. The parameters: PostgreSQL's \<^verbatim>\<open>date_trunc\<close> and the series of buckets with their
  ends, the order of a query's rows, when the k-th row of the audit log was written, the text of a JSON value that is no
  string.\<close>

record top_user_row =
  tu_username :: string
  tu_servers :: nat
  tu_logins :: nat
  tu_runtime :: rat
  tu_cpu :: "rat \<times> rat"
  tu_memory :: "rat \<times> rat"
  tu_gpu :: "(rat \<times> rat) option"

record usage_env =
  ue_trunc :: "string \<Rightarrow> time \<Rightarrow> time"
  ue_buckets :: "string \<Rightarrow> time \<Rightarrow> time \<Rightarrow> (time \<times> time) list"
  ue_trend_ordered :: "((time \<times> string \<times> string) \<times> rat list) list \<Rightarrow> ((time \<times> string \<times> string) \<times> rat list) list"
  ue_text_ordered :: "(time \<times> string) list \<Rightarrow> (time \<times> string) list"
  ue_top_ordered :: "top_user_row list \<Rightarrow> top_user_row list"
  ue_audit_at :: "nat \<Rightarrow> time"
  ue_render :: "json \<Rightarrow> string"
  ue_now :: time

section \<open>Rows\<close>

definition login_rows :: "(nat \<Rightarrow> time) \<Rightarrow> store_db \<Rightarrow> (string \<times> time) list" where
  \<comment> \<open>who signed in, and when\<close>
  "login_rows audit_at d =
     map (\<lambda>(i, a). (au_actor_username a, audit_at i))
       (filter (\<lambda>(i, a). au_action a \<in> set [''auth.login'', ''auth.oidc''] \<and> au_result a = ''success'') (enumerate 0 (db_audit d)))"

definition between :: "time \<Rightarrow> time \<Rightarrow> time \<Rightarrow> bool" where
  "between from until t = (from \<le> t \<and> t \<le> until)"

definition visible_sample :: "bool \<Rightarrow> sample_row \<Rightarrow> bool" where
  "visible_sample gpu s = (gpu \<or> sa_kind s \<noteq> ''gpu'')"

definition label_column :: "string \<Rightarrow> string" where
  "label_column group_by = (if group_by = ''user'' then ''username'' else group_by)"

definition label_or_unknown :: "string \<Rightarrow> labels \<Rightarrow> string" where
  "label_or_unknown key ls = (case map_of ls key of None \<Rightarrow> ''unknown'' | Some v \<Rightarrow> v)"

definition runtime_names :: "string list" where
  "runtime_names = [''runtime_seconds'', ''server_running_seconds'']"

section \<open>Trends\<close>

record trend_row =
  tr_bucket :: time
  tr_group :: string
  tr_metric :: string
  tr_average :: rat
  tr_peak :: rat

definition mean :: "rat list \<Rightarrow> rat" where
  \<comment> \<open>of some values\<close>
  "mean xs = sum_list xs / of_nat (length xs)"

definition largest :: "rat list \<Rightarrow> rat" where
  "largest xs = (case xs of [] \<Rightarrow> 0 | x # xs \<Rightarrow> fold max xs x)"

definition metric_trend :: "usage_env \<Rightarrow> bool \<Rightarrow> time \<Rightarrow> time \<Rightarrow> string \<Rightarrow> string \<Rightarrow> sample_row list \<Rightarrow> trend_row list" where
  \<comment> \<open>the runtime counters are left out, as the runtime is measured on the sessions below\<close>
  "metric_trend env gpu from until unit group_by samples =
     (let rows = filter (\<lambda>s. between from until (sa_at s) \<and> sa_metric s \<notin> set runtime_names \<and> visible_sample gpu s) samples;
          key = (\<lambda>s. (ue_trunc env unit (sa_at s), label_or_unknown (label_column group_by) (sa_labels s), sa_metric s))
      in map (\<lambda>((b, g, m), values). \<lparr>tr_bucket = b, tr_group = g, tr_metric = m, tr_average = mean values, tr_peak = largest values\<rparr>)
           (ue_trend_ordered env (map (\<lambda>k. (k, map sa_value (filter (\<lambda>s. key s = k) rows))) (remdups (map key rows)))))"

definition session_group :: "usage_env \<Rightarrow> store_db \<Rightarrow> string \<Rightarrow> server_session_row \<Rightarrow> string" where
  "session_group env d group_by ss =
     (let hub = find_hub (ss_hub_id ss) d;
          server = (case ss_server_id ss of None \<Rightarrow> None | Some i \<Rightarrow> find (\<lambda>s. sv_id s = i) (db_servers d))
      in if group_by = ''hub'' then (case hub of None \<Rightarrow> ''unknown'' | Some h \<Rightarrow> hb_name h)
         else if group_by = ''network'' then (case hub of None \<Rightarrow> ''unknown'' | Some h \<Rightarrow> hb_network h)
         else if group_by = ''department'' then
           (case Option.bind server (\<lambda>s. managed_of_server s d) of None \<Rightarrow> ''unknown'' | Some u \<Rightarrow> mu_department u)
         else if group_by = ''project'' then
           (case server of None \<Rightarrow> ''unknown''
            | Some s \<Rightarrow> (case lookup (sv_raw s) ''project'' of JNull \<Rightarrow> ''unknown'' | JStr t \<Rightarrow> t | v \<Rightarrow> ue_render env v))
         else ss_username ss)"

definition overlapping :: "time \<Rightarrow> time \<Rightarrow> store_db \<Rightarrow> server_session_row list" where
  "overlapping from until d =
     filter (\<lambda>ss. find_hub (ss_hub_id ss) d \<noteq> None \<and> ss_started_at ss < until \<and> from < session_end until ss) (db_server_sessions d)"

definition touches :: "time \<Rightarrow> time \<Rightarrow> time \<times> time \<Rightarrow> server_session_row \<Rightarrow> bool" where
  "touches from until b ss =
     (max (ss_started_at ss) from < min (snd b) until \<and> max (fst b) from < min (session_end until ss) until)"

definition starts_in :: "time \<Rightarrow> time \<Rightarrow> time \<times> time \<Rightarrow> server_session_row \<Rightarrow> bool" where
  "starts_in from until b ss = (max (fst b) from \<le> ss_started_at ss \<and> ss_started_at ss < min (snd b) until)"

definition seconds_in :: "time \<Rightarrow> time \<Rightarrow> time \<times> time \<Rightarrow> server_session_row \<Rightarrow> rat" where
  "seconds_in from until b ss =
     seconds (max 0 (min (min (session_end until ss) until) (min (snd b) until) - max (max (ss_started_at ss) from) (max (fst b) from)))"

definition plain_row :: "time \<Rightarrow> string \<Rightarrow> string \<Rightarrow> rat \<Rightarrow> trend_row" where
  "plain_row b g metric x = \<lparr>tr_bucket = b, tr_group = g, tr_metric = metric, tr_average = x, tr_peak = x\<rparr>"

definition server_trend :: "usage_env \<Rightarrow> time \<Rightarrow> time \<Rightarrow> string \<Rightarrow> string \<Rightarrow> store_db \<Rightarrow> trend_row list" where
  "server_trend env from until unit group_by d =
     (let sessions = overlapping from until d; group = session_group env d group_by;
          pairs = concat (map (\<lambda>b. map (\<lambda>ss. (b, ss)) (filter (touches from until b) sessions)) (ue_buckets env unit from until));
          key = (\<lambda>(b, ss). (fst b, group ss))
      in concat (map (\<lambda>(at_time, g).
           let mine = filter (\<lambda>p. key p = (at_time, g)) pairs
           in [plain_row at_time g ''server_starts'' (of_nat (length (filter (\<lambda>(b, ss). starts_in from until b ss) mine))),
               plain_row at_time g ''runtime_seconds'' (sum_list (map (\<lambda>(b, ss). seconds_in from until b ss) mine))])
         (ue_text_ordered env (remdups (map key pairs)))))"

definition login_trend :: "usage_env \<Rightarrow> time \<Rightarrow> time \<Rightarrow> string \<Rightarrow> store_db \<Rightarrow> trend_row list" where
  "login_trend env from until unit d =
     (let rows = filter (\<lambda>(who, at_time). between from until at_time) (login_rows (ue_audit_at env) d);
          key = (\<lambda>(who, at_time). (ue_trunc env unit at_time, if who = [] then ''unknown'' else who))
      in map (\<lambda>k. plain_row (fst k) (snd k) ''login_count'' (of_nat (length (filter (\<lambda>r. key r = k) rows))))
           (ue_text_ordered env (remdups (map key rows))))"

section \<open>Active and top users\<close>

definition activity :: "(nat \<Rightarrow> time) \<Rightarrow> bool \<Rightarrow> metric_db \<Rightarrow> (string \<times> time) list" where
  "activity audit_at gpu t =
     List.map_filter (\<lambda>s. case map_of (sa_labels s) ''username'' of None \<Rightarrow> None
         | Some name \<Rightarrow> if name = [] \<or> \<not> visible_sample gpu s then None else Some (name, sa_at s)) (mt_samples t)
     @ filter (\<lambda>(who, _). who \<noteq> []) (login_rows audit_at (mt_store t))
     @ List.map_filter (\<lambda>u. map_option (Pair (mu_username u)) (mu_last_activity_at u)) (db_managed (mt_store t))
     @ map (\<lambda>s. (sv_username s, case sv_last_activity_at s of Some x \<Rightarrow> x | None \<Rightarrow>
         (case sv_started_at s of Some x \<Rightarrow> x | None \<Rightarrow> sv_synced_at s))) (db_servers (mt_store t))"

definition active_users :: "(nat \<Rightarrow> time) \<Rightarrow> bool \<Rightarrow> time \<Rightarrow> time \<Rightarrow> metric_db \<Rightarrow> nat" where
  "active_users audit_at gpu since until t =
     length (remdups (map fst (filter (\<lambda>(_, at_time). between since until at_time) (activity audit_at gpu t))))"

definition average_and_peak :: "string list \<Rightarrow> sample_row list \<Rightarrow> rat \<times> rat" where
  "average_and_peak names samples =
     (let xs = map sa_value (filter (\<lambda>s. sa_metric s \<in> set names) samples) in if xs = [] then (0, 0) else (mean xs, largest xs))"

definition user_samples :: "bool \<Rightarrow> time \<Rightarrow> time \<Rightarrow> metric_db \<Rightarrow> string \<Rightarrow> sample_row list" where
  "user_samples gpu from until t name =
     filter (\<lambda>s. between from until (sa_at s) \<and> map_of (sa_labels s) ''username'' = Some name \<and> name \<noteq> [] \<and> visible_sample gpu s)
       (mt_samples t)"

definition user_sessions :: "time \<Rightarrow> time \<Rightarrow> store_db \<Rightarrow> string \<Rightarrow> server_session_row list" where
  "user_sessions from until d name =
     filter (\<lambda>ss. ss_username ss = name \<and> ss_started_at ss \<le> until \<and> from \<le> session_end until ss) (db_server_sessions d)"

definition session_time :: "time \<Rightarrow> time \<Rightarrow> server_session_row list \<Rightarrow> rat" where
  "session_time from until sessions =
     sum_list (map (\<lambda>ss. seconds (max 0 (min (session_end until ss) until - max (ss_started_at ss) from))) sessions)"

definition runtime_of :: "sample_row list \<Rightarrow> rat \<Rightarrow> rat" where
  \<comment> \<open>what the samples measure, when there are any, otherwise the time of the sessions\<close>
  "runtime_of samples on_sessions =
     (let own = filter (\<lambda>s. sa_metric s \<in> set runtime_names) samples
      in if own = [] then on_sessions else sum_list (map sa_value own))"

definition top_user_of :: "usage_env \<Rightarrow> bool \<Rightarrow> time \<Rightarrow> time \<Rightarrow> metric_db \<Rightarrow> string \<Rightarrow> top_user_row" where
  "top_user_of env gpu from until t name =
     (let samples = user_samples gpu from until t name; sessions = user_sessions from until (mt_store t) name;
          logins = filter (\<lambda>(who, at_time). who = name \<and> who \<noteq> [] \<and> between from until at_time)
            (login_rows (ue_audit_at env) (mt_store t))
      in \<lparr>tu_username = name, tu_servers = length sessions, tu_logins = length logins,
           tu_runtime = runtime_of samples (session_time from until sessions),
           tu_cpu = average_and_peak [''cpu'', ''cpu_cores'', ''cpu_usage''] samples,
           tu_memory = average_and_peak [''memory'', ''memory_bytes'', ''memory_usage''] samples,
           tu_gpu = (if gpu then Some (average_and_peak [''gpu'', ''gpu_utilization''] samples) else None)\<rparr>)"

definition user_names :: "usage_env \<Rightarrow> bool \<Rightarrow> time \<Rightarrow> time \<Rightarrow> metric_db \<Rightarrow> string list" where
  "user_names env gpu from until t =
     remdups (List.map_filter (\<lambda>s. if between from until (sa_at s) \<and> visible_sample gpu s
         then Option.bind (map_of (sa_labels s) ''username'') (\<lambda>n. if n = [] then None else Some n) else None) (mt_samples t)
       @ map ss_username (filter (\<lambda>ss. ss_started_at ss \<le> until \<and> from \<le> session_end until ss) (db_server_sessions (mt_store t)))
       @ map fst (filter (\<lambda>(who, at_time). who \<noteq> [] \<and> between from until at_time) (login_rows (ue_audit_at env) (mt_store t))))"

definition top_users :: "usage_env \<Rightarrow> bool \<Rightarrow> time \<Rightarrow> time \<Rightarrow> metric_db \<Rightarrow> top_user_row list" where
  "top_users env gpu from until t =
     take 20 (ue_top_ordered env (map (top_user_of env gpu from until t) (user_names env gpu from until t)))"

definition newest_fact :: "usage_env \<Rightarrow> bool \<Rightarrow> metric_db \<Rightarrow> time option" where
  "newest_fact env gpu t =
     freshest (map sa_at (filter (visible_sample gpu) (mt_samples t)) @ map snd (login_rows (ue_audit_at env) (mt_store t))
       @ map sv_synced_at (db_servers (mt_store t)))"

section \<open>The report\<close>

record usage_report =
  uq_from :: time
  uq_to :: time
  uq_unit :: string
  uq_group_by :: string
  uq_trend :: "trend_row list"
  uq_top :: "top_user_row list"
  uq_dau :: nat
  uq_wau :: nat
  uq_mau :: nat
  uq_freshness :: "time option"
  uq_stale :: bool

definition usage_group :: "string \<Rightarrow> string" where
  "usage_group g = (if g \<in> set [''user'', ''hub'', ''network'', ''department'', ''project''] then g else ''user'')"

definition usage :: "usage_env \<Rightarrow> time \<Rightarrow> time \<Rightarrow> string \<Rightarrow> string \<Rightarrow> usage_report metric_tx" where
  "usage env from until granularity asked =
     (let unit = usage_unit granularity; group_by = usage_group asked; at_least = (\<lambda>days. until - days * day)
      in tx_bind gpu_monitoring_on (\<lambda>gpu.
         tx_bind (query db_failed (\<lambda>t. metric_trend env gpu from until unit group_by (mt_samples t))) (\<lambda>metrics.
         tx_bind (query db_failed (\<lambda>t. server_trend env from until unit group_by (mt_store t))) (\<lambda>servers.
         tx_bind (if group_by = ''user'' then query db_failed (\<lambda>t. login_trend env from until unit (mt_store t)) else tx_return [])
           (\<lambda>logins.
         tx_bind (query db_failed (active_users (ue_audit_at env) gpu (at_least 1) until)) (\<lambda>dau.
         tx_bind (query db_failed (active_users (ue_audit_at env) gpu (at_least 7) until)) (\<lambda>wau.
         tx_bind (query db_failed (active_users (ue_audit_at env) gpu (at_least 30) until)) (\<lambda>mau.
         tx_bind (query db_failed (top_users env gpu from until)) (\<lambda>top.
         tx_bind (query db_failed (newest_fact env gpu)) (\<lambda>freshness.
         tx_return \<lparr>uq_from = from, uq_to = until, uq_unit = unit, uq_group_by = group_by, uq_trend = metrics @ servers @ logins,
           uq_top = top, uq_dau = dau, uq_wau = wau, uq_mau = mau, uq_freshness = freshness,
           uq_stale = (case freshness of None \<Rightarrow> True | Some t \<Rightarrow> 5 * minute < ue_now env - t)\<rparr>))))))))))"

section \<open>Handlers\<close>

definition usage_handler ::
  "usage_env \<Rightarrow> (usage_totals list \<Rightarrow> usage_totals list) \<Rightarrow> (string \<Rightarrow> time option) \<Rightarrow> request
    \<Rightarrow> (usage_report \<times> (usage_totals list \<times> string) option) metric_handler" where
  \<comment> \<open>the consumption is left out when it cannot be read\<close>
  "usage_handler env ordered parse_time r =
     (let now = ue_now env; group_by = rq_query r ''group_by''
      in tx_bind (tx_lift (bounded_time_range parse_time r (now - 30 * day) now (366 * day))) (\<lambda>(from, until).
         tx_bind (metric_call (usage env from until (rq_query r ''granularity'') group_by)) (\<lambda>report.
         tx_bind (tx_try (resource_consumption ordered from until group_by 100)) (\<lambda>consumption.
         tx_return (report, case consumption of Inl _ \<Rightarrow> None | Inr items \<Rightarrow> Some (items, consumption_group_by group_by))))))"

definition metric_query_int :: "request \<Rightarrow> string \<Rightarrow> int \<Rightarrow> int metric_handler" where
  "metric_query_int r name fallback =
     (case query_int r name fallback of None \<Rightarrow> tx_throw (400, ''invalid_query'') | Some n \<Rightarrow> tx_return n)"

definition usage_consumption_handler ::
  "usage_env \<Rightarrow> (usage_totals list \<Rightarrow> usage_totals list) \<Rightarrow> (string \<Rightarrow> time option) \<Rightarrow> request
    \<Rightarrow> (time \<times> time \<times> usage_totals list \<times> time option) metric_handler" where
  "usage_consumption_handler env ordered parse_time r =
     (let now = ue_now env
      in tx_bind (tx_lift (bounded_time_range parse_time r (now - 30 * day) now (366 * day))) (\<lambda>(from, until).
         tx_bind (metric_query_int r ''limit'' 100) (\<lambda>limit.
         tx_bind (metric_call (resource_consumption ordered from until (rq_query r ''group_by'') limit)) (\<lambda>items.
         tx_bind (tx_try rolled_up_through) (\<lambda>through.
         tx_return (from, until, items, case through of Inl _ \<Rightarrow> None | Inr t \<Rightarrow> Some t))))))"

definition metrics_handler ::
  "usage_env \<Rightarrow> (sample_row list \<Rightarrow> sample_row list) \<Rightarrow> (string \<Rightarrow> time option) \<Rightarrow> request \<Rightarrow> sample_row list option metric_handler" where
  \<comment> \<open>\<open>None\<close> is the answer that the feature is off\<close>
  "metrics_handler env ordered parse_time r =
     (let now = ue_now env
      in tx_bind (tx_lift (bounded_time_range parse_time r (now - hour) now (31 * day))) (\<lambda>(from, until).
         tx_bind (metric_query_int r ''limit'' 1000) (\<lambda>limit.
         tx_bind (metric_call (metrics ordered from until (rq_query r ''metric'') limit)) (\<lambda>(items, blocked).
         tx_return (if blocked then None else Some items)))))"

definition gpu_feature_read :: "(store_error, json) res \<Rightarrow> bool" where
  \<comment> \<open>a document with a member that is no boolean does not decode\<close>
  "gpu_feature_read r =
     (case r of
        Inr (JObj m) \<Rightarrow> list_all (\<lambda>(_, v). v = JNull \<or> as_bool v \<noteq> None) m \<and> true_bool (lookup m ''gpu_monitoring'')
      | _ \<Rightarrow> False)"

definition gpus_handler ::
  "((server_row \<times> hub_row) list \<Rightarrow> (server_row \<times> hub_row) list) \<Rightarrow> (string \<Rightarrow> time option) \<Rightarrow> time \<Rightarrow> request
    \<Rightarrow> gpu_view list option handler" where
  "gpus_handler ordered parse_time now r =
     tx_bind (tx_try (get_setting ''features'')) (\<lambda>features.
     if \<not> gpu_feature_read features then tx_return None
     else tx_bind (store_call (gpu_usage ordered parse_time now)) (\<lambda>items. tx_return (Some items)))"

section \<open>Active users\<close>

lemma active_users_mono: "since' \<le> since \<Longrightarrow> active_users audit_at gpu since until t \<le> active_users audit_at gpu since' until t"
  unfolding active_users_def length_remdups_card_conv
  by (rule card_mono) (auto simp: between_def)

text \<open>A longer window never counts fewer users: of one report, the users active in a day are at most those of the week, and
  those at most the users of the month.\<close>

theorem active_users_nested:
  assumes "usage env from until granularity asked fs t = (Inr report, fs', t')"
  shows "uq_dau report \<le> uq_wau report \<and> uq_wau report \<le> uq_mau report"
  using assms unfolding usage_def Let_def
proof (elim tx_bindE, goal_cases)
  case (1 gpu fs1 t1 ms fs2 t2 ss fs3 t3 ls fs4 t4 dau fs5 t5 wau fs6 t6 mau fs7 t7 top fs8 t8 newest fs9 t9)
  from 1(4) have "t4 = t3" by (auto simp: query_Inr split: if_splits)
  with 1(2,3,5-7) have "dau = active_users (ue_audit_at env) gpu (until - 1 * day) until t1"
    and "wau = active_users (ue_audit_at env) gpu (until - 7 * day) until t1"
    and "mau = active_users (ue_audit_at env) gpu (until - 30 * day) until t1"
    by (simp_all add: query_Inr)
  moreover have "until - 7 * day \<le> until - 1 * day" and "until - 30 * day \<le> until - 7 * day"
    by (simp_all add: day_def hour_def minute_def second_def)
  ultimately show ?case using 1(10) active_users_mono by auto
qed

lemma keeps_usage: "keeps I (usage env from until granularity asked)"
  unfolding usage_def gpu_monitoring_on_def Let_def by (intro inv_intros)

definition plain_usage :: usage_env where
  "plain_usage = \<lparr>ue_trunc = (\<lambda>_ t. t), ue_buckets = (\<lambda>_ _ _. []), ue_trend_ordered = (\<lambda>rows. rows), ue_text_ordered = (\<lambda>rows. rows),
     ue_top_ordered = (\<lambda>rows. rows), ue_audit_at = (\<lambda>_. 0), ue_render = (\<lambda>_. []), ue_now = 10 * day\<rparr>"

definition two_weeks :: metric_db where
  \<comment> \<open>ana was active today, bo three days ago\<close>
  "two_weeks = lab_tables\<lparr>mt_store := (mt_store lab_tables)\<lparr>db_servers :=
     [(lab_server 1 ''ana'' ''running'' [])\<lparr>sv_last_activity_at := Some (10 * day)\<rparr>,
      (lab_server 2 ''bo'' ''stopped'' [])\<lparr>sv_last_activity_at := Some (7 * day)\<rparr>]\<rparr>\<rparr>"

theorem active_users_nested_witness:
  "\<exists>report. usage plain_usage (9 * day) (10 * day) ''day'' ''hub'' [] two_weeks = (Inr report, [], two_weeks)
     \<and> uq_dau report = 1 \<and> uq_dau report \<le> uq_wau report \<and> uq_wau report = 2 \<and> uq_wau report \<le> uq_mau report"
proof -
  have "case usage plain_usage (9 * day) (10 * day) ''day'' ''hub'' [] two_weeks of
      (Inr report, fs, t) \<Rightarrow> fs = [] \<and> t = two_weeks \<and> uq_dau report = 1 \<and> uq_wau report = 2 | _ \<Rightarrow> False" by code_simp
  then obtain report where run: "usage plain_usage (9 * day) (10 * day) ''day'' ''hub'' [] two_weeks = (Inr report, [], two_weeks)"
    and "uq_dau report = 1" and "uq_wau report = 2"
    by (auto split: prod.splits sum.splits)
  with active_users_nested [OF run] show ?thesis by auto
qed

end
