(* ===== verification/Integration_Test.thy ===== *)
theory Integration_Test
  imports Jupyter_Client Settings_Api Mail
begin

text \<open>
  Testing a connection (\<^verbatim>\<open>internal/integration/tester.go\<close>): the checks of each kind of integration, in the order the
  code makes them, and the requests they send. What the remote answers to one call after the other is
  \<open>te_calls\<close>; durations, and the fields of the result that repeat others, are left out. A step of a test tells whether
  the test goes on.
\<close>

section \<open>Requests and results\<close>

record test_request =
  tq_type :: string
  tq_config :: json_object
  tq_secret :: string

record check =
  ck_name :: string
  ck_success :: bool
  ck_detail :: string

record test_result =
  tr_type :: string
  tr_success :: bool
  tr_tls :: bool
  tr_version :: string
  tr_checks :: "check list"
  tr_error :: string
  tr_remediation :: string

text \<open>One call: the outcome of \<^verbatim>\<open>doJSON\<close>, the status it returns besides, the text of the error, whether it is a TLS record
  error, and the decoded answer.\<close>

record test_call =
  tc_result :: "(call_error, nat) res"
  tc_status :: nat
  tc_error :: string
  tc_record_error :: bool
  tc_payload :: json

record tester_env =
  te_parse_url :: "string \<Rightarrow> url option"
  te_parse_ip :: "string \<Rightarrow> ip option"
  te_escaped_path :: "url \<Rightarrow> string"
  te_client_error :: "client_error \<Rightarrow> string"
  te_capture_names :: "string \<Rightarrow> string list option"
  te_llm_error :: "llm_error \<Rightarrow> string"
  te_username_from_pod :: "string \<Rightarrow> string \<Rightarrow> string option"
  te_calls :: "nat \<Rightarrow> test_call"

text \<open>A request that was sent: the verb, the address, the query, the authorization scheme, the secret, and whether the
  client verifies certificates.\<close>

record sent_request =
  sq_verb :: string
  sq_endpoint :: endpoint
  sq_query :: string
  sq_scheme :: string
  sq_secret :: string
  sq_verify :: bool

record tester =
  tt_result :: test_result
  tt_call :: nat
  tt_first :: bool
  tt_sent :: "sent_request list"
  tt_payload :: json

section \<open>Texts\<close>

function replace_all :: "string \<Rightarrow> string \<Rightarrow> string \<Rightarrow> string" where
  "replace_all old new s =
     (if s = [] then []
      else if old \<noteq> [] \<and> has_prefix s old then new @ replace_all old new (drop (length old) s)
      else hd s # replace_all old new (tl s))"
  by pat_completeness auto
termination
  by (relation "measure (\<lambda>(old, new, s). length s)") (auto simp: has_prefix_def)

declare replace_all.simps [simp del]

definition safe_connection_error :: "string \<Rightarrow> string" where
  "safe_connection_error message = truncate_text (replace_all ''Bearer'' [CHR 0xEC, CHR 0x9D, CHR 0xB8, CHR 0xEC, CHR 0xA6, CHR 0x9D] message) 500"

definition remediation :: "nat \<Rightarrow> bool \<Rightarrow> string" where
  "remediation status record_error =
     (if status = 401 \<or> status = 403 then [CHR 0xED, CHR 0x86, CHR 0xA0, CHR 0xED, CHR 0x81, CHR 0xB0, CHR 0xEA, CHR 0xB3, CHR 0xBC,
       CHR 0x20, CHR 0xEC, CHR 0x9B, CHR 0x90, CHR 0xEA, CHR 0xB2, CHR 0xA9, CHR 0x20, CHR 0xEC,
       CHR 0x84, CHR 0x9C, CHR 0xEB, CHR 0xB9, CHR 0x84, CHR 0xEC, CHR 0x8A, CHR 0xA4, CHR 0xEC,
       CHR 0x9D, CHR 0x98, CHR 0x20, CHR 0xEA, CHR 0xB4, CHR 0x80, CHR 0xEB, CHR 0xA6, CHR 0xAC,
       CHR 0xEC, CHR 0x9E, CHR 0x90, CHR 0x2F, CHR 0xEC, CHR 0xA1, CHR 0xB0, CHR 0xED, CHR 0x9A,
       CHR 0x8C, CHR 0x20, CHR 0xEA, CHR 0xB6, CHR 0x8C, CHR 0xED, CHR 0x95, CHR 0x9C, CHR 0xEC,
       CHR 0x9D, CHR 0x84, CHR 0x20, CHR 0xED, CHR 0x99, CHR 0x95, CHR 0xEC, CHR 0x9D, CHR 0xB8,
       CHR 0xED, CHR 0x95, CHR 0x98, CHR 0xEC, CHR 0x84, CHR 0xB8, CHR 0xEC, CHR 0x9A, CHR 0x94,
       CHR 0x2E]
      else if status = 404 then [CHR 0xEA, CHR 0xB8, CHR 0xB0, CHR 0xEB, CHR 0xB3, CHR 0xB8, CHR 0x20, CHR 0x55, CHR 0x52,
       CHR 0x4C, CHR 0xEA, CHR 0xB3, CHR 0xBC, CHR 0x20, CHR 0xED, CHR 0x95, CHR 0x84, CHR 0xEC,
       CHR 0x88, CHR 0x98, CHR 0x20, CHR 0x41, CHR 0x50, CHR 0x49, CHR 0x20, CHR 0xEA, CHR 0xB2,
       CHR 0xBD, CHR 0xEB, CHR 0xA1, CHR 0x9C, CHR 0xEA, CHR 0xB0, CHR 0x80, CHR 0x20, CHR 0xEB,
       CHR 0xA7, CHR 0x9E, CHR 0xEB, CHR 0x8A, CHR 0x94, CHR 0xEC, CHR 0xA7, CHR 0x80, CHR 0x20,
       CHR 0xED, CHR 0x99, CHR 0x95, CHR 0xEC, CHR 0x9D, CHR 0xB8, CHR 0xED, CHR 0x95, CHR 0x98,
       CHR 0xEC, CHR 0x84, CHR 0xB8, CHR 0xEC, CHR 0x9A, CHR 0x94, CHR 0x2E]
      else if record_error then [CHR 0x48, CHR 0x54, CHR 0x54, CHR 0x50, CHR 0x53, CHR 0x20, CHR 0xEC, CHR 0x84, CHR 0xA4,
       CHR 0xEC, CHR 0xA0, CHR 0x95, CHR 0xEA, CHR 0xB3, CHR 0xBC, CHR 0x20, CHR 0xEC, CHR 0x9D,
       CHR 0xB8, CHR 0xEC, CHR 0xA6, CHR 0x9D, CHR 0xEC, CHR 0x84, CHR 0x9C, CHR 0x20, CHR 0xEC,
       CHR 0xB2, CHR 0xB4, CHR 0xEC, CHR 0x9D, CHR 0xB8, CHR 0xEC, CHR 0x9D, CHR 0x84, CHR 0x20,
       CHR 0xED, CHR 0x99, CHR 0x95, CHR 0xEC, CHR 0x9D, CHR 0xB8, CHR 0xED, CHR 0x95, CHR 0x98,
       CHR 0xEC, CHR 0x84, CHR 0xB8, CHR 0xEC, CHR 0x9A, CHR 0x94, CHR 0x2E]
      else [CHR 0xEB, CHR 0xA7, CHR 0x9D, CHR 0x20, CHR 0xEA, CHR 0xB2, CHR 0xBD, CHR 0xEB, CHR 0xA1,
       CHR 0x9C, CHR 0x2C, CHR 0x20, CHR 0x44, CHR 0x4E, CHR 0x53, CHR 0x2C, CHR 0x20, CHR 0xEB,
       CHR 0xB0, CHR 0xA9, CHR 0xED, CHR 0x99, CHR 0x94, CHR 0xEB, CHR 0xB2, CHR 0xBD, CHR 0x2C,
       CHR 0x20, CHR 0x54, CHR 0x4C, CHR 0x53, CHR 0x20, CHR 0xEC, CHR 0x9D, CHR 0xB8, CHR 0xEC,
       CHR 0xA6, CHR 0x9D, CHR 0xEC, CHR 0x84, CHR 0x9C, CHR 0xEC, CHR 0x99, CHR 0x80, CHR 0x20,
       CHR 0xEC, CHR 0x9B, CHR 0x90, CHR 0xEA, CHR 0xB2, CHR 0xA9, CHR 0x20, CHR 0xEC, CHR 0x84,
       CHR 0x9C, CHR 0xEB, CHR 0xB9, CHR 0x84, CHR 0xEC, CHR 0x8A, CHR 0xA4, CHR 0x20, CHR 0xEC,
       CHR 0x83, CHR 0x81, CHR 0xED, CHR 0x83, CHR 0x9C, CHR 0xEB, CHR 0xA5, CHR 0xBC, CHR 0x20,
       CHR 0xED, CHR 0x99, CHR 0x95, CHR 0xEC, CHR 0x9D, CHR 0xB8, CHR 0xED, CHR 0x95, CHR 0x98,
       CHR 0xEC, CHR 0x84, CHR 0xB8, CHR 0xEC, CHR 0x9A, CHR 0x94, CHR 0x2E])"

definition tls_detail :: "bool \<Rightarrow> string" where
  "tls_detail verify =
     (if verify then [CHR 0x54, CHR 0x4C, CHR 0x53, CHR 0x20, CHR 0xEC, CHR 0x9D, CHR 0xB8, CHR 0xEC, CHR 0xA6,
       CHR 0x9D, CHR 0xEC, CHR 0x84, CHR 0x9C, CHR 0x20, CHR 0xEA, CHR 0xB2, CHR 0x80, CHR 0xEC,
       CHR 0xA6, CHR 0x9D, CHR 0x20, CHR 0xEC, CHR 0x82, CHR 0xAC, CHR 0xEC, CHR 0x9A, CHR 0xA9] else [CHR 0x54, CHR 0x4C, CHR 0x53, CHR 0x20, CHR 0xEC, CHR 0x9D, CHR 0xB8, CHR 0xEC, CHR 0xA6,
       CHR 0x9D, CHR 0xEC, CHR 0x84, CHR 0x9C, CHR 0x20, CHR 0xEA, CHR 0xB2, CHR 0x80, CHR 0xEC,
       CHR 0xA6, CHR 0x9D, CHR 0x20, CHR 0xEB, CHR 0xB9, CHR 0x84, CHR 0xED, CHR 0x99, CHR 0x9C,
       CHR 0xEC, CHR 0x84, CHR 0xB1, CHR 0xED, CHR 0x99, CHR 0x94, CHR 0x28, CHR 0xEC, CHR 0x9A,
       CHR 0xB4, CHR 0xEC, CHR 0x98, CHR 0x81, CHR 0x20, CHR 0xED, CHR 0x99, CHR 0x98, CHR 0xEA,
       CHR 0xB2, CHR 0xBD, CHR 0xEC, CHR 0x97, CHR 0x90, CHR 0xEC, CHR 0x84, CHR 0x9C, CHR 0xEB,
       CHR 0x8A, CHR 0x94, CHR 0x20, CHR 0xEA, CHR 0xB6, CHR 0x8C, CHR 0xEC, CHR 0x9E, CHR 0xA5,
       CHR 0xED, CHR 0x95, CHR 0x98, CHR 0xEC, CHR 0xA7, CHR 0x80, CHR 0x20, CHR 0xEC, CHR 0x95,
       CHR 0x8A, CHR 0xEC, CHR 0x9D, CHR 0x8C, CHR 0x29])"

definition integration_test_auth_secret :: "string \<Rightarrow> string \<Rightarrow> string" where
  "integration_test_auth_secret kind secret = (if kind = ''oidc'' then [] else secret)"

definition extract_version :: "json_object \<Rightarrow> string" where
  "extract_version payload =
     (case as_string (lookup payload ''version'') of
        Some v \<Rightarrow> v
      | None \<Rightarrow>
          (case as_string (lookup payload ''gitVersion'') of
             Some v \<Rightarrow> v
           | None \<Rightarrow>
               (case as_object (lookup payload ''data'') of
                  None \<Rightarrow> []
                | Some m \<Rightarrow> string_or_empty (lookup m ''version''))))"

section \<open>Steps\<close>

type_synonym step = "tester \<Rightarrow> bool \<times> tester"

definition step_then :: "step \<Rightarrow> (tester \<Rightarrow> bool \<times> tester) \<Rightarrow> step" where
  "step_then m k s = (case m s of (goes_on, s') \<Rightarrow> if goes_on then k s' else (False, s'))"

definition add_check :: "string \<Rightarrow> bool \<Rightarrow> string \<Rightarrow> tester \<Rightarrow> tester" where
  "add_check name ok detail s =
     s\<lparr>tt_result := (tt_result s)\<lparr>tr_checks := tr_checks (tt_result s)
         @ [\<lparr>ck_name = name, ck_success = ok, ck_detail = detail\<rparr>]\<rparr>\<rparr>"

definition set_error :: "string \<Rightarrow> string \<Rightarrow> tester \<Rightarrow> tester" where
  "set_error message advice s =
     s\<lparr>tt_result := (tt_result s)\<lparr>tr_error := message, tr_remediation := advice\<rparr>\<rparr>"

definition passed :: "string \<Rightarrow> string \<Rightarrow> step" where
  "passed name detail s = (True, add_check name True detail s)"

definition refused :: "string \<Rightarrow> string \<Rightarrow> string \<Rightarrow> step" where
  "refused name message advice s = (False, add_check name False message (set_error message advice s))"

definition verify_tls_of :: "json_object \<Rightarrow> bool" where
  "verify_tls_of config = (case as_bool (lookup config ''verify_tls'') of Some v \<Rightarrow> v | None \<Rightarrow> True)"

definition base_url_of :: "test_request \<Rightarrow> string" where
  "base_url_of req =
     string_or_empty (lookup (tq_config req) (if tq_type req = ''oidc'' then ''issuer_url'' else ''base_url''))"

definition auth_scheme :: "string \<Rightarrow> string" where
  "auth_scheme kind = (if kind = ''jupyterhub'' then ''token'' else ''Bearer'')"

definition run_call :: "tester_env \<Rightarrow> test_request \<Rightarrow> string \<Rightarrow> string \<Rightarrow> string \<Rightarrow> endpoint \<Rightarrow> step" where
  "run_call env req name verb query_text ep s =
     (let c = te_calls env (tt_call s);
          s1 = s\<lparr>tt_call := Suc (tt_call s), tt_payload := tc_payload c,
                 tt_sent := tt_sent s @ [\<lparr>sq_verb = verb, sq_endpoint = ep, sq_query = query_text,
                   sq_scheme = auth_scheme (tq_type req),
                   sq_secret = integration_test_auth_secret (tq_type req) (tq_secret req),
                   sq_verify = verify_tls_of (tq_config req)\<rparr>]\<rparr>
      in case tc_result c of
           Inl e \<Rightarrow>
             let message = safe_connection_error (tc_error c)
             in (False, add_check name False message
                  (set_error message (remediation (tc_status c) (tc_record_error c)) s1))
         | Inr status \<Rightarrow>
             let s2 = add_check name True (''HTTP '' @ format_int (int status)) s1;
                 s4 = (if tt_first s \<and> tr_tls (tt_result s)
                       then add_check ''tls'' True (tls_detail (verify_tls_of (tq_config req))) s2 else s2)
             in (True, s4\<lparr>tt_first := False\<rparr>))"

definition with_endpoint :: "tester_env \<Rightarrow> test_request \<Rightarrow> string \<Rightarrow> (endpoint \<Rightarrow> step) \<Rightarrow> step" where
  "with_endpoint env req path k s =
     (case join_url (te_parse_url env) (te_parse_ip env) (te_escaped_path env) (base_url_of req) path of
        Inl e \<Rightarrow> (False, set_error (te_client_error env e) [CHR 0xEC, CHR 0x97, CHR 0xB0, CHR 0xEB, CHR 0x8F, CHR 0x99, CHR 0x20, CHR 0xEC, CHR 0x9C,
       CHR 0xA0, CHR 0xED, CHR 0x98, CHR 0x95, CHR 0xEA, CHR 0xB3, CHR 0xBC, CHR 0x20, CHR 0xEA,
       CHR 0xB8, CHR 0xB0, CHR 0xEB, CHR 0xB3, CHR 0xB8, CHR 0x20, CHR 0xEC, CHR 0xA3, CHR 0xBC,
       CHR 0xEC, CHR 0x86, CHR 0x8C, CHR 0xEB, CHR 0xA5, CHR 0xBC, CHR 0x20, CHR 0xEB, CHR 0x8B,
       CHR 0xA4, CHR 0xEC, CHR 0x8B, CHR 0x9C, CHR 0x20, CHR 0xED, CHR 0x99, CHR 0x95, CHR 0xEC,
       CHR 0x9D, CHR 0xB8, CHR 0xED, CHR 0x95, CHR 0x98, CHR 0xEC, CHR 0x84, CHR 0xB8, CHR 0xEC,
       CHR 0x9A, CHR 0x94, CHR 0x2E] s)
      | Inr ep \<Rightarrow> k ep s)"

definition call_path :: "tester_env \<Rightarrow> test_request \<Rightarrow> string \<Rightarrow> string \<Rightarrow> string \<Rightarrow> string \<Rightarrow> step" where
  "call_path env req name verb path query_text =
     with_endpoint env req path (run_call env req name verb query_text)"

definition payload_object :: "tester \<Rightarrow> json_object" where
  "payload_object s = (case as_object (tt_payload s) of None \<Rightarrow> [] | Some m \<Rightarrow> m)"

definition read_version :: step where
  "read_version s =
     (True, s\<lparr>tt_result := (tt_result s)\<lparr>tr_version := extract_version (payload_object s)\<rparr>\<rparr>)"

section \<open>Kinds\<close>

definition test_jupyterhub :: "tester_env \<Rightarrow> test_request \<Rightarrow> step" where
  "test_jupyterhub env req =
     step_then (call_path env req [CHR 0xEC, CHR 0x97, CHR 0xB0, CHR 0xEA, CHR 0xB2, CHR 0xB0, CHR 0xC2, CHR 0xB7, CHR 0xEB,
       CHR 0xB2, CHR 0x84, CHR 0xEC, CHR 0xA0, CHR 0x84] ''GET'' ''hub/api/info'' [])
    (step_then read_version
    (call_path env req [CHR 0xEA, CHR 0xB4, CHR 0x80, CHR 0xEB, CHR 0xA6, CHR 0xAC, CHR 0xEC, CHR 0x9E, CHR 0x90,
       CHR 0x20, CHR 0xEC, CHR 0x82, CHR 0xAC, CHR 0xEC, CHR 0x9A, CHR 0xA9, CHR 0xEC, CHR 0x9E,
       CHR 0x90, CHR 0x20, CHR 0xEC, CHR 0xA1, CHR 0xB0, CHR 0xED, CHR 0x9A, CHR 0x8C, CHR 0x20,
       CHR 0xEA, CHR 0xB6, CHR 0x8C, CHR 0xED, CHR 0x95, CHR 0x9C] ''GET'' ''hub/api/users'' ''limit=1''))"

definition test_kubernetes :: "tester_env \<Rightarrow> test_request \<Rightarrow> step" where
  "test_kubernetes env req =
     (let namespace = string_or_empty (lookup (tq_config req) ''namespace'');
          pods = (if namespace = [] then ''api/v1/pods'' else ''api/v1/namespaces/'' @ path_escape namespace @ ''/pods'')
      in step_then (call_path env req [CHR 0xEC, CHR 0x97, CHR 0xB0, CHR 0xEA, CHR 0xB2, CHR 0xB0, CHR 0xC2, CHR 0xB7, CHR 0xEB,
       CHR 0xB2, CHR 0x84, CHR 0xEC, CHR 0xA0, CHR 0x84] ''GET'' ''version'' [])
        (step_then read_version
        (call_path env req [CHR 0x50, CHR 0x6F, CHR 0x64, CHR 0x20, CHR 0xEC, CHR 0xA1, CHR 0xB0, CHR 0xED, CHR 0x9A,
       CHR 0x8C, CHR 0x20, CHR 0xEA, CHR 0xB6, CHR 0x8C, CHR 0xED, CHR 0x95, CHR 0x9C] ''GET'' pods ''limit=1'')))"

fun require_fields :: "string list \<Rightarrow> step" where
  "require_fields [] s = (True, s)"
| "require_fields (f # fs) s =
     (if string_or_empty (lookup (payload_object s) f) = []
      then refused [CHR 0x44, CHR 0x69, CHR 0x73, CHR 0x63, CHR 0x6F, CHR 0x76, CHR 0x65, CHR 0x72, CHR 0x79,
       CHR 0x20, CHR 0xED, CHR 0x95, CHR 0x84, CHR 0xEC, CHR 0x88, CHR 0x98, CHR 0x20, CHR 0xED,
       CHR 0x95, CHR 0xAD, CHR 0xEB, CHR 0xAA, CHR 0xA9] ([CHR 0x44, CHR 0x69, CHR 0x73, CHR 0x63, CHR 0x6F, CHR 0x76, CHR 0x65, CHR 0x72, CHR 0x79,
       CHR 0x20, CHR 0xEC, CHR 0x9D, CHR 0x91, CHR 0xEB, CHR 0x8B, CHR 0xB5, CHR 0xEC, CHR 0x97,
       CHR 0x90, CHR 0x20] @ f @ [CHR 0xEA, CHR 0xB0, CHR 0x80, CHR 0x20, CHR 0xEC, CHR 0x97, CHR 0x86, CHR 0xEC, CHR 0x8A,
       CHR 0xB5, CHR 0xEB, CHR 0x8B, CHR 0x88, CHR 0xEB, CHR 0x8B, CHR 0xA4]) [CHR 0x4B, CHR 0x65, CHR 0x79, CHR 0x63, CHR 0x6C, CHR 0x6F, CHR 0x61, CHR 0x6B, CHR 0x20,
       CHR 0x72, CHR 0x65, CHR 0x61, CHR 0x6C, CHR 0x6D, CHR 0x20, CHR 0x69, CHR 0x73, CHR 0x73,
       CHR 0x75, CHR 0x65, CHR 0x72, CHR 0x20, CHR 0x55, CHR 0x52, CHR 0x4C, CHR 0xEC, CHR 0x9D,
       CHR 0x84, CHR 0x20, CHR 0xED, CHR 0x99, CHR 0x95, CHR 0xEC, CHR 0x9D, CHR 0xB8, CHR 0xED,
       CHR 0x95, CHR 0x98, CHR 0xEC, CHR 0x84, CHR 0xB8, CHR 0xEC, CHR 0x9A, CHR 0x94, CHR 0x2E] s
      else require_fields fs s)"

definition check_client_id :: "test_request \<Rightarrow> step" where
  "check_client_id req s =
     (if trim_space (string_or_empty (lookup (tq_config req) ''client_id'')) = []
      then refused [CHR 0x43, CHR 0x6C, CHR 0x69, CHR 0x65, CHR 0x6E, CHR 0x74, CHR 0x20, CHR 0xEC, CHR 0x84,
       CHR 0xA4, CHR 0xEC, CHR 0xA0, CHR 0x95] [CHR 0x43, CHR 0x6C, CHR 0x69, CHR 0x65, CHR 0x6E, CHR 0x74, CHR 0x20, CHR 0x49, CHR 0x44,
       CHR 0xEA, CHR 0xB0, CHR 0x80, CHR 0x20, CHR 0xED, CHR 0x95, CHR 0x84, CHR 0xEC, CHR 0x9A,
       CHR 0x94, CHR 0xED, CHR 0x95, CHR 0xA9, CHR 0xEB, CHR 0x8B, CHR 0x88, CHR 0xEB, CHR 0x8B,
       CHR 0xA4] [CHR 0x4B, CHR 0x65, CHR 0x79, CHR 0x63, CHR 0x6C, CHR 0x6F, CHR 0x61, CHR 0x6B, CHR 0xEC,
       CHR 0x97, CHR 0x90, CHR 0x20, CHR 0xEB, CHR 0x93, CHR 0xB1, CHR 0xEB, CHR 0xA1, CHR 0x9D,
       CHR 0xED, CHR 0x95, CHR 0x9C, CHR 0x20, CHR 0x4F, CHR 0x49, CHR 0x44, CHR 0x43, CHR 0x20,
       CHR 0x43, CHR 0x6C, CHR 0x69, CHR 0x65, CHR 0x6E, CHR 0x74, CHR 0x20, CHR 0x49, CHR 0x44,
       CHR 0xEB, CHR 0xA5, CHR 0xBC, CHR 0x20, CHR 0xEC, CHR 0x9E, CHR 0x85, CHR 0xEB, CHR 0xA0,
       CHR 0xA5, CHR 0xED, CHR 0x95, CHR 0x98, CHR 0xEC, CHR 0x84, CHR 0xB8, CHR 0xEC, CHR 0x9A,
       CHR 0x94, CHR 0x2E] s
      else passed [CHR 0x43, CHR 0x6C, CHR 0x69, CHR 0x65, CHR 0x6E, CHR 0x74, CHR 0x20, CHR 0xEC, CHR 0x84,
       CHR 0xA4, CHR 0xEC, CHR 0xA0, CHR 0x95] [CHR 0x44, CHR 0x69, CHR 0x73, CHR 0x63, CHR 0x6F, CHR 0x76, CHR 0x65, CHR 0x72, CHR 0x79,
       CHR 0x20, CHR 0xED, CHR 0x98, CHR 0x95, CHR 0xEC, CHR 0x8B, CHR 0x9D, CHR 0x20, CHR 0xED,
       CHR 0x99, CHR 0x95, CHR 0xEC, CHR 0x9D, CHR 0xB8, CHR 0x20, CHR 0xEC, CHR 0x99, CHR 0x84,
       CHR 0xEB, CHR 0xA3, CHR 0x8C, CHR 0x28, CHR 0xEC, CHR 0x8B, CHR 0xA4, CHR 0xEC, CHR 0xA0,
       CHR 0x9C, CHR 0x20, CHR 0xEB, CHR 0xA1, CHR 0x9C, CHR 0xEA, CHR 0xB7, CHR 0xB8, CHR 0xEC,
       CHR 0x9D, CHR 0xB8, CHR 0x20, CHR 0xEC, CHR 0x8B, CHR 0x9C, CHR 0x20, CHR 0x63, CHR 0x6F,
       CHR 0x64, CHR 0x65, CHR 0xC2, CHR 0xB7, CHR 0x74, CHR 0x6F, CHR 0x6B, CHR 0x65, CHR 0x6E,
       CHR 0x20, CHR 0xEA, CHR 0xB2, CHR 0x80, CHR 0xEC, CHR 0xA6, CHR 0x9D, CHR 0x20, CHR 0xEC,
       CHR 0x88, CHR 0x98, CHR 0xED, CHR 0x96, CHR 0x89, CHR 0x29] s)"

definition test_oidc :: "tester_env \<Rightarrow> test_request \<Rightarrow> step" where
  "test_oidc env req =
     step_then (call_path env req ''OIDC Discovery'' ''GET'' ''.well-known/openid-configuration'' [])
    (step_then (require_fields [''authorization_endpoint'', ''token_endpoint'', ''jwks_uri''])
    (check_client_id req))"

subsection \<open>Prometheus\<close>

definition promql_of :: "json_object \<Rightarrow> string" where
  "promql_of config =
     (let given = string_or_empty (lookup config ''calls_query'');
          calls = (case as_object (lookup config ''promql'') of None \<Rightarrow> [] | Some m \<Rightarrow> string_or_empty (lookup m ''calls''))
      in if trim_space given \<noteq> [] then given else if trim_space calls \<noteq> [] then calls else ''vector(1)'')"

definition label_text :: "json_object \<Rightarrow> string \<Rightarrow> string option" where
  "label_text metric label =
     (case as_string (lookup metric label) of
        None \<Rightarrow> None
      | Some v \<Rightarrow> if trim_space v = [] then None else Some v)"

definition canonical_label :: "(string \<times> string) list \<Rightarrow> json_object \<Rightarrow> string \<Rightarrow> string option" where
  \<comment> \<open>a mapped label overrides the label of that name\<close>
  "canonical_label mappings metric label =
     (case (case map_of mappings label of None \<Rightarrow> None | Some remote \<Rightarrow> label_text metric remote) of
        Some v \<Rightarrow> Some v
      | None \<Rightarrow> label_text metric label)"

fun metric_of :: "json \<Rightarrow> nat \<Rightarrow> (string, json_object) res" where
  "metric_of sample index =
     (case as_object sample of
        None \<Rightarrow> Inl ([CHR 0x50, CHR 0x72, CHR 0x6F, CHR 0x6D, CHR 0x65, CHR 0x74, CHR 0x68, CHR 0x65, CHR 0x75,
       CHR 0x73, CHR 0x20, CHR 0xEC, CHR 0x83, CHR 0x98, CHR 0xED, CHR 0x94, CHR 0x8C, CHR 0x20] @ format_int (int index + 1) @ [CHR 0x20, CHR 0xED, CHR 0x98, CHR 0x95, CHR 0xEC, CHR 0x8B, CHR 0x9D, CHR 0xEC, CHR 0x9D,
       CHR 0xB4, CHR 0x20, CHR 0xEC, CHR 0x98, CHR 0xAC, CHR 0xEB, CHR 0xB0, CHR 0x94, CHR 0xEB,
       CHR 0xA5, CHR 0xB4, CHR 0xEC, CHR 0xA7, CHR 0x80, CHR 0x20, CHR 0xEC, CHR 0x95, CHR 0x8A,
       CHR 0xEC, CHR 0x8A, CHR 0xB5, CHR 0xEB, CHR 0x8B, CHR 0x88, CHR 0xEB, CHR 0x8B, CHR 0xA4])
      | Some m \<Rightarrow>
          (case as_object (lookup m ''metric'') of
             None \<Rightarrow> Inl ([CHR 0x50, CHR 0x72, CHR 0x6F, CHR 0x6D, CHR 0x65, CHR 0x74, CHR 0x68, CHR 0x65, CHR 0x75,
       CHR 0x73, CHR 0x20, CHR 0xEC, CHR 0x83, CHR 0x98, CHR 0xED, CHR 0x94, CHR 0x8C, CHR 0x20] @ format_int (int index + 1) @ [CHR 0xEC, CHR 0x97, CHR 0x90, CHR 0x20, CHR 0x6D, CHR 0x65, CHR 0x74, CHR 0x72, CHR 0x69,
       CHR 0x63, CHR 0x20, CHR 0x6C, CHR 0x61, CHR 0x62, CHR 0x65, CHR 0x6C, CHR 0xEC, CHR 0x9D,
       CHR 0xB4, CHR 0x20, CHR 0xEC, CHR 0x97, CHR 0x86, CHR 0xEC, CHR 0x8A, CHR 0xB5, CHR 0xEB,
       CHR 0x8B, CHR 0x88, CHR 0xEB, CHR 0x8B, CHR 0xA4])
           | Some metric \<Rightarrow> Inr metric))"

fun require_labels :: "(string \<times> string) list \<Rightarrow> json_object \<Rightarrow> nat \<Rightarrow> string list \<Rightarrow> (string, unit) res" where
  "require_labels mappings metric index [] = Inr ()"
| "require_labels mappings metric index (l # ls) =
     (if canonical_label mappings metric l = None
      then Inl ([CHR 0x50, CHR 0x72, CHR 0x6F, CHR 0x6D, CHR 0x65, CHR 0x74, CHR 0x68, CHR 0x65, CHR 0x75,
       CHR 0x73, CHR 0x20, CHR 0xEC, CHR 0x83, CHR 0x98, CHR 0xED, CHR 0x94, CHR 0x8C, CHR 0x20] @ format_int (int index + 1) @ [CHR 0xEC, CHR 0x97, CHR 0x90, CHR 0x20, CHR 0x63, CHR 0x61, CHR 0x6E, CHR 0x6F, CHR 0x6E,
       CHR 0x69, CHR 0x63, CHR 0x61, CHR 0x6C, CHR 0x20] @ l @ [CHR 0x20, CHR 0x6C, CHR 0x61, CHR 0x62, CHR 0x65, CHR 0x6C, CHR 0xEC, CHR 0x9D, CHR 0xB4,
       CHR 0x20, CHR 0xEC, CHR 0x97, CHR 0x86, CHR 0xEC, CHR 0x8A, CHR 0xB5, CHR 0xEB, CHR 0x8B,
       CHR 0x88, CHR 0xEB, CHR 0x8B, CHR 0xA4])
      else require_labels mappings metric index ls)"

fun inspect_samples :: "(string \<times> string) list \<Rightarrow> json list \<Rightarrow> nat \<Rightarrow> (string, json_object list) res" where
  "inspect_samples mappings [] index = Inr []"
| "inspect_samples mappings (x # xs) index =
     res_bind (metric_of x index) (\<lambda>metric.
     res_bind (require_labels mappings metric index [''pod'', ''path'']) (\<lambda>_.
     res_bind (inspect_samples mappings xs (Suc index)) (\<lambda>metrics.
     Inr (metric # metrics))))"

definition inspect_llm_result :: "json_object \<Rightarrow> (string \<times> string) list \<Rightarrow> (string, nat \<times> string list) res" where
  "inspect_llm_result response mappings =
     (case as_object (lookup response ''data'') of
        None \<Rightarrow> Inl [CHR 0x50, CHR 0x72, CHR 0x6F, CHR 0x6D, CHR 0x65, CHR 0x74, CHR 0x68, CHR 0x65, CHR 0x75,
       CHR 0x73, CHR 0x20, CHR 0xEC, CHR 0x9D, CHR 0x91, CHR 0xEB, CHR 0x8B, CHR 0xB5, CHR 0xEC,
       CHR 0x97, CHR 0x90, CHR 0x20, CHR 0x64, CHR 0x61, CHR 0x74, CHR 0x61, CHR 0x20, CHR 0xEA,
       CHR 0xB0, CHR 0x9D, CHR 0xEC, CHR 0xB2, CHR 0xB4, CHR 0xEA, CHR 0xB0, CHR 0x80, CHR 0x20,
       CHR 0xEC, CHR 0x97, CHR 0x86, CHR 0xEC, CHR 0x8A, CHR 0xB5, CHR 0xEB, CHR 0x8B, CHR 0x88,
       CHR 0xEB, CHR 0x8B, CHR 0xA4]
      | Some payload \<Rightarrow>
          (case as_array (lookup payload ''result'') of
             None \<Rightarrow> Inl [CHR 0x50, CHR 0x72, CHR 0x6F, CHR 0x6D, CHR 0x65, CHR 0x74, CHR 0x68, CHR 0x65, CHR 0x75,
       CHR 0x73, CHR 0x20, CHR 0xEC, CHR 0x9D, CHR 0x91, CHR 0xEB, CHR 0x8B, CHR 0xB5, CHR 0xEC,
       CHR 0x9D, CHR 0x98, CHR 0x20, CHR 0x76, CHR 0x65, CHR 0x63, CHR 0x74, CHR 0x6F, CHR 0x72,
       CHR 0x20, CHR 0x72, CHR 0x65, CHR 0x73, CHR 0x75, CHR 0x6C, CHR 0x74, CHR 0x20, CHR 0xED,
       CHR 0x98, CHR 0x95, CHR 0xEC, CHR 0x8B, CHR 0x9D, CHR 0xEC, CHR 0x9D, CHR 0xB4, CHR 0x20,
       CHR 0xEC, CHR 0x98, CHR 0xAC, CHR 0xEB, CHR 0xB0, CHR 0x94, CHR 0xEB, CHR 0xA5, CHR 0xB4,
       CHR 0xEC, CHR 0xA7, CHR 0x80, CHR 0x20, CHR 0xEC, CHR 0x95, CHR 0x8A, CHR 0xEC, CHR 0x8A,
       CHR 0xB5, CHR 0xEB, CHR 0x8B, CHR 0x88, CHR 0xEB, CHR 0x8B, CHR 0xA4]
           | Some results \<Rightarrow>
               res_bind (inspect_samples mappings results 0) (\<lambda>metrics.
               Inr (length results,
                 filter (\<lambda>f. list_ex (\<lambda>m. canonical_label mappings m f \<noteq> None) metrics) llm_canonical_labels))))"

definition check_llm_config :: "tester_env \<Rightarrow> test_request \<Rightarrow> tester \<Rightarrow> (bool \<times> tester) \<times> (string \<times> string) list" where
  \<comment> \<open>the step, and the label mappings\<close>
  "check_llm_config env req s =
     (let config = tq_config req;
          source = string_or_empty (lookup config ''source'');
          pattern = string_or_empty (lookup config ''pod_username_regex'');
          sample = string_or_empty (lookup config ''sample_pod'')
      in if source \<noteq> [] \<and> source \<noteq> ''prometheus'' then
           (refused [CHR 0xEC, CHR 0x88, CHR 0x98, CHR 0xEC, CHR 0xA7, CHR 0x91, CHR 0x20, CHR 0xEC, CHR 0x86,
       CHR 0x8C, CHR 0xEC, CHR 0x8A, CHR 0xA4] [CHR 0xED, CHR 0x98, CHR 0x84, CHR 0xEC, CHR 0x9E, CHR 0xAC, CHR 0x20, CHR 0x4C, CHR 0x4C,
       CHR 0x4D, CHR 0x20, CHR 0xEC, CHR 0x82, CHR 0xAC, CHR 0xEC, CHR 0x9A, CHR 0xA9, CHR 0xEB,
       CHR 0x9F, CHR 0x89, CHR 0x20, CHR 0xEC, CHR 0x97, CHR 0xB0, CHR 0xEA, CHR 0xB2, CHR 0xB0,
       CHR 0x20, CHR 0xEA, CHR 0xB2, CHR 0x80, CHR 0xEC, CHR 0xA6, CHR 0x9D, CHR 0xEC, CHR 0x9D,
       CHR 0x80, CHR 0x20, CHR 0x50, CHR 0x72, CHR 0x6F, CHR 0x6D, CHR 0x65, CHR 0x74, CHR 0x68,
       CHR 0x65, CHR 0x75, CHR 0x73, CHR 0x20, CHR 0xEC, CHR 0x86, CHR 0x8C, CHR 0xEC, CHR 0x8A,
       CHR 0xA4, CHR 0xEB, CHR 0xA7, CHR 0x8C, CHR 0x20, CHR 0xEC, CHR 0xA7, CHR 0x80, CHR 0xEC,
       CHR 0x9B, CHR 0x90, CHR 0xED, CHR 0x95, CHR 0xA9, CHR 0xEB, CHR 0x8B, CHR 0x88, CHR 0xEB,
       CHR 0x8B, CHR 0xA4]
              [CHR 0x50, CHR 0x72, CHR 0x6F, CHR 0x6D, CHR 0x65, CHR 0x74, CHR 0x68, CHR 0x65, CHR 0x75,
       CHR 0x73, CHR 0xEB, CHR 0xA5, CHR 0xBC, CHR 0x20, CHR 0xEC, CHR 0x84, CHR 0xA0, CHR 0xED,
       CHR 0x83, CHR 0x9D, CHR 0xED, CHR 0x95, CHR 0x98, CHR 0xEA, CHR 0xB1, CHR 0xB0, CHR 0xEB,
       CHR 0x82, CHR 0x98, CHR 0x20, CHR 0x47, CHR 0x61, CHR 0x74, CHR 0x65, CHR 0x77, CHR 0x61,
       CHR 0x79, CHR 0x20, CHR 0xEB, CHR 0xA9, CHR 0x94, CHR 0xED, CHR 0x8A, CHR 0xB8, CHR 0xEB,
       CHR 0xA6, CHR 0xAD, CHR 0xEC, CHR 0x9D, CHR 0x84, CHR 0x20, CHR 0x50, CHR 0x72, CHR 0x6F,
       CHR 0x6D, CHR 0x65, CHR 0x74, CHR 0x68, CHR 0x65, CHR 0x75, CHR 0x73, CHR 0xEC, CHR 0x97,
       CHR 0x90, CHR 0x20, CHR 0xEB, CHR 0x85, CHR 0xB8, CHR 0xEC, CHR 0xB6, CHR 0x9C, CHR 0xED,
       CHR 0x95, CHR 0x98, CHR 0xEC, CHR 0x84, CHR 0xB8, CHR 0xEC, CHR 0x9A, CHR 0x94, CHR 0x2E] s, [])
         else case compile_pod_pattern (te_capture_names env) pattern of
           Inl e \<Rightarrow> (refused [CHR 0x50, CHR 0x6F, CHR 0x64, CHR 0x20, CHR 0xEC, CHR 0x82, CHR 0xAC, CHR 0xEC, CHR 0x9A,
       CHR 0xA9, CHR 0xEC, CHR 0x9E, CHR 0x90, CHR 0x20, CHR 0xEB, CHR 0xA7, CHR 0xA4, CHR 0xED,
       CHR 0x95, CHR 0x91] (te_llm_error env e) [CHR 0x75, CHR 0x73, CHR 0x65, CHR 0x72, CHR 0x6E, CHR 0x61, CHR 0x6D, CHR 0x65, CHR 0x20,
       CHR 0x6E, CHR 0x61, CHR 0x6D, CHR 0x65, CHR 0x64, CHR 0x20, CHR 0x63, CHR 0x61, CHR 0x70,
       CHR 0x74, CHR 0x75, CHR 0x72, CHR 0x65, CHR 0xEA, CHR 0xB0, CHR 0x80, CHR 0x20, CHR 0xEC,
       CHR 0x9E, CHR 0x88, CHR 0xEB, CHR 0x8A, CHR 0x94, CHR 0x20, CHR 0xEC, CHR 0x95, CHR 0x88,
       CHR 0xEC, CHR 0xA0, CHR 0x84, CHR 0xED, CHR 0x95, CHR 0x9C, CHR 0x20, CHR 0x52, CHR 0x45,
       CHR 0x32, CHR 0x20, CHR 0xEC, CHR 0xA0, CHR 0x95, CHR 0xEA, CHR 0xB7, CHR 0x9C, CHR 0xEC,
       CHR 0x8B, CHR 0x9D, CHR 0xEC, CHR 0x9D, CHR 0x84, CHR 0x20, CHR 0xEC, CHR 0x9E, CHR 0x85,
       CHR 0xEB, CHR 0xA0, CHR 0xA5, CHR 0xED, CHR 0x95, CHR 0x98, CHR 0xEC, CHR 0x84, CHR 0xB8,
       CHR 0xEC, CHR 0x9A, CHR 0x94, CHR 0x2E] s, [])
         | Inr _ \<Rightarrow>
             (case decode_llm_labels (lookup config ''label_mappings'') of
                Inl e \<Rightarrow> (refused [CHR 0xEB, CHR 0xA9, CHR 0x94, CHR 0xED, CHR 0x83, CHR 0x80, CHR 0xEB, CHR 0x8D, CHR 0xB0,
       CHR 0xEC, CHR 0x9D, CHR 0xB4, CHR 0xED, CHR 0x84, CHR 0xB0, CHR 0x20, CHR 0x6C, CHR 0x61,
       CHR 0x62, CHR 0x65, CHR 0x6C, CHR 0x20, CHR 0xEB, CHR 0xA7, CHR 0xA4, CHR 0xED, CHR 0x95,
       CHR 0x91] (te_llm_error env e)
                    [CHR 0xEC, CHR 0xA7, CHR 0x80, CHR 0xEC, CHR 0x9B, CHR 0x90, CHR 0x20, CHR 0x6C, CHR 0x61,
       CHR 0x62, CHR 0x65, CHR 0x6C, CHR 0xEC, CHR 0x9D, CHR 0x84, CHR 0x20, CHR 0xEC, CHR 0x82,
       CHR 0xAC, CHR 0xEC, CHR 0x9A, CHR 0xA9, CHR 0xED, CHR 0x95, CHR 0x98, CHR 0xEA, CHR 0xB1,
       CHR 0xB0, CHR 0xEB, CHR 0x82, CHR 0x98, CHR 0x20, CHR 0x50, CHR 0x72, CHR 0x6F, CHR 0x6D,
       CHR 0x51, CHR 0x4C, CHR 0xEC, CHR 0x97, CHR 0x90, CHR 0xEC, CHR 0x84, CHR 0x9C, CHR 0x20,
       CHR 0x70, CHR 0x6F, CHR 0x64, CHR 0x2F, CHR 0x70, CHR 0x61, CHR 0x74, CHR 0x68, CHR 0x2F,
       CHR 0x73, CHR 0x74, CHR 0x61, CHR 0x74, CHR 0x75, CHR 0x73, CHR 0x2F, CHR 0x6D, CHR 0x6F,
       CHR 0x64, CHR 0x65, CHR 0x6C, CHR 0x2F, CHR 0x68, CHR 0x75, CHR 0x62, CHR 0x2F, CHR 0x6E,
       CHR 0x65, CHR 0x74, CHR 0x77, CHR 0x6F, CHR 0x72, CHR 0x6B, CHR 0xEB, CHR 0xA1, CHR 0x9C,
       CHR 0x20, CHR 0xEB, CHR 0xB3, CHR 0x84, CHR 0xEC, CHR 0xB9, CHR 0xAD, CHR 0xEC, CHR 0x9D,
       CHR 0x84, CHR 0x20, CHR 0xEB, CHR 0xA7, CHR 0x8C, CHR 0xEB, CHR 0x93, CHR 0x9C, CHR 0xEC,
       CHR 0x84, CHR 0xB8, CHR 0xEC, CHR 0x9A, CHR 0x94, CHR 0x2E] s, [])
              | Inr mappings \<Rightarrow>
                  if sample = [] then ((True, s), mappings)
                  else case te_username_from_pod env pattern sample of
                    None \<Rightarrow> (refused [CHR 0x50, CHR 0x6F, CHR 0x64, CHR 0x20, CHR 0xEC, CHR 0x82, CHR 0xAC, CHR 0xEC, CHR 0x9A,
       CHR 0xA9, CHR 0xEC, CHR 0x9E, CHR 0x90, CHR 0x20, CHR 0xEB, CHR 0xA7, CHR 0xA4, CHR 0xED,
       CHR 0x95, CHR 0x91] [CHR 0xEC, CHR 0x83, CHR 0x98, CHR 0xED, CHR 0x94, CHR 0x8C, CHR 0x20, CHR 0x50, CHR 0x6F,
       CHR 0x64, CHR 0xEC, CHR 0x97, CHR 0x90, CHR 0xEC, CHR 0x84, CHR 0x9C, CHR 0x20, CHR 0xEC,
       CHR 0x82, CHR 0xAC, CHR 0xEC, CHR 0x9A, CHR 0xA9, CHR 0xEC, CHR 0x9E, CHR 0x90, CHR 0xEB,
       CHR 0xA5, CHR 0xBC, CHR 0x20, CHR 0xEC, CHR 0xB6, CHR 0x94, CHR 0xEC, CHR 0xB6, CHR 0x9C,
       CHR 0xED, CHR 0x95, CHR 0xA0, CHR 0x20, CHR 0xEC, CHR 0x88, CHR 0x98, CHR 0x20, CHR 0xEC,
       CHR 0x97, CHR 0x86, CHR 0xEC, CHR 0x8A, CHR 0xB5, CHR 0xEB, CHR 0x8B, CHR 0x88, CHR 0xEB,
       CHR 0x8B, CHR 0xA4] [CHR 0xEC, CHR 0xA0, CHR 0x95, CHR 0xEA, CHR 0xB7, CHR 0x9C, CHR 0xEC, CHR 0x8B, CHR 0x9D,
       CHR 0xEA, CHR 0xB3, CHR 0xBC, CHR 0x20, CHR 0xEC, CHR 0x83, CHR 0x98, CHR 0xED, CHR 0x94,
       CHR 0x8C, CHR 0x20, CHR 0x50, CHR 0x6F, CHR 0x64, CHR 0x20, CHR 0xEC, CHR 0x9D, CHR 0xB4,
       CHR 0xEB, CHR 0xA6, CHR 0x84, CHR 0xEC, CHR 0x9D, CHR 0x84, CHR 0x20, CHR 0xED, CHR 0x99,
       CHR 0x95, CHR 0xEC, CHR 0x9D, CHR 0xB8, CHR 0xED, CHR 0x95, CHR 0x98, CHR 0xEC, CHR 0x84,
       CHR 0xB8, CHR 0xEC, CHR 0x9A, CHR 0x94, CHR 0x2E] s, mappings)
                  | Some username \<Rightarrow> (passed [CHR 0x50, CHR 0x6F, CHR 0x64, CHR 0x20, CHR 0xEC, CHR 0x82, CHR 0xAC, CHR 0xEC, CHR 0x9A,
       CHR 0xA9, CHR 0xEC, CHR 0x9E, CHR 0x90, CHR 0x20, CHR 0xEB, CHR 0xA7, CHR 0xA4, CHR 0xED,
       CHR 0x95, CHR 0x91] ([CHR 0xEC, CHR 0x83, CHR 0x98, CHR 0xED, CHR 0x94, CHR 0x8C, CHR 0x20, CHR 0x50, CHR 0x6F,
       CHR 0x64, CHR 0xEC, CHR 0x97, CHR 0x90, CHR 0xEC, CHR 0x84, CHR 0x9C, CHR 0x20, CHR 0xEC,
       CHR 0x82, CHR 0xAC, CHR 0xEC, CHR 0x9A, CHR 0xA9, CHR 0xEC, CHR 0x9E, CHR 0x90, CHR 0x20] @ username @ [CHR 0x20, CHR 0xEC, CHR 0xB6, CHR 0x94, CHR 0xEC, CHR 0xB6, CHR 0x9C]) s, mappings)))"

definition check_query_status :: step where
  "check_query_status s =
     (if string_or_empty (lookup (payload_object s) ''status'') \<noteq> ''success''
      then refused [CHR 0x50, CHR 0x72, CHR 0x6F, CHR 0x6D, CHR 0x51, CHR 0x4C, CHR 0x20, CHR 0xEA, CHR 0xB2,
       CHR 0xB0, CHR 0xEA, CHR 0xB3, CHR 0xBC] [CHR 0x50, CHR 0x72, CHR 0x6F, CHR 0x6D, CHR 0x65, CHR 0x74, CHR 0x68, CHR 0x65, CHR 0x75,
       CHR 0x73, CHR 0xEA, CHR 0xB0, CHR 0x80, CHR 0x20, CHR 0xEC, CHR 0x84, CHR 0xB1, CHR 0xEA,
       CHR 0xB3, CHR 0xB5, CHR 0x20, CHR 0xEC, CHR 0x83, CHR 0x81, CHR 0xED, CHR 0x83, CHR 0x9C,
       CHR 0xEB, CHR 0xA5, CHR 0xBC, CHR 0x20, CHR 0xEB, CHR 0xB0, CHR 0x98, CHR 0xED, CHR 0x99,
       CHR 0x98, CHR 0xED, CHR 0x95, CHR 0x98, CHR 0xEC, CHR 0xA7, CHR 0x80, CHR 0x20, CHR 0xEC,
       CHR 0x95, CHR 0x8A, CHR 0xEC, CHR 0x95, CHR 0x98, CHR 0xEC, CHR 0x8A, CHR 0xB5, CHR 0xEB,
       CHR 0x8B, CHR 0x88, CHR 0xEB, CHR 0x8B, CHR 0xA4] [CHR 0x50, CHR 0x72, CHR 0x6F, CHR 0x6D, CHR 0x51, CHR 0x4C, CHR 0xEA, CHR 0xB3, CHR 0xBC,
       CHR 0x20, CHR 0xEC, CHR 0x9B, CHR 0x90, CHR 0xEA, CHR 0xB2, CHR 0xA9, CHR 0x20, CHR 0xEC,
       CHR 0xA1, CHR 0xB0, CHR 0xED, CHR 0x9A, CHR 0x8C, CHR 0x20, CHR 0xEA, CHR 0xB6, CHR 0x8C,
       CHR 0xED, CHR 0x95, CHR 0x9C, CHR 0xEC, CHR 0x9D, CHR 0x84, CHR 0x20, CHR 0xED, CHR 0x99,
       CHR 0x95, CHR 0xEC, CHR 0x9D, CHR 0xB8, CHR 0xED, CHR 0x95, CHR 0x98, CHR 0xEC, CHR 0x84,
       CHR 0xB8, CHR 0xEC, CHR 0x9A, CHR 0x94, CHR 0x2E] s
      else (True, s))"

definition check_llm_samples :: "(string \<times> string) list \<Rightarrow> step" where
  "check_llm_samples mappings s =
     (case inspect_llm_result (payload_object s) mappings of
        Inl message \<Rightarrow> refused [CHR 0x4C, CHR 0x4C, CHR 0x4D, CHR 0x20, CHR 0xEB, CHR 0xA9, CHR 0x94, CHR 0xED, CHR 0x83,
       CHR 0x80, CHR 0xEB, CHR 0x8D, CHR 0xB0, CHR 0xEC, CHR 0x9D, CHR 0xB4, CHR 0xED, CHR 0x84,
       CHR 0xB0, CHR 0x20, CHR 0xEC, CHR 0x83, CHR 0x98, CHR 0xED, CHR 0x94, CHR 0x8C] message
            [CHR 0x63, CHR 0x61, CHR 0x6C, CHR 0x6C, CHR 0x73, CHR 0x20, CHR 0x50, CHR 0x72, CHR 0x6F,
       CHR 0x6D, CHR 0x51, CHR 0x4C, CHR 0xEC, CHR 0x9D, CHR 0xB4, CHR 0x20, CHR 0x70, CHR 0x6F,
       CHR 0x64, CHR 0xEC, CHR 0x99, CHR 0x80, CHR 0x20, CHR 0x70, CHR 0x61, CHR 0x74, CHR 0x68,
       CHR 0x20, CHR 0x6C, CHR 0x61, CHR 0x62, CHR 0x65, CHR 0x6C, CHR 0xEC, CHR 0x9D, CHR 0x84,
       CHR 0x20, CHR 0xEC, CHR 0x9C, CHR 0xA0, CHR 0xEC, CHR 0xA7, CHR 0x80, CHR 0xED, CHR 0x95,
       CHR 0x98, CHR 0xEB, CHR 0x8A, CHR 0x94, CHR 0xEC, CHR 0xA7, CHR 0x80, CHR 0x2C, CHR 0x20,
       CHR 0x6C, CHR 0x61, CHR 0x62, CHR 0x65, CHR 0x6C, CHR 0x5F, CHR 0x6D, CHR 0x61, CHR 0x70,
       CHR 0x70, CHR 0x69, CHR 0x6E, CHR 0x67, CHR 0x73, CHR 0xEA, CHR 0xB0, CHR 0x80, CHR 0x20,
       CHR 0xEC, CHR 0x8B, CHR 0xA4, CHR 0xEC, CHR 0xA0, CHR 0x9C, CHR 0x20, CHR 0xEC, CHR 0x9B,
       CHR 0x90, CHR 0xEA, CHR 0xB2, CHR 0xA9, CHR 0x20, CHR 0x6C, CHR 0x61, CHR 0x62, CHR 0x65,
       CHR 0x6C, CHR 0xEA, CHR 0xB3, CHR 0xBC, CHR 0x20, CHR 0xEC, CHR 0x9D, CHR 0xBC, CHR 0xEC,
       CHR 0xB9, CHR 0x98, CHR 0xED, CHR 0x95, CHR 0x98, CHR 0xEB, CHR 0x8A, CHR 0x94, CHR 0xEC,
       CHR 0xA7, CHR 0x80, CHR 0x20, CHR 0xED, CHR 0x99, CHR 0x95, CHR 0xEC, CHR 0x9D, CHR 0xB8,
       CHR 0xED, CHR 0x95, CHR 0x98, CHR 0xEC, CHR 0x84, CHR 0xB8, CHR 0xEC, CHR 0x9A, CHR 0x94,
       CHR 0x2E] s
      | Inr (count, labels) \<Rightarrow>
          if count = 0 then passed [CHR 0x4C, CHR 0x4C, CHR 0x4D, CHR 0x20, CHR 0xEB, CHR 0xA9, CHR 0x94, CHR 0xED, CHR 0x83,
       CHR 0x80, CHR 0xEB, CHR 0x8D, CHR 0xB0, CHR 0xEC, CHR 0x9D, CHR 0xB4, CHR 0xED, CHR 0x84,
       CHR 0xB0, CHR 0x20, CHR 0xEC, CHR 0x83, CHR 0x98, CHR 0xED, CHR 0x94, CHR 0x8C] [CHR 0x50, CHR 0x72, CHR 0x6F, CHR 0x6D, CHR 0x51, CHR 0x4C, CHR 0x20, CHR 0xEC, CHR 0xBF,
       CHR 0xBC, CHR 0xEB, CHR 0xA6, CHR 0xAC, CHR 0x20, CHR 0xEC, CHR 0x84, CHR 0xB1, CHR 0xEA,
       CHR 0xB3, CHR 0xB5, CHR 0x20, CHR 0x2F, CHR 0x20, CHR 0xED, CHR 0x98, CHR 0x84, CHR 0xEC,
       CHR 0x9E, CHR 0xAC, CHR 0x20, CHR 0xEC, CHR 0x83, CHR 0x98, CHR 0xED, CHR 0x94, CHR 0x8C,
       CHR 0x20, CHR 0xEC, CHR 0x97, CHR 0x86, CHR 0xEC, CHR 0x9D, CHR 0x8C, CHR 0x28, CHR 0xEC,
       CHR 0x8B, CHR 0xA4, CHR 0xEC, CHR 0xA0, CHR 0x9C, CHR 0x20, CHR 0x50, CHR 0x6F, CHR 0x64,
       CHR 0xC2, CHR 0xB7, CHR 0x70, CHR 0x61, CHR 0x74, CHR 0x68, CHR 0x20, CHR 0xEA, CHR 0xB7,
       CHR 0x80, CHR 0xEC, CHR 0x86, CHR 0x8D, CHR 0xEC, CHR 0x9D, CHR 0x80, CHR 0x20, CHR 0xEB,
       CHR 0xAF, CHR 0xB8, CHR 0xEA, CHR 0xB2, CHR 0x80, CHR 0xEC, CHR 0xA6, CHR 0x9D, CHR 0x29] s
          else passed [CHR 0x4C, CHR 0x4C, CHR 0x4D, CHR 0x20, CHR 0xEB, CHR 0xA9, CHR 0x94, CHR 0xED, CHR 0x83,
       CHR 0x80, CHR 0xEB, CHR 0x8D, CHR 0xB0, CHR 0xEC, CHR 0x9D, CHR 0xB4, CHR 0xED, CHR 0x84,
       CHR 0xB0, CHR 0x20, CHR 0xEC, CHR 0x83, CHR 0x98, CHR 0xED, CHR 0x94, CHR 0x8C] (format_int (int count) @ [CHR 0xEA, CHR 0xB0, CHR 0x9C, CHR 0x20, CHR 0xEC, CHR 0x83, CHR 0x98, CHR 0xED, CHR 0x94,
       CHR 0x8C, CHR 0xEC, CHR 0x97, CHR 0x90, CHR 0xEC, CHR 0x84, CHR 0x9C, CHR 0x20, CHR 0x63,
       CHR 0x61, CHR 0x6E, CHR 0x6F, CHR 0x6E, CHR 0x69, CHR 0x63, CHR 0x61, CHR 0x6C, CHR 0x20,
       CHR 0x6C, CHR 0x61, CHR 0x62, CHR 0x65, CHR 0x6C, CHR 0x20, CHR 0xED, CHR 0x99, CHR 0x95,
       CHR 0xEC, CHR 0x9D, CHR 0xB8, CHR 0x3A, CHR 0x20] @ join_with '', '' labels) s)"

definition query_prometheus :: "tester_env \<Rightarrow> test_request \<Rightarrow> step" where
  "query_prometheus env req =
     step_then (call_path env req [CHR 0xEB, CHR 0xA9, CHR 0x94, CHR 0xED, CHR 0x8A, CHR 0xB8, CHR 0xEB, CHR 0xA6, CHR 0xAD,
       CHR 0x20, CHR 0xEC, CHR 0xBF, CHR 0xBC, CHR 0xEB, CHR 0xA6, CHR 0xAC, CHR 0x20, CHR 0xEA,
       CHR 0xB6, CHR 0x8C, CHR 0xED, CHR 0x95, CHR 0x9C] ''GET'' ''api/v1/query'' (''query='' @ promql_of (tq_config req)))
       check_query_status"

definition test_llm_usage :: "tester_env \<Rightarrow> test_request \<Rightarrow> step" where
  "test_llm_usage env req s =
     (let (out, mappings) = check_llm_config env req s
      in step_then (\<lambda>_. out) (step_then (query_prometheus env req) (check_llm_samples mappings)) s)"

definition test_kind :: "tester_env \<Rightarrow> test_request \<Rightarrow> step" where
  "test_kind env req =
     (let kind = tq_type req
      in if kind = ''jupyterhub'' then test_jupyterhub env req
         else if kind = ''prometheus'' then query_prometheus env req
         else if kind = ''llm_usage'' then test_llm_usage env req
         else if kind = ''kubernetes'' then test_kubernetes env req
         else if kind = ''ai'' then call_path env req [CHR 0xEB, CHR 0xAA, CHR 0xA8, CHR 0xEB, CHR 0x8D, CHR 0xB8, CHR 0x20, CHR 0xEC, CHR 0xA1,
       CHR 0xB0, CHR 0xED, CHR 0x9A, CHR 0x8C, CHR 0x20, CHR 0xEA, CHR 0xB6, CHR 0x8C, CHR 0xED,
       CHR 0x95, CHR 0x9C] ''GET'' ''models'' []
         else if kind = ''oidc'' then test_oidc env req
         else if kind = ''webhook'' then call_path env req [CHR 0x57, CHR 0x65, CHR 0x62, CHR 0x68, CHR 0x6F, CHR 0x6F, CHR 0x6B, CHR 0x20, CHR 0xEC,
       CHR 0x8B, CHR 0x9C, CHR 0xED, CHR 0x97, CHR 0x98, CHR 0x20, CHR 0xEC, CHR 0xA0, CHR 0x84,
       CHR 0xEB, CHR 0x8B, CHR 0xAC] ''POST'' [] []
         else (\<lambda>s. (False, set_error ([CHR 0xEC, CHR 0xA7, CHR 0x80, CHR 0xEC, CHR 0x9B, CHR 0x90, CHR 0xED, CHR 0x95, CHR 0x98,
       CHR 0xEC, CHR 0xA7, CHR 0x80, CHR 0x20, CHR 0xEC, CHR 0x95, CHR 0x8A, CHR 0xEB, CHR 0x8A,
       CHR 0x94, CHR 0x20, CHR 0xEC, CHR 0x97, CHR 0xB0, CHR 0xEB, CHR 0x8F, CHR 0x99, CHR 0x20,
       CHR 0xEC, CHR 0x9C, CHR 0xA0, CHR 0xED, CHR 0x98, CHR 0x95, CHR 0xEC, CHR 0x9E, CHR 0x85,
       CHR 0xEB, CHR 0x8B, CHR 0x88, CHR 0xEB, CHR 0x8B, CHR 0xA4, CHR 0x3A, CHR 0x20] @ kind) [CHR 0xEC, CHR 0x97, CHR 0xB0, CHR 0xEB, CHR 0x8F, CHR 0x99, CHR 0x20, CHR 0xEC, CHR 0x9C,
       CHR 0xA0, CHR 0xED, CHR 0x98, CHR 0x95, CHR 0xEC, CHR 0x9D, CHR 0x84, CHR 0x20, CHR 0xEB,
       CHR 0x8B, CHR 0xA4, CHR 0xEC, CHR 0x8B, CHR 0x9C, CHR 0x20, CHR 0xED, CHR 0x99, CHR 0x95,
       CHR 0xEC, CHR 0x9D, CHR 0xB8, CHR 0xED, CHR 0x95, CHR 0x98, CHR 0xEC, CHR 0x84, CHR 0xB8,
       CHR 0xEC, CHR 0x9A, CHR 0x94, CHR 0x2E] s)))"

section \<open>The test\<close>

definition new_result :: "string \<Rightarrow> test_result" where
  "new_result kind =
     \<lparr>tr_type = kind, tr_success = False, tr_tls = False, tr_version = [], tr_checks = [], tr_error = [],
      tr_remediation = []\<rparr>"

definition new_tester :: "string \<Rightarrow> bool \<Rightarrow> tester" where
  "new_tester kind tls =
     \<lparr>tt_result = (new_result kind)\<lparr>tr_tls := tls\<rparr>, tt_call = 0, tt_first = True, tt_sent = [], tt_payload = JNull\<rparr>"

definition test_connection :: "tester_env \<Rightarrow> test_request \<Rightarrow> test_result \<times> sent_request list" where
  "test_connection env req =
     (case validate_endpoint (te_parse_url env) (te_parse_ip env) (base_url_of req) of
        Inl e \<Rightarrow>
          let (_, s) = refused ''url'' (te_client_error env (BadBase e))
             [CHR 0x68, CHR 0x74, CHR 0x74, CHR 0x70, CHR 0x28, CHR 0x73, CHR 0x29, CHR 0x20, CHR 0xEA,
       CHR 0xB8, CHR 0xB0, CHR 0xEB, CHR 0xB0, CHR 0x98, CHR 0xEC, CHR 0x9D, CHR 0x98, CHR 0x20,
       CHR 0xEC, CHR 0xA0, CHR 0x95, CHR 0xED, CHR 0x99, CHR 0x95, CHR 0xED, CHR 0x95, CHR 0x9C,
       CHR 0x20, CHR 0xEB, CHR 0x82, CHR 0xB4, CHR 0xEB, CHR 0xB6, CHR 0x80, CHR 0x20, CHR 0xEC,
       CHR 0x84, CHR 0x9C, CHR 0xEB, CHR 0xB9, CHR 0x84, CHR 0xEC, CHR 0x8A, CHR 0xA4, CHR 0x20,
       CHR 0xEC, CHR 0xA3, CHR 0xBC, CHR 0xEC, CHR 0x86, CHR 0x8C, CHR 0xEB, CHR 0xA5, CHR 0xBC,
       CHR 0x20, CHR 0xEC, CHR 0x9E, CHR 0x85, CHR 0xEB, CHR 0xA0, CHR 0xA5, CHR 0xED, CHR 0x95,
       CHR 0x98, CHR 0xEC, CHR 0x84, CHR 0xB8, CHR 0xEC, CHR 0x9A, CHR 0x94, CHR 0x2E, CHR 0x20,
       CHR 0x55, CHR 0x52, CHR 0x4C, CHR 0xEC, CHR 0x97, CHR 0x90, CHR 0xEB, CHR 0x8A, CHR 0x94,
       CHR 0x20, CHR 0xEA, CHR 0xB3, CHR 0x84, CHR 0xEC, CHR 0xA0, CHR 0x95, CHR 0x20, CHR 0xEC,
       CHR 0xA0, CHR 0x95, CHR 0xEB, CHR 0xB3, CHR 0xB4, CHR 0xEB, CHR 0xA5, CHR 0xBC, CHR 0x20,
       CHR 0xEB, CHR 0x84, CHR 0xA3, CHR 0xEC, CHR 0xA7, CHR 0x80, CHR 0x20, CHR 0xEB, CHR 0xA7,
       CHR 0x88, CHR 0xEC, CHR 0x84, CHR 0xB8, CHR 0xEC, CHR 0x9A, CHR 0x94, CHR 0x2E] (new_tester (tq_type req) False)
          in (tt_result s, [])
      | Inr u \<Rightarrow>
          let (ok, s) = step_then (passed ''url'' [CHR 0x55, CHR 0x52, CHR 0x4C, CHR 0x20, CHR 0xED, CHR 0x98, CHR 0x95, CHR 0xEC, CHR 0x8B,
       CHR 0x9D, CHR 0x20, CHR 0xED, CHR 0x99, CHR 0x95, CHR 0xEC, CHR 0x9D, CHR 0xB8]) (test_kind env req)
                (new_tester (tq_type req) (url_scheme u = ''https''))
          in ((tt_result s)\<lparr>tr_success := ok\<rparr>, tt_sent s))"

section \<open>What a test sends\<close>

definition sent_properly :: "url \<Rightarrow> test_request \<Rightarrow> tester \<Rightarrow> bool" where
  "sent_properly u req s \<longleftrightarrow>
     (\<forall>q \<in> set (tt_sent s). ep_base (sq_endpoint q) = u
        \<and> sq_secret q = integration_test_auth_secret (tq_type req) (tq_secret req)
        \<and> sq_verify q = verify_tls_of (tq_config req))"

definition clean :: "tester \<Rightarrow> bool" where
  "clean s \<longleftrightarrow> tr_error (tt_result s) = [] \<and> (\<forall>c \<in> set (tr_checks (tt_result s)). ck_success c)"

text \<open>Every step sends properly, and one that goes on leaves only passed checks.\<close>

definition good_step :: "tester_env \<Rightarrow> url \<Rightarrow> test_request \<Rightarrow> step \<Rightarrow> bool" where
  "good_step env u req m \<longleftrightarrow>
     (\<forall>s. (sent_properly u req s \<longrightarrow> sent_properly u req (snd (m s))) \<and> (clean s \<and> fst (m s) \<longrightarrow> clean (snd (m s))))"

named_theorems step_intros

lemma good_then [step_intros]:
  "good_step env u req m \<Longrightarrow> good_step env u req k \<Longrightarrow> good_step env u req (step_then m k)"
  by (fastforce simp: good_step_def step_then_def split: prod.splits)

text \<open>How a check without a call ends.\<close>

inductive step_end :: "tester \<Rightarrow> bool \<times> tester \<Rightarrow> bool" for s where
  ends_refused: "step_end s (refused name message advice s)"
| ends_passed: "step_end s (passed name detail s)"
| ends_silent: "step_end s (True, s)"

lemma end_good:
  "step_end s out \<Longrightarrow> (sent_properly u req s \<longrightarrow> sent_properly u req (snd out)) \<and> (clean s \<and> fst out \<longrightarrow> clean (snd out))"
  by (erule step_end.cases)
    (auto simp: refused_def passed_def add_check_def set_error_def sent_properly_def clean_def)

lemma good_end: "(\<And>s. step_end s (m s)) \<Longrightarrow> good_step env u req m"
  unfolding good_step_def using end_good by blast

lemma good_passed [step_intros]: "good_step env u req (passed name detail)"
  by (rule good_end) (rule ends_passed)

lemma good_version [step_intros]: "good_step env u req read_version"
  by (auto simp: good_step_def read_version_def sent_properly_def clean_def)

lemma good_run:
  "ep_base ep = u \<Longrightarrow> good_step env u req (run_call env req name verb query_text ep)"
  by (auto simp: good_step_def run_call_def add_check_def set_error_def sent_properly_def clean_def Let_def split: sum.splits)

lemma good_call [step_intros]:
  assumes "validate_endpoint (te_parse_url env) (te_parse_ip env) (base_url_of req) = Inr u"
  shows "good_step env u req (call_path env req name verb path query_text)"
proof (cases "join_url (te_parse_url env) (te_parse_ip env) (te_escaped_path env) (base_url_of req) path")
  case (Inl e)
  then show ?thesis
    by (auto simp: good_step_def call_path_def with_endpoint_def set_error_def sent_properly_def)
next
  case (Inr ep)
  with assms have "ep_base ep = u" by (auto simp: join_url_def Let_def split: option.splits)
  from good_run [OF this] Inr show ?thesis
    by (simp add: good_step_def call_path_def with_endpoint_def)
qed

lemma good_fields [step_intros]: "good_step env u req (require_fields fs)"
proof (rule good_end)
  fix s
  show "step_end s (require_fields fs s)" by (induction fs) (simp_all add: step_end.intros)
qed

lemma good_client [step_intros]: "good_step env u req (check_client_id req')"
  by (rule good_end) (simp add: check_client_id_def step_end.intros)

lemma good_status [step_intros]: "good_step env u req check_query_status"
  by (rule good_end) (simp add: check_query_status_def step_end.intros)

lemma good_samples [step_intros]: "good_step env u req (check_llm_samples mappings)"
  by (rule good_end) (simp add: check_llm_samples_def step_end.intros split: sum.split prod.split)

lemma llm_config_end: "step_end s (fst (check_llm_config env req s))"
  by (simp add: check_llm_config_def Let_def step_end.intros split: sum.split option.split)

lemma good_llm [step_intros]:
  assumes "validate_endpoint (te_parse_url env) (te_parse_ip env) (base_url_of req) = Inr u"
  shows "good_step env u req (test_llm_usage env req)"
  unfolding good_step_def
proof
  fix s
  obtain out mappings where c: "check_llm_config env req s = (out, mappings)" by fastforce
  let ?rest = "step_then (query_prometheus env req) (check_llm_samples mappings)"
  have rest: "good_step env u req ?rest"
    unfolding query_prometheus_def by (intro step_intros assms)
  have first: "(sent_properly u req s \<longrightarrow> sent_properly u req (snd out)) \<and> (clean s \<and> fst out \<longrightarrow> clean (snd out))"
    using end_good [OF llm_config_end [of s env req]] by (simp add: c)
  show "(sent_properly u req s \<longrightarrow> sent_properly u req (snd (test_llm_usage env req s)))
      \<and> (clean s \<and> fst (test_llm_usage env req s) \<longrightarrow> clean (snd (test_llm_usage env req s)))"
  proof (cases "fst out")
    case True
    then have "test_llm_usage env req s = ?rest (snd out)"
      by (cases out) (simp add: test_llm_usage_def c step_then_def [of "\<lambda>_. x" for x])
    with first rest True show ?thesis by (simp add: good_step_def)
  next
    case False
    then have "test_llm_usage env req s = (False, snd out)"
      by (cases out) (simp add: test_llm_usage_def c step_then_def [of "\<lambda>_. x" for x])
    with first show ?thesis by simp
  qed
qed

lemma good_kind:
  assumes "validate_endpoint (te_parse_url env) (te_parse_ip env) (base_url_of req) = Inr u"
  shows "good_step env u req (test_kind env req)"
proof -
  have "good_step env u req (\<lambda>s. (False, set_error m a s))" for m a
    by (simp add: good_step_def set_error_def sent_properly_def)
  then show ?thesis
    unfolding test_kind_def Let_def test_jupyterhub_def test_kubernetes_def test_oidc_def query_prometheus_def
    by (auto intro!: step_intros assms)
qed

lemma sent_by_test_all:
  assumes "test_connection env req = (result, sent)"
  shows "(\<forall>q \<in> set sent.
        validate_endpoint (te_parse_url env) (te_parse_ip env) (base_url_of req) = Inr (ep_base (sq_endpoint q))
        \<and> sq_secret q = (if tq_type req = ''oidc'' then [] else tq_secret req)
        \<and> sq_verify q = verify_tls_of (tq_config req))
     \<and> (tr_success result \<longrightarrow> tr_error result = [] \<and> (\<forall>c \<in> set (tr_checks result). ck_success c))"
proof (cases "validate_endpoint (te_parse_url env) (te_parse_ip env) (base_url_of req)")
  case (Inl e)
  with assms show ?thesis
    by (auto simp: test_connection_def refused_def add_check_def set_error_def new_tester_def new_result_def)
next
  case (Inr u)
  let ?s = "new_tester (tq_type req) (url_scheme u = ''https'')"
  have good: "good_step env u req (step_then (passed ''url'' [CHR 0x55, CHR 0x52, CHR 0x4C, CHR 0x20, CHR 0xED, CHR 0x98, CHR 0x95, CHR 0xEC, CHR 0x8B,
       CHR 0x9D, CHR 0x20, CHR 0xED, CHR 0x99, CHR 0x95, CHR 0xEC, CHR 0x9D, CHR 0xB8]) (test_kind env req))"
    by (intro step_intros good_kind Inr)
  have start: "sent_properly u req ?s" "clean ?s"
    by (simp_all add: sent_properly_def clean_def new_tester_def new_result_def)
  obtain ok t where run: "step_then (passed ''url'' [CHR 0x55, CHR 0x52, CHR 0x4C, CHR 0x20, CHR 0xED, CHR 0x98, CHR 0x95, CHR 0xEC, CHR 0x8B,
       CHR 0x9D, CHR 0x20, CHR 0xED, CHR 0x99, CHR 0x95, CHR 0xEC, CHR 0x9D, CHR 0xB8]) (test_kind env req) ?s = (ok, t)" by fastforce
  with good start have t: "sent_properly u req t" "ok \<Longrightarrow> clean t"
    by (fastforce simp: good_step_def)+
  from assms Inr run have "result = (tt_result t)\<lparr>tr_success := ok\<rparr>" "sent = tt_sent t"
    by (auto simp: test_connection_def)
  with t Inr show ?thesis by (auto simp: sent_properly_def clean_def integration_test_auth_secret_def)
qed

lemma sent_by_test:
  assumes "test_connection env req = (result, sent)" and "q \<in> set sent"
  shows "validate_endpoint (te_parse_url env) (te_parse_ip env) (base_url_of req) = Inr (ep_base (sq_endpoint q))"
    and "sq_secret q = (if tq_type req = ''oidc'' then [] else tq_secret req)"
    and "sq_verify q = verify_tls_of (tq_config req)"
  using sent_by_test_all [OF assms(1)] assms(2) by auto

text \<open>Whatever the remote answers, a test sends its requests to the validated address of its configuration only, with the
  secret it was given, none at all to an identity provider, and verifies certificates as configured. A test that succeeds has passed every check and
  reports no error.\<close>

theorem test_connection_sound:
  assumes "test_connection env req = (result, sent)"
  shows "(\<forall>q \<in> set sent.
        validate_endpoint (te_parse_url env) (te_parse_ip env) (base_url_of req) = Inr (ep_base (sq_endpoint q))
        \<and> sq_secret q = (if tq_type req = ''oidc'' then [] else tq_secret req)
        \<and> sq_verify q = verify_tls_of (tq_config req))
     \<and> (tr_success result \<longrightarrow> tr_error result = [] \<and> (\<forall>c \<in> set (tr_checks result). ck_success c))"
  by (rule sent_by_test_all [OF assms])

definition demo_env :: tester_env where
  "demo_env =
     \<lparr>te_parse_url = (\<lambda>s. Some \<lparr>url_scheme = ''https'', url_host = ''hub.corp'', url_hostname = ''hub.corp'',
         url_has_user = False, url_fragment = []\<rparr>),
       te_parse_ip = (\<lambda>_. None), te_escaped_path = (\<lambda>_. []), te_client_error = (\<lambda>_. []),
       te_capture_names = (\<lambda>_. None), te_llm_error = (\<lambda>_. []), te_username_from_pod = (\<lambda>_ _. None),
       te_calls = (\<lambda>_. \<lparr>tc_result = Inr 200, tc_status = 200, tc_error = [], tc_record_error = False,
         tc_payload = JObj [(''version'', JStr ''5.2'')]\<rparr>)\<rparr>"

definition demo_test :: test_request where
  "demo_test = \<lparr>tq_type = ''jupyterhub'', tq_config = [(''base_url'', JStr ''https://hub.corp'')], tq_secret = ''s''\<rparr>"

theorem test_connection_sound_witness:
  "tr_error (fst (test_connection demo_env demo_test)) = []
   \<and> sq_secret (snd (test_connection demo_env demo_test) ! 1) = ''s''"
proof -
  let ?out = "test_connection demo_env demo_test"
  have ran: "tr_success (fst ?out)" by code_simp
  have n: "length (snd ?out) = 2" by code_simp
  note sound = test_connection_sound [of demo_env demo_test "fst ?out" "snd ?out", OF surjective_pairing]
  have "snd ?out ! 1 \<in> set (snd ?out)" using n by simp
  with sound ran show ?thesis by (simp add: demo_test_def)
qed

end
