(* ===== verification/Ai_Chat.thy ===== *)
theory Ai_Chat
  imports Integration_Test Remote_Metrics Settings Tx_Results
begin

text \<open>The relay to a language model (\<^verbatim>\<open>internal/api/ai_handlers.go\<close>, \<^verbatim>\<open>internal/integration/ai.go\<close> and
  \<^verbatim>\<open>RecordAIUsage\<close>). The provider's answer and its stream, read by read, are parameters, as are the parser of media types
  and what the caller's connection takes of each write.\<close>

definition max_ai_tokens_int :: int where "max_ai_tokens_int = 262144"

definition relay_limit :: int where "relay_limit = 64 * 2 ^ 20"

definition relay_buffer :: int where "relay_buffer = 32 * 1024"

section \<open>Requests\<close>

record ai_config =
  ai_enabled :: bool
  ai_provider :: string
  ai_base_url :: string
  ai_model :: string
  ai_max_tokens :: int
  ai_verify :: bool

record ai_input =
  in_model :: string
  in_messages :: json
  in_max_tokens :: int
  in_temperature :: "float64 option"

definition decode_ai :: "json \<Rightarrow> ai_config option" where
  "decode_ai v =
     (case object_members v of
        None \<Rightarrow> None
      | Some m \<Rightarrow>
          (case (bool_field m ''enabled'', string_field m ''provider'', string_field m ''base_url'', string_field m ''model'',
                 int_field m ''max_tokens'', bool_field m ''verify_tls'') of
             (Some e, Some p, Some u, Some mo, Some n, Some t) \<Rightarrow>
               Some \<lparr>ai_enabled = e, ai_provider = p, ai_base_url = u, ai_model = mo, ai_max_tokens = n, ai_verify = t\<rparr>
           | _ \<Rightarrow> None))"

definition some_messages :: "json \<Rightarrow> bool" where
  \<comment> \<open>a JSON array with a message; an absent member is null\<close>
  "some_messages v = (case v of JArr (_ # _) \<Rightarrow> True | _ \<Rightarrow> False)"

definition temperature_ok :: "float64 option \<Rightarrow> bool" where
  "temperature_ok t = (case t of None \<Rightarrow> True | Some (Finite x) \<Rightarrow> 0 \<le> x \<and> x \<le> 2 | _ \<Rightarrow> False)"

definition chosen_model :: "ai_config \<Rightarrow> ai_input \<Rightarrow> (http_error, string) res" where
  "chosen_model cfg input =
     (let configured = trim_space (ai_model cfg)
      in if trim_space (in_model input) = [] then Inr configured
         else if in_model input \<noteq> configured then Inl (400, ''model_not_allowed'') else Inr (in_model input))"

definition validate_ai_chat_input :: "ai_config \<Rightarrow> ai_input \<Rightarrow> (http_error, ai_input) res" where
  "validate_ai_chat_input cfg input =
     res_bind (chosen_model cfg input) (\<lambda>model.
     res_bind (reject_if (\<not> some_messages (in_messages input)) (400, ''invalid_messages'')) (\<lambda>_.
     res_bind (reject_if (\<not> temperature_ok (in_temperature input)) (400, ''invalid_temperature'')) (\<lambda>_.
     let tokens = (if in_max_tokens input = 0 then ai_max_tokens cfg else in_max_tokens input)
     in res_bind (reject_if (0 < ai_max_tokens cfg \<and> ai_max_tokens cfg < tokens) (400, ''max_tokens_exceeded'')) (\<lambda>_.
        res_bind (reject_if (tokens < 1 \<or> max_ai_tokens_int < tokens) (400, ''invalid_max_tokens'')) (\<lambda>_.
        Inr (input\<lparr>in_model := model, in_max_tokens := tokens\<rparr>))))))"

section \<open>The call\<close>

record ai_request =
  aq_endpoint :: endpoint
  aq_key :: string
  aq_verify :: bool
  aq_input :: ai_input

datatype ai_answer = NoConnection | Answer nat string
  \<comment> \<open>status and content type\<close>

datatype ai_error = BadTokens | BadMessages | BadTemperature | BadEndpoint client_error | NoAnswer | AnswerStatus nat | NoEventStream

record ai_env =
  ax_decrypt :: "string \<Rightarrow> string \<Rightarrow> string option"
  ax_parse_url :: "string \<Rightarrow> url option"
  ax_parse_ip :: "string \<Rightarrow> ip option"
  ax_escaped_path :: "url \<Rightarrow> string"
  ax_media_type :: "string \<Rightarrow> string option"
  ax_provider :: "ai_request \<Rightarrow> ai_answer"
  ax_read :: "nat \<Rightarrow> int \<Rightarrow> int \<times> bool option"
  ax_write :: "nat \<Rightarrow> int \<Rightarrow> int \<times> bool"
  ax_rounds :: nat
  ax_flushes :: bool
  ax_latency :: int

definition judge_answer :: "(string \<Rightarrow> string option) \<Rightarrow> ai_answer \<Rightarrow> (ai_error, unit) res" where
  \<comment> \<open>a body that is not relayed is closed unread\<close>
  "judge_answer media_type a =
     (case a of
        NoConnection \<Rightarrow> Inl NoAnswer
      | Answer status content_type \<Rightarrow>
          if status < 200 \<or> 300 \<le> status then Inl (AnswerStatus status)
          else case media_type content_type of
            None \<Rightarrow> Inl NoEventStream
          | Some m \<Rightarrow> if equal_fold m ''text/event-stream'' then Inr () else Inl NoEventStream)"

definition stream_ai_chat :: "ai_env \<Rightarrow> ai_config \<Rightarrow> string \<Rightarrow> ai_input \<Rightarrow> (ai_error, unit) res \<times> ai_request list" where
  \<comment> \<open>with the requests sent\<close>
  "stream_ai_chat env cfg key input =
     (if in_max_tokens input < 1 \<or> max_ai_tokens_int < in_max_tokens input then (Inl BadTokens, [])
      else if \<not> some_messages (in_messages input) then (Inl BadMessages, [])
      else if \<not> temperature_ok (in_temperature input) then (Inl BadTemperature, [])
      else case join_url (ax_parse_url env) (ax_parse_ip env) (ax_escaped_path env) (ai_base_url cfg) ''chat/completions'' of
        Inl e \<Rightarrow> (Inl (BadEndpoint e), [])
      | Inr endpoint \<Rightarrow>
          let request = \<lparr>aq_endpoint = endpoint, aq_key = key, aq_verify = ai_verify cfg, aq_input = input\<rparr>
          in (judge_answer (ax_media_type env) (ax_provider env request), [request]))"

section \<open>The relay\<close>

text \<open>\<open>read k n\<close> is the k-th read of at most n bytes: how many came, and how it ended, \<open>Some True\<close> at the end of the stream
  and \<open>Some False\<close> with another error. \<open>write k n\<close> is the k-th write: how many bytes were taken, and whether it succeeded.
  \<open>left\<close> is what the limited reader still lets through. The rounds bound the loop; \<open>None\<close> means they were not enough.\<close>

fun copy_flushed_stream ::
  "(nat \<Rightarrow> int \<Rightarrow> int \<times> bool option) \<Rightarrow> (nat \<Rightarrow> int \<Rightarrow> int \<times> bool) \<Rightarrow> nat \<Rightarrow> nat \<Rightarrow> int \<Rightarrow> int \<Rightarrow> (int \<times> bool) option" where
  "copy_flushed_stream read write 0 k left written = None"
| "copy_flushed_stream read write (Suc rounds) k left written =
     (let (n, ended) = (if left \<le> 0 then (0, Some True) else read k (min relay_buffer left));
          left' = left - n;
          (taken, ok) = (if 0 < n then write k n else (0, True));
          written' = written + taken
      in if 0 < n \<and> (\<not> ok \<or> taken \<noteq> n) then Some (written', False)
         else case ended of
           Some well \<Rightarrow> Some (written', well)
         | None \<Rightarrow> if left' = 0 then Some (written', False) else copy_flushed_stream read write rounds (Suc k) left' written')"

section \<open>The handler\<close>

record ai_usage_row =
  ag_user_id :: int
  ag_provider :: string
  ag_model :: string
  ag_status :: string
  ag_latency :: int
  ag_request_id :: string

record ai_db =
  aw_store :: store_db
  aw_usage :: "ai_usage_row list"

type_synonym 'a ai_handler = "(ai_db, http_error, 'a) tx"

definition on_tables :: "'a store_tx \<Rightarrow> 'a ai_handler" where
  "on_tables = on_part aw_store (\<lambda>d x. x\<lparr>aw_store := d\<rparr>) store_failure"

definition record_ai_usage :: "ai_env \<Rightarrow> request \<Rightarrow> ai_config \<Rightarrow> string \<Rightarrow> string \<Rightarrow> unit ai_handler" where
  \<comment> \<open>its error is dropped\<close>
  "record_ai_usage env r cfg model status =
     ignore_error (exec (500, ''internal_error'') (\<lambda>x. x\<lparr>aw_usage := aw_usage x @
       [\<lparr>ag_user_id = u_id (p_user (rq_principal r)), ag_provider = ai_provider cfg, ag_model = model, ag_status = status,
          ag_latency = ax_latency env, ag_request_id = rq_header r ''X-Request-ID''\<rparr>]\<rparr>))"

datatype ai_outcome = Refused http_error | Relayed int bool | Endless
  \<comment> \<open>bytes relayed and whether the stream ended well; \<open>Endless\<close> when the rounds were not enough\<close>

definition relay :: "ai_env \<Rightarrow> request \<Rightarrow> ai_config \<Rightarrow> ai_input \<Rightarrow> ai_outcome ai_handler" where
  "relay env r cfg input =
     (if \<not> ax_flushes env then tx_return (Refused (501, ''streaming_unavailable''))
      else case copy_flushed_stream (ax_read env) (ax_write env) (ax_rounds env) 0 relay_limit 0 of
        None \<Rightarrow> tx_return Endless
      | Some (written, well) \<Rightarrow>
          let status = (if \<not> well \<or> relay_limit \<le> written then ''truncated'' else ''success'')
          in tx_bind (record_ai_usage env r cfg (in_model input) status) (\<lambda>_.
             tx_bind (ignore_error (on_tables (record_audit (request_audit r ''ai.chat'' ''ai'' (in_model input) status [] None
               (Some (JObj [(''max_tokens'', JNum (of_int (in_max_tokens input))), (''stream'', JBool True)])))))) (\<lambda>_.
             tx_return (Relayed written well))))"

definition ai_chat :: "ai_env \<Rightarrow> ai_input option \<Rightarrow> request \<Rightarrow> (ai_outcome \<times> ai_request list) ai_handler" where
  "ai_chat env body r =
     (case body of
        None \<Rightarrow> tx_return (Refused (400, ''invalid_json''), [])
      | Some input0 \<Rightarrow>
          tx_bind (tx_try (on_tables (get_setting_and_secret (ax_decrypt env) decode_ai ''ai'' ''ai.api_key'')))
            (\<lambda>got :: (http_error, ai_config \<times> string \<times> bool) res.
          case got of
            Inl _ \<Rightarrow> tx_return (Refused (503, ''ai_disabled''), [])
          | Inr (cfg, key, _) \<Rightarrow>
              if \<not> ai_enabled cfg \<or> ai_base_url cfg = [] \<or> trim_space (ai_model cfg) = []
              then tx_return (Refused (503, ''ai_disabled''), [])
              else case validate_ai_chat_input cfg input0 of
                Inl e \<Rightarrow> tx_return (Refused e, [])
              | Inr input \<Rightarrow>
                  (case stream_ai_chat env cfg key input of
                     (Inl _, sent) \<Rightarrow>
                       tx_bind (record_ai_usage env r cfg (in_model input) ''error'') (\<lambda>_.
                       tx_return (Refused (502, ''ai_upstream_error''), sent))
                   | (Inr _, sent) \<Rightarrow> tx_bind (relay env r cfg input) (\<lambda>outcome. tx_return (outcome, sent)))))"

section \<open>What goes out, and how much comes back\<close>

definition within_policy :: "ai_config \<Rightarrow> ai_request \<Rightarrow> bool" where
  "within_policy cfg q =
     (in_model (aq_input q) = trim_space (ai_model cfg) \<and> trim_space (ai_model cfg) \<noteq> []
      \<and> 1 \<le> in_max_tokens (aq_input q) \<and> in_max_tokens (aq_input q) \<le> max_ai_tokens_int
      \<and> (ai_max_tokens cfg \<le> 0 \<or> in_max_tokens (aq_input q) \<le> ai_max_tokens cfg)
      \<and> some_messages (in_messages (aq_input q)) \<and> temperature_ok (in_temperature (aq_input q)))"

lemma validated_input:
  assumes "validate_ai_chat_input cfg input0 = Inr input"
  shows "in_model input = trim_space (ai_model cfg)" and "1 \<le> in_max_tokens input" and "in_max_tokens input \<le> max_ai_tokens_int"
    and "ai_max_tokens cfg \<le> 0 \<or> in_max_tokens input \<le> ai_max_tokens cfg" and "some_messages (in_messages input)"
    and "temperature_ok (in_temperature input)"
  using assms
  by (auto simp: validate_ai_chat_input_def chosen_model_def res_bind_Inr_iff Let_def split: if_splits)

lemma ai_request_sent:
  "stream_ai_chat env cfg key input = (res, sent) \<Longrightarrow> q \<in> set sent
    \<Longrightarrow> aq_input q = input \<and> aq_key q = key \<and> aq_verify q = ai_verify cfg
      \<and> (\<exists>base_url. join_url (ax_parse_url env) (ax_parse_ip env) (ax_escaped_path env) (ai_base_url cfg) ''chat/completions'' = Inr (aq_endpoint q))"
  by (auto simp: stream_ai_chat_def Let_def split: if_splits sum.splits)

text \<open>C32: A caller reaches the provider only as the administrator configured it: with the configured model, address and
  verification of certificates, at most the configured number of tokens, a message at least and a finite temperature.\<close>

theorem ai_request_within_policy:
  assumes "ai_chat env body r fs x = (Inr (outcome, sent), fs', x')" and "q \<in> set sent"
  shows "\<exists>cfg key present fs1 d1.
      get_setting_and_secret (ax_decrypt env) decode_ai ''ai'' ''ai.api_key'' fs (aw_store x) = (Inr (cfg, key, present), fs1, d1)
      \<and> ai_enabled cfg \<and> within_policy cfg q \<and> aq_key q = key \<and> aq_verify q = ai_verify cfg
      \<and> join_url (ax_parse_url env) (ax_parse_ip env) (ax_escaped_path env) (ai_base_url cfg) ''chat/completions''
        = Inr (aq_endpoint q)"
proof -
  let ?read = "get_setting_and_secret (ax_decrypt env) decode_ai ''ai'' ''ai.api_key''"
  from assms obtain input0 where body: "body = Some input0"
    by (cases body) (auto simp: ai_chat_def tx_return_def)
  obtain got fs1 d1 where read: "?read fs (aw_store x) = (got, fs1, d1)" by (cases "?read fs (aw_store x)") auto
  with assms body obtain cfg key present where got: "got = Inr (cfg, key, present)"
    by (auto simp: ai_chat_def tx_bind_def tx_try_def on_tables_def on_part_def tx_return_def split: sum.splits)
  from read got assms body obtain input where enabled: "ai_enabled cfg" "trim_space (ai_model cfg) \<noteq> []"
    and valid: "validate_ai_chat_input cfg input0 = Inr input" and sent: "snd (stream_ai_chat env cfg key input) = sent"
    by (auto simp: ai_chat_def tx_bind_def tx_try_def on_tables_def on_part_def tx_return_def
        split: sum.splits if_splits prod.splits)
  obtain res where stream: "stream_ai_chat env cfg key input = (res, sent)"
    using sent by (cases "stream_ai_chat env cfg key input") auto
  note q = ai_request_sent [OF stream assms(2)]
  from q validated_input [OF valid] enabled have "within_policy cfg q" by (auto simp: within_policy_def)
  with q enabled(1) read show ?thesis
    by (intro exI [of _ cfg] exI [of _ key] exI [of _ present] exI [of _ fs1] exI [of _ d1]) (auto simp: got)
qed

text \<open>The relay of a stream ends, and never passes on more than its limit: with a reader that moves on whenever it is asked for
  something and a writer that takes no more than it is given, both as Go's interfaces promise, as many rounds as bytes are
  enough.\<close>

theorem relay_bounded:
  assumes "\<And>k n. 0 < n \<Longrightarrow> 0 \<le> fst (read k n) \<and> fst (read k n) \<le> n \<and> (0 < fst (read k n) \<or> snd (read k n) \<noteq> None)"
    and "\<And>k n. 0 < n \<Longrightarrow> 0 \<le> fst (write k n) \<and> fst (write k n) \<le> n" and "0 \<le> left" and "nat left < rounds"
  shows "\<exists>relayed well. copy_flushed_stream read write rounds k left written = Some (relayed, well)
      \<and> written \<le> relayed \<and> relayed \<le> written + left"
  using assms(3,4)
proof (induction rounds arbitrary: k left written)
  case (Suc rounds)
  show ?case
  proof (cases "left = 0")
    case False
    with Suc.prems have pos: "0 < left" by simp
    obtain n ended where read: "read k (min relay_buffer left) = (n, ended)" by (cases "read k (min relay_buffer left)")
    obtain taken ok where given: "(if 0 < n then write k n else (0, True)) = (taken, ok)"
      by (cases "if 0 < n then write k n else (0, True)") auto
    have n: "0 \<le> n" "n \<le> left" "0 < n \<or> ended \<noteq> None"
      using assms(1) [of "min relay_buffer left" k] read pos by (auto simp: relay_buffer_def)
    have taken: "0 \<le> taken" "taken \<le> n" using assms(2) [of n k] given n(1) by (auto split: if_splits)
    have round: "copy_flushed_stream read write (Suc rounds) k left written =
        (if 0 < n \<and> (\<not> ok \<or> taken \<noteq> n) then Some (written + taken, False)
         else case ended of
           Some well \<Rightarrow> Some (written + taken, well)
         | None \<Rightarrow> if left - n = 0 then Some (written + taken, False)
             else copy_flushed_stream read write rounds (Suc k) (left - n) (written + taken))"
      using pos by (simp add: read given Let_def)
    show ?thesis
    proof (cases "(0 < n \<and> (\<not> ok \<or> taken \<noteq> n)) \<or> ended \<noteq> None \<or> left - n = 0")
      case True
      with taken n show ?thesis unfolding round by (cases ended) auto
    next
      case going: False
      with n(3) have "0 < n" and full: "taken = n" by auto
      then have fuel: "0 \<le> left - n" "nat (left - n) < rounds" using n Suc.prems(2) by linarith+
      from Suc.IH [OF fuel, of "Suc k" "written + taken"] going full n(1) show ?thesis unfolding round by auto
    qed
  qed auto
qed simp

definition relay_env :: ai_env where
  \<comment> \<open>an answer of five bytes, in two reads\<close>
  "relay_env = \<lparr>ax_decrypt = (\<lambda>_ s. Some s), ax_parse_url = te_parse_url demo_env, ax_parse_ip = te_parse_ip demo_env,
     ax_escaped_path = te_escaped_path demo_env, ax_media_type = (\<lambda>s. Some s),
     ax_provider = (\<lambda>_. Answer 200 ''text/event-stream''),
     ax_read = (\<lambda>k n. if k = 0 then (min n 3, None) else (min n 2, Some True)), ax_write = (\<lambda>_ n. (n, True)),
     ax_rounds = 9, ax_flushes = True, ax_latency = 5\<rparr>"

definition relay_tables :: ai_db where
  "relay_tables = \<lparr>aw_store = (fresh_store 5)\<lparr>db_settings := [\<lparr>st_key = ''ai'', st_value =
       JObj [(''enabled'', JBool True), (''base_url'', JStr ''https://p.corp''), (''model'', JStr ''m''), (''max_tokens'', JNum 100)],
       st_updated_by = None, st_updated_at = 0\<rparr>]\<rparr>, aw_usage = []\<rparr>"

definition hello :: ai_input where
  "hello = \<lparr>in_model = [], in_messages = JArr [JStr ''hello''], in_max_tokens = 0, in_temperature = None\<rparr>"

definition ana_request :: request where
  "ana_request = demo_request ''POST'' (\<lambda>_. []) (demo_principal [''ai:chat''])"

definition relay_config :: ai_config where
  "relay_config = \<lparr>ai_enabled = True, ai_provider = [], ai_base_url = ''https://p.corp'', ai_model = ''m'', ai_max_tokens = 100,
     ai_verify = False\<rparr>"

definition asked_hello :: ai_input where
  "asked_hello = hello\<lparr>in_model := ''m'', in_max_tokens := 100\<rparr>"

lemma relay_read:
  "get_setting_and_secret (ax_decrypt relay_env) decode_ai ''ai'' ''ai.api_key'' [] (aw_store relay_tables)
     = (Inr (relay_config, [], False), [], aw_store relay_tables)"
  by code_simp

lemma relay_valid: "validate_ai_chat_input relay_config hello = Inr asked_hello"
  by code_simp

theorem ai_request_within_policy_witness:
  "\<exists>q fs x. ai_chat relay_env (Some hello) ana_request [] relay_tables = (Inr (Relayed 5 True, [q]), fs, x)
     \<and> map ag_status (aw_usage x) = [''success''] \<and> in_max_tokens (aq_input q) = 100 \<and> within_policy relay_config q"
proof -
  have "case stream_ai_chat relay_env relay_config [] asked_hello of (r, sent) \<Rightarrow> is_ok r \<and> length sent = 1" by code_simp
  then obtain q where stream: "stream_ai_chat relay_env relay_config [] asked_hello = (Inr (), [q])"
    by (auto simp: is_ok_def length_Suc_conv split: prod.splits sum.splits)
  have "case relay relay_env ana_request relay_config asked_hello [] relay_tables of
      (Inr outcome, fs, x) \<Rightarrow> outcome = Relayed 5 True \<and> map ag_status (aw_usage x) = [''success''] | _ \<Rightarrow> False" by code_simp
  then obtain fs x where relayed: "relay relay_env ana_request relay_config asked_hello [] relay_tables = (Inr (Relayed 5 True), fs, x)"
    and status: "map ag_status (aw_usage x) = [''success'']"
    by (auto split: prod.splits sum.splits)
  have config: "ai_enabled relay_config" "ai_base_url relay_config \<noteq> []" "trim_space (ai_model relay_config) \<noteq> []"
    by code_simp+
  have run: "ai_chat relay_env (Some hello) ana_request [] relay_tables = (Inr (Relayed 5 True, [q]), fs, x)"
    using config by (simp add: ai_chat_def tx_bind_def tx_try_def on_tables_def on_part_def relay_read relay_valid stream relayed tx_return_def)
  have "aq_input q = asked_hello" using ai_request_sent [OF stream] by simp
  with ai_request_within_policy [OF run, of q] run status show ?thesis by (auto simp: relay_read asked_hello_def)
qed

theorem relay_bounded_witness:
  "\<exists>relayed well. copy_flushed_stream (ax_read relay_env) (ax_write relay_env) 5 0 4 0 = Some (relayed, well)
     \<and> 0 \<le> relayed \<and> relayed \<le> 0 + 4"
  by (rule relay_bounded) (auto simp: relay_env_def)

end
