(* ===== verification/Search.thy ===== *)
theory Search
  imports Hub_Lists Http_Request Jupyter_Client Return_Path Hub_Properties
begin

text \<open>The search over users, hubs, servers and projects (\<^verbatim>\<open>internal/store/search.go\<close> and \<^verbatim>\<open>globalSearch\<close>). \<open>ordered\<close>
  is the order of a query by its clause.\<close>

record search_access =
  sa_users :: bool
  sa_hubs :: bool
  sa_servers :: bool
  sa_projects :: bool

record search_item =
  si_type :: string
  si_id :: string
  si_title :: string
  si_subtitle :: string
  si_path :: string

record search_order =
  so_users :: "managed_row list \<Rightarrow> managed_row list"
  so_hubs :: "hub_row list \<Rightarrow> hub_row list"
  so_servers :: "(server_row \<times> hub_row) list \<Rightarrow> (server_row \<times> hub_row) list"
  so_projects :: "resource_row list \<Rightarrow> resource_row list"

definition middle_dot :: string where
  "middle_dot = '' '' @ [CHR 0xC2, CHR 0xB7] @ '' ''"

definition optional_search_text :: "string \<Rightarrow> string \<Rightarrow> string" where
  "optional_search_text prefix v = (if trim_space v = [] then [] else prefix @ v)"

definition search_filter_path :: "string \<Rightarrow> string \<Rightarrow> string" where
  "search_filter_path path q = path @ ''?search='' @ query_escape q"

definition matches :: "string \<Rightarrow> string list \<Rightarrow> bool" where
  "matches q columns = list_ex (ilike (search_pattern q)) columns"

definition display_of :: "(int \<Rightarrow> string) \<Rightarrow> managed_row \<Rightarrow> string" where
  \<comment> \<open>the display name of a row, the user name without one\<close>
  "display_of names u = (if names (mu_id u) = [] then mu_username u else names (mu_id u))"

definition user_item :: "(int \<Rightarrow> string) \<Rightarrow> managed_row \<Rightarrow> search_item" where
  "user_item names u =
     \<lparr>si_type = ''user'', si_id = mu_username u, si_title = display_of names u,
       si_subtitle = mu_username u @ optional_search_text middle_dot (mu_department u),
       si_path = ''/users/'' @ path_escape (mu_username u)\<rparr>"

definition hub_item :: "hub_row \<Rightarrow> search_item" where
  "hub_item h =
     \<lparr>si_type = ''hub'', si_id = format_int (hb_id h), si_title = hb_name h,
       si_subtitle = hb_network h @ optional_search_text middle_dot (hb_base_url h),
       si_path = search_filter_path ''/hubs'' (hb_name h)\<rparr>"

definition server_item :: "server_row \<times> hub_row \<Rightarrow> search_item" where
  "server_item row =
     (case row of (s, h) \<Rightarrow>
       \<lparr>si_type = ''server'', si_id = format_int (sv_id s), si_title = sv_username s,
         si_subtitle = hb_name h @ optional_search_text middle_dot (sv_pod_name s) @ optional_search_text middle_dot (sv_status s),
         si_path = search_filter_path ''/servers'' (sv_username s)\<rparr>)"

definition project_item :: "resource_row \<Rightarrow> search_item" where
  "project_item p =
     \<lparr>si_type = ''project'', si_id = format_int (re_id p), si_title = re_name p, si_subtitle = re_status p,
       si_path = search_filter_path ''/projects'' (re_name p)\<rparr>"

definition joined_servers :: "store_db \<Rightarrow> (server_row \<times> hub_row) list" where
  "joined_servers d = List.map_filter (\<lambda>s. map_option (Pair s) (find_hub (sv_hub_id s) d)) (db_servers d)"

definition if_allowed :: "bool \<Rightarrow> (store_db \<Rightarrow> search_item list) \<Rightarrow> search_item list store_tx" where
  \<comment> \<open>a kind that is not asked for is not read\<close>
  "if_allowed allowed found = (if allowed then query DbError found else tx_return [])"

definition global_search :: "search_order \<Rightarrow> (int \<Rightarrow> string) \<Rightarrow> string \<Rightarrow> search_access \<Rightarrow> int \<Rightarrow> search_item list store_tx" where
  \<comment> \<open>\<open>names\<close> are the display names by id, a column the table of the hubs' users leaves out\<close>
  "global_search ordered names q access per_type =
     (let n = nat (if per_type < 1 \<or> 20 < per_type then 8 else per_type)
      in tx_bind (if_allowed (sa_users access) (\<lambda>d. map (user_item names) (take n (so_users ordered
            (filter (\<lambda>u. matches q [mu_username u, names (mu_id u), mu_department u]) (db_managed d)))))) (\<lambda>users.
         tx_bind (if_allowed (sa_hubs access) (\<lambda>d. map hub_item (take n (so_hubs ordered
            (filter (\<lambda>h. matches q [hb_name h, hb_network h, hb_base_url h]) (db_hubs d)))))) (\<lambda>hubs.
         tx_bind (if_allowed (sa_servers access) (\<lambda>d. map server_item (take n (so_servers ordered
            (filter (\<lambda>(s, h). matches q [sv_username s, sv_pod_name s, sv_node_name s, hb_name h]) (joined_servers d)))))) (\<lambda>servers.
         tx_bind (if_allowed (sa_projects access) (\<lambda>d. map project_item (take n (so_projects ordered
            (filter (\<lambda>p. re_kind p = ''project'' \<and> matches q [re_name p]) (db_resources d)))))) (\<lambda>projects.
         tx_return (users @ hubs @ servers @ projects))))))"

section \<open>The handler\<close>

text \<open>A string as runes: the characters of UTF-8, each byte that starts none counting as one.\<close>

definition byte_in :: "nat \<Rightarrow> nat \<Rightarrow> char \<Rightarrow> bool" where
  "byte_in low high c = (low \<le> of_char c \<and> of_char c \<le> high)"

definition tail_byte :: "char \<Rightarrow> bool" where
  "tail_byte = byte_in 0x80 0xBF"

definition rune_width :: "string \<Rightarrow> nat" where
  \<comment> \<open>of the first character\<close>
  "rune_width s =
     (case s of
        a # b # rest \<Rightarrow>
          if byte_in 0xC2 0xDF a \<and> tail_byte b then 2
          else (case rest of
             c # rest' \<Rightarrow>
               if (byte_in 0xE0 0xE0 a \<and> byte_in 0xA0 0xBF b \<or> byte_in 0xED 0xED a \<and> byte_in 0x80 0x9F b
                   \<or> (byte_in 0xE1 0xEC a \<or> byte_in 0xEE 0xEF a) \<and> tail_byte b) \<and> tail_byte c then 3
               else (case rest' of
                  e # _ \<Rightarrow>
                    if (byte_in 0xF0 0xF0 a \<and> byte_in 0x90 0xBF b \<or> byte_in 0xF4 0xF4 a \<and> byte_in 0x80 0x8F b
                        \<or> byte_in 0xF1 0xF3 a \<and> tail_byte b) \<and> tail_byte c \<and> tail_byte e then 4 else 1
                | [] \<Rightarrow> 1)
           | [] \<Rightarrow> 1)
      | _ \<Rightarrow> 1)"

fun rune_count :: "string \<Rightarrow> nat" where
  "rune_count [] = 0"
| "rune_count (c # s) = Suc (rune_count (drop (rune_width (c # s) - 1) s))"

definition search_access_of :: "principal \<Rightarrow> search_access" where
  "search_access_of p =
     \<lparr>sa_users = allows p ''users:read'', sa_hubs = allows p ''hubs:read'', sa_servers = allows p ''servers:read'',
       sa_projects = allows p ''project:read''\<rparr>"

definition global_search_handler :: "search_order \<Rightarrow> (int \<Rightarrow> string) \<Rightarrow> request \<Rightarrow> search_item list handler" where
  "global_search_handler ordered names r =
     (let q = trim_space (rq_query r ''q'')
      in if rune_count q < 2 \<or> 100 < rune_count q then api_error 400 ''invalid_search''
         else store_call (global_search ordered names q (search_access_of (rq_principal r)) 8))"

section \<open>Nothing is found that the caller may not read\<close>

definition search_permission :: "string \<Rightarrow> string" where
  "search_permission kind =
     (if kind = ''user'' then ''users:read'' else if kind = ''hub'' then ''hubs:read''
      else if kind = ''server'' then ''servers:read'' else ''project:read'')"

lemma kinds [simp]:
  "si_type (user_item names u) = ''user''" "si_type (hub_item h) = ''hub''" "si_type (server_item s) = ''server''"
  "si_type (project_item p) = ''project''"
  by (simp_all add: user_item_def hub_item_def server_item_def project_item_def split: prod.split)

lemma searched:
  assumes "if_allowed (allows p permission) (\<lambda>d. map item (take 8 (rows d))) fs d = (Inr found, fs', d')"
    and "\<And>x. search_permission (si_type (item x)) = permission"
  shows "d' = d \<and> length found \<le> 8 \<and> list_all (\<lambda>i. allows p (search_permission (si_type i))) found"
  using assms by (auto simp: if_allowed_def query_Inr list_all_iff split: if_splits)

text \<open>A search shows only what its caller may read everywhere: every item is of a kind the principal is globally allowed, and
  there are at most eight of a kind.\<close>

theorem search_respects_permissions:
  assumes "global_search_handler ordered names r fs d = (Inr items, fs', d')"
  shows "list_all (\<lambda>i. allows (rq_principal r) (search_permission (si_type i))) items \<and> length items \<le> 32 \<and> d' = d"
proof -
  let ?p = "rq_principal r"
  have "global_search ordered names (trim_space (rq_query r ''q'')) (search_access_of ?p) 8 fs d = (Inr items, fs', d')"
    using assms by (simp add: global_search_handler_def Let_def split: if_splits)
  then show ?thesis unfolding global_search_def search_access_of_def Let_def
  proof (elim tx_bindE, goal_cases)
    case (1 users fs1 d1 hubs fs2 d2 servers fs3 d3 projects fs4 d4)
    from 1 show ?case
      using searched [OF 1(1) [simplified]] searched [OF 1(2) [simplified]] searched [OF 1(3) [simplified]] searched [OF 1(4) [simplified]]
      by (simp add: search_permission_def)
  qed
qed

definition searched_store :: store_db where
  "searched_store = (fresh_store 5)\<lparr>db_hubs := [Hub_Properties.demo_hub],
     db_resources := [\<lparr>re_id = 4, re_kind = ''project'', re_name = ''lab'', re_status = ''active'', re_owner_user_id = None,
       re_data = JNull, re_created_by = None, re_updated_by = None, re_created_at = 0, re_updated_at = 0\<rparr>]\<rparr>"

definition search_lab :: request where
  "search_lab = (demo_request ''GET'' (\<lambda>_. []) (demo_principal [''project:read'']))\<lparr>rq_query := (\<lambda>_. ''LAB'')\<rparr>"

definition plain_order :: search_order where
  "plain_order = \<lparr>so_users = (\<lambda>rows. rows), so_hubs = (\<lambda>rows. rows), so_servers = (\<lambda>rows. rows), so_projects = (\<lambda>rows. rows)\<rparr>"

theorem search_respects_permissions_witness:
  "\<exists>item. global_search_handler plain_order (\<lambda>_. []) search_lab [] searched_store = (Inr [item], [], searched_store)
     \<and> si_type item = ''project'' \<and> si_path item = ''/projects?search=lab'' \<and> allows (rq_principal search_lab) ''project:read''"
proof -
  have "case global_search_handler plain_order (\<lambda>_. []) search_lab [] searched_store of
      (Inr items, fs, d) \<Rightarrow> length items = 1 \<and> map si_type items = [''project''] \<and> map si_path items = [''/projects?search=lab'']
        \<and> fs = [] \<and> d = searched_store | _ \<Rightarrow> False" by code_simp
  then obtain item where run: "global_search_handler plain_order (\<lambda>_. []) search_lab [] searched_store = (Inr [item], [], searched_store)"
    and "si_type item = ''project''" and "si_path item = ''/projects?search=lab''"
    by (auto simp: length_Suc_conv split: prod.splits sum.splits)
  with search_respects_permissions [OF run] show ?thesis by (simp add: search_permission_def)
qed

end
