(* ===== verification/Mcp.thy ===== *)
theory Mcp
  imports Live_View Usage_Report Approvals
begin

text \<open>The tool protocol for agents (\<^verbatim>\<open>internal/api/mcp_handlers.go\<close>): JSON-RPC over one handler, with four tools that read.
  A message is a decoded document; the raw members \<^verbatim>\<open>id\<close> and \<^verbatim>\<open>params\<close> are absent or a value.\<close>

section \<open>Headers\<close>

definition blank_or_tab :: "char \<Rightarrow> bool" where
  "blank_or_tab c = (c = CHR '' '' \<or> c = CHR 0x09)"

definition trim_header :: "string \<Rightarrow> string" where
  "trim_header v = trim_right blank_or_tab (trim_left blank_or_tab v)"

definition split_comma :: "string \<Rightarrow> string list" where
  "split_comma v = map trim_header (split_on (CHR '','') v)"

definition contains_header :: "string list \<Rightarrow> string \<Rightarrow> bool" where
  "contains_header given want = list_ex (\<lambda>v. want \<in> set (split_comma v)) given"

definition accepts_sse :: "string list \<Rightarrow> bool" where
  "accepts_sse accept = contains_header accept ''text/event-stream''"

section \<open>Messages\<close>

record rpc_request =
  jq_version :: string
  jq_id :: "json option"
  jq_method :: string
  jq_params :: "json option"

definition decode_rpc :: "json option \<Rightarrow> rpc_request option" where
  "decode_rpc body =
     (case Option.bind body object_members of
        None \<Rightarrow> None
      | Some m \<Rightarrow>
          (case (string_field m ''jsonrpc'', string_field m ''method'') of
             (Some v, Some name) \<Rightarrow>
               Some \<lparr>jq_version = v, jq_id = map_of m ''id'', jq_method = name, jq_params = map_of m ''params''\<rparr>
           | _ \<Rightarrow> None))"

datatype tool_data = DashboardData json_object | HubsData "hub list" | ServersData "server_view list" | UsageData usage_report

datatype tool_error = BadParams | NotPermitted | BadFrom | BadTo | BadRange | UnknownTool | StoreError metric_error

datatype rpc_result = Initialized | Pong | Tools "string list" | ToolFailed tool_error | ToolAnswer tool_data

datatype rpc_reply = Accepted | RpcResult json rpc_result bool | RpcError "json option" int bool
  \<comment> \<open>the id and whether the answer is sent as an event\<close>

definition write_result :: "bool \<Rightarrow> json option \<Rightarrow> rpc_result \<Rightarrow> rpc_reply" where
  \<comment> \<open>a message without an id gets no answer\<close>
  "write_result sse request_id result =
     (case request_id of None \<Rightarrow> Accepted | Some i \<Rightarrow> RpcResult i result sse)"

section \<open>Tools\<close>

definition mcp_tools :: "string list" where
  "mcp_tools = [''jupiq.dashboard'', ''jupiq.list_hubs'', ''jupiq.list_servers'', ''jupiq.usage'']"

definition tool_permission :: "string \<Rightarrow> string" where
  \<comment> \<open>empty for another tool\<close>
  "tool_permission name =
     (case map_of [(''jupiq.dashboard'', ''dashboard:read''), (''jupiq.list_hubs'', ''hubs:read''),
        (''jupiq.list_servers'', ''servers:read''), (''jupiq.usage'', ''usage:read'')] name of None \<Rightarrow> [] | Some p \<Rightarrow> p)"

record mcp_env =
  mp_live :: live_env
  mp_usage :: usage_env
  mp_server_ordered :: "string \<Rightarrow> server_row list \<Rightarrow> server_row list"
  mp_parse_time :: "string \<Rightarrow> time option"
  mp_parse_float :: "string \<Rightarrow> rat"

definition decode_call :: "json option \<Rightarrow> (string \<times> json_object) option" where
  "decode_call params =
     (case Option.bind params object_members of
        None \<Rightarrow> None
      | Some m \<Rightarrow>
          (case (string_field m ''name'', object_members (lookup m ''arguments'')) of
             (Some name, Some arguments) \<Rightarrow> Some (name, arguments)
           | _ \<Rightarrow> None))"

definition time_argument :: "mcp_env \<Rightarrow> json_object \<Rightarrow> string \<Rightarrow> tool_error \<Rightarrow> time \<Rightarrow> (tool_error, time) res" where
  \<comment> \<open>an argument that is no text counts as none\<close>
  "time_argument env arguments key e fallback =
     (case lookup arguments key of
        JStr s \<Rightarrow> (case mp_parse_time env s of None \<Rightarrow> Inl e | Some t \<Rightarrow> Inr t)
      | _ \<Rightarrow> Inr fallback)"

definition usage_range :: "mcp_env \<Rightarrow> json_object \<Rightarrow> (tool_error, time \<times> time) res" where
  "usage_range env arguments =
     (let now = ue_now (mp_usage env)
      in res_bind (time_argument env arguments ''from'' BadFrom (now - 30 * day)) (\<lambda>from.
         res_bind (time_argument env arguments ''to'' BadTo now) (\<lambda>until.
         if \<not> from < until \<or> 366 * day < until - from then Inl BadRange else Inr (from, until))))"

definition answered :: "('a \<Rightarrow> tool_data) \<Rightarrow> 'a metric_tx \<Rightarrow> (tool_error, tool_data) res metric_tx" where
  "answered f m =
     tx_bind (tx_try m) (\<lambda>r. tx_return (case r of Inl e \<Rightarrow> Inl (StoreError e) | Inr a \<Rightarrow> Inr (f a)))"

definition run_tool :: "mcp_env \<Rightarrow> string \<Rightarrow> json_object \<Rightarrow> (tool_error, tool_data) res metric_tx" where
  "run_tool env name arguments =
     (if name = ''jupiq.dashboard'' then answered DashboardData (live_snapshot (mp_live env))
      else if name = ''jupiq.list_hubs'' then
        answered HubsData (on_store (list_hubs_with_access (le_hub_ordered (mp_live env)) \<lparr>af_global = True, af_groups = []\<rparr>))
      else if name = ''jupiq.list_servers'' then
        answered (ServersData o fst) (on_store (list_servers (mp_server_ordered env) 1 200
          (id_from_any (mp_parse_float env) (lookup arguments ''hub_id''))
          (string_or_empty (lookup arguments ''status'')) (string_or_empty (lookup arguments ''search''))
          \<lparr>af_global = True, af_groups = []\<rparr> \<lparr>so_key = [], so_direction = []\<rparr>))
      else if name = ''jupiq.usage'' then
        (case usage_range env arguments of
           Inl e \<Rightarrow> tx_return (Inl e)
         | Inr (from, until) \<Rightarrow>
             answered UsageData (usage (mp_usage env) from until (string_or_empty (lookup arguments ''granularity''))
               (string_or_empty (lookup arguments ''group_by''))))
      else tx_return (Inl UnknownTool))"

definition mcp_tool_call :: "mcp_env \<Rightarrow> request \<Rightarrow> json option \<Rightarrow> (tool_error, tool_data) res metric_tx" where
  "mcp_tool_call env r params =
     (case decode_call params of
        None \<Rightarrow> tx_return (Inl BadParams)
      | Some (name, arguments) \<Rightarrow>
          if tool_permission name \<noteq> [] \<and> \<not> allows (rq_principal r) (tool_permission name) then tx_return (Inl NotPermitted)
          else run_tool env name arguments)"

section \<open>The handler\<close>

definition mcp :: "mcp_env \<Rightarrow> string list \<Rightarrow> json option \<Rightarrow> request \<Rightarrow> rpc_reply metric_tx" where
  \<comment> \<open>\<open>body\<close> is the document of the request, \<open>None\<close> one that does not decode\<close>
  "mcp env accept body r =
     (let sse = accepts_sse accept
      in case decode_rpc body of
           None \<Rightarrow> tx_return (RpcError None (-32700) sse)
         | Some q \<Rightarrow>
             if jq_version q \<noteq> ''2.0'' \<or> jq_method q = [] then tx_return (RpcError (jq_id q) (-32600) sse)
             else if jq_method q = ''notifications/initialized'' then tx_return Accepted
             else if jq_method q = ''initialize'' then tx_return (write_result sse (jq_id q) Initialized)
             else if jq_method q = ''ping'' then tx_return (write_result sse (jq_id q) Pong)
             else if jq_method q = ''tools/list'' then tx_return (write_result sse (jq_id q) (Tools mcp_tools))
             else if jq_method q = ''tools/call'' then
               tx_bind (mcp_tool_call env r (jq_params q)) (\<lambda>result.
               tx_return (write_result sse (jq_id q) (case result of Inl e \<Rightarrow> ToolFailed e | Inr data \<Rightarrow> ToolAnswer data)))
             else tx_return (RpcError (jq_id q) (-32601) sse))"

section \<open>The tools read, and only what the caller may read\<close>

definition data_permission :: "tool_data \<Rightarrow> string" where
  "data_permission data =
     (case data of DashboardData _ \<Rightarrow> ''dashboard:read'' | HubsData _ \<Rightarrow> ''hubs:read'' | ServersData _ \<Rightarrow> ''servers:read''
      | UsageData _ \<Rightarrow> ''usage:read'')"

definition permitted_reply :: "principal \<Rightarrow> rpc_reply \<Rightarrow> bool" where
  "permitted_reply p reply =
     (case reply of RpcResult _ (ToolAnswer data) _ \<Rightarrow> allows p (data_permission data) | _ \<Rightarrow> True)"

lemma keeps_answered [inv_intros]: "keeps I m \<Longrightarrow> keeps I (answered f m)"
  unfolding answered_def by (intro inv_intros)

lemma answered_data: "answered f m fs t = (Inr (Inr data), fs', t') \<Longrightarrow> \<exists>a. data = f a"
  by (cases "m fs t") (auto simp: answered_def tx_bind_def tx_try_def tx_return_def split: sum.splits)

lemma keeps_attempt: "keeps I m \<Longrightarrow> keeps I (attempt m)"
  unfolding keeps_def attempt_def by (intro allI impI) (auto split: prod.splits)

lemma keeps_list_servers: "keeps I (list_servers ordered page page_size hid status search access s)"
  unfolding list_servers_def Let_def get_setting_def by (intro inv_intros keeps_attempt)

lemma keeps_run_tool: "keeps I (run_tool env name arguments)"
  unfolding run_tool_def list_hubs_with_access_def
  by (intro inv_intros keeps_live_snapshot keeps_usage keeps_on_store_read keeps_list_servers)

lemma tool_data_permission:
  assumes "run_tool env name arguments fs t = (Inr (Inr data), fs', t')"
  shows "tool_permission name = data_permission data"
  using assms
  by (auto simp: run_tool_def tool_permission_def data_permission_def split: if_splits sum.splits dest!: answered_data)

lemma permission_not_empty: "data_permission data \<noteq> []"
  by (simp add: data_permission_def split: tool_data.split)

lemma tool_call_permitted:
  assumes "mcp_tool_call env r params fs t = (Inr (Inr data), fs', t')"
  shows "allows (rq_principal r) (data_permission data)"
  using assms tool_data_permission permission_not_empty
  by (auto simp: mcp_tool_call_def split: option.splits prod.splits if_splits)

text \<open>C30: What an agent gets of the tools changes nothing and is what its principal may read: an answer with data of a kind is only
  given to a principal allowed the permission of that kind, whatever was asked for and however the reads fail.\<close>

theorem mcp_reads_permitted:
  assumes "mcp env accept body r fs t = (Inr reply, fs', t')"
  shows "t' = t \<and> permitted_reply (rq_principal r) reply"
proof -
  have reads: "keeps I (mcp_tool_call env r params)" for I params
    unfolding mcp_tool_call_def by (intro inv_intros keeps_run_tool)
  have "keeps (\<lambda>x. x = t) (mcp env accept body r)"
    unfolding mcp_def Let_def by (intro inv_intros reads)
  from keepsD [OF this refl assms] have "t' = t" .
  moreover have "permitted_reply (rq_principal r) reply"
    using assms
    by (auto simp: mcp_def Let_def tx_bind_Inr permitted_reply_def write_result_def
        split: option.splits if_splits sum.splits rpc_reply.splits rpc_result.splits dest: tool_call_permitted)
  ultimately show ?thesis ..
qed

definition agent_env :: mcp_env where
  "agent_env = \<lparr>mp_live = gpu_env, mp_usage = plain_usage, mp_server_ordered = (\<lambda>_ rows. rows), mp_parse_time = (\<lambda>_. None),
     mp_parse_float = (\<lambda>_. 0)\<rparr>"

definition agent_call :: json where
  "agent_call = JObj [(''jsonrpc'', JStr ''2.0''), (''id'', JNum 1), (''method'', JStr ''tools/call''),
     (''params'', JObj [(''name'', JStr ''jupiq.list_servers''), (''arguments'', JObj [(''status'', JStr ''running'')])])]"

definition agent :: request where
  "agent = demo_request ''POST'' (\<lambda>_. []) (demo_principal [''mcp:use'', ''servers:read''])"

theorem mcp_reads_permitted_witness:
  "\<exists>v fs. mcp agent_env [''application/json, text/event-stream''] (Some agent_call) agent [] lab_tables
       = (Inr (RpcResult (JNum 1) (ToolAnswer (ServersData [v])) True), fs, lab_tables)
     \<and> sv_username (vv_row v) = ''ana'' \<and> allows (rq_principal agent) ''servers:read''"
proof -
  let ?listed = "on_store (list_servers (mp_server_ordered agent_env) 1 200 0 ''running'' [] \<lparr>af_global = True, af_groups = []\<rparr>
      \<lparr>so_key = [], so_direction = []\<rparr>) [] lab_tables"
  have "case ?listed of (Inr (vs, p), fs, t) \<Rightarrow> map (sv_username o vv_row) vs = [''ana''] \<and> t = lab_tables | _ \<Rightarrow> False" by code_simp
  then obtain v p fs where listed: "?listed = (Inr ([v], p), fs, lab_tables)" and ana: "sv_username (vv_row v) = ''ana''"
    by (auto split: prod.splits sum.splits)
  have decoded: "decode_rpc (Some agent_call) = Some \<lparr>jq_version = ''2.0'', jq_id = Some (JNum 1), jq_method = ''tools/call'',
      jq_params = Some (JObj [(''name'', JStr ''jupiq.list_servers''), (''arguments'', JObj [(''status'', JStr ''running'')])])\<rparr>"
    "decode_call (Some (JObj [(''name'', JStr ''jupiq.list_servers''), (''arguments'', JObj [(''status'', JStr ''running'')])]))
      = Some (''jupiq.list_servers'', [(''status'', JStr ''running'')])"
    by code_simp+
  have may: "allows (rq_principal agent) ''servers:read''" and sse: "accepts_sse [''application/json, text/event-stream'']"
    by code_simp+
  have arguments: "id_from_any (mp_parse_float agent_env) (lookup [(''status'', JStr ''running'')] ''hub_id'') = 0"
    "string_or_empty (lookup [(''status'', JStr ''running'')] ''status'') = ''running''"
    "string_or_empty (lookup [(''status'', JStr ''running'')] ''search'') = []"
    by code_simp+
  have run: "mcp agent_env [''application/json, text/event-stream''] (Some agent_call) agent [] lab_tables
      = (Inr (RpcResult (JNum 1) (ToolAnswer (ServersData [v])) True), fs, lab_tables)"
    using may sse by (simp add: mcp_def decoded mcp_tool_call_def tool_permission_def run_tool_def arguments answered_def
        tx_bind_def tx_try_def tx_return_def listed write_result_def)
  from mcp_reads_permitted [OF run] run ana show ?thesis
    by (auto simp: permitted_reply_def data_permission_def)
qed

end
