(* ===== verification/Secure.thy ===== *)
theory Secure
  imports Go_Strings
begin

text \<open>Secrets at rest and the environment of the process (\<^verbatim>\<open>internal/secure/cipher.go\<close>,
  \<^verbatim>\<open>internal/config/config.go\<close>): sealed values in URL-safe base64, random tokens, and the encryption key in any of its
  spellings. AES-GCM, HMAC-SHA256, SHA-256 and the random source are parameters; \<^verbatim>\<open>encoding/base64\<close> and
  \<^verbatim>\<open>encoding/hex\<close> are written out.\<close>

section \<open>Base64 and hexadecimal\<close>

definition alphabet :: "string \<Rightarrow> string" where
  \<comment> \<open>the last two digits tell the standard from the URL-safe alphabet\<close>
  "alphabet last_two = ''ABCDEFGHIJKLMNOPQRSTUVWXYZabcdefghijklmnopqrstuvwxyz0123456789'' @ last_two"

definition std_digits :: string where "std_digits = alphabet ''+/''"

definition url_digits :: string where "url_digits = alphabet ''-_''"

definition byte_value :: "char \<Rightarrow> nat" where "byte_value c = of_char c"

definition byte_char :: "nat \<Rightarrow> char" where "byte_char n = char_of n"

fun raw_encode :: "string \<Rightarrow> string \<Rightarrow> string" where
  "raw_encode ds [] = []"
| "raw_encode ds [x] = [ds ! (byte_value x div 4), ds ! (byte_value x mod 4 * 16)]"
| "raw_encode ds [x, y] =
     [ds ! (byte_value x div 4), ds ! (byte_value x mod 4 * 16 + byte_value y div 16), ds ! (byte_value y mod 16 * 4)]"
| "raw_encode ds (x # y # z # rest) =
     [ds ! (byte_value x div 4), ds ! (byte_value x mod 4 * 16 + byte_value y div 16),
      ds ! (byte_value y mod 16 * 4 + byte_value z div 64), ds ! (byte_value z mod 64)] @ raw_encode ds rest"

definition std_encode :: "string \<Rightarrow> string" where
  \<comment> \<open>with padding\<close>
  "std_encode s = raw_encode std_digits s @ replicate ((3 - length s mod 3) mod 3) (CHR ''='')"

fun digit_index :: "string \<Rightarrow> char \<Rightarrow> nat option" where
  "digit_index [] c = None"
| "digit_index (d # ds) c = (if c = d then Some 0 else map_option Suc (digit_index ds c))"

definition one_byte :: "nat \<Rightarrow> nat \<Rightarrow> string" where
  \<comment> \<open>the bits left over are not checked\<close>
  "one_byte a b = [byte_char (a * 4 + b div 16)]"

definition two_bytes :: "nat \<Rightarrow> nat \<Rightarrow> nat \<Rightarrow> string" where
  "two_bytes a b c = [byte_char (a * 4 + b div 16), byte_char (b mod 16 * 16 + c div 4)]"

definition three_bytes :: "nat \<Rightarrow> nat \<Rightarrow> nat \<Rightarrow> nat \<Rightarrow> string" where
  "three_bytes a b c d = [byte_char (a * 4 + b div 16), byte_char (b mod 16 * 16 + c div 4), byte_char (c mod 4 * 64 + d)]"

definition both :: "('a \<Rightarrow> 'b \<Rightarrow> 'c) \<Rightarrow> 'a option \<Rightarrow> 'b option \<Rightarrow> 'c option" where
  "both f x y = (case (x, y) of (Some a, Some b) \<Rightarrow> Some (f a b) | _ \<Rightarrow> None)"

definition decode_two :: "string \<Rightarrow> char \<Rightarrow> char \<Rightarrow> string option" where
  "decode_two ds a b = both one_byte (digit_index ds a) (digit_index ds b)"

definition decode_three :: "string \<Rightarrow> char \<Rightarrow> char \<Rightarrow> char \<Rightarrow> string option" where
  "decode_three ds a b c = both (\<lambda>f x. f x) (both two_bytes (digit_index ds a) (digit_index ds b)) (digit_index ds c)"

definition decode_four :: "string \<Rightarrow> char \<Rightarrow> char \<Rightarrow> char \<Rightarrow> char \<Rightarrow> string option" where
  "decode_four ds a b c d =
     both (\<lambda>f x. f x) (both (\<lambda>f x. f x) (both three_bytes (digit_index ds a) (digit_index ds b)) (digit_index ds c)) (digit_index ds d)"

fun raw_decode :: "string \<Rightarrow> string \<Rightarrow> string option" where
  "raw_decode ds [] = Some []"
| "raw_decode ds [a] = None"
| "raw_decode ds [a, b] = decode_two ds a b"
| "raw_decode ds [a, b, c] = decode_three ds a b c"
| "raw_decode ds (a # b # c # d # rest) = both (@) (decode_four ds a b c d) (raw_decode ds rest)"

fun padded_decode :: "string \<Rightarrow> string \<Rightarrow> string option" where
  "padded_decode ds [] = Some []"
| "padded_decode ds (a # b # c # d # rest) =
     (if c = CHR ''='' then if d = CHR ''='' \<and> rest = [] then decode_two ds a b else None
      else if d = CHR ''='' then if rest = [] then decode_three ds a b c else None
      else both (@) (decode_four ds a b c d) (padded_decode ds rest))"
| "padded_decode ds _ = None"

definition without_newlines :: "string \<Rightarrow> string" where
  \<comment> \<open>the decoders skip line ends wherever they are\<close>
  "without_newlines s = filter (\<lambda>c. c \<noteq> CHR 0x0A \<and> c \<noteq> CHR 0x0D) s"

definition decode_url :: "string \<Rightarrow> string option" where
  \<comment> \<open>\<^verbatim>\<open>base64.RawURLEncoding.DecodeString\<close>\<close>
  "decode_url s = raw_decode url_digits (without_newlines s)"

definition decode_std :: "string \<Rightarrow> string option" where
  "decode_std s = padded_decode std_digits (without_newlines s)"

definition decode_raw_std :: "string \<Rightarrow> string option" where
  "decode_raw_std s = raw_decode std_digits (without_newlines s)"

definition lower_hex :: string where "lower_hex = ''0123456789abcdef''"

definition hex_digit :: "char \<Rightarrow> nat option" where
  "hex_digit c =
     (case digit_index lower_hex c of Some n \<Rightarrow> Some n | None \<Rightarrow> digit_index ''0123456789ABCDEF'' c)"

fun decode_hex :: "string \<Rightarrow> string option" where
  "decode_hex [] = Some []"
| "decode_hex [a] = None"
| "decode_hex (a # b # rest) =
     both (\<lambda>c s. c # s) (both (\<lambda>x y. byte_char (x * 16 + y)) (hex_digit a) (hex_digit b)) (decode_hex rest)"

fun encode_hex :: "string \<Rightarrow> string" where
  "encode_hex [] = []"
| "encode_hex (c # s) =
     lower_hex ! (byte_value c div 16) # lower_hex ! (byte_value c mod 16) # encode_hex s"

section \<open>The cipher\<close>

text \<open>\<open>ci_seal\<close> and \<open>ci_open\<close> are AES-GCM under the key, with the nonce, the text and the additional data as
  arguments; \<open>ci_mac\<close> is HMAC-SHA256. A source of randomness gives that many bytes or fails.\<close>

record cipher =
  ci_seal :: "string \<Rightarrow> string \<Rightarrow> string \<Rightarrow> string"
  ci_open :: "string \<Rightarrow> string \<Rightarrow> string \<Rightarrow> string option"
  ci_mac :: "string \<Rightarrow> string \<Rightarrow> string"
  ci_key :: string

datatype secure_error = WrongKeySize | NoRandomness | Truncated | NotAuthentic string | BadEncoding | BadTokenSize

type_synonym randomness = "nat \<Rightarrow> string option"

definition nonce_size :: nat where
  \<comment> \<open>the standard one of GCM\<close>
  "nonce_size = 12"

definition new_cipher :: "(string \<Rightarrow> string \<Rightarrow> string \<Rightarrow> string \<Rightarrow> string) \<Rightarrow> (string \<Rightarrow> string \<Rightarrow> string \<Rightarrow> string \<Rightarrow> string option)
    \<Rightarrow> (string \<Rightarrow> string \<Rightarrow> string) \<Rightarrow> string \<Rightarrow> (secure_error, cipher) res" where
  "new_cipher seal_with open_with mac key =
     (if length key \<noteq> 32 then Inl WrongKeySize
      else Inr \<lparr>ci_seal = seal_with key, ci_open = open_with key, ci_mac = mac, ci_key = key\<rparr>)"

definition encrypt :: "cipher \<Rightarrow> randomness \<Rightarrow> string \<Rightarrow> string \<Rightarrow> (secure_error, string) res" where
  "encrypt c random plaintext what =
     (case random nonce_size of None \<Rightarrow> Inl NoRandomness | Some nonce \<Rightarrow> Inr (nonce @ ci_seal c nonce plaintext what))"

definition decrypt :: "cipher \<Rightarrow> string \<Rightarrow> string \<Rightarrow> (secure_error, string) res" where
  "decrypt c blob what =
     (if length blob < nonce_size then Inl Truncated
      else case ci_open c (take nonce_size blob) (drop nonce_size blob) what of
        None \<Rightarrow> Inl (NotAuthentic what) | Some plaintext \<Rightarrow> Inr plaintext)"

definition encrypt_string :: "cipher \<Rightarrow> randomness \<Rightarrow> string \<Rightarrow> string \<Rightarrow> (secure_error, string) res" where
  "encrypt_string c random v what = res_bind (encrypt c random v what) (\<lambda>b. Inr (raw_encode url_digits b))"

definition decrypt_string :: "cipher \<Rightarrow> string \<Rightarrow> string \<Rightarrow> (secure_error, string) res" where
  "decrypt_string c v what =
     (case decode_url v of None \<Rightarrow> Inl BadEncoding | Some b \<Rightarrow> decrypt c b what)"

definition derive :: "cipher \<Rightarrow> string \<Rightarrow> string" where
  "derive c label = ci_mac c (ci_key c) (''jupiq:'' @ label)"

definition random_token :: "randomness \<Rightarrow> int \<Rightarrow> (secure_error, string) res" where
  "random_token random n =
     (if n \<le> 0 then Inl BadTokenSize
      else case random (nat n) of None \<Rightarrow> Inl NoRandomness | Some b \<Rightarrow> Inr (raw_encode url_digits b))"

section \<open>The environment of the process\<close>

definition parse_encryption_key :: "string \<Rightarrow> (secure_error, string) res" where
  \<comment> \<open>the first decoder that yields 32 bytes, or the text itself\<close>
  "parse_encryption_key v =
     (case find (\<lambda>k. length k = 32) (List.map_filter (\<lambda>decode. decode v) [decode_std, decode_raw_std, decode_hex]) of
        Some k \<Rightarrow> Inr k
      | None \<Rightarrow> if length v = 32 then Inr v else Inl WrongKeySize)"

record environment =
  en_dsn :: string
  en_admin :: string
  en_password :: string
  en_key :: string

record process_config =
  pr_dsn :: string
  pr_admin :: string
  pr_password :: string
  pr_key :: string

datatype problem = MissingVariables "string list" | UnusableKey secure_error | ShortPassword

definition missing_variables :: "environment \<Rightarrow> string list" where
  "missing_variables env =
     map fst (filter (\<lambda>(name, v). v = [])
       [(''POSTGRES_DSN'', trim_space (en_dsn env)), (''BOOTSTRAP_ADMIN'', trim_space (en_admin env)),
        (''BOOTSTRAP_ADMIN_PASSWORD'', en_password env), (''ENCRYPTION_KEY'', trim_space (en_key env))])"

definition load :: "environment \<Rightarrow> (problem list, process_config) res" where
  "load env =
     (let key_text = trim_space (en_key env); missing = missing_variables env; key = parse_encryption_key key_text;
          problems = (if missing \<noteq> [] then [MissingVariables missing] else [])
            @ (if key_text = [] then [] else case key of Inl e \<Rightarrow> [UnusableKey e] | Inr _ \<Rightarrow> [])
            @ (if en_password env \<noteq> [] \<and> length (en_password env) < 12 then [ShortPassword] else [])
      in if problems \<noteq> [] then Inl problems
         else Inr \<lparr>pr_dsn = trim_space (en_dsn env), pr_admin = trim_space (en_admin env), pr_password = en_password env,
           pr_key = (case key of Inl _ \<Rightarrow> [] | Inr k \<Rightarrow> k)\<rparr>)"

section \<open>Encoding and decoding\<close>

lemma byte_value_less [simp]: "byte_value c < 256"
  by (simp add: byte_value_def)

lemma byte_char_value [simp]: "byte_char (byte_value c) = c"
  by (simp add: byte_char_def byte_value_def)

lemma both_simps [simp]: "both f (Some a) (Some b) = Some (f a b)" "both f None y = None" "both f x None = None"
  by (auto simp: both_def split: option.split)

lemma both_Some_iff: "both f x y = Some z \<longleftrightarrow> (\<exists>a b. x = Some a \<and> y = Some b \<and> z = f a b)"
  by (auto simp: both_def split: option.split)

lemma digit_index_nth: "distinct ds \<Longrightarrow> n < length ds \<Longrightarrow> digit_index ds (ds ! n) = Some n"
  by (induction ds arbitrary: n) (auto simp: nth_Cons split: nat.split)

lemma digit_index_None: "c \<notin> set ds \<Longrightarrow> digit_index ds c = None"
  by (induction ds) auto

definition base64_digits :: "string \<Rightarrow> bool" where
  "base64_digits ds = (length ds = 64 \<and> distinct ds \<and> CHR ''='' \<notin> set ds \<and> CHR 0x0A \<notin> set ds \<and> CHR 0x0D \<notin> set ds)"

lemma base64_alphabets [simp]: "base64_digits std_digits" "base64_digits url_digits"
  by code_simp+

lemma index_of_digit: "base64_digits ds \<Longrightarrow> n < 64 \<Longrightarrow> digit_index ds (ds ! n) = Some n"
  by (simp add: base64_digits_def digit_index_nth)

lemma digit_not_pad: "base64_digits ds \<Longrightarrow> n < 64 \<Longrightarrow> ds ! n \<noteq> CHR ''=''"
  by (metis base64_digits_def nth_mem)

lemma sextets:
  fixes x y z :: nat
  assumes "x < 256" "y < 256" "z < 256"
  shows "x div 4 < 64" "x mod 4 * 16 < 64" "x mod 4 * 16 + y div 16 < 64" "y mod 16 * 4 < 64" "y mod 16 * 4 + z div 64 < 64" "z mod 64 < 64"
    and "x div 4 * 4 + x mod 4 * 16 div 16 = x"
    and "x div 4 * 4 + (x mod 4 * 16 + y div 16) div 16 = x"
    and "(x mod 4 * 16 + y div 16) mod 16 * 16 + y mod 16 * 4 div 4 = y"
    and "(x mod 4 * 16 + y div 16) mod 16 * 16 + (y mod 16 * 4 + z div 64) div 4 = y"
    and "(y mod 16 * 4 + z div 64) mod 4 * 64 + z mod 64 = z"
proof -
  have xm: "x mod 4 < 4" and yd: "y div 16 < 16" and ym: "y mod 16 < 16" and zd: "z div 64 < 4"
    using assms by auto
  show "x div 4 < 64" "x mod 4 * 16 < 64" "x mod 4 * 16 + y div 16 < 64" "y mod 16 * 4 < 64" "y mod 16 * 4 + z div 64 < 64" "z mod 64 < 64"
    using assms xm yd ym zd by linarith+
  show "x div 4 * 4 + x mod 4 * 16 div 16 = x" by simp
  have b: "(x mod 4 * 16 + y div 16) div 16 = x mod 4" "(x mod 4 * 16 + y div 16) mod 16 = y div 16"
    using yd by (simp_all add: div_mult_self3 mod_mult_self3)
  have c: "(y mod 16 * 4 + z div 64) div 4 = y mod 16" "(y mod 16 * 4 + z div 64) mod 4 = z div 64"
    using zd by (simp_all add: div_mult_self3 mod_mult_self3)
  show "x div 4 * 4 + (x mod 4 * 16 + y div 16) div 16 = x" unfolding b by simp
  show "(x mod 4 * 16 + y div 16) mod 16 * 16 + y mod 16 * 4 div 4 = y" unfolding b by simp
  show "(x mod 4 * 16 + y div 16) mod 16 * 16 + (y mod 16 * 4 + z div 64) div 4 = y" unfolding b c by simp
  show "(y mod 16 * 4 + z div 64) mod 4 * 64 + z mod 64 = z" unfolding c by simp
qed

lemmas byte_sextets = sextets [OF byte_value_less byte_value_less byte_value_less]

lemma decoded_groups:
  assumes "base64_digits ds"
  shows "decode_two ds (ds ! (byte_value x div 4)) (ds ! (byte_value x mod 4 * 16)) = Some [x]"
    and "decode_three ds (ds ! (byte_value x div 4)) (ds ! (byte_value x mod 4 * 16 + byte_value y div 16)) (ds ! (byte_value y mod 16 * 4)) = Some [x, y]"
    and "decode_four ds (ds ! (byte_value x div 4)) (ds ! (byte_value x mod 4 * 16 + byte_value y div 16))
      (ds ! (byte_value y mod 16 * 4 + byte_value z div 64)) (ds ! (byte_value z mod 64)) = Some [x, y, z]"
  unfolding decode_two_def decode_three_def decode_four_def one_byte_def two_bytes_def three_bytes_def
  by (simp_all only: index_of_digit [OF assms] byte_sextets both_simps byte_char_value)

lemma raw_round_trip: "base64_digits ds \<Longrightarrow> raw_decode ds (raw_encode ds s) = Some s"
  by (induction ds s rule: raw_encode.induct) (simp_all only: raw_encode.simps raw_decode.simps append.simps decoded_groups both_simps)

lemma set_raw_encode: "base64_digits ds \<Longrightarrow> set (raw_encode ds s) \<subseteq> set ds"
  by (induction ds s rule: raw_encode.induct) (auto simp: base64_digits_def byte_sextets intro!: nth_mem)

lemma no_newlines: "base64_digits ds \<Longrightarrow> set s \<subseteq> insert (CHR ''='') (set ds) \<Longrightarrow> without_newlines s = s"
  unfolding without_newlines_def base64_digits_def by (intro filter_True) (auto dest: subsetD)

lemma length_raw_encode: "length (raw_encode ds s) = (4 * length s + 2) div 3"
  by (induction ds s rule: raw_encode.induct) auto

lemma length_both_four: "decode_four ds a b c d = Some r \<Longrightarrow> length r = 3"
  by (auto simp: decode_four_def three_bytes_def both_Some_iff)

lemma length_decode_groups:
  "decode_two ds a b = Some r \<Longrightarrow> length r = 1" "decode_three ds a b c = Some r \<Longrightarrow> length r = 2"
  by (auto simp: decode_two_def decode_three_def one_byte_def two_bytes_def both_Some_iff)

lemmas length_groups = length_decode_groups length_both_four

lemma length_raw_decode: "raw_decode ds s = Some r \<Longrightarrow> length r = length s * 3 div 4"
  by (induction ds s arbitrary: r rule: raw_decode.induct) (auto simp: both_Some_iff dest!: length_groups)

lemma length_padded_decode:
  "padded_decode ds s = Some r \<Longrightarrow> length s mod 4 = 0 \<and> length r \<le> length s * 3 div 4
     \<and> (CHR ''='' \<notin> set s \<longrightarrow> length r = length s * 3 div 4)"
proof (induction ds s arbitrary: r rule: padded_decode.induct)
  case (2 ds a b c d rest)
  then show ?case by (auto simp: both_Some_iff split: if_splits dest!: length_groups)
qed auto

lemma length_decode_hex: "decode_hex s = Some r \<Longrightarrow> length s = 2 * length r"
  by (induction s arbitrary: r rule: decode_hex.induct) (auto simp: both_Some_iff)

lemma length_without_newlines: "length (without_newlines s) \<le> length s"
  by (simp add: without_newlines_def)

lemma short_decodes:
  assumes "length s \<le> 32"
  shows "decode_std s = Some r \<Longrightarrow> length r \<noteq> 32" "decode_raw_std s = Some r \<Longrightarrow> length r \<noteq> 32" "decode_hex s = Some r \<Longrightarrow> length r \<noteq> 32"
  using assms length_without_newlines [of s]
  by (auto simp: decode_std_def decode_raw_std_def dest!: length_raw_decode length_padded_decode length_decode_hex)

lemma padded_round_trip:
  "base64_digits ds \<Longrightarrow> padded_decode ds (raw_encode ds s @ replicate ((3 - length s mod 3) mod 3) (CHR ''='')) = Some s"
proof (induction ds s rule: raw_encode.induct)
  case (4 ds x y z rest)
  note simps = digit_not_pad [OF 4(2) byte_sextets(5)] digit_not_pad [OF 4(2) byte_sextets(6)]
  have "length (x # y # z # rest) mod 3 = length rest mod 3" by simp
  with 4 show ?case by (simp add: simps decoded_groups)
next
  case (3 ds x y)
  then show ?case using digit_not_pad [OF 3 byte_sextets(4)] by (simp add: decoded_groups numeral_2_eq_2)
qed (simp_all add: decoded_groups numeral_2_eq_2)

lemma encoded_clean: "without_newlines (raw_encode std_digits s @ replicate n (CHR ''='')) = raw_encode std_digits s @ replicate n (CHR ''='')"
  by (rule no_newlines [of std_digits]) (auto dest: subsetD [OF set_raw_encode [OF base64_alphabets(1)]])

lemma std_round_trip: "decode_std (std_encode s) = Some s"
  unfolding decode_std_def std_encode_def encoded_clean by (rule padded_round_trip) simp

lemma raw_std_round_trip: "decode_raw_std (raw_encode std_digits s) = Some s"
  using encoded_clean [of s 0] by (simp add: decode_raw_std_def raw_round_trip)

lemma url_round_trip: "decode_url (raw_encode url_digits s) = Some s"
proof -
  have "without_newlines (raw_encode url_digits s) = raw_encode url_digits s"
    by (rule no_newlines [of url_digits]) (auto dest: subsetD [OF set_raw_encode [OF base64_alphabets(2)]])
  then show ?thesis by (simp add: decode_url_def raw_round_trip)
qed

lemma lower_hex: "length lower_hex = 16" "distinct lower_hex" "CHR ''='' \<notin> set lower_hex" "CHR 0x0A \<notin> set lower_hex" "CHR 0x0D \<notin> set lower_hex"
  by code_simp+

lemma hex_digit_nth: "n < 16 \<Longrightarrow> hex_digit (lower_hex ! n) = Some n"
  by (simp add: hex_digit_def digit_index_nth lower_hex)

lemma byte_nibbles [simp]: "byte_value c div 16 < 16" "byte_value c div 16 * 16 + byte_value c mod 16 = byte_value c"
  using byte_value_less [of c] by (linarith, simp)

lemma hex_round_trip: "decode_hex (encode_hex s) = Some s"
  by (induction s) (simp_all add: hex_digit_nth)

lemma length_encode_hex: "length (encode_hex s) = 2 * length s"
  by (induction s) auto

lemma set_encode_hex: "set (encode_hex s) \<subseteq> set lower_hex"
  by (induction s) (simp_all add: lower_hex)

lemma hex_is_not_base64:
  assumes "length k = 32"
  shows "decode_std (encode_hex k) = Some r \<Longrightarrow> length r \<noteq> 32" "decode_raw_std (encode_hex k) = Some r \<Longrightarrow> length r \<noteq> 32"
proof -
  have clean: "without_newlines (encode_hex k) = encode_hex k" and pad: "CHR ''='' \<notin> set (encode_hex k)"
    using set_encode_hex [of k] lower_hex(3-5) by (auto simp: without_newlines_def intro!: filter_True)
  show "decode_std (encode_hex k) = Some r \<Longrightarrow> length r \<noteq> 32" "decode_raw_std (encode_hex k) = Some r \<Longrightarrow> length r \<noteq> 32"
    using pad assms
    by (auto simp: decode_std_def decode_raw_std_def clean length_encode_hex dest!: length_raw_decode length_padded_decode)
qed

section \<open>Every spelling of a key is that key\<close>

lemma length_std_encode: "length k = 32 \<Longrightarrow> length (std_encode k) = 44"
  by (simp add: std_encode_def length_raw_encode)

lemma raw_is_not_padded: "length k = 32 \<Longrightarrow> decode_std (raw_encode std_digits k) = None"
  using encoded_clean [of k 0]
  by (cases "decode_std (raw_encode std_digits k)") (auto simp: decode_std_def length_raw_encode dest: length_padded_decode)

text \<open>C39: The encryption key is understood in every spelling the documentation names: the padded or plain base64 of 32 bytes, their
  hexadecimal digits, and 32 bytes that are the key itself. No spelling is taken for another one.\<close>

theorem key_spellings:
  assumes "length k = 32" and "v \<in> set [std_encode k, raw_encode std_digits k, encode_hex k, k]"
  shows "parse_encryption_key v = Inr k"
proof -
  from assms(2) consider "v = std_encode k" | "v = raw_encode std_digits k" | "v = encode_hex k" | "v = k" by auto
  then show ?thesis
  proof cases
    case 1
    with assms(1) show ?thesis by (simp add: parse_encryption_key_def List.map_filter_def std_round_trip)
  next
    case 2
    with assms(1) show ?thesis by (simp add: parse_encryption_key_def List.map_filter_def raw_is_not_padded raw_std_round_trip)
  next
    case 3
    with assms(1) hex_is_not_base64 [OF assms(1)] show ?thesis
      by (auto simp: parse_encryption_key_def List.map_filter_def hex_round_trip split: option.splits)
  next
    case 4
    with assms(1) short_decodes [of k] show ?thesis
      by (auto simp: parse_encryption_key_def List.map_filter_def split: option.splits)
  qed
qed

theorem key_spellings_witness:
  "parse_encryption_key (encode_hex (replicate 32 (CHR ''k''))) = Inr (replicate 32 (CHR ''k''))
     \<and> length (encode_hex (replicate 32 (CHR ''k''))) = 64"
  using key_spellings [of "replicate 32 (CHR ''k'')" "encode_hex (replicate 32 (CHR ''k''))"]
  by (simp add: length_encode_hex)

lemma parsed_key_length: "parse_encryption_key v = Inr k \<Longrightarrow> length k = 32"
  by (auto simp: parse_encryption_key_def find_Some_iff split: option.splits if_splits)

text \<open>A process that starts has a database, an administrator with a password of at least twelve bytes, and a key of 32 bytes;
  otherwise every problem is named at once.\<close>

lemma loaded_config_usable:
  assumes "load env = Inr cfg"
  shows "pr_dsn cfg \<noteq> []" and "pr_admin cfg \<noteq> []" and "12 \<le> length (pr_password cfg)" and "length (pr_key cfg) = 32"
  using assms parsed_key_length [of "trim_space (en_key env)"]
  by (auto simp: load_def Let_def missing_variables_def split: if_splits sum.splits)

section \<open>What is sealed opens again, and only whole\<close>

lemma sealed_string_opens:
  assumes "\<And>nonce p a. length nonce = nonce_size \<Longrightarrow> ci_open c nonce (ci_seal c nonce p a) a = Some p"
    and "\<And>n b. random n = Some b \<Longrightarrow> length b = n" and "encrypt_string c random v what = Inr text"
  shows "decrypt_string c text what = Inr v"
  using assms
  by (auto simp: encrypt_string_def encrypt_def decrypt_string_def decrypt_def url_round_trip split: option.splits)

lemma decrypted_was_authentic:
  assumes "decrypt_string c text what = Inr v"
  shows "\<exists>nonce sealed. decode_url text = Some (nonce @ sealed) \<and> length nonce = nonce_size \<and> ci_open c nonce sealed what = Some v"
proof -
  from assms obtain b where "decode_url text = Some b" "\<not> length b < nonce_size"
    "ci_open c (take nonce_size b) (drop nonce_size b) what = Some v"
    by (auto simp: decrypt_string_def decrypt_def split: option.splits if_splits)
  then show ?thesis by (intro exI [of _ "take nonce_size b"] exI [of _ "drop nonce_size b"]) simp
qed

lemma tokens_differ:
  assumes "random_token first n = Inr t" and "random_token second n = Inr t"
    and "\<And>n b. first n = Some b \<Longrightarrow> length b = n"
  shows "0 < n \<and> t \<noteq> [] \<and> first (nat n) = second (nat n)"
proof -
  from assms(1,2) obtain a b where "0 < n" and a: "first (nat n) = Some a" "t = raw_encode url_digits a"
    and b: "second (nat n) = Some b" "t = raw_encode url_digits b"
    by (auto simp: random_token_def split: if_splits option.splits)
  moreover have "a = b" using url_round_trip [of a] url_round_trip [of b] a b by simp
  moreover have "length t \<noteq> 0" using assms(3) [OF a(1)] \<open>0 < n\<close> by (simp add: a length_raw_encode)
  ultimately show ?thesis by auto
qed

end
