(* ===== verification/Approval_Spec.thy ===== *)
theory Approval_Spec
  imports Approvals
begin

text \<open>
  What the approval workflow promises. The abstract specification is a book that tells the status of each approval and
  the moves it may make; every handler of the model refines a sequence of these moves (the simulation relation is
  \<open>approval_book\<close>). Along the way every row keeps the separation of duties \<open>four_eyes\<close>.
\<close>

section \<open>The abstract specification\<close>

inductive phase_move :: "string option \<Rightarrow> string \<Rightarrow> bool" where
  ask_review: "phase_move None ''pending_review''"
| ask: "phase_move None ''pending''"
| reviewed: "phase_move (Some ''pending_review'') ''pending''"
| refused_review: "phase_move (Some ''pending_review'') ''rejected''"
| refused: "phase_move (Some ''pending'') ''rejected''"
| claimed: "phase_move (Some ''pending'') ''executing''"
| succeeded: "phase_move (Some ''executing'') ''approved''"
| failed: "phase_move (Some ''executing'') ''failed''"

inductive_cases phase_moveE: "phase_move (Some p) q"

type_synonym approvals = "int \<Rightarrow> string option"

inductive approval_step :: "approvals \<Rightarrow> approvals \<Rightarrow> bool" where
  move: "phase_move (s i) p \<Longrightarrow> approval_step s (s(i \<mapsto> p))"

definition phase_rank :: "string \<Rightarrow> nat" where
  "phase_rank p =
     (if p = ''pending_review'' then 0 else if p = ''pending'' then 1 else if p = ''executing'' then 2 else 3)"

lemma phase_move_rank: "phase_move (Some p) q \<Longrightarrow> phase_rank p < phase_rank q"
  by (erule phase_moveE; simp add: phase_rank_def)

section \<open>A machine whose states only advance\<close>

text \<open>The contract of a book whose entries never disappear and whose statuses only grow in rank.\<close>

locale ranked_machine =
  fixes entry :: "'d \<Rightarrow> 'i \<Rightarrow> 's option" and step :: "'d \<Rightarrow> 'd \<Rightarrow> bool" and rank :: "'s \<Rightarrow> nat"
  assumes advances: "step d d' \<Longrightarrow> entry d i = Some s \<Longrightarrow> \<exists>s'. entry d' i = Some s' \<and> (s' = s \<or> rank s < rank s')"
begin

lemma advances_star:
  assumes "step\<^sup>*\<^sup>* d d'" and "entry d i = Some s"
  shows "\<exists>s'. entry d' i = Some s' \<and> (s' = s \<or> rank s < rank s')"
  using assms
proof (induction rule: rtranclp_induct)
  case (step d1 d2)
  then obtain s1 where "entry d1 i = Some s1" "s1 = s \<or> rank s < rank s1" by blast
  with advances [OF step.hyps(2), of i s1] show ?case by force
qed simp

lemma left_for_good:
  "step\<^sup>*\<^sup>* d d' \<Longrightarrow> entry d i = Some s' \<Longrightarrow> rank s < rank s' \<Longrightarrow> entry d' i \<noteq> Some s"
  using advances_star by fastforce

end

interpretation abstract_book: ranked_machine "\<lambda>s i. s i" approval_step phase_rank
proof
  fix s s' :: approvals and i p
  assume "approval_step s s'" and "s i = Some p"
  then show "\<exists>q. s' i = Some q \<and> (q = p \<or> phase_rank p < phase_rank q)"
    by (auto elim!: approval_step.cases split: if_splits) (metis phase_move_rank)
qed

section \<open>The book of the model\<close>

definition approval_book :: "store_db \<Rightarrow> approvals" where
  "approval_book d i = map_option re_status (find_resource ''approval'' i d)"

definition resources_wf :: "store_db \<Rightarrow> bool" where
  "resources_wf d \<longleftrightarrow>
     distinct (map re_id (db_resources d)) \<and> (\<forall>r \<in> set (db_resources d). re_id r < db_next_resource d)"

lemma find_map_kept:
  "(\<And>r. P (f r) = P r) \<Longrightarrow> find P (map f rs) = map_option f (find P rs)"
  by (induction rs) auto

lemma find_filter_same:
  "(\<And>r. P r \<Longrightarrow> Q r) \<Longrightarrow> find P (filter Q rs) = find P rs"
  by (induction rs) auto

lemma find_resource_Some: "find_resource kind rid d = Some r \<Longrightarrow> r \<in> set (db_resources d) \<and> matching_resource kind rid r"
  by (auto simp: find_resource_def find_Some_iff)

lemma find_resource_iff:
  assumes "resources_wf d"
  shows "find_resource kind rid d = Some r \<longleftrightarrow> r \<in> set (db_resources d) \<and> matching_resource kind rid r"
proof
  assume "find_resource kind rid d = Some r"
  then show "r \<in> set (db_resources d) \<and> matching_resource kind rid r" by (rule find_resource_Some)
next
  assume r: "r \<in> set (db_resources d) \<and> matching_resource kind rid r"
  then have "find_resource kind rid d \<noteq> None" by (auto simp: find_resource_def find_None_iff)
  then obtain x where x: "find_resource kind rid d = Some x" by blast
  then have "x \<in> set (db_resources d)" "matching_resource kind rid x" by (auto dest: find_resource_Some)
  with r assms have "x = r"
    by (auto simp: resources_wf_def matching_resource_def distinct_map dest: inj_onD)
  with x show "find_resource kind rid d = Some r" by simp
qed

lemma rewritten_simps [simp]:
  "re_id (rewritten_resource w actor d r) = re_id r"
  "re_kind (rewritten_resource w actor d r) = re_kind r"
  "re_status (rewritten_resource w actor d r) = rw_status (resource_defaults w)"
  "matching_resource kind rid (rewritten_resource w actor d r) = matching_resource kind rid r"
  by (simp_all add: rewritten_resource_def matching_resource_def)

lemma details_written [simp]: "rw_data w = Some (JObj m) \<Longrightarrow> details_of (rewritten_resource w actor d r) = m"
  by (simp add: details_of_def rewritten_resource_def written_data_def resource_defaults_def)

lemma status_kept [simp]: "rw_status w \<noteq> [] \<Longrightarrow> rw_status (resource_defaults w) = rw_status w"
  by (simp add: resource_defaults_def)

lemma update_where_outcome:
  assumes "update_where cond w actor d = Inr (out, d')"
  shows "(out = None \<and> d' = d) \<or>
    (\<exists>r. find cond (db_resources d) = Some r \<and> out = Some (rewritten_resource w actor d r)
       \<and> d' = rewrite_resources cond w actor d)"
  using assms by (auto simp: update_where_def split: option.splits if_splits)

lemma wf_rewrite [simp]: "resources_wf (rewrite_resources cond w actor d) = resources_wf d"
proof -
  let ?f = "\<lambda>r. if cond r then rewritten_resource w actor d r else r"
  have "re_id (?f r) = re_id r" for r by simp
  then have "map re_id (map ?f (db_resources d)) = map re_id (db_resources d)"
    and "(\<forall>r \<in> set (map ?f (db_resources d)). re_id r < n) = (\<forall>r \<in> set (db_resources d). re_id r < n)" for n
    by (simp_all del: if_image_distrib)
  then show ?thesis by (simp add: resources_wf_def rewrite_resources_def del: set_map map_map)
qed

lemma book_rewrite:
  "approval_book (rewrite_resources cond w actor d) i =
     (case find_resource ''approval'' i d of
        None \<Rightarrow> None
      | Some r \<Rightarrow> Some (if cond r then rw_status (resource_defaults w) else re_status r))"
proof -
  let ?f = "\<lambda>r. if cond r then rewritten_resource w actor d r else r"
  have "find_resource ''approval'' i (rewrite_resources cond w actor d) = map_option ?f (find_resource ''approval'' i d)"
    unfolding find_resource_def rewrite_resources_def by (simp add: find_map_kept)
  then show ?thesis by (simp add: approval_book_def split: option.split)
qed

text \<open>The conditional update moves one entry, from the status it expects.\<close>

lemma transition_book:
  assumes "resources_wf d"
    and "find (\<lambda>r. matching_resource ''approval'' rid r \<and> re_status r = expected) (db_resources d) = Some r"
  shows "approval_book d rid = Some expected
     \<and> approval_book (rewrite_resources (\<lambda>r. matching_resource ''approval'' rid r \<and> re_status r = expected) w actor d)
       = (approval_book d)(rid \<mapsto> rw_status (resource_defaults w))"
proof -
  from assms(2) have r: "r \<in> set (db_resources d)" "matching_resource ''approval'' rid r" "re_status r = expected"
    by (auto simp: find_Some_iff)
  with assms(1) have found: "find_resource ''approval'' rid d = Some r" by (simp add: find_resource_iff)
  have "approval_book (rewrite_resources (\<lambda>r. matching_resource ''approval'' rid r \<and> re_status r = expected) w actor d) i
     = ((approval_book d)(rid \<mapsto> rw_status (resource_defaults w))) i" for i
  proof (cases "i = rid")
    case True
    with found r show ?thesis by (simp add: book_rewrite)
  next
    case False
    then show ?thesis using find_resource_Some [of "''approval''" i d]
      by (cases "find_resource ''approval'' i d")
        (auto simp: book_rewrite approval_book_def [of d] matching_resource_def)
  qed
  with found r show ?thesis by (auto simp: approval_book_def)
qed

lemma other_kind_book:
  assumes "resources_wf d" and "kind \<noteq> ''approval''"
  shows "approval_book (rewrite_resources (matching_resource kind rid) w actor d) = approval_book d"
proof
  fix i
  show "approval_book (rewrite_resources (matching_resource kind rid) w actor d) i = approval_book d i"
    using assms(2) find_resource_Some [of "''approval''" i d]
    by (cases "find_resource ''approval'' i d")
      (auto simp: book_rewrite approval_book_def [of d] matching_resource_def)
qed

lemma deleted_book:
  assumes "kind \<noteq> ''approval''"
  shows "approval_book (d\<lparr>db_resources := filter (\<lambda>r. \<not> matching_resource kind rid r) (db_resources d)\<rparr>) = approval_book d"
proof
  fix i
  have "find (matching_resource ''approval'' i) (filter (\<lambda>r. \<not> matching_resource kind rid r) (db_resources d))
     = find (matching_resource ''approval'' i) (db_resources d)"
    by (rule find_filter_same) (use assms in \<open>auto simp: matching_resource_def\<close>)
  then show "approval_book (d\<lparr>db_resources := filter (\<lambda>r. \<not> matching_resource kind rid r) (db_resources d)\<rparr>) i = approval_book d i"
    by (simp add: approval_book_def find_resource_def)
qed

lemma created_book:
  assumes "resources_wf d"
  shows "approval_book (d\<lparr>db_resources := db_resources d @ [created_resource kind w actor d],
       db_next_resource := db_next_resource d + 1\<rparr>)
     = (if kind = ''approval'' then (approval_book d)(db_next_resource d \<mapsto> rw_status (resource_defaults w))
        else approval_book d)
     \<and> approval_book d (db_next_resource d) = None"
proof -
  have append: "find P (rs @ [r]) = (case find P rs of Some x \<Rightarrow> Some x | None \<Rightarrow> if P r then Some r else None)" for P rs and r :: resource_row
    by (induction rs) auto
  have none: "find_resource ''approval'' (db_next_resource d) d = None"
    using assms by (auto simp: find_resource_def find_None_iff matching_resource_def resources_wf_def)
  then show ?thesis
    by (auto simp: fun_eq_iff approval_book_def find_resource_def append matching_resource_def created_resource_def
        split: option.split)
qed

end
