(* ===== verification/Approval_Properties.thy ===== *)
theory Approval_Properties
  imports Approval_Spec Tx_Results
begin

text \<open>
  The handlers refine the abstract book of approvals, keep the separation of duties in every row, carry an approval out
  at most once, and send nothing to a hub before the approval the workflow asks for.
\<close>

section \<open>Who did what\<close>

definition requester :: "(string \<Rightarrow> rat) \<Rightarrow> json_object \<Rightarrow> int" where
  "requester pf details = id_from_any pf (lookup details ''requested_by_user_id'')"

definition reviewer :: "(string \<Rightarrow> rat) \<Rightarrow> json_object \<Rightarrow> int" where
  \<comment> \<open>0 before a review\<close>
  "reviewer pf details =
     (case as_object (lookup details ''review'') of None \<Rightarrow> 0 | Some m \<Rightarrow> id_from_any pf (lookup m ''reviewed_by_user_id''))"

definition approver :: "(string \<Rightarrow> rat) \<Rightarrow> json_object \<Rightarrow> int" where
  "approver pf details =
     (case as_object (lookup details ''execution'') of None \<Rightarrow> 0 | Some m \<Rightarrow> id_from_any pf (lookup m ''approved_by_user_id''))"

definition review_required :: "json_object \<Rightarrow> bool" where
  \<comment> \<open>the workflow stored with the request\<close>
  "review_required details =
     (case workflow_of_json (lookup details ''workflow'') of None \<Rightarrow> False | Some c \<Rightarrow> wf_manager_review_enabled c)"

definition carried_out :: "string list" where "carried_out = [''executing'', ''approved'', ''failed'']"

definition four_eyes :: "(string \<Rightarrow> rat) \<Rightarrow> string \<Rightarrow> json_object \<Rightarrow> bool" where
  "four_eyes pf status details \<longleftrightarrow>
     0 < requester pf details \<and> 0 \<le> reviewer pf details \<and> reviewer pf details \<noteq> requester pf details
     \<and> (status \<in> set carried_out \<longrightarrow>
          0 < approver pf details \<and> approver pf details \<noteq> requester pf details \<and> approver pf details \<noteq> reviewer pf details)
     \<and> (review_required details \<and> (status = ''pending'' \<or> status \<in> set carried_out) \<longrightarrow> 0 < reviewer pf details)"

lemma truncated_of_int [simp]: "truncated (of_int n) = n"
  by (simp add: truncated_def)

lemma id_from_int [simp]: "id_from_any pf (JNum (of_int n)) = n"
  by (simp add: id_from_any_def number_from_any_def)

lemma lookup_Cons_same [simp]: "lookup ((k, v) # m) k = v" "k' \<noteq> k \<Longrightarrow> lookup ((k', v) # m) k = lookup m k"
  by (simp_all add: lookup_Cons)

lemma four_eyes_request:
  assumes "0 < actor_id r"
  shows "four_eyes pf (initial_status c) (request_details env r sid action c)"
  using assms
  by (simp add: four_eyes_def requester_def reviewer_def review_required_def request_details_def initial_status_def carried_out_def)

lemma four_eyes_review:
  assumes "four_eyes pf ''pending_review'' details" and "0 < actor_id r"
    and "approval_actor_conflict pf details (actor_id r) (actor_name r) ''review'' = None"
  shows "four_eyes pf ''pending'' (put_member details ''review'' (review_entry env r reason))"
  using assms
  by (auto simp: four_eyes_def requester_def reviewer_def review_required_def approval_actor_conflict_def
      same_actor_def lookup_put_member review_entry_def carried_out_def Let_def split: if_splits)

lemma four_eyes_execution:
  assumes "four_eyes pf ''pending'' details" and "0 < actor_id r" and "status \<in> set carried_out"
    and "approval_actor_conflict pf details (actor_id r) (actor_name r) ''approve'' = None"
    and "k \<noteq> ''approved_by_user_id''"
  shows "four_eyes pf status (put_member (put_member details ''approval_reason'' v) ''execution''
     (execution_entry r s k t extra))"
proof -
  let ?new = "put_member (put_member details ''approval_reason'' v) ''execution'' (execution_entry r s k t extra)"
  have same: "requester pf ?new = requester pf details" "reviewer pf ?new = reviewer pf details"
    "review_required ?new = review_required details" "approver pf ?new = actor_id r"
    using assms(5) by (simp_all add: requester_def reviewer_def review_required_def approver_def lookup_put_member execution_entry_def)
  have "requester pf details \<noteq> actor_id r" "reviewer pf details \<noteq> actor_id r"
    using assms(1,2,4)
    by (auto simp: four_eyes_def requester_def reviewer_def approval_actor_conflict_def same_actor_def Let_def
        split: if_splits option.splits)
  with assms(1,2,3) show ?thesis by (auto simp: four_eyes_def same carried_out_def)
qed

lemma four_eyes_rejection:
  "four_eyes pf status details \<Longrightarrow> four_eyes pf ''rejected'' (put_member details ''rejection'' v)"
  by (simp add: four_eyes_def requester_def reviewer_def review_required_def lookup_put_member carried_out_def)


section \<open>What every handler keeps\<close>

text \<open>\<open>strict\<close> turns the separation of duties on; \<open>d0\<close> is where the run started.\<close>

definition progress :: "(string \<Rightarrow> rat) \<Rightarrow> bool \<Rightarrow> store_db \<Rightarrow> store_db \<Rightarrow> bool" where
  "progress pf strict d0 d \<longleftrightarrow>
     resources_wf d \<and> approval_step\<^sup>*\<^sup>* (approval_book d0) (approval_book d)
     \<and> (strict \<longrightarrow> (\<forall>a \<in> set (db_resources d). re_kind a = ''approval'' \<longrightarrow> four_eyes pf (re_status a) (details_of a)))"

lemma progress_frame [simp]:
  "progress pf strict d0 (d\<lparr>db_audit := x\<rparr>) = progress pf strict d0 d"
  "progress pf strict d0 (d\<lparr>db_mail := y, db_next_mail := n\<rparr>) = progress pf strict d0 d"
  "progress pf strict d0 (d\<lparr>db_hub_calls := h\<rparr>) = progress pf strict d0 d"
  by (simp_all add: progress_def resources_wf_def approval_book_def [abs_def] find_resource_def)

lemma keeps_audit_progress [inv_intros]: "keeps (progress pf strict d0) (audit e)"
  unfolding audit_def record_audit_def by (intro inv_intros keeps_exec) simp

lemma keeps_record_delivery [inv_intros]: "keeps (progress pf strict d0) (record_delivery v)"
  unfolding record_delivery_def record_mail_delivery_def
  by (intro inv_intros keeps_statement) (auto split: if_splits)

lemma keeps_record_all [inv_intros]: "keeps (progress pf strict d0) (record_all vs)"
  by (induction vs) (auto intro!: inv_intros)

lemma keeps_notify [inv_intros]: "keeps (progress pf strict d0) (notify decrypt n actor ids)"
  unfolding notify_def service_config_def mail_settings_def get_settings_and_secret_def open_secret_def resolve_recipients_def
    user_emails_def
  by (intro inv_intros)

lemma keeps_notify_mail [inv_intros]: "keeps (progress pf strict d0) (notify_mail decrypt n actor ids)"
  unfolding notify_mail_def by (intro inv_intros)

lemma keeps_notify_holders [inv_intros]:
  "keeps (progress pf strict d0) (notify_permission_holders decrypt n actor permission)"
  unfolding notify_permission_holders_def global_permission_holders_def by (intro inv_intros)

lemma keeps_get_setting [inv_intros]: "keeps I (get_setting key)"
  unfolding get_setting_def by (intro inv_intros)

lemma keeps_workflow [inv_intros]: "keeps I get_workflow_config" "keeps I (approval_workflow details)"
  unfolding approval_workflow_def get_workflow_config_def by (intro inv_intros)+

lemma keeps_sent_to_hub [inv_intros]: "keeps (progress pf strict d0) (sent_to_hub hid sent)"
  by (simp add: keeps_def sent_to_hub_def)

lemma keeps_execute [inv_intros]: "keeps (progress pf strict d0) (execute_server_action env sid action)"
  unfolding execute_server_action_def get_server_action_credential_def by (intro inv_intros)

lemma keeps_execution [inv_intros]: "keeps (progress pf strict d0) (approval_execution env details)"
  unfolding approval_execution_def by (intro inv_intros)

text \<open>The row a handler read satisfied the invariant when it was read.\<close>

definition row_sound :: "(string \<Rightarrow> rat) \<Rightarrow> bool \<Rightarrow> resource_row \<Rightarrow> bool" where
  "row_sound pf strict a \<longleftrightarrow> (strict \<longrightarrow> four_eyes pf (re_status a) (details_of a))"

lemma delivers_approval: "delivers (progress pf strict d0) (store_call (get_resource ''approval'' rid)) (row_sound pf strict)"
  by (rule keeps_returns_delivers, intro inv_intros)
    (auto simp: get_resource_def query_row_Inr row_sound_def progress_def matching_resource_def dest!: find_resource_Some
      intro: keeps_read)

lemma keeps_transition:
  assumes "phase_move (Some expected) status" and "status \<noteq> []" and "strict \<Longrightarrow> four_eyes pf status details"
  shows "keeps (progress pf strict d0) (transition_resource ''approval'' rid expected (approval_write a status details) actor)"
  unfolding transition_resource_def
proof (rule keeps_statement)
  fix d x d'
  let ?w = "approval_write a status details"
  let ?cond = "\<lambda>r. matching_resource ''approval'' rid r \<and> re_status r = expected"
  assume d: "progress pf strict d0 d" and run: "update_where ?cond ?w actor d = Inr (x, d')"
  show "progress pf strict d0 d'"
  proof (cases "find ?cond (db_resources d)")
    case None
    with run d show ?thesis by (simp add: update_where_def)
  next
    case (Some r)
    with run have d': "d' = rewrite_resources ?cond ?w actor d" by (auto simp: update_where_def split: if_splits)
    have w: "rw_status (resource_defaults ?w) = status" "rw_data ?w = Some (JObj details)"
      using assms(2) by (simp_all add: approval_write_def resource_defaults_def)
    from d have "resources_wf d" by (simp add: progress_def)
    from transition_book [OF this Some, of ?w actor] assms(1)
    have "approval_step (approval_book d) (approval_book d')"
      by (auto simp: d' w intro: approval_step.move)
    with d have "approval_step\<^sup>*\<^sup>* (approval_book d0) (approval_book d')" by (auto simp: progress_def)
    moreover have "four_eyes pf (re_status b) (details_of b)" if "strict" "b \<in> set (db_resources d')" "re_kind b = ''approval''" for b
      using that d assms(3) w by (auto simp: d' rewrite_resources_def progress_def split: if_splits)
    ultimately show ?thesis using d by (simp add: progress_def d')
  qed
qed

lemma keeps_created:
  assumes "0 < actor_id r" and "kind \<noteq> ''approval'' \<or> w = request_write env r sid action c"
  shows "keeps (progress pf strict d0) (create_resource kind w actor)"
  unfolding create_resource_def
proof (rule keeps_statement)
  fix d x d'
  let ?new = "created_resource kind w actor d"
  assume d: "progress pf strict d0 d"
    and "(if \<not> known_user d (rw_owner_user_id w) \<or> \<not> known_user d (Some actor) then Inl DbError
       else let r = ?new in Inr (r, d\<lparr>db_resources := db_resources d @ [r], db_next_resource := db_next_resource d + 1\<rparr>))
       = Inr (x, d')"
  then have d': "d' = d\<lparr>db_resources := db_resources d @ [?new], db_next_resource := db_next_resource d + 1\<rparr>"
    by (auto simp: Let_def split: if_splits)
  from d have wf: "resources_wf d" by (simp add: progress_def)
  then have wf': "resources_wf d'"
    by (fastforce simp: d' resources_wf_def created_resource_def)
  have "approval_step\<^sup>*\<^sup>* (approval_book d) (approval_book d')"
  proof (cases "kind = ''approval''")
    case True
    with assms(2) have w: "w = request_write env r sid action c" by simp
    have status: "rw_status (resource_defaults w) = initial_status c"
      by (simp add: w request_write_def initial_status_def resource_defaults_def)
    have "phase_move None (initial_status c)" by (auto simp: initial_status_def intro: phase_move.intros)
    with created_book [OF wf, of kind w actor] True show ?thesis
      unfolding d' status by (intro r_into_rtranclp) (metis approval_step.move)
  next
    case False
    with created_book [OF wf, of kind w actor] show ?thesis by (simp add: d')
  qed
  with d have "approval_step\<^sup>*\<^sup>* (approval_book d0) (approval_book d')" by (auto simp: progress_def)
  moreover have "four_eyes pf (re_status ?new) (details_of ?new)" if "kind = ''approval''"
    using assms that four_eyes_request [OF assms(1), of pf c env sid action]
    by (auto simp: created_resource_def request_write_def resource_defaults_def initial_status_def details_of_def
        written_data_def)
  moreover have "re_kind ?new = kind" by (simp add: created_resource_def)
  ultimately show "progress pf strict d0 d'" using d wf' by (auto simp: progress_def d')
qed

lemma keeps_updated:
  assumes "kind \<noteq> ''approval''"
  shows "keeps (progress pf strict d0) (update_resource kind rid w actor)"
proof -
  have "keeps (progress pf strict d0) (statement DbError (update_where (matching_resource kind rid) w actor))"
  proof (rule keeps_statement)
    fix d x d'
    assume d: "progress pf strict d0 d" and "update_where (matching_resource kind rid) w actor d = Inr (x, d')"
    then have "d' = d \<or> d' = rewrite_resources (matching_resource kind rid) w actor d"
      by (auto dest: update_where_outcome)
    then show "progress pf strict d0 d'"
    proof
      assume d': "d' = rewrite_resources (matching_resource kind rid) w actor d"
      have "approval_book d' = approval_book d"
        using d assms by (simp add: d' other_kind_book progress_def)
      moreover have "four_eyes pf (re_status b) (details_of b)" if "strict" "b \<in> set (db_resources d')" "re_kind b = ''approval''" for b
        using that d assms by (auto simp: d' rewrite_resources_def progress_def matching_resource_def split: if_splits)
      ultimately show ?thesis using d by (simp add: progress_def d')
    qed (simp add: d)
  qed
  then show ?thesis unfolding update_resource_def get_resource_def by (intro inv_intros)
qed

lemma keeps_deleted:
  assumes "kind \<noteq> ''approval''"
  shows "keeps (progress pf strict d0) (delete_resource kind rid)"
  unfolding delete_resource_def
proof (rule keeps_statement)
  fix d x d'
  assume d: "progress pf strict d0 d"
    and "(if find_resource kind rid d = None then Inl ErrNotFound
       else Inr ((), d\<lparr>db_resources := filter (\<lambda>r. \<not> matching_resource kind rid r) (db_resources d)\<rparr>)) = Inr (x, d')"
  then have d': "d' = d\<lparr>db_resources := filter (\<lambda>r. \<not> matching_resource kind rid r) (db_resources d)\<rparr>"
    by (auto split: if_splits)
  have "approval_book d' = approval_book d" unfolding d' by (rule deleted_book [OF assms])
  with d show "progress pf strict d0 d'"
    by (auto simp: progress_def d' resources_wf_def distinct_map_filter)
qed

section \<open>The handlers\<close>

lemma keeps_option_cases:
  "(v = None \<Longrightarrow> keeps I m) \<Longrightarrow> (\<And>x. v = Some x \<Longrightarrow> keeps I (f x)) \<Longrightarrow> keeps I (case v of None \<Rightarrow> m | Some x \<Rightarrow> f x)"
  by (cases v) simp_all

lemma keeps_approval_audit [inv_intros]: "keeps (progress pf strict d0) (approval_audit env r action rid result reason a b)"
  unfolding approval_audit_def by (intro inv_intros)

lemma keeps_read_approval [inv_intros]: "keeps I (get_resource kind rid)"
  unfolding get_resource_def by (intro inv_intros)

lemma keeps_record_review:
  assumes "ae_parse_float env = pf" and "0 < actor_id r"
    and "row_sound pf strict a" and "re_status a = ''pending_review''"
    and "approval_actor_conflict (ae_parse_float env) (details_of a) (actor_id r) (actor_name r) ''review'' = None"
  shows "keeps (progress pf strict d0) (record_review env r rid a reason)"
  unfolding record_review_def Let_def
  by (intro keeps_transition inv_intros)
    (use assms in \<open>auto simp: row_sound_def intro: phase_move.intros intro!: four_eyes_review\<close>)

lemma keeps_review:
  assumes "ae_parse_float env = pf" and "0 < actor_id r"
  shows "keeps (progress pf strict d0) (approval_review env body r)"
  unfolding approval_review_def
  by (intro keeps_bind_delivers [OF delivers_approval] keeps_option_cases keeps_record_review [OF assms] inv_intros) auto

lemma four_eyes_finished:
  assumes "four_eyes pf ''pending'' details" and "0 < actor_id r" and "status \<in> set carried_out"
    and "approval_actor_conflict pf details (actor_id r) (actor_name r) ''approve'' = None"
  shows "four_eyes pf status (finished_details env r reason s extra details)"
proof -
  have twice: "put_member (put_member m ''execution'' v) ''execution'' w = put_member m ''execution'' w" for m v w
    by (simp add: put_member_def)
  show ?thesis unfolding finished_details_def executing_details_def twice
    by (rule four_eyes_execution [OF assms]) simp
qed

lemma keeps_carry_out:
  assumes "ae_parse_float env = pf" and "0 < actor_id r"
    and "row_sound pf strict a" and "re_status a = ''pending''"
    and "approval_actor_conflict (ae_parse_float env) (details_of a) (actor_id r) (actor_name r) ''approve'' = None"
  shows "keeps (progress pf strict d0) (carry_out_approval env r rid a reason)"
proof -
  have eyes: "four_eyes pf ''executing'' (executing_details env r reason (details_of a))"
      "four_eyes pf ''failed'' (finished_details env r reason ''failed'' extra (details_of a))"
      "four_eyes pf ''approved'' (finished_details env r reason ''approved'' extra (details_of a))" if strict for extra
    using assms that
    by (auto simp: row_sound_def carried_out_def executing_details_def intro!: four_eyes_finished four_eyes_execution)
  show ?thesis
    unfolding carry_out_approval_def claim_approval_def record_failure_def record_approval_def Let_def
    by (intro keeps_transition inv_intros) (auto intro: phase_move.intros eyes)
qed

lemma keeps_approve:
  assumes "ae_parse_float env = pf" and "0 < actor_id r"
  shows "keeps (progress pf strict d0) (approval_approve env body r)"
  unfolding approval_approve_def
  by (intro keeps_bind_delivers [OF delivers_approval] keeps_option_cases keeps_carry_out [OF assms] inv_intros) auto

lemma keeps_record_rejection:
  assumes "row_sound pf strict a" and "re_status a = ''pending'' \<or> re_status a = ''pending_review''"
  shows "keeps (progress pf strict d0) (record_rejection env r rid a reason)"
  unfolding record_rejection_def
  by (intro keeps_transition inv_intros)
    (use assms in \<open>auto simp: row_sound_def intro: phase_move.intros four_eyes_rejection\<close>)

lemma keeps_reject: "keeps (progress pf strict d0) (approval_reject env body r)"
  unfolding approval_reject_def
  by (intro keeps_bind_delivers [OF delivers_approval] keeps_option_cases keeps_record_rejection inv_intros) auto

lemma keeps_server_action:
  assumes "0 < actor_id r"
  shows "keeps (progress pf strict d0) (server_action env r)"
  unfolding server_action_def request_approval_def act_at_once_def get_server_def scoped_target_allowed_def Let_def
  by (intro keeps_created [OF assms] inv_intros) auto

text \<open>A request to one of the handlers that write resources, by an authenticated user.\<close>

inductive resource_request :: "(string \<Rightarrow> rat) \<Rightarrow> store_db \<Rightarrow> store_db \<Rightarrow> bool" for pf where
  action: "server_action env r fs d = (x, fs', d') \<Longrightarrow> 0 < actor_id r \<Longrightarrow> resource_request pf d d'"
| review: "approval_review env body r fs d = (x, fs', d') \<Longrightarrow> ae_parse_float env = pf \<Longrightarrow> 0 < actor_id r
    \<Longrightarrow> resource_request pf d d'"
| approve: "approval_approve env body r fs d = (y, fs', d') \<Longrightarrow> ae_parse_float env = pf \<Longrightarrow> 0 < actor_id r
    \<Longrightarrow> resource_request pf d d'"
| reject: "approval_reject env body r fs d = (x, fs', d') \<Longrightarrow> resource_request pf d d'"
| create: "resource_create show_time body2 r kind fs d = (z, fs', d') \<Longrightarrow> 0 < actor_id r \<Longrightarrow> resource_request pf d d'"
| update: "resource_update show_time body2 r kind fs d = (z, fs', d') \<Longrightarrow> resource_request pf d d'"
| delete: "resource_delete show_time r kind fs d = (u, fs', d') \<Longrightarrow> resource_request pf d d'"

lemma progressD:
  "keeps (progress pf strict d0) m \<Longrightarrow> progress pf strict d0 d \<Longrightarrow> m fs d = (x, fs', d') \<Longrightarrow> progress pf strict d0 d'"
  by (rule keepsD)

lemma request_progress:
  assumes "resource_request pf d d'" and "progress pf strict d0 d"
  shows "progress pf strict d0 d'"
  using assms
proof cases
  case (create show_time body2 r kind fs z fs')
  have kept: "keeps (progress pf strict d0) (resource_create show_time body2 r kind)"
    unfolding resource_create_def by (intro keeps_created [OF create(2)] inv_intros) auto
  show ?thesis by (rule progressD [OF kept assms(2) create(1)])
next
  case (update show_time body2 r kind fs z fs')
  have kept: "keeps (progress pf strict d0) (resource_update show_time body2 r kind)"
    unfolding resource_update_def by (intro keeps_updated inv_intros) auto
  show ?thesis by (rule progressD [OF kept assms(2) update])
next
  case (delete show_time r kind fs u fs')
  have kept: "keeps (progress pf strict d0) (resource_delete show_time r kind)"
    unfolding resource_delete_def by (intro keeps_deleted inv_intros) auto
  show ?thesis by (rule progressD [OF kept assms(2) delete])
next
  case (action env r fs x fs')
  show ?thesis by (rule progressD [OF keeps_server_action [OF action(2)] assms(2) action(1)])
next
  case (review env body r fs x fs')
  show ?thesis by (rule progressD [OF keeps_review [OF review(2,3)] assms(2) review(1)])
next
  case (approve env body r fs y fs')
  show ?thesis by (rule progressD [OF keeps_approve [OF approve(2,3)] assms(2) approve(1)])
next
  case (reject env body r fs x fs')
  show ?thesis by (rule progressD [OF keeps_reject assms(2) reject])
qed

section \<open>The properties\<close>

lemma progress_refl: "resources_wf d \<Longrightarrow> progress pf False d d"
  by (simp add: progress_def)

lemma requests_progress:
  assumes "(resource_request pf)\<^sup>*\<^sup>* d d'" and "progress pf strict d0 d"
  shows "progress pf strict d0 d'"
  using assms by (induction rule: rtranclp_induct) (auto intro: request_progress)

lemma handlers_refine_book_wf: "resource_request pf d d' \<Longrightarrow> resources_wf d \<Longrightarrow> resources_wf d'"
  using request_progress [OF _ progress_refl] by (simp add: progress_def)

text \<open>C24: Every handler refines the abstract book: what it does to the approvals, error paths and failing statements included, is
  a sequence of moves of the specification.\<close>

theorem handlers_refine_book:
  assumes "resource_request pf d d'" and "resources_wf d"
  shows "approval_step\<^sup>*\<^sup>* (approval_book d) (approval_book d') \<and> resources_wf d'"
  using request_progress [OF assms(1) progress_refl [OF assms(2)]] by (simp add: progress_def)

interpretation approvals: ranked_machine approval_book "\<lambda>d d'. resources_wf d \<and> resource_request pf d d'" phase_rank
proof
  fix d d' i p
  assume d: "resources_wf d \<and> resource_request pf d d'" and p: "approval_book d i = Some p"
  from d have "approval_step\<^sup>*\<^sup>* (approval_book d) (approval_book d')"
    using request_progress [of pf d d' False d] progress_refl by (simp add: progress_def)
  from abstract_book.advances_star [OF this p]
  show "\<exists>q. approval_book d' i = Some q \<and> (q = p \<or> phase_rank p < phase_rank q)" .
qed

text \<open>C22: From a table without approvals, every approval that is being or has been carried out has an approver who is neither
  its requester nor its reviewer; where the workflow stored with it asks for a review, a third person reviewed it.\<close>

theorem separation_of_duties:
  assumes "(resource_request pf)\<^sup>*\<^sup>* d0 d" and "resources_wf d0"
    and "\<forall>a \<in> set (db_resources d0). re_kind a \<noteq> ''approval''"
    and "a \<in> set (db_resources d)" and "re_kind a = ''approval''" and "re_status a \<in> set carried_out"
  shows "approver pf (details_of a) \<noteq> requester pf (details_of a)
     \<and> approver pf (details_of a) \<noteq> reviewer pf (details_of a)
     \<and> (review_required (details_of a) \<longrightarrow> 0 < reviewer pf (details_of a)
          \<and> reviewer pf (details_of a) \<noteq> requester pf (details_of a))"
proof -
  have "progress pf True d0 d0" using assms(2,3) by (simp add: progress_def)
  from requests_progress [OF assms(1) this] assms(4-6) show ?thesis by (auto simp: progress_def four_eyes_def)
qed

text \<open>C23: One request carries an approval out: after a successful claim, whatever other requests run in between, every later
  claim of the same approval is lost.\<close>

theorem approval_claimed_once:
  assumes "claim_approval env r rid a reason fs d = (Inr (Some x), fs', d1)" and "resources_wf d"
    and "(resource_request pf)\<^sup>*\<^sup>* d1 d2"
    and "claim_approval env2 r2 rid a2 reason2 gs d2 = (Inr y, gs', d3)"
  shows "y = None"
proof (rule ccontr)
  assume y: "y \<noteq> None"
  let ?w = "approval_write a ''executing'' (executing_details env r reason (details_of a))"
  from assms(1) obtain b where b: "find (\<lambda>q. matching_resource ''approval'' rid q \<and> re_status q = ''pending'') (db_resources d) = Some b"
    and d1: "d1 = rewrite_resources (\<lambda>q. matching_resource ''approval'' rid q \<and> re_status q = ''pending'') ?w (actor_id r) d"
    by (auto simp: claim_approval_def transition_resource_def statement_Inr dest!: update_where_outcome)
  have status: "rw_status (resource_defaults ?w) = ''executing''" by (simp add: approval_write_def resource_defaults_def)
  from transition_book [OF assms(2) b, of ?w "actor_id r"]
  have one: "approval_book d1 rid = Some ''executing''" by (simp add: d1 status)
  have wf1: "resources_wf d1" using assms(2) by (simp add: d1)
  from assms(4) y have two: "\<exists>c. find (\<lambda>q. matching_resource ''approval'' rid q \<and> re_status q = ''pending'') (db_resources d2) = Some c"
    by (auto simp: claim_approval_def transition_resource_def statement_Inr dest!: update_where_outcome)
  have later: "progress pf False d1 d2" by (rule requests_progress [OF assms(3) progress_refl [OF wf1]])
  then have "approval_book d2 rid = Some ''pending''"
    using two transition_book [of d2 rid "''pending''"] by (auto simp: progress_def)
  moreover from later have "approval_step\<^sup>*\<^sup>* (approval_book d1) (approval_book d2)" by (simp add: progress_def)
  ultimately show False
    using abstract_book.left_for_good [of "approval_book d1" "approval_book d2" rid "''executing''" "''pending''"] one
    by (simp add: phase_rank_def)
qed

section \<open>What is sent to the hubs\<close>

text \<open>The history of requests is \<open>h\<close>, the workflow setting \<open>w\<close>.\<close>

definition hubs_unasked :: "(int \<times> string \<times> string) list \<Rightarrow> json option \<Rightarrow> store_db \<Rightarrow> bool" where
  "hubs_unasked h w d \<longleftrightarrow> db_hub_calls d = h \<and> setting_of ''workflow'' d = w"

lemma hubs_unasked_frame [simp]:
  "hubs_unasked h w (d\<lparr>db_audit := x\<rparr>) = hubs_unasked h w d"
  "hubs_unasked h w (d\<lparr>db_mail := y, db_next_mail := n\<rparr>) = hubs_unasked h w d"
  "hubs_unasked h w (d\<lparr>db_resources := rs\<rparr>) = hubs_unasked h w d"
  "hubs_unasked h w (d\<lparr>db_resources := rs, db_next_resource := k\<rparr>) = hubs_unasked h w d"
  by (simp_all add: hubs_unasked_def setting_of_def)

lemma unasked_audit [inv_intros]: "keeps (hubs_unasked h w) (audit e)"
  unfolding audit_def record_audit_def by (intro inv_intros keeps_exec) simp

lemma unasked_record_delivery [inv_intros]: "keeps (hubs_unasked h w) (record_delivery v)"
  unfolding record_delivery_def record_mail_delivery_def
  by (intro inv_intros keeps_statement) (auto split: if_splits)

lemma unasked_record_all [inv_intros]: "keeps (hubs_unasked h w) (record_all vs)"
  by (induction vs) (auto intro!: inv_intros)

lemma unasked_notify [inv_intros]: "keeps (hubs_unasked h w) (notify decrypt n actor ids)"
  unfolding notify_def service_config_def mail_settings_def get_settings_and_secret_def open_secret_def resolve_recipients_def
    user_emails_def
  by (intro inv_intros)

lemma unasked_notify_mail [inv_intros]: "keeps (hubs_unasked h w) (notify_mail decrypt n actor ids)"
  unfolding notify_mail_def by (intro inv_intros)

lemma unasked_notify_holders [inv_intros]:
  "keeps (hubs_unasked h w) (notify_permission_holders decrypt n actor permission)"
  unfolding notify_permission_holders_def global_permission_holders_def by (intro inv_intros)

lemma unasked_create [inv_intros]: "keeps (hubs_unasked h w) (create_resource kind x actor)"
  unfolding create_resource_def by (intro keeps_statement) (auto simp: Let_def split: if_splits)

lemma unasked_transition [inv_intros]: "keeps (hubs_unasked h w) (transition_resource kind rid expected x actor)"
  unfolding transition_resource_def
  by (intro keeps_statement) (auto simp: rewrite_resources_def dest!: update_where_outcome)

lemma unasked_approval_audit [inv_intros]: "keeps (hubs_unasked h w) (approval_audit env r action rid result reason a b)"
  unfolding approval_audit_def by (intro inv_intros)

lemma delivers_workflow:
  "delivers (hubs_unasked h w) (store_call get_workflow_config) (\<lambda>c. \<exists>v. w = Some v \<and> workflow_of_json v = Some c)"
  by (rule keeps_returns_delivers, intro inv_intros)
    (auto simp: get_workflow_config_def tx_bind_Inr get_setting_def setting_of_def query_row_Inr hubs_unasked_def
      split: option.splits)

lemma unasked_request [inv_intros]: "keeps (hubs_unasked h w) (request_approval env r sid action c)"
  unfolding request_approval_def Let_def by (intro inv_intros)

lemma unasked_server_action:
  assumes "w = Some v" and "workflow_of_json v = Some c" and "requires_approval c ''server_action''"
  shows "keeps (hubs_unasked h w) (server_action env r)"
  unfolding server_action_def get_server_def scoped_target_allowed_def Let_def
  by (intro keeps_bind_delivers [OF delivers_workflow] inv_intros) (use assms in auto)

lemma unasked_review: "keeps (hubs_unasked h w) (approval_review env body r)"
  unfolding approval_review_def record_review_def Let_def by (intro keeps_option_cases inv_intros)

lemma unasked_reject: "keeps (hubs_unasked h w) (approval_reject env body r)"
  unfolding approval_reject_def record_rejection_def Let_def by (intro keeps_option_cases inv_intros)

lemma unasked_calls: "keeps (hubs_unasked (db_hub_calls d) (setting_of ''workflow'' d)) m \<Longrightarrow>
    db_hub_calls (snd (snd (m fs d))) = db_hub_calls d"
  using keepsD [of "hubs_unasked (db_hub_calls d) (setting_of ''workflow'' d)" m d fs "fst (m fs d)"
      "fst (snd (m fs d))" "snd (snd (m fs d))"]
  by (simp add: hubs_unasked_def)

text \<open>C25: While the workflow asks for an approval of server actions, a request for one sends nothing to any hub,
  whatever its outcome and whichever statement fails, and neither does a review or a rejection of it: the
  history of the requests sent to hubs stays as it was.\<close>

theorem action_waits_for_approval:
  assumes "setting_of ''workflow'' d = Some v" and "workflow_of_json v = Some c" and "requires_approval c ''server_action''"
  shows "db_hub_calls (snd (snd (server_action env r fs d))) = db_hub_calls d
    \<and> db_hub_calls (snd (snd (approval_review env body r fs d))) = db_hub_calls d
    \<and> db_hub_calls (snd (snd (approval_reject env body r fs d))) = db_hub_calls d"
  using assms by (intro conjI unasked_calls unasked_server_action unasked_review unasked_reject)

lemma bind_get_resource:
  "find_resource kind rid d = Some a \<Longrightarrow> tx_bind (store_call (get_resource kind rid)) k [] d = k a [] d"
  by (simp add: tx_bind_def store_call_def tx_map_error_def get_resource_def query_row_def statement_def)

lemma bind_path_id: "int_path r ''id'' = Some rid \<Longrightarrow> tx_bind (path_id r) k fs d = k rid fs d"
  by (simp add: path_id_def)

text \<open>An approval whose execution was claimed but whose outcome could not be stored stays in execution for good: no
  handler that decides about approvals accepts it any more, and none changes it.\<close>

theorem executing_is_stuck:
  assumes "approval_book d rid = Some ''executing''" and "int_path r ''id'' = Some rid"
  shows "approval_approve env body r [] d = (Inl (409, ''approval_closed''), [], d)
     \<and> approval_review env body r [] d = (Inl (409, ''review_closed''), [], d)
     \<and> approval_reject env body r [] d = (Inl (409, ''approval_closed''), [], d)"
proof -
  obtain a where a: "find_resource ''approval'' rid d = Some a" "re_status a = ''executing''"
    using assms(1) by (auto simp: approval_book_def)
  then show ?thesis
    by (simp add: approval_approve_def approval_review_def approval_reject_def bind_path_id [OF assms(2)]
        bind_get_resource [OF a(1)] api_error_def tx_no_fault)
qed

section \<open>Concrete inputs\<close>

definition office_user :: "int \<Rightarrow> user_row" where
  "office_user uid = \<lparr>us_id = uid, us_username = ''u'', us_display_name = [], us_email = [], us_department = [],
     us_password_hash = None, us_auth_source = ''local'', us_external_subject = None, us_active = True,
     us_last_login_at = None, us_created_at = 0, us_updated_at = 0\<rparr>"

definition office_server :: server_row where
  "office_server = \<lparr>sv_id = 5, sv_hub_id = 3, sv_managed_user_id = None, sv_username = ''ada'', sv_server_name = [],
     sv_status = ''running'', sv_started_at = None, sv_last_activity_at = None, sv_url = [], sv_node_name = [],
     sv_pod_name = [], sv_image = [], sv_cpu_cores = None, sv_memory_bytes = None, sv_gpu_count = None, sv_raw = [],
     sv_synced_at = 0\<rparr>"

definition office :: store_db where
  "office = (fresh_store 0)\<lparr>db_users := [office_user 1, office_user 2], db_servers := [office_server],
     db_settings := [\<lparr>st_key = ''workflow'', st_value = JObj [(''approval_enabled'', JBool True)],
       st_updated_by = None, st_updated_at = 0\<rparr>]\<rparr>"

definition office_env :: approval_env where
  "office_env = \<lparr>ae_show_time = \<lambda>_. [], ae_stamp = \<lambda>_. [], ae_parse_float = \<lambda>_. 0, ae_digest = id, ae_decrypt = \<lambda>_ s. Some s,
     ae_error_text = \<lambda>_. ''failed'', ae_parse_url = \<lambda>_. None, ae_parse_ip = \<lambda>_. None, ae_escaped_path = \<lambda>_. [],
     ae_hub = demo_hub, ae_deadline = 9\<rparr>"

definition office_request :: "int \<Rightarrow> string \<Rightarrow> request" where
  "office_request uid target =
     (demo_request ''POST'' (\<lambda>_. []) ((demo_principal [''*''])\<lparr>p_user := (p_user (demo_principal [''*'']))\<lparr>u_id := uid\<rparr>\<rparr>))
       \<lparr>rq_path_value := (\<lambda>name. if name = ''id'' then target else ''stop'')\<rparr>"

definition asked :: "(http_error, json_object \<times> mail_job list) res \<times> faults \<times> store_db" where
  "asked = server_action office_env (office_request 1 ''5'') [] office"

definition decided :: "(http_error, approval_reply \<times> mail_job list) res \<times> faults \<times> store_db" where
  "decided = approval_approve office_env None (office_request 2 ''1'') [] (snd (snd asked))"

definition approval_rows :: "store_db \<Rightarrow> (int \<times> string \<times> string) list" where
  "approval_rows d = map (\<lambda>a. (re_id a, re_kind a, re_status a)) (db_resources d)"

lemma asked_rows: "approval_rows (snd (snd asked)) = [(1, ''approval'', ''pending'')]"
  by code_simp

lemma decided_rows: "approval_rows (snd (snd decided)) = [(1, ''approval'', ''failed'')]"
  by code_simp

lemma asked_request: "resource_request (\<lambda>_. 0) office (snd (snd asked))"
  by (rule resource_request.action [of office_env "office_request 1 ''5''" "[]" _ "fst asked" "fst (snd asked)"])
    (simp_all add: asked_def, simp add: office_request_def actor_id_def demo_request_def)

lemma decided_request: "resource_request (\<lambda>_. 0) (snd (snd asked)) (snd (snd decided))"
  by (rule resource_request.approve [of office_env None "office_request 2 ''1''" "[]" _ "fst decided" "fst (snd decided)"])
    (simp_all add: decided_def, simp_all add: office_env_def office_request_def actor_id_def demo_request_def)

lemma office_wf: "resources_wf office" "db_resources office = []"
  by (simp_all add: resources_wf_def office_def fresh_store_def)

theorem handlers_refine_book_witness:
  "approval_step\<^sup>*\<^sup>* (approval_book office) (approval_book (snd (snd asked)))
     \<and> approval_rows (snd (snd asked)) = [(1, ''approval'', ''pending'')]"
  using handlers_refine_book [OF asked_request office_wf(1)] asked_rows by simp

theorem separation_of_duties_witness:
  "\<exists>a. a \<in> set (db_resources (snd (snd decided))) \<and> re_status a = ''failed''
     \<and> approver (\<lambda>_. 0) (details_of a) \<noteq> requester (\<lambda>_. 0) (details_of a)"
proof -
  obtain a where a: "a \<in> set (db_resources (snd (snd decided)))" "re_kind a = ''approval''" "re_status a = ''failed''"
    using decided_rows by (cases "db_resources (snd (snd decided))") (auto simp: approval_rows_def)
  have "(resource_request (\<lambda>_. 0))\<^sup>*\<^sup>* office (snd (snd decided))"
    using asked_request decided_request by (meson r_into_rtranclp rtranclp.rtrancl_into_rtrancl)
  from separation_of_duties [OF this office_wf(1) _ a(1,2)] a show ?thesis
    by (auto simp: office_wf carried_out_def)
qed

definition office_claim :: "store_db \<Rightarrow> (http_error, resource_row option) res \<times> faults \<times> store_db" where
  "office_claim d = claim_approval office_env (office_request 2 ''1'') 1 zero_resource [] [] d"

theorem approval_claimed_once_witness:
  "case office_claim (snd (snd asked)) of
     (Inr (Some x), _, d1) \<Rightarrow> (case office_claim d1 of (Inr y, _, _) \<Rightarrow> y = None | _ \<Rightarrow> False)
   | _ \<Rightarrow> False"
proof -
  have all: "case office_claim (snd (snd asked)) of (Inr x, fs, d1) \<Rightarrow> x \<noteq> None
     \<and> (case office_claim d1 of (Inr y, gs, d2) \<Rightarrow> True | _ \<Rightarrow> False) | _ \<Rightarrow> False"
    by code_simp
  obtain x fs d1 where one: "office_claim (snd (snd asked)) = (Inr (Some x), fs, d1)"
    and more: "case office_claim d1 of (Inr y, gs, d2) \<Rightarrow> True | _ \<Rightarrow> False"
    by (rule run_cases [OF all]) auto
  obtain y gs d2 where two: "office_claim d1 = (Inr y, gs, d2)" by (rule run_cases [OF more])
  have wf: "resources_wf (snd (snd asked))" using handlers_refine_book_wf [OF asked_request office_wf(1)] .
  have "y = None"
    by (rule approval_claimed_once [OF one [unfolded office_claim_def] wf rtranclp.rtrancl_refl two [unfolded office_claim_def]])
  then show ?thesis by (simp add: one two)
qed

text \<open>With a hub that can be sent requests (it answers none), the action is sent once it is approved, and not before.\<close>

definition open_office :: store_db where
  "open_office = office\<lparr>db_hubs := [\<lparr>hb_id = 3, hb_name = ''lab'', hb_base_url = ''https://hub.corp'', hb_network = [],
     hb_enabled = True, hb_verify_tls = True, hb_interval = 60, hb_token = Some ''t'', hb_status = ''healthy'', hb_version = [],
     hb_last_seen_at = None, hb_last_error = [], hb_snapshot = JObj [], hb_created_at = 0, hb_updated_at = 0\<rparr>]\<rparr>"

definition open_env :: approval_env where
  "open_env = office_env\<lparr>ae_parse_url := \<lambda>_. Some \<lparr>url_scheme = ''https'', url_host = ''hub.corp'', url_hostname = ''hub.corp'',
     url_has_user = False, url_fragment = []\<rparr>, ae_hub := \<lambda>_. (ConnectionError, zero_user)\<rparr>"

definition open_asked :: "(http_error, json_object \<times> mail_job list) res \<times> faults \<times> store_db" where
  "open_asked = server_action open_env (office_request 1 ''5'') [] open_office"

definition open_decided :: "(http_error, approval_reply \<times> mail_job list) res \<times> faults \<times> store_db" where
  "open_decided = approval_approve open_env None (office_request 2 ''1'') [] (snd (snd open_asked))"

theorem action_waits_for_approval_witness:
  "approval_rows (snd (snd open_asked)) = [(1, ''approval'', ''pending'')] \<and> db_hub_calls (snd (snd open_asked)) = []
   \<and> db_hub_calls (snd (snd open_decided)) \<noteq> []"
proof -
  have "db_hub_calls (snd (snd open_asked)) = db_hub_calls open_office"
    unfolding open_asked_def
    by (rule action_waits_for_approval [THEN conjunct1, of open_office "JObj [(''approval_enabled'', JBool True)]"
          "\<lparr>wf_approval_enabled = True, wf_manager_review_enabled = False, wf_require_reason = False, wf_request_types = []\<rparr>"])
      (simp_all add: open_office_def office_def setting_of_def workflow_of_json_def bool_field_def strings_field_def
        requires_approval_def lookup_Cons)
  moreover have "db_hub_calls open_office = []" by (simp add: open_office_def office_def fresh_store_def)
  moreover have "approval_rows (snd (snd open_asked)) = [(1, ''approval'', ''pending'')]" by code_simp
  moreover have "db_hub_calls (snd (snd open_decided)) \<noteq> []" by code_simp
  ultimately show ?thesis by simp
qed

text \<open>The failing statement is the fourth of the handler, the UPDATE that stores the outcome.\<close>

definition half_done :: "(http_error, approval_reply \<times> mail_job list) res \<times> faults \<times> store_db" where
  "half_done = approval_approve office_env None (office_request 2 ''1'') [False, False, False, True] (snd (snd asked))"

lemma half_done_rows:
  "approval_rows (snd (snd half_done)) = [(1, ''approval'', ''executing'')] \<and> fst half_done = Inl (500, ''internal_error'')"
  by code_simp

theorem executing_is_stuck_witness:
  "fst half_done = Inl (500, ''internal_error'')
     \<and> approval_approve office_env None (office_request 2 ''1'') [] (snd (snd half_done))
       = (Inl (409, ''approval_closed''), [], snd (snd half_done))"
proof -
  obtain a where a: "db_resources (snd (snd half_done)) = [a]" "re_id a = 1" "re_kind a = ''approval''" "re_status a = ''executing''"
    using half_done_rows by (cases "db_resources (snd (snd half_done))") (auto simp: approval_rows_def)
  then have book: "approval_book (snd (snd half_done)) 1 = Some ''executing''"
    by (simp add: approval_book_def find_resource_def matching_resource_def)
  have "int_path (office_request 2 ''1'') ''id'' = Some 1" by code_simp
  from executing_is_stuck [OF book this] half_done_rows show ?thesis by blast
qed

end
