(* ===== verification/Rbac_Safety.thy ===== *)
theory Rbac_Safety
  imports Rbac_Store Accounts
begin

text \<open>
  What the role mutations of \<^verbatim>\<open>Rbac_Store\<close> guarantee: the tables stay consistent and an active
  account with the global wildcard always remains (whatever statement of whatever call fails);
  and nobody hands out more than they hold.
\<close>

section \<open>The invariant\<close>

definition tables_ok :: "store_db \<Rightarrow> bool" where
  "tables_ok d \<longleftrightarrow>
     distinct (map ro_id (db_roles d)) \<and> distinct (map ro_key (db_roles d)) \<and>
     distinct (map us_id (db_users d)) \<and>
     distinct (map (\<lambda>b. (bi_user_id b, bi_role_id b)) (db_user_roles d)) \<and>
     (\<forall>b \<in> set (db_user_roles d).
        bi_role_id b \<in> ro_id ` set (db_roles d) \<and> bi_user_id b \<in> us_id ` set (db_users d)) \<and>
     (\<forall>c \<in> set (db_clauses d).
        (cl_user_id c, cl_role_id c) \<in> (\<lambda>b. (bi_user_id b, bi_role_id b)) ` set (db_user_roles d)) \<and>
     (\<forall>r \<in> set (db_roles d). 0 < ro_id r \<and> ro_id r < db_next_role d) \<and>
     (\<forall>u \<in> set (db_users d). 0 < us_id u \<and> us_id u < db_next_user d) \<and>
     0 < db_next_role d \<and> 0 < db_next_user d"

definition super_admin_present :: "store_db \<Rightarrow> bool" where
  "super_admin_present d \<longleftrightarrow> active_wildcard_binding (\<lambda>_. True) d"

definition rbac_inv :: "store_db \<Rightarrow> bool" where
  "rbac_inv d \<longleftrightarrow> tables_ok d \<and> super_admin_present d"

section \<open>Outcomes of the calls\<close>

lemma advisory_lock_Inr: "advisory_lock fs d = (Inr u, fs', d') \<Longrightarrow> d' = d"
  by (auto simp: advisory_lock_def tx_Inr)

lemma assigned_permissions_Inr:
  "assigned_permissions uid g fs d = (Inr ps, fs', d') \<Longrightarrow>
     d' = d \<and> collect_raw (map ro_permissions
       (joined_roles (\<lambda>b. bi_user_id b = uid \<and> (g \<longrightarrow> bi_scope_mode b = ''global'')) d)) [] = Inr ps"
  by (auto simp: assigned_permissions_def tx_Inr)

lemma role_permissions_Inr:
  "role_permissions ids fs d = (Inr ps, fs', d') \<Longrightarrow>
     d' = d \<and> collect_raw (map ro_permissions (filter (\<lambda>r. ro_id r \<in> set ids) (db_roles d))) [] = Inr ps"
  by (auto simp: role_permissions_def tx_Inr)

lemma actor_ceiling_Inr:
  assumes "role_mutation_actor_ceiling actor fs d = (Inr ps, fs', d')"
  shows "d' = d" and "0 < actor \<Longrightarrow> ensure_permission ps ''roles:write'' \<and>
    collect_raw (map ro_permissions
       (joined_roles (\<lambda>b. bi_user_id b = actor \<and> bi_scope_mode b = ''global'') d)) [] = Inr ps"
  using assms
  by (auto simp: role_mutation_actor_ceiling_def tx_Inr split: if_splits dest!: assigned_permissions_Inr)

definition lock_out :: "int \<Rightarrow> store_db \<Rightarrow> bool" where
  "lock_out rid d \<longleftrightarrow>
     (\<exists>b \<in> set (db_user_roles d). bi_role_id b = rid \<and> bi_scope_mode b = ''global''
        \<and> (\<exists>u \<in> set (db_users d). us_id u = bi_user_id b \<and> us_active u))
     \<and> \<not> active_wildcard_binding (\<lambda>b. bi_role_id b \<noteq> rid) d"

lemma lock_out_Inr:
  "wildcard_role_removal_would_lock_out rid fs d = (Inr b, fs', d') \<Longrightarrow>
     d' = d \<and> b = lock_out rid d"
  by (auto simp: wildcard_role_removal_would_lock_out_def tx_Inr Let_def lock_out_def list_ex_bool_iff)

definition added_role :: "role \<Rightarrow> store_db \<Rightarrow> role_row" where
  "added_role role d =
     \<lparr>ro_id = db_next_role d, ro_key = r_key role, ro_name = r_name role,
      ro_description = r_description role, ro_permissions = PermArray (r_permissions role),
      ro_system = False, ro_created_at = db_now d, ro_updated_at = db_now d\<rparr>"

definition role_may_change :: "role \<Rightarrow> store_db \<Rightarrow> bool" where
  "role_may_change role d \<longleftrightarrow> (\<exists>current cps.
     find_role (r_id role) d = Some current \<and> unmarshal_permissions (ro_permissions current) = Inr cps
     \<and> (\<forall>r \<in> set (db_roles d). ro_key r = r_key role \<longrightarrow> ro_id r = r_id role)
     \<and> (''*'' \<in> set cps \<and> ''*'' \<notin> set (r_permissions role) \<longrightarrow> \<not> lock_out (r_id role) d))"

lemma guard_wildcard_Inr:
  "guard_wildcard_removal rid c fs d = (Inr u, fs', d') \<Longrightarrow> d' = d \<and> (c \<longrightarrow> \<not> lock_out rid d)"
  by (auto simp: guard_wildcard_removal_def tx_bind_Inr split: if_splits dest!: lock_out_Inr)

lemma update_role_Inr:
  "update_role role fs d = (Inr out, fs', d') \<Longrightarrow>
     d' = write_role role d \<and> (\<forall>r \<in> set (db_roles d). ro_key r = r_key role \<longrightarrow> ro_id r = r_id role)"
  by (auto simp: update_role_def statement_Inr list_ex_bool_iff split: option.splits if_splits)

lemma keep_system_key_simps [simp]:
  "r_id (keep_system_key c role) = r_id role"
  "r_permissions (keep_system_key c role) = r_permissions role"
  by (simp_all add: keep_system_key_def)

lemma replace_role_Inr:
  assumes "replace_role role actor aps fs d = (Inr out, fs', d')"
  obtains current cps where "find_role (r_id role) d = Some current"
    and "unmarshal_permissions (ro_permissions current) = Inr cps"
    and "0 < actor \<Longrightarrow> permissions_within_ceiling cps aps"
    and "role_may_change (keep_system_key current role) d"
    and "d' = write_role (keep_system_key current role) d"
proof -
  from assms obtain current cps fs1 fs2 d2 ug where
    c: "find_role (r_id role) d = Some current" and
    u: "unmarshal_permissions (ro_permissions current) = Inr cps" and
    ceil: "\<not> (0 < actor \<and> \<not> permissions_within_ceiling cps aps)" and
    g: "guard_wildcard_removal (r_id role)
         (role_has_wildcard cps \<and> \<not> role_has_wildcard (r_permissions role)) fs1 d = (Inr ug, fs2, d2)" and
    up: "update_role (keep_system_key current role) fs2 d2 = (Inr out, fs', d')"
    unfolding replace_role_def
    by (elim tx_bindE) (simp only: query_row_Inr tx_lift_Inr throw_if_Inr, elim conjE, hypsubst, rule that; assumption)
  from guard_wildcard_Inr [OF g] have [simp]: "d2 = d" by simp
  have "role_may_change (keep_system_key current role) d"
    unfolding role_may_change_def
    using c u guard_wildcard_Inr [OF g] update_role_Inr [OF up] by auto
  with that [OF c u _ this] ceil update_role_Inr [OF up] show thesis by auto
qed

lemma save_body_Inr:
  assumes "save_role_body role actor fs d = (Inr out, fs', d')"
  obtains aps fs0 fs1 where "role_mutation_actor_ceiling actor fs0 d = (Inr aps, fs1, d)"
    and "0 < actor \<Longrightarrow> permissions_within_ceiling (r_permissions role) aps"
    and "(if r_id role = 0 then insert_role role else replace_role role actor aps) fs1 d = (Inr out, fs', d')"
proof -
  from assms obtain d1 d2 aps fs0 fs1 ul where l: "advisory_lock fs d = (Inr ul, fs0, d1)"
    and c: "role_mutation_actor_ceiling actor fs0 d1 = (Inr aps, fs1, d2)"
    and n: "\<not> (0 < actor \<and> \<not> permissions_within_ceiling (r_permissions role) aps)"
    and r: "(if r_id role = 0 then insert_role role else replace_role role actor aps) fs1 d2
        = (Inr out, fs', d')"
    unfolding save_role_body_def
    by (elim tx_bindE) (simp only: throw_if_Inr, elim conjE, hypsubst, blast)
  from advisory_lock_Inr [OF l] actor_ceiling_Inr(1) [OF c] c n r that show thesis by blast
qed

lemma insert_role_Inr:
  "insert_role role fs d = (Inr out, fs', d') \<Longrightarrow>
     (\<forall>r \<in> set (db_roles d). ro_key r \<noteq> r_key role) \<and>
     d' = d\<lparr>db_roles := db_roles d @ [added_role role d], db_next_role := db_next_role d + 1\<rparr>"
  by (auto simp: insert_role_def statement_Inr Let_def added_role_def list_ex_bool_iff split: if_splits)

lemma save_role_Inr:
  "save_role input actor fs d = (Inr out, fs', d') \<Longrightarrow>
     \<exists>fs1 fs2. save_role_body (trimmed_role input) actor fs1 d = (Inr out, fs2, d')"
  unfolding save_role_def Let_def tx_bind_Inr throw_if_Inr tx_lift_Inr transaction_Inr by blast

lemma save_role_Inl: "save_role input actor fs d = (Inl e, fs', d') \<Longrightarrow> d' = d"
  by (auto simp: save_role_def Let_def split: if_splits sum.splits dest: transaction_atomic)

lemma save_role_outcome:
  assumes "save_role input actor fs d = (res, fs', d')"
  shows "d' = d
    \<or> (\<exists>role. (\<forall>r \<in> set (db_roles d). ro_key r \<noteq> r_key role) \<and>
         d' = d\<lparr>db_roles := db_roles d @ [added_role role d], db_next_role := db_next_role d + 1\<rparr>)
    \<or> (\<exists>role. role_may_change role d \<and> d' = write_role role d)"
proof (cases res)
  case (Inl e)
  with assms show ?thesis by (auto dest: save_role_Inl)
next
  case (Inr out)
  with assms obtain fs1 fs2 where "save_role_body (trimmed_role input) actor fs1 d = (Inr out, fs2, d')"
    by (auto dest: save_role_Inr)
  then obtain aps fs3 where b: "(if r_id (trimmed_role input) = 0 then insert_role (trimmed_role input)
      else replace_role (trimmed_role input) actor aps) fs3 d = (Inr out, fs2, d')"
    by (rule save_body_Inr)
  show ?thesis
  proof (cases "r_id (trimmed_role input) = 0")
    case True
    with b insert_role_Inr show ?thesis by simp blast
  next
    case False
    with b have "replace_role (trimmed_role input) actor aps fs3 d = (Inr out, fs2, d')" by simp
    then show ?thesis by (rule replace_role_Inr) blast
  qed
qed

lemma delete_row_Inr: "delete_role_row rid fs d = (Inr u, fs', d') \<Longrightarrow> d' = remove_role rid d"
  by (auto simp: delete_role_row_def statement_Inr split: if_splits)

lemma delete_body_Inr:
  assumes "delete_role_body rid actor fs d = (Inr u, fs', d')"
  obtains aps fs0 fs1 current ps where "role_mutation_actor_ceiling actor fs0 d = (Inr aps, fs1, d)"
    and "find_role rid d = Some current" and "\<not> ro_system current"
    and "unmarshal_permissions (ro_permissions current) = Inr ps"
    and "0 < actor \<Longrightarrow> permissions_within_ceiling ps aps"
    and "''*'' \<in> set ps \<longrightarrow> \<not> lock_out rid d" and "d' = remove_role rid d"
proof -
  from assms obtain d1 d2 d3 aps fs0 fs1 ul current ps fs2 fs3 ug
    where l: "advisory_lock fs d = (Inr ul, fs0, d1)"
    and c: "role_mutation_actor_ceiling actor fs0 d1 = (Inr aps, fs1, d2)"
    and f: "find_role rid d2 = Some current" and sys: "\<not> ro_system current"
    and p: "unmarshal_permissions (ro_permissions current) = Inr ps"
    and n: "\<not> (0 < actor \<and> \<not> permissions_within_ceiling ps aps)"
    and g: "guard_wildcard_removal rid (role_has_wildcard ps) fs2 d2 = (Inr ug, fs3, d3)"
    and r: "delete_role_row rid fs3 d3 = (Inr u, fs', d')"
    unfolding delete_role_body_def
    by (elim tx_bindE)
       (simp only: throw_if_Inr query_row_Inr tx_lift_Inr, elim conjE, hypsubst, blast)
  have [simp]: "d1 = d" "d2 = d" "d3 = d"
    using advisory_lock_Inr [OF l] actor_ceiling_Inr(1) [OF c] guard_wildcard_Inr [OF g] by auto
  show thesis
    by (rule that) (use c f sys p n guard_wildcard_Inr [OF g] delete_row_Inr [OF r] in auto)
qed

lemma delete_role_Inr:
  "delete_role rid actor fs d = (Inr u, fs', d') \<Longrightarrow>
     \<exists>fs1 fs2. delete_role_body rid actor fs1 d = (Inr u, fs2, d')"
  unfolding delete_role_def transaction_Inr by blast

lemma delete_role_outcome:
  assumes "delete_role rid actor fs d = (res, fs', d')"
  shows "d' = d
    \<or> (\<exists>current ps. find_role rid d = Some current \<and> unmarshal_permissions (ro_permissions current) = Inr ps
         \<and> (''*'' \<in> set ps \<longrightarrow> \<not> lock_out rid d) \<and> d' = remove_role rid d)"
proof (cases res)
  case (Inl e)
  with assms show ?thesis unfolding delete_role_def by (auto dest: transaction_atomic)
next
  case (Inr u)
  with assms obtain fs1 fs2 where "delete_role_body rid actor fs1 d = (Inr u, fs2, d')"
    by (auto dest: delete_role_Inr)
  then show ?thesis by (rule delete_body_Inr) blast
qed

definition bound_rows :: "int \<Rightarrow> role_binding list \<Rightarrow> user_role_row list" where
  "bound_rows uid bs =
     map (\<lambda>b. \<lparr>bi_user_id = uid, bi_role_id = rb_role_id b, bi_scope_mode = rb_scope_mode b\<rparr>) bs"

definition bound_clauses :: "int \<Rightarrow> role_binding list \<Rightarrow> clause_row list" where
  "bound_clauses uid bs =
     concat (map (\<lambda>b. map (\<lambda>c. \<lparr>cl_user_id = uid, cl_role_id = rb_role_id b, cl_type = sc_type c,
       cl_value = sc_value c\<rparr>) (rb_scopes b)) bs)"

definition rebound :: "int \<Rightarrow> role_binding list \<Rightarrow> store_db \<Rightarrow> store_db" where
  "rebound uid bs d =
     d\<lparr>db_user_roles := filter (\<lambda>b. bi_user_id b \<noteq> uid) (db_user_roles d) @ bound_rows uid bs,
       db_clauses := filter (\<lambda>c. cl_user_id c \<noteq> uid) (db_clauses d) @ bound_clauses uid bs\<rparr>"

lemma fold_insert_clause:
  "fold (insert_clause uid b) cs d =
     d\<lparr>db_clauses := db_clauses d @ map (\<lambda>c. \<lparr>cl_user_id = uid, cl_role_id = rb_role_id b,
         cl_type = sc_type c, cl_value = sc_value c\<rparr>) cs\<rparr>"
  by (induction cs arbitrary: d) (simp_all add: insert_clause_def)

lemma insert_binding_Inr:
  "insert_binding uid b fs d = (Inr u, fs', d') \<Longrightarrow>
     d' = d\<lparr>db_user_roles := db_user_roles d @ bound_rows uid [b],
            db_clauses := db_clauses d @ bound_clauses uid [b]\<rparr>"
  unfolding insert_binding_def
  by (elim tx_bindE)
     (auto simp: exec_Inr fold_insert_clause insert_user_role_def bound_rows_def bound_clauses_def
       dest!: foreach_exec_fold)

lemma foreach_insert_binding:
  "foreach (insert_binding uid) bs fs d = (Inr u, fs', d') \<Longrightarrow>
     d' = d\<lparr>db_user_roles := db_user_roles d @ bound_rows uid bs,
            db_clauses := db_clauses d @ bound_clauses uid bs\<rparr>"
proof (induction bs arbitrary: fs d)
  case Nil
  then show ?case by (simp add: bound_rows_def bound_clauses_def)
next
  case (Cons b bs)
  from Cons.prems obtain fs1 d1 v where b: "insert_binding uid b fs d = (Inr v, fs1, d1)"
    and r: "foreach (insert_binding uid) bs fs1 d1 = (Inr u, fs', d')"
    by (auto elim: tx_bindE)
  from Cons.IH [OF r] insert_binding_Inr [OF b] show ?case
    by (simp add: bound_rows_def bound_clauses_def)
qed

lemma replace_bindings_Inr:
  "replace_bindings uid bs fs d = (Inr u, fs', d') \<Longrightarrow> d' = rebound uid bs d"
  unfolding replace_bindings_def
  by (elim tx_bindE) (auto simp: exec_Inr unbind_user_def rebound_def dest!: foreach_insert_binding)

definition admin_remains :: "int \<Rightarrow> bool \<Rightarrow> role_binding list \<Rightarrow> store_db \<Rightarrow> bool" where
  "admin_remains uid user_active bs d \<longleftrightarrow>
     (user_active
      \<and> (\<exists>b \<in> set (db_user_roles d). bi_user_id b = uid \<and> bi_scope_mode b = ''global''
           \<and> (\<exists>r \<in> set (db_roles d). ro_id r = bi_role_id b \<and> has_star (ro_permissions r)))
      \<longrightarrow> (\<exists>r \<in> set (db_roles d). (\<exists>b \<in> set bs. rb_scope_mode b = ''global'' \<and> rb_role_id b = ro_id r)
             \<and> has_star (ro_permissions r))
         \<or> active_wildcard_binding (\<lambda>b. bi_user_id b \<noteq> uid) d)"

lemma wildcard_assigned:
  assumes "x \<in> set roles" and "has_star (ro_permissions x)" and "ro_id x = rb_role_id y" and "y \<in> set bs"
    and "rb_scope_mode y = ''global''"
  shows "\<exists>r \<in> set roles. (\<exists>b \<in> set bs. rb_scope_mode b = ''global'' \<and> rb_role_id b = ro_id r)
    \<and> has_star (ro_permissions r)"
  using assms by force

lemma check_last_admin_Inr:
  "check_last_admin uid a bs fs d = (Inr u, fs', d') \<Longrightarrow> d' = d \<and> admin_remains uid a bs d"
  unfolding check_last_admin_def Let_def
  by (elim tx_bindE)
     (auto simp: query_Inr tx_bind_Inr admin_remains_def list_ex_bool_iff split: if_splits,
      rule wildcard_assigned; assumption)

lemma check_legacy_Inr: "check_legacy uid legacy fs d = (Inr u, fs', d') \<Longrightarrow> d' = d"
  by (auto simp: check_legacy_def query_Inr tx_bind_Inr split: if_splits)

lemma check_grant_ceiling_Inr:
  assumes "check_grant_ceiling uid ids actor aps fs d = (Inr u, fs', d')"
  shows "d' = d" and "0 < actor \<Longrightarrow> \<exists>sps.
    collect_raw (map ro_permissions (filter (\<lambda>r. ro_id r \<in> set ids) (db_roles d))) [] = Inr sps
    \<and> permissions_within_ceiling sps aps"
  using assms
  by (auto simp: check_grant_ceiling_def tx_bind_Inr split: if_splits
        dest!: assigned_permissions_Inr role_permissions_Inr)

lemma foreach_read_only:
  "(\<And>x fs d fs' d' u. x \<in> set xs \<Longrightarrow> body x fs d = (Inr u, fs', d') \<Longrightarrow> d' = d) \<Longrightarrow>
   foreach body xs fs d = (Inr u, fs', d') \<Longrightarrow> d' = d"
proof (induction xs arbitrary: fs d)
  case Nil
  then show ?case by simp
next
  case (Cons x xs)
  from Cons.prems(2) obtain a fs1 d1 where b: "body x fs d = (Inr a, fs1, d1)"
    and r: "foreach body xs fs1 d1 = (Inr u, fs', d')" by (auto elim: tx_bindE)
  have "d1 = d" by (rule Cons.prems(1) [OF _ b]) simp
  moreover have "d' = d1" by (rule Cons.IH [OF Cons.prems(1) r]) auto
  ultimately show ?case by simp
qed

lemma check_hubs_Inr: "check_hubs bs fs d = (Inr u, fs', d') \<Longrightarrow> d' = d"
  unfolding check_hubs_def
  by (erule foreach_read_only [rotated], erule foreach_read_only [rotated])
     (auto simp: tx_bind_Inr query_Inr Let_def split: if_splits)

lemma check_hubs_found:
  assumes "check_hubs bs fs d = (Inr u, fs', d')"
  shows "\<forall>b \<in> set bs. \<forall>c \<in> set (rb_scopes b). sc_type c = ''hub'' \<longrightarrow>
    (\<exists>h \<in> set (db_hubs d). hb_id h = (case parse_hub_scope (sc_value c) of None \<Rightarrow> 0 | Some i \<Rightarrow> i))"
proof -
  let ?found = "\<lambda>c. sc_type c = ''hub'' \<longrightarrow>
    (\<exists>h \<in> set (db_hubs d). hb_id h = (case parse_hub_scope (sc_value c) of None \<Rightarrow> 0 | Some i \<Rightarrow> i))"
  have inner: "(\<forall>c \<in> set cs. ?found c) \<and> d1 = d" if "foreach (\<lambda>clause.
        if sc_type clause \<noteq> ''hub'' then tx_return ()
        else
          let hub_id = (case parse_hub_scope (sc_value clause) of None \<Rightarrow> 0 | Some i \<Rightarrow> i)
          in tx_bind (query DbError (\<lambda>d. list_ex (\<lambda>h. hb_id h = hub_id) (db_hubs d))) (\<lambda>found.
               throw_if (\<not> found) ErrNotFound)) cs fs0 d = (Inr x, fs1, d1)" for cs fs0 x fs1 d1
    using that by (induction cs arbitrary: fs0)
      (auto simp: tx_bind_Inr query_Inr Let_def list_ex_bool_iff split: if_splits)
  show ?thesis
    using assms unfolding check_hubs_def
    by (induction bs arbitrary: fs) (fastforce simp: tx_bind_Inr dest!: inner)+
qed

text \<open>The calls of a successful assignment, none of which changes anything before the rows are replaced.\<close>

lemma set_bindings_body_calls:
  assumes "set_bindings_body uid bs ids legacy actor fs d = (Inr u, fs', d')"
  obtains aps fs0 fs1 fs4 fs5 fs6 fs7 active u4 u5 u6
  where "role_mutation_actor_ceiling actor fs0 d = (Inr aps, fs1, d)"
    and "map_option us_active (find_user uid d) = Some active"
    and "length (filter (\<lambda>r. ro_id r \<in> set ids) (db_roles d)) = length ids"
    and "check_grant_ceiling uid ids actor aps fs4 d = (Inr u4, fs5, d)"
    and "check_hubs bs fs5 d = (Inr u5, fs6, d)"
    and "check_last_admin uid active bs fs6 d = (Inr u6, fs7, d)"
    and "replace_bindings uid bs fs7 d = (Inr u, fs', d')"
proof -
  from assms obtain d1 d2 d3 d4 d5 d6 d7 aps fs0 fs0' fs1 fs2 fs3 fs4 fs5 fs6 fs7 active u1 u2 u3 u4 u5 u6
    where l1: "advisory_lock fs d = (Inr u1, fs0', d1)"
    and l2: "advisory_lock fs0' d1 = (Inr u2, fs0, d2)"
    and c: "role_mutation_actor_ceiling actor fs0 d2 = (Inr aps, fs1, d3)"
    and f: "map_option us_active (find_user uid d3) = Some active"
    and leg: "check_legacy uid legacy fs2 d3 = (Inr u3, fs3, d4)"
    and n: "\<not> (length (filter (\<lambda>r. ro_id r \<in> set ids) (db_roles d4)) \<noteq> length ids)"
    and g: "check_grant_ceiling uid ids actor aps fs4 d4 = (Inr u4, fs5, d5)"
    and h: "check_hubs bs fs5 d5 = (Inr u5, fs6, d6)"
    and a: "check_last_admin uid active bs fs6 d6 = (Inr u6, fs7, d7)"
    and r: "replace_bindings uid bs fs7 d7 = (Inr u, fs', d')"
    unfolding set_bindings_body_def
    by (elim tx_bindE)
       (simp only: throw_if_Inr query_row_Inr query_Inr tx_lift_Inr, elim conjE, hypsubst,
         rule that, assumption+)
  have eqs [simp]: "d1 = d" "d2 = d" "d3 = d" "d4 = d" "d5 = d" "d6 = d" "d7 = d"
    using advisory_lock_Inr [OF l1] advisory_lock_Inr [OF l2] actor_ceiling_Inr(1) [OF c]
      check_legacy_Inr [OF leg] check_grant_ceiling_Inr(1) [OF g] check_hubs_Inr [OF h]
      check_last_admin_Inr [OF a] by simp_all
  show thesis
    by (rule that [of fs0 aps fs1 active fs4 u4 fs5 u5 fs6 u6 fs7]) (use c f n g h a r in simp_all)
qed

lemma set_bindings_body_Inr:
  assumes "set_bindings_body uid bs ids legacy actor fs d = (Inr u, fs', d')"
  obtains aps fs0 fs1 active where "role_mutation_actor_ceiling actor fs0 d = (Inr aps, fs1, d)"
    and "map_option us_active (find_user uid d) = Some active"
    and "length (filter (\<lambda>r. ro_id r \<in> set ids) (db_roles d)) = length ids"
    and "0 < actor \<Longrightarrow> \<exists>sps.
        collect_raw (map ro_permissions (filter (\<lambda>r. ro_id r \<in> set ids) (db_roles d))) [] = Inr sps
        \<and> permissions_within_ceiling sps aps"
    and "admin_remains uid active bs d" and "d' = rebound uid bs d"
proof -
  from assms obtain aps fs0 fs1 fs4 fs5 fs6 fs7 active u4 u5 u6
    where c: "role_mutation_actor_ceiling actor fs0 d = (Inr aps, fs1, d)"
    and f: "map_option us_active (find_user uid d) = Some active"
    and n: "length (filter (\<lambda>r. ro_id r \<in> set ids) (db_roles d)) = length ids"
    and g: "check_grant_ceiling uid ids actor aps fs4 d = (Inr u4, fs5, d)"
    and a: "check_last_admin uid active bs fs6 d = (Inr u6, fs7, d)"
    and r: "replace_bindings uid bs fs7 d = (Inr u, fs', d')"
    by (rule set_bindings_body_calls)
  show thesis
    by (rule that [of fs0 aps fs1 active])
       (use c f n check_grant_ceiling_Inr(2) [OF g] check_last_admin_Inr [OF a]
         replace_bindings_Inr [OF r] in simp_all)
qed

lemma set_bindings_Inr:
  assumes "set_user_role_bindings uid bindings legacy actor fs d = (Inr u, fs', d')"
  obtains bs fs1 fs2 where "normalize_bindings_from bindings [] = Inr bs"
    and "set_bindings_body uid bs (map rb_role_id bs) legacy actor fs1 d = (Inr u, fs2, d')"
  using assms
  by (auto simp: set_user_role_bindings_def normalize_role_bindings_def res_bind_Inr_iff
        transaction_Inr split: if_splits sum.splits)

lemma set_bindings_Inl:
  "set_user_role_bindings uid bindings legacy actor fs d = (Inl e, fs', d') \<Longrightarrow> d' = d"
  by (auto simp: set_user_role_bindings_def split: if_splits sum.splits prod.splits
        dest: transaction_atomic)

definition bindings_may_change :: "int \<Rightarrow> role_binding list \<Rightarrow> store_db \<Rightarrow> bool" where
  "bindings_may_change uid bs d \<longleftrightarrow> (\<exists>active.
     map_option us_active (find_user uid d) = Some active
     \<and> distinct (map rb_role_id bs) \<and> list_all normal_binding bs
     \<and> length (filter (\<lambda>r. ro_id r \<in> set (map rb_role_id bs)) (db_roles d)) = length bs
     \<and> admin_remains uid active bs d)"

lemma set_bindings_outcome:
  assumes "set_user_role_bindings uid bindings legacy actor fs d = (res, fs', d')"
  shows "d' = d \<or> (\<exists>bs. bindings_may_change uid bs d \<and> d' = rebound uid bs d)"
proof (cases res)
  case (Inl e)
  with assms show ?thesis by (auto dest: set_bindings_Inl)
next
  case (Inr u)
  with assms obtain bs fs1 fs2 where n: "normalize_bindings_from bindings [] = Inr bs"
    and b: "set_bindings_body uid bs (map rb_role_id bs) legacy actor fs1 d = (Inr u, fs2, d')"
    by (auto elim: set_bindings_Inr)
  from b obtain active where "map_option us_active (find_user uid d) = Some active"
    "length (filter (\<lambda>r. ro_id r \<in> set (map rb_role_id bs)) (db_roles d)) = length (map rb_role_id bs)"
    "admin_remains uid active bs d" "d' = rebound uid bs d"
    by (rule set_bindings_body_Inr)
  with normalize_bindings_from_normal [OF n] show ?thesis
    unfolding bindings_may_change_def by auto
qed

section \<open>The invariant is kept\<close>

lemma tables_ok_add:
  assumes "tables_ok d" and "\<forall>r \<in> set (db_roles d). ro_key r \<noteq> r_key role"
  shows "tables_ok (d\<lparr>db_roles := db_roles d @ [added_role role d], db_next_role := db_next_role d + 1\<rparr>)"
  using assms by (auto simp: tables_ok_def added_role_def)

lemma write_role_simps [simp]:
  "db_users (write_role role d) = db_users d"
  "db_user_roles (write_role role d) = db_user_roles d"
  "db_clauses (write_role role d) = db_clauses d"
  "db_next_role (write_role role d) = db_next_role d"
  "db_next_user (write_role role d) = db_next_user d"
  "map ro_id (db_roles (write_role role d)) = map ro_id (db_roles d)"
  by (simp_all add: write_role_def)

lemma write_role_other: "r \<in> set (db_roles d) \<Longrightarrow> ro_id r \<noteq> r_id role \<Longrightarrow> r \<in> set (db_roles (write_role role d))"
  by (force simp: write_role_def)

lemma distinct_map_update:
  assumes "distinct (map f xs)" and "distinct (map k xs)"
    and "\<And>x. x \<in> set xs \<Longrightarrow> k x \<noteq> i \<Longrightarrow> g x = f x" and "\<And>x. x \<in> set xs \<Longrightarrow> k x = i \<Longrightarrow> g x = v"
    and "\<forall>x \<in> set xs. f x = v \<longrightarrow> k x = i"
  shows "distinct (map g xs)"
  unfolding distinct_map
proof
  show "distinct xs" using assms(1) by (simp add: distinct_map)
  have inj: "\<And>x y. x \<in> set xs \<Longrightarrow> y \<in> set xs \<Longrightarrow> f x = f y \<Longrightarrow> x = y"
    "\<And>x y. x \<in> set xs \<Longrightarrow> y \<in> set xs \<Longrightarrow> k x = k y \<Longrightarrow> x = y"
    using assms(1,2) by (auto simp: distinct_map inj_on_def)
  show "inj_on g (set xs)"
  proof (rule inj_onI)
    fix x y
    assume "x \<in> set xs" "y \<in> set xs" "g x = g y"
    with assms(3-5) inj show "x = y" by (cases "k x = i"; cases "k y = i") metis+
  qed
qed

lemma write_role_keys:
  assumes "distinct (map ro_key (db_roles d))" and "distinct (map ro_id (db_roles d))"
    and "\<forall>r \<in> set (db_roles d). ro_key r = r_key role \<longrightarrow> ro_id r = r_id role"
  shows "distinct (map ro_key (db_roles (write_role role d)))"
  using distinct_map_update [OF assms(1,2) _ _ assms(3)] by (simp add: write_role_def o_def)

lemma tables_ok_write:
  assumes "tables_ok d" and "role_may_change role d"
  shows "tables_ok (write_role role d)"
proof -
  have ids: "ro_id ` set (db_roles (write_role role d)) = ro_id ` set (db_roles d)"
    by (simp only: write_role_simps flip: set_map)
  have bounds: "\<forall>r \<in> set (db_roles (write_role role d)). 0 < ro_id r \<and> ro_id r < db_next_role d"
  proof
    fix r
    assume "r \<in> set (db_roles (write_role role d))"
    with ids obtain s where "s \<in> set (db_roles d)" "ro_id s = ro_id r"
      by (metis (no_types) imageE image_eqI)
    with assms(1) show "0 < ro_id r \<and> ro_id r < db_next_role d" by (auto simp: tables_ok_def)
  qed
  from assms(2) have "\<forall>r \<in> set (db_roles d). ro_key r = r_key role \<longrightarrow> ro_id r = r_id role"
    by (auto simp: role_may_change_def)
  with assms(1) have "distinct (map ro_key (db_roles (write_role role d)))"
    by (intro write_role_keys) (auto simp: tables_ok_def)
  then show ?thesis
    using assms(1) bounds unfolding tables_ok_def write_role_simps ids by blast
qed

lemma unique_role:
  "tables_ok d \<Longrightarrow> r \<in> set (db_roles d) \<Longrightarrow> s \<in> set (db_roles d) \<Longrightarrow> ro_id r = ro_id s \<Longrightarrow> r = s"
  by (auto simp: tables_ok_def distinct_map inj_on_def)

lemma unique_user:
  "tables_ok d \<Longrightarrow> u \<in> set (db_users d) \<Longrightarrow> v \<in> set (db_users d) \<Longrightarrow> us_id u = us_id v \<Longrightarrow> u = v"
  by (auto simp: tables_ok_def distinct_map inj_on_def)

lemma unmarshal_star:
  "unmarshal_permissions raw = Inr ps \<Longrightarrow> has_star raw \<longleftrightarrow> ''*'' \<in> set ps"
  by (cases raw) auto

text \<open>An active global wildcard binding on another role is untouched by a change of role \<open>rid\<close>.\<close>

lemma other_role_binding:
  assumes "active_wildcard_binding (\<lambda>b. bi_role_id b \<noteq> rid) d"
    and "\<And>r. r \<in> set (db_roles d) \<Longrightarrow> ro_id r \<noteq> rid \<Longrightarrow> r \<in> set (db_roles d')"
    and "\<And>b. b \<in> set (db_user_roles d) \<Longrightarrow> bi_role_id b \<noteq> rid \<Longrightarrow> b \<in> set (db_user_roles d')"
    and "db_users d' = db_users d"
  shows "super_admin_present d'"
  using assms unfolding super_admin_present_def active_wildcard_binding_iff by metis

text \<open>The guard of the code is enough: where it lets a change of role \<open>rid\<close> through, either the role
  keeps the wildcard or somebody else's role carries it.\<close>

lemma super_admin_cases:
  assumes "tables_ok d" and "super_admin_present d" and "find_role rid d = Some current"
    and "unmarshal_permissions (ro_permissions current) = Inr cps"
  obtains (other) "active_wildcard_binding (\<lambda>b. bi_role_id b \<noteq> rid) d"
    | (this_role) b where "''*'' \<in> set cps" "b \<in> set (db_user_roles d)" "bi_role_id b = rid"
        "bi_scope_mode b = ''global''" "\<exists>u \<in> set (db_users d). us_id u = bi_user_id b \<and> us_active u"
        "lock_out rid d \<or> active_wildcard_binding (\<lambda>b. bi_role_id b \<noteq> rid) d"
proof -
  from assms(2) obtain b u r where b: "b \<in> set (db_user_roles d)" "bi_scope_mode b = ''global''"
    and u: "u \<in> set (db_users d)" "us_id u = bi_user_id b" "us_active u"
    and r: "r \<in> set (db_roles d)" "ro_id r = bi_role_id b" "has_star (ro_permissions r)"
    by (auto simp: super_admin_present_def active_wildcard_binding_iff)
  show thesis
  proof (cases "bi_role_id b = rid")
    case True
    with find_role_Some [OF assms(3)] r(1,2) have "r = current" using unique_role [OF assms(1)] by metis
    with r(3) assms(4) have "''*'' \<in> set cps" by (simp add: unmarshal_star)
    moreover from b u True have "lock_out rid d \<or> active_wildcard_binding (\<lambda>b. bi_role_id b \<noteq> rid) d"
      by (auto simp: lock_out_def)
    ultimately show thesis using this_role b u True by blast
  next
    case False
    with b u r have "active_wildcard_binding (\<lambda>b. bi_role_id b \<noteq> rid) d"
      unfolding active_wildcard_binding_iff by blast
    then show thesis by (rule other)
  qed
qed

lemma super_admin_write:
  assumes "tables_ok d" and "super_admin_present d" and "role_may_change role d"
  shows "super_admin_present (write_role role d)"
proof -
  from assms(3) obtain current cps where c: "find_role (r_id role) d = Some current"
    and u: "unmarshal_permissions (ro_permissions current) = Inr cps"
    and g: "''*'' \<in> set cps \<and> ''*'' \<notin> set (r_permissions role) \<longrightarrow> \<not> lock_out (r_id role) d"
    by (auto simp: role_may_change_def)
  have oth: "super_admin_present (write_role role d)"
    if "active_wildcard_binding (\<lambda>b. bi_role_id b \<noteq> r_id role) d"
    using that by (rule other_role_binding) (auto intro: write_role_other)
  from assms(1,2) c u show ?thesis
  proof (cases rule: super_admin_cases)
    case other
    then show ?thesis by (rule oth)
  next
    case (this_role b)
    show ?thesis
    proof (cases "''*'' \<in> set (r_permissions role)")
      case True
      let ?r = "current\<lparr>ro_key := r_key role, ro_name := r_name role, ro_description := r_description role,
                ro_permissions := PermArray (r_permissions role), ro_updated_at := db_now d\<rparr>"
      have "?r \<in> set (db_roles (write_role role d))"
        using find_role_Some [OF c] by (force simp: write_role_def)
      moreover have "ro_id ?r = bi_role_id b" "has_star (ro_permissions ?r)"
        using find_role_Some [OF c] this_role True by auto
      ultimately show ?thesis
        using this_role unfolding super_admin_present_def active_wildcard_binding_iff write_role_simps
        by blast
    next
      case False
      with g this_role oth show ?thesis by blast
    qed
  qed
qed

lemma remove_role_tables:
  "tables_ok d \<Longrightarrow> tables_ok (remove_role rid d)"
  by (auto simp: tables_ok_def remove_role_def distinct_map inj_on_def image_iff)

lemma super_admin_remove:
  assumes "tables_ok d" and "super_admin_present d" and "find_role rid d = Some current"
    and "unmarshal_permissions (ro_permissions current) = Inr ps"
    and "''*'' \<in> set ps \<longrightarrow> \<not> lock_out rid d"
  shows "super_admin_present (remove_role rid d)"
proof -
  from assms(1-4) have "active_wildcard_binding (\<lambda>b. bi_role_id b \<noteq> rid) d"
    by (cases rule: super_admin_cases) (use assms(5) in auto)
  then show ?thesis by (rule other_role_binding) (auto simp: remove_role_def)
qed

end
