(* ===== verification/Rbac_Invariant.thy ===== *)
theory Rbac_Invariant
  imports Rbac_Safety
begin

text \<open>
  The account and role tables as a transition system: the bootstrap, the role mutations, the
  account writes, and anything the rest of the program does to other tables. An active account
  with the global wildcard exists in every reachable state.
\<close>

section \<open>Replacing the bindings of a user\<close>

lemma count_all_present:
  assumes "distinct (map f xs)" and "distinct ids" and "length (filter (\<lambda>x. f x \<in> set ids) xs) = length ids"
  shows "set ids \<subseteq> f ` set xs"
proof -
  let ?ys = "map f (filter (\<lambda>x. f x \<in> set ids) xs)"
  have "distinct ?ys" using assms(1) by (simp add: distinct_map_filter)
  then have "card (set ?ys) = length ids" using assms(3) by (metis distinct_card length_map)
  also have "\<dots> = card (set ids)" using assms(2) by (simp add: distinct_card)
  finally have c: "card (set ?ys) = card (set ids)" .
  have "set ?ys \<subseteq> set ids" by auto
  with c have "set ?ys = set ids" by (simp add: card_subset_eq)
  then show ?thesis by auto
qed

lemma rebound_simps [simp]:
  "db_users (rebound uid bs d) = db_users d" "db_roles (rebound uid bs d) = db_roles d"
  "db_next_role (rebound uid bs d) = db_next_role d" "db_next_user (rebound uid bs d) = db_next_user d"
  "db_user_roles (rebound uid bs d) =
     filter (\<lambda>b. bi_user_id b \<noteq> uid) (db_user_roles d) @ bound_rows uid bs"
  "db_clauses (rebound uid bs d) =
     filter (\<lambda>c. cl_user_id c \<noteq> uid) (db_clauses d) @ bound_clauses uid bs"
  by (simp_all add: rebound_def)

lemma tables_ok_rebound:
  assumes ok: "tables_ok d" and b: "bindings_may_change uid bs d"
  shows "tables_ok (rebound uid bs d)"
proof -
  from b obtain a where f: "map_option us_active (find_user uid d) = Some a"
    and dist: "distinct (map rb_role_id bs)"
    and len: "length (filter (\<lambda>r. ro_id r \<in> set (map rb_role_id bs)) (db_roles d)) = length bs"
    by (auto simp: bindings_may_change_def)
  from f have u: "uid \<in> us_id ` set (db_users d)" by (auto dest: find_user_Some)
  have ids: "rb_role_id ` set bs \<subseteq> ro_id ` set (db_roles d)"
    using count_all_present [of ro_id "db_roles d" "map rb_role_id bs"] ok dist len
    by (simp add: tables_ok_def)
  let ?p = "\<lambda>b. (bi_user_id b, bi_role_id b)"
  have "distinct (map ?p (db_user_roles (rebound uid bs d)))"
  proof -
    have "distinct (map ?p (filter (\<lambda>b. bi_user_id b \<noteq> uid) (db_user_roles d)))"
      using ok by (simp add: tables_ok_def distinct_map_filter)
    moreover have "distinct (map ?p (bound_rows uid bs))"
      using dist by (auto simp: bound_rows_def o_def distinct_map inj_on_def)
    ultimately show ?thesis by (auto simp: bound_rows_def)
  qed
  moreover have "\<forall>b \<in> set (db_user_roles (rebound uid bs d)).
      bi_role_id b \<in> ro_id ` set (db_roles d) \<and> bi_user_id b \<in> us_id ` set (db_users d)"
    using ok ids u by (auto simp: tables_ok_def bound_rows_def)
  moreover have "\<forall>c \<in> set (db_clauses (rebound uid bs d)).
      (cl_user_id c, cl_role_id c) \<in> ?p ` set (db_user_roles (rebound uid bs d))"
  proof
    fix c
    assume "c \<in> set (db_clauses (rebound uid bs d))"
    then consider "c \<in> set (db_clauses d)" "cl_user_id c \<noteq> uid" | "c \<in> set (bound_clauses uid bs)"
      by auto
    then show "(cl_user_id c, cl_role_id c) \<in> ?p ` set (db_user_roles (rebound uid bs d))"
    proof cases
      case 1
      with ok obtain x where "x \<in> set (db_user_roles d)" "?p x = (cl_user_id c, cl_role_id c)"
        by (auto simp: tables_ok_def)
      with 1 show ?thesis by (force simp: image_iff)
    next
      case 2
      then show ?thesis by (force simp: bound_clauses_def bound_rows_def)
    qed
  qed
  ultimately show ?thesis using ok unfolding tables_ok_def rebound_simps(1-4) by blast
qed

lemma super_admin_rebound:
  assumes ok: "tables_ok d" and adm: "super_admin_present d" and b: "bindings_may_change uid bs d"
  shows "super_admin_present (rebound uid bs d)"
proof -
  from b obtain a where f: "map_option us_active (find_user uid d) = Some a"
    and rem: "admin_remains uid a bs d"
    by (auto simp: bindings_may_change_def)
  have oth: "super_admin_present (rebound uid bs d)"
    if "active_wildcard_binding (\<lambda>b. bi_user_id b \<noteq> uid) d"
    using that unfolding super_admin_present_def active_wildcard_binding_iff rebound_simps by auto
  from adm obtain x u r where x: "x \<in> set (db_user_roles d)" "bi_scope_mode x = ''global''"
    and u: "u \<in> set (db_users d)" "us_id u = bi_user_id x" "us_active u"
    and r: "r \<in> set (db_roles d)" "ro_id r = bi_role_id x" "has_star (ro_permissions r)"
    by (auto simp: super_admin_present_def active_wildcard_binding_iff)
  show ?thesis
  proof (cases "bi_user_id x = uid")
    case False
    with x u r have "active_wildcard_binding (\<lambda>b. bi_user_id b \<noteq> uid) d"
      unfolding active_wildcard_binding_iff by blast
    then show ?thesis by (rule oth)
  next
    case True
    from f obtain v where v: "v \<in> set (db_users d)" "us_id v = uid" "us_active v = a"
      by (auto dest: find_user_Some)
    with ok u True have "v = u" by (auto simp: tables_ok_def distinct_map inj_on_def)
    with rem x r True u v consider
        "\<exists>r \<in> set (db_roles d). (\<exists>b \<in> set bs. rb_scope_mode b = ''global'' \<and> rb_role_id b = ro_id r)
             \<and> has_star (ro_permissions r)"
      | "active_wildcard_binding (\<lambda>b. bi_user_id b \<noteq> uid) d"
      unfolding admin_remains_def by blast
    then show ?thesis
    proof cases
      case 1
      then obtain s c where s: "s \<in> set (db_roles d)" "has_star (ro_permissions s)"
        and c: "c \<in> set bs" "rb_scope_mode c = ''global''" "rb_role_id c = ro_id s" by blast
      let ?b = "\<lparr>bi_user_id = uid, bi_role_id = rb_role_id c, bi_scope_mode = rb_scope_mode c\<rparr>"
      have "?b \<in> set (db_user_roles (rebound uid bs d))" using c(1) by (auto simp: bound_rows_def)
      moreover have "\<exists>u \<in> set (db_users d). us_id u = bi_user_id ?b \<and> us_active u"
        using u True by auto
      moreover have "\<exists>r \<in> set (db_roles d). ro_id r = bi_role_id ?b \<and> has_star (ro_permissions r)"
        using s c(3) by auto
      moreover have "bi_scope_mode ?b = ''global''" using c(2) by simp
      ultimately show ?thesis
        unfolding super_admin_present_def active_wildcard_binding_iff rebound_simps(1,2) by blast
    next
      case 2
      then show ?thesis by (rule oth)
    qed
  qed
qed

section \<open>The account writes\<close>

lemma rbac_inv_change_users:
  assumes "\<And>u. us_id (f u) = us_id u \<and> us_active (f u) = us_active u"
  shows "rbac_inv d \<Longrightarrow> rbac_inv (change_users cond f d)"
proof -
  have ids: "map us_id (db_users (change_users cond f d)) = map us_id (db_users d)"
    using assms by (simp add: change_users_def)
  then have idset: "us_id ` set (db_users (change_users cond f d)) = us_id ` set (db_users d)"
    by (simp flip: set_map)
  have bounds: "(\<forall>u \<in> set (db_users (change_users cond f d)). P (us_id u)) \<longleftrightarrow>
      (\<forall>u \<in> set (db_users d). P (us_id u))" for P
    using idset by (metis (no_types) imageE imageI)
  have act: "(\<exists>u \<in> set (db_users (change_users cond f d)). us_id u = i \<and> us_active u) \<longleftrightarrow>
      (\<exists>u \<in> set (db_users d). us_id u = i \<and> us_active u)" for i
    using assms by (auto simp: change_users_def)
  have same: "db_roles (change_users cond f d) = db_roles d"
    "db_user_roles (change_users cond f d) = db_user_roles d"
    "db_clauses (change_users cond f d) = db_clauses d"
    "db_next_role (change_users cond f d) = db_next_role d"
    "db_next_user (change_users cond f d) = db_next_user d"
    by (simp_all add: change_users_def)
  assume "rbac_inv d"
  then show "rbac_inv (change_users cond f d)"
    unfolding rbac_inv_def tables_ok_def super_admin_present_def active_wildcard_binding_iff
      ids idset same act
    using bounds [of "\<lambda>i. 0 < i \<and> i < db_next_user d"] by blast
qed

lemma super_admin_mono:
  assumes "super_admin_present d" and "set (db_user_roles d) \<subseteq> set (db_user_roles d')"
    and "set (db_users d) \<subseteq> set (db_users d')" and "db_roles d' = db_roles d"
  shows "super_admin_present d'"
  using assms(1) unfolding super_admin_present_def active_wildcard_binding_iff assms(4)
  using assms(2,3) by blast

lemma add_user_Inr:
  assumes "add_user row d = Inr (i, d')"
  shows "d' = d\<lparr>db_users := db_users d @ [row\<lparr>us_id := db_next_user d\<rparr>],
               db_next_user := db_next_user d + 1\<rparr>" and "i = db_next_user d"
  using assms by (auto simp: add_user_def split: if_splits)

lemma tables_ok_add_user:
  assumes "tables_ok d" and "add_user row d = Inr (i, d')"
  shows "tables_ok d'"
proof -
  have new: "db_next_user d \<notin> us_id ` set (db_users d)" and pos: "0 < db_next_user d"
    and old: "u \<in> set (db_users d) \<Longrightarrow> us_id u < db_next_user d + 1" for u
    using assms(1) by (force simp: tables_ok_def)+
  show ?thesis
    unfolding add_user_Inr(1) [OF assms(2)] using assms(1) new pos old by (simp add: tables_ok_def)
qed

lemma super_admin_add_user:
  "super_admin_present d \<Longrightarrow> add_user row d = Inr (i, d') \<Longrightarrow> super_admin_present d'"
  by (erule super_admin_mono) (drule add_user_Inr(1), force)+

lemma find_id_in:
  "find_user uid d = Some u \<Longrightarrow> uid \<in> us_id ` set (db_users d)"
  "find_role rid d = Some r \<Longrightarrow> rid \<in> ro_id ` set (db_roles d)"
  by (auto dest: find_user_Some find_role_Some)

lemma bind_default_outcome:
  assumes "bind_default uid rid fs d = (r, fs', d')"
  obtains "d' = d"
    | "uid \<in> us_id ` set (db_users d)" "rid \<in> ro_id ` set (db_roles d)"
      "(uid, rid) \<notin> (\<lambda>b. (bi_user_id b, bi_role_id b)) ` set (db_user_roles d)"
      "d' = d\<lparr>db_user_roles := db_user_roles d @
         [\<lparr>bi_user_id = uid, bi_role_id = rid, bi_scope_mode = ''global''\<rparr>]\<rparr>"
proof (cases "d' = d")
  case False
  with assms have "find_user uid d \<noteq> None" "find_role rid d \<noteq> None"
    "\<not> list_ex (\<lambda>b. bi_user_id b = uid \<and> bi_role_id b = rid) (db_user_roles d)"
    "d' = d\<lparr>db_user_roles := db_user_roles d @
         [\<lparr>bi_user_id = uid, bi_role_id = rid, bi_scope_mode = ''global''\<rparr>]\<rparr>"
    by (auto simp: bind_default_def statement_def Let_def split: prod.splits if_splits sum.splits)
  then show thesis by (intro that(2)) (auto simp: list_ex_bool_iff simp del: image_iff intro: find_id_in)
qed (use that in blast)

lemma tables_ok_bind_default:
  assumes "tables_ok d" and "bind_default uid rid fs d = (r, fs', d')"
  shows "tables_ok d'"
  using assms(2) by (rule bind_default_outcome) (use assms(1) in \<open>auto simp: tables_ok_def\<close>)

lemma super_admin_bind_default:
  "super_admin_present d \<Longrightarrow> bind_default uid rid fs d = (r, fs', d') \<Longrightarrow> super_admin_present d'"
  by (erule bind_default_outcome) (auto intro: super_admin_mono)

lemma keeps_bind_default [inv_intros]: "keeps rbac_inv (bind_default uid rid)"
  using tables_ok_bind_default super_admin_bind_default
  unfolding keeps_def rbac_inv_def by blast

lemma keeps_add_user: "keeps rbac_inv (statement e (\<lambda>d. add_user (row d) d))"
  by (rule keeps_statement) (auto simp: rbac_inv_def dest: tables_ok_add_user super_admin_add_user)

lemma keeps_update_oidc_row: "keeps rbac_inv (update_oidc_row uid username display email department)"
  unfolding update_oidc_row_def
  by (rule keeps_statement) (auto intro!: rbac_inv_change_users split: if_splits)

lemma keeps_upsert_oidc:
  "keeps rbac_inv (upsert_oidc_user subject username display email department auto)"
  unfolding upsert_oidc_user_def assign_default_role_def
  by (intro inv_intros keeps_add_user keeps_update_oidc_row)

lemma keeps_touch_login: "keeps rbac_inv (touch_login uid)"
  unfolding touch_login_def by (rule keeps_exec, rule rbac_inv_change_users) simp_all

lemma keeps_update_profile: "keeps rbac_inv (update_profile uid display email)"
  unfolding update_profile_def
  by (intro inv_intros, rule keeps_statement) (auto intro!: rbac_inv_change_users split: if_splits)

lemma keeps_change_password: "keeps rbac_inv (change_local_password hash matches uid old new)"
  unfolding change_local_password_def
  by (intro inv_intros keeps_exec rbac_inv_change_users) simp_all

section \<open>The bootstrap\<close>

lemma tables_ok_seed_super:
  assumes "tables_ok d" shows "tables_ok (seed_super_role d)"
proof (cases "list_ex (\<lambda>r. ro_key r = ''super_admin'') (db_roles d)")
  case True
  let ?f = "\<lambda>r. if ro_key r = ''super_admin''
      then r\<lparr>ro_permissions := PermArray [''*''], ro_system := True, ro_updated_at := db_now d\<rparr> else r"
  have rows: "db_roles (seed_super_role d) = map ?f (db_roles d)"
    using True by (simp add: seed_super_role_def)
  have same: "ro_id (?f r) = ro_id r" "ro_key (?f r) = ro_key r" for r by simp_all
  have bounds: "\<forall>r \<in> set (map ?f (db_roles d)). 0 < ro_id r \<and> ro_id r < db_next_role d"
    using assms by (auto simp: tables_ok_def)
  from True have rest: "db_users (seed_super_role d) = db_users d"
    "db_user_roles (seed_super_role d) = db_user_roles d" "db_clauses (seed_super_role d) = db_clauses d"
    "db_next_role (seed_super_role d) = db_next_role d" "db_next_user (seed_super_role d) = db_next_user d"
    by (simp_all add: seed_super_role_def)
  from bounds assms show ?thesis
    unfolding tables_ok_def rows rest list.map_comp o_def same
    by (simp only: set_map image_image same simp_thms) blast
next
  case False
  with assms show ?thesis
    by (auto simp: seed_super_role_def system_role_def tables_ok_def list_ex_bool_iff)
qed

lemma tables_ok_seed_user_role: "tables_ok d \<Longrightarrow> tables_ok (seed_user_role d)"
  by (auto simp: seed_user_role_def system_role_def tables_ok_def list_ex_bool_iff)

lemma super_admin_more_stars:
  assumes "super_admin_present d" and "db_users d' = db_users d" and "db_user_roles d' = db_user_roles d"
    and "\<And>r. r \<in> set (db_roles d) \<Longrightarrow> has_star (ro_permissions r) \<Longrightarrow>
        \<exists>s \<in> set (db_roles d'). ro_id s = ro_id r \<and> has_star (ro_permissions s)"
  shows "super_admin_present d'"
  using assms unfolding super_admin_present_def active_wildcard_binding_iff by metis

lemma super_admin_seed_super: "super_admin_present d \<Longrightarrow> super_admin_present (seed_super_role d)"
proof (erule super_admin_more_stars)
  fix r
  assume r: "r \<in> set (db_roles d)" "has_star (ro_permissions r)"
  show "\<exists>s \<in> set (db_roles (seed_super_role d)). ro_id s = ro_id r \<and> has_star (ro_permissions s)"
  proof (cases "ro_key r = ''super_admin''")
    case True
    with r(1) have "r\<lparr>ro_permissions := PermArray [''*''], ro_system := True, ro_updated_at := db_now d\<rparr>
        \<in> set (db_roles (seed_super_role d))"
      by (force simp: seed_super_role_def list_ex_bool_iff)
    then show ?thesis by (rule bexI [rotated]) simp
  next
    case False
    with r show ?thesis by (intro bexI [of _ r]) (auto simp: seed_super_role_def system_role_def)
  qed
qed (simp_all add: seed_super_role_def system_role_def)

lemma super_admin_seed_user_role: "super_admin_present d \<Longrightarrow> super_admin_present (seed_user_role d)"
  by (erule super_admin_more_stars) (auto simp: seed_user_role_def system_role_def)

lemma seed_setting_simps [simp]:
  "db_users (seed_setting kv d) = db_users d" "db_roles (seed_setting kv d) = db_roles d"
  "db_user_roles (seed_setting kv d) = db_user_roles d" "db_clauses (seed_setting kv d) = db_clauses d"
  "db_next_role (seed_setting kv d) = db_next_role d" "db_next_user (seed_setting kv d) = db_next_user d"
  by (simp_all add: seed_setting_def)

lemma seed_setting_keeps:
  "tables_ok d \<Longrightarrow> tables_ok (seed_setting kv d)"
  "super_admin_present d \<Longrightarrow> super_admin_present (seed_setting kv d)"
  by (simp_all add: tables_ok_def super_admin_present_def active_wildcard_binding_iff)

lemma rbac_inv_add_user: "rbac_inv d \<Longrightarrow> add_user row d = Inr (i, d') \<Longrightarrow> rbac_inv d'"
  by (auto simp: rbac_inv_def dest: tables_ok_add_user super_admin_add_user)

lemma keeps_seed_user: "keeps rbac_inv (seed_user username hash)"
  unfolding seed_user_def
  by (rule keeps_statement)
     (auto split: option.splits if_splits intro: rbac_inv_add_user intro!: rbac_inv_change_users)

lemma keeps_seed: "keeps rbac_inv (seed hash username password)"
  unfolding seed_def seed_body_def
  by (intro inv_intros keeps_seed_user keeps_exec)
     (auto simp: rbac_inv_def intro: tables_ok_seed_super super_admin_seed_super
        tables_ok_seed_user_role super_admin_seed_user_role seed_setting_keeps)

text \<open>A fresh database, the tables as the migrations leave them.\<close>

lemma seed_settings_fold_inv:
  "rbac_inv d \<Longrightarrow> rbac_inv (fold seed_setting kvs d)"
  by (induction kvs arbitrary: d) (simp_all add: rbac_inv_def seed_setting_keeps)

lemma seed_body_fresh:
  assumes "seed_body username hash fs (fresh_store now) = (Inr (), fs', d)"
  shows "rbac_inv d"
proof -
  from assms obtain uid rid e1 e2 e3 fs1 fs2 fs3 fs4 fs5 v w x where
    a: "seed_user username hash fs (fresh_store now) = (Inr uid, fs1, e1)" and
    r: "find (\<lambda>r. ro_key r = ''super_admin'') (db_roles (seed_super_role e1)) = Some w" "rid = ro_id w" and
    b: "bind_default uid rid fs3 (seed_super_role e1) = (Inr (), fs4, e3)" and
    d: "d = fold seed_setting default_settings (seed_user_role e3)"
    unfolding seed_body_def
    by (elim tx_bindE) (auto simp: query_row_Inr exec_Inr dest!: foreach_exec_fold)
  have e1: "uid = 1" "\<exists>u. db_users e1 = [u] \<and> us_id u = 1 \<and> us_active u"
      "db_roles e1 = []" "db_user_roles e1 = []" "db_clauses e1 = []" "db_next_role e1 = 1"
      "db_next_user e1 = 2"
    using a by (auto simp: seed_user_def statement_Inr add_user_def find_username_def fresh_store_def)
  obtain u where u: "db_users e1 = [u]" "us_id u = 1" "us_active u" using e1(2) by blast
  have "tables_ok e1" by (simp add: tables_ok_def e1(3-7) u)
  then have t: "tables_ok e3"
    by (rule tables_ok_bind_default [OF tables_ok_seed_super b])
  have roles: "db_roles (seed_super_role e1) = [w]" "has_star (ro_permissions w)"
    "db_user_roles (seed_super_role e1) = []" "db_users (seed_super_role e1) = [u]"
    using r(1) u e1(3-7) by (auto simp: seed_super_role_def system_role_def)
  from b roles u r(2) e1(1) have "super_admin_present e3"
    by (auto simp: bind_default_def statement_Inr find_user_def find_role_def super_admin_present_def
          active_wildcard_binding_def)
  with t have "rbac_inv (seed_user_role e3)"
    by (simp add: rbac_inv_def tables_ok_seed_user_role super_admin_seed_user_role)
  then show ?thesis unfolding d by (rule seed_settings_fold_inv)
qed

lemma seed_fresh:
  assumes "seed bcrypt username password fs (fresh_store now) = (Inr (), fs', d)"
  shows "rbac_inv d"
  using assms
  by (auto simp: seed_def transaction_Inr split: option.splits dest: seed_body_fresh)

section \<open>The transition system\<close>

definition bootstrapped :: "store_db \<Rightarrow> bool" where
  "bootstrapped d \<longleftrightarrow> (\<exists>bcrypt username password fs fs' now.
     seed bcrypt username password fs (fresh_store now) = (Inr (), fs', d))"

text \<open>One call, with any outcome and any failing statements. The last rule is the rest of the program:
  sessions, keys, settings, hubs and the clock change, the account and role tables do not; deleting a
  hub also deletes the scope clauses that name it.\<close>

inductive rbac_step :: "store_db \<Rightarrow> store_db \<Rightarrow> bool" where
  boot: "seed bcrypt username password fs d = (r, fs', d') \<Longrightarrow> rbac_step d d'"
| save: "save_role role actor fs d = (rr, fs', d') \<Longrightarrow> rbac_step d d'"
| delete: "delete_role rid actor fs d = (r, fs', d') \<Longrightarrow> rbac_step d d'"
| bind: "set_user_role_bindings uid bindings legacy actor fs d = (r, fs', d') \<Longrightarrow> rbac_step d d'"
| oidc: "upsert_oidc_user subject username display email department auto fs d = (u, fs', d') \<Longrightarrow>
    rbac_step d d'"
| login: "touch_login uid fs d = (r, fs', d') \<Longrightarrow> rbac_step d d'"
| profile: "update_profile uid display email fs d = (u, fs', d') \<Longrightarrow> rbac_step d d'"
| password: "change_local_password bcrypt matches uid old new fs d = (r, fs', d') \<Longrightarrow> rbac_step d d'"
| elsewhere: "db_users d' = db_users d \<Longrightarrow> db_roles d' = db_roles d \<Longrightarrow>
    db_user_roles d' = db_user_roles d \<Longrightarrow> set (db_clauses d') \<subseteq> set (db_clauses d) \<Longrightarrow>
    db_next_user d' = db_next_user d \<Longrightarrow> db_next_role d' = db_next_role d \<Longrightarrow> rbac_step d d'"

inductive_cases rbac_stepE: "rbac_step d d'"

lemma save_role_keeps: "rbac_inv d \<Longrightarrow> save_role role actor fs d = (r, fs', d') \<Longrightarrow> rbac_inv d'"
proof -
  assume i: "rbac_inv d" and "save_role role actor fs d = (r, fs', d')"
  from save_role_outcome [OF this(2)] i show ?thesis
  proof (elim disjE exE conjE)
    fix role
    assume k: "\<forall>r \<in> set (db_roles d). ro_key r \<noteq> r_key role" and d': "d' = d\<lparr>db_roles := db_roles d
        @ [added_role role d], db_next_role := db_next_role d + 1\<rparr>"
    have "super_admin_present d'"
      by (rule super_admin_more_stars [of d]) (use i d' in \<open>auto simp: rbac_inv_def\<close>)
    with i k d' show ?thesis by (simp add: rbac_inv_def tables_ok_add)
  qed (auto simp: rbac_inv_def tables_ok_write super_admin_write)
qed

lemma delete_role_keeps: "rbac_inv d \<Longrightarrow> delete_role rid actor fs d = (r, fs', d') \<Longrightarrow> rbac_inv d'"
  by (drule delete_role_outcome) (auto simp: rbac_inv_def remove_role_tables super_admin_remove)

lemma set_bindings_keeps:
  "rbac_inv d \<Longrightarrow> set_user_role_bindings uid bs legacy actor fs d = (r, fs', d') \<Longrightarrow> rbac_inv d'"
  by (drule set_bindings_outcome) (auto simp: rbac_inv_def tables_ok_rebound super_admin_rebound)

lemma elsewhere_keeps:
  assumes "rbac_inv d" and "db_users d' = db_users d" "db_roles d' = db_roles d"
    "db_user_roles d' = db_user_roles d" "set (db_clauses d') \<subseteq> set (db_clauses d)"
    "db_next_user d' = db_next_user d" "db_next_role d' = db_next_role d"
  shows "rbac_inv d'"
  using assms unfolding rbac_inv_def tables_ok_def super_admin_present_def active_wildcard_binding_iff
  by (simp only: assms(2-4,6,7)) blast

interpretation rbac: invariant_system bootstrapped rbac_step rbac_inv
proof
  fix d
  assume "bootstrapped d"
  then show "rbac_inv d" by (auto simp: bootstrapped_def dest: seed_fresh)
next
  fix d d'
  assume "rbac_inv d" and "rbac_step d d'"
  from this(2,1) show "rbac_inv d'"
  proof cases
    case boot
    then show ?thesis using keepsD [OF keeps_seed \<open>rbac_inv d\<close>] by blast
  next
    case save
    then show ?thesis using save_role_keeps \<open>rbac_inv d\<close> by blast
  next
    case delete
    then show ?thesis using delete_role_keeps \<open>rbac_inv d\<close> by blast
  next
    case bind
    then show ?thesis using set_bindings_keeps \<open>rbac_inv d\<close> by blast
  next
    case oidc
    then show ?thesis using keepsD [OF keeps_upsert_oidc \<open>rbac_inv d\<close>] by blast
  next
    case login
    then show ?thesis using keepsD [OF keeps_touch_login \<open>rbac_inv d\<close>] by blast
  next
    case profile
    then show ?thesis using keepsD [OF keeps_update_profile \<open>rbac_inv d\<close>] by blast
  next
    case password
    then show ?thesis using keepsD [OF keeps_change_password \<open>rbac_inv d\<close>] by blast
  next
    case elsewhere
    then show ?thesis using elsewhere_keeps \<open>rbac_inv d\<close> by blast
  qed
qed

end
