(* ===== verification/Hub_Grants.thy ===== *)
theory Hub_Grants
  imports Hub_Properties Rbac_Invariant
begin

text \<open>
  Hubs and role bindings together: a scope clause is plain text, there is no foreign key, and still
  no clause ever names a hub that does not exist.
\<close>

definition no_dangling :: "store_db \<Rightarrow> bool" where
  "no_dangling d \<longleftrightarrow>
     (\<forall>c \<in> set (db_clauses d). cl_type c = ''hub'' \<longrightarrow>
        (\<exists>h \<in> set (db_hubs d). 0 < hb_id h \<and> hb_id h \<le> int64_max \<and> cl_value c = format_int (hb_id h)))"

inductive inventory_step :: "store_db \<Rightarrow> store_db \<Rightarrow> bool" where
  boot: "seed bcrypt username password fs d = (r, fs', d') \<Longrightarrow> inventory_step d d'"
| save: "save_role role actor fs d = (rr, fs', d') \<Longrightarrow> inventory_step d d'"
| delete: "delete_role rid actor fs d = (r, fs', d') \<Longrightarrow> inventory_step d d'"
| bind: "set_user_role_bindings uid bindings legacy actor fs d = (r, fs', d') \<Longrightarrow> inventory_step d d'"
| hub_new: "create_hub endpoint_ok encrypt input fs d = (h, fs', d') \<Longrightarrow> inventory_step d d'"
| hub_edit: "update_hub endpoint_ok encrypt hid input fs d = (h, fs', d') \<Longrightarrow> inventory_step d d'"
| hub_gone: "delete_hub hid fs d = (r, fs', d') \<Longrightarrow> inventory_step d d'"
| hub_health: "update_hub_health_if_current digest hub success version message snapshot fs d = (b, fs', d')
    \<Longrightarrow> inventory_step d d'"
| elsewhere: "db_clauses d' = db_clauses d \<Longrightarrow> map hb_id (db_hubs d') = map hb_id (db_hubs d) \<Longrightarrow>
    inventory_step d d'"

inductive_cases inventory_stepE: "inventory_step d d'"

lemma no_dangling_mono:
  assumes "no_dangling d" and "set (db_clauses d') \<subseteq> set (db_clauses d)"
    and "hb_id ` set (db_hubs d) \<subseteq> hb_id ` set (db_hubs d')"
  shows "no_dangling d'"
  unfolding no_dangling_def
proof (intro ballI impI)
  fix c assume "c \<in> set (db_clauses d')" and "cl_type c = ''hub''"
  with assms(1,2) obtain h where h: "h \<in> set (db_hubs d)" "0 < hb_id h" "hb_id h \<le> int64_max"
    "cl_value c = format_int (hb_id h)" by (auto simp: no_dangling_def)
  from h(1) assms(3) obtain h' where "h' \<in> set (db_hubs d')" "hb_id h' = hb_id h" by force
  with h show "\<exists>h \<in> set (db_hubs d'). 0 < hb_id h \<and> hb_id h \<le> int64_max \<and> cl_value c = format_int (hb_id h)"
    by metis
qed

lemma no_dangling_same:
  "no_dangling d \<Longrightarrow> db_clauses d' = db_clauses d \<Longrightarrow> db_hubs d' = db_hubs d \<Longrightarrow> no_dangling d'"
  by (erule no_dangling_mono) simp_all

lemma hub_ids_change [simp]:
  assumes "\<And>h. hb_id (f h) = hb_id h"
  shows "hb_id ` set (db_hubs (change_hub hid f d)) = hb_id ` set (db_hubs d)"
proof -
  have "map hb_id (db_hubs (change_hub hid f d)) = map hb_id (db_hubs d)"
    using assms by (auto simp: change_hub_def)
  then show ?thesis by (metis list.set_map)
qed

lemma hub_clauses_change [simp]: "db_clauses (change_hub hid f d) = db_clauses d"
  by (simp add: change_hub_def)

lemma no_dangling_change:
  "no_dangling d \<Longrightarrow> (\<And>h. hb_id (f h) = hb_id h) \<Longrightarrow> no_dangling (change_hub hid f d)"
  by (erule no_dangling_mono) simp_all

lemma no_dangling_seed_rows:
  "no_dangling d \<Longrightarrow> no_dangling (seed_super_role d)"
  "no_dangling d \<Longrightarrow> no_dangling (seed_user_role d)"
  "no_dangling d \<Longrightarrow> no_dangling (seed_setting kv d)"
  "no_dangling d \<Longrightarrow> no_dangling (change_users cond f d)"
  by (auto simp: seed_super_role_def seed_user_role_def system_role_def seed_setting_def Let_def
      change_users_def elim: no_dangling_same)

lemma no_dangling_add_user: "no_dangling d \<Longrightarrow> add_user row d = Inr (i, d') \<Longrightarrow> no_dangling d'"
  by (drule add_user_Inr(1)) (simp add: no_dangling_def)

lemma keeps_dangling_bind_default: "keeps no_dangling (bind_default uid rid)"
  unfolding bind_default_def by (rule keeps_statement) (auto simp: no_dangling_def split: if_splits)

lemma keeps_dangling_seed: "keeps no_dangling (seed hash username password)"
  unfolding seed_def seed_body_def seed_user_def
  by (intro inv_intros keeps_exec keeps_dangling_bind_default no_dangling_seed_rows, assumption?, rule keeps_statement)
     (auto intro: no_dangling_seed_rows no_dangling_add_user split: option.splits if_splits)

lemma normal_hub_clause:
  assumes "normal_clause c" and "sc_type c = ''hub''"
  obtains i where "parse_hub_scope (sc_value c) = Some i" and "sc_value c = format_int i"
  using assms unfolding normal_clause_def normalize_clause_def
  by (auto simp: Let_def split: if_splits option.splits)

lemma dangling_bind:
  assumes "no_dangling d" and "set_user_role_bindings uid bindings legacy actor fs d = (r, fs', d')"
  shows "no_dangling d'"
proof (cases r)
  case (Inl e)
  with assms show ?thesis by (auto dest: set_bindings_Inl)
next
  case (Inr u)
  with assms(2) obtain bs fs1 fs2 where n: "normalize_bindings_from bindings [] = Inr bs"
    and b: "set_bindings_body uid bs (map rb_role_id bs) legacy actor fs1 d = (Inr u, fs2, d')"
    by (auto elim: set_bindings_Inr)
  from b obtain fs3 u5 fs4 u6 fs5 where h: "check_hubs bs fs3 d = (Inr u5, fs4, d)"
    and r: "replace_bindings uid bs fs5 d = (Inr u, fs2, d')"
    by (rule set_bindings_body_calls)
  from replace_bindings_Inr [OF r] have d': "d' = rebound uid bs d" .
  have "list_all normal_binding bs" using normalize_bindings_from_normal [OF n] by simp
  then have clause: "\<exists>h \<in> set (db_hubs d). 0 < hb_id h \<and> hb_id h \<le> int64_max \<and> sc_value c = format_int (hb_id h)"
    if b: "b \<in> set bs" and c: "c \<in> set (rb_scopes b)" and k: "sc_type c = ''hub''" for b c
  proof -
    from \<open>list_all normal_binding bs\<close> b c have "normal_clause c"
      by (auto simp: list_all_iff normal_binding_def)
    then obtain i where i: "parse_hub_scope (sc_value c) = Some i" "sc_value c = format_int i"
      using k by (rule normal_hub_clause)
    with check_hubs_found [OF h] b c k obtain h where "h \<in> set (db_hubs d)" "hb_id h = i" by force
    with i parse_hub_scope_Some [OF i(1)] show ?thesis by blast
  qed
  show ?thesis
    using assms(1) clause
    by (fastforce simp: no_dangling_def d' rebound_def bound_clauses_def)
qed

lemma keeps_dangling_create: "keeps no_dangling (create_hub endpoint_ok encrypt input)"
  unfolding create_hub_def create_hub_body_def get_hub_def advisory_lock_def Let_def
  by (intro inv_intros keeps_exec; (rule keeps_statement)?)
     (auto simp: insert_hub_def set_hub_token_def intro: no_dangling_change elim!: no_dangling_mono)

lemma no_dangling_delete_rows:
  "no_dangling d \<Longrightarrow> no_dangling (delete_servers p d)" "no_dangling d \<Longrightarrow> no_dangling (delete_managed q d)"
  by (auto simp: delete_servers_def delete_managed_def elim: no_dangling_same)

lemma keeps_dangling_update: "keeps no_dangling (update_hub endpoint_ok encrypt hid input)"
  unfolding update_hub_def update_hub_body_def apply_hub_update_def forget_inventory_def advisory_lock_def
  by (intro inv_intros keeps_exec)
     (auto simp: write_hub_def intro: no_dangling_change no_dangling_delete_rows)

lemma keeps_dangling_health:
  "keeps no_dangling (update_hub_health_if_current digest hub success version message snapshot)"
  unfolding update_hub_health_if_current_def update_hub_health_body_def lock_and_match_hub_credential_def
  by (intro inv_intros keeps_exec)
     (auto simp: mark_healthy_def mark_degraded_def intro: no_dangling_change)

lemma delete_hub_Inr:
  assumes "delete_hub hid fs d = (Inr u, fs', d')"
  shows "d' = delete_hub_clauses hid (delete_hub_row hid d)"
  using assms unfolding delete_hub_def
  by (auto simp: transaction_Inr tx_bind_Inr statement_Inr exec_Inr advisory_lock_def remove_hub_def
      split: option.splits)

lemma dangling_delete:
  assumes "no_dangling d" and "delete_hub hid fs d = (r, fs', d')"
  shows "no_dangling d'"
proof (cases r)
  case (Inl e)
  with assms show ?thesis unfolding delete_hub_def by (auto dest: transaction_atomic)
next
  case (Inr u)
  with assms(2) have "d' = delete_hub_clauses hid (delete_hub_row hid d)" by (auto dest: delete_hub_Inr)
  with assms(1) show ?thesis
    by (fastforce simp: no_dangling_def delete_hub_clauses_def delete_hub_row_def)
qed

interpretation inventory: invariant_system "\<lambda>d. \<exists>now. d = fresh_store now" inventory_step no_dangling
proof
  show "no_dangling d" if "\<exists>now. d = fresh_store now" for d
    using that by (auto simp: no_dangling_def fresh_store_def)
next
  fix d d'
  assume i: "no_dangling d" and "inventory_step d d'"
  from this(2) show "no_dangling d'"
  proof cases
    case boot
    then show ?thesis using keepsD [OF keeps_dangling_seed i] by blast
  next
    case save
    from save_role_outcome [OF this] i show ?thesis
      by (elim disjE exE conjE) (auto simp: write_role_def elim: no_dangling_same)
  next
    case delete
    from delete_role_outcome [OF this] i show ?thesis
      by (elim disjE exE conjE) (auto simp: remove_role_def elim!: no_dangling_mono)
  next
    case bind
    then show ?thesis using dangling_bind [OF i] by blast
  next
    case hub_new
    then show ?thesis using keepsD [OF keeps_dangling_create i] by blast
  next
    case hub_edit
    then show ?thesis using keepsD [OF keeps_dangling_update i] by blast
  next
    case hub_gone
    then show ?thesis using dangling_delete [OF i] by blast
  next
    case hub_health
    then show ?thesis using keepsD [OF keeps_dangling_health i] by blast
  next
    case elsewhere
    then have "hb_id ` set (db_hubs d') = hb_id ` set (db_hubs d)" by (metis list.set_map)
    with i elsewhere(1) show ?thesis by (elim no_dangling_mono) simp_all
  qed
qed

section \<open>What a user is granted\<close>

definition names_row :: "store_db \<Rightarrow> scope_clause \<Rightarrow> bool" where
  "names_row d c \<longleftrightarrow> (\<exists>x \<in> set (db_clauses d). cl_type x = sc_type c \<and> trim_space (cl_value x) = sc_value c)"

lemma populate_row_scopes:
  assumes "\<forall>b \<in> set (u_role_bindings u). \<forall>c \<in> set (rb_scopes b). P c"
    and "\<And>ty v. ar_clause row = Some (ty, v) \<Longrightarrow> P \<lparr>sc_type = ty, sc_value = trim_space v\<rparr>"
  shows "\<forall>b \<in> set (u_role_bindings (populate_row row u)). \<forall>c \<in> set (rb_scopes b). P c"
proof -
  let ?u = "if list_ex (\<lambda>b. rb_role_id b = ar_role_id row) (u_role_bindings u) then u else start_binding row u"
  have u: "\<forall>b \<in> set (u_role_bindings ?u). \<forall>c \<in> set (rb_scopes b). P c"
    using assms(1) by (auto simp: start_binding_def Let_def)
  have s: "\<forall>b \<in> set (u_role_bindings (add_scope rid ty v ?u)). \<forall>c \<in> set (rb_scopes b). P c"
    if "P \<lparr>sc_type = ty, sc_value = v\<rparr>" for rid ty v
    using u that by (auto simp: add_scope_def)
  show ?thesis
    using u s assms(2) unfolding populate_row_def Let_def
    by (cases "ar_clause row") (auto split del: if_split split: if_splits)
qed

lemma populate_rows_scopes:
  assumes "\<And>row ty v. row \<in> set rows \<Longrightarrow> ar_clause row = Some (ty, v) \<Longrightarrow> P \<lparr>sc_type = ty, sc_value = trim_space v\<rparr>"
    and "\<forall>b \<in> set (u_role_bindings u). \<forall>c \<in> set (rb_scopes b). P c"
  shows "\<forall>b \<in> set (u_role_bindings (fold populate_row rows u)). \<forall>c \<in> set (rb_scopes b). P c"
  using assms
proof (induction rows arbitrary: u)
  case (Cons row rows)
  have "\<forall>b \<in> set (u_role_bindings (populate_row row u)). \<forall>c \<in> set (rb_scopes b). P c"
    by (rule populate_row_scopes) (use Cons.prems in auto)
  then have "\<forall>b \<in> set (u_role_bindings (fold populate_row rows (populate_row row u))). \<forall>c \<in> set (rb_scopes b). P c"
    by (rule Cons.IH [rotated]) (rule Cons.prems(1), auto)
  then show ?case by simp
qed simp

lemma add_clauses_hub_ids:
  "i \<in> set (pg_hub_ids (fold add_clause cs g)) \<Longrightarrow>
     i \<in> set (pg_hub_ids g) \<or> (\<exists>c \<in> set cs. sc_type c = ''hub'' \<and> parse_hub_scope (sc_value c) = Some i)"
proof (induction cs arbitrary: g)
  case (Cons c cs)
  from Cons.IH [of "add_clause c g"] Cons.prems show ?case
    by (auto simp: add_clause_def Let_def split: if_splits option.splits)
qed simp

lemma granted_hub_ids:
  "g \<in> set (permission_grants_of bs) \<Longrightarrow> i \<in> set (pg_hub_ids g) \<Longrightarrow>
     \<exists>b \<in> set bs. \<exists>c \<in> set (rb_scopes b). sc_type c = ''hub'' \<and> parse_hub_scope (sc_value c) = Some i"
  by (induction bs rule: permission_grants_of.induct)
     (force simp: Let_def split: if_splits dest: add_clauses_hub_ids)+

text \<open>C9: No grant outlives its hub: in every state the program reaches from empty tables, by any calls, with
  any failing statements, a hub id in the grants of a user is the id of a hub that exists. So a
  deleted hub is gone from everybody's grants, and its id cannot revive them.\<close>

theorem grants_name_existing_hubs:
  assumes "reach (\<lambda>d. \<exists>now. d = fresh_store now) inventory_step d"
    and "populate_user_access u fs d = (Inr v, fs', d')"
    and "g \<in> set (u_permission_grants v)" and "i \<in> set (pg_hub_ids g)"
  shows "\<exists>h \<in> set (db_hubs d). hb_id h = i"
proof -
  from assms(2) have v: "v = populate_rows (access_rows (u_id u) d) u"
    by (auto simp: populate_user_access_def tx_bind_Inr query_Inr)
  let ?u = "u\<lparr>u_roles := [], u_permissions := [], u_global_permissions := Some [],
               u_scoped_permissions := [], u_role_bindings := [], u_permission_grants := []\<rparr>"
  have rows: "names_row d \<lparr>sc_type = ty, sc_value = trim_space t\<rparr>"
    if "row \<in> set (access_rows (u_id u) d)" "ar_clause row = Some (ty, t)" for row ty t
    using that by (auto simp: names_row_def access_rows_def clause_rows_def Let_def split: if_splits)
  have "\<forall>b \<in> set (u_role_bindings (fold populate_row (access_rows (u_id u) d) ?u)).
      \<forall>c \<in> set (rb_scopes b). names_row d c"
    by (rule populate_rows_scopes) (use rows in auto)
  moreover have "g \<in> set (permission_grants_of
      (u_role_bindings (fold populate_row (access_rows (u_id u) d) ?u)))"
    using assms(3) by (simp add: v populate_rows_def Let_def)
  from granted_hub_ids [OF this assms(4)]
  obtain b c where "b \<in> set (u_role_bindings (fold populate_row (access_rows (u_id u) d) ?u))"
    "c \<in> set (rb_scopes b)" "sc_type c = ''hub''" "parse_hub_scope (sc_value c) = Some i"
    by blast
  ultimately obtain c where "names_row d c" "sc_type c = ''hub''" "parse_hub_scope (sc_value c) = Some i" by blast
  then obtain x where x: "x \<in> set (db_clauses d)" "cl_type x = ''hub''"
    "parse_hub_scope (trim_space (cl_value x)) = Some i"
    by (metis names_row_def)
  with inventory.reach_inv [OF assms(1)] obtain h where "h \<in> set (db_hubs d)" "0 < hb_id h"
    "hb_id h \<le> int64_max" "cl_value x = format_int (hb_id h)"
    by (auto simp: no_dangling_def)
  with x(3) show ?thesis by (auto simp: trim_space_format_int)
qed

definition granted_store :: store_db where
  "granted_store = (fresh_store 0)
     \<lparr>db_users := [user_row.make 1 ''ann'' ''ann'' [] [] None ''local'' None True None 0 0],
      db_roles := [role_row.make 1 ''viewer'' ''viewer'' [] (PermArray [''hubs:read'']) False 0 0],
      db_next_user := 2, db_next_role := 2\<rparr>"

definition granted_hub :: hub_write where
  "granted_hub = \<lparr>hw_name = ''lab'', hw_base_url = ''https://hub.corp'', hw_network = ''dmz'', hw_enabled = None,
     hw_verify_tls = None, hw_interval = 60, hw_token = ''t''\<rparr>"

definition granted_hub_store :: store_db where
  "granted_hub_store = granted_store\<lparr>db_hubs := [\<lparr>hb_id = 1, hb_name = ''lab'', hb_base_url = ''https://hub.corp'',
     hb_network = ''dmz'', hb_enabled = True, hb_verify_tls = True, hb_interval = 60, hb_token = Some ''t'',
     hb_status = ''unknown'', hb_version = [], hb_last_seen_at = None, hb_last_error = [], hb_snapshot = JObj [],
     hb_created_at = 0, hb_updated_at = 0\<rparr>], db_next_hub := 2\<rparr>"

definition granted_bindings :: "role_binding list" where
  "granted_bindings = [\<lparr>rb_role_id = 1, rb_role_key = [], rb_role_name = [], rb_scope_mode = ''restricted'',
       rb_scopes = [\<lparr>sc_type = ''hub'', sc_value = '' 1''\<rparr>], rb_permissions = []\<rparr>]"

definition granted_call :: "(store_error, unit) res \<times> faults \<times> store_db" where
  "granted_call = set_user_role_bindings 1 granted_bindings False 0 [] granted_hub_store"

lemma granted_hub_created:
  "create_hub (\<lambda>_. True) (\<lambda>c t. Some t) granted_hub [] granted_store
     = (Inr (scan_hub (hd (db_hubs granted_hub_store))), [], granted_hub_store)"
proof -
  have i: "create_defaults granted_hub = granted_hub" by code_simp
  show ?thesis
    unfolding create_hub_def Let_def i
    by (simp add: granted_hub_def validate_hub_write_def max_hub_name_bytes_def max_hub_network_bytes_def
        max_hub_url_bytes_def max_hub_token_bytes_def min_hub_interval_def max_hub_interval_def transaction_def
        create_hub_body_def tx_bind_def tx_lift_def advisory_lock_def exec_def statement_def insert_hub_def given_or_def
        set_hub_token_def change_hub_def get_hub_def query_row_def find_hub_def tx_return_def
        granted_hub_store_def granted_store_def fresh_store_def)
qed

theorem grants_name_existing_hubs_witness:
  "reach (\<lambda>d. \<exists>now. d = fresh_store now) inventory_step (snd (snd granted_call))
   \<and> (\<exists>h \<in> set (db_hubs (snd (snd granted_call))). hb_id h = 1)"
proof -
  let ?d = "snd (snd granted_call)"
  have "reach (\<lambda>d. \<exists>now. d = fresh_store now) inventory_step granted_store"
    by (rule reach_move [OF reach_start [of _ "fresh_store 0"]], blast, rule inventory_step.elsewhere)
      (simp_all add: granted_store_def fresh_store_def)
  then have "reach (\<lambda>d. \<exists>now. d = fresh_store now) inventory_step granted_hub_store"
    by (rule reach_move) (rule inventory_step.hub_new [OF granted_hub_created])
  moreover have "set_user_role_bindings 1 granted_bindings False 0 [] granted_hub_store
      = (fst granted_call, fst (snd granted_call), ?d)"
    by (simp only: granted_call_def prod.collapse)
  then have "inventory_step granted_hub_store ?d" by (rule inventory_step.bind)
  ultimately have r: "reach (\<lambda>d. \<exists>now. d = fresh_store now) inventory_step ?d" by (rule reach_move)
  have "case populate_user_access (empty_user\<lparr>u_id := 1\<rparr>) [] ?d of (res, _, _) \<Rightarrow>
      (case res of Inl _ \<Rightarrow> False
         | Inr v \<Rightarrow> list_ex (\<lambda>g. 1 \<in> set (pg_hub_ids g)) (u_permission_grants v))"
    by code_simp
  then obtain v fs' d' g where "populate_user_access (empty_user\<lparr>u_id := 1\<rparr>) [] ?d = (Inr v, fs', d')"
    "g \<in> set (u_permission_grants v)" "1 \<in> set (pg_hub_ids g)"
    by (auto simp: list_ex_bool_iff split: prod.splits sum.splits)
  from grants_name_existing_hubs [OF r this] r show ?thesis by blast
qed

end
