(* ===== verification/Hub_Api.thy ===== *)
theory Hub_Api
  imports Integration_Test Approval_Properties Hub_Grants
begin

text \<open>The handlers of the hubs (\<^verbatim>\<open>internal/api/resource_handlers.go\<close>, from \<^verbatim>\<open>registerHubs\<close> to \<^verbatim>\<open>hubSync\<close>). What
  the remote answers to \<^verbatim>\<open>Info\<close> and \<^verbatim>\<open>Users\<close> is in the environment; a reply that follows the mails of a failed
  synchronisation is \<open>SyncFailed\<close>, the HTTP error 502.\<close>

record hub_api_env =
  he_tester :: tester_env
  he_digest :: "string \<Rightarrow> string"
  he_encrypt :: "string \<Rightarrow> string \<Rightarrow> string option"
  he_decrypt :: "string \<Rightarrow> string \<Rightarrow> string option"
  he_parse_float :: "string \<Rightarrow> rat"
  he_show_time :: "time \<Rightarrow> string"
  he_stamp :: string
  he_parse_time :: "string \<Rightarrow> time option"
  he_format_time :: "time \<Rightarrow> string"
  he_observed_at :: time
  he_info :: "nat \<Rightarrow> transport_result"
  he_version :: string
  he_users :: "nat \<Rightarrow> transport_result"
  he_decode :: "json \<Rightarrow> jupyter_user option"
  he_items :: "json list"
  he_error_text :: "client_error \<Rightarrow> string"
  he_ordered :: "string \<Rightarrow> hub_row list \<Rightarrow> hub_row list"

section \<open>Documents\<close>

definition alias_value :: "json_object \<Rightarrow> string \<Rightarrow> string list \<Rightarrow> json" where
  "alias_value raw primary aliases =
     (case find (has_key raw) (primary # aliases) of None \<Rightarrow> JNull | Some key \<Rightarrow> lookup raw key)"

definition decode_hub :: "(string \<Rightarrow> rat) \<Rightarrow> json option \<Rightarrow> hub_write option" where
  "decode_hub parse_float body =
     (case (case body of None \<Rightarrow> None | Some v \<Rightarrow> object_members v) of
        None \<Rightarrow> None
      | Some raw \<Rightarrow>
          Some \<lparr>hw_name = string_or_empty (alias_value raw ''name'' []),
                 hw_base_url = string_or_empty (alias_value raw ''base_url'' [''url'']),
                 hw_network = string_or_empty (alias_value raw ''network'' []),
                 hw_enabled = as_bool (alias_value raw ''enabled'' []),
                 hw_verify_tls = as_bool (alias_value raw ''verify_tls'' [''tls_verify'']),
                 hw_interval = id_from_any parse_float (alias_value raw ''collect_interval_seconds'' [''collection_interval'']),
                 hw_token = string_or_empty (alias_value raw ''api_token'' [''token''])\<rparr>)"

definition json_of_hub :: "(time \<Rightarrow> string) \<Rightarrow> hub \<Rightarrow> json" where
  \<comment> \<open>the credential generation is not serialised, and there is no field for the token\<close>
  "json_of_hub show_time h =
     JObj [(''id'', JNum (of_int (hu_id h))), (''name'', JStr (hu_name h)), (''base_url'', JStr (hu_base_url h)),
       (''network'', JStr (hu_network h)), (''enabled'', JBool (hu_enabled h)), (''verify_tls'', JBool (hu_verify_tls h)),
       (''collect_interval_seconds'', JNum (of_int (hu_interval h))), (''token_configured'', JBool (hu_token_configured h)),
       (''status'', JStr (hu_status h)), (''version'', JStr (hu_version h)),
       (''last_seen_at'', (case hu_last_seen_at h of None \<Rightarrow> JNull | Some t \<Rightarrow> JStr (show_time t))),
       (''last_error'', JStr (hu_last_error h)), (''snapshot'', hu_snapshot h),
       (''created_at'', JStr (show_time (hu_created_at h))), (''updated_at'', JStr (show_time (hu_updated_at h)))]"

definition hub_endpoint_ok :: "hub_api_env \<Rightarrow> string \<Rightarrow> bool" where
  "hub_endpoint_ok env s = is_ok (validate_endpoint (te_parse_url (he_tester env)) (te_parse_ip (he_tester env)) s)"

definition hub_failure :: "store_error \<Rightarrow> http_error" where
  "hub_failure _ = (400, ''invalid_hub'')"

section \<open>Handlers\<close>

definition hubs_list :: "hub_api_env \<Rightarrow> request \<Rightarrow> hub list handler" where
  "hubs_list env r =
     tx_bind (scoped_access r ''hubs:read'') (\<lambda>access.
     store_call (list_hubs_with_access (he_ordered env) access))"

definition hub_create :: "hub_api_env \<Rightarrow> json option \<Rightarrow> request \<Rightarrow> hub handler" where
  "hub_create env body r =
     (case decode_hub (he_parse_float env) body of
        None \<Rightarrow> api_error 400 ''invalid_hub''
      | Some input \<Rightarrow>
          tx_bind (tx_map_error hub_failure (create_hub (hub_endpoint_ok env) (he_encrypt env) input)) (\<lambda>item.
          tx_bind (audit (request_audit r ''hub.create'' ''hub'' (format_int (hu_id item)) ''success'' [] None
            (Some (json_of_hub (he_show_time env) item)))) (\<lambda>_.
          tx_return item)))"

definition hub_get :: "request \<Rightarrow> hub handler" where
  "hub_get r =
     tx_bind (path_id r) (\<lambda>hid.
     tx_bind (scoped_target_allowed r ''hubs:read'' hid []) (\<lambda>_.
     store_call (get_hub hid)))"

definition hub_update :: "hub_api_env \<Rightarrow> json option \<Rightarrow> request \<Rightarrow> hub handler" where
  "hub_update env body r =
     tx_bind (path_id r) (\<lambda>hid.
     tx_bind (scoped_target_allowed r ''hubs:write'' hid []) (\<lambda>_.
     tx_bind (store_call (get_hub hid)) (\<lambda>before.
     case decode_hub (he_parse_float env) body of
       None \<Rightarrow> api_error 400 ''invalid_hub''
     | Some input \<Rightarrow>
         tx_bind (tx_map_error hub_failure (update_hub (hub_endpoint_ok env) (he_encrypt env) hid input)) (\<lambda>item.
         tx_bind (audit (request_audit r ''hub.update'' ''hub'' (format_int hid) ''success'' []
           (Some (json_of_hub (he_show_time env) before)) (Some (json_of_hub (he_show_time env) item)))) (\<lambda>_.
         tx_return item)))))"

definition hub_delete :: "hub_api_env \<Rightarrow> request \<Rightarrow> unit handler" where
  "hub_delete env r =
     tx_bind (path_id r) (\<lambda>hid.
     tx_bind (scoped_target_allowed r ''hubs:write'' hid []) (\<lambda>_.
     tx_bind (store_call (get_hub hid)) (\<lambda>before.
     tx_bind (store_call (delete_hub hid)) (\<lambda>_.
     audit (request_audit r ''hub.delete'' ''hub'' (format_int hid) ''success'' []
       (Some (json_of_hub (he_show_time env) before)) None)))))"

definition hub_test_request :: "hub \<Rightarrow> string \<Rightarrow> test_request" where
  "hub_test_request hub token =
     \<lparr>tq_type = ''jupyterhub'',
       tq_config = [(''base_url'', JStr (hu_base_url hub)), (''verify_tls'', JBool (hu_verify_tls hub))], tq_secret = token\<rparr>"

definition record_hub_test :: "hub_api_env \<Rightarrow> request \<Rightarrow> int \<Rightarrow> hub \<Rightarrow> test_result \<Rightarrow> mail_job list handler" where
  "record_hub_test env r hid hub result =
     tx_bind (store_call (update_hub_health_if_current (he_digest env) hub (tr_success result) (tr_version result)
       (tr_error result) (Some (JObj [(''test_checked_at'', JStr (he_stamp env))])))) (\<lambda>stored.
     if \<not> stored then api_error 409 ''hub_configuration_changed''
     else
       tx_bind (store_call (notify_hub_health (he_decrypt env) hub stored (tr_success result) (tr_error result) (actor_id r)))
         (\<lambda>jobs.
       tx_bind (audit (request_audit r ''hub.test'' ''hub'' (format_int hid)
         (if tr_success result then ''success'' else ''failure'') (tr_error result) None
         (Some (JObj [(''success'', JBool (tr_success result)), (''version'', JStr (tr_version result))])))) (\<lambda>_.
       tx_return jobs)))"

definition hub_test :: "hub_api_env \<Rightarrow> request \<Rightarrow> (test_result \<times> sent_request list \<times> mail_job list) handler" where
  "hub_test env r =
     tx_bind (path_id r) (\<lambda>hid.
     tx_bind (scoped_target_allowed r ''hubs:write'' hid []) (\<lambda>_.
     tx_bind (store_call (get_hub_credential (he_digest env) (he_decrypt env) hid)) (\<lambda>(hub, token).
     let (result, sent) = test_connection (he_tester env) (hub_test_request hub token)
     in tx_bind (record_hub_test env r hid hub result) (\<lambda>jobs. tx_return (result, sent, jobs)))))"

datatype sync_reply = Synced nat string | SyncFailed string

text \<open>Both calls to the hub, and what is stored when they succeed; the error is what the failure path records.\<close>

definition fetch_hub :: "hub_api_env \<Rightarrow> jupyter_client \<Rightarrow> (client_error, string \<times> jupyter_user list) res" where
  "fetch_hub env client =
     (let join = join_url (te_parse_url (he_tester env)) (te_parse_ip (he_tester env)) (te_escaped_path (he_tester env))
            (jc_base_url client)
      in res_bind (hub_info join (he_info env) (he_version env)) (\<lambda>version.
         res_bind (hub_users join (he_users env) (he_decode env) (he_items env)) (\<lambda>users. Inr (version, users))))"

definition store_snapshot :: "hub_api_env \<Rightarrow> hub \<Rightarrow> jupyter_user list \<Rightarrow> (store_db, client_error, bool) tx" where
  "store_snapshot env hub users =
     tx_map_error CredentialError (sync_hub_users_if_current (he_parse_time env) (he_format_time env) (he_digest env)
       (he_observed_at env) hub users)"

definition finish_sync :: "hub_api_env \<Rightarrow> request \<Rightarrow> int \<Rightarrow> hub \<Rightarrow> string \<Rightarrow> nat \<Rightarrow> (sync_reply \<times> mail_job list) handler" where
  "finish_sync env r hid hub version users =
     tx_bind (store_call (update_hub_health_if_current (he_digest env) hub True version []
       (Some (JObj [(''users'', JNum (of_nat users)), (''synced_at'', JStr (he_stamp env))])))) (\<lambda>stored.
     if \<not> stored then api_error 409 ''hub_configuration_changed''
     else
       tx_bind (store_call (notify_hub_health (he_decrypt env) hub stored True [] (actor_id r))) (\<lambda>jobs.
       tx_bind (audit (request_audit r ''hub.sync'' ''hub'' (format_int hid) ''success'' [] None
         (Some (JObj [(''users'', JNum (of_nat users))])))) (\<lambda>_.
       tx_return (Synced users version, jobs))))"

definition fail_sync :: "hub_api_env \<Rightarrow> request \<Rightarrow> int \<Rightarrow> hub \<Rightarrow> client_error \<Rightarrow> (sync_reply \<times> mail_job list) handler" where
  \<comment> \<open>the error of the update is ignored and counts as not stored\<close>
  "fail_sync env r hid hub e =
     (let message = he_error_text env e
      in tx_bind (tx_try (update_hub_health_if_current (he_digest env) hub False [] message None)) (\<lambda>written.
         tx_bind (store_call (notify_hub_health (he_decrypt env) hub (written = Inr True) False message (actor_id r))) (\<lambda>jobs.
         tx_bind (audit (request_audit r ''hub.sync'' ''hub'' (format_int hid) ''failure'' message None None)) (\<lambda>_.
         tx_return (SyncFailed message, jobs)))))"

definition sync_fetched ::
  "hub_api_env \<Rightarrow> request \<Rightarrow> int \<Rightarrow> hub \<Rightarrow> string \<Rightarrow> jupyter_user list \<Rightarrow> (sync_reply \<times> mail_job list) handler" where
  "sync_fetched env r hid hub version users =
     tx_bind (tx_try (store_snapshot env hub users)) (\<lambda>stored.
     case stored of
       Inl e \<Rightarrow> fail_sync env r hid hub e
     | Inr current \<Rightarrow>
         if \<not> current then api_error 409 ''hub_configuration_changed''
         else finish_sync env r hid hub version (length users))"

definition hub_sync :: "hub_api_env \<Rightarrow> request \<Rightarrow> (sync_reply \<times> mail_job list) handler" where
  "hub_sync env r =
     tx_bind (path_id r) (\<lambda>hid.
     tx_bind (scoped_target_allowed r ''hubs:write'' hid []) (\<lambda>_.
     tx_bind (store_call (get_hub_credential (he_digest env) (he_decrypt env) hid)) (\<lambda>(hub, token).
     case new_jupyter_hub (te_parse_url (he_tester env)) (te_parse_ip (he_tester env)) (hu_base_url hub) token
            (hu_verify_tls hub) of
       Inl _ \<Rightarrow> api_error 400 ''invalid_hub''
     | Inr client \<Rightarrow>
         (case fetch_hub env client of
            Inl e \<Rightarrow> fail_sync env r hid hub e
          | Inr (version, users) \<Rightarrow> sync_fetched env r hid hub version users))))"

definition hub_routes :: "(string \<times> string) list" where
  \<comment> \<open>the patterns of \<^verbatim>\<open>registerHubs\<close> and the permission \<^verbatim>\<open>require\<close> asks for; the others check their hub\<close>
  "hub_routes =
     [(''GET /api/v1/hubs'', []), (''POST /api/v1/hubs'', ''hubs:write''), (''GET /api/v1/hubs/{id}'', []),
      (''PUT /api/v1/hubs/{id}'', []), (''DELETE /api/v1/hubs/{id}'', []), (''POST /api/v1/hubs/{id}/test'', []),
      (''POST /api/v1/hubs/{id}/sync'', []), (''POST /api/v1/servers/{id}/{action}'', [])]"

section \<open>A hub nobody may change stays as it is\<close>

definition hub_kept :: "int \<Rightarrow> hub_row \<Rightarrow> store_db \<Rightarrow> bool" where
  "hub_kept hid h d \<longleftrightarrow> find_hub hid d = Some h \<and> hid < db_next_hub d"

lemma hub_kept_same:
  "hub_kept hid h d \<Longrightarrow> db_hubs d' = db_hubs d \<Longrightarrow> db_next_hub d' = db_next_hub d \<Longrightarrow> hub_kept hid h d'"
  by (simp add: hub_kept_def find_hub_def)

lemma hub_kept_simps [simp]:
  "hub_kept hid h (d\<lparr>db_audit := a\<rparr>) = hub_kept hid h d"
  "hub_kept hid h (d\<lparr>db_mail := m, db_next_mail := k\<rparr>) = hub_kept hid h d"
  "hub_kept hid h (delete_servers p d) = hub_kept hid h d"
  "hub_kept hid h (delete_managed q d) = hub_kept hid h d"
  by (auto simp: hub_kept_def find_hub_def delete_servers_def delete_managed_def)

lemma find_other: "i \<noteq> hid \<Longrightarrow> find (\<lambda>x. hb_id x = hid) (filter (\<lambda>x. hb_id x \<noteq> i) xs) = find (\<lambda>x. hb_id x = hid) xs"
  by (induction xs) auto

lemma find_map_fixed: "(\<And>x. P (f x) = P x) \<Longrightarrow> (\<And>x. P x \<Longrightarrow> f x = x) \<Longrightarrow> find P (map f xs) = find P xs"
  by (induction xs) auto

lemma hub_kept_change:
  assumes "hub_kept hid h d" and "i \<noteq> hid" and "\<And>x. hb_id (f x) = hb_id x"
  shows "hub_kept hid h (change_hub i f d)"
proof -
  have "find (\<lambda>x. hb_id x = hid) (map (\<lambda>x. if hb_id x = i then f x else x) xs) = find (\<lambda>x. hb_id x = hid) xs" for xs
    by (rule find_map_fixed) (use assms(2,3) in auto)
  with assms(1) show ?thesis by (simp add: hub_kept_def find_hub_def change_hub_def)
qed

lemma hub_kept_delete: "hub_kept hid h d \<Longrightarrow> i \<noteq> hid \<Longrightarrow> hub_kept hid h (delete_hub_row i d)"
  by (simp add: hub_kept_def find_hub_def delete_hub_row_def find_other)

lemma keeps_allowed:
  assumes "allows_target (rq_principal r) permission i department \<Longrightarrow> keeps I m"
  shows "keeps I (tx_bind (scoped_target_allowed r permission i department) (\<lambda>_. m))"
proof (cases "allows_target (rq_principal r) permission i department")
  case True
  with assms show ?thesis by (simp add: scoped_target_allowed_def)
next
  case False
  then have "tx_bind (scoped_target_allowed r permission i department) (\<lambda>_. m) = api_error 403 ''forbidden''"
    by (simp add: scoped_target_allowed_def api_error_def tx_bind_def tx_throw_def fun_eq_iff)
  then show ?thesis by (simp add: keeps_api_error)
qed

lemma keeps_hub_audit [inv_intros]: "keeps (hub_kept hid h) (audit e)"
  unfolding audit_def record_audit_def by (intro inv_intros keeps_exec) simp

lemma keeps_hub_records [inv_intros]: "keeps (hub_kept hid h) (record_all vs)"
  by (induction vs) (auto intro!: inv_intros keeps_statement split: if_splits
      simp: record_delivery_def record_mail_delivery_def)

lemma keeps_hub_notify [inv_intros]: "keeps (hub_kept hid h) (notify_hub_health decrypt hub stored success cause actor)"
  unfolding notify_hub_health_def notify_permission_holders_def global_permission_holders_def notify_mail_def notify_def
    service_config_def mail_settings_def get_settings_and_secret_def open_secret_def resolve_recipients_def user_emails_def
  by (intro inv_intros)

lemma keeps_get_hub [inv_intros]: "keeps I (get_hub i)"
  unfolding get_hub_def by (intro inv_intros)

lemma keeps_get_credential [inv_intros]: "keeps I (get_hub_credential digest decrypt i)"
  unfolding get_hub_credential_def by (intro inv_intros)

lemma keeps_lock [inv_intros]: "keeps I advisory_lock"
  unfolding advisory_lock_def by (intro inv_intros keeps_exec)

lemma keeps_match [inv_intros]: "keeps I (lock_and_match_hub_credential digest hub)"
  unfolding lock_and_match_hub_credential_def by (intro inv_intros)

lemma keeps_hub_health:
  "hu_id hub \<noteq> hid \<Longrightarrow> keeps (hub_kept hid h) (update_hub_health_if_current digest hub success version message snapshot)"
  unfolding update_hub_health_if_current_def update_hub_health_body_def
  by (intro inv_intros keeps_exec) (auto simp: mark_healthy_def mark_degraded_def intro: hub_kept_change)

lemma keeps_update_hub: "i \<noteq> hid \<Longrightarrow> keeps (hub_kept hid h) (update_hub endpoint_ok encrypt i input)"
  unfolding update_hub_def update_hub_body_def apply_hub_update_def forget_inventory_def
  by (intro inv_intros keeps_exec) (auto simp: write_hub_def intro: hub_kept_change)

lemma keeps_delete_hub: "i \<noteq> hid \<Longrightarrow> keeps (hub_kept hid h) (delete_hub i)"
  unfolding delete_hub_def
  by (intro inv_intros keeps_exec keeps_statement)
    (auto simp: remove_hub_def delete_hub_clauses_def hub_kept_def find_hub_def delete_hub_row_def find_other
      split: option.splits)

lemma keeps_sync_body [inv_intros]:
  "keeps (hub_kept hid h) (sync_hub_users parse_time format_time digest observed_at hub users current)"
proof -
  have statements: "keeps (hub_kept hid h) (statement DbError (end_sessions sid t))"
    "keeps (hub_kept hid h) (statement DbError (upsert_server hub_id mid username name server raw))"
    "keeps (hub_kept hid h) (statement DbError (upsert_default_server format_time hub_id mid u))"
    "keeps (hub_kept hid h) (statement DbError (upsert_managed_user hub_id u))"
    "keeps (hub_kept hid h) (exec DbError (open_session sid hub_id username name start activity))"
    "keeps (hub_kept hid h) (exec DbError (stop_server sid t))"
    "keeps (hub_kept hid h) (exec DbError (deactivate_users hub_id plan))"
    for sid t hub_id mid username name server raw u start activity plan
    by (rule keeps_statement keeps_exec, erule hub_kept_same,
        auto simp: end_sessions_def upsert_server_def upsert_server_with_def upsert_default_server_def
          upsert_managed_user_def open_session_def stop_server_def deactivate_users_def Let_def
          split: if_splits option.splits)+
  show ?thesis
    unfolding sync_hub_users_def require_current_hub_def stop_missing_server_def sync_user_def sync_server_def
      sync_default_server_def reconcile_server_session_def Let_def
    by (intro statements inv_intros)
qed

lemma keeps_sync_if_current [inv_intros]:
  "keeps (hub_kept hid h) (sync_hub_users_if_current parse_time format_time digest observed_at hub users)"
  unfolding keeps_def sync_hub_users_if_current_def
  using keepsD [OF keeps_sync_body]
  by (auto split: prod.splits sum.splits store_error.splits)

lemma hub_kept_insert:
  "insert_hub input enabled verify d = Inr (i, d') \<Longrightarrow> hub_kept hid h d \<Longrightarrow> i \<noteq> hid \<and> hub_kept hid h d'"
  by (auto simp: insert_hub_def hub_kept_def find_hub_def find_append split: option.split)

lemma keeps_create_body [inv_intros]: "keeps (hub_kept hid h) (create_hub_body encrypt input enabled verify)"
  unfolding keeps_def
proof (intro allI impI)
  fix fs d r fs' d'
  assume d: "hub_kept hid h d" and run: "create_hub_body encrypt input enabled verify fs d = (r, fs', d')"
  have token: "keeps (hub_kept hid h) (exec DbError (set_hub_token i encrypted))" if "i \<noteq> hid" for i encrypted
    using that by (intro keeps_exec) (auto simp: set_hub_token_def intro: hub_kept_change)
  obtain l fs1 d1 where lock: "advisory_lock fs d = (l, fs1, d1)" by (cases "advisory_lock fs d") auto
  with d have d1: "hub_kept hid h d1" by (rule keepsD [OF keeps_lock])
  obtain s fs2 d2 where ins: "statement DbError (insert_hub input enabled verify) fs1 d1 = (s, fs2, d2)"
    by (cases "statement DbError (insert_hub input enabled verify) fs1 d1") auto
  have d2: "hub_kept hid h d2 \<and> (!i. s = Inr i \<longrightarrow> i \<noteq> hid)"
    using ins d1 hub_kept_insert [of input enabled verify d1, OF _ d1]
    by (auto simp: statement_def Let_def split: prod.splits sum.splits if_splits)
  show "hub_kept hid h d'"
  proof (cases "is_ok l \<and> is_ok s")
    case True
    then obtain i where i: "s = Inr i" "i \<noteq> hid" using d2 by (auto simp: is_ok_iff)
    have "keeps (hub_kept hid h)
       (if hw_token input = [] then tx_return i
        else case encrypt (token_context i) (hw_token input) of
               None \<Rightarrow> tx_throw CipherFailure
             | Some encrypted \<Rightarrow> tx_bind (exec DbError (set_hub_token i encrypted)) (\<lambda>_. tx_return i))"
      by (intro inv_intros token i)
    moreover from run True i have "(if hw_token input = [] then tx_return i
        else case encrypt (token_context i) (hw_token input) of
               None \<Rightarrow> tx_throw CipherFailure
             | Some encrypted \<Rightarrow> tx_bind (exec DbError (set_hub_token i encrypted)) (\<lambda>_. tx_return i)) fs2 d2 = (r, fs', d')"
      by (auto simp: create_hub_body_def tx_bind_def lock ins is_ok_iff)
    ultimately show ?thesis using d2 by (blast dest: keepsD)
  next
    case False
    with run d1 d2 show ?thesis
      by (auto simp: create_hub_body_def tx_bind_def lock ins is_ok_def split: sum.splits)
  qed
qed

lemma keeps_create_hub [inv_intros]: "keeps (hub_kept hid h) (create_hub endpoint_ok encrypt input)"
  unfolding create_hub_def by (intro inv_intros)

text \<open>What a request to a hub's handlers does when its caller holds no grant to change the hub.\<close>

inductive ungranted_request :: "int \<Rightarrow> store_db \<Rightarrow> store_db \<Rightarrow> bool" for hid where
  create: "hub_create env body r fs d = (out, fs', d') \<Longrightarrow> ungranted_request hid d d'"
| update: "hub_update env body r fs d = (out, fs', d') \<Longrightarrow> \<not> allows_target (rq_principal r) ''hubs:write'' hid []
    \<Longrightarrow> ungranted_request hid d d'"
| delete: "hub_delete env r fs d = (gone, fs', d') \<Longrightarrow> \<not> allows_target (rq_principal r) ''hubs:write'' hid []
    \<Longrightarrow> ungranted_request hid d d'"
| test: "hub_test env r fs d = (tested, fs', d') \<Longrightarrow> \<not> allows_target (rq_principal r) ''hubs:write'' hid []
    \<Longrightarrow> ungranted_request hid d d'"
| sync: "hub_sync env r fs d = (synced, fs', d') \<Longrightarrow> \<not> allows_target (rq_principal r) ''hubs:write'' hid []
    \<Longrightarrow> ungranted_request hid d d'"

lemma keeps_hub_create: "keeps (hub_kept hid h) (hub_create env body r)"
  unfolding hub_create_def by (intro inv_intros)

lemma keeps_hub_update:
  "\<not> allows_target (rq_principal r) ''hubs:write'' hid [] \<Longrightarrow> keeps (hub_kept hid h) (hub_update env body r)"
  unfolding hub_update_def by (intro inv_intros keeps_allowed keeps_update_hub) auto

lemma keeps_hub_delete:
  "\<not> allows_target (rq_principal r) ''hubs:write'' hid [] \<Longrightarrow> keeps (hub_kept hid h) (hub_delete env r)"
  unfolding hub_delete_def by (intro inv_intros keeps_allowed keeps_delete_hub) auto

lemma credential_id: "get_hub_credential digest decrypt i fs d = (Inr (hub, token), fs', d') \<Longrightarrow> hu_id hub = i"
  by (erule get_hub_credential_Inr)

lemma keeps_record_test:
  "hu_id hub \<noteq> hid \<Longrightarrow> keeps (hub_kept hid h) (record_hub_test env r i hub result)"
  unfolding record_hub_test_def by (intro inv_intros keeps_hub_health)

lemma keeps_fail_sync: "hu_id hub \<noteq> hid \<Longrightarrow> keeps (hub_kept hid h) (fail_sync env r i hub e)"
  unfolding fail_sync_def by (intro inv_intros keeps_hub_health)

lemma keeps_sync_fetched: "hu_id hub \<noteq> hid \<Longrightarrow> keeps (hub_kept hid h) (sync_fetched env r i hub version users)"
  unfolding sync_fetched_def store_snapshot_def finish_sync_def by (intro inv_intros keeps_fail_sync keeps_hub_health)

lemma keeps_with_credential:
  assumes "\<And>hub token. hu_id hub = i \<Longrightarrow> keeps I (k (hub, token))"
  shows "keeps I (tx_bind (store_call (get_hub_credential digest decrypt i)) k)"
  by (rule keeps_bind_result) (auto intro!: inv_intros assms dest: credential_id)

lemma keeps_hub_test:
  assumes "\<not> allows_target (rq_principal r) ''hubs:write'' hid []"
  shows "keeps (hub_kept hid h) (hub_test env r)"
  unfolding hub_test_def
  by (intro keeps_bind keeps_path_id keeps_allowed keeps_with_credential) (use assms in \<open>auto intro!: inv_intros keeps_record_test\<close>)

lemma keeps_hub_sync:
  assumes "\<not> allows_target (rq_principal r) ''hubs:write'' hid []"
  shows "keeps (hub_kept hid h) (hub_sync env r)"
  unfolding hub_sync_def
  by (intro keeps_bind keeps_path_id keeps_allowed keeps_with_credential)
    (use assms in \<open>auto intro!: inv_intros keeps_fail_sync keeps_sync_fetched split: sum.split\<close>)

interpretation ungranted: invariant_system "hub_kept hid h" "ungranted_request hid" "hub_kept hid h" for hid h
proof
  fix d d'
  assume "hub_kept hid h d" and "ungranted_request hid d d'"
  from this(2,1) show "hub_kept hid h d'"
    by cases (blast dest: keepsD [OF keeps_hub_create] keepsD [OF keeps_hub_update] keepsD [OF keeps_hub_delete]
        keepsD [OF keeps_hub_test] keepsD [OF keeps_hub_sync])+
qed

text \<open>C28: A hub is only changed under a grant: whatever requests callers without \<open>hubs:write\<close> on it send to the hub
  handlers, in any number and with any failures of the database or the remote, its address, token, flags, status and
  health stay as they are. Creating hubs does not touch it either.\<close>

theorem ungranted_requests_change_no_hub:
  assumes "(ungranted_request hid)\<^sup>*\<^sup>* d d'" and "find_hub hid d = Some h" and "hid < db_next_hub d"
  shows "find_hub hid d' = Some h"
  using ungranted.moves_inv [OF assms(1)] assms(2,3) by (simp add: hub_kept_def)

definition demo_hub_env :: hub_api_env where
  "demo_hub_env = \<lparr>he_tester = demo_env, he_digest = (\<lambda>s. s), he_encrypt = (\<lambda>_ s. Some s), he_decrypt = (\<lambda>_ s. Some s),
     he_parse_float = (\<lambda>_. 0), he_show_time = (\<lambda>_. ''t''), he_stamp = ''t'', he_parse_time = (\<lambda>_. None),
     he_format_time = (\<lambda>_. ''t''), he_observed_at = 0, he_info = (\<lambda>_. ConnectionError), he_version = [],
     he_users = (\<lambda>_. ConnectionError), he_decode = (\<lambda>_. None), he_items = [], he_error_text = (\<lambda>_. ''e''),
     he_ordered = (\<lambda>_ hs. hs)\<rparr>"

definition demo_two_hubs :: store_db where
  "demo_two_hubs = (fresh_store 5)\<lparr>db_hubs := [Hub_Properties.demo_hub, Hub_Properties.demo_hub\<lparr>hb_id := 8\<rparr>], db_next_hub := 9\<rparr>"

definition demo_hub_request :: request where
  \<comment> \<open>by an administrator of hub 8 alone\<close>
  "demo_hub_request = (demo_request ''DELETE'' (\<lambda>_. [])
     (\<lparr>p_user = empty_user\<lparr>u_id := 2, u_active := True, u_global_permissions := Some [],
        u_permission_grants := [\<lparr>pg_permissions = [''hubs:write''], pg_hub_ids = [8], pg_departments = []\<rparr>]\<rparr>,
        p_jti = ''j'', p_api_key_id = 0, p_api_key_scopes = [], p_user_permissions = []\<rparr>))\<lparr>rq_path_value := (\<lambda>_. ''8'')\<rparr>"

theorem ungranted_requests_change_no_hub_witness:
  "let d' = snd (snd (hub_delete demo_hub_env demo_hub_request [] demo_two_hubs))
   in find_hub 8 d' = None \<and> find_hub 7 d' = Some Hub_Properties.demo_hub"
proof -
  let ?out = "hub_delete demo_hub_env demo_hub_request [] demo_two_hubs"
  have "\<not> allows_target (rq_principal demo_hub_request) ''hubs:write'' 7 []" by code_simp
  with ungranted_request.delete [of demo_hub_env demo_hub_request "[]" demo_two_hubs "fst ?out" "fst (snd ?out)"
      "snd (snd ?out)" 7]
  have "ungranted_request 7 demo_two_hubs (snd (snd ?out))" by simp
  then have "(ungranted_request 7)\<^sup>*\<^sup>* demo_two_hubs (snd (snd ?out))" ..
  moreover have "find_hub 7 demo_two_hubs = Some Hub_Properties.demo_hub" "7 < db_next_hub demo_two_hubs"
    by (simp_all add: demo_two_hubs_def find_hub_def Hub_Properties.demo_hub_def)
  ultimately have "find_hub 7 (snd (snd ?out)) = Some Hub_Properties.demo_hub"
    by (rule ungranted_requests_change_no_hub)
  moreover have "find_hub 8 (snd (snd ?out)) = None" by code_simp
  ultimately show ?thesis by (simp add: Let_def)
qed

end
