(* ===== verification/Collector.thy ===== *)
theory Collector
  imports Hub_Api Pod_Updates Usage_Rollup Metric_Reads
begin

text \<open>
  The collector (\<^verbatim>\<open>internal/collector/collector.go\<close>): its timers, the probe of a hub, what one cycle reads from Prometheus
  and Kubernetes and stores, the mails it sends, and the pruning of old samples. Errors of the parts of a cycle are logged
  and otherwise dropped, so every part returns. The remote answers and the readings of the clock are in the environment; the
  queries of a map run in the order the map is listed.
\<close>

section \<open>Timers\<close>

record collector =
  co_last :: "(int \<times> time) list"
  co_last_llm :: time
  co_last_prune :: time
  co_prune_retry :: bool
  co_last_key :: time

definition new_collector :: collector where
  "new_collector = \<lparr>co_last = [], co_last_llm = zero_time, co_last_prune = zero_time, co_prune_retry = False, co_last_key = zero_time\<rparr>"

definition prune_interval :: time where "prune_interval = 24 * hour"
definition prune_retry_interval :: time where "prune_retry_interval = 30 * minute"
definition key_expiry_interval :: time where "key_expiry_interval = hour"
definition key_expiry_window :: time where "key_expiry_window = 7 * 24 * hour"
definition max_hub_probes :: nat where "max_hub_probes = 8"

definition waits :: "time \<Rightarrow> time \<Rightarrow> time \<Rightarrow> bool" where
  \<comment> \<open>\<^verbatim>\<open>!last.IsZero() && now.Sub(last) < wait\<close>\<close>
  "waits wait previous now = (previous \<noteq> zero_time \<and> now - previous < wait)"

definition hub_last :: "int \<Rightarrow> collector \<Rightarrow> time" where
  "hub_last hid c = (case map_of (co_last c) hid of None \<Rightarrow> zero_time | Some t \<Rightarrow> t)"

definition hub_due :: "int \<Rightarrow> int \<Rightarrow> time \<Rightarrow> collector \<Rightarrow> bool \<times> collector" where
  "hub_due hid interval now c =
     (if waits (wrap64 (interval * second)) (hub_last hid c) now then (False, c)
      else (True, c\<lparr>co_last := AList.update hid now (co_last c)\<rparr>))"

definition key_expiry_due :: "time \<Rightarrow> collector \<Rightarrow> bool \<times> collector" where
  "key_expiry_due now c =
     (if waits key_expiry_interval (co_last_key c) now then (False, c) else (True, c\<lparr>co_last_key := now\<rparr>))"

definition llm_evaluation_time :: "time \<Rightarrow> time" where "llm_evaluation_time now = truncate_to minute now"

definition llm_scan_due :: "time \<Rightarrow> collector \<Rightarrow> bool \<times> collector" where
  "llm_scan_due now c = (if waits minute (co_last_llm c) now then (False, c) else (True, c\<lparr>co_last_llm := now\<rparr>))"

definition prune_due :: "time \<Rightarrow> collector \<Rightarrow> bool \<times> collector" where
  "prune_due now c =
     (if waits (if co_prune_retry c then prune_retry_interval else prune_interval) (co_last_prune c) now then (False, c)
      else (True, c\<lparr>co_last_prune := now, co_prune_retry := False\<rparr>))"

definition prune_failed :: "collector \<Rightarrow> collector" where
  "prune_failed c = c\<lparr>co_prune_retry := True\<rparr>"

section \<open>Hubs\<close>

text \<open>What a hub answers is in \<open>ce_hub\<close>; the mails are sent when the service is there.\<close>

record collector_env =
  ce_metric :: metric_env
  ce_hub :: "int \<Rightarrow> hub_api_env"
  ce_mail :: bool
  ce_digest :: "string \<Rightarrow> string"
  ce_decrypt :: "string \<Rightarrow> string \<Rightarrow> string option"
  ce_parse_url :: "string \<Rightarrow> url option"
  ce_parse_ip :: "string \<Rightarrow> ip option"
  ce_escaped_path :: "url \<Rightarrow> string"
  ce_parse_float :: "string \<Rightarrow> float64 option"
  ce_prom :: "labels \<Rightarrow> prom_answer"
  ce_kube :: "nat \<Rightarrow> kube_answer"
  ce_clock :: "string \<Rightarrow> time"
  ce_show_time :: "time \<Rightarrow> string"
  ce_show_date :: "time \<Rightarrow> string"
  ce_greatest :: "string list \<Rightarrow> string"
  ce_ordered :: "string \<Rightarrow> hub_row list \<Rightarrow> hub_row list"

definition ignored :: "'a \<Rightarrow> ('d, 'e, 'a) tx \<Rightarrow> ('d, 'f, 'a) tx" where
  \<comment> \<open>a call whose error is only logged\<close>
  "ignored a m = tx_bind (tx_try m) (\<lambda>r. tx_return (case r of Inl _ \<Rightarrow> a | Inr x \<Rightarrow> x))"

definition update_probed_health ::
  "collector_env \<Rightarrow> hub \<Rightarrow> bool \<Rightarrow> string \<Rightarrow> string \<Rightarrow> json option \<Rightarrow> (store_db, store_error, mail_job list) tx" where
  "update_probed_health env hub success version message snapshot =
     tx_bind (ignored False (update_hub_health_if_current (ce_digest env) hub success version message snapshot)) (\<lambda>stored.
     if \<not> stored \<or> \<not> ce_mail env then tx_return []
     else notify_hub_health (ce_decrypt env) hub True success message 0)"

definition probe_snapshot :: "collector_env \<Rightarrow> hub_api_env \<Rightarrow> hub \<Rightarrow> string \<Rightarrow> jupyter_user list \<Rightarrow> mail_job list store_tx" where
  "probe_snapshot env he hub version users =
     tx_bind (tx_try (store_snapshot he hub users)) (\<lambda>r.
     case r of
       Inl e \<Rightarrow> update_probed_health env hub False version (he_error_text he e) None
     | Inr stored \<Rightarrow>
         if \<not> stored then tx_return []
         else update_probed_health env hub True version []
                (Some (JObj [(''users'', JNum (of_nat (length users))), (''synced_at'', JStr (he_stamp he))])))"

definition probe_hub :: "collector_env \<Rightarrow> int \<Rightarrow> mail_job list store_tx" where
  \<comment> \<open>the function \<^verbatim>\<open>collectHubs\<close> runs for a hub\<close>
  "probe_hub env hid =
     tx_bind (tx_try (get_hub_credential (ce_digest env) (ce_decrypt env) hid)) (\<lambda>got.
     case got of
       Inl _ \<Rightarrow> tx_return []
     | Inr (hub, token) \<Rightarrow>
         if \<not> hu_enabled hub then tx_return []
         else let he = ce_hub env hid; failed = (\<lambda>version e. update_probed_health env hub False version (he_error_text he e) None)
           in case new_jupyter_hub (ce_parse_url env) (ce_parse_ip env) (hu_base_url hub) token (hu_verify_tls hub) of
             Inl e \<Rightarrow> failed [] e
           | Inr client \<Rightarrow>
               let join = join_url (ce_parse_url env) (ce_parse_ip env) (ce_escaped_path env) (jc_base_url client)
               in case hub_info join (he_info he) (he_version he) of
                 Inl e \<Rightarrow> failed [] e
               | Inr version \<Rightarrow>
                   (case hub_users join (he_users he) (he_decode he) (he_items he) of
                      Inl e \<Rightarrow> failed version e
                    | Inr users \<Rightarrow> probe_snapshot env he hub version users))"

fun due_hubs :: "(int \<Rightarrow> time) \<Rightarrow> hub list \<Rightarrow> collector \<Rightarrow> int list \<times> collector" where
  \<comment> \<open>the hubs a cycle starts a probe for\<close>
  "due_hubs clock [] c = ([], c)"
| "due_hubs clock (h # hs) c =
     (if \<not> hu_enabled h then due_hubs clock hs c
      else let (due, c1) = hub_due (hu_id h) (hu_interval h) (clock (hu_id h)) c;
               (ids, c2) = due_hubs clock hs c1
           in (if due then hu_id h # ids else ids, c2))"

section \<open>Prometheus\<close>

definition collector_feature :: "string \<Rightarrow> bool metric_tx" where
  \<comment> \<open>\<^verbatim>\<open>featureEnabled\<close>: what cannot be read counts as off\<close>
  "collector_feature feature = tx_bind (tx_try (on_store (get_setting ''features''))) (\<lambda>r. tx_return (feature_on feature r))"

record prometheus_config =
  pg_enabled :: bool
  pg_base_url :: string
  pg_verify_tls :: bool
  pg_queries :: labels

definition decode_prometheus :: "json \<Rightarrow> prometheus_config option" where
  "decode_prometheus raw =
     (case object_members raw of
        None \<Rightarrow> None
      | Some m \<Rightarrow>
          (case (bool_field m ''enabled'', string_field m ''base_url'', bool_field m ''verify_tls'', text_map (lookup m ''queries'')) of
             (Some enabled, Some base_url, Some verify_tls, Some queries) \<Rightarrow>
               Some \<lparr>pg_enabled = enabled, pg_base_url = base_url, pg_verify_tls = verify_tls, pg_queries = queries\<rparr>
           | _ \<Rightarrow> None))"

definition default_queries :: labels where
  "default_queries =
     [(''cpu_cores'', ''sum(rate(container_cpu_usage_seconds_total{pod=~\"jupyter-.*\"}[5m])) by (pod)''),
      (''memory_bytes'', ''sum(container_memory_working_set_bytes{pod=~\"jupyter-.*\"}) by (pod)'')]"

definition gpu_queries :: labels where
  "gpu_queries =
     [(''gpu_count'', ''count(DCGM_FI_DEV_GPU_UTIL{pod=~\"jupyter-.*\"}) by (pod)''),
      (''gpu_utilization'', ''avg(DCGM_FI_DEV_GPU_UTIL) by (pod)''),
      (''vram_bytes'', ''sum(DCGM_FI_DEV_FB_USED * 1024 * 1024) by (pod)'')]"

definition prometheus_queries :: "labels \<Rightarrow> bool \<Rightarrow> labels" where
  "prometheus_queries configured gpu_monitoring =
     (let queries = (if configured = [] then default_queries else configured)
      in if \<not> gpu_monitoring then filter (\<lambda>(name, q). \<not> is_gpu_metric name q) queries
         else queries @ filter (\<lambda>(name, q). map_of queries name = None) gpu_queries)"

definition query_points :: "collector_env \<Rightarrow> remote_client \<Rightarrow> string \<Rightarrow> time \<Rightarrow> time \<Rightarrow> (prom_error, metric_point list) res" where
  \<comment> \<open>the query as of a time; \<open>now\<close> is the clock when the answer is read\<close>
  "query_points env client q at_time now =
     prometheus_query (join_url (ce_parse_url env) (ce_parse_ip env) (ce_escaped_path env) (rm_base_url client))
       (ce_parse_float env) now (ce_prom env (query_params (ce_show_time env) q at_time))"

fun run_queries ::
  "(string \<Rightarrow> string \<Rightarrow> (prom_error, metric_point list) res) \<Rightarrow> (string \<Rightarrow> string \<Rightarrow> metric_point list \<Rightarrow> bool metric_tx) \<Rightarrow> labels
    \<Rightarrow> unit metric_tx" where
  \<comment> \<open>a failed query is skipped; an answer to an outdated configuration ends the loop\<close>
  "run_queries ask save [] = tx_return ()"
| "run_queries ask save ((name, q) # queries) =
     (case ask name q of
        Inl e \<Rightarrow> run_queries ask save queries
      | Inr points \<Rightarrow>
          tx_bind (ignored True (save name q points)) (\<lambda>stored.
          if stored then run_queries ask save queries else tx_return ()))"

definition generation_of :: "collector_env \<Rightarrow> string list \<Rightarrow> string \<Rightarrow> (json_object \<times> string \<times> bool \<times> integration_generation) metric_tx" where
  "generation_of env keys secret_key =
     on_store (get_settings_and_secret_generation (me_render (ce_metric env)) (me_digest (ce_metric env)) (ce_decrypt env) keys secret_key)"

definition prometheus_cycle ::
  "collector_env \<Rightarrow> prometheus_config \<Rightarrow> string \<Rightarrow> integration_generation \<Rightarrow> unit metric_tx" where
  "prometheus_cycle env cfg token generation =
     (if \<not> pg_enabled cfg \<or> pg_base_url cfg = [] then tx_return ()
      else tx_bind (collector_feature ''gpu_monitoring'') (\<lambda>gpu.
        case new_remote (ce_parse_url env) (ce_parse_ip env) (pg_base_url cfg) token (pg_verify_tls cfg) of
          Inl _ \<Rightarrow> tx_return ()
        | Inr client \<Rightarrow>
            run_queries (\<lambda>name q. query_points env client q (ce_clock env name) (ce_clock env (''answer:'' @ name)))
              (save_prometheus_metric_points_if_current (ce_metric env) generation)
              (prometheus_queries (pg_queries cfg) gpu)))"

definition collect_prometheus :: "collector_env \<Rightarrow> unit metric_tx" where
  "collect_prometheus env =
     tx_bind (tx_try (generation_of env [''prometheus''] ''prometheus.token'')) (\<lambda>got.
     case got of
       Inl _ \<Rightarrow> tx_return ()
     | Inr (settings, token, configured, generation) \<Rightarrow>
         (case (case map_of settings ''prometheus'' of None \<Rightarrow> None | Some raw \<Rightarrow> decode_prometheus raw) of
            None \<Rightarrow> tx_return ()
          | Some cfg \<Rightarrow> prometheus_cycle env cfg token generation))"

section \<open>Kubernetes\<close>

record kubernetes_config =
  kc_enabled :: bool
  kc_base_url :: string
  kc_verify_tls :: bool
  kc_namespace :: string
  kc_selector :: string
  kc_pattern :: string

definition decode_kubernetes :: "json \<Rightarrow> kubernetes_config option" where
  "decode_kubernetes raw =
     (case object_members raw of
        None \<Rightarrow> None
      | Some m \<Rightarrow>
          (case (bool_field m ''enabled'', string_field m ''base_url'', bool_field m ''verify_tls'', string_field m ''namespace'',
                 string_field m ''label_selector'', string_field m ''pod_username_regex'') of
             (Some enabled, Some base_url, Some verify_tls, Some namespace, Some selector, Some pattern) \<Rightarrow>
               Some \<lparr>kc_enabled = enabled, kc_base_url = base_url, kc_verify_tls = verify_tls, kc_namespace = namespace,
                 kc_selector = selector, kc_pattern = pattern\<rparr>
           | _ \<Rightarrow> None))"

definition llm_pattern :: "json_object \<Rightarrow> string" where
  "llm_pattern settings =
     (case map_of settings ''llm_usage'' of
        None \<Rightarrow> []
      | Some raw \<Rightarrow>
          (case object_members raw of
             None \<Rightarrow> []
           | Some m \<Rightarrow> (case string_field m ''pod_username_regex'' of None \<Rightarrow> [] | Some s \<Rightarrow> s)))"

definition kubernetes_cycle ::
  "collector_env \<Rightarrow> kubernetes_config \<Rightarrow> json_object \<Rightarrow> string \<Rightarrow> integration_generation \<Rightarrow> unit metric_tx" where
  "kubernetes_cycle env cfg settings token generation =
     (if \<not> kc_enabled cfg \<or> kc_base_url cfg = [] then tx_return ()
      else case new_remote (ce_parse_url env) (ce_parse_ip env) (kc_base_url cfg) token (kc_verify_tls cfg) of
        Inl _ \<Rightarrow> tx_return ()
      | Inr client \<Rightarrow>
          (case fst (kubernetes_pods (join_url (ce_parse_url env) (ce_parse_ip env) (ce_escaped_path env) (rm_base_url client))
                   (ce_kube env) (kc_namespace cfg) (kc_selector cfg)) of
             Inl _ \<Rightarrow> tx_return ()
           | Inr pods \<Rightarrow>
               tx_bind (ignored True (update_pods (ce_metric env) (Some generation) pods
                 (if kc_pattern cfg = [] then llm_pattern settings else kc_pattern cfg))) (\<lambda>_. tx_return ())))"

definition collect_kubernetes :: "collector_env \<Rightarrow> unit metric_tx" where
  "collect_kubernetes env =
     tx_bind (tx_try (generation_of env [''kubernetes'', ''llm_usage''] ''kubernetes.token'')) (\<lambda>got.
     case got of
       Inl _ \<Rightarrow> tx_return ()
     | Inr (settings, token, configured, generation) \<Rightarrow>
         (case (case map_of settings ''kubernetes'' of None \<Rightarrow> None | Some raw \<Rightarrow> decode_kubernetes raw) of
            None \<Rightarrow> tx_return ()
          | Some cfg \<Rightarrow> kubernetes_cycle env cfg settings token generation))"

section \<open>Use of language models\<close>

record llm_config =
  lc_source :: string
  lc_pattern :: string
  lc_matcher :: string
  lc_promql :: labels
  lc_mappings :: labels
  lc_input_cost :: rat
  lc_output_cost :: rat

definition decode_llm_usage :: "json \<Rightarrow> llm_config option" where
  "decode_llm_usage raw =
     (case object_members raw of
        None \<Rightarrow> None
      | Some m \<Rightarrow>
          (case (string_field m ''source'', string_field m ''pod_username_regex'', string_field m ''path_matcher'',
                 text_map (lookup m ''promql''), text_map (lookup m ''label_mappings''),
                 number_of (lookup m ''input_cost_per_million''), number_of (lookup m ''output_cost_per_million'')) of
             (Some source, Some pattern, Some matcher, Some promql, Some mappings, Some input_cost, Some output_cost) \<Rightarrow>
               Some \<lparr>lc_source = source, lc_pattern = pattern, lc_matcher = matcher, lc_promql = promql, lc_mappings = mappings,
                 lc_input_cost = input_cost, lc_output_cost = output_cost\<rparr>
           | _ \<Rightarrow> None))"

definition default_llm_queries :: labels where
  "default_llm_queries =
     [(''calls'',
       ''sum(increase(http_requests_total{path=\"/v1/chat/completions\"}[1m])) by (pod,path,status,model,hub)'')]"

definition mapped_labels :: "labels \<Rightarrow> labels \<Rightarrow> labels" where
  \<comment> \<open>the labels that keep their name, then the configured aliases\<close>
  "mapped_labels mappings raw =
     fold (\<lambda>(canonical, remote) safe.
         if \<not> is_ok (validate_llm_label (canonical, remote)) then safe
         else case map_of raw remote of None \<Rightarrow> safe | Some v \<Rightarrow> set_label canonical v safe)
       mappings
       (List.map_filter (\<lambda>k. map_option (Pair k) (map_of raw k)) [''pod'', ''path'', ''status'', ''model'', ''hub'', ''network''])"

definition normalize_llm_labels :: "labels \<Rightarrow> metric_point list \<Rightarrow> metric_point list" where
  "normalize_llm_labels mappings = map (\<lambda>p. p\<lparr>mp_labels := mapped_labels mappings (mp_labels p)\<rparr>)"

definition cost_point :: "rat \<Rightarrow> metric_point \<Rightarrow> metric_point" where
  "cost_point rate p =
     p\<lparr>mp_value := (case mp_value p of Finite x \<Rightarrow> Finite (x * rate / 1000000) | v \<Rightarrow> v)\<rparr>"

definition cost_rate :: "llm_config \<Rightarrow> string \<Rightarrow> rat" where
  "cost_rate cfg name =
     (if name = ''input_tokens'' then lc_input_cost cfg else if name = ''output_tokens'' then lc_output_cost cfg else 0)"

definition save_llm_answer ::
  "collector_env \<Rightarrow> llm_config \<Rightarrow> integration_generation \<Rightarrow> string \<Rightarrow> metric_point list \<Rightarrow> bool metric_tx" where
  \<comment> \<open>whether the loop goes on\<close>
  "save_llm_answer env cfg generation name points =
     (let save = (\<lambda>metric ps. ignored True
            (save_llm_metric_points (ce_metric env) (Some generation) metric (lc_pattern cfg) (lc_matcher cfg) ps))
      in tx_bind (save name points) (\<lambda>stored.
         if \<not> stored then tx_return False
         else if cost_rate cfg name > 0 then save (''estimated_cost_'' @ name) (map (cost_point (cost_rate cfg name)) points)
         else tx_return True))"

fun run_llm_queries ::
  "bool metric_tx \<Rightarrow> (string \<Rightarrow> (prom_error, metric_point list) res) \<Rightarrow> (string \<Rightarrow> metric_point list \<Rightarrow> bool metric_tx) \<Rightarrow> labels
    \<Rightarrow> unit metric_tx" where
  \<comment> \<open>the feature is read again before every query\<close>
  "run_llm_queries feature ask save [] = tx_return ()"
| "run_llm_queries feature ask save ((name, q) # queries) =
     tx_bind feature (\<lambda>enabled.
     if \<not> enabled then tx_return ()
     else case ask q of
        Inl e \<Rightarrow> run_llm_queries feature ask save queries
      | Inr points \<Rightarrow>
          tx_bind (save name points) (\<lambda>go_on. if go_on then run_llm_queries feature ask save queries else tx_return ()))"

definition llm_cycle ::
  "collector_env \<Rightarrow> time \<Rightarrow> llm_config \<Rightarrow> prometheus_config \<Rightarrow> string \<Rightarrow> integration_generation \<Rightarrow> unit metric_tx" where
  "llm_cycle env scan_at cfg prom token generation =
     (if lc_source cfg \<noteq> ''prometheus'' \<or> \<not> is_ok (compile_pod_pattern (pp_capture_names (me_pattern (ce_metric env))) (lc_pattern cfg))
         \<or> \<not> is_ok (each_ok validate_llm_label (lc_mappings cfg)) \<or> \<not> pg_enabled prom \<or> pg_base_url prom = []
      then tx_return ()
      else case new_remote (ce_parse_url env) (ce_parse_ip env) (pg_base_url prom) token (pg_verify_tls prom) of
        Inl _ \<Rightarrow> tx_return ()
      | Inr client \<Rightarrow>
          run_llm_queries (collector_feature ''llm_usage_monitoring'')
            (\<lambda>q. map_sum id (normalize_llm_labels (lc_mappings cfg)) (query_points env client q scan_at (ce_clock env (''answer:'' @ q))))
            (save_llm_answer env cfg generation)
            (if lc_promql cfg = [] then default_llm_queries else lc_promql cfg))"

definition llm_read :: "collector_env \<Rightarrow> time \<Rightarrow> unit metric_tx" where
  "llm_read env scan_at =
     tx_bind (tx_try (generation_of env [''llm_usage'', ''prometheus''] ''prometheus.token'')) (\<lambda>got.
     case got of
       Inl _ \<Rightarrow> tx_return ()
     | Inr (settings, token, configured, generation) \<Rightarrow>
         (case (Option.bind (map_of settings ''llm_usage'') decode_llm_usage,
                Option.bind (map_of settings ''prometheus'') decode_prometheus) of
            (Some cfg, Some prom) \<Rightarrow> llm_cycle env scan_at cfg prom token generation
          | _ \<Rightarrow> tx_return ()))"

definition collect_llm_usage :: "collector_env \<Rightarrow> collector \<Rightarrow> collector metric_tx" where
  "collect_llm_usage env c =
     tx_bind (collector_feature ''llm_usage_monitoring'') (\<lambda>enabled.
     if \<not> enabled then tx_return c
     else
       let scan_at = llm_evaluation_time (ce_clock env ''llm''); (due, c1) = llm_scan_due scan_at c
       in if \<not> due then tx_return c1 else tx_bind (llm_read env scan_at) (\<lambda>_. tx_return c1))"

section \<open>Keys that expire, retention, and the cycle\<close>

fun notify_owners :: "collector_env \<Rightarrow> time \<Rightarrow> (int \<times> expiring_key list) list \<Rightarrow> mail_job list store_tx" where
  "notify_owners env now [] = tx_return []"
| "notify_owners env now ((uid, keys) # owners) =
     tx_bind (notify (ce_decrypt env) (keys_expiring (ce_show_date env) keys now) 0 [uid]) (\<lambda>jobs.
     tx_bind (notify_owners env now owners) (\<lambda>rest. tx_return (jobs @ rest)))"

definition tell_expiring :: "collector_env \<Rightarrow> mail_job list store_tx" where
  "tell_expiring env =
     tx_bind (tx_try (service_config (ce_decrypt env))) (\<lambda>got.
     case got of
       Inl _ \<Rightarrow> tx_return []
     | Inr cfg \<Rightarrow>
         if \<not> mc_enabled cfg \<or> \<not> mail_allows cfg event_key_expiring then tx_return []
         else tx_bind (ignored [] (expiring_api_keys key_expiry_window)) (notify_owners env (ce_clock env ''expiring'')))"

definition notify_expiring_keys :: "collector_env \<Rightarrow> collector \<Rightarrow> (mail_job list \<times> collector) metric_tx" where
  "notify_expiring_keys env c =
     (if \<not> ce_mail env then tx_return ([], c)
      else let (due, c1) = key_expiry_due (ce_clock env ''keys'') c
           in if \<not> due then tx_return ([], c1)
              else tx_bind (on_store (tell_expiring env)) (\<lambda>jobs. tx_return (jobs, c1)))"

fun int_fields :: "json_object \<Rightarrow> string list \<Rightarrow> int list option" where
  "int_fields m [] = Some []"
| "int_fields m (k # ks) =
     (case int_field m k of None \<Rightarrow> None | Some n \<Rightarrow> map_option ((#) n) (int_fields m ks))"

definition read_days :: "string \<Rightarrow> string list \<Rightarrow> int list option metric_tx" where
  \<comment> \<open>a missing row counts as nothing configured; \<open>None\<close> is a setting that could not be read\<close>
  "read_days key names =
     tx_bind (tx_try (on_store (get_setting key))) (\<lambda>r.
     tx_return (case r of
         Inl e \<Rightarrow> if e = StoreFailed ErrNotFound then Some (map (\<lambda>_. 0) names) else None
       | Inr v \<Rightarrow> (case object_members v of None \<Rightarrow> None | Some m \<Rightarrow> int_fields m names)))"

definition prune_tables :: "collector \<Rightarrow> int \<Rightarrow> int \<Rightarrow> int \<Rightarrow> collector metric_tx" where
  "prune_tables c raw_days usage_days llm_days =
     tx_bind (tx_try (prune_metrics raw_days llm_days)) (\<lambda>pruned.
     if \<not> is_ok pruned then tx_return (prune_failed c)
     else
       tx_bind (tx_try (prune_resource_usage usage_days)) (\<lambda>usage.
       tx_bind (tx_try (on_store prune_mail_deliveries)) (\<lambda>mails.
       tx_return (if is_ok usage \<and> is_ok mails then c else prune_failed c))))"

definition prune :: "collector_env \<Rightarrow> collector \<Rightarrow> collector metric_tx" where
  "prune env c =
     (let (due, c1) = prune_due (ce_clock env ''prune'') c
      in if \<not> due then tx_return c1
         else
           tx_bind (read_days ''system'' [''raw_retention_days'', ''usage_retention_days'']) (\<lambda>system.
           tx_bind (read_days ''llm_usage'' [''retention_days'']) (\<lambda>llm.
           case (system, llm) of
             (Some [raw_days, usage_days], Some [llm_days]) \<Rightarrow> prune_tables c1 raw_days usage_days llm_days
           | _ \<Rightarrow> tx_return (prune_failed c1))))"

definition collect_hubs :: "collector_env \<Rightarrow> collector \<Rightarrow> (int list \<times> collector) metric_tx" where
  "collect_hubs env c =
     tx_bind (tx_try (on_store (list_hubs_with_access (ce_ordered env) \<lparr>af_global = True, af_groups = []\<rparr>))) (\<lambda>got.
     tx_return (case got of
         Inl _ \<Rightarrow> ([], c)
       | Inr hubs \<Rightarrow> due_hubs (\<lambda>hid. ce_clock env (''hub:'' @ format_int hid)) hubs c))"

definition roll_up_usage :: "collector_env \<Rightarrow> unit metric_tx" where
  "roll_up_usage env =
     tx_bind (tx_try (roll_up_resource_usage (ce_greatest env) (ce_clock env ''rollup''))) (\<lambda>_. tx_return ())"

definition collect :: "collector_env \<Rightarrow> collector \<Rightarrow> (int list \<times> mail_job list \<times> collector) metric_tx" where
  \<comment> \<open>the probes of the hubs returned run beside the rest\<close>
  "collect env c =
     tx_bind (collect_hubs env c) (\<lambda>(probes, c1).
     tx_bind (collect_kubernetes env) (\<lambda>_.
     tx_bind (collect_prometheus env) (\<lambda>_.
     tx_bind (collect_llm_usage env c1) (\<lambda>c2.
     tx_bind (roll_up_usage env) (\<lambda>_.
     tx_bind (notify_expiring_keys env c2) (\<lambda>(jobs, c3).
     tx_bind (prune env c3) (\<lambda>c4.
     tx_return (probes, jobs, c4))))))))"

end
