(* ===== verification/Collector_Properties.thy ===== *)
theory Collector_Properties
  imports Collector
begin

text \<open>
  What the collector guarantees: the runs of a timer keep their distance whatever the clock does, at most eight hubs are probed
  at a time and every probe can end, a cycle always comes to its end, a probe changes no other hub, and samples are only
  pruned past the retention that is configured.
\<close>

section \<open>Timers\<close>

text \<open>A timer that fires notes the reading of its clock, and fires again only after \<open>gap\<close>.\<close>

fun fired :: "(time \<Rightarrow> 's \<Rightarrow> bool \<times> 's) \<Rightarrow> ('s \<Rightarrow> time) \<Rightarrow> time list \<Rightarrow> 's \<Rightarrow> time list" where
  "fired due stamp [] s = []"
| "fired due stamp (now # nows) s =
     (case due now s of (yes, s') \<Rightarrow> (if yes then [stamp s'] else []) @ fired due stamp nows s')"

locale spaced_timer =
  fixes due :: "time \<Rightarrow> 's \<Rightarrow> bool \<times> 's" and stamp :: "'s \<Rightarrow> time" and clock :: "time \<Rightarrow> time" and gap :: time
  assumes fires: "due now s = (True, s') \<Longrightarrow> stamp s' = clock now \<and> (stamp s = zero_time \<or> stamp s + gap \<le> clock now)"
    and waits_on: "due now s = (False, s') \<Longrightarrow> stamp s' = stamp s"
begin

lemma fired_after:
  "\<forall>n \<in> set nows. clock n \<noteq> zero_time \<Longrightarrow> stamp s \<noteq> zero_time \<Longrightarrow> 0 \<le> gap \<Longrightarrow> t \<in> set (fired due stamp nows s)
   \<Longrightarrow> stamp s + gap \<le> t"
proof (induction nows arbitrary: s)
  case (Cons now nows)
  obtain yes s' where d: "due now s = (yes, s')" by fastforce
  show ?case
  proof (cases yes)
    case True
    with d have f: "stamp s' = clock now" "stamp s + gap \<le> stamp s'" using fires [of now s s'] Cons.prems(2) by auto
    from Cons.prems(4) d True consider "t = stamp s'" | "t \<in> set (fired due stamp nows s')" by auto
    then show ?thesis
    proof cases
      case 2
      with Cons.IH [of s'] Cons.prems f have "stamp s' + gap \<le> t" by simp
      with f(2) Cons.prems(3) show ?thesis by linarith
    qed (use f in simp)
  next
    case False
    with d have "due now s = (False, s')" by simp
    then have "stamp s' = stamp s" by (rule waits_on)
    moreover have "stamp s' + gap \<le> t" using Cons.IH [of s'] Cons.prems d False calculation by simp
    ultimately show ?thesis by simp
  qed
qed simp

lemma fired_spaced:
  "\<forall>n \<in> set nows. clock n \<noteq> zero_time \<Longrightarrow> 0 \<le> gap \<Longrightarrow> sorted_wrt (\<lambda>a b. a + gap \<le> b) (fired due stamp nows s)"
proof (induction nows arbitrary: s)
  case (Cons now nows)
  obtain yes s' where d: "due now s = (yes, s')" by fastforce
  from Cons have IH: "sorted_wrt (\<lambda>a b. a + gap \<le> b) (fired due stamp nows s')" by simp
  show ?case
  proof (cases yes)
    case True
    with d fires [of now s s'] Cons.prems have "stamp s' \<noteq> zero_time" by auto
    then have "\<forall>t \<in> set (fired due stamp nows s'). stamp s' + gap \<le> t" using fired_after [of nows s'] Cons.prems by auto
    with IH d True show ?thesis by simp
  qed (use IH d in simp)
qed simp

lemma fired_readings: "t \<in> set (fired due stamp nows s) \<Longrightarrow> t : image clock (set nows)"
proof (induction nows arbitrary: s)
  case (Cons now nows)
  obtain yes s' where d: "due now s = (yes, s')" by fastforce
  with Cons fires [of now s s'] show ?case by (cases yes) auto
qed simp

end

interpretation llm_timer: spaced_timer "\<lambda>now. llm_scan_due (llm_evaluation_time now)" co_last_llm llm_evaluation_time minute
  by unfold_locales (auto simp: llm_scan_due_def waits_def split: if_split_asm)

interpretation key_timer: spaced_timer key_expiry_due co_last_key "\<lambda>now. now" key_expiry_interval
  by unfold_locales (auto simp: key_expiry_due_def waits_def split: if_split_asm)

interpretation prune_timer: spaced_timer prune_due co_last_prune "\<lambda>now. now" prune_retry_interval
proof
  have "prune_retry_interval \<le> prune_interval" by (simp add: prune_retry_interval_def prune_interval_def hour_def minute_def second_def)
  then show "prune_due now s = (True, s') \<Longrightarrow> co_last_prune s' = now \<and> (co_last_prune s = zero_time \<or> co_last_prune s + prune_retry_interval \<le> now)"
    for now s s' by (auto simp: prune_due_def waits_def split: if_split_asm)
qed (auto simp: prune_due_def split: if_split_asm)

interpretation hub_timer: spaced_timer "hub_due hid interval" "hub_last hid" "\<lambda>now. now" "wrap64 (interval * second)" for hid interval
  by unfold_locales (auto simp: hub_due_def waits_def hub_last_def update_conv split: if_split_asm option.splits)

lemma truncate_whole: "truncate_to minute t mod minute = 0"
  by (simp add: truncate_to_def minus_mod_eq_mult_div)

text \<open>C38: Counters of language models are read over the minute before the time of the query, so no call is counted twice only
  if these minutes never overlap: they do not, whatever the clock shows from one cycle to the next, also when it is set
  back.\<close>

theorem llm_windows_never_overlap:
  assumes "list_all (\<lambda>now. llm_evaluation_time now \<noteq> zero_time) nows"
  shows "sorted_wrt (\<lambda>a b. a + minute \<le> b) (fired (\<lambda>now. llm_scan_due (llm_evaluation_time now)) co_last_llm nows c)"
  by (rule llm_timer.fired_spaced) (use assms in \<open>simp_all add: list_all_iff minute_def second_def\<close>)

theorem llm_windows_never_overlap_witness:
  "fired (\<lambda>now. llm_scan_due (llm_evaluation_time now)) co_last_llm [90 * second, 119 * second, 61 * second, 125 * second] new_collector
     = [60 * second, 120 * second]
   \<and> sorted_wrt (\<lambda>a b. a + minute \<le> b)
        (fired (\<lambda>now. llm_scan_due (llm_evaluation_time now)) co_last_llm [90 * second, 119 * second, 61 * second, 125 * second] new_collector)"
proof
  show "fired (\<lambda>now. llm_scan_due (llm_evaluation_time now)) co_last_llm [90 * second, 119 * second, 61 * second, 125 * second] new_collector
      = [60 * second, 120 * second]" by code_simp
  have "list_all (\<lambda>now. llm_evaluation_time now \<noteq> zero_time) [90 * second, 119 * second, 61 * second, 125 * second]" by code_simp
  then show "sorted_wrt (\<lambda>a b. a + minute \<le> b)
        (fired (\<lambda>now. llm_scan_due (llm_evaluation_time now)) co_last_llm [90 * second, 119 * second, 61 * second, 125 * second] new_collector)"
    by (rule llm_windows_never_overlap)
qed

section \<open>Slots of the probes\<close>

text \<open>\<^verbatim>\<open>goHub\<close> and \<^verbatim>\<open>waitForHubs\<close>: the probes that wait for a slot, those that run, the tokens in the channel, and whether
  the context was cancelled.\<close>

record probe_slots =
  ps_waiting :: "int list"
  ps_running :: "int list"
  ps_tokens :: nat
  ps_cancelled :: bool

definition no_probes :: probe_slots where
  "no_probes = \<lparr>ps_waiting = [], ps_running = [], ps_tokens = 0, ps_cancelled = False\<rparr>"

inductive probe_step :: "probe_slots \<Rightarrow> probe_slots \<Rightarrow> bool" where
  go_hub: "probe_step s (s\<lparr>ps_waiting := ps_waiting s @ [hid]\<rparr>)"
| admit: "hid \<in> set (ps_waiting s) \<Longrightarrow> ps_tokens s < max_hub_probes
    \<Longrightarrow> probe_step s (s\<lparr>ps_waiting := remove1 hid (ps_waiting s), ps_running := hid # ps_running s, ps_tokens := ps_tokens s + 1\<rparr>)"
| drop: "hid \<in> set (ps_waiting s) \<Longrightarrow> ps_cancelled s \<Longrightarrow> probe_step s (s\<lparr>ps_waiting := remove1 hid (ps_waiting s)\<rparr>)"
| finish: "hid \<in> set (ps_running s)
    \<Longrightarrow> probe_step s (s\<lparr>ps_running := remove1 hid (ps_running s), ps_tokens := ps_tokens s - 1\<rparr>)"
| cancel: "probe_step s (s\<lparr>ps_cancelled := True\<rparr>)"

inductive_cases probe_stepE: "probe_step s t"

definition all_ended :: "probe_slots \<Rightarrow> bool" where
  \<comment> \<open>what \<^verbatim>\<open>hubs.Wait\<close> waits for\<close>
  "all_ended s = (ps_waiting s = [] \<and> ps_running s = [])"

definition tokens_match :: "probe_slots \<Rightarrow> bool" where
  "tokens_match s \<longleftrightarrow> length (ps_running s) = ps_tokens s \<and> ps_tokens s \<le> max_hub_probes"

interpretation probe_pool: invariant_system "\<lambda>s. s = no_probes" probe_step tokens_match
proof
  show "s = no_probes \<Longrightarrow> tokens_match s" for s by (simp add: tokens_match_def no_probes_def)
next
  fix s t
  assume "tokens_match s" and "probe_step s t"
  from this(2,1) show "tokens_match t"
    by cases (auto simp: tokens_match_def length_remove1)
qed

lemma probes_end: "tokens_match s \<Longrightarrow> \<exists>t. probe_step\<^sup>*\<^sup>* s t \<and> all_ended t"
proof (induction "2 * length (ps_waiting s) + length (ps_running s)" arbitrary: s rule: less_induct)
  case less
  show ?case
  proof (cases "all_ended s")
    case False
    obtain t where t: "probe_step s t" "2 * length (ps_waiting t) + length (ps_running t) < 2 * length (ps_waiting s) + length (ps_running s)"
    proof (cases "ps_running s")
      case (Cons hid rest)
      then show thesis by (intro that [OF probe_step.finish [of hid]]) simp_all
    next
      case Nil
      with False obtain hid rest where w: "ps_waiting s = hid # rest" by (cases "ps_waiting s") (auto simp: all_ended_def)
      have "ps_tokens s < max_hub_probes" using less.prems Nil by (simp add: tokens_match_def max_hub_probes_def)
      then show thesis by (intro that [OF probe_step.admit [of hid]]) (simp_all add: w)
    qed
    from probe_pool.inv_move [OF less.prems t(1)] less.hyps [OF t(2)] obtain u where "probe_step\<^sup>*\<^sup>* t u" "all_ended u" by blast
    with t(1) show ?thesis by (meson converse_rtranclp_into_rtranclp)
  qed blast
qed

text \<open>In every reachable state at most eight hubs are probed at a time, and every probe that was started can still come to
  its end: no token of the channel is lost, so the wait at shutdown is not held up by a missing slot.\<close>

theorem probe_slots_never_lost:
  assumes "reach (\<lambda>s. s = no_probes) probe_step s"
  shows "length (ps_running s) \<le> 8 \<and> (\<exists>t. probe_step\<^sup>*\<^sup>* s t \<and> all_ended t)"
proof -
  from probe_pool.reach_inv [OF assms] have "tokens_match s" .
  then have "length (ps_running s) \<le> 8" by (simp add: tokens_match_def max_hub_probes_def)
  with probes_end [OF \<open>tokens_match s\<close>] show ?thesis by blast
qed

theorem probe_slots_never_lost_witness:
  "\<exists>t. probe_step\<^sup>*\<^sup>* (no_probes\<lparr>ps_waiting := [7]\<rparr>) t \<and> all_ended t"
proof -
  have "probe_step no_probes (no_probes\<lparr>ps_waiting := [7]\<rparr>)"
    using probe_step.go_hub [of no_probes 7] by (simp add: no_probes_def)
  then have "reach (\<lambda>s. s = no_probes) probe_step (no_probes\<lparr>ps_waiting := [7]\<rparr>)"
    by (intro reach_move [OF reach_start]) auto
  from probe_slots_never_lost [OF this] show ?thesis by blast
qed

section \<open>Probes and cycles\<close>

lemma keeps_ignored [inv_intros]: "keeps I m \<Longrightarrow> keeps I (ignored a m)"
  unfolding ignored_def by (intro inv_intros)

text \<open>The probe of one hub leaves every other hub as it is, its status, its token and its inventory settings included.\<close>

lemma keeps_probed_health:
  "hu_id hub \<noteq> hid \<Longrightarrow> keeps (hub_kept hid h) (update_probed_health env hub success version message snapshot)"
  unfolding update_probed_health_def by (intro inv_intros keeps_hub_health)

lemma keeps_probe_snapshot:
  "hu_id hub \<noteq> hid \<Longrightarrow> keeps (hub_kept hid h) (probe_snapshot env he hub version users)"
  unfolding probe_snapshot_def store_snapshot_def by (intro inv_intros keeps_probed_health)

lemma keeps_tried_credential:
  assumes "\<And>hub token. hu_id hub = i \<Longrightarrow> keeps I (k (Inr (hub, token)))" and "\<And>e. keeps I (k (Inl e))"
  shows "keeps I (tx_bind (tx_try (get_hub_credential digest decrypt i)) k)"
proof (rule keeps_bind_result)
  show "keeps I (tx_try (get_hub_credential digest decrypt i))" by (intro inv_intros)
next
  fix got fs d fs' d'
  assume "tx_try (get_hub_credential digest decrypt i) fs d = (Inr got, fs', d')"
  then have "get_hub_credential digest decrypt i fs d = (got, fs', d')" by (simp add: tx_try_Inr)
  then show "keeps I (k got)"
  proof (cases got)
    case (Inr p)
    obtain hub token where "p = (hub, token)" by fastforce
    with Inr \<open>get_hub_credential digest decrypt i fs d = (got, fs', d')\<close> show ?thesis
      using assms(1) credential_id by blast
  qed (use assms(2) in simp)
qed

lemma keeps_probe_hub:
  assumes "i \<noteq> hid"
  shows "keeps (hub_kept hid h) (probe_hub env i)"
  unfolding probe_hub_def Let_def
  by (rule keeps_tried_credential) (use assms in \<open>auto intro!: inv_intros keeps_probed_health keeps_probe_snapshot split: sum.split\<close>)

lemma always_read: "always_returns (ignored a m)"
  unfolding ignored_def by (intro always_intros)

lemma always_feature: "always_returns (collector_feature f)"
  unfolding collector_feature_def by (intro always_intros)

lemma always_run_queries: "always_returns (run_queries ask save queries)"
  by (induction queries) (auto intro!: always_intros always_read split: sum.split)

lemma always_save_llm: "always_returns (save_llm_answer env cfg generation name points)"
  unfolding save_llm_answer_def Let_def by (intro always_intros always_read)

lemma always_run_llm:
  assumes "always_returns feature" and "\<And>name points. always_returns (save name points)"
  shows "always_returns (run_llm_queries feature ask save queries)"
  by (induction queries) (auto intro!: always_intros assms split: sum.split)

lemma always_record_all: "always_returns (record_all vs)"
  by (induction vs) (auto intro!: always_intros simp: record_delivery_def)

lemma always_notify: "always_returns (notify decrypt n actor ids)"
  unfolding notify_def resolve_recipients_def Let_def by (intro always_intros always_record_all)

lemma always_notify_owners: "always_returns (notify_owners env now owners)"
  by (induction env now owners rule: notify_owners.induct) (auto intro!: always_intros always_notify)

text \<open>A cycle always runs to its end, whatever the remotes answer and whichever statements fail: no failure of one part
  keeps the later ones, the pruning last, from running.\<close>

theorem cycle_always_completes: "\<exists>probes jobs c' fs' t'. collect env c fs t = (Inr (probes, jobs, c'), fs', t')"
proof -
  have hubs: "always_returns (collect_hubs env c)" for c
    unfolding collect_hubs_def by (intro always_intros)
  have kube: "always_returns (collect_kubernetes env)"
    unfolding collect_kubernetes_def kubernetes_cycle_def
    by (auto intro!: always_intros always_read split: option.split sum.split)
  have prom: "always_returns (collect_prometheus env)"
    unfolding collect_prometheus_def prometheus_cycle_def
    by (auto intro!: always_intros always_feature always_run_queries split: option.split sum.split)
  have llm: "always_returns (collect_llm_usage env c)" for c
    unfolding collect_llm_usage_def llm_read_def llm_cycle_def Let_def
    by (auto intro!: always_intros always_feature always_run_llm always_save_llm split: option.split sum.split prod.split)
  have roll: "always_returns (roll_up_usage env)" unfolding roll_up_usage_def by (intro always_intros)
  have keys: "always_returns (notify_expiring_keys env c)" for c
    unfolding notify_expiring_keys_def tell_expiring_def on_store_def Let_def
    by (auto intro!: always_intros always_read always_notify_owners split: prod.split)
  have pruned: "always_returns (prune env c)" for c
    unfolding prune_def prune_tables_def read_days_def Let_def
    by (auto intro!: always_intros split: prod.split option.split list.split)
  have "always_returns (collect env c)"
    unfolding collect_def by (intro always_intros hubs kube prom llm roll keys pruned)
  then obtain a fs' t' where "collect env c fs t = (Inr a, fs', t')" by (rule always_returnsE)
  then show ?thesis by (cases a) auto
qed

text \<open>Probes that run side by side do not disturb each other: whatever a hub answers and whatever fails, its probe leaves
  the row of every other hub as it is.\<close>

theorem probe_leaves_other_hubs:
  assumes "find_hub other d = Some h" and "other < db_next_hub d" and "other \<noteq> hid"
    and "probe_hub env hid fs d = (r, fs', d')"
  shows "find_hub other d' = Some h"
proof -
  have "hid \<noteq> other" using assms(3) by simp
  moreover have "hub_kept other h d" using assms(1,2) by (simp add: hub_kept_def)
  ultimately have "hub_kept other h d'" using keepsD [OF keeps_probe_hub _ assms(4)] by blast
  then show ?thesis by (simp add: hub_kept_def)
qed

section \<open>Retention\<close>

text \<open>What a setting says of a number of days: nothing configured is 0, \<open>None\<close> cannot be read.\<close>

definition configured_days :: "string \<Rightarrow> string \<Rightarrow> store_db \<Rightarrow> int option" where
  "configured_days key name d =
     (case find (\<lambda>s. st_key s = key) (db_settings d) of
        None \<Rightarrow> Some 0
      | Some s \<Rightarrow> (case object_members (st_value s) of None \<Rightarrow> None | Some m \<Rightarrow> int_field m name))"

lemma int_fields_all: "int_fields m names = Some ns \<Longrightarrow> map (int_field m) names = map Some ns"
  by (induction names arbitrary: ns) (auto split: option.splits)

lemma keeps_read_days [inv_intros]: "keeps I (read_days key names)"
  unfolding read_days_def by (intro inv_intros)

lemma read_days_setting:
  assumes "read_days key names fs t = (q, fs', t')"
  shows "t' = t \<and> fs' = tl fs \<and> (\<exists>r. q = Inr r \<and> (\<forall>ns. r = Some ns \<longrightarrow> True \<notin> set (take 1 fs)
    \<and> map (\<lambda>k. configured_days key k (mt_store t)) names = map Some ns))"
proof -
  have "t' = t" using keepsD [OF keeps_read_days [of "\<lambda>x. x = t"] refl assms] .
  moreover from assms have "fs' = tl fs \<and> (\<exists>r. q = Inr r \<and> (\<forall>ns. r = Some ns \<longrightarrow> True \<notin> set (take 1 fs)
    \<and> map (\<lambda>k. configured_days key k (mt_store t)) names = map Some ns))"
    by (cases fs) (auto simp: read_days_def tx_bind_def tx_try_def tx_return_def on_store_def on_part_def get_setting_def
        query_row_def statement_def Let_def configured_days_def map_replicate_const comp_def
        dest!: int_fields_all split: prod.splits sum.splits if_split_asm option.splits)
  ultimately show ?thesis by blast
qed

text \<open>A row of the time \<open>moment\<close> is past the window the setting names; one that names no day or less counts as \<open>fallback\<close> days.\<close>

definition past_window :: "string \<Rightarrow> string \<Rightarrow> int \<Rightarrow> store_db \<Rightarrow> time \<Rightarrow> bool" where
  "past_window key name fallback d moment \<longleftrightarrow>
     (\<exists>days. configured_days key name d = Some days \<and> moment < db_now d - (if 1 \<le> days then days else fallback) * (24 * hour))"

text \<open>What is missing afterwards was past the window of its table.\<close>

definition tables_held :: "metric_db \<Rightarrow> metric_db \<Rightarrow> bool" where
  "tables_held t t' \<longleftrightarrow> db_now (mt_store t') = db_now (mt_store t) \<and> db_settings (mt_store t') = db_settings (mt_store t)
     \<and> (\<forall>s \<in> set (mt_samples t). s \<in> set (mt_samples t')
           \<or> past_window ''system'' ''raw_retention_days'' 30 (mt_store t) (sa_at s))
     \<and> (\<forall>row \<in> set (mt_llm t). row \<in> set (mt_llm t')
           \<or> past_window ''llm_usage'' ''retention_days'' 30 (mt_store t) (ll_sampled_at row))
     \<and> (\<forall>row \<in> set (mt_usage t). row \<in> set (mt_usage t')
           \<or> past_window ''system'' ''usage_retention_days'' 365 (mt_store t) (ur_bucket row))"

definition retention_unreadable :: "store_db \<Rightarrow> bool" where
  "retention_unreadable d \<longleftrightarrow>
     list_ex (\<lambda>(key, name). configured_days key name d = None)
       [(''system'', ''raw_retention_days''), (''system'', ''usage_retention_days''), (''llm_usage'', ''retention_days'')]"

lemma tables_held_refl [simp]: "tables_held t t"
  by (simp add: tables_held_def)

lemma keeps_prune_tables:
  assumes "configured_days ''system'' ''raw_retention_days'' (mt_store t) = Some raw_days"
    and "configured_days ''system'' ''usage_retention_days'' (mt_store t) = Some usage_days"
    and "configured_days ''llm_usage'' ''retention_days'' (mt_store t) = Some llm_days"
  shows "keeps (tables_held t) (prune_tables c raw_days usage_days llm_days)"
  unfolding prune_tables_def prune_metrics_def prune_resource_usage_def on_store_def prune_mail_deliveries_def
  by (intro inv_intros keeps_exec
      keeps_on_part [where I = "\<lambda>d. db_now d = db_now (mt_store t) \<and> db_settings d = db_settings (mt_store t)"])
    (use assms in \<open>auto simp: tables_held_def past_window_def retention_def day_def not_le\<close>)

text \<open>C40: Pruning never takes what an operator asked to keep. A sample of the resources, a sample of the use of language
  models and an hour of consumption that are gone were each older than the window the setting of their own table names (30,
  30 and 365 days when it names none), and when one of the three windows cannot be read, because a stored document does not
  decode or because one of the two reads fails, nothing is taken from any table.\<close>

theorem prune_respects_retention:
  assumes "prune env c fs t = (r, fs', t')"
  shows "(\<forall>s \<in> set (mt_samples t). s \<in> set (mt_samples t')
        \<or> past_window ''system'' ''raw_retention_days'' 30 (mt_store t) (sa_at s))
    \<and> (\<forall>row \<in> set (mt_llm t). row \<in> set (mt_llm t')
        \<or> past_window ''llm_usage'' ''retention_days'' 30 (mt_store t) (ll_sampled_at row))
    \<and> (\<forall>row \<in> set (mt_usage t). row \<in> set (mt_usage t')
        \<or> past_window ''system'' ''usage_retention_days'' 365 (mt_store t) (ur_bucket row))
    \<and> (retention_unreadable (mt_store t) \<or> True \<in> set (take 2 fs) \<longrightarrow> t' = t)"
proof (cases "t' = t")
  case False
  obtain due c1 where due: "prune_due (ce_clock env ''prune'') c = (due, c1)" by fastforce
  obtain q1 fs1 t1 where one: "read_days ''system'' [''raw_retention_days'', ''usage_retention_days''] fs t = (q1, fs1, t1)"
    by (metis prod_cases3)
  from read_days_setting [OF one] obtain system where q1: "q1 = Inr system" "t1 = t" "fs1 = tl fs"
    and system: "\<And>ns. system = Some ns \<Longrightarrow> True \<notin> set (take 1 fs)
      \<and> map (\<lambda>k. configured_days ''system'' k (mt_store t)) [''raw_retention_days'', ''usage_retention_days''] = map Some ns"
    by blast
  obtain q2 fs2 t2 where two: "read_days ''llm_usage'' [''retention_days''] (tl fs) t = (q2, fs2, t2)" by (metis prod_cases3)
  from read_days_setting [OF two] obtain llm where q2: "q2 = Inr llm" "t2 = t"
    and llm: "\<And>ns. llm = Some ns \<Longrightarrow> True \<notin> set (take 1 (tl fs))
      \<and> map (\<lambda>k. configured_days ''llm_usage'' k (mt_store t)) [''retention_days''] = map Some ns"
    by blast
  from assms False one [unfolded q1] two [unfolded q2] obtain raw_days usage_days llm_days where
    days: "system = Some [raw_days, usage_days]" "llm = Some [llm_days]"
    and tables: "prune_tables c1 raw_days usage_days llm_days fs2 t = (r, fs', t')"
    by (auto simp: prune_def due tx_bind_def tx_return_def split: if_split_asm option.splits list.splits)
  from system [OF days(1)] llm [OF days(2)] have read:
    "configured_days ''system'' ''raw_retention_days'' (mt_store t) = Some raw_days"
    "configured_days ''system'' ''usage_retention_days'' (mt_store t) = Some usage_days"
    "configured_days ''llm_usage'' ''retention_days'' (mt_store t) = Some llm_days" by simp_all
  have "True \<notin> set (take 2 fs)"
    using system [OF days(1)] llm [OF days(2)] by (cases fs; cases "tl fs") auto
  moreover have "\<not> retention_unreadable (mt_store t)" by (simp add: retention_unreadable_def read)
  moreover from keepsD [OF keeps_prune_tables [OF read] tables_held_refl tables] have "tables_held t t'" .
  ultimately show ?thesis unfolding tables_held_def by blast
qed simp

section \<open>A concrete collector\<close>

definition no_answer :: "nat \<Rightarrow> transport_result" where "no_answer k = ConnectionError"

definition quiet_hub :: hub_api_env where
  "quiet_hub =
     \<lparr>he_tester = \<lparr>te_parse_url = (\<lambda>_. None), te_parse_ip = (\<lambda>_. None), te_escaped_path = (\<lambda>_. []), te_client_error = (\<lambda>_. []),
         te_capture_names = (\<lambda>_. None), te_llm_error = (\<lambda>_. []), te_username_from_pod = (\<lambda>pattern pod. None),
         te_calls = (\<lambda>_. \<lparr>tc_result = Inl CallFailed, tc_status = 0, tc_error = [], tc_record_error = False, tc_payload = JNull\<rparr>)\<rparr>,
       he_digest = (\<lambda>s. s), he_encrypt = (\<lambda>k s. Some s), he_decrypt = (\<lambda>k s. Some s), he_parse_float = (\<lambda>_. 0),
       he_show_time = (\<lambda>_. []), he_stamp = [], he_parse_time = (\<lambda>_. None), he_format_time = (\<lambda>_. []), he_observed_at = 0,
       he_info = no_answer, he_version = [], he_users = no_answer, he_decode = (\<lambda>_. None), he_items = [],
       he_error_text = (\<lambda>_. ''unreachable''), he_ordered = (\<lambda>_ hs. hs)\<rparr>"

definition quiet_collector :: "time \<Rightarrow> collector_env" where
  "quiet_collector now =
     \<lparr>ce_metric = plain_env, ce_hub = (\<lambda>_. quiet_hub), ce_mail = False, ce_digest = (\<lambda>_. ''g''), ce_decrypt = (\<lambda>k s. Some s),
       ce_parse_url = (\<lambda>_. None), ce_parse_ip = (\<lambda>_. None), ce_escaped_path = (\<lambda>_. []), ce_parse_float = (\<lambda>_. None),
       ce_prom = (\<lambda>_. (no_answer, \<lparr>pr_status = [], pr_error = [], pr_result = []\<rparr>)),
       ce_kube = (\<lambda>_. (no_answer, \<lparr>kp_continue = [], kp_items = []\<rparr>)), ce_clock = (\<lambda>_. now), ce_show_time = (\<lambda>_. []),
       ce_show_date = (\<lambda>_. []), ce_greatest = hd, ce_ordered = (\<lambda>_ hs. hs)\<rparr>"

definition later :: time where "later = 2 * day"

text \<open>Two days later, with a retention of one day configured: one of the two samples is past it.\<close>

definition aged_tables :: "sample_row list \<Rightarrow> metric_db" where
  "aged_tables ss =
     \<lparr>mt_store = (fresh_store later)\<lparr>db_settings := [\<lparr>st_key = ''system'',
           st_value = JObj [(''raw_retention_days'', JNum 1)], st_updated_by = None, st_updated_at = 0\<rparr>]\<rparr>,
       mt_samples = ss, mt_llm = [], mt_usage = [], mt_rolled = 10 * hour\<rparr>"

definition llm_call :: "time \<Rightarrow> llm_row" where
  "llm_call moment = \<lparr>ll_metric = ''calls'', ll_window = truncate_to minute moment, ll_fingerprint = ''f'', ll_username = ''ana'',
     ll_pod = ''jupyter-ana'', ll_hub = ''lab'', ll_model = ''m'', ll_calls = 1, ll_success = 1, ll_errors = 0, ll_p50 = None,
     ll_p95 = None, ll_input = None, ll_output = None, ll_total = None, ll_bytes = None, ll_cost = None, ll_sampled_at = moment,
     ll_labels = []\<rparr>"

definition two_samples :: "json \<Rightarrow> metric_db" where
  \<comment> \<open>with a setting of the use of language models as well\<close>
  "two_samples v = (let t = aged_tables [ana_sample (10 * hour), ana_sample (36 * hour)]
     in t\<lparr>mt_store := (mt_store t)\<lparr>db_settings := db_settings (mt_store t) @ [\<lparr>st_key = ''llm_usage'', st_value = v,
            st_updated_by = None, st_updated_at = 0\<rparr>]\<rparr>,
          mt_llm := [llm_call (10 * hour), llm_call (36 * hour)]\<rparr>)"

definition pruned_samples :: "json \<Rightarrow> metric_db" where
  "pruned_samples v = snd (snd (prune (quiet_collector later) new_collector [] (two_samples v)))"

text \<open>Kept for one day and for two, each table loses one of its samples, or none; with a document that does not decode,
  neither loses any.\<close>

theorem prune_respects_retention_witness:
  "map sa_at (mt_samples (pruned_samples (JObj [(''retention_days'', JNum 1)]))) = [36 * hour]
   \<and> map ll_sampled_at (mt_llm (pruned_samples (JObj [(''retention_days'', JNum 1)]))) = [36 * hour]
   \<and> map sa_at (mt_samples (pruned_samples (JObj [(''retention_days'', JNum 2)]))) = [36 * hour]
   \<and> map ll_sampled_at (mt_llm (pruned_samples (JObj [(''retention_days'', JNum 2)]))) = [10 * hour, 36 * hour]
   \<and> pruned_samples (JStr ''two'') = two_samples (JStr ''two'')"
proof (intro conjI)
  show "pruned_samples (JStr ''two'') = two_samples (JStr ''two'')"
  proof -
    have "retention_unreadable (mt_store (two_samples (JStr ''two'')))" by code_simp
    then show ?thesis unfolding pruned_samples_def
      using prune_respects_retention [of "quiet_collector later" new_collector "[]" "two_samples (JStr ''two'')"
          "fst (prune (quiet_collector later) new_collector [] (two_samples (JStr ''two'')))"
          "fst (snd (prune (quiet_collector later) new_collector [] (two_samples (JStr ''two''))))"] by simp
  qed
qed code_simp+

text \<open>The mark of the rollup does not hold the pruning back, as the comment on its table says it does: when the rollup of a
  cycle fails, the same cycle prunes samples that were never rolled up, and their consumption is lost for good. Here the
  rollup fails once; without the failure the hour has a row.\<close>

definition one_sample :: metric_db where
  "one_sample = aged_tables [ana_sample (10 * hour)]"

definition roll_and_prune :: "faults \<Rightarrow> metric_db \<Rightarrow> metric_db" where
  "roll_and_prune faults t =
     snd (snd (prune (quiet_collector later) new_collector [] (snd (snd (roll_up_usage (quiet_collector later) faults t)))))"

theorem failed_rollup_loses_samples:
  "mt_usage (roll_and_prune [] (roll_and_prune [True] one_sample)) = []
   \<and> map ur_bucket (mt_usage (roll_and_prune [] one_sample)) = [10 * hour]"
proof
  show "mt_usage (roll_and_prune [] (roll_and_prune [True] one_sample)) = []" by code_simp
  show "map ur_bucket (mt_usage (roll_and_prune [] one_sample)) = [10 * hour]" by code_simp
qed

end
