(* ===== verification/Settings_Properties.thy ===== *)
theory Settings_Properties
  imports Settings Transitions
begin

text \<open>
  A stored credential stays with the target it was entered for: whatever sequence of settings forms is
  saved, as long as none of them enters the credential again, the integration it belongs to keeps its
  address, its TLS verification and, for OIDC, its client id.
\<close>

section \<open>Writing rows\<close>

lemma find_map_key:
  assumes "\<And>x. key (f x) = key x"
  shows "find (\<lambda>x. key x = k) (map f xs) = map_option f (find (\<lambda>x. key x = k) xs)"
  using assms by (induction xs) auto

lemma setting_of_upsert:
  "setting_of k (upsert_setting uid kv d) = (if k = fst kv then Some (snd kv) else setting_of k d)"
proof (cases "setting_of (fst kv) d = None")
  case True
  then show ?thesis
    by (cases kv) (auto simp: setting_of_def upsert_setting_def Let_def find_append split: option.splits)
next
  case False
  have "db_settings (upsert_setting uid kv d) = map (\<lambda>s. if st_key s = fst kv then
      s\<lparr>st_value := snd kv, st_updated_by := Some uid, st_updated_at := db_now d\<rparr> else s) (db_settings d)" (is "_ = map ?f _")
    using False by (auto simp: upsert_setting_def Let_def split: prod.splits)
  moreover have "find (\<lambda>s. st_key s = k) (map ?f (db_settings d)) = map_option ?f (find (\<lambda>s. st_key s = k) (db_settings d))"
    by (rule find_map_key) simp
  ultimately have f: "find (\<lambda>s. st_key s = k) (db_settings (upsert_setting uid kv d))
      = map_option ?f (find (\<lambda>s. st_key s = k) (db_settings d))" by simp
  show ?thesis
  proof (cases "find (\<lambda>s. st_key s = k) (db_settings d)")
    case None
    with f False show ?thesis by (auto simp: setting_of_def)
  next
    case (Some x)
    then have "st_key x = k" by (auto simp: find_Some_iff)
    with f Some show ?thesis by (simp add: setting_of_def)
  qed
qed

lemma secret_of_upsert:
  "secret_of k (upsert_secret uid kv d) = (if k = fst kv then Some (snd kv) else secret_of k d)"
proof (cases "secret_of (fst kv) d = None")
  case True
  then show ?thesis
    by (cases kv) (auto simp: secret_of_def upsert_secret_def Let_def find_append split: option.splits)
next
  case False
  have "db_secrets (upsert_secret uid kv d) = map (\<lambda>s. if sx_key s = fst kv then
      s\<lparr>sx_encrypted := snd kv, sx_version := sx_version s + 1, sx_updated_by := uid, sx_updated_at := db_now d\<rparr> else s) (db_secrets d)" (is "_ = map ?f _")
    using False by (auto simp: upsert_secret_def Let_def split: prod.splits)
  moreover have "find (\<lambda>s. sx_key s = k) (map ?f (db_secrets d)) = map_option ?f (find (\<lambda>s. sx_key s = k) (db_secrets d))"
    by (rule find_map_key) simp
  ultimately have f: "find (\<lambda>s. sx_key s = k) (db_secrets (upsert_secret uid kv d))
      = map_option ?f (find (\<lambda>s. sx_key s = k) (db_secrets d))" by simp
  show ?thesis
  proof (cases "find (\<lambda>s. sx_key s = k) (db_secrets d)")
    case None
    with f False show ?thesis by (auto simp: secret_of_def)
  next
    case (Some x)
    then have "sx_key x = k" by (auto simp: find_Some_iff)
    with f Some show ?thesis by (simp add: secret_of_def)
  qed
qed

lemma upsert_other [simp]:
  "secret_of k (upsert_setting uid kv d) = secret_of k d" "setting_of k (upsert_secret uid kv2 d) = setting_of k d"
  by (auto simp: secret_of_def upsert_setting_def setting_of_def upsert_secret_def Let_def split: prod.splits)

lemma fold_settings:
  assumes "distinct (map fst kvs)"
  shows "setting_of k (fold (upsert_setting uid) kvs d) =
    (case map_of kvs k of Some v \<Rightarrow> Some v | None \<Rightarrow> setting_of k d)"
  using assms
proof (induction kvs arbitrary: d)
  case (Cons kv kvs)
  then have "map_of kvs (fst kv) = None" by (simp add: map_of_eq_None_iff)
  with Cons show ?case
    by (cases kv, cases "k = fst kv") (simp_all add: setting_of_upsert split: option.split)
qed simp

lemma fold_settings_secret [simp]: "secret_of k (fold (upsert_setting uid) kvs d) = secret_of k d"
  by (induction kvs arbitrary: d) simp_all

lemma fold_secrets:
  "k \<notin> fst ` set kvs \<Longrightarrow> secret_of k (fold (upsert_secret uid) kvs d) = secret_of k d"
  by (induction kvs arbitrary: d) (auto simp: secret_of_upsert)

lemma fold_secrets_setting [simp]: "setting_of k (fold (upsert_secret uid) kvs d) = setting_of k d"
  by (induction kvs arbitrary: d) simp_all

section \<open>One form\<close>

lemma map_res_keys:
  assumes "map_res f xs = Inr ys" and "\<And>x y. f x = Inr y \<Longrightarrow> fst y = fst x"
  shows "map fst ys = map fst xs"
  using assms(1)
proof (induction xs arbitrary: ys)
  case (Cons x xs)
  from Cons.prems obtain y zs where "f x = Inr y" "map_res f xs = Inr zs" "ys = y # zs"
    by (simp add: res_bind_Inr_iff) blast
  with Cons.IH assms(2) [of x y] show ?case by simp
qed simp

lemma encode_setting_key: "encode_setting x = Inr y \<Longrightarrow> fst y = fst x"
  by (auto simp: encode_setting_def Let_def split: prod.splits if_splits option.splits)

lemma encrypt_secret_key: "encrypt_secret encrypt x = Inr y \<Longrightarrow> fst y = fst x"
  by (auto simp: encrypt_secret_def Let_def split: prod.splits if_splits option.splits)

lemma foreach_readonly:
  assumes ro: "\<And>x fs d u fs' d'. body x fs d = (Inr u, fs', d') \<Longrightarrow> d' = d"
    and run: "foreach body xs fs d = (Inr u, fs', d')"
  shows "d' = d \<and> (\<forall>x \<in> set xs. \<exists>f v f'. body x f d = (Inr v, f', d))"
  using run
proof (induction xs arbitrary: fs d)
  case (Cons x xs)
  from Cons.prems obtain v fs1 d1 where b: "body x fs d = (Inr v, fs1, d1)"
    and r: "foreach body xs fs1 d1 = (Inr u, fs', d')" by (auto simp: tx_bind_Inr)
  from ro [OF b] b Cons.IH [OF r] show ?case by auto
qed simp

lemma check_secret_binding_Inr:
  assumes "check_secret_binding updates submitted b fs d = (Inr u, fs', d')"
  shows "d' = d"
    and "map_of updates (sb_section b) = Some raw \<Longrightarrow> map_of submitted (sb_secret_key b) = None \<Longrightarrow>
      secret_of (sb_secret_key b) d = Some enc \<Longrightarrow>
      \<exists>m m'. raw = JObj m' \<and> setting_of (sb_section b) d = Some (JObj m) \<and> stored_binding_matches (sb_kind b) m' m"
proof -
  show "d' = d"
    using assms by (auto simp: check_secret_binding_def tx_bind_Inr query_Inr split: option.splits if_splits)
  assume a: "map_of updates (sb_section b) = Some raw" "map_of submitted (sb_secret_key b) = None"
    "secret_of (sb_secret_key b) d = Some enc"
  with assms obtain m' m where m: "object_members raw = Some m'" "stored_binding_matches (sb_kind b) m' m"
    "setting_of (sb_section b) d = Some (JObj m)"
    by (auto simp: check_secret_binding_def tx_bind_Inr query_Inr split: option.splits if_splits)
  moreover have "m' \<noteq> []" using m(2)
    by (auto simp: stored_binding_matches_def stored_target_def canonical_url_def string_or_empty_def
        trim_right_def Let_def)
  ultimately show "\<exists>m m'. raw = JObj m' \<and> setting_of (sb_section b) d = Some (JObj m)
      \<and> stored_binding_matches (sb_kind b) m' m"
    by (cases raw) auto
qed

lemma write_settings_Inr:
  assumes "write_settings updates submitted uid fs d = (Inr u, fs', d')"
  shows "d' = fold (upsert_secret uid) submitted (fold (upsert_setting uid) updates d)"
    and "b \<in> set settings_secret_bindings \<Longrightarrow> \<exists>f v f'. check_secret_binding updates submitted b f d = (Inr v, f', d)"
proof -
  from assms obtain fs1 fs2 fs3 v d1 d2
    where c: "validate_stored_secret_bindings updates submitted fs1 d = (Inr v, fs2, d1)"
    and s: "foreach (\<lambda>kv. exec DbError (upsert_setting uid kv)) updates fs2 d1 = (Inr (), fs3, d2)"
    and x: "foreach (\<lambda>kv. exec DbError (upsert_secret uid kv)) submitted fs3 d2 = (Inr (), fs', d')"
    by (auto simp: write_settings_def tx_bind_Inr exec_Inr advisory_lock_def)
  have r: "d1 = d \<and> (\<forall>b \<in> set settings_secret_bindings. \<exists>f v f'. check_secret_binding updates submitted b f d = (Inr v, f', d))"
    by (rule foreach_readonly [OF check_secret_binding_Inr(1) c [unfolded validate_stored_secret_bindings_def]])
  with foreach_exec_fold [OF s] foreach_exec_fold [OF x]
  show "d' = fold (upsert_secret uid) submitted (fold (upsert_setting uid) updates d)" by simp
  assume "b \<in> set settings_secret_bindings"
  with r show "\<exists>f v f'. check_secret_binding updates submitted b f d = (Inr v, f', d)" by blast
qed

lemma update_settings_cases:
  assumes "update_settings_and_secrets encrypt values secrets uid fs d = (r, fs', d')"
  shows "d' = d \<or> (\<exists>updates submitted f v f'. map_res encode_setting values = Inr updates
    \<and> map_res (encrypt_secret encrypt) secrets = Inr submitted
    \<and> write_settings updates submitted uid f d = (Inr v, f', d'))"
proof (cases r)
  case (Inl e)
  with assms have "d' = d"
    by (auto simp: update_settings_and_secrets_def dest: transaction_atomic split: sum.splits)
  then show ?thesis ..
next
  case (Inr v)
  with assms show ?thesis
    by (auto simp: update_settings_and_secrets_def transaction_Inr split: sum.splits)
qed

section \<open>Any sequence of forms\<close>

inductive quiet_step :: "(string \<Rightarrow> string \<Rightarrow> string option) \<Rightarrow> secret_binding \<Rightarrow> store_db \<Rightarrow> store_db \<Rightarrow> bool"
  for encrypt b where
  form: "update_settings_and_secrets encrypt values secrets uid fs d = (r, fs', d') \<Longrightarrow>
    distinct (map fst values) \<Longrightarrow> sb_secret_key b \<notin> fst ` set secrets \<Longrightarrow> quiet_step encrypt b d d'"
| elsewhere: "db_settings d' = db_settings d \<Longrightarrow> db_secrets d' = db_secrets d \<Longrightarrow> quiet_step encrypt b d d'"

inductive_cases quiet_stepE: "quiet_step encrypt b d d'"

definition secret_kept :: "secret_binding \<Rightarrow> string \<Rightarrow> json option \<Rightarrow> store_db \<Rightarrow> bool" where
  "secret_kept b enc doc d \<longleftrightarrow> b \<in> set settings_secret_bindings \<and> secret_of (sb_secret_key b) d = Some enc
     \<and> (setting_of (sb_section b) d = doc \<or>
        (\<exists>m m'. doc = Some (JObj m) \<and> setting_of (sb_section b) d = Some (JObj m')
           \<and> stored_binding_matches (sb_kind b) m' m))"

lemma stored_binding_matches_trans:
  "stored_binding_matches kind a b \<Longrightarrow> stored_binding_matches kind b c \<Longrightarrow> stored_binding_matches kind a c"
  by (auto simp: stored_binding_matches_def Let_def split: if_splits)

lemma secret_kept_form:
  assumes k: "secret_kept b enc doc d"
    and run: "update_settings_and_secrets encrypt values secrets uid fs d = (r, fs', d')"
    and dist: "distinct (map fst values)" and fresh: "sb_secret_key b \<notin> fst ` set secrets"
  shows "secret_kept b enc doc d'"
  using update_settings_cases [OF run]
proof (elim disjE exE conjE)
  assume "d' = d" with k show ?thesis by simp
next
  fix updates submitted f v f'
  assume u: "map_res encode_setting values = Inr updates"
    and s: "map_res (encrypt_secret encrypt) secrets = Inr submitted"
    and w: "write_settings updates submitted uid f d = (Inr v, f', d')"
  have dist': "distinct (map fst updates)"
    using map_res_keys [OF u encode_setting_key] dist by simp
  have fresh': "sb_secret_key b \<notin> fst ` set submitted"
    using arg_cong [where f = set, OF map_res_keys [OF s encrypt_secret_key]] fresh by simp
  have sec: "secret_of (sb_secret_key b) d' = Some enc"
    using k fresh' by (simp add: write_settings_Inr(1) [OF w] fold_secrets secret_kept_def)
  have doc: "setting_of (sb_section b) d' =
      (case map_of updates (sb_section b) of Some v \<Rightarrow> Some v | None \<Rightarrow> setting_of (sb_section b) d)"
    by (simp add: write_settings_Inr(1) [OF w] fold_settings [OF dist'])
  show ?thesis
  proof (cases "map_of updates (sb_section b)")
    case None
    with doc k sec show ?thesis by (simp add: secret_kept_def)
  next
    case (Some raw)
    from k have "b \<in> set settings_secret_bindings" by (simp add: secret_kept_def)
    from write_settings_Inr(2) [OF w this] obtain f1 v1 f2
      where c: "check_secret_binding updates submitted b f1 d = (Inr v1, f2, d)" by blast
    have "map_of submitted (sb_secret_key b) = None" using fresh' by (simp add: map_of_eq_None_iff)
    from check_secret_binding_Inr(2) [OF c Some this] k obtain m m' where "raw = JObj m'"
      "setting_of (sb_section b) d = Some (JObj m)" "stored_binding_matches (sb_kind b) m' m"
      by (auto simp: secret_kept_def)
    with Some doc sec k show ?thesis
      by (auto simp: secret_kept_def dest: stored_binding_matches_trans)
  qed
qed

lemma secret_kept_step: "secret_kept b enc doc d \<Longrightarrow> quiet_step encrypt b d d' \<Longrightarrow> secret_kept b enc doc d'"
proof (erule quiet_stepE)
  show "secret_kept b enc doc d'" if "secret_kept b enc doc d" "db_settings d' = db_settings d" "db_secrets d' = db_secrets d"
    using that by (simp add: secret_kept_def secret_of_def setting_of_def)
qed (rule secret_kept_form)

interpretation quiet: invariant_system "secret_kept b enc doc" "quiet_step encrypt b" "secret_kept b enc doc"
  for b enc doc encrypt
  by unfold_locales (auto intro: secret_kept_step)

text \<open>C12: A stored credential is only ever used with the target it was entered for: after any settings forms that
  do not enter it again, whatever their outcome, it is unchanged and its integration has the address, the
  TLS verification and, for OIDC, the client id it had before.\<close>

theorem stored_secret_keeps_target:
  assumes "b \<in> set settings_secret_bindings" and "secret_of (sb_secret_key b) d = Some enc"
    and "(quiet_step encrypt b)\<^sup>*\<^sup>* d d'"
  shows "secret_of (sb_secret_key b) d' = Some enc
    \<and> (setting_of (sb_section b) d' = setting_of (sb_section b) d \<or>
       (\<exists>m m'. setting_of (sb_section b) d = Some (JObj m) \<and> setting_of (sb_section b) d' = Some (JObj m')
         \<and> stored_target (sb_kind b) m' = stored_target (sb_kind b) m \<and> stored_target (sb_kind b) m \<noteq> []
         \<and> stored_verify_tls (sb_kind b) m' = stored_verify_tls (sb_kind b) m
         \<and> (sb_kind b = ''oidc'' \<longrightarrow> trim_space (string_or_empty (lookup m' ''client_id''))
              = trim_space (string_or_empty (lookup m ''client_id'')))))"
proof -
  have "secret_kept b enc (setting_of (sb_section b) d) d" using assms(1,2) by (simp add: secret_kept_def)
  with quiet.moves_inv [OF assms(3)] have "secret_kept b enc (setting_of (sb_section b) d) d'" by blast
  then show ?thesis by (auto simp: secret_kept_def stored_binding_matches_def Let_def split: if_splits)
qed

definition demo_settings :: store_db where
  "demo_settings = (fresh_store 100)
     \<lparr>db_settings := [\<lparr>st_key = ''prometheus'', st_value = JObj [(''base_url'', JStr ''https://p'')],
         st_updated_by = None, st_updated_at = 0\<rparr>],
      db_secrets := [\<lparr>sx_key = ''prometheus.token'', sx_encrypted = ''E'', sx_version = 1, sx_updated_by = 1,
         sx_updated_at = 0\<rparr>]\<rparr>"

definition demo_form :: "string \<Rightarrow> (store_error, unit) res \<times> faults \<times> store_db" where
  "demo_form url = update_settings_and_secrets (\<lambda>_ s. Some s)
     [(''prometheus'', JObj [(''base_url'', JStr url), (''enabled'', JBool True)])] [] 1 [] demo_settings"

theorem stored_secret_keeps_target_witness:
  "fst (demo_form ''https://p/'') = Inr () \<and> fst (demo_form ''https://evil'') = Inl ErrSettingsSecretReentry
   \<and> secret_of ''prometheus.token'' (snd (snd (demo_form ''https://p/''))) = Some ''E''"
proof -
  let ?b = "\<lparr>sb_kind = ''prometheus'', sb_section = ''prometheus'', sb_secret_key = ''prometheus.token''\<rparr>"
  have "demo_form ''https://p/'' = (fst (demo_form ''https://p/''), fst (snd (demo_form ''https://p/'')),
      snd (snd (demo_form ''https://p/'')))" by simp
  then have "quiet_step (\<lambda>_ s. Some s) ?b demo_settings (snd (snd (demo_form ''https://p/'')))"
    unfolding demo_form_def by (rule quiet_step.form) simp_all
  then have "(quiet_step (\<lambda>_ s. Some s) ?b)\<^sup>*\<^sup>* demo_settings (snd (snd (demo_form ''https://p/'')))" ..
  from stored_secret_keeps_target [OF _ _ this, of "''E''"]
  have "secret_of ''prometheus.token'' (snd (snd (demo_form ''https://p/''))) = Some ''E''"
    by (simp add: settings_secret_bindings_def demo_settings_def secret_of_def)
  moreover have "fst (demo_form ''https://p/'') = Inr ()" "fst (demo_form ''https://evil'') = Inl ErrSettingsSecretReentry"
    by code_simp+
  ultimately show ?thesis by simp
qed

end
