(* ===== verification/Integration_Api.thy ===== *)
theory Integration_Api
  imports Integration_Test Approvals Settings_Properties
begin

text \<open>The handler behind the connection test of the settings and hub forms (\<^verbatim>\<open>integrationTest\<close> and its helpers in
  \<^verbatim>\<open>internal/api/core_handlers.go\<close>): the stored settings fill what the request leaves out, and a stored credential
  is used in place of one that was not entered when the target is the stored one. The latencies in the audit entry are
  left out, as in \<open>Integration_Test\<close>.\<close>

section \<open>The request\<close>

definition decode_test_request :: "json option \<Rightarrow> test_request option" where
  "decode_test_request body =
     (case (case body of None \<Rightarrow> None | Some v \<Rightarrow> object_members v) of
        None \<Rightarrow> None
      | Some m \<Rightarrow>
          (case (string_field m ''type'', object_members (lookup m ''config''), string_field m ''secret'',
                 string_field m ''secret_key'') of
             (Some kind, Some config, Some secret, Some _) \<Rightarrow>
               Some \<lparr>tq_type = kind, tq_config = config, tq_secret = secret\<rparr>
           | _ \<Rightarrow> None))"

definition test_allowed :: "(string \<Rightarrow> rat) \<Rightarrow> principal \<Rightarrow> test_request \<Rightarrow> bool" where
  "test_allowed parse_float p req =
     (if tq_type req = ''jupyterhub'' then
        (let hid = id_from_any parse_float (lookup (tq_config req) ''hub_id'')
         in if hid \<le> 0 then allows p ''hubs:write'' else allows_target p ''hubs:write'' hid [])
      else allows p ''settings:write'')"

definition test_setting_key :: "string \<Rightarrow> string" where
  "test_setting_key kind =
     (case map_of [(''oidc'', ''auth.oidc''), (''prometheus'', ''prometheus''), (''kubernetes'', ''kubernetes''),
        (''ai'', ''ai''), (''webhook'', ''notifications''), (''llm_usage'', ''llm_usage'')] kind of
        None \<Rightarrow> [] | Some key \<Rightarrow> key)"

definition integration_secret_key :: "string \<Rightarrow> string" where
  "integration_secret_key kind =
     (case map_of [(''oidc'', ''oidc.client_secret''), (''prometheus'', ''prometheus.token''),
        (''kubernetes'', ''kubernetes.token''), (''ai'', ''ai.api_key''), (''webhook'', ''webhook.secret''),
        (''llm_usage'', ''prometheus.token'')] kind of
        None \<Rightarrow> [] | Some key \<Rightarrow> key)"

section \<open>Stored settings\<close>

definition put_missing :: "json_object \<Rightarrow> string \<Rightarrow> json \<Rightarrow> json_object" where
  "put_missing m key v = (if has_key m key then m else put_member m key v)"

definition fill_missing :: "json_object \<Rightarrow> json_object \<Rightarrow> json_object" where
  "fill_missing config saved = foldl (\<lambda>m (key, v). put_missing m key v) config saved"

definition stored_object :: "json_object \<Rightarrow> string \<Rightarrow> (http_error, json_object option) res" where
  \<comment> \<open>a stored document that is no object does not decode\<close>
  "stored_object settings key =
     (case map_of settings key of
        None \<Rightarrow> Inr None
      | Some raw \<Rightarrow>
          (case object_members raw of
             None \<Rightarrow> Inl (store_failure BadSettingDocument)
           | Some m \<Rightarrow> Inr (Some m)))"

text \<open>The stored settings of the kind: the request with what it leaves out, the document a credential is bound to, and
  the credential.\<close>

record saved_test =
  sd_request :: test_request
  sd_config :: json_object
  sd_secret :: string
  sd_configured :: bool

definition fill_prometheus :: "json_object \<Rightarrow> test_request \<Rightarrow> json_object \<Rightarrow> (http_error, test_request \<times> json_object) res" where
  "fill_prometheus settings req saved =
     (if tq_type req \<noteq> ''llm_usage'' then Inr (req, saved)
      else res_bind (stored_object settings ''prometheus'') (\<lambda>found.
        case found of
          None \<Rightarrow> Inr (req, saved)
        | Some m \<Rightarrow>
            Inr (req\<lparr>tq_config := put_missing (put_missing (tq_config req) ''base_url'' (lookup m ''base_url''))
                   ''verify_tls'' (lookup m ''verify_tls'')\<rparr>, m)))"

definition fill_saved :: "json_object \<Rightarrow> string \<Rightarrow> test_request \<Rightarrow> (http_error, test_request \<times> json_object) res" where
  "fill_saved settings key req =
     res_bind (stored_object settings key) (\<lambda>found.
       let saved = (case found of None \<Rightarrow> [] | Some m \<Rightarrow> m)
       in fill_prometheus settings (req\<lparr>tq_config := fill_missing (tq_config req) saved\<rparr>) saved)"

definition with_saved :: "(string \<Rightarrow> string \<Rightarrow> string option) \<Rightarrow> test_request \<Rightarrow> saved_test handler" where
  "with_saved decrypt req =
     (let key = test_setting_key (tq_type req)
      in if key = [] then
           tx_return \<lparr>sd_request = req, sd_config = [], sd_secret = [], sd_configured = False\<rparr>
         else
           tx_bind (store_call (get_settings_and_secret decrypt
             (key # (if tq_type req = ''llm_usage'' then [''prometheus''] else []))
             (integration_secret_key (tq_type req)))) (\<lambda>(settings, secret, configured).
           tx_bind (tx_lift (fill_saved settings key req)) (\<lambda>(filled, saved).
           tx_return \<lparr>sd_request = filled, sd_config = saved, sd_secret = secret, sd_configured = configured\<rparr>)))"

section \<open>Normalisation\<close>

definition with_alias :: "json_object \<Rightarrow> string \<Rightarrow> string list \<Rightarrow> json_object" where
  "with_alias m key aliases =
     (if has_key m key then m
      else case find (has_key m) aliases of
             None \<Rightarrow> m
           | Some name \<Rightarrow> put_member m key (lookup m name))"

definition delete_member :: "json_object \<Rightarrow> string \<Rightarrow> json_object" where
  "delete_member m key = filter (\<lambda>(k, _). k \<noteq> key) m"

definition entered :: "json_object \<Rightarrow> string \<Rightarrow> bool" where
  "entered config key =
     (let s = string_or_empty (lookup config key) in s \<noteq> [] \<and> \<not> is_masked s)"

definition entered_keys :: "string list" where
  "entered_keys = [''token'', ''api_key'', ''client_secret'', ''secret'']"

definition normalize_integration_request :: "test_request \<Rightarrow> test_request" where
  "normalize_integration_request req =
     (let config = with_alias (with_alias (tq_config req) ''base_url'' [''url'', ''api_url'']) ''verify_tls'' [''tls_verify'']
      in case find (entered config) entered_keys of
           None \<Rightarrow> req\<lparr>tq_config := config\<rparr>
         | Some key \<Rightarrow>
             req\<lparr>tq_config := delete_member config key, tq_secret := string_or_empty (lookup config key)\<rparr>)"

section \<open>The binding of a stored credential\<close>

definition canonical_integration_target :: "json \<Rightarrow> string" where
  "canonical_integration_target v =
     (case as_string v of None \<Rightarrow> [] | Some s \<Rightarrow> trim_right slash (trim_space s))"

definition target_key :: "string \<Rightarrow> string" where
  "target_key kind = (if kind = ''oidc'' then ''issuer_url'' else ''base_url'')"

definition integration_verify_tls :: "json_object \<Rightarrow> bool" where
  "integration_verify_tls config = (case as_bool (lookup config ''verify_tls'') of Some v \<Rightarrow> v | None \<Rightarrow> True)"

definition integration_binding_matches :: "string \<Rightarrow> json_object \<Rightarrow> json_object \<Rightarrow> bool" where
  "integration_binding_matches kind candidate saved =
     (if candidate = [] \<or> saved = [] then False
      else
        let candidate_target = canonical_integration_target (lookup candidate (target_key kind));
            saved_target = canonical_integration_target (lookup saved (target_key kind));
            candidate_client = trim_space (string_or_empty (lookup candidate ''client_id''));
            saved_client = trim_space (string_or_empty (lookup saved ''client_id''))
        in if candidate_target = [] \<or> saved_target = [] \<or> candidate_target \<noteq> saved_target then False
           else if kind = ''oidc'' \<and> (candidate_client = [] \<or> candidate_client \<noteq> saved_client) then False
           else integration_verify_tls candidate = integration_verify_tls saved)"

section \<open>The handler\<close>

definition with_hub_token ::
  "(string \<Rightarrow> string) \<Rightarrow> (string \<Rightarrow> string \<Rightarrow> string option) \<Rightarrow> (string \<Rightarrow> rat) \<Rightarrow> test_request \<Rightarrow> test_request handler" where
  "with_hub_token digest decrypt parse_float req =
     (let hid = id_from_any parse_float (lookup (tq_config req) ''hub_id'')
      in if hid \<le> 0 then api_error 400 ''hub_token_required''
         else
           tx_bind (store_call (get_hub_credential digest decrypt hid)) (\<lambda>(hub, token).
           if \<not> integration_binding_matches (tq_type req) (tq_config req)
               [(''base_url'', JStr (hu_base_url hub)), (''verify_tls'', JBool (hu_verify_tls hub))]
           then api_error 400 ''hub_token_reentry_required''
           else if token = [] then api_error 400 ''hub_token_required''
           else tx_return (req\<lparr>tq_secret := token\<rparr>)))"

definition with_stored_secret :: "saved_test \<Rightarrow> test_request \<Rightarrow> test_request handler" where
  "with_stored_secret saved req =
     (if integration_secret_key (tq_type req) \<noteq> [] \<and> sd_configured saved
      then if \<not> integration_binding_matches (tq_type req) (tq_config req) (sd_config saved)
           then api_error 400 ''secret_reentry_required''
           else tx_return (req\<lparr>tq_secret := sd_secret saved\<rparr>)
      else tx_return req)"

definition choose_secret ::
  "(string \<Rightarrow> string) \<Rightarrow> (string \<Rightarrow> string \<Rightarrow> string option) \<Rightarrow> (string \<Rightarrow> rat) \<Rightarrow> saved_test \<Rightarrow> test_request
    \<Rightarrow> test_request handler" where
  "choose_secret digest decrypt parse_float saved req =
     (if tq_secret req \<noteq> [] then tx_return req
      else if tq_type req = ''jupyterhub'' then with_hub_token digest decrypt parse_float req
      else with_stored_secret saved req)"

definition prepare_test ::
  "(string \<Rightarrow> string) \<Rightarrow> (string \<Rightarrow> string \<Rightarrow> string option) \<Rightarrow> (string \<Rightarrow> rat) \<Rightarrow> test_request \<Rightarrow> test_request handler" where
  "prepare_test digest decrypt parse_float req =
     tx_bind (with_saved decrypt req) (\<lambda>saved.
     choose_secret digest decrypt parse_float saved (normalize_integration_request (sd_request saved)))"

definition integration_test ::
  "tester_env \<Rightarrow> (string \<Rightarrow> string) \<Rightarrow> (string \<Rightarrow> string \<Rightarrow> string option) \<Rightarrow> (string \<Rightarrow> rat) \<Rightarrow> json option \<Rightarrow> request
    \<Rightarrow> (test_result \<times> sent_request list) handler" where
  "integration_test env digest decrypt parse_float body r =
     (case decode_test_request body of
        None \<Rightarrow> api_error 400 ''invalid_json''
      | Some req \<Rightarrow>
          if \<not> test_allowed parse_float (rq_principal r) req then api_error 403 ''forbidden''
          else
            tx_bind (prepare_test digest decrypt parse_float req) (\<lambda>final.
            let (result, sent) = test_connection env final
            in tx_bind (audit (request_audit r ''integration.test'' (tq_type req) []
                 (if tr_success result then ''success'' else ''failure'') (tr_error result) None
                 (Some (JObj [(''success'', JBool (tr_success result)), (''version'', JStr (tr_version result))])))) (\<lambda>_.
               tx_return (result, sent))))"

section \<open>Documents\<close>

lemma has_key_put_member: "has_key (put_member m k v) k' \<longleftrightarrow> k = k' \<or> has_key m k'"
proof -
  have "map_of (filter (\<lambda>(k, _). k \<noteq> key) m) k' = (if k' = key then None else map_of m k')" for key
    by (induction m) auto
  then show ?thesis by (auto simp: has_key_def put_member_def)
qed

lemma has_key_Cons: "has_key ((k, v) # m) k' \<longleftrightarrow> k = k' \<or> has_key m k'"
  by (auto simp: has_key_def)

lemma lookup_put_missing: "lookup (put_missing m k v) k' = (if k = k' \<and> \<not> has_key m k then v else lookup m k')"
  by (simp add: put_missing_def lookup_put_member)

lemma has_key_put_missing: "has_key (put_missing m k v) k' \<longleftrightarrow> k = k' \<or> has_key m k'"
  by (auto simp: put_missing_def has_key_put_member)

lemma lookup_fill_missing: "lookup (fill_missing m saved) k = (if has_key m k then lookup m k else lookup saved k)"
proof (induction saved arbitrary: m)
  case Nil
  then show ?case by (auto simp: fill_missing_def lookup_def has_key_def split: option.split)
next
  case (Cons kv saved)
  obtain k' v where kv: "kv = (k', v)" by fastforce
  have "fill_missing m (kv # saved) = fill_missing (put_missing m k' v) saved" by (simp add: fill_missing_def kv)
  then show ?case by (auto simp: Cons.IH kv lookup_put_missing has_key_put_missing lookup_Cons)
qed

lemma lookup_with_alias: "k \<noteq> key \<Longrightarrow> lookup (with_alias m key aliases) k = lookup m k"
  by (auto simp: with_alias_def lookup_put_member split: option.split)

text \<open>Nothing is entered when no member and no field holds a credential.\<close>

definition nothing_entered :: "test_request \<Rightarrow> bool" where
  "nothing_entered req \<longleftrightarrow> tq_secret req = [] \<and> list_all (\<lambda>k. \<not> entered (tq_config req) k) entered_keys"

lemma normalize_nothing_entered:
  assumes "nothing_entered req"
  shows "normalize_integration_request req = req\<lparr>tq_config :=
     with_alias (with_alias (tq_config req) ''base_url'' [''url'', ''api_url'']) ''verify_tls'' [''tls_verify'']\<rparr>"
proof -
  let ?c = "with_alias (with_alias (tq_config req) ''base_url'' [''url'', ''api_url'']) ''verify_tls'' [''tls_verify'']"
  have "lookup ?c k = lookup (tq_config req) k" if "k \<in> set entered_keys" for k
    using that by (auto simp: entered_keys_def lookup_with_alias)
  then have "find (entered ?c) entered_keys = None"
    using assms by (auto simp: find_None_iff nothing_entered_def entered_def list_all_iff)
  then show ?thesis by (simp add: normalize_integration_request_def Let_def)
qed

definition documents_plain :: "store_db \<Rightarrow> bool" where
  \<comment> \<open>no stored document has a member that would count as an entered credential\<close>
  "documents_plain d \<longleftrightarrow>
     list_all (\<lambda>s. case object_members (st_value s) of None \<Rightarrow> True | Some m \<Rightarrow> list_all (\<lambda>k. \<not> has_key m k) entered_keys)
       (db_settings d)"

lemma not_entered: "\<not> has_key m k \<Longrightarrow> \<not> entered m k"
  by (simp add: entered_def has_key_def lookup_def string_or_empty_def)

lemma fill_nothing_entered:
  assumes "nothing_entered req" and "list_all (\<lambda>k. \<not> has_key saved k) entered_keys"
  shows "nothing_entered (req\<lparr>tq_config := fill_missing (tq_config req) saved\<rparr>)"
  using assms not_entered by (auto simp: nothing_entered_def list_all_iff entered_def lookup_fill_missing)

lemma same_entered:
  assumes "nothing_entered req" and "\<And>k. k \<in> set entered_keys \<Longrightarrow> lookup config k = lookup (tq_config req) k"
  shows "nothing_entered (req\<lparr>tq_config := config\<rparr>)"
  using assms by (simp add: nothing_entered_def list_all_iff entered_def)

lemma prometheus_nothing_entered:
  assumes "fill_prometheus settings req saved = Inr (filled, bound)" and "nothing_entered req"
  shows "nothing_entered filled"
proof (cases "filled = req")
  case False
  with assms(1) obtain m where filled: "filled = req\<lparr>tq_config :=
      put_missing (put_missing (tq_config req) ''base_url'' (lookup m ''base_url'')) ''verify_tls'' (lookup m ''verify_tls'')\<rparr>"
    by (auto simp: fill_prometheus_def res_bind_Inr_iff split: if_splits option.splits)
  have "''base_url'' \<notin> set entered_keys" "''verify_tls'' \<notin> set entered_keys" by code_simp+
  with assms(2) show ?thesis unfolding filled by (intro same_entered) (auto simp: lookup_put_missing)
qed (use assms in simp)

text \<open>The document a stored credential of the kind is bound to.\<close>

definition bound_document :: "string \<Rightarrow> store_db \<Rightarrow> json_object option" where
  "bound_document kind d =
     (let doc = (\<lambda>key. case setting_of key d of None \<Rightarrow> None | Some raw \<Rightarrow> object_members raw)
      in if kind = ''llm_usage'' \<and> setting_of ''prometheus'' d \<noteq> None then doc ''prometheus''
         else doc (test_setting_key kind))"

lemma map_of_settings:
  "key \<in> set keys \<Longrightarrow> map_of (fst (settings_and_encrypted keys sk d)) key = setting_of key d"
proof -
  assume "key \<in> set keys"
  then have "map_of (map (\<lambda>s. (st_key s, st_value s)) (filter (\<lambda>s. st_key s \<in> set keys) rows)) key
      = map_option st_value (find (\<lambda>s. st_key s = key) rows)" for rows
    by (induction rows) auto
  then show ?thesis by (simp add: settings_and_encrypted_def setting_of_def)
qed

definition stored_secret :: "(string \<Rightarrow> string \<Rightarrow> string option) \<Rightarrow> string \<Rightarrow> store_db \<Rightarrow> string option" where
  "stored_secret decrypt sk d = decrypt (secret_context sk) (token_bytes (secret_of sk d))"

lemma get_settings_and_secret_Inr:
  assumes "get_settings_and_secret decrypt keys sk fs d = (Inr (settings, secret, configured), fs', d')"
    and "key \<in> set keys"
  shows "d' = d \<and> map_of settings key = setting_of key d \<and> (configured \<longrightarrow> stored_secret decrypt sk d = Some secret)"
  using assms map_of_settings [OF assms(2), of sk d]
  by (auto simp: get_settings_and_secret_def open_secret_def tx_Inr stored_secret_def settings_and_encrypted_def
      split: if_splits option.splits)

lemma stored_object_Inr:
  "stored_object settings key = Inr None \<longleftrightarrow> map_of settings key = None"
  "stored_object settings key = Inr (Some m) \<longleftrightarrow>
     (\<exists>raw. map_of settings key = Some raw \<and> object_members raw = Some m)"
  by (auto simp: stored_object_def split: option.splits)

lemma find_in_set: "find P xs = Some x \<Longrightarrow> x \<in> set xs"
  by (auto simp: find_Some_iff)

lemma plain_document:
  assumes "documents_plain d" and "setting_of key d = Some raw" and "object_members raw = Some m"
  shows "list_all (\<lambda>k. \<not> has_key m k) entered_keys"
  using assms by (auto simp: documents_plain_def setting_of_def list_all_iff split: option.splits dest!: find_in_set bspec)

lemma fill_prometheus_bound:
  assumes "fill_prometheus settings req saved = Inr (filled, bound)"
  shows "tq_type filled = tq_type req \<and> tq_secret filled = tq_secret req"
    and "tq_type req = ''llm_usage'' \<Longrightarrow> map_of settings ''prometheus'' = Some raw \<Longrightarrow> object_members raw = Some bound"
    and "tq_type req \<noteq> ''llm_usage'' \<or> map_of settings ''prometheus'' = None \<Longrightarrow> bound = saved"
proof -
  have "(tq_type req \<noteq> ''llm_usage'' \<or> map_of settings ''prometheus'' = None) \<and> filled = req \<and> bound = saved
    \<or> tq_type req = ''llm_usage'' \<and> tq_type filled = tq_type req \<and> tq_secret filled = tq_secret req
      \<and> (\<exists>raw. map_of settings ''prometheus'' = Some raw \<and> object_members raw = Some bound)"
  proof (cases "tq_type req = ''llm_usage''")
    case True
    with assms obtain found where f: "stored_object settings ''prometheus'' = Inr found"
      and out: "(case found of None \<Rightarrow> Inr (req, saved)
        | Some m \<Rightarrow> Inr (req\<lparr>tq_config := put_missing (put_missing (tq_config req) ''base_url'' (lookup m ''base_url''))
            ''verify_tls'' (lookup m ''verify_tls'')\<rparr>, m)) = (Inr (filled, bound) :: (http_error, _) res)"
      by (auto simp: fill_prometheus_def res_bind_Inr_iff)
    show ?thesis
    proof (cases found)
      case None
      with f out show ?thesis by (simp add: stored_object_Inr)
    next
      case (Some m)
      with f out True show ?thesis by (auto simp: stored_object_Inr)
    qed
  qed (use assms in \<open>simp add: fill_prometheus_def\<close>)
  then show "tq_type filled = tq_type req \<and> tq_secret filled = tq_secret req"
    "tq_type req = ''llm_usage'' \<Longrightarrow> map_of settings ''prometheus'' = Some raw \<Longrightarrow> object_members raw = Some bound"
    "tq_type req \<noteq> ''llm_usage'' \<or> map_of settings ''prometheus'' = None \<Longrightarrow> bound = saved"
    by auto
qed

lemma fill_saved_Inr:
  assumes "fill_saved settings key req = Inr (filled, bound)" and "nothing_entered req"
    and "\<forall>raw m. map_of settings key = Some raw \<and> object_members raw = Some m \<longrightarrow> list_all (\<lambda>k. \<not> has_key m k) entered_keys"
  shows "tq_type filled = tq_type req" and "nothing_entered filled"
    and "bound = [] \<or> (\<exists>raw. (if tq_type req = ''llm_usage'' \<and> map_of settings ''prometheus'' \<noteq> None
          then map_of settings ''prometheus'' else map_of settings key) = Some raw \<and> object_members raw = Some bound)"
proof -
  from assms(1) obtain found where found: "stored_object settings key = Inr found"
    and rest: "fill_prometheus settings (req\<lparr>tq_config := fill_missing (tq_config req)
        (case found of None \<Rightarrow> [] | Some m \<Rightarrow> m)\<rparr>) (case found of None \<Rightarrow> [] | Some m \<Rightarrow> m) = Inr (filled, bound)"
    by (auto simp: fill_saved_def res_bind_Inr_iff Let_def)
  have "list_all (\<lambda>k. \<not> has_key (case found of None \<Rightarrow> [] | Some m \<Rightarrow> m) k) entered_keys"
    using found assms(3) by (cases found) (auto simp: stored_object_Inr has_key_def list_all_iff)
  from prometheus_nothing_entered [OF rest fill_nothing_entered [OF assms(2) this]] show "nothing_entered filled" .
  from fill_prometheus_bound(1) [OF rest] show "tq_type filled = tq_type req" by simp
  show "bound = [] \<or> (\<exists>raw. (if tq_type req = ''llm_usage'' \<and> map_of settings ''prometheus'' \<noteq> None
          then map_of settings ''prometheus'' else map_of settings key) = Some raw \<and> object_members raw = Some bound)"
    using fill_prometheus_bound(2,3) [OF rest] found
    by (cases found) (auto simp: stored_object_Inr)
qed

lemma with_saved_Inr:
  assumes "with_saved decrypt req fs d = (Inr saved, fs', d')" and "documents_plain d" and "nothing_entered req"
  shows "d' = d" and "tq_type (sd_request saved) = tq_type req" and "nothing_entered (sd_request saved)"
    and "tq_type req = ''jupyterhub'' \<Longrightarrow> sd_request saved = req"
    and "sd_configured saved \<Longrightarrow> sd_config saved \<noteq> [] \<Longrightarrow> bound_document (tq_type req) d = Some (sd_config saved)"
    and "sd_configured saved \<Longrightarrow> stored_secret decrypt (integration_secret_key (tq_type req)) d = Some (sd_secret saved)"
proof -
  let ?key = "test_setting_key (tq_type req)"
  have goal: "d' = d \<and> tq_type (sd_request saved) = tq_type req \<and> nothing_entered (sd_request saved)
    \<and> (tq_type req = ''jupyterhub'' \<longrightarrow> sd_request saved = req)
    \<and> (sd_configured saved \<longrightarrow> (sd_config saved = [] \<or> bound_document (tq_type req) d = Some (sd_config saved))
        \<and> stored_secret decrypt (integration_secret_key (tq_type req)) d = Some (sd_secret saved))"
  proof (cases "?key = []")
    case True
    with assms show ?thesis by (auto simp: with_saved_def)
  next
    case False
    let ?keys = "?key # (if tq_type req = ''llm_usage'' then [''prometheus''] else [])"
    from assms(1) False obtain settings filled bound where
      got: "get_settings_and_secret decrypt ?keys (integration_secret_key (tq_type req)) fs d
              = (Inr (settings, sd_secret saved, sd_configured saved), fs', d')"
      and fill: "fill_saved settings ?key req = Inr (filled, bound)"
      and saved: "sd_request saved = filled" "sd_config saved = bound"
      by (auto simp: with_saved_def Let_def tx_bind_Inr simp del: tx_lift_bind)
    note row = get_settings_and_secret_Inr [OF got]
    have key: "map_of settings ?key = setting_of ?key d" using row [of ?key] by simp
    have prom: "map_of settings ''prometheus'' = setting_of ''prometheus'' d" if "tq_type req = ''llm_usage''"
      using row [of "''prometheus''"] that by simp
    have "\<forall>raw m. map_of settings ?key = Some raw \<and> object_members raw = Some m \<longrightarrow> list_all (\<lambda>k. \<not> has_key m k) entered_keys"
      unfolding key using plain_document [OF assms(2)] by blast
    note filled = fill_saved_Inr [OF fill assms(3) this]
    have "bound = [] \<or> bound_document (tq_type req) d = Some bound"
      using filled(3) key prom by (auto simp: bound_document_def Let_def split: if_splits)
    moreover have "tq_type req \<noteq> ''jupyterhub''" using False by (auto simp: test_setting_key_def)
    ultimately show ?thesis using row [of ?key] filled(1,2) saved by simp
  qed
  then show "d' = d" "tq_type (sd_request saved) = tq_type req" "nothing_entered (sd_request saved)"
    "tq_type req = ''jupyterhub'' \<Longrightarrow> sd_request saved = req"
    "sd_configured saved \<Longrightarrow> sd_config saved \<noteq> [] \<Longrightarrow> bound_document (tq_type req) d = Some (sd_config saved)"
    "sd_configured saved \<Longrightarrow> stored_secret decrypt (integration_secret_key (tq_type req)) d = Some (sd_secret saved)"
    by blast+
qed

section \<open>A stored credential leaves for its own target only\<close>

definition hub_document :: "hub_row \<Rightarrow> json_object" where
  "hub_document h = [(''base_url'', JStr (hb_base_url h)), (''verify_tls'', JBool (hb_verify_tls h))]"

text \<open>The credential the database holds for the request, with the document it is bound to.\<close>

definition held_for ::
  "(string \<Rightarrow> string \<Rightarrow> string option) \<Rightarrow> (string \<Rightarrow> rat) \<Rightarrow> store_db \<Rightarrow> test_request \<Rightarrow> string \<Rightarrow> json_object \<Rightarrow> bool" where
  "held_for decrypt parse_float d req secret doc \<longleftrightarrow>
     (if tq_type req = ''jupyterhub'' then
        (let hid = id_from_any parse_float (lookup (tq_config req) ''hub_id'')
         in case find_hub hid d of
              None \<Rightarrow> False
            | Some h \<Rightarrow> doc = hub_document h
                \<and> decrypt (token_context hid) (token_bytes (hb_token h)) = Some secret)
      else bound_document (tq_type req) d = Some doc
        \<and> stored_secret decrypt (integration_secret_key (tq_type req)) d = Some secret)"

lemma with_hub_token_Inr:
  assumes "with_hub_token digest decrypt parse_float req fs d = (Inr final, fs', d')" and "tq_type req = ''jupyterhub''"
  shows "d' = d" and "\<exists>doc secret. final = req\<lparr>tq_secret := secret\<rparr> \<and> held_for decrypt parse_float d req secret doc
    \<and> integration_binding_matches (tq_type req) (tq_config req) doc"
proof -
  from assms obtain hub token where
    cred: "get_hub_credential digest decrypt (id_from_any parse_float (lookup (tq_config req) ''hub_id'')) fs d
      = (Inr (hub, token), fs', d')" and "token \<noteq> []" and final: "final = req\<lparr>tq_secret := token\<rparr>"
    and match: "integration_binding_matches (tq_type req) (tq_config req)
      [(''base_url'', JStr (hu_base_url hub)), (''verify_tls'', JBool (hu_verify_tls hub))]"
    by (auto simp: with_hub_token_def Let_def tx_bind_Inr split: if_splits)
  then obtain h where "find_hub (id_from_any parse_float (lookup (tq_config req) ''hub_id'')) d = Some h" "d' = d"
    "hu_base_url hub = hb_base_url h" "hu_verify_tls hub = hb_verify_tls h"
    "decrypt (token_context (id_from_any parse_float (lookup (tq_config req) ''hub_id''))) (token_bytes (hb_token h)) = Some token"
    by (auto simp: get_hub_credential_def tx_Inr Let_def scan_hub_def split: if_splits option.splits)
  with match final assms(2) show "d' = d" and "\<exists>doc secret. final = req\<lparr>tq_secret := secret\<rparr>
    \<and> held_for decrypt parse_float d req secret doc \<and> integration_binding_matches (tq_type req) (tq_config req) doc"
    by (auto simp: held_for_def Let_def hub_document_def)
qed

lemma with_stored_secret_Inr:
  assumes "with_stored_secret saved req fs d = (Inr final, fs', d')"
  shows "d' = d" and "final = req \<or> (sd_configured saved \<and> final = req\<lparr>tq_secret := sd_secret saved\<rparr>
    \<and> integration_binding_matches (tq_type req) (tq_config req) (sd_config saved))"
  using assms by (auto simp: with_stored_secret_def split: if_splits)

lemma prepare_test_Inr:
  assumes "prepare_test digest decrypt parse_float req fs d = (Inr final, fs', d')"
    and "documents_plain d" and "nothing_entered req" and "tq_secret final \<noteq> []"
  shows "tq_type final = tq_type req" and "\<exists>doc. held_for decrypt parse_float d req (tq_secret final) doc
    \<and> integration_binding_matches (tq_type req) (tq_config final) doc"
proof -
  from assms(1) obtain saved fs1 d1 where w: "with_saved decrypt req fs d = (Inr saved, fs1, d1)"
    and c: "choose_secret digest decrypt parse_float saved (normalize_integration_request (sd_request saved)) fs1 d1
      = (Inr final, fs', d')" by (auto simp: prepare_test_def tx_bind_Inr)
  note saved = with_saved_Inr [OF w assms(2,3)]
  define n where "n = normalize_integration_request (sd_request saved)"
  have n: "tq_secret n = []" "tq_type n = tq_type req"
    using normalize_nothing_entered [OF saved(3)] saved(2,3) by (simp_all add: n_def nothing_entered_def)
  have hid: "lookup (tq_config n) ''hub_id'' = lookup (tq_config (sd_request saved)) ''hub_id''"
    using normalize_nothing_entered [OF saved(3)] by (simp add: n_def lookup_with_alias)
  have "tq_type final = tq_type req \<and> (\<exists>doc. held_for decrypt parse_float d req (tq_secret final) doc
    \<and> integration_binding_matches (tq_type req) (tq_config final) doc)"
  proof (cases "tq_type req = ''jupyterhub''")
    case True
    with c n have "with_hub_token digest decrypt parse_float n fs1 d1 = (Inr final, fs', d')"
      by (simp add: choose_secret_def flip: n_def)
    from with_hub_token_Inr(2) [OF this] True n(2) obtain doc secret where "final = n\<lparr>tq_secret := secret\<rparr>"
      "held_for decrypt parse_float d1 n secret doc" "integration_binding_matches (tq_type n) (tq_config n) doc" by auto
    with n hid saved(1) saved(4) [OF True] True show ?thesis by (auto simp: held_for_def Let_def)
  next
    case False
    with c n have w: "with_stored_secret saved n fs1 d1 = (Inr final, fs', d')"
      by (simp add: choose_secret_def flip: n_def)
    from with_stored_secret_Inr(2) [OF w] n assms(4) have f: "sd_configured saved" "final = n\<lparr>tq_secret := sd_secret saved\<rparr>"
      "integration_binding_matches (tq_type n) (tq_config n) (sd_config saved)" by auto
    from f(3) have "sd_config saved \<noteq> []" by (auto simp: integration_binding_matches_def)
    with f n saved(5,6) False show ?thesis by (auto simp: held_for_def)
  qed
  then show "tq_type final = tq_type req" and "\<exists>doc. held_for decrypt parse_float d req (tq_secret final) doc
    \<and> integration_binding_matches (tq_type req) (tq_config final) doc" by auto
qed

lemma binding_target:
  assumes "integration_binding_matches kind candidate saved" and "kind \<noteq> ''oidc''"
  shows "canonical_integration_target (JStr (string_or_empty (lookup candidate ''base_url'')))
      = canonical_integration_target (lookup saved ''base_url'')"
    and "verify_tls_of candidate = integration_verify_tls saved"
  using assms by (auto simp: integration_binding_matches_def Let_def target_key_def canonical_integration_target_def
      string_or_empty_def verify_tls_of_def integration_verify_tls_def split: if_splits option.splits)

text \<open>C27: When nobody enters a credential, the only one a connection test sends is the one the database holds for the kind
  (or for the hub, which the caller must be allowed to change), to the address it is stored with, up to blanks and
  final slashes, under the TLS verification it is stored with.\<close>

theorem tested_credential_keeps_target:
  assumes "integration_test env digest decrypt parse_float body r fs d = (Inr (result, sent), fs', d')"
    and "decode_test_request body = Some req" and "nothing_entered req" and "documents_plain d"
    and "q \<in> set sent" and "sq_secret q \<noteq> []"
  shows "test_allowed parse_float (rq_principal r) req
    \<and> (\<exists>doc target. held_for decrypt parse_float d req (sq_secret q) doc
      \<and> validate_endpoint (te_parse_url env) (te_parse_ip env) target = Inr (ep_base (sq_endpoint q))
      \<and> canonical_integration_target (JStr target) = canonical_integration_target (lookup doc ''base_url'')
      \<and> sq_verify q = integration_verify_tls doc)"
proof -
  from assms(1,2) obtain final fs1 d1 where allowed: "test_allowed parse_float (rq_principal r) req"
    and prep: "prepare_test digest decrypt parse_float req fs d = (Inr final, fs1, d1)"
    and rest: "(case test_connection env final of (result, sent) \<Rightarrow>
        tx_bind (audit (request_audit r ''integration.test'' (tq_type req) []
          (if tr_success result then ''success'' else ''failure'') (tr_error result) None
          (Some (JObj [(''success'', JBool (tr_success result)), (''version'', JStr (tr_version result))]))))
          (\<lambda>_. tx_return (result, sent))) fs1 d1 = (Inr (result, sent), fs', d')"
    by (auto simp: integration_test_def tx_bind_Inr Let_def split: if_split_asm)
  from rest have run: "test_connection env final = (result, sent)"
    by (cases "test_connection env final") (simp add: tx_bind_Inr)
  from sent_by_test [OF run assms(5)] have q:
    "validate_endpoint (te_parse_url env) (te_parse_ip env) (base_url_of final) = Inr (ep_base (sq_endpoint q))"
    "sq_secret q = (if tq_type final = ''oidc'' then [] else tq_secret final)"
    "sq_verify q = verify_tls_of (tq_config final)" by auto
  with assms(6) have f: "tq_secret final \<noteq> []" "tq_type final \<noteq> ''oidc''" "sq_secret q = tq_secret final"
    by (auto split: if_split_asm)
  from prepare_test_Inr [OF prep assms(4,3) f(1)] f q allowed show ?thesis
    by (auto simp: base_url_of_def dest: binding_target)
qed

definition demo_body :: "string \<Rightarrow> json" where
  "demo_body url = JObj [(''type'', JStr ''prometheus''), (''config'', JObj [(''base_url'', JStr url)])]"

definition demo_tested :: "string \<Rightarrow> (http_error, test_result \<times> sent_request list) res \<times> faults \<times> store_db" where
  "demo_tested url = integration_test demo_env (\<lambda>s. s) (\<lambda>_ s. Some s) (\<lambda>_. 0) (Some (demo_body url))
     (demo_request ''POST'' (\<lambda>_. []) (demo_principal [''settings:write''])) [] demo_settings"

theorem tested_credential_keeps_target_witness:
  "(\<exists>req doc. held_for (\<lambda>_ s. Some s) (\<lambda>_. 0) demo_settings req ''E'' doc)
   \<and> fst (demo_tested ''https://evil'') = Inl (400, ''secret_reentry_required'')"
proof -
  have "case demo_tested ''https://p/'' of (Inr (result, sent), fs, d) \<Rightarrow> map sq_secret sent = [''E''] | _ \<Rightarrow> False"
    by code_simp
  then obtain result sent fs d where r: "demo_tested ''https://p/'' = (Inr (result, sent), fs, d)"
    and s: "map sq_secret sent = [''E'']"
    by (cases "demo_tested ''https://p/''") (auto split: sum.splits)
  from s obtain q where q: "q \<in> set sent" "sq_secret q = ''E''" by fastforce
  let ?req = "\<lparr>tq_type = ''prometheus'', tq_config = [(''base_url'', JStr ''https://p/'')], tq_secret = []\<rparr>"
  have "decode_test_request (Some (demo_body ''https://p/'')) = Some ?req" "nothing_entered ?req" "documents_plain demo_settings"
    by code_simp+
  from tested_credential_keeps_target [OF r [unfolded demo_tested_def] this q(1)] q(2)
  have "\<exists>req doc. held_for (\<lambda>_ s. Some s) (\<lambda>_. 0) demo_settings req ''E'' doc" by auto
  moreover have "fst (demo_tested ''https://evil'') = Inl (400, ''secret_reentry_required'')" by code_simp
  ultimately show ?thesis by blast
qed

end
