(* ===== verification/Rate_Limits.thy ===== *)
theory Rate_Limits
  imports Models Transitions "HOL-Library.AList"
begin

text \<open>
  The two in-memory limiters of the HTTP layer: failed logins (\<^verbatim>\<open>internal/api/login_limiter.go\<close>) and
  the starts of OIDC logins (\<^verbatim>\<open>internal/api/request_limiter.go\<close>). Every method runs under the
  limiter's mutex, so a history is a sequence of calls. A Go map is the list of its entries in the
  order an iteration happens to visit them, its keys distinct; the properties hold for every order.
\<close>

section \<open>Windows\<close>

type_synonym 'w windows = "(string \<times> 'w) list"

definition limiter_max :: nat where "limiter_max = 10000"

text \<open>The search for the oldest window, with the empty key as the mark for "none yet".\<close>

fun oldest_key :: "('w \<Rightarrow> time) \<Rightarrow> 'w windows \<Rightarrow> string \<Rightarrow> time \<Rightarrow> string" where
  "oldest_key started [] key oldest = key"
| "oldest_key started ((k, w) # rest) key oldest =
     (if key = [] \<or> started w < oldest then oldest_key started rest k (started w)
      else oldest_key started rest key oldest)"

lemma oldest_key_in:
  "ws \<noteq> [] \<Longrightarrow> oldest_key started ws [] t \<in> fst ` set ws"
proof -
  have step: "oldest_key started ws key t = key \<or> oldest_key started ws key t \<in> fst ` set ws" for key t
    by (induction ws arbitrary: key t) force+
  assume "ws \<noteq> []"
  then obtain k w rest where "ws = (k, w) # rest" by (metis list.exhaust surj_pair)
  then show ?thesis using step by auto (metis step image_eqI)
qed

lemma length_delete_less: "k \<in> fst ` set ws \<Longrightarrow> length (AList.delete k ws) < length ws"
  by (induction ws) (auto simp: AList.delete_eq intro: le_less_trans [OF length_filter_le])

function evict :: "('w \<Rightarrow> time) \<Rightarrow> 'w windows \<Rightarrow> 'w windows" where
  "evict started ws =
     (if limiter_max \<le> length ws then evict started (AList.delete (oldest_key started ws [] 0) ws)
      else ws)"
  by auto

termination
proof (relation "measure (\<lambda>(started, ws). length ws)")
  fix started :: "'w \<Rightarrow> time" and ws :: "'w windows"
  assume "limiter_max \<le> length ws"
  then have "ws \<noteq> []" by (auto simp: limiter_max_def)
  then show "((started, AList.delete (oldest_key started ws [] 0) ws), (started, ws))
      \<in> measure (\<lambda>(started, ws). length ws)"
    by (simp add: length_delete_less oldest_key_in)
qed simp

declare evict.simps [simp del]

definition prune_windows :: "('w \<Rightarrow> time) \<Rightarrow> time \<Rightarrow> time \<Rightarrow> 'w windows \<Rightarrow> 'w windows" where
  "prune_windows started window now ws =
     (if length ws < limiter_max then ws
      else evict started (filter (\<lambda>(k, w). \<not> window \<le> now - started w) ws))"

text \<open>Counting one event under a key: a missing or expired window is replaced by a fresh one.\<close>

definition hit_window ::
  "('w \<Rightarrow> time) \<Rightarrow> (time \<Rightarrow> 'w) \<Rightarrow> ('w \<Rightarrow> 'w) \<Rightarrow> time \<Rightarrow> time \<Rightarrow> string \<Rightarrow> 'w windows \<Rightarrow> 'w windows" where
  "hit_window started fresh bump window now key ws =
     (let w = (case map_of ws key of
                 None \<Rightarrow> fresh now
               | Some w \<Rightarrow> if window \<le> now - started w then fresh now else w)
      in AList.update key (bump w) ws)"

section \<open>Failed logins\<close>

definition login_attempt_window :: time where "login_attempt_window = 10 * minute"

definition login_attempt_limit :: nat where "login_attempt_limit = 8"

definition login_ip_limit :: nat where "login_ip_limit = 40"

definition login_account_limit :: nat where "login_account_limit = 16"

record login_attempt =
  la_window_started :: time
  la_failures :: nat

definition fresh_attempt :: "time \<Rightarrow> login_attempt" where
  "fresh_attempt now = \<lparr>la_window_started = now, la_failures = 0\<rparr>"

definition count_failure :: "login_attempt \<Rightarrow> login_attempt" where
  "count_failure a = a\<lparr>la_failures := la_failures a + 1\<rparr>"

definition login_attempt_key :: "string \<Rightarrow> string \<Rightarrow> string" where
  "login_attempt_key ip username =
     ''pair'' @ [CHR 0x00] @ trim_space ip @ [CHR 0x00] @ to_lower (trim_space username)"

definition ip_key :: "string \<Rightarrow> string" where
  "ip_key ip = ''ip'' @ [CHR 0x00] @ trim_space ip"

definition account_key :: "string \<Rightarrow> string" where
  "account_key username = ''account'' @ [CHR 0x00] @ to_lower (trim_space username)"

definition login_attempt_keys :: "string \<Rightarrow> string \<Rightarrow> string list" where
  "login_attempt_keys ip username = [login_attempt_key ip username, ip_key ip, account_key username]"

definition login_limit :: "string \<Rightarrow> nat" where
  "login_limit key =
     (if has_prefix key (''ip'' @ [CHR 0x00]) then login_ip_limit
      else if has_prefix key (''account'' @ [CHR 0x00]) then login_account_limit
      else login_attempt_limit)"

fun allow_keys :: "string list \<Rightarrow> time \<Rightarrow> login_attempt windows \<Rightarrow> bool \<times> login_attempt windows" where
  "allow_keys [] now ws = (True, ws)"
| "allow_keys (key # keys) now ws =
     (case map_of ws key of
        None \<Rightarrow> allow_keys keys now ws
      | Some attempt \<Rightarrow>
          if login_attempt_window \<le> now - la_window_started attempt
          then allow_keys keys now (AList.delete key ws)
          else if login_limit key \<le> la_failures attempt then (False, ws)
          else allow_keys keys now ws)"

definition login_allow ::
  "string \<Rightarrow> string \<Rightarrow> time \<Rightarrow> login_attempt windows \<Rightarrow> bool \<times> login_attempt windows" where
  "login_allow ip username now ws = allow_keys (login_attempt_keys ip username) now ws"

definition login_prune :: "time \<Rightarrow> login_attempt windows \<Rightarrow> login_attempt windows" where
  "login_prune = prune_windows la_window_started login_attempt_window"

definition login_hit :: "time \<Rightarrow> string \<Rightarrow> login_attempt windows \<Rightarrow> login_attempt windows" where
  "login_hit = hit_window la_window_started fresh_attempt count_failure login_attempt_window"

definition login_failed :: "string \<Rightarrow> string \<Rightarrow> time \<Rightarrow> login_attempt windows \<Rightarrow> login_attempt windows" where
  "login_failed ip username now ws =
     fold (login_hit now) (login_attempt_keys ip username) (login_prune now ws)"

definition login_succeeded :: "string \<Rightarrow> string \<Rightarrow> login_attempt windows \<Rightarrow> login_attempt windows" where
  "login_succeeded ip username ws =
     AList.delete (account_key username) (AList.delete (login_attempt_key ip username) ws)"

section \<open>Starts of OIDC logins\<close>

definition oidc_start_window :: time where "oidc_start_window = minute"

definition oidc_start_ip_limit :: nat where "oidc_start_ip_limit = 120"

record request_window =
  rw_started :: time
  rw_count :: nat

definition fresh_requests :: "time \<Rightarrow> request_window" where
  "fresh_requests now = \<lparr>rw_started = now, rw_count = 0\<rparr>"

definition count_request :: "request_window \<Rightarrow> request_window" where
  "count_request w = w\<lparr>rw_count := rw_count w + 1\<rparr>"

definition request_hit :: "time \<Rightarrow> time \<Rightarrow> string \<Rightarrow> request_window windows \<Rightarrow> request_window windows" where
  "request_hit = hit_window rw_started fresh_requests count_request"

definition request_allow ::
  "time \<Rightarrow> nat \<Rightarrow> string \<Rightarrow> time \<Rightarrow> request_window windows \<Rightarrow> bool \<times> request_window windows" where
  "request_allow window limit key now ws =
     (let ws1 = request_hit window now key (prune_windows rw_started window now ws)
      in case map_of ws1 key of
           None \<Rightarrow> (False, ws1)
         | Some current \<Rightarrow> (rw_count current \<le> limit, ws1))"

section \<open>What a limiter of windows promises\<close>

lemma length_evict: "length (evict started ws) < limiter_max"
  by (induction started ws rule: evict.induct) (subst evict.simps, simp)

lemma length_prune: "length (prune_windows started window now ws) < limiter_max"
  by (simp add: prune_windows_def length_evict)

lemma prune_small [simp]: "length ws < limiter_max \<Longrightarrow> prune_windows started window now ws = ws"
  by (simp add: prune_windows_def)

lemma length_update: "length (AList.update k v ws) \<le> Suc (length ws)"
  by (induction ws) auto

lemma length_delete: "length (AList.delete k ws) \<le> length ws"
  by (simp add: AList.delete_eq)

text \<open>The window of a key after \<open>n\<close> events counted since time \<open>T\<close>.\<close>

definition window_is ::
  "('w \<Rightarrow> time) \<Rightarrow> ('w \<Rightarrow> nat) \<Rightarrow> time \<Rightarrow> time \<Rightarrow> nat \<Rightarrow> 'w option \<Rightarrow> bool" where
  "window_is started count window T n opt \<longleftrightarrow>
     (case opt of None \<Rightarrow> n = 0
      | Some w \<Rightarrow> 0 < n \<and> count w = n \<and> T \<le> started w \<and> started w < T + window)"

text \<open>The contract of a window type: a fresh window starts now with nothing counted, counting keeps
  the start.\<close>

locale window_counter =
  fixes started :: "'w \<Rightarrow> time" and count :: "'w \<Rightarrow> nat" and fresh :: "time \<Rightarrow> 'w"
    and bump :: "'w \<Rightarrow> 'w" and window :: time
  assumes fresh_started: "started (fresh t) = t" and fresh_count: "count (fresh t) = 0"
    and bump_started: "started (bump w) = started w" and bump_count: "count (bump w) = Suc (count w)"
    and window_pos: "0 < window"
begin

lemma hit_other: "k \<noteq> key \<Longrightarrow> map_of (hit_window started fresh bump window now key ws) k = map_of ws k"
  by (simp add: hit_window_def Let_def update_conv')

lemma hit_counts:
  assumes "window_is started count window T n (map_of ws k)" and "T \<le> now" and "now < T + window"
  shows "window_is started count window T (n + (if k = key then 1 else 0))
           (map_of (hit_window started fresh bump window now key ws) k)"
proof (cases "k = key")
  case True
  with assms window_pos show ?thesis
    by (cases "map_of ws key")
       (auto simp: window_is_def hit_window_def Let_def update_conv' fresh_started fresh_count
          bump_started bump_count)
qed (use assms(1) in \<open>simp add: hit_other\<close>)

lemma hits_count:
  assumes "window_is started count window T n (map_of ws k)" and "T \<le> now" and "now < T + window"
  shows "window_is started count window T (n + count_list keys k)
           (map_of (fold (hit_window started fresh bump window now) keys ws) k)"
  using assms(1)
proof (induction keys arbitrary: ws n)
  case Nil
  then show ?case by simp
next
  case (Cons key keys)
  have "(n + (if k = key then 1 else 0)) + count_list keys k = n + count_list (key # keys) k" by simp
  with Cons.IH [OF hit_counts [OF Cons.prems assms(2,3)], of key] show ?case by (simp only: fold.simps o_def)
qed

lemma length_hit: "length (hit_window started fresh bump window now key ws) \<le> length ws + 1"
  by (simp add: hit_window_def Let_def length_update)

lemma length_hits: "length (fold (hit_window started fresh bump window now) keys ws) \<le> length ws + length keys"
proof (induction keys arbitrary: ws)
  case (Cons key keys)
  from Cons.IH [of "hit_window started fresh bump window now key ws"] length_hit [of now key ws]
  show ?case by simp
qed simp

lemma window_live: "window_is started count window T n (Some w) \<Longrightarrow> now < T + window \<Longrightarrow> \<not> window \<le> now - started w"
  by (auto simp: window_is_def)

end

interpretation login: window_counter la_window_started la_failures fresh_attempt count_failure
  login_attempt_window
  by unfold_locales (simp_all add: fresh_attempt_def count_failure_def login_attempt_window_def
      minute_def second_def)

interpretation requests: window_counter rw_started rw_count fresh_requests count_request oidc_start_window
  by unfold_locales (simp_all add: fresh_requests_def count_request_def oidc_start_window_def
      minute_def second_def)

section \<open>Histories\<close>

text \<open>Failed logins as (address, user name, time), and what the limiter has counted under a key.\<close>

definition run_failures :: "(string \<times> string \<times> time) list \<Rightarrow> login_attempt windows" where
  "run_failures evs = fold (\<lambda>(ip, username, now). login_failed ip username now) evs []"

definition failures_under :: "(string \<times> string \<times> time) list \<Rightarrow> string \<Rightarrow> nat" where
  "failures_under evs key =
     length (filter (\<lambda>(ip, username, now). key \<in> set (login_attempt_keys ip username)) evs)"

lemma distinct_login_keys: "distinct (login_attempt_keys ip username)"
  by (auto simp: login_attempt_keys_def login_attempt_key_def ip_key_def account_key_def)

lemma count_list_distinct: "distinct xs \<Longrightarrow> count_list xs x = (if x \<in> set xs then 1 else 0)"
  by (induction xs) auto

lemma count_login_keys:
  "count_list (login_attempt_keys ip username) key =
     (if key \<in> set (login_attempt_keys ip username) then 1 else 0)"
  by (rule count_list_distinct [OF distinct_login_keys])

lemma run_failures_snoc [simp]:
  "run_failures (evs @ [(ip, username, now)]) = login_failed ip username now (run_failures evs)"
  by (simp add: run_failures_def)

lemma run_failures_count:
  assumes "\<forall>(ip, username, now) \<in> set evs. T \<le> now \<and> now < T + login_attempt_window"
    and "3 * length evs < limiter_max"
  shows "length (run_failures evs) \<le> 3 * length evs
    \<and> window_is la_window_started la_failures login_attempt_window T (failures_under evs key)
        (map_of (run_failures evs) key)"
  using assms
proof (induction evs rule: rev_induct)
  case Nil
  then show ?case by (simp add: run_failures_def failures_under_def window_is_def)
next
  case (snoc ev evs)
  obtain ip username now where ev: "ev = (ip, username, now)" by (metis prod.collapse)
  from snoc have l: "length (run_failures evs) \<le> 3 * length evs"
    and w: "window_is la_window_started la_failures login_attempt_window T (failures_under evs key)
        (map_of (run_failures evs) key)" by auto
  from l snoc.prems(2) have pr: "login_prune now (run_failures evs) = run_failures evs"
    by (simp add: login_prune_def)
  have t: "T \<le> now" "now < T + login_attempt_window" using snoc.prems(1) ev by auto
  let ?keys = "login_attempt_keys ip username"
  have n: "failures_under (evs @ [ev]) key = failures_under evs key + count_list ?keys key"
    by (simp add: failures_under_def ev count_login_keys)
  have r: "run_failures (evs @ [ev]) =
      fold (hit_window la_window_started fresh_attempt count_failure login_attempt_window now) ?keys
        (run_failures evs)"
    by (simp add: ev login_failed_def pr login_hit_def)
  have "length ?keys = 3" by (simp add: login_attempt_keys_def)
  with login.length_hits [of now ?keys "run_failures evs"] l
  have "length (run_failures (evs @ [ev])) \<le> 3 * length (evs @ [ev])" unfolding r by simp
  with login.hits_count [OF w t, of ?keys] show ?case unfolding n r by blast
qed

lemma allow_keys_live:
  assumes "\<And>key. key \<in> set keys \<Longrightarrow>
      window_is la_window_started la_failures login_attempt_window T (n key) (map_of ws key)"
    and "now < T + login_attempt_window"
  shows "fst (allow_keys keys now ws) \<longleftrightarrow> (\<forall>key \<in> set keys. n key < login_limit key)"
  using assms(1)
proof (induction keys)
  case Nil
  then show ?case by simp
next
  case (Cons key keys)
  have pos: "0 < login_limit key"
    by (simp add: login_limit_def login_ip_limit_def login_account_limit_def login_attempt_limit_def)
  from Cons have IH: "fst (allow_keys keys now ws) \<longleftrightarrow> (\<forall>key \<in> set keys. n key < login_limit key)"
    by simp
  from Cons.prems [of key] have w: "window_is la_window_started la_failures login_attempt_window T (n key)
      (map_of ws key)" by simp
  show ?case
  proof (cases "map_of ws key")
    case None
    with w IH pos show ?thesis by (simp add: window_is_def)
  next
    case (Some a)
    with w login.window_live [OF _ assms(2), of "n key" a] IH show ?thesis
      by (auto simp: window_is_def)
  qed
qed

text \<open>The limiter counts exactly: after any history of failed logins inside one ten-minute window, from
  any mix of addresses and names in any order, a login is let through exactly when its pair, its
  address and its account are all below their limits (8, 40, 16). No failure of somebody else is
  counted, none of one's own is lost. (The history is small enough not to trigger the eviction.)\<close>

theorem login_allowed_iff_below_limits:
  assumes "\<forall>(ip, username, now) \<in> set evs. T \<le> now \<and> now < T + login_attempt_window"
    and "3 * length evs < limiter_max" and "now < T + login_attempt_window"
  shows "fst (login_allow ip username now (run_failures evs)) \<longleftrightarrow>
    (\<forall>key \<in> set (login_attempt_keys ip username). failures_under evs key < login_limit key)"
  unfolding login_allow_def
  by (rule allow_keys_live [OF _ assms(3)]) (use run_failures_count [OF assms(1,2)] in blast)

theorem login_allowed_iff_below_limits_witness:
  "\<not> fst (login_allow ''10.0.0.1'' ''Ann'' 100 (run_failures (replicate 8 (''10.0.0.1'', ''ann '', 50))))
   \<and> fst (login_allow ''10.0.0.1'' ''bob'' 100 (run_failures (replicate 8 (''10.0.0.1'', ''ann '', 50))))"
proof -
  have k: "login_attempt_key ''10.0.0.1'' ''Ann'' = login_attempt_key ''10.0.0.1'' ''ann ''
      \<and> login_limit (login_attempt_key ''10.0.0.1'' ''ann '') = 8" by code_simp
  have b: "\<forall>key \<in> set (login_attempt_keys ''10.0.0.1'' ''bob'').
      failures_under (replicate 8 (''10.0.0.1'', ''ann '', 50)) key < login_limit key" by code_simp
  have w: "\<forall>(ip, username, now) \<in> set (replicate 8 (''10.0.0.1'', ''ann '', 50)).
      (0::int) \<le> now \<and> now < 0 + login_attempt_window"
    "3 * length (replicate 8 (''10.0.0.1'', ''ann '', 50 :: int)) < limiter_max"
    "100 < 0 + login_attempt_window"
    by (simp_all add: login_attempt_window_def minute_def second_def limiter_max_def)
  from login_allowed_iff_below_limits [OF w, of "''10.0.0.1''" "''Ann''"]
    login_allowed_iff_below_limits [OF w, of "''10.0.0.1''" "''bob''"] k b
  show ?thesis by (simp add: login_attempt_keys_def failures_under_def)
qed

text \<open>A successful login buys no new budget for the address: when the address has used up its failures,
  it stays blocked, for every account, also right after a success.\<close>

theorem success_keeps_address_blocked:
  assumes "map_of ws (ip_key ip) = Some attempt" and "login_ip_limit \<le> la_failures attempt"
    and "now - la_window_started attempt < login_attempt_window"
  shows "\<not> fst (login_allow ip other now (login_succeeded ip username ws))"
proof -
  have ne: "ip_key ip \<noteq> login_attempt_key ip' u" "ip_key ip \<noteq> account_key u" for ip' u
    by (simp_all add: ip_key_def login_attempt_key_def account_key_def)
  have lim: "login_limit (ip_key ip) = login_ip_limit"
    by (simp add: login_limit_def ip_key_def has_prefix_iff)
  have m: "map_of (login_succeeded ip username ws) (ip_key ip) = Some attempt"
    using assms(1) by (simp add: login_succeeded_def delete_conv' ne)
  have "\<not> fst (allow_keys (ip_key ip # keys) now v)" if "map_of v (ip_key ip) = Some attempt" for v keys
    using that assms(2,3) lim by simp
  with m show ?thesis
    by (simp add: login_allow_def login_attempt_keys_def delete_conv' ne split: option.split)
qed

theorem success_keeps_address_blocked_witness:
  "\<not> fst (login_allow ''10.0.0.1'' ''bob'' 5 (login_succeeded ''10.0.0.1'' ''ann''
      [(ip_key ''10.0.0.1'', \<lparr>la_window_started = 0, la_failures = 40\<rparr>)]))"
  by (rule success_keeps_address_blocked
        [where attempt = "\<lparr>la_window_started = 0, la_failures = 40\<rparr>"])
     (simp_all add: login_ip_limit_def login_attempt_window_def minute_def second_def)

section \<open>Bounded memory\<close>

inductive login_call :: "login_attempt windows \<Rightarrow> login_attempt windows \<Rightarrow> bool" where
  "login_call ws (snd (login_allow ip username now ws))"
| "login_call ws (login_failed ip username now ws)"
| "login_call ws (login_succeeded ip username ws)"

inductive_cases login_callE: "login_call ws ws'"

lemma length_allow_keys: "length (snd (allow_keys keys now ws)) \<le> length ws"
  by (induction keys arbitrary: ws)
     (auto split: option.split intro: order_trans length_delete)

lemma length_login_failed: "length (login_failed ip username now ws) \<le> limiter_max + 2"
  using login.length_hits [of now "login_attempt_keys ip username" "login_prune now ws"]
    length_prune [of la_window_started login_attempt_window now ws]
  by (simp add: login_failed_def login_hit_def login_prune_def login_attempt_keys_def)

interpretation login_memory: invariant_system "\<lambda>ws. ws = []" login_call
  "\<lambda>ws. length ws \<le> limiter_max + 2"
proof
  fix ws ws'
  assume l: "length ws \<le> limiter_max + 2" and "login_call ws ws'"
  from this(2) show "length ws' \<le> limiter_max + 2"
  proof (rule login_callE)
    fix ip username now
    assume "ws' = snd (login_allow ip username now ws)"
    with l length_allow_keys show ?thesis unfolding login_allow_def by (metis order_trans)
  next
    fix ip username now
    assume "ws' = login_failed ip username now ws"
    then show ?thesis by (simp only: length_login_failed)
  next
    fix ip username
    assume "ws' = login_succeeded ip username ws"
    moreover have "length (login_succeeded ip username ws) \<le> length ws"
      unfolding login_succeeded_def by (meson length_delete order_trans)
    ultimately show ?thesis using l by simp
  qed
qed simp

text \<open>The map of failures is bounded whatever addresses and names clients send: no history of calls
  makes it larger than the cap and the three keys of one attempt allow, 10002 entries.\<close>

theorem login_limiter_bounded:
  assumes "reach (\<lambda>ws. ws = []) login_call ws"
  shows "length ws \<le> 10002"
  using login_memory.reach_inv [OF assms] by (simp add: limiter_max_def)

theorem login_limiter_bounded_witness:
  "length (login_failed ''10.0.0.1'' ''ann'' 7 []) \<le> 10002"
  by (rule login_limiter_bounded, rule reach_move, rule reach_start, rule refl, rule login_call.intros(2))

section \<open>Requests\<close>

definition run_requests :: "nat \<Rightarrow> (string \<times> time) list \<Rightarrow> request_window windows" where
  "run_requests limit evs =
     fold (\<lambda>(key, now) ws. snd (request_allow oidc_start_window limit key now ws)) evs []"

lemma request_allow_state:
  "snd (request_allow window limit key now ws) =
     request_hit window now key (prune_windows rw_started window now ws)"
  by (simp add: request_allow_def Let_def split: option.split)

lemma run_requests_count:
  assumes "\<forall>(key, now) \<in> set evs. T \<le> now \<and> now < T + oidc_start_window"
    and "length evs < limiter_max"
  shows "length (run_requests limit evs) \<le> length evs
    \<and> window_is rw_started rw_count oidc_start_window T (length (filter (\<lambda>ev. fst ev = k) evs))
        (map_of (run_requests limit evs) k)"
  using assms
proof (induction evs rule: rev_induct)
  case Nil
  then show ?case by (simp add: run_requests_def window_is_def)
next
  case (snoc ev evs)
  obtain key now where ev: "ev = (key, now)" by (metis prod.collapse)
  from snoc have l: "length (run_requests limit evs) \<le> length evs"
    and w: "window_is rw_started rw_count oidc_start_window T (length (filter (\<lambda>ev. fst ev = k) evs))
        (map_of (run_requests limit evs) k)" by auto
  have t: "T \<le> now" "now < T + oidc_start_window" using snoc.prems(1) ev by auto
  have "run_requests limit (evs @ [ev]) = request_hit oidc_start_window now key (run_requests limit evs)"
    using l snoc.prems(2) by (simp add: run_requests_def ev request_allow_state)
  with requests.hit_counts [OF w t, of key] requests.length_hit [of now key "run_requests limit evs"] l
  show ?case by (auto simp: ev request_hit_def)
qed

text \<open>Of the login starts of one address inside a window exactly the first \<open>limit\<close> pass; those that are
  refused neither extend the window nor count against other addresses.\<close>

theorem request_allowed_iff_below_limit:
  assumes "\<forall>(key, now) \<in> set evs. T \<le> now \<and> now < T + oidc_start_window"
    and "length evs < limiter_max" and "T \<le> now" and "now < T + oidc_start_window"
  shows "fst (request_allow oidc_start_window limit key now (run_requests limit evs)) \<longleftrightarrow>
    length (filter (\<lambda>ev. fst ev = key) evs) < limit"
proof -
  let ?n = "length (filter (\<lambda>ev. fst ev = key) evs)"
  from run_requests_count [OF assms(1,2), of limit key]
  have l: "length (run_requests limit evs) < limiter_max"
    and w: "window_is rw_started rw_count oidc_start_window T ?n (map_of (run_requests limit evs) key)"
    using assms(2) by auto
  from requests.hit_counts [OF w assms(3,4), of key]
  have "window_is rw_started rw_count oidc_start_window T (?n + 1)
      (map_of (request_hit oidc_start_window now key (run_requests limit evs)) key)"
    by (simp add: request_hit_def)
  with l show ?thesis
    by (auto simp: request_allow_def Let_def window_is_def split: option.split option.splits)
qed

theorem request_allowed_iff_below_limit_witness:
  "fst (request_allow oidc_start_window 2 ''a'' 9 (run_requests 2 [(''a'', 5), (''b'', 6)]))
   \<and> \<not> fst (request_allow oidc_start_window 2 ''a'' 9 (run_requests 2 [(''a'', 5), (''b'', 6), (''a'', 7)]))"
proof -
  have w: "0 < oidc_start_window" "20 < oidc_start_window"
    by (simp_all add: oidc_start_window_def minute_def second_def)
  show ?thesis
    using request_allowed_iff_below_limit [of "[(''a'', 5), (''b'', 6)]" 0 9 2 "''a''"]
      request_allowed_iff_below_limit [of "[(''a'', 5), (''b'', 6), (''a'', 7)]" 0 9 2 "''a''"] w
    by (simp add: limiter_max_def)
qed

end
