(* ===== verification/Auth.thy ===== *)
theory Auth
  imports Http_Request Api_Keys Rate_Limits Mail
begin

text \<open>
  Sign-in with a local account, sessions and their tokens (\<^verbatim>\<open>internal/auth/auth.go\<close>) and the account
  handlers of \<^verbatim>\<open>internal/api/auth_handlers.go\<close>. The library \<^verbatim>\<open>golang-jwt\<close> is two parameters: \<open>sign\<close> makes the
  token of some claims, \<open>verify\<close> gives the claims of a token it accepts at a time (algorithm, signature,
  issuer, audience, expiry and leeway checked). \<open>matches\<close> is \<^verbatim>\<open>bcrypt.CompareHashAndPassword\<close>, \<open>random\<close> the
  outcome of \<^verbatim>\<open>secure.RandomToken(24)\<close>, \<open>now\<close> the clock of the process.
\<close>

section \<open>Tokens\<close>

definition cookie_name :: string where "cookie_name = ''jupiq_session''"

definition token_issuer :: string where "token_issuer = ''jupiq''"

definition token_audience :: string where "token_audience = ''jupiq-api''"

record claims =
  jc_username :: string
  jc_roles :: "string list"
  jc_issuer :: string
  jc_subject :: string
  jc_audience :: "string list"
  jc_expires_at :: time
  jc_not_before :: time
  jc_issued_at :: time
  jc_id :: string

definition numeric_date :: "time \<Rightarrow> time" where
  \<comment> \<open>\<^verbatim>\<open>jwt.NewNumericDate\<close> truncates to seconds\<close>
  "numeric_date t = t - t mod second"

definition session_lifetime :: time where "session_lifetime = 8 * hour"

definition issue ::
  "(claims \<Rightarrow> string option) \<Rightarrow> time \<Rightarrow> string option \<Rightarrow> user \<Rightarrow> (store_error, string \<times> time \<times> string) res" where
  "issue sign now random u =
     (let expires = now + session_lifetime
      in case random of
           None \<Rightarrow> Inl EntropyFailure
         | Some jti \<Rightarrow>
             (case sign \<lparr>jc_username = u_username u, jc_roles = u_roles u, jc_issuer = token_issuer,
                 jc_subject = format_int (u_id u), jc_audience = [token_audience],
                 jc_expires_at = numeric_date expires, jc_not_before = numeric_date (now - 30 * second),
                 jc_issued_at = numeric_date now, jc_id = jti\<rparr> of
                None \<Rightarrow> Inl (AuthError TokenNotSigned)
              | Some token \<Rightarrow> Inr (token, expires, jti)))"

section \<open>Sign-in\<close>

definition dummy_hash :: string where
  "dummy_hash = ''$2a$10$ZrWj5TmW.3VssVK4KzGtnuCN0MybvBkGUuD3Wc8rFwRRUWUT5F5X2''"

definition session_principal :: "user \<Rightarrow> string \<Rightarrow> principal" where
  "session_principal u jti =
     \<lparr>p_user = u, p_jti = jti, p_api_key_id = 0, p_api_key_scopes = [], p_user_permissions = u_permissions u\<rparr>"

text \<open>\<^verbatim>\<open>CreateSession\<close> of the service, also the end of \<^verbatim>\<open>Login\<close>.\<close>

definition new_session ::
  "(claims \<Rightarrow> string option) \<Rightarrow> time \<Rightarrow> string option \<Rightarrow> user \<Rightarrow> string \<Rightarrow> string \<Rightarrow> (principal \<times> string \<times> time) store_tx" where
  "new_session sign now random u ip user_agent =
     tx_bind (tx_lift (issue sign now random u)) (\<lambda>(token, expires, jti).
     tx_bind (create_session jti (u_id u) expires ip user_agent) (\<lambda>_.
     tx_bind (ignore_error (touch_login (u_id u))) (\<lambda>_.
     tx_return (session_principal u jti, token, expires))))"

definition login ::
  "(string \<Rightarrow> string \<Rightarrow> bool) \<Rightarrow> (claims \<Rightarrow> string option) \<Rightarrow> time \<Rightarrow> string option \<Rightarrow>
   string \<Rightarrow> string \<Rightarrow> string \<Rightarrow> string \<Rightarrow> (principal \<times> string \<times> time) store_tx" where
  "login matches sign now random username password ip user_agent =
     tx_bind (tx_try (find_user_by_username username)) (\<lambda>credential.
       let hash = (case credential of Inr (u, Some stored) \<Rightarrow> stored | _ \<Rightarrow> dummy_hash);
           compare_ok = matches hash password
       in case credential of
            Inl _ \<Rightarrow> tx_throw (AuthError InvalidCredentials)
          | Inr (u, _) \<Rightarrow>
              if \<not> compare_ok \<or> \<not> u_active u \<or> u_auth_source u \<noteq> ''local''
              then tx_throw (AuthError InvalidCredentials)
              else new_session sign now random u ip user_agent)"

section \<open>Authentication of a request\<close>

definition authenticate_jwt :: "(string \<Rightarrow> claims option) \<Rightarrow> string \<Rightarrow> principal store_tx" where
  "authenticate_jwt verify token =
     (case verify token of
        None \<Rightarrow> tx_throw (AuthError InvalidSession)
      | Some c \<Rightarrow>
          (case parse_int (jc_subject c) of
             None \<Rightarrow> tx_throw (AuthError MalformedSession)
           | Some uid \<Rightarrow>
               if jc_id c = [] then tx_throw (AuthError MalformedSession)
               else
                 tx_bind (tx_try (session_active (jc_id c) uid)) (\<lambda>active.
                 if active \<noteq> Inr True then tx_throw (AuthError SessionRevoked)
                 else
                   tx_bind (tx_try (get_user uid)) (\<lambda>found.
                     case found of
                       Inl _ \<Rightarrow> tx_throw (AuthError AccountUnusable)
                     | Inr u \<Rightarrow>
                         if \<not> u_active u then tx_throw (AuthError AccountUnusable)
                         else if jc_username c \<noteq> u_username u then tx_throw (AuthError SessionAccountMismatch)
                         else tx_return (session_principal u (jc_id c))))))"

definition authenticate_request ::
  "(string \<Rightarrow> claims option) \<Rightarrow> (string \<Rightarrow> string) \<Rightarrow> request \<Rightarrow> principal store_tx" where
  "authenticate_request verify hash r =
     (let authorization = trim_space (rq_header r ''Authorization'')
      in if has_prefix (to_lower authorization) ''bearer '' then
           let plain = trim_space (drop 7 authorization)
           in if has_prefix plain ''jqk_'' then
                tx_bind (tx_try (authenticate_api_key hash plain)) (\<lambda>found.
                  case found of
                    Inl _ \<Rightarrow> tx_throw (AuthError InvalidApiKey)
                  | Inr (u, scopes, kid) \<Rightarrow>
                      if \<not> u_active u then tx_throw (AuthError InvalidApiKey)
                      else tx_return \<lparr>p_user = u, p_jti = [], p_api_key_id = kid, p_api_key_scopes = scopes,
                                      p_user_permissions = u_permissions u\<rparr>)
              else authenticate_jwt verify plain
         else case rq_cookie r of
                None \<Rightarrow> tx_throw (AuthError AuthenticationRequired)
              | Some token \<Rightarrow> authenticate_jwt verify token)"

definition logout_session :: "principal \<Rightarrow> unit store_tx" where
  "logout_session p = (if p_jti p = [] then tx_return () else revoke_session (p_jti p))"

definition subject_of :: "principal \<Rightarrow> string" where
  "subject_of p = format_int (u_id (p_user p)) @ '':'' @ u_username (p_user p)"

section \<open>Cookies and replies\<close>

record cookie =
  ck_name :: string
  ck_value :: string
  ck_path :: string
  ck_http_only :: bool
  ck_secure :: bool
  ck_expires :: "time option"
  ck_max_age :: int

definition whole_seconds :: "time \<Rightarrow> int" where
  "whole_seconds t = (if 0 \<le> t then t div second else - (- t div second))"

definition secure_cookie :: "string \<Rightarrow> time \<Rightarrow> bool \<Rightarrow> time \<Rightarrow> cookie" where
  "secure_cookie token expires secure_only now =
     \<lparr>ck_name = cookie_name, ck_value = token, ck_path = ''/'', ck_http_only = True, ck_secure = secure_only,
      ck_expires = Some expires, ck_max_age = whole_seconds (expires - now)\<rparr>"

definition clear_cookie :: "bool \<Rightarrow> cookie" where
  "clear_cookie secure_only =
     \<lparr>ck_name = cookie_name, ck_value = [], ck_path = ''/'', ck_http_only = True, ck_secure = secure_only,
      ck_expires = Some second, ck_max_age = -1\<rparr>"

record 'a reply =
  rp_status :: nat
  rp_cookies :: "cookie list"
  rp_location :: string
  rp_body :: 'a

definition session_event :: "request \<Rightarrow> int option \<Rightarrow> string \<Rightarrow> string \<Rightarrow> string \<Rightarrow> string \<Rightarrow> string \<Rightarrow> audit_row" where
  "session_event r actor username action resource_id result reason =
     \<lparr>au_actor_id = actor, au_actor_username = username, au_action = action, au_resource_type = ''session'',
      au_resource_id = resource_id, au_before = None, au_after = None, au_ip = client_ip r,
      au_agent = rq_header r ''User-Agent'', au_result = result, au_reason = reason,
      au_request_id = rq_header r ''X-Request-ID''\<rparr>"

section \<open>Handlers\<close>

definition interactive_session_only :: "(request \<Rightarrow> 'a handler) \<Rightarrow> request \<Rightarrow> 'a handler" where
  "interactive_session_only handler r =
     (if p_api_key_id (rq_principal r) \<noteq> 0 then api_error 403 ''interactive_session_required'' else handler r)"

text \<open>The login handler also moves the limiter. \<open>body\<close> is the decoded user name and password, \<open>None\<close> a body
  that does not decode.\<close>

definition login_handler ::
  "(string \<Rightarrow> string \<Rightarrow> bool) \<Rightarrow> (claims \<Rightarrow> string option) \<Rightarrow> time \<Rightarrow> string option \<Rightarrow>
   (string \<times> string) option \<Rightarrow> request \<Rightarrow> login_attempt windows \<Rightarrow> faults \<Rightarrow> store_db \<Rightarrow>
   login_attempt windows \<times> (http_error, user reply) res \<times> faults \<times> store_db" where
  "login_handler matches sign now random body r ws fs d =
     (case body of
        None \<Rightarrow> (ws, api_error 400 ''invalid_request'' fs d)
      | Some (username, password) \<Rightarrow>
          if trim_space username = [] \<or> password = [] then (ws, api_error 400 ''invalid_request'' fs d)
          else if 128 < length username \<or> 1024 < length password
          then (ws, api_error 400 ''invalid_request'' fs d)
          else
            let ip = client_ip r; (allowed, ws1) = login_allow ip username now ws
            in if \<not> allowed then (ws1, api_error 429 ''login_rate_limited'' fs d)
               else case login matches sign now random username password ip (rq_header r ''User-Agent'') fs d of
                 (Inl e, fs1, d1) \<Rightarrow>
                   (login_failed ip username now ws1,
                    tx_bind (audit (session_event r None username ''auth.login'' [] ''failure'' ''invalid_credentials''))
                      (\<lambda>_. api_error 401 ''invalid_credentials'') fs1 d1)
               | (Inr (p, token, expires), fs1, d1) \<Rightarrow>
                   (login_succeeded ip username ws1,
                    tx_bind (audit (session_event r (Some (u_id (p_user p))) (u_username (p_user p)) ''auth.login''
                        (p_jti p) ''success'' [])) (\<lambda>_.
                      tx_return \<lparr>rp_status = 200,
                        rp_cookies = [secure_cookie token expires (is_secure_request r) now],
                        rp_location = [], rp_body = p_user p\<rparr>) fs1 d1))"

definition me :: "request \<Rightarrow> user \<times> bool" where
  "me r = (p_user (rq_principal r), p_api_key_id (rq_principal r) \<noteq> 0)"

definition me_update :: "(string \<times> string) option \<Rightarrow> request \<Rightarrow> user handler" where
  "me_update body r =
     (case body of
        None \<Rightarrow> api_error 400 ''invalid_json''
      | Some (display_name, email) \<Rightarrow>
          if trim_space email \<noteq> [] \<and> \<not> valid_address (trim_space email) then api_error 400 ''invalid_email''
          else
            tx_bind (store_call (update_profile (u_id (p_user (rq_principal r))) display_name email)) (\<lambda>u.
            tx_bind (audit (request_audit r ''profile.update'' ''user'' (format_int (u_id u)) ''success'' [] None
                (Some (JObj [(''display_name'', JStr (u_display_name u)), (''email'', JStr (u_email u))])))) (\<lambda>_.
            tx_return u)))"

definition password_failure :: "store_error \<Rightarrow> http_error" where
  "password_failure e =
     (if e = ErrInvalidPassword then (400, ''current_password_invalid'')
      else if e = ErrLocalAuthOnly then (400, ''local_auth_only'')
      else (400, ''password_policy_denied''))"

definition change_password ::
  "(string \<Rightarrow> string option) \<Rightarrow> (string \<Rightarrow> string \<Rightarrow> bool) \<Rightarrow> (string \<times> string) option \<Rightarrow> request \<Rightarrow> unit handler" where
  "change_password bcrypt_hash matches body r =
     (let p = rq_principal r; uid = u_id (p_user p)
      in case body of
           None \<Rightarrow> api_error 400 ''invalid_password_request''
         | Some (current_password, new_password) \<Rightarrow>
             if current_password = [] \<or> new_password = [] then api_error 400 ''invalid_password_request''
             else
               tx_bind (tx_map_error password_failure
                 (change_local_password bcrypt_hash matches uid current_password new_password)) (\<lambda>_.
               tx_bind (store_call (revoke_other_sessions uid (p_jti p))) (\<lambda>_.
               audit (request_audit r ''auth.password.change'' ''user'' (format_int uid) ''success'' [] None
                 (Some (JObj [(''other_sessions_revoked'', JBool True)]))))))"

definition logout :: "request \<Rightarrow> unit reply handler" where
  "logout r =
     tx_bind (store_call (logout_session (rq_principal r))) (\<lambda>_.
     tx_bind (audit (request_audit r ''auth.logout'' ''session'' (p_jti (rq_principal r)) ''success'' [] None None)) (\<lambda>_.
     tx_return \<lparr>rp_status = 204, rp_cookies = [clear_cookie (is_secure_request r)], rp_location = [], rp_body = ()\<rparr>))"

definition readiness :: "bool \<Rightarrow> unit handler" where
  \<comment> \<open>\<open>up\<close> tells whether the database answers within two seconds\<close>
  "readiness up = (if up then tx_return () else api_error 503 ''not_ready'')"

definition absolute_url :: "request \<Rightarrow> string \<Rightarrow> string" where
  "absolute_url r path =
     (let scheme = (if is_secure_request r then ''https'' else ''http'') in scheme @ ''://'' @ rq_host r @ path)"

end
