(* ===== verification/Auth_Properties.thy ===== *)
theory Auth_Properties
  imports Auth Transitions
begin

text \<open>
  What sign-in, log-out and the change of a password promise: the session behind every authenticated
  principal, tokens that authenticate the account they were issued to, and sessions that never come back.
\<close>

section \<open>The session behind a principal\<close>

lemma find_user_id: "find_user uid d = Some row \<Longrightarrow> us_id row = uid"
  by (auto simp: find_user_def find_Some_iff)

lemma get_user_Inr:
  "get_user uid fs d = (Inr u, fs', d') \<Longrightarrow>
   d' = d \<and> u_id u = uid \<and> (\<exists>row. find_user uid d = Some row \<and> us_active row = u_active u)"
  by (auto simp: get_user_def populate_user_access_def tx_Inr user_of_row_def dest: find_user_id)

lemma tx_try_bind_Inr:
  "tx_bind (tx_try m) k fs d = (Inr b, fs', d') \<longleftrightarrow>
     (\<exists>r fs1 d1. m fs d = (r, fs1, d1) \<and> k r fs1 d1 = (Inr b, fs', d'))"
  by (auto simp: tx_bind_Inr tx_try_Inr)

lemma tx_try_or_throw_Inr:
  "tx_bind (tx_try m) (\<lambda>x. case x of Inl e \<Rightarrow> tx_throw err | Inr a \<Rightarrow> k a) fs d = (Inr b, fs', d') \<longleftrightarrow>
     (\<exists>a fs1 d1. m fs d = (Inr a, fs1, d1) \<and> k a fs1 d1 = (Inr b, fs', d'))"
proof (cases "m fs d")
  case (fields x fs1 d1)
  then show ?thesis by (cases x) (simp_all add: tx_bind_def tx_try_def tx_throw_def)
qed

lemma authenticate_jwt_Inr:
  assumes "authenticate_jwt verify token fs d = (Inr p, fs', d')"
  shows "d' = d \<and> p_jti p \<noteq> [] \<and> p_api_key_id p = 0 \<and> u_active (p_user p)
    \<and> session_live (p_jti p) (u_id (p_user p)) d
    \<and> (\<exists>c. verify token = Some c \<and> jc_username c = u_username (p_user p) \<and> jc_id c = p_jti p)"
  using assms
proof -
  from assms obtain c uid where c: "verify token = Some c" "parse_int (jc_subject c) = Some uid" "jc_id c \<noteq> []"
    by (auto simp: authenticate_jwt_def split: option.splits if_splits)
  with assms obtain fs1 d1 u where "session_active (jc_id c) uid fs d = (Inr True, fs1, d1)"
      "get_user uid fs1 d1 = (Inr u, fs', d')" and u: "u_active u" "jc_username c = u_username u"
      "p = session_principal u (jc_id c)"
    by (auto simp: authenticate_jwt_def tx_try_bind_Inr [where m = "session_active (jc_id c) uid"]
        tx_try_or_throw_Inr split: if_splits)
  then have "session_live (jc_id c) uid d" "d' = d" "u_id u = uid"
    by (auto simp: session_active_def query_Inr dest!: get_user_Inr)
  with c u show ?thesis by (simp add: session_principal_def)
qed

lemma authenticate_request_Inr:
  assumes "authenticate_request verify hash r fs d = (Inr p, fs', d')" and "p_jti p \<noteq> []"
  obtains token where "authenticate_jwt verify token fs d = (Inr p, fs', d')"
  using assms
  by (auto simp: authenticate_request_def Let_def tx_try_or_throw_Inr split: if_splits option.splits)

theorem session_principal_is_live:
  assumes "authenticate_request verify hash r fs d = (Inr p, fs', d')" and "p_jti p \<noteq> []"
  shows "u_active (p_user p) \<and> session_live (p_jti p) (u_id (p_user p)) d' \<and> p_api_key_id p = 0"
proof -
  obtain token where "authenticate_jwt verify token fs d = (Inr p, fs', d')"
    using authenticate_request_Inr [OF assms] .
  from authenticate_jwt_Inr [OF this] show ?thesis by simp
qed

section \<open>Sessions that ended\<close>

text \<open>The token id belongs to a session, and every session of that id has been revoked.\<close>

definition dead_session :: "string \<Rightarrow> store_db \<Rightarrow> bool" where
  "dead_session jti d \<longleftrightarrow>
     jti : se_jti ` set (db_sessions d)
     \<and> (\<forall>s \<in> set (db_sessions d). se_jti s = jti \<longrightarrow> se_revoked_at s \<noteq> None)"

text \<open>The statements that write the sessions table, as they stand in the program; every other operation leaves the
  table alone.\<close>

inductive session_step :: "store_db \<Rightarrow> store_db \<Rightarrow> bool" where
  create: "create_session jti uid expires ip agent fs d = (r, fs', d') \<Longrightarrow> session_step d d'"
| revoke: "revoke_session jti fs d = (r, fs', d') \<Longrightarrow> session_step d d'"
| revoke_others: "revoke_other_sessions uid jti fs d = (r, fs', d') \<Longrightarrow> session_step d d'"
| other: "db_sessions d' = db_sessions d \<Longrightarrow> session_step d d'"

inductive_cases session_stepE: "session_step d d'"

lemma dead_not_live: "dead_session jti d \<Longrightarrow> \<not> session_live jti uid d"
  by (auto simp: dead_session_def session_live_def list_ex_bool_iff)

lemma revoke_sessions_jti [simp]:
  "se_jti ` set (db_sessions (revoke_sessions cond d)) = se_jti ` set (db_sessions d)"
proof -
  have "map se_jti (db_sessions (revoke_sessions cond d)) = map se_jti (db_sessions d)"
    by (simp add: revoke_sessions_def)
  then show ?thesis by (metis list.set_map)
qed

lemma revoke_sessions_elem:
  "s \<in> set (db_sessions (revoke_sessions cond d)) \<Longrightarrow>
   \<exists>t \<in> set (db_sessions d). se_jti s = se_jti t \<and> se_user_id s = se_user_id t
     \<and> (cond t \<or> se_revoked_at t \<noteq> None \<longrightarrow> se_revoked_at s \<noteq> None)"
  by (auto simp: revoke_sessions_def split: option.splits)

lemma dead_revoke_sessions: "dead_session jti d \<Longrightarrow> dead_session jti (revoke_sessions cond d)"
  unfolding dead_session_def revoke_sessions_jti by (metis revoke_sessions_elem)

lemma keeps_dead_session:
  "keeps (dead_session jti) (create_session j uid expires ip agent)"
  "keeps (dead_session jti) (revoke_session j)"
  "keeps (dead_session jti) (revoke_other_sessions uid j)"
  unfolding create_session_def revoke_session_def revoke_other_sessions_def
  by (rule keeps_statement, force simp: dead_session_def list_ex_bool_iff split: if_splits,
    (rule keeps_exec, erule dead_revoke_sessions)+)

interpretation dead_sessions: invariant_system "dead_session jti" session_step "dead_session jti" for jti
proof
  fix d d'
  assume inv: "dead_session jti d" and "session_step d d'"
  from this(2) show "dead_session jti d'"
    by cases (use inv in \<open>auto dest!: keepsD [OF keeps_dead_session(1) inv] keepsD [OF keeps_dead_session(2) inv]
      keepsD [OF keeps_dead_session(3) inv] simp: dead_session_def\<close>)
qed

lemma session_live_exists: "session_live jti uid d \<Longrightarrow> jti : se_jti ` set (db_sessions d)"
  by (auto simp: session_live_def list_ex_bool_iff)

lemma revoked_is_dead:
  "jti : se_jti ` set (db_sessions d) \<Longrightarrow> dead_session jti (revoke_sessions (\<lambda>s. se_jti s = jti) d)"
  unfolding dead_session_def revoke_sessions_jti by (auto dest!: revoke_sessions_elem)

lemma audit_sessions: "audit event fs d = (Inr u, fs', d') \<Longrightarrow> db_sessions d' = db_sessions d"
  by (auto simp: audit_def ignore_error_def record_audit_def exec_def statement_def Let_def
      split: prod.splits sum.splits if_splits)

lemma logout_dead:
  assumes "logout r fs d = (Inr rep, fs', d')" and "p_jti (rq_principal r) \<noteq> []"
    and "session_live (p_jti (rq_principal r)) uid d"
  shows "dead_session (p_jti (rq_principal r)) d'"
proof -
  let ?j = "p_jti (rq_principal r)"
  from assms(1,2) have "db_sessions d' = db_sessions (revoke_sessions (\<lambda>s. se_jti s = ?j) d)"
    by (auto simp: logout_def tx_bind_Inr logout_session_def revoke_session_def exec_Inr dest!: audit_sessions)
  with revoked_is_dead [OF session_live_exists [OF assms(3)]] show ?thesis by (simp add: dead_session_def)
qed

text \<open>C19: After a log-out no token of that session authenticates any more, whatever is done to the sessions later.\<close>

theorem logged_out_session_never_returns:
  assumes "authenticate_request verify hash q [] d0 = (Inr (rq_principal r), fs0, d)"
    and "p_jti (rq_principal r) \<noteq> []"
    and "logout r fs d = (Inr rep, fs', d')" and "session_step\<^sup>*\<^sup>* d' d''"
    and "authenticate_request verify2 hash q2 fs2 d'' = (Inr p, fs3, d3)"
  shows "p_jti p \<noteq> p_jti (rq_principal r)"
proof
  assume same: "p_jti p = p_jti (rq_principal r)"
  have live: "session_live (p_jti (rq_principal r)) (u_id (p_user (rq_principal r))) d"
    using session_principal_is_live [OF assms(1,2)] by simp
  have "dead_session (p_jti (rq_principal r)) d''"
    using dead_sessions.moves_inv [OF assms(4) logout_dead [OF assms(3,2) live]] .
  moreover have ne: "p_jti p \<noteq> []" using same assms(2) by simp
  obtain token where "authenticate_jwt verify2 token fs2 d'' = (Inr p, fs3, d3)"
    using authenticate_request_Inr [OF assms(5) ne] .
  from authenticate_jwt_Inr [OF this] have "session_live (p_jti p) (u_id (p_user p)) d''" by simp
  ultimately show False using same dead_not_live by metis
qed

section \<open>Changing the password\<close>

lemma change_local_password_sessions:
  "change_local_password bcrypt_hash matches uid old new fs d = (Inr u, fs', d') \<Longrightarrow> db_sessions d' = db_sessions d"
  by (auto simp: change_local_password_def tx_Inr change_users_def split: prod.splits option.splits if_splits)

text \<open>C20: After a change of the password the only session of the account that still authenticates is the one that
  changed it.\<close>

theorem password_change_ends_other_sessions:
  assumes "change_password bcrypt_hash matches body r fs d = (Inr u, fs', d')"
    and "authenticate_jwt verify token fs2 d' = (Inr p, fs3, d3)"
    and "u_id (p_user p) = u_id (p_user (rq_principal r))"
  shows "p_jti p = p_jti (rq_principal r)"
proof (rule ccontr)
  assume other: "p_jti p \<noteq> p_jti (rq_principal r)"
  let ?uid = "u_id (p_user (rq_principal r))" let ?jti = "p_jti (rq_principal r)"
  from assms(1) obtain d1 where "db_sessions d' = db_sessions (revoke_sessions (\<lambda>s.
      se_user_id s = ?uid \<and> se_jti s \<noteq> ?jti \<and> se_revoked_at s = None) d1)"
    by (auto simp: change_password_def Let_def tx_bind_Inr revoke_other_sessions_def exec_Inr
        split: option.splits prod.splits if_splits dest!: audit_sessions)
  then have "\<not> session_live (p_jti p) ?uid d'"
    using other by (auto simp: session_live_def list_ex_bool_iff dest!: revoke_sessions_elem)
  then show False using authenticate_jwt_Inr [OF assms(2)] assms(3) by simp
qed

section \<open>Tokens authenticate the account they were issued to\<close>

definition seen_at :: "time option \<Rightarrow> time \<Rightarrow> user \<Rightarrow> user" where
  "seen_at l updated u = u\<lparr>u_last_login_at := l, u_updated_at := updated\<rparr>"

lemma populate_row_seen: "populate_row row (seen_at l t u) = seen_at l t (populate_row row u)"
  by (simp add: populate_row_def start_binding_def add_scope_def seen_at_def Let_def split: option.split)

lemma fold_populate_row_seen:
  "fold populate_row rows (seen_at l t u) = seen_at l t (fold populate_row rows u)"
  by (induction rows arbitrary: u) (simp_all add: populate_row_seen)

lemma populate_rows_seen: "populate_rows rows (seen_at l t u) = seen_at l t (populate_rows rows u)"
  using fold_populate_row_seen [of rows l t "u\<lparr>u_roles := [], u_permissions := [], u_global_permissions := Some [],
      u_scoped_permissions := [], u_role_bindings := [], u_permission_grants := []\<rparr>"]
  by (cases u) (simp add: populate_rows_def Let_def seen_at_def)

lemma find_user_by_username_now:
  "find_user_by_username username [] d =
     (case find_username username d of
        None \<Rightarrow> (Inl ErrNotFound, [], d)
      | Some row \<Rightarrow> (Inr (populate_rows (access_rows (us_id row) d) (user_of_row row), us_password_hash row), [], d))"
  by (simp add: find_user_by_username_def populate_user_access_def tx_bind_def query_row_def query_def statement_def
      tx_return_def user_of_row_def split: option.split)

lemma populate_rows_username [simp]: "u_username (populate_rows rows u) = u_username u"
proof -
  have "u_username (fold populate_row rows v) = u_username v" for v
    by (induction rows arbitrary: v)
      (simp_all add: populate_row_def start_binding_def add_scope_def Let_def split: option.split)
  then show ?thesis by (simp add: populate_rows_def Let_def)
qed

definition signed_in_db :: "string \<Rightarrow> int \<Rightarrow> time \<Rightarrow> string \<Rightarrow> string \<Rightarrow> store_db \<Rightarrow> store_db" where
  "signed_in_db jti uid expires ip agent d =
     change_users (\<lambda>u. us_id u = uid) (\<lambda>u. u\<lparr>us_last_login_at := Some (db_now d), us_updated_at := db_now d\<rparr>)
       (d\<lparr>db_sessions := db_sessions d @ [\<lparr>se_jti = jti, se_user_id = uid, se_expires_at = expires,
             se_revoked_at = None, se_ip = ip, se_agent = agent\<rparr>]\<rparr>)"

lemma new_session_Inr:
  assumes "new_session sign now random u ip agent [] d = (Inr (p, token, expires), fs', d')"
  shows "\<exists>jti c. random = Some jti \<and> sign c = Some token \<and> jc_id c = jti \<and> jc_username c = u_username u
     \<and> jc_subject c = format_int (u_id u) \<and> expires = now + session_lifetime \<and> p = session_principal u jti
     \<and> d' = signed_in_db jti (u_id u) expires ip agent d \<and> fs' = []"
  using assms
  by (auto simp: new_session_def issue_def Let_def tx_Inr create_session_def touch_login_def ignore_error_def
      exec_def statement_def signed_in_db_def split: option.splits if_splits prod.splits)

lemma find_map_same:
  "(\<And>u. P (f u) = P u) \<Longrightarrow> find P (map f xs) = map_option f (find P xs)"
  by (induction xs) auto

lemma signed_in_reads:
  assumes "find_user uid d = Some row"
  shows "find_user uid (signed_in_db jti uid expires ip agent d)
      = Some (row\<lparr>us_last_login_at := Some (db_now d), us_updated_at := db_now d\<rparr>)"
    and "access_rows x (signed_in_db jti uid expires ip agent d) = access_rows x d"
    and "session_live jti uid (signed_in_db jti uid expires ip agent d) \<longleftrightarrow>
      session_live jti uid d \<or> db_now d < expires"
  using assms find_user_id [OF assms]
  by (auto simp: signed_in_db_def change_users_def find_user_def find_map_same access_rows_def clause_rows_def
      session_live_def list_ex_bool_iff)

lemma find_by_id:
  "distinct (map us_id us) \<Longrightarrow> row \<in> set us \<Longrightarrow> find (\<lambda>u. us_id u = us_id row) us = Some row"
  by (induction us) auto

text \<open>C18: The token of a sign-in authenticates as the account that signed in, with its permissions, while the session
  lasts. \<open>verify\<close> accepts a token that \<open>sign\<close> made, the documented contract of the library inside the lifetime.\<close>

theorem login_token_authenticates:
  assumes run: "login matches sign now random username password ip agent [] d = (Inr (p, token, expires), fs', d')"
    and contract: "\<And>c. sign c = Some token \<Longrightarrow> verify token = Some c"
    and later: "db_now d < now + session_lifetime" and entropy: "random \<noteq> Some []"
    and keys: "distinct (map us_id (db_users d))"
    and ids: "\<And>u. u \<in> set (db_users d) \<Longrightarrow> int64_min \<le> us_id u \<and> us_id u \<le> int64_max"
  shows "\<exists>q. authenticate_jwt verify token [] d' = (Inr q, [], d')
    \<and> q = p\<lparr>p_user := seen_at (Some (db_now d)) (db_now d) (p_user p)\<rparr>"
proof -
  let ?u = "\<lambda>row. populate_rows (access_rows (us_id row) d) (user_of_row row)"
  obtain row where row: "find_username username d = Some row"
    using run by (cases "find_username username d")
      (auto simp: login_def tx_try_bind_Inr find_user_by_username_now)
  define u where pop: "u = ?u row"
  have u: "u_active u" and opened: "new_session sign now random u ip agent [] d = (Inr (p, token, expires), fs', d')"
    using run row by (auto simp: login_def tx_try_bind_Inr find_user_by_username_now pop split: if_splits)
  from row have mem: "row \<in> set (db_users d)" by (auto simp: find_username_def find_Some_iff)
  from pop have uid: "u_id u = us_id row" by (simp add: user_of_row_def)
  have fu: "find_user (us_id row) d = Some row" unfolding find_user_def by (rule find_by_id [OF keys mem])
  from new_session_Inr [OF opened] obtain jti c where o: "random = Some jti" "sign c = Some token" "jc_id c = jti"
      "jc_username c = u_username u" "jc_subject c = format_int (us_id row)" "expires = now + session_lifetime"
      "p = session_principal u jti" "d' = signed_in_db jti (us_id row) expires ip agent d"
    by (auto simp: uid)
  have parsed: "parse_int (jc_subject c) = Some (us_id row)" using ids [OF mem] o(5) by (simp add: parse_format_int)
  have live: "session_live jti (us_id row) d'" using signed_in_reads(3) [OF fu] later o(6,8) by simp
  let ?row = "row\<lparr>us_last_login_at := Some (db_now d), us_updated_at := db_now d\<rparr>"
  have "user_of_row ?row = seen_at (Some (db_now d)) (db_now d) (user_of_row row)"
    by (simp add: user_of_row_def seen_at_def)
  then have got: "get_user (us_id row) [] d' = (Inr (seen_at (Some (db_now d)) (db_now d) u), [], d')"
    using signed_in_reads(1,2) [OF fu] o(8)
    by (simp add: get_user_def populate_user_access_def tx_bind_def query_row_def query_def statement_def
        tx_return_def pop populate_rows_seen user_of_row_def)
  have "authenticate_jwt verify token [] d' = (Inr (session_principal (seen_at (Some (db_now d)) (db_now d) u) jti), [], d')"
    using contract [OF o(2)] parsed live got u entropy o(1,3,4)
    by (simp add: authenticate_jwt_def tx_bind_def tx_try_def session_active_def query_def statement_def
        seen_at_def tx_return_def)
  then show ?thesis using o(7) by (simp add: session_principal_def seen_at_def)
qed

section \<open>One account, two sessions\<close>

definition demo_claims :: "string \<Rightarrow> claims" where
  "demo_claims jti = \<lparr>jc_username = ''admin'', jc_roles = [], jc_issuer = token_issuer, jc_subject = ''1'',
     jc_audience = [token_audience], jc_expires_at = 8 * hour, jc_not_before = - 30 * second, jc_issued_at = 0,
     jc_id = jti\<rparr>"

definition demo_sign :: "claims \<Rightarrow> string option" where
  "demo_sign c = (if c = demo_claims (jc_id c) then Some (jc_id c) else None)"

definition demo_verify :: "string \<Rightarrow> claims option" where
  "demo_verify token = Some (demo_claims token)"

definition account_db :: store_db where
  "account_db = (fresh_store 0)\<lparr>db_users := [\<lparr>us_id = 1, us_username = ''admin'', us_display_name = ''Admin'',
       us_email = [], us_department = [], us_password_hash = Some ''pw-one-pw-one'', us_auth_source = ''local'',
       us_external_subject = None, us_active = True, us_last_login_at = None, us_created_at = 0, us_updated_at = 0\<rparr>],
     db_next_user := 2\<rparr>"

definition demo_login :: "string \<Rightarrow> store_db \<Rightarrow> (store_error, principal \<times> string \<times> time) res \<times> faults \<times> store_db" where
  "demo_login jti = login (=) demo_sign 0 (Some jti) ''Admin'' ''pw-one-pw-one'' ''10.0.0.1'' ''curl'' []"

definition two_sessions :: store_db where
  "two_sessions = snd (snd (demo_login ''k'' (snd (snd (demo_login ''j'' account_db)))))"

definition session_request :: "string \<Rightarrow> request" where
  "session_request token = (demo_request ''GET'' (\<lambda>_. []) (demo_principal []))\<lparr>rq_cookie := Some token\<rparr>"

lemma demo_authenticates:
  "case authenticate_request demo_verify id (session_request ''j'') [] two_sessions of
     (Inr p, fs, d) \<Rightarrow> p_jti p = ''j'' | _ \<Rightarrow> False"
  by code_simp

theorem session_principal_is_live_witness:
  "\<exists>uid. session_live ''j'' uid (snd (snd (authenticate_request demo_verify id (session_request ''j'') [] two_sessions)))"
proof -
  obtain p fs d where run: "authenticate_request demo_verify id (session_request ''j'') [] two_sessions = (Inr p, fs, d)"
    and p: "p_jti p = ''j''"
    by (rule run_cases [OF demo_authenticates])
  from session_principal_is_live [OF run] p show ?thesis by (auto simp: run)
qed

definition after_logout :: "principal \<Rightarrow> store_db \<Rightarrow> store_db" where
  "after_logout p d = snd (snd (logout ((session_request ''j'')\<lparr>rq_principal := p\<rparr>) [] d))"

theorem logged_out_session_never_returns_witness:
  "case authenticate_request demo_verify id (session_request ''j'') [] two_sessions of
     (Inr p, fs, d) \<Rightarrow>
       (case authenticate_request demo_verify id (session_request ''k'') [] (after_logout p d) of
          (Inr q, _, _) \<Rightarrow> p_jti q \<noteq> p_jti p | _ \<Rightarrow> False)
   | _ \<Rightarrow> False"
proof -
  have all: "case authenticate_request demo_verify id (session_request ''j'') [] two_sessions of
     (Inr p, fs, d) \<Rightarrow> p_jti p \<noteq> []
       \<and> (case logout ((session_request ''j'')\<lparr>rq_principal := p\<rparr>) [] d of (Inr u, _, _) \<Rightarrow> True | _ \<Rightarrow> False)
       \<and> (case authenticate_request demo_verify id (session_request ''k'') [] (after_logout p d) of
            (Inr q, _, _) \<Rightarrow> True | _ \<Rightarrow> False)
   | _ \<Rightarrow> False"
    by code_simp
  obtain p fs d where run: "authenticate_request demo_verify id (session_request ''j'') [] two_sessions = (Inr p, fs, d)"
    and p: "p_jti p \<noteq> []"
    and out: "case logout ((session_request ''j'')\<lparr>rq_principal := p\<rparr>) [] d of (Inr u, _, _) \<Rightarrow> True | _ \<Rightarrow> False"
    and again: "case authenticate_request demo_verify id (session_request ''k'') [] (after_logout p d) of
            (Inr q, _, _) \<Rightarrow> True | _ \<Rightarrow> False"
    by (rule run_cases [OF all]) auto
  obtain u fs1 d1 where l: "logout ((session_request ''j'')\<lparr>rq_principal := p\<rparr>) [] d = (Inr u, fs1, d1)"
    by (rule run_cases [OF out])
  obtain q fs2 d2 where a: "authenticate_request demo_verify id (session_request ''k'') [] (after_logout p d) = (Inr q, fs2, d2)"
    by (rule run_cases [OF again])
  have "after_logout p d = d1" by (simp add: after_logout_def l)
  with logged_out_session_never_returns [of demo_verify id "session_request ''j''" two_sessions
      "(session_request ''j'')\<lparr>rq_principal := p\<rparr>" fs d, OF _ _ l rtranclp.rtrancl_refl, of demo_verify
      "session_request ''k''" "[]" q fs2 d2] run p a
  show ?thesis by simp
qed

definition password_request :: request where
  "password_request = (session_request ''j'')\<lparr>rq_principal := session_principal (empty_user\<lparr>u_id := 1\<rparr>) ''j''\<rparr>"

definition new_password_run :: "(http_error, unit) res \<times> faults \<times> store_db" where
  "new_password_run = change_password Some (=) (Some (''pw-one-pw-one'', ''pw-two-pw-two'')) password_request [] two_sessions"

theorem password_change_ends_other_sessions_witness:
  "case authenticate_jwt demo_verify ''j'' [] (snd (snd new_password_run)) of (Inr p, _, _) \<Rightarrow> p_jti p = ''j'' | _ \<Rightarrow> False"
proof -
  have ran: "case new_password_run of (Inr u, _, _) \<Rightarrow> True | _ \<Rightarrow> False" by code_simp
  have still: "case authenticate_jwt demo_verify ''j'' [] (snd (snd new_password_run)) of
      (Inr p, _, _) \<Rightarrow> u_id (p_user p) = 1 | _ \<Rightarrow> False" by code_simp
  obtain u fs d where run: "new_password_run = (Inr u, fs, d)" by (rule run_cases [OF ran])
  obtain p fs1 d1 where a: "authenticate_jwt demo_verify ''j'' [] d = (Inr p, fs1, d1)" and p: "u_id (p_user p) = 1"
    by (rule run_cases [OF still]) (simp add: run)
  have "p_jti p = p_jti (rq_principal password_request)"
    by (rule password_change_ends_other_sessions [OF run [unfolded new_password_run_def] a])
      (simp add: p password_request_def session_principal_def)
  then show ?thesis by (simp add: run a password_request_def session_principal_def)
qed

theorem login_token_authenticates_witness:
  "\<exists>p d q. fst (demo_login ''j'' account_db) = Inr (p, ''j'', 8 * hour)
     \<and> authenticate_jwt demo_verify ''j'' [] d = (Inr q, [], d) \<and> p_jti q = p_jti p"
proof -
  have all: "case demo_login ''j'' account_db of (Inr x, fs, d) \<Rightarrow>
      (case x of (p, token, expires) \<Rightarrow> p_jti p = ''j'' \<and> token = ''j'' \<and> expires = 8 * hour) | _ \<Rightarrow> False"
    by code_simp
  obtain x fs d where run: "demo_login ''j'' account_db = (Inr x, fs, d)"
    and x: "case x of (p, token, expires) \<Rightarrow> p_jti p = ''j'' \<and> token = ''j'' \<and> expires = 8 * hour"
    by (rule run_cases [OF all])
  obtain p where p: "x = (p, ''j'', 8 * hour)" using x by (cases x) auto
  have ids: "map us_id (db_users account_db) = [1]" and now: "db_now account_db = 0" by code_simp+
  then have set: "us_id u = 1" if "u \<in> set (db_users account_db)" for u
    using that by (metis empty_iff image_eqI list.set(1) list.set(2) list.set_map singletonD)
  have got: "\<exists>q. authenticate_jwt demo_verify ''j'' [] d = (Inr q, [], d)
      \<and> q = p\<lparr>p_user := seen_at (Some (db_now account_db)) (db_now account_db) (p_user p)\<rparr>"
    by (rule login_token_authenticates [OF run [unfolded demo_login_def p]])
      (auto simp: demo_sign_def demo_verify_def ids now set session_lifetime_def hour_def minute_def second_def
        int64_min_def int64_max_def split: if_splits)
  show ?thesis using run p got
    by (intro exI [of _ p] exI [of _ d] exI [of _ "p\<lparr>p_user := seen_at (Some 0) 0 (p_user p)\<rparr>"]) (simp add: now)
qed

end
