(* ===== verification/Rbac_Properties.thy ===== *)
theory Rbac_Properties
  imports Rbac_Invariant
begin

text \<open>
  The properties of the account and role tables: an administrator can always come back, a mutation
  that fails changes nothing, and a mutation hands out nothing its actor does not hold.
\<close>

section \<open>Permission columns are arrays\<close>

definition perm_arrays :: "store_db \<Rightarrow> bool" where
  "perm_arrays d \<longleftrightarrow> list_all (\<lambda>r. \<exists>ps. ro_permissions r = PermArray ps) (db_roles d)"

lemma perm_arrays_same: "perm_arrays d \<Longrightarrow> db_roles d' = db_roles d \<Longrightarrow> perm_arrays d'"
  by (simp add: perm_arrays_def)

lemma perm_arrays_seed:
  "perm_arrays d \<Longrightarrow> perm_arrays (seed_super_role d)" "perm_arrays d \<Longrightarrow> perm_arrays (seed_user_role d)"
  by (auto simp: perm_arrays_def list_all_iff seed_super_role_def seed_user_role_def system_role_def)

lemma perm_arrays_users [simp]: "perm_arrays (change_users cond f d) \<longleftrightarrow> perm_arrays d"
  by (simp add: perm_arrays_def change_users_def)

lemma keeps_perm_arrays_add:
  "keeps perm_arrays (statement e (\<lambda>d. add_user (row d) d))"
  by (rule keeps_statement) (auto simp: perm_arrays_def dest: add_user_Inr(1))

lemma perm_arrays_add_user: "perm_arrays d \<Longrightarrow> add_user row d = Inr (i, d') \<Longrightarrow> perm_arrays d'"
  by (drule add_user_Inr(1)) (simp add: perm_arrays_def)

lemma keeps_perm_arrays_bind: "keeps perm_arrays (bind_default uid rid)"
  unfolding bind_default_def by (rule keeps_statement) (auto simp: perm_arrays_def split: if_splits)

lemma keeps_perm_arrays_seed: "keeps perm_arrays (seed hash username password)"
  unfolding seed_def seed_body_def seed_user_def
  by (intro inv_intros keeps_exec keeps_perm_arrays_bind, rule keeps_statement)
     (auto intro: perm_arrays_seed perm_arrays_same perm_arrays_add_user split: option.splits if_splits)

lemma keeps_perm_arrays_upsert:
  "keeps perm_arrays (upsert_oidc_user subject username display email department auto)"
  unfolding upsert_oidc_user_def assign_default_role_def update_oidc_row_def
  by (intro inv_intros keeps_perm_arrays_add keeps_perm_arrays_bind, rule keeps_statement)
     (auto split: if_splits)

lemma keeps_perm_arrays_profile:
  "keeps perm_arrays (touch_login uid)" "keeps perm_arrays (update_profile uid display email)"
  "keeps perm_arrays (change_local_password bcrypt matches uid old new)"
  unfolding touch_login_def update_profile_def change_local_password_def
  by (intro inv_intros keeps_exec keeps_statement; auto split: if_splits)+

lemma perm_arrays_save:
  "perm_arrays d \<Longrightarrow> save_role role actor fs d = (r, fs', d') \<Longrightarrow> perm_arrays d'"
  by (drule save_role_outcome) (auto simp: perm_arrays_def added_role_def write_role_def list_all_iff)

lemma perm_arrays_delete:
  "perm_arrays d \<Longrightarrow> delete_role rid actor fs d = (r, fs', d') \<Longrightarrow> perm_arrays d'"
  by (drule delete_role_outcome) (auto simp: perm_arrays_def remove_role_def list_all_iff)

lemma perm_arrays_set_bindings:
  "perm_arrays d \<Longrightarrow> set_user_role_bindings uid bs legacy actor fs d = (r, fs', d') \<Longrightarrow> perm_arrays d'"
  by (drule set_bindings_outcome) (auto simp: perm_arrays_def)

interpretation arrays: invariant_system bootstrapped rbac_step perm_arrays
proof
  fix d
  assume "bootstrapped d"
  moreover have "perm_arrays (fresh_store now)" for now by (simp add: perm_arrays_def fresh_store_def)
  ultimately show "perm_arrays d"
    using keepsD [OF keeps_perm_arrays_seed] unfolding bootstrapped_def by blast
next
  fix d d'
  assume p: "perm_arrays d" and "rbac_step d d'"
  from \<open>rbac_step d d'\<close> show "perm_arrays d'"
  proof cases
    case boot
    then show ?thesis using keepsD [OF keeps_perm_arrays_seed p] by blast
  next
    case save
    then show ?thesis using perm_arrays_save p by blast
  next
    case delete
    then show ?thesis using perm_arrays_delete p by blast
  next
    case bind
    then show ?thesis using perm_arrays_set_bindings p by blast
  next
    case oidc
    then show ?thesis using keepsD [OF keeps_perm_arrays_upsert p] by blast
  next
    case login
    then show ?thesis using keepsD [OF keeps_perm_arrays_profile(1) p] by blast
  next
    case profile
    then show ?thesis using keepsD [OF keeps_perm_arrays_profile(2) p] by blast
  next
    case password
    then show ?thesis using keepsD [OF keeps_perm_arrays_profile(3) p] by blast
  next
    case elsewhere
    then show ?thesis using p by (simp add: perm_arrays_def)
  qed
qed

section \<open>What the actor holds\<close>

text \<open>The abstract reading of "the actor holds \<open>p\<close>": the account is active and a role bound to it in
  global mode has a permission that covers \<open>p\<close>.\<close>

definition holds_globally :: "int \<Rightarrow> string \<Rightarrow> store_db \<Rightarrow> bool" where
  "holds_globally actor p d \<longleftrightarrow>
     (\<exists>u \<in> set (db_users d). us_id u = actor \<and> us_active u) \<and>
     (\<exists>b \<in> set (db_user_roles d). bi_user_id b = actor \<and> bi_scope_mode b = ''global''
        \<and> (\<exists>r \<in> set (db_roles d). \<exists>ps. ro_id r = bi_role_id b \<and> ro_permissions r = PermArray ps
             \<and> (\<exists>q \<in> set ps. covers_one q p)))"

lemma collect_raw_sound:
  "collect_raw raws acc = Inr ps \<Longrightarrow> p \<in> set ps \<Longrightarrow>
     p \<in> set acc \<or> (\<exists>qs. PermArray qs \<in> set raws \<and> p \<in> set qs)"
proof (induction raws arbitrary: acc)
  case Nil
  then show ?case by simp
next
  case (Cons raw raws)
  then obtain qs where raw: "raw = PermArray qs"
    and r: "collect_raw raws (collect_permissions acc qs) = Inr ps"
    by (cases raw) (auto simp: res_bind_Inr_iff)
  from Cons.IH [OF r Cons.prems(2)] raw show ?case
    using set_collect_permissions [of acc qs] by auto
qed

lemma collect_raw_star:
  "collect_raw raws acc = Inr ps \<Longrightarrow>
     ''*'' \<in> set ps \<longleftrightarrow> ''*'' \<in> set acc \<or> (\<exists>raw \<in> set raws. has_star raw)"
proof (induction raws arbitrary: acc)
  case Nil
  then show ?case by simp
next
  case (Cons raw raws)
  then obtain qs where raw: "raw = PermArray qs"
    and r: "collect_raw raws (collect_permissions acc qs) = Inr ps"
    by (cases raw) (auto simp: res_bind_Inr_iff)
  from Cons.IH [OF r] raw show ?case by simp
qed

lemma actor_holds:
  assumes "role_mutation_actor_ceiling actor fs d = (Inr aps, fs', d')" and "0 < actor"
    and "ensure_permission aps p"
  shows "holds_globally actor p d"
proof -
  from assms(1,2) have act: "\<exists>u \<in> set (db_users d). us_id u = actor \<and> us_active u"
    by (auto simp: role_mutation_actor_ceiling_def tx_Inr split: if_splits dest!: find_user_Some)
  from actor_ceiling_Inr(2) [OF assms(1,2)] have c: "collect_raw (map ro_permissions
      (joined_roles (\<lambda>b. bi_user_id b = actor \<and> bi_scope_mode b = ''global'') d)) [] = Inr aps" by simp
  from assms(3) obtain q where q: "q \<in> set aps" "covers_one q p" by (auto simp: ensure_permission_iff)
  from collect_raw_sound [OF c q(1)] q(2) act show ?thesis
    unfolding holds_globally_def by (auto simp: set_joined_roles) metis
qed

lemma ceiling_holds:
  assumes "role_mutation_actor_ceiling actor fs d = (Inr aps, fs', d')" and "0 < actor"
    and "permissions_within_ceiling ps aps" and "p \<in> set ps"
  shows "holds_globally actor p d"
  using actor_holds [OF assms(1,2)] assms(3,4) by (simp add: within_ceiling_iff list_all_iff)

section \<open>An administrator always remains\<close>

text \<open>The bootstrap of a fresh database succeeds when no statement fails.\<close>

lemma foreach_exec_ok: "foreach (\<lambda>x. exec e (f x)) xs [] d = (Inr (), [], fold f xs d)"
  by (induction xs arbitrary: d) (simp_all add: tx_bind_def tx_simps)

lemma seed_fresh_ok:
  assumes "bcrypt password = Some hash"
  shows "fst (seed bcrypt username password [] (fresh_store now)) = Inr ()"
  using assms
  by (simp add: seed_def transaction_def seed_body_def seed_user_def tx_bind_def statement_def exec_def
        find_username_def add_user_def fresh_store_def query_row_def seed_super_role_def
        system_role_def bind_default_def find_user_def find_role_def seed_user_role_def
        foreach_exec_ok [unfolded exec_def])

definition demo_boot :: store_db where
  "demo_boot = snd (snd (seed (\<lambda>p. Some p) ''admin'' ''changeme'' [] (fresh_store 0)))"

lemma demo_boot: "bootstrapped demo_boot"
  unfolding bootstrapped_def demo_boot_def
  using seed_fresh_ok [of "\<lambda>p. Some p" "''changeme''"] by (metis prod.collapse)

lemma demo_delete_step: "rbac_step d (snd (snd (delete_role rid actor fs d)))"
  using delete [of rid actor fs d "fst (delete_role rid actor fs d)"
      "fst (snd (delete_role rid actor fs d))"] by simp

text \<open>C1: In every state the program can reach from a bootstrapped database, whatever calls were made,
  by whom, and whichever of their statements failed, some active account has a role with the global
  wildcard.\<close>

theorem super_admin_always_present:
  assumes "reach bootstrapped rbac_step d"
  shows "active_wildcard_binding (\<lambda>_. True) d"
  using rbac.reach_inv [OF assms] by (simp add: rbac_inv_def super_admin_present_def)

theorem super_admin_always_present_witness:
  "active_wildcard_binding (\<lambda>_. True) (snd (snd (delete_role 1 1 [] demo_boot)))"
  by (rule super_admin_always_present, rule reach_move, rule reach_start, rule demo_boot,
      rule demo_delete_step)

section \<open>And can do everything\<close>

lemma access_rows_consistent:
  assumes "tables_ok d"
  shows "rows_consistent (access_rows uid d)"
proof -
  have r: "r \<in> set (db_roles d) \<Longrightarrow> s \<in> set (db_roles d) \<Longrightarrow> ro_id r = ro_id s \<Longrightarrow> r = s" for r s
    using assms by (rule unique_role)
  have b: "a \<in> set (db_user_roles d) \<Longrightarrow> b \<in> set (db_user_roles d) \<Longrightarrow> bi_user_id a = bi_user_id b \<Longrightarrow>
      bi_role_id a = bi_role_id b \<Longrightarrow> a = b" for a b
    using assms by (auto simp: tables_ok_def distinct_map inj_on_def)
  show ?thesis
    unfolding rows_consistent_def access_rows_def set_sort
    using r b by (auto, metis+)
qed

lemma clause_rows_nonempty: "clause_rows uid rid d \<noteq> []"
  by (simp add: clause_rows_def Let_def)

lemma access_row_exists:
  assumes "b \<in> set (db_user_roles d)" "bi_user_id b = uid" "r \<in> set (db_roles d)" "ro_id r = bi_role_id b"
  shows "\<exists>row \<in> set (access_rows uid d). ar_role_id row = ro_id r \<and> ar_raw row = ro_permissions r
    \<and> ar_scope_mode row = bi_scope_mode b"
proof -
  obtain c where "c \<in> set (clause_rows uid (ro_id r) d)"
    using clause_rows_nonempty by (metis list.set_sel(1))
  then show ?thesis
    using assms unfolding access_rows_def set_sort by (auto intro!: bexI [of _ r] bexI [of _ b] bexI [of _ c])
qed

lemma hydrated_star:
  assumes "tables_ok d" and "b \<in> set (db_user_roles d)" "bi_user_id b = u_id u"
    and "bi_scope_mode b = ''global''" and "r \<in> set (db_roles d)" "ro_id r = bi_role_id b"
    and "ro_permissions r = PermArray ps" "''*'' \<in> set ps"
  shows "\<exists>g. u_global_permissions (populate_rows (access_rows (u_id u) d) u) = Some g \<and> ''*'' \<in> set g"
proof -
  from access_row_exists [OF assms(2,3,5,6)] obtain row where row: "row \<in> set (access_rows (u_id u) d)"
    "ar_raw row = ro_permissions r" "ar_scope_mode row = ''global''"
    using assms(4) by auto
  then have "\<exists>x \<in> set (access_rows (u_id u) d). ar_scope_mode x = ''global''
      \<and> ''*'' \<in> set (decoded_or_partial (ar_raw x))"
    using assms(7,8) by (intro bexI [of _ row]) auto
  then show ?thesis
    unfolding populate_rows_def Let_def
    using populate_rows_star [OF _ access_rows_consistent [OF assms(1)],
        of "u\<lparr>u_roles := [], u_permissions := [], u_global_permissions := Some [],
          u_scoped_permissions := [], u_role_bindings := [], u_permission_grants := []\<rparr>" "[]" "u_id u"]
    by (auto simp: binding_ids_def)
qed

text \<open>And that account can use it: in every reachable state some user, read back by \<^verbatim>\<open>GetUser\<close>, is
  active and has global permissions that allow every permission there is.\<close>

theorem some_user_allows_everything:
  assumes "reach bootstrapped rbac_step d"
  shows "\<exists>uid u. get_user uid [] d = (Inr u, [], d) \<and> u_active u
     \<and> (\<forall>permission. ensure_permission (the (u_global_permissions u)) permission)"
proof -
  have ok: "tables_ok d" and adm: "super_admin_present d" and arr: "perm_arrays d"
    using rbac.reach_inv [OF assms] arrays.reach_inv [OF assms] by (auto simp: rbac_inv_def)
  from adm obtain b v r where b: "b \<in> set (db_user_roles d)" "bi_scope_mode b = ''global''"
    and v: "v \<in> set (db_users d)" "us_id v = bi_user_id b" "us_active v"
    and r: "r \<in> set (db_roles d)" "ro_id r = bi_role_id b" "has_star (ro_permissions r)"
    by (auto simp: super_admin_present_def active_wildcard_binding_iff)
  from arr r obtain ps where ps: "ro_permissions r = PermArray ps" "''*'' \<in> set ps"
    by (auto simp: perm_arrays_def list_all_iff)
  obtain w where w: "find_user (us_id v) d = Some w"
    using v(1) by (cases "find_user (us_id v) d") (auto simp: find_user_def find_None_iff)
  with find_user_Some [OF w] unique_user [OF ok _ v(1)] have [simp]: "w = v" by blast
  let ?u = "populate_rows (access_rows (u_id (user_of_row v)) d) (user_of_row v)"
  have id: "u_id (user_of_row v) = us_id v" "u_active (user_of_row v) = us_active v"
    by (simp_all add: user_of_row_def)
  have "get_user (us_id v) [] d = (Inr ?u, [], d)"
    using w by (simp add: get_user_def query_row_def statement_def tx_bind_def populate_user_access_def
        query_def tx_return_def)
  moreover have "u_active ?u"
    using v(3) id by simp
  moreover from hydrated_star [OF ok b(1) _ b(2) r(1,2) ps, of "user_of_row v"] v(2) id
  have "ensure_permission (the (u_global_permissions ?u)) p" for p
    by (auto simp: ensure_permission_iff intro: bexI [of _ "''*''"])
  ultimately show ?thesis by blast
qed

theorem some_user_allows_everything_witness:
  "\<exists>uid u. get_user uid [] demo_boot = (Inr u, [], demo_boot) \<and> u_active u
     \<and> (\<forall>permission. ensure_permission (the (u_global_permissions u)) permission)"
  by (rule some_user_allows_everything, rule reach_start, rule demo_boot)

section \<open>Nobody hands out more than they hold\<close>

text \<open>A small database for the witnesses: an administrator (1), a delegate (2) whose role manages roles
  and reads hubs, and an ordinary account (3).\<close>

definition demo_role :: "int \<Rightarrow> string \<Rightarrow> string list \<Rightarrow> role_row" where
  "demo_role i key ps = \<lparr>ro_id = i, ro_key = key, ro_name = key, ro_description = [],
     ro_permissions = PermArray ps, ro_system = False, ro_created_at = 0, ro_updated_at = 0\<rparr>"

definition demo_user :: "int \<Rightarrow> string \<Rightarrow> user_row" where
  "demo_user i name = \<lparr>us_id = i, us_username = name, us_display_name = name, us_email = [],
     us_department = [], us_password_hash = None, us_auth_source = ''local'',
     us_external_subject = None, us_active = True, us_last_login_at = None, us_created_at = 0,
     us_updated_at = 0\<rparr>"

definition demo_store :: store_db where
  "demo_store = (fresh_store 0)
     \<lparr>db_users := [demo_user 1 ''root'', demo_user 2 ''deputy'', demo_user 3 ''ann''],
      db_roles := [demo_role 1 ''super_admin'' [''*''],
        demo_role 2 ''deputy'' [''roles:*'', ''hubs:read''], demo_role 3 ''viewer'' [''hubs:read'']],
      db_user_roles := [\<lparr>bi_user_id = 1, bi_role_id = 1, bi_scope_mode = ''global''\<rparr>,
        \<lparr>bi_user_id = 2, bi_role_id = 2, bi_scope_mode = ''global''\<rparr>],
      db_next_user := 4, db_next_role := 4\<rparr>"

definition role_request :: "int \<Rightarrow> string \<Rightarrow> string list \<Rightarrow> role" where
  "role_request i key ps = \<lparr>r_id = i, r_key = key, r_name = key, r_description = [],
     r_permissions = ps, r_system = False, r_created_at = 0, r_updated_at = 0\<rparr>"

lemma save_role_success:
  assumes "save_role input actor fs d = (Inr out, fs', d')"
  obtains aps fs0 fs1 fs2 where "role_mutation_actor_ceiling actor fs0 d = (Inr aps, fs1, d)"
    and "0 < actor \<Longrightarrow> permissions_within_ceiling (r_permissions input) aps"
    and "(if r_id input = 0 then insert_role (trimmed_role input)
          else replace_role (trimmed_role input) actor aps) fs1 d = (Inr out, fs2, d')"
proof -
  from assms obtain fs1 fs2 where "save_role_body (trimmed_role input) actor fs1 d = (Inr out, fs2, d')"
    by (auto dest: save_role_Inr)
  then show thesis by (rule save_body_Inr) (use that in \<open>simp add: trimmed_role_def\<close>)
qed

text \<open>Whoever saves a role on their own authority holds every permission in it, globally, at that
  moment.\<close>

theorem save_role_needs_permissions:
  assumes "save_role input actor fs d = (Inr out, fs', d')" and "0 < actor"
    and "p \<in> set (r_permissions input)"
  shows "holds_globally actor p d"
proof -
  from assms(1) obtain aps fs0 fs1 where "role_mutation_actor_ceiling actor fs0 d = (Inr aps, fs1, d)"
    and "permissions_within_ceiling (r_permissions input) aps"
    by (rule save_role_success) (use assms(2) in blast)
  with assms(2,3) show ?thesis by (blast intro: ceiling_holds)
qed

theorem save_role_needs_permissions_witness:
  "holds_globally 2 ''hubs:read'' demo_store"
proof -
  let ?call = "save_role (role_request 0 ''reader'' [''hubs:read'']) 2 [] demo_store"
  have "is_ok (fst ?call)" by code_simp
  then obtain out where "?call = (Inr out, fst (snd ?call), snd (snd ?call))" by (metis is_ok_iff prod.collapse)
  then show ?thesis by (rule save_role_needs_permissions) (simp_all add: role_request_def)
qed

text \<open>Nor can they weaken a role that is stronger than they are: replacing a role requires holding
  everything it granted before.\<close>

theorem replace_role_needs_old_permissions:
  assumes "save_role input actor fs d = (Inr out, fs', d')" and "0 < actor" and "r_id input \<noteq> 0"
    and "find_role (r_id input) d = Some current" and "ro_permissions current = PermArray ps"
    and "p \<in> set ps"
  shows "holds_globally actor p d"
proof -
  from assms(1) obtain aps fs0 fs1 fs2 where c: "role_mutation_actor_ceiling actor fs0 d = (Inr aps, fs1, d)"
    and r: "(if r_id input = 0 then insert_role (trimmed_role input)
          else replace_role (trimmed_role input) actor aps) fs1 d = (Inr out, fs2, d')"
    by (rule save_role_success)
  from r assms(3) have "replace_role (trimmed_role input) actor aps fs1 d = (Inr out, fs2, d')" by simp
  then have "permissions_within_ceiling ps aps"
    by (rule replace_role_Inr) (use assms(2,4,5) in \<open>auto simp: trimmed_role_def\<close>)
  from ceiling_holds [OF c assms(2) this assms(6)] show ?thesis .
qed

theorem replace_role_needs_old_permissions_witness:
  "holds_globally 2 ''hubs:read'' demo_store"
proof -
  let ?call = "save_role (role_request 3 ''viewer'' [''roles:read'']) 2 [] demo_store"
  have "is_ok (fst ?call)" by code_simp
  then obtain out where "?call = (Inr out, fst (snd ?call), snd (snd ?call))"
    by (metis is_ok_iff prod.collapse)
  then show ?thesis
    by (rule replace_role_needs_old_permissions [where
        current = "demo_role 3 ''viewer'' [''hubs:read'']" and ps = "[''hubs:read'']"])
       (simp_all add: role_request_def demo_store_def demo_role_def find_role_def)
qed

text \<open>C3: The wildcard is only handed on by its holders: assigning a role that contains it requires the
  actor to hold it globally.\<close>

theorem wildcard_only_from_holder:
  assumes "set_user_role_bindings uid bindings legacy actor fs d = (Inr (), fs', d')" and "0 < actor"
    and "b \<in> set bindings" and "r \<in> set (db_roles d)" and "ro_id r = rb_role_id b"
    and "has_star (ro_permissions r)"
  shows "holds_globally actor ''*'' d"
proof -
  from assms(1) obtain bs fs1 fs2 where n: "normalize_bindings_from bindings [] = Inr bs"
    and body: "set_bindings_body uid bs (map rb_role_id bs) legacy actor fs1 d = (Inr (), fs2, d')"
    by (rule set_bindings_Inr)
  from body obtain aps fs3 fs4 where c: "role_mutation_actor_ceiling actor fs3 d = (Inr aps, fs4, d)"
    and g: "\<exists>sps. collect_raw (map ro_permissions
        (filter (\<lambda>r. ro_id r \<in> set (map rb_role_id bs)) (db_roles d))) [] = Inr sps
        \<and> permissions_within_ceiling sps aps"
    by (rule set_bindings_body_Inr) (use assms(2) in blast)
  from g obtain sps where s: "collect_raw (map ro_permissions
        (filter (\<lambda>r. ro_id r \<in> set (map rb_role_id bs)) (db_roles d))) [] = Inr sps"
      "permissions_within_ceiling sps aps" by blast
  have "ro_id r \<in> set (map rb_role_id bs)"
    using assms(3,5) normalize_bindings_from_ids [OF n] by simp
  with assms(4,6) collect_raw_star [OF s(1)] have "''*'' \<in> set sps" by auto
  from ceiling_holds [OF c assms(2) s(2) this] show ?thesis .
qed

definition plain_binding :: "int \<Rightarrow> string \<Rightarrow> role_binding" where
  "plain_binding rid mode = \<lparr>rb_role_id = rid, rb_role_key = [], rb_role_name = [],
     rb_scope_mode = mode, rb_scopes = [], rb_permissions = []\<rparr>"

theorem wildcard_only_from_holder_witness: "holds_globally 1 ''*'' demo_store"
proof -
  let ?call = "set_user_role_bindings 3 [plain_binding 1 ''global''] False 1 [] demo_store"
  have "fst ?call = Inr ()" by code_simp
  then have "?call = (Inr (), fst (snd ?call), snd (snd ?call))" by (metis prod.collapse)
  then show ?thesis
    by (rule wildcard_only_from_holder [where b = "plain_binding 1 ''global''" and r = "demo_role 1 ''super_admin'' [''*'']"])
       (simp_all add: demo_store_def demo_role_def plain_binding_def)
qed

text \<open>A failed assignment of roles has changed nothing, whichever check or statement failed: no user is
  left without the bindings that were about to be replaced.\<close>

theorem failed_binding_change_is_atomic:
  assumes "set_user_role_bindings uid bindings legacy actor fs d = (Inl e, fs', d')"
  shows "d' = d"
  using assms by (rule set_bindings_Inl)

theorem failed_binding_change_is_atomic_witness:
  "snd (snd (set_user_role_bindings 2 [plain_binding 3 ''global''] False 1
     [False, False, False, False, False, False, False, False, False, False, False, False, False, True]
     demo_store)) = demo_store"
proof -
  let ?call = "set_user_role_bindings 2 [plain_binding 3 ''global''] False 1
     [False, False, False, False, False, False, False, False, False, False, False, False, False, True]
     demo_store"
  have "fst ?call = Inl DbError" by code_simp
  then have "?call = (Inl DbError, fst (snd ?call), snd (snd ?call))" by (metis prod.collapse)
  then show ?thesis by (rule failed_binding_change_is_atomic)
qed

section \<open>Permissions that differ in case only\<close>

text \<open>The ceiling of an assignment is checked on the collected permissions of the selected roles, and
  collecting skips a permission that an earlier one equals up to case. A role whose permission
  differs in case from one the actor holds therefore passes.\<close>

definition case_store :: store_db where
  "case_store = (fresh_store 0)
     \<lparr>db_users := [demo_user 1 ''root'', demo_user 2 ''deputy'', demo_user 3 ''ann''],
      db_roles := [demo_role 1 ''super_admin'' [''*''],
        demo_role 2 ''deputy'' [''roles:write'', ''HUBS:write''], demo_role 3 ''b'' [''HUBS:write''],
        demo_role 4 ''a'' [''hubs:write'']],
      db_user_roles := [\<lparr>bi_user_id = 1, bi_role_id = 1, bi_scope_mode = ''global''\<rparr>,
        \<lparr>bi_user_id = 2, bi_role_id = 2, bi_scope_mode = ''global''\<rparr>],
      db_next_user := 4, db_next_role := 5\<rparr>"

text \<open>The ceiling has a gap: an actor who does not hold \<^verbatim>\<open>hubs:write\<close> assigns two roles of which one grants
  it, and the target user, read back, is allowed it.\<close>

theorem ceiling_misses_case_variant:
  "(case set_user_role_bindings 3 [plain_binding 3 ''global'', plain_binding 4 ''global''] False 2 []
         case_store of
      (Inr (), _, d) \<Rightarrow> (case get_user 3 [] d of
          (Inr u, _, _) \<Rightarrow> ensure_permission (the (u_global_permissions u)) ''hubs:write''
        | _ \<Rightarrow> False)
    | _ \<Rightarrow> False)
   \<and> (case get_user 2 [] case_store of
        (Inr u, _, _) \<Rightarrow> \<not> ensure_permission (the (u_global_permissions u)) ''hubs:write''
      | _ \<Rightarrow> False)"
  by code_simp

end
