(* ===== verification/Account_Api.thy ===== *)
theory Account_Api
  imports Auth_Properties Rbac_Properties Resources
begin

text \<open>The handlers of roles, of the roles of users, of the lists of users, servers and audit entries
  (\<^verbatim>\<open>internal/api/core_handlers.go\<close>), with the reads of \<^verbatim>\<open>internal/store/users.go\<close> they use. \<open>ordered\<close> is the
  permutation of an ORDER BY clause, \<open>decode_time\<close> the decoding of a time member, as for the other lists.\<close>

section \<open>Reads\<close>

fun populate_all :: "user list \<Rightarrow> user list store_tx" where
  "populate_all [] = tx_return []"
| "populate_all (u # us) =
     tx_bind (populate_user_access u) (\<lambda>v. tx_bind (populate_all us) (\<lambda>vs. tx_return (v # vs)))"

definition list_local_users ::
  "(string \<Rightarrow> user_row list \<Rightarrow> user_row list) \<Rightarrow> int \<Rightarrow> int \<Rightarrow> string \<Rightarrow> (user list \<times> page_info) store_tx" where
  "list_local_users ordered page page_size search =
     (let (page1, limit, offset) = page_bounds page page_size;
          search1 = trim_space search;
          matching = (\<lambda>u. search1 = [] \<or> list_ex (ilike (search_pattern search1))
            [us_username u, us_display_name u, us_email u])
      in tx_bind (query DbError (\<lambda>d. length (filter matching (db_users d)))) (\<lambda>total.
         tx_bind (query DbError (\<lambda>d. page_of limit offset (ordered ''username'' (filter matching (db_users d))))) (\<lambda>rows.
         tx_bind (populate_all (map user_of_row rows)) (\<lambda>users.
         tx_return (users, \<lparr>pi_page = page1, pi_page_size = limit, pi_total = int total\<rparr>)))))"

definition role_of_row :: "role_row \<Rightarrow> string list \<Rightarrow> role" where
  "role_of_row r permissions =
     \<lparr>r_id = ro_id r, r_key = ro_key r, r_name = ro_name r, r_description = ro_description r,
       r_permissions = permissions, r_system = ro_system r, r_created_at = ro_created_at r, r_updated_at = ro_updated_at r\<rparr>"

definition list_roles :: "(string \<Rightarrow> role_row list \<Rightarrow> role_row list) \<Rightarrow> role list store_tx" where
  \<comment> \<open>the error of an undecodable permission document is dropped\<close>
  "list_roles ordered =
     query DbError (\<lambda>d. map (\<lambda>r. role_of_row r (decoded_or_partial (ro_permissions r))) (ordered ''role_key'' (db_roles d)))"

definition get_role :: "int \<Rightarrow> role store_tx" where
  "get_role rid =
     tx_bind (query_row DbError ErrNotFound (find_role rid)) (\<lambda>row.
     tx_bind (tx_lift (unmarshal_permissions (ro_permissions row))) (\<lambda>permissions.
     tx_return (role_of_row row permissions)))"

definition list_audit ::
  "(string \<Rightarrow> audit_row list \<Rightarrow> audit_row list) \<Rightarrow> int \<Rightarrow> int \<Rightarrow> sort_request \<Rightarrow> (audit_row list \<times> page_info) store_tx" where
  "list_audit ordered page page_size s =
     (let (page1, limit, offset) = page_bounds page page_size;
          clause = order_by audit_sort_columns s ''created_at DESC'' ''id''
      in tx_bind (query DbError (\<lambda>d. length (db_audit d))) (\<lambda>total.
         tx_bind (query DbError (\<lambda>d. page_of limit offset (ordered clause (db_audit d)))) (\<lambda>items.
         tx_return (items, \<lparr>pi_page = page1, pi_page_size = limit, pi_total = int total\<rparr>))))"

section \<open>Bodies\<close>

definition time_field :: "(json \<Rightarrow> time option) \<Rightarrow> json_object \<Rightarrow> string \<Rightarrow> time option" where
  "time_field decode_time m key = (case lookup m key of JNull \<Rightarrow> Some zero_time | v \<Rightarrow> decode_time v)"

definition decode_role :: "(json \<Rightarrow> time option) \<Rightarrow> json option \<Rightarrow> role option" where
  "decode_role decode_time body =
     (case (case body of None \<Rightarrow> None | Some v \<Rightarrow> object_members v) of
        None \<Rightarrow> None
      | Some m \<Rightarrow>
          (case (int_field m ''id'', string_field m ''key'', string_field m ''name'', string_field m ''description'',
                 strings_field m ''permissions'', bool_field m ''system'', time_field decode_time m ''created_at'',
                 time_field decode_time m ''updated_at'') of
             (Some rid, Some key, Some name, Some description, Some permissions, Some system, Some created, Some updated) \<Rightarrow>
               Some \<lparr>r_id = rid, r_key = key, r_name = name, r_description = description, r_permissions = permissions,
                      r_system = system, r_created_at = created, r_updated_at = updated\<rparr>
           | _ \<Rightarrow> None))"

fun decode_list :: "(json \<Rightarrow> 'a option) \<Rightarrow> json list \<Rightarrow> 'a list option" where
  "decode_list decode [] = Some []"
| "decode_list decode (v # vs) =
     (case decode v of None \<Rightarrow> None | Some x \<Rightarrow> map_option ((#) x) (decode_list decode vs))"

definition decode_integer :: "json \<Rightarrow> int option" where
  \<comment> \<open>null leaves the zero value\<close>
  "decode_integer v = int_field [(''v'', v)] ''v''"

definition decode_clause :: "json \<Rightarrow> scope_clause option" where
  "decode_clause v =
     (case object_members v of
        None \<Rightarrow> None
      | Some m \<Rightarrow>
          (case (string_field m ''type'', string_field m ''value'') of
             (Some kind, Some text_value) \<Rightarrow> Some \<lparr>sc_type = kind, sc_value = text_value\<rparr>
           | _ \<Rightarrow> None))"

definition list_field :: "(json \<Rightarrow> 'a option) \<Rightarrow> json_object \<Rightarrow> string \<Rightarrow> 'a list option" where
  "list_field decode m key =
     (case lookup m key of JNull \<Rightarrow> Some [] | JArr vs \<Rightarrow> decode_list decode vs | _ \<Rightarrow> None)"

definition decode_binding :: "json \<Rightarrow> role_binding option" where
  "decode_binding v =
     (case object_members v of
        None \<Rightarrow> None
      | Some m \<Rightarrow>
          (case (int_field m ''role_id'', string_field m ''role_key'', string_field m ''role_name'',
                 string_field m ''scope_mode'', list_field decode_clause m ''scopes'', strings_field m ''permissions'') of
             (Some rid, Some key, Some name, Some mode, Some clauses, Some permissions) \<Rightarrow>
               Some \<lparr>rb_role_id = rid, rb_role_key = key, rb_role_name = name, rb_scope_mode = mode,
                      rb_scopes = clauses, rb_permissions = permissions\<rparr>
           | _ \<Rightarrow> None))"

text \<open>A pointer to a slice: absent and null are \<^verbatim>\<open>nil\<close>.\<close>

definition pointer_field :: "(json \<Rightarrow> 'a option) \<Rightarrow> json_object \<Rightarrow> string \<Rightarrow> 'a list option option" where
  "pointer_field decode m key =
     (case lookup m key of JNull \<Rightarrow> Some None | JArr vs \<Rightarrow> map_option Some (decode_list decode vs) | _ \<Rightarrow> None)"

datatype roles_input = RoleIds "int list" | Bindings "role_binding list"

definition plain_scope :: "role_binding \<Rightarrow> role_binding" where
  \<comment> \<open>the three members of a binding that are copied\<close>
  "plain_scope b = b\<lparr>rb_role_key := [], rb_role_name := [], rb_permissions := []\<rparr>"

definition global_binding :: "int \<Rightarrow> role_binding" where
  "global_binding rid = \<lparr>rb_role_id = rid, rb_role_key = [], rb_role_name = [], rb_scope_mode = ''global'',
     rb_scopes = [], rb_permissions = []\<rparr>"

definition decode_roles_input :: "json option \<Rightarrow> (http_error, roles_input) res" where
  "decode_roles_input body =
     (case (case body of None \<Rightarrow> None | Some v \<Rightarrow> object_members v) of
        None \<Rightarrow> Inl (400, ''invalid_json'')
      | Some m \<Rightarrow>
          (case (pointer_field decode_integer m ''role_ids'', pointer_field decode_binding m ''bindings'') of
             (Some (Some ids), Some None) \<Rightarrow> Inr (RoleIds ids)
           | (Some None, Some (Some bs)) \<Rightarrow> Inr (Bindings (map plain_scope bs))
           | (Some _, Some _) \<Rightarrow> Inl (400, ''invalid_role_bindings'')
           | _ \<Rightarrow> Inl (400, ''invalid_json'')))"

definition wanted_bindings :: "roles_input \<Rightarrow> role_binding list" where
  "wanted_bindings input = (case input of RoleIds ids \<Rightarrow> map global_binding ids | Bindings bs \<Rightarrow> bs)"

section \<open>Refusals\<close>

definition permissions_within :: "string list \<Rightarrow> string list \<Rightarrow> bool" where
  "permissions_within candidate held = (candidate = [] \<or> scopes_within_permissions candidate held)"

definition rbac_failure :: "store_error \<Rightarrow> http_error option" where
  "rbac_failure e =
     (if e = ErrImmutableRole then Some (409, ''protected_super_admin'')
      else if e = ErrLastSuperAdmin then Some (409, ''last_super_admin'')
      else if e = ErrScopeRequired then Some (409, ''scope_aware_client_required'')
      else if e = ErrRoleGrantCeiling then Some (403, ''role_grant_ceiling'')
      else None)"

definition role_failure :: "store_error \<Rightarrow> http_error" where
  "role_failure e = (case rbac_failure e of Some f \<Rightarrow> f | None \<Rightarrow> (400, ''invalid_role''))"

definition delete_failure :: "store_error \<Rightarrow> http_error" where
  "delete_failure e = (case rbac_failure e of Some f \<Rightarrow> f | None \<Rightarrow> store_failure e)"

definition bindings_failure :: "store_error \<Rightarrow> http_error" where
  "bindings_failure e =
     (case rbac_failure e of
        Some f \<Rightarrow> f
      | None \<Rightarrow> if e = ErrNotFound then store_failure e else (400, ''invalid_role_bindings''))"

section \<open>Documents of the audit\<close>

definition json_of_role :: "(time \<Rightarrow> string) \<Rightarrow> role \<Rightarrow> json" where
  "json_of_role show_time r =
     JObj [(''id'', JNum (of_int (r_id r))), (''key'', JStr (r_key r)), (''name'', JStr (r_name r)),
       (''description'', JStr (r_description r)), (''permissions'', JArr (map JStr (r_permissions r))),
       (''system'', JBool (r_system r)), (''created_at'', JStr (show_time (r_created_at r))),
       (''updated_at'', JStr (show_time (r_updated_at r)))]"

definition json_of_binding :: "role_binding \<Rightarrow> json" where
  "json_of_binding b =
     JObj [(''role_id'', JNum (of_int (rb_role_id b))), (''role_key'', JStr (rb_role_key b)),
       (''role_name'', JStr (rb_role_name b)), (''scope_mode'', JStr (rb_scope_mode b)),
       (''scopes'', JArr (map (\<lambda>c. JObj [(''type'', JStr (sc_type c)), (''value'', JStr (sc_value c))]) (rb_scopes b))),
       (''permissions'', JArr (map JStr (rb_permissions b)))]"

section \<open>Handlers\<close>

definition local_users ::
  "(string \<Rightarrow> user_row list \<Rightarrow> user_row list) \<Rightarrow> request \<Rightarrow> (user list \<times> page_info) handler" where
  "local_users ordered r =
     tx_bind (page_query r 20) (\<lambda>(page, page_size).
     store_call (list_local_users ordered page page_size (rq_query r ''search'')))"

definition managed_users ::
  "(string \<Rightarrow> managed_row list \<Rightarrow> managed_row list) \<Rightarrow> request \<Rightarrow> (managed_view list \<times> page_info) handler" where
  "managed_users ordered r =
     tx_bind (scoped_access r ''users:read'') (\<lambda>access.
     tx_bind (page_query r 20) (\<lambda>(page, page_size).
     tx_bind (query_int_or_reject r ''hub_id'' 0) (\<lambda>hid.
     store_call (list_managed_users ordered page page_size hid (rq_query r ''search'') access (list_sort r)))))"

definition servers_handler ::
  "(string \<Rightarrow> server_row list \<Rightarrow> server_row list) \<Rightarrow> request \<Rightarrow> (server_view list \<times> page_info) handler" where
  "servers_handler ordered r =
     tx_bind (scoped_access r ''servers:read'') (\<lambda>access.
     tx_bind (page_query r 20) (\<lambda>(page, page_size).
     tx_bind (query_int_or_reject r ''hub_id'' 0) (\<lambda>hid.
     store_call (list_servers ordered page page_size hid (rq_query r ''status'') (rq_query r ''search'') access
       (list_sort r)))))"

definition audit_list ::
  "(string \<Rightarrow> audit_row list \<Rightarrow> audit_row list) \<Rightarrow> request \<Rightarrow> (audit_row list \<times> page_info) handler" where
  "audit_list ordered r =
     tx_bind (page_query r 50) (\<lambda>(page, page_size). store_call (list_audit ordered page page_size (list_sort r)))"

definition ceiling_of :: "request \<Rightarrow> string list" where
  "ceiling_of r = global_permission_set (rq_principal r)"

definition role_to_save :: "request \<Rightarrow> role \<Rightarrow> role handler" where
  "role_to_save r input =
     (if rq_path_value r ''id'' = [] then tx_return input
      else
        tx_bind (path_id r) (\<lambda>rid.
        tx_bind (store_call (get_role rid)) (\<lambda>current.
        if \<not> permissions_within (r_permissions current) (ceiling_of r) then api_error 403 ''role_grant_ceiling''
        else tx_return (input\<lparr>r_id := rid, r_key := if r_system current then r_key current else r_key input\<rparr>))))"

definition role_save :: "(json \<Rightarrow> time option) \<Rightarrow> (time \<Rightarrow> string) \<Rightarrow> json option \<Rightarrow> request \<Rightarrow> role handler" where
  "role_save decode_time show_time body r =
     (case decode_role decode_time body of
        None \<Rightarrow> api_error 400 ''invalid_json''
      | Some input \<Rightarrow>
          tx_bind (role_to_save r input) (\<lambda>role.
          if \<not> is_ok (validate_scopes (r_permissions role)) then api_error 400 ''invalid_role_permissions''
          else if \<not> permissions_within (r_permissions role) (ceiling_of r) then api_error 403 ''role_grant_ceiling''
          else
            tx_bind (tx_map_error role_failure (save_role role (actor_id r))) (\<lambda>saved.
            tx_bind (audit (request_audit r ''role.save'' ''role'' (format_int (r_id saved)) ''success'' [] None
              (Some (json_of_role show_time saved)))) (\<lambda>_.
            tx_return saved))))"

definition role_delete :: "request \<Rightarrow> unit handler" where
  "role_delete r =
     tx_bind (path_id r) (\<lambda>rid.
     tx_bind (store_call (get_role rid)) (\<lambda>role.
     if \<not> permissions_within (r_permissions role) (ceiling_of r) then api_error 403 ''role_grant_ceiling''
     else
       tx_bind (tx_map_error delete_failure (delete_role rid (actor_id r))) (\<lambda>_.
       audit (request_audit r ''role.delete'' ''role'' (format_int rid) ''success'' [] None None))))"

fun check_wanted :: "string list \<Rightarrow> int list \<Rightarrow> int list \<Rightarrow> unit handler" where
  "check_wanted held seen [] = tx_return ()"
| "check_wanted held seen (rid # rids) =
     (if rid \<le> 0 then api_error 400 ''invalid_role_id''
      else if rid \<in> set seen then api_error 400 ''duplicate_role_id''
      else
        tx_bind (store_call (get_role rid)) (\<lambda>role.
        if \<not> permissions_within (r_permissions role) held then api_error 403 ''role_grant_ceiling''
        else check_wanted held (rid # seen) rids))"

definition assign_roles :: "int \<Rightarrow> roles_input \<Rightarrow> int \<Rightarrow> unit store_tx" where
  "assign_roles uid input actor =
     (case input of
        RoleIds ids \<Rightarrow> set_user_roles uid ids actor
      | Bindings bs \<Rightarrow> set_user_role_bindings uid bs False actor)"

definition user_roles_put :: "json option \<Rightarrow> request \<Rightarrow> user handler" where
  "user_roles_put body r =
     tx_bind (path_id r) (\<lambda>uid.
     tx_bind (tx_lift (decode_roles_input body)) (\<lambda>input.
     let bindings = wanted_bindings input
     in if 64 < length bindings then api_error 400 ''too_many_roles''
        else
          tx_bind (store_call (get_user uid)) (\<lambda>current.
          if \<not> permissions_within (u_permissions current) (ceiling_of r) then api_error 403 ''role_grant_ceiling''
          else
            tx_bind (check_wanted (ceiling_of r) [] (map rb_role_id bindings)) (\<lambda>_.
            tx_bind (tx_map_error bindings_failure (assign_roles uid input (actor_id r))) (\<lambda>_.
            tx_bind (audit (request_audit r ''user.roles.update'' ''user'' (format_int uid) ''success'' [] None
              (Some (JObj [(''bindings'', JArr (map json_of_binding bindings))])))) (\<lambda>_.
            store_call (get_user uid)))))))"

section \<open>Roles change only in a session that may write them\<close>

text \<open>
  The three routes that manage roles (\<^verbatim>\<open>registerCore\<close>), with the authentication in front of them. The tables of roles
  change in two more places, which are not role management and are modelled elsewhere: a first single sign-on gives the
  new account the default role (\<^verbatim>\<open>Accounts\<close>), and deleting a hub removes the scope clauses that name it (\<^verbatim>\<open>Hubs\<close>).
\<close>

inductive role_request ::
  "(string \<Rightarrow> claims option) \<Rightarrow> (string \<Rightarrow> string) \<Rightarrow> request \<Rightarrow> faults \<Rightarrow> store_db \<Rightarrow> store_db \<Rightarrow> bool"
  for verify hash r fs d where
  save: "require (authenticate_request verify hash) ''roles:write''
      (interactive_session_only (role_save decode_time show_time body)) r fs d = (saved, fs', d')
    \<Longrightarrow> role_request verify hash r fs d d'"
| delete: "require (authenticate_request verify hash) ''roles:write'' (interactive_session_only role_delete) r fs d
      = (gone, fs', d') \<Longrightarrow> role_request verify hash r fs d d'"
| assign: "require (authenticate_request verify hash) ''roles:write''
      (interactive_session_only (user_roles_put body)) r fs d = (changed, fs', d')
    \<Longrightarrow> role_request verify hash r fs d d'"

definition same_grants :: "store_db \<Rightarrow> store_db \<Rightarrow> bool" where
  "same_grants d0 d \<longleftrightarrow>
     db_users d = db_users d0 \<and> db_roles d = db_roles d0 \<and> db_user_roles d = db_user_roles d0 \<and> db_clauses d = db_clauses d0"

text \<open>Either nothing changed, or the actor held the permission to write roles.\<close>

definition guarded :: "int \<Rightarrow> store_db \<Rightarrow> store_db \<Rightarrow> bool" where
  "guarded actor d0 d \<longleftrightarrow> same_grants d0 d \<or> (0 < actor \<longrightarrow> holds_globally actor ''roles:write'' d0)"

lemma same_holds: "same_grants d0 d \<Longrightarrow> holds_globally actor p d = holds_globally actor p d0"
  by (simp add: same_grants_def holds_globally_def)

lemma ceiling_guard:
  assumes "role_mutation_actor_ceiling actor fs d = (Inr aps, fs', d1)" and "guarded actor d0 d"
  shows "guarded actor d0 x"
proof -
  have "holds_globally actor ''roles:write'' d" if "0 < actor"
    using actor_holds [OF assms(1) that] actor_ceiling_Inr(2) [OF assms(1) that] by blast
  with assms(2) same_holds show ?thesis unfolding guarded_def by blast
qed

lemma keeps_guarded:
  assumes "\<And>fs d e fs' d'. m fs d = (Inl e, fs', d') \<Longrightarrow> d' = d"
    and "\<And>fs d a fs' d'. m fs d = (Inr a, fs', d') \<Longrightarrow> \<exists>fs1 aps fs2 d1. role_mutation_actor_ceiling actor fs1 d = (Inr aps, fs2, d1)"
  shows "keeps (guarded actor d0) m"
  unfolding keeps_def
proof (intro allI impI)
  fix fs d r fs' d'
  assume g: "guarded actor d0 d" and run: "m fs d = (r, fs', d')"
  show "guarded actor d0 d'"
  proof (cases r)
    case (Inl e)
    with run assms(1) g show ?thesis by blast
  next
    case (Inr a)
    with run assms(2) obtain fs1 aps fs2 d1 where "role_mutation_actor_ceiling actor fs1 d = (Inr aps, fs2, d1)" by blast
    then show ?thesis using g by (rule ceiling_guard)
  qed
qed

lemma keeps_guarded_save [inv_intros]: "keeps (guarded actor d0) (save_role input actor)"
  by (rule keeps_guarded) (blast dest: save_role_Inl elim: save_role_success)+

lemma keeps_guarded_delete [inv_intros]: "keeps (guarded actor d0) (delete_role rid actor)"
proof (rule keeps_guarded)
  show "d' = d" if "delete_role rid actor fs d = (Inl e, fs', d')" for fs d e fs' d'
    using that unfolding delete_role_def by (rule transaction_atomic)
  show "\<exists>fs1 aps fs2 d1. role_mutation_actor_ceiling actor fs1 d = (Inr aps, fs2, d1)"
    if "delete_role rid actor fs d = (Inr a, fs', d')" for fs d a fs' d'
  proof -
    from that obtain fs1 fs2 where "delete_role_body rid actor fs1 d = (Inr a, fs2, d')" by (blast dest: delete_role_Inr)
    then show ?thesis by (rule delete_body_Inr) blast
  qed
qed

lemma keeps_guarded_bindings: "keeps (guarded actor d0) (set_user_role_bindings uid bindings legacy actor)"
proof (rule keeps_guarded)
  show "d' = d" if "set_user_role_bindings uid bindings legacy actor fs d = (Inl e, fs', d')" for fs d e fs' d'
    using that by (rule set_bindings_Inl)
  show "\<exists>fs1 aps fs2 d1. role_mutation_actor_ceiling actor fs1 d = (Inr aps, fs2, d1)"
    if "set_user_role_bindings uid bindings legacy actor fs d = (Inr a, fs', d')" for fs d a fs' d'
  proof -
    from that obtain bs fs1 fs2 where "set_bindings_body uid bs (map rb_role_id bs) legacy actor fs1 d = (Inr a, fs2, d')"
      by (rule set_bindings_Inr)
    then show ?thesis by (rule set_bindings_body_calls) blast
  qed
qed

lemma keeps_guarded_assign [inv_intros]: "keeps (guarded actor d0) (assign_roles uid input actor)"
  by (cases input) (simp_all add: assign_roles_def set_user_roles_def keeps_guarded_bindings)

lemma keeps_guarded_audit [inv_intros]: "keeps (guarded actor d0) (audit e)"
  unfolding audit_def record_audit_def
  by (intro inv_intros keeps_exec) (simp add: guarded_def same_grants_def)

lemma keeps_get_role [inv_intros]: "keeps I (get_role rid)"
  unfolding get_role_def by (intro inv_intros)

lemma keeps_check_wanted [inv_intros]: "keeps I (check_wanted held seen rids)"
  by (induction rids arbitrary: seen) (auto intro!: inv_intros)

lemma keeps_guarded_handlers:
  "keeps (guarded (actor_id r) d0) (role_save decode_time show_time body r)"
  "keeps (guarded (actor_id r) d0) (role_delete r)"
  "keeps (guarded (actor_id r) d0) (user_roles_put body r)"
  unfolding role_save_def role_to_save_def role_delete_def user_roles_put_def by (intro inv_intros)+

lemma keeps_authenticate_request: "keeps (same_grants d0) (authenticate_request verify hash r)"
  unfolding authenticate_request_def authenticate_jwt_def authenticate_api_key_def session_active_def Let_def
  by (intro inv_intros keeps_exec) (simp_all add: same_grants_def)

lemma required_session:
  assumes "require authenticate ''roles:write'' (interactive_session_only handler) r fs d = (out, fs', d')"
    and "\<And>d0 r'. keeps (guarded (actor_id r') d0) (handler r')" and "\<And>d0. keeps (same_grants d0) (authenticate r)"
    and "\<not> same_grants d d'"
  shows "\<exists>p fs1 d1. authenticate r fs d = (Inr p, fs1, d1) \<and> allows p ''roles:write'' \<and> p_api_key_id p = 0
    \<and> (0 < u_id (p_user p) \<longrightarrow> holds_globally (u_id (p_user p)) ''roles:write'' d)"
proof -
  obtain x fs1 d1 where auth: "authenticate r fs d = (x, fs1, d1)" by (cases "authenticate r fs d") auto
  have d1: "same_grants d d1" using keepsD [OF assms(3) _ auth, of d] by (simp add: same_grants_def)
  with assms(1,4) auth obtain p where p: "x = Inr p" "allows p ''roles:write''" "p_api_key_id p = 0"
    and run: "handler (r\<lparr>rq_principal := p\<rparr>) fs1 d1 = (out, fs', d')"
    by (cases x) (auto simp: require_def tx_bind_def tx_map_error_def interactive_session_only_def api_error_def
        tx_throw_def split: if_splits)
  have "guarded (actor_id (r\<lparr>rq_principal := p\<rparr>)) d d1" using d1 by (simp add: guarded_def)
  from keepsD [OF assms(2) this run] assms(4) have "0 < u_id (p_user p) \<longrightarrow> holds_globally (u_id (p_user p)) ''roles:write'' d"
    by (simp add: guarded_def actor_id_def)
  with p auth show ?thesis by blast
qed

text \<open>C29: The three routes that manage roles (saving a role, deleting one, setting the roles of a user) change the tables of
  roles, assignments and scope clauses only for a caller with a browser session, never for an API key, and only when both
  the session and the role tables of that moment give that caller the global permission to write roles.\<close>

theorem role_changes_need_session:
  assumes "role_request verify hash r fs d d'"
    and "(db_roles d', db_user_roles d', db_clauses d') \<noteq> (db_roles d, db_user_roles d, db_clauses d)"
  shows "\<exists>p fs1 d1. authenticate_request verify hash r fs d = (Inr p, fs1, d1)
    \<and> allows p ''roles:write'' \<and> p_api_key_id p = 0
    \<and> (0 < u_id (p_user p) \<longrightarrow> holds_globally (u_id (p_user p)) ''roles:write'' d)"
proof -
  from assms(2) have "\<not> same_grants d d'" by (auto simp: same_grants_def)
  with assms(1) show ?thesis
    by cases (erule required_session; (rule keeps_guarded_handlers keeps_authenticate_request | assumption))+
qed

definition deputy_db :: store_db where
  "deputy_db = demo_store\<lparr>db_sessions := [\<lparr>se_jti = ''j'', se_user_id = 2, se_expires_at = 10, se_revoked_at = None,
     se_ip = [], se_agent = []\<rparr>]\<rparr>"

definition deputy_claims :: "string \<Rightarrow> claims option" where
  "deputy_claims token = Some ((demo_claims token)\<lparr>jc_username := ''deputy'', jc_subject := ''2''\<rparr>)"

definition deputy_request :: request where
  "deputy_request = (session_request ''j'')\<lparr>rq_method := ''POST'', rq_path_value := (\<lambda>_. [])\<rparr>"

definition deputy_save :: "(http_error, role) res \<times> faults \<times> store_db" where
  "deputy_save = require (authenticate_request deputy_claims id) ''roles:write''
     (interactive_session_only (role_save (\<lambda>_. None) (\<lambda>_. []) (Some (JObj [(''key'', JStr ''k''), (''name'', JStr ''n''),
       (''permissions'', JArr [JStr ''hubs:read''])])))) deputy_request [] deputy_db"

theorem role_changes_need_session_witness:
  "length (db_roles (snd (snd deputy_save))) = 4
   \<and> (\<exists>p fs1 d1. authenticate_request deputy_claims id deputy_request [] deputy_db = (Inr p, fs1, d1) \<and> allows p ''roles:write'')"
proof -
  have "deputy_save = (fst deputy_save, fst (snd deputy_save), snd (snd deputy_save))" by simp
  then have step: "role_request deputy_claims id deputy_request [] deputy_db (snd (snd deputy_save))"
    unfolding deputy_save_def by (rule role_request.save)
  have n: "length (db_roles (snd (snd deputy_save))) = 4" by code_simp
  have "length (db_roles deputy_db) = 3" by code_simp
  with n have "db_roles (snd (snd deputy_save)) \<noteq> db_roles deputy_db" by auto
  with role_changes_need_session [OF step] n show ?thesis by blast
qed

end
