(* ===== verification/Key_Lifecycle.thy ===== *)
theory Key_Lifecycle
  imports Api_Keys Mail_Service
begin

text \<open>
  The life of an API key under every operation that writes the key table, those of \<^verbatim>\<open>Api_Keys\<close> and the
  expiry notices of \<^verbatim>\<open>Mail_Service\<close>: a key that is no longer active stays so.
\<close>

section \<open>Steps on the key table\<close>

text \<open>
  Every statement of the program that writes \<^verbatim>\<open>api_keys\<close>: the insertion of a key, the stamp of its last
  use, its revocation and its rotation (\<^verbatim>\<open>internal/store/users.go\<close>, \<^verbatim>\<open>api_key_rotation.go\<close>) and the mark
  of the expiry notice (\<^verbatim>\<open>internal/store/mail.go\<close>); no statement deletes a key or a user. Any other
  step leaves the key table and its id counter alone and may change the rest, the clock included.
\<close>

inductive key_step :: "(string \<Rightarrow> string) \<Rightarrow> store_db \<Rightarrow> store_db \<Rightarrow> bool" for hash where
  create: "create_api_key hash random uid name scopes until rf fs d = (r, fs', d') \<Longrightarrow> key_step hash d d'"
| use: "authenticate_api_key hash plain fs d = (u, fs', d') \<Longrightarrow> key_step hash d d'"
| revoke: "revoke_api_key uid kid status fs d = (v, fs', d') \<Longrightarrow> key_step hash d d'"
| rotate: "rotate_api_key hash random uid kid until fs d = (r, fs', d') \<Longrightarrow> key_step hash d d'"
| notify: "expiring_api_keys limit fs d = (g, fs', d') \<Longrightarrow> key_step hash d d'"
| other: "db_keys d' = db_keys d \<Longrightarrow> db_next_key d' = db_next_key d \<Longrightarrow> key_step hash d d'"

inductive_cases key_stepE: "key_step hash d d'"

definition dead_key :: "string \<Rightarrow> store_db \<Rightarrow> bool" where
  "dead_key digest d \<longleftrightarrow> keys_ok d \<and> retired digest d"

lemma dead_key_add:
  assumes "dead_key digest d" and "add_key row d = Inr (new_row, d')"
  shows "dead_key digest d'"
  using assms add_key_Inr [OF assms(2)]
  by (force simp: dead_key_def keys_ok_def retired_def)

lemma dead_key_retire:
  "status \<noteq> ''active'' \<Longrightarrow> dead_key digest d \<Longrightarrow> dead_key digest (retire_key uid kid status d)"
  unfolding dead_key_def retire_key_def by (auto intro!: keys_in_place)

lemma keeps_dead_create: "keeps (dead_key digest) (create_api_key hash random uid name scopes until rf)"
  unfolding create_api_key_def Let_def
  by (intro inv_intros, rule keeps_statement) (auto intro: dead_key_add)

lemma keeps_dead_use: "keeps (dead_key digest) (authenticate_api_key hash plain)"
  unfolding authenticate_api_key_def
  by (intro inv_intros keeps_exec) (auto simp: dead_key_def intro!: keys_in_place split: if_splits)

lemma keeps_dead_revoke: "keeps (dead_key digest) (revoke_api_key uid kid status)"
  unfolding revoke_api_key_def Let_def
  by (rule keeps_statement) (auto split: if_splits intro!: dead_key_retire)

lemma keeps_dead_rotate: "keeps (dead_key digest) (rotate_api_key hash random uid kid until)"
  unfolding rotate_api_key_def rotate_body_def Let_def
  by (intro inv_intros; rule keeps_statement; auto split: if_splits intro!: dead_key_retire
        intro: dead_key_add)

lemma keeps_dead_notify: "keeps (dead_key digest) (expiring_api_keys limit)"
  unfolding expiring_api_keys_def mark_expiring_def
  by (rule keeps_statement) (auto simp: dead_key_def intro!: keys_in_place split: if_splits)

interpretation dead: invariant_system "dead_key digest" "key_step hash" "dead_key digest" for digest hash
proof
  fix d d'
  assume "dead_key digest d" and "key_step hash d d'"
  from this(2,1) show "dead_key digest d'"
  proof cases
    case create
    then show ?thesis using keepsD [OF keeps_dead_create \<open>dead_key digest d\<close>] by blast
  next
    case use
    then show ?thesis using keepsD [OF keeps_dead_use \<open>dead_key digest d\<close>] by blast
  next
    case revoke
    then show ?thesis using keepsD [OF keeps_dead_revoke \<open>dead_key digest d\<close>] by blast
  next
    case rotate
    then show ?thesis using keepsD [OF keeps_dead_rotate \<open>dead_key digest d\<close>] by blast
  next
    case notify
    then show ?thesis using keepsD [OF keeps_dead_notify \<open>dead_key digest d\<close>] by blast
  next
    case other
    then show ?thesis using \<open>dead_key digest d\<close> by (simp add: dead_key_def keys_ok_def retired_def)
  qed
qed

lemma dead_key_unusable:
  assumes "dead_key digest d" shows "find (key_usable now digest) (db_keys d) = None"
proof -
  from assms obtain k where k: "k \<in> set (db_keys d)" "ke_secret_hash k = digest" "ke_status k \<noteq> ''active''"
    and dist: "distinct (map ke_secret_hash (db_keys d))"
    by (auto simp: dead_key_def keys_ok_def retired_def)
  have "x = k" if "x \<in> set (db_keys d)" "ke_secret_hash x = digest" for x
    using dist that k(1,2) by (auto simp: distinct_map inj_on_def)
  with k(3) show ?thesis by (auto simp: find_None_iff key_usable_def)
qed

text \<open>C4: Once a key is revoked its secret never authenticates again, whatever keys are created, rotated,
  revoked, used or announced as expiring afterwards and however the rest of the store changes. (The
  digests in the table are distinct, as its unique index demands, and the id counter is ahead.)\<close>

theorem revoked_key_never_authenticates:
  assumes "revoke_api_key uid kid status fs d = (Inr (), fs', d1)" and "keys_ok d"
    and "k \<in> set (db_keys d)" and "ke_id k = kid" and "ke_secret_hash k = hash plain"
    and "(key_step hash)\<^sup>*\<^sup>* d1 d2"
  shows "\<not> is_ok (fst (authenticate_api_key hash plain fs2 d2))"
proof -
  from assms(1) obtain st where d1: "d1 = retire_key uid kid st d" "st \<noteq> ''active''"
    and a: "active_key uid kid d \<noteq> None"
    by (auto simp: revoke_api_key_def statement_Inr Let_def split: if_splits)
  from a obtain x where "active_key uid kid d = Some x" by blast
  note x = active_key_Some [OF this]
  from assms(2-4) x have "x = k" by (auto simp: keys_ok_def distinct_map inj_on_def)
  with x have "k\<lparr>ke_status := st, ke_revoked_at := Some (db_now d)\<rparr> \<in> set (db_keys d1)"
    unfolding d1 retire_key_def by force
  then have "retired (hash plain) d1"
    unfolding retired_def by (rule bexI [rotated]) (simp add: assms(5) d1(2))
  moreover have "keys_ok d1"
    unfolding d1 retire_key_def using assms(2) by (intro keys_in_place) (auto simp: d1)
  ultimately have "dead_key (hash plain) d2"
    using dead.moves_inv [OF assms(6)] by (simp add: dead_key_def)
  from dead_key_unusable [OF this] show ?thesis
    by (auto simp: authenticate_api_key_def tx_bind_def query_row_def statement_def Let_def
        split: prod.splits)
qed

theorem revoked_key_never_authenticates_witness:
  "\<not> is_ok (fst (authenticate_api_key (\<lambda>s. s) ''jqk_old'' []
     (snd (snd (expiring_api_keys 1000 [] (retire_key 1 1 ''revoked'' demo_keys))))))"
proof -
  let ?d = "retire_key 1 1 ''revoked'' demo_keys"
  have "revoke_api_key 1 1 ''revoked'' [] demo_keys = (Inr (), [], ?d)"
    by (simp add: revoke_api_key_def statement_def active_key_def demo_keys_def fresh_store_def demo_key_row_def new_key_row_def)
  moreover have "key_step (\<lambda>s. s) ?d (snd (snd (expiring_api_keys 1000 [] ?d)))"
    by (rule key_step.notify [of 1000 "[]" _ "fst (expiring_api_keys 1000 [] ?d)"
          "fst (snd (expiring_api_keys 1000 [] ?d))"]) simp
  then have "(key_step (\<lambda>s. s))\<^sup>*\<^sup>* ?d (snd (snd (expiring_api_keys 1000 [] ?d)))" by blast
  ultimately show ?thesis
    by (intro revoked_key_never_authenticates [where k = demo_key_row and hash = "\<lambda>s. s" and d = demo_keys])
       (simp_all add: keys_ok_def demo_keys_def fresh_store_def demo_key_row_def new_key_row_def)
qed

end
