(* ===== verification/Hub_Sync_Properties.thy ===== *)
theory Hub_Sync_Properties
  imports Hub_Sync
begin

text \<open>
  What a snapshot does to the inventory: the servers that are not stopped afterwards are exactly
  those of the snapshot; and the snapshots that a session begun after its server's start blocks.
\<close>

section \<open>Running servers\<close>

definition key_of :: "server_row \<Rightarrow> string" where
  "key_of s = server_key (sv_username s) (sv_server_name s)"

definition running_keys :: "int \<Rightarrow> server_row list \<Rightarrow> string set" where
  "running_keys hid ss = key_of ` {s \<in> set ss. sv_hub_id s = hid \<and> sv_status s \<noteq> ''stopped''}"

definition identity :: "server_row \<Rightarrow> int \<times> string \<times> string" where
  "identity s = (sv_hub_id s, sv_username s, sv_server_name s)"

text \<open>The constraints of the table: primary key, its sequence, the unique triple, no NUL in text.\<close>

definition inventory_ok :: "store_db \<Rightarrow> bool" where
  "inventory_ok d \<longleftrightarrow>
     distinct (map sv_id (db_servers d)) \<and> (\<forall>s \<in> set (db_servers d). sv_id s < db_next_server d)
     \<and> distinct (map identity (db_servers d)) \<and> (\<forall>s \<in> set (db_servers d). CHR 0x00 \<notin> set (sv_username s))"

lemma server_key_inj:
  assumes "CHR 0x00 \<notin> set u" and "CHR 0x00 \<notin> set u'"
  shows "server_key u n = server_key u' n' \<longleftrightarrow> u = u' \<and> n = n'"
proof
  assume k: "server_key u n = server_key u' n'"
  have t: "takeWhile (\<lambda>c. c \<noteq> CHR 0x00) (server_key v m) = v" if "CHR 0x00 \<notin> set v" for v m
  proof -
    from that have "\<And>x. x \<in> set v \<Longrightarrow> x \<noteq> CHR 0x00" by blast
    then show ?thesis by (simp add: server_key_def takeWhile_append2)
  qed
  from t [OF assms(1), of n] t [OF assms(2), of n'] k have "u = u'" by simp
  with k show "u = u' \<and> n = n'" by (simp add: server_key_def)
qed simp

lemma key_of_eq:
  assumes "inventory_ok d" and "s \<in> set (db_servers d)" and "t \<in> set (db_servers d)"
    and "key_of s = key_of t" and "sv_hub_id s = sv_hub_id t"
  shows "s = t"
proof -
  from assms have "identity s = identity t"
    by (auto simp: inventory_ok_def key_of_def identity_def server_key_inj)
  with assms show ?thesis by (auto simp: inventory_ok_def distinct_map inj_on_def)
qed

lemma update_fresh: "k \<notin> fst ` set al \<Longrightarrow> AList.update k v al = al @ [(k, v)]"
  by (induction al) auto

lemma update_new_keys:
  assumes "distinct (map f xs)" and "\<And>x. x \<in> set xs \<Longrightarrow> f x \<notin> fst ` set acc"
  shows "fold (\<lambda>x. AList.update (f x) (g x)) xs acc = acc @ map (\<lambda>x. (f x, g x)) xs"
proof -
  show ?thesis
    using assms
  proof (induction xs arbitrary: acc)
    case (Cons a xs)
    have "fold (\<lambda>x. AList.update (f x) (g x)) xs (acc @ [(f a, g a)])
        = (acc @ [(f a, g a)]) @ map (\<lambda>x. (f x, g x)) xs"
    proof (rule Cons.IH)
      show "distinct (map f xs)" using Cons.prems(1) by simp
      show "f x \<notin> fst ` set (acc @ [(f a, g a)])" if "x \<in> set xs" for x
      proof -
        have "f x \<in> set (map f xs)" using that by simp
        moreover have "f a \<notin> set (map f xs)" using Cons.prems(1) by simp
        ultimately have "f x \<noteq> f a" by metis
        then show ?thesis using that Cons.prems(2) [of x] by auto
      qed
    qed
    moreover from Cons.prems(2) have "f a \<notin> fst ` set acc" by simp
    ultimately show ?case by (simp add: update_fresh)
  qed simp
qed

lemma running_states_entries:
  assumes "inventory_ok d"
  shows "running_server_states hid d = map (\<lambda>s. (key_of s, (sv_id s, sv_started_at s)))
    (filter (\<lambda>s. sv_hub_id s = hid \<and> sv_status s \<noteq> ''stopped'') (db_servers d))"
proof -
  let ?rows = "filter (\<lambda>s. sv_hub_id s = hid \<and> sv_status s \<noteq> ''stopped'') (db_servers d)"
  have "distinct (db_servers d)" using assms by (auto simp: inventory_ok_def distinct_map)
  then have "distinct (map key_of ?rows)"
    using key_of_eq [OF assms] by (auto simp: distinct_map inj_on_def)
  then show ?thesis
    unfolding running_server_states_def key_of_def [symmetric] by (subst update_new_keys) auto
qed

text \<open>Changing rows in place, their identity kept.\<close>

lemma inventory_ok_map:
  assumes "inventory_ok d" and f: "\<And>s. sv_id (f s) = sv_id s" "\<And>s. identity (f s) = identity s"
    and "db_servers d' = map f (db_servers d)" and "db_next_server d' = db_next_server d"
  shows "inventory_ok d'"
proof -
  have "sv_id \<circ> f = sv_id" "identity \<circ> f = identity" using f by auto
  moreover have "sv_username (f s) = sv_username s" for s using f(2) [of s] by (simp add: identity_def)
  ultimately show ?thesis using assms by (simp add: inventory_ok_def)
qed

lemma running_keys_map:
  assumes "\<And>s. identity (f s) = identity s"
  shows "running_keys hid (map f ss) = key_of ` {s \<in> set ss. sv_hub_id s = hid \<and> sv_status (f s) \<noteq> ''stopped''}"
proof -
  have k: "key_of (f s) = key_of s" "sv_hub_id (f s) = sv_hub_id s" for s
    using assms [of s] by (simp_all add: identity_def key_of_def)
  then have "{x \<in> f ` set ss. sv_hub_id x = hid \<and> sv_status x \<noteq> ''stopped''}
      = f ` {s \<in> set ss. sv_hub_id s = hid \<and> sv_status (f s) \<noteq> ''stopped''}" by auto
  then show ?thesis by (simp add: running_keys_def image_image k)
qed

section \<open>Stopping what is gone\<close>

lemma end_sessions_servers:
  "end_sessions sid t d = Inr (u, d') \<Longrightarrow> db_servers d' = db_servers d \<and> db_next_server d' = db_next_server d"
  by (auto simp: end_sessions_def split: if_splits)

lemma stop_missing_Inr:
  assumes "stop_missing_server active t entry fs d = (Inr u, fs', d')"
  shows "db_next_server d' = db_next_server d \<and> db_servers d' = (if fst entry \<in> set active then db_servers d
    else map (\<lambda>s. if sv_id s = fst (snd entry) then s\<lparr>sv_status := ''stopped'', sv_synced_at := t\<rparr> else s) (db_servers d))"
  using assms unfolding stop_missing_server_def
  by (auto simp: tx_bind_Inr statement_Inr exec_Inr stop_server_def dest: end_sessions_servers split: if_splits)

definition gone_ids :: "string list \<Rightarrow> (string \<times> running_state) list \<Rightarrow> int set" where
  "gone_ids active entries = (fst \<circ> snd) ` {x \<in> set entries. fst x \<notin> set active}"

lemma stop_all_Inr:
  assumes "foreach (stop_missing_server active t) entries fs d = (Inr u, fs', d')"
  shows "db_next_server d' = db_next_server d \<and> db_servers d' = map (\<lambda>s. if sv_id s \<in> gone_ids active entries
    then s\<lparr>sv_status := ''stopped'', sv_synced_at := t\<rparr> else s) (db_servers d)"
  using assms
proof (induction entries arbitrary: fs d)
  case Nil
  then show ?case by (simp add: gone_ids_def)
next
  case (Cons e es)
  from Cons.prems obtain fs1 d1 where e: "stop_missing_server active t e fs d = (Inr (), fs1, d1)"
    and r: "foreach (stop_missing_server active t) es fs1 d1 = (Inr u, fs', d')"
    by (auto simp: tx_bind_Inr)
  from stop_missing_Inr [OF e] Cons.IH [OF r] show ?case
    by (auto simp: gone_ids_def)
qed

lemma stop_all_running:
  assumes ok: "inventory_ok d"
    and run: "foreach (stop_missing_server active t) (running_server_states hid d) fs d = (Inr u, fs', d')"
  shows "inventory_ok d' \<and> running_keys hid (db_servers d') = running_keys hid (db_servers d) \<inter> set active"
proof -
  let ?rows = "filter (\<lambda>s. sv_hub_id s = hid \<and> sv_status s \<noteq> ''stopped'') (db_servers d)"
  let ?gone = "gone_ids active (running_server_states hid d)"
  let ?f = "\<lambda>s. if sv_id s \<in> ?gone then s\<lparr>sv_status := ''stopped'', sv_synced_at := t\<rparr> else s"
  from stop_all_Inr [OF run] have d': "db_servers d' = map ?f (db_servers d)"
    "db_next_server d' = db_next_server d" by simp_all
  have same: "sv_id (?f s) = sv_id s" "identity (?f s) = identity s" for s by (simp_all add: identity_def)
  have "inventory_ok d'" by (rule inventory_ok_map [OF ok same d'])
  moreover have g: "sv_id s \<in> ?gone \<longleftrightarrow> sv_hub_id s = hid \<and> sv_status s \<noteq> ''stopped'' \<and> key_of s \<notin> set active"
    if s: "s \<in> set (db_servers d)" for s
  proof
    assume "sv_id s \<in> ?gone"
    then obtain r where "r \<in> set ?rows" "sv_id r = sv_id s" "key_of r \<notin> set active"
      by (auto simp: gone_ids_def running_states_entries [OF ok])
    moreover from this s ok have "r = s" by (auto simp: inventory_ok_def distinct_map inj_on_def)
    ultimately show "sv_hub_id s = hid \<and> sv_status s \<noteq> ''stopped'' \<and> key_of s \<notin> set active" by auto
  qed (use s in \<open>force simp: gone_ids_def running_states_entries [OF ok]\<close>)
  then have "{s \<in> set (db_servers d). sv_hub_id s = hid \<and> sv_status (?f s) \<noteq> ''stopped''}
      = {s \<in> set (db_servers d). sv_hub_id s = hid \<and> sv_status s \<noteq> ''stopped'' \<and> key_of s \<in> set active}"
    by auto
  then have "running_keys hid (map ?f (db_servers d)) = running_keys hid (db_servers d) \<inter> set active"
    by (simp only: running_keys_map [OF same(2)]) (auto simp: running_keys_def)
  ultimately show ?thesis using d'(1) by simp
qed

section \<open>Adding what is there\<close>

lemma upsert_server_running:
  assumes ok: "inventory_ok d" and u: "CHR 0x00 \<notin> set username"
    and c: "\<And>s. sv_id (change s) = sv_id s \<and> identity (change s) = identity s \<and> sv_status (change s) \<noteq> ''stopped''"
    and r: "identity row = (hid, username, name)" "sv_status row \<noteq> ''stopped''"
    and run: "upsert_server_with hid username name change row d = Inr (i, d')"
  shows "inventory_ok d' \<and> running_keys hid (db_servers d') = insert (server_key username name) (running_keys hid (db_servers d))"
proof (cases "find (\<lambda>s. sv_hub_id s = hid \<and> sv_username s = username \<and> sv_server_name s = name) (db_servers d)")
  case None
  with run have d': "db_servers d' = db_servers d @ [row\<lparr>sv_id := db_next_server d\<rparr>]"
    "db_next_server d' = db_next_server d + 1" by (auto simp: upsert_server_with_def)
  from None have new: "\<forall>s \<in> set (db_servers d). identity s \<noteq> (hid, username, name)"
    by (auto simp: find_None_iff identity_def)
  have "identity (row\<lparr>sv_id := db_next_server d\<rparr>) = (hid, username, name)" using r by (simp add: identity_def)
  with ok new u r have "inventory_ok d'" unfolding inventory_ok_def d' by (force simp: identity_def)
  moreover have "running_keys hid (db_servers d')
      = running_keys hid [row\<lparr>sv_id := db_next_server d\<rparr>] \<union> running_keys hid (db_servers d)"
    by (auto simp: d' running_keys_def)
  moreover have "running_keys hid [row\<lparr>sv_id := db_next_server d\<rparr>] = {server_key username name}"
    using r by (auto simp: running_keys_def key_of_def identity_def)
  ultimately show ?thesis by simp
next
  case (Some s)
  then have s: "s \<in> set (db_servers d)" "identity s = (hid, username, name)"
    by (auto simp: find_Some_iff identity_def)
  let ?f = "\<lambda>x. if sv_id x = sv_id s then change x else x"
  from Some run have d': "db_servers d' = map ?f (db_servers d)" "db_next_server d' = db_next_server d"
    by (auto simp: upsert_server_with_def)
  have same: "sv_id (?f x) = sv_id x" "identity (?f x) = identity x" for x using c by simp_all
  have "inventory_ok d'" by (rule inventory_ok_map [OF ok same d'])
  moreover have only: "sv_id x = sv_id s \<longleftrightarrow> x = s" if "x \<in> set (db_servers d)" for x
    using that s ok by (auto simp: inventory_ok_def distinct_map inj_on_def)
  have "{x \<in> set (db_servers d). sv_hub_id x = hid \<and> sv_status (?f x) \<noteq> ''stopped''}
      = insert s {x \<in> set (db_servers d). sv_hub_id x = hid \<and> sv_status x \<noteq> ''stopped''}"
    using only c s by (auto simp: identity_def)
  then have "running_keys hid (db_servers d') = insert (key_of s) (running_keys hid (db_servers d))"
    unfolding d' by (simp only: running_keys_map [OF same(2)]) (simp add: running_keys_def)
  ultimately show ?thesis using s(2) by (simp add: key_of_def identity_def)
qed

lemma reconcile_servers:
  "reconcile_server_session hid sid username name started activity prev t fs d = (Inr u, fs', d') \<Longrightarrow>
     db_servers d' = db_servers d \<and> db_next_server d' = db_next_server d"
  unfolding reconcile_server_session_def
  by (elim tx_bindE; cases "restarted prev started"; auto simp: statement_Inr exec_Inr open_session_def dest: end_sessions_servers)

lemma same_servers:
  "inventory_ok d \<Longrightarrow> db_servers d' = db_servers d \<and> db_next_server d' = db_next_server d \<Longrightarrow> inventory_ok d'"
  by (simp add: inventory_ok_def)

lemma status_not_stopped: "server_status value \<noteq> ''stopped''"
  by (auto simp: server_status_def Let_def split: option.splits)

lemma parsed_not_stopped [simp]: "ps_status (parse_jupyter_server parse_time raw) \<noteq> ''stopped''"
  by (simp add: parse_jupyter_server_def Let_def status_not_stopped)

definition grows :: "int \<Rightarrow> store_db \<Rightarrow> store_db \<Rightarrow> string set \<Rightarrow> bool" where
  "grows hid d d' ks \<longleftrightarrow>
     inventory_ok d' \<and> running_keys hid (db_servers d') = running_keys hid (db_servers d) \<union> ks"

lemma grows_trans: "grows hid d d1 ks \<Longrightarrow> grows hid d1 d2 ls \<Longrightarrow> grows hid d d2 (ks \<union> ls)"
  by (auto simp: grows_def)

lemma upsert_reconcile_grows:
  assumes "inventory_ok d" and "CHR 0x00 \<notin> set username"
    and "\<And>s. sv_id (change s) = sv_id s \<and> identity (change s) = identity s \<and> sv_status (change s) \<noteq> ''stopped''"
    and "identity row = (hid, username, name)" "sv_status row \<noteq> ''stopped''"
    and "upsert_server_with hid username name change row d = Inr (sid, d1)"
    and "reconcile_server_session hid sid username name started activity prev t fs1 d1 = (Inr u, fs', d')"
  shows "grows hid d d' {server_key username name}"
proof -
  from upsert_server_running [OF assms(1-6)] have "inventory_ok d1"
    "running_keys hid (db_servers d1) = insert (server_key username name) (running_keys hid (db_servers d))" by simp_all
  with same_servers [OF this(1) reconcile_servers [OF assms(7)]] reconcile_servers [OF assms(7)]
  show ?thesis by (simp add: grows_def)
qed

lemma sync_server_grows:
  assumes "inventory_ok d" and "CHR 0x00 \<notin> set username"
    and "sync_server parse_time hid mid username existing t (name, raw) fs d = (Inr u, fs', d')"
  shows "grows hid d d' {server_key username name}"
proof -
  let ?p = "parse_jupyter_server parse_time raw"
  from assms(3) obtain sid fs1 d1
    where u: "upsert_server hid mid username name ?p (safe_jupyter_server_snapshot raw) d = Inr (sid, d1)"
    and r: "reconcile_server_session hid sid username name (ps_started ?p) (ps_last_activity ?p)
        (map_of existing (server_key username name)) t fs1 d1 = (Inr u, fs', d')"
    by (auto simp: sync_server_def Let_def tx_bind_Inr statement_Inr)
  show ?thesis
    by (rule upsert_reconcile_grows [OF assms(1,2) _ _ _ u [unfolded upsert_server_def] r])
       (simp_all add: refresh_server_def identity_def observed_server_row_def)
qed

lemma foreach_grows:
  assumes "\<And>x fs d u fs' d'. x \<in> set xs \<Longrightarrow> inventory_ok d \<Longrightarrow> body x fs d = (Inr u, fs', d') \<Longrightarrow> grows hid d d' (keys x)"
    and "inventory_ok d" and "foreach body xs fs d = (Inr u, fs', d')"
  shows "grows hid d d' (\<Union>x \<in> set xs. keys x)"
  using assms
proof (induction xs arbitrary: fs d)
  case Nil
  then show ?case by (simp add: grows_def)
next
  case (Cons x xs)
  from Cons.prems(3) obtain v fs1 d1 where b: "body x fs d = (Inr v, fs1, d1)"
    and r: "foreach body xs fs1 d1 = (Inr u, fs', d')" by (auto simp: tx_bind_Inr)
  have g: "grows hid d d1 (keys x)" by (rule Cons.prems(1) [OF _ Cons.prems(2) b]) simp
  then have "inventory_ok d1" by (simp add: grows_def)
  then have "grows hid d1 d' (\<Union>x \<in> set xs. keys x)"
    by (rule Cons.IH [rotated, OF _ r]) (rule Cons.prems(1), auto)
  from grows_trans [OF g this] show ?case by simp
qed

lemma upsert_managed_servers:
  "upsert_managed_user hid u d = Inr (mid, d') \<Longrightarrow> db_servers d' = db_servers d \<and> db_next_server d' = db_next_server d"
  by (auto simp: upsert_managed_user_def split: option.splits)

lemma sync_user_grows:
  assumes ok: "inventory_ok d" and n: "CHR 0x00 \<notin> set (ju_name u)"
    and run: "sync_user parse_time format_time hid existing t u fs d = (Inr x, fs', d')"
  shows "grows hid d d' (set (user_active_keys parse_time u))"
proof -
  from run obtain mid fs1 d1 y fs2 d2 where m: "upsert_managed_user hid u d = Inr (mid, d1)"
    and s: "foreach (sync_server parse_time hid mid (ju_name u) existing t) (ju_servers u) fs1 d1 = (Inr y, fs2, d2)"
    and l: "sync_default_server format_time hid mid u existing t fs2 d2 = (Inr x, fs', d')"
    by (auto simp: sync_user_def tx_bind_Inr statement_Inr)
  have ok1: "inventory_ok d1" by (rule same_servers [OF ok upsert_managed_servers [OF m]])
  have g: "grows hid d1 d2 (\<Union>e \<in> set (ju_servers u). {server_key (ju_name u) (fst e)})"
  proof (rule foreach_grows [OF _ ok1 s])
    fix e fs d v fs' d'
    assume i: "inventory_ok d" and r: "sync_server parse_time hid mid (ju_name u) existing t e fs d = (Inr v, fs', d')"
    from r have "sync_server parse_time hid mid (ju_name u) existing t (fst e, snd e) fs d = (Inr v, fs', d')"
      by simp
    from sync_server_grows [OF i n this] show "grows hid d d' {server_key (ju_name u) (fst e)}" .
  qed
  then have ok2: "inventory_ok d2" by (simp add: grows_def)
  have "grows hid d2 d' (if ju_servers u = [] \<and> ju_server u \<noteq> [] then {server_key (ju_name u) []} else {})"
  proof (cases "ju_servers u = [] \<and> ju_server u \<noteq> []")
    case True
    with l obtain sid fs3 d3 where u: "upsert_default_server format_time hid mid u d2 = Inr (sid, d3)"
      and r: "reconcile_server_session hid sid (ju_name u) [] None (ju_last_activity u)
          (map_of existing (server_key (ju_name u) [])) t fs3 d3 = (Inr x, fs', d')"
      by (auto simp: sync_default_server_def tx_bind_Inr statement_Inr)
    have "grows hid d2 d' {server_key (ju_name u) []}"
      by (rule upsert_reconcile_grows [OF ok2 n _ _ _ u [unfolded upsert_default_server_def] r])
         (simp_all add: identity_def)
    with True show ?thesis by simp
  next
    case False
    with l ok2 show ?thesis by (auto simp: sync_default_server_def grows_def)
  qed
  from grows_trans [OF g this] upsert_managed_servers [OF m] show ?thesis
    by (auto simp: grows_def user_active_keys_def split: if_splits)
qed

text \<open>C10: After a snapshot has been applied, the servers of the hub that are not stopped are exactly the
  servers of the snapshot: none that is gone stays, none that is there is missing.\<close>

theorem sync_reflects_snapshot:
  assumes "sync_hub_users parse_time format_time digest observed_at hub users require_current fs d = (Inr u, fs', d')"
    and "inventory_ok d" and "\<forall>x \<in> set users. CHR 0x00 \<notin> set (ju_name x)"
  shows "running_keys (hu_id hub) (db_servers d') = set (pl_active_servers (plan_hub_snapshot parse_time users))"
proof -
  let ?plan = "plan_hub_snapshot parse_time users"
  let ?hid = "hu_id hub"
  from assms(1) obtain fs1 fs2 fs3 v w d1 d2
    where stop: "foreach (stop_missing_server (pl_active_servers ?plan) observed_at) (running_server_states ?hid d)
        fs1 d = (Inr v, fs2, d1)"
    and users: "foreach (sync_user parse_time format_time ?hid (running_server_states ?hid d) observed_at) users
        fs2 d1 = (Inr w, fs3, d2)"
    and final: "d' = deactivate_users ?hid ?plan d2"
    unfolding sync_hub_users_def Let_def
    by (auto simp: transaction_Inr tx_bind_Inr query_Inr exec_Inr advisory_lock_def require_current_hub_def
        split: if_splits elim!: lock_and_match_Inr)
  from stop_all_running [OF assms(2) stop] have ok1: "inventory_ok d1"
    and r1: "running_keys ?hid (db_servers d1) \<subseteq> set (pl_active_servers ?plan)" by auto
  have "grows ?hid d1 d2 (\<Union>x \<in> set users. set (user_active_keys parse_time x))"
    by (rule foreach_grows [OF _ ok1 users]) (use assms(3) sync_user_grows in blast)
  with r1 final show ?thesis
    by (auto simp: grows_def plan_hub_snapshot_def deactivate_users_def)
qed

definition observed_user :: "json_object \<Rightarrow> jupyter_user" where
  "observed_user server = \<lparr>ju_name = ''ann'', ju_admin = False, ju_pending = None, ju_last_activity = None,
     ju_server = [], ju_servers = [([], JObj server)], ju_roles = [], ju_groups = []\<rparr>"

definition observe :: "json_object \<Rightarrow> time \<Rightarrow> store_db \<Rightarrow> (store_error, unit) res \<times> faults \<times> store_db" where
  "observe server t d = sync_hub_users (\<lambda>_. Some (990 * second)) (\<lambda>_. []) (\<lambda>s. s) t (scan_hub demo_hub)
     [observed_user server] False [] d"

definition pending_seen :: store_db where
  "pending_seen = snd (snd (observe [(''pending'', JStr ''spawn'')] (1000 * second) demo_hubs))"

theorem sync_reflects_snapshot_witness:
  "running_keys 7 (db_servers pending_seen) = {server_key ''ann'' []}"
proof -
  have "is_ok (fst (observe [(''pending'', JStr ''spawn'')] (1000 * second) demo_hubs))" by code_simp
  then obtain fs' where r: "observe [(''pending'', JStr ''spawn'')] (1000 * second) demo_hubs = (Inr (), fs', pending_seen)"
    unfolding pending_seen_def
    by (cases "observe [(''pending'', JStr ''spawn'')] (1000 * second) demo_hubs") (auto simp: is_ok_iff)
  have "running_keys (hu_id (scan_hub demo_hub)) (db_servers pending_seen)
      = set (pl_active_servers (plan_hub_snapshot (\<lambda>_. Some (990 * second)) [observed_user [(''pending'', JStr ''spawn'')]]))"
    by (rule sync_reflects_snapshot [OF r [unfolded observe_def]])
       (simp_all add: inventory_ok_def demo_hubs_def fresh_store_def observed_user_def)
  then show ?thesis
    by (simp add: plan_hub_snapshot_def user_active_keys_def observed_user_def scan_hub_def demo_hub_def)
qed

section \<open>A session that began after its server\<close>

lemma active_keys_all:
  "user_active_keys parse_time u = map (\<lambda>e. server_key (ju_name u) (fst e)) (ju_servers u)
     @ (if ju_servers u = [] \<and> ju_server u \<noteq> [] then [server_key (ju_name u) []] else [])"
  by (simp add: user_active_keys_def case_prod_beta)

text \<open>The server \<open>sid\<close> has an open session that began after the moment.\<close>

definition late_session :: "int \<Rightarrow> int \<times> string \<times> string \<Rightarrow> time \<Rightarrow> store_db \<Rightarrow> bool" where
  "late_session sid who moment d \<longleftrightarrow>
     inventory_ok d \<and> (\<exists>v \<in> set (db_servers d). sv_id v = sid \<and> identity v = who)
     \<and> (\<exists>x \<in> set (db_server_sessions d).
          ss_server_id x = Some sid \<and> ss_ended_at x = None \<and> moment < ss_started_at x)"

lemma late_sessions_other:
  assumes "late_session sid who moment d" and "db_servers d' = db_servers d"
    and "db_next_server d' = db_next_server d" and "db_server_sessions d' = db_server_sessions d"
  shows "late_session sid who moment d'"
  using assms by (simp add: late_session_def inventory_ok_def)

lemma late_end_sessions:
  assumes "late_session sid who moment d" and "end_sessions i t d = Inr (u, d')" and "i \<noteq> sid"
  shows "late_session sid who moment d'"
  using assms by (force simp: late_session_def inventory_ok_def end_sessions_def split: if_splits)

lemma late_open_session:
  assumes "late_session sid who moment d" and "i \<noteq> sid"
  shows "late_session sid who moment (open_session i hid un sn st la d)"
  using assms by (force simp: late_session_def inventory_ok_def open_session_def)

lemma late_reconcile:
  assumes "late_session sid who moment d" and "i \<noteq> sid"
    and "reconcile_server_session hid i un sn st la prev t fs d = (Inr u, fs', d')"
  shows "late_session sid who moment d'"
  using assms(3) unfolding reconcile_server_session_def
  by (elim tx_bindE; cases "restarted prev st")
    (auto simp: statement_Inr exec_Inr intro!: late_open_session assms(2)
      intro: late_end_sessions [OF assms(1)] assms(1) dest: late_end_sessions [OF assms(1) _ assms(2)])

lemma late_stop:
  assumes "late_session sid who moment d" and "fst e \<notin> set active \<Longrightarrow> fst (snd e) \<noteq> sid"
    and "stop_missing_server active t e fs d = (Inr u, fs', d')"
  shows "late_session sid who moment d'"
proof (cases "fst e \<in> set active")
  case True
  with assms show ?thesis by (simp add: stop_missing_server_def)
next
  case False
  let ?f = "\<lambda>s. if sv_id s = fst (snd e) then s\<lparr>sv_status := ''stopped'', sv_synced_at := t\<rparr> else s"
  have "inventory_ok (stop_server (fst (snd e)) t d)"
    by (rule inventory_ok_map [of d ?f])
      (use assms(1) in \<open>auto simp: late_session_def stop_server_def identity_def\<close>)
  then have "late_session sid who moment (stop_server (fst (snd e)) t d)"
    using assms(1) assms(2) [OF False] by (force simp: late_session_def stop_server_def)
  from late_end_sessions [OF this _ assms(2) [OF False]] False assms(3) show ?thesis
    by (auto simp: stop_missing_server_def tx_bind_Inr exec_Inr statement_Inr)
qed

lemma late_upsert:
  assumes "late_session sid who moment d" and "CHR 0x00 \<notin> set username"
    and c: "\<And>s. sv_id (change s) = sv_id s \<and> identity (change s) = identity s \<and> sv_status (change s) \<noteq> ''stopped''"
    and r: "identity row = (hid, username, name)" "sv_status row \<noteq> ''stopped''"
    and run: "upsert_server_with hid username name change row d = Inr (i, d')"
  shows "late_session sid who moment d'" and "who \<noteq> (hid, username, name) \<Longrightarrow> i \<noteq> sid"
    and "who = (hid, username, name) \<Longrightarrow> i = sid"
proof -
  from assms(1) obtain v where ok: "inventory_ok d" and v: "v \<in> set (db_servers d)" "sv_id v = sid" "identity v = who"
    by (auto simp: late_session_def)
  from upsert_server_running [OF ok assms(2) c r run] have ok1: "inventory_ok d'" by simp
  have "v \<in> set (db_servers d') \<or> change v \<in> set (db_servers d')"
    using run v(1) by (auto simp: upsert_server_with_def image_iff split: option.splits)
  then have keep: "\<exists>w \<in> set (db_servers d'). sv_id w = sid \<and> identity w = who"
    using v(2,3) c [of v] by metis
  have "db_server_sessions d' = db_server_sessions d"
    using run by (auto simp: upsert_server_with_def split: option.splits)
  with assms(1) ok1 keep show "late_session sid who moment d'" by (simp add: late_session_def)
  show "i \<noteq> sid" if "who \<noteq> (hid, username, name)"
  proof (cases "find (\<lambda>s. sv_hub_id s = hid \<and> sv_username s = username \<and> sv_server_name s = name) (db_servers d)")
    case None
    with run ok v show ?thesis by (auto simp: upsert_server_with_def inventory_ok_def)
  next
    case (Some s)
    then have "s \<in> set (db_servers d)" "identity s = (hid, username, name)"
      by (auto simp: find_Some_iff identity_def)
    with that ok v have "sv_id s \<noteq> sid" by (auto simp: inventory_ok_def distinct_map inj_on_def)
    with Some run show ?thesis by (auto simp: upsert_server_with_def)
  qed
  show "i = sid" if w: "who = (hid, username, name)"
  proof -
    have "find (\<lambda>s. sv_hub_id s = hid \<and> sv_username s = username \<and> sv_server_name s = name) (db_servers d) \<noteq> None"
      using v w by (auto simp: find_None_iff identity_def)
    then obtain s where s: "find (\<lambda>s. sv_hub_id s = hid \<and> sv_username s = username \<and> sv_server_name s = name)
        (db_servers d) = Some s" by blast
    then have "s \<in> set (db_servers d)" "identity s = identity v"
      using w v by (auto simp: find_Some_iff identity_def)
    with ok v have "s = v" by (auto simp: inventory_ok_def distinct_map inj_on_def)
    with s run v show ?thesis by (auto simp: upsert_server_with_def)
  qed
qed

lemma late_sync_server:
  assumes "late_session sid who moment d" and "CHR 0x00 \<notin> set username" and "who \<noteq> (hid, username, fst e)"
    and "sync_server parse_time hid mid username existing t e fs d = (Inr u, fs', d')"
  shows "late_session sid who moment d'"
proof -
  let ?p = "parse_jupyter_server parse_time (snd e)"
  from assms(4) obtain i fs1 d1
    where u: "upsert_server hid mid username (fst e) ?p (safe_jupyter_server_snapshot (snd e)) d = Inr (i, d1)"
    and r: "reconcile_server_session hid i username (fst e) (ps_started ?p) (ps_last_activity ?p)
        (map_of existing (server_key username (fst e))) t fs1 d1 = (Inr u, fs', d')"
    by (auto simp: sync_server_def Let_def tx_bind_Inr statement_Inr)
  have "late_session sid who moment d1 \<and> i \<noteq> sid"
    using late_upsert(1,2) [OF assms(1,2) _ _ _ u [unfolded upsert_server_def]] assms(3)
    by (simp add: refresh_server_def identity_def observed_server_row_def)
  with late_reconcile [OF _ _ r] show ?thesis by blast
qed

lemma late_sync_default:
  assumes "late_session sid who moment d" and "CHR 0x00 \<notin> set (ju_name u)"
    and "ju_servers u = [] \<and> ju_server u \<noteq> [] \<Longrightarrow> who \<noteq> (hid, ju_name u, [])"
    and "sync_default_server format_time hid mid u existing t fs d = (Inr x, fs', d')"
  shows "late_session sid who moment d'"
proof (cases "ju_servers u = [] \<and> ju_server u \<noteq> []")
  case True
  with assms(4) obtain i fs1 d1 where up: "upsert_default_server format_time hid mid u d = Inr (i, d1)"
    and r: "reconcile_server_session hid i (ju_name u) [] None (ju_last_activity u)
        (map_of existing (server_key (ju_name u) [])) t fs1 d1 = (Inr x, fs', d')"
    by (auto simp: sync_default_server_def tx_bind_Inr statement_Inr)
  have "late_session sid who moment d1 \<and> i \<noteq> sid"
    using late_upsert(1,2) [OF assms(1,2) _ _ _ up [unfolded upsert_default_server_def]] assms(3) [OF True]
    by (simp add: identity_def)
  with late_reconcile [OF _ _ r] show ?thesis by blast
next
  case False
  with assms show ?thesis by (auto simp: sync_default_server_def)
qed

lemma late_foreach:
  assumes "\<And>x fs d u fs' d'. x \<in> set xs \<Longrightarrow> late_session sid who moment d \<Longrightarrow> body x fs d = (Inr u, fs', d')
      \<Longrightarrow> late_session sid who moment d'"
    and "late_session sid who moment d" and "foreach body xs fs d = (Inr u, fs', d')"
  shows "late_session sid who moment d'"
  using assms
proof (induction xs arbitrary: fs d)
  case (Cons x xs)
  from Cons.prems(3) obtain v fs1 d1 where b: "body x fs d = (Inr v, fs1, d1)"
    and r: "foreach body xs fs1 d1 = (Inr u, fs', d')" by (auto simp: tx_bind_Inr)
  have "late_session sid who moment d1" by (rule Cons.prems(1) [OF _ Cons.prems(2) b]) simp
  then show ?case by (rule Cons.IH [rotated, OF _ r]) (rule Cons.prems(1), auto)
qed simp

lemma foreach_split:
  assumes "foreach body (xs @ y # ys) fs d = (Inr u, fs', d')"
  obtains fs1 d1 v fs2 d2 w where "foreach body xs fs d = (Inr (), fs1, d1)" and "body y fs1 d1 = (Inr v, fs2, d2)"
  using assms
proof (induction xs arbitrary: fs d thesis)
  case Nil
  then show ?case by (auto simp: tx_bind_Inr)
next
  case (Cons x xs)
  from Cons.prems(2) obtain v fs1 d1 where b: "body x fs d = (Inr v, fs1, d1)"
    and r: "foreach body (xs @ y # ys) fs1 d1 = (Inr u, fs', d')" by (auto simp: tx_bind_Inr)
  from Cons.IH [OF _ r] obtain fs2 d2 w fs3 d3 where "foreach body xs fs1 d1 = (Inr (), fs2, d2)"
    "body y fs2 d2 = (Inr w, fs3, d3)" by metis
  with b Cons.prems(1) show ?case by (auto simp: tx_bind_Inr)
qed

lemma late_sync_user:
  assumes "late_session sid who moment d" and "CHR 0x00 \<notin> set (ju_name u)"
    and "\<And>k. k \<in> set (user_active_keys parse_time u) \<Longrightarrow> k \<noteq> server_key n m" and "who = (hid, n, m)"
    and "sync_user parse_time format_time hid existing t u fs d = (Inr x, fs', d')"
  shows "late_session sid who moment d'"
proof -
  from assms(5) obtain mid fs1 d1 y fs2 d2 where mu: "upsert_managed_user hid u d = Inr (mid, d1)"
    and s: "foreach (sync_server parse_time hid mid (ju_name u) existing t) (ju_servers u) fs1 d1 = (Inr y, fs2, d2)"
    and l: "sync_default_server format_time hid mid u existing t fs2 d2 = (Inr x, fs', d')"
    by (auto simp: sync_user_def tx_bind_Inr statement_Inr)
  have "late_session sid who moment d1"
    by (rule late_sessions_other [OF assms(1)])
      (use mu in \<open>auto simp: upsert_managed_user_def split: option.splits\<close>)
  then have d2: "late_session sid who moment d2"
  proof (rule late_foreach [rotated, OF _ s])
    fix e fs d v fs' d'
    assume e: "e \<in> set (ju_servers u)" and i: "late_session sid who moment d"
      and r: "sync_server parse_time hid mid (ju_name u) existing t e fs d = (Inr v, fs', d')"
    from e have "server_key (ju_name u) (fst e) \<in> set (user_active_keys parse_time u)"
      by (simp add: active_keys_all)
    from assms(3) [OF this] have "who \<noteq> (hid, ju_name u, fst e)" using assms(4) by auto
    from late_sync_server [OF i assms(2) this r] show "late_session sid who moment d'" .
  qed
  show ?thesis
  proof (rule late_sync_default [OF d2 assms(2) _ l])
    assume "ju_servers u = [] \<and> ju_server u \<noteq> []"
    then have "server_key (ju_name u) [] \<in> set (user_active_keys parse_time u)"
      by (simp add: user_active_keys_def)
    from assms(3) [OF this] show "who \<noteq> (hid, ju_name u, [])" using assms(4) by auto
  qed
qed

lemma late_blocks_server:
  assumes "late_session sid (hid, username, fst e) moment d" and "CHR 0x00 \<notin> set username"
    and "map_of existing (server_key username (fst e)) = Some (sid, None)" and "sid \<noteq> 0"
    and "ps_started (parse_jupyter_server parse_time (snd e)) = Some moment"
  shows "sync_server parse_time hid mid username existing t e fs d \<noteq> (Inr u, fs', d')"
proof
  let ?p = "parse_jupyter_server parse_time (snd e)"
  assume "sync_server parse_time hid mid username existing t e fs d = (Inr u, fs', d')"
  then obtain i fs1 d1
    where up: "upsert_server hid mid username (fst e) ?p (safe_jupyter_server_snapshot (snd e)) d = Inr (i, d1)"
    and r: "reconcile_server_session hid i username (fst e) (ps_started ?p) (ps_last_activity ?p)
        (map_of existing (server_key username (fst e))) t fs1 d1 = (Inr u, fs', d')"
    by (auto simp: sync_server_def Let_def tx_bind_Inr statement_Inr)
  have d1: "late_session sid (hid, username, fst e) moment d1" "i = sid"
    using late_upsert(1,3) [OF assms(1,2) _ _ _ up [unfolded upsert_server_def]]
    by (simp_all add: refresh_server_def identity_def observed_server_row_def)
  from r assms(3-5) have "\<exists>e. end_sessions i (restart_end (Some moment) t) d1 = Inr e"
    by (auto simp: reconcile_server_session_def restarted_def tx_bind_Inr statement_Inr)
  moreover have "restart_end (Some moment) t \<le> moment" by (simp add: restart_end_def)
  ultimately show False
    using d1 by (fastforce simp: late_session_def end_sessions_def list_ex_iff split: if_splits)
qed

lemma late_session_stops:
  assumes ok: "inventory_ok d" and v: "v \<in> set (db_servers d)" "key_of v \<in> set active"
    and late: "late_session (sv_id v) who moment d"
    and run: "foreach (stop_missing_server active t) (running_server_states hid d) fs d = (Inr u, fs', d')"
  shows "late_session (sv_id v) who moment d'"
proof (rule late_foreach [OF _ late run])
  fix e fs d2 w fs' d'
  assume e: "e \<in> set (running_server_states hid d)" and l: "late_session (sv_id v) who moment d2"
    and r: "stop_missing_server active t e fs d2 = (Inr w, fs', d')"
  from e obtain s where s: "s \<in> set (db_servers d)" "e = (key_of s, (sv_id s, sv_started_at s))"
    by (auto simp: running_states_entries [OF ok])
  have "fst (snd e) \<noteq> sv_id v" if "fst e \<notin> set active"
  proof
    assume "fst (snd e) = sv_id v"
    with s v(1) ok have "s = v" by (auto simp: inventory_ok_def distinct_map inj_on_def)
    with s v(2) that show False by simp
  qed
  from late_stop [OF l this r] show "late_session (sv_id v) who moment d'" .
qed

lemma running_state_of:
  assumes ok: "inventory_ok d" and v: "v \<in> set (db_servers d)" "sv_hub_id v = hid" "sv_status v \<noteq> ''stopped''"
  shows "map_of (running_server_states hid d) (key_of v) = Some (sv_id v, sv_started_at v)"
proof -
  let ?rows = "filter (\<lambda>s. sv_hub_id s = hid \<and> sv_status s \<noteq> ''stopped'') (db_servers d)"
  have "distinct (db_servers d)" using ok by (auto simp: inventory_ok_def distinct_map)
  then have "distinct (map key_of ?rows)"
    using key_of_eq [OF ok] by (auto simp: distinct_map inj_on_def)
  then show ?thesis
    unfolding running_states_entries [OF ok] using v
    by (intro map_of_is_SomeI) (auto simp: o_def)
qed

text \<open>C11: A server first seen before its start was reported can stop all later snapshots of its hub. Its
  session starts when it was seen. Once the hub reports a start before that moment, the server
  looks restarted, the session is to end before it began, the table refuses that, and the whole
  transaction fails: any snapshot of the hub, taken at any time and whatever else it holds, that
  reports such a start for that server is refused and changes nothing, so the next one meets the
  same state. (The names hold no NUL, and the snapshot names no server twice.)\<close>

theorem restart_blocks_every_sync:
  assumes "inventory_ok d" and "v \<in> set (db_servers d)" and "sv_hub_id v = hu_id hub"
    and "sv_status v \<noteq> ''stopped''" and "sv_id v \<noteq> 0" and "sv_started_at v = None"
    and "x \<in> set (db_server_sessions d)" and "ss_server_id x = Some (sv_id v)" and "ss_ended_at x = None"
    and "user \<in> set users" and "ju_name user = sv_username v" and "(sv_server_name v, raw) \<in> set (ju_servers user)"
    and "ps_started (parse_jupyter_server parse_time raw) = Some reported" and "reported < ss_started_at x"
    and "distinct (pl_active_servers (plan_hub_snapshot parse_time users))"
    and "\<forall>y \<in> set users. CHR 0x00 \<notin> set (ju_name y)"
  shows "\<exists>e fs'. sync_hub_users parse_time format_time digest observed_at hub users require_current fs d
    = (Inl e, fs', d)"
proof -
  let ?sync = "sync_hub_users parse_time format_time digest observed_at hub users require_current"
  let ?plan = "plan_hub_snapshot parse_time users"
  let ?hid = "hu_id hub"
  let ?who = "(?hid, sv_username v, sv_server_name v)"
  let ?E = "running_server_states ?hid d"
  have late: "late_session (sv_id v) ?who reported d"
    using assms(1-9,14) by (auto simp: late_session_def identity_def)
  from assms(10) obtain us1 us2 where us: "users = us1 @ user # us2" by (meson split_list)
  from assms(12) obtain ss1 ss2 where ss: "ju_servers user = ss1 @ (sv_server_name v, raw) # ss2"
    by (meson split_list)
  have key: "key_of v = server_key (ju_name user) (sv_server_name v)" using assms(11) by (simp add: key_of_def)
  have uk: "user_active_keys parse_time user = map (\<lambda>e. server_key (ju_name user) (fst e)) (ju_servers user)"
    using ss by (simp add: active_keys_all)
  have act: "key_of v \<in> set (pl_active_servers ?plan)"
    unfolding key plan_hub_snapshot_def using us uk ss by simp
  have "key_of v \<in> set (user_active_keys parse_time user)" using uk ss key by simp
  then have d1: "key_of v \<notin> set (user_active_keys parse_time y)" if "y \<in> set us1" for y
    using assms(15) that unfolding plan_hub_snapshot_def us by auto
  have "distinct (map (\<lambda>e. server_key (ju_name user) (fst e)) (ju_servers user))"
    using assms(15) unfolding plan_hub_snapshot_def us by (simp add: uk)
  then have d2: "fst e \<noteq> sv_server_name v" if "e \<in> set ss1" for e
    using that unfolding ss by (auto simp: image_iff)
  have no: "?sync fs d \<noteq> (Inr w, fs', d')" for w fs' d'
  proof
    assume "?sync fs d = (Inr w, fs', d')"
    then obtain fs1 fs2 fs3 w1 w2 e1 e2
      where stop: "foreach (stop_missing_server (pl_active_servers ?plan) observed_at) ?E fs1 d = (Inr w1, fs2, e1)"
      and rest: "foreach (sync_user parse_time format_time ?hid ?E observed_at) users fs2 e1 = (Inr w2, fs3, e2)"
      unfolding sync_hub_users_def Let_def
      by (auto simp: transaction_Inr tx_bind_Inr query_Inr exec_Inr advisory_lock_def require_current_hub_def
          split: if_splits elim!: lock_and_match_Inr)
    have l1: "late_session (sv_id v) ?who reported e1"
      by (rule late_session_stops [OF assms(1,2) act late stop])
    from rest obtain fs4 e3 w3 fs5 e4
      where p1: "foreach (sync_user parse_time format_time ?hid ?E observed_at) us1 fs2 e1 = (Inr (), fs4, e3)"
      and p2: "sync_user parse_time format_time ?hid ?E observed_at user fs4 e3 = (Inr w3, fs5, e4)"
      unfolding us by (rule foreach_split)
    have l3: "late_session (sv_id v) ?who reported e3"
      by (rule late_foreach [OF _ l1 p1], rule late_sync_user [where n = "sv_username v" and m = "sv_server_name v"])
        (use d1 assms(16) us in \<open>auto simp: key_of_def\<close>)
    from p2 obtain mid fs6 e5 w4 fs7 e6 where mu: "upsert_managed_user ?hid user e3 = Inr (mid, e5)"
      and sv: "foreach (sync_server parse_time ?hid mid (ju_name user) ?E observed_at) (ju_servers user) fs6 e5
          = (Inr w4, fs7, e6)"
      by (auto simp: sync_user_def tx_bind_Inr statement_Inr)
    have l5: "late_session (sv_id v) ?who reported e5"
      by (rule late_sessions_other [OF l3])
        (use mu in \<open>auto simp: upsert_managed_user_def split: option.splits\<close>)
    have nul: "CHR 0x00 \<notin> set (ju_name user)" using assms(10,16) by blast
    from sv obtain fs8 e7 w5 fs9 e8
      where q1: "foreach (sync_server parse_time ?hid mid (ju_name user) ?E observed_at) ss1 fs6 e5 = (Inr (), fs8, e7)"
      and q2: "sync_server parse_time ?hid mid (ju_name user) ?E observed_at (sv_server_name v, raw) fs8 e7
          = (Inr w5, fs9, e8)"
      unfolding ss by (rule foreach_split)
    have l7: "late_session (sv_id v) (?hid, ju_name user, sv_server_name v) reported e7"
      by (rule late_foreach [OF _ _ q1], rule late_sync_server [OF _ nul])
        (use l5 assms(11) in \<open>simp_all, metis d2\<close>)
    have "map_of ?E (server_key (ju_name user) (sv_server_name v)) = Some (sv_id v, None)"
      using running_state_of [OF assms(1-4)] key assms(6) by simp
    with q2 l7 late_blocks_server [OF _ nul, of "sv_id v" ?hid "(sv_server_name v, raw)" reported e7 ?E] assms(5,13)
    show False by auto
  qed
  obtain r fs' d' where run: "?sync fs d = (r, fs', d')" by (metis prod_cases3)
  with no obtain e where "r = Inl e" by (cases r) auto
  with run show ?thesis
    unfolding sync_hub_users_def Let_def by (auto dest: transaction_atomic)
qed

theorem restart_blocks_every_sync_witness:
  "\<exists>e fs'. observe [(''ready'', JBool True), (''started'', JStr ''T'')] (5000 * second) pending_seen
     = (Inl e, fs', pending_seen)"
proof -
  have s: "db_servers pending_seen = [\<lparr>sv_id = 1, sv_hub_id = 7, sv_managed_user_id = Some 1, sv_username = ''ann'',
      sv_server_name = [], sv_status = ''pending_spawn'', sv_started_at = None, sv_last_activity_at = None,
      sv_url = [], sv_node_name = [], sv_pod_name = [], sv_image = [], sv_cpu_cores = None, sv_memory_bytes = None,
      sv_gpu_count = None, sv_raw = [(''pending'', JStr ''spawn'')], sv_synced_at = 5\<rparr>]" by code_simp
  have x: "db_server_sessions pending_seen = [\<lparr>ss_server_id = Some 1, ss_hub_id = 7, ss_username = ''ann'',
      ss_server_name = [], ss_started_at = 1000 * second, ss_last_activity_at = None, ss_ended_at = None\<rparr>]"
    by code_simp
  have n: "db_next_server pending_seen = 2" by code_simp
  let ?raw = "JObj [(''ready'', JBool True), (''started'', JStr ''T'')]"
  have ps: "ps_started (parse_jupyter_server (\<lambda>_. Some (990 * second)) ?raw) = Some (990 * second)"
    by (simp add: parse_jupyter_server_def members_or_none_def parse_time_value_def lookup_Cons)
  have less: "990 * second < 1000 * second" by (simp add: second_def)
  show ?thesis
    unfolding observe_def
    by (rule restart_blocks_every_sync [where v = "hd (db_servers pending_seen)" and raw = ?raw
          and x = "hd (db_server_sessions pending_seen)" and reported = "990 * second"
          and user = "observed_user [(''ready'', JBool True), (''started'', JStr ''T'')]"])
      (use ps in \<open>simp_all add: s x n inventory_ok_def identity_def observed_user_def scan_hub_def demo_hub_def
        less plan_hub_snapshot_def user_active_keys_def\<close>)
qed

end
