(* ===== verification/Csp_Reports.thy ===== *)
theory Csp_Reports
  imports Analytics Http_Request "HOL-Library.Sublist"
begin

text \<open>
  What browsers report as blocked (\<^verbatim>\<open>internal/analytics/violations.go\<close>), the policy of a page
  and the proxy of the collector (\<^verbatim>\<open>internal/api/analytics_handlers.go\<close>). The recorder keeps its
  violations in a Go map: a list of entries with distinct keys, in the order an iteration takes.
\<close>

section \<open>The recorder\<close>

definition max_violations :: nat where "max_violations = 100"

record violation =
  vi_origin :: string
  vi_directive :: string
  vi_page :: string
  vi_count :: int
  vi_first_seen :: time
  vi_last_seen :: time
  vi_allowed :: bool

type_synonym recorder = "(string \<times> violation) list"

fun oldest_violation :: "recorder \<Rightarrow> (string \<times> time) option \<Rightarrow> (string \<times> time) option" where
  "oldest_violation [] best = best"
| "oldest_violation ((key, v) # rest) best =
     oldest_violation rest (case best of
        None \<Rightarrow> Some (key, vi_last_seen v)
      | Some (k, t) \<Rightarrow> if vi_last_seen v < t then Some (key, vi_last_seen v) else best)"

definition evict_oldest :: "recorder \<Rightarrow> recorder" where
  "evict_oldest m =
     (case oldest_violation m None of
        None \<Rightarrow> m
      | Some (k, t) \<Rightarrow> filter (\<lambda>e. fst e \<noteq> k) m)"

definition report_directive :: "string \<Rightarrow> string" where
  "report_directive directive =
     (let lowered = trim_space (to_lower directive);
          first = (case index_of lowered '' '' of None \<Rightarrow> lowered | Some i \<Rightarrow> if 0 < i then take i lowered else lowered)
      in if first = [] then ''connect-src'' else first)"

definition report_page :: "string \<Rightarrow> string" where
  "report_page page = (let p = trim_space page in if 512 < length p then take 512 p else p)"

definition record_violation ::
  "(string \<Rightarrow> url option) \<Rightarrow> time \<Rightarrow> string \<Rightarrow> string \<Rightarrow> string \<Rightarrow> recorder \<Rightarrow> recorder" where
  "record_violation parse_url now blocked directive page m =
     (let origin = origin_of parse_url blocked
      in if origin = [] then m
         else
           let d = report_directive directive; p = report_page page; key = d @ '' '' @ origin
           in if key \<in> fst ` set m
              then map (\<lambda>(k, v). if k = key
                     then (k, v\<lparr>vi_count := vi_count v + 1, vi_last_seen := now, vi_page := p\<rparr>) else (k, v)) m
              else
                let kept = (if max_violations \<le> length m then evict_oldest m else m)
                in kept @ [(key, \<lparr>vi_origin = origin, vi_directive = d, vi_page = p, vi_count = 1,
                     vi_first_seen = now, vi_last_seen = now, vi_allowed = False\<rparr>)])"

definition forget_violations :: "recorder \<Rightarrow> recorder" where
  "forget_violations m = []"

definition wildcard_matches :: "string \<Rightarrow> string \<Rightarrow> bool" where
  "wildcard_matches origin pattern =
     (let host = (case index_of origin ''://'' of None \<Rightarrow> origin | Some i \<Rightarrow> drop (i + 3) origin)
      in case index_of pattern ''*.'' of
           None \<Rightarrow> False
         | Some star \<Rightarrow> has_prefix origin (take star pattern) \<and> has_suffix host (drop (star + 1) pattern))"

definition matches_wildcard :: "string \<Rightarrow> string list \<Rightarrow> bool" where
  "matches_wildcard origin allowed = list_ex (wildcard_matches origin) allowed"

definition allowed_origins :: "(string \<Rightarrow> url option) \<Rightarrow> analytics_config \<Rightarrow> string list" where
  "allowed_origins parse_url c =
     (let (scripts, connects, images) = policy_sources parse_url c
      in map (\<lambda>x. to_lower (trim_suffix x ''/'')) (scripts @ connects @ images))"

definition list_violations :: "(string \<Rightarrow> url option) \<Rightarrow> analytics_config \<Rightarrow> recorder \<Rightarrow> violation list" where
  "list_violations parse_url c m =
     (let allowed = allowed_origins parse_url c;
          items = map (\<lambda>(k, v). v\<lparr>vi_allowed := vi_origin v \<in> set allowed \<or> matches_wildcard (vi_origin v) allowed\<rparr>) m
      in sort_key (\<lambda>v. - vi_last_seen v) (sort_key vi_origin items))"

definition add_allowed_host :: "string \<Rightarrow> string \<Rightarrow> string" where
  "add_allowed_host existing origin =
     (let o1 = trim_space (trim_suffix (trim_space origin) ''/'')
      in if o1 = [] then existing
         else if list_ex (\<lambda>h. equal_fold h o1) (split_hosts existing) then existing
         else if trim_space existing = [] then o1
         else trim_space existing @ '', '' @ o1)"

section \<open>Pages\<close>

definition csp_report_path :: string where "csp_report_path = ''/api/v1/analytics/csp-report''"
definition max_report_bytes :: nat where "max_report_bytes = 8 * 1024"
definition max_proxy_body_bytes :: nat where "max_proxy_body_bytes = 256 * 1024"

definition page_policy :: "(string \<Rightarrow> url option) \<Rightarrow> analytics_config \<Rightarrow> string \<Rightarrow> string \<Rightarrow> string" where
  "page_policy parse_url c path nonce =
     (if \<not> analytics_active c path \<or> nonce = [] then content_security_policy
      else
        let (extra_scripts, extra_connects, extra_images) = policy_sources parse_url c;
            scripts = [quoted ''self'', quoted (''nonce-'' @ nonce)] @ extra_scripts;
            connects = quoted ''self'' # extra_connects;
            images = [quoted ''self'', ''data:''] @ extra_images
        in ''default-src '' @ quoted ''self'' @ ''; img-src '' @ join_with '' '' images
           @ ''; style-src '' @ quoted ''self'' @ '' '' @ quoted ''unsafe-inline''
           @ ''; script-src '' @ join_with '' '' scripts
           @ ''; connect-src '' @ join_with '' '' connects
           @ ''; object-src '' @ quoted ''none'' @ ''; frame-ancestors '' @ quoted ''none''
           @ ''; base-uri '' @ quoted ''self'' @ ''; form-action '' @ quoted ''self''
           @ ''; report-uri '' @ csp_report_path)"

fun last_index_of :: "string \<Rightarrow> string \<Rightarrow> nat option" where
  "last_index_of [] p = (if p = [] then Some 0 else None)"
| "last_index_of (c # s) p =
     (case last_index_of s p of
        Some i \<Rightarrow> Some (Suc i)
      | None \<Rightarrow> if has_prefix (c # s) p then Some 0 else None)"

definition inject_snippet :: "string \<Rightarrow> string \<Rightarrow> string \<Rightarrow> string" where
  "inject_snippet page markup placement =
     (let marker = (if placement = ''body'' then ''</body>'' else ''</head>'')
      in case last_index_of (to_lower page) marker of
           None \<Rightarrow> page @ nl @ markup @ nl
         | Some i \<Rightarrow> take i page @ markup @ nl @ drop i page)"

definition tracked_page ::
  "(string \<Rightarrow> url option) \<Rightarrow> analytics_config \<Rightarrow> string \<Rightarrow> string option \<Rightarrow> string \<Rightarrow> string \<times> string" where
  \<comment> \<open>\<open>random\<close> is the result of \<^verbatim>\<open>secure.RandomToken(16)\<close>\<close>
  "tracked_page parse_url c path random page =
     (if \<not> analytics_active c path then (page, content_security_policy)
      else case random of
        None \<Rightarrow> (page, content_security_policy)
      | Some nonce \<Rightarrow> (inject_snippet page (snippet c nonce) (ac_placement c), page_policy parse_url c path nonce))"

definition analytics_config_of :: "(store_db, 'e, analytics_config) tx" where
  \<comment> \<open>a setting that cannot be read counts as none\<close>
  "analytics_config_of fs d =
     (case get_setting analytics_key fs d of
        (Inl e, fs', d') \<Rightarrow> (Inr default_analytics, fs', d')
      | (Inr raw, fs', d') \<Rightarrow> (Inr (parse_analytics raw), fs', d'))"

section \<open>Handlers\<close>

definition receive_csp_report ::
  "(string \<Rightarrow> url option) \<Rightarrow> (string \<Rightarrow> json option) \<Rightarrow> time \<Rightarrow> string option \<Rightarrow> recorder \<Rightarrow> recorder" where
  \<comment> \<open>\<open>None\<close> is a body that cannot be read; the reply is 204 in any case\<close>
  "receive_csp_report parse_url parse_json now body m =
     (case body of
        None \<Rightarrow> m
      | Some text \<Rightarrow>
          let limited = take max_report_bytes text
          in if limited = [] then m
             else case parse_json limited of
               None \<Rightarrow> m
             | Some document \<Rightarrow>
                 (case object_members document of
                    None \<Rightarrow> m
                  | Some members \<Rightarrow>
                      (case object_members (lookup members ''csp-report'') of
                         None \<Rightarrow> m
                       | Some report \<Rightarrow>
                           (case (string_field report ''blocked-uri'', string_field report ''violated-directive'',
                                  string_field report ''effective-directive'', string_field report ''document-uri'') of
                              (Some blocked, Some violated, Some effective, Some page) \<Rightarrow>
                                record_violation parse_url now blocked
                                  (if effective = [] then violated else effective) page m
                            | _ \<Rightarrow> m))))"

definition momento_proxy_allowed :: "string \<Rightarrow> string \<Rightarrow> bool" where
  "momento_proxy_allowed verb path =
     (let rest = trim_prefix path momento_proxy_prefix
      in (verb = ''GET'' \<and> rest = ''/tracker.js'') \<or> (verb = ''POST'' \<and> has_prefix rest ''/collect/''))"

record forwarded =
  fw_target :: url
  fw_path :: string
  fw_headers :: "string list"
  fw_body :: string

text \<open>
  The request the proxy sends: \<open>None\<close> is the reply 404. The names of the headers are kept, less the
  two that carry credentials of this application; a body over the limit is an error of the transport.
\<close>

definition momento_proxy ::
  "(string \<Rightarrow> url option) \<Rightarrow> (string \<Rightarrow> ip option) \<Rightarrow> analytics_config \<Rightarrow> request \<Rightarrow> string list \<Rightarrow> string
    \<Rightarrow> forwarded option" where
  "momento_proxy parse_url parse_ip c r headers body =
     (if \<not> proxy_active c \<or> \<not> momento_proxy_allowed (rq_method r) (rq_path r) then None
      else case validate_endpoint parse_url parse_ip (ac_momento_url c) of
        Inl e \<Rightarrow> None
      | Inr target \<Rightarrow>
          Some \<lparr>fw_target = target\<lparr>url_fragment := []\<rparr>, fw_path = trim_prefix (rq_path r) momento_proxy_prefix,
                fw_headers = filter (\<lambda>h. h \<noteq> ''Cookie'' \<and> h \<noteq> ''Authorization'') headers,
                fw_body = take max_proxy_body_bytes body\<rparr>)"

definition proxy_response_headers :: "string list \<Rightarrow> string list" where
  "proxy_response_headers headers = filter (\<lambda>h. h \<noteq> ''Set-Cookie'') headers"

section \<open>Every script carries the nonce\<close>


lemma index_of_first: "index_of s p = Some i \<Longrightarrow> j < i \<Longrightarrow> \<not> has_prefix (drop j s) p"
proof (induction s arbitrary: i j)
  case (Cons c s)
  then show ?case by (cases j) (auto split: if_splits)
qed (auto split: if_splits)

lemma index_of_None: "index_of s p = None \<Longrightarrow> \<not> has_prefix (drop j s) p"
proof (induction s arbitrary: j)
  case Nil
  then show ?case by (cases p) (auto simp: has_prefix_def split: if_splits)
next
  case (Cons c s)
  then show ?case by (cases j) (auto split: if_splits)
qed









text \<open>What follows each \<open><script\<close> of a text, in order, whatever the case of its letters.\<close>

definition script_rests :: "string \<Rightarrow> string list" where
  "script_rests s =
     map (\<lambda>i. drop (i + 7) s)
       (filter (\<lambda>i. has_prefix (to_lower (drop i s)) ''<script'') [0..<length s])"

lemma script_rests_simps [simp]:
  "script_rests [] = []"
  "script_rests (c # s) =
     (if has_prefix (to_lower (c # s)) ''<script'' then [drop 6 s] else []) @ script_rests s"
  by (simp_all add: script_rests_def upt_conv_Cons map_Suc_upt [symmetric] filter_map o_def drop_Cons' add.commute del: upt_Suc)













end
