(* ===== verification/Settings_Form.thy ===== *)
theory Settings_Form
  imports Settings_Api Settings_Properties
begin

text \<open>
  What an accepted settings form leaves in the database: only listed fields, no credential in a settings
  document, and a key policy that the handlers of API keys can load.
\<close>

section \<open>From the form to the rows\<close>

lemma each_ok_iff: "each_ok f xs = Inr u \<longleftrightarrow> (\<forall>x \<in> set xs. f x = Inr ())"
  by (induction xs) (auto simp: res_bind_Inr_iff)

lemma collect_settings_distinct:
  "collect_settings input settings secrets = Inr (settings', secrets') \<Longrightarrow> distinct (map fst settings)
    \<Longrightarrow> distinct (map fst settings')"
proof (induction input settings secrets arbitrary: settings' secrets' rule: collect_settings.induct)
  case (2 key doc rest settings secrets)
  show ?case
  proof (cases "is_secret_key key")
    case True
    with 2 show ?thesis by (auto simp: res_bind_Inr_iff)
  next
    case False
    with 2(3) obtain clean found where c: "collect_value key doc secrets = Inr (clean, found)"
      and n: "map_of settings (canonical_setting_key key) = None"
      and r: "collect_settings rest (settings @ [(canonical_setting_key key, clean)]) found = Inr (settings', secrets')"
      by (auto simp: res_bind_Inr_iff Let_def split: if_splits)
    show ?thesis by (rule 2(2) [OF False refl _ r]) (use n 2(4) in \<open>simp_all add: map_of_eq_None_iff\<close>)
  qed
qed simp

lemma apply_secure_defaults_keys: "map fst (apply_secure_defaults settings) = map fst settings"
  by (auto simp: apply_secure_defaults_def apply_section_defaults_def Let_def split: prod.splits json.splits)

lemma settings_put_Inr:
  assumes "settings_put parse_url parse_ip capture_names encrypt body r fs d = (Inr page, fs', d')"
  obtains settings secrets updates submitted f v f' d1
  where "distinct (map fst settings)"
    and "validate_settings_update parse_url parse_ip capture_names settings secrets = Inr ()"
    and "map_res encode_setting settings = Inr updates"
    and "write_settings updates submitted (u_id (p_user (rq_principal r))) f d = (Inr v, f', d1)"
    and "db_settings d' = db_settings d1"
proof -
  from assms obtain input collected secrets fs1 d1 fs2 x fs3 d2
    where c: "collect_settings (nested_input input) [] [] = Inr (collected, secrets)"
    and v: "validate_settings_update parse_url parse_ip capture_names (apply_secure_defaults collected) secrets = Inr ()"
    and u: "update_settings_and_secrets encrypt (apply_secure_defaults collected) secrets
        (u_id (p_user (rq_principal r))) fs d = (Inr (), fs2, d1)"
    and a: "ignore_error (record_audit x) fs2 d1 = (Inr (), fs3, d2)"
    and g: "settings_get r fs3 d2 = (Inr page, fs', d')"
    by (auto simp: settings_put_def Let_def tx_bind_Inr audit_def split: option.splits sum.splits)
  have "d' = d2" using g by (auto simp: settings_get_def tx_bind_Inr list_settings_def secret_status_def
      list_integration_health_def query_Inr)
  moreover have "db_settings d2 = db_settings d1"
  proof -
    have "keeps (\<lambda>d. db_settings d = db_settings d1) (ignore_error (record_audit x))"
      unfolding record_audit_def by (intro inv_intros keeps_exec) simp
    from keepsD [OF this refl a] show ?thesis .
  qed
  moreover have "distinct (map fst (apply_secure_defaults collected))"
    using collect_settings_distinct [OF c] by (simp add: apply_secure_defaults_keys)
  moreover from u obtain updates submitted f w f' where "map_res encode_setting (apply_secure_defaults collected) = Inr updates"
    "write_settings updates submitted (u_id (p_user (rq_principal r))) f d = (Inr w, f', d1)"
    by (auto simp: update_settings_and_secrets_def transaction_Inr split: sum.splits)
  ultimately show thesis using that v by simp
qed

lemma map_res_set: "map_res f xs = Inr ys \<Longrightarrow> y \<in> set ys \<Longrightarrow> \<exists>x \<in> set xs. f x = Inr y"
  by (induction xs arbitrary: ys) (auto simp: res_bind_Inr_iff)

lemma settings_put_rows:
  assumes "settings_put parse_url parse_ip capture_names encrypt body r fs d = (Inr page, fs', d')"
    and "setting_of key d' \<noteq> setting_of key d"
  obtains m0 doc where "setting_of key d' = Some doc" and "key \<in> set allowed_setting_keys"
    and "validate_setting_section parse_url parse_ip capture_names key m0 = Inr ()"
    and "encode_setting (key, JObj m0) = Inr (key, doc)"
proof -
  from settings_put_Inr [OF assms(1)] obtain settings secrets updates submitted f v f' d1
  where dist: "distinct (map fst settings)"
    and ok: "validate_settings_update parse_url parse_ip capture_names settings secrets = Inr ()"
    and u: "map_res encode_setting settings = Inr updates"
    and w: "write_settings updates submitted (u_id (p_user (rq_principal r))) f d = (Inr v, f', d1)"
    and rows: "db_settings d' = db_settings d1"
    by metis
  have "distinct (map fst updates)" using map_res_keys [OF u encode_setting_key] dist by simp
  then have "setting_of key d1 = (case map_of updates key of Some v \<Rightarrow> Some v | None \<Rightarrow> setting_of key d)"
    by (simp add: write_settings_Inr(1) [OF w] fold_settings)
  with assms(2) rows obtain doc where doc: "map_of updates key = Some doc" "setting_of key d' = Some doc"
    by (auto simp: setting_of_def split: option.splits)
  from map_res_set [OF u map_of_SomeD [OF doc(1)]] obtain x where x: "x \<in> set settings"
    "encode_setting x = Inr (key, doc)" by blast
  from encode_setting_key [OF x(2)] obtain v0 where v0: "x = (key, v0)" by (cases x) auto
  from ok have "each_ok (\<lambda>(key, doc). if key \<notin> set allowed_setting_keys then Inl UnknownSection
       else case as_object doc of None \<Rightarrow> Inl SectionNotObject
       | Some object \<Rightarrow> validate_setting_section parse_url parse_ip capture_names key object) settings = Inr ()"
    by (auto simp: validate_settings_update_def res_bind_Inr_iff)
  with x(1) v0 obtain m0 where "key \<in> set allowed_setting_keys" "v0 = JObj m0"
    "validate_setting_section parse_url parse_ip capture_names key m0 = Inr ()"
    by (fastforce simp: each_ok_iff split: if_splits option.splits)
  with that doc(2) x(2) v0 show thesis by simp
qed

section \<open>No credential in a document\<close>

lemma section_fields:
  assumes "validate_setting_section parse_url parse_ip capture_names key m = Inr ()"
  shows "fst ` set m \<subseteq> set (fields_of allowed_setting_fields key)"
proof -
  have "\<forall>x \<in> set m. (\<lambda>(field, _). need (field \<in> set (fields_of allowed_setting_fields key)) UnknownField) x = Inr ()"
    using assms unfolding validate_setting_section_def Let_def each_ok_iff 
    by (simp only: list.set ball_simps id_apply each_ok_iff) (elim conjE)
  then show ?thesis by (auto simp: need_def split: if_splits)
qed

lemma prefix_chars:
  "has_prefix s []" "has_prefix (c # s) (e # p) \<longleftrightarrow> c = e \<and> has_prefix s p" "\<not> has_prefix [] (e # p)"
  by (simp_all add: has_prefix_def)

lemma listed_fields_not_secret:
  "list_all (\<lambda>key. list_all (\<lambda>f. \<not> is_secret_key f) (fields_of allowed_setting_fields key)) allowed_setting_keys"
  by (simp add: prefix_chars allowed_setting_keys_def fields_of_def allowed_setting_fields_def is_secret_key_def
      analytics_key_def mail_key_def to_lower_def lower_char_def contains_sub_def has_suffix_def)

lemma encode_fields:
  assumes "encode_setting (key, JObj m) = Inr (key, doc)"
  shows "\<exists>m'. doc = JObj m' \<and> fst ` set m' \<subseteq> fst ` set m \<union> (if key = ''ai'' then {''provider'', ''streaming''} else {})"
  using assms by (auto simp: encode_setting_def put_member_def split: if_splits)

text \<open>C13: A settings document never holds a credential: whatever an administrator submits, a document the form
  wrote is an object whose fields are all on the list of its section, and no listed field is one that
  holds a secret.\<close>

theorem settings_documents_hold_no_secret:
  assumes "settings_put parse_url parse_ip capture_names encrypt body r fs d = (Inr page, fs', d')"
    and "setting_of key d' \<noteq> setting_of key d"
  shows "\<exists>m. setting_of key d' = Some (JObj m)
    \<and> (\<forall>f \<in> fst ` set m. f \<in> set (fields_of allowed_setting_fields key) \<and> \<not> is_secret_key f)"
proof -
  from settings_put_rows [OF assms] obtain m0 doc where row: "setting_of key d' = Some doc"
    "key \<in> set allowed_setting_keys" and ok: "validate_setting_section parse_url parse_ip capture_names key m0 = Inr ()"
    and enc: "encode_setting (key, JObj m0) = Inr (key, doc)" by metis
  from encode_fields [OF enc] obtain m where m: "doc = JObj m"
    "fst ` set m \<subseteq> fst ` set m0 \<union> (if key = ''ai'' then {''provider'', ''streaming''} else {})" by blast
  have "{''provider'', ''streaming''} \<subseteq> set (fields_of allowed_setting_fields ''ai'')" by code_simp
  then have "(if key = ''ai'' then {''provider'', ''streaming''} else {}) \<subseteq> set (fields_of allowed_setting_fields key)"
    by simp
  with m(2) section_fields [OF ok] have f: "fst ` set m \<subseteq> set (fields_of allowed_setting_fields key)"
    by blast
  moreover have "\<forall>f \<in> set (fields_of allowed_setting_fields key). \<not> is_secret_key f"
    using listed_fields_not_secret row(2) by (auto simp: list_all_iff)
  ultimately show ?thesis using row(1) m(1) by blast
qed

definition demo_admin :: request where
  "demo_admin = demo_request ''PUT'' (\<lambda>_. []) (demo_principal [''settings:write''])"

definition demo_put :: "json_object \<Rightarrow> (http_error, settings_page) res \<times> faults \<times> store_db" where
  "demo_put input = settings_put (\<lambda>_. None) (\<lambda>_. None) (\<lambda>_. None) (\<lambda>_ s. Some s) (Some (JObj input)) demo_admin []
     demo_settings"

definition demo_security :: json_object where
  "demo_security = [(''security'', JObj [(''key_rotation_days'', JNum 30), (''key_max_lifetime_days'', JNum 90),
     (''key_permissions'', JArr [JStr ''hubs:read''])])]"

lemma demo_put_run: "\<exists>page fs' d'. demo_put demo_security = (Inr page, fs', d')
    \<and> setting_of ''security'' d' \<noteq> setting_of ''security'' demo_settings"
proof -
  have "case demo_put demo_security of (r, _, d') \<Rightarrow> is_ok r \<and> setting_of ''security'' d' \<noteq> None" by code_simp
  moreover have "setting_of ''security'' demo_settings = None" by (simp add: setting_of_def demo_settings_def)
  ultimately show ?thesis by (cases "demo_put demo_security") (auto simp: is_ok_iff)
qed

theorem settings_documents_hold_no_secret_witness:
  "\<exists>d' m. setting_of ''security'' d' = Some (JObj m) \<and> (\<forall>f \<in> fst ` set m. \<not> is_secret_key f)"
proof -
  from demo_put_run obtain page fs' d' where r: "demo_put demo_security = (Inr page, fs', d')"
    and n: "setting_of ''security'' d' \<noteq> setting_of ''security'' demo_settings" by blast
  from settings_documents_hold_no_secret [OF r [unfolded demo_put_def] n] show ?thesis by blast
qed

section \<open>The key policy\<close>

lemma lookup_has_key: "lookup m f \<noteq> JNull \<Longrightarrow> has_key m f"
  by (auto simp: lookup_def has_key_def split: option.splits)

lemma bounded_int_field:
  assumes "check_bound key m (key, field, 1, 3650) = Inr ()" and "field \<noteq> ''input_cost_per_million''"
    and "field \<noteq> ''output_cost_per_million''" and "as_number (lookup m field) = Some n"
  shows "int_field m field = Some \<lfloor>n\<rfloor>" and "1 \<le> \<lfloor>n\<rfloor>" and "\<lfloor>n\<rfloor> \<le> 3650"
proof -
  from assms(4) have l: "lookup m field = JNum n" by simp
  then have "has_key m field" by (intro lookup_has_key) simp
  with assms l have b: "1 \<le> n" "n \<le> 3650" "is_integral n"
    by (auto simp: check_bound_def check_if_def need_def split: if_splits)
  then have f: "1 \<le> \<lfloor>n\<rfloor>" "\<lfloor>n\<rfloor> \<le> 3650" by (simp_all add: le_floor_iff floor_le_iff)
  then show "1 \<le> \<lfloor>n\<rfloor>" "\<lfloor>n\<rfloor> \<le> 3650" .
  from f b(3) l show "int_field m field = Some \<lfloor>n\<rfloor>"
    by (simp add: int_field_def int64_min_def int64_max_def)
qed

lemma strings_of_map_res:
  "map_res (\<lambda>x. case as_string x of None \<Rightarrow> Inl () | Some s \<Rightarrow> Inr s) xs = Inr ss \<Longrightarrow> strings_of xs = Some ss"
  by (induction xs arbitrary: ss) (auto simp: res_bind_Inr_iff split: option.splits)

lemma accepted_security_policy:
  assumes "validate_setting_section parse_url parse_ip capture_names ''security'' m = Inr ()"
  shows "\<exists>policy. decode_key_policy (JObj m) = Some policy \<and> validate_key_policy policy = Inr ()"
proof -
  from assms have b: "check_bound ''security'' m (''security'', ''key_rotation_days'', 1, 3650) = Inr ()"
    "check_bound ''security'' m (''security'', ''key_max_lifetime_days'', 1, 3650) = Inr ()"
    and s: "check_security m = Inr ()"
    by (simp_all add: validate_setting_section_def Let_def each_ok_iff number_bounds_def del: each_ok.simps)
  from s obtain rotation maximum permissions where n: "as_number (lookup m ''key_rotation_days'') = Some rotation"
    "as_number (lookup m ''key_max_lifetime_days'') = Some maximum" "rotation \<le> maximum"
    and a: "string_setting_array (lookup m ''key_permissions'') = Some permissions"
    "permissions = [] \<or> is_ok (validate_scopes permissions)"
    by (auto simp: check_security_def need_def split: option.splits if_splits)
  from a(1) have p: "strings_field m ''key_permissions'' = Some permissions"
    by (auto simp: string_setting_array_def strings_field_def strings_of_map_res split: json.splits sum.splits)
  from bounded_int_field [OF b(1) _ _ n(1)] bounded_int_field [OF b(2) _ _ n(2)] n(3) a(2) p
  have "validate_key_policy \<lparr>kp_rotation_days = \<lfloor>rotation\<rfloor>, kp_max_lifetime_days = \<lfloor>maximum\<rfloor>,
      kp_permissions = permissions\<rparr> = Inr ()"
    by (auto simp: validate_key_policy_def dest: floor_mono)
  moreover have "decode_key_policy (JObj m) = Some \<lparr>kp_rotation_days = \<lfloor>rotation\<rfloor>,
      kp_max_lifetime_days = \<lfloor>maximum\<rfloor>, kp_permissions = permissions\<rparr>"
    using bounded_int_field [OF b(1) _ _ n(1)] bounded_int_field [OF b(2) _ _ n(2)] p
    by (simp add: decode_key_policy_def)
  ultimately show ?thesis by blast
qed

lemma get_setting_of: "get_setting key = query_row DbError ErrNotFound (setting_of key)"
  by (simp add: get_setting_def setting_of_def [abs_def])

text \<open>The form and the API keys agree on what a policy is: a security section the form accepts is one that key
  creation can load, so saving settings never locks everybody out of creating keys.\<close>

theorem accepted_policy_loads:
  assumes "settings_put parse_url parse_ip capture_names encrypt body r fs d = (Inr page, fs', d')"
    and "setting_of ''security'' d' \<noteq> setting_of ''security'' d"
  shows "\<exists>policy. load_key_policy [] d' = (Inr policy, [], d') \<and> 1 \<le> kp_rotation_days policy
    \<and> kp_rotation_days policy \<le> kp_max_lifetime_days policy \<and> kp_max_lifetime_days policy \<le> 3650"
proof -
  from settings_put_rows [OF assms] obtain m0 doc where row: "setting_of ''security'' d' = Some doc"
    and ok: "validate_setting_section parse_url parse_ip capture_names ''security'' m0 = Inr ()"
    and enc: "encode_setting (''security'', JObj m0) = Inr (''security'', doc)" by metis
  from enc have v: "doc = JObj m0" by (simp add: encode_setting_def)
  from accepted_security_policy [OF ok] obtain policy where p: "decode_key_policy (JObj m0) = Some policy"
    "validate_key_policy policy = Inr ()" by blast
  have "load_key_policy [] d' = (Inr policy, [], d')"
    using row v p by (simp add: load_key_policy_def get_setting_of query_row_def statement_def)
  with p(2) show ?thesis by (auto simp: validate_key_policy_def split: if_splits)
qed

theorem accepted_policy_loads_witness:
  "\<exists>d' policy. load_key_policy [] d' = (Inr policy, [], d') \<and> kp_max_lifetime_days policy \<le> 3650"
proof -
  from demo_put_run obtain page fs' d' where r: "demo_put demo_security = (Inr page, fs', d')"
    and n: "setting_of ''security'' d' \<noteq> setting_of ''security'' demo_settings" by blast
  from accepted_policy_loads [OF r [unfolded demo_put_def] n] show ?thesis by blast
qed

end
