(* ===== verification/Provider_Cache.thy ===== *)
theory Provider_Cache
  imports Models Transitions "HOL-Library.AList"
begin

text \<open>
  The cache of discovered OIDC providers (\<^verbatim>\<open>internal/auth/oidc_provider.go\<close>). Every discovery is an entry
  with a number; the map of the cache sends a key to the number of its entry, and an entry that left the
  map keeps its number, because its waiters still hold it. A discovery writes its result and closes the
  channel \<^verbatim>\<open>ready\<close> in two steps (\<open>Resolved\<close>, then \<open>Answered\<close>), so what runs between them is modelled.
\<close>

type_synonym provider_key = "string \<times> bool"

datatype 'p outcome = Discovered 'p time | DiscoveryFailed

datatype 'p discovery =
    InFlight
  | Resolved "'p outcome"
  | Answered "'p outcome"

record 'p provider_cache =
  pc_entries :: "(provider_key \<times> nat) list"
  pc_discoveries :: "'p discovery list"
  pc_now :: time

definition oidc_provider_ttl :: time where "oidc_provider_ttl = 10 * minute"

definition new_provider_cache :: "time \<Rightarrow> 'p provider_cache" where
  "new_provider_cache now = \<lparr>pc_entries = [], pc_discoveries = [], pc_now = now\<rparr>"

section \<open>Operations\<close>

definition discovery_of :: "nat \<Rightarrow> 'p provider_cache \<Rightarrow> 'p discovery" where
  "discovery_of i c = pc_discoveries c ! i"

definition expired :: "'p provider_cache \<Rightarrow> nat \<Rightarrow> bool" where
  \<comment> \<open>a closed entry past its time; the expiry of a failed one is the zero time\<close>
  "expired c i =
     (case discovery_of i c of
        Answered (Discovered p expires) \<Rightarrow> \<not> pc_now c < expires
      | Answered DiscoveryFailed \<Rightarrow> \<not> pc_now c < zero_time
      | _ \<Rightarrow> False)"

definition evict_expired :: "'p provider_cache \<Rightarrow> 'p provider_cache" where
  "evict_expired c = c\<lparr>pc_entries := filter (\<lambda>e. \<not> expired c (snd e)) (pc_entries c)\<rparr>"

text \<open>The locked part of \<^verbatim>\<open>get\<close>: the number of the entry the caller waits for.\<close>

definition cache_get :: "provider_key \<Rightarrow> 'p provider_cache \<Rightarrow> nat \<times> 'p provider_cache" where
  "cache_get key c =
     (let c1 = evict_expired c
      in case map_of (pc_entries c1) key of
           Some i \<Rightarrow> (i, c1)
         | None \<Rightarrow>
             (let i = length (pc_discoveries c1)
              in (i, c1\<lparr>pc_entries := (key, i) # pc_entries c1, pc_discoveries := pc_discoveries c1 @ [InFlight]\<rparr>)))"

text \<open>\<^verbatim>\<open>resolve\<close>: the locked part, with the answer of the discovery, then the closing of the channel.\<close>

definition cache_resolve :: "provider_key \<Rightarrow> nat \<Rightarrow> 'p option \<Rightarrow> 'p provider_cache \<Rightarrow> 'p provider_cache" where
  "cache_resolve key i provider c =
     (case provider of
        None \<Rightarrow>
          c\<lparr>pc_entries := (if map_of (pc_entries c) key = Some i
                            then AList.delete key (pc_entries c) else pc_entries c),
            pc_discoveries := (pc_discoveries c)[i := Resolved DiscoveryFailed]\<rparr>
      | Some p \<Rightarrow>
          c\<lparr>pc_discoveries := (pc_discoveries c)[i := Resolved (Discovered p (pc_now c + oidc_provider_ttl))]\<rparr>)"

definition cache_close :: "nat \<Rightarrow> 'p provider_cache \<Rightarrow> 'p provider_cache" where
  "cache_close i c =
     (case discovery_of i c of
        Resolved out \<Rightarrow> c\<lparr>pc_discoveries := (pc_discoveries c)[i := Answered out]\<rparr>
      | _ \<Rightarrow> c)"

definition cache_forget :: "provider_key \<Rightarrow> 'p provider_cache \<Rightarrow> 'p provider_cache" where
  "cache_forget key c = c\<lparr>pc_entries := AList.delete key (pc_entries c)\<rparr>"

text \<open>What a waiter gets once its entry is closed.\<close>

definition cache_answer :: "nat \<Rightarrow> 'p provider_cache \<Rightarrow> 'p option option" where
  "cache_answer i c =
     (case discovery_of i c of
        Answered (Discovered p expires) \<Rightarrow> Some (Some p)
      | Answered DiscoveryFailed \<Rightarrow> Some None
      | _ \<Rightarrow> None)"

section \<open>Steps\<close>

text \<open>
  Every entry has the goroutine that \<^verbatim>\<open>get\<close> started for it, with the key it was started for and the place
  it has reached: it waits for the discovery, which ends with a provider or an error, takes the lock and
  writes the result, then closes the channel. The other steps are those of the callers and of the clock.
\<close>

datatype routine = Discovering | Closing | Done

record 'p cache_system =
  cs_cache :: "'p provider_cache"
  cs_keys :: "provider_key list"
  cs_routines :: "routine list"

inductive cache_step :: "'p cache_system \<Rightarrow> 'p cache_system \<Rightarrow> bool" where
  get_hit: "cache_get key (cs_cache s) = (i, c) \<Longrightarrow> i < length (cs_keys s) \<Longrightarrow>
     cache_step s (s\<lparr>cs_cache := c\<rparr>)"
| get_miss: "cache_get key (cs_cache s) = (i, c) \<Longrightarrow> i = length (cs_keys s) \<Longrightarrow>
     cache_step s (s\<lparr>cs_cache := c, cs_keys := cs_keys s @ [key], cs_routines := cs_routines s @ [Discovering]\<rparr>)"
| resolve: "i < length (cs_keys s) \<Longrightarrow> cs_routines s ! i = Discovering \<Longrightarrow>
     cache_step s (s\<lparr>cs_cache := cache_resolve (cs_keys s ! i) i provider (cs_cache s),
       cs_routines := (cs_routines s)[i := Closing]\<rparr>)"
| close: "i < length (cs_keys s) \<Longrightarrow> cs_routines s ! i = Closing \<Longrightarrow>
     cache_step s (s\<lparr>cs_cache := cache_close i (cs_cache s), cs_routines := (cs_routines s)[i := Done]\<rparr>)"
| forget: "cache_step s (s\<lparr>cs_cache := cache_forget key (cs_cache s)\<rparr>)"
| tick: "pc_now (cs_cache s) \<le> now \<Longrightarrow> cache_step s (s\<lparr>cs_cache := (cs_cache s)\<lparr>pc_now := now\<rparr>\<rparr>)"

inductive_cases cache_stepE: "cache_step s t"

definition cache_start :: "'p cache_system \<Rightarrow> bool" where
  "cache_start s \<longleftrightarrow> (\<exists>now. s = \<lparr>cs_cache = new_provider_cache now, cs_keys = [], cs_routines = []\<rparr>)"

section \<open>Invariant\<close>

text \<open>The map has one entry per key, each for a discovery of that very key, and never a failed one; the
  expiry of a discovered provider is at most the time to live away.\<close>

fun not_failed :: "'p discovery \<Rightarrow> bool" where
  "not_failed (Resolved DiscoveryFailed) = False"
| "not_failed (Answered DiscoveryFailed) = False"
| "not_failed _ = True"

definition entry_ok :: "'p cache_system \<Rightarrow> provider_key \<times> nat \<Rightarrow> bool" where
  "entry_ok s e =
     (snd e < length (cs_keys s) \<and> cs_keys s ! snd e = fst e \<and> not_failed (discovery_of (snd e) (cs_cache s)))"

definition outcome_ok :: "time \<Rightarrow> 'p discovery \<Rightarrow> bool" where
  "outcome_ok now x =
     (case x of
        Resolved (Discovered p t) \<Rightarrow> t \<le> now + oidc_provider_ttl
      | Answered (Discovered p t) \<Rightarrow> t \<le> now + oidc_provider_ttl
      | _ \<Rightarrow> True)"

fun routine_ok :: "routine \<Rightarrow> 'p discovery \<Rightarrow> bool" where
  "routine_ok Discovering InFlight = True"
| "routine_ok Closing (Resolved out) = True"
| "routine_ok Done (Answered out) = True"
| "routine_ok r x = False"

definition cache_inv :: "'p cache_system \<Rightarrow> bool" where
  "cache_inv s \<longleftrightarrow>
     length (pc_discoveries (cs_cache s)) = length (cs_keys s)
     \<and> list_all2 routine_ok (cs_routines s) (pc_discoveries (cs_cache s))
     \<and> distinct (map fst (pc_entries (cs_cache s)))
     \<and> (\<forall>e \<in> set (pc_entries (cs_cache s)). entry_ok s e)
     \<and> (\<forall>x \<in> set (pc_discoveries (cs_cache s)). outcome_ok (pc_now (cs_cache s)) x)"

lemma outcome_ok_later: "outcome_ok now x \<Longrightarrow> now \<le> later \<Longrightarrow> outcome_ok later x"
  by (auto simp: outcome_ok_def split: discovery.splits outcome.splits)

lemma evict_expired_simps [simp]:
  "pc_discoveries (evict_expired c) = pc_discoveries c" "pc_now (evict_expired c) = pc_now c"
  "set (pc_entries (evict_expired c)) \<subseteq> set (pc_entries c)"
  "distinct (map fst (pc_entries c)) \<Longrightarrow> distinct (map fst (pc_entries (evict_expired c)))"
  by (auto simp: evict_expired_def distinct_map_filter)

lemma cache_inv_get:
  assumes "cache_inv s" and "cache_get key (cs_cache s) = (i, c)"
  shows "i < length (cs_keys s) \<Longrightarrow> cache_inv (s\<lparr>cs_cache := c\<rparr>)"
    and "i = length (cs_keys s) \<Longrightarrow> cache_inv (s\<lparr>cs_cache := c, cs_keys := cs_keys s @ [key], cs_routines := cs_routines s @ [Discovering]\<rparr>)"
    and "i \<le> length (cs_keys s)"
proof -
  let ?c = "evict_expired (cs_cache s)"
  have inv: "length (pc_discoveries ?c) = length (cs_keys s)" "distinct (map fst (pc_entries ?c))"
    "\<forall>e \<in> set (pc_entries ?c). entry_ok s e" "\<forall>x \<in> set (pc_discoveries ?c). outcome_ok (pc_now ?c) x"
    "list_all2 routine_ok (cs_routines s) (pc_discoveries ?c)"
    using assms(1) evict_expired_simps(3) [of "cs_cache s"]
    by (auto simp: cache_inv_def simp del: evict_expired_simps(3))
  have hit: "i < length (cs_keys s) \<and> c = ?c" if "map_of (pc_entries ?c) key = Some j" for j
    using that inv(3) map_of_SomeD [OF that] assms(2) by (auto simp: cache_get_def Let_def entry_ok_def)
  have miss: "i = length (cs_keys s)
      \<and> c = ?c\<lparr>pc_entries := (key, i) # pc_entries ?c, pc_discoveries := pc_discoveries ?c @ [InFlight]\<rparr>"
    if "map_of (pc_entries ?c) key = None"
    using that inv(1) assms(2) by (auto simp: cache_get_def Let_def)
  show "i \<le> length (cs_keys s)" using hit miss by (cases "map_of (pc_entries ?c) key") auto
  show "cache_inv (s\<lparr>cs_cache := c\<rparr>)" if "i < length (cs_keys s)"
  proof (cases "map_of (pc_entries ?c) key")
    case None
    with miss that show ?thesis by simp
  next
    case (Some j)
    with hit inv show ?thesis by (auto simp: cache_inv_def entry_ok_def discovery_of_def)
  qed
  show "cache_inv (s\<lparr>cs_cache := c, cs_keys := cs_keys s @ [key], cs_routines := cs_routines s @ [Discovering]\<rparr>)" if "i = length (cs_keys s)"
  proof (cases "map_of (pc_entries ?c) key")
    case None
    then have "key \<notin> fst ` set (pc_entries ?c)" by (simp add: map_of_eq_None_iff)
    with miss [OF None] inv that show ?thesis
      by (auto simp: cache_inv_def entry_ok_def discovery_of_def nth_append outcome_ok_def intro: list_all2_appendI)
  next
    case (Some j)
    with hit that show ?thesis by simp
  qed
qed

text \<open>A discovery may change as long as an entry that still names it does not become a failed one.\<close>

lemma cache_inv_update:
  assumes inv: "cache_inv s" and i: "i < length (cs_keys s)"
    and out: "outcome_ok (pc_now (cs_cache s)) x"
    and es: "set es \<subseteq> set (pc_entries (cs_cache s))" "distinct (map fst es)"
    and mapped: "not_failed x \<or> i \<notin> snd ` set es" and r: "routine_ok r x"
  shows "cache_inv (s\<lparr>cs_cache := (cs_cache s)\<lparr>pc_entries := es,
           pc_discoveries := (pc_discoveries (cs_cache s))[i := x]\<rparr>, cs_routines := (cs_routines s)[i := r]\<rparr>)"
proof -
  have "entry_ok (s\<lparr>cs_cache := (cs_cache s)\<lparr>pc_entries := es,
           pc_discoveries := (pc_discoveries (cs_cache s))[i := x]\<rparr>, cs_routines := (cs_routines s)[i := r]\<rparr>) e" if e: "e \<in> set es" for e
  proof -
    from e es(1) inv have ok: "entry_ok s e" by (auto simp: cache_inv_def)
    show ?thesis
    proof (cases "snd e = i")
      case True
      with e mapped have "not_failed x" by auto
      with True ok inv i show ?thesis by (simp add: entry_ok_def discovery_of_def cache_inv_def)
    next
      case False
      with ok show ?thesis by (simp add: entry_ok_def discovery_of_def)
    qed
  qed
  moreover have "outcome_ok (pc_now (cs_cache s)) y"
    if "y \<in> set ((pc_discoveries (cs_cache s))[i := x])" for y
    using that inv out set_update_subset_insert [of "pc_discoveries (cs_cache s)" i x]
    by (auto simp: cache_inv_def)
  moreover have "list_all2 routine_ok ((cs_routines s)[i := r]) ((pc_discoveries (cs_cache s))[i := x])"
    using inv r by (intro list_all2_update_cong) (auto simp: cache_inv_def)
  ultimately show ?thesis using inv es(2) by (simp add: cache_inv_def)
qed

lemma cache_inv_resolve:
  assumes inv: "cache_inv s" and i: "i < length (cs_keys s)"
  shows "cache_inv (s\<lparr>cs_cache := cache_resolve (cs_keys s ! i) i provider (cs_cache s),
    cs_routines := (cs_routines s)[i := Closing]\<rparr>)"
proof (cases provider)
  case (Some p)
  have "cache_inv (s\<lparr>cs_cache := (cs_cache s)\<lparr>pc_entries := pc_entries (cs_cache s), pc_discoveries :=
      (pc_discoveries (cs_cache s))[i := Resolved (Discovered p (pc_now (cs_cache s) + oidc_provider_ttl))]\<rparr>,
      cs_routines := (cs_routines s)[i := Closing]\<rparr>)"
    using inv by (intro cache_inv_update [OF inv i]) (auto simp: outcome_ok_def cache_inv_def)
  then show ?thesis by (simp add: cache_resolve_def Some)
next
  case None
  let ?key = "cs_keys s ! i" let ?es = "pc_entries (cs_cache s)"
  let ?es' = "if map_of ?es ?key = Some i then AList.delete ?key ?es else ?es"
  have d: "distinct (map fst ?es)" and ok: "\<forall>e \<in> set ?es. entry_ok s e" using inv by (auto simp: cache_inv_def)
  have sub: "set ?es' \<subseteq> set ?es" by (auto simp: AList.delete_eq)
  have "i \<notin> snd ` set ?es'"
  proof
    assume "i : snd ` set ?es'"
    then obtain k where k: "(k, i) \<in> set ?es'" by auto
    have mem: "(k, i) \<in> set ?es" using sub k by (rule subsetD)
    with ok have "k = ?key" by (auto simp: entry_ok_def)
    moreover from mem d have "map_of ?es k = Some i" by (auto intro: map_of_is_SomeI)
    ultimately show False using k by (auto simp: AList.delete_eq)
  qed
  then have "cache_inv (s\<lparr>cs_cache := (cs_cache s)\<lparr>pc_entries := ?es', pc_discoveries :=
      (pc_discoveries (cs_cache s))[i := Resolved DiscoveryFailed]\<rparr>, cs_routines := (cs_routines s)[i := Closing]\<rparr>)"
    using d sub by (intro cache_inv_update [OF inv i])
      (auto simp: outcome_ok_def distinct_delete)
  then show ?thesis by (simp add: cache_resolve_def None)
qed

lemma routine_at:
  "cache_inv s \<Longrightarrow> i < length (cs_keys s) \<Longrightarrow> routine_ok (cs_routines s ! i) (discovery_of i (cs_cache s))"
  by (auto simp: cache_inv_def discovery_of_def list_all2_conv_all_nth)

lemma routine_ok_iff:
  "routine_ok Discovering x \<longleftrightarrow> x = InFlight"
  "routine_ok Closing x \<longleftrightarrow> (\<exists>out. x = Resolved out)"
  "routine_ok Done x \<longleftrightarrow> (\<exists>out. x = Answered out)"
  by (cases x; simp)+

lemma cache_inv_close:
  assumes inv: "cache_inv s" and i: "i < length (cs_keys s)" and pc: "cs_routines s ! i = Closing"
  shows "cache_inv (s\<lparr>cs_cache := cache_close i (cs_cache s), cs_routines := (cs_routines s)[i := Done]\<rparr>)"
proof -
  from routine_at [OF inv i] pc obtain out where out: "discovery_of i (cs_cache s) = Resolved out"
    by (auto simp: routine_ok_iff)
  then have "Resolved out \<in> set (pc_discoveries (cs_cache s))"
    using i inv by (metis cache_inv_def discovery_of_def nth_mem)
  then have "outcome_ok (pc_now (cs_cache s)) (Resolved out)" using inv by (auto simp: cache_inv_def)
  then have "outcome_ok (pc_now (cs_cache s)) (Answered out)" by (simp add: outcome_ok_def)
  moreover have "not_failed (Answered out) \<or> i \<notin> snd ` set (pc_entries (cs_cache s))"
    using inv out by (cases out) (auto simp: cache_inv_def entry_ok_def)
  ultimately have "cache_inv (s\<lparr>cs_cache := (cs_cache s)\<lparr>pc_entries := pc_entries (cs_cache s),
      pc_discoveries := (pc_discoveries (cs_cache s))[i := Answered out]\<rparr>, cs_routines := (cs_routines s)[i := Done]\<rparr>)"
    using inv by (intro cache_inv_update [OF inv i]) (auto simp: cache_inv_def)
  with out show ?thesis by (simp add: cache_close_def)
qed

lemma cache_inv_step: "cache_step s t \<Longrightarrow> cache_inv s \<Longrightarrow> cache_inv t"
proof (induction rule: cache_step.induct)
  case (get_hit key s i c)
  then show ?case by (blast dest: cache_inv_get(1))
next
  case (get_miss key s i c)
  then show ?case by (blast dest: cache_inv_get(2))
next
  case (resolve i s provider)
  then show ?case by (blast intro: cache_inv_resolve)
next
  case (close i s)
  then show ?case by (blast intro: cache_inv_close)
next
  case (forget s key)
  then show ?case
    by (auto simp: cache_inv_def cache_forget_def AList.delete_eq entry_ok_def discovery_of_def distinct_map_filter)
next
  case (tick s now)
  then show ?case
    by (auto simp: cache_inv_def entry_ok_def discovery_of_def intro: outcome_ok_later)
qed

interpretation provider_cache: invariant_system cache_start cache_step cache_inv
proof unfold_locales
  fix s t :: "'a cache_system"
  show "cache_start s \<Longrightarrow> cache_inv s" by (auto simp: cache_start_def new_provider_cache_def cache_inv_def)
  show "cache_inv s \<Longrightarrow> cache_step s t \<Longrightarrow> cache_inv t" by (rule cache_inv_step)
qed

section \<open>What callers get\<close>

text \<open>A provider that is handed out at once was discovered for the very issuer and TLS mode that is asked for
  and is not past its time; a failure is never handed out from the cache.\<close>

theorem cached_provider_is_fresh:
  assumes "reach cache_start cache_step s" and "cache_get key (cs_cache s) = (i, c)"
    and "cache_answer i c = Some answer"
  shows "cs_keys s ! i = key \<and> i < length (cs_keys s)
    \<and> (\<exists>p expires. answer = Some p \<and> discovery_of i (cs_cache s) = Answered (Discovered p expires)
          \<and> pc_now (cs_cache s) < expires \<and> expires \<le> pc_now (cs_cache s) + oidc_provider_ttl)"
proof -
  have inv: "cache_inv s" by (rule provider_cache.reach_inv [OF assms(1)])
  let ?c = "evict_expired (cs_cache s)"
  have "map_of (pc_entries ?c) key = Some i"
  proof (cases "map_of (pc_entries ?c) key")
    case None
    with assms(2,3) show ?thesis
      by (auto simp: cache_get_def Let_def cache_answer_def discovery_of_def)
  next
    case (Some j)
    with assms(2) show ?thesis by (simp add: cache_get_def Let_def)
  qed
  then have mem: "(key, i) \<in> set (pc_entries ?c)" and c: "c = ?c"
    using assms(2) by (auto simp: cache_get_def Let_def dest: map_of_SomeD)
  then have ok: "entry_ok s (key, i)" and fresh: "\<not> expired (cs_cache s) i"
    using inv by (auto simp: evict_expired_def cache_inv_def)
  from assms(3) c have "\<exists>out. discovery_of i (cs_cache s) = Answered out"
    by (auto simp: cache_answer_def discovery_of_def split: discovery.splits)
  then obtain out where out: "discovery_of i (cs_cache s) = Answered out" by blast
  with ok obtain p t where o: "out = Discovered p t" by (cases out) (auto simp: entry_ok_def)
  have "Answered out \<in> set (pc_discoveries (cs_cache s))"
    using out ok inv by (metis cache_inv_def discovery_of_def entry_ok_def nth_mem snd_conv)
  with inv o have "t \<le> pc_now (cs_cache s) + oidc_provider_ttl"
    by (auto simp: cache_inv_def outcome_ok_def)
  with ok out o fresh assms(3) c show ?thesis
    by (auto simp: entry_ok_def expired_def cache_answer_def discovery_of_def)
qed

section \<open>Every waiter is answered\<close>

text \<open>
  A run is an infinite sequence of steps (the clock may tick without moving). It is fair when every
  goroutine that has not finished takes its next step some time: the scheduler runs it, and the call of
  a discovery returns, at the latest with the error of its ten second timeout. Nothing is assumed about
  what a step does.
\<close>

definition cache_run :: "(nat \<Rightarrow> 'p cache_system) \<Rightarrow> bool" where
  "cache_run \<sigma> \<longleftrightarrow> cache_start (\<sigma> 0) \<and> (\<forall>n. cache_step (\<sigma> n) (\<sigma> (Suc n)))"

definition fair_run :: "(nat \<Rightarrow> 'p cache_system) \<Rightarrow> bool" where
  "fair_run \<sigma> \<longleftrightarrow>
     (\<forall>n i. i < length (cs_routines (\<sigma> n)) \<longrightarrow> cs_routines (\<sigma> n) ! i \<noteq> Done \<longrightarrow>
        (\<exists>m \<ge> n. cs_routines (\<sigma> m) ! i \<noteq> cs_routines (\<sigma> n) ! i))"

fun routine_rank :: "routine \<Rightarrow> nat" where
  "routine_rank Discovering = 0"
| "routine_rank Closing = 1"
| "routine_rank Done = 2"

lemma rank_le: "routine_rank r \<le> 2"
  by (cases r) simp_all

lemma rank_done: "routine_rank r = 2 \<longleftrightarrow> r = Done"
  by (cases r) simp_all

lemma rank_inject: "routine_rank q = routine_rank r \<longleftrightarrow> q = r"
  by (cases q; cases r) simp_all

lemma get_keeps_discoveries:
  "cache_get key c = (j, c') \<Longrightarrow> i < length (pc_discoveries c) \<Longrightarrow> discovery_of i c' = discovery_of i c"
  by (auto simp: cache_get_def Let_def discovery_of_def nth_append split: option.splits)

text \<open>One step: a goroutine never goes back, and the answer of a finished one stays.\<close>

lemma step_routine:
  assumes "cache_step s t" and inv: "cache_inv s" and i: "i < length (cs_keys s)"
  shows "i < length (cs_keys t) \<and> routine_rank (cs_routines s ! i) \<le> routine_rank (cs_routines t ! i)
    \<and> (cs_routines s ! i = Done \<longrightarrow> discovery_of i (cs_cache t) = discovery_of i (cs_cache s))"
proof -
  have len: "length (pc_discoveries (cs_cache s)) = length (cs_keys s)"
    "length (cs_routines s) = length (cs_keys s)"
    using inv by (auto simp: cache_inv_def dest: list_all2_lengthD)
  from assms(1) show ?thesis
  proof cases
    case (resolve j provider)
    then show ?thesis using i len
      by (cases "i = j") (auto simp: cache_resolve_def discovery_of_def split: option.split)
  next
    case (close j)
    then show ?thesis using i len
      by (cases "i = j") (auto simp: cache_close_def discovery_of_def split: discovery.split)
  next
    case (get_hit key j c)
    then have "discovery_of i c = discovery_of i (cs_cache s)" using get_keeps_discoveries i len by metis
    with get_hit i show ?thesis by simp
  next
    case (get_miss key j c)
    then have "discovery_of i c = discovery_of i (cs_cache s)" using get_keeps_discoveries i len by metis
    with get_miss i len show ?thesis by (simp add: nth_append)
  qed (use i in \<open>auto simp: cache_forget_def discovery_of_def\<close>)
qed

lemma run_inv: "cache_run \<sigma> \<Longrightarrow> cache_inv (\<sigma> n)"
  by (rule provider_cache.reach_inv, induction n) (auto simp: cache_run_def intro: reach.intros)

lemma run_routine:
  assumes "cache_run \<sigma>" and "i < length (cs_keys (\<sigma> n))" and "n \<le> m"
  shows "i < length (cs_keys (\<sigma> m)) \<and> routine_rank (cs_routines (\<sigma> n) ! i) \<le> routine_rank (cs_routines (\<sigma> m) ! i)
    \<and> (cs_routines (\<sigma> n) ! i = Done \<longrightarrow> discovery_of i (cs_cache (\<sigma> m)) = discovery_of i (cs_cache (\<sigma> n)))"
  using assms(3)
proof (induction m rule: dec_induct)
  case base
  then show ?case using assms(2) by simp
next
  case (step m)
  have "cache_step (\<sigma> m) (\<sigma> (Suc m))" using assms(1) by (simp add: cache_run_def)
  from step_routine [OF this run_inv [OF assms(1)], of i] step.IH rank_done rank_le show ?case
    by (metis le_antisym le_trans)
qed

lemma run_done:
  assumes "cache_run \<sigma>" and "fair_run \<sigma>" and "i < length (cs_keys (\<sigma> n))"
  shows "\<exists>m \<ge> n. cs_routines (\<sigma> m) ! i = Done"
  using assms(3)
proof (induction "2 - routine_rank (cs_routines (\<sigma> n) ! i)" arbitrary: n rule: less_induct)
  case less
  show ?case
  proof (cases "cs_routines (\<sigma> n) ! i = Done")
    case False
    have "i < length (cs_routines (\<sigma> n))"
      using run_inv [OF assms(1), of n] less.prems by (auto simp: cache_inv_def dest: list_all2_lengthD)
    with False assms(2) obtain m where m: "n \<le> m" "cs_routines (\<sigma> m) ! i \<noteq> cs_routines (\<sigma> n) ! i"
      by (auto simp: fair_run_def)
    note moved = run_routine [OF assms(1) less.prems m(1)]
    with m(2) have "routine_rank (cs_routines (\<sigma> n) ! i) < routine_rank (cs_routines (\<sigma> m) ! i)"
      using rank_inject by (simp add: order.strict_iff_order)
    then have "2 - routine_rank (cs_routines (\<sigma> m) ! i) < 2 - routine_rank (cs_routines (\<sigma> n) ! i)"
      using rank_le [of "cs_routines (\<sigma> m) ! i"] by linarith
    from less.hyps [OF this] moved obtain k where "m \<le> k" "cs_routines (\<sigma> k) ! i = Done" by auto
    with m(1) show ?thesis by (meson le_trans)
  qed auto
qed

text \<open>C21: No caller waits for ever. In every fair run, whatever the discoveries find and however callers, the
  clock and forgetting interleave with them, every entry ever handed out (evicted and forgotten ones
  included) has its channel closed at some time and gives the same answer, a provider or an error,
  from then on.\<close>

theorem waiter_gets_answer:
  assumes "cache_run \<sigma>" and "fair_run \<sigma>" and "i < length (cs_keys (\<sigma> n))"
  shows "\<exists>m \<ge> n. \<exists>answer. \<forall>k \<ge> m. cache_answer i (cs_cache (\<sigma> k)) = Some answer"
proof -
  from run_done [OF assms] obtain m where m: "n \<le> m" "cs_routines (\<sigma> m) ! i = Done" by blast
  have i: "i < length (cs_keys (\<sigma> m))" using run_routine [OF assms(1,3) m(1)] by simp
  from routine_at [OF run_inv [OF assms(1)] i] m(2)
  obtain out where out: "discovery_of i (cs_cache (\<sigma> m)) = Answered out" by (auto simp: routine_ok_iff)
  have "cache_answer i (cs_cache (\<sigma> k)) = cache_answer i (cs_cache (\<sigma> m))" if "m \<le> k" for k
    using run_routine [OF assms(1) i that] m(2) by (simp add: cache_answer_def)
  moreover have "\<exists>answer. cache_answer i (cs_cache (\<sigma> m)) = Some answer"
    using out by (cases out) (auto simp: cache_answer_def)
  ultimately show ?thesis using m(1) by metis
qed

section \<open>A run\<close>

definition demo_key :: provider_key where "demo_key = (''https://id.corp'', True)"

definition waiting_system :: "nat cache_system" where
  "waiting_system = \<lparr>cs_cache = \<lparr>pc_entries = [(demo_key, 0)], pc_discoveries = [InFlight], pc_now = 0\<rparr>,
     cs_keys = [demo_key], cs_routines = [Discovering]\<rparr>"

definition resolved_system :: "nat cache_system" where
  "resolved_system = \<lparr>cs_cache = \<lparr>pc_entries = [(demo_key, 0)],
     pc_discoveries = [Resolved (Discovered 7 oidc_provider_ttl)], pc_now = 0\<rparr>, cs_keys = [demo_key], cs_routines = [Closing]\<rparr>"

definition answered_system :: "nat cache_system" where
  "answered_system = \<lparr>cs_cache = \<lparr>pc_entries = [(demo_key, 0)],
     pc_discoveries = [Answered (Discovered 7 oidc_provider_ttl)], pc_now = 0\<rparr>, cs_keys = [demo_key], cs_routines = [Done]\<rparr>"

definition empty_system :: "nat cache_system" where
  "empty_system = \<lparr>cs_cache = new_provider_cache 0, cs_keys = [], cs_routines = []\<rparr>"

text \<open>A caller, the discovery, the closing; then the clock only.\<close>

definition demo_run :: "nat \<Rightarrow> nat cache_system" where
  "demo_run n = (if n = 0 then empty_system else if n = 1 then waiting_system
     else if n = 2 then resolved_system else answered_system)"

lemma cache_demo_steps:
  "cache_step empty_system waiting_system" "cache_step waiting_system resolved_system"
  "cache_step resolved_system answered_system" "cache_step answered_system answered_system"
proof -
  have "cache_step empty_system (empty_system\<lparr>cs_cache := cs_cache waiting_system,
      cs_keys := cs_keys empty_system @ [demo_key], cs_routines := cs_routines empty_system @ [Discovering]\<rparr>)"
    by (rule cache_step.get_miss [of _ _ 0])
      (simp_all add: cache_get_def new_provider_cache_def evict_expired_def waiting_system_def empty_system_def)
  then show "cache_step empty_system waiting_system"
    by (simp add: waiting_system_def empty_system_def)
  show "cache_step waiting_system resolved_system"
    using cache_step.resolve [of 0 waiting_system "Some 7"]
    by (simp add: waiting_system_def resolved_system_def cache_resolve_def)
  show "cache_step resolved_system answered_system"
    using cache_step.close [of 0 resolved_system]
    by (simp add: answered_system_def resolved_system_def discovery_of_def cache_close_def)
  show "cache_step answered_system answered_system"
    using cache_step.tick [of answered_system 0] by (simp add: answered_system_def)
qed

lemma demo_is_run: "cache_run demo_run" "fair_run demo_run"
proof -
  have "cache_start empty_system" by (auto simp: cache_start_def empty_system_def)
  then show "cache_run demo_run" using cache_demo_steps by (simp add: cache_run_def demo_run_def)
  have "cs_routines (demo_run (max n 3)) = [Done]" for n
    by (simp add: demo_run_def answered_system_def max_def)
  moreover have "length (cs_routines (demo_run n)) \<le> 1" for n
    by (simp add: demo_run_def empty_system_def waiting_system_def resolved_system_def answered_system_def)
  ultimately show "fair_run demo_run"
    unfolding fair_run_def by (metis One_nat_def less_Suc0 less_le_trans max.cobounded1 nth_Cons_0)
qed

lemma answered_reached: "reach cache_start cache_step answered_system"
proof -
  have "cache_start empty_system" by (auto simp: cache_start_def empty_system_def)
  from reach_move [OF reach_move [OF reach_move [OF reach_start [of cache_start, OF this]]]] cache_demo_steps show ?thesis by blast
qed

theorem cached_provider_is_fresh_witness:
  "pc_now (cs_cache answered_system) < oidc_provider_ttl"
  using cached_provider_is_fresh [OF answered_reached, of demo_key 0 "cs_cache answered_system" "Some 7"]
  by (simp add: answered_system_def cache_get_def evict_expired_def expired_def discovery_of_def
      cache_answer_def oidc_provider_ttl_def minute_def second_def)

theorem waiter_gets_answer_witness:
  "\<exists>answer. cache_answer 0 (cs_cache answered_system) = Some answer"
proof -
  have "\<exists>m \<ge> 1. \<exists>answer. \<forall>k \<ge> m. cache_answer 0 (cs_cache (demo_run k)) = Some answer"
    by (rule waiter_gets_answer [OF demo_is_run]) (simp add: demo_run_def waiting_system_def)
  then obtain m answer where "\<forall>k \<ge> m. cache_answer 0 (cs_cache (demo_run k)) = Some answer" by blast
  then have "cache_answer 0 (cs_cache (demo_run (max m 3))) = Some answer" by simp
  moreover have "demo_run (max m 3) = answered_system" by (simp add: demo_run_def max_def)
  ultimately show ?thesis by auto
qed

end
