(* ===== verification/Oidc.thy ===== *)
theory Oidc
  imports Auth Return_Path Provider_Cache Settings
begin

text \<open>
  Single sign-on (\<^verbatim>\<open>internal/auth/oidc.go\<close> and its handlers in \<^verbatim>\<open>internal/api/auth_handlers.go\<close>). What other
  libraries do is the record \<open>oidc_env\<close>: the endpoint checks, the provider that the cache returns, the calls of
  \<^verbatim>\<open>go-oidc\<close> and \<^verbatim>\<open>oauth2\<close> on it, SHA-256 with base64, the JSON text of the state and the cipher. A random
  token is its outcome. \<open>rp_location\<close> of a reply is the address handed to \<^verbatim>\<open>http.Redirect\<close>.
\<close>

section \<open>Configuration and state\<close>

definition oidc_state_cookie :: string where "oidc_state_cookie = ''jupiq_oidc_state''"

record oidc_config =
  oc_enabled :: bool
  oc_issuer_url :: string
  oc_client_id :: string
  oc_redirect_url :: string
  oc_scopes :: "string list"
  oc_username_claim :: string
  oc_auto_create_users :: bool
  oc_verify_tls :: bool
  oc_auto_login :: bool

record oidc_state =
  os_state :: string
  os_nonce :: string
  os_code_verifier :: string
  os_return_to :: string
  os_silent :: bool
  os_expires_at :: time

definition oidc_state_context :: string where "oidc_state_context = ''oidc-state''"

record 'p oidc_env =
  oe_valid_endpoint :: "string \<Rightarrow> bool"
  oe_valid_redirect :: "string \<Rightarrow> bool"
  oe_provider :: "string \<Rightarrow> bool \<Rightarrow> 'p option"
  oe_authorization_url :: "'p \<Rightarrow> string \<Rightarrow> string \<Rightarrow> string list \<Rightarrow> string \<Rightarrow> (string \<times> string) list \<Rightarrow> string"
  oe_exchange :: "'p \<Rightarrow> string \<Rightarrow> string \<Rightarrow> string \<Rightarrow> string \<Rightarrow> string \<Rightarrow> json_object option"
  oe_verify_id_token :: "'p \<Rightarrow> string \<Rightarrow> string \<Rightarrow> json_object option"
  oe_digest :: "string \<Rightarrow> string"
  oe_state_text :: "oidc_state \<Rightarrow> string"
  oe_read_state :: "string \<Rightarrow> oidc_state option"
  oe_encrypt :: "string \<Rightarrow> string \<Rightarrow> string option"
  oe_decrypt :: "string \<Rightarrow> string \<Rightarrow> string option"

definition decode_oidc :: "json \<Rightarrow> oidc_config option" where
  \<comment> \<open>\<^verbatim>\<open>json.Unmarshal\<close> into \<^verbatim>\<open>OIDCConfig\<close>\<close>
  "decode_oidc v =
     (case object_members v of
        None \<Rightarrow> None
      | Some m \<Rightarrow>
          (case (bool_field m ''enabled'', string_field m ''issuer_url'', string_field m ''client_id'',
                 string_field m ''redirect_url'', strings_field m ''scopes'', string_field m ''username_claim'',
                 bool_field m ''auto_create_users'', bool_field m ''verify_tls'', bool_field m ''auto_login'') of
             (Some en, Some iss, Some cid, Some red, Some sc, Some claim, Some auto, Some tls, Some silent) \<Rightarrow>
               Some \<lparr>oc_enabled = en, oc_issuer_url = iss, oc_client_id = cid, oc_redirect_url = red,
                     oc_scopes = sc, oc_username_claim = claim, oc_auto_create_users = auto, oc_verify_tls = tls,
                     oc_auto_login = silent\<rparr>
           | _ \<Rightarrow> None))"

definition oidc_settings :: "'p oidc_env \<Rightarrow> (oidc_config \<times> string \<times> bool) store_tx" where
  "oidc_settings env = get_setting_and_secret (oe_decrypt env) decode_oidc ''auth.oidc'' ''oidc.client_secret''"

definition oidc_login_tokens ::
  "string option \<Rightarrow> string option \<Rightarrow> string option \<Rightarrow> (string \<times> string \<times> string) option" where
  "oidc_login_tokens r1 r2 r3 =
     (case r1 of None \<Rightarrow> None
      | Some state \<Rightarrow> (case r2 of None \<Rightarrow> None
        | Some nonce \<Rightarrow> (case r3 of None \<Rightarrow> None
          | Some verifier \<Rightarrow> Some (state, nonce, verifier))))"

definition silent_login_allowed :: "oidc_config \<Rightarrow> bool \<Rightarrow> bool" where
  "silent_login_allowed cfg requested = (requested \<and> oc_enabled cfg \<and> oc_auto_login cfg)"

definition seal_oidc_state :: "'p oidc_env \<Rightarrow> oidc_state \<Rightarrow> string option" where
  "seal_oidc_state env v = oe_encrypt env oidc_state_context (oe_state_text env v)"

definition open_oidc_state :: "'p oidc_env \<Rightarrow> time \<Rightarrow> string \<Rightarrow> string \<Rightarrow> (auth_failure, oidc_state) res" where
  "open_oidc_state env now state_cookie state =
     (case oe_decrypt env oidc_state_context state_cookie of
        None \<Rightarrow> Inl OidcStateInvalid
      | Some plain \<Rightarrow>
          (case oe_read_state env plain of
             None \<Rightarrow> Inl OidcStateExpired
           | Some saved \<Rightarrow>
               if os_state saved \<noteq> state \<or> os_expires_at saved < now then Inl OidcStateExpired else Inr saved))"

section \<open>Login start\<close>

definition redirect_or :: "oidc_config \<Rightarrow> string \<Rightarrow> string" where
  "redirect_or cfg override = (if oc_redirect_url cfg = [] then override else oc_redirect_url cfg)"

definition login_scopes :: "oidc_config \<Rightarrow> string list" where
  "login_scopes cfg = (if oc_scopes cfg = [] then [''openid'', ''profile'', ''email''] else oc_scopes cfg)"

definition login_options :: "'p oidc_env \<Rightarrow> string \<Rightarrow> string \<Rightarrow> bool \<Rightarrow> (string \<times> string) list" where
  "login_options env nonce verifier silent =
     [(''nonce'', nonce), (''code_challenge'', oe_digest env verifier), (''code_challenge_method'', ''S256'')]
     @ (if silent then [(''prompt'', ''none'')] else [])"

definition oidc_login ::
  "'p oidc_env \<Rightarrow> string option \<Rightarrow> string option \<Rightarrow> string option \<Rightarrow> time \<Rightarrow> string \<Rightarrow> string \<Rightarrow> bool \<Rightarrow>
   (string \<times> string \<times> time) store_tx" where
  "oidc_login env r1 r2 r3 now redirect_override return_to requested_silent =
     tx_bind (tx_try (oidc_settings env)) (\<lambda>got.
       case got of
         Inl _ \<Rightarrow> tx_throw (AuthError OidcNotConfigured)
       | Inr (cfg, secret, configured) \<Rightarrow>
           if \<not> oc_enabled cfg \<or> \<not> configured \<or> oc_issuer_url cfg = [] \<or> oc_client_id cfg = []
           then tx_throw (AuthError OidcNotConfigured)
           else
             let silent = silent_login_allowed cfg requested_silent; redirect = redirect_or cfg redirect_override
             in if \<not> oe_valid_endpoint env (oc_issuer_url cfg) then tx_throw (AuthError OidcEndpointRefused)
                else if \<not> oe_valid_redirect env redirect then tx_throw (AuthError OidcRedirectInvalid)
                else case oe_provider env (oc_issuer_url cfg) (oc_verify_tls cfg) of
                  None \<Rightarrow> tx_throw (AuthError OidcProviderFailed)
                | Some provider \<Rightarrow>
                    (case oidc_login_tokens r1 r2 r3 of
                       None \<Rightarrow> tx_throw EntropyFailure
                     | Some (state, nonce, verifier) \<Rightarrow>
                         let expires = now + 10 * minute;
                             value = \<lparr>os_state = state, os_nonce = nonce, os_code_verifier = verifier,
                               os_return_to = sanitize_return_to return_to, os_silent = silent,
                               os_expires_at = expires\<rparr>
                         in case seal_oidc_state env value of
                              None \<Rightarrow> tx_throw CipherFailure
                            | Some encrypted \<Rightarrow>
                                tx_return (oe_authorization_url env provider (oc_client_id cfg) redirect
                                    (login_scopes cfg) state (login_options env nonce verifier silent),
                                  encrypted, expires)))"

section \<open>Callback\<close>

definition oidc_external_identity :: "'p oidc_env \<Rightarrow> string \<Rightarrow> string \<Rightarrow> string" where
  "oidc_external_identity env issuer subject =
     (let canonical = trim_right (\<lambda>c. c = CHR ''/'') (trim_space issuer)
      in ''oidc:'' @ oe_digest env (canonical @ [CHR 0x00] @ subject))"

text \<open>A rejected code also drops the provider of the issuer from the cache, so that failure names its key.\<close>

datatype callback_failure =
    CallbackFailed store_error
  | ExchangeFailed provider_key

definition claim_text :: "json_object \<Rightarrow> string \<Rightarrow> string" where
  "claim_text claims key = string_or_empty (lookup claims key)"

definition verified_claims ::
  "'p oidc_env \<Rightarrow> oidc_config \<Rightarrow> string \<Rightarrow> oidc_state \<Rightarrow> string \<Rightarrow> string \<Rightarrow> (callback_failure, json_object) res" where
  \<comment> \<open>from the endpoint check to the check of the nonce\<close>
  "verified_claims env cfg secret saved code redirect =
     (if \<not> oe_valid_endpoint env (oc_issuer_url cfg) then Inl (CallbackFailed (AuthError OidcEndpointRefused))
      else case oe_provider env (oc_issuer_url cfg) (oc_verify_tls cfg) of
        None \<Rightarrow> Inl (CallbackFailed (AuthError OidcProviderFailed))
      | Some provider \<Rightarrow>
          (case oe_exchange env provider (oc_client_id cfg) secret redirect code (os_code_verifier saved) of
             None \<Rightarrow> Inl (ExchangeFailed (oc_issuer_url cfg, oc_verify_tls cfg))
           | Some extra \<Rightarrow>
               (case as_string (lookup extra ''id_token'') of
                  None \<Rightarrow> Inl (CallbackFailed (AuthError OidcIdTokenMissing))
                | Some raw \<Rightarrow>
                    (case oe_verify_id_token env provider (oc_client_id cfg) raw of
                       None \<Rightarrow> Inl (CallbackFailed (AuthError OidcIdTokenInvalid))
                     | Some claims \<Rightarrow>
                         if claim_text claims ''nonce'' \<noteq> os_nonce saved
                         then Inl (CallbackFailed (AuthError OidcNonceMismatch)) else Inr claims))))"

definition signed_on_user :: "'p oidc_env \<Rightarrow> oidc_config \<Rightarrow> json_object \<Rightarrow> user store_tx" where
  "signed_on_user env cfg claims =
     (let claim_name = (if oc_username_claim cfg = [] then ''preferred_username'' else oc_username_claim cfg);
          username = claim_text claims claim_name; subject = claim_text claims ''sub''
      in if username = [] \<or> subject = [] \<or> contains_any username [CHR 0x0D, CHR 0x0A]
         then tx_throw (AuthError OidcIdentityMissing)
         else upsert_oidc_user (oidc_external_identity env (oc_issuer_url cfg) subject) username
                (claim_text claims ''name'') (claim_text claims ''email'') (claim_text claims ''department'')
                (oc_auto_create_users cfg))"

definition oidc_callback ::
  "'p oidc_env \<Rightarrow> time \<Rightarrow> string \<Rightarrow> string \<Rightarrow> string \<Rightarrow> string \<Rightarrow>
   (store_db, callback_failure, user \<times> string) tx" where
  "oidc_callback env now code state state_cookie redirect_override =
     tx_bind (tx_lift (map_sum (CallbackFailed \<circ> AuthError) id (open_oidc_state env now state_cookie state))) (\<lambda>saved.
     tx_bind (tx_map_error CallbackFailed (oidc_settings env)) (\<lambda>(cfg, secret, configured).
     if \<not> oc_enabled cfg \<or> \<not> configured then tx_throw (CallbackFailed (AuthError OidcDisabled))
     else
       tx_bind (tx_lift (verified_claims env cfg secret saved code (redirect_or cfg redirect_override))) (\<lambda>claims.
       tx_bind (tx_map_error CallbackFailed (signed_on_user env cfg claims)) (\<lambda>u.
       tx_return (u, sanitize_return_to (os_return_to saved))))))"

definition oidc_refusal :: "'p oidc_env \<Rightarrow> time \<Rightarrow> string \<Rightarrow> string \<Rightarrow> bool \<times> string" where
  "oidc_refusal env now state_cookie state =
     (case open_oidc_state env now state_cookie state of
        Inl _ \<Rightarrow> (False, default_return_to)
      | Inr saved \<Rightarrow> (os_silent saved, sanitize_return_to (os_return_to saved)))"

section \<open>Handlers\<close>

record sso_request =
  sq_http :: request
  sq_state_cookie :: "string option"

definition callback_path :: string where "callback_path = ''/api/v1/auth/oidc/callback''"

definition state_cookie_of :: "request \<Rightarrow> string \<Rightarrow> time option \<Rightarrow> int \<Rightarrow> cookie" where
  "state_cookie_of r v expires max_age =
     \<lparr>ck_name = oidc_state_cookie, ck_value = v, ck_path = callback_path, ck_http_only = True,
      ck_secure = is_secure_request r, ck_expires = expires, ck_max_age = max_age\<rparr>"

definition redirect_reply :: "string \<Rightarrow> cookie list \<Rightarrow> unit reply" where
  "redirect_reply location cookies =
     \<lparr>rp_status = 302, rp_cookies = cookies, rp_location = location, rp_body = ()\<rparr>"

definition oidc_config_handler :: "'p oidc_env \<Rightarrow> json handler" where
  "oidc_config_handler env =
     tx_bind (store_call (oidc_settings env)) (\<lambda>(cfg, secret, configured).
     let enabled = (oc_enabled cfg \<and> configured)
     in tx_return (JObj [(''enabled'', JBool enabled), (''auto_login'', JBool (enabled \<and> oc_auto_login cfg)),
          (''issuer_url'', JStr (oc_issuer_url cfg)), (''client_id'', JStr (oc_client_id cfg)),
          (''secret_configured'', JBool configured)]))"

definition oidc_login_handler ::
  "'p oidc_env \<Rightarrow> string option \<Rightarrow> string option \<Rightarrow> string option \<Rightarrow> time \<Rightarrow> request \<Rightarrow> request_window windows \<Rightarrow>
   faults \<Rightarrow> store_db \<Rightarrow> request_window windows \<times> (http_error, unit reply) res \<times> faults \<times> store_db" where
  "oidc_login_handler env r1 r2 r3 now r ws fs d =
     (let return_to = rq_query r ''return_to'';
          (allowed, ws1) = request_allow oidc_start_window oidc_start_ip_limit (client_ip r) now ws
      in (ws1,
          if \<not> allowed then tx_return (redirect_reply (login_path_rate_limited return_to) []) fs d
          else
            tx_bind (tx_map_error (\<lambda>_. (503, ''oidc_unavailable''))
                (oidc_login env r1 r2 r3 now (absolute_url r callback_path) return_to
                  (rq_query r ''prompt'' = ''none''))) (\<lambda>(auth_url, state_cookie, expires).
            tx_return (redirect_reply auth_url [state_cookie_of r state_cookie (Some expires) 600])) fs d))"

definition oidc_refused :: "'p oidc_env \<Rightarrow> time \<Rightarrow> sso_request \<Rightarrow> unit reply" where
  "oidc_refused env now q =
     (let r = sq_http q;
          state_cookie = (case sq_state_cookie q of Some v \<Rightarrow> v | None \<Rightarrow> []);
          (silent, return_to) = oidc_refusal env now state_cookie (rq_query r ''state'')
      in redirect_reply (login_path_after_refusal silent return_to) [state_cookie_of r [] None (-1)])"

definition forget_rejected :: "callback_failure \<Rightarrow> 'p provider_cache \<Rightarrow> 'p provider_cache" where
  "forget_rejected e c = (case e of ExchangeFailed key \<Rightarrow> cache_forget key c | CallbackFailed _ \<Rightarrow> c)"

definition oidc_callback_handler ::
  "'p oidc_env \<Rightarrow> (claims \<Rightarrow> string option) \<Rightarrow> string option \<Rightarrow> time \<Rightarrow> sso_request \<Rightarrow> 'p provider_cache \<Rightarrow>
   faults \<Rightarrow> store_db \<Rightarrow> 'p provider_cache \<times> (http_error, unit reply) res \<times> faults \<times> store_db" where
  "oidc_callback_handler env sign random now q c fs d =
     (let r = sq_http q; code = rq_query r ''code''; state = rq_query r ''state''; agent = rq_header r ''User-Agent''
      in if rq_query r ''error'' \<noteq> [] then (c, tx_return (oidc_refused env now q) fs d)
         else if sq_state_cookie q = None \<or> code = [] \<or> state = []
         then (c, api_error 400 ''oidc_callback_invalid'' fs d)
         else
           case oidc_callback env now code state (the (sq_state_cookie q)) (absolute_url r callback_path) fs d of
             (Inl e, fs1, d1) \<Rightarrow>
               (forget_rejected e c,
                tx_bind (audit (session_event r None [] ''auth.oidc'' [] ''failure'' ''oidc_callback_failed'')) (\<lambda>_.
                  api_error 401 ''oidc_failed'') fs1 d1)
           | (Inr (u, return_to), fs1, d1) \<Rightarrow>
               (c, tx_bind (store_call (new_session sign now random u (client_ip r) agent)) (\<lambda>(p, token, expires).
                   tx_bind (audit (session_event r (Some (u_id u)) (u_username u) ''auth.oidc'' (p_jti p)
                       ''success'' [])) (\<lambda>_.
                   tx_return (redirect_reply (sanitize_return_to return_to)
                     [secure_cookie token expires (is_secure_request r) now,
                      state_cookie_of r [] None (-1)]))) fs1 d1))"

section \<open>What the callback proves about the browser\<close>

lemma open_oidc_state_Inr:
  "open_oidc_state env now cookie state = Inr saved \<longleftrightarrow>
     (\<exists>plain. oe_decrypt env oidc_state_context cookie = Some plain \<and> oe_read_state env plain = Some saved
        \<and> os_state saved = state \<and> now \<le> os_expires_at saved)"
  by (auto simp: open_oidc_state_def split: option.splits if_splits)

lemma verified_claims_Inr:
  "verified_claims env cfg secret saved code redirect = Inr claims \<Longrightarrow>
   claim_text claims ''nonce'' = os_nonce saved \<and>
   (\<exists>provider raw. oe_provider env (oc_issuer_url cfg) (oc_verify_tls cfg) = Some provider
      \<and> oe_verify_id_token env provider (oc_client_id cfg) raw = Some claims)"
  by (auto simp: verified_claims_def split: if_splits option.splits)

lemma map_sum_Inr: "map_sum f id r = Inr a \<longleftrightarrow> r = Inr a"
  by (cases r) auto

lemma keeps_oidc_settings [inv_intros]: "keeps I (oidc_settings env)"
  unfolding oidc_settings_def get_setting_and_secret_def get_settings_and_secret_def open_secret_def
  by (intro inv_intros)

lemma oidc_settings_reads: "oidc_settings env fs d = (r, fs1, d1) \<Longrightarrow> d1 = d"
  by (rule keepsD [where I = "\<lambda>x. x = d", OF keeps_oidc_settings refl])

lemma oidc_callback_Inr:
  assumes "oidc_callback env now code state cookie override fs d = (Inr (u, return_to), fs', d')"
  obtains saved cfg secret claims fs1 where
    "open_oidc_state env now cookie state = Inr saved"
    "oidc_settings env fs d = (Inr (cfg, secret, True), fs1, d)" "oc_enabled cfg"
    "verified_claims env cfg secret saved code (redirect_or cfg override) = Inr claims"
    "signed_on_user env cfg claims fs1 d = (Inr u, fs', d')"
    "return_to = sanitize_return_to (os_return_to saved)"
proof -
  from assms obtain saved cfg secret conf fs1 d1 claims where
    c: "open_oidc_state env now cookie state = Inr saved" "oidc_settings env fs d = (Inr (cfg, secret, conf), fs1, d1)"
      "oc_enabled cfg" "conf"
      "verified_claims env cfg secret saved code (redirect_or cfg override) = Inr claims"
      "signed_on_user env cfg claims fs1 d1 = (Inr u, fs', d')" "return_to = sanitize_return_to (os_return_to saved)"
    by (auto simp: oidc_callback_def tx_bind_Inr map_sum_Inr simp del: tx_lift_bind split: if_splits prod.splits)
  with oidc_settings_reads [OF c(2)] that show thesis by simp
qed

lemma callback_handler_Inr:
  assumes "oidc_callback_handler env sign random now q c fs d = (c', Inr rep, fs', d')"
    and "rq_query (sq_http q) ''error'' = []"
  obtains cookie u return_to fs1 d1 where "sq_state_cookie q = Some cookie"
    "oidc_callback env now (rq_query (sq_http q) ''code'') (rq_query (sq_http q) ''state'') cookie
       (absolute_url (sq_http q) callback_path) fs d = (Inr (u, return_to), fs1, d1)"
    "rp_location rep = sanitize_return_to return_to"
    "\<exists>p token expires fs2 d2. new_session sign now random u (client_ip (sq_http q))
       (rq_header (sq_http q) ''User-Agent'') fs1 d1 = (Inr (p, token, expires), fs2, d2)"
proof (cases "sq_state_cookie q")
  case None
  with assms show thesis by (simp add: oidc_callback_handler_def Let_def api_error_def tx_throw_def)
next
  case (Some cookie)
  obtain res fs1 d1 where run: "oidc_callback env now (rq_query (sq_http q) ''code'') (rq_query (sq_http q) ''state'')
      cookie (absolute_url (sq_http q) callback_path) fs d = (res, fs1, d1)"
    by (metis prod_cases3)
  show thesis
  proof (cases res)
    case (Inl e)
    with assms run Some show thesis
      by (auto simp: oidc_callback_handler_def Let_def tx_bind_Inr split: if_splits)
  next
    case (Inr x)
    with assms run Some show thesis
      by (cases x) (rule that, auto simp: oidc_callback_handler_def Let_def tx_bind_Inr redirect_reply_def
          split: if_splits prod.splits)
  qed
qed

text \<open>C17: A completed callback was started by this very browser: its cookie holds a state of ours that names the
  state of the request and has not expired, and the verified ID token carries the nonce of that state.\<close>

theorem callback_bound_to_browser:
  assumes "oidc_callback_handler env sign random now q c fs d = (c', Inr rep, fs', d')"
    and "rq_query (sq_http q) ''error'' = []"
  shows "\<exists>cookie saved (cfg :: oidc_config) provider raw claims.
     sq_state_cookie q = Some cookie
     \<and> open_oidc_state env now cookie (rq_query (sq_http q) ''state'') = Inr saved
     \<and> os_state saved = rq_query (sq_http q) ''state'' \<and> now \<le> os_expires_at saved
     \<and> oe_verify_id_token env provider (oc_client_id cfg) raw = Some claims
     \<and> claim_text claims ''nonce'' = os_nonce saved
     \<and> rp_location rep = sanitize_return_to (sanitize_return_to (os_return_to saved))"
proof -
  obtain cookie u return_to fs1 d1 where h: "sq_state_cookie q = Some cookie"
    "oidc_callback env now (rq_query (sq_http q) ''code'') (rq_query (sq_http q) ''state'') cookie
       (absolute_url (sq_http q) callback_path) fs d = (Inr (u, return_to), fs1, d1)"
    "rp_location rep = sanitize_return_to return_to"
    using callback_handler_Inr [OF assms] .
  obtain saved cfg secret claims fs2 where k:
    "open_oidc_state env now cookie (rq_query (sq_http q) ''state'') = Inr saved"
    "verified_claims env cfg secret saved (rq_query (sq_http q) ''code'')
      (redirect_or cfg (absolute_url (sq_http q) callback_path)) = Inr claims"
    "return_to = sanitize_return_to (os_return_to saved)"
    using oidc_callback_Inr [OF h(2)] .
  from k(1) have "os_state saved = rq_query (sq_http q) ''state'' \<and> now \<le> os_expires_at saved"
    by (auto simp: open_oidc_state_Inr)
  moreover obtain provider raw where "oe_verify_id_token env provider (oc_client_id cfg) raw = Some claims"
    "claim_text claims ''nonce'' = os_nonce saved"
    using verified_claims_Inr [OF k(2)] by blast
  moreover have "rp_location rep = sanitize_return_to (sanitize_return_to (os_return_to saved))" using h(3) k(3) by simp
  ultimately show ?thesis using h(1) k(1) by blast
qed

section \<open>A whole sign-on\<close>

lemma oidc_login_Inr:
  assumes "oidc_login env (Some s) (Some n) (Some w) now override return_to requested fs d
     = (Inr (url, cookie, expires), fs', d')"
  shows "\<exists>silent. seal_oidc_state env \<lparr>os_state = s, os_nonce = n, os_code_verifier = w,
     os_return_to = sanitize_return_to return_to, os_silent = silent, os_expires_at = now + 10 * minute\<rparr> = Some cookie"
proof -
  obtain got fs1 d1 where run: "oidc_settings env fs d = (got, fs1, d1)" by (metis prod_cases3)
  show ?thesis
    using assms
    by (cases got) (auto simp: oidc_login_def tx_bind_Inr tx_try_Inr run Let_def oidc_login_tokens_def
        split: if_splits option.splits prod.splits)
qed

text \<open>C16: A plain deep link survives the whole sign-on: the browser that started a login with it and comes back with the
  cookie it was given ends on exactly that path. The cipher opens what it sealed, and JSON reads back a state
  whose texts are the random tokens and a plain path.\<close>

theorem sign_on_returns_to_deep_link:
  assumes start: "oidc_login_handler env (Some s) (Some n) (Some w) started r ws fs0 d0 = (ws', Inr rep0, fs1, d1)"
    and cookie: "rp_cookies rep0 = [ck]" "sq_state_cookie q = Some (ck_value ck)"
    and ends: "oidc_callback_handler env sign random now q c fs d = (c', Inr rep, fs', d')"
    and no_error: "rq_query (sq_http q) ''error'' = []"
    and cipher: "\<And>text sealed. oe_encrypt env oidc_state_context text = Some sealed \<Longrightarrow>
       oe_decrypt env oidc_state_context sealed = Some text"
    and json: "\<And>v. os_state v = s \<Longrightarrow> os_nonce v = n \<Longrightarrow> os_code_verifier v = w \<Longrightarrow>
       os_expires_at v = started + 10 * minute \<Longrightarrow> plain_path (os_return_to v) \<Longrightarrow>
       oe_read_state env (oe_state_text env v) = Some v"
    and plain: "plain_path (rq_query r ''return_to'')" "length (rq_query r ''return_to'') \<le> max_return_to_length"
  shows "rp_location rep = rq_query r ''return_to''"
proof -
  let ?to = "rq_query r ''return_to''"
  note kept = plain_return_path_kept [OF plain]
  from start cookie(1) obtain url expires where
    "oidc_login env (Some s) (Some n) (Some w) started (absolute_url r callback_path) ?to (rq_query r ''prompt'' = ''none'')
       fs0 d0 = (Inr (url, ck_value ck, expires), fs1, d1)"
    by (auto simp: oidc_login_handler_def Let_def tx_bind_Inr redirect_reply_def state_cookie_of_def
        split: prod.splits if_splits)
  from oidc_login_Inr [OF this] obtain silent where
    sealed: "seal_oidc_state env \<lparr>os_state = s, os_nonce = n, os_code_verifier = w, os_return_to = ?to,
      os_silent = silent, os_expires_at = started + 10 * minute\<rparr> = Some (ck_value ck)" (is "seal_oidc_state env ?v = _")
    by (auto simp: kept)
  from callback_bound_to_browser [OF ends no_error] cookie(2) obtain saved where
    k: "open_oidc_state env now (ck_value ck) (rq_query (sq_http q) ''state'') = Inr saved"
    "rp_location rep = sanitize_return_to (sanitize_return_to (os_return_to saved))"
    by auto
  have "oe_decrypt env oidc_state_context (ck_value ck) = Some (oe_state_text env ?v)"
    using sealed by (intro cipher) (simp add: seal_oidc_state_def)
  then have "saved = ?v" using k(1) json [of ?v] plain(1) by (auto simp: open_oidc_state_Inr)
  then show ?thesis using k(2) by (simp add: kept)
qed

section \<open>One sign-on\<close>

definition demo_env :: "unit oidc_env" where
  "demo_env =
     \<lparr>oe_valid_endpoint = (\<lambda>_. True), oe_valid_redirect = (\<lambda>_. True), oe_provider = (\<lambda>_ _. Some ()),
      oe_authorization_url = (\<lambda>_ _ _ _ state _. ''https://id.corp/auth?state='' @ state),
      oe_exchange = (\<lambda>_ _ _ _ _ _. Some [(''id_token'', JStr ''raw'')]),
      oe_verify_id_token = (\<lambda>_ _ raw. if raw = ''raw'' then Some [(''nonce'', JStr ''n''),
        (''preferred_username'', JStr ''kim''), (''sub'', JStr ''s1'')] else None),
      oe_digest = (\<lambda>_. ''digest''),
      oe_state_text = (\<lambda>v. (if os_silent v then CHR ''1'' else CHR ''0'') # os_return_to v),
      oe_read_state = (\<lambda>t. case t of [] \<Rightarrow> None
        | c # rest \<Rightarrow> Some \<lparr>os_state = ''s'', os_nonce = ''n'', os_code_verifier = ''w'', os_return_to = rest,
            os_silent = (c = CHR ''1''), os_expires_at = 10 * minute\<rparr>),
      oe_encrypt = (\<lambda>_ text. Some (''e'' @ text)), oe_decrypt = (\<lambda>_ sealed. Some (drop 1 sealed))\<rparr>"

definition sso_db :: store_db where
  "sso_db = (fresh_store 0)\<lparr>
     db_settings := [\<lparr>st_key = ''auth.oidc'', st_value = JObj [(''enabled'', JBool True),
       (''issuer_url'', JStr ''https://id.corp''), (''client_id'', JStr ''jupiq''), (''auto_create_users'', JBool True)],
       st_updated_by = None, st_updated_at = 0\<rparr>],
     db_secrets := [\<lparr>sx_key = ''oidc.client_secret'', sx_encrypted = ''esecret'', sx_version = 1, sx_updated_by = 1,
       sx_updated_at = 0\<rparr>]\<rparr>"

definition start_request :: request where
  "start_request = (demo_request ''GET'' (\<lambda>_. []) (demo_principal []))
     \<lparr>rq_query := (\<lambda>k. if k = ''return_to'' then ''/hubs/3'' else [])\<rparr>"

definition return_request :: "string \<Rightarrow> sso_request" where
  "return_request sealed = \<lparr>sq_http = (demo_request ''GET'' (\<lambda>_. []) (demo_principal []))
     \<lparr>rq_query := (\<lambda>k. if k = ''code'' then ''c'' else if k = ''state'' then ''s'' else [])\<rparr>,
     sq_state_cookie = Some sealed\<rparr>"

definition start_run :: "request_window windows \<times> (http_error, unit reply) res \<times> faults \<times> store_db" where
  "start_run = oidc_login_handler demo_env (Some ''s'') (Some ''n'') (Some ''w'') 0 start_request [] [] sso_db"

definition callback_run ::
  "unit provider_cache \<times> (http_error, unit reply) res \<times> faults \<times> store_db" where
  "callback_run = oidc_callback_handler demo_env (\<lambda>c. Some ''t'') (Some ''j'') minute (return_request ''e0/hubs/3'')
     (new_provider_cache 0) [] sso_db"

lemma start_runs:
  "case snd start_run of (Inr rep, fs, d) \<Rightarrow> map ck_value (rp_cookies rep) = [''e0/hubs/3''] | _ \<Rightarrow> False"
  by code_simp

lemma callback_runs:
  "case snd callback_run of (Inr rep, fs, d) \<Rightarrow> length (db_sessions d) = 1 | _ \<Rightarrow> False"
  by code_simp

lemma run_pair:
  assumes "case snd m of (Inr a, fs, d) \<Rightarrow> Q a fs d | _ \<Rightarrow> False"
  obtains x a fs d where "m = (x, Inr a, fs, d)" and "Q a fs d"
  using assms by (cases m) (auto split: sum.splits)

theorem callback_bound_to_browser_witness:
  "\<exists>saved. open_oidc_state demo_env minute ''e0/hubs/3'' ''s'' = Inr saved \<and> os_nonce saved = ''n''"
proof -
  obtain c rep fs d where run: "callback_run = (c, Inr rep, fs, d)" by (rule run_pair [OF callback_runs])
  have "rq_query (sq_http (return_request ''e0/hubs/3'')) ''error'' = []" by (simp add: return_request_def)
  from callback_bound_to_browser [OF run [unfolded callback_run_def] this]
  obtain saved claims provider raw and cfg :: oidc_config where k: "open_oidc_state demo_env minute ''e0/hubs/3'' ''s'' = Inr saved"
    "oe_verify_id_token demo_env provider (oc_client_id cfg) raw = Some claims" "claim_text claims ''nonce'' = os_nonce saved"
    by (auto simp: return_request_def)
  from k(2,3) have "os_nonce saved = ''n''"
    by (auto simp: demo_env_def claim_text_def lookup_def string_or_empty_def split: if_splits)
  with k(1) show ?thesis by blast
qed

theorem sign_on_returns_to_deep_link_witness:
  "case snd callback_run of (Inr rep, _, _) \<Rightarrow> rp_location rep = ''/hubs/3'' | _ \<Rightarrow> False"
proof -
  obtain ws rep0 fs0 d0 where start: "start_run = (ws, Inr rep0, fs0, d0)"
    and ck: "map ck_value (rp_cookies rep0) = [''e0/hubs/3'']"
    by (rule run_pair [OF start_runs])
  obtain c rep fs d where run: "callback_run = (c, Inr rep, fs, d)" by (rule run_pair [OF callback_runs])
  from ck obtain k where cookies: "rp_cookies rep0 = [k]" and v: "ck_value k = ''e0/hubs/3''" by auto
  have to: "rq_query start_request ''return_to'' = ''/hubs/3''" by (simp add: start_request_def)
  have "rp_location rep = rq_query start_request ''return_to''"
  proof (rule sign_on_returns_to_deep_link [OF start [unfolded start_run_def] cookies _ run [unfolded callback_run_def]])
    show "sq_state_cookie (return_request ''e0/hubs/3'') = Some (ck_value k)" by (simp add: return_request_def v)
    show "rq_query (sq_http (return_request ''e0/hubs/3'')) ''error'' = []" by (simp add: return_request_def)
    show "oe_decrypt demo_env oidc_state_context sealed = Some given"
      if "oe_encrypt demo_env oidc_state_context given = Some sealed" for given sealed
      using that by (auto simp: demo_env_def)
    show "oe_read_state demo_env (oe_state_text demo_env v) = Some v"
      if "os_state v = ''s''" "os_nonce v = ''n''" "os_code_verifier v = ''w''" "os_expires_at v = 0 + 10 * minute" for v
      using that by (cases v) (auto simp: demo_env_def)
    show "plain_path (rq_query start_request ''return_to'')" unfolding to by code_simp
    show "length (rq_query start_request ''return_to'') \<le> max_return_to_length"
      by (simp add: to max_return_to_length_def)
  qed
  then show ?thesis by (simp add: run to)
qed

end
