(* ===== verification/Mail_Service_Properties.thy ===== *)
theory Mail_Service_Properties
  imports Mail_Service
begin

text \<open>
  Whom a notification reaches, that every delivery ends as sent or failed, and that the owner of an expiring
  key is told once.
\<close>

section \<open>Recipients\<close>

lemma service_config_reads: "service_config decrypt fs d = (r, fs', d') \<Longrightarrow> d' = d"
proof (rule keepsD [where I = "\<lambda>x. x = d", OF _ refl])
  show "keeps (\<lambda>x. x = d) (service_config decrypt)"
    unfolding service_config_def mail_settings_def get_settings_and_secret_def open_secret_def by (intro inv_intros)
qed

lemma record_delivery_Inr:
  "record_delivery v fs d = (Inr w, fs', d') \<Longrightarrow> de_recipient w = de_recipient v"
  by (auto simp: record_delivery_def tx_bind_Inr tx_try_Inr)

lemma record_all_Inr:
  "record_all vs fs d = (Inr ws, fs', d') \<Longrightarrow> map de_recipient ws = map de_recipient vs"
  by (induction vs arbitrary: fs d ws) (auto simp: tx_bind_Inr dest: record_delivery_Inr)

lemma unique_addresses_from:
  "a \<in> set (unique_addresses seen as) \<Longrightarrow> a \<in> set as \<and> valid_address a \<and> to_lower a \<notin> set seen"
  by (induction seen as rule: unique_addresses.induct) (auto split: if_splits)

lemma unique_addresses_distinct: "distinct (map to_lower (unique_addresses seen as))"
  by (induction seen as rule: unique_addresses.induct) (auto dest!: unique_addresses_from)

definition reachable_by_mail :: "store_db \<Rightarrow> int list \<Rightarrow> int \<Rightarrow> string \<Rightarrow> bool" where
  "reachable_by_mail d ids actor address \<longleftrightarrow>
     valid_address address
     \<and> (\<exists>u \<in> set (db_users d). us_active u \<and> us_id u \<in> set ids \<and> us_id u \<noteq> actor
          \<and> trim_space (us_email u) = address)"

lemma resolve_recipients_Inr:
  assumes "resolve_recipients ids actor fs d = (Inr addresses, fs', d')"
  shows "\<forall>a \<in> set addresses. reachable_by_mail d ids actor a" and "distinct (map to_lower addresses)"
proof -
  let ?wanted = "wanted_recipients ids actor"
  obtain r fs1 d1 where run: "user_emails ?wanted fs d = (r, fs1, d1)" by (metis prod_cases3)
  show "\<forall>a \<in> set addresses. reachable_by_mail d ids actor a"
  proof
    fix a assume a: "a \<in> set addresses"
    then have "?wanted \<noteq> []" using assms by (auto simp: resolve_recipients_def Let_def)
    with assms run a obtain emails where e: "r = Inr emails"
        "addresses = unique_addresses [] (map (\<lambda>i. case map_of emails i of None \<Rightarrow> [] | Some e \<Rightarrow> trim_space e) ?wanted)"
      by (cases r) (auto simp: resolve_recipients_def Let_def tx_bind_Inr tx_try_Inr)
    from unique_addresses_from [OF a [unfolded e(2)]]
    obtain i where i: "i \<in> set ?wanted" "a = (case map_of emails i of None \<Rightarrow> [] | Some e \<Rightarrow> trim_space e)" "valid_address a"
      by auto
    have "a \<noteq> []" using i(3) by (auto simp: valid_address_def Let_def last_index_def)
    with i(2) obtain e where "(i, e) \<in> set emails" "a = trim_space e"
      by (auto split: option.splits dest: map_of_SomeD)
    with run e(1) obtain u where "u \<in> set (db_users d)" "us_id u = i" "us_active u" "a = trim_space (us_email u)"
      by (auto simp: user_emails_def query_Inr)
    with i show "reachable_by_mail d ids actor a"
      by (auto simp: reachable_by_mail_def wanted_recipients_def)
  qed
  show "distinct (map to_lower addresses)"
    using assms unique_addresses_distinct
    by (cases r) (auto simp: resolve_recipients_def Let_def tx_bind_Inr tx_try_Inr run split: if_splits)
qed

text \<open>A notification goes out only to valid addresses of active accounts among the recipients other than the one who
  acted, and to no address twice, whatever the case of its letters.\<close>

theorem notification_recipients:
  assumes "notify decrypt n actor ids fs d = (Inr jobs, fs', d')"
  shows "(\<forall>j \<in> set jobs. reachable_by_mail d ids actor (mm_to (mj_message j)))
     \<and> distinct (map (\<lambda>j. to_lower (mm_to (mj_message j))) jobs)"
proof -
  obtain r fs1 d1 where c: "service_config decrypt fs d = (r, fs1, d1)" by (metis prod_cases3)
  have d1: "d1 = d" by (rule service_config_reads [OF c])
  show ?thesis
  proof (cases "jobs = []")
    case False
    with assms c d1 obtain cfg addresses vs fs2 d2 fs3 d3 where
      a: "resolve_recipients ids actor fs1 d = (Inr addresses, fs2, d2)"
      and v: "record_all (map (queued_delivery n actor) addresses) fs2 d2 = (Inr vs, fs3, d3)"
      and jobs: "jobs = map (\<lambda>v. \<lparr>mj_delivery = v, mj_config = cfg,
               mj_message = \<lparr>mm_to = de_recipient v, mm_subject = nt_subject n, mm_body = render_mail cfg n\<rparr>\<rparr>) vs"
      by (cases r) (fastforce simp: notify_def tx_bind_Inr tx_try_Inr split: if_splits)+
    from jobs have j: "map (mm_to \<circ> mj_message) jobs = map de_recipient vs" by (simp add: o_def)
    have "map de_recipient vs = addresses"
      using record_all_Inr [OF v] by (simp add: queued_delivery_def o_def)
    with j have same: "map (mm_to \<circ> mj_message) jobs = addresses" by simp
    have "mm_to (mj_message x) \<in> set addresses" if "x \<in> set jobs" for x
      using that same by (metis comp_apply image_eqI list.set_map)
    then have "\<forall>x \<in> set jobs. reachable_by_mail d ids actor (mm_to (mj_message x))"
      using resolve_recipients_Inr(1) [OF a] by blast
    moreover have "map (\<lambda>j. to_lower (mm_to (mj_message j))) jobs = map to_lower addresses"
      by (simp add: o_def flip: same)
    ultimately show ?thesis using resolve_recipients_Inr(2) [OF a] by simp
  qed simp
qed

section \<open>The end of a delivery\<close>

lemma attempt_delivery_two:
  "attempt_delivery delivery_attempts answers 1 =
     (if answers 1 = Inr () then (1, Inr ()) else (2, answers 2))"
proof -
  have "attempt_delivery (Suc (Suc 0)) answers (Suc 0) =
     (if answers (Suc 0) = Inr () then (Suc 0, Inr ()) else (Suc (Suc 0), answers (Suc (Suc 0))))"
    by (auto split: sum.split unit.split)
  then show ?thesis by (simp add: delivery_attempts_def numeral_2_eq_2)
qed

definition last_cause :: "(mail_error \<Rightarrow> string) \<Rightarrow> (mail_error, unit) res \<Rightarrow> string" where
  "last_cause error_text cause = (case cause of Inl e \<Rightarrow> error_text e | Inr _ \<Rightarrow> [])"

lemma finish_mail_delivery_run:
  "status = status_sent \<or> status = status_failed \<Longrightarrow>
    finish_mail_delivery i status n message [] d = (Inr (), [], finish_row i status n message d)"
  by (auto simp: finish_mail_delivery_def exec_def statement_def)

lemma complete_delivery_run:
  "de_id v \<noteq> 0 \<Longrightarrow> complete_delivery error_text v n cause [] d =
    (Inr (), [], finish_row (de_id v) (if is_ok cause then status_sent else status_failed) (int n)
       (last_cause error_text cause) d)"
  by (cases cause) (simp_all add: complete_delivery_def ignore_error_def finish_mail_delivery_run last_cause_def
      split: unit.split)

text \<open>A recorded delivery ends, and for good: it is sent when one of the two attempts succeeds, failed otherwise, and
  its row tells the number of attempts.\<close>

theorem delivery_ends:
  assumes "de_id (mj_delivery j) = ml_id m" and "ml_id m \<noteq> 0" and "m \<in> set (db_mail d)" and "0 \<le> ml_attempts m"
  shows "\<exists>d' row. deliver_job error_text answers j [] d = (Inr (), [], d') \<and> row \<in> set (db_mail d')
     \<and> ml_id row = ml_id m
     \<and> ml_status row = (if answers 1 = Inr () \<or> answers 2 = Inr () then status_sent else status_failed)
     \<and> ml_attempts row = max (ml_attempts m) (if answers 1 = Inr () then 1 else 2)"
proof -
  let ?n = "if answers 1 = Inr () then 1 else 2 :: int"
  let ?s = "if answers 1 = Inr () \<or> answers 2 = Inr () then status_sent else status_failed"
  have two: "deliver_job error_text answers j = complete_delivery error_text (mj_delivery j)
      (if answers 1 = Inr () then 1 else 2) (if answers 1 = Inr () then Inr () else answers 2)"
    by (rule ext) (simp add: deliver_job_def attempt_delivery_two del: One_nat_def)
  let ?message = "last_cause error_text (if answers 1 = Inr () then Inr () else answers 2)"
  have "is_ok (if answers 1 = Inr () then Inr () else answers 2) = (answers 1 = Inr () \<or> answers 2 = Inr ())"
    by (cases "answers 2") auto
  then have run: "deliver_job error_text answers j [] d = (Inr (), [], finish_row (ml_id m) ?s ?n ?message d)"
    using assms(1,2) by (simp add: two complete_delivery_run del: One_nat_def)
  let ?row = "m\<lparr>ml_status := ?s, ml_attempts := max (ml_attempts m) ?n,
    ml_error := truncate_text ?message 1000, ml_updated_at := db_now d\<rparr>"
  have "?row \<in> set (db_mail (finish_row (ml_id m) ?s ?n ?message d))"
    using assms(3) by (auto simp: finish_row_def intro!: image_eqI [of _ _ m])
  then show ?thesis using run by (intro exI [of _ "finish_row (ml_id m) ?s ?n ?message d"] exI [of _ ?row]) simp
qed

section \<open>Expiring keys\<close>

definition told_keys :: "(int \<times> expiring_key list) list \<Rightarrow> int set" where
  "told_keys groups = xk_id ` (\<Union>g \<in> set groups. set (snd g))"

lemma told_keys_rows: "told_keys (group_by_owner ks) = ke_id ` set ks"
  by (force simp: told_keys_def group_by_owner_def expiring_of_row_def)

text \<open>A key is told of once: whatever the clock and the keys created since, a later call never names a key that an
  earlier one named.\<close>

theorem expiry_told_once:
  assumes "expiring_api_keys limit fs d = (Inr groups, fs', d')"
    and "distinct (map ke_id (db_keys d))"
    and "\<forall>k \<in> set new. ke_id k \<notin> ke_id ` set (db_keys d)"
    and "expiring_api_keys limit2 fs2 (d'\<lparr>db_keys := db_keys d' @ new, db_now := now\<rparr>) = (Inr groups2, fs3, d3)"
  shows "told_keys groups \<inter> told_keys groups2 = {}"
proof -
  let ?d2 = "d'\<lparr>db_keys := db_keys d' @ new, db_now := now\<rparr>"
  from assms(1) have g: "groups = group_by_owner (filter (expiring_row limit d) (db_keys d))" and d': "d' = mark_expiring limit d"
    by (auto simp: expiring_api_keys_def statement_Inr)
  from assms(4) have g2: "groups2 = group_by_owner (filter (expiring_row limit2 ?d2) (db_keys ?d2))"
    by (auto simp: expiring_api_keys_def statement_Inr)
  have "False" if a: "x \<in> set (db_keys d)" "expiring_row limit d x" and b: "y \<in> set (db_keys ?d2)"
      "expiring_row limit2 ?d2 y" and same: "ke_id x = ke_id y" for x y
  proof (cases "y \<in> set new")
    case True
    with assms(3) a(1) same show False by (metis image_eqI)
  next
    case False
    with b(1) d' obtain z where z: "z \<in> set (db_keys d)"
        "y = (if expiring_row limit d z then z\<lparr>ke_expiry_notified_at := Some (db_now d)\<rparr> else z)"
      by (auto simp: mark_expiring_def)
    then have "ke_id z = ke_id x" using same by (simp split: if_splits)
    with z(1) a(1) assms(2) have "z = x" by (metis distinct_map inj_onD)
    with z(2) a(2) b(2) show False by (simp add: expiring_row_def)
  qed
  then show ?thesis unfolding g g2 told_keys_rows by auto
qed

section \<open>Concrete inputs\<close>

definition mail_demo :: store_db where
  "mail_demo = (fresh_store 0)\<lparr>
     db_users := [\<lparr>us_id = 1, us_username = ''ada'', us_display_name = [], us_email = '' ada@x.io'', us_department = [],
       us_password_hash = None, us_auth_source = ''local'', us_external_subject = None, us_active = True,
       us_last_login_at = None, us_created_at = 0, us_updated_at = 0\<rparr>],
     db_keys := [\<lparr>ke_id = 7, ke_user_id = 1, ke_name = ''ci'', ke_prefix = ''p'', ke_secret_hash = [],
       ke_scopes = PermArray [], ke_status = ''active'', ke_rotated_from = None, ke_last_used_at = None,
       ke_expires_at = Some 5, ke_created_at = 0, ke_revoked_at = None, ke_expiry_notified_at = None\<rparr>],
     db_settings := [\<lparr>st_key = mail_key,
       st_value = JObj [(''enabled'', JBool True), (''smtp_host'', JStr ''relay''), (''from_address'', JStr ''j@x.io'')],
       st_updated_by = None, st_updated_at = 0\<rparr>]\<rparr>"

definition mail_demo_two :: store_db where
  "mail_demo_two = mail_demo\<lparr>db_users := db_users mail_demo @ map (\<lambda>u. u\<lparr>us_id := 9\<rparr>) (db_users mail_demo)\<rparr>"

definition demo_note :: notification where
  "demo_note = \<lparr>nt_event = event_test, nt_subject = [], nt_lines = [], nt_path = [], nt_reference = []\<rparr>"

lemma demo_steps:
  shows "case service_config (\<lambda>_ s. Some s) [] mail_demo_two of (Inr c, fs, d) \<Rightarrow>
      mc_enabled c \<and> mail_allows c event_test \<and> is_ok (validate_mail c) \<and> fs = [] | _ \<Rightarrow> False"
    and "case resolve_recipients [1, 9] 9 [] mail_demo_two of (Inr as, fs, d) \<Rightarrow>
      as = [''ada@x.io''] \<and> is_ok (fst (record_all (map (queued_delivery demo_note 9) as) fs d)) | _ \<Rightarrow> False"
  by code_simp+

theorem notification_recipients_witness:
  "\<exists>job fs d. notify (\<lambda>_ s. Some s) demo_note 9 [1, 9] [] mail_demo_two = (Inr [job], fs, d)
     \<and> mm_to (mj_message job) = ''ada@x.io'' \<and> reachable_by_mail mail_demo_two [1, 9] 9 ''ada@x.io''"
proof -
  obtain c fs d where c: "service_config (\<lambda>_ s. Some s) [] mail_demo_two = (Inr c, [], d)"
    and ok: "mc_enabled c" "mail_allows c event_test" "is_ok (validate_mail c)"
    by (rule run_cases [OF demo_steps(1)]) auto
  have d: "d = mail_demo_two" by (rule service_config_reads [OF c])
  obtain fs1 d1 where a: "resolve_recipients [1, 9] 9 [] mail_demo_two = (Inr [''ada@x.io''], fs1, d1)"
    and "is_ok (fst (record_all (map (queued_delivery demo_note 9) [''ada@x.io'']) fs1 d1))"
    by (rule run_cases [OF demo_steps(2)]) auto
  then obtain vs fs2 d2 where v: "record_all (map (queued_delivery demo_note 9) [''ada@x.io'']) fs1 d1 = (Inr vs, fs2, d2)"
    by (metis is_ok_iff prod.collapse)
  obtain v' where vs: "vs = [v']" and to: "de_recipient v' = ''ada@x.io''"
    using record_all_Inr [OF v] by (cases vs) (auto simp: queued_delivery_def)
  obtain job where run: "notify (\<lambda>_ s. Some s) demo_note 9 [1, 9] [] mail_demo_two = (Inr [job], fs2, d2)"
    and job: "mm_to (mj_message job) = ''ada@x.io''"
    using ok c v to vs a by (auto simp: notify_def tx_bind_def tx_try_def tx_return_def d demo_note_def)
  from notification_recipients [OF run] job run show ?thesis by auto
qed

definition mail_demo_row :: mail_row where
  "mail_demo_row = \<lparr>ml_id = 3, ml_event = event_test, ml_recipient = ''a@b'', ml_subject = [], ml_reference = [],
     ml_actor_user_id = None, ml_status = status_queued, ml_attempts = 0, ml_error = [], ml_created_at = 0, ml_updated_at = 0\<rparr>"

definition mail_demo_job :: mail_job where
  "mail_demo_job = \<lparr>mj_delivery = (queued_delivery demo_note 1 ''a@b'')\<lparr>de_id := 3\<rparr>, mj_config = default_mail,
     mj_message = \<lparr>mm_to = ''a@b'', mm_subject = [], mm_body = []\<rparr>\<rparr>"

theorem delivery_ends_witness:
  "\<exists>d' row. deliver_job (\<lambda>_. ''down'') (\<lambda>_. Inl ConnectFailed) mail_demo_job [] (mail_demo\<lparr>db_mail := [mail_demo_row]\<rparr>)
       = (Inr (), [], d') \<and> row \<in> set (db_mail d') \<and> ml_status row = status_failed \<and> ml_attempts row = 2"
  using delivery_ends [of mail_demo_job mail_demo_row "mail_demo\<lparr>db_mail := [mail_demo_row]\<rparr>" "\<lambda>_. ''down''" "\<lambda>_. Inl ConnectFailed"]
  by (auto simp: mail_demo_job_def mail_demo_row_def)

theorem expiry_told_once_witness:
  "case expiring_api_keys 10 [] mail_demo of
     (Inr groups, _, d) \<Rightarrow> told_keys groups = {7}
       \<and> (case expiring_api_keys 10 [] (d\<lparr>db_now := 1\<rparr>) of (Inr groups2, _, _) \<Rightarrow> 7 \<notin> told_keys groups2 | _ \<Rightarrow> False)
   | _ \<Rightarrow> False"
proof -
  have all: "case expiring_api_keys 10 [] mail_demo of
     (Inr groups, fs, d) \<Rightarrow> map (\<lambda>g. map xk_id (snd g)) groups = [[7]]
       \<and> (case expiring_api_keys 10 [] (d\<lparr>db_now := 1\<rparr>) of (Inr groups2, _, _) \<Rightarrow> True | _ \<Rightarrow> False)
   | _ \<Rightarrow> False" by code_simp
  obtain groups fs d where run: "expiring_api_keys 10 [] mail_demo = (Inr groups, fs, d)"
    and told: "map (\<lambda>g. map xk_id (snd g)) groups = [[7]]"
    and again: "case expiring_api_keys 10 [] (d\<lparr>db_now := 1\<rparr>) of (Inr groups2, fs, e) \<Rightarrow> True | _ \<Rightarrow> False"
    by (rule run_cases [OF all]) auto
  obtain groups2 fs2 d2 where run2: "expiring_api_keys 10 [] (d\<lparr>db_now := 1\<rparr>) = (Inr groups2, fs2, d2)"
    by (rule run_cases [OF again])
  have "told_keys groups = {7}" using told by (auto simp: told_keys_def)
  moreover have "told_keys groups \<inter> told_keys groups2 = {}"
    by (rule expiry_told_once [OF run, of "[]" 10 "[]" 1]) (use run2 in \<open>simp_all add: mail_demo_def\<close>)
  ultimately show ?thesis by (auto simp: run run2)
qed

end
