(* ===== verification/Spec2Isabelle.thy ===== *)
theory Spec2Isabelle
  imports Dashboard Usage_Report Ai_Chat Search Mcp Secure Collector_Properties Integration_Api Hub_Api Account_Api Rbac_Properties Rate_Limits Store_Queries Http_Request Key_Lifecycle Outbound_Http
    Hub_Grants Hub_Lists Hub_Sync_Properties
    Csp_Reports Settings_Form Auth_Properties Oidc Mail_Service_Properties Approval_Properties
begin

text \<open>
  The control plane of jupiq as a model in higher-order logic. jupiq is a Go service over one PostgreSQL database: it keeps an
  inventory of JupyterHub installations, their users and servers, lets administrators and approvers act on them, collects
  metrics from Prometheus and Kubernetes, and shows what it knows through a REST interface, a tool protocol for agents, and
  event streams. The model follows the source under \<^verbatim>\<open>src/\<close>, function by function; names in typewriter type are files
  and functions there.

  \<^bold>\<open>How the program is put together\<close>

  A request enters through the middleware of \<^verbatim>\<open>internal/api\<close>, is authenticated by \<^verbatim>\<open>internal/auth\<close> (session token or API key),
  is checked for a permission and a scope, and is handled by functions that call \<^verbatim>\<open>internal/store\<close>. Every state of the program is
  rows of the database, but for the limiters, the cache of OIDC providers, the cached live snapshot, the timers of the collector and the
  recorder of policy violations, which live in memory. \<^verbatim>\<open>internal/collector\<close> writes what \<^verbatim>\<open>internal/integration\<close> reads from hubs and metric
  sources; \<^verbatim>\<open>internal/mail\<close> tells people about what happened.

  \<^bold>\<open>How the model is built\<close>

  \<^item> The database is a record of tables (\<^verbatim>\<open>store_db\<close> in \<^verbatim>\<open>Store_State\<close>, \<^verbatim>\<open>metric_db\<close> in \<^verbatim>\<open>Metrics\<close>,
    \<^verbatim>\<open>ai_db\<close> in \<^verbatim>\<open>Ai_Chat\<close>), a table a list of row records with the columns the code uses. Keys, uniqueness, CHECK constraints and
    cascades of \<^verbatim>\<open>migrations/\<close> are part of the statements.
  \<^item> A database call is a function from the list of statement faults still to come and the tables to a result, the faults left, and the
    tables (\<^verbatim>\<open>Db_Tx\<close>): every statement may fail, a failed transaction leaves the tables as they were, and an early return is an
    \<^verbatim>\<open>Inl\<close>. Interleaving of requests is a sequence of whole calls; inside a transaction the row locks and advisory locks of
    the code exclude the other writers, which is why a transaction is one step.
  \<^item> HTTP replies are values: \<^verbatim>\<open>Inl (status, code)\<close> or the answer. Texts for people are left out, texts for machines (permissions, scopes,
    SQL, headers, markup) are kept byte by byte. A Go string is a list of bytes (\<^verbatim>\<open>Go_Strings\<close>), \<^verbatim>\<open>int64\<close> and durations that can
    overflow are integers with the wrap-around written out (\<^verbatim>\<open>wrap64\<close>), float64 values are exact rationals, with the infinities and
    NaN kept where the code asks for them.
  \<^item> Lower-casing, folding and trimming work on the ASCII part of Go's Unicode tables. Theorems that rest on more than that ask for
    ASCII texts (\<^verbatim>\<open>ascii\<close>); what differs outside ASCII is among the findings.
  \<^item> What leaves the program is part of the state where a theorem is about it: \<^verbatim>\<open>db_hub_calls\<close> is the history of the requests sent to hubs for
    server actions. It is no table of the program, and nothing but \<^verbatim>\<open>execute_server_action\<close> writes it.
  \<^item> Long running parts are step relations with reachable states (\<^verbatim>\<open>Transitions\<close>): the role tables, API keys, sessions, the provider cache,
    the approvals, the grants on hubs, the settings, and the probes of the collector. Their invariants are proved once, in the locale
    \<^verbatim>\<open>invariant_system\<close>, and interpreted on the model.

  \<^bold>\<open>Foundations\<close>

  \<^item> \<^verbatim>\<open>Prelude\<close>, \<^verbatim>\<open>Go_Strings\<close>, \<^verbatim>\<open>Json\<close>, \<^verbatim>\<open>Models\<close>: results, guards, early returns; the string functions of Go, with its percent encoding;
    decoded JSON documents and their typed reads; the records of \<^verbatim>\<open>internal/store/models.go\<close>.
  \<^item> \<^verbatim>\<open>Db_Tx\<close>, \<^verbatim>\<open>Tx_Results\<close>, \<^verbatim>\<open>Store_State\<close>, \<^verbatim>\<open>Transitions\<close>: statements, transactions, rollback, dropped errors; preservation of an
    invariant (\<^verbatim>\<open>keeps\<close>) and of a postcondition (\<^verbatim>\<open>delivers\<close>) by structure, which carries most proofs on handlers; the tables;
    reachability.

  \<^bold>\<open>Who may do what\<close>

  \<^item> \<^verbatim>\<open>Permissions\<close>, \<^verbatim>\<open>Role_Bindings\<close>, \<^verbatim>\<open>Scoped_Access\<close>: coverage of permissions, the grant ceiling, scope groups, and the SQL predicate of
    list queries (\<^verbatim>\<open>internal/auth/auth.go\<close>, \<^verbatim>\<open>internal/store/access.go\<close>, parts of \<^verbatim>\<open>users.go\<close>). \<^verbatim>\<open>sql_value\<close> evaluates the text of the predicate the
    code builds, with its arguments, on a row: the row is selected exactly when the same principal may act on it
    (\<^verbatim>\<open>list_and_target_agree\<close>); a key allows what its owner may do and its scopes cover, no more and no less.
  \<^item> \<^verbatim>\<open>Rbac_Store\<close>, \<^verbatim>\<open>Rbac_Safety\<close>, \<^verbatim>\<open>Rbac_Invariant\<close>, \<^verbatim>\<open>Rbac_Properties\<close>, \<^verbatim>\<open>Accounts\<close>, \<^verbatim>\<open>Account_Api\<close>: the role and account mutations, statement
    by statement, and their handlers. A super administrator is always left, nobody hands out more than they hold, a failed mutation has
    changed nothing.
  \<^item> \<^verbatim>\<open>Auth\<close>, \<^verbatim>\<open>Auth_Properties\<close>, \<^verbatim>\<open>Oidc\<close>, \<^verbatim>\<open>Return_Path\<close>, \<^verbatim>\<open>Provider_Cache\<close>, \<^verbatim>\<open>Api_Keys\<close>, \<^verbatim>\<open>Key_Lifecycle\<close>, \<^verbatim>\<open>Rate_Limits\<close>: sign-in, sessions, single sign-on with its sealed
    state and its cache of providers, keys with rotation and policy, limiters. Round trips (a token authenticates, a deep link survives),
    revocation that lasts whatever statement writes the table of keys (\<^verbatim>\<open>Key_Lifecycle\<close>), and an answer for every waiting caller in every run in
    which each goroutine goes on some time (\<^verbatim>\<open>fair_run\<close>).
  \<^item> \<^verbatim>\<open>Http_Request\<close>: what every handler shares, with origin check, security headers and paging.

  \<^bold>\<open>Hubs, servers and approvals\<close>

  \<^item> \<^verbatim>\<open>Hubs\<close>, \<^verbatim>\<open>Hub_Sync\<close>, \<^verbatim>\<open>Hub_Lists\<close>, \<^verbatim>\<open>Hub_Api\<close> and their property theories: hubs and their credentials, the inventory of a snapshot with the
    sessions of servers, lists, and handlers (\<^verbatim>\<open>internal/store/hubs.go\<close>, \<^verbatim>\<open>internal/api/resource_handlers.go\<close>). A snapshot is reflected, a
    stored token stays with its address, a grant never names a hub that is gone. A health result belongs to the target that was probed unless
    two credential texts have the same digest, which the theorem states as that exception.
  \<^item> \<^verbatim>\<open>Jupyter_Client\<close>: addresses, start, stop, restart. The wait for a stop polls until a deadline; a restart ends after
    the poll the deadline falls into, whatever the hub answers (\<^verbatim>\<open>server_action_returns\<close>), so its fuel is that number of polls.
  \<^item> \<^verbatim>\<open>Resources\<close>, \<^verbatim>\<open>Approvals\<close>, \<^verbatim>\<open>Approval_Spec\<close>, \<^verbatim>\<open>Approval_Properties\<close>: resources, the workflow, reviews and decisions, and their execution.
    \<^verbatim>\<open>Approval_Spec\<close> is the abstract book of approvals with its phases; every handler refines a sequence of its moves, an approval is claimed
    once, requester, reviewer and approver differ, and nothing is sent to a hub before the approval.

  \<^bold>\<open>Settings and connections\<close>

  \<^item> \<^verbatim>\<open>Settings\<close>, \<^verbatim>\<open>Settings_Api\<close>, \<^verbatim>\<open>Settings_Form\<close>, \<^verbatim>\<open>Settings_Properties\<close>: documents, secrets bound to the target they were entered for,
    generations, the form with its validation. No credential is stored in a document, none moves to another target.
  \<^item> \<^verbatim>\<open>Outbound_Http\<close>, \<^verbatim>\<open>Integration_Test\<close>, \<^verbatim>\<open>Integration_Api\<close>: checks of addresses, dialer, redirects, retries, and the connection test.
  \<^item> \<^verbatim>\<open>Analytics\<close>, \<^verbatim>\<open>Csp_Reports\<close>: the visitor snippet, its nonce and policy, the recorder of violations, the proxy.
  \<^item> \<^verbatim>\<open>Mail\<close>, \<^verbatim>\<open>Mail_Service\<close>, \<^verbatim>\<open>Mail_Service_Properties\<close>: configuration, the SMTP session, messages, deliveries.

  \<^bold>\<open>Metrics\<close>

  \<^item> \<^verbatim>\<open>Remote_Metrics\<close>: what is read from Kubernetes and Prometheus. Pod lists are read page by page, ten pages at most, which is the
    fuel of \<^verbatim>\<open>pod_pages\<close>.
  \<^item> \<^verbatim>\<open>Metrics\<close>, \<^verbatim>\<open>Pod_Updates\<close>, \<^verbatim>\<open>Metric_Reads\<close>: samples and the attribution of language model use (a row sums up samples of its own pod, user
    and minute), pods and servers (\<^verbatim>\<open>pod_belongs_to\<close> states which pods a server may get, apart from the code's check), reads and
    pruning. \<^verbatim>\<open>Usage_Rollup\<close>: the hourly rollup with its spans, and the reads of consumption.
  \<^item> \<^verbatim>\<open>Collector\<close>, \<^verbatim>\<open>Collector_Properties\<close>: timers, cycles, probes and their slots, pruning. The ticker is the sequence of cycles; waiting for the
    probes at shutdown is the end of every probe.
  \<^item> \<^verbatim>\<open>Llm_Views\<close>, \<^verbatim>\<open>Usage_Report\<close>, \<^verbatim>\<open>Live_View\<close>, \<^verbatim>\<open>Dashboard\<close>, \<^verbatim>\<open>Event_Stream\<close>: the reports, the live snapshot, its four second cache with
    the redaction of what is switched off, and the event streams. The locale \<^verbatim>\<open>event_sender\<close> is the contract of a send; a
    stream is a number of sends, after which its client has gone.

  \<^bold>\<open>Interfaces for people and agents\<close>

  \<^item> \<^verbatim>\<open>Store_Queries\<close>, \<^verbatim>\<open>Search\<close>: paging, sorting, LIKE patterns, and the search over everything the caller may read.
  \<^item> \<^verbatim>\<open>Mcp\<close>: JSON-RPC with four tools that read. \<^verbatim>\<open>Ai_Chat\<close>: the relay to a language model. Its loop has as many rounds as
    bytes may pass, which is enough for a reader that makes progress (\<^verbatim>\<open>relay_bounded\<close>).

  \<^bold>\<open>Secrets at rest and configuration\<close>

  \<^item> \<^verbatim>\<open>Secure\<close>: base64 of secrets and tokens, sealing and opening with the cipher as a parameter, and the environment of the process
    with its encryption key (\<^verbatim>\<open>internal/secure/cipher.go\<close>, \<^verbatim>\<open>internal/config/config.go\<close>).

  \<^bold>\<open>Parameters\<close>

  What the program takes from elsewhere is an argument of the definitions: AES-GCM, HMAC and SHA-256, bcrypt, signing and
  checking of tokens, the random source; \<^verbatim>\<open>url.Parse\<close>, \<^verbatim>\<open>net.ParseIP\<close> and name resolution; \<^verbatim>\<open>regexp.Compile\<close>; \<^verbatim>\<open>time.Parse\<close> and
  formats of times; answers of hubs, of providers, of Prometheus, Kubernetes and mail relays; readings of the clock; the
  permutation an ORDER BY clause makes (only used as a permutation or a subset), collations, \<^verbatim>\<open>date_trunc\<close> and series of buckets;
  the text of a JSON document and of \<^verbatim>\<open>fmt\<close>. Where a theorem needs a law of one of them (a hash without collisions
  on the texts at hand, opening undoes sealing) it is a named hypothesis with an instance in the witness.

  \<^bold>\<open>Not modelled\<close>

  \<^item> The detail page of a user (\<^verbatim>\<open>internal/store/user_detail.go\<close>), which only reads: a page of joins over tables whose
    writers are modelled.
  \<^item> \<^verbatim>\<open>cmd/jupiq/main.go\<close>, opening and migrating the database, registration of routes, graceful shutdown.
  \<^item> Serving the embedded web application, the web application itself, and the text of log lines.
  \<^item> Concurrency inside a transaction: isolation is PostgreSQL's.
\<close>

end
